(* ===== verification/Crypto_Prelude.thy ===== *)
theory Crypto_Prelude
  imports Main "HOL-Library.Word"
begin

text \<open>
  What every component of the crypto-core model shares: the machine types, the error values of
  include/crypto_core/error.hpp and include/crypto_core/result.hpp, big-endian byte strings, and
  the lemmas on words, bytes and lists that the component theories use.
\<close>

unbundle bit_operations_syntax

section \<open>Machine types\<close>

type_synonym u8 = "8 word"
type_synonym u16 = "16 word"
type_synonym u32 = "32 word"
type_synonym u64 = "64 word"

text \<open>A span, a vector, a ByteBuffer or a SecureBuffer is the list of its bytes.\<close>

type_synonym bytes = "u8 list"

named_theorems word_masks \<open>masking with an all-ones literal is truncation\<close>
named_theorems result_simps \<open>evaluation of error-returning code\<close>

section \<open>Errors and results\<close>

datatype error_code =
    Code_ok
  | Invalid_argument
  | Unsupported_algorithm
  | Invalid_key
  | Authentication_failed
  | Provider_error
  | Internal_error

record crypto_error =
  err_code :: error_code
  err_category :: string
  err_message :: string

definition make_error :: "error_code \<Rightarrow> string \<Rightarrow> string \<Rightarrow> crypto_error" where
  "make_error c cat msg = \<lparr>err_code = c, err_category = cat, err_message = msg\<rparr>"

fun error_code_name :: "error_code \<Rightarrow> string" where
  "error_code_name Code_ok = ''ok''"
| "error_code_name Invalid_argument = ''invalid_argument''"
| "error_code_name Unsupported_algorithm = ''unsupported_algorithm''"
| "error_code_name Invalid_key = ''invalid_key''"
| "error_code_name Authentication_failed = ''authentication_failed''"
| "error_code_name Provider_error = ''provider_error''"
| "error_code_name Internal_error = ''internal_error''"

text \<open>
  Result<T>: a value (success) or an error (failure). Every early return of the shape
  "if (!x) return failure(x.error())" is one \<open>rbind\<close>.
\<close>

type_synonym 'a result = "crypto_error + 'a"

definition rbind :: "'a result \<Rightarrow> ('a \<Rightarrow> 'b result) \<Rightarrow> 'b result" where
  "rbind r f = (case r of Inl e \<Rightarrow> Inl e | Inr x \<Rightarrow> f x)"

definition has_value :: "'a result \<Rightarrow> bool" where
  "has_value r = (case r of Inl e \<Rightarrow> False | Inr x \<Rightarrow> True)"

lemma rbind_simps [simp, result_simps]:
  "rbind (Inl e) f = Inl e"
  "rbind (Inr x) f = f x"
  by (simp_all add: rbind_def)

lemma has_value_simps [simp, result_simps]:
  "has_value (Inl e) = False"
  "has_value (Inr x) = True"
  by (simp_all add: has_value_def)

lemma rbind_eq_Inr: "rbind r f = Inr y \<longleftrightarrow> (\<exists>x. r = Inr x \<and> f x = Inr y)"
  by (cases r) auto

lemma rbind_eq_Inl: "rbind r f = Inl e \<longleftrightarrow> r = Inl e \<or> (\<exists>x. r = Inr x \<and> f x = Inl e)"
  by (cases r) auto

lemma rbind_assoc: "rbind (rbind r f) g = rbind r (\<lambda>x. rbind (f x) g)"
  by (cases r) auto

lemma has_value_iff: "has_value r \<longleftrightarrow> (\<exists>x. r = Inr x)"
  by (cases r) auto

text \<open>A loop that threads its state through a fallible step and returns at the first failure.\<close>

fun rfold :: "('s \<Rightarrow> 'a \<Rightarrow> 's result) \<Rightarrow> 's \<Rightarrow> 'a list \<Rightarrow> 's result" where
  "rfold step s [] = Inr s"
| "rfold step s (x # xs) = rbind (step s x) (\<lambda>s. rfold step s xs)"

lemma rfold_append: "rfold step s (xs @ ys) = rbind (rfold step s xs) (\<lambda>s. rfold step s ys)"
  by (induction xs arbitrary: s) (simp_all add: rbind_assoc)

lemma rfold_nested: "rfold (\<lambda>s y. rfold step s (f y)) s ys = rfold step s (concat (map f ys))"
  by (induction ys arbitrary: s) (simp_all add: rfold_append)

text \<open>The loop follows a pure fold on related states, under an invariant of the pure one.\<close>

lemma rfold_refines:
  assumes "\<And>a x. x \<in> set xs \<Longrightarrow> I a \<Longrightarrow> step (R a) x = Inr (R (g a x)) \<and> I (g a x)" "I a"
  shows "rfold step (R a) xs = Inr (R (foldl g a xs)) \<and> I (foldl g a xs)"
  using assms by (induction xs arbitrary: a) auto

lemma make_error_sel [simp]:
  "err_code (make_error c cat msg) = c"
  "err_category (make_error c cat msg) = cat"
  "err_message (make_error c cat msg) = msg"
  by (simp_all add: make_error_def)

section \<open>Words, bit by bit\<close>

text \<open>Words of a fixed width are equal when all their bits are.\<close>

lemma less_8_cases: "(\<forall>n<8. P n) \<longleftrightarrow>
    P 7 \<and> P 6 \<and> P 5 \<and> P 4 \<and> P 3 \<and> P 2 \<and> P 1 \<and> P (0::nat)"
  by (simp add: numeral_eq_Suc All_less_Suc)

lemma u8_eqI:
  fixes x y :: u8
  assumes "bit x 0 = bit y 0" "bit x 1 = bit y 1" "bit x 2 = bit y 2" "bit x 3 = bit y 3"
    "bit x 4 = bit y 4" "bit x 5 = bit y 5" "bit x 6 = bit y 6" "bit x 7 = bit y 7"
  shows "x = y"
proof -
  have "\<forall>n<8. bit x n = bit y n"
    using assms by (simp only: less_8_cases)
  then show ?thesis by (auto intro: bit_word_eqI)
qed

lemma less_32_cases: "(\<forall>n<32. P n) \<longleftrightarrow>
    P 31 \<and> P 30 \<and> P 29 \<and> P 28 \<and> P 27 \<and> P 26 \<and> P 25 \<and>
    P 24 \<and> P 23 \<and> P 22 \<and> P 21 \<and> P 20 \<and> P 19 \<and> P 18 \<and>
    P 17 \<and> P 16 \<and> P 15 \<and> P 14 \<and> P 13 \<and> P 12 \<and> P 11 \<and>
    P 10 \<and> P 9 \<and> P 8 \<and> P 7 \<and> P 6 \<and> P 5 \<and> P 4 \<and> P 3 \<and>
    P 2 \<and> P 1 \<and> P (0::nat)"
  by (simp add: numeral_eq_Suc All_less_Suc)

lemma u32_eqI:
  fixes x y :: u32
  assumes "bit x 0 = bit y 0" "bit x 1 = bit y 1" "bit x 2 = bit y 2" "bit x 3 = bit y 3"
    "bit x 4 = bit y 4" "bit x 5 = bit y 5" "bit x 6 = bit y 6" "bit x 7 = bit y 7"
    "bit x 8 = bit y 8" "bit x 9 = bit y 9" "bit x 10 = bit y 10" "bit x 11 = bit y 11"
    "bit x 12 = bit y 12" "bit x 13 = bit y 13" "bit x 14 = bit y 14" "bit x 15 = bit y 15"
    "bit x 16 = bit y 16" "bit x 17 = bit y 17" "bit x 18 = bit y 18" "bit x 19 = bit y 19"
    "bit x 20 = bit y 20" "bit x 21 = bit y 21" "bit x 22 = bit y 22" "bit x 23 = bit y 23"
    "bit x 24 = bit y 24" "bit x 25 = bit y 25" "bit x 26 = bit y 26" "bit x 27 = bit y 27"
    "bit x 28 = bit y 28" "bit x 29 = bit y 29" "bit x 30 = bit y 30" "bit x 31 = bit y 31"
  shows "x = y"
proof -
  have "\<forall>n<32. bit x n = bit y n"
    using assms by (simp only: less_32_cases)
  then show ?thesis by (auto intro: bit_word_eqI)
qed

lemma less_64_cases: "(\<forall>n<64. P n) \<longleftrightarrow>
    P 63 \<and> P 62 \<and> P 61 \<and> P 60 \<and> P 59 \<and> P 58 \<and> P 57 \<and>
    P 56 \<and> P 55 \<and> P 54 \<and> P 53 \<and> P 52 \<and> P 51 \<and> P 50 \<and>
    P 49 \<and> P 48 \<and> P 47 \<and> P 46 \<and> P 45 \<and> P 44 \<and> P 43 \<and>
    P 42 \<and> P 41 \<and> P 40 \<and> P 39 \<and> P 38 \<and> P 37 \<and> P 36 \<and>
    P 35 \<and> P 34 \<and> P 33 \<and> P 32 \<and> P 31 \<and> P 30 \<and> P 29 \<and>
    P 28 \<and> P 27 \<and> P 26 \<and> P 25 \<and> P 24 \<and> P 23 \<and> P 22 \<and>
    P 21 \<and> P 20 \<and> P 19 \<and> P 18 \<and> P 17 \<and> P 16 \<and> P 15 \<and>
    P 14 \<and> P 13 \<and> P 12 \<and> P 11 \<and> P 10 \<and> P 9 \<and> P 8 \<and> P 7 \<and>
    P 6 \<and> P 5 \<and> P 4 \<and> P 3 \<and> P 2 \<and> P 1 \<and> P (0::nat)"
  by (simp add: numeral_eq_Suc All_less_Suc)

lemma u64_eqI:
  fixes x y :: u64
  assumes "bit x 0 = bit y 0" "bit x 1 = bit y 1" "bit x 2 = bit y 2" "bit x 3 = bit y 3"
    "bit x 4 = bit y 4" "bit x 5 = bit y 5" "bit x 6 = bit y 6" "bit x 7 = bit y 7"
    "bit x 8 = bit y 8" "bit x 9 = bit y 9" "bit x 10 = bit y 10" "bit x 11 = bit y 11"
    "bit x 12 = bit y 12" "bit x 13 = bit y 13" "bit x 14 = bit y 14" "bit x 15 = bit y 15"
    "bit x 16 = bit y 16" "bit x 17 = bit y 17" "bit x 18 = bit y 18" "bit x 19 = bit y 19"
    "bit x 20 = bit y 20" "bit x 21 = bit y 21" "bit x 22 = bit y 22" "bit x 23 = bit y 23"
    "bit x 24 = bit y 24" "bit x 25 = bit y 25" "bit x 26 = bit y 26" "bit x 27 = bit y 27"
    "bit x 28 = bit y 28" "bit x 29 = bit y 29" "bit x 30 = bit y 30" "bit x 31 = bit y 31"
    "bit x 32 = bit y 32" "bit x 33 = bit y 33" "bit x 34 = bit y 34" "bit x 35 = bit y 35"
    "bit x 36 = bit y 36" "bit x 37 = bit y 37" "bit x 38 = bit y 38" "bit x 39 = bit y 39"
    "bit x 40 = bit y 40" "bit x 41 = bit y 41" "bit x 42 = bit y 42" "bit x 43 = bit y 43"
    "bit x 44 = bit y 44" "bit x 45 = bit y 45" "bit x 46 = bit y 46" "bit x 47 = bit y 47"
    "bit x 48 = bit y 48" "bit x 49 = bit y 49" "bit x 50 = bit y 50" "bit x 51 = bit y 51"
    "bit x 52 = bit y 52" "bit x 53 = bit y 53" "bit x 54 = bit y 54" "bit x 55 = bit y 55"
    "bit x 56 = bit y 56" "bit x 57 = bit y 57" "bit x 58 = bit y 58" "bit x 59 = bit y 59"
    "bit x 60 = bit y 60" "bit x 61 = bit y 61" "bit x 62 = bit y 62" "bit x 63 = bit y 63"
  shows "x = y"
proof -
  have "\<forall>n<64. bit x n = bit y n"
    using assms by (simp only: less_64_cases)
  then show ?thesis by (auto intro: bit_word_eqI)
qed

lemma bit_u8_beyond [simp]: "8 \<le> n \<Longrightarrow> \<not> bit (b::u8) n"
  using bit_imp_le_length [of b n] by auto

lemma and_0x3f [word_masks]: "x AND 0x3f = take_bit 6 (x::'a::len word)"
  by (simp add: take_bit_eq_mask mask_eq_exp_minus_1)

lemma and_0xff [word_masks]: "x AND 0xff = take_bit 8 (x::'a::len word)"
  by (simp add: take_bit_eq_mask mask_eq_exp_minus_1)

lemma and_0x7f [word_masks]: "x AND 0x7f = take_bit 7 (x::'a::len word)"
  by (simp add: take_bit_eq_mask mask_eq_exp_minus_1)

lemma unat_ucast_up:
  fixes x :: "'a::len word"
  assumes "LENGTH('a) \<le> LENGTH('b::len)"
  shows "unat (ucast x :: 'b word) = unat x"
proof -
  from assms have "unat x < 2 ^ LENGTH('b)"
    using unsigned_less [of x] by (meson less_le_trans one_le_numeral power_increasing)
  then show ?thesis by (simp add: unsigned_ucast_eq take_bit_nat_eq_self)
qed

lemma unat_ucast_mod: "unat (ucast (x::'a::len word) :: 'b::len word) = unat x mod 2 ^ LENGTH('b)"
  by (simp add: unsigned_ucast_eq take_bit_eq_mod)

lemma unat_drop_bit_div: "unat (drop_bit n (w::'a::len word)) = unat w div 2 ^ n"
  by (simp only: unat_drop_bit_eq drop_bit_eq_div [where 'a = nat])

lemma unat_take_bit_mod: "unat (take_bit n (w::'a::len word)) = unat w mod 2 ^ n"
  by (simp only: unsigned_take_bit_eq take_bit_eq_mod [where 'a = nat])

lemma or_eq_0_iff: "x OR y = 0 \<longleftrightarrow> x = 0 \<and> y = (0::'a::len word)"
  by (auto simp: bit_eq_iff bit_simps)

lemma xor_eq_0_iff: "x XOR y = 0 \<longleftrightarrow> x = (y::'a::len word)"
  by (auto simp: bit_eq_iff bit_simps)

lemma xor_cancel [simp]: "(x XOR y) XOR y = (x::'a::len word)"
  by (simp add: xor.assoc)

section \<open>Byte strings\<close>

text \<open>The exclusive or of two byte strings, position by position.\<close>

definition xor_bytes :: "bytes \<Rightarrow> bytes \<Rightarrow> bytes" where
  "xor_bytes xs ys = map2 (XOR) xs ys"

lemma length_xor_bytes [simp]: "length (xor_bytes xs ys) = min (length xs) (length ys)"
  by (simp add: xor_bytes_def)

lemma xor_bytes_Nil [simp]: "xor_bytes [] ys = []" "xor_bytes xs [] = []"
  by (simp_all add: xor_bytes_def)

lemma xor_bytes_Cons [simp]: "xor_bytes (x # xs) (y # ys) = (x XOR y) # xor_bytes xs ys"
  by (simp add: xor_bytes_def)

lemma nth_xor_bytes [simp]:
  "i < length xs \<Longrightarrow> i < length ys \<Longrightarrow> xor_bytes xs ys ! i = xs ! i XOR ys ! i"
  by (simp add: xor_bytes_def)

lemma xor_bytes_cancel: "length xs \<le> length ys \<Longrightarrow> xor_bytes (xor_bytes xs ys) ys = xs"
proof (induction xs arbitrary: ys)
  case (Cons x xs)
  then show ?case by (cases ys) auto
qed simp

lemma xor_bytes_append:
  "length xs = length us \<Longrightarrow> xor_bytes (xs @ ys) (us @ vs) = xor_bytes xs us @ xor_bytes ys vs"
  by (simp add: xor_bytes_def)

lemma take_xor_bytes: "take n (xor_bytes xs ys) = xor_bytes (take n xs) (take n ys)"
  by (simp add: xor_bytes_def take_map take_zip)

lemma drop_xor_bytes: "drop n (xor_bytes xs ys) = xor_bytes (drop n xs) (drop n ys)"
  by (simp add: xor_bytes_def drop_map drop_zip)

text \<open>The number a big-endian byte string denotes.\<close>

definition be_val :: "bytes \<Rightarrow> nat" where
  "be_val bs = foldl (\<lambda>v b. 256 * v + unat b) 0 bs"

lemma unat_u8_less [simp]: "unat (b::u8) < 256"
  using unsigned_less [of b] by simp

lemma foldl_be_val: "foldl (\<lambda>v b. 256 * v + unat b) a bs = a * 256 ^ length bs + be_val bs"
proof (induction bs arbitrary: a)
  case (Cons b bs)
  have "be_val (b # bs) = unat b * 256 ^ length bs + be_val bs"
    using Cons [of "unat b"] by (simp add: be_val_def)
  then show ?case using Cons [of "256 * a + unat b"] by (simp add: algebra_simps)
qed (simp add: be_val_def)

lemma be_val_Nil [simp]: "be_val [] = 0"
  by (simp add: be_val_def)

lemma be_val_Cons: "be_val (b # bs) = unat b * 256 ^ length bs + be_val bs"
  using foldl_be_val [of "unat b" bs] by (simp add: be_val_def)

lemma be_val_append: "be_val (xs @ ys) = be_val xs * 256 ^ length ys + be_val ys"
  using foldl_be_val [of "be_val xs" ys] by (simp add: be_val_def)

lemma be_val_snoc [simp]: "be_val (xs @ [b]) = 256 * be_val xs + unat b"
  by (simp add: be_val_append be_val_Cons)

lemma be_val_replicate_0 [simp]: "be_val (replicate n 0) = 0"
  by (induction n) (simp_all add: be_val_Cons)

lemma be_val_bound: "be_val bs < 256 ^ length bs"
proof (induction bs)
  case (Cons b bs)
  have "unat b * 256 ^ length bs + be_val bs < (unat b + 1) * 256 ^ length bs"
    using Cons by simp
  also have "\<dots> \<le> 256 * 256 ^ length bs"
    using unat_u8_less [of b] by (intro mult_le_mono1) linarith
  finally show ?case by (simp add: be_val_Cons)
qed simp

lemma be_val_inject: "length xs = length ys \<Longrightarrow> be_val xs = be_val ys \<longleftrightarrow> xs = ys"
proof (induction xs ys rule: list_induct2)
  case (Cons x xs y ys)
  have "be_val (x # xs) = be_val (y # ys) \<longleftrightarrow> unat x = unat y \<and> be_val xs = be_val ys"
  proof
    assume eq: "be_val (x # xs) = be_val (y # ys)"
    let ?B = "(256::nat) ^ length ys"
    have "(unat x * ?B + be_val xs) div ?B = (unat y * ?B + be_val ys) div ?B"
      and "(unat x * ?B + be_val xs) mod ?B = (unat y * ?B + be_val ys) mod ?B"
      using eq Cons.hyps by (simp_all add: be_val_Cons)
    then show "unat x = unat y \<and> be_val xs = be_val ys"
      using be_val_bound [of xs] be_val_bound [of ys] Cons.hyps by simp
  qed (use Cons.hyps in \<open>simp add: be_val_Cons\<close>)
  then show ?case using Cons.IH by (simp add: word_unat_eq_iff)
qed simp

lemma be_val_lower: "bs \<noteq> [] \<Longrightarrow> hd bs \<noteq> 0 \<Longrightarrow> 256 ^ (length bs - 1) \<le> be_val bs"
proof (cases bs)
  case (Cons b cs)
  assume "hd bs \<noteq> 0"
  then have "1 \<le> unat b" using Cons by (simp add: Suc_le_eq unat_gt_0)
  then have "1 * 256 ^ length cs \<le> unat b * 256 ^ length cs" by (rule mult_le_mono1)
  then show ?thesis unfolding Cons be_val_Cons list.size(4) add_Suc_right add_0_right diff_Suc_1 mult_1 by linarith
qed simp

lemma be_val_dropWhile_0 [simp]: "be_val (dropWhile (\<lambda>b. b = 0) bs) = be_val bs"
  by (induction bs) (simp_all add: be_val_Cons)

text \<open>Minimal numbers: no leading zero.\<close>

lemma minimal_length_le:
  assumes "be_val xs \<le> be_val ys" "xs = [] \<or> hd xs \<noteq> 0"
  shows "length xs \<le> length ys"
proof (cases "xs = []")
  case False
  with assms(2) have "hd xs \<noteq> 0" by simp
  from le_less_trans [OF le_trans [OF be_val_lower [OF False this] assms(1)] be_val_bound]
  have "(256::nat) ^ (length xs - 1) < 256 ^ length ys" .
  then have "length xs - 1 < length ys" by (rule power_less_imp_less_exp [rotated]) simp
  then show ?thesis by linarith
qed simp

lemma minimal_unique:
  assumes "be_val xs = be_val ys" "xs = [] \<or> hd xs \<noteq> 0" "ys = [] \<or> hd ys \<noteq> 0"
  shows "xs = ys"
proof -
  have "length xs = length ys"
    using minimal_length_le [of xs ys] minimal_length_le [of ys xs] assms by force
  then show ?thesis using be_val_inject [of xs ys] assms(1) by blast
qed

section \<open>Arrays filled in order\<close>

text \<open>
  A loop that writes \<open>w[i]\<close> from earlier entries: the final array satisfies the recurrence.
\<close>

lemma length_foldl_update [simp]:
  "length (foldl (\<lambda>w i. w[i := g w i]) w is) = length w"
  by (induction "is" arbitrary: w) simp_all

lemma foldl_update_other:
  "j \<notin> set is \<Longrightarrow> foldl (\<lambda>w i. w[i := g w i]) w is ! j = w ! j"
  by (induction "is" arbitrary: w) auto

lemma foldl_update_rec:
  assumes "\<And>w w' i. a \<le> i \<Longrightarrow> (\<forall>j<i. w ! j = w' ! j) \<Longrightarrow> g w i = g w' i"
    and "b \<le> length w" "a \<le> i" "i < b"
  shows "foldl (\<lambda>w i. w[i := g w i]) w [a..<b] ! i = g (foldl (\<lambda>w i. w[i := g w i]) w [a..<b]) i"
  using assms(2-)
proof (induction b)
  case (Suc b)
  let ?r = "foldl (\<lambda>w i. w[i := g w i]) w [a..<b]"
  have r: "foldl (\<lambda>w i. w[i := g w i]) w [a..<Suc b] = ?r[b := g ?r b]"
    using Suc.prems by simp
  have "g (?r[b := g ?r b]) i = g ?r i"
    using Suc.prems by (intro assms(1)) auto
  then show ?case
    using Suc unfolding r by (cases "i = b") auto
qed simp

text \<open>The number of pieces of \<open>d\<close> that hold \<open>n\<close>.\<close>

lemma ceil_div_le_iff: "0 < d \<Longrightarrow> (n + d - 1) div d \<le> i \<longleftrightarrow> n \<le> i * (d::nat)"
proof -
  assume d: "0 < d"
  have "(n + d - 1) div d \<le> i \<longleftrightarrow> (n + d - 1) div d < Suc i" by auto
  also have "\<dots> \<longleftrightarrow> n + d - 1 < Suc i * d" using d by (rule div_less_iff_less_mult)
  also have "\<dots> \<longleftrightarrow> n \<le> i * d" using d by auto
  finally show ?thesis .
qed

lemma ceil_div_cover: "0 < d \<Longrightarrow> n \<le> (n + d - 1) div d * (d::nat)"
  using ceil_div_le_iff [of d n "(n + d - 1) div d"] by simp

lemma take_append_rest: "take n xs @ take (min (n - length (take n xs)) (length t)) t = take n (xs @ t)"
  by (cases "length xs \<le> n") (auto simp: min_def)

section \<open>Accumulated differences\<close>

text \<open>
  The constant-time loops of the code OR every difference into one accumulator: it is zero at
  the end exactly when every difference was.
\<close>

lemma fold_or_eq_0:
  "foldl (\<lambda>acc x. acc OR f x) a xs = (0::'a::len word) \<longleftrightarrow> a = 0 \<and> (\<forall>x\<in>set xs. f x = 0)"
  by (induction xs arbitrary: a) (auto simp: or_eq_0_iff)

end
