(* ===== verification/Base64_Pem.thy ===== *)
theory Base64_Pem
  imports Crypto_Prelude
begin

text \<open>
  src/encoding.cpp: Base64 and Base64url with their decode table, and the PEM armour. A
  string_view is a list of characters; the "i += 3" and "i += 4" loops consume the list from the
  front. The results are the round trips, the exact set of inputs the decoders accept, and the
  behaviour of every error branch.
\<close>

section \<open>Alphabets and the decode table\<close>

definition standard_alphabet :: string where
  "standard_alphabet = ''ABCDEFGHIJKLMNOPQRSTUVWXYZabcdefghijklmnopqrstuvwxyz0123456789+/''"

definition url_alphabet :: string where
  "url_alphabet = ''ABCDEFGHIJKLMNOPQRSTUVWXYZabcdefghijklmnopqrstuvwxyz0123456789-_''"

definition encoding_error :: "string \<Rightarrow> crypto_error" where
  "encoding_error message = make_error Invalid_argument ''encoding'' message"

abbreviation newline :: char where "newline \<equiv> CHR 0x0A"
abbreviation carriage_return :: char where "carriage_return \<equiv> CHR 0x0D"
abbreviation tab :: char where "tab \<equiv> CHR 0x09"

definition is_line_break :: "char \<Rightarrow> bool" where
  "is_line_break c \<longleftrightarrow> c = newline \<or> c = carriage_return"

text \<open>The table after the first \<open>n\<close> stores of the loop.\<close>

fun decode_table_upto :: "string \<Rightarrow> nat \<Rightarrow> int list" where
  "decode_table_upto alphabet 0 = replicate 256 (-1)"
| "decode_table_upto alphabet (Suc i) = (decode_table_upto alphabet i)[of_char (alphabet ! i) := int i]"

definition make_decode_table :: "string \<Rightarrow> int list" where
  "make_decode_table alphabet = decode_table_upto alphabet (length alphabet)"

section \<open>Base64\<close>

definition sextet :: "string \<Rightarrow> u32 \<Rightarrow> nat \<Rightarrow> char" where
  "sextet alphabet chunk n = alphabet ! unat (drop_bit n chunk AND 0x3f)"

definition chunk3 :: "u8 \<Rightarrow> u8 \<Rightarrow> u8 \<Rightarrow> u32" where
  "chunk3 b0 b1 b2 = push_bit 16 (ucast b0) OR push_bit 8 (ucast b1) OR ucast b2"

definition chunk2 :: "u8 \<Rightarrow> u8 \<Rightarrow> u32" where
  "chunk2 b0 b1 = push_bit 16 (ucast b0) OR push_bit 8 (ucast b1)"

definition chunk1 :: "u8 \<Rightarrow> u32" where
  "chunk1 b0 = push_bit 16 (ucast b0)"

fun encode_base64 :: "bytes \<Rightarrow> string \<Rightarrow> bool \<Rightarrow> string" where
  "encode_base64 (b0 # b1 # b2 # rest) alphabet padding =
     (let chunk = chunk3 b0 b1 b2
      in sextet alphabet chunk 18 # sextet alphabet chunk 12 # sextet alphabet chunk 6
           # sextet alphabet chunk 0 # encode_base64 rest alphabet padding)"
| "encode_base64 [b0, b1] alphabet padding =
     (let chunk = chunk2 b0 b1
      in [sextet alphabet chunk 18, sextet alphabet chunk 12, sextet alphabet chunk 6]
           @ (if padding then ''='' else []))"
| "encode_base64 [b0] alphabet padding =
     (let chunk = chunk1 b0
      in [sextet alphabet chunk 18, sextet alphabet chunk 12] @ (if padding then ''=='' else []))"
| "encode_base64 [] alphabet padding = []"

definition join_sextets :: "int \<Rightarrow> int \<Rightarrow> int \<Rightarrow> int \<Rightarrow> u32" where
  "join_sextets a b c d = push_bit 18 (word_of_int a) OR push_bit 12 (word_of_int b)
     OR push_bit 6 (word_of_int c) OR word_of_int d"

definition chunk_byte :: "u32 \<Rightarrow> nat \<Rightarrow> u8" where
  "chunk_byte chunk n = ucast (drop_bit n chunk AND 0xff)"

text \<open>
  The decoding loop, four characters at a time. A tail of one to three characters does not occur:
  the length was checked before the loop.
\<close>

fun decode_groups :: "int list \<Rightarrow> string \<Rightarrow> bytes result" where
  "decode_groups table (p0 # p1 # p2 # p3 # rest) =
     (let pad2 = p2 = CHR ''=''; pad3 = p3 = CHR ''='' in
      if p0 = CHR ''='' \<or> p1 = CHR ''='' \<or> (pad2 \<and> \<not> pad3)
      then Inl (encoding_error ''base64 input has invalid padding'')
      else if (pad2 \<or> pad3) \<and> rest \<noteq> []
      then Inl (encoding_error ''base64 padding appears before end'')
      else
        let a = table ! of_char p0; b = table ! of_char p1;
            c = (if pad2 then 0 else table ! of_char p2);
            d = (if pad3 then 0 else table ! of_char p3) in
        if a < 0 \<or> b < 0 \<or> c < 0 \<or> d < 0
        then Inl (encoding_error ''base64 input contains invalid character'')
        else
          let chunk = join_sextets a b c d;
              out = chunk_byte chunk 16 # (if pad2 then [] else [chunk_byte chunk 8])
                      @ (if pad3 then [] else [chunk_byte chunk 0]) in
          rbind (decode_groups table rest) (\<lambda>tail. Inr (out @ tail)))"
| "decode_groups table _ = Inr []"

definition decode_base64 :: "string \<Rightarrow> string \<Rightarrow> bool \<Rightarrow> bytes result" where
  "decode_base64 input alphabet allow_unpadded =
     (if input = [] then Inr []
      else if list_ex (\<lambda>c. is_line_break c \<or> c = CHR '' '' \<or> c = tab) input
      then Inl (encoding_error ''base64 input contains whitespace'')
      else
        let remainder = length input mod 4 in
        if allow_unpadded \<and> remainder = 1
        then Inl (encoding_error ''base64 input has invalid length'')
        else if \<not> allow_unpadded \<and> remainder \<noteq> 0
        then Inl (encoding_error ''base64 input has invalid length'')
        else
          let padded = (if allow_unpadded \<and> remainder \<noteq> 0
                        then input @ replicate (4 - remainder) (CHR ''='') else input)
          in decode_groups (make_decode_table alphabet) padded)"

definition base64_encode :: "bytes \<Rightarrow> string" where
  "base64_encode input = encode_base64 input standard_alphabet True"

definition base64_decode :: "string \<Rightarrow> bytes result" where
  "base64_decode input = decode_base64 input standard_alphabet False"

definition base64url_encode :: "bytes \<Rightarrow> string" where
  "base64url_encode input = encode_base64 input url_alphabet False"

definition base64url_decode :: "string \<Rightarrow> bytes result" where
  "base64url_decode input = decode_base64 input url_alphabet True"


text \<open>Lists taken three elements at a time, as the encoding loop does.\<close>

lemma triples_induct [case_names three two one zero]:
  assumes "\<And>b0 b1 b2 rest. P rest \<Longrightarrow> P (b0 # b1 # b2 # rest)"
    and "\<And>b0 b1. P [b0, b1]" and "\<And>b0. P [b0]" and "P []"
  shows "P (bs :: bytes)"
  using encode_base64.induct [of "\<lambda>bs _ _. P bs"] assms by metis

lemma triples_cases [case_names three two one zero]:
  assumes "\<And>b0 b1 b2 rest. bs = b0 # b1 # b2 # rest \<Longrightarrow> P"
    and "\<And>b0 b1. bs = [b0, b1] \<Longrightarrow> P" and "\<And>b0. bs = [b0] \<Longrightarrow> P" and "bs = [] \<Longrightarrow> P"
  shows P
  by (cases bs rule: remdups_adj.cases) (metis assms list.exhaust)+

lemma div_mod_Suc_3:
  "Suc (Suc (Suc n)) div 3 = Suc (n div 3)" "Suc (Suc (Suc n)) mod 3 = n mod 3"
  "(3 + n) div 3 = Suc (n div 3)" "(3 + n) mod 3 = n mod 3"
  "(5 + n) div 3 = Suc (Suc (Suc n) div 3)"
  by arith+

section \<open>The contract of an alphabet\<close>

text \<open>
  What the codec relies on: 64 characters, none of them a padding or a white-space character,
  and a decode table that is the inverse of the alphabet and rejects every other character.
\<close>

definition reserved_chars :: "char list" where
  "reserved_chars = [CHR ''='', newline, carriage_return, CHR '' '', tab]"

locale base64_alphabet =
  fixes alphabet :: string
  assumes length_alphabet: "length alphabet = 64"
    and table_inverse: "i < 64 \<Longrightarrow> make_decode_table alphabet ! of_char (alphabet ! i) = int i"
    and table_valid: "0 \<le> make_decode_table alphabet ! of_char c \<Longrightarrow>
      \<exists>i<64. alphabet ! i = c \<and> make_decode_table alphabet ! of_char c = int i"
    and not_reserved: "i < 64 \<Longrightarrow> alphabet ! i \<notin> set reserved_chars"

lemma sextet_less: "unat (take_bit 6 (w::u32)) < 64"
  unfolding unat_take_bit_mod by simp

text \<open>Four sextets put a 24-bit chunk together again, and three bytes come out of it.\<close>

lemma join_sextets_chunk:
  "join_sextets (uint (take_bit 6 (drop_bit 18 w))) (uint (take_bit 6 (drop_bit 12 w)))
     (uint (take_bit 6 (drop_bit 6 w))) (uint (take_bit 6 (drop_bit 0 w)))
   = take_bit 24 w"
  unfolding join_sextets_def
  by (simp only: word_of_int_uint) (rule u32_eqI; simp add: bit_simps)

lemma chunk3_bytes:
  "chunk_byte (take_bit 24 (chunk3 a b c)) 16 = a"
  "chunk_byte (take_bit 24 (chunk3 a b c)) 8 = b"
  "chunk_byte (take_bit 24 (chunk3 a b c)) 0 = c"
  unfolding chunk_byte_def chunk3_def word_masks by (rule u8_eqI; simp add: bit_simps)+

lemma chunk_short:
  "chunk2 a b = chunk3 a b 0" "chunk1 a = chunk3 a 0 0"
  "take_bit 6 (drop_bit 0 (chunk3 a b 0)) = 0" "take_bit 6 (drop_bit 6 (chunk3 a 0 0)) = 0"
  unfolding chunk3_def chunk2_def chunk1_def by (rule u32_eqI; simp add: bit_simps)+

lemma join_sextets_split:
  assumes "i < 64" "j < 64" "k < 64" "l < 64"
  defines "w \<equiv> join_sextets (int i) (int j) (int k) (int l)"
  shows "unat (take_bit 6 (drop_bit 18 w)) = i" "unat (take_bit 6 (drop_bit 12 w)) = j"
    "unat (take_bit 6 (drop_bit 6 w)) = k" "unat (take_bit 6 (drop_bit 0 w)) = l"
    "take_bit 24 w = w"
proof -
  have small: "(word_of_nat n :: u32) = take_bit 6 (word_of_nat n)" "unat (word_of_nat n :: u32) = n"
    if "n < 64" for n
  proof -
    show *: "unat (word_of_nat n :: u32) = n"
      using that by (simp add: unsigned_of_nat take_bit_nat_eq_self)
    show "(word_of_nat n :: u32) = take_bit 6 (word_of_nat n)"
      unfolding word_unat_eq_iff unat_take_bit_mod * using that by simp
  qed
  define a b c d :: u32 where "a = word_of_nat i" "b = word_of_nat j" "c = word_of_nat k"
    "d = word_of_nat l"
  note defs = this
  have w: "w = push_bit 18 (take_bit 6 a) OR push_bit 12 (take_bit 6 b)
      OR push_bit 6 (take_bit 6 c) OR take_bit 6 d"
    unfolding w_def join_sextets_def defs using small(1) assms(1-4) by simp
  have "take_bit 6 (drop_bit 18 w) = take_bit 6 a" "take_bit 6 (drop_bit 12 w) = take_bit 6 b"
    "take_bit 6 (drop_bit 6 w) = take_bit 6 c" "take_bit 6 (drop_bit 0 w) = take_bit 6 d"
    "take_bit 24 w = w"
    unfolding w by (rule u32_eqI; simp add: bit_simps)+
  then show "unat (take_bit 6 (drop_bit 18 w)) = i" "unat (take_bit 6 (drop_bit 12 w)) = j"
    "unat (take_bit 6 (drop_bit 6 w)) = k" "unat (take_bit 6 (drop_bit 0 w)) = l"
    "take_bit 24 w = w"
    using small assms(1-4) defs by metis+
qed

lemma join_sextets_chunk2:
  "join_sextets (uint (take_bit 6 (drop_bit 18 (chunk3 a b 0))))
     (uint (take_bit 6 (drop_bit 12 (chunk3 a b 0))))
     (uint (take_bit 6 (drop_bit 6 (chunk3 a b 0)))) 0 = take_bit 24 (chunk3 a b 0)"
  using join_sextets_chunk [of "chunk3 a b 0"] by (simp only: chunk_short uint_0_eq)

lemma join_sextets_chunk1:
  "join_sextets (uint (take_bit 6 (drop_bit 18 (chunk3 a 0 0))))
     (uint (take_bit 6 (drop_bit 12 (chunk3 a 0 0)))) 0 0 = take_bit 24 (chunk3 a 0 0)"
  using join_sextets_chunk [of "chunk3 a 0 0"] by (simp only: chunk_short uint_0_eq)

text \<open>
  What a text stands for, without tables, words or groups: its sextets are the digits in base 64 of the
  number of its bytes, followed by two unused bits for each character of padding.
\<close>

definition sextets_val :: "nat list \<Rightarrow> nat" where
  "sextets_val vs = foldl (\<lambda>n v. 64 * n + v) 0 vs"

definition base64_represents :: "nat list \<Rightarrow> nat \<Rightarrow> bytes \<Rightarrow> bool" where
  "base64_represents vs p bs \<longleftrightarrow> p < 3 \<and> (\<forall>v\<in>set vs. v < 64) \<and> 6 * length vs = 8 * length bs + 2 * p \<and>
     sextets_val vs div 4 ^ p = be_val bs"

lemma foldl_sextets: "foldl (\<lambda>n v. 64 * n + v) a vs = a * 64 ^ length vs + sextets_val vs"
proof (induction vs arbitrary: a)
  case (Cons v vs)
  have "sextets_val (v # vs) = v * 64 ^ length vs + sextets_val vs"
    using Cons [of v] by (simp add: sextets_val_def)
  then show ?case using Cons [of "64 * a + v"] by (simp add: algebra_simps)
qed (simp add: sextets_val_def)

lemma sextets_val_simps [simp]: "sextets_val [] = 0" "sextets_val (v # vs) = v * 64 ^ length vs + sextets_val vs"
  using foldl_sextets [of v vs] by (simp_all add: sextets_val_def)

lemma digits_of: "b * (b * (x div b div b) + x div b mod b) + x mod b = (x::nat)"
  by simp

text \<open>A group of four sextets as the number of its three bytes.\<close>

lemma join_bytes:
  assumes "i < 64" "j < 64" "k < 64" "l < 64"
  defines "w \<equiv> join_sextets (int i) (int j) (int k) (int l)"
  shows "65536 * unat (chunk_byte w 16) + 256 * unat (chunk_byte w 8) + unat (chunk_byte w 0)
    = i * 64 ^ 3 + j * 64 ^ 2 + k * 64 + l"
proof -
  note s = join_sextets_split [OF assms(1-4), folded w_def]
  have six: "unat (take_bit 6 (drop_bit n w)) = unat w div 2 ^ n mod 64" for n
    by (simp add: unat_take_bit_mod unat_drop_bit_div)
  have "unat w = unat w mod 2 ^ 24" using s(5) by (metis unat_take_bit_mod)
  then have small: "unat w < 2 ^ 24" by (metis mod_less_divisor zero_less_numeral zero_less_power)
  have eight: "unat (chunk_byte w n) = unat w div 2 ^ n mod 256" for n
    unfolding chunk_byte_def word_masks by (simp add: unsigned_ucast_eq unat_take_bit_mod unat_drop_bit_div take_bit_eq_mod [where ?'a = nat])
  have "unat w div 2 ^ 18 mod 64 = i" "unat w div 2 ^ 12 mod 64 = j" "unat w div 2 ^ 6 mod 64 = k" "unat w div 2 ^ 0 mod 64 = l"
    using s(1-4) unfolding six .
  moreover have "unat w div 2 ^ 18 = unat w div 64 div 64 div 64" "unat w div 2 ^ 12 = unat w div 64 div 64"
    "unat w div 2 ^ 16 = unat w div 256 div 256"
    by (simp_all add: div_mult2_eq [symmetric])
  moreover have "unat w div 64 div 64 div 64 < 64" "unat w div 256 div 256 < 256" using small by (simp_all add: div_mult2_eq [symmetric] div_less_iff_less_mult)
  moreover have "unat w div 64 div 64 = 64 * (unat w div 64 div 64 div 64) + unat w div 64 div 64 mod 64" by simp
  ultimately have "unat w = i * 64 ^ 3 + j * 64 ^ 2 + k * 64 + l"
    using digits_of [of 64 "unat w"] six [of 0] by (simp only: power_0 div_by_1) simp
  moreover have "65536 * unat (chunk_byte w 16) + 256 * unat (chunk_byte w 8) + unat (chunk_byte w 0) = unat w"
    using digits_of [of 256 "unat w"] \<open>unat w div 256 div 256 < 256\<close> unfolding eight
    by (simp add: div_mult2_eq [symmetric])
  ultimately show ?thesis by simp
qed

lemma one_byte_group: "65536 * a + 256 * b + c = 4096 * (n::nat) \<Longrightarrow> b < 256 \<Longrightarrow> c < 256 \<Longrightarrow> a = n div 16"
  by (intro sym [OF div_nat_eqI]; simp)

lemma two_byte_group: "65536 * a + 256 * b + c = 64 * (n::nat) \<Longrightarrow> c < 256 \<Longrightarrow> 256 * a + b = n div 4"
  by (intro sym [OF div_nat_eqI]; simp)

context base64_alphabet begin

lemma sextet_lookup:
  "make_decode_table alphabet ! of_char (sextet alphabet w n) = uint (take_bit 6 (drop_bit n w))"
  using table_inverse sextet_less by (simp add: sextet_def word_masks)

lemma sextet_not_reserved: "sextet alphabet w n \<notin> set reserved_chars"
  using not_reserved sextet_less by (simp add: sextet_def word_masks)

lemma sextet_not_pad: "sextet alphabet w n \<noteq> CHR ''=''"
  using sextet_not_reserved by (simp add: reserved_chars_def)

lemmas decode_step = sextet_lookup sextet_not_pad join_sextets_chunk join_sextets_chunk2
  join_sextets_chunk1 chunk3_bytes chunk_short(1,2) Let_def

text \<open>The padded encoding decodes to the bytes it came from.\<close>

lemma decode_groups_encode:
  "decode_groups (make_decode_table alphabet) (encode_base64 bs alphabet True) = Inr bs"
proof (induction bs rule: triples_induct)
  case (two b0 b1)
  then show ?case by (simp add: decode_step del: drop_bit_0)
next
  case (one b0)
  then show ?case by (simp add: decode_step del: drop_bit_0)
next
  case (three b0 b1 b2 rest)
  then show ?case by (simp add: decode_step del: drop_bit_0)
qed simp

lemma encode_pad:
  "encode_base64 bs alphabet True =
     encode_base64 bs alphabet False @ replicate ((3 - length bs mod 3) mod 3) (CHR ''='')"
  by (induction bs rule: triples_induct)
    (simp_all add: Let_def div_mod_Suc_3 numeral_2_eq_2)

lemma length_unpadded:
  "length (encode_base64 bs alphabet False) =
     4 * (length bs div 3) + (if length bs mod 3 = 0 then 0 else length bs mod 3 + 1)"
  by (induction bs rule: triples_induct) (simp_all add: Let_def div_mod_Suc_3)

lemma length_padded: "length (encode_base64 bs alphabet True) = 4 * ((length bs + 2) div 3)"
  by (induction bs rule: triples_induct) (simp_all add: Let_def div_mod_Suc_3)

lemma encode_no_space:
  "\<not> list_ex (\<lambda>c. is_line_break c \<or> c = CHR '' '' \<or> c = tab) (encode_base64 bs alphabet padding)"
proof -
  have "sextet alphabet w n \<noteq> newline" "sextet alphabet w n \<noteq> carriage_return"
    "sextet alphabet w n \<noteq> CHR '' ''" "sextet alphabet w n \<noteq> tab" for w n
    using sextet_not_reserved [of w n] by (simp_all add: reserved_chars_def)
  then show ?thesis
    by (induction bs rule: triples_induct) (simp_all add: Let_def is_line_break_def)
qed

lemma set_encode: "set (encode_base64 bs alphabet padding) \<subseteq> set alphabet \<union> {CHR ''=''}"
proof -
  have "sextet alphabet w n \<in> set alphabet" for w n
    using sextet_less length_alphabet by (simp add: sextet_def word_masks)
  then show ?thesis
    by (induction bs rule: triples_induct) (auto simp: Let_def)
qed

lemma encode_eq_Nil: "encode_base64 bs alphabet padding = [] \<longleftrightarrow> bs = []"
  by (cases bs rule: triples_cases) (simp_all add: Let_def)

text \<open>Soundness: what is decoded is represented by the text.\<close>

lemma table_index:
  assumes "0 \<le> make_decode_table alphabet ! of_char c"
  obtains i where "i < 64" "alphabet ! i = c" "make_decode_table alphabet ! of_char c = int i"
  using table_valid [OF assms] by blast

lemma decode_groups_sound:
  "decode_groups (make_decode_table alphabet) s = Inr bs \<Longrightarrow> length s mod 4 = 0 \<Longrightarrow>
     \<exists>vs p. base64_represents vs p bs \<and> s = map (nth alphabet) vs @ replicate p (CHR ''='')"
proof (induction "make_decode_table alphabet" s arbitrary: bs rule: decode_groups.induct)
  case (1 p0 p1 p2 p3 rest)
  let ?t = "\<lambda>c. make_decode_table alphabet ! of_char c"
  have len: "length rest mod 4 = 0" using "1.prems"(2) by simp
  consider (two) "p2 = CHR ''=''" "p3 = CHR ''=''" | (one) "p2 \<noteq> CHR ''=''" "p3 = CHR ''=''" | (none) "p2 \<noteq> CHR ''=''" "p3 \<noteq> CHR ''=''"
    using "1.prems"(1) by (auto simp: Let_def split: if_splits)
  then show ?case
  proof cases
    case two
    then have r: "rest = []" "0 \<le> ?t p0" "0 \<le> ?t p1" "bs = [chunk_byte (join_sextets (?t p0) (?t p1) 0 0) 16]"
      using "1.prems"(1) by (auto simp: Let_def split: if_splits)
    obtain i where i: "i < 64" "alphabet ! i = p0" "?t p0 = int i" by (rule table_index [OF r(2)])
    obtain j where j: "j < 64" "alphabet ! j = p1" "?t p1 = int j" by (rule table_index [OF r(3)])
    have "unat (chunk_byte (join_sextets (int i) (int j) 0 0) 16) = (i * 64 + j) div 16"
      by (rule one_byte_group [OF trans [OF join_bytes [OF i(1) j(1), of 0 0, simplified]]])
        (use unat_u8_less in simp_all)
    then have "base64_represents [i, j] 2 bs"
      using i j r(4) by (simp add: base64_represents_def be_val_Cons)
    moreover have "p0 # p1 # p2 # p3 # rest = map (nth alphabet) [i, j] @ replicate 2 (CHR ''='')"
      using two i j r(1) by (simp add: numeral_2_eq_2)
    ultimately show ?thesis by blast
  next
    case one
    then have r: "rest = []" "0 \<le> ?t p0" "0 \<le> ?t p1" "0 \<le> ?t p2"
        "bs = [chunk_byte (join_sextets (?t p0) (?t p1) (?t p2) 0) 16, chunk_byte (join_sextets (?t p0) (?t p1) (?t p2) 0) 8]"
      using "1.prems"(1) by (auto simp: Let_def split: if_splits)
    obtain i where i: "i < 64" "alphabet ! i = p0" "?t p0 = int i" by (rule table_index [OF r(2)])
    obtain j where j: "j < 64" "alphabet ! j = p1" "?t p1 = int j" by (rule table_index [OF r(3)])
    obtain k where k: "k < 64" "alphabet ! k = p2" "?t p2 = int k" by (rule table_index [OF r(4)])
    have "256 * unat (chunk_byte (join_sextets (int i) (int j) (int k) 0) 16) + unat (chunk_byte (join_sextets (int i) (int j) (int k) 0) 8)
        = (i * 64 ^ 2 + j * 64 + k) div 4"
      by (rule two_byte_group [OF trans [OF join_bytes [OF i(1) j(1) k(1), of 0, simplified]]])
        (use unat_u8_less in \<open>simp_all add: power2_eq_square\<close>)
    then have "base64_represents [i, j, k] 1 bs"
      using i j k r(5) by (simp add: base64_represents_def be_val_Cons power2_eq_square)
    moreover have "p0 # p1 # p2 # p3 # rest = map (nth alphabet) [i, j, k] @ replicate 1 (CHR ''='')"
      using one i j k r(1) by simp
    ultimately show ?thesis by blast
  next
    case none
    define w where "w = join_sextets (?t p0) (?t p1) (?t p2) (?t p3)"
    obtain tail where tail: "decode_groups (make_decode_table alphabet) rest = Inr tail"
      and r: "0 \<le> ?t p0" "0 \<le> ?t p1" "0 \<le> ?t p2" "0 \<le> ?t p3"
      and bs: "bs = [chunk_byte w 16, chunk_byte w 8, chunk_byte w 0] @ tail"
      using "1.prems"(1) none by (auto simp: Let_def rbind_eq_Inr w_def split: if_splits)
    obtain i where i: "i < 64" "alphabet ! i = p0" "?t p0 = int i" by (rule table_index [OF r(1)])
    obtain j where j: "j < 64" "alphabet ! j = p1" "?t p1 = int j" by (rule table_index [OF r(2)])
    obtain k where k: "k < 64" "alphabet ! k = p2" "?t p2 = int k" by (rule table_index [OF r(3)])
    obtain l where l: "l < 64" "alphabet ! l = p3" "?t p3 = int l" by (rule table_index [OF r(4)])
    have "\<exists>vs p. base64_represents vs p tail \<and> rest = map (nth alphabet) vs @ replicate p (CHR ''='')"
      using "1.prems"(1) none by (intro "1.hyps" [OF refl refl _ _ refl refl refl refl _ refl refl tail len]) (auto simp: Let_def split: if_splits)
    then obtain vs p where vs: "base64_represents vs p tail" "rest = map (nth alphabet) vs @ replicate p (CHR ''='')" by blast
    have n: "6 * length vs = 8 * length tail + 2 * p" using vs(1) by (simp add: base64_represents_def)
    have "(64::nat) ^ length vs = 2 ^ (6 * length vs)" "(256::nat) ^ length tail * 4 ^ p = 2 ^ (8 * length tail + 2 * p)"
      by (simp_all add: power_add power_mult)
    then have pow: "(64::nat) ^ length vs = 256 ^ length tail * 4 ^ p" using n by simp
    have "65536 * unat (chunk_byte w 16) + 256 * unat (chunk_byte w 8) + unat (chunk_byte w 0) = i * 64 ^ 3 + j * 64 ^ 2 + k * 64 + l"
      using join_bytes [OF i(1) j(1) k(1) l(1)] i j k l by (simp add: w_def)
    moreover have "sextets_val (i # j # k # l # vs) = (i * 64 ^ 3 + j * 64 ^ 2 + k * 64 + l) * 64 ^ length vs + sextets_val vs"
      by (simp add: algebra_simps)
    moreover have "be_val bs = (65536 * unat (chunk_byte w 16) + 256 * unat (chunk_byte w 8) + unat (chunk_byte w 0)) * 256 ^ length tail + be_val tail"
      unfolding bs by (simp add: be_val_Cons algebra_simps)
    ultimately have "sextets_val (i # j # k # l # vs) div 4 ^ p = be_val bs"
      using vs(1) unfolding pow by (simp add: base64_represents_def mult.assoc [symmetric] del: sextets_val_simps)
    then have "base64_represents (i # j # k # l # vs) p bs"
      using vs(1) i(1) j(1) k(1) l(1) n by (simp add: base64_represents_def bs del: sextets_val_simps)
    moreover have "p0 # p1 # p2 # p3 # rest = map (nth alphabet) (i # j # k # l # vs) @ replicate p (CHR ''='')"
      using i j k l vs(2) by simp
    ultimately show ?thesis by blast
  qed
qed (auto simp: base64_represents_def intro: exI [of _ "[]"] exI [of _ 0])

text \<open>Completeness: a text of this form is decoded, and it determines what it represents.\<close>

lemma index_not_pad: "v < 64 \<Longrightarrow> alphabet ! v \<noteq> CHR ''='' \<and> \<not> is_line_break (alphabet ! v) \<and> alphabet ! v \<noteq> CHR '' '' \<and> alphabet ! v \<noteq> tab"
  using not_reserved [of v] by (simp add: reserved_chars_def is_line_break_def)

lemma decode_groups_total:
  "\<forall>v\<in>set vs. v < 64 \<Longrightarrow> p < 3 \<Longrightarrow> (length vs + p) mod 4 = 0 \<Longrightarrow>
     \<exists>bs. decode_groups (make_decode_table alphabet) (map (nth alphabet) vs @ replicate p (CHR ''='')) = Inr bs"
proof (induction vs rule: length_induct)
  case (1 vs)
  consider "vs = []" "p = 0" | a b where "vs = [a, b]" "p = 2" | a b c where "vs = [a, b, c]" "p = 1"
    | a b c d vs' where "vs = a # b # c # d # vs'"
  proof -
    have "p = 0 \<or> p = 1 \<or> p = 2" using "1.prems"(2) by auto
    then show thesis
      using "1.prems"(3) that unfolding mod_eq_0_iff_dvd [symmetric]
      by (cases vs; cases "tl vs"; cases "tl (tl vs)"; cases "tl (tl (tl vs))") (auto simp del: mod_eq_0_iff_dvd mod_0_imp_dvd simp flip: mod_eq_0_iff_dvd)
  qed
  then show ?case
  proof cases
    case (4 a b c d vs')
    then have "(length vs' + p) mod 4 = 0" using "1.prems"(3) by simp
    then obtain bs where "decode_groups (make_decode_table alphabet) (map (nth alphabet) vs' @ replicate p (CHR ''='')) = Inr bs"
      using "1.IH" [rule_format, of vs'] 4 "1.prems"(1,2) by auto
    then show ?thesis using 4 "1.prems"(1) by (simp add: index_not_pad table_inverse Let_def)
  qed (use "1.prems"(1) in \<open>simp_all add: index_not_pad table_inverse Let_def numeral_2_eq_2\<close>)
qed

lemma text_determines:
  assumes "map (nth alphabet) vs @ replicate p (CHR ''='') = map (nth alphabet) ws @ replicate q (CHR ''='')"
    and "\<forall>v\<in>set vs. v < 64" "\<forall>w\<in>set ws. w < 64"
  shows "vs = ws" "p = q"
proof -
  have split: "takeWhile (\<lambda>c. c \<noteq> CHR ''='') (map (nth alphabet) us @ replicate k (CHR ''='')) = map (nth alphabet) us"
    if "\<forall>u\<in>set us. u < 64" for us k
    using that index_not_pad by (subst takeWhile_append2) auto
  have eq: "map (nth alphabet) vs = map (nth alphabet) ws"
    using split [OF assms(2), of p] split [OF assms(3), of q] assms(1) by simp
  have "inj_on (nth alphabet) {..<64}"
    using table_inverse by (intro inj_onI) (metis lessThan_iff of_nat_eq_iff)
  moreover have "set vs \<subseteq> {..<64}" "set ws \<subseteq> {..<64}" using assms(2,3) by auto
  ultimately show "vs = ws" using eq by (metis inj_on_subset map_inj_on Un_subset_iff)
  then show "p = q" using assms(1) by (metis length_append length_map length_replicate add_left_cancel)
qed

lemma decode_groups_iff:
  assumes "length s mod 4 = 0"
  shows "decode_groups (make_decode_table alphabet) s = Inr bs \<longleftrightarrow>
     (\<exists>vs p. base64_represents vs p bs \<and> s = map (nth alphabet) vs @ replicate p (CHR ''=''))"
proof
  assume "\<exists>vs p. base64_represents vs p bs \<and> s = map (nth alphabet) vs @ replicate p (CHR ''='')"
  then obtain vs p where r: "base64_represents vs p bs" and s: "s = map (nth alphabet) vs @ replicate p (CHR ''='')" by blast
  have p: "p < 3" "\<forall>v\<in>set vs. v < 64" using r by (simp_all add: base64_represents_def)
  obtain bs' where bs': "decode_groups (make_decode_table alphabet) s = Inr bs'"
    using decode_groups_total [OF p(2,1)] assms unfolding s by auto
  obtain ws q where w: "base64_represents ws q bs'" "s = map (nth alphabet) ws @ replicate q (CHR ''='')"
    using decode_groups_sound [OF bs' assms] by blast
  have "\<forall>w\<in>set ws. w < 64" using w(1) by (simp add: base64_represents_def)
  then have "vs = ws" "p = q" using text_determines [OF _ p(2)] w(2) s by metis+
  then have "length bs = length bs'" "be_val bs = be_val bs'" using r w(1) by (simp_all add: base64_represents_def)
  then show "decode_groups (make_decode_table alphabet) s = Inr bs" using bs' be_val_inject by blast
qed (use decode_groups_sound [OF _ assms] in blast)

lemma represents_text:
  assumes "base64_represents vs p bs"
  shows "(length vs + p) mod 4 = 0" "\<not> list_ex (\<lambda>c. is_line_break c \<or> c = CHR '' '' \<or> c = tab) (map (nth alphabet) vs @ replicate q (CHR ''=''))"
    "bs = [] \<longleftrightarrow> vs = []" "vs = [] \<Longrightarrow> p = 0"
proof -
  have "6 * length vs = 8 * length bs + 2 * p" "p < 3" using assms by (simp_all add: base64_represents_def)
  then show "(length vs + p) mod 4 = 0" "bs = [] \<longleftrightarrow> vs = []" "vs = [] \<Longrightarrow> p = 0" by (presburger, auto)
  show "\<not> list_ex (\<lambda>c. is_line_break c \<or> c = CHR '' '' \<or> c = tab) (map (nth alphabet) vs @ replicate q (CHR ''=''))"
    using assms index_not_pad by (auto simp: base64_represents_def list_ex_iff is_line_break_def)
qed

lemma decode_padded_iff:
  "decode_base64 s alphabet False = Inr bs \<longleftrightarrow>
     (\<exists>vs p. base64_represents vs p bs \<and> s = map (nth alphabet) vs @ replicate p (CHR ''=''))" (is "_ = ?R")
proof
  assume "decode_base64 s alphabet False = Inr bs"
  then show ?R
    using decode_groups_iff [of s bs] decode_groups_iff [of "[]" bs] by (auto simp: decode_base64_def Let_def split: if_splits)
next
  assume r: ?R
  then have "length s mod 4 = 0" "\<not> list_ex (\<lambda>c. is_line_break c \<or> c = CHR '' '' \<or> c = tab) s"
    using represents_text by auto
  then show "decode_base64 s alphabet False = Inr bs"
    using decode_groups_iff [of s bs] r by (cases s) (auto simp: decode_base64_def Let_def)
qed

lemma missing_padding: "(n + k) mod 4 = 0 \<Longrightarrow> k < 3 \<Longrightarrow> n mod 4 = (if k = 0 then 0 else 4 - k)" for n k :: nat
  by presburger

lemma decode_unpadded_iff:
  "decode_base64 s alphabet True = Inr bs \<longleftrightarrow>
     (\<exists>vs p q. base64_represents vs p bs \<and> q \<le> p \<and> s = map (nth alphabet) vs @ replicate q (CHR ''=''))" (is "_ = ?R")
proof
  let ?r = "length s mod 4"
  let ?s = "if ?r = 0 then s else s @ replicate (4 - ?r) (CHR ''='')"
  assume d: "decode_base64 s alphabet True = Inr bs"
  show ?R
  proof (cases "s = []")
    case True
    then have "base64_represents [] 0 bs" using d by (simp add: decode_base64_def base64_represents_def)
    then show ?thesis using True by (intro exI [of _ "[]"] exI [of _ 0]) simp
  next
    case False
    then have r: "?r \<noteq> 1" "decode_groups (make_decode_table alphabet) ?s = Inr bs"
      using d by (auto simp: decode_base64_def Let_def split: if_splits)
    have "length ?s mod 4 = 0" by (simp; presburger)
    from decode_groups_iff [OF this] r(2) obtain vs p where
      vs: "base64_represents vs p bs" "?s = map (nth alphabet) vs @ replicate p (CHR ''='')" by blast
    define k where "k = (if ?r = 0 then 0 else 4 - ?r)"
    have s: "s @ replicate k (CHR ''='') = map (nth alphabet) vs @ replicate p (CHR ''='')" using vs(2) by (simp add: k_def split: if_splits)
    have "k \<le> p"
    proof (rule ccontr)
      assume "\<not> k \<le> p"
      then have "replicate k (CHR ''='') = replicate (Suc (k - p - 1)) (CHR ''='') @ replicate p (CHR ''='')"
        by (simp flip: replicate_add replicate_Suc)
      then have "map (nth alphabet) vs = s @ replicate (Suc (k - p - 1)) (CHR ''='')" using s by simp
      then have "CHR ''='' \<in> set (map (nth alphabet) vs)" by simp
      then obtain v where "v \<in> set vs" "CHR ''='' = alphabet ! v" unfolding set_map by blast
      then show False using vs(1) index_not_pad [of v] by (simp add: base64_represents_def)
    qed
    then have "replicate p (CHR ''='') = replicate (p - k) (CHR ''='') @ replicate k (CHR ''='')" by (simp flip: replicate_add)
    then have "s = map (nth alphabet) vs @ replicate (p - k) (CHR ''='')" using s by simp
    then show ?thesis using vs(1) diff_le_self by blast
  qed
next
  assume ?R
  then obtain vs p q where v: "base64_represents vs p bs" "q \<le> p" and s: "s = map (nth alphabet) vs @ replicate q (CHR ''='')" by blast
  note t = represents_text [OF v(1)]
  have p: "p < 3" using v(1) by (simp add: base64_represents_def)
  have "length s + (p - q) = length vs + p" using v(2) unfolding s by simp
  then have len: "length s mod 4 = (if p - q = 0 then 0 else 4 - (p - q))"
    using missing_padding [of "length s" "p - q"] t(1) p by simp
  have "length (s @ replicate (p - q) (CHR ''='')) mod 4 = 0" using t(1) v(2) unfolding s by simp
  moreover have "s @ replicate (p - q) (CHR ''='') = map (nth alphabet) vs @ replicate p (CHR ''='')"
    using v(2) unfolding s by (simp flip: replicate_add)
  ultimately have "decode_groups (make_decode_table alphabet) (s @ replicate (p - q) (CHR ''='')) = Inr bs"
    using decode_groups_iff v(1) by metis
  then show "decode_base64 s alphabet True = Inr bs"
    using t(2) [of q] len v(2) p unfolding s [symmetric] by (cases "s = []") (auto simp: decode_base64_def Let_def split: if_splits)
qed

lemma decode_encode_padded:
  "decode_base64 (encode_base64 bs alphabet True) alphabet False = Inr bs"
  using decode_groups_encode [of bs] encode_no_space [of bs True]
  by (auto simp: decode_base64_def Let_def length_padded encode_eq_Nil)

lemma decode_encode_unpadded:
  "decode_base64 (encode_base64 bs alphabet False) alphabet True = Inr bs"
  using decode_groups_encode [of bs] encode_no_space [of bs False] encode_pad [of bs]
    mod_less_divisor [of 3 "length bs"]
  by (auto simp: decode_base64_def Let_def length_unpadded encode_eq_Nil)

end


section \<open>Both alphabets keep the contract\<close>

text \<open>
  The table is filled by one store per alphabet position, so a distinct alphabet of 64
  unreserved characters is enough.
\<close>

lemma length_decode_table [simp]: "length (decode_table_upto alphabet n) = 256"
  by (induction n) simp_all

lemma of_char_less_256 [simp]: "of_char c < (256 :: nat)"
  by (cases c) (simp add: of_char_def horner_sum_simps)

lemma decode_table_hit:
  assumes "distinct alphabet"
  shows "n \<le> length alphabet \<Longrightarrow> i < n \<Longrightarrow> decode_table_upto alphabet n ! of_char (alphabet ! i) = int i"
proof (induction n)
  case (Suc n)
  have "alphabet ! i \<noteq> alphabet ! n" if "i < n"
    using that assms Suc.prems by (simp add: nth_eq_iff_index_eq)
  with Suc show ?case by (auto simp: less_Suc_eq nth_list_update)
qed simp

lemma decode_table_miss:
  "(\<forall>i<n. alphabet ! i \<noteq> c) \<Longrightarrow> decode_table_upto alphabet n ! of_char c = - 1"
  by (induction n) (simp_all add: nth_list_update)

lemma alphabet_okI:
  assumes len: "length alphabet = 64" and dist: "distinct alphabet"
    and res: "set alphabet \<inter> set reserved_chars = {}"
  shows "base64_alphabet alphabet"
proof
  show inv: "make_decode_table alphabet ! of_char (alphabet ! i) = int i" if "i < 64" for i
    using that len decode_table_hit [OF dist] by (simp add: make_decode_table_def)
  show "\<exists>i<64. alphabet ! i = c \<and> make_decode_table alphabet ! of_char c = int i"
    if nonneg: "0 \<le> make_decode_table alphabet ! of_char c" for c
  proof -
    obtain i where "i < 64" "alphabet ! i = c"
      using nonneg decode_table_miss [of 64 alphabet c] len by (auto simp: make_decode_table_def)
    then show ?thesis using inv by auto
  qed
  show "alphabet ! i \<notin> set reserved_chars" if "i < 64" for i
    using res that len nth_mem [of i alphabet] by (simp add: disjoint_iff)
qed (rule len)

interpretation standard: base64_alphabet standard_alphabet
  by (rule alphabet_okI) (simp_all add: standard_alphabet_def reserved_chars_def)

interpretation url: base64_alphabet url_alphabet
  by (rule alphabet_okI) (simp_all add: url_alphabet_def reserved_chars_def)

text \<open>The round trips of the two codecs.\<close>

lemma standard_roundtrip: "base64_decode (base64_encode bs) = Inr bs"
  unfolding base64_decode_def base64_encode_def by (rule standard.decode_encode_padded)

text \<open>C38: Base64 loses nothing: decoding the encoding of any byte string returns it.\<close>

theorem base64_roundtrip: "base64_decode (base64_encode bs) = Inr bs"
  by (rule standard_roundtrip)

text \<open>The same for Base64url, which writes no padding and restores it before decoding.\<close>

lemma base64url_roundtrip: "base64url_decode (base64url_encode bs) = Inr bs"
  unfolding base64url_decode_def base64url_encode_def by (rule url.decode_encode_unpadded)


text \<open>
  C39: what the two decoders accept, and what they return. Base64 accepts exactly the texts that write
  the sextets of some bytes in its alphabet with their padding, and returns those bytes; Base64url the
  same in its alphabet with none, a part or all of the padding. The unused bits of the last sextet are
  not looked at.
\<close>

theorem base64_decode_exact:
  "(base64_decode s = Inr bs \<longleftrightarrow>
      (\<exists>vs p. base64_represents vs p bs \<and> s = map (nth standard_alphabet) vs @ replicate p (CHR ''=''))) \<and>
   (base64url_decode s = Inr bs \<longleftrightarrow>
      (\<exists>vs p q. base64_represents vs p bs \<and> q \<le> p \<and> s = map (nth url_alphabet) vs @ replicate q (CHR ''='')))"
  unfolding base64_decode_def base64url_decode_def using standard.decode_padded_iff url.decode_unpadded_iff by blast

section \<open>PEM armour\<close>

record pem_block =
  pem_label :: string
  pem_payload :: bytes

text \<open>
  A label character is compared as a \<open>char\<close>: with a signed \<open>char\<close> the bytes from 128 on are
  negative and fail the first test, with an unsigned one they fail the second.
\<close>

definition is_valid_pem_label :: "string \<Rightarrow> bool" where
  "is_valid_pem_label label =
     (if label = [] \<or> hd label = CHR '' '' \<or> last label = CHR '' '' then False
      else list_all (\<lambda>c. \<not> ((of_char c :: nat) < 0x20 \<or> (of_char c :: nat) > 0x7e \<or> c = CHR ''-'')) label)"

definition starts_with :: "string \<Rightarrow> string \<Rightarrow> bool" where
  "starts_with s pre \<longleftrightarrow> take (length pre) s = pre"

definition ends_with :: "string \<Rightarrow> string \<Rightarrow> bool" where
  "ends_with s suf \<longleftrightarrow> length suf \<le> length s \<and> drop (length s - length suf) s = suf"

text \<open>
  The label between the two boundary marks. The count of \<open>substr\<close> is a difference of sizes: when
  the marks overlap it wraps around, and \<open>substr\<close> then runs to the end of the line.
\<close>

definition boundary_label :: "string \<Rightarrow> string \<Rightarrow> string \<Rightarrow> string" where
  "boundary_label line pre suf =
     (if length pre + length suf \<le> length line
      then take (length line - length pre - length suf) (drop (length pre) line)
      else drop (length pre) line)"

definition pem_boundary :: "string \<Rightarrow> string \<Rightarrow> string \<Rightarrow> string result" where
  "pem_boundary line pre suf =
     (if \<not> starts_with line pre \<or> \<not> ends_with line suf
      then Inl (encoding_error ''PEM boundary is malformed'')
      else let label = boundary_label line pre suf in
           if \<not> is_valid_pem_label label then Inl (encoding_error ''PEM label is invalid'')
           else Inr label)"

definition trim_trailing_cr :: "string \<Rightarrow> string" where
  "trim_trailing_cr line = (if line \<noteq> [] \<and> last line = carriage_return then butlast line else line)"

text \<open>\<open>find\<close>: the position of the first newline; then the raw line and what follows it.\<close>

definition find_newline :: "string \<Rightarrow> nat option" where
  "find_newline s = (if newline \<in> set s then Some (length (takeWhile (\<lambda>c. c \<noteq> newline) s)) else None)"

definition next_line :: "string \<Rightarrow> string \<times> string" where
  "next_line rest = (case find_newline rest of
     None \<Rightarrow> (rest, [])
   | Some line_end \<Rightarrow> (take line_end rest, drop (Suc line_end) rest))"

lemma next_line_shorter: "rest \<noteq> [] \<Longrightarrow> length (snd (next_line rest)) < length rest"
  by (auto simp: next_line_def split: option.splits)

function pem_lines :: "string \<Rightarrow> string" where
  "pem_lines chars =
     (if chars = [] then [] else take 64 chars @ newline # pem_lines (drop 64 chars))"
  by pat_completeness auto
termination
  by (relation "measure length") auto

declare pem_lines.simps [simp del]

definition pem_encode :: "string \<Rightarrow> bytes \<Rightarrow> string result" where
  "pem_encode label payload =
     (if \<not> is_valid_pem_label label then Inl (encoding_error ''PEM label is invalid'')
      else Inr (''-----BEGIN '' @ label @ ''-----'' @ [newline]
                  @ pem_lines (base64_encode payload)
                  @ ''-----END '' @ label @ ''-----'' @ [newline]))"

text \<open>
  The two loops over the lines: up to the END boundary, collecting the payload (None: the text
  ended first), and over what follows it, which may only be empty lines.
\<close>

function pem_body :: "string \<Rightarrow> string \<Rightarrow> (string \<times> string \<times> string) option result" where
  "pem_body rest payload_text =
     (if rest = [] then Inr None
      else
        let (raw_line, rest') = next_line rest; line = trim_trailing_cr raw_line in
        if starts_with line ''-----END ''
        then rbind (pem_boundary line ''-----END '' ''-----'') (\<lambda>label. Inr (Some (payload_text, label, rest')))
        else pem_body rest' (payload_text @ line))"
  by pat_completeness auto
termination
  by (relation "measure (\<lambda>(rest, _). length rest)")
    (auto dest!: next_line_shorter, metis snd_conv)

declare pem_body.simps [simp del]

function pem_trailing_ok :: "string \<Rightarrow> bool" where
  "pem_trailing_ok rest =
     (if rest = [] then True
      else let (raw_line, rest') = next_line rest in
           if trim_trailing_cr raw_line \<noteq> [] then False else pem_trailing_ok rest')"
  by pat_completeness auto
termination
  by (relation "measure length") (auto dest!: next_line_shorter, metis snd_conv)

declare pem_trailing_ok.simps [simp del]

definition pem_decode :: "string \<Rightarrow> pem_block result" where
  "pem_decode input =
     (case find_newline input of
        None \<Rightarrow> Inl (encoding_error ''PEM begin boundary is missing'')
      | Some first_end \<Rightarrow>
          rbind (pem_boundary (trim_trailing_cr (take first_end input)) ''-----BEGIN '' ''-----'')
            (\<lambda>begin_label.
          rbind (pem_body (drop (Suc first_end) input) [])
            (\<lambda>found. case found of
                None \<Rightarrow> Inl (encoding_error ''PEM end boundary is missing'')
              | Some (payload_text, end_label, rest) \<Rightarrow>
                  if begin_label \<noteq> end_label then Inl (encoding_error ''PEM labels do not match'')
                  else if \<not> pem_trailing_ok rest then Inl (encoding_error ''PEM has trailing data'')
                  else rbind (base64_decode payload_text)
                         (\<lambda>payload. Inr \<lparr>pem_label = begin_label, pem_payload = payload\<rparr>))))"


subsection \<open>Decoding what was encoded\<close>

lemma find_newline_append [simp]:
  "newline \<notin> set xs \<Longrightarrow> find_newline (xs @ newline # ys) = Some (length xs)"
proof -
  assume "newline \<notin> set xs"
  then have "takeWhile (\<lambda>c. c \<noteq> newline) (xs @ newline # ys) = xs"
    by (induction xs) auto
  then show ?thesis by (simp add: find_newline_def)
qed

lemma next_line_append [simp]: "newline \<notin> set xs \<Longrightarrow> next_line (xs @ newline # ys) = (xs, ys)"
  by (simp add: next_line_def)

lemma trim_no_cr [simp]: "carriage_return \<notin> set xs \<Longrightarrow> trim_trailing_cr xs = xs"
  unfolding trim_trailing_cr_def by (metis last_in_set)

lemma boundary_roundtrip:
  "is_valid_pem_label label \<Longrightarrow> pem_boundary (pre @ label @ suf) pre suf = Inr label"
  by (simp add: pem_boundary_def starts_with_def ends_with_def boundary_label_def)

lemma valid_label_chars:
  assumes "is_valid_pem_label label"
  shows "newline \<notin> set label" "carriage_return \<notin> set label"
proof -
  have "0x20 \<le> (of_char c :: nat)" if "c \<in> set label" for c
    using assms that by (auto simp: is_valid_pem_label_def list_all_iff not_less split: if_splits)
  moreover have "of_char newline < (0x20::nat)" "of_char carriage_return < (0x20::nat)"
    by simp_all
  ultimately show "newline \<notin> set label" "carriage_return \<notin> set label"
    by fastforce+
qed

text \<open>A run of characters that can be a payload line.\<close>

definition payload_chars :: "char set" where
  "payload_chars = set standard_alphabet \<union> {CHR ''=''}"

lemma payload_chars_clean:
  "newline \<notin> payload_chars" "carriage_return \<notin> payload_chars" "CHR ''-'' \<notin> payload_chars"
  by (simp_all add: payload_chars_def standard_alphabet_def)

lemma payload_not_end:
  assumes "set xs \<subseteq> payload_chars"
  shows "\<not> starts_with xs ''-----END ''"
proof
  assume "starts_with xs ''-----END ''"
  then have "CHR ''-'' \<in> set (take (length ''-----END '') xs)"
    unfolding starts_with_def by simp
  then show False
    using assms payload_chars_clean(3) by (meson in_set_takeD subsetD)
qed

lemma pem_body_line:
  assumes "newline \<notin> set line" "carriage_return \<notin> set line"
  shows "pem_body (line @ newline # rest) acc =
     (if starts_with line ''-----END ''
      then rbind (pem_boundary line ''-----END '' ''-----'') (\<lambda>label. Inr (Some (acc, label, rest)))
      else pem_body rest (acc @ line))"
  using assms by (subst pem_body.simps) simp

lemma pem_lines_Nil: "pem_lines [] = []"
  by (simp add: pem_lines.simps)

lemma pem_body_encoded:
  assumes "set chars \<subseteq> payload_chars" and "is_valid_pem_label label"
  shows "pem_body (pem_lines chars @ (''-----END '' @ label @ ''-----'') @ newline # []) acc
       = Inr (Some (acc @ chars, label, []))"
  using assms(1)
proof (induction chars arbitrary: acc rule: pem_lines.induct)
  case (1 chars)
  let ?last = "''-----END '' @ label @ ''-----''"
  show ?case
  proof (cases "chars = []")
    case True
    have "starts_with ?last ''-----END ''" "newline \<notin> set ?last" "carriage_return \<notin> set ?last"
      using valid_label_chars [OF assms(2)] by (simp_all add: starts_with_def)
    then have "pem_body (?last @ newline # []) acc = Inr (Some (acc, label, []))"
      using pem_body_line [of ?last "[]" acc] boundary_roundtrip [OF assms(2)]
      by (simp only: if_True rbind_simps simp_thms)
    with True show ?thesis
      by (simp only: pem_lines_Nil append_Nil append_Nil2)
  next
    case False
    let ?l = "take 64 chars"
    have l: "set ?l \<subseteq> payload_chars" "set (drop 64 chars) \<subseteq> payload_chars"
      using "1.prems" by (auto dest: in_set_takeD in_set_dropD)
    then have clean: "newline \<notin> set ?l" "carriage_return \<notin> set ?l"
      using payload_chars_clean by auto
    have "pem_lines chars @ ?last @ newline # [] = ?l @ newline # pem_lines (drop 64 chars) @ ?last @ newline # []"
      using False pem_lines.simps [of chars] by simp
    then have "pem_body (pem_lines chars @ ?last @ newline # []) acc
        = pem_body (pem_lines (drop 64 chars) @ ?last @ newline # []) (acc @ ?l)"
      using pem_body_line [OF clean] payload_not_end [OF l(1)] by simp
    also have "\<dots> = Inr (Some ((acc @ ?l) @ drop 64 chars, label, []))"
      using "1.IH" [OF False l(2)] by simp
    finally show ?thesis by simp
  qed
qed

text \<open>
  C40: the PEM armour. Encoding succeeds exactly on the valid labels, and decoding an encoded
  block, whatever its payload and so whatever its number of lines, returns label and payload.
\<close>

theorem pem_roundtrip:
  "rbind (pem_encode label payload) pem_decode =
     (if is_valid_pem_label label then Inr \<lparr>pem_label = label, pem_payload = payload\<rparr>
      else Inl (encoding_error ''PEM label is invalid''))"
proof (cases "is_valid_pem_label label")
  case True
  let ?first = "''-----BEGIN '' @ label @ ''-----''"
  let ?rest = "pem_lines (base64_encode payload) @ ''-----END '' @ label @ ''-----'' @ [newline]"
  note clean = valid_label_chars [OF True]
  have enc: "pem_encode label payload = Inr (?first @ newline # ?rest)"
    using True by (simp add: pem_encode_def)
  have find: "find_newline (?first @ newline # ?rest) = Some (length ?first)"
    using clean by (intro find_newline_append) simp
  have parts: "take (length ?first) (?first @ newline # ?rest) = ?first"
    "drop (Suc (length ?first)) (?first @ newline # ?rest) = ?rest"
    by (simp_all del: append.simps append_assoc)
  have head: "pem_boundary (trim_trailing_cr ?first) ''-----BEGIN '' ''-----'' = Inr label"
  proof -
    have "trim_trailing_cr ?first = ?first"
      using clean by (intro trim_no_cr) simp
    then show ?thesis by (simp only: boundary_roundtrip [OF True])
  qed
  have "set (base64_encode payload) \<subseteq> payload_chars"
    using standard.set_encode by (simp add: base64_encode_def payload_chars_def)
  then have body: "pem_body ?rest [] = Inr (Some (base64_encode payload, label, []))"
    using pem_body_encoded [OF _ True, of _ "[]"] by simp
  have "pem_decode (?first @ newline # ?rest) = Inr \<lparr>pem_label = label, pem_payload = payload\<rparr>"
    unfolding pem_decode_def find option.case parts head rbind_simps body
    using standard_roundtrip by (simp add: pem_trailing_ok.simps)
  then show ?thesis using True enc by simp
qed (simp add: pem_encode_def)

end
