(* ===== verification/Byte_Order.thy ===== *)
theory Byte_Order
  imports Crypto_Prelude
begin

text \<open>
  Big-endian loads and stores, which src/sha2.cpp, src/aes.cpp, src/aes_gcm.cpp and
  src/kdf_native.cpp each define for themselves with the same text, and writes into byte arrays.
\<close>

definition load_be32 :: "bytes \<Rightarrow> u32" where
  "load_be32 d = push_bit 24 (ucast (d ! 0)) OR push_bit 16 (ucast (d ! 1))
     OR push_bit 8 (ucast (d ! 2)) OR ucast (d ! 3)"

definition load_be64 :: "bytes \<Rightarrow> u64" where
  "load_be64 d = push_bit 56 (ucast (d ! 0)) OR push_bit 48 (ucast (d ! 1))
     OR push_bit 40 (ucast (d ! 2)) OR push_bit 32 (ucast (d ! 3))
     OR push_bit 24 (ucast (d ! 4)) OR push_bit 16 (ucast (d ! 5))
     OR push_bit 8 (ucast (d ! 6)) OR ucast (d ! 7)"

definition store_be32 :: "u32 \<Rightarrow> bytes" where
  "store_be32 v = [ucast (drop_bit 24 v), ucast (drop_bit 16 v), ucast (drop_bit 8 v), ucast v]"

definition store_be64 :: "u64 \<Rightarrow> bytes" where
  "store_be64 v = [ucast (drop_bit 56 v), ucast (drop_bit 48 v), ucast (drop_bit 40 v),
     ucast (drop_bit 32 v), ucast (drop_bit 24 v), ucast (drop_bit 16 v), ucast (drop_bit 8 v), ucast v]"

text \<open>Writing a byte string into an array at an offset (memcpy, fill, or stores through a pointer).\<close>

definition write_at :: "'a list \<Rightarrow> nat \<Rightarrow> 'a list \<Rightarrow> 'a list" where
  "write_at xs i ys = take i xs @ ys @ drop (i + length ys) xs"

lemma length_write_at [simp]: "i + length ys \<le> length xs \<Longrightarrow> length (write_at xs i ys) = length xs"
  by (simp add: write_at_def)

lemma take_write_at:
  "i \<le> length xs \<Longrightarrow> take (i + length ys) (write_at xs i ys) = take i xs @ ys"
  by (simp add: write_at_def)

lemma store_be64_length [simp]: "length (store_be64 v) = 8" "store_be64 v \<noteq> []"
  by (simp_all add: store_be64_def)

lemma store_be32_length [simp]: "length (store_be32 v) = 4"
  by (simp add: store_be32_def)

lemma length_concat_const: "(\<And>x. length (g x) = n) \<Longrightarrow> length (concat (map g xs)) = n * length xs"
  by (induction xs) simp_all

end
