(* ===== verification/Sha2.thy ===== *)
theory Sha2
  imports Byte_Order
begin

text \<open>
  src/sha2.cpp: SHA-256 and SHA-512, as the streaming contexts behind IHashContext. A context
  buffers a partial block; the buffering loop is the same text in both update functions and is
  modelled once, over the fields the two contexts share. The contexts are refined to the padding
  and block iteration of FIPS 180-4: any sequence of updates followed by final gives the digest of
  the concatenated input.
\<close>

section \<open>Word helpers\<close>

definition rotr32 :: "u32 \<Rightarrow> nat \<Rightarrow> u32" where
  "rotr32 value bits = drop_bit bits value OR push_bit (32 - bits) value"

definition rotr64 :: "u64 \<Rightarrow> nat \<Rightarrow> u64" where
  "rotr64 value bits = drop_bit bits value OR push_bit (64 - bits) value"

section \<open>Constants\<close>

definition sha256_k :: "u32 list" where
  "sha256_k = concat
    [[0x428a2f98, 0x71374491, 0xb5c0fbcf, 0xe9b5dba5],
     [0x3956c25b, 0x59f111f1, 0x923f82a4, 0xab1c5ed5],
     [0xd807aa98, 0x12835b01, 0x243185be, 0x550c7dc3],
     [0x72be5d74, 0x80deb1fe, 0x9bdc06a7, 0xc19bf174],
     [0xe49b69c1, 0xefbe4786, 0x0fc19dc6, 0x240ca1cc],
     [0x2de92c6f, 0x4a7484aa, 0x5cb0a9dc, 0x76f988da],
     [0x983e5152, 0xa831c66d, 0xb00327c8, 0xbf597fc7],
     [0xc6e00bf3, 0xd5a79147, 0x06ca6351, 0x14292967],
     [0x27b70a85, 0x2e1b2138, 0x4d2c6dfc, 0x53380d13],
     [0x650a7354, 0x766a0abb, 0x81c2c92e, 0x92722c85],
     [0xa2bfe8a1, 0xa81a664b, 0xc24b8b70, 0xc76c51a3],
     [0xd192e819, 0xd6990624, 0xf40e3585, 0x106aa070],
     [0x19a4c116, 0x1e376c08, 0x2748774c, 0x34b0bcb5],
     [0x391c0cb3, 0x4ed8aa4a, 0x5b9cca4f, 0x682e6ff3],
     [0x748f82ee, 0x78a5636f, 0x84c87814, 0x8cc70208],
     [0x90befffa, 0xa4506ceb, 0xbef9a3f7, 0xc67178f2]]"

definition sha512_k :: "u64 list" where
  "sha512_k = concat
    [[0x428a2f98d728ae22, 0x7137449123ef65cd, 0xb5c0fbcfec4d3b2f, 0xe9b5dba58189dbbc],
     [0x3956c25bf348b538, 0x59f111f1b605d019, 0x923f82a4af194f9b, 0xab1c5ed5da6d8118],
     [0xd807aa98a3030242, 0x12835b0145706fbe, 0x243185be4ee4b28c, 0x550c7dc3d5ffb4e2],
     [0x72be5d74f27b896f, 0x80deb1fe3b1696b1, 0x9bdc06a725c71235, 0xc19bf174cf692694],
     [0xe49b69c19ef14ad2, 0xefbe4786384f25e3, 0x0fc19dc68b8cd5b5, 0x240ca1cc77ac9c65],
     [0x2de92c6f592b0275, 0x4a7484aa6ea6e483, 0x5cb0a9dcbd41fbd4, 0x76f988da831153b5],
     [0x983e5152ee66dfab, 0xa831c66d2db43210, 0xb00327c898fb213f, 0xbf597fc7beef0ee4],
     [0xc6e00bf33da88fc2, 0xd5a79147930aa725, 0x06ca6351e003826f, 0x142929670a0e6e70],
     [0x27b70a8546d22ffc, 0x2e1b21385c26c926, 0x4d2c6dfc5ac42aed, 0x53380d139d95b3df],
     [0x650a73548baf63de, 0x766a0abb3c77b2a8, 0x81c2c92e47edaee6, 0x92722c851482353b],
     [0xa2bfe8a14cf10364, 0xa81a664bbc423001, 0xc24b8b70d0f89791, 0xc76c51a30654be30],
     [0xd192e819d6ef5218, 0xd69906245565a910, 0xf40e35855771202a, 0x106aa07032bbd1b8],
     [0x19a4c116b8d2d0c8, 0x1e376c085141ab53, 0x2748774cdf8eeb99, 0x34b0bcb5e19b48a8],
     [0x391c0cb3c5c95a63, 0x4ed8aa4ae3418acb, 0x5b9cca4f7763e373, 0x682e6ff3d6b2b8a3],
     [0x748f82ee5defb2fc, 0x78a5636f43172f60, 0x84c87814a1f0ab72, 0x8cc702081a6439ec],
     [0x90befffa23631e28, 0xa4506cebde82bde9, 0xbef9a3f7b2c67915, 0xc67178f2e372532b],
     [0xca273eceea26619c, 0xd186b8c721c0c207, 0xeada7dd6cde0eb1e, 0xf57d4f7fee6ed178],
     [0x06f067aa72176fba, 0x0a637dc5a2c898a6, 0x113f9804bef90dae, 0x1b710b35131c471b],
     [0x28db77f523047d84, 0x32caab7b40c72493, 0x3c9ebe0a15c9bebc, 0x431d67c49c100d4c],
     [0x4cc5d4becb3e42b6, 0x597f299cfc657e2a, 0x5fcb6fab3ad6faec, 0x6c44198c4a475817]]"

definition sha256_iv :: "u32 list" where
  "sha256_iv = [0x6a09e667, 0xbb67ae85, 0x3c6ef372, 0xa54ff53a, 0x510e527f, 0x9b05688c, 0x1f83d9ab, 0x5be0cd19]"

definition sha512_iv :: "u64 list" where
  "sha512_iv = [0x6a09e667f3bcc908, 0xbb67ae8584caa73b, 0x3c6ef372fe94f82b, 0xa54ff53a5f1d36f1,
     0x510e527fade682d1, 0x9b05688c2b3e6c1f, 0x1f83d9abfb41bd6b, 0x5be0cd19137e2179]"

section \<open>The block transforms\<close>

definition sha256_schedule :: "bytes \<Rightarrow> u32 list" where
  "sha256_schedule block =
     (let w = foldl (\<lambda>w i. w[i := load_be32 (drop (i * 4) block)]) (replicate 64 0) [0..<16]
      in foldl (\<lambda>w i.
           let s0 = rotr32 (w ! (i - 15)) 7 XOR rotr32 (w ! (i - 15)) 18 XOR drop_bit 3 (w ! (i - 15));
               s1 = rotr32 (w ! (i - 2)) 17 XOR rotr32 (w ! (i - 2)) 19 XOR drop_bit 10 (w ! (i - 2))
           in w[i := w ! (i - 16) + s0 + w ! (i - 7) + s1]) w [16..<64])"

type_synonym 'w working = "'w \<times> 'w \<times> 'w \<times> 'w \<times> 'w \<times> 'w \<times> 'w \<times> 'w"

fun sha256_round :: "u32 \<Rightarrow> u32 \<Rightarrow> u32 working \<Rightarrow> u32 working" where
  "sha256_round k w (a, b, c, d, e, f, g, h) =
     (let s1 = rotr32 e 6 XOR rotr32 e 11 XOR rotr32 e 25;
          ch = (e AND f) XOR (NOT e AND g);
          temp1 = h + s1 + ch + k + w;
          s0 = rotr32 a 2 XOR rotr32 a 13 XOR rotr32 a 22;
          maj = (a AND b) XOR (a AND c) XOR (b AND c);
          temp2 = s0 + maj
      in (temp1 + temp2, a, b, c, d + temp1, e, f, g))"

definition load_working :: "'w list \<Rightarrow> 'w working" where
  "load_working s = (s ! 0, s ! 1, s ! 2, s ! 3, s ! 4, s ! 5, s ! 6, s ! 7)"

fun add_working :: "'w::plus list \<Rightarrow> 'w working \<Rightarrow> 'w list" where
  "add_working s (a, b, c, d, e, f, g, h) =
     [s ! 0 + a, s ! 1 + b, s ! 2 + c, s ! 3 + d, s ! 4 + e, s ! 5 + f, s ! 6 + g, s ! 7 + h]"

definition sha256_transform :: "u32 list \<Rightarrow> bytes \<Rightarrow> u32 list" where
  "sha256_transform state block =
     (let w = sha256_schedule block
      in add_working state
           (foldl (\<lambda>v i. sha256_round (sha256_k ! i) (w ! i) v) (load_working state) [0..<64]))"

definition sha512_schedule :: "bytes \<Rightarrow> u64 list" where
  "sha512_schedule block =
     (let w = foldl (\<lambda>w i. w[i := load_be64 (drop (i * 8) block)]) (replicate 80 0) [0..<16]
      in foldl (\<lambda>w i.
           let s0 = rotr64 (w ! (i - 15)) 1 XOR rotr64 (w ! (i - 15)) 8 XOR drop_bit 7 (w ! (i - 15));
               s1 = rotr64 (w ! (i - 2)) 19 XOR rotr64 (w ! (i - 2)) 61 XOR drop_bit 6 (w ! (i - 2))
           in w[i := w ! (i - 16) + s0 + w ! (i - 7) + s1]) w [16..<80])"

fun sha512_round :: "u64 \<Rightarrow> u64 \<Rightarrow> u64 working \<Rightarrow> u64 working" where
  "sha512_round k w (a, b, c, d, e, f, g, h) =
     (let s1 = rotr64 e 14 XOR rotr64 e 18 XOR rotr64 e 41;
          ch = (e AND f) XOR (NOT e AND g);
          temp1 = h + s1 + ch + k + w;
          s0 = rotr64 a 28 XOR rotr64 a 34 XOR rotr64 a 39;
          maj = (a AND b) XOR (a AND c) XOR (b AND c);
          temp2 = s0 + maj
      in (temp1 + temp2, a, b, c, d + temp1, e, f, g))"

definition sha512_transform :: "u64 list \<Rightarrow> bytes \<Rightarrow> u64 list" where
  "sha512_transform state block =
     (let w = sha512_schedule block
      in add_working state
           (foldl (\<lambda>v i. sha512_round (sha512_k ! i) (w ! i) v) (load_working state) [0..<80]))"

section \<open>The contexts\<close>

text \<open>
  The fields both contexts have: \<open>state_\<close>, \<open>buffer_\<close> and \<open>buffer_size_\<close>, which never
  exceeds the block length.
\<close>

record 's md_buffer =
  md_state :: 's
  md_buf :: bytes
  md_size :: nat

record sha256_ctx = "u32 list md_buffer" +
  s256_bit_count :: u64
  s256_finalized :: bool

record sha512_ctx = "u64 list md_buffer" +
  s512_bit_count_low :: u64
  s512_bit_count_high :: u64
  s512_finalized :: bool

text \<open>
  The loop of update, for a block of \<open>B\<close> bytes and the transform \<open>f\<close>: copy what fits, and
  transform and empty the buffer when it is full. At the loop's head the buffer is never full;
  with a full one the model stops.
\<close>

function md_absorb :: "nat \<Rightarrow> ('s \<Rightarrow> bytes \<Rightarrow> 's) \<Rightarrow> ('s, 'z) md_buffer_scheme \<Rightarrow> bytes \<Rightarrow> ('s, 'z) md_buffer_scheme" where
  "md_absorb B f c input =
     (if input = [] \<or> B \<le> md_size c then c
      else
        let space = B - md_size c;
            tk = min space (length input);
            c1 = c\<lparr>md_buf := write_at (md_buf c) (md_size c) (take tk input),
                   md_size := md_size c + tk\<rparr>;
            c2 = (if md_size c1 = B
                  then c1\<lparr>md_state := f (md_state c1) (md_buf c1), md_size := 0\<rparr> else c1)
        in md_absorb B f c2 (drop tk input))"
  by pat_completeness auto
termination
  by (relation "measure (\<lambda>(B, f, c, input). length input)") (auto simp: Let_def min_def)

declare md_absorb.simps [simp del]

text \<open>
  The body of final up to the digest: the marker byte, the zeros, an extra block when the count
  does not fit behind the marker, and the bit count in the last bytes of the block. \<open>L\<close> is the
  place of the count in the block.
\<close>

definition md_finish :: "nat \<Rightarrow> nat \<Rightarrow> ('s \<Rightarrow> bytes \<Rightarrow> 's) \<Rightarrow> bytes \<Rightarrow> ('s, 'z) md_buffer_scheme \<Rightarrow> ('s, 'z) md_buffer_scheme" where
  "md_finish B L f count c =
     (let c1 = c\<lparr>md_buf := (md_buf c)[md_size c := 0x80], md_size := md_size c + 1\<rparr>;
          c2 = (if L < md_size c1
                then let b = write_at (md_buf c1) (md_size c1) (replicate (B - md_size c1) 0)
                     in c1\<lparr>md_buf := b, md_state := f (md_state c1) b, md_size := 0\<rparr>
                else c1);
          b1 = write_at (md_buf c2) (md_size c2) (replicate (L - md_size c2) 0);
          b2 = write_at b1 L count
      in c2\<lparr>md_buf := b2, md_state := f (md_state c2) b2\<rparr>)"

definition sha256_new :: sha256_ctx where
  "sha256_new = \<lparr>md_state = sha256_iv, md_buf = replicate 64 0, md_size = 0,
     s256_bit_count = 0, s256_finalized = False\<rparr>"

definition sha256_update :: "sha256_ctx \<Rightarrow> bytes \<Rightarrow> unit result \<times> sha256_ctx" where
  "sha256_update c input =
     (if s256_finalized c
      then (Inl (make_error Invalid_argument ''sha256'' ''cannot update finalized hash context''), c)
      else
        let c1 = c\<lparr>s256_bit_count := s256_bit_count c + of_nat (length input) * 8\<rparr>
        in (Inr (), md_absorb 64 sha256_transform c1 input))"

definition sha256_final :: "sha256_ctx \<Rightarrow> bytes result \<times> sha256_ctx" where
  "sha256_final c =
     (if s256_finalized c
      then (Inl (make_error Invalid_argument ''sha256'' ''hash context is already finalized''), c)
      else
        let c1 = c\<lparr>s256_finalized := True\<rparr>;
            c2 = md_finish 64 56 sha256_transform (store_be64 (s256_bit_count c1)) c1
        in (Inr (concat (map store_be32 (md_state c2))), c2))"

definition sha512_new :: sha512_ctx where
  "sha512_new = \<lparr>md_state = sha512_iv, md_buf = replicate 128 0, md_size = 0,
     s512_bit_count_low = 0, s512_bit_count_high = 0, s512_finalized = False\<rparr>"

definition sha512_update :: "sha512_ctx \<Rightarrow> bytes \<Rightarrow> unit result \<times> sha512_ctx" where
  "sha512_update c input =
     (if s512_finalized c
      then (Inl (make_error Invalid_argument ''sha512'' ''cannot update finalized hash context''), c)
      else
        let size = (of_nat (length input) :: u64);
            added_bits = size * 8;
            low = s512_bit_count_low c + added_bits;
            high = (if low < added_bits then s512_bit_count_high c + 1 else s512_bit_count_high c);
            c1 = c\<lparr>s512_bit_count_low := low, s512_bit_count_high := high + drop_bit 61 size\<rparr>
        in (Inr (), md_absorb 128 sha512_transform c1 input))"

definition sha512_final :: "sha512_ctx \<Rightarrow> bytes result \<times> sha512_ctx" where
  "sha512_final c =
     (if s512_finalized c
      then (Inl (make_error Invalid_argument ''sha512'' ''hash context is already finalized''), c)
      else
        let c1 = c\<lparr>s512_finalized := True\<rparr>;
            c2 = md_finish 128 112 sha512_transform
                   (store_be64 (s512_bit_count_high c1) @ store_be64 (s512_bit_count_low c1)) c1
        in (Inr (concat (map store_be64 (md_state c2))), c2))"

section \<open>The specification\<close>

text \<open>
  The Merkle-Damgard iteration over whole blocks: the chaining state, and the bytes that do not
  fill a block.
\<close>

function md_run :: "nat \<Rightarrow> ('s \<Rightarrow> bytes \<Rightarrow> 's) \<Rightarrow> 's \<Rightarrow> bytes \<Rightarrow> 's \<times> bytes" where
  "md_run B f s bs =
     (if B = 0 \<or> length bs < B then (s, bs) else md_run B f (f s (take B bs)) (drop B bs))"
  by pat_completeness auto
termination
  by (relation "measure (\<lambda>(B, f, s, bs). length bs)") auto

declare md_run.simps [simp del]

text \<open>FIPS 180-4, section 5.1: a one bit, zeros, and the length in bits.\<close>

definition sha256_pad :: "bytes \<Rightarrow> bytes" where
  "sha256_pad msg = msg @ [0x80] @ replicate ((119 - length msg mod 64) mod 64) 0
     @ store_be64 (of_nat (8 * length msg))"

definition sha512_pad :: "bytes \<Rightarrow> bytes" where
  "sha512_pad msg = msg @ [0x80] @ replicate ((239 - length msg mod 128) mod 128) 0
     @ store_be64 (of_nat (8 * length msg div 2 ^ 64)) @ store_be64 (of_nat (8 * length msg))"

definition sha256 :: "bytes \<Rightarrow> bytes" where
  "sha256 msg = concat (map store_be32 (fst (md_run 64 sha256_transform sha256_iv (sha256_pad msg))))"

definition sha512 :: "bytes \<Rightarrow> bytes" where
  "sha512 msg = concat (map store_be64 (fst (md_run 128 sha512_transform sha512_iv (sha512_pad msg))))"

section \<open>The iteration\<close>

lemma md_run_short: "length bs < B \<Longrightarrow> md_run B f s bs = (s, bs)"
  by (simp add: md_run.simps)

lemma md_run_block:
  "0 < B \<Longrightarrow> length b = B \<Longrightarrow> md_run B f s (b @ bs) = md_run B f (f s b) bs"
  by (subst md_run.simps) auto

lemma md_run_append:
  "md_run B f s (xs @ ys) = (let (t, r) = md_run B f s xs in md_run B f t (r @ ys))"
proof (induction B f s xs rule: md_run.induct)
  case (1 B f s bs)
  show ?case
  proof (cases "B = 0 \<or> length bs < B")
    case True
    then show ?thesis by (subst (2) md_run.simps) simp
  next
    case False
    have "md_run B f s (bs @ ys) = md_run B f (f s (take B bs)) (drop B bs @ ys)"
      using False by (subst md_run.simps) simp
    also have "\<dots> = (let (t, r) = md_run B f s bs in md_run B f t (r @ ys))"
      using 1 [OF False] False by (simp add: md_run.simps [of B f s bs])
    finally show ?thesis .
  qed
qed

lemma md_run_rest: "0 < B \<Longrightarrow> length (snd (md_run B f s bs)) = length bs mod B"
proof (induction B f s bs rule: md_run.induct)
  case (1 B f s bs)
  then show ?case
    by (cases "length bs < B") (simp_all add: md_run.simps [of B f s bs] le_mod_geq)
qed

lemma md_absorb_run:
  assumes "length (md_buf c) = B" "md_size c < B"
  shows "length (md_buf (md_absorb B f c input)) = B \<and> md_size (md_absorb B f c input) < B \<and>
    md_run B f (md_state c) (take (md_size c) (md_buf c) @ input) =
      (md_state (md_absorb B f c input), take (md_size (md_absorb B f c input)) (md_buf (md_absorb B f c input)))"
  using assms
proof (induction B f c input rule: md_absorb.induct)
  case (1 B f c input)
  show ?case
  proof (cases "input = []")
    case True
    then show ?thesis using 1(2,3) by (simp add: md_absorb.simps md_run_short)
  next
    case ne: False
    define tk where "tk = min (B - md_size c) (length input)"
    define b where "b = write_at (md_buf c) (md_size c) (take tk input)"
    define c1 where "c1 = c\<lparr>md_buf := b, md_size := md_size c + tk\<rparr>"
    define c2 where "c2 = (if md_size c1 = B then c1\<lparr>md_state := f (md_state c1) (md_buf c1), md_size := 0\<rparr> else c1)"
    have tk: "tk \<le> length input" "md_size c + tk \<le> B" using 1(3) by (auto simp: tk_def)
    have lb: "length b = B" using 1(2) tk by (simp add: b_def)
    have tb: "take (md_size c + tk) b = take (md_size c) (md_buf c) @ take tk input"
      using take_write_at [of "md_size c" "md_buf c" "take tk input"] 1(2,3) tk by (simp add: b_def min_absorb1 min_absorb2)
    have step: "md_absorb B f c input = md_absorb B f c2 (drop tk input)"
      using ne 1(3) by (subst md_absorb.simps) (simp add: Let_def c2_def c1_def b_def tk_def)
    have IH: "length (md_buf c2) = B \<Longrightarrow> md_size c2 < B \<Longrightarrow>
        length (md_buf (md_absorb B f c2 (drop tk input))) = B \<and> md_size (md_absorb B f c2 (drop tk input)) < B \<and>
        md_run B f (md_state c2) (take (md_size c2) (md_buf c2) @ drop tk input) =
          (md_state (md_absorb B f c2 (drop tk input)),
           take (md_size (md_absorb B f c2 (drop tk input))) (md_buf (md_absorb B f c2 (drop tk input))))"
      using 1(1) [OF _ refl tk_def c1_def [unfolded b_def] c2_def] ne 1(3) by simp
    have run: "md_run B f (md_state c) (take (md_size c) (md_buf c) @ input)
        = md_run B f (md_state c2) (take (md_size c2) (md_buf c2) @ drop tk input)"
    proof (cases "md_size c + tk = B")
      case True
      have b: "b = take (md_size c) (md_buf c) @ take tk input" using tb True lb by simp
      have "take (md_size c) (md_buf c) @ input = b @ drop tk input" by (simp add: b)
      then have "md_run B f (md_state c) (take (md_size c) (md_buf c) @ input)
          = md_run B f (f (md_state c) b) (drop tk input)"
        using md_run_block [of B b f "md_state c" "drop tk input"] lb 1(3) by simp
      then show ?thesis using True by (simp add: c2_def c1_def)
    next
      case False
      then have "take (md_size c2) (md_buf c2) = take (md_size c) (md_buf c) @ take tk input"
        using tb by (simp add: c2_def c1_def)
      then show ?thesis using False by (simp add: c2_def c1_def)
    qed
    show ?thesis unfolding step run
      using tk lb 1(3) by (intro IH) (auto simp: c2_def c1_def)
  qed
qed

lemma md_absorb_keeps:
  "s256_bit_count (md_absorb B f (c::sha256_ctx) input) = s256_bit_count c"
  "s256_finalized (md_absorb B f (c::sha256_ctx) input) = s256_finalized c"
  "s512_bit_count_low (md_absorb B f' (d::sha512_ctx) input) = s512_bit_count_low d"
  "s512_bit_count_high (md_absorb B f' (d::sha512_ctx) input) = s512_bit_count_high d"
  "s512_finalized (md_absorb B f' (d::sha512_ctx) input) = s512_finalized d"
proof -
  show "s256_bit_count (md_absorb B f c input) = s256_bit_count c"
    by (induction B f c input rule: md_absorb.induct) (subst md_absorb.simps, simp add: Let_def)
  show "s256_finalized (md_absorb B f c input) = s256_finalized c"
    by (induction B f c input rule: md_absorb.induct) (subst md_absorb.simps, simp add: Let_def)
  show "s512_bit_count_low (md_absorb B f' d input) = s512_bit_count_low d"
    by (induction B f' d input rule: md_absorb.induct) (subst md_absorb.simps, simp add: Let_def)
  show "s512_bit_count_high (md_absorb B f' d input) = s512_bit_count_high d"
    by (induction B f' d input rule: md_absorb.induct) (subst md_absorb.simps, simp add: Let_def)
  show "s512_finalized (md_absorb B f' d input) = s512_finalized d"
    by (induction B f' d input rule: md_absorb.induct) (subst md_absorb.simps, simp add: Let_def)
qed

lemma md_finish_run:
  assumes "length (md_buf c) = B" "md_size c < B" "L + length count = B" "count \<noteq> []"
  shows "md_state (md_finish B L f count c) = fst (md_run B f (md_state c) (take (md_size c) (md_buf c) @ [0x80] @
    replicate (if md_size c < L then L - (md_size c + 1) else B - (md_size c + 1) + L) 0 @ count))"
proof -
  let ?p = "take (md_size c) (md_buf c) @ [0x80::u8]"
  have upd: "(md_buf c)[md_size c := 0x80] = ?p @ drop (md_size c + 1) (md_buf c)"
    using assms(1,2) by (simp add: upd_conv_take_nth_drop)
  have count: "write_at xs L count = take L xs @ count" if "length xs = B" for xs :: bytes
    using that assms(3) by (simp add: write_at_def)
  show ?thesis
  proof (cases "md_size c < L")
    case True
    have w: "write_at (?p @ drop (md_size c + 1) (md_buf c)) (md_size c + 1) (replicate (L - (md_size c + 1)) 0)
        = ?p @ replicate (L - (md_size c + 1)) 0 @ drop L (md_buf c)"
      using True assms by (simp add: write_at_def drop_Cons')
    have "write_at (?p @ replicate (L - (md_size c + 1)) 0 @ drop L (md_buf c)) L count
        = ?p @ replicate (L - (md_size c + 1)) 0 @ count"
      using True assms by (subst count) (simp_all add: take_Cons')
    then have "md_state (md_finish B L f count c) = f (md_state c) (?p @ replicate (L - (md_size c + 1)) 0 @ count)"
      using True w by (simp add: md_finish_def Let_def upd)
    moreover have "md_run B f (md_state c) (?p @ replicate (L - (md_size c + 1)) 0 @ count)
        = (f (md_state c) (?p @ replicate (L - (md_size c + 1)) 0 @ count), [])"
      using md_run_block [of B "?p @ replicate (L - (md_size c + 1)) 0 @ count" f "md_state c" "[]"] True assms
      by (simp add: md_run_short)
    ultimately show ?thesis using True by simp
  next
    case False
    let ?b1 = "?p @ replicate (B - (md_size c + 1)) (0::u8)"
    let ?b2 = "replicate L (0::u8) @ count"
    have w1: "write_at (?p @ drop (md_size c + 1) (md_buf c)) (md_size c + 1) (replicate (B - (md_size c + 1)) 0) = ?b1"
      using assms by (simp add: write_at_def)
    have w2: "write_at ?b1 0 (replicate L 0) = replicate L 0 @ drop L ?b1"
      by (simp add: write_at_def)
    have w3: "write_at (replicate L 0 @ drop L ?b1) L count = ?b2"
      using assms by (subst count) auto
    have "md_state (md_finish B L f count c) = f (f (md_state c) ?b1) ?b2"
      using False w1 w2 w3 by (simp add: md_finish_def Let_def upd)
    moreover have "md_run B f (md_state c) (?b1 @ ?b2 @ []) = (f (f (md_state c) ?b1) ?b2, [])"
      using assms by (subst md_run_block, simp, simp, subst md_run_block, simp_all add: md_run_short)
    ultimately show ?thesis using False by (simp add: replicate_add)
  qed
qed

section \<open>Refinement of the contexts\<close>

text \<open>The context has absorbed \<open>msg\<close> and is not finalized.\<close>

definition md_absorbed :: "nat \<Rightarrow> ('s \<Rightarrow> bytes \<Rightarrow> 's) \<Rightarrow> 's \<Rightarrow> ('s, 'z) md_buffer_scheme \<Rightarrow> bytes \<Rightarrow> bool" where
  "md_absorbed B f iv c msg \<longleftrightarrow> length (md_buf c) = B \<and> md_size c < B \<and>
     md_run B f iv msg = (md_state c, take (md_size c) (md_buf c))"

definition sha256_absorbed :: "sha256_ctx \<Rightarrow> bytes \<Rightarrow> bool" where
  "sha256_absorbed c msg \<longleftrightarrow> md_absorbed 64 sha256_transform sha256_iv c msg \<and>
     s256_bit_count c = of_nat (8 * length msg) \<and> \<not> s256_finalized c"

definition sha512_absorbed :: "sha512_ctx \<Rightarrow> bytes \<Rightarrow> bool" where
  "sha512_absorbed c msg \<longleftrightarrow> md_absorbed 128 sha512_transform sha512_iv c msg \<and>
     s512_bit_count_low c = of_nat (8 * length msg) \<and>
     s512_bit_count_high c = of_nat (8 * length msg div 2 ^ 64) \<and> \<not> s512_finalized c"

lemma md_absorbed_absorb:
  "md_absorbed B f iv c msg \<Longrightarrow> md_absorbed B f iv (md_absorb B f c input) (msg @ input)"
  using md_absorb_run [of c B f input] md_run_append [of B f iv msg input] by (simp add: md_absorbed_def)

lemma md_absorbed_size: "md_absorbed B f iv c msg \<Longrightarrow> md_size c = length msg mod B"
  using md_run_rest [of B f iv msg] by (auto simp: md_absorbed_def)

lemma md_absorbed_finish:
  assumes "md_absorbed B f iv c msg" "L + length count = B" "count \<noteq> []"
  shows "md_state (md_finish B L f count c) = fst (md_run B f iv (msg @ [0x80] @
    replicate (if length msg mod B < L then L - (length msg mod B + 1) else B - (length msg mod B + 1) + L) 0 @ count))"
proof -
  note size = md_absorbed_size [OF assms(1)]
  have "length (md_buf c) = B" "md_size c < B"
    and run: "md_run B f iv msg = (md_state c, take (md_size c) (md_buf c))"
    using assms(1) by (auto simp: md_absorbed_def)
  from md_finish_run [OF this(1,2) assms(2,3)] show ?thesis
    by (simp add: size md_run_append [of B f iv msg] run)
qed

lemma pad_zeros_256:
  "r < 64 \<Longrightarrow> (if r < 56 then 56 - (r + 1) else 64 - (r + 1) + 56) = (119 - r) mod (64::nat)"
  by (auto simp: mod_if)

lemma pad_zeros_512:
  "r < 128 \<Longrightarrow> (if r < 112 then 112 - (r + 1) else 128 - (r + 1) + 112) = (239 - r) mod (128::nat)"
  by (auto simp: mod_if)

lemma sha256_absorbed_new: "sha256_absorbed sha256_new []"
  by (simp add: sha256_absorbed_def md_absorbed_def sha256_new_def md_run_short)

lemma sha512_absorbed_new: "sha512_absorbed sha512_new []"
  by (simp add: sha512_absorbed_def md_absorbed_def sha512_new_def md_run_short)

lemma sha256_update_absorbed:
  assumes "sha256_absorbed c msg"
  shows "fst (sha256_update c input) = Inr ()" "sha256_absorbed (snd (sha256_update c input)) (msg @ input)"
proof -
  have *: "md_absorbed 64 sha256_transform sha256_iv (c\<lparr>s256_bit_count := n\<rparr>) msg" for n
    using assms by (simp add: sha256_absorbed_def md_absorbed_def)
  show "fst (sha256_update c input) = Inr ()" "sha256_absorbed (snd (sha256_update c input)) (msg @ input)"
    using assms md_absorbed_absorb [OF *, of _ input]
    by (simp_all add: sha256_absorbed_def sha256_update_def md_absorb_keeps Let_def algebra_simps)
qed

lemma sha256_final_absorbed:
  assumes "sha256_absorbed c msg"
  shows "fst (sha256_final c) = Inr (sha256 msg)"
proof -
  have "md_absorbed 64 sha256_transform sha256_iv (c\<lparr>s256_finalized := True\<rparr>) msg"
    using assms by (simp add: sha256_absorbed_def md_absorbed_def)
  from md_absorbed_finish [OF this, of 56 "store_be64 (s256_bit_count c)"]
  have "md_state (md_finish 64 56 sha256_transform (store_be64 (s256_bit_count c)) (c\<lparr>s256_finalized := True\<rparr>))
      = fst (md_run 64 sha256_transform sha256_iv (sha256_pad msg))"
    using assms by (simp only: pad_zeros_256 store_be64_length sha256_absorbed_def sha256_pad_def) simp
  then show ?thesis
    using assms by (simp add: sha256_final_def sha256_def sha256_absorbed_def Let_def)
qed

text \<open>The 128-bit message length: a carry out of the low word, and the top three bits of the size.\<close>

lemma carry_64: "x + y < y \<longleftrightarrow> 2 ^ 64 \<le> unat x + unat (y::u64)"
proof -
  have "unat x < 2 ^ 64" "unat y < 2 ^ 64"
    using unsigned_less [of x, where 'a = nat] unsigned_less [of y, where 'a = nat] by simp_all
  then show ?thesis by (auto simp: word_less_nat_alt unat_plus_if')
qed

lemma bit_count_high:
  assumes "n < 2 ^ 64"
  shows "(if (of_nat (8 * m) :: u64) + of_nat n * 8 < of_nat n * 8
      then of_nat (8 * m div 2 ^ 64) + 1 else of_nat (8 * m div 2 ^ 64)) + drop_bit 61 (of_nat n :: u64)
    = of_nat (8 * (m + n) div 2 ^ 64)"
proof -
  let ?a = "8 * m" and ?b = "8 * n"
  have n8: "of_nat n * 8 = (of_nat ?b :: u64)" by simp
  have d: "drop_bit 61 (of_nat n :: u64) = of_nat (?b div 2 ^ 64)"
    using assms by (simp add: word_unat_eq_iff unat_drop_bit_div unat_of_nat)
  have c: "(of_nat ?a :: u64) + of_nat ?b < of_nat ?b \<longleftrightarrow> 2 ^ 64 \<le> ?a mod 2 ^ 64 + ?b mod 2 ^ 64"
    unfolding carry_64 unat_of_nat by simp
  have "(?a + ?b) div 2 ^ 64 = ?a div 2 ^ 64 + ?b div 2 ^ 64 + (?a mod 2 ^ 64 + ?b mod 2 ^ 64) div 2 ^ 64"
    by (rule div_add1_eq)
  also have "(?a mod 2 ^ 64 + ?b mod 2 ^ 64) div 2 ^ 64 = (if 2 ^ 64 \<le> ?a mod 2 ^ 64 + ?b mod 2 ^ 64 then 1 else 0)"
    using mod_less_divisor [of "2 ^ 64" ?a] mod_less_divisor [of "2 ^ 64" ?b] by (auto simp: div_if)
  finally have "(?a + ?b) div 2 ^ 64 = ?a div 2 ^ 64 + ?b div 2 ^ 64 +
      (if (of_nat ?a :: u64) + of_nat ?b < of_nat ?b then 1 else 0)"
    unfolding c .
  then have "of_nat ((?a + ?b) div 2 ^ 64) = (of_nat (?a div 2 ^ 64) :: u64) + of_nat (?b div 2 ^ 64) +
      (if (of_nat ?a :: u64) + of_nat ?b < of_nat ?b then 1 else 0)"
    by (cases "(of_nat ?a :: u64) + of_nat ?b < of_nat ?b") (simp_all only: of_nat_add of_nat_0 of_nat_1 if_True if_False semiring_1_class.of_nat_0)
  then show ?thesis
    unfolding n8 d by (simp only: distrib_left) (simp add: algebra_simps)
qed

lemma sha512_update_absorbed:
  assumes "sha512_absorbed c msg" "length input < 2 ^ 64"
  shows "fst (sha512_update c input) = Inr ()" "sha512_absorbed (snd (sha512_update c input)) (msg @ input)"
proof -
  have *: "md_absorbed 128 sha512_transform sha512_iv
      (c\<lparr>s512_bit_count_low := l, s512_bit_count_high := h\<rparr>) msg" for l h
    using assms by (simp add: sha512_absorbed_def md_absorbed_def)
  show "fst (sha512_update c input) = Inr ()"
    using assms by (simp add: sha512_absorbed_def sha512_update_def Let_def)
  have low: "s512_bit_count_low c = of_nat (8 * length msg)"
    and high: "s512_bit_count_high c = of_nat (8 * length msg div 2 ^ 64)"
    using assms by (simp_all add: sha512_absorbed_def)
  have "\<not> s512_finalized c" using assms by (simp add: sha512_absorbed_def)
  then show "sha512_absorbed (snd (sha512_update c input)) (msg @ input)"
    unfolding sha512_absorbed_def sha512_update_def Let_def low high bit_count_high [OF assms(2)]
    using md_absorbed_absorb [OF *, of _ _ input]
    by (simp add: md_absorb_keeps algebra_simps)
qed

lemma sha512_final_absorbed:
  assumes "sha512_absorbed c msg"
  shows "fst (sha512_final c) = Inr (sha512 msg)"
proof -
  have "md_absorbed 128 sha512_transform sha512_iv (c\<lparr>s512_finalized := True\<rparr>) msg"
    using assms by (simp add: sha512_absorbed_def md_absorbed_def)
  from md_absorbed_finish [OF this, of 112 "store_be64 (s512_bit_count_high c) @ store_be64 (s512_bit_count_low c)"]
  have "md_state (md_finish 128 112 sha512_transform (store_be64 (s512_bit_count_high c) @ store_be64 (s512_bit_count_low c))
        (c\<lparr>s512_finalized := True\<rparr>))
      = fst (md_run 128 sha512_transform sha512_iv (sha512_pad msg))"
    using assms by (simp only: pad_zeros_512 store_be64_length sha512_absorbed_def sha512_pad_def length_append) simp
  then show ?thesis
    using assms by (simp add: sha512_final_def sha512_def sha512_absorbed_def Let_def)
qed

text \<open>A context that has been finalized stays so, and refuses both operations.\<close>

lemma sha256_final_finalized: "s256_finalized (snd (sha256_final c))"
  by (simp add: sha256_final_def md_finish_def Let_def)

lemma sha512_final_finalized: "s512_finalized (snd (sha512_final c))"
  by (simp add: sha512_final_def md_finish_def Let_def)

text \<open>The digest sizes.\<close>

lemma length_add_working [simp]: "length (add_working s v) = 8"
  by (cases "(s, v)" rule: add_working.cases) simp

lemma md_run_length_state:
  "length s = 8 \<Longrightarrow> (\<And>t b. length (f t b) = 8) \<Longrightarrow> length (fst (md_run B f s bs)) = 8"
  by (induction B f s bs rule: md_run.induct) (subst md_run.simps, auto)

lemma length_sha256 [simp]: "length (sha256 m) = 32"
proof -
  have "length (fst (md_run 64 sha256_transform sha256_iv (sha256_pad m))) = 8"
    by (rule md_run_length_state) (simp_all add: sha256_iv_def sha256_transform_def Let_def)
  then show ?thesis by (simp add: sha256_def length_concat_const [of store_be32 4])
qed

lemma length_sha512 [simp]: "length (sha512 m) = 64"
proof -
  have "length (fst (md_run 128 sha512_transform sha512_iv (sha512_pad m))) = 8"
    by (rule md_run_length_state) (simp_all add: sha512_iv_def sha512_transform_def Let_def)
  then show ?thesis by (simp add: sha512_def length_concat_const [of store_be64 8])
qed

section \<open>The interface of a hash context\<close>

text \<open>
  IHashContext, as its clients (HMAC, HKDF, the signature schemes) use it: \<open>absorbed c m\<close> says
  that the open context \<open>c\<close> has been given \<open>m\<close>, and \<open>H\<close> is the function final computes.
\<close>

locale hash_context =
  fixes upd :: "'c \<Rightarrow> bytes \<Rightarrow> unit result \<times> 'c"
    and fin :: "'c \<Rightarrow> bytes result \<times> 'c"
    and absorbed :: "'c \<Rightarrow> bytes \<Rightarrow> bool"
    and H :: "bytes \<Rightarrow> bytes"
  assumes upd_ok: "absorbed c m \<Longrightarrow> length x < 2 ^ 64 \<Longrightarrow> fst (upd c x) = Inr ()"
    and upd_absorbed: "absorbed c m \<Longrightarrow> length x < 2 ^ 64 \<Longrightarrow> absorbed (snd (upd c x)) (m @ x)"
    and fin_ok: "absorbed c m \<Longrightarrow> fst (fin c) = Inr (H m)"
begin

definition upds :: "'c \<Rightarrow> bytes list \<Rightarrow> 'c" where
  "upds c xs = foldl (\<lambda>c x. snd (upd c x)) c xs"

lemma upds_absorbed:
  "absorbed c m \<Longrightarrow> \<forall>x\<in>set xs. length x < 2 ^ 64 \<Longrightarrow> absorbed (upds c xs) (m @ concat xs)"
proof (induction xs arbitrary: c m)
  case (Cons x xs)
  then show ?case
    using upd_absorbed [of c m x] Cons.IH [of "snd (upd c x)" "m @ x"] by (simp add: upds_def)
qed (simp add: upds_def)

lemma upds_fin:
  "absorbed c m \<Longrightarrow> \<forall>x\<in>set xs. length x < 2 ^ 64 \<Longrightarrow> fst (fin (upds c xs)) = Inr (H (m @ concat xs))"
  by (rule fin_ok [OF upds_absorbed])

end

interpretation sha256_hc: hash_context sha256_update sha256_final sha256_absorbed sha256
  by unfold_locales (simp_all add: sha256_update_absorbed sha256_final_absorbed)

interpretation sha512_hc: hash_context sha512_update sha512_final sha512_absorbed sha512
  by unfold_locales (simp_all add: sha512_update_absorbed sha512_final_absorbed)

section \<open>The message schedule\<close>

lemma foldl_store_words:
  "i < n \<Longrightarrow> n \<le> k \<Longrightarrow> foldl (\<lambda>w i. w[i := g i]) (replicate k 0) [0..<n] ! i = g i"
  using foldl_update_rec [of 0 "\<lambda>w i. g i" n "replicate k 0" i] by simp

text \<open>FIPS 180-4, section 6.2.2, step 1: the schedule satisfies the recurrence.\<close>

lemma sha256_schedule_spec:
  "length (sha256_schedule block) = 64"
  "t < 16 \<Longrightarrow> sha256_schedule block ! t = load_be32 (drop (t * 4) block)"
  "16 \<le> t \<Longrightarrow> t < 64 \<Longrightarrow> sha256_schedule block ! t =
     (let w = sha256_schedule block
      in w ! (t - 16) + (rotr32 (w ! (t - 15)) 7 XOR rotr32 (w ! (t - 15)) 18 XOR drop_bit 3 (w ! (t - 15)))
         + w ! (t - 7) + (rotr32 (w ! (t - 2)) 17 XOR rotr32 (w ! (t - 2)) 19 XOR drop_bit 10 (w ! (t - 2))))"
proof -
  show "length (sha256_schedule block) = 64"
    unfolding sha256_schedule_def Let_def by (simp only: length_foldl_update length_replicate)
  show "t < 16 \<Longrightarrow> sha256_schedule block ! t = load_be32 (drop (t * 4) block)"
    unfolding sha256_schedule_def Let_def by (simp add: foldl_update_other foldl_store_words del: upt_rec_numeral)
  define g where "g = (\<lambda>w i. w ! (i - 16) + (rotr32 (w ! (i - 15)) 7 XOR rotr32 (w ! (i - 15)) 18 XOR drop_bit 3 (w ! (i - 15)))
       + w ! (i - 7) + (rotr32 (w ! (i - 2)) 17 XOR rotr32 (w ! (i - 2)) 19 XOR drop_bit 10 (w ! (i - 2))))"
  have w: "sha256_schedule block = foldl (\<lambda>w i. w[i := g w i])
      (foldl (\<lambda>w i. w[i := load_be32 (drop (i * 4) block)]) (replicate 64 0) [0..<16]) [16..<64]"
    by (simp only: sha256_schedule_def Let_def g_def)
  have loc: "g w i = g w' i" if "16 \<le> i" "\<forall>j<i. w ! j = w' ! j" for w w' i
    using that by (simp add: g_def)
  have rec: "sha256_schedule block ! t = g (sha256_schedule block) t" if "16 \<le> t" "t < 64"
    unfolding w using that by (intro foldl_update_rec loc) (simp_all only: length_foldl_update length_replicate)
  show "16 \<le> t \<Longrightarrow> t < 64 \<Longrightarrow> sha256_schedule block ! t =
     (let w = sha256_schedule block
      in w ! (t - 16) + (rotr32 (w ! (t - 15)) 7 XOR rotr32 (w ! (t - 15)) 18 XOR drop_bit 3 (w ! (t - 15)))
         + w ! (t - 7) + (rotr32 (w ! (t - 2)) 17 XOR rotr32 (w ! (t - 2)) 19 XOR drop_bit 10 (w ! (t - 2))))"
    unfolding Let_def using rec by (simp only: g_def)
qed

lemma sha512_schedule_spec:
  "length (sha512_schedule block) = 80"
  "t < 16 \<Longrightarrow> sha512_schedule block ! t = load_be64 (drop (t * 8) block)"
  "16 \<le> t \<Longrightarrow> t < 80 \<Longrightarrow> sha512_schedule block ! t =
     (let w = sha512_schedule block
      in w ! (t - 16) + (rotr64 (w ! (t - 15)) 1 XOR rotr64 (w ! (t - 15)) 8 XOR drop_bit 7 (w ! (t - 15)))
         + w ! (t - 7) + (rotr64 (w ! (t - 2)) 19 XOR rotr64 (w ! (t - 2)) 61 XOR drop_bit 6 (w ! (t - 2))))"
proof -
  show "length (sha512_schedule block) = 80"
    unfolding sha512_schedule_def Let_def by (simp only: length_foldl_update length_replicate)
  show "t < 16 \<Longrightarrow> sha512_schedule block ! t = load_be64 (drop (t * 8) block)"
    unfolding sha512_schedule_def Let_def by (simp add: foldl_update_other foldl_store_words del: upt_rec_numeral)
  define g where "g = (\<lambda>w i. w ! (i - 16) + (rotr64 (w ! (i - 15)) 1 XOR rotr64 (w ! (i - 15)) 8 XOR drop_bit 7 (w ! (i - 15)))
       + w ! (i - 7) + (rotr64 (w ! (i - 2)) 19 XOR rotr64 (w ! (i - 2)) 61 XOR drop_bit 6 (w ! (i - 2))))"
  have w: "sha512_schedule block = foldl (\<lambda>w i. w[i := g w i])
      (foldl (\<lambda>w i. w[i := load_be64 (drop (i * 8) block)]) (replicate 80 0) [0..<16]) [16..<80]"
    by (simp only: sha512_schedule_def Let_def g_def)
  have loc: "g w i = g w' i" if "16 \<le> i" "\<forall>j<i. w ! j = w' ! j" for w w' i
    using that by (simp add: g_def)
  have rec: "sha512_schedule block ! t = g (sha512_schedule block) t" if "16 \<le> t" "t < 80"
    unfolding w using that by (intro foldl_update_rec loc) (simp_all only: length_foldl_update length_replicate)
  show "16 \<le> t \<Longrightarrow> t < 80 \<Longrightarrow> sha512_schedule block ! t =
     (let w = sha512_schedule block
      in w ! (t - 16) + (rotr64 (w ! (t - 15)) 1 XOR rotr64 (w ! (t - 15)) 8 XOR drop_bit 7 (w ! (t - 15)))
         + w ! (t - 7) + (rotr64 (w ! (t - 2)) 19 XOR rotr64 (w ! (t - 2)) 61 XOR drop_bit 6 (w ! (t - 2))))"
    unfolding Let_def using rec by (simp only: g_def)
qed

section \<open>Properties\<close>

text \<open>
  C22: hashing a message in pieces with SHA-256 - any sequence of updates on a new context, then
  final - returns the FIPS 180-4 digest of the concatenation, whatever the sizes of the pieces.
\<close>

theorem sha256_streaming:
  "fst (sha256_final (foldl (\<lambda>c x. snd (sha256_update c x)) sha256_new chunks)) = Inr (sha256 (concat chunks))"
proof -
  have "sha256_absorbed (foldl (\<lambda>c x. snd (sha256_update c x)) c chunks) (m @ concat chunks)"
    if "sha256_absorbed c m" for c m
    using that
    by (induction chunks arbitrary: c m) (simp_all add: sha256_update_absorbed flip: append_assoc)
  from this [OF sha256_absorbed_new] show ?thesis
    by (simp add: sha256_final_absorbed)
qed

text \<open>
  C21: the same for SHA-512, whose 128-bit counter carries from its low word to its high word; a
  piece is a span, so its size fits in 64 bits.
\<close>

theorem sha512_streaming:
  assumes "\<forall>x\<in>set chunks. length x < 2 ^ 64"
  shows "fst (sha512_final (foldl (\<lambda>c x. snd (sha512_update c x)) sha512_new chunks)) = Inr (sha512 (concat chunks))"
  using sha512_hc.upds_fin [OF sha512_absorbed_new assms] by (simp add: sha512_hc.upds_def)

theorem sha512_streaming_witness:
  "fst (sha512_final (foldl (\<lambda>c x. snd (sha512_update c x)) sha512_new [[0x61, 0x62], [], [0x63]]))
    = Inr (sha512 [0x61, 0x62, 0x63])"
  using sha512_streaming [of "[[0x61, 0x62], [], [0x63]]"] by simp

text \<open>
  After final, a SHA-256 or SHA-512 context refuses update and final with invalid_argument and
  is left as it is.
\<close>

lemma sha2_finalized_refuses:
  "sha256_update (snd (sha256_final c)) x =
    (Inl (make_error Invalid_argument ''sha256'' ''cannot update finalized hash context''), snd (sha256_final c))
   \<and> sha256_final (snd (sha256_final c)) =
    (Inl (make_error Invalid_argument ''sha256'' ''hash context is already finalized''), snd (sha256_final c))
   \<and> sha512_update (snd (sha512_final d)) x =
    (Inl (make_error Invalid_argument ''sha512'' ''cannot update finalized hash context''), snd (sha512_final d))
   \<and> sha512_final (snd (sha512_final d)) =
    (Inl (make_error Invalid_argument ''sha512'' ''hash context is already finalized''), snd (sha512_final d))"
  using sha256_final_finalized [of c] sha512_final_finalized [of d]
  by (simp add: sha256_update_def sha512_update_def sha256_final_def [of "snd (sha256_final c)"]
      sha512_final_def [of "snd (sha512_final d)"])

end
