(* ===== verification/Hmac.thy ===== *)
theory Hmac
  imports Sha2
begin

text \<open>
  include/crypto_core/hash.hpp and mac.hpp, src/hash.cpp, src/mac.cpp and src/hmac.cpp: the two
  hash contexts behind IHashContext, HmacContext, and hash() and mac() on NativeProvider. HMAC is
  proved against RFC 2104 from the contract of a hash context alone.
\<close>

section \<open>Hash algorithms and contexts\<close>

datatype hash_algorithm = Sha256 | Sha512

fun digest_size :: "hash_algorithm \<Rightarrow> nat" where
  "digest_size Sha256 = 32"
| "digest_size Sha512 = 64"

fun hash_algorithm_name :: "hash_algorithm \<Rightarrow> string" where
  "hash_algorithm_name Sha256 = ''SHA256''"
| "hash_algorithm_name Sha512 = ''SHA512''"

text \<open>IHashContext: the two classes that implement it, and the virtual calls.\<close>

datatype hash_ctx = Sha256_context sha256_ctx | Sha512_context sha512_ctx

fun hash_update :: "hash_ctx \<Rightarrow> bytes \<Rightarrow> unit result \<times> hash_ctx" where
  "hash_update (Sha256_context c) input = map_prod id Sha256_context (sha256_update c input)"
| "hash_update (Sha512_context c) input = map_prod id Sha512_context (sha512_update c input)"

fun hash_final :: "hash_ctx \<Rightarrow> bytes result \<times> hash_ctx" where
  "hash_final (Sha256_context c) = map_prod id Sha256_context (sha256_final c)"
| "hash_final (Sha512_context c) = map_prod id Sha512_context (sha512_final c)"

text \<open>A context that does not exist (a null pointer) is None.\<close>

fun make_hash_context :: "hash_algorithm \<Rightarrow> hash_ctx option" where
  "make_hash_context Sha256 = Some (Sha256_context sha256_new)"
| "make_hash_context Sha512 = Some (Sha512_context sha512_new)"

fun hash_block_size :: "hash_algorithm \<Rightarrow> nat" where
  "hash_block_size Sha256 = 64"
| "hash_block_size Sha512 = 128"

fun hash_once :: "hash_algorithm \<Rightarrow> bytes \<Rightarrow> bytes result" where
  "hash_once algorithm input =
     (case make_hash_context algorithm of
        None \<Rightarrow> Inl (make_error Unsupported_algorithm ''hmac'' ''hash algorithm is not supported'')
      | Some context \<Rightarrow>
          (case hash_update context input of
             (Inl e, _) \<Rightarrow> Inl e
           | (Inr _, context) \<Rightarrow> fst (hash_final context)))"

text \<open>NativeProvider::create_hash and hash().\<close>

fun create_hash :: "hash_algorithm \<Rightarrow> hash_ctx result" where
  "create_hash Sha256 = Inr (Sha256_context sha256_new)"
| "create_hash Sha512 = Inr (Sha512_context sha512_new)"

definition hash :: "hash_algorithm \<Rightarrow> bytes \<Rightarrow> bytes result" where
  "hash algorithm input =
     rbind (create_hash algorithm) (\<lambda>context.
       case hash_update context input of
         (Inl e, _) \<Rightarrow> Inl e
       | (Inr _, context) \<Rightarrow> fst (hash_final context))"

section \<open>HmacContext\<close>

record hmac_ctx =
  hm_algorithm :: hash_algorithm
  hm_outer_pad :: bytes
  hm_inner :: "hash_ctx option"
  hm_initialized :: bool
  hm_finalized :: bool

text \<open>The key as the pads use it: hashed when it is longer than a block, then filled with zeros.\<close>

definition normalized_key :: "hash_algorithm \<Rightarrow> bytes \<Rightarrow> bytes result" where
  "normalized_key algorithm key =
     (let size = hash_block_size algorithm in
      rbind (if size < length key then hash_once algorithm key else Inr key)
        (\<lambda>k. Inr (take size k @ replicate (size - length k) 0)))"

definition hmac_new :: "hash_algorithm \<Rightarrow> bytes \<Rightarrow> hmac_ctx" where
  "hmac_new algorithm key =
     (let c0 = \<lparr>hm_algorithm = algorithm, hm_outer_pad = [], hm_inner = None,
                hm_initialized = False, hm_finalized = False\<rparr>;
          size = hash_block_size algorithm
      in if size = 0 then c0
         else case normalized_key algorithm key of
                Inl _ \<Rightarrow> c0
              | Inr k \<Rightarrow>
                  let inner_pad = map (\<lambda>b. b XOR 0x36) k;
                      c1 = c0\<lparr>hm_outer_pad := map (\<lambda>b. b XOR 0x5c) k\<rparr>
                  in (case make_hash_context algorithm of
                        None \<Rightarrow> c1
                      | Some inner \<Rightarrow>
                          let (r, inner') = hash_update inner inner_pad
                          in c1\<lparr>hm_inner := Some inner', hm_initialized := has_value r\<rparr>))"

definition hmac_update :: "hmac_ctx \<Rightarrow> bytes \<Rightarrow> unit result \<times> hmac_ctx" where
  "hmac_update c input =
     (if hm_finalized c
      then (Inl (make_error Invalid_argument ''hmac'' ''cannot update finalized MAC context''), c)
      else if \<not> hm_initialized c
      then (Inl (make_error Provider_error ''hmac'' ''MAC context is not initialized''), c)
      else let (r, inner) = hash_update (the (hm_inner c)) input
           in (r, c\<lparr>hm_inner := Some inner\<rparr>))"

definition hmac_final :: "hmac_ctx \<Rightarrow> bytes result \<times> hmac_ctx" where
  "hmac_final c =
     (if hm_finalized c
      then (Inl (make_error Invalid_argument ''hmac'' ''MAC context is already finalized''), c)
      else if \<not> hm_initialized c
      then (Inl (make_error Provider_error ''hmac'' ''MAC context is not initialized''), c)
      else
        let (inner_digest, inner) = hash_final (the (hm_inner c));
            c1 = c\<lparr>hm_finalized := True, hm_inner := Some inner\<rparr>
        in (rbind inner_digest (\<lambda>digest.
              case make_hash_context (hm_algorithm c) of
                None \<Rightarrow> Inl (make_error Unsupported_algorithm ''hmac'' ''hash algorithm is not supported'')
              | Some outer \<Rightarrow>
                  let (r1, outer1) = hash_update outer (hm_outer_pad c) in
                  rbind r1 (\<lambda>_.
                    let (r2, outer2) = hash_update outer1 digest in
                    rbind r2 (\<lambda>_. fst (hash_final outer2)))), c1))"

section \<open>MAC algorithms\<close>

datatype mac_algorithm = Hmac_sha256 | Hmac_sha512

fun mac_size :: "mac_algorithm \<Rightarrow> nat" where
  "mac_size Hmac_sha256 = 32"
| "mac_size Hmac_sha512 = 64"

fun mac_algorithm_name :: "mac_algorithm \<Rightarrow> string" where
  "mac_algorithm_name Hmac_sha256 = ''HMAC-SHA256''"
| "mac_algorithm_name Hmac_sha512 = ''HMAC-SHA512''"

fun mac_hash :: "mac_algorithm \<Rightarrow> hash_algorithm" where
  "mac_hash Hmac_sha256 = Sha256"
| "mac_hash Hmac_sha512 = Sha512"

text \<open>NativeProvider::create_mac and mac().\<close>

definition create_mac :: "mac_algorithm \<Rightarrow> bytes \<Rightarrow> hmac_ctx result" where
  "create_mac algorithm key =
     (let context = hmac_new (mac_hash algorithm) key
      in if \<not> hm_initialized context
         then Inl (make_error Provider_error ''native_provider'' ''failed to initialize HMAC context'')
         else Inr context)"

definition mac :: "mac_algorithm \<Rightarrow> bytes \<Rightarrow> bytes \<Rightarrow> bytes result" where
  "mac algorithm key input =
     rbind (create_mac algorithm key) (\<lambda>context.
       case hmac_update context input of
         (Inl e, _) \<Rightarrow> Inl e
       | (Inr _, context) \<Rightarrow> fst (hmac_final context))"

section \<open>Specification\<close>

fun hash_spec :: "hash_algorithm \<Rightarrow> bytes \<Rightarrow> bytes" where
  "hash_spec Sha256 m = sha256 m"
| "hash_spec Sha512 m = sha512 m"

fun hash_absorbed :: "hash_algorithm \<Rightarrow> hash_ctx \<Rightarrow> bytes \<Rightarrow> bool" where
  "hash_absorbed Sha256 (Sha256_context c) m = sha256_absorbed c m"
| "hash_absorbed Sha512 (Sha512_context c) m = sha512_absorbed c m"
| "hash_absorbed _ _ m = False"

text \<open>RFC 2104, for a hash with a block of \<open>B\<close> bytes.\<close>

definition hmac_rfc2104 :: "(bytes \<Rightarrow> bytes) \<Rightarrow> nat \<Rightarrow> bytes \<Rightarrow> bytes \<Rightarrow> bytes" where
  "hmac_rfc2104 H B key msg =
     (let k = (if B < length key then H key else key);
          k0 = k @ replicate (B - length k) 0
      in H (xor_bytes k0 (replicate B 0x5c) @ H (xor_bytes k0 (replicate B 0x36) @ msg)))"

definition hmac_spec :: "mac_algorithm \<Rightarrow> bytes \<Rightarrow> bytes \<Rightarrow> bytes" where
  "hmac_spec a = hmac_rfc2104 (hash_spec (mac_hash a)) (hash_block_size (mac_hash a))"

section \<open>Refinement\<close>

lemma length_hash_spec [simp]: "length (hash_spec a m) = digest_size a"
  by (cases a) simp_all

lemma digest_le_block: "digest_size a \<le> hash_block_size a" "digest_size a < 2 ^ 64" "0 < digest_size a"
  by (cases a; simp)+

lemma block_size_bounds [simp]: "0 < hash_block_size a" "hash_block_size a < 2 ^ 64"
  by (cases a; simp)+

lemma hash_absorbed_update:
  "hash_absorbed a c m \<Longrightarrow> length x < 2 ^ 64 \<Longrightarrow> fst (hash_update c x) = Inr ()"
  "hash_absorbed a c m \<Longrightarrow> length x < 2 ^ 64 \<Longrightarrow> hash_absorbed a (snd (hash_update c x)) (m @ x)"
  by (cases a; cases c; simp add: sha256_update_absorbed sha512_update_absorbed)+

lemma hash_absorbed_final: "hash_absorbed a c m \<Longrightarrow> fst (hash_final c) = Inr (hash_spec a m)"
  by (cases a; cases c) (simp_all add: sha256_final_absorbed sha512_final_absorbed)

interpretation hash_hc: hash_context hash_update hash_final "hash_absorbed a" "hash_spec a" for a
  by unfold_locales (simp_all add: hash_absorbed_update hash_absorbed_final)

lemma make_hash_context_new:
  obtains c where "make_hash_context a = Some c" "create_hash a = Inr c" "hash_absorbed a c []"
  by (cases a) (auto simp: sha256_absorbed_new sha512_absorbed_new)

lemma hash_once_spec: "length x < 2 ^ 64 \<Longrightarrow> hash_once a x = Inr (hash_spec a x)"
  by (rule make_hash_context_new [of a])
    (auto simp: hash_absorbed_final dest: hash_absorbed_update [of _ _ _ x] split: prod.split sum.split)

lemma hash_spec_correct: "length x < 2 ^ 64 \<Longrightarrow> hash a x = Inr (hash_spec a x)"
  by (rule make_hash_context_new [of a])
    (auto simp: hash_def hash_absorbed_final dest: hash_absorbed_update [of _ _ _ x] split: prod.split sum.split)

definition hmac_key_block :: "hash_algorithm \<Rightarrow> bytes \<Rightarrow> bytes" where
  "hmac_key_block a key =
     (let k = (if hash_block_size a < length key then hash_spec a key else key)
      in k @ replicate (hash_block_size a - length k) 0)"

lemma length_hmac_key_block [simp]: "length (hmac_key_block a key) = hash_block_size a"
  using digest_le_block [of a] by (simp add: hmac_key_block_def Let_def)

lemma xor_bytes_const: "length k = n \<Longrightarrow> xor_bytes k (replicate n v) = map (\<lambda>b. b XOR v) k"
  by (induction k arbitrary: n) auto

lemma normalized_key_spec: "length key < 2 ^ 64 \<Longrightarrow> normalized_key a key = Inr (hmac_key_block a key)"
  using digest_le_block [of a]
  by (simp add: normalized_key_def hash_once_spec hmac_key_block_def Let_def del: hash_once.simps)

text \<open>The MAC context under \<open>key\<close> has absorbed \<open>m\<close>.\<close>

definition hmac_absorbed :: "hash_algorithm \<Rightarrow> bytes \<Rightarrow> hmac_ctx \<Rightarrow> bytes \<Rightarrow> bool" where
  "hmac_absorbed a key c m \<longleftrightarrow> hm_algorithm c = a \<and> hm_initialized c \<and> \<not> hm_finalized c \<and>
     hm_outer_pad c = map (\<lambda>b. b XOR 0x5c) (hmac_key_block a key) \<and>
     (\<exists>inner. hm_inner c = Some inner \<and>
        hash_absorbed a inner (map (\<lambda>b. b XOR 0x36) (hmac_key_block a key) @ m))"

lemma hmac_absorbed_new: "length key < 2 ^ 64 \<Longrightarrow> hmac_absorbed a key (hmac_new a key) []"
proof (rule make_hash_context_new [of a])
  fix c assume len: "length key < 2 ^ 64" and c: "make_hash_context a = Some c" "hash_absorbed a c []"
  let ?ipad = "map (\<lambda>b. b XOR 0x36) (hmac_key_block a key)"
  have l: "length ?ipad < 2 ^ 64" using block_size_bounds(2) [of a] by simp
  note upd = hash_absorbed_update [OF c(2) l]
  obtain inner where "hash_update c ?ipad = (Inr (), inner)"
    using upd(1) by (cases "hash_update c ?ipad") auto
  with upd(2) show "hmac_absorbed a key (hmac_new a key) []"
    by (simp add: hmac_absorbed_def hmac_new_def normalized_key_spec [OF len] c(1) Let_def)
qed

lemma hmac_update_absorbed:
  assumes "hmac_absorbed a key c m" "length x < 2 ^ 64"
  shows "fst (hmac_update c x) = Inr ()" "hmac_absorbed a key (snd (hmac_update c x)) (m @ x)"
proof -
  let ?ipad = "map (\<lambda>b. b XOR 0x36) (hmac_key_block a key)"
  from assms(1) obtain inner where i: "hm_inner c = Some inner" "hash_absorbed a inner (?ipad @ m)"
    by (auto simp: hmac_absorbed_def)
  note upd = hash_absorbed_update [OF i(2) assms(2)]
  obtain inner' where "hash_update inner x = (Inr (), inner')"
    using upd(1) by (cases "hash_update inner x") auto
  with upd(2) i(1) assms(1)
  show "fst (hmac_update c x) = Inr ()" "hmac_absorbed a key (snd (hmac_update c x)) (m @ x)"
    by (simp_all add: hmac_absorbed_def hmac_update_def)
qed

lemma hmac_final_absorbed:
  assumes "hmac_absorbed a key c m"
  shows "fst (hmac_final c) = Inr (hmac_rfc2104 (hash_spec a) (hash_block_size a) key m)"
proof (rule make_hash_context_new [of a])
  fix outer assume o: "make_hash_context a = Some outer" "hash_absorbed a outer []"
  let ?k = "hmac_key_block a key"
  let ?ipad = "map (\<lambda>b. b XOR 0x36) ?k" and ?opad = "map (\<lambda>b. b XOR 0x5c) ?k"
  from assms obtain inner where i: "hm_inner c = Some inner" "hash_absorbed a inner (?ipad @ m)"
    by (auto simp: hmac_absorbed_def)
  let ?d = "hash_spec a (?ipad @ m)"
  obtain inner' where fin: "hash_final inner = (Inr ?d, inner')"
    using hash_absorbed_final [OF i(2)] by (cases "hash_final inner") auto
  have l: "length ?opad < 2 ^ 64" using block_size_bounds(2) [of a] by simp
  obtain outer1 where o1: "hash_update outer ?opad = (Inr (), outer1)" "hash_absorbed a outer1 ?opad"
    using hash_absorbed_update [OF o(2) l] by (cases "hash_update outer ?opad") auto
  have "length ?d < 2 ^ 64" using digest_le_block(2) by simp
  from hash_absorbed_update [OF o1(2) this]
  obtain outer2 where o2: "hash_update outer1 ?d = (Inr (), outer2)" "hash_absorbed a outer2 (?opad @ ?d)"
    by (cases "hash_update outer1 ?d") auto
  have "fst (hmac_final c) = Inr (hash_spec a (?opad @ ?d))"
    using assms i(1) fin o(1) o1(1) o2(1) hash_absorbed_final [OF o2(2)]
    by (simp add: hmac_absorbed_def hmac_final_def)
  then show ?thesis
    by (simp add: hmac_rfc2104_def Let_def flip: hmac_key_block_def [unfolded Let_def] xor_bytes_const)
qed

text \<open>IMacContext has the contract of IHashContext, with HMAC under the key for the hash.\<close>

interpretation hmac_hc: hash_context hmac_update hmac_final "hmac_absorbed a key"
    "hmac_rfc2104 (hash_spec a) (hash_block_size a) key" for a key
  by unfold_locales (simp_all add: hmac_update_absorbed hmac_final_absorbed)

lemma create_mac_absorbed:
  assumes "length key < 2 ^ 64"
  obtains c where "create_mac a key = Inr c" "hmac_absorbed (mac_hash a) key c []"
  using hmac_absorbed_new [OF assms, of "mac_hash a"] by (auto simp: create_mac_def hmac_absorbed_def)

lemma mac_spec:
  assumes "length key < 2 ^ 64" "length input < 2 ^ 64"
  shows "mac a key input = Inr (hmac_spec a key input)"
proof (rule create_mac_absorbed [OF assms(1), of a])
  fix c assume c: "create_mac a key = Inr c" "hmac_absorbed (mac_hash a) key c []"
  show ?thesis
    using hmac_update_absorbed [OF c(2) assms(2)] c(1)
    by (auto simp: mac_def hmac_spec_def hmac_final_absorbed split: prod.split sum.split)
qed

lemma length_hmac_spec [simp]: "length (hmac_spec a key m) = mac_size a"
  by (cases a) (simp_all add: hmac_spec_def hmac_rfc2104_def Let_def)

lemma mac_size_bounds: "0 < mac_size a" "mac_size a \<le> 64" "mac_size a < 2 ^ 64"
  by (cases a; simp)+

section \<open>Properties\<close>

text \<open>
  C27: HMAC. A MAC context created under a key and fed a message in pieces returns the MAC of the
  whole message as RFC 2104 defines it, for keys shorter and longer than a block.
\<close>

theorem hmac_streaming:
  assumes "length key < 2 ^ 64" "\<forall>x\<in>set chunks. length x < 2 ^ 64"
  shows "rbind (create_mac a key) (\<lambda>c. fst (hmac_final (foldl (\<lambda>c x. snd (hmac_update c x)) c chunks)))
    = Inr (hmac_rfc2104 (hash_spec (mac_hash a)) (hash_block_size (mac_hash a)) key (concat chunks))"
proof (rule create_mac_absorbed [OF assms(1), of a])
  fix c assume c: "create_mac a key = Inr c" "hmac_absorbed (mac_hash a) key c []"
  show ?thesis
    using hmac_hc.upds_fin [OF c(2) assms(2)] c(1) by (simp add: hmac_hc.upds_def)
qed

theorem hmac_streaming_witness:
  "rbind (create_mac Hmac_sha512 [1, 2, 3])
      (\<lambda>c. fst (hmac_final (foldl (\<lambda>c x. snd (hmac_update c x)) c [[4], [5, 6]])))
    = Inr (hmac_rfc2104 sha512 128 [1, 2, 3] [4, 5, 6])"
proof -
  have "hash_spec Sha512 = sha512" by (rule ext) simp
  then show ?thesis using hmac_streaming [of "[1, 2, 3]" "[[4], [5, 6]]" Hmac_sha512] by simp
qed

end
