(* ===== verification/Kdf.thy ===== *)
theory Kdf
  imports Hmac
begin

text \<open>
  include/crypto_core/kdf.hpp and src/kdf_native.cpp: PBKDF2 (RFC 8018) and HKDF (RFC 5869) on
  NativeProvider's HMAC. A function returns None when it never returns to its caller: its loop
  does not end, or it is a noexcept function that lets an exception of std::vector out.
\<close>

section \<open>Algorithms\<close>

datatype kdf_algorithm = Pbkdf2_hmac_sha256 | Pbkdf2_hmac_sha512 | Hkdf_sha256 | Hkdf_sha512

fun kdf_algorithm_name :: "kdf_algorithm \<Rightarrow> string" where
  "kdf_algorithm_name Pbkdf2_hmac_sha256 = ''PBKDF2-HMAC-SHA256''"
| "kdf_algorithm_name Pbkdf2_hmac_sha512 = ''PBKDF2-HMAC-SHA512''"
| "kdf_algorithm_name Hkdf_sha256 = ''HKDF-SHA256''"
| "kdf_algorithm_name Hkdf_sha512 = ''HKDF-SHA512''"

fun pbkdf2_mac :: "kdf_algorithm \<Rightarrow> mac_algorithm result" where
  "pbkdf2_mac Pbkdf2_hmac_sha256 = Inr Hmac_sha256"
| "pbkdf2_mac Pbkdf2_hmac_sha512 = Inr Hmac_sha512"
| "pbkdf2_mac _ = Inl (make_error Unsupported_algorithm ''kdf'' ''KDF algorithm is not a PBKDF2 algorithm'')"

fun hkdf_mac :: "kdf_algorithm \<Rightarrow> mac_algorithm result" where
  "hkdf_mac Hkdf_sha256 = Inr Hmac_sha256"
| "hkdf_mac Hkdf_sha512 = Inr Hmac_sha512"
| "hkdf_mac _ = Inl (make_error Unsupported_algorithm ''kdf'' ''KDF algorithm is not an HKDF algorithm'')"

text \<open>A vector longer than this throws std::length_error (vector::max_size, PTRDIFF_MAX bytes).\<close>

definition vector_max_size :: u64 where
  "vector_max_size = 0x7fffffffffffffff"

section \<open>PBKDF2\<close>

text \<open>The inner loop, for the \<open>n\<close> iterations after the first: \<open>u\<close> and the accumulator \<open>t\<close>.\<close>

primrec pbkdf2_iterate :: "mac_algorithm \<Rightarrow> bytes \<Rightarrow> nat \<Rightarrow> bytes \<Rightarrow> bytes \<Rightarrow> bytes result" where
  "pbkdf2_iterate m password 0 u t = Inr t"
| "pbkdf2_iterate m password (Suc n) u t =
     rbind (mac m password u) (\<lambda>u. pbkdf2_iterate m password n u (xor_bytes t u))"

text \<open>The body of the block loop: the block for \<open>block_index\<close>, which append_be32 puts behind the salt.\<close>

definition pbkdf2_block :: "mac_algorithm \<Rightarrow> bytes \<Rightarrow> bytes \<Rightarrow> u32 \<Rightarrow> u32 \<Rightarrow> bytes result" where
  "pbkdf2_block m password salt iterations block_index =
     rbind (mac m password (salt @ store_be32 block_index))
       (\<lambda>u. pbkdf2_iterate m password (unat iterations - 1) u u)"

text \<open>
  The loop over the 32-bit \<open>block_index\<close>. A counter that runs up to a bound of \<open>2 ^ 32 - 1\<close>
  wraps and never exceeds it.
\<close>

partial_function (option) pbkdf2_loop ::
  "mac_algorithm \<Rightarrow> bytes \<Rightarrow> bytes \<Rightarrow> u32 \<Rightarrow> nat \<Rightarrow> u32 \<Rightarrow> u32 \<Rightarrow> bytes \<Rightarrow> bytes result option" where
  "pbkdf2_loop m password salt iterations output_size blocks block_index output =
     (if block_index \<le> blocks
      then case pbkdf2_block m password salt iterations block_index of
             Inl e \<Rightarrow> Some (Inl e)
           | Inr t \<Rightarrow>
               let remaining = output_size - length output
               in pbkdf2_loop m password salt iterations output_size blocks (block_index + 1)
                    (output @ take (min remaining (length t)) t)
      else Some (Inr output))"

definition native_pbkdf2 ::
  "kdf_algorithm \<Rightarrow> bytes \<Rightarrow> bytes \<Rightarrow> u32 \<Rightarrow> u64 \<Rightarrow> bytes result option" where
  "native_pbkdf2 algorithm password salt iterations output_size =
     (if iterations = 0 \<or> output_size = 0
      then Some (Inl (make_error Invalid_argument ''kdf'' ''PBKDF2 iterations and output size must be non-zero''))
      else case pbkdf2_mac algorithm of
             Inl e \<Rightarrow> Some (Inl e)
           | Inr m \<Rightarrow>
               let digest_size = of_nat (mac_size m) :: u64;
                   blocks = (output_size + digest_size - 1) div digest_size
               in if 0xffffffff < blocks
                  then Some (Inl (make_error Invalid_argument ''kdf'' ''PBKDF2 output size is too large''))
                  else if vector_max_size < output_size then None
                  else pbkdf2_loop m password salt iterations (unat output_size) (ucast blocks) 1 [])"

section \<open>HKDF\<close>

text \<open>The expand loop: the 8-bit counter, the previous block and the output so far.\<close>

partial_function (option) hkdf_loop ::
  "mac_algorithm \<Rightarrow> bytes \<Rightarrow> bytes \<Rightarrow> nat \<Rightarrow> u8 \<Rightarrow> bytes \<Rightarrow> bytes \<Rightarrow> bytes result option" where
  "hkdf_loop m prk info output_size counter previous output =
     (if length output < output_size
      then case create_mac m prk of
             Inl e \<Rightarrow> Some (Inl e)
           | Inr c0 \<Rightarrow>
             (case hmac_update c0 previous of
                (Inl e, _) \<Rightarrow> Some (Inl e)
              | (Inr _, c1) \<Rightarrow>
             (case hmac_update c1 info of
                (Inl e, _) \<Rightarrow> Some (Inl e)
              | (Inr _, c2) \<Rightarrow>
             (case hmac_update c2 [counter] of
                (Inl e, _) \<Rightarrow> Some (Inl e)
              | (Inr _, c3) \<Rightarrow>
             (case fst (hmac_final c3) of
                Inl e \<Rightarrow> Some (Inl e)
              | Inr t \<Rightarrow>
                  let remaining = output_size - length output
                  in hkdf_loop m prk info output_size (counter + 1) t
                       (output @ take (min remaining (length t)) t)))))
      else Some (Inr output))"

definition native_hkdf ::
  "kdf_algorithm \<Rightarrow> bytes \<Rightarrow> bytes \<Rightarrow> bytes \<Rightarrow> u64 \<Rightarrow> bytes result option" where
  "native_hkdf algorithm input_key_material salt info output_size =
     (if output_size = 0
      then Some (Inl (make_error Invalid_argument ''kdf'' ''HKDF output size must be non-zero''))
      else case hkdf_mac algorithm of
             Inl e \<Rightarrow> Some (Inl e)
           | Inr m \<Rightarrow>
               let digest_size = of_nat (mac_size m) :: u64
               in if 255 * digest_size < output_size
                  then Some (Inl (make_error Invalid_argument ''kdf'' ''HKDF output size is too large''))
                  else
                    let zero_salt = replicate (mac_size m) 0;
                        salt_span = (if salt = [] then zero_salt else salt)
                    in case mac m salt_span input_key_material of
                         Inl e \<Rightarrow> Some (Inl e)
                       | Inr prk \<Rightarrow> hkdf_loop m prk info (unat output_size) 1 [] [])"

section \<open>Specifications\<close>

text \<open>RFC 8018, section 5.2: \<open>U_1 xor ... xor U_c\<close>, and the blocks \<open>T_1 ... T_l\<close> cut to the output length.\<close>

primrec pbkdf2_U :: "mac_algorithm \<Rightarrow> bytes \<Rightarrow> bytes \<Rightarrow> nat \<Rightarrow> bytes" where
  "pbkdf2_U m P S 0 = hmac_spec m P S"
| "pbkdf2_U m P S (Suc j) = hmac_spec m P (pbkdf2_U m P S j)"

definition pbkdf2_T :: "mac_algorithm \<Rightarrow> bytes \<Rightarrow> bytes \<Rightarrow> nat \<Rightarrow> nat \<Rightarrow> bytes" where
  "pbkdf2_T m P S c i =
     (let U = pbkdf2_U m P (S @ store_be32 (of_nat i)) in foldl xor_bytes (U 0) (map U [1..<c]))"

definition pbkdf2_rfc8018 :: "mac_algorithm \<Rightarrow> bytes \<Rightarrow> bytes \<Rightarrow> nat \<Rightarrow> nat \<Rightarrow> bytes" where
  "pbkdf2_rfc8018 m P S c dkLen =
     (let l = (dkLen + mac_size m - 1) div mac_size m
      in take dkLen (concat (map (pbkdf2_T m P S c) [1..<l + 1])))"

text \<open>RFC 5869: extract, and the blocks \<open>T(i)\<close> of expand.\<close>

fun hkdf_T :: "mac_algorithm \<Rightarrow> bytes \<Rightarrow> bytes \<Rightarrow> nat \<Rightarrow> bytes" where
  "hkdf_T m prk info 0 = []"
| "hkdf_T m prk info (Suc i) = hmac_spec m prk (hkdf_T m prk info i @ info @ [of_nat (Suc i)])"

definition hkdf_rfc5869 :: "mac_algorithm \<Rightarrow> bytes \<Rightarrow> bytes \<Rightarrow> bytes \<Rightarrow> nat \<Rightarrow> bytes" where
  "hkdf_rfc5869 m ikm salt info L =
     (let prk = hmac_spec m (if salt = [] then replicate (mac_size m) 0 else salt) ikm;
          n = (L + mac_size m - 1) div mac_size m
      in take L (concat (map (hkdf_T m prk info) [1..<n + 1])))"

section \<open>PBKDF2 against RFC 8018\<close>

lemma length_pbkdf2_U [simp]: "length (pbkdf2_U m P S j) = mac_size m"
  by (cases j) simp_all

lemma pbkdf2_iterate_spec:
  assumes "length P < 2 ^ 64"
  shows "pbkdf2_iterate m P n (pbkdf2_U m P S j) t =
    Inr (foldl xor_bytes t (map (pbkdf2_U m P S) [Suc j..<Suc j + n]))"
proof (induction n arbitrary: j t)
  case (Suc n)
  have "mac m P (pbkdf2_U m P S j) = Inr (pbkdf2_U m P S (Suc j))"
    using assms mac_size_bounds(3) [of m] by (simp add: mac_spec)
  moreover have "[Suc j..<Suc j + Suc n] = Suc j # [Suc (Suc j)..<Suc (Suc j) + n]"
    by (simp add: upt_rec)
  ultimately show ?case
    using Suc.IH [of "Suc j" "xor_bytes t (pbkdf2_U m P S (Suc j))"] by simp
qed simp

lemma pbkdf2_block_spec:
  assumes "length P < 2 ^ 64" "length S + 4 < 2 ^ 64" "0 < iterations"
  shows "pbkdf2_block m P S iterations idx = Inr (pbkdf2_T m P S (unat iterations) (unat idx))"
proof -
  have "mac m P (S @ store_be32 idx) = Inr (pbkdf2_U m P (S @ store_be32 idx) 0)"
    using assms by (simp add: mac_spec)
  moreover have "Suc 0 + (unat iterations - 1) = unat iterations"
    using assms(3) by (simp add: word_less_nat_alt)
  ultimately show ?thesis
    using pbkdf2_iterate_spec [OF assms(1), of m "unat iterations - 1" "S @ store_be32 idx" 0]
    by (simp add: pbkdf2_block_def pbkdf2_T_def Let_def)
qed

lemma concat_map_upt_Suc: "1 \<le> i \<Longrightarrow> concat (map f [1..<i]) @ f i = concat (map f [1..<Suc i])"
  by simp

lemma pbkdf2_loop_spec:
  fixes m :: mac_algorithm
  assumes "length P < 2 ^ 64" "length S + 4 < 2 ^ 64" "0 < iterations" "unat blocks < 2 ^ 32 - 1"
    and "1 \<le> unat idx" "unat idx \<le> Suc (unat blocks)"
  defines "T \<equiv> pbkdf2_T m P S (unat iterations)"
  shows "pbkdf2_loop m P S iterations n blocks idx (take n (concat (map T [1..<unat idx]))) =
    Some (Inr (take n (concat (map T [1..<Suc (unat blocks)]))))"
  using assms(5,6)
proof (induction "Suc (unat blocks) - unat idx" arbitrary: idx)
  case 0
  then have "\<not> idx \<le> blocks" "unat idx = Suc (unat blocks)" by (simp_all add: word_le_nat_alt)
  then show ?case by (subst pbkdf2_loop.simps) simp
next
  case (Suc k)
  have le: "idx \<le> blocks" using Suc.hyps(2) by (simp add: word_le_nat_alt)
  have next_idx: "unat (idx + 1) = Suc (unat idx)"
    using Suc.prems Suc.hyps(2) assms(4) by (simp add: unat_plus_if')
  have "pbkdf2_loop m P S iterations n blocks (idx + 1) (take n (concat (map T [1..<unat (idx + 1)])))
      = Some (Inr (take n (concat (map T [1..<Suc (unat blocks)]))))"
    using Suc.hyps(2) next_idx by (intro Suc.hyps(1)) simp_all
  moreover have "take n (concat (map T [1..<unat (idx + 1)])) =
      take n (concat (map T [1..<unat idx])) @
      take (min (n - length (take n (concat (map T [1..<unat idx])))) (length (T (unat idx)))) (T (unat idx))"
    unfolding take_append_rest next_idx concat_map_upt_Suc [OF Suc.prems(1)] ..
  ultimately show ?case
    by (subst pbkdf2_loop.simps)
      (simp only: le if_True pbkdf2_block_spec [OF assms(1-3)] T_def sum.case Let_def)
qed

text \<open>With a bound of \<open>2 ^ 32 - 1\<close> the loop does not end.\<close>

lemma pbkdf2_loop_diverges:
  assumes "length P < 2 ^ 64" "length S + 4 < 2 ^ 64" "0 < iterations"
  shows "pbkdf2_loop m P S iterations n 0xffffffff idx out = None"
proof -
  have max: "i \<le> (0xffffffff :: u32)" for i
    using unsigned_less [of i, where 'a = nat] by (simp add: word_le_nat_alt)
  have "\<not> (P' = P \<and> S' = S \<and> it = iterations \<and> bl = 0xffffffff)"
    if "pbkdf2_loop m' P' S' it n' bl idx' out' = Some y" for m' P' S' it n' bl idx' out' y
  proof (rule pbkdf2_loop.raw_induct
      [where P = "\<lambda>m' P' S' it n' bl idx' out' y. \<not> (P' = P \<and> S' = S \<and> it = iterations \<and> bl = 0xffffffff)",
        OF _ that], goal_cases)
    case (1 loop m' P' S' it n' bl idx' out' y)
    have "P' = P \<Longrightarrow> S' = S \<Longrightarrow> it = iterations \<Longrightarrow> bl = 0xffffffff \<Longrightarrow>
        \<exists>out''. loop m' P S iterations n' 0xffffffff (idx' + 1) out'' = Some y"
      using 1(2) by (auto simp: max pbkdf2_block_spec [OF assms] Let_def)
    then show ?case using 1(1) by blast
  qed
  then show ?thesis by (cases "pbkdf2_loop m P S iterations n 0xffffffff idx out") blast+
qed

text \<open>The block count, without overflow for the sizes a vector can have.\<close>

lemma pbkdf2_blocks:
  assumes "unat n + mac_size m \<le> 2 ^ 64"
  shows "unat (((n::u64) + of_nat (mac_size m) - 1) div of_nat (mac_size m)) = (unat n + mac_size m - 1) div mac_size m"
proof -
  have d: "unat (of_nat (mac_size m) :: u64) = mac_size m" by (cases m) simp_all
  have "unat (n + (of_nat (mac_size m) - 1)) = unat n + (mac_size m - 1)"
    using assms by (cases m) (auto simp: unat_plus_if' )
  then have "unat (n + of_nat (mac_size m) - 1) = unat n + mac_size m - 1"
    using mac_size_bounds(1) [of m] by (simp add: algebra_simps)
  then show ?thesis by (simp add: unat_div d)
qed

lemma native_pbkdf2_loop:
  assumes "pbkdf2_mac algorithm = Inr m" "0 < iterations" "0 < n"
    and "unat n \<le> (2 ^ 32 - 1) * mac_size m" and l_def: "l = (unat n + mac_size m - 1) div mac_size m"
  shows "native_pbkdf2 algorithm P S iterations n = pbkdf2_loop m P S iterations (unat n) (of_nat l) 1 []"
    and "l \<le> 2 ^ 32 - 1"
proof -
  have d: "0 < mac_size m" "mac_size m \<le> 64" using mac_size_bounds by auto
  have "(2 ^ 32 - 1) * mac_size m \<le> (2 ^ 32 - 1) * (64::nat)" using d(2) by (rule mult_le_mono2)
  then have small: "unat n \<le> (2 ^ 32 - 1) * 64" using assms(4) by (rule le_trans [rotated])
  show l: "l \<le> 2 ^ 32 - 1" unfolding l_def ceil_div_le_iff [OF d(1)] by (rule assms(4))
  have b: "unat ((n + of_nat (mac_size m) - 1) div of_nat (mac_size m)) = l"
    unfolding l_def using small d by (intro pbkdf2_blocks) simp
  have "\<not> 0xffffffff < (n + of_nat (mac_size m) - 1) div of_nat (mac_size m)"
    unfolding word_less_nat_alt b using l by simp
  moreover have "ucast ((n + of_nat (mac_size m) - 1) div of_nat (mac_size m)) = (of_nat l :: u32)"
    unfolding word_unat_eq_iff unat_ucast_mod b by (simp add: unat_of_nat)
  moreover have "\<not> vector_max_size < n"
    using small by (simp add: vector_max_size_def word_less_nat_alt)
  ultimately show "native_pbkdf2 algorithm P S iterations n = pbkdf2_loop m P S iterations (unat n) (of_nat l) 1 []"
    using assms(1-3) by (simp add: native_pbkdf2_def Let_def word_gt_0)
qed

lemma native_pbkdf2_spec:
  assumes "pbkdf2_mac algorithm = Inr m" "0 < iterations" "0 < n"
    and "unat n \<le> (2 ^ 32 - 2) * mac_size m" "length P < 2 ^ 64" "length S + 4 < 2 ^ 64"
  shows "native_pbkdf2 algorithm P S iterations n = Some (Inr (pbkdf2_rfc8018 m P S (unat iterations) (unat n)))"
proof -
  define l where l_def: "l = (unat n + mac_size m - 1) div mac_size m"
  have d: "0 < mac_size m" using mac_size_bounds by auto
  have "(2 ^ 32 - 2) * mac_size m \<le> (2 ^ 32 - 1) * mac_size m" by simp
  with assms(4) have le: "unat n \<le> (2 ^ 32 - 1) * mac_size m" by linarith
  have l: "l \<le> 2 ^ 32 - 2" unfolding l_def ceil_div_le_iff [OF d] by (rule assms(4))
  then have ul: "unat (of_nat l :: u32) = l" by (simp add: unat_of_nat)
  have "pbkdf2_loop m P S iterations (unat n) (of_nat l) 1 [] =
      Some (Inr (take (unat n) (concat (map (pbkdf2_T m P S (unat iterations)) [1..<Suc l]))))"
    using pbkdf2_loop_spec [OF assms(5,6,2), of "of_nat l" 1 m "unat n"] l by (simp add: ul del: upt_Suc)
  then show ?thesis
    using native_pbkdf2_loop(1) [OF assms(1-3) le l_def, of P S]
    unfolding pbkdf2_rfc8018_def Let_def l_def [symmetric] by (simp del: upt_Suc)
qed

section \<open>HKDF against RFC 5869\<close>

lemma length_hkdf_T: "0 < i \<Longrightarrow> length (hkdf_T m prk info i) = mac_size m"
  by (cases i) simp_all

lemma length_hkdf_T_le: "length (hkdf_T m prk info i) \<le> mac_size m"
  by (cases i) simp_all

text \<open>One turn of the loop: the MAC of the previous block, the info and the counter.\<close>

lemma hkdf_step:
  assumes "length prk < 2 ^ 64" "length p < 2 ^ 64" "length info < 2 ^ 64"
  obtains c0 c1 c2 c3 where "create_mac m prk = Inr c0" "hmac_update c0 p = (Inr (), c1)"
    "hmac_update c1 info = (Inr (), c2)" "hmac_update c2 [b] = (Inr (), c3)"
    "fst (hmac_final c3) = Inr (hmac_spec m prk (p @ info @ [b]))"
proof (rule create_mac_absorbed [OF assms(1), of m])
  fix c0 assume c0: "create_mac m prk = Inr c0" "hmac_absorbed (mac_hash m) prk c0 []"
  obtain c1 where c1: "hmac_update c0 p = (Inr (), c1)" "hmac_absorbed (mac_hash m) prk c1 p"
    using hmac_update_absorbed [OF c0(2) assms(2)] by (cases "hmac_update c0 p") auto
  obtain c2 where c2: "hmac_update c1 info = (Inr (), c2)" "hmac_absorbed (mac_hash m) prk c2 (p @ info)"
    using hmac_update_absorbed [OF c1(2) assms(3)] by (cases "hmac_update c1 info") auto
  obtain c3 where c3: "hmac_update c2 [b] = (Inr (), c3)" "hmac_absorbed (mac_hash m) prk c3 (p @ info @ [b])"
    using hmac_update_absorbed [OF c2(2), of "[b]"] by (cases "hmac_update c2 [b]") auto
  show thesis
    using that c0(1) c1(1) c2(1) c3(1) hmac_final_absorbed [OF c3(2)] by (auto simp: hmac_spec_def)
qed

lemma hkdf_loop_spec:
  fixes m :: mac_algorithm
  assumes "length prk < 2 ^ 64" "length info < 2 ^ 64"
    and "0 < n" "n \<le> 255 * mac_size m"
  defines "N \<equiv> (n + mac_size m - 1) div mac_size m" and "T \<equiv> hkdf_T m prk info"
  assumes "i \<le> N"
  shows "hkdf_loop m prk info n (of_nat (Suc i)) (T i) (take n (concat (map T [1..<Suc i]))) =
    Some (Inr (take n (concat (map T [1..<Suc N]))))"
  using assms(7)
proof (induction "N - i" arbitrary: i)
  have d: "0 < mac_size m" using mac_size_bounds by auto
  have len: "length (concat (map T [1..<Suc i])) = i * mac_size m" for i
    by (induction i) (simp_all add: T_def length_hkdf_T)
  have full: "n \<le> N * mac_size m" unfolding N_def using d by (rule ceil_div_cover)
  {
    case (0 i)
    then have "i = N" by simp
    then show ?case using full len [of N] by (subst hkdf_loop.simps) simp
  next
    case (Suc k i)
    then have iN: "i < N" by simp
    have "i * mac_size m < n"
      using iN ceil_div_le_iff [OF d, of n i] unfolding N_def by linarith
    then have cond: "length (take n (concat (map T [1..<Suc i]))) < n" using len [of i] by simp
    have "length (T i) < 2 ^ 64"
      using length_hkdf_T_le [of m prk info i] mac_size_bounds(3) [of m] unfolding T_def by linarith
    from hkdf_step [OF assms(1) this assms(2), of m "of_nat (Suc i)"]
    obtain c0 c1 c2 c3 where c: "create_mac m prk = Inr c0" "hmac_update c0 (T i) = (Inr (), c1)"
      "hmac_update c1 info = (Inr (), c2)" "hmac_update c2 [of_nat (Suc i)] = (Inr (), c3)"
      "fst (hmac_final c3) = Inr (hmac_spec m prk (T i @ info @ [of_nat (Suc i)]))" .
    have fin: "fst (hmac_final c3) = Inr (T (Suc i))" using c(5) by (simp add: T_def)
    have "hkdf_loop m prk info n (of_nat (Suc (Suc i))) (T (Suc i)) (take n (concat (map T [1..<Suc (Suc i)]))) =
        Some (Inr (take n (concat (map T [1..<Suc N]))))"
      using Suc.hyps(2) iN by (intro Suc.hyps(1)) simp_all
    moreover have "of_nat (Suc i) + 1 = (of_nat (Suc (Suc i)) :: u8)" by simp
    moreover have "take n (concat (map T [1..<Suc (Suc i)])) = take n (concat (map T [1..<Suc i])) @
        take (min (n - length (take n (concat (map T [1..<Suc i])))) (length (T (Suc i)))) (T (Suc i))"
      unfolding take_append_rest by (subst concat_map_upt_Suc) simp_all
    ultimately show ?case
      using cond by (subst hkdf_loop.simps)
        (simp only: if_True c(1-4) fin sum.case prod.case Let_def)
  }
qed

lemma native_hkdf_spec:
  assumes "hkdf_mac algorithm = Inr m" "0 < n" "unat n \<le> 255 * mac_size m"
    and "length ikm < 2 ^ 64" "length salt < 2 ^ 64" "length info < 2 ^ 64"
  shows "native_hkdf algorithm ikm salt info n = Some (Inr (hkdf_rfc5869 m ikm salt info (unat n)))"
proof -
  let ?salt = "if salt = [] then replicate (mac_size m) 0 else salt"
  let ?prk = "hmac_spec m ?salt ikm"
  have sl: "length ?salt < 2 ^ 64" and pl: "length ?prk < 2 ^ 64"
    using assms(5) mac_size_bounds(3) [of m] by auto
  have n: "0 < unat n" using assms(2) by (simp add: word_less_nat_alt)
  have "\<not> 255 * of_nat (mac_size m) < n"
    using assms(3) by (cases m) (simp_all add: word_less_nat_alt)
  then have "native_hkdf algorithm ikm salt info n = hkdf_loop m ?prk info (unat n) 1 [] []"
    using assms(1,2) mac_spec [OF sl assms(4), of m] by (simp add: native_hkdf_def Let_def word_gt_0)
  also have "\<dots> = Some (Inr (hkdf_rfc5869 m ikm salt info (unat n)))"
    using hkdf_loop_spec [OF pl assms(6) n assms(3), of 0] by (simp add: hkdf_rfc5869_def Let_def)
  finally show ?thesis .
qed

section \<open>Properties\<close>

text \<open>
  C30: PBKDF2 returns the key of RFC 8018 for every iteration count and every output of up to
  2^32 - 2 blocks, so in particular it returns. The salt is extended by four bytes in memory.
\<close>

theorem pbkdf2_correct:
  assumes "pbkdf2_mac algorithm = Inr m" "0 < iterations" "0 < output_size"
    and "unat output_size \<le> (2 ^ 32 - 2) * mac_size m"
    and "length password < 2 ^ 64" "length salt + 4 < 2 ^ 64"
  shows "native_pbkdf2 algorithm password salt iterations output_size =
    Some (Inr (pbkdf2_rfc8018 m password salt (unat iterations) (unat output_size)))"
  using assms by (rule native_pbkdf2_spec)

theorem pbkdf2_correct_witness:
  "native_pbkdf2 Pbkdf2_hmac_sha256 [1] [2, 3] 1000 40 =
    Some (Inr (pbkdf2_rfc8018 Hmac_sha256 [1] [2, 3] 1000 40))"
  using pbkdf2_correct [of Pbkdf2_hmac_sha256 Hmac_sha256 1000 40 "[1]" "[2, 3]"]
  by (simp add: word_less_nat_alt)

text \<open>
  C34: the size guard admits 2^32 - 1 blocks, RFC 8018's maximum, and for every output size of
  that many blocks the call never returns: the 32-bit block counter cannot exceed the bound.
\<close>

theorem pbkdf2_diverges:
  assumes "pbkdf2_mac algorithm = Inr m" "0 < iterations"
    and "(2 ^ 32 - 2) * mac_size m < unat output_size" "unat output_size \<le> (2 ^ 32 - 1) * mac_size m"
    and "length password < 2 ^ 64" "length salt + 4 < 2 ^ 64"
  shows "native_pbkdf2 algorithm password salt iterations output_size = None"
proof -
  define l where l_def: "l = (unat output_size + mac_size m - 1) div mac_size m"
  have d: "0 < mac_size m" using mac_size_bounds by auto
  have pos: "0 < output_size" using assms(3) by (simp add: word_less_nat_alt)
  have "\<not> l \<le> 2 ^ 32 - 2" unfolding l_def ceil_div_le_iff [OF d] using assms(3) by simp
  moreover have "l \<le> 2 ^ 32 - 1" by (rule native_pbkdf2_loop(2) [OF assms(1,2) pos assms(4) l_def])
  ultimately have "l = 2 ^ 32 - 1" by linarith
  then show ?thesis
    using native_pbkdf2_loop(1) [OF assms(1,2) pos assms(4) l_def, of password salt]
      pbkdf2_loop_diverges [OF assms(5,6,2), of m "unat output_size" 1 "[]"] by simp
qed

theorem pbkdf2_diverges_witness:
  "native_pbkdf2 Pbkdf2_hmac_sha256 [1] [2, 3] 1000 0x1fffffffe0 = None"
  using pbkdf2_diverges [of Pbkdf2_hmac_sha256 Hmac_sha256 1000 "0x1fffffffe0" "[1]" "[2, 3]"]
  by (simp add: word_less_nat_alt)

text \<open>
  C31: HKDF returns the output keying material of RFC 5869 for every length up to 255 blocks; the
  8-bit counter never wraps and the loop ends.
\<close>

theorem hkdf_correct:
  assumes "hkdf_mac algorithm = Inr m" "0 < output_size" "unat output_size \<le> 255 * mac_size m"
    and "length ikm < 2 ^ 64" "length salt < 2 ^ 64" "length info < 2 ^ 64"
  shows "native_hkdf algorithm ikm salt info output_size =
    Some (Inr (hkdf_rfc5869 m ikm salt info (unat output_size)))"
  using assms by (rule native_hkdf_spec)

theorem hkdf_correct_witness:
  "native_hkdf Hkdf_sha512 [1] [] [2, 3] 16320 = Some (Inr (hkdf_rfc5869 Hmac_sha512 [1] [] [2, 3] 16320))"
  using hkdf_correct [of Hkdf_sha512 Hmac_sha512 16320 "[1]" "[]" "[2, 3]"]
  by (simp add: word_less_nat_alt)

end
