(* ===== verification/Aes.thy ===== *)
theory Aes
  imports Byte_Order
begin

text \<open>
  src/aes.cpp: AesBlockCipher, the AES block cipher of FIPS 197 for the three key sizes. The state
  is the array of 16 bytes, column by column; the tables are the source's. Decryption is proved to
  invert encryption, and the key expansion to satisfy its recurrence inside its arrays.
\<close>

section \<open>Tables\<close>

definition sbox :: "u8 list" where
  "sbox =
    [0x63, 0x7c, 0x77, 0x7b, 0xf2, 0x6b, 0x6f, 0xc5, 0x30, 0x01, 0x67, 0x2b, 0xfe, 0xd7, 0xab, 0x76,
     0xca, 0x82, 0xc9, 0x7d, 0xfa, 0x59, 0x47, 0xf0, 0xad, 0xd4, 0xa2, 0xaf, 0x9c, 0xa4, 0x72, 0xc0,
     0xb7, 0xfd, 0x93, 0x26, 0x36, 0x3f, 0xf7, 0xcc, 0x34, 0xa5, 0xe5, 0xf1, 0x71, 0xd8, 0x31, 0x15,
     0x04, 0xc7, 0x23, 0xc3, 0x18, 0x96, 0x05, 0x9a, 0x07, 0x12, 0x80, 0xe2, 0xeb, 0x27, 0xb2, 0x75,
     0x09, 0x83, 0x2c, 0x1a, 0x1b, 0x6e, 0x5a, 0xa0, 0x52, 0x3b, 0xd6, 0xb3, 0x29, 0xe3, 0x2f, 0x84,
     0x53, 0xd1, 0x00, 0xed, 0x20, 0xfc, 0xb1, 0x5b, 0x6a, 0xcb, 0xbe, 0x39, 0x4a, 0x4c, 0x58, 0xcf,
     0xd0, 0xef, 0xaa, 0xfb, 0x43, 0x4d, 0x33, 0x85, 0x45, 0xf9, 0x02, 0x7f, 0x50, 0x3c, 0x9f, 0xa8,
     0x51, 0xa3, 0x40, 0x8f, 0x92, 0x9d, 0x38, 0xf5, 0xbc, 0xb6, 0xda, 0x21, 0x10, 0xff, 0xf3, 0xd2,
     0xcd, 0x0c, 0x13, 0xec, 0x5f, 0x97, 0x44, 0x17, 0xc4, 0xa7, 0x7e, 0x3d, 0x64, 0x5d, 0x19, 0x73,
     0x60, 0x81, 0x4f, 0xdc, 0x22, 0x2a, 0x90, 0x88, 0x46, 0xee, 0xb8, 0x14, 0xde, 0x5e, 0x0b, 0xdb,
     0xe0, 0x32, 0x3a, 0x0a, 0x49, 0x06, 0x24, 0x5c, 0xc2, 0xd3, 0xac, 0x62, 0x91, 0x95, 0xe4, 0x79,
     0xe7, 0xc8, 0x37, 0x6d, 0x8d, 0xd5, 0x4e, 0xa9, 0x6c, 0x56, 0xf4, 0xea, 0x65, 0x7a, 0xae, 0x08,
     0xba, 0x78, 0x25, 0x2e, 0x1c, 0xa6, 0xb4, 0xc6, 0xe8, 0xdd, 0x74, 0x1f, 0x4b, 0xbd, 0x8b, 0x8a,
     0x70, 0x3e, 0xb5, 0x66, 0x48, 0x03, 0xf6, 0x0e, 0x61, 0x35, 0x57, 0xb9, 0x86, 0xc1, 0x1d, 0x9e,
     0xe1, 0xf8, 0x98, 0x11, 0x69, 0xd9, 0x8e, 0x94, 0x9b, 0x1e, 0x87, 0xe9, 0xce, 0x55, 0x28, 0xdf,
     0x8c, 0xa1, 0x89, 0x0d, 0xbf, 0xe6, 0x42, 0x68, 0x41, 0x99, 0x2d, 0x0f, 0xb0, 0x54, 0xbb, 0x16]"

definition inv_sbox :: "u8 list" where
  "inv_sbox =
    [0x52, 0x09, 0x6a, 0xd5, 0x30, 0x36, 0xa5, 0x38, 0xbf, 0x40, 0xa3, 0x9e, 0x81, 0xf3, 0xd7, 0xfb,
     0x7c, 0xe3, 0x39, 0x82, 0x9b, 0x2f, 0xff, 0x87, 0x34, 0x8e, 0x43, 0x44, 0xc4, 0xde, 0xe9, 0xcb,
     0x54, 0x7b, 0x94, 0x32, 0xa6, 0xc2, 0x23, 0x3d, 0xee, 0x4c, 0x95, 0x0b, 0x42, 0xfa, 0xc3, 0x4e,
     0x08, 0x2e, 0xa1, 0x66, 0x28, 0xd9, 0x24, 0xb2, 0x76, 0x5b, 0xa2, 0x49, 0x6d, 0x8b, 0xd1, 0x25,
     0x72, 0xf8, 0xf6, 0x64, 0x86, 0x68, 0x98, 0x16, 0xd4, 0xa4, 0x5c, 0xcc, 0x5d, 0x65, 0xb6, 0x92,
     0x6c, 0x70, 0x48, 0x50, 0xfd, 0xed, 0xb9, 0xda, 0x5e, 0x15, 0x46, 0x57, 0xa7, 0x8d, 0x9d, 0x84,
     0x90, 0xd8, 0xab, 0x00, 0x8c, 0xbc, 0xd3, 0x0a, 0xf7, 0xe4, 0x58, 0x05, 0xb8, 0xb3, 0x45, 0x06,
     0xd0, 0x2c, 0x1e, 0x8f, 0xca, 0x3f, 0x0f, 0x02, 0xc1, 0xaf, 0xbd, 0x03, 0x01, 0x13, 0x8a, 0x6b,
     0x3a, 0x91, 0x11, 0x41, 0x4f, 0x67, 0xdc, 0xea, 0x97, 0xf2, 0xcf, 0xce, 0xf0, 0xb4, 0xe6, 0x73,
     0x96, 0xac, 0x74, 0x22, 0xe7, 0xad, 0x35, 0x85, 0xe2, 0xf9, 0x37, 0xe8, 0x1c, 0x75, 0xdf, 0x6e,
     0x47, 0xf1, 0x1a, 0x71, 0x1d, 0x29, 0xc5, 0x89, 0x6f, 0xb7, 0x62, 0x0e, 0xaa, 0x18, 0xbe, 0x1b,
     0xfc, 0x56, 0x3e, 0x4b, 0xc6, 0xd2, 0x79, 0x20, 0x9a, 0xdb, 0xc0, 0xfe, 0x78, 0xcd, 0x5a, 0xf4,
     0x1f, 0xdd, 0xa8, 0x33, 0x88, 0x07, 0xc7, 0x31, 0xb1, 0x12, 0x10, 0x59, 0x27, 0x80, 0xec, 0x5f,
     0x60, 0x51, 0x7f, 0xa9, 0x19, 0xb5, 0x4a, 0x0d, 0x2d, 0xe5, 0x7a, 0x9f, 0x93, 0xc9, 0x9c, 0xef,
     0xa0, 0xe0, 0x3b, 0x4d, 0xae, 0x2a, 0xf5, 0xb0, 0xc8, 0xeb, 0xbb, 0x3c, 0x83, 0x53, 0x99, 0x61,
     0x17, 0x2b, 0x04, 0x7e, 0xba, 0x77, 0xd6, 0x26, 0xe1, 0x69, 0x14, 0x63, 0x55, 0x21, 0x0c, 0x7d]"

definition rcon :: "u8 list" where
  "rcon = [0x01, 0x02, 0x04, 0x08, 0x10, 0x20, 0x40, 0x80, 0x1b, 0x36]"

section \<open>Words and field arithmetic\<close>

definition rot_word :: "u32 \<Rightarrow> u32" where
  "rot_word word = push_bit 8 word OR drop_bit 24 word"

definition sub_word :: "u32 \<Rightarrow> u32" where
  "sub_word word =
     push_bit 24 (ucast (sbox ! unat (drop_bit 24 word AND 0xff)))
     OR push_bit 16 (ucast (sbox ! unat (drop_bit 16 word AND 0xff)))
     OR push_bit 8 (ucast (sbox ! unat (drop_bit 8 word AND 0xff)))
     OR ucast (sbox ! unat (word AND 0xff))"

definition xtime :: "u8 \<Rightarrow> u8" where
  "xtime value = push_bit 1 value XOR (if value AND 0x80 \<noteq> 0 then 0x1b else 0)"

text \<open>The loop of multiply, with its three variables.\<close>

function multiply_loop :: "u8 \<Rightarrow> u8 \<Rightarrow> u8 \<Rightarrow> u8" where
  "multiply_loop res lhs rhs =
     (if rhs = 0 then res
      else multiply_loop (if rhs AND 1 \<noteq> 0 then res XOR lhs else res) (xtime lhs) (drop_bit 1 rhs))"
  by pat_completeness auto
termination
proof (relation "measure (\<lambda>(res, lhs, rhs). unat rhs)")
  fix res lhs rhs :: u8
  assume "rhs \<noteq> 0"
  then have "0 < unat rhs" by (simp add: unat_gt_0)
  then have "unat (drop_bit 1 rhs) < unat rhs" unfolding unat_drop_bit_div by simp
  then show "((if rhs AND 1 \<noteq> 0 then res XOR lhs else res, xtime lhs, drop_bit 1 rhs), (res, lhs, rhs))
      \<in> measure (\<lambda>(res, lhs, rhs). unat rhs)" by simp
qed simp

declare multiply_loop.simps [simp del]

definition multiply :: "u8 \<Rightarrow> u8 \<Rightarrow> u8" where
  "multiply lhs rhs = multiply_loop 0 lhs rhs"

section \<open>The round steps\<close>

definition add_round_key :: "bytes \<Rightarrow> u32 list \<Rightarrow> nat \<Rightarrow> bytes" where
  "add_round_key state round_keys round =
     foldl (\<lambda>state column.
         let word = round_keys ! (round * 4 + column)
         in state
           [column * 4 + 0 := state ! (column * 4 + 0) XOR ucast (drop_bit 24 word),
            column * 4 + 1 := state ! (column * 4 + 1) XOR ucast (drop_bit 16 word),
            column * 4 + 2 := state ! (column * 4 + 2) XOR ucast (drop_bit 8 word),
            column * 4 + 3 := state ! (column * 4 + 3) XOR ucast word])
       state [0, 1, 2, 3]"

definition sub_bytes :: "bytes \<Rightarrow> bytes" where
  "sub_bytes state = map (\<lambda>b. sbox ! unat b) state"

definition inv_sub_bytes :: "bytes \<Rightarrow> bytes" where
  "inv_sub_bytes state = map (\<lambda>b. inv_sbox ! unat b) state"

definition shift_rows :: "bytes \<Rightarrow> bytes" where
  "shift_rows state =
     (let copy = state in
      state[1 := copy ! 5, 5 := copy ! 9, 9 := copy ! 13, 13 := copy ! 1,
        2 := copy ! 10, 6 := copy ! 14, 10 := copy ! 2, 14 := copy ! 6,
        3 := copy ! 15, 7 := copy ! 3, 11 := copy ! 7, 15 := copy ! 11])"

definition inv_shift_rows :: "bytes \<Rightarrow> bytes" where
  "inv_shift_rows state =
     (let copy = state in
      state[1 := copy ! 13, 5 := copy ! 1, 9 := copy ! 5, 13 := copy ! 9,
        2 := copy ! 10, 6 := copy ! 14, 10 := copy ! 2, 14 := copy ! 6,
        3 := copy ! 7, 7 := copy ! 11, 11 := copy ! 15, 15 := copy ! 3])"

definition mix_columns :: "bytes \<Rightarrow> bytes" where
  "mix_columns state =
     foldl (\<lambda>state column.
         let i = column * 4; a0 = state ! (i + 0); a1 = state ! (i + 1); a2 = state ! (i + 2); a3 = state ! (i + 3)
         in state
           [i + 0 := multiply a0 2 XOR multiply a1 3 XOR a2 XOR a3,
            i + 1 := a0 XOR multiply a1 2 XOR multiply a2 3 XOR a3,
            i + 2 := a0 XOR a1 XOR multiply a2 2 XOR multiply a3 3,
            i + 3 := multiply a0 3 XOR a1 XOR a2 XOR multiply a3 2])
       state [0, 1, 2, 3]"

definition inv_mix_columns :: "bytes \<Rightarrow> bytes" where
  "inv_mix_columns state =
     foldl (\<lambda>state column.
         let i = column * 4; a0 = state ! (i + 0); a1 = state ! (i + 1); a2 = state ! (i + 2); a3 = state ! (i + 3)
         in state
           [i + 0 := multiply a0 14 XOR multiply a1 11 XOR multiply a2 13 XOR multiply a3 9,
            i + 1 := multiply a0 9 XOR multiply a1 14 XOR multiply a2 11 XOR multiply a3 13,
            i + 2 := multiply a0 13 XOR multiply a1 9 XOR multiply a2 14 XOR multiply a3 11,
            i + 3 := multiply a0 11 XOR multiply a1 13 XOR multiply a2 9 XOR multiply a3 14])
       state [0, 1, 2, 3]"

section \<open>AesBlockCipher\<close>

record aes_cipher =
  aes_round_keys :: "u32 list"
  aes_round_key_words :: nat
  aes_rounds :: nat

text \<open>A moved-from or destroyed object: the keys are wiped.\<close>

definition aes_wipe :: "aes_cipher \<Rightarrow> aes_cipher" where
  "aes_wipe c = c\<lparr>aes_round_keys := map (\<lambda>_. 0) (aes_round_keys c), aes_round_key_words := 0, aes_rounds := 0\<rparr>"

definition aes_move :: "aes_cipher \<Rightarrow> aes_cipher \<times> aes_cipher" where
  "aes_move other = (other, aes_wipe other)"

text \<open>One step of the key expansion, the word for index \<open>i\<close>.\<close>

definition expand_word :: "nat \<Rightarrow> u32 list \<Rightarrow> nat \<Rightarrow> u32" where
  "expand_word key_words rk i =
     (let temp = rk ! (i - 1);
          temp = (if i mod key_words = 0
                  then sub_word (rot_word temp) XOR push_bit 24 (ucast (rcon ! (i div key_words - 1)))
                  else if 6 < key_words \<and> i mod key_words = 4 then sub_word temp
                  else temp)
      in rk ! (i - key_words) XOR temp)"

definition expand_key :: "nat \<Rightarrow> nat \<Rightarrow> bytes \<Rightarrow> u32 list" where
  "expand_key key_words round_key_words key =
     (let rk = foldl (\<lambda>rk i. rk[i := load_be32 (drop (i * 4) key)]) (replicate 60 0) [0..<key_words]
      in foldl (\<lambda>rk i. rk[i := expand_word key_words rk i]) rk [key_words..<round_key_words])"

definition aes_create :: "bytes \<Rightarrow> aes_cipher result" where
  "aes_create key =
     (if length key \<noteq> 16 \<and> length key \<noteq> 24 \<and> length key \<noteq> 32
      then Inl (make_error Invalid_key ''aes'' ''AES key size must be exactly 16, 24, or 32 bytes'')
      else
        let key_words = length key div 4;
            rounds = key_words + 6;
            round_key_words = 4 * (rounds + 1)
        in Inr \<lparr>aes_round_keys = expand_key key_words round_key_words key,
                aes_round_key_words = round_key_words, aes_rounds = rounds\<rparr>)"

definition encrypt_rounds :: "u32 list \<Rightarrow> nat \<Rightarrow> bytes \<Rightarrow> bytes" where
  "encrypt_rounds rk rounds state =
     (let state = add_round_key state rk 0;
          state = foldl (\<lambda>state round. add_round_key (mix_columns (shift_rows (sub_bytes state))) rk round)
                    state [1..<rounds]
      in add_round_key (shift_rows (sub_bytes state)) rk rounds)"

definition decrypt_rounds :: "u32 list \<Rightarrow> nat \<Rightarrow> bytes \<Rightarrow> bytes" where
  "decrypt_rounds rk rounds state =
     (let state = add_round_key state rk rounds;
          state = foldl (\<lambda>state round. inv_mix_columns (add_round_key (inv_sub_bytes (inv_shift_rows state)) rk round))
                    state (rev [1..<rounds])
      in add_round_key (inv_sub_bytes (inv_shift_rows state)) rk 0)"

definition aes_encrypt_block :: "aes_cipher \<Rightarrow> bytes \<Rightarrow> bytes result" where
  "aes_encrypt_block c plaintext =
     (if length plaintext \<noteq> 16
      then Inl (make_error Invalid_argument ''aes'' ''AES block input must be exactly 16 bytes'')
      else Inr (encrypt_rounds (aes_round_keys c) (aes_rounds c) plaintext))"

definition aes_decrypt_block :: "aes_cipher \<Rightarrow> bytes \<Rightarrow> bytes result" where
  "aes_decrypt_block c ciphertext =
     (if length ciphertext \<noteq> 16
      then Inl (make_error Invalid_argument ''aes'' ''AES block input must be exactly 16 bytes'')
      else Inr (decrypt_rounds (aes_round_keys c) (aes_rounds c) ciphertext))"

section \<open>The steps and their inverses\<close>

lemma inv_sbox_table: "map (\<lambda>s. inv_sbox ! unat s) sbox = map of_nat [0..<256]"
  by code_simp

lemma length_sbox: "length sbox = 256"
  by (simp add: sbox_def)

lemma inv_sbox_sbox [simp]: "inv_sbox ! unat (sbox ! unat b) = b"
proof -
  have "unat b < 256" by simp
  then have "map (\<lambda>s. inv_sbox ! unat s) sbox ! unat b = inv_sbox ! unat (sbox ! unat b)"
    by (simp add: length_sbox)
  moreover have "map of_nat [0..<256] ! unat b = b"
    by (simp del: upt_rec_numeral)
  ultimately show ?thesis unfolding inv_sbox_table by simp
qed

lemma inv_sub_bytes_sub_bytes [simp]: "inv_sub_bytes (sub_bytes s) = s"
  by (induction s) (simp_all add: inv_sub_bytes_def sub_bytes_def)

text \<open>A block of 16 bytes, position by position.\<close>

lemma block16_cases:
  assumes "length (s :: bytes) = 16"
  obtains b0 b1 b2 b3 b4 b5 b6 b7 b8 b9 b10 b11 b12 b13 b14 b15
  where "s = [b0, b1, b2, b3, b4, b5, b6, b7, b8, b9, b10, b11, b12, b13, b14, b15]"
  using assms by (auto simp: numeral_eq_Suc length_Suc_conv)

lemma shift_rows_inverse [simp]: "length s = 16 \<Longrightarrow> inv_shift_rows (shift_rows s) = s"
  by (erule block16_cases) (simp add: shift_rows_def inv_shift_rows_def Let_def)

lemma add_round_key_inverse [simp]: "length s = 16 \<Longrightarrow> add_round_key (add_round_key s rk r) rk r = s"
  by (erule block16_cases) (simp add: add_round_key_def Let_def xor.assoc)

lemma xtime_bit: "value AND 0x80 \<noteq> 0 \<longleftrightarrow> bit (value::u8) 7"
  using and_exp_eq_0_iff_not_bit [of "value" 7] by simp

lemma xtime_xor: "xtime (a XOR b) = xtime a XOR xtime b"
proof -
  have "bit (a XOR b) 7 \<longleftrightarrow> bit a 7 \<noteq> bit b 7" by (simp add: bit_simps)
  then show ?thesis
    unfolding xtime_def xtime_bit push_bit_xor by (auto simp: xor.assoc xor.left_commute)
qed

text \<open>The constants of the two mixing matrices, as combinations of xtime.\<close>

lemma multiply_constants:
  "multiply a 2 = xtime a"
  "multiply a 3 = a XOR xtime a"
  "multiply a 9 = a XOR xtime (xtime (xtime a))"
  "multiply a 11 = a XOR xtime a XOR xtime (xtime (xtime a))"
  "multiply a 13 = a XOR xtime (xtime a) XOR xtime (xtime (xtime a))"
  "multiply a 14 = xtime a XOR xtime (xtime a) XOR xtime (xtime (xtime a))"
  by (simp_all add: multiply_def multiply_loop.simps xor.assoc)

lemma xor_left_cancel: "a XOR (a XOR b) = (b::u8)"
  by (simp add: xor.assoc [symmetric])

text \<open>The two matrices are inverse to each other: xtime is linear, and equal terms cancel.\<close>

lemma mix_column_inverse:
  fixes a0 a1 a2 a3 :: u8
  defines "m0 \<equiv> multiply a0 2 XOR multiply a1 3 XOR a2 XOR a3"
    and "m1 \<equiv> a0 XOR multiply a1 2 XOR multiply a2 3 XOR a3"
    and "m2 \<equiv> a0 XOR a1 XOR multiply a2 2 XOR multiply a3 3"
    and "m3 \<equiv> multiply a0 3 XOR a1 XOR a2 XOR multiply a3 2"
  shows "multiply m0 14 XOR multiply m1 11 XOR multiply m2 13 XOR multiply m3 9 = a0"
    and "multiply m0 9 XOR multiply m1 14 XOR multiply m2 11 XOR multiply m3 13 = a1"
    and "multiply m0 13 XOR multiply m1 9 XOR multiply m2 14 XOR multiply m3 11 = a2"
    and "multiply m0 11 XOR multiply m1 13 XOR multiply m2 9 XOR multiply m3 14 = a3"
  unfolding m0_def m1_def m2_def m3_def multiply_constants xtime_xor
  by (simp_all add: xor.assoc xor.commute xor.left_commute xor_left_cancel)

lemma mix_columns_inverse [simp]: "length s = 16 \<Longrightarrow> inv_mix_columns (mix_columns s) = s"
  by (erule block16_cases) (simp add: mix_columns_def inv_mix_columns_def Let_def mix_column_inverse)

lemma length_foldl_state: "(\<And>s x. length (f s x) = length s) \<Longrightarrow> length (foldl f s xs) = length s"
  by (induction xs arbitrary: s) simp_all

lemma length_steps [simp]:
  "length (add_round_key s rk r) = length s"
  "length (sub_bytes s) = length s"
  "length (inv_sub_bytes s) = length s"
  "length (shift_rows s) = length s"
  "length (inv_shift_rows s) = length s"
  "length (mix_columns s) = length s"
  "length (inv_mix_columns s) = length s"
  by (simp_all add: add_round_key_def sub_bytes_def inv_sub_bytes_def shift_rows_def inv_shift_rows_def
      mix_columns_def inv_mix_columns_def Let_def)

section \<open>The cipher and its inverse\<close>

lemma rounds_inverse:
  fixes rk :: "u32 list"
  assumes "length s = 16"
  defines "enc \<equiv> \<lambda>s r. add_round_key (mix_columns (shift_rows (sub_bytes s))) rk r"
    and "dec \<equiv> \<lambda>s r. inv_mix_columns (add_round_key (inv_sub_bytes (inv_shift_rows s)) rk r)"
  shows "foldl dec (shift_rows (sub_bytes (foldl enc s [1..<Suc n]))) (rev [1..<Suc n]) = shift_rows (sub_bytes s)"
proof (induction n)
  case (Suc n)
  have "length (foldl enc s [1..<Suc n]) = 16"
    using assms(1) by (subst length_foldl_state) (simp_all add: enc_def)
  then have "dec (shift_rows (sub_bytes (enc (foldl enc s [1..<Suc n]) (Suc n)))) (Suc n)
      = shift_rows (sub_bytes (foldl enc s [1..<Suc n]))"
    by (simp add: enc_def dec_def)
  then show ?case using Suc.IH by simp
qed simp

lemma length_encrypt_rounds [simp]: "length (encrypt_rounds rk rounds s) = length s"
  by (simp add: encrypt_rounds_def Let_def length_foldl_state)

lemma length_decrypt_rounds [simp]: "length (decrypt_rounds rk rounds s) = length s"
  by (simp add: decrypt_rounds_def Let_def length_foldl_state)

lemma decrypt_encrypt_rounds:
  assumes "length s = 16" "0 < rounds"
  shows "decrypt_rounds rk rounds (encrypt_rounds rk rounds s) = s"
proof -
  obtain n where n: "rounds = Suc n" using assms(2) by (cases rounds) auto
  let ?e = "foldl (\<lambda>s r. add_round_key (mix_columns (shift_rows (sub_bytes s))) rk r)"
  have "length (?e (add_round_key s rk 0) [1..<rounds]) = 16"
    using assms(1) by (simp add: length_foldl_state)
  then show ?thesis
    using rounds_inverse [of "add_round_key s rk 0" rk n] assms(1)
    by (simp add: encrypt_rounds_def decrypt_rounds_def Let_def n)
qed

text \<open>What a created cipher is.\<close>

lemma length_expand_key [simp]: "length (expand_key k n key) = 60"
  unfolding expand_key_def Let_def by (simp only: length_foldl_update length_replicate)

lemma aes_create_ok:
  assumes "length key \<in> {16, 24, 32}"
  obtains c where "aes_create key = Inr c" "aes_rounds c = length key div 4 + 6"
    "aes_round_key_words c = 4 * (aes_rounds c + 1)"
    "aes_round_keys c = expand_key (length key div 4) (aes_round_key_words c) key"
  using assms by (auto simp: aes_create_def Let_def)

lemma aes_create_rounds: "aes_create key = Inr c \<Longrightarrow> 0 < aes_rounds c"
  by (auto simp: aes_create_def Let_def split: if_splits)

lemma aes_encrypt_block_ok: "length b = 16 \<Longrightarrow> \<exists>d. aes_encrypt_block c b = Inr d \<and> length d = 16"
  by (simp add: aes_encrypt_block_def)

lemma aes_decrypt_block_ok: "length b = 16 \<Longrightarrow> \<exists>d. aes_decrypt_block c b = Inr d \<and> length d = 16"
  by (simp add: aes_decrypt_block_def)

lemma aes_block_inverse:
  "0 < aes_rounds c \<Longrightarrow> aes_encrypt_block c b = Inr d \<Longrightarrow> aes_decrypt_block c d = Inr b"
  by (auto simp: aes_encrypt_block_def aes_decrypt_block_def decrypt_encrypt_rounds split: if_splits)

section \<open>The key expansion\<close>

lemma expand_word_local:
  assumes "0 < key_words" "key_words \<le> i" "\<forall>j<i. rk ! j = rk' ! j"
  shows "expand_word key_words rk i = expand_word key_words rk' i"
  using assms by (simp add: expand_word_def)

text \<open>FIPS 197, section 5.2: the words of the schedule, in terms of the earlier ones.\<close>

definition key_schedule :: "bytes \<Rightarrow> u32 list \<Rightarrow> bool" where
  "key_schedule key w \<longleftrightarrow>
     (let Nk = length key div 4 in
      (\<forall>i<Nk. w ! i = load_be32 (drop (i * 4) key)) \<and>
      (\<forall>i\<in>{Nk..<4 * (Nk + 7)}.
         w ! i = w ! (i - Nk) XOR
           (if i mod Nk = 0 then sub_word (rot_word (w ! (i - 1))) XOR push_bit 24 (ucast (rcon ! (i div Nk - 1)))
            else if 6 < Nk \<and> i mod Nk = 4 then sub_word (w ! (i - 1)) else w ! (i - 1))))"

lemma expand_key_schedule:
  assumes "length key \<in> {16, 24, 32}"
  shows "key_schedule key (expand_key (length key div 4) (4 * (length key div 4 + 7)) key)"
proof -
  define Nk where "Nk = length key div 4"
  define rk0 where "rk0 = foldl (\<lambda>rk i. rk[i := load_be32 (drop (i * 4) key)]) (replicate 60 0) [0..<Nk]"
  define rk where "rk = foldl (\<lambda>rk i. rk[i := expand_word Nk rk i]) rk0 [Nk..<4 * (Nk + 7)]"
  have Nk: "0 < Nk" "4 * (Nk + 7) \<le> 60" using assms by (auto simp: Nk_def)
  have rkc: "expand_key Nk (4 * (Nk + 7)) key = rk"
    by (simp add: expand_key_def Let_def rk_def rk0_def)
  have l0: "length rk0 = 60" by (simp add: rk0_def)
  have "rk ! i = load_be32 (drop (i * 4) key)" if "i < Nk" for i
  proof -
    have "rk ! i = rk0 ! i" using that by (simp add: rk_def foldl_update_other)
    also have "\<dots> = load_be32 (drop (i * 4) key)"
      unfolding rk0_def using that Nk by (subst foldl_update_rec) auto
    finally show ?thesis .
  qed
  moreover have "rk ! i = expand_word Nk rk i" if "Nk \<le> i" "i < 4 * (Nk + 7)" for i
    unfolding rk_def using that Nk l0 expand_word_local [of Nk] by (intro foldl_update_rec) auto
  ultimately show ?thesis
    unfolding key_schedule_def Let_def Nk_def [symmetric] rkc by (auto simp: expand_word_def Let_def)
qed

text \<open>Every index of the expansion is inside its array.\<close>

lemma expand_bounds:
  assumes "Nk = 4 \<or> Nk = 6 \<or> Nk = (8::nat)" "Nk \<le> i" "i < 4 * (Nk + 7)"
  shows "i < 60" "i div Nk - 1 < 10"
proof -
  show "i < 60" using assms by auto
  have "i < Nk * 11" using assms by auto
  then have "i div Nk < 11" using assms(1) by (simp add: div_less_iff_less_mult mult.commute) 
  then show "i div Nk - 1 < 10" by simp
qed

section \<open>Properties\<close>

text \<open>
  C2: AES decryption inverts encryption, for every key and block: the composition fails exactly
  on the sizes create and encrypt_block reject, with their errors, and returns the block otherwise.
\<close>

theorem aes_decrypt_encrypt:
  "rbind (aes_create key) (\<lambda>c. rbind (aes_encrypt_block c block) (aes_decrypt_block c)) =
     (if length key \<notin> {16, 24, 32}
      then Inl (make_error Invalid_key ''aes'' ''AES key size must be exactly 16, 24, or 32 bytes'')
      else if length block \<noteq> 16
      then Inl (make_error Invalid_argument ''aes'' ''AES block input must be exactly 16 bytes'')
      else Inr block)"
proof (cases "length key \<notin> {16, 24, 32}")
  case False
  then obtain c where c: "aes_create key = Inr c" using aes_create_ok [of key] by blast
  show ?thesis
    using False aes_create_rounds [OF c]
    by (auto simp: c aes_encrypt_block_def aes_decrypt_block_def decrypt_encrypt_rounds)
qed (simp add: aes_create_def)

text \<open>
  The key expansion. For each key size, create yields the number of rounds of FIPS 197 and
  round keys that satisfy its recurrence, and every index into the round keys and the round
  constants is in range.
\<close>

lemma aes_create_expands:
  assumes "length key \<in> {16, 24, 32}"
  shows "\<exists>c. aes_create key = Inr c \<and> aes_rounds c = length key div 4 + 6 \<and>
    aes_round_key_words c = 4 * (aes_rounds c + 1) \<and> aes_round_key_words c \<le> length (aes_round_keys c) \<and>
    key_schedule key (aes_round_keys c) \<and>
    (\<forall>i\<in>{length key div 4..<aes_round_key_words c}. i div (length key div 4) - 1 < length rcon)"
proof -
  obtain c where c: "aes_create key = Inr c" "aes_rounds c = length key div 4 + 6"
      "aes_round_key_words c = 4 * (aes_rounds c + 1)"
      "aes_round_keys c = expand_key (length key div 4) (aes_round_key_words c) key"
    by (rule aes_create_ok [OF assms])
  let ?Nk = "length key div 4"
  have Nk: "?Nk = 4 \<or> ?Nk = 6 \<or> ?Nk = 8" using assms by auto
  have words: "aes_round_key_words c = 4 * (?Nk + 7)" using c(2,3) by simp
  have "aes_round_key_words c \<le> 60" using Nk words by auto
  moreover have "i div ?Nk - 1 < length rcon" if "i \<in> {?Nk..<aes_round_key_words c}" for i
    using expand_bounds(2) [OF Nk, of i] that words by (simp add: rcon_def)
  moreover have "key_schedule key (aes_round_keys c)"
    using expand_key_schedule [OF assms] unfolding c(4) words .
  ultimately show ?thesis using c by auto
qed

lemma aes_create_expands_witness:
  "\<exists>c. aes_create (replicate 24 0) = Inr c \<and> aes_rounds c = 12 \<and>
    aes_round_key_words c = 52 \<and> key_schedule (replicate 24 0) (aes_round_keys c)"
  using aes_create_expands [of "replicate 24 0"] by auto

end
