(* ===== verification/Block_Cipher.thy ===== *)
theory Block_Cipher
  imports Aes
begin

text \<open>
  The contract under which src/aes_cbc.cpp and src/aes_gcm.cpp use AesBlockCipher: blocks of 16
  bytes, encrypted without failure and decrypted back. The modes are proved once from the contract,
  which the AES model of Aes fulfils.
\<close>

locale block_cipher =
  fixes valid :: "'k \<Rightarrow> bool"
    and enc :: "'k \<Rightarrow> bytes \<Rightarrow> bytes result"
    and dec :: "'k \<Rightarrow> bytes \<Rightarrow> bytes result"
  assumes enc_block: "valid k \<Longrightarrow> length b = 16 \<Longrightarrow> \<exists>d. enc k b = Inr d \<and> length d = 16 \<and> dec k d = Inr b"
    and dec_block: "valid k \<Longrightarrow> length d = 16 \<Longrightarrow> \<exists>b. dec k d = Inr b \<and> length b = 16"
begin

lemma enc_blockE:
  assumes "valid k" "length b = 16"
  obtains d where "enc k b = Inr d" "length d = 16" "dec k d = Inr b"
  using enc_block [OF assms] by auto

lemma dec_blockE:
  assumes "valid k" "length d = 16"
  obtains b where "dec k d = Inr b" "length b = 16"
  using dec_block [OF assms] by auto

end

definition aes_valid :: "aes_cipher \<Rightarrow> bool" where
  "aes_valid c \<longleftrightarrow> 0 < aes_rounds c"

lemma aes_valid_created: "aes_create key = Inr c \<Longrightarrow> aes_valid c"
  by (simp add: aes_valid_def aes_create_rounds)

interpretation aes_bc: block_cipher aes_valid aes_encrypt_block aes_decrypt_block
  by unfold_locales
    (auto simp: aes_valid_def aes_encrypt_block_def aes_decrypt_block_def decrypt_encrypt_rounds)

end
