(* ===== verification/Secure_Memory.thy ===== *)
theory Secure_Memory
  imports Crypto_Prelude
begin

text \<open>
  src/memory.cpp: zeroisation and the constant-time helpers. Each helper is computed with masks
  and no branch; the lemmas give its value.
\<close>

section \<open>Zeroisation\<close>

fun secure_zero_memory :: "bytes \<Rightarrow> bytes" where
  "secure_zero_memory [] = []"
| "secure_zero_memory (cursor # rest) = 0 # secure_zero_memory rest"

lemma secure_zero_memory_eq: "secure_zero_memory bs = replicate (length bs) 0"
  by (induction bs) auto

section \<open>Masks\<close>

definition constant_time_bool_mask :: "bool \<Rightarrow> u8" where
  "constant_time_bool_mask value = ucast (0 - (ucast (of_bool value :: u8) :: u32))"

definition constant_time_is_zero :: "u8 \<Rightarrow> u8" where
  "constant_time_is_zero value =
     (let wide = (ucast value :: u32);
          non_zero = drop_bit 31 (wide OR (0 - wide))
      in ucast (0 - (ucast (ucast (non_zero XOR 1) :: u8) :: u32)))"

definition canonical_mask :: "u8 \<Rightarrow> u8" where
  "canonical_mask msk = ucast (0 - (ucast (ucast ((ucast (drop_bit 7 msk) :: u32) AND 1) :: u8) :: u32))"

definition constant_time_select :: "u8 \<Rightarrow> u8 \<Rightarrow> u8 \<Rightarrow> u8" where
  "constant_time_select msk if_set if_clear =
     (if_set AND canonical_mask msk) OR (if_clear AND NOT (canonical_mask msk))"

definition constant_time_select_size :: "u8 \<Rightarrow> u64 \<Rightarrow> u64 \<Rightarrow> u64" where
  "constant_time_select_size msk if_set if_clear =
     (let m = (0 - (ucast (drop_bit 7 msk) AND 1) :: u64)
      in (if_set AND m) OR (if_clear AND NOT m))"

text \<open>The loop over two spans of the same size.\<close>

definition constant_time_equal :: "bytes \<Rightarrow> bytes \<Rightarrow> bool" where
  "constant_time_equal lhs rhs =
     (if length lhs \<noteq> length rhs then False
      else foldl (\<lambda>diff i. diff OR (lhs ! i XOR rhs ! i)) 0 [0..<length lhs] = (0::u8))"

text \<open>An all-ones word, truncated to a byte.\<close>

lemma ucast_minus_1_u8 [simp]: "ucast (- 1 :: u32) = (0xff :: u8)"
  by code_simp

lemma bool_mask_eq [simp]: "constant_time_bool_mask v = (if v then 0xff else 0)"
  by (simp add: constant_time_bool_mask_def)

lemma top_bit_u32: "drop_bit 31 (w::u32) = of_bool (2 ^ 31 \<le> unat w)"
proof -
  have "unat w < 2 ^ 32"
    using unsigned_less [of w] by simp
  then have "unat (drop_bit 31 w) = (if 2 ^ 31 \<le> unat w then 1 else 0)"
    unfolding unat_drop_bit_div by (auto intro: div_nat_eqI)
  then show ?thesis
    by (cases "2 ^ 31 \<le> unat w") (simp_all add: word_unat_eq_iff)
qed

lemma unat_neg_u32: "w \<noteq> 0 \<Longrightarrow> unat (- w :: u32) = 2 ^ 32 - unat w"
  using unat_sub_if_size [of 0 w] by (simp add: word_size word_le_nat_alt unat_eq_0)

text \<open>The sign bit of \<open>w OR - w\<close> tells whether \<open>w\<close> is zero.\<close>

lemma non_zero_bit: "drop_bit 31 (w OR - w) = of_bool ((w::u32) \<noteq> 0)"
proof -
  have "drop_bit 31 (w OR - w) = drop_bit 31 w OR drop_bit 31 (- w)"
    by (rule bit_word_eqI) (simp add: bit_simps)
  also have "\<dots> = of_bool (w \<noteq> 0)"
    unfolding top_bit_u32 by (cases "w = 0") (auto simp: unat_neg_u32)
  finally show ?thesis .
qed

lemma is_zero_eq [simp]: "constant_time_is_zero v = (if v = 0 then 0xff else 0)"
proof -
  have "ucast v = (0::u32) \<longleftrightarrow> v = 0"
    by (simp add: word_unat_eq_iff unat_ucast_up)
  then have "drop_bit 31 (ucast v OR (0 - ucast v)) = (of_bool (v \<noteq> 0) :: u32)"
    using non_zero_bit [of "ucast v"] by simp
  then show ?thesis
    unfolding constant_time_is_zero_def Let_def by (cases "v = 0") simp_all
qed


lemma drop_bit_7_u8: "ucast (drop_bit 7 (m::u8)) AND 1 = (of_bool (bit m 7) :: 'a::len word)"
  by (rule bit_word_eqI) (auto simp: bit_simps bit_1_iff)

lemma canonical_mask_eq: "canonical_mask m = (if bit m 7 then 0xff else 0)"
  by (simp add: canonical_mask_def drop_bit_7_u8)

lemma not_0xff_u8: "(- 256 :: u8) = 0"
  by code_simp

text \<open>A select is a choice by the top bit of the mask.\<close>

lemma select_eq: "constant_time_select m x y = (if bit m 7 then x else y)"
proof -
  have "x AND 0xff = x" for x :: u8
    by (simp add: word_masks take_bit_word_eq_self)
  then show ?thesis by (simp add: constant_time_select_def canonical_mask_eq not_0xff_u8)
qed

lemma select_size_eq: "constant_time_select_size m x y = (if bit m 7 then x else y)"
  by (simp add: constant_time_select_size_def drop_bit_7_u8)

lemma select_masks [simp]:
  "constant_time_select 0xff x y = x" "constant_time_select 0 x y = y"
  "constant_time_select_size 0xff i j = i" "constant_time_select_size 0 i j = j"
  by (simp_all add: select_eq select_size_eq)

section \<open>Comparison\<close>

lemma constant_time_equal_iff [simp]: "constant_time_equal lhs rhs \<longleftrightarrow> lhs = rhs"
  by (auto simp: constant_time_equal_def fold_or_eq_0 xor_eq_0_iff intro: nth_equalityI)

end
