(* ===== verification/Aes_Cbc.thy ===== *)
theory Aes_Cbc
  imports Block_Cipher Secure_Memory
begin

text \<open>
  include/crypto_core/cipher.hpp, src/aes_cbc.cpp and src/cipher.cpp: the CBC context, which
  buffers its input and works in final, and PKCS#7 padding, which is removed without branching on
  the padding bytes. The loops take the block cipher as an argument; the context uses AES.
\<close>

section \<open>Parameters\<close>

datatype cipher_algorithm = Aes_128_cbc | Aes_192_cbc | Aes_256_cbc

datatype cipher_direction = Encrypt | Decrypt

datatype cipher_padding = No_padding | Pkcs7

record cipher_params =
  cp_algorithm :: cipher_algorithm
  cp_direction :: cipher_direction
  cp_key :: bytes
  cp_iv :: bytes
  cp_padding :: cipher_padding

fun cipher_algorithm_name :: "cipher_algorithm \<Rightarrow> string" where
  "cipher_algorithm_name Aes_128_cbc = ''AES-128-CBC''"
| "cipher_algorithm_name Aes_192_cbc = ''AES-192-CBC''"
| "cipher_algorithm_name Aes_256_cbc = ''AES-256-CBC''"

fun cbc_key_size :: "cipher_algorithm \<Rightarrow> nat" where
  "cbc_key_size Aes_128_cbc = 16"
| "cbc_key_size Aes_192_cbc = 24"
| "cbc_key_size Aes_256_cbc = 32"

definition cbc_error :: "string \<Rightarrow> crypto_error" where
  "cbc_error msg = make_error Invalid_argument ''aes_cbc'' msg"

section \<open>The loops of final\<close>

function cbc_encrypt_loop :: "(bytes \<Rightarrow> bytes result) \<Rightarrow> bytes \<Rightarrow> bytes \<Rightarrow> bytes \<Rightarrow> bytes result" where
  "cbc_encrypt_loop encrypt_block previous input out =
     (if input = [] then Inr out
      else rbind (encrypt_block (xor_bytes (take 16 input) previous))
             (\<lambda>encrypted. cbc_encrypt_loop encrypt_block encrypted (drop 16 input) (out @ encrypted)))"
  by pat_completeness auto
termination by (relation "measure (\<lambda>(e, p, input, out). length input)") auto

function cbc_decrypt_loop :: "(bytes \<Rightarrow> bytes result) \<Rightarrow> bytes \<Rightarrow> bytes \<Rightarrow> bytes \<Rightarrow> bytes result" where
  "cbc_decrypt_loop decrypt_block previous buffer out =
     (if buffer = [] then Inr out
      else rbind (decrypt_block (take 16 buffer))
             (\<lambda>decrypted. cbc_decrypt_loop decrypt_block (take 16 buffer) (drop 16 buffer)
                (out @ xor_bytes decrypted previous)))"
  by pat_completeness auto
termination by (relation "measure (\<lambda>(e, p, input, out). length input)") auto

declare cbc_encrypt_loop.simps [simp del] cbc_decrypt_loop.simps [simp del]

definition pkcs7_pad :: "bytes \<Rightarrow> bytes" where
  "pkcs7_pad input = (let pad = 16 - length input mod 16 in input @ replicate pad (of_nat pad))"

text \<open>remove_pkcs7_padding: the accumulated difference of the scanned bytes, and the shortened vector.\<close>

definition padding_difference :: "bytes \<Rightarrow> u8" where
  "padding_difference out =
     (let pad = last out in
      foldl (\<lambda>diff i. diff OR ((out ! (length out - 1 - i) XOR pad) AND constant_time_bool_mask (i < unat pad)))
        0 [0..<min 16 (length out)])"

definition remove_pkcs7_padding :: "bytes \<Rightarrow> bytes result" where
  "remove_pkcs7_padding out =
     (if out = [] then Inl (cbc_error ''PKCS#7 plaintext is empty'')
      else
        let pad = last out;
            valid_mask = constant_time_bool_mask (pad \<noteq> 0 \<and> unat pad \<le> 16 \<and> unat pad \<le> length out);
            valid_mask = valid_mask AND constant_time_is_zero (padding_difference out)
        in if valid_mask \<noteq> 0xFF then Inl (cbc_error ''invalid PKCS#7 padding'')
           else Inr (take (length out - unat pad) out))"

section \<open>AesCbcContext\<close>

record cbc_ctx =
  cbc_cipher :: aes_cipher
  cbc_iv :: bytes
  cbc_direction :: cipher_direction
  cbc_padding :: cipher_padding
  cbc_buffer :: bytes
  cbc_finalized :: bool

definition cbc_update :: "cbc_ctx \<Rightarrow> bytes \<Rightarrow> bytes result \<times> cbc_ctx" where
  "cbc_update c input =
     (if cbc_finalized c
      then (Inl (cbc_error ''cannot update finalized cipher context''), c)
      else (Inr [], c\<lparr>cbc_buffer := cbc_buffer c @ input\<rparr>))"

definition cbc_encrypt_final :: "cbc_ctx \<Rightarrow> bytes result" where
  "cbc_encrypt_final c =
     (if cbc_padding c = Pkcs7
      then cbc_encrypt_loop (aes_encrypt_block (cbc_cipher c)) (cbc_iv c) (pkcs7_pad (cbc_buffer c)) []
      else if length (cbc_buffer c) mod 16 \<noteq> 0
      then Inl (cbc_error ''AES-CBC no-padding input must be block aligned'')
      else cbc_encrypt_loop (aes_encrypt_block (cbc_cipher c)) (cbc_iv c) (cbc_buffer c) [])"

definition cbc_decrypt_final :: "cbc_ctx \<Rightarrow> bytes result" where
  "cbc_decrypt_final c =
     (if cbc_buffer c = [] \<and> cbc_padding c = Pkcs7
      then Inl (cbc_error ''AES-CBC PKCS#7 ciphertext must not be empty'')
      else if length (cbc_buffer c) mod 16 \<noteq> 0
      then Inl (cbc_error ''AES-CBC ciphertext must be block aligned'')
      else rbind (cbc_decrypt_loop (aes_decrypt_block (cbc_cipher c)) (cbc_iv c) (cbc_buffer c) [])
             (\<lambda>out. if cbc_padding c = Pkcs7 then remove_pkcs7_padding out else Inr out))"

definition cbc_final :: "cbc_ctx \<Rightarrow> bytes result \<times> cbc_ctx" where
  "cbc_final c =
     (if cbc_finalized c
      then (Inl (cbc_error ''cipher context is already finalized''), c)
      else let c1 = c\<lparr>cbc_finalized := True\<rparr>
           in ((case cbc_direction c1 of Encrypt \<Rightarrow> cbc_encrypt_final c1 | Decrypt \<Rightarrow> cbc_decrypt_final c1), c1))"

definition create_aes_cbc_context :: "cipher_params \<Rightarrow> cbc_ctx result" where
  "create_aes_cbc_context params =
     (let key_size = cbc_key_size (cp_algorithm params) in
      if key_size = 0
      then Inl (make_error Unsupported_algorithm ''aes_cbc'' ''cipher algorithm is not supported'')
      else if length (cp_key params) \<noteq> key_size
      then Inl (make_error Invalid_key ''aes_cbc'' ''AES-CBC key size does not match algorithm'')
      else if length (cp_iv params) \<noteq> 16
      then Inl (cbc_error ''AES-CBC IV must be exactly 16 bytes'')
      else rbind (aes_create (cp_key params)) (\<lambda>cipher.
             Inr \<lparr>cbc_cipher = cipher, cbc_iv = cp_iv params, cbc_direction = cp_direction params,
                  cbc_padding = cp_padding params, cbc_buffer = [], cbc_finalized = False\<rparr>))"

text \<open>cipher(), on NativeProvider.\<close>

definition cipher :: "cipher_params \<Rightarrow> bytes \<Rightarrow> bytes result" where
  "cipher params input =
     rbind (create_aes_cbc_context params) (\<lambda>context.
       let (updated, context) = cbc_update context input in
       rbind updated (\<lambda>u. rbind (fst (cbc_final context)) (\<lambda>f. Inr (u @ f))))"

section \<open>The loops invert each other\<close>

lemma take_16_mod: "length xs mod 16 = 0 \<Longrightarrow> xs \<noteq> [] \<Longrightarrow> length (take 16 xs) = 16 \<and> length (drop 16 xs) mod 16 = 0"
proof -
  assume "length xs mod 16 = 0" "xs \<noteq> []"
  then have "16 \<le> length xs" by (metis length_0_conv mod_less not_less)
  then show ?thesis using \<open>length xs mod 16 = 0\<close> by (simp add: le_mod_geq [symmetric])
qed

context block_cipher
begin

lemma cbc_encrypt_decrypt:
  assumes "valid k" "length previous = 16" "length input mod 16 = 0"
  shows "\<exists>ct. (\<forall>out. cbc_encrypt_loop (enc k) previous input out = Inr (out @ ct)) \<and> length ct = length input \<and>
    (\<forall>out. cbc_decrypt_loop (dec k) previous ct out = Inr (out @ input))"
  using assms(2,3)
proof (induction input arbitrary: previous rule: length_induct)
  case (1 input)
  show ?case
  proof (cases "input = []")
    case True
    then show ?thesis by (auto simp: cbc_encrypt_loop.simps cbc_decrypt_loop.simps)
  next
    case False
    let ?b = "take 16 input"
    have t: "length ?b = 16" "length (drop 16 input) mod 16 = 0"
      using take_16_mod [OF 1(3) False] by auto
    have "length (xor_bytes ?b previous) = 16" using t 1(2) by simp
    then obtain d where d: "enc k (xor_bytes ?b previous) = Inr d" "length d = 16"
        "dec k d = Inr (xor_bytes ?b previous)"
      by (rule enc_blockE [OF assms(1)])
    obtain ct where ct: "\<And>out. cbc_encrypt_loop (enc k) d (drop 16 input) out = Inr (out @ ct)"
        "length ct = length (drop 16 input)"
        "\<And>out. cbc_decrypt_loop (dec k) d ct out = Inr (out @ drop 16 input)"
      using 1(1) [rule_format, of "drop 16 input" d] False d(2) t(2) by auto
    have cancel: "xor_bytes (xor_bytes ?b previous) previous = ?b"
      using t(1) 1(2) by (intro xor_bytes_cancel) simp
    have "cbc_encrypt_loop (enc k) previous input out = Inr (out @ d @ ct)" for out
      using False d(1) ct(1) by (subst cbc_encrypt_loop.simps) simp
    moreover have "cbc_decrypt_loop (dec k) previous (d @ ct) out = Inr (out @ input)" for out
      using d(2,3) ct(3) by (subst cbc_decrypt_loop.simps) (auto simp: cancel)
    moreover have "length (d @ ct) = length input" using d(2) ct(2) t(1) by simp
    ultimately show ?thesis by metis
  qed
qed

lemma cbc_decrypt_total:
  assumes "valid k" "length previous = 16" "length ct mod 16 = 0"
  shows "\<exists>pt. (\<forall>out. cbc_decrypt_loop (dec k) previous ct out = Inr (out @ pt)) \<and> length pt = length ct"
  using assms(2,3)
proof (induction ct arbitrary: previous rule: length_induct)
  case (1 ct)
  show ?case
  proof (cases "ct = []")
    case True
    then show ?thesis by (auto simp: cbc_decrypt_loop.simps)
  next
    case False
    have t: "length (take 16 ct) = 16" "length (drop 16 ct) mod 16 = 0"
      using take_16_mod [OF 1(3) False] by auto
    from t(1) obtain b where b: "dec k (take 16 ct) = Inr b" "length b = 16"
      by (rule dec_blockE [OF assms(1)])
    obtain pt where pt: "\<And>out. cbc_decrypt_loop (dec k) (take 16 ct) (drop 16 ct) out = Inr (out @ pt)"
        "length pt = length (drop 16 ct)"
      using 1(1) [rule_format, of "drop 16 ct" "take 16 ct"] False t by auto
    have "cbc_decrypt_loop (dec k) previous ct out = Inr (out @ xor_bytes b previous @ pt)" for out
      using False b(1) pt(1) by (subst cbc_decrypt_loop.simps) simp
    moreover have "length (xor_bytes b previous @ pt) = length ct" using b(2) pt(2) t(1) 1(2) by simp
    ultimately show ?thesis by metis
  qed
qed

end

section \<open>Padding\<close>

lemma padding_difference_zero:
  "padding_difference out = 0 \<longleftrightarrow>
     (\<forall>i<min 16 (length out). i < unat (last out) \<longrightarrow> out ! (length out - 1 - i) = last out)"
proof -
  have *: "(x XOR y) AND (if P then 0xff else 0) = (0::u8) \<longleftrightarrow> (P \<longrightarrow> x = y)" for x y :: u8 and P
    using xor_eq_0_iff [of x y] by (simp add: word_masks take_bit_word_eq_self)
  show ?thesis
    by (auto simp: padding_difference_def Let_def fold_or_eq_0 *)
qed

lemma mask_and: "(if P then 0xff else 0) AND (if Q then 0xff else 0) = (if P \<and> Q then 0xff else (0::u8))"
  by simp

lemma remove_pkcs7_cases:
  "remove_pkcs7_padding out =
     (if out = [] then Inl (cbc_error ''PKCS#7 plaintext is empty'')
      else if last out \<noteq> 0 \<and> unat (last out) \<le> 16 \<and> unat (last out) \<le> length out \<and>
              (\<forall>i<unat (last out). out ! (length out - 1 - i) = last out)
      then Inr (take (length out - unat (last out)) out)
      else Inl (cbc_error ''invalid PKCS#7 padding''))"
proof -
  let ?p = "last out"
  let ?V = "?p \<noteq> 0 \<and> unat ?p \<le> 16 \<and> unat ?p \<le> length out"
  have "(?V \<and> padding_difference out = 0) \<longleftrightarrow> ?V \<and> (\<forall>i<unat ?p. out ! (length out - 1 - i) = ?p)"
    unfolding padding_difference_zero by auto
  then show ?thesis
    unfolding remove_pkcs7_padding_def Let_def bool_mask_eq is_zero_eq mask_and by auto
qed

text \<open>The last \<open>n\<close> bytes are \<open>v\<close>.\<close>

lemma suffix_replicate:
  assumes "n \<le> length out" "\<forall>i<n. out ! (length out - 1 - i) = v"
  shows "out = take (length out - n) out @ replicate n v"
proof -
  have "drop (length out - n) out = replicate n v"
  proof (rule nth_equalityI)
    fix i assume "i < length (drop (length out - n) out)"
    then have i: "i < n" using assms(1) by simp
    then show "drop (length out - n) out ! i = replicate n v ! i"
      using assms(2) [rule_format, of "n - 1 - i"] assms(1) by simp
  qed (use assms(1) in simp)
  then show ?thesis by (metis append_take_drop_id)
qed

lemma remove_pkcs7_padding_iff:
  "remove_pkcs7_padding out = Inr m \<longleftrightarrow> (\<exists>n. 1 \<le> n \<and> n \<le> 16 \<and> out = m @ replicate n (of_nat n))"
proof
  assume "remove_pkcs7_padding out = Inr m"
  then have ne: "out \<noteq> []" and pad: "last out \<noteq> 0" "unat (last out) \<le> 16" "unat (last out) \<le> length out"
      "\<forall>i<unat (last out). out ! (length out - 1 - i) = last out"
    and m: "m = take (length out - unat (last out)) out"
    by (auto simp: remove_pkcs7_cases split: if_splits)
  have "out = m @ replicate (unat (last out)) (last out)"
    unfolding m by (rule suffix_replicate [OF pad(3,4)])
  moreover have "1 \<le> unat (last out)" using pad(1) by (simp add: unat_gt_0 Suc_le_eq)
  ultimately show "\<exists>n. 1 \<le> n \<and> n \<le> 16 \<and> out = m @ replicate n (of_nat n)"
    using pad(2) by (intro exI [of _ "unat (last out)"]) simp
next
  assume "\<exists>n. 1 \<le> n \<and> n \<le> 16 \<and> out = m @ replicate n (of_nat n)"
  then obtain n where n: "1 \<le> n" "n \<le> 16" "out = m @ replicate n (of_nat n)" by auto
  have last: "last out = of_nat n" using n by simp
  have un: "unat (of_nat n :: u8) = n" using n(2) by (simp add: unat_of_nat)
  then have nz: "of_nat n \<noteq> (0::u8)" using n(1) by (metis not_one_le_zero unat_0)
  have "out ! (length out - 1 - i) = of_nat n" if "i < n" for i
    using that n by (auto simp: nth_append)
  then show "remove_pkcs7_padding out = Inr m"
    using n nz by (simp add: remove_pkcs7_cases last un)
qed

lemma remove_pkcs7_pad: "remove_pkcs7_padding (pkcs7_pad input) = Inr input"
proof -
  have "1 \<le> 16 - length input mod 16" by (simp add: Suc_le_eq)
  then show ?thesis unfolding remove_pkcs7_padding_iff pkcs7_pad_def Let_def by auto
qed

lemma length_pkcs7_pad: "length (pkcs7_pad input) mod 16 = 0" "pkcs7_pad input \<noteq> []"
proof -
  have m: "length input mod 16 < 16" by simp
  have "length (pkcs7_pad input) = length input + (16 - length input mod 16)"
    by (simp add: pkcs7_pad_def Let_def)
  also have "\<dots> = 16 * (length input div 16 + 1)"
    using div_mult_mod_eq [of "length input" 16] m by arith
  finally show "length (pkcs7_pad input) mod 16 = 0" by simp
  show "pkcs7_pad input \<noteq> []"
    using m by (auto simp: pkcs7_pad_def Let_def)
qed

section \<open>Contexts and properties\<close>

lemma cbc_key_size_pos [simp]: "cbc_key_size a \<noteq> 0"
  by (cases a) simp_all

lemma create_context_ok:
  assumes "length (cp_key params) = cbc_key_size (cp_algorithm params)" "length (cp_iv params) = 16"
  obtains k where "aes_create (cp_key params) = Inr k" "aes_valid k"
    "\<And>dir. create_aes_cbc_context (params\<lparr>cp_direction := dir\<rparr>) =
      Inr \<lparr>cbc_cipher = k, cbc_iv = cp_iv params, cbc_direction = dir,
           cbc_padding = cp_padding params, cbc_buffer = [], cbc_finalized = False\<rparr>"
proof -
  have "length (cp_key params) \<in> {16, 24, 32}" using assms(1) by (cases "cp_algorithm params") auto
  then obtain k where k: "aes_create (cp_key params) = Inr k" by (rule aes_create_ok)
  then show thesis
    using that [OF k aes_valid_created [OF k]] assms k by (simp add: create_aes_cbc_context_def Let_def)
qed

lemma cipher_final:
  assumes "create_aes_cbc_context params = Inr c" "\<not> cbc_finalized c"
  shows "cipher params input = fst (cbc_final (c\<lparr>cbc_buffer := cbc_buffer c @ input\<rparr>))"
proof -
  have "rbind r Inr = r" for r :: "bytes result" by (cases r) auto
  then show ?thesis using assms by (simp add: cipher_def cbc_update_def)
qed

text \<open>
  C28: CBC decryption returns what CBC encryption was given: with PKCS#7 for every input, without
  padding for every block-aligned one. In all other cases encryption fails with the error shown.
\<close>

theorem cbc_roundtrip:
  "rbind (cipher (params\<lparr>cp_direction := Encrypt\<rparr>) input) (cipher (params\<lparr>cp_direction := Decrypt\<rparr>)) =
     (if length (cp_key params) \<noteq> cbc_key_size (cp_algorithm params)
      then Inl (make_error Invalid_key ''aes_cbc'' ''AES-CBC key size does not match algorithm'')
      else if length (cp_iv params) \<noteq> 16
      then Inl (cbc_error ''AES-CBC IV must be exactly 16 bytes'')
      else if cp_padding params = No_padding \<and> length input mod 16 \<noteq> 0
      then Inl (cbc_error ''AES-CBC no-padding input must be block aligned'')
      else Inr input)"
proof (cases "length (cp_key params) = cbc_key_size (cp_algorithm params) \<and> length (cp_iv params) = 16")
  case False
  with False show ?thesis by (auto simp: cipher_def create_aes_cbc_context_def Let_def)
next
  case True
  then obtain k where v: "aes_valid k" and c: "\<And>dir. create_aes_cbc_context (params\<lparr>cp_direction := dir\<rparr>) =
      Inr \<lparr>cbc_cipher = k, cbc_iv = cp_iv params, cbc_direction = dir,
           cbc_padding = cp_padding params, cbc_buffer = [], cbc_finalized = False\<rparr>"
    using create_context_ok [of params] by metis
  note run = cipher_final [OF c, simplified]
  show ?thesis
  proof (cases "cp_padding params")
    case Pkcs7
    obtain ct where ct: "\<And>out. cbc_encrypt_loop (aes_encrypt_block k) (cp_iv params) (pkcs7_pad input) out = Inr (out @ ct)"
        "length ct = length (pkcs7_pad input)"
        "\<And>out. cbc_decrypt_loop (aes_decrypt_block k) (cp_iv params) ct out = Inr (out @ pkcs7_pad input)"
      using aes_bc.cbc_encrypt_decrypt [OF v, of "cp_iv params" "pkcs7_pad input"] True
      by (auto simp: length_pkcs7_pad(1))
    moreover have "length ct mod 16 = 0" unfolding ct(2) by (rule length_pkcs7_pad(1))
    moreover have "ct \<noteq> []" using ct(2) length_pkcs7_pad(2) [of input] by auto
    ultimately show ?thesis
      using True Pkcs7
      by (simp add: run cbc_final_def Let_def cbc_encrypt_final_def cbc_decrypt_final_def remove_pkcs7_pad)
  next
    case No_padding
    show ?thesis
    proof (cases "length input mod 16 = 0")
      case aligned: True
      obtain ct where ct: "\<And>out. cbc_encrypt_loop (aes_encrypt_block k) (cp_iv params) input out = Inr (out @ ct)"
          "length ct = length input"
          "\<And>out. cbc_decrypt_loop (aes_decrypt_block k) (cp_iv params) ct out = Inr (out @ input)"
        using aes_bc.cbc_encrypt_decrypt [OF v, of "cp_iv params" input] True aligned by auto
      then show ?thesis
        using True No_padding aligned
        by (simp add: run cbc_final_def Let_def cbc_encrypt_final_def cbc_decrypt_final_def)
    next
      case False
      then show ?thesis
        using True No_padding by (simp add: run cbc_final_def Let_def cbc_encrypt_final_def)
    qed
  qed
qed

text \<open>
  C36: the constant-time removal of PKCS#7 padding accepts exactly the padded messages: it returns
  \<open>m\<close> if and only if the input is \<open>m\<close> and \<open>n\<close> bytes of value \<open>n\<close>, for some \<open>n\<close> from 1 to 16.
\<close>

theorem pkcs7_removal_exact:
  "remove_pkcs7_padding out = Inr m \<longleftrightarrow> (\<exists>n. 1 \<le> n \<and> n \<le> 16 \<and> out = m @ replicate n (of_nat n))"
  by (rule remove_pkcs7_padding_iff)

text \<open>
  A CBC context may be fed in pieces of any size: the result of final depends on their
  concatenation alone, and every update before final returns an empty output.
\<close>

lemma cbc_chunks:
  "\<not> cbc_finalized c \<Longrightarrow>
     fst (cbc_final (foldl (\<lambda>c x. snd (cbc_update c x)) c chunks)) = fst (cbc_final (snd (cbc_update c (concat chunks)))) \<and>
     fst (cbc_update (foldl (\<lambda>c x. snd (cbc_update c x)) c chunks) x) = Inr []"
proof -
  assume "\<not> cbc_finalized c"
  then have "foldl (\<lambda>c x. snd (cbc_update c x)) c chunks = c\<lparr>cbc_buffer := cbc_buffer c @ concat chunks\<rparr>"
    by (induction chunks arbitrary: c) (simp_all add: cbc_update_def)
  with \<open>\<not> cbc_finalized c\<close> show ?thesis by (simp add: cbc_update_def)
qed

lemma cbc_chunks_witness:
  "\<exists>c. create_aes_cbc_context \<lparr>cp_algorithm = Aes_128_cbc, cp_direction = Encrypt,
      cp_key = replicate 16 1, cp_iv = replicate 16 2, cp_padding = Pkcs7\<rparr> = Inr c \<and>
    fst (cbc_final (foldl (\<lambda>c x. snd (cbc_update c x)) c [[3, 4], [5]])) = fst (cbc_final (snd (cbc_update c [3, 4, 5])))"
proof -
  let ?p = "\<lparr>cp_algorithm = Aes_128_cbc, cp_direction = Encrypt, cp_key = replicate 16 1,
     cp_iv = replicate 16 2, cp_padding = Pkcs7\<rparr>"
  obtain k where "create_aes_cbc_context (?p\<lparr>cp_direction := Encrypt\<rparr>) =
      Inr \<lparr>cbc_cipher = k, cbc_iv = cp_iv ?p, cbc_direction = Encrypt,
           cbc_padding = cp_padding ?p, cbc_buffer = [], cbc_finalized = False\<rparr>" (is "_ = Inr ?c")
    using create_context_ok [of ?p] by auto
  then show ?thesis using cbc_chunks [of ?c "[[3, 4], [5]]"] by simp
qed

end
