(* ===== verification/Aes_Gcm.thy ===== *)
theory Aes_Gcm
  imports Block_Cipher Secure_Memory
begin

text \<open>
  include/crypto_core/aead.hpp and src/aes_gcm.cpp: AES-GCM (NIST SP 800-38D). A Block is a list of
  16 bytes. The counter mode takes the block cipher's operation as an argument, so that it is
  proved from the contract of Block_Cipher; multiplication in GF(2^128) is refined to the bit
  strings of the standard.
\<close>

section \<open>Parameters\<close>

datatype aead_algorithm = Aes_128_gcm | Aes_192_gcm | Aes_256_gcm

record aead_encrypt_params =
  ae_algorithm :: aead_algorithm
  ae_key :: bytes
  ae_nonce :: bytes
  ae_aad :: bytes
  ae_tag_size :: nat

record aead_decrypt_params =
  ad_algorithm :: aead_algorithm
  ad_key :: bytes
  ad_nonce :: bytes
  ad_aad :: bytes
  ad_tag :: bytes

record aead_encrypt_result =
  ar_ciphertext :: bytes
  ar_tag :: bytes

fun aead_algorithm_name :: "aead_algorithm \<Rightarrow> string" where
  "aead_algorithm_name Aes_128_gcm = ''AES-128-GCM''"
| "aead_algorithm_name Aes_192_gcm = ''AES-192-GCM''"
| "aead_algorithm_name Aes_256_gcm = ''AES-256-GCM''"

fun gcm_key_size :: "aead_algorithm \<Rightarrow> nat" where
  "gcm_key_size Aes_128_gcm = 16"
| "gcm_key_size Aes_192_gcm = 24"
| "gcm_key_size Aes_256_gcm = 32"

definition validate_encrypt_params :: "aead_encrypt_params \<Rightarrow> unit result" where
  "validate_encrypt_params params =
     (let key_size = gcm_key_size (ae_algorithm params) in
      if key_size = 0
      then Inl (make_error Unsupported_algorithm ''aes_gcm'' ''AEAD algorithm is not supported'')
      else if length (ae_key params) \<noteq> key_size
      then Inl (make_error Invalid_key ''aes_gcm'' ''AES-GCM key size does not match algorithm'')
      else if ae_nonce params = []
      then Inl (make_error Invalid_argument ''aes_gcm'' ''AES-GCM nonce must not be empty'')
      else if ae_tag_size params < 12 \<or> 16 < ae_tag_size params
      then Inl (make_error Invalid_argument ''aes_gcm'' ''AES-GCM tag size must be between 12 and 16 bytes'')
      else Inr ())"

definition validate_decrypt_params :: "aead_decrypt_params \<Rightarrow> unit result" where
  "validate_decrypt_params params =
     (let key_size = gcm_key_size (ad_algorithm params) in
      if key_size = 0
      then Inl (make_error Unsupported_algorithm ''aes_gcm'' ''AEAD algorithm is not supported'')
      else if length (ad_key params) \<noteq> key_size
      then Inl (make_error Invalid_key ''aes_gcm'' ''AES-GCM key size does not match algorithm'')
      else if ad_nonce params = []
      then Inl (make_error Invalid_argument ''aes_gcm'' ''AES-GCM nonce must not be empty'')
      else if length (ad_tag params) < 12 \<or> 16 < length (ad_tag params)
      then Inl (make_error Invalid_argument ''aes_gcm'' ''AES-GCM tag size must be between 12 and 16 bytes'')
      else Inr ())"

section \<open>GHASH\<close>

definition xor_block :: "bytes \<Rightarrow> bytes \<Rightarrow> bytes" where
  "xor_block lhs rhs = xor_bytes lhs rhs"

definition bit_at :: "bytes \<Rightarrow> nat \<Rightarrow> bool" where
  "bit_at block i \<longleftrightarrow> drop_bit (7 - i mod 8) (block ! (i div 8)) AND 1 \<noteq> 0"

text \<open>The loop of shift_right_one, from the carry into the next byte.\<close>

fun shift_right_from :: "u8 \<Rightarrow> bytes \<Rightarrow> bytes" where
  "shift_right_from carry [] = []"
| "shift_right_from carry (b # bs) = (drop_bit 1 b OR push_bit 7 carry) # shift_right_from (b AND 1) bs"

definition shift_right_one :: "bytes \<Rightarrow> bytes" where
  "shift_right_one block = shift_right_from 0 block"

definition gf_multiply :: "bytes \<Rightarrow> bytes \<Rightarrow> bytes" where
  "gf_multiply x y =
     fst (foldl (\<lambda>(z, v) i.
            let z = (if bit_at x i then xor_block z v else z);
                lsb = (v ! 15 AND 1 \<noteq> 0);
                v = shift_right_one v;
                v = (if lsb then v[0 := v ! 0 XOR 0xe1] else v)
            in (z, v)) (replicate 16 0, y) [0..<128])"

function ghash_update :: "bytes \<Rightarrow> bytes \<Rightarrow> bytes \<Rightarrow> bytes" where
  "ghash_update y h input =
     (if input = [] then y
      else
        let tk = min 16 (length input);
            block = take tk input @ replicate (16 - tk) 0
        in ghash_update (gf_multiply (xor_block y block) h) h (drop tk input))"
  by pat_completeness auto
termination by (relation "measure (\<lambda>(y, h, input). length input)") auto

declare ghash_update.simps [simp del]

definition ghash :: "bytes \<Rightarrow> bytes \<Rightarrow> bytes \<Rightarrow> bytes" where
  "ghash h aad ciphertext =
     (let y = ghash_update (replicate 16 0) h aad;
          y = ghash_update y h ciphertext;
          lengths = store_be64 (of_nat (length aad) * 8) @ store_be64 (of_nat (length ciphertext) * 8)
      in gf_multiply (xor_block y lengths) h)"

section \<open>Counter mode\<close>

text \<open>The loop of inc32, from byte \<open>i - 1\<close> down to byte 12.\<close>

function inc32_from :: "nat \<Rightarrow> bytes \<Rightarrow> bytes" where
  "inc32_from i counter =
     (if i \<le> 12 then counter
      else
        let counter = counter[i - 1 := counter ! (i - 1) + 1]
        in if counter ! (i - 1) \<noteq> 0 then counter else inc32_from (i - 1) counter)"
  by pat_completeness auto
termination by (relation "measure (\<lambda>(i, c). i)") auto

declare inc32_from.simps [simp del]

definition inc32 :: "bytes \<Rightarrow> bytes" where
  "inc32 counter = inc32_from 16 counter"

function gctr_loop :: "(bytes \<Rightarrow> bytes result) \<Rightarrow> bytes \<Rightarrow> bytes \<Rightarrow> bytes \<Rightarrow> bytes result" where
  "gctr_loop encrypt_block counter input out =
     (if input = [] then Inr out
      else rbind (encrypt_block counter) (\<lambda>encrypted_counter.
             let tk = min 16 (length input)
             in gctr_loop encrypt_block (inc32 counter) (drop tk input)
                  (out @ xor_bytes (take tk input) (take tk encrypted_counter))))"
  by pat_completeness auto
termination by (relation "measure (\<lambda>(e, c, input, out). length input)") auto

declare gctr_loop.simps [simp del]

definition gctr :: "(bytes \<Rightarrow> bytes result) \<Rightarrow> bytes \<Rightarrow> bytes \<Rightarrow> bytes result" where
  "gctr encrypt_block counter input = gctr_loop encrypt_block counter input []"

section \<open>AES-GCM\<close>

definition make_hash_subkey :: "aes_cipher \<Rightarrow> bytes result" where
  "make_hash_subkey cipher = aes_encrypt_block cipher (replicate 16 0)"

definition make_j0 :: "bytes \<Rightarrow> bytes \<Rightarrow> bytes result" where
  "make_j0 h nonce =
     (if length nonce = 12 then Inr ((write_at (replicate 16 0) 0 nonce)[15 := 1])
      else Inr (ghash h [] nonce))"

definition compute_tag_block :: "aes_cipher \<Rightarrow> bytes \<Rightarrow> bytes \<Rightarrow> bytes \<Rightarrow> bytes \<Rightarrow> bytes result" where
  "compute_tag_block cipher h j0 aad ciphertext =
     (let s = ghash h aad ciphertext in
      rbind (aes_encrypt_block cipher j0) (\<lambda>encrypted_j0. Inr (xor_block s encrypted_j0)))"

definition aes_gcm_encrypt :: "aead_encrypt_params \<Rightarrow> bytes \<Rightarrow> aead_encrypt_result result" where
  "aes_gcm_encrypt params plaintext =
     rbind (validate_encrypt_params params) (\<lambda>_.
     rbind (aes_create (ae_key params)) (\<lambda>cipher.
     rbind (make_hash_subkey cipher) (\<lambda>h.
     rbind (make_j0 h (ae_nonce params)) (\<lambda>j0.
     rbind (gctr (aes_encrypt_block cipher) (inc32 j0) plaintext) (\<lambda>ciphertext.
     rbind (compute_tag_block cipher h j0 (ae_aad params) ciphertext) (\<lambda>tag_block.
       Inr \<lparr>ar_ciphertext = ciphertext, ar_tag = take (ae_tag_size params) tag_block\<rparr>))))))"

definition aes_gcm_decrypt :: "aead_decrypt_params \<Rightarrow> bytes \<Rightarrow> bytes result" where
  "aes_gcm_decrypt params ciphertext =
     rbind (validate_decrypt_params params) (\<lambda>_.
     rbind (aes_create (ad_key params)) (\<lambda>cipher.
     rbind (make_hash_subkey cipher) (\<lambda>h.
     rbind (make_j0 h (ad_nonce params)) (\<lambda>j0.
     rbind (compute_tag_block cipher h j0 (ad_aad params) ciphertext) (\<lambda>tag_block.
       let expected_tag = take (length (ad_tag params)) tag_block in
       if \<not> constant_time_equal expected_tag (ad_tag params)
       then Inl (make_error Authentication_failed ''aes_gcm'' ''AES-GCM authentication failed'')
       else gctr (aes_encrypt_block cipher) (inc32 j0) ciphertext)))))"

section \<open>Lengths\<close>

lemma length_shift_right_from [simp]: "length (shift_right_from c b) = length b"
  by (induction c b rule: shift_right_from.induct) simp_all

lemma length_inc32 [simp]: "length (inc32 c) = length c"
proof -
  have "length (inc32_from i c) = length c" for i c
    by (induction i c rule: inc32_from.induct) (subst inc32_from.simps, simp add: Let_def)
  then show ?thesis by (simp add: inc32_def)
qed

lemma length_gf_multiply [simp]: "length y = 16 \<Longrightarrow> length (gf_multiply x y) = 16"
proof -
  assume y: "length y = 16"
  have "length (fst p) = 16 \<and> length (snd p) = 16 \<Longrightarrow>
      length (fst (foldl (\<lambda>(z, v) i.
            let z = (if bit_at x i then xor_block z v else z);
                lsb = (v ! 15 AND 1 \<noteq> 0);
                v = shift_right_one v;
                v = (if lsb then v[0 := v ! 0 XOR 0xe1] else v)
            in (z, v)) p is)) = 16" for p "is"
    by (induction "is" arbitrary: p) (auto simp: Let_def xor_block_def shift_right_one_def split: prod.splits)
  then show ?thesis unfolding gf_multiply_def using y by simp
qed

lemma length_ghash [simp]: "length h = 16 \<Longrightarrow> length (ghash h a c) = 16"
  by (simp add: ghash_def Let_def)

lemma make_j0_ok:
  assumes "length h = 16"
  obtains j0 where "make_j0 h nonce = Inr j0" "length j0 = 16"
  using assms by (cases "length nonce = 12") (auto simp: make_j0_def write_at_def)

section \<open>Counter mode is an involution\<close>

context block_cipher
begin

lemma gctr_loop_involution:
  assumes "valid k" "length counter = 16"
  shows "\<exists>ct. (\<forall>out. gctr_loop (enc k) counter input out = Inr (out @ ct)) \<and> length ct = length input \<and>
    (\<forall>out. gctr_loop (enc k) counter ct out = Inr (out @ input))"
  using assms(2)
proof (induction input arbitrary: counter rule: length_induct)
  case (1 input)
  show ?case
  proof (cases "input = []")
    case True
    then show ?thesis by (auto simp: gctr_loop.simps)
  next
    case False
    let ?tk = "min 16 (length input)"
    from 1(2) obtain e where e: "enc k counter = Inr e" "length e = 16" by (rule enc_blockE [OF assms(1)])
    let ?c = "xor_bytes (take ?tk input) (take ?tk e)"
    obtain ct where ct: "\<And>out. gctr_loop (enc k) (inc32 counter) (drop ?tk input) out = Inr (out @ ct)"
        "length ct = length (drop ?tk input)"
        "\<And>out. gctr_loop (enc k) (inc32 counter) ct out = Inr (out @ drop ?tk input)"
      using 1(1) [rule_format, of "drop ?tk input" "inc32 counter"] False 1(2) by auto
    have lc: "length ?c = ?tk" using e(2) by simp
    have tk: "min 16 (length (?c @ ct)) = ?tk" using lc ct(2) by auto
    have cancel: "xor_bytes ?c (take ?tk e) = take ?tk input"
      using e(2) by (intro xor_bytes_cancel) simp
    have "gctr_loop (enc k) counter input out = Inr (out @ ?c @ ct)" for out
      using False e(1) ct(1) by (subst gctr_loop.simps) (simp add: Let_def)
    moreover have "gctr_loop (enc k) counter (?c @ ct) out = Inr (out @ input)" for out
    proof -
      have "?c @ ct \<noteq> []" using False lc by (metis append_is_Nil_conv length_0_conv min_0L min_def zero_neq_numeral)
      then have "gctr_loop (enc k) counter (?c @ ct) out
          = gctr_loop (enc k) (inc32 counter) (drop ?tk (?c @ ct)) (out @ xor_bytes (take ?tk (?c @ ct)) (take ?tk e))"
        by (subst gctr_loop.simps) (simp only: if_False e(1) rbind_simps Let_def tk)
      also have "\<dots> = gctr_loop (enc k) (inc32 counter) ct (out @ take ?tk input)"
        using lc cancel by simp
      also have "\<dots> = Inr (out @ input)" unfolding ct(3) by simp
      finally show ?thesis .
    qed
    moreover have "length (?c @ ct) = length input" using lc ct(2) by simp
    ultimately show ?thesis by metis
  qed
qed

lemma gctr_involution:
  assumes "valid k" "length counter = 16"
  obtains ct where "gctr (enc k) counter input = Inr ct" "length ct = length input"
    "gctr (enc k) counter ct = Inr input"
  using gctr_loop_involution [OF assms, of input] by (auto simp: gctr_def)

end

section \<open>The two operations\<close>

lemma gcm_key_size_pos [simp]: "gcm_key_size a \<noteq> 0"
  by (cases a) simp_all

lemma gcm_setup:
  assumes "length key = gcm_key_size a"
  obtains k h j0 where "aes_create key = Inr k" "aes_valid k" "make_hash_subkey k = Inr h" "length h = 16"
    "make_j0 h nonce = Inr j0" "length j0 = 16"
proof -
  have "length key \<in> {16, 24, 32}" using assms by (cases a) auto
  then obtain k where k: "aes_create key = Inr k" by (rule aes_create_ok)
  note v = aes_valid_created [OF k]
  have "length (replicate 16 (0::u8)) = 16" by simp
  then obtain h where h: "aes_encrypt_block k (replicate 16 0) = Inr h" "length h = 16"
    by (rule aes_bc.enc_blockE [OF v])
  from make_j0_ok [OF h(2)] obtain j0 where "make_j0 h nonce = Inr j0" "length j0 = 16" .
  then show thesis using that k v h by (simp add: make_hash_subkey_def)
qed

lemma compute_tag_block_ok:
  assumes "aes_valid k" "length h = 16" "length j0 = 16"
  obtains T where "\<And>aad ct. compute_tag_block k h j0 aad ct = Inr (T aad ct)" "\<And>aad ct. length (T aad ct) = 16"
proof -
  from assms(3) obtain e where e: "aes_encrypt_block k j0 = Inr e" "length e = 16"
    by (rule aes_bc.enc_blockE [OF assms(1)])
  then show thesis
    using that [of "\<lambda>aad ct. xor_block (ghash h aad ct) e"] assms(2)
    by (simp add: compute_tag_block_def xor_block_def)
qed

text \<open>
  Both operations under one key and nonce, in terms of the keystream \<open>G\<close> and the tag function \<open>T\<close>.
\<close>

definition gcm_keyed ::
  "aead_algorithm \<Rightarrow> bytes \<Rightarrow> bytes \<Rightarrow> (bytes \<Rightarrow> bytes) \<Rightarrow> (bytes \<Rightarrow> bytes \<Rightarrow> bytes) \<Rightarrow> bool" where
  "gcm_keyed a key nonce G T \<longleftrightarrow>
     (\<forall>pt. G (G pt) = pt) \<and> (\<forall>pt. length (G pt) = length pt) \<and> (\<forall>aad ct. length (T aad ct) = 16) \<and>
     (\<forall>aad n pt. 12 \<le> n \<longrightarrow> n \<le> 16 \<longrightarrow>
        aes_gcm_encrypt \<lparr>ae_algorithm = a, ae_key = key, ae_nonce = nonce, ae_aad = aad, ae_tag_size = n\<rparr> pt
          = Inr \<lparr>ar_ciphertext = G pt, ar_tag = take n (T aad (G pt))\<rparr>) \<and>
     (\<forall>aad tag ct. 12 \<le> length tag \<longrightarrow> length tag \<le> 16 \<longrightarrow>
        aes_gcm_decrypt \<lparr>ad_algorithm = a, ad_key = key, ad_nonce = nonce, ad_aad = aad, ad_tag = tag\<rparr> ct
          = (if take (length tag) (T aad ct) = tag then Inr (G ct)
             else Inl (make_error Authentication_failed ''aes_gcm'' ''AES-GCM authentication failed'')))"

lemma gcm_operations:
  assumes "length key = gcm_key_size a" "nonce \<noteq> []"
  shows "\<exists>G T. gcm_keyed a key nonce G T"
proof -
  from gcm_setup [OF assms(1), of nonce] obtain k h j0 where
    k: "aes_create key = Inr k" "aes_valid k" and h: "make_hash_subkey k = Inr h" "length h = 16"
    and j0: "make_j0 h nonce = Inr j0" "length j0 = 16" .
  obtain T where T: "\<And>aad ct. compute_tag_block k h j0 aad ct = Inr (T aad ct)" "\<And>aad ct. length (T aad ct) = 16"
    using compute_tag_block_ok [OF k(2) h(2) j0(2)] by blast
  define G where "G = (\<lambda>pt. projr (gctr (aes_encrypt_block k) (inc32 j0) pt))"
  have lj: "length (inc32 j0) = 16" using j0(2) by simp
  have G: "gctr (aes_encrypt_block k) (inc32 j0) pt = Inr (G pt)" "G (G pt) = pt" "length (G pt) = length pt" for pt
  proof -
    obtain ct where "gctr (aes_encrypt_block k) (inc32 j0) pt = Inr ct" "length ct = length pt"
      "gctr (aes_encrypt_block k) (inc32 j0) ct = Inr pt"
      by (rule aes_bc.gctr_involution [OF k(2) lj])
    then show "gctr (aes_encrypt_block k) (inc32 j0) pt = Inr (G pt)" "G (G pt) = pt" "length (G pt) = length pt"
      by (simp_all add: G_def)
  qed
  have "gcm_keyed a key nonce G T"
    unfolding gcm_keyed_def using assms
    by (auto simp: aes_gcm_encrypt_def validate_encrypt_params_def aes_gcm_decrypt_def validate_decrypt_params_def
        Let_def k h j0 G T)
  then show ?thesis by blast
qed

section \<open>Multiplication in GF(2^128), on bit strings\<close>

text \<open>The bit string of a byte string, most significant bit first (SP 800-38D, section 4.2.1).\<close>

definition bits_of :: "bytes \<Rightarrow> bool list" where
  "bits_of bs = concat (map (\<lambda>b. map (bit b) [7, 6, 5, 4, 3, 2, 1, 0]) bs)"

definition xor_bits :: "bool list \<Rightarrow> bool list \<Rightarrow> bool list" where
  "xor_bits xs ys = map2 (\<noteq>) xs ys"

text \<open>SP 800-38D, algorithm 1.\<close>

definition gf128_R :: "bool list" where
  "gf128_R = [True, True, True, False, False, False, False, True] @ replicate 120 False"

definition gf128_step :: "bool list \<times> bool list \<Rightarrow> bool \<Rightarrow> bool list \<times> bool list" where
  "gf128_step ZV x = (case ZV of (Z, V) \<Rightarrow>
     (if x then xor_bits Z V else Z,
      let S = False # butlast V in if last V then xor_bits S gf128_R else S))"

definition gf128_mult :: "bool list \<Rightarrow> bool list \<Rightarrow> bool list" where
  "gf128_mult X Y = fst (foldl gf128_step (replicate 128 False, Y) X)"

lemma bits_of_simps [simp]:
  "bits_of [] = []"
  "bits_of (b # bs) = map (bit b) [7, 6, 5, 4, 3, 2, 1, 0] @ bits_of bs"
  by (simp_all add: bits_of_def)

lemma length_bits_of [simp]: "length (bits_of bs) = 8 * length bs"
  by (induction bs) simp_all

lemma bits_of_xor: "length xs = length ys \<Longrightarrow> bits_of (xor_bytes xs ys) = xor_bits (bits_of xs) (bits_of ys)"
  by (induction xs ys rule: list_induct2) (simp_all add: xor_bits_def bit_simps)

lemma bits_of_replicate_0: "bits_of (replicate n 0) = replicate (8 * n) False"
  by (induction n) (simp_all add: numeral_eq_Suc)

lemma shifted_byte_bits:
  "map (bit (drop_bit 1 b OR push_bit 7 carry)) [7, 6, 5, 4, 3, 2, 1, 0] =
    [bit carry 0, bit b 7, bit b 6, bit b 5, bit b 4, bit b 3, bit b 2, bit (b::u8) 1]"
  by (simp add: bit_simps) (simp add: numeral_eq_Suc)

lemma bits_of_shift: "bits_of (shift_right_from c bs) = butlast (bit c 0 # bits_of bs)"
  by (induction c bs rule: shift_right_from.induct) (simp_all only: shift_right_from.simps bits_of_simps shifted_byte_bits, simp_all add: bit_simps)

lemma bit_at_iff: "bit_at x i \<longleftrightarrow> bit (x ! (i div 8)) (7 - i mod 8)"
proof -
  have "w AND 1 \<noteq> 0 \<longleftrightarrow> bit w 0" for w :: u8
    by (simp add: and_one_eq odd_iff_mod_2_eq_one bit_0)
  then show ?thesis by (simp add: bit_at_def bit_drop_bit_eq)
qed

lemma bits_of_nth: "i < 8 * length x \<Longrightarrow> bits_of x ! i = bit_at x i"
proof (induction x arbitrary: i)
  case (Cons b x)
  show ?case
  proof (cases "i < 8")
    case True
    then have "i \<in> {0, 1, 2, 3, 4, 5, 6, 7}" by auto
    then show ?thesis by (auto simp: bit_at_iff)
  next
    case False
    then obtain j where j: "i = 8 + j" using le_Suc_ex [of 8 i] by auto
    then have "bits_of x ! j = bit_at x j" using Cons by simp
    moreover have "(8 + j) div 8 = Suc (j div 8)" by simp
    ultimately show ?thesis by (simp add: j bit_at_iff)
  qed
qed simp

lemma bits_of_eq: "bits_of x = map (bit_at x) [0..<8 * length x]"
  by (intro nth_equalityI) (simp_all add: bits_of_nth)

lemma gf_step_bits:
  assumes "length z = 16" "length v = 16"
  defines "v' \<equiv> (if v ! 15 AND 1 \<noteq> 0 then (shift_right_one v)[0 := shift_right_one v ! 0 XOR 0xe1] else shift_right_one v)"
  shows "gf128_step (bits_of z, bits_of v) b = (bits_of (if b then xor_block z v else z), bits_of v')"
    and "length v' = 16"
proof -
  have lsb: "last (bits_of v) \<longleftrightarrow> v ! 15 AND 1 \<noteq> 0"
  proof -
    have "bits_of v \<noteq> []" using assms(2) by (cases v) auto
    then have "last (bits_of v) = bits_of v ! 127" using assms(2) by (simp add: last_conv_nth)
    also have "\<dots> = bit_at v 127" using assms(2) by (intro bits_of_nth) simp
    finally show ?thesis by (simp add: bit_at_def)
  qed
  have shift: "bits_of (shift_right_one v) = False # butlast (bits_of v)"
  proof -
    have "bits_of v \<noteq> []" using assms(2) by (cases v) auto
    then show ?thesis by (simp add: shift_right_one_def bits_of_shift)
  qed
  have ls: "length (shift_right_one v) = 16" using assms(2) by (simp add: shift_right_one_def)
  have R: "bits_of (0xe1 # replicate 15 0) = gf128_R"
    unfolding gf128_R_def by (simp add: bits_of_replicate_0)
  have "w[0 := w ! 0 XOR 0xe1] = xor_bytes w (0xe1 # replicate 15 0)" if "length w = 16" for w :: bytes
    using that by (intro nth_equalityI) (auto simp: nth_list_update nth_Cons')
  then have "bits_of ((shift_right_one v)[0 := shift_right_one v ! 0 XOR 0xe1]) = xor_bits (False # butlast (bits_of v)) gf128_R"
    using ls by (simp only: bits_of_xor R shift length_replicate length_Cons)
  then show "gf128_step (bits_of z, bits_of v) b = (bits_of (if b then xor_block z v else z), bits_of v')"
    using assms(1,2) by (simp add: gf128_step_def Let_def lsb shift v'_def xor_block_def bits_of_xor)
  show "length v' = 16" using ls by (simp add: v'_def)
qed

lemma gf_loop_bits:
  assumes "length z = 16" "length v = 16"
  shows "bits_of (fst (foldl (\<lambda>(z, v) i.
            let z = (if bit_at x i then xor_block z v else z);
                lsb = (v ! 15 AND 1 \<noteq> 0);
                v = shift_right_one v;
                v = (if lsb then v[0 := v ! 0 XOR 0xe1] else v)
            in (z, v)) (z, v) is))
    = fst (foldl gf128_step (bits_of z, bits_of v) (map (bit_at x) is))"
  using assms
proof (induction "is" arbitrary: z v)
  case (Cons i "is")
  have "length (if bit_at x i then xor_block z v else z) = 16" using Cons.prems by (simp add: xor_block_def)
  then show ?case
    using Cons.IH [OF _ gf_step_bits(2) [OF Cons.prems], of "if bit_at x i then xor_block z v else z"]
    by (simp add: gf_step_bits(1) [OF Cons.prems] Let_def)
qed simp

text \<open>
  C35: gf_multiply, which shifts and reduces byte arrays, computes the product of SP 800-38D,
  algorithm 1, on the bit strings of its arguments.
\<close>

theorem gf_multiply_refines:
  assumes "length x = 16" "length y = 16"
  shows "bits_of (gf_multiply x y) = gf128_mult (bits_of x) (bits_of y)"
proof -
  have "bits_of (gf_multiply x y) = fst (foldl gf128_step (bits_of (replicate 16 0), bits_of y) (map (bit_at x) [0..<128]))"
    unfolding gf_multiply_def by (rule gf_loop_bits) (simp_all add: assms(2))
  also have "map (bit_at x) [0..<128] = bits_of x" using assms(1) by (simp add: bits_of_eq del: upt_rec_numeral)
  also have "bits_of (replicate 16 0) = replicate 128 False" by (simp only: bits_of_replicate_0) simp
  finally show ?thesis by (simp only: gf128_mult_def)
qed

theorem gf_multiply_refines_witness:
  "bits_of (gf_multiply (0x80 # replicate 15 0) (replicate 16 7)) =
    gf128_mult (True # replicate 127 False) (bits_of (replicate 16 7))"
proof -
  have "bits_of (0x80 # replicate 15 0) = True # replicate 127 False"
    by (simp add: bits_of_replicate_0 numeral_eq_Suc)
  then show ?thesis using gf_multiply_refines [of "0x80 # replicate 15 0" "replicate 16 7"] by simp
qed

text \<open>The 32-bit increment of the last four bytes.\<close>

lemma u8_inc_0: "x + 1 = 0 \<longleftrightarrow> unat (x::u8) = 255"
proof -
  have "x + 1 = 0 \<longleftrightarrow> x = - 1" by (simp add: eq_neg_iff_add_eq_0)
  moreover have "unat (- 1 :: u8) = 255" by code_simp
  ultimately show ?thesis by (simp only: word_unat_eq_iff)
qed

lemma unat_inc_u8: "unat (x + 1 :: u8) = (if unat x = 255 then 0 else unat x + 1)"
proof -
  have "unat x \<le> 255" using unat_u8_less [of x] by linarith
  then show ?thesis by (auto simp: unat_plus_if')
qed

lemma inc32_block:
  assumes "length n = 12"
  shows "inc32 (n @ [p, a, b, d]) =
    n @ (if d + 1 \<noteq> 0 then [p, a, b, d + 1] else if b + 1 \<noteq> 0 then [p, a, b + 1, 0]
         else if a + 1 \<noteq> 0 then [p, a + 1, 0, 0] else [p + 1, 0, 0, 0])"
  using assms by (simp add: inc32_def inc32_from.simps Let_def nth_append list_update_append)

lemma inc32_value:
  assumes "length c = 16"
  shows "be_val (drop 12 (inc32 c)) = (be_val (drop 12 c) + 1) mod 2 ^ 32 \<and> take 12 (inc32 c) = take 12 c"
proof -
  from assms obtain b0 b1 b2 b3 b4 b5 b6 b7 b8 b9 b10 b11 p a b d
    where "c = [b0, b1, b2, b3, b4, b5, b6, b7, b8, b9, b10, b11] @ [p, a, b, d]"
    by (elim block16_cases) auto
  then obtain n where c: "c = n @ [p, a, b, d]" and n: "length n = 12" by (rule that) simp
  let ?v = "unat p * 16777216 + unat a * 65536 + unat b * 256 + unat d"
  have bounds: "unat p \<le> 255" "unat a \<le> 255" "unat b \<le> 255" "unat d \<le> 255"
    using unat_u8_less [of p] unat_u8_less [of a] unat_u8_less [of b] unat_u8_less [of d] by linarith+
  have v: "be_val (drop 12 c) = ?v" using n by (simp add: c be_val_Cons)
  have "be_val (drop 12 (inc32 c)) = (if ?v + 1 = 2 ^ 32 then 0 else ?v + 1)"
    using n bounds by (simp add: c inc32_block be_val_Cons unat_inc_u8 u8_inc_0)
  moreover have "(?v + 1) mod 2 ^ 32 = (if ?v + 1 = 2 ^ 32 then 0 else ?v + 1)"
    using bounds by (simp add: mod_if)
  moreover have "take 12 (inc32 c) = take 12 c" using n by (simp add: c inc32_block)
  ultimately show ?thesis unfolding v by simp
qed

section \<open>Properties\<close>

text \<open>
  C1: AES-GCM decryption accepts exactly what encryption produces: it returns \<open>pt\<close> for a
  ciphertext and a tag if and only if encrypting \<open>pt\<close> with the same key, nonce, associated data
  and tag size gives that ciphertext and that tag.
\<close>

theorem gcm_decrypt_iff_encrypt:
  "aes_gcm_decrypt \<lparr>ad_algorithm = a, ad_key = key, ad_nonce = nonce, ad_aad = aad, ad_tag = tag\<rparr> ct = Inr pt \<longleftrightarrow>
   aes_gcm_encrypt \<lparr>ae_algorithm = a, ae_key = key, ae_nonce = nonce, ae_aad = aad, ae_tag_size = length tag\<rparr> pt
     = Inr \<lparr>ar_ciphertext = ct, ar_tag = tag\<rparr>"
proof (cases "length key = gcm_key_size a \<and> nonce \<noteq> [] \<and> 12 \<le> length tag \<and> length tag \<le> 16")
  case True
  then obtain G T where "gcm_keyed a key nonce G T" using gcm_operations by blast
  then show ?thesis using True unfolding gcm_keyed_def by auto
next
  case False
  then show ?thesis
    by (auto simp: aes_gcm_encrypt_def aes_gcm_decrypt_def validate_encrypt_params_def validate_decrypt_params_def
        Let_def not_less)
qed

text \<open>
  Encrypting and then decrypting with the returned tag gives back the plaintext, for every
  nonce of at least one byte; the other cases are the parameter errors, in the order shown.
\<close>

lemma gcm_roundtrip:
  "rbind (aes_gcm_encrypt params pt) (\<lambda>r. aes_gcm_decrypt
      \<lparr>ad_algorithm = ae_algorithm params, ad_key = ae_key params, ad_nonce = ae_nonce params,
       ad_aad = ae_aad params, ad_tag = ar_tag r\<rparr> (ar_ciphertext r)) =
     (if length (ae_key params) \<noteq> gcm_key_size (ae_algorithm params)
      then Inl (make_error Invalid_key ''aes_gcm'' ''AES-GCM key size does not match algorithm'')
      else if ae_nonce params = []
      then Inl (make_error Invalid_argument ''aes_gcm'' ''AES-GCM nonce must not be empty'')
      else if ae_tag_size params < 12 \<or> 16 < ae_tag_size params
      then Inl (make_error Invalid_argument ''aes_gcm'' ''AES-GCM tag size must be between 12 and 16 bytes'')
      else Inr pt)"
proof (cases "length (ae_key params) = gcm_key_size (ae_algorithm params) \<and> ae_nonce params \<noteq> [] \<and>
    12 \<le> ae_tag_size params \<and> ae_tag_size params \<le> 16")
  case True
  obtain a key nonce aad n where p: "params = \<lparr>ae_algorithm = a, ae_key = key, ae_nonce = nonce, ae_aad = aad, ae_tag_size = n\<rparr>"
    by (cases params)
  from True p obtain G T where "gcm_keyed a key nonce G T" using gcm_operations [of key a nonce] by auto
  then show ?thesis using True unfolding gcm_keyed_def by (simp add: p)
next
  case False
  then show ?thesis
    by (auto simp: aes_gcm_encrypt_def validate_encrypt_params_def Let_def not_less)
qed

end
