(* ===== verification/Limbs.thy ===== *)
theory Limbs
  imports Byte_Order "HOL-Library.More_List"
begin

text \<open>
  Arithmetic on little-endian arrays of 32-bit limbs, the inner loops that src/bigint.cpp and
  src/rsa_fixed_bigint.cpp share: carry and borrow chains, a row of a schoolbook product, and the
  rows of a Montgomery reduction. Each loop is proved against the numbers the arrays denote; the
  64-bit intermediate values never overflow and no carry is left over at the end of an array.
\<close>

section \<open>Limbs\<close>

definition limb_base :: nat where
  "limb_base = 2 ^ 32"

fun limb_val :: "u32 list \<Rightarrow> nat" where
  "limb_val [] = 0"
| "limb_val (x # xs) = unat x + limb_base * limb_val xs"

text \<open>The low and the high half of a 64-bit intermediate value.\<close>

abbreviation low32 :: "u64 \<Rightarrow> u32" where
  "low32 p \<equiv> ucast p"

abbreviation high32 :: "u64 \<Rightarrow> u64" where
  "high32 p \<equiv> drop_bit 32 p"

text \<open>A limb array brought to a given size: the missing limbs are zero, the others are cut.\<close>

definition fixed_limbs :: "nat \<Rightarrow> u32 list \<Rightarrow> u32 list" where
  "fixed_limbs n limbs = take n limbs @ replicate (n - length limbs) 0"

section \<open>The loops\<close>

text \<open>Addition with carry, limb by limb; the result and the last carry.\<close>

fun add_limbs :: "u32 list \<Rightarrow> u32 list \<Rightarrow> u64 \<Rightarrow> u32 list \<times> u64" where
  "add_limbs (l # ls) (r # rs) carry =
     (let sum = ucast l + ucast r + carry;
          (out, c) = add_limbs ls rs (high32 sum)
      in (low32 sum # out, c))"
| "add_limbs _ _ carry = ([], carry)"

text \<open>Subtraction with borrow, on unsigned 64-bit values that wrap.\<close>

fun sub_limbs :: "u32 list \<Rightarrow> u32 list \<Rightarrow> u64 \<Rightarrow> u32 list \<times> u64" where
  "sub_limbs (l # ls) (r # rs) borrow =
     (let left = ucast l :: u64;
          right = ucast r + borrow;
          (out, b) = sub_limbs ls rs (if left < right then 1 else 0)
      in (low32 (left - right) # out, b))"
| "sub_limbs _ _ borrow = ([], borrow)"

text \<open>add_carry: from the limb at the given place upwards, as long as there is a carry.\<close>

fun add_carry :: "u32 list \<Rightarrow> u64 \<Rightarrow> u32 list \<times> u64" where
  "add_carry [] carry = ([], carry)"
| "add_carry (x # xs) carry =
     (if carry = 0 then (x # xs, 0)
      else
        let sum = ucast x + carry;
            (out, c) = add_carry xs (high32 sum)
        in (low32 sum # out, c))"

text \<open>
  One row: \<open>a\<close> times the limbs \<open>rs\<close>, added to the accumulator from its current place upwards, and
  the carry of the row carried on. The second component is a carry that runs past the array.
\<close>

fun mac_row :: "u32 \<Rightarrow> u32 list \<Rightarrow> u32 list \<Rightarrow> u64 \<Rightarrow> u32 list \<times> u64" where
  "mac_row a (r # rs) (x # xs) carry =
     (let product = ucast a * ucast r + ucast x + carry;
          (out, c) = mac_row a rs xs (high32 product)
      in (low32 product # out, c))"
| "mac_row a [] xs carry = add_carry xs carry"
| "mac_row a (r # rs) [] carry = ([], carry)"

text \<open>The row at place \<open>i\<close> of the accumulator, in place.\<close>

definition mac_row_at :: "u32 \<Rightarrow> u32 list \<Rightarrow> nat \<Rightarrow> u32 list \<Rightarrow> u32 list" where
  "mac_row_at a rs i acc = take i acc @ fst (mac_row a rs (drop i acc) 0)"

text \<open>The schoolbook product: a row for each limb of \<open>left\<close>.\<close>

definition multiply_rows :: "u32 list \<Rightarrow> u32 list \<Rightarrow> u32 list \<Rightarrow> u32 list" where
  "multiply_rows left right acc = foldl (\<lambda>acc i. mac_row_at (left ! i) right i acc) acc [0..<length left]"

text \<open>The Montgomery reduction: row \<open>i\<close> adds the multiple of the modulus that clears limb \<open>i\<close>.\<close>

definition reduce_rows :: "u32 \<Rightarrow> u32 list \<Rightarrow> u32 list \<Rightarrow> u32 list" where
  "reduce_rows n0_inverse modulus acc =
     foldl (\<lambda>acc i. mac_row_at (acc ! i * n0_inverse) modulus i acc) acc [0..<length modulus]"

text \<open>low_inverse: five Newton steps for the inverse of an odd limb, negated.\<close>

definition low_inverse :: "u32 \<Rightarrow> u32" where
  "low_inverse v = 0 - foldl (\<lambda>inverse i. inverse * (2 - v * inverse)) 1 [0, 1, 2, 3, (4::nat)]"

text \<open>A branch-free choice between two arrays of the same size.\<close>

definition select_limbs :: "u32 \<Rightarrow> u32 list \<Rightarrow> u32 list \<Rightarrow> u32 list" where
  "select_limbs word_mask if_set if_clear =
     map2 (\<lambda>s c. (s AND word_mask) OR (c AND NOT word_mask)) if_set if_clear"

text \<open>
  Big-endian bytes into limbs: four bytes at a time from the end, each shifted into its place. The
  byte list is the input reversed.
\<close>

fun le_limb :: "nat \<Rightarrow> bytes \<Rightarrow> u32" where
  "le_limb i [] = 0"
| "le_limb i (b # bs) = push_bit (i * 8) (ucast b) OR le_limb (i + 1) bs"

primrec limbs_from_le_bytes :: "nat \<Rightarrow> bytes \<Rightarrow> u32 list" where
  "limbs_from_le_bytes 0 rbytes = []"
| "limbs_from_le_bytes (Suc n) rbytes = le_limb 0 (take 4 rbytes) # limbs_from_le_bytes n (drop 4 rbytes)"

section \<open>Values\<close>

lemma limb_base_pos [simp]: "0 < limb_base" "limb_base \<noteq> 0" "Suc 0 < limb_base" "Suc 0 \<le> limb_base"
  by (simp_all add: limb_base_def)

lemma unat_limb [simp]: "unat (x::u32) < limb_base"
  using unsigned_less [of x, where 'a = nat] by (simp add: limb_base_def)

lemma limb_val_append: "limb_val (xs @ ys) = limb_val xs + limb_base ^ length xs * limb_val ys"
  by (induction xs) (simp_all add: algebra_simps)

lemma limb_val_replicate_0 [simp]: "limb_val (replicate n 0) = 0"
  by (induction n) simp_all

lemma limb_val_bound: "limb_val xs < limb_base ^ length xs"
proof (induction xs)
  case (Cons x xs)
  have "unat x + limb_base * limb_val xs < limb_base * (limb_val xs + 1)"
    using unat_limb [of x] by (simp add: algebra_simps)
  also have "\<dots> \<le> limb_base * limb_base ^ length xs" using Cons by (intro mult_le_mono2) simp
  finally show ?case by simp
qed simp

lemma limb_val_take_bound [simp]: "limb_val (take n xs) < limb_base ^ n"
  using limb_val_bound [of "take n xs"] power_increasing [of "min (length xs) n" n limb_base]
  by (simp add: less_le_trans)

lemma limb_val_take_drop: "limb_val xs = limb_val (take n xs) + limb_base ^ n * limb_val (drop n xs)"
proof (cases "n \<le> length xs")
  case True
  then show ?thesis using limb_val_append [of "take n xs" "drop n xs"] by (simp add: min_absorb2)
qed simp

lemma limb_val_mod: "limb_val xs mod limb_base ^ n = limb_val (take n xs)"
  by (subst limb_val_take_drop [of xs n]) simp

lemma limb_val_div: "limb_val xs div limb_base ^ n = limb_val (drop n xs)"
  by (subst limb_val_take_drop [of xs n]) simp

lemma limb_val_eq_0: "limb_val xs = 0 \<longleftrightarrow> (\<forall>x\<in>set xs. x = 0)"
  by (induction xs) (auto simp: unat_eq_0)

lemma limb_val_inject: "length xs = length ys \<Longrightarrow> limb_val xs = limb_val ys \<longleftrightarrow> xs = ys"
proof (induction xs ys rule: list_induct2)
  case (Cons x xs y ys)
  have "limb_val (x # xs) = limb_val (y # ys) \<longleftrightarrow> unat x = unat y \<and> limb_val xs = limb_val ys"
  proof
    assume "limb_val (x # xs) = limb_val (y # ys)"
    then have "(unat x + limb_base * limb_val xs) mod limb_base = (unat y + limb_base * limb_val ys) mod limb_base"
      and "(unat x + limb_base * limb_val xs) div limb_base = (unat y + limb_base * limb_val ys) div limb_base"
      by simp_all
    then show "unat x = unat y \<and> limb_val xs = limb_val ys" by simp
  qed simp
  then show ?case using Cons by (simp add: word_unat_eq_iff)
qed simp

lemma length_fixed_limbs [simp]: "length (fixed_limbs n xs) = n"
  by (simp add: fixed_limbs_def)

lemma limb_val_fixed_limbs [simp]: "length xs \<le> n \<Longrightarrow> limb_val (fixed_limbs n xs) = limb_val xs"
  by (simp add: fixed_limbs_def limb_val_append)

lemma limb_val_strip [simp]: "limb_val (strip_while (\<lambda>x. x = 0) xs) = limb_val xs"
proof (induction xs rule: rev_induct)
  case (snoc x xs)
  then show ?case by (cases "x = 0") (simp_all add: limb_val_append)
qed simp

section \<open>64-bit intermediate values\<close>

lemma split64: "unat (p::u64) = unat (low32 p) + limb_base * unat (high32 p)"
  unfolding unat_ucast_mod unat_drop_bit_div by (simp add: limb_base_def)

lemma unat_low32: "unat (low32 p) = unat p mod 2 ^ 32"
  by (simp add: unat_ucast_mod)

lemma high32_bound: "unat (p::u64) < limb_base * n \<Longrightarrow> unat (high32 p) < n"
  unfolding unat_drop_bit_div by (simp add: limb_base_def less_mult_imp_div_less mult.commute)

lemma unat_u64_ucast [simp]: "unat (ucast (x::u32) :: u64) = unat x"
  by (rule unat_ucast_up) simp

lemma unat_sum64:
  assumes "unat c < limb_base"
  shows "unat (ucast l + ucast r + c :: u64) = unat (l::u32) + unat (r::u32) + unat c"
    and "unat (high32 (ucast l + ucast r + c)) < limb_base"
proof -
  have b: "unat l < 2 ^ 32" "unat r < 2 ^ 32" "unat c < 2 ^ 32"
    using assms unat_limb [of l] unat_limb [of r] by (simp_all add: limb_base_def)
  then show s: "unat (ucast l + ucast r + c :: u64) = unat l + unat r + unat c"
    by (simp add: unat_word_ariths)
  show "unat (high32 (ucast l + ucast r + c)) < limb_base"
    using b by (intro high32_bound) (simp add: s limb_base_def)
qed

lemma unat_mac64:
  assumes "unat c < limb_base"
  shows "unat (ucast a * ucast r + ucast x + c :: u64) = unat (a::u32) * unat (r::u32) + unat (x::u32) + unat c"
    and "unat (high32 (ucast a * ucast r + ucast x + c)) < limb_base"
proof -
  have "unat a \<le> 2 ^ 32 - 1" "unat r \<le> 2 ^ 32 - 1" and b: "unat x \<le> 2 ^ 32 - 1" "unat c \<le> 2 ^ 32 - 1"
    using assms unat_limb [of a] unat_limb [of r] unat_limb [of x] by (simp_all add: limb_base_def)
  then have "unat a * unat r \<le> (2 ^ 32 - 1) * (2 ^ 32 - 1)" by (intro mult_le_mono)
  with b have sum: "unat a * unat r + unat x + unat c < 2 ^ 64" by simp
  then show s: "unat (ucast a * ucast r + ucast x + c :: u64) = unat a * unat r + unat x + unat c"
    by (simp add: unat_word_ariths mod_add_left_eq)
  show "unat (high32 (ucast a * ucast r + ucast x + c)) < limb_base"
    using sum by (intro high32_bound) (simp add: s limb_base_def)
qed

section \<open>The loops, in numbers\<close>

text \<open>One limb of a chain: the low half is written, the high half goes on.\<close>

lemma carry_step:
  fixes lo hi B out P c v t :: nat
  assumes "lo + B * hi = t" "out + P * c = v + hi"
  shows "lo + B * out + B * P * c = t + B * v"
proof -
  have "B * (out + P * c) = B * (v + hi)" using assms(2) by simp
  with assms(1) show ?thesis by (simp add: algebra_simps)
qed

lemma add_limbs_value:
  assumes "length ls = length rs" "unat c < limb_base"
  shows "limb_val (fst (add_limbs ls rs c)) + limb_base ^ length ls * unat (snd (add_limbs ls rs c))
      = limb_val ls + limb_val rs + unat c
    \<and> length (fst (add_limbs ls rs c)) = length ls"
  using assms
proof (induction ls rs arbitrary: c rule: list_induct2)
  case (Cons l ls r rs)
  define s :: u64 where "s = ucast l + ucast r + c"
  obtain out d where rest: "add_limbs ls rs (high32 s) = (out, d)" by fastforce
  have sum: "unat s = unat l + unat r + unat c" "unat (high32 s) < limb_base"
    using unat_sum64 [OF Cons.prems, of l r] by (simp_all add: s_def)
  have IH: "limb_val out + limb_base ^ length ls * unat d = (limb_val ls + limb_val rs) + unat (high32 s)"
    "length out = length ls"
    using Cons.IH [OF sum(2)] by (simp_all add: rest)
  have eq: "add_limbs (l # ls) (r # rs) c = (low32 s # out, d)" by (simp add: Let_def rest s_def [symmetric])
  have "unat (low32 s) + limb_base * limb_val out + limb_base * limb_base ^ length ls * unat d
      = (unat l + unat r + unat c) + limb_base * (limb_val ls + limb_val rs)"
    by (rule carry_step [OF _ IH(1)]) (simp only: sum(1) split64 [symmetric])
  then show ?case unfolding eq by (simp add: IH(2) algebra_simps)
qed simp

lemma add_carry_value:
  assumes "unat c < limb_base"
  shows "limb_val (fst (add_carry xs c)) + limb_base ^ length xs * unat (snd (add_carry xs c)) = limb_val xs + unat c
    \<and> length (fst (add_carry xs c)) = length xs"
  using assms
proof (induction xs arbitrary: c)
  case (Cons x xs)
  show ?case
  proof (cases "c = 0")
    case False
    define s :: u64 where "s = ucast x + c"
    obtain out d where rest: "add_carry xs (high32 s) = (out, d)" by fastforce
    have sum: "unat s = unat x + unat c" "unat (high32 s) < limb_base"
      using unat_sum64 [OF Cons.prems, of x 0] by (simp_all add: s_def)
    have IH: "limb_val out + limb_base ^ length xs * unat d = limb_val xs + unat (high32 s)" "length out = length xs"
      using Cons.IH [OF sum(2)] by (simp_all add: rest)
    have eq: "add_carry (x # xs) c = (low32 s # out, d)" using False by (simp add: Let_def rest s_def [symmetric])
    have "unat (low32 s) + limb_base * limb_val out + limb_base * limb_base ^ length xs * unat d
        = (unat x + unat c) + limb_base * limb_val xs"
      by (rule carry_step [OF _ IH(1)]) (simp only: sum(1) split64 [symmetric])
    then show ?thesis unfolding eq by (simp add: IH(2) algebra_simps)
  qed simp
qed simp

lemma mac_row_value:
  assumes "length rs \<le> length xs" "unat c < limb_base"
  shows "limb_val (fst (mac_row a rs xs c)) + limb_base ^ length xs * unat (snd (mac_row a rs xs c))
      = limb_val xs + unat a * limb_val rs + unat c
    \<and> length (fst (mac_row a rs xs c)) = length xs"
  using assms
proof (induction xs arbitrary: rs c)
  case Nil
  then show ?case by simp
next
  case (Cons x xs)
  show ?case
  proof (cases rs)
    case Nil
    then show ?thesis using add_carry_value [OF Cons.prems(2), of "x # xs"] by simp
  next
    case rs: (Cons r rs')
    define p :: u64 where "p = ucast a * ucast r + ucast x + c"
    obtain out d where rest: "mac_row a rs' xs (high32 p) = (out, d)" by fastforce
    have prod: "unat p = unat a * unat r + unat x + unat c" "unat (high32 p) < limb_base"
      using unat_mac64 [OF Cons.prems(2), of a r x] by (simp_all add: p_def)
    have IH: "limb_val out + limb_base ^ length xs * unat d = (limb_val xs + unat a * limb_val rs') + unat (high32 p)"
      "length out = length xs"
      using Cons.IH [OF _ prod(2), of rs'] Cons.prems(1) rs by (simp_all add: rest)
    have eq: "mac_row a rs (x # xs) c = (low32 p # out, d)" by (simp add: rs Let_def rest p_def [symmetric])
    have "unat (low32 p) + limb_base * limb_val out + limb_base * limb_base ^ length xs * unat d
        = (unat a * unat r + unat x + unat c) + limb_base * (limb_val xs + unat a * limb_val rs')"
      by (rule carry_step [OF _ IH(1)]) (simp only: prod(1) split64 [symmetric])
    then show ?thesis unfolding eq by (simp add: rs IH(2) algebra_simps)
  qed
qed

lemma sub_step:
  fixes l r :: u32 and b :: u64
  assumes "unat b \<le> 1"
  defines "left \<equiv> ucast l :: u64" and "right \<equiv> ucast r + b"
  shows "unat (low32 (left - right)) + unat r + unat b = unat l + limb_base * (if left < right then 1 else 0)"
proof -
  have bounds: "unat l < 2 ^ 32" "unat r < 2 ^ 32"
    using unat_limb [of l] unat_limb [of r] by (simp_all add: limb_base_def)
  have right: "unat right = unat r + unat b" using bounds assms(1) by (simp add: right_def unat_word_ariths)
  have left: "unat left = unat l" by (simp add: left_def)
  show ?thesis
  proof (cases "left < right")
    case True
    then have lt: "unat l < unat r + unat b" by (simp add: word_less_nat_alt left right)
    have "\<not> unat r + unat b \<le> unat l" using lt by simp
    then have "unat (left - right) = unat l + 2 ^ 64 - (unat r + unat b)"
      by (simp add: unat_sub_if' left right)
    also have "\<dots> = (2 ^ 32 + unat l - (unat r + unat b)) + 2 ^ 32 * (2 ^ 32 - 1)"
      using lt bounds assms(1) by simp
    finally have "unat (low32 (left - right)) = (2 ^ 32 + unat l - (unat r + unat b)) mod 2 ^ 32"
      unfolding unat_low32 by (simp only: mod_mult_self2)
    then show ?thesis using True lt bounds assms(1) by (simp add: limb_base_def)
  next
    case False
    then have le: "unat r + unat b \<le> unat l" by (simp add: word_less_nat_alt left right)
    then have "unat (left - right) = unat l - (unat r + unat b)"
      by (simp add: unat_sub_if' left right)
    then show ?thesis using False le bounds by (simp add: unat_ucast_mod)
  qed
qed

lemma borrow_step:
  fixes lo b b' d r l v w out P B :: nat
  assumes "lo + r + b = l + B * b'" "out + w + b' = v + P * d"
  shows "(lo + B * out) + (r + B * w) + b = (l + B * v) + B * P * d"
proof -
  have "B * (out + w + b') = B * (v + P * d)" using assms(2) by simp
  with assms(1) show ?thesis by (simp add: algebra_simps)
qed

lemma sub_limbs_value:
  assumes "length ls = length rs" "unat b \<le> 1"
  shows "limb_val (fst (sub_limbs ls rs b)) + limb_val rs + unat b
      = limb_val ls + limb_base ^ length ls * unat (snd (sub_limbs ls rs b))
    \<and> length (fst (sub_limbs ls rs b)) = length ls \<and> unat (snd (sub_limbs ls rs b)) \<le> 1"
  using assms
proof (induction ls rs arbitrary: b rule: list_induct2)
  case (Cons l ls r rs)
  define b' :: u64 where "b' = (if ucast l < ucast r + b then 1 else 0)"
  have b': "unat b' \<le> 1" "unat b' = (if ucast l < ucast r + b then 1 else 0)" by (simp_all add: b'_def)
  obtain out d where rest: "sub_limbs ls rs b' = (out, d)" by fastforce
  have IH: "limb_val out + limb_val rs + unat b' = limb_val ls + limb_base ^ length ls * unat d"
    "length out = length ls" "unat d \<le> 1"
    using Cons.IH [OF b'(1)] by (simp_all add: rest)
  have "unat (low32 (ucast l - (ucast r + b))) + unat r + unat b = unat l + limb_base * unat b'"
    using sub_step [OF Cons.prems, of l r] b'(2) by simp
  from borrow_step [OF this IH(1)]
  show ?case using IH(2,3) by (simp add: Let_def b'_def [symmetric] rest)
qed simp

text \<open>Without a final carry or borrow, the loops compute the sum and the difference.\<close>

lemma sub_limbs_le:
  assumes "length ls = length rs" "limb_val rs \<le> limb_val ls"
  shows "limb_val (fst (sub_limbs ls rs 0)) = limb_val ls - limb_val rs" "snd (sub_limbs ls rs 0) = 0"
proof -
  let ?o = "fst (sub_limbs ls rs 0)" and ?d = "snd (sub_limbs ls rs 0)"
  have v: "limb_val ?o + limb_val rs = limb_val ls + limb_base ^ length ls * unat ?d"
    and l: "length ?o = length ls" and d: "unat ?d \<le> 1"
    using sub_limbs_value [OF assms(1), of 0] by simp_all
  have "unat ?d = 0"
  proof (rule ccontr)
    assume "unat ?d \<noteq> 0"
    then have "unat ?d = 1" using d by simp
    then have "limb_val ?o + limb_val rs = limb_val ls + limb_base ^ length ls" using v by simp
    moreover have "limb_val ?o < limb_base ^ length ls" using limb_val_bound [of ?o] l by simp
    ultimately show False using assms(2) by linarith
  qed
  then show "limb_val ?o = limb_val ls - limb_val rs" "?d = 0" using v by (simp_all add: unat_eq_0)
qed

lemma sub_limbs_less:
  assumes "length ls = length rs" "limb_val ls < limb_val rs"
  shows "limb_val (fst (sub_limbs ls rs 0)) = limb_base ^ length ls + limb_val ls - limb_val rs"
proof -
  let ?o = "fst (sub_limbs ls rs 0)" and ?d = "snd (sub_limbs ls rs 0)"
  have v: "limb_val ?o + limb_val rs = limb_val ls + limb_base ^ length ls * unat ?d" and d: "unat ?d \<le> 1"
    using sub_limbs_value [OF assms(1), of 0] by simp_all
  have "unat ?d \<noteq> 0" using v assms(2) by (intro notI) simp
  then have "unat ?d = 1" using d by simp
  then show ?thesis using v by simp
qed

section \<open>Products\<close>

lemma mac_row_at_value:
  assumes "i + length rs \<le> length acc" "limb_val acc + limb_base ^ i * (unat a * limb_val rs) < limb_base ^ length acc"
  shows "limb_val (mac_row_at a rs i acc) = limb_val acc + limb_base ^ i * (unat a * limb_val rs)"
    and "length (mac_row_at a rs i acc) = length acc"
    and "snd (mac_row a rs (drop i acc) 0) = 0"
proof -
  let ?o = "fst (mac_row a rs (drop i acc) 0)" and ?c = "snd (mac_row a rs (drop i acc) 0)"
  have i: "i \<le> length acc" using assms(1) by simp
  have row: "limb_val ?o + limb_base ^ (length acc - i) * unat ?c = limb_val (drop i acc) + unat a * limb_val rs"
    and len: "length ?o = length acc - i"
    using mac_row_value [of rs "drop i acc" 0 a] assms(1) by simp_all
  have pow: "limb_base ^ i * limb_base ^ (length acc - i) = limb_base ^ length acc"
    using i by (simp flip: power_add)
  have "limb_base ^ i * (limb_val ?o + limb_base ^ (length acc - i) * unat ?c)
      = limb_base ^ i * (limb_val (drop i acc) + unat a * limb_val rs)"
    using row by simp
  then have total: "limb_base ^ i * limb_val ?o + limb_base ^ length acc * unat ?c + limb_val (take i acc)
      = limb_val acc + limb_base ^ i * (unat a * limb_val rs)"
    using limb_val_take_drop [of acc i] by (simp add: distrib_left pow flip: mult.assoc)
  have "unat ?c = 0"
  proof (rule ccontr)
    assume "unat ?c \<noteq> 0"
    then have "limb_base ^ length acc * 1 \<le> limb_base ^ length acc * unat ?c" by (intro mult_le_mono2) simp
    then show False using total assms(2) by linarith
  qed
  then show "snd (mac_row a rs (drop i acc) 0) = 0" by (simp add: unat_eq_0)
  show "length (mac_row_at a rs i acc) = length acc" using len i by (simp add: mac_row_at_def)
  show "limb_val (mac_row_at a rs i acc) = limb_val acc + limb_base ^ i * (unat a * limb_val rs)"
    using total \<open>unat ?c = 0\<close> i by (simp add: mac_row_at_def limb_val_append min_absorb2)
qed

lemma limb_val_take_Suc: "i < length xs \<Longrightarrow> limb_val (take (Suc i) xs) = limb_val (take i xs) + limb_base ^ i * unat (xs ! i)"
  by (simp add: take_Suc_conv_app_nth limb_val_append min_absorb2)

lemma mult_bound: "a < (b::nat) \<Longrightarrow> c < d \<Longrightarrow> a * c < b * d"
  by (rule mult_strict_mono') simp_all

lemma limb_val_mult_bound: "limb_val (take k left) * limb_val right < limb_base ^ (k + length right)"
  unfolding power_add by (rule mult_bound [OF limb_val_take_bound limb_val_bound])

lemma multiply_rows_value:
  assumes "length left + length right \<le> length acc" "limb_val acc = 0"
  shows "limb_val (multiply_rows left right acc) = limb_val left * limb_val right"
    and "length (multiply_rows left right acc) = length acc"
proof -
  let ?R = "\<lambda>k. foldl (\<lambda>acc i. mac_row_at (left ! i) right i acc) acc [0..<k]"
  have "limb_val (?R k) = limb_val (take k left) * limb_val right \<and> length (?R k) = length acc"
    if "k \<le> length left" for k
    using that
  proof (induction k)
    case (Suc k)
    then have IH: "limb_val (?R k) = limb_val (take k left) * limb_val right" "length (?R k) = length acc"
      and k: "k < length left" by auto
    have sum: "limb_val (?R k) + limb_base ^ k * (unat (left ! k) * limb_val right)
        = limb_val (take (Suc k) left) * limb_val right"
      by (simp add: IH(1) limb_val_take_Suc [OF k] algebra_simps)
    also have "\<dots> < limb_base ^ (Suc k + length right)" by (rule limb_val_mult_bound)
    also have "\<dots> \<le> limb_base ^ length (?R k)"
      using k assms(1) IH(2) by (intro power_increasing) simp_all
    finally have bound: "limb_val (?R k) + limb_base ^ k * (unat (left ! k) * limb_val right) < limb_base ^ length (?R k)" .
    have "k + length right \<le> length (?R k)" using k assms(1) IH(2) by simp
    from mac_row_at_value(1,2) [OF this bound] sum show ?case by (simp add: IH(2))
  qed (simp add: assms(2))
  from this [of "length left"] show "limb_val (multiply_rows left right acc) = limb_val left * limb_val right"
    "length (multiply_rows left right acc) = length acc"
    by (simp_all add: multiply_rows_def)
qed

section \<open>Montgomery reduction\<close>

lemma of_nat_limb_base [simp]: "(of_nat limb_base :: u32) = 0"
  by (simp add: limb_base_def)

lemma of_nat_eq_0_u32: "(of_nat n :: u32) = 0 \<longleftrightarrow> limb_base dvd n"
  by (simp add: word_of_nat_eq_0_iff limb_base_def)

lemma of_nat_limb_val: "xs \<noteq> [] \<Longrightarrow> (of_nat (limb_val xs) :: u32) = xs ! 0"
  by (cases xs) simp_all

lemma newton_step: "1 - v * (x * (2 - v * x)) = (1 - v * x) * (1 - v * (x :: u32))"
  by (simp add: algebra_simps)

lemma low_inverse_correct:
  assumes "odd (v::u32)"
  shows "v * low_inverse v = - 1"
proof -
  let ?f = "\<lambda>x. x * (2 - v * x)"
  have e: "1 - v * ?f (?f (?f (?f (?f 1)))) = (1 - v) ^ 32"
    unfolding newton_step by (simp add: eval_nat_numeral mult.assoc)
  from assms have "even (1 - v)" by simp
  then obtain k where "1 - v = 2 * k" by (rule evenE)
  then have "(1 - v) ^ 32 = 2 ^ 32 * k ^ 32" by (simp only: power_mult_distrib)
  also have "(2 ^ 32 :: u32) = 0" by simp
  finally have "v * ?f (?f (?f (?f (?f 1)))) = 1" using e by simp
  then show ?thesis by (simp add: low_inverse_def)
qed

lemma reduce_rows_value:
  assumes "2 * length modulus + 1 \<le> length acc" "modulus \<noteq> []" "modulus ! 0 * n0 = - 1"
    and "limb_val acc < limb_base ^ (2 * length modulus)"
  shows "\<exists>q < limb_base ^ length modulus. limb_val (reduce_rows n0 modulus acc) = limb_val acc + q * limb_val modulus"
    and "limb_base ^ length modulus dvd limb_val (reduce_rows n0 modulus acc)"
    and "length (reduce_rows n0 modulus acc) = length acc"
proof -
  let ?N = "limb_val modulus" and ?w = "length modulus"
  let ?R = "\<lambda>k. foldl (\<lambda>acc i. mac_row_at (acc ! i * n0) modulus i acc) acc [0..<k]"
  have "(\<exists>q < limb_base ^ k. limb_val (?R k) = limb_val acc + q * ?N) \<and> limb_base ^ k dvd limb_val (?R k)
      \<and> length (?R k) = length acc" if "k \<le> ?w" for k
    using that
  proof (induction k)
    case (Suc k)
    then obtain q where q: "q < limb_base ^ k" "limb_val (?R k) = limb_val acc + q * ?N"
      and dvd: "limb_base ^ k dvd limb_val (?R k)" and len: "length (?R k) = length acc" and k: "k < ?w"
      by auto
    define f where "f = ?R k ! k * n0"
    let ?q = "q + limb_base ^ k * unat f"
    have sum: "limb_val (?R k) + limb_base ^ k * (unat f * ?N) = limb_val acc + ?q * ?N"
      unfolding q(2) by (simp add: algebra_simps)
    have "limb_base ^ k * unat f + limb_base ^ k \<le> limb_base ^ k * limb_base"
      using unat_limb [of f] by (metis Suc_leI mult_Suc_right mult_le_mono2 add.commute)
    then have qb: "?q < limb_base ^ Suc k" using q(1) unfolding power_Suc2 by linarith
    have "?q * ?N < limb_base ^ Suc k * limb_base ^ ?w" by (rule mult_bound [OF qb limb_val_bound])
    also have "\<dots> \<le> limb_base ^ (2 * ?w)"
      unfolding power_add [symmetric] using k by (intro power_increasing) simp_all
    finally have "limb_val acc + ?q * ?N < 2 * limb_base ^ (2 * ?w)" using assms(4) by linarith
    also have "\<dots> \<le> limb_base ^ (2 * ?w + 1)" by simp (simp add: limb_base_def)
    also have "\<dots> \<le> limb_base ^ length (?R k)" using assms(1) len by (intro power_increasing) simp_all
    finally have bound: "limb_val (?R k) + limb_base ^ k * (unat f * ?N) < limb_base ^ length (?R k)"
      unfolding sum .
    have "k + ?w \<le> length (?R k)" using k assms(1) len by simp
    note row = mac_row_at_value(1,2) [OF this bound]
    have R: "?R (Suc k) = mac_row_at f modulus k (?R k)" by (simp add: f_def)
    have "limb_base ^ Suc k dvd limb_base ^ k * (limb_val (drop k (?R k)) + unat f * ?N)"
    proof -
      have "k < length (?R k)" using k assms(1) len by simp
      then have "drop k (?R k) \<noteq> []" "drop k (?R k) ! 0 = ?R k ! k" by simp_all
      then have "(of_nat (limb_val (drop k (?R k)) + unat f * ?N) :: u32) = ?R k ! k + f * modulus ! 0"
        using assms(2) by (simp add: of_nat_limb_val)
      also have "\<dots> = ?R k ! k * (1 + modulus ! 0 * n0)" by (simp add: f_def algebra_simps)
      also have "\<dots> = 0" using assms(3) by simp
      finally have "limb_base dvd limb_val (drop k (?R k)) + unat f * ?N" by (simp only: of_nat_eq_0_u32)
      then show ?thesis by simp
    qed
    moreover have "limb_val (?R k) = limb_base ^ k * limb_val (drop k (?R k))"
      unfolding limb_val_div [symmetric] using dvd by (rule dvd_mult_div_cancel [symmetric])
    ultimately have "limb_base ^ Suc k dvd limb_val (?R (Suc k))"
      unfolding R row(1) by (simp add: distrib_left)
    then show ?case unfolding R row using qb sum len by auto
  qed simp
  from this [of ?w] show "\<exists>q < limb_base ^ ?w. limb_val (reduce_rows n0 modulus acc) = limb_val acc + q * ?N"
    "limb_base ^ ?w dvd limb_val (reduce_rows n0 modulus acc)" "length (reduce_rows n0 modulus acc) = length acc"
    by (simp_all add: reduce_rows_def)
qed

text \<open>
  The Montgomery product before its final subtraction: a number below twice the modulus that,
  times the radix, is the product modulo the modulus.
\<close>

lemma montgomery_rows:
  assumes "length left = length modulus" "length right = length modulus" "modulus \<noteq> []"
    and "odd (modulus ! 0)" "limb_val left < limb_val modulus" "limb_val right < limb_val modulus"
    and "2 * length modulus + 1 \<le> length acc" "limb_val acc = 0"
  defines "out \<equiv> reduce_rows (low_inverse (modulus ! 0)) modulus (multiply_rows left right acc)"
    and "m \<equiv> limb_val (drop (length modulus) (reduce_rows (low_inverse (modulus ! 0)) modulus (multiply_rows left right acc)))"
  shows "(m * limb_base ^ length modulus) mod limb_val modulus = (limb_val left * limb_val right) mod limb_val modulus"
    and "m < 2 * limb_val modulus" and "length out = length acc"
proof -
  let ?w = "length modulus" and ?N = "limb_val modulus"
  let ?p = "multiply_rows left right acc"
  have p: "limb_val ?p = limb_val left * limb_val right" "length ?p = length acc"
    using multiply_rows_value [of left right acc] assms(1,2,7,8) by simp_all
  have NN: "?N < limb_base ^ ?w" by (rule limb_val_bound)
  have T: "limb_val ?p < ?N * ?N" unfolding p(1) using assms(5,6) by (rule mult_bound)
  also have "?N * ?N < limb_base ^ ?w * limb_base ^ ?w" using NN NN by (rule mult_bound)
  also have "\<dots> = limb_base ^ (2 * ?w)" by (simp add: mult_2 power_add)
  finally have pb: "limb_val ?p < limb_base ^ (2 * ?w)" .
  note red = reduce_rows_value [OF _ assms(3) low_inverse_correct [OF assms(4)] pb, unfolded p(2), OF assms(7)]
  from red(1) obtain q where q: "q < limb_base ^ ?w" "limb_val out = limb_val ?p + q * ?N"
    unfolding out_def by blast
  have m: "m * limb_base ^ ?w = limb_val out"
    using red(2) by (simp add: m_def out_def flip: limb_val_div)
  show "length out = length acc" using red(3) by (simp add: out_def)
  show "(m * limb_base ^ ?w) mod ?N = (limb_val left * limb_val right) mod ?N"
    unfolding m q(2) p(1) by simp
  have "m * limb_base ^ ?w < ?N * limb_base ^ ?w + ?N * limb_base ^ ?w"
  proof -
    have "?N * ?N \<le> ?N * limb_base ^ ?w" using NN by (intro mult_le_mono2) simp
    moreover have "q * ?N \<le> ?N * limb_base ^ ?w" unfolding mult.commute [of q] using q(1) by (intro mult_le_mono2) simp
    ultimately show ?thesis unfolding m q(2) using T by linarith
  qed
  then have "m * limb_base ^ ?w < (2 * ?N) * limb_base ^ ?w" by (simp only: mult_2 add_mult_distrib)
  then show "m < 2 * ?N" by (simp only: mult_less_cancel2)
qed

section \<open>Selection and comparison\<close>

lemma select_limbs_value:
  assumes "length xs = length ys"
  shows "select_limbs (- 1) xs ys = xs" "select_limbs 0 xs ys = ys"
  using assms by (induction xs ys rule: list_induct2) (simp_all add: select_limbs_def)

lemma length_select_limbs [simp]: "length (select_limbs m xs ys) = min (length xs) (length ys)"
  by (simp add: select_limbs_def)

text \<open>The three-way comparison from the most significant limb down, on arrays of the same size.\<close>

fun compare_down :: "u32 list \<Rightarrow> u32 list \<Rightarrow> int" where
  "compare_down (x # xs) (y # ys) = (if x < y then -1 else if y < x then 1 else compare_down xs ys)"
| "compare_down _ _ = 0"

lemma limb_val_snoc: "limb_val (xs @ [x]) = limb_val xs + limb_base ^ length xs * unat x"
  by (simp add: limb_val_append)

lemma limb_val_snoc_less:
  assumes "length xs = length ys" "x < y"
  shows "limb_val (xs @ [x]) < limb_val (ys @ [y])"
proof -
  have "limb_val xs + limb_base ^ length xs * unat x < limb_base ^ length xs * (unat x + 1)"
    using limb_val_bound [of xs] by simp
  also have "\<dots> \<le> limb_base ^ length xs * unat y"
    using assms(2) by (intro mult_le_mono2) (simp add: word_less_nat_alt)
  finally show ?thesis using assms(1) by (simp add: limb_val_snoc)
qed

lemma compare_down_value:
  "length xs = length ys \<Longrightarrow> compare_down (rev xs) (rev ys) =
    (if limb_val xs < limb_val ys then -1 else if limb_val ys < limb_val xs then 1 else 0)"
proof (induction xs arbitrary: ys rule: rev_induct)
  case (snoc x xs)
  then obtain zs y where ys: "ys = zs @ [y]" "length xs = length zs"
    by (cases ys rule: rev_cases) auto
  consider "x < y" | "y < x" | "x = y" using less_linear by blast
  then show ?case
  proof cases
    case 1
    then show ?thesis using limb_val_snoc_less [OF ys(2) 1] by (simp add: ys)
  next
    case 2
    then show ?thesis using limb_val_snoc_less [OF ys(2) [symmetric] 2] by (auto simp: ys)
  next
    case 3
    then show ?thesis using snoc.IH [OF ys(2)] ys(2) by (simp add: ys limb_val_snoc)
  qed
qed simp

section \<open>Bytes\<close>

text \<open>Little-endian byte strings.\<close>

fun le_val :: "bytes \<Rightarrow> nat" where
  "le_val [] = 0"
| "le_val (b # bs) = unat b + 256 * le_val bs"

lemma le_val_rev: "le_val (rev bs) = be_val bs"
proof -
  have app: "le_val (xs @ ys) = le_val xs + 256 ^ length xs * le_val ys" for xs ys
    by (induction xs) (simp_all add: algebra_simps)
  show ?thesis by (induction bs) (simp_all add: app be_val_Cons)
qed

lemma unat_shifted_byte: "i < 4 \<Longrightarrow> unat (push_bit (i * 8) (ucast (b::u8)) :: u32) = 256 ^ i * unat b"
proof -
  assume i: "i < 4"
  have "256 ^ i * unat b < 256 ^ i * 256" by simp
  also have "\<dots> = (256::nat) ^ (i + 1)" by simp
  also have "\<dots> \<le> 256 ^ 4" using i by (intro power_increasing) simp_all
  finally have bound: "256 ^ i * unat b < 2 ^ 32" by simp
  have p: "(2::nat) ^ (i * 8) = 256 ^ i" by (simp add: mult.commute [of i] power_mult)
  have "unat (push_bit (i * 8) (ucast b) :: u32) = take_bit 32 (push_bit (i * 8) (unat b))"
    by (simp add: unsigned_push_bit_eq unat_ucast_up)
  also have "push_bit (i * 8) (unat b) = 256 ^ i * unat b"
    unfolding push_bit_eq_mult p by (rule mult.commute)
  finally show ?thesis using bound by (simp only: take_bit_nat_eq_self)
qed

lemma le_limb_value:
  assumes "length bs + i \<le> 4"
  shows "unat (le_limb i bs) = 256 ^ i * le_val bs" and "\<And>n. n < 8 * i \<Longrightarrow> \<not> bit (le_limb i bs) n"
proof -
  have "unat (le_limb i bs) = 256 ^ i * le_val bs \<and> (\<forall>n < 8 * i. \<not> bit (le_limb i bs) n)"
    using assms
  proof (induction bs arbitrary: i)
    case (Cons b bs)
    then have IH: "unat (le_limb (i + 1) bs) = 256 ^ (i + 1) * le_val bs" "\<forall>n < 8 * (i + 1). \<not> bit (le_limb (i + 1) bs) n"
      and i: "i < 4" by auto
    let ?x = "push_bit (i * 8) (ucast b) :: u32" and ?y = "le_limb (i + 1) bs"
    have low: "\<not> bit ?x n" if "n < 8 * i \<or> 8 * (i + 1) \<le> n" for n
      using that by (auto simp: bit_simps)
    have "?x + ?y = ?x OR ?y"
      by (rule disjunctive_add) (use low IH(2) in \<open>meson not_le\<close>)
    moreover have "256 ^ i * unat b + 256 ^ (i + 1) * le_val bs < 2 ^ 32"
    proof -
      have "unat b + 256 * le_val bs < 256 ^ length (b # bs)"
        using be_val_bound [of "rev (b # bs)"] le_val_rev [of "rev (b # bs)"] by simp
      then have "256 ^ i * (unat b + 256 * le_val bs) < 256 ^ i * 256 ^ length (b # bs)" by simp
      also have "\<dots> \<le> 256 ^ 4" unfolding power_add [symmetric] using Cons.prems by (intro power_increasing) simp_all
      finally show ?thesis by (simp add: algebra_simps)
    qed
    moreover have "unat (?x + ?y) = (unat ?x + unat ?y) mod 2 ^ 32" by (simp add: unat_word_ariths(1))
    ultimately have "unat (?x OR ?y) = 256 ^ i * unat b + 256 ^ (i + 1) * le_val bs"
      unfolding unat_shifted_byte [OF i] IH(1) by (simp only: mod_less)
    moreover have "\<forall>n < 8 * i. \<not> bit (?x OR ?y) n" using low IH(2) by (auto simp: bit_or_iff)
    ultimately show ?case by (simp add: algebra_simps)
  qed simp
  then show "unat (le_limb i bs) = 256 ^ i * le_val bs" "\<And>n. n < 8 * i \<Longrightarrow> \<not> bit (le_limb i bs) n" by auto
qed

lemma le_val_append: "le_val (xs @ ys) = le_val xs + 256 ^ length xs * le_val ys"
  by (induction xs) (simp_all add: algebra_simps)

lemma limbs_from_le_bytes_value:
  "length rb \<le> 4 * n \<Longrightarrow> limb_val (limbs_from_le_bytes n rb) = le_val rb"
proof (induction n arbitrary: rb)
  case (Suc n)
  have "unat (le_limb 0 (take 4 rb)) = le_val (take 4 rb)" using le_limb_value(1) [of "take 4 rb" 0] by simp
  moreover have "limb_val (limbs_from_le_bytes n (drop 4 rb)) = le_val (drop 4 rb)" using Suc by simp
  moreover have "le_val rb = le_val (take 4 rb) + limb_base * le_val (drop 4 rb)"
  proof (cases "4 \<le> length rb")
    case True
    then show ?thesis using le_val_append [of "take 4 rb" "drop 4 rb"] by (simp add: limb_base_def min_absorb2)
  qed simp
  ultimately show ?case by simp
qed simp

lemma length_limbs_from_le_bytes [simp]: "length (limbs_from_le_bytes n rb) = n"
  by (induction n arbitrary: rb) simp_all

lemma be_val_store_be32 [simp]: "be_val (store_be32 v) = unat v"
proof -
  define u where "u = unat v"
  have "u < 2 ^ 32" using unat_limb [of v] by (simp add: u_def limb_base_def)
  then have top: "u div 2 ^ 24 mod 256 = u div 2 ^ 24" by (intro mod_less) (simp add: less_mult_imp_div_less)
  have d: "u div 2 ^ 16 = u div 2 ^ 8 div 256" "u div 2 ^ 24 = u div 2 ^ 16 div 256"
    by (simp_all add: div_mult2_eq [symmetric])
  have "be_val (store_be32 v) = u div 2 ^ 24 mod 256 * 256 ^ 3 + (u div 2 ^ 16 mod 256 * 256 ^ 2 +
      (u div 2 ^ 8 mod 256 * 256 + u mod 256))"
    unfolding store_be32_def be_val_Cons unat_ucast_mod unat_drop_bit_div u_def by simp
  also have "\<dots> = u"
  proof -
    define q where "q = u div 2 ^ 8"
    define p where "p = q div 256"
    have "u = 256 * q + u mod 256" "q = 256 * p + q mod 256" "p = 256 * (p div 256) + p mod 256"
      unfolding q_def p_def by simp_all
    then show ?thesis unfolding top unfolding d q_def [symmetric] p_def [symmetric] power2_eq_square power3_eq_cube
      by linarith
  qed
  finally show ?thesis by (simp only: u_def)
qed

text \<open>The bytes of a limb array, most significant first.\<close>

definition limbs_to_be_bytes :: "u32 list \<Rightarrow> bytes" where
  "limbs_to_be_bytes limbs = concat (map store_be32 (rev limbs))"

lemma length_limbs_to_be_bytes [simp]: "length (limbs_to_be_bytes limbs) = 4 * length limbs"
  by (simp add: limbs_to_be_bytes_def length_concat_const [of store_be32 4])

lemma limbs_to_be_bytes_value: "be_val (limbs_to_be_bytes limbs) = limb_val limbs"
proof (induction limbs)
  case (Cons x xs)
  then show ?case by (simp add: limbs_to_be_bytes_def be_val_append limb_base_def)
qed (simp add: limbs_to_be_bytes_def)

section \<open>Bits\<close>

lemma u32_bit_odd: "drop_bit j (w::u32) AND 1 \<noteq> 0 \<longleftrightarrow> odd (unat w div 2 ^ j)"
proof -
  have "(v::u32) AND 1 \<noteq> 0 \<longleftrightarrow> bit v 0" for v
    by (simp add: and_one_eq odd_iff_mod_2_eq_one bit_0)
  then show ?thesis by (simp add: bit_drop_bit_eq bit_unsigned_iff flip: bit_iff_odd)
qed

lemma limb_bit_odd:
  assumes "i div 32 < length xs"
  shows "drop_bit (i mod 32) (xs ! (i div 32)) AND 1 \<noteq> 0 \<longleftrightarrow> odd (limb_val xs div 2 ^ i)"
proof -
  let ?k = "i div 32" and ?j = "i mod 32"
  have "limb_val xs div limb_base ^ ?k = limb_val (drop ?k xs)" by (simp add: limb_val_div)
  also have "drop ?k (xs) = xs ! ?k # drop (Suc ?k) xs"
    using assms by (simp add: Cons_nth_drop_Suc)
  finally have d: "limb_val xs div limb_base ^ ?k = unat (xs ! ?k) + limb_base * limb_val (drop (Suc ?k) xs)"
    by simp
  have i: "(2::nat) ^ i = limb_base ^ ?k * 2 ^ ?j"
    by (metis div_mult_mod_eq limb_base_def mult.commute power_add power_mult)
  have "odd ((u + limb_base * h) div 2 ^ j) \<longleftrightarrow> odd (u div 2 ^ j)" if "j < 32" for u h j
  proof -
    have p: "2 ^ j * 2 ^ (31 - j) = (2 ^ 31 :: nat)" using that by (simp flip: power_add)
    have "u + 2 ^ j * (2 * (2 ^ (31 - j) * h)) = u + 2 * (2 ^ j * 2 ^ (31 - j)) * h" by simp
    then have eq: "u + limb_base * h = u + 2 ^ j * (2 * (2 ^ (31 - j) * h))" unfolding p by (simp add: limb_base_def)
    show ?thesis unfolding eq by simp
  qed
  then have "odd (limb_val xs div 2 ^ i) \<longleftrightarrow> odd (unat (xs ! ?k) div 2 ^ ?j)"
    unfolding i div_mult2_eq d by simp
  then show ?thesis using u32_bit_odd by simp
qed

end
