(* ===== verification/Number_Facts.thy ===== *)
theory Number_Facts
  imports Complex_Main
begin

text \<open>
  The elementary number theory that RSA and Montgomery arithmetic rest on: cancellation modulo a
  number, Fermat's theorem for a prime, and the equality of residues modulo a product.
\<close>

lemma mod_mult_cancel:
  assumes "coprime R N" "(a * R) mod N = (b * R) mod (N::nat)"
  shows "a mod N = b mod N"
proof -
  have "(int a * int R) mod int N = (int b * int R) mod int N"
    using assms(2) by (metis of_nat_mod of_nat_mult)
  then have "int N dvd int a * int R - int b * int R" by (simp add: mod_eq_dvd_iff)
  then have "int N dvd (int a - int b) * int R" by (simp add: left_diff_distrib)
  then have "int N dvd int a - int b"
    using assms(1) by (simp add: coprime_dvd_mult_left_iff coprime_commute)
  then have "int a mod int N = int b mod int N" by (simp add: mod_eq_dvd_iff)
  then show ?thesis by (metis of_nat_eq_iff of_nat_mod)
qed

lemma coprime_odd_power2: "odd N \<Longrightarrow> coprime ((2::nat) ^ k) N"
  by (simp add: coprime_power_left_iff)

text \<open>The bits of a number that has been consumed from the top.\<close>

lemma div_power2_step: "E div 2 ^ i = 2 * (E div 2 ^ Suc i) + (if odd (E div 2 ^ i) then 1 else (0::nat))"
proof -
  have "E div 2 ^ Suc i = E div (2 ^ i * 2)" by (simp add: mult.commute)
  then have "E div 2 ^ Suc i = E div 2 ^ i div 2" by (simp only: div_mult2_eq)
  moreover have "q = 2 * (q div 2) + (if odd q then 1 else 0)" for q :: nat by presburger
  ultimately show ?thesis by metis
qed

lemma mod_power2_Suc: "E mod 2 ^ Suc n = (if odd (E div 2 ^ n) then 1 else 0) * 2 ^ n + E mod (2::nat) ^ n"
proof -
  have "E mod (2 ^ n * 2) = 2 ^ n * (E div 2 ^ n mod 2) + E mod 2 ^ n" by (rule mod_mult2_eq)
  moreover have "E div 2 ^ n mod 2 = (if odd (E div 2 ^ n) then 1 else 0)" by (simp add: odd_iff_mod_2_eq_one)
  ultimately show ?thesis by (simp add: mult.commute)
qed

text \<open>A difference of residues, brought above zero.\<close>

lemma residue_difference_le:
  assumes "b mod m \<le> a mod (m::nat)" "0 < m"
  shows "int (a mod m - b mod m) = (int a - int b) mod int m"
proof -
  have "(int a - int b) mod int m = (int (a mod m) - int (b mod m)) mod int m"
    by (simp add: of_nat_mod mod_diff_eq)
  also have "\<dots> = int (a mod m) - int (b mod m)"
    using assms mod_less_divisor [of m a] by (intro mod_pos_pos_trivial) linarith+
  finally show ?thesis using assms(1) by (simp add: of_nat_diff)
qed

lemma residue_difference_less:
  assumes "a mod m < b mod (m::nat)" "0 < m"
  shows "int (a mod m + m - b mod m) = (int a - int b) mod int m"
proof -
  have "(int a - int b) mod int m = (int (a mod m) - int (b mod m) + int m) mod int m"
    by (simp add: of_nat_mod mod_diff_eq)
  also have "\<dots> = int (a mod m) - int (b mod m) + int m"
    using assms mod_less_divisor [of m b] by (intro mod_pos_pos_trivial) linarith+
  finally have v: "(int a - int b) mod int m = int (a mod m) - int (b mod m) + int m" .
  have "b mod m \<le> a mod m + m" using mod_less_divisor [of m b] assms by linarith
  then show ?thesis unfolding v by (simp add: of_nat_diff)
qed

section \<open>Primes\<close>

definition prime_nat :: "nat \<Rightarrow> bool" where
  "prime_nat p \<longleftrightarrow> 1 < p \<and> (\<forall>m. m dvd p \<longrightarrow> m = 1 \<or> m = p)"

lemma prime_nat_gt_1: "prime_nat p \<Longrightarrow> 1 < p"
  by (simp add: prime_nat_def)

lemma prime_nat_coprime: "prime_nat p \<Longrightarrow> \<not> p dvd a \<Longrightarrow> coprime p a"
  unfolding prime_nat_def by (metis coprimeI coprime_common_divisor is_unit_gcd_iff gcd_dvd1 gcd_dvd2 coprime_iff_gcd_eq_1 nat_dvd_1_iff_1)

lemma prime_nat_dvd_mult: "prime_nat p \<Longrightarrow> p dvd a * b \<Longrightarrow> p dvd a \<or> p dvd b"
  using prime_nat_coprime [of p a] coprime_dvd_mult_right_iff by blast

lemma primes_coprime: "prime_nat p \<Longrightarrow> prime_nat q \<Longrightarrow> p \<noteq> q \<Longrightarrow> coprime p q"
  using prime_nat_coprime [of p q] unfolding prime_nat_def by auto

lemma prime_dvd_choose:
  assumes "prime_nat p" "0 < k" "k < p"
  shows "p dvd p choose k"
proof -
  have "k * (p choose k) = p * (p - 1 choose (k - 1))"
    using assms(2,3) by (intro times_binomial_minus1_eq)
  then have "p dvd k * (p choose k)" by simp
  moreover have "\<not> p dvd k" using assms(2,3) by (auto dest: dvd_imp_le)
  ultimately show ?thesis using prime_nat_dvd_mult [OF assms(1)] by blast
qed

text \<open>Fermat's theorem, by the binomial theorem.\<close>

lemma fermat_power: "prime_nat p \<Longrightarrow> a ^ p mod p = a mod p"
proof (induction a)
  case 0
  then show ?case using prime_nat_gt_1 [of p] by (simp add: power_0_left)
next
  case (Suc a)
  have p: "0 < p" using prime_nat_gt_1 [OF Suc.prems] by simp
  have split: "{..p} = insert 0 (insert p {0<..<p})" using p by auto
  have "(a + 1) ^ p = (\<Sum>k\<le>p. (p choose k) * a ^ k)" using binomial [of a 1 p] by simp
  also have "\<dots> = 1 + (a ^ p + (\<Sum>k\<in>{0<..<p}. (p choose k) * a ^ k))"
    unfolding split using p by simp
  finally have e: "(a + 1) ^ p = 1 + a ^ p + (\<Sum>k\<in>{0<..<p}. (p choose k) * a ^ k)" by simp
  have "p dvd (\<Sum>k\<in>{0<..<p}. (p choose k) * a ^ k)"
    by (intro dvd_sum dvd_mult2 prime_dvd_choose [OF Suc.prems]) auto
  then obtain c where c: "(\<Sum>k\<in>{0<..<p}. (p choose k) * a ^ k) = p * c" ..
  have "(a + 1) ^ p mod p = (1 + a ^ p) mod p" unfolding e c by simp
  also have "\<dots> = (1 + a) mod p" using Suc.IH [OF Suc.prems] by (metis mod_add_right_eq)
  finally show ?case by simp
qed

lemma fermat_iterate:
  assumes "prime_nat p"
  shows "a ^ (1 + k * (p - 1)) mod p = a mod p"
proof (induction k)
  case (Suc k)
  have p: "0 < p" using prime_nat_gt_1 [OF assms] by simp
  have "a ^ (1 + Suc k * (p - 1)) = a ^ (1 + k * (p - 1)) * a ^ (p - 1)"
    by (simp add: power_add)
  then have "a ^ (1 + Suc k * (p - 1)) mod p = (a * a ^ (p - 1)) mod p"
    using Suc by (metis mod_mult_left_eq)
  also have "a * a ^ (p - 1) = a ^ p" using p by (simp flip: power_Suc)
  finally show ?case using fermat_power [OF assms] by simp
qed simp

text \<open>A power by an exponent that is one modulo \<open>p - 1\<close>.\<close>

lemma power_one_mod:
  assumes "prime_nat p" "e mod (p - 1) = 1 mod (p - 1)" "0 < e"
  shows "a ^ e mod p = a mod p"
proof -
  have "(p - 1) dvd (e - 1)" using mod_eq_dvd_iff_nat [of 1 e "p - 1"] assms(2,3) by simp
  then obtain k where "e - 1 = (p - 1) * k" ..
  then have "e = 1 + k * (p - 1)" using assms(3) by (simp add: mult.commute)
  then show ?thesis using fermat_iterate [OF assms(1), of a k] by simp
qed

lemma fermat_exponent:
  assumes "prime_nat p" "0 < d mod (p - 1)"
  shows "a ^ (d mod (p - 1)) mod p = a ^ d mod p"
proof -
  define r where "r = d mod (p - 1) - 1"
  have r: "d mod (p - 1) = r + 1" using assms(2) by (simp add: r_def)
  have "d = (p - 1) * (d div (p - 1)) + d mod (p - 1)" by simp
  then have d: "d = r + (1 + d div (p - 1) * (p - 1))" unfolding r by (simp add: mult.commute)
  have "a ^ d mod p = a ^ r * a ^ (1 + d div (p - 1) * (p - 1)) mod p"
    using d by (metis power_add)
  also have "\<dots> = a ^ r * a mod p" using fermat_iterate [OF assms(1)] by (metis mod_mult_right_eq)
  finally show ?thesis unfolding r by (simp add: mult.commute)
qed

lemma fermat_inverse:
  assumes "prime_nat p" "\<not> p dvd a"
  shows "a * a ^ (p - 2) mod p = 1"
proof -
  have p: "1 < p" using assms(1) by (rule prime_nat_gt_1)
  have "a * (a * a ^ (p - 2)) = a ^ p"
    using p by (simp flip: power_Suc power_Suc2) (metis Suc_diff_Suc numeral_2_eq_2 Suc_diff_1 Suc_lessD power_Suc One_nat_def diff_Suc_1 less_Suc_eq_0_disj)
  then have "(a * a ^ (p - 2)) * a mod p = 1 * a mod p"
    using fermat_power [OF assms(1), of a] by (simp add: mult.commute)
  then have "a * a ^ (p - 2) mod p = 1 mod p"
    by (rule mod_mult_cancel [rotated]) (use prime_nat_coprime [OF assms] in \<open>simp add: coprime_commute\<close>)
  then show ?thesis using p by simp
qed

text \<open>Residues modulo a product.\<close>

lemma mod_product_eq:
  assumes "coprime p (q::nat)" "a mod p = b mod p" "a mod q = b mod q"
  shows "a mod (p * q) = b mod (p * q)"
proof -
  have "a mod (p * q) = b mod (p * q)" if le: "b \<le> a" and e: "a mod p = b mod p" "a mod q = b mod q" for a b
  proof -
    have "p dvd a - b" "q dvd a - b" using e le by (simp_all add: mod_eq_dvd_iff_nat)
    then have "p * q dvd a - b" using assms(1) by (rule divides_mult)
    then show ?thesis using le by (simp add: mod_eq_dvd_iff_nat)
  qed
  then show ?thesis using assms(2,3) by (metis linear)
qed

section \<open>Proth's criterion\<close>

lemma least_prime_factor:
  assumes "1 < (n::nat)" "\<not> prime_nat n"
  obtains p where "prime_nat p" "p dvd n" "p * p \<le> n"
proof -
  obtain m where m: "m dvd n" "m \<noteq> 1" "m \<noteq> n" using assms by (auto simp: prime_nat_def)
  have n0: "n \<noteq> 0" using assms(1) by simp
  define p where "p = (LEAST m. m dvd n \<and> m \<noteq> 1)"
  have p: "p dvd n \<and> p \<noteq> 1" using LeastI [of "\<lambda>m. m dvd n \<and> m \<noteq> 1" m] m(1,2) unfolding p_def by blast
  have least: "p \<le> m'" if "m' dvd n" "m' \<noteq> 1" for m' using Least_le [of "\<lambda>m. m dvd n \<and> m \<noteq> 1" m'] that unfolding p_def by blast
  have "p \<noteq> 0" using p n0 by auto
  then have p1: "1 < p" using p by simp
  have "prime_nat p"
    unfolding prime_nat_def
  proof (intro conjI allI impI p1)
    fix d assume "d dvd p"
    then have "d \<le> p" using p1 by (auto dest: dvd_imp_le)
    moreover have "d dvd n" by (rule dvd_trans [OF \<open>d dvd p\<close>]) (use p in simp)
    then have "d = 1 \<or> p \<le> d" using least [of d] by blast
    ultimately show "d = 1 \<or> d = p" by auto
  qed
  moreover have "p * p \<le> n"
  proof -
    have "m \<le> n" using m(1) n0 by (auto dest: dvd_imp_le)
    then have "p \<noteq> n" using least [OF m(1,2)] m(3) by linarith
    obtain c where c: "n = p * c" using p by blast
    have "c \<noteq> 1" using c \<open>p \<noteq> n\<close> by auto
    then have "p \<le> c" using least [of c] c by simp
    then show ?thesis unfolding c by simp
  qed
  ultimately show ?thesis using that p by blast
qed

text \<open>The exponents that give one modulo a prime are the multiples of the least of them.\<close>

lemma order_dvd:
  assumes "1 < (p::nat)" "0 < d" "a ^ d mod p = 1" "\<And>e. 0 < e \<Longrightarrow> e < d \<Longrightarrow> a ^ e mod p \<noteq> 1" "a ^ n mod p = 1"
  shows "d dvd n"
proof (rule ccontr)
  assume "\<not> d dvd n"
  then have r: "0 < n mod d" "n mod d < d" using assms(2) by (auto simp: dvd_eq_mod_eq_0)
  have "a ^ n = (a ^ d) ^ (n div d) * a ^ (n mod d)" by (simp flip: power_mult power_add)
  then have "a ^ n mod p = ((a ^ d mod p) ^ (n div d) mod p) * (a ^ (n mod d)) mod p"
    by (simp add: mod_mult_left_eq power_mod)
  then have "a ^ (n mod d) mod p = 1" using assms(1,3,5) by simp
  then show False using assms(4) r by blast
qed

lemma prime_order:
  assumes p: "prime_nat p" and N: "0 < N" "a ^ N mod p = 1"
  obtains d where "0 < d" "\<And>n. a ^ n mod p = 1 \<longleftrightarrow> d dvd n" "d dvd p - 1"
proof -
  have p1: "1 < p" using p by (rule prime_nat_gt_1)
  define d where "d = (LEAST e. 0 < e \<and> a ^ e mod p = 1)"
  have d: "0 < d \<and> a ^ d mod p = 1" using LeastI [of "\<lambda>e. 0 < e \<and> a ^ e mod p = 1" N] N unfolding d_def by blast
  have least: "a ^ e mod p \<noteq> 1" if "0 < e" "e < d" for e
    using not_less_Least [of e "\<lambda>e. 0 < e \<and> a ^ e mod p = 1"] that unfolding d_def by blast
  have iff: "a ^ n mod p = 1 \<longleftrightarrow> d dvd n" for n
  proof
    assume "d dvd n"
    then obtain c where "n = d * c" by blast
    then have "a ^ n mod p = (a ^ d mod p) ^ c mod p" by (simp add: power_mult power_mod)
    then show "a ^ n mod p = 1" using d p1 by simp
  qed (use order_dvd [OF p1 _ _ least] d in blast)
  have "\<not> p dvd a"
  proof
    assume "p dvd a"
    then have "p dvd a ^ d" using dvd_trans dvd_power [of d a] d by blast
    then show False using d by simp
  qed
  then have "a * a ^ (p - 2) mod p = 1" by (rule fermat_inverse [OF p])
  moreover have "a * a ^ (p - 2) = a ^ (p - 1)" using p1 by (simp flip: power_Suc add: Suc_diff_Suc numeral_2_eq_2)
  ultimately have "d dvd p - 1" using iff by simp
  then show ?thesis using that d iff by blast
qed

lemma order_prime_dvd:
  assumes q: "prime_nat q" and b: "b ^ q mod n = 1" "(b - 1) * c mod n = 1" and p: "prime_nat p" "p dvd n"
  shows "q dvd p - 1"
proof -
  have p1: "1 < p" using p(1) by (rule prime_nat_gt_1)
  have red: "x mod p = 1" if "x mod n = 1" for x
    using that p1 mod_mod_cancel [OF p(2), of x] by simp
  obtain d where d: "\<And>n. b ^ n mod p = 1 \<longleftrightarrow> d dvd n" "d dvd p - 1"
    using prime_order [OF p(1), of q b] red [OF b(1)] prime_nat_gt_1 [OF q] by (metis less_trans zero_less_one)
  have "d dvd q" using d(1) [of q] red [OF b(1)] by simp
  then have "d = 1 \<or> d = q" using q by (simp add: prime_nat_def)
  moreover have "d \<noteq> 1"
  proof
    assume "d = 1"
    then have "b mod p = 1" using d(1) [of 1] by simp
    then have "p dvd b - 1" by (metis dvd_minus_mod)
    then have "(b - 1) * c mod p = 0" by (simp add: dvd_mult2)
    then show False using red [OF b(2)] by simp
  qed
  ultimately show ?thesis using d(2) by simp
qed

lemma distinct_primes_dvd:
  "distinct rs \<Longrightarrow> \<forall>r \<in> set rs. prime_nat r \<and> r dvd n \<Longrightarrow> prod_list rs dvd n"
proof (induction rs)
  case (Cons r rs)
  have "coprime r (prod_list rs)"
    using Cons.prems by (induction rs) (auto simp: coprime_mult_right_iff intro: primes_coprime)
  then show ?case using Cons by (auto intro: divides_mult)
qed simp

text \<open>
  Pocklington's criterion: for each prime \<open>r\<close> of a list whose product exceeds the root of \<open>n\<close> there
  is an element \<open>b\<close> of the order \<open>r\<close> modulo each factor of \<open>n\<close>.
\<close>

theorem pocklington:
  assumes n: "1 < n" "n < prod_list (map fst certs) * prod_list (map fst certs)" and d: "distinct (map fst certs)"
    and c: "\<forall>(r, b, c) \<in> set certs. prime_nat r \<and> b ^ r mod n = 1 \<and> (b - 1) * c mod n = 1"
  shows "prime_nat n"
proof (rule ccontr)
  assume "\<not> prime_nat n"
  then obtain p where p: "prime_nat p" "p dvd n" "p * p \<le> n" using least_prime_factor [of n] n(1) by blast
  have p1: "1 < p" using p(1) by (rule prime_nat_gt_1)
  have "\<forall>r \<in> set (map fst certs). prime_nat r \<and> r dvd p - 1"
    using c order_prime_dvd [OF _ _ _ p(1,2)] by fastforce
  then have "prod_list (map fst certs) dvd p - 1" by (rule distinct_primes_dvd [OF d])
  then have "prod_list (map fst certs) \<le> p - 1" using p1 by (intro dvd_imp_le) simp_all
  then have "prod_list (map fst certs) * prod_list (map fst certs) \<le> p * p" by (intro mult_le_mono) simp_all
  then show False using n(2) p(3) by simp
qed

lemma prime_nat_by_trial:
  assumes "1 < n" "n < m * m" "list_all (\<lambda>k. n mod k \<noteq> 0) [2..<m]"
  shows "prime_nat n"
proof (rule ccontr)
  assume "\<not> prime_nat n"
  then obtain p where p: "prime_nat p" "p dvd n" "p * p \<le> n" using least_prime_factor [of n] assms(1) by blast
  have "p < m"
  proof (rule ccontr)
    assume "\<not> p < m"
    then have "m * m \<le> p * p" by (intro mult_le_mono) simp_all
    then show False using p(3) assms(2) by simp
  qed
  then have "p \<in> set [2..<m]" using prime_nat_gt_1 [OF p(1)] by simp
  with assms(3) have "n mod p \<noteq> 0" unfolding list_all_iff by blast
  then show False using p(2) by simp
qed

lemma power2_dvd_order: "d dvd k * 2 ^ m \<Longrightarrow> \<not> d dvd k * 2 ^ (m - 1) \<Longrightarrow> 0 < m \<Longrightarrow> 2 ^ m dvd (d::nat)"
proof (induction m arbitrary: d)
  case (Suc m)
  have "even d"
  proof (rule ccontr)
    assume "odd d"
    then have "coprime d 2" by simp
    then have "d dvd k * 2 ^ m" using Suc.prems(1) by (simp add: coprime_dvd_mult_left_iff mult.left_commute mult.commute [of 2])
    then show False using Suc.prems(2) by simp
  qed
  then obtain c where c: "d = 2 * c" by blast
  show ?case
  proof (cases "m = 0")
    case False
    then obtain l where l: "m = Suc l" by (cases m) auto
    have "c dvd k * 2 ^ m" using Suc.prems(1) unfolding c by (simp add: mult.left_commute)
    moreover have "\<not> c dvd k * 2 ^ (m - 1)" using Suc.prems(2) unfolding c l by (simp add: mult.left_commute)
    ultimately have "2 ^ m dvd c" using Suc.IH False by simp
    then show ?thesis unfolding c by simp
  qed (simp add: c)
qed simp

theorem proth:
  assumes n: "n = k * 2 ^ m + 1" "0 < m" "k < 2 ^ m" "0 < k" and a: "a ^ (k * 2 ^ (m - 1)) mod n = n - 1"
  shows "prime_nat n"
proof (rule ccontr)
  assume "\<not> prime_nat n"
  have n1: "2 < n" 
  proof -
    have "(2::nat) ^ 1 \<le> 2 ^ m" using n(2) by (intro power_increasing) simp_all
    then have "1 * 2 \<le> k * 2 ^ m" using n(4) by (intro mult_le_mono) simp_all
    then show ?thesis using n(1) by simp
  qed
  then obtain p where p: "prime_nat p" "p dvd n" "p * p \<le> n"
    using least_prime_factor [of n] \<open>\<not> prime_nat n\<close> by (metis Suc_lessD numeral_2_eq_2 One_nat_def)
  let ?h = "k * 2 ^ (m - 1)"
  have hh: "k * 2 ^ m = ?h + ?h" using n(2) by (cases m) simp_all
  have "odd n" using n(1,2) by simp
  then have p3: "2 < p" using p(2) prime_nat_gt_1 [OF p(1)] by (metis Suc_lessI dvd_trans numeral_2_eq_2 One_nat_def)
  have "a ^ ?h mod n mod p = a ^ ?h mod p" using p(2) by (rule mod_mod_cancel)
  then have half: "a ^ ?h mod p = (n - 1) mod p" using a by simp
  have "(n - 1) mod p = p - 1"
  proof -
    obtain c where c: "n = p * c" using p(2) by blast
    then have "0 < c" using n1 by (cases c) auto
    then obtain c' where c': "c = Suc c'" by (cases c) auto
    obtain q where q: "p = Suc q" using p3 by (cases p) auto
    have "n - 1 = q + p * c'" unfolding c c' by (simp add: q)
    then have "(n - 1) mod p = (q + p * c') mod p" by simp
    also have "\<dots> = q" unfolding mod_mult_self2 by (simp add: q)
    finally show ?thesis by (simp add: q)
  qed
  then have half: "a ^ ?h mod p = p - 1" using half by simp
  then have nhalf: "a ^ ?h mod p \<noteq> 1" using p3 by simp
  have sq: "(p - 1) * (p - 1) mod p = 1"
  proof -
    obtain r where r: "p = r + 2" using p3 by (metis add.commute le_Suc_ex less_imp_le)
    have "(p - 1) * (p - 1) = 1 + p * r" by (simp add: r algebra_simps)
    then have "(p - 1) * (p - 1) mod p = (1 + p * r) mod p" by simp
    also have "\<dots> = 1" unfolding mod_mult_self2 using p3 by simp
    finally show ?thesis .
  qed
  have full: "a ^ (k * 2 ^ m) mod p = 1"
    unfolding hh power_add using half sq by (metis mod_mult_eq)
  have "0 < k * 2 ^ m" using n(4) by simp
  from prime_order [OF p(1) this full] obtain d where d: "\<And>n. a ^ n mod p = 1 \<longleftrightarrow> d dvd n" "d dvd p - 1" by blast
  then have "d dvd k * 2 ^ m" "\<not> d dvd ?h" using full nhalf by blast+
  then have "2 ^ m dvd d" using n(2) by (rule power2_dvd_order)
  moreover have "d dvd p - 1" by (rule d(2))
  ultimately have "2 ^ m dvd p - 1" by (rule dvd_trans)
  moreover have "1 < p" using p3 by simp
  ultimately have "2 ^ m \<le> p - 1" by (intro dvd_imp_le) simp_all
  then have "2 ^ m + 1 \<le> p" using p3 by simp
  then have "(2 ^ m + 1) * (2 ^ m + 1) \<le> p * p" by (rule mult_le_mono) fact
  also have "\<dots> \<le> k * 2 ^ m + 1" using p(3) n(1) by simp
  also have "k * 2 ^ m \<le> 2 ^ m * 2 ^ m" using n(3) by (intro mult_le_mono1) simp
  finally show False by (simp add: algebra_simps)
qed

end
