(* ===== verification/Rsa_Fixed.thy ===== *)
theory Rsa_Fixed
  imports Limbs Number_Facts Secure_Memory
begin

text \<open>
  src/rsa_fixed_bigint.cpp: RsaFixedBigInt, integers of a fixed number of 32-bit limbs with
  branch-free comparison, selection and modular arithmetic, and Montgomery exponentiation by a
  ladder over a secret exponent. Each operation is proved against the number its array denotes.
\<close>

section \<open>The integers\<close>

text \<open>\<open>limbs_\<close> is the whole array of kMaxLimbs limbs; only the first \<open>width_\<close> are used.\<close>

record rsa_fixed =
  rf_limbs :: "u32 list"
  rf_width :: nat

definition max_limbs :: nat where
  "max_limbs = 64"

definition rf_used :: "rsa_fixed \<Rightarrow> u32 list" where
  "rf_used x = take (rf_width x) (rf_limbs x)"

definition rf_val :: "rsa_fixed \<Rightarrow> nat" where
  "rf_val x = limb_val (rf_used x)"

text \<open>The private constructor, and an integer built by a loop that writes its first limbs.\<close>

definition rf_new :: "nat \<Rightarrow> rsa_fixed" where
  "rf_new width = \<lparr>rf_limbs = replicate max_limbs 0, rf_width = width\<rparr>"

definition rf_of :: "nat \<Rightarrow> u32 list \<Rightarrow> rsa_fixed" where
  "rf_of width limbs = (rf_new width)\<lparr>rf_limbs := fixed_limbs max_limbs limbs\<rparr>"

definition fixed_error :: "string \<Rightarrow> crypto_error" where
  "fixed_error msg = make_error Invalid_argument ''rsa_fixed_bigint'' msg"

definition word_mask_from_byte :: "u8 \<Rightarrow> u32" where
  "word_mask_from_byte m = 0 - (ucast (drop_bit 7 m) AND 1)"

definition word_less_than_mask :: "u32 \<Rightarrow> u32 \<Rightarrow> u32" where
  "word_less_than_mask lhs rhs = 0 - (if lhs < rhs then 1 else 0)"

definition byte_mask_from_word :: "u32 \<Rightarrow> u8" where
  "byte_mask_from_word m = ucast (0 - ucast (ucast (drop_bit 31 m AND 1) :: u8) :: u32)"

definition word_non_zero_mask :: "u32 \<Rightarrow> u32" where
  "word_non_zero_mask v = (let non_zero = v OR (0 - v) in 0 - (drop_bit 31 non_zero AND 1))"

definition valid_width :: "nat \<Rightarrow> bool" where
  "valid_width width \<longleftrightarrow> 0 < width \<and> width \<le> max_limbs"

definition require_matching_widths :: "rsa_fixed \<Rightarrow> rsa_fixed \<Rightarrow> unit result" where
  "require_matching_widths lhs rhs =
     (if rf_width lhs \<noteq> rf_width rhs
      then Inl (fixed_error ''RSA fixed integer widths do not match'') else Inr ())"

definition rf_zero :: "nat \<Rightarrow> rsa_fixed result" where
  "rf_zero width =
     (if \<not> valid_width width then Inl (fixed_error ''RSA fixed integer width is invalid'')
      else Inr (rf_new width))"

text \<open>The loop that drops leading zero bytes while the input is too long.\<close>

fun strip_front :: "nat \<Rightarrow> bytes \<Rightarrow> bytes" where
  "strip_front n [] = []"
| "strip_front n (b # bs) = (if n < length (b # bs) \<and> b = 0 then strip_front n bs else b # bs)"

definition rf_from_be_bytes :: "bytes \<Rightarrow> nat \<Rightarrow> rsa_fixed result" where
  "rf_from_be_bytes bs width =
     (if \<not> valid_width width then Inl (fixed_error ''RSA fixed integer width is invalid'')
      else
        let byte_width = width * 4;
            bs = strip_front byte_width bs
        in if byte_width < length bs then Inl (fixed_error ''RSA fixed integer input exceeds width'')
           else Inr (rf_of width (limbs_from_le_bytes width (rev bs))))"

definition rf_to_be_bytes :: "rsa_fixed \<Rightarrow> bytes" where
  "rf_to_be_bytes x = limbs_to_be_bytes (rf_used x)"

definition rf_is_zero :: "rsa_fixed \<Rightarrow> bool" where
  "rf_is_zero x \<longleftrightarrow> foldl (\<lambda>diff l. diff OR l) 0 (rf_used x) = 0"

section \<open>Comparison and selection\<close>

definition rf_equal_mask :: "rsa_fixed \<Rightarrow> rsa_fixed \<Rightarrow> u8 result" where
  "rf_equal_mask lhs rhs =
     rbind (require_matching_widths lhs rhs) (\<lambda>_.
       let diff = foldl (\<lambda>diff (l, r). diff OR (l XOR r)) 0 (zip (rf_used lhs) (rf_used rhs));
           non_zero = diff OR (0 - diff);
           is_zero = (drop_bit 31 non_zero XOR 1) AND 1
       in Inr (ucast (0 - ucast (ucast is_zero :: u8) :: u32)))"

text \<open>The loop of less_than_mask, on the limbs from the most significant down.\<close>

fun less_than_loop :: "u32 \<Rightarrow> u32 \<Rightarrow> (u32 \<times> u32) list \<Rightarrow> u32" where
  "less_than_loop lt gt [] = lt"
| "less_than_loop lt gt ((left, right) # rest) =
     (let undecided = NOT (lt OR gt)
      in less_than_loop (lt OR (undecided AND word_less_than_mask left right))
           (gt OR (undecided AND word_less_than_mask right left)) rest)"

definition rf_less_than_mask :: "rsa_fixed \<Rightarrow> rsa_fixed \<Rightarrow> u8 result" where
  "rf_less_than_mask lhs rhs =
     rbind (require_matching_widths lhs rhs) (\<lambda>_.
       Inr (byte_mask_from_word (less_than_loop 0 0 (rev (zip (rf_used lhs) (rf_used rhs))))))"

definition rf_select :: "u8 \<Rightarrow> rsa_fixed \<Rightarrow> rsa_fixed \<Rightarrow> rsa_fixed result" where
  "rf_select m if_set if_clear =
     rbind (require_matching_widths if_set if_clear) (\<lambda>_.
       Inr (rf_of (rf_width if_set) (select_limbs (word_mask_from_byte m) (rf_used if_set) (rf_used if_clear))))"

section \<open>Addition and subtraction\<close>

definition rf_add :: "rsa_fixed \<Rightarrow> rsa_fixed \<Rightarrow> rsa_fixed result" where
  "rf_add lhs rhs =
     rbind (require_matching_widths lhs rhs) (\<lambda>_.
       Inr (rf_of (rf_width lhs) (fst (add_limbs (rf_used lhs) (rf_used rhs) 0))))"

definition rf_subtract :: "rsa_fixed \<Rightarrow> rsa_fixed \<Rightarrow> rsa_fixed result" where
  "rf_subtract lhs rhs =
     rbind (require_matching_widths lhs rhs) (\<lambda>_.
       Inr (rf_of (rf_width lhs) (fst (sub_limbs (rf_used lhs) (rf_used rhs) 0))))"

text \<open>The results are read with value(), which the code does not check: the widths match.\<close>

definition subtract_modulus_if_needed :: "rsa_fixed \<Rightarrow> rsa_fixed \<Rightarrow> u32 \<Rightarrow> rsa_fixed" where
  "subtract_modulus_if_needed v modulus high_limb =
     (let difference = projr (rf_subtract v modulus);
          lt = projr (rf_less_than_mask v modulus);
          high_mask = byte_mask_from_word (word_non_zero_mask high_limb);
          subtract_mask = high_mask OR NOT lt
      in projr (rf_select subtract_mask difference v))"

text \<open>The loops of double_mod and add_one_mod, with the last carry.\<close>

fun double_limbs :: "u32 list \<Rightarrow> u64 \<Rightarrow> u32 list \<times> u64" where
  "double_limbs [] carry = ([], carry)"
| "double_limbs (x # xs) carry =
     (let sum = push_bit 1 (ucast x) + carry; (out, c) = double_limbs xs (high32 sum)
      in (low32 sum # out, c))"

fun increment_limbs :: "u32 list \<Rightarrow> u64 \<Rightarrow> u32 list \<times> u64" where
  "increment_limbs [] carry = ([], carry)"
| "increment_limbs (x # xs) carry =
     (let sum = ucast x + carry; (out, c) = increment_limbs xs (high32 sum)
      in (low32 sum # out, c))"

definition add_one_mod :: "rsa_fixed \<Rightarrow> rsa_fixed \<Rightarrow> rsa_fixed" where
  "add_one_mod v modulus =
     (let (out, carry) = increment_limbs (rf_used v) 1
      in subtract_modulus_if_needed (rf_of (rf_width v) out) modulus (low32 carry))"

definition double_mod :: "rsa_fixed \<Rightarrow> rsa_fixed \<Rightarrow> rsa_fixed" where
  "double_mod v modulus =
     (let (out, carry) = double_limbs (rf_used v) 0
      in subtract_modulus_if_needed (rf_of (rf_width v) out) modulus (low32 carry))"

section \<open>Montgomery arithmetic\<close>

definition require_montgomery_modulus :: "rsa_fixed \<Rightarrow> unit result" where
  "require_montgomery_modulus modulus =
     (if rf_is_zero modulus \<or> rf_limbs modulus ! 0 AND 1 = 0
      then Inl (fixed_error ''RSA fixed Montgomery modulus must be non-zero and odd'')
      else if rf_limbs modulus ! 0 = 1 \<and> foldl (\<lambda>r l. r OR l) 0 (drop 1 (rf_used modulus)) = 0
      then Inl (fixed_error ''RSA fixed Montgomery modulus must be greater than one'')
      else Inr ())"

definition require_reduced_value :: "rsa_fixed \<Rightarrow> rsa_fixed \<Rightarrow> unit result" where
  "require_reduced_value v modulus =
     rbind (require_matching_widths v modulus) (\<lambda>_.
     rbind (rf_less_than_mask v modulus) (\<lambda>lt.
       if lt \<noteq> 0xFF then Inl (fixed_error ''RSA fixed Montgomery value must be reduced modulo modulus'')
       else Inr ()))"

text \<open>The bits of a byte, from the most significant down, doubling and adding.\<close>

fun mod_bits :: "u8 \<Rightarrow> rsa_fixed \<Rightarrow> nat \<Rightarrow> rsa_fixed \<Rightarrow> rsa_fixed result" where
  "mod_bits b modulus 0 out = Inr out"
| "mod_bits b modulus (Suc i) out =
     (let out = double_mod out modulus;
          incremented = add_one_mod out modulus;
          m = constant_time_bool_mask (drop_bit i b AND 1 \<noteq> 0)
      in rbind (rf_select m incremented out) (\<lambda>selected. mod_bits b modulus i selected))"

fun mod_bytes :: "bytes \<Rightarrow> rsa_fixed \<Rightarrow> rsa_fixed \<Rightarrow> rsa_fixed result" where
  "mod_bytes [] modulus out = Inr out"
| "mod_bytes (b # bs) modulus out = rbind (mod_bits b modulus 8 out) (\<lambda>out. mod_bytes bs modulus out)"

definition rf_from_be_bytes_mod :: "bytes \<Rightarrow> rsa_fixed \<Rightarrow> rsa_fixed result" where
  "rf_from_be_bytes_mod bs modulus =
     rbind (require_montgomery_modulus modulus) (\<lambda>_. mod_bytes bs modulus (rf_new (rf_width modulus)))"

definition montgomery_n0_inverse :: "rsa_fixed \<Rightarrow> u32 result" where
  "montgomery_n0_inverse modulus =
     rbind (require_montgomery_modulus modulus) (\<lambda>_. Inr (low_inverse (rf_limbs modulus ! 0)))"

definition rf_one :: "nat \<Rightarrow> rsa_fixed" where
  "rf_one width = (let one = rf_new width in one\<lparr>rf_limbs := (rf_limbs one)[0 := 1]\<rparr>)"

definition montgomery_r_squared :: "rsa_fixed \<Rightarrow> rsa_fixed result" where
  "montgomery_r_squared modulus =
     rbind (require_montgomery_modulus modulus) (\<lambda>_.
       let res = rf_one (rf_width modulus) in
       rbind (require_reduced_value res modulus) (\<lambda>_.
         let bit_width = rf_width modulus * 32
         in Inr (((\<lambda>r. double_mod r modulus) ^^ (bit_width * 2)) res)))"

definition montgomery_multiply :: "rsa_fixed \<Rightarrow> rsa_fixed \<Rightarrow> rsa_fixed \<Rightarrow> rsa_fixed result" where
  "montgomery_multiply lhs rhs modulus =
     rbind (require_matching_widths lhs rhs) (\<lambda>_.
     rbind (require_matching_widths lhs modulus) (\<lambda>_.
     rbind (require_montgomery_modulus modulus) (\<lambda>_.
     rbind (require_reduced_value lhs modulus) (\<lambda>_.
     rbind (require_reduced_value rhs modulus) (\<lambda>_.
     rbind (montgomery_n0_inverse modulus) (\<lambda>inverse.
       let width = rf_width modulus;
           accumulator = replicate (2 * max_limbs + 2) 0;
           accumulator = multiply_rows (rf_used lhs) (rf_used rhs) accumulator;
           accumulator = reduce_rows inverse (rf_used modulus) accumulator;
           reduced = rf_of width (take width (drop width accumulator));
           high_limb = accumulator ! (2 * width) OR accumulator ! (2 * width + 1)
       in Inr (subtract_modulus_if_needed reduced modulus high_limb)))))))"

definition to_montgomery :: "rsa_fixed \<Rightarrow> rsa_fixed \<Rightarrow> rsa_fixed result" where
  "to_montgomery v modulus =
     rbind (require_matching_widths v modulus) (\<lambda>_.
     rbind (require_montgomery_modulus modulus) (\<lambda>_.
     rbind (require_reduced_value v modulus) (\<lambda>_.
       Inr (((\<lambda>r. double_mod r modulus) ^^ (rf_width v * 32)) v))))"

definition from_montgomery :: "rsa_fixed \<Rightarrow> rsa_fixed \<Rightarrow> rsa_fixed result" where
  "from_montgomery v modulus =
     rbind (require_matching_widths v modulus) (\<lambda>_. montgomery_multiply v (rf_one (rf_width v)) modulus)"

definition exponent_bit :: "bytes \<Rightarrow> nat \<Rightarrow> bool" where
  "exponent_bit exponent bit_index =
     (let byte_from_end = bit_index div 8 in
      if length exponent \<le> byte_from_end then False
      else drop_bit (bit_index mod 8) (exponent ! (length exponent - byte_from_end - 1)) AND 1 \<noteq> 0)"

text \<open>The ladder, for the bits below \<open>i\<close>.\<close>

fun mont_ladder :: "bytes \<Rightarrow> rsa_fixed \<Rightarrow> nat \<Rightarrow> rsa_fixed \<Rightarrow> rsa_fixed \<Rightarrow> rsa_fixed result" where
  "mont_ladder exponent modulus 0 r0 r1 = Inr r0"
| "mont_ladder exponent modulus (Suc i) r0 r1 =
     rbind (montgomery_multiply r0 r1 modulus) (\<lambda>product.
     rbind (montgomery_multiply r0 r0 modulus) (\<lambda>r0_squared.
     rbind (montgomery_multiply r1 r1 modulus) (\<lambda>r1_squared.
       let m = constant_time_bool_mask (exponent_bit exponent i) in
       rbind (rf_select m product r0_squared) (\<lambda>selected_r0.
       rbind (rf_select m r1_squared product) (\<lambda>selected_r1.
         mont_ladder exponent modulus i selected_r0 selected_r1)))))"

definition montgomery_mod_exp_secret :: "rsa_fixed \<Rightarrow> bytes \<Rightarrow> rsa_fixed \<Rightarrow> nat \<Rightarrow> rsa_fixed result" where
  "montgomery_mod_exp_secret base exponent modulus exponent_bits =
     rbind (require_matching_widths base modulus) (\<lambda>_.
     rbind (require_montgomery_modulus modulus) (\<lambda>_.
     rbind (require_reduced_value base modulus) (\<lambda>_.
     rbind (to_montgomery (rf_one (rf_width base)) modulus) (\<lambda>r0.
     rbind (to_montgomery base modulus) (\<lambda>r1.
     rbind (mont_ladder exponent modulus exponent_bits r0 r1) (\<lambda>r0. from_montgomery r0 modulus))))))"

section \<open>Well-formed integers\<close>

definition rf_ok :: "rsa_fixed \<Rightarrow> bool" where
  "rf_ok x \<longleftrightarrow> length (rf_limbs x) = max_limbs \<and> valid_width (rf_width x)"

text \<open>A well-formed integer of width \<open>w\<close> that denotes \<open>n\<close>.\<close>

definition rf_num :: "nat \<Rightarrow> nat \<Rightarrow> rsa_fixed \<Rightarrow> bool" where
  "rf_num w n x \<longleftrightarrow> rf_ok x \<and> rf_width x = w \<and> rf_val x = n"

lemma rf_of_simps [simp]:
  "rf_width (rf_of w ls) = w"
  "length (rf_limbs (rf_of w ls)) = max_limbs"
  "rf_width (rf_new w) = w"
  by (simp_all add: rf_of_def rf_new_def)

lemma rf_used_of [simp]: "length ls = w \<Longrightarrow> w \<le> max_limbs \<Longrightarrow> rf_used (rf_of w ls) = ls"
  by (simp add: rf_used_def rf_of_def rf_new_def fixed_limbs_def)

lemma rf_okD:
  assumes "rf_ok x"
  shows "length (rf_used x) = rf_width x" "rf_used x \<noteq> []" "rf_limbs x ! 0 = rf_used x ! 0"
    "0 < rf_width x" "rf_width x \<le> max_limbs"
  using assms by (auto simp: rf_ok_def valid_width_def rf_used_def max_limbs_def)

lemma rf_val_bound: "rf_ok x \<Longrightarrow> rf_val x < limb_base ^ rf_width x"
  using limb_val_bound [of "rf_used x"] by (simp add: rf_val_def rf_okD)

lemma rf_num_of:
  "length ls = w \<Longrightarrow> valid_width w \<Longrightarrow> rf_num w (limb_val ls) (rf_of w ls)"
  by (auto simp: rf_num_def rf_ok_def rf_val_def valid_width_def)

lemma rf_num_self: "rf_ok x \<Longrightarrow> rf_num (rf_width x) (rf_val x) x"
  by (simp add: rf_num_def)

lemma rf_numD:
  assumes "rf_num w n x"
  shows "rf_ok x" "rf_width x = w" "rf_val x = n" "limb_val (rf_used x) = n" "length (rf_used x) = w"
    "valid_width w" "0 < w" "w \<le> max_limbs" "rf_used x \<noteq> []" "rf_limbs x ! 0 = rf_used x ! 0" "n < limb_base ^ w"
proof -
  have x: "rf_ok x" "rf_width x = w" "rf_val x = n" using assms by (simp_all add: rf_num_def)
  then show "rf_ok x" "rf_width x = w" "rf_val x = n" "limb_val (rf_used x) = n" "length (rf_used x) = w"
    "valid_width w" "0 < w" "w \<le> max_limbs" "rf_used x \<noteq> []" "rf_limbs x ! 0 = rf_used x ! 0" "n < limb_base ^ w"
    using rf_okD [OF x(1)] rf_val_bound [OF x(1)] by (simp_all add: rf_val_def rf_ok_def)
qed

lemma rf_num_new: "valid_width w \<Longrightarrow> rf_num w 0 (rf_new w)"
  by (auto simp: rf_num_def rf_ok_def rf_val_def rf_used_def rf_new_def valid_width_def)

lemma rf_num_one: "valid_width w \<Longrightarrow> rf_num w 1 (rf_one w)"
proof -
  assume w: "valid_width w"
  then obtain k where k: "w = Suc k" by (cases w) (auto simp: valid_width_def)
  with w obtain m where m: "max_limbs = Suc m" "k \<le> m" by (cases max_limbs) (auto simp: valid_width_def)
  have "rf_used (rf_one w) = 1 # replicate k 0"
    using m(2) unfolding rf_used_def rf_one_def rf_new_def Let_def k m(1) by simp
  with w show ?thesis by (simp add: rf_num_def rf_ok_def rf_val_def rf_one_def rf_new_def Let_def)
qed

lemma foldl_or_eq_0: "foldl (\<lambda>d l. d OR l) 0 ls = (0::u32) \<longleftrightarrow> limb_val ls = 0"
  using fold_or_eq_0 [of "\<lambda>x. x" 0 ls] by (simp add: limb_val_eq_0)

lemma rf_is_zero_iff [simp]: "rf_is_zero x \<longleftrightarrow> rf_val x = 0"
  by (simp add: rf_is_zero_def foldl_or_eq_0 rf_val_def)

lemma matching_widths [simp]: "rf_width a = rf_width b \<Longrightarrow> require_matching_widths a b = Inr ()"
  by (simp add: require_matching_widths_def)

section \<open>Masks\<close>

lemma drop_bit_31_and_1: "drop_bit 31 (w::u32) AND 1 = of_bool (bit w 31)"
  by (rule bit_word_eqI) (auto simp: bit_simps bit_1_iff)

lemma byte_mask_simps [simp]: "byte_mask_from_word (- 1) = 0xff" "byte_mask_from_word 0 = 0"
  by code_simp+

lemma word_less_than_mask_eq [simp]: "word_less_than_mask l r = (if l < r then - 1 else 0)"
  by (simp add: word_less_than_mask_def)

lemma word_non_zero_mask_eq [simp]: "word_non_zero_mask v = (if v = 0 then 0 else - 1)"
proof -
  have "drop_bit 31 (v OR - v) AND 1 = (of_bool (v \<noteq> 0) :: u32)"
    unfolding non_zero_bit by simp
  then show ?thesis by (simp add: word_non_zero_mask_def Let_def)
qed

lemma word_mask_from_byte_eq [simp]: "word_mask_from_byte m = (if bit m 7 then - 1 else 0)"
  by (simp add: word_mask_from_byte_def drop_bit_7_u8)

lemma bit_7_masks [simp]: "bit (0xff::u8) 7" "bit (- 1 :: u8) 7" "bit (NOT 0 :: u8) 7" "\<not> bit (NOT 0xff :: u8) 7"
  by code_simp+

section \<open>Comparison and selection, in numbers\<close>

lemma less_than_loop_decided:
  "less_than_loop (- 1) 0 ps = - 1" "less_than_loop 0 (- 1) ps = 0"
  by (induction ps) (auto split: prod.split)

lemma less_than_loop_compare:
  "length xs = length ys \<Longrightarrow> less_than_loop 0 0 (zip xs ys) = (if compare_down xs ys = -1 then - 1 else 0)"
proof (induction xs ys rule: list_induct2)
  case (Cons x xs y ys)
  consider "x < y" | "y < x" | "x = y" using less_linear by blast
  then show ?case
  proof cases
    case 2
    then have "\<not> x < y" by simp
    with 2 show ?thesis by (simp add: less_than_loop_decided Let_def)
  qed (auto simp: less_than_loop_decided Cons.IH Let_def)
qed simp

lemma rf_less_than_mask_value:
  assumes "rf_num w a x" "rf_num w b y"
  shows "rf_less_than_mask x y = Inr (if a < b then 0xff else 0)"
proof -
  have l: "length (rf_used x) = length (rf_used y)" using rf_numD(5) assms by metis
  have "less_than_loop 0 0 (rev (zip (rf_used x) (rf_used y))) =
      (if compare_down (rev (rf_used x)) (rev (rf_used y)) = -1 then - 1 else 0)"
    using l by (subst zip_rev [symmetric]) (simp_all add: less_than_loop_compare)
  also have "\<dots> = (if a < b then - 1 else 0)"
    using compare_down_value [OF l] rf_numD(4) [OF assms(1)] rf_numD(4) [OF assms(2)] by simp
  finally show ?thesis
    using rf_numD(2) [OF assms(1)] rf_numD(2) [OF assms(2)] by (simp add: rf_less_than_mask_def)
qed

lemma rf_select_value:
  assumes "rf_num w a x" "rf_num w b y"
  shows "\<exists>z. rf_select m x y = Inr z \<and> rf_num w (if bit m 7 then a else b) z"
proof -
  have l: "length (rf_used x) = w" "length (rf_used y) = w" and w: "valid_width w"
    using rf_numD [OF assms(1)] rf_numD [OF assms(2)] by auto
  let ?s = "select_limbs (word_mask_from_byte m) (rf_used x) (rf_used y)"
  have s: "?s = (if bit m 7 then rf_used x else rf_used y)" using l by (simp add: select_limbs_value)
  have "rf_num w (limb_val ?s) (rf_of w ?s)" using l w by (intro rf_num_of) (simp_all add: s)
  moreover have "limb_val ?s = (if bit m 7 then a else b)" unfolding s using rf_numD(4) [OF assms(1)] rf_numD(4) [OF assms(2)] by simp
  moreover have "rf_select m x y = Inr (rf_of w ?s)" using rf_numD(2) [OF assms(1)] rf_numD(2) [OF assms(2)] by (simp add: rf_select_def)
  ultimately show ?thesis by auto
qed

section \<open>Reduction by one subtraction\<close>

lemma subtract_modulus_value:
  assumes v: "rf_num w a v" and M: "rf_num w N M"
    and h: "high = 0 \<longleftrightarrow> h = 0" and bound: "a + limb_base ^ w * h < 2 * N"
  shows "rf_num w ((a + limb_base ^ w * h) mod N) (subtract_modulus_if_needed v M high)"
proof -
  note vD = rf_numD [OF v] and MD = rf_numD [OF M]
  let ?d = "fst (sub_limbs (rf_used v) (rf_used M) 0)"
  have l: "length (rf_used v) = length (rf_used M)" using vD MD by simp
  have ld: "length ?d = w" using sub_limbs_value [OF l, of 0] vD by simp
  have d: "rf_num w (limb_val ?d) (rf_of w ?d)" by (rule rf_num_of [OF ld vD(6)])
  have sub: "rf_subtract v M = Inr (rf_of w ?d)" using vD MD by (simp add: rf_subtract_def)
  have lt: "rf_less_than_mask v M = Inr (if a < N then 0xff else 0)" by (rule rf_less_than_mask_value [OF v M])
  define m where "m = byte_mask_from_word (word_non_zero_mask high) OR NOT (if a < N then 0xff else 0 :: u8)"
  have m: "bit m 7 \<longleftrightarrow> h \<noteq> 0 \<or> \<not> a < N" using h by (auto simp: m_def bit_or_iff)
  obtain z where z: "rf_select m (rf_of w ?d) v = Inr z" "rf_num w (if bit m 7 then limb_val ?d else a) z"
    using rf_select_value [OF d v] by auto
  have "subtract_modulus_if_needed v M high = z"
    unfolding subtract_modulus_if_needed_def Let_def sub lt sum.sel m_def [symmetric] z(1) by simp
  moreover have "(if bit m 7 then limb_val ?d else a) = (a + limb_base ^ w * h) mod N"
  proof (cases "h = 0")
    case True
    show ?thesis
    proof (cases "a < N")
      case False
      have "limb_val ?d = a - N" using sub_limbs_le(1) [OF l] False vD(4) MD(4) by simp
      moreover have "a mod N = a - N" using False bound True by (simp add: le_mod_geq)
      ultimately show ?thesis using True False m by simp
    qed (use True m in simp)
  next
    case False
    have "h = 1"
    proof (rule ccontr)
      assume "h \<noteq> 1"
      then have "limb_base ^ w * 2 \<le> limb_base ^ w * h" using False by (intro mult_le_mono2) simp
      then show False using bound MD(11) by linarith
    qed
    then have b: "a + limb_base ^ w < 2 * N" using bound by simp
    then have lt: "a < N" using MD(11) by linarith
    have "limb_val ?d = limb_base ^ w + a - N" using sub_limbs_less [OF l] lt vD(4,5) MD(4) by simp
    moreover have "(a + limb_base ^ w) mod N = a + limb_base ^ w - N"
      using b MD(11) by (simp add: le_mod_geq)
    ultimately show ?thesis using \<open>h = 1\<close> m by (simp add: add.commute)
  qed
  ultimately show ?thesis using z(2) by simp
qed

text \<open>The chains of double_mod and add_one_mod are the addition chain.\<close>

lemma double_limbs_add: "double_limbs xs c = add_limbs xs xs c"
proof (induction xs arbitrary: c)
  case (Cons x xs)
  have "push_bit 1 y = y + y" for y :: u64 by (simp add: push_bit_eq_mult)
  then show ?case using Cons by (simp add: Let_def mult.commute)
qed simp

lemma increment_limbs_add: "increment_limbs xs c = add_limbs xs (replicate (length xs) 0) c"
  by (induction xs arbitrary: c) (simp_all add: Let_def)

lemma add_limbs_carry: "length ls = length rs \<Longrightarrow> unat c < limb_base \<Longrightarrow> unat (snd (add_limbs ls rs c)) < limb_base"
proof (induction ls rs arbitrary: c rule: list_induct2)
  case (Cons l ls r rs)
  then show ?case using unat_sum64(2) [OF Cons.prems, of l r] by (simp add: Let_def case_prod_unfold)
qed simp

lemma unat_low32_small: "unat (c::u64) < limb_base \<Longrightarrow> unat (low32 c) = unat c"
  by (simp add: unat_low32 limb_base_def)

lemma chain_reduce:
  assumes v: "rf_num w a v" and r: "length rs = w" and M: "rf_num w N M" and c: "unat c < limb_base"
    and bound: "a + limb_val rs + unat c < 2 * N"
  defines "p \<equiv> add_limbs (rf_used v) rs c"
  shows "rf_num w ((a + limb_val rs + unat c) mod N) (subtract_modulus_if_needed (rf_of w (fst p)) M (low32 (snd p)))"
proof -
  note vD = rf_numD [OF v]
  have l: "length (rf_used v) = length rs" using vD(5) r by simp
  have val: "limb_val (fst p) + limb_base ^ w * unat (snd p) = a + limb_val rs + unat c" and lp: "length (fst p) = w"
    using add_limbs_value [OF l c] vD(4,5) by (simp_all add: p_def)
  have num: "rf_num w (limb_val (fst p)) (rf_of w (fst p))" by (rule rf_num_of [OF lp vD(6)])
  have "unat (snd p) < limb_base" unfolding p_def by (rule add_limbs_carry [OF l c])
  then have "low32 (snd p) = 0 \<longleftrightarrow> unat (snd p) = 0"
    using unat_low32_small [of "snd p"] by (simp add: word_unat_eq_iff)
  from subtract_modulus_value [OF num M this] show ?thesis using val bound by simp
qed

lemma double_mod_value:
  assumes "rf_num w a v" "rf_num w N M" "a < N"
  shows "rf_num w (2 * a mod N) (double_mod v M)"
  using chain_reduce [OF assms(1) rf_numD(5) [OF assms(1)] assms(2), of 0] assms(3) rf_numD(2,4) [OF assms(1)]
  by (simp add: double_mod_def double_limbs_add case_prod_unfold Let_def flip: mult_2)

lemma add_one_mod_value:
  assumes "rf_num w a v" "rf_num w N M" "a < N"
  shows "rf_num w ((a + 1) mod N) (add_one_mod v M)"
  using chain_reduce [OF assms(1) _ assms(2), of "replicate w 0" 1] assms(3) rf_numD(2,5) [OF assms(1)]
  by (simp add: add_one_mod_def increment_limbs_add case_prod_unfold Let_def)

lemma double_mod_iterate:
  assumes "rf_num w a v" "rf_num w N M" "a < N"
  shows "rf_num w (2 ^ k * a mod N) (((\<lambda>r. double_mod r M) ^^ k) v)"
proof (induction k)
  case (Suc k)
  have "2 ^ k * a mod N < N" using assms(3) by simp
  from double_mod_value [OF Suc assms(2) this] show ?case by (simp add: mod_mult_right_eq mult.assoc)
qed (use assms in simp)

section \<open>Montgomery multiplication\<close>

lemma even_limb_val: "xs \<noteq> [] \<Longrightarrow> even (limb_val xs) \<longleftrightarrow> even (xs ! 0)"
proof -
  have "even limb_base" by (simp add: limb_base_def)
  moreover have "even (unat x) \<longleftrightarrow> even x" for x :: u32
  proof -
    have "bit (unat x) 0 = bit x 0" by (simp only: bit_unsigned_iff possible_bit_nat simp_thms)
    then show ?thesis by (auto simp: bit_0)
  qed
  ultimately show "xs \<noteq> [] \<Longrightarrow> ?thesis" by (cases xs) auto
qed

lemma and_1_eq_0: "(x::u32) AND 1 = 0 \<longleftrightarrow> even x"
  by (simp add: and_one_eq even_iff_mod_2_eq_zero)

lemma require_montgomery_modulus_iff:
  assumes "rf_ok M"
  shows "require_montgomery_modulus M =
    (if even (rf_val M) then Inl (fixed_error ''RSA fixed Montgomery modulus must be non-zero and odd'')
     else if rf_val M = 1 then Inl (fixed_error ''RSA fixed Montgomery modulus must be greater than one'')
     else Inr ())"
proof -
  note d = rf_okD [OF assms]
  obtain l ls where u: "rf_used M = l # ls" using d(2) by (cases "rf_used M") auto
  have "even (rf_val M) \<longleftrightarrow> rf_limbs M ! 0 AND 1 = 0"
    using even_limb_val [OF d(2)] d(3) by (simp add: rf_val_def and_1_eq_0)
  moreover have "rf_val M = 1 \<longleftrightarrow> rf_limbs M ! 0 = 1 \<and> foldl (\<lambda>r l. r OR l) 0 (drop 1 (rf_used M)) = 0"
  proof -
    have "unat l + limb_base * limb_val ls = 1 \<longleftrightarrow> unat l = 1 \<and> limb_val ls = 0"
      by (cases "limb_val ls") (auto simp: limb_base_def)
    moreover have "unat l = 1 \<longleftrightarrow> l = 1" by (simp add: word_unat_eq_iff)
    ultimately show ?thesis using d(3) by (simp add: rf_val_def u foldl_or_eq_0)
  qed
  moreover have "rf_val M = 0 \<Longrightarrow> even (rf_val M)" by simp
  ultimately show ?thesis by (auto simp: require_montgomery_modulus_def)
qed

text \<open>A modulus of width \<open>w\<close> the Montgomery operations accept.\<close>

definition rf_modulus :: "nat \<Rightarrow> nat \<Rightarrow> rsa_fixed \<Rightarrow> bool" where
  "rf_modulus w N M \<longleftrightarrow> rf_num w N M \<and> odd N \<and> 1 < N"

lemma rf_modulusD:
  assumes "rf_modulus w N M"
  shows "rf_num w N M" "odd N" "1 < N" "require_montgomery_modulus M = Inr ()"
    "montgomery_n0_inverse M = Inr (low_inverse (rf_used M ! 0))" "odd (rf_used M ! 0)"
proof -
  have M: "rf_num w N M" "odd N" "1 < N" using assms by (auto simp: rf_modulus_def)
  note d = rf_numD [OF M(1)]
  show "rf_num w N M" "odd N" "1 < N" by (fact M)+
  show req: "require_montgomery_modulus M = Inr ()"
    using require_montgomery_modulus_iff [OF d(1)] d(3) M(2,3) by simp
  show "montgomery_n0_inverse M = Inr (low_inverse (rf_used M ! 0))"
    by (simp add: montgomery_n0_inverse_def req d(10))
  show "odd (rf_used M ! 0)" using even_limb_val [OF d(9)] d(4) M(2) by simp
qed

lemma require_reduced_value_ok:
  assumes "rf_num w a v" "rf_num w N M"
  shows "require_reduced_value v M =
    (if a < N then Inr () else Inl (fixed_error ''RSA fixed Montgomery value must be reduced modulo modulus''))"
  using rf_numD(2) [OF assms(1)] rf_numD(2) [OF assms(2)]
  by (simp add: require_reduced_value_def rf_less_than_mask_value [OF assms])

lemma montgomery_multiply_value:
  assumes a: "rf_num w a x" and b: "rf_num w b y" and M: "rf_modulus w N M" and lt: "a < N" "b < N"
  shows "\<exists>z n. montgomery_multiply x y M = Inr z \<and> rf_num w n z \<and> n < N \<and> (n * limb_base ^ w) mod N = (a * b) mod N"
proof -
  note MD = rf_modulusD [OF M] and aD = rf_numD [OF a] and bD = rf_numD [OF b]
  note nD = rf_numD [OF MD(1)]
  let ?acc = "replicate (2 * max_limbs + 2) (0::u32)"
  define out where "out = reduce_rows (low_inverse (rf_used M ! 0)) (rf_used M) (multiply_rows (rf_used x) (rf_used y) ?acc)"
  define m where "m = limb_val (drop w out)"
  have len: "2 * length (rf_used M) + 1 \<le> length ?acc" using nD(5,8) by simp
  have m: "(m * limb_base ^ w) mod N = (a * b) mod N" "m < 2 * N" "length out = length ?acc"
    using montgomery_rows [OF _ _ nD(9) MD(6) _ _ len, of "rf_used x" "rf_used y"] lt aD(4,5) bD(4,5) nD(4,5)
    by (simp_all add: out_def m_def)
  let ?r = "take w (drop w out)" and ?h = "limb_val (drop (2 * w) out)"
  have lo: "2 * w + 1 < length out" using m(3) nD(8) by simp
  have split: "m = limb_val ?r + limb_base ^ w * ?h"
    unfolding m_def by (subst limb_val_take_drop [of _ w]) (simp add: mult_2 add.commute)
  have "limb_base ^ w * ?h < limb_base ^ w * 2"
    using split m(2) nD(11) by linarith
  then have h: "?h < 2" by simp
  have "drop (2 * w) out = out ! (2 * w) # out ! (2 * w + 1) # drop (2 * w + 2) out"
    using lo by (simp add: Cons_nth_drop_Suc)
  then have hv: "?h = unat (out ! (2 * w)) + limb_base * (unat (out ! (2 * w + 1)) + limb_base * limb_val (drop (2 * w + 2) out))"
    by simp
  have "t = 0" if "x + limb_base * t < 2" for x t
  proof (rule ccontr)
    assume "t \<noteq> 0"
    then have "limb_base * 1 \<le> limb_base * t" by (intro mult_le_mono2) simp
    then show False using that by (simp add: limb_base_def)
  qed
  then have "unat (out ! (2 * w + 1)) + limb_base * limb_val (drop (2 * w + 2) out) = 0"
    using h hv by metis
  then have high: "(out ! (2 * w) OR out ! (2 * w + 1)) = 0 \<longleftrightarrow> ?h = 0"
    using hv by (auto simp: or_eq_0_iff unat_eq_0)
  have lr: "length ?r = w" using lo by simp
  have num: "rf_num w (limb_val ?r) (rf_of w ?r)" by (rule rf_num_of [OF lr nD(6)])
  have "limb_val ?r + limb_base ^ w * ?h < 2 * N" using m(2) split by simp
  note res = subtract_modulus_value [OF num MD(1) high this, folded split]
  have "montgomery_multiply x y M = Inr (subtract_modulus_if_needed (rf_of w ?r) M (out ! (2 * w) OR out ! (2 * w + 1)))"
    using aD(2) bD(2) nD(2) lt
    by (simp add: montgomery_multiply_def MD(4,5) require_reduced_value_ok [OF a MD(1)]
        require_reduced_value_ok [OF b MD(1)] Let_def out_def)
  moreover have "m mod N < N" "(m mod N * limb_base ^ w) mod N = (a * b) mod N"
    using MD(3) m(1) by (simp_all add: mod_mult_left_eq)
  ultimately show ?thesis using res by blast
qed

section \<open>The Montgomery domain\<close>

text \<open>\<open>z\<close> represents \<open>x\<close> modulo \<open>N\<close>: it denotes \<open>x\<close> times the radix.\<close>

definition mont_rep :: "nat \<Rightarrow> nat \<Rightarrow> nat \<Rightarrow> rsa_fixed \<Rightarrow> bool" where
  "mont_rep w N x z \<longleftrightarrow> rf_num w (x * limb_base ^ w mod N) z"

lemma radix_double: "(2::nat) ^ (w * 32) = limb_base ^ w"
  by (simp add: limb_base_def mult.commute [of w] power_mult)

lemma radix_coprime: "odd N \<Longrightarrow> coprime (limb_base ^ w) N"
  unfolding radix_double [symmetric] by (rule coprime_odd_power2)

lemma to_montgomery_value:
  assumes "rf_num w a v" "rf_modulus w N M" "a < N"
  shows "\<exists>z. to_montgomery v M = Inr z \<and> mont_rep w N a z"
proof -
  note MD = rf_modulusD [OF assms(2)]
  have "rf_num w (2 ^ (w * 32) * a mod N) (((\<lambda>r. double_mod r M) ^^ (w * 32)) v)"
    by (rule double_mod_iterate [OF assms(1) MD(1) assms(3)])
  then show ?thesis
    using rf_numD(2) [OF assms(1)] rf_numD(2) [OF MD(1)] assms(3)
    by (simp add: to_montgomery_def MD(4) require_reduced_value_ok [OF assms(1) MD(1)] mont_rep_def
        radix_double mult.commute)
qed

lemma mont_rep_multiply:
  assumes "mont_rep w N a x" "mont_rep w N b y" "rf_modulus w N M"
  shows "\<exists>z. montgomery_multiply x y M = Inr z \<and> mont_rep w N (a * b) z"
proof -
  let ?R = "limb_base ^ w"
  note MD = rf_modulusD [OF assms(3)]
  have "0 < N" using MD(3) by simp
  then obtain z n where z: "montgomery_multiply x y M = Inr z" "rf_num w n z" "n < N"
      "(n * ?R) mod N = (a * ?R mod N * (b * ?R mod N)) mod N"
    using montgomery_multiply_value [OF assms(1) [unfolded mont_rep_def] assms(2) [unfolded mont_rep_def] assms(3)]
    by auto
  have "(n * ?R) mod N = (a * b * ?R * ?R) mod N"
    unfolding z(4) mod_mult_eq by (simp add: mult.commute mult.left_commute mult.assoc)
  then have "n mod N = (a * b * ?R) mod N" by (rule mod_mult_cancel [OF radix_coprime [OF MD(2)]])
  then show ?thesis using z by (auto simp: mont_rep_def)
qed

lemma from_montgomery_value:
  assumes "mont_rep w N a x" "rf_modulus w N M"
  shows "\<exists>z. from_montgomery x M = Inr z \<and> rf_num w (a mod N) z"
proof -
  let ?R = "limb_base ^ w"
  note MD = rf_modulusD [OF assms(2)]
  have x: "rf_num w (a * ?R mod N) x" using assms(1) by (simp add: mont_rep_def)
  have one: "rf_num w 1 (rf_one w)" using rf_numD(6) [OF x] by (rule rf_num_one)
  have "a * ?R mod N < N" using MD(3) by simp
  from montgomery_multiply_value [OF x one assms(2) this MD(3)]
  obtain z n where z: "montgomery_multiply x (rf_one w) M = Inr z" "rf_num w n z" "n < N"
      "(n * ?R) mod N = (a * ?R mod N * 1) mod N"
    by auto
  have "(n * ?R) mod N = (a * ?R) mod N" using z(4) by simp
  then have "n mod N = a mod N" by (rule mod_mult_cancel [OF radix_coprime [OF MD(2)]])
  then show ?thesis
    using z rf_numD(2) [OF x] rf_numD(2) [OF MD(1)] by (simp add: from_montgomery_def)
qed

lemma mont_rep_select:
  assumes "mont_rep w N a x" "mont_rep w N b y"
  shows "\<exists>z. rf_select m x y = Inr z \<and> mont_rep w N (if bit m 7 then a else b) z"
  using rf_select_value [OF assms [unfolded mont_rep_def], of m] by (auto simp: mont_rep_def)

section \<open>The exponentiation ladder\<close>

lemma byte_bit_odd: "drop_bit j (b::u8) AND 1 \<noteq> 0 \<longleftrightarrow> odd (unat b div 2 ^ j)"
proof -
  have "(w::u8) AND 1 \<noteq> 0 \<longleftrightarrow> bit w 0" for w
    by (simp add: and_one_eq odd_iff_mod_2_eq_one bit_0)
  then show ?thesis by (simp add: bit_drop_bit_eq bit_unsigned_iff flip: bit_iff_odd)
qed

lemma exponent_bit_iff: "exponent_bit e i \<longleftrightarrow> odd (be_val e div 2 ^ i)"
proof -
  let ?n = "length e" and ?k = "i div 8"
  show ?thesis
  proof (cases "?n \<le> ?k")
    case True
    have "be_val e < 256 ^ ?n" by (rule be_val_bound)
    also have "\<dots> \<le> 256 ^ ?k" using True by (intro power_increasing) simp_all
    also have "\<dots> = 2 ^ (8 * ?k)" by (simp add: power_mult)
    also have "\<dots> \<le> 2 ^ i" by (intro power_increasing) simp_all
    finally show ?thesis using True by (simp add: exponent_bit_def Let_def)
  next
    case False
    define hi where "hi = take (?n - ?k - 1) e"
    define b where "b = e ! (?n - ?k - 1)"
    define lo where "lo = drop (?n - ?k) e"
    have e: "e = hi @ b # lo" using False id_take_nth_drop [of "?n - ?k - 1" e]
      by (simp add: hi_def b_def lo_def Suc_diff_Suc)
    have ll: "length lo = ?k" using False by (simp add: lo_def)
    have i: "i = 8 * ?k + i mod 8" by simp
    have "be_val e = (256 * be_val hi + unat b) * 256 ^ ?k + be_val lo"
      by (simp add: e be_val_append be_val_Cons ll algebra_simps)
    moreover have "be_val lo < 256 ^ ?k" using be_val_bound [of lo] ll by simp
    ultimately have "be_val e div 2 ^ (8 * ?k) = 256 * be_val hi + unat b" by (simp add: power_mult)
    then have "be_val e div 2 ^ i = (256 * be_val hi + unat b) div 2 ^ (i mod 8)"
      by (subst i) (simp only: power_add div_mult2_eq)
    moreover have "odd ((256 * h + u) div 2 ^ j) \<longleftrightarrow> odd (u div 2 ^ j)" if "j < 8" for h u j :: nat
    proof -
      have p: "2 ^ j * 2 ^ (7 - j) = (128::nat)" using that by (simp flip: power_add)
      have "u + 2 ^ j * (2 * (2 ^ (7 - j) * h)) = u + 2 * (2 ^ j * 2 ^ (7 - j)) * h" by simp
      then have eq: "256 * h + u = u + 2 ^ j * (2 * (2 ^ (7 - j) * h))" unfolding p by simp
      have "(256 * h + u) div 2 ^ j = 2 * (2 ^ (7 - j) * h) + u div 2 ^ j" unfolding eq by simp
      then show ?thesis by simp
    qed
    ultimately show ?thesis using False byte_bit_odd [of "i mod 8" b] by (simp add: exponent_bit_def Let_def b_def)
  qed
qed

lemma mont_ladder_value:
  assumes M: "rf_modulus w N M"
  shows "mont_rep w N (x ^ k) r0 \<Longrightarrow> mont_rep w N (x ^ (k + 1)) r1 \<Longrightarrow>
    \<exists>z. mont_ladder e M n r0 r1 = Inr z \<and> mont_rep w N (x ^ (k * 2 ^ n + be_val e mod 2 ^ n)) z"
proof (induction n arbitrary: k r0 r1)
  case (Suc n)
  have exps: "x ^ k * x ^ (k + 1) = x ^ (2 * k + 1)" "x ^ k * x ^ k = x ^ (2 * k)"
    "x ^ (k + 1) * x ^ (k + 1) = x ^ (2 * k + 2)"
    by (simp_all add: mult_2 power_add)
  obtain p where p: "montgomery_multiply r0 r1 M = Inr p" "mont_rep w N (x ^ (2 * k + 1)) p"
    using mont_rep_multiply [OF Suc.prems M] unfolding exps by blast
  obtain s0 where s0: "montgomery_multiply r0 r0 M = Inr s0" "mont_rep w N (x ^ (2 * k)) s0"
    using mont_rep_multiply [OF Suc.prems(1,1) M] unfolding exps by blast
  obtain s1 where s1: "montgomery_multiply r1 r1 M = Inr s1" "mont_rep w N (x ^ (2 * k + 2)) s1"
    using mont_rep_multiply [OF Suc.prems(2,2) M] unfolding exps by blast
  define b where "b = (if exponent_bit e n then 1 else (0::nat))"
  let ?m = "constant_time_bool_mask (exponent_bit e n)"
  have m: "bit ?m 7 \<longleftrightarrow> b = 1" by (simp add: b_def)
  obtain t0 where t0: "rf_select ?m p s0 = Inr t0" "mont_rep w N (x ^ (2 * k + b)) t0"
    using mont_rep_select [OF p(2) s0(2), of ?m] by (auto simp: m b_def split: if_splits)
  obtain t1 where t1: "rf_select ?m s1 p = Inr t1" "mont_rep w N (x ^ (2 * k + b + 1)) t1"
    using mont_rep_select [OF s1(2) p(2), of ?m] by (auto simp: m b_def split: if_splits)
  have exp: "(2 * k + b) * 2 ^ n + be_val e mod 2 ^ n = k * 2 ^ Suc n + be_val e mod 2 ^ Suc n"
    using mod_power2_Suc [of "be_val e" n] by (simp add: b_def exponent_bit_iff algebra_simps)
  show ?case
    using Suc.IH [OF t0(2) t1(2)] unfolding exp
    by (simp add: p(1) s0(1) s1(1) t0(1) t1(1) Let_def del: bool_mask_eq)
qed simp

lemma montgomery_mod_exp_value:
  assumes x: "rf_num w x base" and M: "rf_modulus w N M" and lt: "x < N"
  shows "\<exists>z. montgomery_mod_exp_secret base e M bits = Inr z \<and> rf_num w (x ^ (be_val e mod 2 ^ bits) mod N) z"
proof -
  note MD = rf_modulusD [OF M]
  have one: "rf_num w 1 (rf_one w)" using rf_numD(6) [OF x] by (rule rf_num_one)
  obtain r0 where r0: "to_montgomery (rf_one w) M = Inr r0" "mont_rep w N (x ^ 0) r0"
    using to_montgomery_value [OF one M MD(3)] by auto
  obtain r1 where r1: "to_montgomery base M = Inr r1" "mont_rep w N (x ^ (0 + 1)) r1"
    using to_montgomery_value [OF x M lt] by auto
  obtain z where z: "mont_ladder e M bits r0 r1 = Inr z" "mont_rep w N (x ^ (be_val e mod 2 ^ bits)) z"
    using mont_ladder_value [OF M r0(2) r1(2), of e bits] by auto
  show ?thesis
    using from_montgomery_value [OF z(2) M] rf_numD(2) [OF x] rf_numD(2) [OF MD(1)] lt
    by (simp add: montgomery_mod_exp_secret_def MD(4) require_reduced_value_ok [OF x MD(1)] r0(1) r1(1) z(1))
qed

section \<open>Conversions\<close>

lemma strip_front_value: "be_val (strip_front n bs) = be_val bs"
  by (induction n bs rule: strip_front.induct) (simp_all add: be_val_Cons)

text \<open>What is left is too long only when the number does not fit.\<close>

lemma strip_front_long: "n < length (strip_front n bs) \<Longrightarrow> 256 ^ n \<le> be_val bs"
proof (induction n bs rule: strip_front.induct)
  case (2 n b bs)
  show ?case
  proof (cases "n < length (b # bs) \<and> b = 0")
    case True
    then show ?thesis using 2 by (simp add: be_val_Cons)
  next
    case False
    then have "n \<le> length bs" "b \<noteq> 0" using 2(2) by auto
    then have "(256::nat) ^ n \<le> 256 ^ length bs" "1 \<le> unat b"
      by (auto intro: power_increasing simp: unat_gt_0 Suc_le_eq)
    then have "(256::nat) ^ n \<le> unat b * 256 ^ length bs" by (metis mult_le_mono nat_mult_1)
    then show ?thesis by (simp add: be_val_Cons)
  qed
qed simp

lemma limb_bytes: "256 ^ (4 * w) = limb_base ^ w"
  by (simp add: limb_base_def power_mult)

lemma rf_from_be_bytes_value:
  assumes "valid_width w"
  shows "if be_val bs < limb_base ^ w
    then \<exists>z. rf_from_be_bytes bs w = Inr z \<and> rf_num w (be_val bs) z
    else rf_from_be_bytes bs w = Inl (fixed_error ''RSA fixed integer input exceeds width'')"
proof (cases "w * 4 < length (strip_front (w * 4) bs)")
  case True
  then have "limb_base ^ w \<le> be_val bs"
    using strip_front_long [OF True] limb_bytes [of w] by (simp add: mult.commute)
  then show ?thesis using True assms by (simp add: rf_from_be_bytes_def Let_def)
next
  case False
  let ?bs = "strip_front (w * 4) bs"
  let ?ls = "limbs_from_le_bytes w (rev ?bs)"
  have v: "limb_val ?ls = be_val bs"
    using False by (simp add: limbs_from_le_bytes_value le_val_rev strip_front_value mult.commute)
  have "limb_val ?ls < limb_base ^ w" using limb_val_bound [of ?ls] by simp
  moreover have "rf_num w (limb_val ?ls) (rf_of w ?ls)" using assms by (intro rf_num_of) simp_all
  ultimately show ?thesis using False assms v by (auto simp: rf_from_be_bytes_def Let_def)
qed

lemma rf_to_be_bytes_value: "rf_num w n x \<Longrightarrow> be_val (rf_to_be_bytes x) = n \<and> length (rf_to_be_bytes x) = 4 * w"
  using rf_numD(4,5) [of w n x] by (simp add: rf_to_be_bytes_def limbs_to_be_bytes_value)

lemma rf_equal_mask_value:
  assumes "rf_num w a x" "rf_num w b y"
  shows "rf_equal_mask x y = Inr (if a = b then 0xff else 0)"
proof -
  have l: "length (rf_used x) = length (rf_used y)" using rf_numD(5) [OF assms(1)] rf_numD(5) [OF assms(2)] by simp
  define d where "d = foldl (\<lambda>diff (l, r). diff OR (l XOR r)) 0 (zip (rf_used x) (rf_used y))"
  have "d = 0 \<longleftrightarrow> (\<forall>p\<in>set (zip (rf_used x) (rf_used y)). fst p XOR snd p = 0)"
    using fold_or_eq_0 [of "\<lambda>(l, r). l XOR r" 0 "zip (rf_used x) (rf_used y)"]
    by (simp add: d_def case_prod_unfold)
  also have "\<dots> \<longleftrightarrow> rf_used x = rf_used y"
    using l by (auto simp: xor_eq_0_iff set_zip list_eq_iff_nth_eq)
  also have "\<dots> \<longleftrightarrow> a = b"
    using limb_val_inject [OF l] rf_numD(4) [OF assms(1)] rf_numD(4) [OF assms(2)] by simp
  finally have d: "d = 0 \<longleftrightarrow> a = b" .
  have "ucast (0 - ucast (ucast ((drop_bit 31 (d OR (0 - d)) XOR 1) AND 1) :: u8) :: u32) = (if d = 0 then 0xff else 0 :: u8)"
  proof (cases "d = 0")
    case True
    show ?thesis unfolding True by code_simp
  next
    case False
    then have "drop_bit 31 (d OR (0 - d)) = 1" using non_zero_bit [of d] by simp
    then show ?thesis using False by simp
  qed
  then show ?thesis
    using rf_numD(2) [OF assms(1)] rf_numD(2) [OF assms(2)]
    by (simp add: rf_equal_mask_def Let_def d_def [symmetric] d del: diff_0)
qed

lemma rf_add_value:
  assumes "rf_num w a x" "rf_num w b y"
  shows "\<exists>z. rf_add x y = Inr z \<and> rf_num w ((a + b) mod limb_base ^ w) z"
proof -
  note xD = rf_numD [OF assms(1)] and yD = rf_numD [OF assms(2)]
  have l: "length (rf_used x) = length (rf_used y)" using xD yD by simp
  let ?p = "add_limbs (rf_used x) (rf_used y) 0"
  have v: "limb_val (fst ?p) + limb_base ^ w * unat (snd ?p) = a + b" and lp: "length (fst ?p) = w"
    using add_limbs_value [OF l, of 0] xD(4,5) yD(4) by simp_all
  have "limb_val (fst ?p) < limb_base ^ w" using limb_val_bound [of "fst ?p"] lp by simp
  then have "(a + b) mod limb_base ^ w = limb_val (fst ?p)" unfolding v [symmetric] by simp
  then show ?thesis using rf_num_of [OF lp xD(6)] xD(2) yD(2) by (auto simp: rf_add_def)
qed

lemma mod_bits_value:
  assumes M: "rf_modulus w N M"
  shows "rf_num w (a mod N) out \<Longrightarrow>
    \<exists>z. mod_bits b M n out = Inr z \<and> rf_num w ((a * 2 ^ n + unat b mod 2 ^ n) mod N) z"
proof (induction n arbitrary: a out)
  case (Suc n)
  note MD = rf_modulusD [OF M]
  have N: "0 < N" using MD(3) by simp
  let ?bit = "drop_bit n b AND 1 \<noteq> 0"
  have bit: "?bit \<longleftrightarrow> odd (unat b div 2 ^ n)" by (rule byte_bit_odd)
  have d: "rf_num w (2 * a mod N) (double_mod out M)"
    using double_mod_value [OF Suc.prems MD(1)] N by (simp add: mod_mult_right_eq)
  have i: "rf_num w ((2 * a + 1) mod N) (add_one_mod (double_mod out M) M)"
    using add_one_mod_value [OF d MD(1)] N by (simp add: mod_Suc_eq)
  obtain z where z: "rf_select (constant_time_bool_mask ?bit) (add_one_mod (double_mod out M) M) (double_mod out M) = Inr z"
      "rf_num w ((2 * a + (if ?bit then 1 else 0)) mod N) z"
    using rf_select_value [OF i d, of "constant_time_bool_mask ?bit"] by (cases ?bit) auto
  have "(2 * a + (if ?bit then 1 else 0)) * 2 ^ n + unat b mod 2 ^ n = a * 2 ^ Suc n + unat b mod 2 ^ Suc n"
    using mod_power2_Suc [of "unat b" n] by (simp add: bit algebra_simps)
  then show ?case using Suc.IH [OF z(2)] by (simp add: z(1) Let_def del: bool_mask_eq)
qed simp

lemma mod_bytes_value:
  assumes M: "rf_modulus w N M"
  shows "rf_num w (a mod N) out \<Longrightarrow>
    \<exists>z. mod_bytes bs M out = Inr z \<and> rf_num w ((a * 256 ^ length bs + be_val bs) mod N) z"
proof (induction bs arbitrary: a out)
  case (Cons b bs)
  have "unat b mod 2 ^ 8 = unat b" by simp
  with mod_bits_value [OF M Cons.prems, of b 8]
  obtain z where z: "mod_bits b M 8 out = Inr z" "rf_num w ((a * 256 + unat b) mod N) z" by auto
  have "(a * 256 + unat b) * 256 ^ length bs + be_val bs = a * 256 ^ length (b # bs) + be_val (b # bs)"
    by (simp add: be_val_Cons algebra_simps)
  then show ?case using Cons.IH [OF z(2)] z(1) by (simp del: mod_bits.simps)
qed simp

lemma rf_from_be_bytes_mod_value:
  assumes M: "rf_modulus w N M"
  shows "\<exists>z. rf_from_be_bytes_mod bs M = Inr z \<and> rf_num w (be_val bs mod N) z"
proof -
  note MD = rf_modulusD [OF M]
  have "rf_num w (0 mod N) (rf_new w)" using rf_num_new [OF rf_numD(6) [OF MD(1)]] by simp
  from mod_bytes_value [OF M this, of bs] show ?thesis
    using rf_numD(2) [OF MD(1)] by (simp add: rf_from_be_bytes_mod_def MD(4))
qed

lemma montgomery_r_squared_value:
  assumes M: "rf_modulus w N M"
  shows "\<exists>z. montgomery_r_squared M = Inr z \<and> rf_num w (limb_base ^ (2 * w) mod N) z"
proof -
  note MD = rf_modulusD [OF M]
  have one: "rf_num w 1 (rf_one w)" using rf_numD(6) [OF MD(1)] by (rule rf_num_one)
  have "rf_num w (2 ^ (w * 32 * 2) * 1 mod N) (((\<lambda>r. double_mod r M) ^^ (w * 32 * 2)) (rf_one w))"
    by (rule double_mod_iterate [OF one MD(1) MD(3)])
  moreover have "(2::nat) ^ (w * 32 * 2) = limb_base ^ (2 * w)"
    using radix_double [of "2 * w"] by (simp add: mult_ac)
  ultimately show ?thesis
    using rf_numD(2) [OF MD(1)] MD(3)
    by (simp add: montgomery_r_squared_def MD(4) require_reduced_value_ok [OF one MD(1)] Let_def)
qed

section \<open>Properties\<close>

text \<open>
  C20: the Montgomery ladder computes the modular power. On well-formed integers it fails exactly
  on different widths, an even or trivial modulus, and a base that is not reduced; otherwise the
  result, of the same width, is the base to the low \<open>exponent_bits\<close> bits of the exponent, modulo
  the modulus.
\<close>

theorem montgomery_mod_exp_correct:
  assumes "rf_ok base" "rf_ok M"
  shows "if rf_width base \<noteq> rf_width M
    then montgomery_mod_exp_secret base e M bits = Inl (fixed_error ''RSA fixed integer widths do not match'')
    else if even (rf_val M)
    then montgomery_mod_exp_secret base e M bits = Inl (fixed_error ''RSA fixed Montgomery modulus must be non-zero and odd'')
    else if rf_val M = 1
    then montgomery_mod_exp_secret base e M bits = Inl (fixed_error ''RSA fixed Montgomery modulus must be greater than one'')
    else if rf_val M \<le> rf_val base
    then montgomery_mod_exp_secret base e M bits = Inl (fixed_error ''RSA fixed Montgomery value must be reduced modulo modulus'')
    else \<exists>z. montgomery_mod_exp_secret base e M bits = Inr z \<and> rf_ok z \<and> rf_width z = rf_width M \<and>
      rf_val z = rf_val base ^ (be_val e mod 2 ^ bits) mod rf_val M"
proof (cases "rf_width base = rf_width M")
  case w: True
  note b = rf_num_self [OF assms(1), unfolded w] and m = rf_num_self [OF assms(2)]
  note req = require_montgomery_modulus_iff [OF assms(2)]
  show ?thesis
  proof (cases "odd (rf_val M) \<and> rf_val M \<noteq> 1 \<and> rf_val base < rf_val M")
    case True
    then have "rf_modulus (rf_width M) (rf_val M) M"
      using m by (auto simp: rf_modulus_def intro: odd_pos Suc_lessI)
    from montgomery_mod_exp_value [OF b this] True
    show ?thesis by (auto simp: w rf_num_def)
  next
    case False
    then show ?thesis
      using w by (auto simp: montgomery_mod_exp_secret_def req require_reduced_value_ok [OF b m])
  qed
qed (simp add: montgomery_mod_exp_secret_def require_matching_widths_def)

theorem montgomery_mod_exp_correct_witness:
  "\<exists>z. montgomery_mod_exp_secret (rf_of 1 [3]) [5] (rf_of 1 [7]) 8 = Inr z \<and> rf_val z = 5"
proof -
  have ok: "rf_ok (rf_of 1 [3])" "rf_ok (rf_of 1 [7])" by (simp_all add: rf_ok_def valid_width_def max_limbs_def)
  have v: "rf_val (rf_of 1 [3]) = 3" "rf_val (rf_of 1 [7]) = 7" by (simp_all add: rf_val_def max_limbs_def)
  show ?thesis
    using montgomery_mod_exp_correct [OF ok, of "[5]" 8] unfolding v by (auto simp: be_val_Cons)
qed

text \<open>
  The value of montgomery_multiply is the reduced product divided by the radix: on reduced arguments
  modulo an odd modulus, the result \<open>z\<close> is below the modulus and \<open>z\<close> times the radix is the
  product, modulo the modulus.
\<close>

lemma montgomery_multiply_correct:
  assumes "rf_ok x" "rf_ok y" "rf_ok M" "rf_width x = rf_width M" "rf_width y = rf_width M"
    and "odd (rf_val M)" "1 < rf_val M" "rf_val x < rf_val M" "rf_val y < rf_val M"
  shows "\<exists>z. montgomery_multiply x y M = Inr z \<and> rf_ok z \<and> rf_width z = rf_width M \<and> rf_val z < rf_val M \<and>
    (rf_val z * limb_base ^ rf_width M) mod rf_val M = (rf_val x * rf_val y) mod rf_val M"
proof -
  have "rf_modulus (rf_width M) (rf_val M) M" using assms(3,6,7) by (simp add: rf_modulus_def rf_num_self)
  from montgomery_multiply_value [OF rf_num_self [OF assms(1), unfolded assms(4)]
      rf_num_self [OF assms(2), unfolded assms(5)] this assms(8,9)]
  show ?thesis by (auto simp: rf_num_def)
qed

lemma montgomery_multiply_correct_witness:
  "\<exists>z. montgomery_multiply (rf_of 1 [3]) (rf_of 1 [4]) (rf_of 1 [7]) = Inr z \<and> rf_val z < 7 \<and>
    (rf_val z * 2 ^ 32) mod 7 = 12 mod 7"
proof -
  have ok: "rf_ok (rf_of 1 [3])" "rf_ok (rf_of 1 [4])" "rf_ok (rf_of 1 [7])"
    by (simp_all add: rf_ok_def valid_width_def max_limbs_def)
  have v: "rf_val (rf_of 1 [3]) = 3" "rf_val (rf_of 1 [4]) = 4" "rf_val (rf_of 1 [7]) = 7"
    by (simp_all add: rf_val_def max_limbs_def)
  show ?thesis
    using montgomery_multiply_correct [OF ok] unfolding v by (auto simp: limb_base_def)
qed

text \<open>
  The conversion from_be_bytes succeeds exactly for a valid width the number fits into, and to_be_bytes then
  gives the number back in four bytes for each limb.
\<close>

lemma rf_bytes_roundtrip:
  "(valid_width w \<and> be_val bs < 2 ^ (32 * w) \<longrightarrow>
     (\<exists>z. rf_from_be_bytes bs w = Inr z \<and> rf_ok z \<and> rf_width z = w \<and>
        length (rf_to_be_bytes z) = 4 * w \<and> be_val (rf_to_be_bytes z) = be_val bs)) \<and>
   (\<not> (valid_width w \<and> be_val bs < 2 ^ (32 * w)) \<longrightarrow> \<not> has_value (rf_from_be_bytes bs w))"
proof -
  have "(2::nat) ^ (32 * w) = limb_base ^ w" by (simp add: limb_base_def power_mult)
  then show ?thesis
    using rf_from_be_bytes_value [of w bs] rf_to_be_bytes_value [of w "be_val bs"]
    by (cases "valid_width w") (auto simp: rf_num_def rf_from_be_bytes_def split: if_splits)
qed

lemma rf_bytes_roundtrip_witness:
  "\<exists>z. rf_from_be_bytes [0, 1, 2, 3, 4] 1 = Inr z \<and> be_val (rf_to_be_bytes z) = 0x01020304"
  using rf_bytes_roundtrip [of 1 "[0, 1, 2, 3, 4]"] by (auto simp: valid_width_def max_limbs_def be_val_Cons)

text \<open>
  From_be_bytes_mod reduces a byte string of any length modulo an odd modulus above one, bit
  by bit and without branching on the bits.
\<close>

lemma rf_from_be_bytes_mod_correct:
  assumes "rf_ok M" "odd (rf_val M)" "1 < rf_val M"
  shows "\<exists>z. rf_from_be_bytes_mod bs M = Inr z \<and> rf_ok z \<and> rf_width z = rf_width M \<and> rf_val z = be_val bs mod rf_val M"
proof -
  have "rf_modulus (rf_width M) (rf_val M) M" using assms by (simp add: rf_modulus_def rf_num_self)
  from rf_from_be_bytes_mod_value [OF this, of bs] show ?thesis by (auto simp: rf_num_def)
qed

lemma rf_from_be_bytes_mod_correct_witness:
  "\<exists>z. rf_from_be_bytes_mod [1, 0, 0, 0, 0, 2] (rf_of 1 [7]) = Inr z \<and> rf_val z = (2 ^ 40 + 2) mod 7"
proof -
  have ok: "rf_ok (rf_of 1 [7])" "rf_val (rf_of 1 [7]) = 7"
    by (simp_all add: rf_ok_def valid_width_def rf_val_def max_limbs_def)
  then show ?thesis
    using rf_from_be_bytes_mod_correct [of "rf_of 1 [7]" "[1, 0, 0, 0, 0, 2]"] unfolding ok(2) by (auto simp: be_val_Cons)
qed

end
