(* ===== verification/Big_Int.thy ===== *)
theory Big_Int
  imports Limbs Number_Facts Secure_Memory
begin

text \<open>
  src/bigint.cpp: BigInt, unsigned integers of any size. The class keeps its limbs normalized (no
  zero limb at the top), which is the type here, so that integers are equal when their values are.
  Each operation is proved against the number its limbs denote.
\<close>

section \<open>The class\<close>

typedef bigint = "{limbs :: u32 list. limbs = [] \<or> last limbs \<noteq> 0}"
  morphisms limbs Abs_bigint
  by (rule exI [of _ "[]"]) simp

lemma last_strip: "strip_while P xs \<noteq> [] \<Longrightarrow> \<not> P (last (strip_while P xs))"
  by (induction xs rule: rev_induct) auto

text \<open>The constructor, which normalizes.\<close>

definition big_int :: "u32 list \<Rightarrow> bigint" where
  "big_int ls = Abs_bigint (strip_while (\<lambda>l. l = 0) ls)"

lemma limbs_big_int [simp]: "limbs (big_int ls) = strip_while (\<lambda>l. l = 0) ls"
  unfolding big_int_def by (rule Abs_bigint_inverse) (use last_strip [of "\<lambda>l. l = 0" ls] in blast)

definition bi_val :: "bigint \<Rightarrow> nat" where
  "bi_val x = limb_val (limbs x)"

definition bi_zero :: bigint where
  "bi_zero = big_int []"

definition bi_one :: bigint where
  "bi_one = big_int [1]"

definition bi_is_zero :: "bigint \<Rightarrow> bool" where
  "bi_is_zero x \<longleftrightarrow> limbs x = []"

definition bigint_error :: "string \<Rightarrow> crypto_error" where
  "bigint_error msg = make_error Invalid_argument ''bigint'' msg"

definition bi_from_be_bytes :: "bytes \<Rightarrow> bigint result" where
  "bi_from_be_bytes bs =
     (let bs = dropWhile (\<lambda>b. b = 0) bs in
      if bs = [] then Inr bi_zero
      else Inr (big_int (limbs_from_le_bytes ((length bs + 3) div 4) (rev bs))))"

definition bi_to_be_bytes :: "bigint \<Rightarrow> bytes" where
  "bi_to_be_bytes x =
     (if bi_is_zero x then [0] else dropWhile (\<lambda>b. b = 0) (limbs_to_be_bytes (limbs x)))"

section \<open>Bits and comparison\<close>

definition bi_bit :: "bigint \<Rightarrow> nat \<Rightarrow> bool" where
  "bi_bit x index =
     (let limb_index = index div 32; bit_index = index mod 32 in
      if length (limbs x) \<le> limb_index then False
      else drop_bit bit_index (limbs x ! limb_index) AND 1 \<noteq> 0)"

text \<open>The loop of bit_length: one more than the highest set bit below \<open>n\<close>.\<close>

fun top_bit :: "nat \<Rightarrow> u32 \<Rightarrow> nat" where
  "top_bit 0 high = 0"
| "top_bit (Suc n) high = (if drop_bit n high AND 1 \<noteq> 0 then Suc n else top_bit n high)"

definition bi_bit_length :: "bigint \<Rightarrow> nat" where
  "bi_bit_length x =
     (if limbs x = [] then 0
      else (length (limbs x) - 1) * 32 + top_bit 32 (last (limbs x)))"

definition compare_limbs :: "u32 list \<Rightarrow> u32 list \<Rightarrow> int" where
  "compare_limbs lhs rhs =
     (let lhs = strip_while (\<lambda>l. l = 0) lhs; rhs = strip_while (\<lambda>l. l = 0) rhs in
      if length lhs < length rhs then -1
      else if length rhs < length lhs then 1
      else compare_down (rev lhs) (rev rhs))"

definition bi_compare :: "bigint \<Rightarrow> bigint \<Rightarrow> int" where
  "bi_compare x y = compare_limbs (limbs x) (limbs y)"

section \<open>Arithmetic\<close>

definition bi_add :: "bigint \<Rightarrow> bigint \<Rightarrow> bigint" where
  "bi_add lhs rhs =
     (let n = max (length (limbs lhs)) (length (limbs rhs)) + 1
      in big_int (fst (add_limbs (fixed_limbs n (limbs lhs)) (fixed_limbs n (limbs rhs)) 0)))"

text \<open>The loop of subtract, which branches on the borrow.\<close>

fun subtract_limbs :: "u32 list \<Rightarrow> u32 list \<Rightarrow> u64 \<Rightarrow> u32 list" where
  "subtract_limbs (l # ls) (r # rs) borrow =
     (let left = ucast l :: u64; right = ucast r + borrow in
      if right \<le> left then low32 (left - right) # subtract_limbs ls rs 0
      else low32 (push_bit 32 1 + left - right) # subtract_limbs ls rs 1)"
| "subtract_limbs _ _ borrow = []"

definition bi_subtract :: "bigint \<Rightarrow> bigint \<Rightarrow> bigint" where
  "bi_subtract lhs rhs =
     big_int (subtract_limbs (limbs lhs) (fixed_limbs (length (limbs lhs)) (limbs rhs)) 0)"

definition bi_multiply :: "bigint \<Rightarrow> bigint \<Rightarrow> bigint" where
  "bi_multiply lhs rhs =
     (if bi_is_zero lhs \<or> bi_is_zero rhs then bi_zero
      else big_int (multiply_rows (limbs lhs) (limbs rhs)
             (replicate (length (limbs lhs) + length (limbs rhs) + 1) 0)))"

fun shift_limbs :: "nat \<Rightarrow> u32 list \<Rightarrow> u64 \<Rightarrow> u32 list" where
  "shift_limbs bit_shift [] carry = [low32 carry]"
| "shift_limbs bit_shift (x # xs) carry =
     (let shifted = push_bit bit_shift (ucast x) OR carry
      in low32 shifted # shift_limbs bit_shift xs (high32 shifted))"

definition bi_shift_left_bits :: "bigint \<Rightarrow> nat \<Rightarrow> bigint" where
  "bi_shift_left_bits v bits =
     (if bi_is_zero v then bi_zero
      else big_int (replicate (bits div 32) 0 @ shift_limbs (bits mod 32) (limbs v) 0))"

section \<open>Values\<close>

lemma bi_val_big_int [simp]: "bi_val (big_int ls) = limb_val ls"
  by (simp add: bi_val_def)

lemma bi_val_zero [simp]: "bi_val bi_zero = 0"
  by (simp add: bi_zero_def)

lemma bi_val_one [simp]: "bi_val bi_one = 1"
  by (simp add: bi_one_def)

lemma limbs_normalized: "limbs x \<noteq> [] \<Longrightarrow> last (limbs x) \<noteq> 0"
  using limbs [of x] by auto

text \<open>A normalized array is at least as large as its top limb's place.\<close>

lemma normalized_lower:
  assumes "ls \<noteq> []" "last ls \<noteq> 0"
  shows "limb_base ^ (length ls - 1) \<le> limb_val ls"
proof -
  have "limb_val ls = limb_val (butlast ls) + limb_base ^ (length ls - 1) * unat (last ls)"
    using limb_val_snoc [of "butlast ls" "last ls"] assms(1) by simp
  moreover have "1 \<le> unat (last ls)" using assms(2) by (simp add: unat_gt_0 Suc_le_eq)
  then have "limb_base ^ (length ls - 1) * 1 \<le> limb_base ^ (length ls - 1) * unat (last ls)"
    by (intro mult_le_mono2)
  ultimately show ?thesis by linarith
qed

lemma bi_is_zero_iff [simp]: "bi_is_zero x \<longleftrightarrow> bi_val x = 0"
proof
  assume "bi_val x = 0"
  then show "bi_is_zero x"
    using normalized_lower [of "limbs x"] limbs_normalized [of x]
    by (auto simp: bi_val_def bi_is_zero_def)
qed (simp add: bi_val_def bi_is_zero_def)

lemma length_le_of_bound: "bi_val x < limb_base ^ n \<Longrightarrow> length (limbs x) \<le> n"
proof (rule ccontr)
  assume lt: "bi_val x < limb_base ^ n" and "\<not> length (limbs x) \<le> n"
  then have "limbs x \<noteq> []" "n \<le> length (limbs x) - 1" by auto
  then have "limb_base ^ n \<le> limb_base ^ (length (limbs x) - 1)" by (intro power_increasing) simp_all
  also have "\<dots> \<le> bi_val x"
    unfolding bi_val_def using \<open>limbs x \<noteq> []\<close> by (intro normalized_lower limbs_normalized)
  finally have "limb_base ^ n \<le> bi_val x" .
  with lt show False by simp
qed

lemma bi_val_bound: "bi_val x < limb_base ^ length (limbs x)"
  by (simp add: bi_val_def limb_val_bound)

lemma length_eq_of_val: "bi_val x = bi_val y \<Longrightarrow> length (limbs x) = length (limbs y)"
  using length_le_of_bound [of x "length (limbs y)"] length_le_of_bound [of y "length (limbs x)"]
    bi_val_bound [of x] bi_val_bound [of y] by simp

lemma bi_val_inject: "bi_val x = bi_val y \<longleftrightarrow> x = y"
proof
  assume eq: "bi_val x = bi_val y"
  then have "limbs x = limbs y" using length_eq_of_val [OF eq] limb_val_inject by (auto simp: bi_val_def)
  then show "x = y" by (simp add: limbs_inject)
qed simp

lemma fixed_limbs_val [simp]: "length (limbs x) \<le> n \<Longrightarrow> limb_val (fixed_limbs n (limbs x)) = bi_val x"
  by (simp add: bi_val_def)

lemma bi_add_val [simp]: "bi_val (bi_add x y) = bi_val x + bi_val y"
proof -
  let ?n = "max (length (limbs x)) (length (limbs y)) + 1"
  let ?p = "add_limbs (fixed_limbs ?n (limbs x)) (fixed_limbs ?n (limbs y)) 0"
  have v: "limb_val (fst ?p) + limb_base ^ ?n * unat (snd ?p) = bi_val x + bi_val y"
    using add_limbs_value [of "fixed_limbs ?n (limbs x)" "fixed_limbs ?n (limbs y)" 0] by (simp del: bi_val_def flip: bi_val_def)
  have "bi_val x < limb_base ^ (?n - 1)" "bi_val y < limb_base ^ (?n - 1)"
    using bi_val_bound [of x] bi_val_bound [of y]
      power_increasing [of "length (limbs x)" "?n - 1" limb_base]
      power_increasing [of "length (limbs y)" "?n - 1" limb_base] by (simp_all add: less_le_trans)
  then have "bi_val x + bi_val y < 2 * limb_base ^ (?n - 1)" by simp
  also have "\<dots> \<le> limb_base ^ ?n" by simp (simp add: limb_base_def)
  finally have small: "bi_val x + bi_val y < limb_base ^ ?n" .
  have "unat (snd ?p) = 0"
  proof (rule ccontr)
    assume "unat (snd ?p) \<noteq> 0"
    then have "limb_base ^ ?n * 1 \<le> limb_base ^ ?n * unat (snd ?p)" by (intro mult_le_mono2) simp
    then show False using v small by linarith
  qed
  then show ?thesis using v by (simp add: bi_add_def Let_def)
qed

lemma subtract_limbs_sub:
  "length ls = length rs \<Longrightarrow> unat b \<le> 1 \<Longrightarrow> subtract_limbs ls rs b = fst (sub_limbs ls rs b)"
proof (induction ls rs arbitrary: b rule: list_induct2)
  case (Cons l ls r rs)
  have "low32 (push_bit 32 1 + x - y) = low32 (x - y)" for x y :: u64
  proof -
    have "push_bit 32 1 + x - y = (x - y) + push_bit 32 1" by simp
    moreover have "low32 (z + push_bit 32 1) = low32 z" for z :: u64
      by (simp add: word_unat_eq_iff unat_low32 unat_word_ariths mod_mod_cancel)
    ultimately show ?thesis by (simp only:)
  qed
  note low = this
  show ?case
  proof (cases "ucast r + b \<le> (ucast l :: u64)")
    case True
    then have "\<not> (ucast l :: u64) < ucast r + b" by simp
    then show ?thesis using True Cons low by (simp add: Let_def case_prod_unfold)
  next
    case False
    then have "(ucast l :: u64) < ucast r + b" by simp
    then show ?thesis using False Cons low by (simp add: Let_def case_prod_unfold)
  qed
qed simp

lemma bi_subtract_val: "bi_val y \<le> bi_val x \<Longrightarrow> bi_val (bi_subtract x y) = bi_val x - bi_val y"
proof -
  assume le: "bi_val y \<le> bi_val x"
  then have "length (limbs y) \<le> length (limbs x)"
    using bi_val_bound [of x] by (intro length_le_of_bound) simp
  then have "limb_val (fst (sub_limbs (limbs x) (fixed_limbs (length (limbs x)) (limbs y)) 0)) = bi_val x - bi_val y"
    using sub_limbs_le(1) [of "limbs x" "fixed_limbs (length (limbs x)) (limbs y)"] le by (simp add: bi_val_def)
  then show ?thesis by (simp add: bi_subtract_def subtract_limbs_sub)
qed

lemma bi_multiply_val [simp]: "bi_val (bi_multiply x y) = bi_val x * bi_val y"
  using multiply_rows_value(1) [of "limbs x" "limbs y" "replicate (length (limbs x) + length (limbs y) + 1) 0"]
  by (auto simp: bi_multiply_def bi_val_def [of x] bi_val_def [of y])

section \<open>Bits and comparison, in numbers\<close>

lemma bi_bit_iff: "bi_bit x i \<longleftrightarrow> odd (bi_val x div 2 ^ i)"
proof (cases "length (limbs x) \<le> i div 32")
  case True
  have "bi_val x < limb_base ^ length (limbs x)" by (rule bi_val_bound)
  also have "\<dots> \<le> limb_base ^ (i div 32)" using True by (intro power_increasing) simp_all
  also have "\<dots> = 2 ^ (32 * (i div 32))" by (simp add: limb_base_def power_mult)
  also have "\<dots> \<le> 2 ^ i" by (intro power_increasing) simp_all
  finally show ?thesis using True by (simp add: bi_bit_def Let_def)
next
  case False
  then show ?thesis using limb_bit_odd [of i "limbs x"] by (simp add: bi_bit_def bi_val_def Let_def)
qed

lemma top_bit_bounds:
  "unat w < 2 ^ n \<Longrightarrow> w \<noteq> 0 \<Longrightarrow> 0 < top_bit n w \<and> 2 ^ (top_bit n w - 1) \<le> unat w \<and> unat w < 2 ^ top_bit n w"
proof (induction n)
  case (Suc n)
  show ?case
  proof (cases "drop_bit n w AND 1 \<noteq> 0")
    case True
    then have "odd (unat w div 2 ^ n)" using u32_bit_odd by blast
    then have "2 ^ n \<le> unat w" by (metis div_less even_zero not_le)
    then show ?thesis using True Suc.prems by simp
  next
    case False
    then have e: "even (unat w div 2 ^ n)" using u32_bit_odd by blast
    have "unat w div 2 ^ n < 2" using Suc.prems(1) by (simp add: less_mult_imp_div_less mult.commute)
    then have "unat w div 2 ^ n = 0" using e by (cases "unat w div 2 ^ n") (auto simp: less_Suc_eq numeral_2_eq_2)
    then have "unat w < 2 ^ n" by (simp add: div_eq_0_iff)
    then show ?thesis using False Suc by simp
  qed
qed (simp add: unat_eq_0)

lemma bi_bit_length_bounds:
  assumes "bi_val x \<noteq> 0"
  shows "0 < bi_bit_length x" "2 ^ (bi_bit_length x - 1) \<le> bi_val x" "bi_val x < 2 ^ bi_bit_length x"
proof -
  have ne: "limbs x \<noteq> []" using assms by (auto simp: bi_val_def)
  let ?n = "length (limbs x) - 1" and ?h = "last (limbs x)"
  let ?t = "top_bit 32 ?h"
  have t: "0 < ?t" "2 ^ (?t - 1) \<le> unat ?h" "unat ?h < 2 ^ ?t"
    using top_bit_bounds [of ?h 32] limbs_normalized [OF ne] unat_limb [of ?h] by (auto simp: limb_base_def)
  have v: "bi_val x = limb_val (butlast (limbs x)) + limb_base ^ ?n * unat ?h"
    using limb_val_snoc [of "butlast (limbs x)" ?h] ne by (simp add: bi_val_def)
  have lo: "limb_val (butlast (limbs x)) < limb_base ^ ?n" using limb_val_bound [of "butlast (limbs x)"] by simp
  have len: "bi_bit_length x = ?n * 32 + ?t" using ne by (simp add: bi_bit_length_def)
  have p: "(2::nat) ^ (?n * 32 + k) = limb_base ^ ?n * 2 ^ k" for k
    by (simp add: power_add limb_base_def mult.commute [of _ 32] power_mult)
  show "0 < bi_bit_length x" using t(1) len by simp
  have "limb_base ^ ?n * 2 ^ (?t - 1) \<le> limb_base ^ ?n * unat ?h" using t(2) by (intro mult_le_mono2)
  then have "2 ^ (?n * 32 + (?t - 1)) \<le> bi_val x" unfolding p v by linarith
  then show "2 ^ (bi_bit_length x - 1) \<le> bi_val x" using t(1) unfolding len by simp
  have "bi_val x < limb_base ^ ?n * (unat ?h + 1)" unfolding v using lo by simp
  also have "\<dots> \<le> limb_base ^ ?n * 2 ^ ?t" using t(3) by (intro mult_le_mono2) simp
  finally show "bi_val x < 2 ^ bi_bit_length x" unfolding len p .
qed

lemma bi_bit_length_0: "bi_val x = 0 \<Longrightarrow> bi_bit_length x = 0"
  using bi_is_zero_iff [of x] by (simp add: bi_is_zero_def bi_bit_length_def del: bi_is_zero_iff)

lemma bi_val_lt_bits: "bi_bit_length x \<le> n \<longleftrightarrow> bi_val x < 2 ^ n"
proof (cases "bi_val x = 0")
  case False
  note b = bi_bit_length_bounds [OF False]
  show ?thesis
  proof
    assume "bi_bit_length x \<le> n"
    then have "(2::nat) ^ bi_bit_length x \<le> 2 ^ n" by (intro power_increasing) simp_all
    with b(3) show "bi_val x < 2 ^ n" by linarith
  next
    assume "bi_val x < 2 ^ n"
    then have "(2::nat) ^ (bi_bit_length x - 1) < 2 ^ n" using b(2) by linarith
    then have "bi_bit_length x - 1 < n" by (simp only: power_strict_increasing_iff one_less_numeral_iff semiring_norm)
    then show "bi_bit_length x \<le> n" by simp
  qed
qed (simp add: bi_bit_length_0)

lemma bi_compare_val: "bi_compare x y = (if bi_val x < bi_val y then -1 else if bi_val y < bi_val x then 1 else 0)"
proof -
  have strip: "strip_while (\<lambda>l. l = 0) (limbs z) = limbs z" for z
  proof (cases "limbs z = []")
    case False
    then show ?thesis using limbs_normalized [OF False] by (cases "limbs z" rule: rev_cases) auto
  qed simp
  have short: "bi_val a < bi_val b" if "length (limbs a) < length (limbs b)" for a b
  proof -
    have "bi_val a < limb_base ^ length (limbs a)" by (rule bi_val_bound)
    also have "\<dots> \<le> limb_base ^ (length (limbs b) - 1)" using that by (intro power_increasing) simp_all
    also have "\<dots> \<le> bi_val b"
      unfolding bi_val_def using that by (intro normalized_lower limbs_normalized) auto
    finally show ?thesis .
  qed
  consider "length (limbs x) < length (limbs y)" | "length (limbs y) < length (limbs x)" | "length (limbs x) = length (limbs y)"
    by linarith
  then show ?thesis
  proof cases
    case 1
    with short [OF 1] show ?thesis by (simp add: bi_compare_def compare_limbs_def strip Let_def)
  next
    case 2
    with short [OF 2] show ?thesis by (simp add: bi_compare_def compare_limbs_def strip Let_def)
  next
    case 3
    then show ?thesis
      using compare_down_value [OF 3] by (simp add: bi_compare_def compare_limbs_def strip Let_def bi_val_def)
  qed
qed

lemma bi_compare_simps [simp]:
  "bi_compare x y < 0 \<longleftrightarrow> bi_val x < bi_val y"
  "0 \<le> bi_compare x y \<longleftrightarrow> bi_val y \<le> bi_val x"
  "0 < bi_compare x y \<longleftrightarrow> bi_val y < bi_val x"
  "bi_compare x y = 0 \<longleftrightarrow> x = y"
  by (auto simp: bi_compare_val bi_val_inject [symmetric])

lemma shift_limbs_value:
  assumes "s < 32" "unat c < 2 ^ s"
  shows "limb_val (shift_limbs s xs c) = 2 ^ s * limb_val xs + unat c"
  using assms(2)
proof (induction xs arbitrary: c)
  case Nil
  have "(2::nat) ^ s \<le> 2 ^ 32" using assms(1) by (intro power_increasing) simp_all
  then show ?case using Nil by (simp add: unat_low32)
next
  case (Cons x xs)
  let ?y = "push_bit s (ucast x) :: u64"
  have p: "(2::nat) ^ s \<le> 2 ^ 31" using assms(1) by (intro power_increasing) simp_all
  have xb: "unat x < 2 ^ 32" using unat_limb [of x] by (simp add: limb_base_def)
  have yb: "2 ^ s * unat x < 2 ^ 31 * 2 ^ 32"
    using le_less_trans [OF mult_le_mono1 [OF p] mult_strict_left_mono [OF xb]] by simp
  have y: "unat ?y = 2 ^ s * unat x"
  proof -
    have "unat ?y = take_bit 64 (push_bit s (unat x))" by (simp add: unsigned_push_bit_eq)
    also have "push_bit s (unat x) = 2 ^ s * unat x" by (simp add: push_bit_eq_mult mult.commute)
    finally show ?thesis using yb by (simp add: take_bit_nat_eq_self)
  qed
  have cb: "\<not> bit c n" if "s \<le> n" for n
  proof
    assume "bit c n"
    then have "bit (unat c) n" by (simp add: bit_unsigned_iff)
    then have "odd (unat c div 2 ^ n)" by (simp add: bit_iff_odd)
    then have "unat c div 2 ^ n \<noteq> 0" by (cases "unat c div 2 ^ n = 0") simp_all
    then have "2 ^ n \<le> unat c" by (simp add: div_eq_0_iff not_less)
    moreover have "(2::nat) ^ s \<le> 2 ^ n" using that by (intro power_increasing) simp_all
    ultimately show False using Cons.prems by linarith
  qed
  have "?y OR c = ?y + c"
    by (rule disjunctive_add [symmetric]) (use cb in \<open>auto simp: bit_push_bit_iff\<close>)
  then have sum: "unat (?y OR c) = 2 ^ s * unat x + unat c"
    using y yb p Cons.prems by (simp add: unat_word_ariths)
  have "2 ^ s * unat x + unat c < 2 ^ s * (unat x + 1)" using Cons.prems by simp
  also have "\<dots> \<le> 2 ^ s * 2 ^ 32" using xb by (intro mult_le_mono2) simp
  finally have "unat (high32 (?y OR c)) < 2 ^ s" using sum by (intro high32_bound) (simp add: limb_base_def)
  from Cons.IH [OF this] have "limb_val (shift_limbs s (x # xs) c)
      = unat (low32 (?y OR c)) + limb_base * unat (high32 (?y OR c)) + limb_base * (2 ^ s * limb_val xs)"
    by (simp add: Let_def distrib_left)
  then show ?case unfolding split64 [symmetric] sum by (simp add: algebra_simps)
qed

lemma bi_shift_left_val [simp]: "bi_val (bi_shift_left_bits x n) = bi_val x * 2 ^ n"
proof -
  have p: "(2::nat) ^ n = limb_base ^ (n div 32) * 2 ^ (n mod 32)"
    by (metis div_mult_mod_eq limb_base_def mult.commute power_add power_mult)
  show ?thesis
    using shift_limbs_value [of "n mod 32" 0 "limbs x"]
    by (auto simp: bi_shift_left_bits_def limb_val_append p bi_val_def [of x])
qed

lemma limb_base_power: "(2::nat) ^ (n * 32) = limb_base ^ n"
  by (simp add: limb_base_def mult.commute [of n] power_mult)

section \<open>Reduction\<close>

text \<open>
  One step of the loop of mod: the modulus shifted under the remainder's top bit, one place lower
  when that is too large, is subtracted.
\<close>

definition bi_mod_step :: "bigint \<Rightarrow> bigint \<Rightarrow> bigint" where
  "bi_mod_step modulus remainder =
     (let shift = bi_bit_length remainder - bi_bit_length modulus;
          shifted = bi_shift_left_bits modulus shift;
          shifted = if bi_compare shifted remainder > 0 then bi_shift_left_bits modulus (shift - 1) else shifted
      in bi_subtract remainder shifted)"

lemma bi_mod_step_val:
  assumes "0 < bi_val m" "bi_val m \<le> bi_val r"
  shows "bi_val (bi_mod_step m r) < bi_val r" "bi_val (bi_mod_step m r) mod bi_val m = bi_val r mod bi_val m"
proof -
  define s where "s = bi_bit_length r - bi_bit_length m"
  define k where "k = (if bi_val r < bi_val m * 2 ^ s then s - 1 else s)"
  have m0: "bi_val m \<noteq> 0" and r0: "bi_val r \<noteq> 0" using assms by auto
  note mb = bi_bit_length_bounds [OF m0] and rb = bi_bit_length_bounds [OF r0]
  have "bi_bit_length m \<le> bi_bit_length r"
    unfolding bi_val_lt_bits using assms(2) rb(3) by linarith
  then have s: "bi_bit_length r = bi_bit_length m + s" by (simp add: s_def)
  have le: "bi_val m * 2 ^ k \<le> bi_val r"
  proof (cases "bi_val r < bi_val m * 2 ^ s")
    case True
    then have pos: "0 < s" using assms(2) by (cases s) auto
    have "bi_val m * 2 ^ k \<le> 2 ^ bi_bit_length m * 2 ^ (s - 1)"
      using True mb(3) by (intro mult_le_mono) (simp_all add: k_def)
    also have "\<dots> = 2 ^ (bi_bit_length r - 1)"
      using pos by (simp add: s flip: power_add)
    also have "\<dots> \<le> bi_val r" by (rule rb(2))
    finally show ?thesis .
  qed (simp add: k_def)
  have step: "bi_mod_step m r = bi_subtract r (bi_shift_left_bits m k)"
    by (simp add: bi_mod_step_def Let_def k_def s_def)
  have v: "bi_val (bi_mod_step m r) = bi_val r - bi_val m * 2 ^ k"
    unfolding step using le by (simp add: bi_subtract_val)
  then show "bi_val (bi_mod_step m r) < bi_val r" using assms by simp
  have "bi_val r = bi_val (bi_mod_step m r) + bi_val m * 2 ^ k" using v le by simp
  then show "bi_val (bi_mod_step m r) mod bi_val m = bi_val r mod bi_val m" by (metis mod_mult_self2)
qed

text \<open>mod: the modulus zero leaves the value alone, and the loop runs while there is something to subtract.\<close>

function bi_mod :: "bigint \<Rightarrow> bigint \<Rightarrow> bigint" where
  "bi_mod remainder modulus =
     (if bi_is_zero modulus \<or> bi_compare remainder modulus < 0 then remainder
      else bi_mod (bi_mod_step modulus remainder) modulus)"
  by auto
termination
  by (relation "measure (\<lambda>(r, m). bi_val r)") (auto intro: bi_mod_step_val)

declare bi_mod.simps [simp del]

lemma bi_mod_val: "bi_val m \<noteq> 0 \<Longrightarrow> bi_val (bi_mod r m) = bi_val r mod bi_val m"
proof (induction r m rule: bi_mod.induct)
  case (1 r m)
  then show ?case using bi_mod_step_val(2) [of m r] by (subst bi_mod.simps) (auto simp: not_less)
qed

lemma bi_mod_less: "bi_val m \<noteq> 0 \<Longrightarrow> bi_val (bi_mod r m) < bi_val m"
  by (simp add: bi_mod_val)

lemma length_le_of_less: "bi_val x < bi_val m \<Longrightarrow> length (limbs x) \<le> length (limbs m)"
  using bi_val_bound [of m] by (intro length_le_of_bound) simp

section \<open>Modular arithmetic\<close>

definition bi_mod_add :: "bigint \<Rightarrow> bigint \<Rightarrow> bigint \<Rightarrow> bigint result" where
  "bi_mod_add lhs rhs modulus =
     (if bi_is_zero modulus then Inl (bigint_error ''modulus must be non-zero'')
      else Inr (bi_mod (bi_add (bi_mod lhs modulus) (bi_mod rhs modulus)) modulus))"

definition bi_mod_subtract :: "bigint \<Rightarrow> bigint \<Rightarrow> bigint \<Rightarrow> bigint result" where
  "bi_mod_subtract lhs rhs modulus =
     (if bi_is_zero modulus then Inl (bigint_error ''modulus must be non-zero'')
      else
        let left = bi_mod lhs modulus; right = bi_mod rhs modulus in
        if bi_compare left right \<ge> 0 then Inr (bi_subtract left right)
        else Inr (bi_subtract (bi_add left modulus) right))"

definition bi_mod_multiply :: "bigint \<Rightarrow> bigint \<Rightarrow> bigint \<Rightarrow> bigint result" where
  "bi_mod_multiply lhs rhs modulus =
     (if bi_is_zero modulus then Inl (bigint_error ''modulus must be non-zero'')
      else Inr (bi_mod (bi_multiply (bi_mod lhs modulus) (bi_mod rhs modulus)) modulus))"

text \<open>The square-and-multiply loop of mod_exp: the result and the running power after \<open>n\<close> bits.\<close>

fun mod_exp_loop :: "bigint \<Rightarrow> bigint \<Rightarrow> nat \<Rightarrow> bigint \<times> bigint \<Rightarrow> bigint \<times> bigint" where
  "mod_exp_loop exponent modulus 0 st = st"
| "mod_exp_loop exponent modulus (Suc i) st =
     (let (result, power) = mod_exp_loop exponent modulus i st
      in (if bi_bit exponent i then bi_mod (bi_multiply result power) modulus else result,
          bi_mod (bi_multiply power power) modulus))"

definition bi_mod_exp :: "bigint \<Rightarrow> bigint \<Rightarrow> bigint \<Rightarrow> bigint result" where
  "bi_mod_exp base exponent modulus =
     (if bi_is_zero modulus then Inl (bigint_error ''modulus must be non-zero'')
      else Inr (fst (mod_exp_loop exponent modulus (bi_bit_length exponent)
             (bi_mod bi_one modulus, bi_mod base modulus))))"

definition bi_constant_time_select :: "u8 \<Rightarrow> bigint \<Rightarrow> bigint \<Rightarrow> nat \<Rightarrow> bigint" where
  "bi_constant_time_select m if_set if_clear width =
     (let word_mask = 0 - ucast (drop_bit 7 m AND 1) :: u32
      in big_int (select_limbs word_mask (fixed_limbs width (limbs if_set)) (fixed_limbs width (limbs if_clear))))"

text \<open>
  The loop that mod_exp_secret and mod_exp_secret_montgomery share, over the bits below \<open>i\<close> of the
  exponent from the top; they differ in the multiplication.
\<close>

fun secret_ladder :: "(bigint \<Rightarrow> bigint \<Rightarrow> bigint) \<Rightarrow> nat \<Rightarrow> bigint \<Rightarrow> nat \<Rightarrow> bigint \<Rightarrow> bigint \<Rightarrow> bigint" where
  "secret_ladder mul width exponent 0 r0 r1 = r0"
| "secret_ladder mul width exponent (Suc i) r0 r1 =
     (let product = mul r0 r1;
          r0_squared = mul r0 r0;
          r1_squared = mul r1 r1;
          m = (0 - of_bool (bi_bit exponent i)) :: u8
      in secret_ladder mul width exponent i
           (bi_constant_time_select m product r0_squared width)
           (bi_constant_time_select m r1_squared product width))"

definition mod_mul :: "bigint \<Rightarrow> bigint \<Rightarrow> bigint \<Rightarrow> bigint" where
  "mod_mul modulus lhs rhs = bi_mod (bi_multiply lhs rhs) modulus"

definition bi_montgomery_multiply :: "bigint \<Rightarrow> bigint \<Rightarrow> bigint \<Rightarrow> bigint" where
  "bi_montgomery_multiply modulus lhs rhs =
     (let width = length (limbs modulus);
          n0_inverse = low_inverse (hd (limbs modulus));
          left = fixed_limbs width (limbs (bi_mod lhs modulus));
          right = fixed_limbs width (limbs (bi_mod rhs modulus));
          accumulator = multiply_rows left right (replicate (2 * width + 2) 0);
          accumulator = reduce_rows n0_inverse (limbs modulus) accumulator;
          result = big_int (take (width + 1) (drop width accumulator))
      in if bi_compare result modulus \<ge> 0 then bi_subtract result modulus else result)"

definition bi_mod_exp_secret_montgomery :: "bigint \<Rightarrow> bigint \<Rightarrow> bigint \<Rightarrow> nat \<Rightarrow> bigint result" where
  "bi_mod_exp_secret_montgomery base exponent modulus exponent_bits =
     (if bi_is_zero modulus then Inl (bigint_error ''modulus must be non-zero'')
      else if bi_bit_length exponent > exponent_bits
      then Inl (bigint_error ''exponent bit width is too small'')
      else if hd (limbs modulus) AND 1 = 0
      then Inl (bigint_error ''Montgomery exponentiation requires an odd modulus'')
      else
        let width = length (limbs modulus);
            one_reduced = bi_mod bi_one modulus;
            base_reduced = bi_mod base modulus;
            r = bi_mod (bi_shift_left_bits bi_one (width * 32)) modulus;
            r_squared = bi_mod (bi_multiply r r) modulus;
            r0 = bi_montgomery_multiply modulus one_reduced r_squared;
            r1 = bi_montgomery_multiply modulus base_reduced r_squared;
            r0 = secret_ladder (bi_montgomery_multiply modulus) width exponent exponent_bits r0 r1
        in Inr (bi_montgomery_multiply modulus r0 one_reduced))"

definition bi_mod_exp_secret :: "bigint \<Rightarrow> bigint \<Rightarrow> bigint \<Rightarrow> nat \<Rightarrow> bigint result" where
  "bi_mod_exp_secret base exponent modulus exponent_bits =
     (if bi_is_zero modulus then Inl (bigint_error ''modulus must be non-zero'')
      else if bi_bit_length exponent > exponent_bits
      then Inl (bigint_error ''exponent bit width is too small'')
      else if limbs modulus \<noteq> [] \<and> hd (limbs modulus) AND 1 \<noteq> 0
      then bi_mod_exp_secret_montgomery base exponent modulus exponent_bits
      else Inr (secret_ladder (mod_mul modulus) (length (limbs modulus)) exponent exponent_bits
             (bi_mod bi_one modulus) (bi_mod base modulus)))"

section \<open>The modular operations, in numbers\<close>

lemma mod_exp_loop_val:
  assumes "bi_val m \<noteq> 0"
  shows "bi_val (fst (mod_exp_loop e m n (bi_mod bi_one m, bi_mod b m))) = bi_val b ^ (bi_val e mod 2 ^ n) mod bi_val m
    \<and> bi_val (snd (mod_exp_loop e m n (bi_mod bi_one m, bi_mod b m))) = bi_val b ^ 2 ^ n mod bi_val m"
proof (induction n)
  case (Suc n)
  obtain r p where rp: "mod_exp_loop e m n (bi_mod bi_one m, bi_mod b m) = (r, p)" by fastforce
  have sq: "c ^ 2 ^ Suc n = c ^ 2 ^ n * c ^ 2 ^ n" for c :: nat by (simp add: power_add mult_2)
  have "bi_val b ^ (bi_val e mod 2 ^ Suc n) =
      bi_val b ^ (bi_val e mod 2 ^ n) * (if bi_bit e n then bi_val b ^ 2 ^ n else 1)"
    by (simp add: bi_bit_iff mod_power2_Suc [of _ n] power_add del: power_Suc)
  then show ?case
    using Suc unfolding sq by (simp add: rp bi_mod_val [OF assms] mod_mult_eq del: power_Suc)
qed (simp add: bi_mod_val [OF assms])

lemma select_big_int:
  assumes "length (limbs a) \<le> w" "length (limbs b) \<le> w"
  shows "bi_constant_time_select m a b w = (if bit m 7 then a else b)"
proof -
  have mask: "ucast (drop_bit 7 m AND 1) = (of_bool (bit m 7) :: u32)"
    by (simp add: and_one_eq odd_iff_mod_2_eq_one bit_iff_odd_drop_bit)
  show ?thesis
    unfolding bi_val_inject [symmetric] using assms
    by (simp add: bi_constant_time_select_def mask select_limbs_value flip: bi_val_def)
qed

text \<open>
  What the ladder asks of a multiplication: on numbers held in some representation modulo \<open>m\<close> it
  multiplies, and the representation fits the width of the modulus.
\<close>

locale ladder_multiplication =
  fixes valid :: "bigint \<Rightarrow> bool"
    and mul :: "bigint \<Rightarrow> bigint \<Rightarrow> bigint \<Rightarrow> bigint"
    and rep :: "bigint \<Rightarrow> nat \<Rightarrow> bigint \<Rightarrow> bool"
  assumes mul_rep: "valid m \<Longrightarrow> rep m a x \<Longrightarrow> rep m b y \<Longrightarrow> rep m (a * b) (mul m x y)"
    and rep_width: "valid m \<Longrightarrow> rep m a x \<Longrightarrow> length (limbs x) \<le> length (limbs m)"
begin

lemma ladder_rep:
  assumes "valid m" "rep m (g ^ k) r0" "rep m (g ^ (k + 1)) r1"
  shows "rep m (g ^ (k * 2 ^ n + bi_val e mod 2 ^ n)) (secret_ladder (mul m) (length (limbs m)) e n r0 r1)"
  using assms(2,3)
proof (induction n arbitrary: k r0 r1)
  case (Suc n)
  have exps: "g ^ k * g ^ (k + 1) = g ^ (2 * k + 1)" "g ^ k * g ^ k = g ^ (2 * k)"
    "g ^ (k + 1) * g ^ (k + 1) = g ^ (2 * k + 2)"
    by (simp_all add: mult_2 power_add)
  have p: "rep m (g ^ (2 * k + 1)) (mul m r0 r1)"
    using mul_rep [OF assms(1) Suc.prems] unfolding exps .
  have s0: "rep m (g ^ (2 * k)) (mul m r0 r0)"
    using mul_rep [OF assms(1) Suc.prems(1,1)] unfolding exps .
  have s1: "rep m (g ^ (2 * k + 2)) (mul m r1 r1)"
    using mul_rep [OF assms(1) Suc.prems(2,2)] unfolding exps .
  note widths = p [THEN rep_width [OF assms(1)]] s0 [THEN rep_width [OF assms(1)]] s1 [THEN rep_width [OF assms(1)]]
  define b where "b = (if bi_bit e n then 1 else (0::nat))"
  let ?m = "(0 - of_bool (bi_bit e n)) :: u8"
  have m: "bit ?m 7 \<longleftrightarrow> bi_bit e n" by simp
  have "rep m (g ^ (2 * k + b)) (bi_constant_time_select ?m (mul m r0 r1) (mul m r0 r0) (length (limbs m)))"
    "rep m (g ^ (2 * k + b + 1)) (bi_constant_time_select ?m (mul m r1 r1) (mul m r0 r1) (length (limbs m)))"
    unfolding select_big_int [OF widths(1,2)] select_big_int [OF widths(3,1)] m
    using p s0 s1 by (simp_all add: b_def)
  note IH = Suc.IH [OF this]
  have exp: "(2 * k + b) * 2 ^ n + bi_val e mod 2 ^ n = k * 2 ^ Suc n + bi_val e mod 2 ^ Suc n"
    using mod_power2_Suc [of "bi_val e" n] by (simp add: b_def bi_bit_iff algebra_simps)
  show ?case using IH unfolding exp by (simp add: Let_def)
qed simp

end

text \<open>The plain multiplication, on residues, and Montgomery's, on residues times the radix.\<close>

definition residue :: "bigint \<Rightarrow> nat \<Rightarrow> bigint \<Rightarrow> bool" where
  "residue m a x \<longleftrightarrow> bi_val x = a mod bi_val m"

definition montgomery_modulus :: "bigint \<Rightarrow> bool" where
  "montgomery_modulus m \<longleftrightarrow> bi_val m \<noteq> 0 \<and> odd (bi_val m)"

definition radix_residue :: "bigint \<Rightarrow> nat \<Rightarrow> bigint \<Rightarrow> bool" where
  "radix_residue m a x \<longleftrightarrow> bi_val x = a * limb_base ^ length (limbs m) mod bi_val m"

lemma odd_u32: "odd (w::u32) \<longleftrightarrow> odd (unat w)"
  using bit_unsigned_iff [of w 0, where 'a = nat] by (simp add: bit_0)

lemma hd_limbs_odd: "limbs m \<noteq> [] \<Longrightarrow> odd (hd (limbs m)) \<longleftrightarrow> odd (bi_val m)"
  by (cases "limbs m") (auto simp: bi_val_def limb_base_def odd_u32)

lemma bi_montgomery_multiply_val:
  assumes "montgomery_modulus m"
  shows "bi_val (bi_montgomery_multiply m x y) < bi_val m"
    and "bi_val (bi_montgomery_multiply m x y) * limb_base ^ length (limbs m) mod bi_val m = bi_val x * bi_val y mod bi_val m"
proof -
  let ?w = "length (limbs m)" and ?N = "bi_val m"
  have N: "?N \<noteq> 0" "odd ?N" using assms by (auto simp: montgomery_modulus_def)
  have ne: "limbs m \<noteq> []" using N(1) by (auto simp: bi_val_def)
  have hd: "hd (limbs m) = limbs m ! 0" using ne by (simp add: hd_conv_nth)
  define left where "left = fixed_limbs ?w (limbs (bi_mod x m))"
  define right where "right = fixed_limbs ?w (limbs (bi_mod y m))"
  note len = length_le_of_less [OF bi_mod_less [OF N(1)]]
  have lr: "limb_val left = bi_val x mod ?N" "limb_val right = bi_val y mod ?N" "length left = ?w" "length right = ?w"
    using len [of x] len [of y] by (simp_all add: left_def right_def bi_mod_val [OF N(1)] flip: bi_val_def)
  let ?z = "replicate (2 * ?w + 2) (0::u32)"
  define out where "out = reduce_rows (low_inverse (limbs m ! 0)) (limbs m) (multiply_rows left right ?z)"
  define v where "v = limb_val (drop ?w out)"
  have b: "limb_val left < limb_val (limbs m)" "limb_val right < limb_val (limbs m)"
    using N(1) by (simp_all add: lr flip: bi_val_def)
  have odd: "odd (limbs m ! 0)" using hd_limbs_odd [OF ne] N(2) by (simp add: hd)
  have rows: "v * limb_base ^ ?w mod ?N = bi_val x * bi_val y mod ?N" "v < 2 * ?N" "length out = 2 * ?w + 2"
    using montgomery_rows [OF lr(3,4) ne odd b, of ?z]
    by (simp_all add: lr(1,2) mod_mult_eq v_def out_def flip: bi_val_def)
  define r where "r = big_int (take (?w + 1) (drop ?w out))"
  have r: "bi_val r = v"
  proof -
    have "2 * ?N \<le> limb_base * limb_base ^ ?w" using bi_val_bound [of m] by (intro mult_le_mono) (simp_all add: limb_base_def)
    then have "v < limb_base ^ (?w + 1)" using rows(2) by simp
    then have "v mod limb_base ^ (?w + 1) = v" by simp
    then show ?thesis unfolding r_def v_def by (simp add: limb_val_mod del: power_Suc power_add)
  qed
  have eq: "bi_montgomery_multiply m x y = (if bi_compare r m \<ge> 0 then bi_subtract r m else r)"
    by (simp only: bi_montgomery_multiply_def Let_def hd left_def [symmetric] right_def [symmetric] out_def [symmetric]
        r_def [symmetric])
  have val: "bi_val (bi_montgomery_multiply m x y) = (if ?N \<le> v then v - ?N else v)"
    by (simp add: eq r bi_subtract_val)
  show "bi_val (bi_montgomery_multiply m x y) < bi_val m" using val rows(2) by auto
  have "bi_val (bi_montgomery_multiply m x y) mod ?N = v mod ?N"
    unfolding val by (simp add: le_mod_geq)
  then show "bi_val (bi_montgomery_multiply m x y) * limb_base ^ ?w mod ?N = bi_val x * bi_val y mod ?N"
    using rows(1) by (metis mod_mult_left_eq)
qed

interpretation plain_ladder: ladder_multiplication "\<lambda>m. bi_val m \<noteq> 0" mod_mul residue
proof
  fix m x y :: bigint and a b :: nat
  assume m: "bi_val m \<noteq> 0" and x: "residue m a x"
  show "length (limbs x) \<le> length (limbs m)"
    using m x by (intro length_le_of_less) (simp add: residue_def)
  assume "residue m b y"
  then show "residue m (a * b) (mod_mul m x y)"
    using m x by (simp add: residue_def mod_mul_def bi_mod_val mod_mult_eq)
qed

interpretation montgomery_ladder: ladder_multiplication montgomery_modulus bi_montgomery_multiply radix_residue
proof
  fix m x y :: bigint and a b :: nat
  assume m: "montgomery_modulus m" and x: "radix_residue m a x"
  have N: "bi_val m \<noteq> 0" "odd (bi_val m)" using m by (auto simp: montgomery_modulus_def)
  show "length (limbs x) \<le> length (limbs m)"
    using N(1) x by (intro length_le_of_less) (simp add: radix_residue_def)
  assume y: "radix_residue m b y"
  let ?R = "limb_base ^ length (limbs m)" and ?N = "bi_val m" and ?z = "bi_val (bi_montgomery_multiply m x y)"
  have "?z * ?R mod ?N = (a * ?R mod ?N) * (b * ?R mod ?N) mod ?N"
    using bi_montgomery_multiply_val(2) [OF m, of x y] x y by (simp add: radix_residue_def)
  also have "\<dots> = (a * b * ?R) * ?R mod ?N" unfolding mod_mult_eq by (simp add: ac_simps)
  finally have "?z mod ?N = a * b * ?R mod ?N"
    by (rule mod_mult_cancel [rotated]) (simp only: limb_base_power [symmetric] coprime_odd_power2 [OF N(2)])
  then show "radix_residue m (a * b) (bi_montgomery_multiply m x y)"
    using bi_montgomery_multiply_val(1) [OF m, of x y] by (simp add: radix_residue_def)
qed

lemma bi_mod_exp_secret_montgomery_val:
  assumes "montgomery_modulus m" "bi_bit_length e \<le> bits"
  shows "\<exists>z. bi_mod_exp_secret_montgomery b e m bits = Inr z \<and> bi_val z = bi_val b ^ bi_val e mod bi_val m"
proof -
  let ?R = "limb_base ^ length (limbs m)" and ?N = "bi_val m"
  let ?mul = "bi_montgomery_multiply m" and ?one = "bi_mod bi_one m" and ?base = "bi_mod b m"
  have N: "?N \<noteq> 0" "odd ?N" using assms(1) by (auto simp: montgomery_modulus_def)
  have ne: "limbs m \<noteq> []" using N(1) by (auto simp: bi_val_def)
  have cop: "coprime ?R ?N" by (simp only: limb_base_power [symmetric] coprime_odd_power2 [OF N(2)])
  define r where "r = bi_mod (bi_shift_left_bits bi_one (length (limbs m) * 32)) m"
  define r2 where "r2 = bi_mod (bi_multiply r r) m"
  have r: "bi_val r = ?R mod ?N" by (simp add: r_def bi_mod_val [OF N(1)] limb_base_power)
  have r2: "bi_val r2 = ?R * ?R mod ?N" by (simp add: r2_def bi_mod_val [OF N(1)] r mod_mult_eq)
  have enter: "radix_residue m c (?mul x r2)" if "bi_val x = c mod ?N" for x c
  proof -
    have "bi_val (?mul x r2) * ?R mod ?N = (c * ?R) * ?R mod ?N"
      unfolding bi_montgomery_multiply_val(2) [OF assms(1)] that r2 mod_mult_eq by (simp add: ac_simps)
    from mod_mult_cancel [OF cop this] show ?thesis
      using bi_montgomery_multiply_val(1) [OF assms(1), of x r2] by (simp add: radix_residue_def)
  qed
  have "radix_residue m (bi_val b ^ 0) (?mul ?one r2)" "radix_residue m (bi_val b ^ (0 + 1)) (?mul ?base r2)"
    by (rule enter, simp add: bi_mod_val [OF N(1)])+
  note ladder = montgomery_ladder.ladder_rep [OF assms(1) this, of bits e]
  define z where "z = secret_ladder ?mul (length (limbs m)) e bits (?mul ?one r2) (?mul ?base r2)"
  have "bi_val z = bi_val b ^ bi_val e * ?R mod ?N"
    using ladder assms(2) by (simp add: z_def radix_residue_def bi_val_lt_bits)
  then have "bi_val (?mul z ?one) * ?R mod ?N = bi_val b ^ bi_val e * ?R mod ?N"
    unfolding bi_montgomery_multiply_val(2) [OF assms(1)] by (simp add: bi_mod_val [OF N(1)] mod_mult_eq)
  from mod_mult_cancel [OF cop this]
  have "bi_val (?mul z ?one) = bi_val b ^ bi_val e mod ?N"
    using bi_montgomery_multiply_val(1) [OF assms(1), of z ?one] by simp
  moreover have "bi_mod_exp_secret_montgomery b e m bits = Inr (?mul z ?one)"
    using assms(2) N hd_limbs_odd [OF ne]
    by (simp add: bi_mod_exp_secret_montgomery_def Let_def z_def r2_def r_def and_one_eq odd_iff_mod_2_eq_one)
  ultimately show ?thesis by blast
qed

section \<open>Byte strings\<close>

lemma bi_from_be_bytes_val: "\<exists>x. bi_from_be_bytes bs = Inr x \<and> bi_val x = be_val bs"
proof -
  let ?d = "dropWhile (\<lambda>b. b = 0) bs"
  have "limb_val (limbs_from_le_bytes ((length ?d + 3) div 4) (rev ?d)) = be_val bs"
    by (subst limbs_from_le_bytes_value) (auto simp: le_val_rev)
  moreover have "?d = [] \<Longrightarrow> be_val bs = 0" by (metis be_val_dropWhile_0 be_val_Nil)
  ultimately show ?thesis by (simp add: bi_from_be_bytes_def Let_def)
qed

lemma bi_to_be_bytes_val: "be_val (bi_to_be_bytes x) = bi_val x"
  by (simp add: bi_to_be_bytes_def limbs_to_be_bytes_value be_val_Cons flip: bi_val_def)

lemma bi_to_be_bytes_hd: "if bi_val x = 0 then bi_to_be_bytes x = [0] else hd (bi_to_be_bytes x) \<noteq> 0"
proof (cases "bi_val x = 0")
  case False
  then have d: "bi_to_be_bytes x = dropWhile (\<lambda>b. b = 0) (limbs_to_be_bytes (limbs x))"
    by (simp add: bi_to_be_bytes_def)
  then have "bi_to_be_bytes x \<noteq> []" using False bi_to_be_bytes_val [of x] by (metis be_val_Nil)
  then show ?thesis 
    using False hd_dropWhile [of "\<lambda>b. b = 0" "limbs_to_be_bytes (limbs x)"] unfolding d by auto
qed (simp add: bi_to_be_bytes_def)

section \<open>The modular operations for other components\<close>

lemma bi_mod_add_val:
  "bi_val m \<noteq> 0 \<Longrightarrow> \<exists>z. bi_mod_add x y m = Inr z \<and> bi_val z = (bi_val x + bi_val y) mod bi_val m"
  by (simp add: bi_mod_add_def bi_mod_val mod_add_eq)

lemma bi_mod_multiply_val:
  "bi_val m \<noteq> 0 \<Longrightarrow> \<exists>z. bi_mod_multiply x y m = Inr z \<and> bi_val z = bi_val x * bi_val y mod bi_val m"
  by (simp add: bi_mod_multiply_def bi_mod_val mod_mult_eq)

lemma bi_mod_subtract_val:
  assumes "bi_val m \<noteq> 0"
  shows "\<exists>z. bi_mod_subtract x y m = Inr z \<and> int (bi_val z) = (int (bi_val x) - int (bi_val y)) mod int (bi_val m)"
proof -
  note v = bi_mod_val [OF assms]
  let ?x = "bi_val x mod bi_val m" and ?y = "bi_val y mod bi_val m"
  show ?thesis
  proof (cases "?y \<le> ?x")
    case True
    have "bi_val (bi_subtract (bi_mod x m) (bi_mod y m)) = ?x - ?y" using True by (simp add: bi_subtract_val v)
    moreover have "int (?x - ?y) = (int (bi_val x) - int (bi_val y)) mod int (bi_val m)"
      using residue_difference_le [OF True] assms by simp
    ultimately show ?thesis using True assms by (simp add: bi_mod_subtract_def Let_def v)
  next
    case less: False
    have "?y < bi_val m" using assms by simp
    then have le: "?y \<le> ?x + bi_val m" by linarith
    have "bi_val (bi_subtract (bi_add (bi_mod x m) m) (bi_mod y m)) = ?x + bi_val m - ?y"
      using le by (simp add: bi_subtract_val v)
    moreover have "int (?x + bi_val m - ?y) = (int (bi_val x) - int (bi_val y)) mod int (bi_val m)"
      using residue_difference_less [of "bi_val x" "bi_val m" "bi_val y"] less assms by simp
    ultimately show ?thesis using less assms by (simp add: bi_mod_subtract_def Let_def v)
  qed
qed

lemma bi_mod_exp_val:
  "bi_val m \<noteq> 0 \<Longrightarrow> \<exists>z. bi_mod_exp b e m = Inr z \<and> bi_val z = bi_val b ^ bi_val e mod bi_val m"
  using mod_exp_loop_val [of m e "bi_bit_length e" b] bi_val_lt_bits [of e "bi_bit_length e"]
  by (auto simp: bi_mod_exp_def)

lemma bi_mod_exp_secret_val:
  assumes N: "bi_val m \<noteq> 0" and lt: "bi_val e < 2 ^ bits"
  shows "\<exists>z. bi_mod_exp_secret b e m bits = Inr z \<and> bi_val z = bi_val b ^ bi_val e mod bi_val m"
proof -
  have e: "bi_bit_length e \<le> bits" using lt by (simp add: bi_val_lt_bits)
  have ne: "limbs m \<noteq> []" using N by (auto simp: bi_val_def)
  have hd: "hd (limbs m) AND 1 \<noteq> 0 \<longleftrightarrow> odd (bi_val m)"
    using hd_limbs_odd [OF ne] by (simp add: and_one_eq odd_iff_mod_2_eq_one)
  show ?thesis
  proof (cases "odd (bi_val m)")
    case True
    then show ?thesis
      using bi_mod_exp_secret_montgomery_val [of m e bits b] N e hd ne
      by (simp add: bi_mod_exp_secret_def montgomery_modulus_def)
  next
    case even: False
    have "residue m (bi_val b ^ 0) (bi_mod bi_one m)" "residue m (bi_val b ^ (0 + 1)) (bi_mod b m)"
      by (simp_all add: residue_def bi_mod_val [OF N])
    from plain_ladder.ladder_rep [OF N this, of bits e]
    show ?thesis using even hd N e lt by (simp add: bi_mod_exp_secret_def residue_def)
  qed
qed

section \<open>Properties\<close>

text \<open>
  The modular operations compute in the residues. mod_add, mod_subtract and mod_multiply fail
  exactly for the modulus zero, and otherwise return the sum, the difference (of residues, with no
  borrow left over) and the product modulo the modulus.
\<close>

lemma bigint_modular_arithmetic:
  "if bi_val m = 0
   then bi_mod_add x y m = Inl (bigint_error ''modulus must be non-zero'') \<and>
     bi_mod_subtract x y m = Inl (bigint_error ''modulus must be non-zero'') \<and>
     bi_mod_multiply x y m = Inl (bigint_error ''modulus must be non-zero'')
   else (\<exists>z. bi_mod_add x y m = Inr z \<and> bi_val z = (bi_val x + bi_val y) mod bi_val m) \<and>
     (\<exists>z. bi_mod_subtract x y m = Inr z \<and> int (bi_val z) = (int (bi_val x) - int (bi_val y)) mod int (bi_val m)) \<and>
     (\<exists>z. bi_mod_multiply x y m = Inr z \<and> bi_val z = bi_val x * bi_val y mod bi_val m)"
  using bi_mod_add_val [of m x y] bi_mod_subtract_val [of m x y] bi_mod_multiply_val [of m x y]
  by (simp add: bi_mod_add_def bi_mod_subtract_def bi_mod_multiply_def)

text \<open>
  Mod_exp computes the modular power by squaring, for every base, exponent and modulus but
  zero, where it fails.
\<close>

lemma bigint_mod_exp_correct:
  "if bi_val m = 0 then bi_mod_exp b e m = Inl (bigint_error ''modulus must be non-zero'')
   else \<exists>z. bi_mod_exp b e m = Inr z \<and> bi_val z = bi_val b ^ bi_val e mod bi_val m"
  using bi_mod_exp_val [of m b e] by (simp add: bi_mod_exp_def)

text \<open>
  C29: mod_exp_secret, which runs a ladder over a fixed number of bits and takes Montgomery's
  multiplication when the modulus is odd, computes the same power on both ways; it fails exactly
  for the modulus zero and for an exponent that is wider than the number of bits.
\<close>

theorem bigint_mod_exp_secret_correct:
  "if bi_val m = 0 then bi_mod_exp_secret b e m bits = Inl (bigint_error ''modulus must be non-zero'')
   else if \<not> bi_val e < 2 ^ bits
   then bi_mod_exp_secret b e m bits = Inl (bigint_error ''exponent bit width is too small'')
   else \<exists>z. bi_mod_exp_secret b e m bits = Inr z \<and> bi_val z = bi_val b ^ bi_val e mod bi_val m"
  using bi_mod_exp_secret_val [of m e bits b] bi_val_lt_bits [of e bits]
  by (auto simp: bi_mod_exp_secret_def)

text \<open>
  The byte strings of integers. Every byte string is the big-endian form of an integer;
  to_be_bytes writes its number without leading zeros (zero as one zero byte), and reading that
  back gives the integer.
\<close>

lemma bigint_bytes:
  "(\<exists>x. bi_from_be_bytes bs = Inr x \<and> bi_val x = be_val bs) \<and>
   bi_from_be_bytes (bi_to_be_bytes x) = Inr x \<and> be_val (bi_to_be_bytes x) = bi_val x \<and>
   (if bi_val x = 0 then bi_to_be_bytes x = [0] else hd (bi_to_be_bytes x) \<noteq> 0)"
proof (intro conjI bi_from_be_bytes_val bi_to_be_bytes_val bi_to_be_bytes_hd)
  obtain y where "bi_from_be_bytes (bi_to_be_bytes x) = Inr y" "bi_val y = be_val (bi_to_be_bytes x)"
    using bi_from_be_bytes_val by blast
  then show "bi_from_be_bytes (bi_to_be_bytes x) = Inr x" by (simp add: bi_to_be_bytes_val bi_val_inject)
qed

end
