(* ===== verification/Der.thy ===== *)
theory Der
  imports Crypto_Prelude
begin

text \<open>
  The DER reader and writer that src/rsa_der.cpp and src/ec_der.cpp share. A reader holds the bytes
  and an offset; reading returns a result and the reader after it. The two readers differ in their
  error category and in the loop over the length octets, which are parameters here. The reader
  accepts exactly what the writer writes: every value has one encoding.
\<close>

section \<open>DerReader\<close>

record der_reader =
  rd_data :: bytes
  rd_offset :: nat

type_synonym 'a der_action = "der_reader \<Rightarrow> 'a result \<times> der_reader"

definition der_reader_new :: "bytes \<Rightarrow> der_reader" where
  "der_reader_new data = \<lparr>rd_data = data, rd_offset = 0\<rparr>"

definition der_empty :: "der_reader \<Rightarrow> bool" where
  "der_empty r \<longleftrightarrow> rd_offset r = length (rd_data r)"

text \<open>Sequencing with an early return on failure.\<close>

definition rd_bind :: "'a der_action \<Rightarrow> ('a \<Rightarrow> 'b der_action) \<Rightarrow> 'b der_action" where
  "rd_bind m f r = (case m r of (Inl e, r') \<Rightarrow> (Inl e, r') | (Inr x, r') \<Rightarrow> f x r')"

definition rd_return :: "'a result \<Rightarrow> 'a der_action" where
  "rd_return x r = (x, r)"

text \<open>The byte at the offset, and one step on.\<close>

definition rd_next :: "der_reader \<Rightarrow> u8 \<times> der_reader" where
  "rd_next r = (rd_data r ! rd_offset r, r\<lparr>rd_offset := rd_offset r + 1\<rparr>)"

definition der_read_length ::
  "(string \<Rightarrow> crypto_error) \<Rightarrow> (nat \<Rightarrow> u64 \<Rightarrow> u64 der_action) \<Rightarrow> u64 der_action" where
  "der_read_length der_error length_loop r =
     (if length (rd_data r) \<le> rd_offset r then (Inl (der_error ''missing DER length''), r)
      else
        let (first, r) = rd_next r in
        if first AND 0x80 = 0 then (Inr (ucast first), r)
        else
          let length_octets = unat (first AND 0x7F) in
          if length_octets = 0 \<or> 8 < length_octets \<or> length (rd_data r) - rd_offset r < length_octets
          then (Inl (der_error ''invalid DER long length''), r)
          else if rd_data r ! rd_offset r = 0
          then (Inl (der_error ''DER length is not minimally encoded''), r)
          else rd_bind (length_loop length_octets 0)
                 (\<lambda>len. rd_return (if len < 128 then Inl (der_error ''DER length uses overlong encoding'') else Inr len)) r)"

definition der_read ::
  "(string \<Rightarrow> crypto_error) \<Rightarrow> (nat \<Rightarrow> u64 \<Rightarrow> u64 der_action) \<Rightarrow> u8 \<Rightarrow> bytes der_action" where
  "der_read der_error length_loop expected_tag r =
     (if length (rd_data r) \<le> rd_offset r \<or> rd_data r ! rd_offset r \<noteq> expected_tag
      then (Inl (der_error ''unexpected DER tag''), r)
      else
        rd_bind (der_read_length der_error length_loop)
          (\<lambda>len r.
             if length (rd_data r) - rd_offset r < unat len
             then (Inl (der_error ''DER length exceeds input''), r)
             else (Inr (take (unat len) (drop (rd_offset r) (rd_data r))),
                   r\<lparr>rd_offset := rd_offset r + unat len\<rparr>))
          (snd (rd_next r)))"

section \<open>The writer\<close>

text \<open>
  The octets of a length, filled in from the end of an array of eight, which a 64-bit value does
  not overrun.
\<close>

function write_length_loop :: "u64 \<Rightarrow> bytes \<Rightarrow> bytes" where
  "write_length_loop len encoded =
     (if len = 0 then encoded else write_length_loop (drop_bit 8 len) (ucast len # encoded))"
  by auto
termination
  by (relation "measure (\<lambda>(len, encoded). unat len)") (auto simp: unat_drop_bit_div unat_gt_0 intro!: div_less_dividend)

declare write_length_loop.simps [simp del]

definition write_der_length :: "u64 \<Rightarrow> bytes" where
  "write_der_length len =
     (if len < 128 then [ucast len]
      else let encoded = write_length_loop len [] in (0x80 OR of_nat (length encoded)) # encoded)"

definition write_der_tlv :: "u8 \<Rightarrow> bytes \<Rightarrow> bytes" where
  "write_der_tlv tag content = tag # write_der_length (of_nat (length content)) @ content"

section \<open>Integers\<close>

text \<open>
  The magnitude of the content of an INTEGER, which has to be non-negative and minimal: the checks
  of read_positive_integer in src/rsa_der.cpp and of read_integer in src/ec_der.cpp.
\<close>

definition der_integer_magnitude :: "(string \<Rightarrow> crypto_error) \<Rightarrow> bytes \<Rightarrow> bytes result" where
  "der_integer_magnitude der_error content =
     (if content = [] then Inl (der_error ''DER integer is empty'')
      else if content ! 0 AND 0x80 \<noteq> 0 then Inl (der_error ''DER integer is negative'')
      else if 1 < length content \<and> content ! 0 = 0
      then if content ! 1 AND 0x80 = 0 then Inl (der_error ''DER integer is not minimally encoded'')
           else Inr (drop 1 content)
      else Inr content)"

definition encoded_integer_content :: "bytes \<Rightarrow> bytes" where
  "encoded_integer_content v =
     (let v = dropWhile (\<lambda>b. b = 0) v in
      if v = [] then [0] else (if hd v AND 0x80 \<noteq> 0 then [0] else []) @ v)"

section \<open>What the writer writes\<close>

lemma write_length_loop_value:
  "be_val (write_length_loop len acc) = unat len * 256 ^ length acc + be_val acc"
proof (induction len acc rule: write_length_loop.induct)
  case (1 len acc)
  show ?case
  proof (cases "len = 0")
    case False
    have "u * P = u div 256 * (256 * P) + u mod 256 * P" for u P :: nat
      unfolding mult.assoc [symmetric] add_mult_distrib [symmetric] by simp
    from this [of "unat len" "256 ^ length acc"]
    have split: "unat len div 256 * (256 * 256 ^ length acc) + unat len mod 256 * 256 ^ length acc
        = unat len * 256 ^ length acc" by (rule sym)
    have "be_val (write_length_loop len acc)
        = unat len div 256 * (256 * 256 ^ length acc) + (unat len mod 256 * 256 ^ length acc + be_val acc)"
      using 1 [OF False] False
      by (subst write_length_loop.simps) (simp add: be_val_Cons unat_drop_bit_div unat_ucast_mod)
    then show ?thesis unfolding add.assoc [symmetric] split .
  qed (simp add: write_length_loop.simps)
qed

lemma write_length_loop_hd:
  "len \<noteq> 0 \<Longrightarrow> write_length_loop len acc \<noteq> [] \<and> hd (write_length_loop len acc) \<noteq> 0"
proof (induction len acc rule: write_length_loop.induct)
  case (1 len acc)
  show ?case
  proof (cases "drop_bit 8 len = 0")
    case True
    then have "unat len div 256 = 0" using unat_drop_bit_div [of 8 len] by simp
    then have "unat (ucast len :: u8) = unat len" by (simp add: unat_ucast_mod div_eq_0_iff)
    then have "(ucast len :: u8) \<noteq> 0" using 1(2) by (metis unat_eq_zero)
    then show ?thesis using 1(2) True by (simp add: write_length_loop.simps [of len] write_length_loop.simps [of 0])
  next
    case False
    then show ?thesis using 1 by (subst (1 2) write_length_loop.simps) simp
  qed
qed

lemma write_length_bytes:
  assumes "len \<noteq> 0"
  shows "be_val (write_length_loop len []) = unat len" "write_length_loop len [] \<noteq> []"
    "hd (write_length_loop len []) \<noteq> 0" "length (write_length_loop len []) \<le> 8" "0 < length (write_length_loop len [])"
proof -
  let ?e = "write_length_loop len []"
  show v: "be_val ?e = unat len" by (simp add: write_length_loop_value)
  show ne: "?e \<noteq> []" "hd ?e \<noteq> 0" using write_length_loop_hd [OF assms] by auto
  then show "0 < length ?e" by simp
  have "(256::nat) ^ (length ?e - 1) < 256 ^ 8"
    using be_val_lower [OF ne] unsigned_less [of len, where 'a = nat] unfolding v by simp
  then have "length ?e - 1 < 8" by (rule power_less_imp_less_exp [rotated]) simp
  then show "length ?e \<le> 8" by linarith
qed

section \<open>Length octets\<close>

lemma and_0x80: "b AND 0x80 = 0 \<longleftrightarrow> \<not> bit (b::u8) 7"
  using and_exp_eq_0_iff_not_bit [of b 7] by simp

lemma high_bit_u8: "b AND 0x80 = 0 \<longleftrightarrow> unat (b::u8) < 128"
proof -
  have "bit b 7 \<longleftrightarrow> odd (unat b div 2 ^ 7)" using bit_unsigned_iff [of b 7, where 'a = nat] by (simp add: bit_iff_odd)
  moreover have "unat b div 128 < 2" using unat_u8_less [of b] by linarith
  ultimately show ?thesis unfolding and_0x80 by (auto simp: less_2_cases_iff div_eq_0_iff)
qed

lemma long_form_u8: "b AND 0x80 \<noteq> 0 \<Longrightarrow> b = 0x80 OR of_nat (unat (b AND 0x7F))" for b :: u8
proof -
  assume "b AND 0x80 \<noteq> 0"
  then have "bit b 7" by (simp add: and_0x80)
  then have "b = 0x80 OR (b AND 0x7F)"
    by (intro u8_eqI) (auto simp: bit_simps)
  then show ?thesis by simp
qed

lemma long_form_octets:
  assumes "n \<le> 8"
  shows "(0x80 OR of_nat n :: u8) AND 0x80 \<noteq> 0" "unat ((0x80 OR of_nat n :: u8) AND 0x7F) = n"
proof -
  have "n = 0 \<or> n = 1 \<or> n = 2 \<or> n = 3 \<or> n = 4 \<or> n = 5 \<or> n = 6 \<or> n = 7 \<or> n = 8" using assms by linarith
  then show "(0x80 OR of_nat n :: u8) AND 0x80 \<noteq> 0" "unat ((0x80 OR of_nat n :: u8) AND 0x7F) = n"
    by (elim disjE; simp)+
qed

lemma short_form_u8:
  assumes "len < (128::u64)"
  shows "unat (ucast len :: u8) = unat len" "ucast (ucast len :: u8) = len" "(ucast len :: u8) AND 0x80 = 0"
proof -
  have lt: "unat len < 128" using assms by (simp add: word_less_nat_alt)
  then show u: "unat (ucast len :: u8) = unat len" by (simp add: unat_ucast_mod)
  then show "ucast (ucast len :: u8) = len"
    by (simp add: word_unat_eq_iff unat_ucast_up)
  show "(ucast len :: u8) AND 0x80 = 0" using lt by (simp add: high_bit_u8 u)
qed

section \<open>What is left to read\<close>

definition der_rest :: "der_reader \<Rightarrow> bytes" where
  "der_rest r = drop (rd_offset r) (rd_data r)"

definition der_advance :: "nat \<Rightarrow> der_reader \<Rightarrow> der_reader" where
  "der_advance n r = r\<lparr>rd_offset := rd_offset r + n\<rparr>"

definition der_ok :: "der_reader \<Rightarrow> bool" where
  "der_ok r \<longleftrightarrow> rd_offset r \<le> length (rd_data r)"

lemma der_rest_advance [simp]: "der_rest (der_advance n r) = drop n (der_rest r)"
  by (simp add: der_rest_def der_advance_def add.commute)

lemma der_advance_advance: "der_advance m (der_advance n r) = der_advance (n + m) r"
  by (simp add: der_advance_def)

lemma der_ok_advance: "der_ok r \<Longrightarrow> n \<le> length (der_rest r) \<Longrightarrow> der_ok (der_advance n r)"
  by (auto simp: der_ok_def der_advance_def der_rest_def)

lemma der_step:
  assumes "der_ok r" "der_rest r = xs @ ys"
  shows "der_ok (der_advance (length xs) r)" "der_rest (der_advance (length xs) r) = ys"
  using assms by (auto intro: der_ok_advance)

lemma der_step_1:
  assumes "der_ok r" "der_rest r = x # ys"
  shows "der_ok (der_advance 1 r)" "der_rest (der_advance 1 r) = ys"
  using der_step [OF assms(1), of "[x]" ys] assms(2) by simp_all

lemma der_new [simp]:
  "der_ok (der_reader_new data)" "der_rest (der_reader_new data) = data" "rd_data (der_reader_new data) = data"
  by (simp_all add: der_ok_def der_reader_new_def der_rest_def)

lemma der_empty_iff: "der_ok r \<Longrightarrow> der_empty r \<longleftrightarrow> der_rest r = []"
  by (auto simp: der_empty_def der_ok_def der_rest_def)

lemma rd_next_eq: "der_rest r \<noteq> [] \<Longrightarrow> rd_next r = (hd (der_rest r), der_advance 1 r)"
  by (simp add: rd_next_def der_rest_def der_advance_def hd_drop_conv_nth)

lemma der_reader_tests:
  assumes "der_ok r"
  shows "length (rd_data r) \<le> rd_offset r \<longleftrightarrow> der_rest r = []"
    "length (rd_data r) - rd_offset r = length (der_rest r)"
    "der_rest r \<noteq> [] \<Longrightarrow> rd_data r ! rd_offset r = hd (der_rest r)"
  using assms by (auto simp: der_ok_def der_rest_def hd_drop_conv_nth)

lemma rd_bind_simps [simp]:
  "m r = (Inr x, r') \<Longrightarrow> rd_bind m f r = f x r'"
  "m r = (Inl e, r') \<Longrightarrow> rd_bind m f r = (Inl e, r')"
  by (simp_all add: rd_bind_def)

lemma rd_bind_eq_Inr:
  "rd_bind m f r = (Inr y, r') \<longleftrightarrow> (\<exists>x r1. m r = (Inr x, r1) \<and> f x r1 = (Inr y, r'))"
  by (auto simp: rd_bind_def split: prod.split sum.split)

text \<open>What a loop over the length octets has to do: accumulate them, most significant first.\<close>

locale der_format =
  fixes der_error :: "string \<Rightarrow> crypto_error"
    and length_loop :: "nat \<Rightarrow> u64 \<Rightarrow> u64 der_action"
  assumes length_loop_value: "n \<le> 8 \<Longrightarrow> n \<le> length (der_rest r) \<Longrightarrow>
    length_loop n 0 r = (Inr (of_nat (be_val (take n (der_rest r)))), der_advance n r)"
begin

lemma read_length_writes:
  assumes "der_ok r" "der_rest r = write_der_length len @ ts"
  shows "der_read_length der_error length_loop r = (Inr len, der_advance (length (write_der_length len)) r)"
proof (cases "len < 128")
  case True
  then have w: "write_der_length len = [ucast len]" by (simp add: write_der_length_def)
  then show ?thesis
    using assms short_form_u8 [OF True] by (simp add: der_read_length_def der_reader_tests rd_next_eq)
next
  case False
  let ?e = "write_length_loop len []" and ?n = "length (write_length_loop len [])"
  have "len \<noteq> 0" using False by auto
  note e = write_length_bytes [OF this]
  have rest: "der_rest r = (0x80 OR of_nat ?n) # ?e @ ts"
    using assms(2) False by (simp add: write_der_length_def Let_def)
  define r1 where "r1 = der_advance 1 r"
  have next1: "rd_next r = (0x80 OR of_nat ?n, r1)" using rest by (simp add: rd_next_eq r1_def)
  have r1: "der_ok r1" "der_rest r1 = ?e @ ts" using der_step_1 [OF assms(1) rest] by (simp_all add: r1_def)
  then have loop: "length_loop ?n 0 r1 = (Inr len, der_advance ?n r1)"
    using length_loop_value [of ?n r1] e by simp
  have hd: "hd (?e @ ts) \<noteq> 0" "?e @ ts \<noteq> []" using e by simp_all
  have "der_read_length der_error length_loop r = (Inr len, der_advance ?n r1)"
    using False e hd long_form_octets [OF e(4)] rest r1(2) loop der_reader_tests [OF r1(1)] der_reader_tests(1) [OF assms(1)]
    by (simp add: der_read_length_def next1 rd_return_def)
  then show ?thesis
    using False by (simp add: write_der_length_def Let_def r1_def der_advance_advance)
qed

lemma read_length_inverts:
  assumes "der_ok r" "der_read_length der_error length_loop r = (Inr len, r')"
  shows "\<exists>ts. der_rest r = write_der_length len @ ts"
proof -
  obtain b bs where rest: "der_rest r = b # bs"
    using assms by (cases "der_rest r") (auto simp: der_read_length_def der_reader_tests)
  show ?thesis
  proof (cases "b AND 0x80 = 0")
    case True
    then have len: "len = ucast b" using assms rest by (simp add: der_read_length_def der_reader_tests rd_next_eq)
    have "unat b < 128" using True by (simp add: high_bit_u8)
    then have lt: "len < 128" by (simp add: len word_less_nat_alt unat_ucast_up)
    have "ucast len = b"
      unfolding word_unat_eq_iff short_form_u8(1) [OF lt] unfolding len by (simp add: unat_ucast_up)
    then have "write_der_length len = [b]" using lt by (simp add: write_der_length_def)
    then show ?thesis using rest by simp
  next
    case False
    define n where "n = unat (b AND 0x7F)"
    define r1 where "r1 = der_advance 1 r"
    have next1: "rd_next r = (b, r1)" using rest by (simp add: rd_next_eq r1_def)
    have r1: "der_ok r1" "der_rest r1 = bs" using der_step_1 [OF assms(1) rest] by (simp_all add: r1_def)
    note read = assms(2) [unfolded der_read_length_def next1 der_reader_tests(1) [OF assms(1)]
        der_reader_tests(2) [OF r1(1)] Let_def prod.case n_def [symmetric]]
    have n: "n \<noteq> 0" "n \<le> 8" "n \<le> length bs" and nz: "rd_data r1 ! rd_offset r1 \<noteq> 0"
      using read rest False der_reader_tests(2) [OF r1(1)] r1(2) by (auto split: if_splits)
    have ne: "der_rest r1 \<noteq> []" using n r1(2) by auto
    have nz: "hd bs \<noteq> 0" using nz der_reader_tests(3) [OF r1(1) ne] r1(2) by simp
    have loop: "length_loop n 0 r1 = (Inr (of_nat (be_val (take n bs))), der_advance n r1)"
      using length_loop_value [of n r1] n r1 by simp
    have len: "len = of_nat (be_val (take n bs))" and ge: "\<not> len < 128"
      using read rest r1(2) False n nz der_reader_tests(3) [OF r1(1) ne] der_reader_tests(2) [OF r1(1)]
      by (auto simp: rd_bind_simps(1) [where m = "length_loop n 0", OF loop] rd_return_def split: if_splits)
    have "be_val (take n bs) < 256 ^ 8"
      using be_val_bound [of "take n bs"] power_increasing [of n 8 "256::nat"] n by (simp add: less_le_trans)
    then have val: "unat len = be_val (take n bs)" unfolding len by (simp add: unat_of_nat)
    have "len \<noteq> 0" using ge by auto
    note e = write_length_bytes [OF this]
    have "hd (take n bs) \<noteq> 0" using nz n by (cases bs) auto
    then have "write_length_loop len [] = take n bs"
      by (intro minimal_unique) (use e val in auto)
    moreover have "b = 0x80 OR of_nat n" unfolding n_def by (rule long_form_u8 [OF False])
    ultimately have "write_der_length len = b # take n bs"
      using ge n by (simp add: write_der_length_def min_absorb2)
    then have "der_rest r = write_der_length len @ drop n bs" using rest by simp
    then show ?thesis ..
  qed
qed

text \<open>The reader accepts what the writer writes, and nothing else.\<close>

lemma read_tlv:
  assumes "der_ok r" "der_rest r = write_der_tlv tag c @ ts" "length c < 2 ^ 64"
  shows "der_read der_error length_loop tag r = (Inr c, der_advance (length (write_der_tlv tag c)) r)"
proof -
  let ?len = "of_nat (length c) :: u64"
  define r1 where "r1 = der_advance 1 r"
  define r2 where "r2 = der_advance (length (write_der_length ?len)) r1"
  have rest: "der_rest r = tag # write_der_length ?len @ c @ ts" using assms(2) by (simp add: write_der_tlv_def)
  have r1: "der_ok r1" "der_rest r1 = write_der_length ?len @ c @ ts"
    using der_step_1 [OF assms(1) rest] by (simp_all add: r1_def)
  have r2: "der_ok r2" "der_rest r2 = c @ ts" using der_step [OF r1] by (simp_all add: r2_def)
  have u: "unat ?len = length c" using assms(3) by (simp add: unat_of_nat)
  have next1: "snd (rd_next r) = r1" using rest by (simp add: rd_next_eq r1_def)
  have len: "der_read_length der_error length_loop r1 = (Inr ?len, r2)"
    unfolding r2_def using r1 by (rule read_length_writes)
  have "der_read der_error length_loop tag r = (Inr c, der_advance (length c) r2)"
    using rest der_reader_tests [OF assms(1)] der_reader_tests(2) [OF r2(1)] r2(2)
    by (simp add: der_read_def next1 rd_bind_simps(1) [where m = "der_read_length der_error length_loop", OF len] u der_advance_def flip: der_rest_def)
  then show ?thesis by (simp add: r1_def r2_def write_der_tlv_def der_advance_advance)
qed

lemma read_tlv_inverts:
  assumes "der_ok r" "der_read der_error length_loop tag r = (Inr c, r')"
  shows "\<exists>ts. der_rest r = write_der_tlv tag c @ ts"
proof -
  define r1 where "r1 = der_advance 1 r"
  obtain b bs where rest: "der_rest r = b # bs"
    using assms by (cases "der_rest r") (auto simp: der_read_def der_reader_tests)
  have r1: "der_ok r1" "der_rest r1 = bs" using der_step_1 [OF assms(1) rest] by (simp_all add: r1_def)
  have next1: "snd (rd_next r) = r1" using rest by (simp add: rd_next_eq r1_def)
  note read = assms(2) [unfolded der_read_def next1 der_reader_tests(1) [OF assms(1)]]
  have b: "b = tag" using read rest der_reader_tests(3) [OF assms(1)] by (auto split: if_splits)
  obtain len r2 where len: "der_read_length der_error length_loop r1 = (Inr len, r2)"
    and c: "\<not> length (rd_data r2) - rd_offset r2 < unat len" "c = take (unat len) (der_rest r2)"
    using read by (auto simp: rd_bind_eq_Inr der_rest_def split: if_splits)
  obtain ts where ts: "bs = write_der_length len @ ts" using read_length_inverts [OF r1(1) len] r1(2) by auto
  have r1': "der_rest r1 = write_der_length len @ ts" using r1(2) ts by simp
  then have r2: "r2 = der_advance (length (write_der_length len)) r1"
    using read_length_writes [OF r1(1)] len by simp
  have ok: "der_ok r2" "der_rest r2 = ts" using der_step [OF r1(1) r1'] by (simp_all add: r2)
  then have "unat len \<le> length ts" using c(1) der_reader_tests(2) [OF ok(1)] by simp
  then have "length c = unat len" "c @ drop (unat len) ts = ts" using c(2) ok by simp_all
  then have "der_rest r = write_der_tlv tag c @ drop (unat len) ts"
    using rest b ts by (simp add: write_der_tlv_def)
  then show ?thesis ..
qed

lemma read_iff:
  assumes "der_ok r" "length (rd_data r) < 2 ^ 64"
  shows "der_read der_error length_loop tag r = (Inr c, r') \<longleftrightarrow>
    (\<exists>ts. der_rest r = write_der_tlv tag c @ ts) \<and> r' = der_advance (length (write_der_tlv tag c)) r"
proof
  assume read: "der_read der_error length_loop tag r = (Inr c, r')"
  obtain ts where ts: "der_rest r = write_der_tlv tag c @ ts" using read_tlv_inverts [OF assms(1) read] ..
  have "length (write_der_tlv tag c @ ts) \<le> length (rd_data r)" unfolding ts [symmetric] by (simp add: der_rest_def)
  then have "length c < 2 ^ 64" using assms(2) by (simp add: write_der_tlv_def)
  with read_tlv [OF assms(1) ts this] read ts
  show "(\<exists>ts. der_rest r = write_der_tlv tag c @ ts) \<and> r' = der_advance (length (write_der_tlv tag c)) r" by auto
next
  assume "(\<exists>ts. der_rest r = write_der_tlv tag c @ ts) \<and> r' = der_advance (length (write_der_tlv tag c)) r"
  then obtain ts where ts: "der_rest r = write_der_tlv tag c @ ts" and r': "r' = der_advance (length (write_der_tlv tag c)) r"
    by auto
  have "length (write_der_tlv tag c @ ts) \<le> length (rd_data r)" unfolding ts [symmetric] by (simp add: der_rest_def)
  then have "length c < 2 ^ 64" using assms(2) by (simp add: write_der_tlv_def)
  from read_tlv [OF assms(1) ts this] r' show "der_read der_error length_loop tag r = (Inr c, r')" by simp
qed

end

text \<open>One more octet of a length.\<close>

lemma shift_in_octet: "push_bit 8 len OR ucast (b::u8) = (len * 256 + of_nat (unat b) :: u64)"
proof -
  have "push_bit 8 len OR ucast b = push_bit 8 len + (ucast b :: u64)"
    by (rule disjunctive_add [symmetric]) (auto simp: bit_simps)
  then show ?thesis by (simp add: push_bit_eq_mult)
qed

lemma be_val_take_Suc: "xs \<noteq> [] \<Longrightarrow> be_val (take (Suc n) xs) = unat (hd xs) * 256 ^ min n (length xs - 1) + be_val (take n (tl xs))"
  by (cases xs) (simp_all add: be_val_Cons min.commute)

section \<open>Parsers and the byte strings they accept\<close>

text \<open>
  An action reads the values of a relation: it succeeds exactly when the bytes to read begin with an
  encoding of its value, and then it moves behind that encoding.
\<close>

definition reads :: "'a der_action \<Rightarrow> ('a \<Rightarrow> bytes \<Rightarrow> bool) \<Rightarrow> bool" where
  "reads act enc \<longleftrightarrow> (\<forall>r x r'. der_ok r \<longrightarrow> length (rd_data r) < 2 ^ 64 \<longrightarrow>
     (act r = (Inr x, r') \<longleftrightarrow> (\<exists>bs ts. enc x bs \<and> der_rest r = bs @ ts \<and> r' = der_advance (length bs) r)))"

lemma readsD:
  assumes "reads act enc" "der_ok r" "length (rd_data r) < 2 ^ 64"
  shows "act r = (Inr x, r') \<longleftrightarrow> (\<exists>bs ts. enc x bs \<and> der_rest r = bs @ ts \<and> r' = der_advance (length bs) r)"
  using assms unfolding reads_def by blast

lemma rd_data_advance [simp]: "rd_data (der_advance n r) = rd_data r"
  by (simp add: der_advance_def)

lemma reads_cong:
  assumes "reads act enc" "\<And>x bs. length bs < 2 ^ 64 \<Longrightarrow> enc x bs \<longleftrightarrow> enc' x bs"
  shows "reads act enc'"
  unfolding reads_def
proof (intro allI impI)
  fix r x r'
  assume r: "der_ok r" "length (rd_data r) < 2 ^ 64"
  have "length bs < 2 ^ 64" if "der_rest r = bs @ ts" for bs ts
  proof -
    have "length (bs @ ts) \<le> length (rd_data r)" unfolding that [symmetric] by (simp add: der_rest_def)
    then show ?thesis using r(2) by simp
  qed
  then show "act r = (Inr x, r') \<longleftrightarrow> (\<exists>bs ts. enc' x bs \<and> der_rest r = bs @ ts \<and> r' = der_advance (length bs) r)"
    unfolding readsD [OF assms(1) r] using assms(2) by blast
qed

text \<open>After one action, another.\<close>

lemma reads_then:
  assumes "reads act enc" "reads act' enc'" "der_ok r" "length (rd_data r) < 2 ^ 64"
  shows "(\<exists>r1. act r = (Inr x, r1) \<and> act' r1 = (Inr y, r')) \<longleftrightarrow>
    (\<exists>bs cs ts. enc x bs \<and> enc' y cs \<and> der_rest r = bs @ cs @ ts \<and> r' = der_advance (length (bs @ cs)) r)"
  (is "?L = ?R")
proof
  assume ?L
  then obtain r1 where r1: "act r = (Inr x, r1)" "act' r1 = (Inr y, r')" by auto
  obtain bs ts where bs: "enc x bs" "der_rest r = bs @ ts" "r1 = der_advance (length bs) r"
    using r1(1) unfolding readsD [OF assms(1,3,4)] by auto
  have ok: "der_ok r1" "der_rest r1 = ts" "length (rd_data r1) < 2 ^ 64"
    using der_step [OF assms(3) bs(2)] assms(4) by (simp_all add: bs(3))
  obtain cs us where "enc' y cs" "der_rest r1 = cs @ us" "r' = der_advance (length cs) r1"
    using r1(2) unfolding readsD [OF assms(2) ok(1,3)] by auto
  then show ?R using bs ok(2) by (auto simp: der_advance_advance)
next
  assume ?R
  then obtain bs cs ts where e: "enc x bs" "enc' y cs" "der_rest r = bs @ cs @ ts" "r' = der_advance (length (bs @ cs)) r"
    by auto
  let ?r1 = "der_advance (length bs) r"
  have ok: "der_ok ?r1" "der_rest ?r1 = cs @ ts" "length (rd_data ?r1) < 2 ^ 64"
    using der_step [OF assms(3) e(3)] assms(4) by simp_all
  have "act r = (Inr x, ?r1)" unfolding readsD [OF assms(1,3,4)] using e by auto
  moreover have "act' ?r1 = (Inr y, r')"
    unfolding readsD [OF assms(2) ok(1,3)] using e ok(2) by (auto simp: der_advance_advance)
  ultimately show ?L by blast
qed

lemma reads_bind:
  assumes "reads act enc" "\<And>x. reads (act' x) (enc' x)"
  shows "reads (rd_bind act act') (\<lambda>y bs. \<exists>x b c. enc x b \<and> enc' x y c \<and> bs = b @ c)"
  unfolding reads_def
proof (intro allI impI)
  fix r y r'
  assume r: "der_ok r" "length (rd_data r) < 2 ^ 64"
  have "rd_bind act act' r = (Inr y, r') \<longleftrightarrow> (\<exists>x. \<exists>r1. act r = (Inr x, r1) \<and> act' x r1 = (Inr y, r'))"
    by (auto simp: rd_bind_eq_Inr)
  also have "\<dots> \<longleftrightarrow> (\<exists>x b c ts. enc x b \<and> enc' x y c \<and> der_rest r = b @ c @ ts \<and> r' = der_advance (length (b @ c)) r)"
    unfolding reads_then [OF assms r] by blast
  finally show "rd_bind act act' r = (Inr y, r') \<longleftrightarrow>
      (\<exists>bs ts. (\<exists>x b c. enc x b \<and> enc' x y c \<and> bs = b @ c) \<and> der_rest r = bs @ ts \<and> r' = der_advance (length bs) r)"
    by (metis append_assoc)
qed

lemma reads_return: "reads (rd_return v) (\<lambda>y bs. v = Inr y \<and> bs = [])"
  by (auto simp: reads_def rd_return_def der_advance_def)

text \<open>A check of the value that was read.\<close>

lemma reads_check:
  assumes "reads act enc"
  shows "reads (rd_bind act (\<lambda>x. rd_return (f x))) (\<lambda>y bs. \<exists>x. enc x bs \<and> f x = Inr y)"
  by (rule reads_cong [OF reads_bind [OF assms reads_return]]) auto

text \<open>A whole byte string: an action, and nothing behind what it read.\<close>

lemma reads_all:
  assumes "reads act enc" "length data < 2 ^ 64"
  shows "(\<exists>r'. act (der_reader_new data) = (Inr x, r') \<and> der_empty r') \<longleftrightarrow> enc x data"
proof -
  have r: "der_ok (der_reader_new data)" "length (rd_data (der_reader_new data)) < 2 ^ 64"
    using assms(2) by simp_all
  have empty: "der_empty (der_advance (length bs) (der_reader_new data)) \<longleftrightarrow> ts = []" if "data = bs @ ts" for bs ts
    using that by (simp add: der_empty_def der_advance_def der_reader_new_def)
  show ?thesis
  proof
    assume "\<exists>r'. act (der_reader_new data) = (Inr x, r') \<and> der_empty r'"
    then obtain bs ts where "enc x bs" "data = bs @ ts" "der_empty (der_advance (length bs) (der_reader_new data))"
      unfolding readsD [OF assms(1) r] by auto
    then show "enc x data" using empty by simp
  next
    assume "enc x data"
    then have "act (der_reader_new data) = (Inr x, der_advance (length data) (der_reader_new data))"
      unfolding readsD [OF assms(1) r] by auto
    then show "\<exists>r'. act (der_reader_new data) = (Inr x, r') \<and> der_empty r'"
      using empty [of data "[]"] by auto
  qed
qed

definition minimal_uint :: "bytes \<Rightarrow> bool" where
  "minimal_uint m \<longleftrightarrow> m = [0] \<or> m \<noteq> [] \<and> hd m \<noteq> 0"

lemma minimal_content:
  assumes "minimal_uint m"
  shows "encoded_integer_content m = (if hd m AND 0x80 \<noteq> 0 then 0 # m else m)"
proof (cases "m = [0]")
  case False
  then have "m \<noteq> []" "hd m \<noteq> 0" using assms by (auto simp: minimal_uint_def)
  then have "dropWhile (\<lambda>b. b = 0) m = m" by (cases m) auto
  then show ?thesis using \<open>m \<noteq> []\<close> by (simp add: encoded_integer_content_def Let_def)
qed (simp add: encoded_integer_content_def)

lemma integer_magnitude_iff:
  "der_integer_magnitude der_error c = Inr m \<longleftrightarrow> minimal_uint m \<and> c = encoded_integer_content m"
proof
  assume c: "der_integer_magnitude der_error c = Inr m"
  then obtain b bs where cs: "c = b # bs" by (cases c) (auto simp: der_integer_magnitude_def)
  show "minimal_uint m \<and> c = encoded_integer_content m"
  proof (cases bs)
    case Nil
    then have "m = [b]" "b AND 0x80 = 0" using c cs by (auto simp: der_integer_magnitude_def split: if_splits)
    moreover from this have "minimal_uint m" by (simp add: minimal_uint_def)
    ultimately show ?thesis using minimal_content [of m] cs Nil by simp
  next
    case (Cons b' bs')
    show ?thesis
    proof (cases "b = 0")
      case True
      then have "m = bs" "b' AND 0x80 \<noteq> 0" using c cs Cons by (auto simp: der_integer_magnitude_def split: if_splits)
      moreover from this have "minimal_uint m" using Cons by (auto simp: minimal_uint_def)
      ultimately show ?thesis using minimal_content [of m] cs Cons True by simp
    next
      case False
      then have "m = c" "b AND 0x80 = 0" using c cs Cons by (auto simp: der_integer_magnitude_def split: if_splits)
      moreover from this have "minimal_uint m" using cs False by (simp add: minimal_uint_def)
      ultimately show ?thesis using minimal_content [of m] cs by simp
    qed
  qed
next
  assume m: "minimal_uint m \<and> c = encoded_integer_content m"
  then obtain b bs where ms: "m = b # bs" by (cases m) (auto simp: minimal_uint_def)
  have c: "c = (if b AND 0x80 \<noteq> 0 then 0 # m else m)" using m minimal_content [of m] ms by simp
  have "b = 0 \<Longrightarrow> bs = []" using m ms by (auto simp: minimal_uint_def)
  then show "der_integer_magnitude der_error c = Inr m"
    using c ms by (auto simp: der_integer_magnitude_def)
qed

definition der_uint :: "bytes \<Rightarrow> bytes" where
  "der_uint m = write_der_tlv 0x02 (encoded_integer_content m)"

context der_format begin

lemma reads_tlv: "reads (der_read der_error length_loop tag) (\<lambda>c bs. bs = write_der_tlv tag c)"
  unfolding reads_def using read_iff by auto

lemma reads_integer:
  "reads (rd_bind (der_read der_error length_loop 0x02) (\<lambda>c. rd_return (der_integer_magnitude der_error c)))
     (\<lambda>m bs. minimal_uint m \<and> bs = der_uint m)"
  by (rule reads_cong [OF reads_check [OF reads_tlv]]) (auto simp: integer_magnitude_iff der_uint_def)

end

end
