(* ===== verification/Rsa_Der.thy ===== *)
theory Rsa_Der
  imports Der Big_Int
begin

text \<open>
  src/rsa_der.cpp: the parsers of RSA keys. A public key is a PKCS#1 sequence, alone or inside a
  SubjectPublicKeyInfo; a private key is a PKCS#1 sequence, alone or inside a PKCS#8 structure, and
  its numbers have to satisfy the RSA relations. Each parser is shown to accept exactly the DER
  encodings of the keys it returns.
\<close>

section \<open>Reader\<close>

definition rsa_encryption_oid :: bytes where
  "rsa_encryption_oid = [0x2A, 0x86, 0x48, 0x86, 0xF7, 0x0D, 0x01, 0x01, 0x01]"

definition rsa_der_error :: "string \<Rightarrow> crypto_error" where
  "rsa_der_error msg = make_error Invalid_key ''rsa_der'' msg"

fun rsa_length_loop :: "nat \<Rightarrow> u64 \<Rightarrow> u64 der_action" where
  "rsa_length_loop 0 len r = (Inr len, r)"
| "rsa_length_loop (Suc n) len r =
     (let (b, r) = rd_next r in rsa_length_loop n (push_bit 8 len OR ucast b) r)"

definition rsa_read :: "u8 \<Rightarrow> bytes der_action" where
  "rsa_read tag = der_read rsa_der_error rsa_length_loop tag"

section \<open>Integers\<close>

definition read_positive_integer :: "bytes der_action" where
  "read_positive_integer = rd_bind (rsa_read 0x02) (\<lambda>content. rd_return (der_integer_magnitude rsa_der_error content))"

definition is_zero_bytes :: "bytes \<Rightarrow> bool" where
  "is_zero_bytes bs \<longleftrightarrow> list_all (\<lambda>b. b = 0) bs"

definition is_one_bytes :: "bytes \<Rightarrow> bool" where
  "is_one_bytes bs \<longleftrightarrow> length bs = 1 \<and> hd bs = 1"

definition is_odd_bytes :: "bytes \<Rightarrow> bool" where
  "is_odd_bytes bs \<longleftrightarrow> bs \<noteq> [] \<and> last bs AND 1 \<noteq> 0"

definition read_non_zero_integer :: "string \<Rightarrow> bytes der_action" where
  "read_non_zero_integer name =
     rd_bind read_positive_integer
       (\<lambda>v. rd_return (if is_zero_bytes v then Inl (rsa_der_error name) else Inr v))"

definition read_odd_greater_than_one_integer :: "string \<Rightarrow> bytes der_action" where
  "read_odd_greater_than_one_integer name =
     rd_bind (read_non_zero_integer name)
       (\<lambda>v. rd_return (if is_one_bytes v \<or> \<not> is_odd_bytes v then Inl (rsa_der_error name) else Inr v))"

section \<open>The relations of a private key\<close>

definition require_equal :: "bigint \<Rightarrow> bigint \<Rightarrow> string \<Rightarrow> unit result" where
  "require_equal lhs rhs message = (if bi_compare lhs rhs \<noteq> 0 then Inl (rsa_der_error message) else Inr ())"

definition rsa_reduce :: "bigint \<Rightarrow> bigint \<Rightarrow> bigint result" where
  "rsa_reduce v modulus = rbind (bi_from_be_bytes []) (\<lambda>zero. bi_mod_add v zero modulus)"

definition validate_private_key_math ::
  "bytes \<Rightarrow> bytes \<Rightarrow> bytes \<Rightarrow> bytes \<Rightarrow> bytes \<Rightarrow> bytes \<Rightarrow> bytes \<Rightarrow> bytes \<Rightarrow> unit result" where
  "validate_private_key_math modulus public_exponent private_exponent prime1 prime2 exponent1 exponent2 coefficient =
     (let n = bi_from_be_bytes modulus; e = bi_from_be_bytes public_exponent;
          d = bi_from_be_bytes private_exponent; p = bi_from_be_bytes prime1;
          q = bi_from_be_bytes prime2; dp = bi_from_be_bytes exponent1;
          dq = bi_from_be_bytes exponent2; qi = bi_from_be_bytes coefficient;
          one = bi_from_be_bytes [1] in
      if \<not> (has_value n \<and> has_value e \<and> has_value d \<and> has_value p \<and> has_value q \<and> has_value dp \<and>
           has_value dq \<and> has_value qi \<and> has_value one)
      then Inl (rsa_der_error ''invalid RSA private key integer'')
      else
        let n = projr n; e = projr e; d = projr d; p = projr p; q = projr q;
            dp = projr dp; dq = projr dq; qi = projr qi; one = projr one in
        rbind (require_equal (bi_multiply p q) n ''RSA modulus must equal p*q'') (\<lambda>_.
        let p_minus_one = bi_mod_subtract p one p; q_minus_one = bi_mod_subtract q one q in
        if \<not> (has_value p_minus_one \<and> has_value q_minus_one) then Inl (rsa_der_error ''invalid RSA CRT modulus'')
        else
          let p1 = projr p_minus_one; q1 = projr q_minus_one;
              d_mod_p = rsa_reduce d p1; d_mod_q = rsa_reduce d q1 in
          if \<not> (has_value d_mod_p \<and> has_value d_mod_q) then Inl (rsa_der_error ''invalid RSA CRT exponent'')
          else
            rbind (require_equal (projr d_mod_p) dp ''RSA exponent1 must equal d mod (p-1)'') (\<lambda>_.
            rbind (require_equal (projr d_mod_q) dq ''RSA exponent2 must equal d mod (q-1)'') (\<lambda>_.
            let edp = bi_mod_multiply e dp p1; edq = bi_mod_multiply e dq q1; qiq = bi_mod_multiply q qi p in
            if \<not> (has_value edp \<and> has_value edq \<and> has_value qiq)
            then Inl (rsa_der_error ''invalid RSA CRT relation'')
            else
              rbind (require_equal (projr edp) one ''RSA exponent1 is not inverse of public exponent mod (p-1)'') (\<lambda>_.
              rbind (require_equal (projr edq) one ''RSA exponent2 is not inverse of public exponent mod (q-1)'') (\<lambda>_.
              require_equal (projr qiq) one ''RSA coefficient must equal q^-1 mod p'')))))) "

section \<open>Key structures\<close>

record rsa_public_key_material =
  rk_modulus :: bytes
  rk_public_exponent :: bytes

record rsa_private_key_material =
  rp_modulus :: bytes
  rp_public_exponent :: bytes
  rp_private_exponent :: bytes
  rp_prime1 :: bytes
  rp_prime2 :: bytes
  rp_exponent1 :: bytes
  rp_exponent2 :: bytes
  rp_coefficient :: bytes

definition read_version_zero :: "unit der_action" where
  "read_version_zero =
     rd_bind (rsa_read 0x02) (\<lambda>content.
       rd_return (if length content \<noteq> 1 \<or> content ! 0 \<noteq> 0
                  then Inl (rsa_der_error ''unsupported RSA key version'') else Inr ()))"

definition rsa_algorithm_check :: "bytes \<Rightarrow> unit result" where
  "rsa_algorithm_check sequence =
     (let (oid, algorithm) = rsa_read 0x06 (der_reader_new sequence) in
      rbind oid (\<lambda>oid.
        if oid \<noteq> rsa_encryption_oid
        then Inl (rsa_der_error ''algorithm identifier is not rsaEncryption'')
        else let (null_value, algorithm) = rsa_read 0x05 algorithm in
          rbind null_value (\<lambda>null_value.
            if null_value \<noteq> [] \<or> \<not> der_empty algorithm
            then Inl (rsa_der_error ''invalid rsaEncryption parameters'') else Inr ())))"

definition read_rsa_algorithm_identifier :: "unit der_action" where
  "read_rsa_algorithm_identifier = rd_bind (rsa_read 0x30) (\<lambda>sequence. rd_return (rsa_algorithm_check sequence))"

text \<open>
  The outer sequence of every structure, with nothing behind it: the first steps that the four
  parsers have in common, up to the message.
\<close>

definition read_whole_sequence :: "string \<Rightarrow> bytes \<Rightarrow> bytes result" where
  "read_whole_sequence trailing der =
     (let (sequence, reader) = rsa_read 0x30 (der_reader_new der) in
      rbind sequence (\<lambda>content.
        if \<not> der_empty reader then Inl (rsa_der_error trailing) else Inr content))"

definition parse_pkcs1_public_key :: "bytes \<Rightarrow> rsa_public_key_material result" where
  "parse_pkcs1_public_key der =
     rbind (read_whole_sequence ''trailing data after RSA public key'' der) (\<lambda>content.
       let key = der_reader_new content;
           (modulus, key) = read_odd_greater_than_one_integer ''RSA modulus must be odd and greater than one'' key;
           (public_exponent, key) =
             read_odd_greater_than_one_integer ''RSA public exponent must be odd and greater than one'' key in
       rbind modulus (\<lambda>modulus. rbind public_exponent (\<lambda>public_exponent.
         if \<not> der_empty key then Inl (rsa_der_error ''trailing data in RSA public key'')
         else Inr \<lparr>rk_modulus = modulus, rk_public_exponent = public_exponent\<rparr>)))"

definition parse_spki_public_key :: "bytes \<Rightarrow> rsa_public_key_material result" where
  "parse_spki_public_key der =
     rbind (read_whole_sequence ''trailing data after SubjectPublicKeyInfo'' der) (\<lambda>content.
       let spki = der_reader_new content;
           (algorithm, spki) = read_rsa_algorithm_identifier spki in
       rbind algorithm (\<lambda>_.
         let (bit_string, spki) = rsa_read 0x03 spki in
         rbind bit_string (\<lambda>bits.
           if bits = [] \<or> bits ! 0 \<noteq> 0 then Inl (rsa_der_error ''invalid RSA public key bit string'')
           else if \<not> der_empty spki then Inl (rsa_der_error ''trailing data in SubjectPublicKeyInfo'')
           else parse_pkcs1_public_key (drop 1 bits))))"

text \<open>The fields of a PKCS#1 private key: the content of its sequence.\<close>

definition parse_rsa_private_fields :: "bytes \<Rightarrow> rsa_private_key_material result" where
  "parse_rsa_private_fields content =
     (let key = der_reader_new content;
         (version, key) = read_version_zero key in
     rbind version (\<lambda>_.
       let (modulus, key) = read_odd_greater_than_one_integer ''RSA modulus must be odd and greater than one'' key;
           (public_exponent, key) =
             read_odd_greater_than_one_integer ''RSA public exponent must be odd and greater than one'' key;
           (private_exponent, key) = read_non_zero_integer ''RSA private exponent must be non-zero'' key;
           (prime1, key) = read_odd_greater_than_one_integer ''RSA prime1 must be odd and greater than one'' key;
           (prime2, key) = read_odd_greater_than_one_integer ''RSA prime2 must be odd and greater than one'' key;
           (exponent1, key) = read_non_zero_integer ''RSA exponent1 must be non-zero'' key;
           (exponent2, key) = read_non_zero_integer ''RSA exponent2 must be non-zero'' key;
           (coefficient, key) = read_non_zero_integer ''RSA coefficient must be non-zero'' key in
       rbind modulus (\<lambda>n. rbind public_exponent (\<lambda>e. rbind private_exponent (\<lambda>d.
       rbind prime1 (\<lambda>p. rbind prime2 (\<lambda>q. rbind exponent1 (\<lambda>dp. rbind exponent2 (\<lambda>dq.
       rbind coefficient (\<lambda>qi.
         if \<not> der_empty key then Inl (rsa_der_error ''trailing data in RSA private key'')
         else
           rbind (validate_private_key_math n e d p q dp dq qi) (\<lambda>_.
             Inr \<lparr>rp_modulus = n, rp_public_exponent = e, rp_private_exponent = d, rp_prime1 = p,
                  rp_prime2 = q, rp_exponent1 = dp, rp_exponent2 = dq, rp_coefficient = qi\<rparr>)))))))))))"

definition parse_pkcs1_private_key :: "bytes \<Rightarrow> rsa_private_key_material result" where
  "parse_pkcs1_private_key der =
     rbind (read_whole_sequence ''trailing data after RSA private key'' der) parse_rsa_private_fields"

definition parse_pkcs8_private_key :: "bytes \<Rightarrow> rsa_private_key_material result" where
  "parse_pkcs8_private_key der =
     rbind (read_whole_sequence ''trailing data after PrivateKeyInfo'' der) (\<lambda>content.
       let private_key_info = der_reader_new content;
           (version, private_key_info) = read_version_zero private_key_info in
       rbind version (\<lambda>_.
         let (algorithm, private_key_info) = read_rsa_algorithm_identifier private_key_info in
         rbind algorithm (\<lambda>_.
           let (private_key, private_key_info) = rsa_read 0x04 private_key_info in
           rbind private_key (\<lambda>private_key.
             if \<not> der_empty private_key_info then Inl (rsa_der_error ''trailing data in PrivateKeyInfo'')
             else parse_pkcs1_private_key private_key))))"

section \<open>Entry points\<close>

definition parse_rsa_public_key_der :: "bytes \<Rightarrow> rsa_public_key_material result" where
  "parse_rsa_public_key_der der =
     (case parse_pkcs1_public_key der of Inr k \<Rightarrow> Inr k | Inl _ \<Rightarrow> parse_spki_public_key der)"

definition parse_rsa_spki_public_key_der :: "bytes \<Rightarrow> rsa_public_key_material result" where
  "parse_rsa_spki_public_key_der der = parse_spki_public_key der"

definition parse_rsa_pkcs1_public_key_der :: "bytes \<Rightarrow> rsa_public_key_material result" where
  "parse_rsa_pkcs1_public_key_der der = parse_pkcs1_public_key der"

definition parse_rsa_private_key_der :: "bytes \<Rightarrow> rsa_private_key_material result" where
  "parse_rsa_private_key_der der =
     (case parse_pkcs1_private_key der of Inr k \<Rightarrow> Inr k | Inl _ \<Rightarrow> parse_pkcs8_private_key der)"

definition parse_rsa_pkcs8_private_key_der :: "bytes \<Rightarrow> rsa_private_key_material result" where
  "parse_rsa_pkcs8_private_key_der der = parse_pkcs8_private_key der"

definition parse_rsa_pkcs1_private_key_der :: "bytes \<Rightarrow> rsa_private_key_material result" where
  "parse_rsa_pkcs1_private_key_der der = parse_pkcs1_private_key der"

section \<open>The reader, against the encoding\<close>

lemma rsa_length_loop_value:
  "n \<le> length (der_rest r) \<Longrightarrow>
    rsa_length_loop n len r = (Inr (len * 256 ^ n + of_nat (be_val (take n (der_rest r)))), der_advance n r)"
proof (induction n arbitrary: len r)
  case (Suc n)
  then obtain b bs where rest: "der_rest r = b # bs" by (cases "der_rest r") auto
  define r1 where "r1 = der_advance 1 r"
  have r1: "der_rest r1 = bs" using rest by (simp add: r1_def)
  have "rsa_length_loop (Suc n) len r = rsa_length_loop n (len * 256 + of_nat (unat b)) r1"
    using rest by (simp add: rd_next_eq r1_def shift_in_octet del: of_nat_unat)
  also have "\<dots> = (Inr ((len * 256 + of_nat (unat b)) * 256 ^ n + of_nat (be_val (take n bs))), der_advance n r1)"
    using Suc r1 rest by simp
  also have "(len * 256 + of_nat (unat b)) * 256 ^ n + of_nat (be_val (take n bs))
      = len * 256 ^ Suc n + of_nat (be_val (take (Suc n) (der_rest r)))"
    using Suc.prems rest by (simp add: be_val_Cons min_absorb2 algebra_simps)
  also have "der_advance n r1 = der_advance (Suc n) r" by (simp add: r1_def der_advance_advance)
  finally show ?case .
qed (simp add: der_advance_def)

interpretation rsa_format: der_format rsa_der_error rsa_length_loop
  by unfold_locales (simp add: rsa_length_loop_value)

definition rsa_uint :: "bytes \<Rightarrow> bool" where
  "rsa_uint m \<longleftrightarrow> m \<noteq> [] \<and> hd m \<noteq> 0"

definition rsa_odd_uint :: "bytes \<Rightarrow> bool" where
  "rsa_odd_uint m \<longleftrightarrow> rsa_uint m \<and> odd (be_val m) \<and> 1 < be_val m"

lemma reads_rsa_tlv: "reads (rsa_read tag) (\<lambda>c bs. bs = write_der_tlv tag c)"
  unfolding rsa_read_def by (rule rsa_format.reads_tlv)

lemma reads_positive: "reads read_positive_integer (\<lambda>m bs. minimal_uint m \<and> bs = der_uint m)"
  unfolding read_positive_integer_def rsa_read_def by (rule rsa_format.reads_integer)

lemma zero_bytes_iff: "is_zero_bytes bs \<longleftrightarrow> be_val bs = 0"
proof (induction bs)
  case (Cons b bs)
  then show ?case by (simp add: is_zero_bytes_def be_val_Cons unat_eq_0)
qed (simp add: is_zero_bytes_def)

lemma minimal_non_zero: "minimal_uint m \<and> be_val m \<noteq> 0 \<longleftrightarrow> rsa_uint m"
proof (cases m)
  case (Cons b bs)
  then show ?thesis by (auto simp: minimal_uint_def rsa_uint_def be_val_Cons unat_eq_0)
qed (simp add: minimal_uint_def rsa_uint_def)

lemma reads_non_zero: "reads (read_non_zero_integer name) (\<lambda>m bs. rsa_uint m \<and> bs = der_uint m)"
  unfolding read_non_zero_integer_def
  by (rule reads_cong [OF reads_check [OF reads_positive]])
    (auto simp: zero_bytes_iff minimal_non_zero [symmetric] split: if_splits)

lemma odd_bytes_iff: "bs \<noteq> [] \<Longrightarrow> is_odd_bytes bs \<longleftrightarrow> odd (be_val bs)"
proof -
  assume "bs \<noteq> []"
  then obtain cs b where bs: "bs = cs @ [b]" by (cases bs rule: rev_cases) auto
  have "b AND 1 \<noteq> 0 \<longleftrightarrow> odd (unat b)" for b :: u8
    using bit_unsigned_iff [of b 0, where 'a = nat] by (simp add: and_one_eq odd_iff_mod_2_eq_one bit_0)
  then show ?thesis by (simp add: is_odd_bytes_def bs)
qed

lemma one_bytes_iff: "rsa_uint bs \<Longrightarrow> is_one_bytes bs \<longleftrightarrow> be_val bs = 1"
proof -
  assume m: "rsa_uint bs"
  have "be_val bs = 1 \<Longrightarrow> bs = [1]"
    by (rule minimal_unique) (use m in \<open>auto simp: rsa_uint_def be_val_Cons\<close>)
  moreover have "is_one_bytes bs \<longleftrightarrow> bs = [1]" by (cases bs) (auto simp: is_one_bytes_def)
  ultimately show ?thesis by (auto simp: be_val_Cons)
qed

lemma reads_odd: "reads (read_odd_greater_than_one_integer name) (\<lambda>m bs. rsa_odd_uint m \<and> bs = der_uint m)"
  unfolding read_odd_greater_than_one_integer_def
proof (rule reads_cong [OF reads_check [OF reads_non_zero]])
  fix m bs
  have "1 < be_val m \<longleftrightarrow> be_val m \<noteq> 1" if "rsa_uint m" "odd (be_val m)"
    using that by (cases "be_val m") auto
  then show "(\<exists>x. (rsa_uint x \<and> bs = der_uint x) \<and>
      (if is_one_bytes x \<or> \<not> is_odd_bytes x then Inl (rsa_der_error name) else Inr x) = Inr m)
    \<longleftrightarrow> rsa_odd_uint m \<and> bs = der_uint m"
    using one_bytes_iff odd_bytes_iff by (fastforce simp: rsa_odd_uint_def rsa_uint_def split: if_splits)
qed

lemma reads_version: "reads read_version_zero (\<lambda>_ bs. bs = der_uint [0])"
  unfolding read_version_zero_def
proof (rule reads_cong [OF reads_check [OF reads_rsa_tlv]])
  fix x :: unit and bs
  have "length c = 1 \<and> c ! 0 = 0 \<longleftrightarrow> c = [0]" for c :: bytes by (cases c) auto
  then show "(\<exists>c. bs = write_der_tlv 2 c \<and>
      (if length c \<noteq> 1 \<or> c ! 0 \<noteq> 0 then Inl (rsa_der_error ''unsupported RSA key version'') else Inr ()) = Inr x)
    \<longleftrightarrow> bs = der_uint [0]"
    by (auto simp: der_uint_def encoded_integer_content_def)
qed

text \<open>The AlgorithmIdentifier of RSA: one byte string.\<close>

definition rsa_algorithm_content :: bytes where
  "rsa_algorithm_content = write_der_tlv 0x06 rsa_encryption_oid @ write_der_tlv 0x05 []"

text \<open>Two actions that share a reader, and nothing behind them.\<close>

lemma whole_iff:
  assumes "length data < 2 ^ 64" "reads act enc"
  shows "(\<exists>r. act (der_reader_new data) = (Inr x, r) \<and> der_empty r) \<longleftrightarrow> enc x data"
  using reads_all [OF assms(2,1)] .

lemma read_whole_sequence_iff:
  assumes "length der < 2 ^ 64"
  shows "read_whole_sequence msg der = Inr c \<longleftrightarrow> der = write_der_tlv 0x30 c"
proof -
  have "read_whole_sequence msg der = Inr c \<longleftrightarrow> (\<exists>r. rsa_read 0x30 (der_reader_new der) = (Inr c, r) \<and> der_empty r)"
    by (auto simp: read_whole_sequence_def rbind_eq_Inr split: prod.split if_splits)
  then show ?thesis unfolding whole_iff [OF assms reads_rsa_tlv] .
qed

lemma tlv_shorter: "length c < length (write_der_tlv tag c)"
  by (simp add: write_der_tlv_def)

lemma rsa_algorithm_check_iff:
  assumes "length c < 2 ^ 64"
  shows "rsa_algorithm_check c = Inr x \<longleftrightarrow> c = rsa_algorithm_content"
proof -
  let ?pair = "rd_bind (rsa_read 0x06) (\<lambda>oid. rd_bind (rsa_read 0x05) (\<lambda>n. rd_return (Inr (oid, n))))"
  have pair: "reads ?pair (\<lambda>(oid, n) bs. bs = write_der_tlv 0x06 oid @ write_der_tlv 0x05 n)"
    by (rule reads_cong, (rule reads_bind reads_return reads_rsa_tlv)+) auto
  obtain oid r1 where r1: "rsa_read 0x06 (der_reader_new c) = (oid, r1)" by fastforce
  obtain n r2 where r2: "rsa_read 0x05 r1 = (n, r2)" by fastforce
  have "rsa_algorithm_check c = Inr x \<longleftrightarrow> oid = Inr rsa_encryption_oid \<and> n = Inr [] \<and> der_empty r2"
    by (auto simp: rsa_algorithm_check_def r1 r2 rbind_eq_Inr)
  also have "\<dots> \<longleftrightarrow> (\<exists>r'. ?pair (der_reader_new c) = (Inr (rsa_encryption_oid, []), r') \<and> der_empty r')"
    by (auto simp: rd_bind_eq_Inr r1 r2 rd_return_def)
  finally show ?thesis unfolding whole_iff [OF assms pair] by (simp add: rsa_algorithm_content_def)
qed

lemma reads_algorithm: "reads read_rsa_algorithm_identifier (\<lambda>_ bs. bs = write_der_tlv 0x30 rsa_algorithm_content)"
  unfolding read_rsa_algorithm_identifier_def
proof (rule reads_cong [OF reads_check [OF reads_rsa_tlv]])
  fix x :: unit and bs :: bytes
  assume "length bs < 2 ^ 64"
  then have "length c < 2 ^ 64" if "bs = write_der_tlv 0x30 c" for c
    using tlv_shorter [of c "0x30"] that by simp
  then show "(\<exists>c. bs = write_der_tlv 0x30 c \<and> rsa_algorithm_check c = Inr x) \<longleftrightarrow>
      bs = write_der_tlv 0x30 rsa_algorithm_content"
    using rsa_algorithm_check_iff by blast
qed

section \<open>Public keys\<close>

definition der_rsa_public_key :: "rsa_public_key_material \<Rightarrow> bytes" where
  "der_rsa_public_key k = write_der_tlv 0x30 (der_uint (rk_modulus k) @ der_uint (rk_public_exponent k))"

definition der_rsa_spki :: "rsa_public_key_material \<Rightarrow> bytes" where
  "der_rsa_spki k =
     write_der_tlv 0x30 (write_der_tlv 0x30 rsa_algorithm_content @ write_der_tlv 0x03 (0 # der_rsa_public_key k))"

definition rsa_public_ok :: "rsa_public_key_material \<Rightarrow> bool" where
  "rsa_public_ok k \<longleftrightarrow> rsa_odd_uint (rk_modulus k) \<and> rsa_odd_uint (rk_public_exponent k)"

lemma pkcs1_public_iff:
  assumes "length der < 2 ^ 64"
  shows "parse_pkcs1_public_key der = Inr k \<longleftrightarrow> rsa_public_ok k \<and> der = der_rsa_public_key k"
proof -
  let ?n = "read_odd_greater_than_one_integer ''RSA modulus must be odd and greater than one''"
  let ?e = "read_odd_greater_than_one_integer ''RSA public exponent must be odd and greater than one''"
  let ?pair = "rd_bind ?n (\<lambda>n. rd_bind ?e (\<lambda>e. rd_return (Inr (n, e))))"
  have pair: "reads ?pair (\<lambda>(n, e) bs. rsa_odd_uint n \<and> rsa_odd_uint e \<and> bs = der_uint n @ der_uint e)"
    by (rule reads_cong, (rule reads_bind reads_return reads_odd)+) auto
  have step: "(let key = der_reader_new c; (modulus, key) = ?n key; (public_exponent, key) = ?e key in
       rbind modulus (\<lambda>modulus. rbind public_exponent (\<lambda>public_exponent.
         if \<not> der_empty key then Inl (rsa_der_error ''trailing data in RSA public key'')
         else Inr \<lparr>rk_modulus = modulus, rk_public_exponent = public_exponent\<rparr>))) = Inr k
    \<longleftrightarrow> rsa_public_ok k \<and> c = der_uint (rk_modulus k) @ der_uint (rk_public_exponent k)" (is "?C c \<longleftrightarrow> _")
    if "length c < 2 ^ 64" for c
  proof -
    obtain n r1 where r1: "?n (der_reader_new c) = (n, r1)" by fastforce
    obtain e r2 where r2: "?e r1 = (e, r2)" by fastforce
    have "?C c \<longleftrightarrow> n = Inr (rk_modulus k) \<and> e = Inr (rk_public_exponent k) \<and> der_empty r2"
      by (cases k) (auto simp: r1 r2 rbind_eq_Inr)
    also have "\<dots> \<longleftrightarrow> (\<exists>r'. ?pair (der_reader_new c) = (Inr (rk_modulus k, rk_public_exponent k), r') \<and> der_empty r')"
      by (auto simp: rd_bind_eq_Inr r1 r2 rd_return_def)
    finally show ?thesis unfolding whole_iff [OF that pair] by (simp add: rsa_public_ok_def)
  qed
  have "length c < 2 ^ 64" if "der = write_der_tlv 0x30 c" for c
    using that tlv_shorter [of c "0x30"] assms by simp
  then show ?thesis
    unfolding parse_pkcs1_public_key_def rbind_eq_Inr read_whole_sequence_iff [OF assms]
    using step by (auto simp: der_rsa_public_key_def)
qed

lemma spki_public_iff:
  assumes "length der < 2 ^ 64"
  shows "parse_spki_public_key der = Inr k \<longleftrightarrow> rsa_public_ok k \<and> der = der_rsa_spki k"
proof -
  let ?pair = "rd_bind read_rsa_algorithm_identifier (\<lambda>_. rsa_read 0x03)"
  have pair: "reads ?pair (\<lambda>bits bs. bs = write_der_tlv 0x30 rsa_algorithm_content @ write_der_tlv 0x03 bits)"
    by (rule reads_cong, (rule reads_bind reads_algorithm reads_rsa_tlv)+) auto
  have step: "(let spki = der_reader_new c; (algorithm, spki) = read_rsa_algorithm_identifier spki in
       rbind algorithm (\<lambda>_.
         let (bit_string, spki) = rsa_read 0x03 spki in
         rbind bit_string (\<lambda>bits.
           if bits = [] \<or> bits ! 0 \<noteq> 0 then Inl (rsa_der_error ''invalid RSA public key bit string'')
           else if \<not> der_empty spki then Inl (rsa_der_error ''trailing data in SubjectPublicKeyInfo'')
           else parse_pkcs1_public_key (drop 1 bits)))) = Inr k
    \<longleftrightarrow> rsa_public_ok k \<and> c = write_der_tlv 0x30 rsa_algorithm_content @ write_der_tlv 0x03 (0 # der_rsa_public_key k)"
    (is "?C c \<longleftrightarrow> _") if "length c < 2 ^ 64" for c
  proof -
    obtain a r1 where r1: "read_rsa_algorithm_identifier (der_reader_new c) = (a, r1)" by fastforce
    obtain b r2 where r2: "rsa_read 0x03 r1 = (b, r2)" by fastforce
    have "?C c \<longleftrightarrow> a = Inr () \<and> der_empty r2 \<and> (\<exists>x. b = Inr (0 # x) \<and> parse_pkcs1_public_key x = Inr k)"
    proof (cases a)
      case (Inr u)
      show ?thesis
      proof (cases b)
        case b: (Inr bits)
        show ?thesis by (cases bits) (simp_all add: r1 r2 Inr b)
      qed (simp add: r1 r2 Inr)
    qed (simp add: r1 r2)
    also have "\<dots> \<longleftrightarrow> (\<exists>x. (\<exists>r'. ?pair (der_reader_new c) = (Inr (0 # x), r') \<and> der_empty r') \<and> parse_pkcs1_public_key x = Inr k)"
    proof -
      have run: "?pair (der_reader_new c) = (Inr bits, r') \<longleftrightarrow> a = Inr () \<and> b = Inr bits \<and> r' = r2" for bits r'
        by (cases a) (auto simp: rd_bind_def r1 r2)
      show ?thesis unfolding run by blast
    qed
    also have "\<dots> \<longleftrightarrow> (\<exists>x. c = write_der_tlv 0x30 rsa_algorithm_content @ write_der_tlv 0x03 (0 # x) \<and> parse_pkcs1_public_key x = Inr k)"
      unfolding whole_iff [OF that pair] ..
    also have "\<dots> \<longleftrightarrow> rsa_public_ok k \<and> c = write_der_tlv 0x30 rsa_algorithm_content @ write_der_tlv 0x03 (0 # der_rsa_public_key k)"
    proof -
      have "length x < 2 ^ 64" if "c = write_der_tlv 0x30 rsa_algorithm_content @ write_der_tlv 0x03 (0 # x)" for x
        using tlv_shorter [of "0 # x" "0x03"] \<open>length c < 2 ^ 64\<close> that by simp
      then have "(\<exists>x. c = write_der_tlv 0x30 rsa_algorithm_content @ write_der_tlv 0x03 (0 # x) \<and> parse_pkcs1_public_key x = Inr k)
          \<longleftrightarrow> (\<exists>x. c = write_der_tlv 0x30 rsa_algorithm_content @ write_der_tlv 0x03 (0 # x) \<and>
                rsa_public_ok k \<and> x = der_rsa_public_key k)"
        by (intro ex_cong1 conj_cong refl pkcs1_public_iff)
      then show ?thesis by (simp add: conj_commute)
    qed
    finally show ?thesis .
  qed
  have "length c < 2 ^ 64" if "der = write_der_tlv 0x30 c" for c
    using that tlv_shorter [of c "0x30"] assms by simp
  then show ?thesis
    unfolding parse_spki_public_key_def rbind_eq_Inr read_whole_sequence_iff [OF assms]
    using step by (auto simp: der_rsa_spki_def)
qed

section \<open>Private keys\<close>

text \<open>The relations, in numbers.\<close>

definition rsa_relations :: "nat \<Rightarrow> nat \<Rightarrow> nat \<Rightarrow> nat \<Rightarrow> nat \<Rightarrow> nat \<Rightarrow> nat \<Rightarrow> nat \<Rightarrow> bool" where
  "rsa_relations n e d p q dp dq qi \<longleftrightarrow> n = p * q \<and> dp = d mod (p - 1) \<and> dq = d mod (q - 1) \<and>
     e * dp mod (p - 1) = 1 \<and> e * dq mod (q - 1) = 1 \<and> q * qi mod p = 1"

lemma bi_from_be_bytes_Inr: "\<exists>x. bi_from_be_bytes bs = Inr x \<and> bi_val x = be_val bs"
  using bi_from_be_bytes_val .

lemma bi_mod_subtract_one:
  assumes "1 < bi_val p" "bi_val one = 1"
  shows "\<exists>z. bi_mod_subtract p one p = Inr z \<and> bi_val z = bi_val p - 1"
proof -
  have v: "bi_val (bi_mod p p) = 0" "bi_val (bi_mod one p) = 1" using assms by (simp_all add: bi_mod_val)
  then show ?thesis using assms by (simp add: bi_mod_subtract_def Let_def bi_subtract_val)
qed

lemma rsa_reduce_val: "bi_val m \<noteq> 0 \<Longrightarrow> \<exists>z. rsa_reduce x m = Inr z \<and> bi_val z = bi_val x mod bi_val m"
  by (simp add: rsa_reduce_def bi_from_be_bytes_def bi_mod_add_def bi_mod_val)

lemma require_equal_iff: "require_equal x y msg = Inr u \<longleftrightarrow> bi_val x = bi_val y"
  by (simp add: require_equal_def bi_val_inject)

lemma validate_math_iff:
  assumes "1 < be_val p" "1 < be_val q"
  shows "validate_private_key_math n e d p q dp dq qi = Inr u \<longleftrightarrow>
    rsa_relations (be_val n) (be_val e) (be_val d) (be_val p) (be_val q) (be_val dp) (be_val dq) (be_val qi)"
proof -
  obtain N where N: "bi_from_be_bytes n = Inr N" "bi_val N = be_val n" using bi_from_be_bytes_Inr by blast
  obtain E where E: "bi_from_be_bytes e = Inr E" "bi_val E = be_val e" using bi_from_be_bytes_Inr by blast
  obtain D where D: "bi_from_be_bytes d = Inr D" "bi_val D = be_val d" using bi_from_be_bytes_Inr by blast
  obtain P where P: "bi_from_be_bytes p = Inr P" "bi_val P = be_val p" using bi_from_be_bytes_Inr by blast
  obtain Q where Q: "bi_from_be_bytes q = Inr Q" "bi_val Q = be_val q" using bi_from_be_bytes_Inr by blast
  obtain DP where DP: "bi_from_be_bytes dp = Inr DP" "bi_val DP = be_val dp" using bi_from_be_bytes_Inr by blast
  obtain DQ where DQ: "bi_from_be_bytes dq = Inr DQ" "bi_val DQ = be_val dq" using bi_from_be_bytes_Inr by blast
  obtain QI where QI: "bi_from_be_bytes qi = Inr QI" "bi_val QI = be_val qi" using bi_from_be_bytes_Inr by blast
  obtain One where One: "bi_from_be_bytes [1] = Inr One" "bi_val One = 1"
    using bi_from_be_bytes_Inr [of "[1]"] by (auto simp: be_val_Cons)
  obtain P1 where P1: "bi_mod_subtract P One P = Inr P1" "bi_val P1 = be_val p - 1"
    using bi_mod_subtract_one [of P One] assms P One by auto
  obtain Q1 where Q1: "bi_mod_subtract Q One Q = Inr Q1" "bi_val Q1 = be_val q - 1"
    using bi_mod_subtract_one [of Q One] assms Q One by auto
  have nz: "bi_val P1 \<noteq> 0" "bi_val Q1 \<noteq> 0" "bi_val P \<noteq> 0" using assms P1 Q1 P by simp_all
  obtain RP where RP: "rsa_reduce D P1 = Inr RP" "bi_val RP = be_val d mod (be_val p - 1)"
    using rsa_reduce_val [OF nz(1), of D] D P1 by auto
  obtain RQ where RQ: "rsa_reduce D Q1 = Inr RQ" "bi_val RQ = be_val d mod (be_val q - 1)"
    using rsa_reduce_val [OF nz(2), of D] D Q1 by auto
  obtain EP where EP: "bi_mod_multiply E DP P1 = Inr EP" "bi_val EP = be_val e * be_val dp mod (be_val p - 1)"
    using bi_mod_multiply_val [OF nz(1), of E DP] E DP P1 by auto
  obtain EQ where EQ: "bi_mod_multiply E DQ Q1 = Inr EQ" "bi_val EQ = be_val e * be_val dq mod (be_val q - 1)"
    using bi_mod_multiply_val [OF nz(2), of E DQ] E DQ Q1 by auto
  obtain QQ where QQ: "bi_mod_multiply Q QI P = Inr QQ" "bi_val QQ = be_val q * be_val qi mod be_val p"
    using bi_mod_multiply_val [OF nz(3), of Q QI] Q QI P by auto
  have "validate_private_key_math n e d p q dp dq qi = Inr u \<longleftrightarrow>
      bi_val (bi_multiply P Q) = bi_val N \<and> bi_val RP = bi_val DP \<and> bi_val RQ = bi_val DQ \<and>
      bi_val EP = bi_val One \<and> bi_val EQ = bi_val One \<and> bi_val QQ = bi_val One"
    by (simp add: validate_private_key_math_def N(1) E(1) D(1) P(1) Q(1) DP(1) DQ(1) QI(1) One(1) P1(1) Q1(1)
        RP(1) RQ(1) EP(1) EQ(1) QQ(1) rbind_eq_Inr require_equal_iff)
  then show ?thesis
    unfolding rsa_relations_def bi_multiply_val N(2) P(2) Q(2) DP(2) DQ(2) One(2) RP(2) RQ(2) EP(2) EQ(2) QQ(2) by auto
qed

definition rsa_private_ok :: "rsa_private_key_material \<Rightarrow> bool" where
  "rsa_private_ok k \<longleftrightarrow>
     rsa_odd_uint (rp_modulus k) \<and> rsa_odd_uint (rp_public_exponent k) \<and> rsa_uint (rp_private_exponent k) \<and>
     rsa_odd_uint (rp_prime1 k) \<and> rsa_odd_uint (rp_prime2 k) \<and> rsa_uint (rp_exponent1 k) \<and>
     rsa_uint (rp_exponent2 k) \<and> rsa_uint (rp_coefficient k) \<and>
     rsa_relations (be_val (rp_modulus k)) (be_val (rp_public_exponent k)) (be_val (rp_private_exponent k))
       (be_val (rp_prime1 k)) (be_val (rp_prime2 k)) (be_val (rp_exponent1 k)) (be_val (rp_exponent2 k))
       (be_val (rp_coefficient k))"

definition der_rsa_private_content :: "rsa_private_key_material \<Rightarrow> bytes" where
  "der_rsa_private_content k =
     der_uint [0] @ der_uint (rp_modulus k) @ der_uint (rp_public_exponent k) @ der_uint (rp_private_exponent k) @
     der_uint (rp_prime1 k) @ der_uint (rp_prime2 k) @ der_uint (rp_exponent1 k) @ der_uint (rp_exponent2 k) @
     der_uint (rp_coefficient k)"

definition der_rsa_private_key :: "rsa_private_key_material \<Rightarrow> bytes" where
  "der_rsa_private_key k = write_der_tlv 0x30 (der_rsa_private_content k)"

definition der_rsa_pkcs8 :: "rsa_private_key_material \<Rightarrow> bytes" where
  "der_rsa_pkcs8 k =
     write_der_tlv 0x30 (der_uint [0] @ write_der_tlv 0x30 rsa_algorithm_content @ write_der_tlv 0x04 (der_rsa_private_key k))"

lemma pkcs1_private_iff:
  assumes "length der < 2 ^ 64"
  shows "parse_pkcs1_private_key der = Inr k \<longleftrightarrow> rsa_private_ok k \<and> der = der_rsa_private_key k"
proof -
  let ?n = "read_odd_greater_than_one_integer ''RSA modulus must be odd and greater than one''"
  let ?e = "read_odd_greater_than_one_integer ''RSA public exponent must be odd and greater than one''"
  let ?d = "read_non_zero_integer ''RSA private exponent must be non-zero''"
  let ?p = "read_odd_greater_than_one_integer ''RSA prime1 must be odd and greater than one''"
  let ?q = "read_odd_greater_than_one_integer ''RSA prime2 must be odd and greater than one''"
  let ?dp = "read_non_zero_integer ''RSA exponent1 must be non-zero''"
  let ?dq = "read_non_zero_integer ''RSA exponent2 must be non-zero''"
  let ?qi = "read_non_zero_integer ''RSA coefficient must be non-zero''"
  define fields where "fields =
    rd_bind read_version_zero (\<lambda>_. rd_bind ?n (\<lambda>n. rd_bind ?e (\<lambda>e. rd_bind ?d (\<lambda>d. rd_bind ?p (\<lambda>p. rd_bind ?q (\<lambda>q.
    rd_bind ?dp (\<lambda>dp. rd_bind ?dq (\<lambda>dq. rd_bind ?qi (\<lambda>qi. rd_return (Inr
      \<lparr>rp_modulus = n, rp_public_exponent = e, rp_private_exponent = d, rp_prime1 = p,
       rp_prime2 = q, rp_exponent1 = dp, rp_exponent2 = dq, rp_coefficient = qi\<rparr>))))))))))"
  let ?ok = "\<lambda>k. rsa_odd_uint (rp_modulus k) \<and> rsa_odd_uint (rp_public_exponent k) \<and> rsa_uint (rp_private_exponent k) \<and>
     rsa_odd_uint (rp_prime1 k) \<and> rsa_odd_uint (rp_prime2 k) \<and> rsa_uint (rp_exponent1 k) \<and>
     rsa_uint (rp_exponent2 k) \<and> rsa_uint (rp_coefficient k)"
  have fields: "reads fields (\<lambda>k bs. ?ok k \<and> bs = der_rsa_private_content k)"
    unfolding fields_def
  proof (rule reads_cong, (rule reads_bind reads_return reads_odd reads_non_zero reads_version)+, goal_cases)
    case (1 k bs)
    show ?case by (cases k) (simp add: der_rsa_private_content_def; blast)
  qed
  have step: "parse_rsa_private_fields c = Inr k \<longleftrightarrow> rsa_private_ok k \<and> c = der_rsa_private_content k"
    if "length c < 2 ^ 64" for c
  proof -
    obtain v r0 where r0: "read_version_zero (der_reader_new c) = (v, r0)" by fastforce
    obtain n r1 where r1: "?n r0 = (n, r1)" by fastforce
    obtain e r2 where r2: "?e r1 = (e, r2)" by fastforce
    obtain d r3 where r3: "?d r2 = (d, r3)" by fastforce
    obtain p r4 where r4: "?p r3 = (p, r4)" by fastforce
    obtain q r5 where r5: "?q r4 = (q, r5)" by fastforce
    obtain dp r6 where r6: "?dp r5 = (dp, r6)" by fastforce
    obtain dq r7 where r7: "?dq r6 = (dq, r7)" by fastforce
    obtain qi r8 where r8: "?qi r7 = (qi, r8)" by fastforce
    let ?all = "v = Inr () \<and> n = Inr (rp_modulus k) \<and> e = Inr (rp_public_exponent k) \<and> d = Inr (rp_private_exponent k) \<and>
      p = Inr (rp_prime1 k) \<and> q = Inr (rp_prime2 k) \<and> dp = Inr (rp_exponent1 k) \<and> dq = Inr (rp_exponent2 k) \<and>
      qi = Inr (rp_coefficient k)"
    let ?math = "validate_private_key_math (rp_modulus k) (rp_public_exponent k) (rp_private_exponent k) (rp_prime1 k)
      (rp_prime2 k) (rp_exponent1 k) (rp_exponent2 k) (rp_coefficient k) = Inr ()"
    have parsed: "parse_rsa_private_fields c = Inr k \<longleftrightarrow> ?all \<and> der_empty r8 \<and> ?math"
      unfolding parse_rsa_private_fields_def Let_def r0 r1 r2 r3 r4 r5 r6 r7 r8 prod.case
      by (cases k) (auto simp: rbind_eq_Inr)
    have run: "fields (der_reader_new c) = (Inr k, r') \<longleftrightarrow> ?all \<and> r' = r8" for r'
      unfolding fields_def
      by (cases k) (auto simp: rd_bind_eq_Inr r0 r1 r2 r3 r4 r5 r6 r7 r8 rd_return_def)
    have "parse_rsa_private_fields c = Inr k \<longleftrightarrow>
        (\<exists>r'. fields (der_reader_new c) = (Inr k, r') \<and> der_empty r') \<and> ?math"
      unfolding parsed run by blast
    then show ?thesis
      unfolding whole_iff [OF that fields] rsa_private_ok_def
      using validate_math_iff [of "rp_prime1 k" "rp_prime2 k"] by (auto simp: rsa_odd_uint_def)
  qed
  have "length c < 2 ^ 64" if "der = write_der_tlv 0x30 c" for c
    using that tlv_shorter [of c "0x30"] assms by simp
  then show ?thesis
    unfolding parse_pkcs1_private_key_def rbind_eq_Inr read_whole_sequence_iff [OF assms] der_rsa_private_key_def
    using step by blast
qed

lemma pkcs8_private_iff:
  assumes "length der < 2 ^ 64"
  shows "parse_pkcs8_private_key der = Inr k \<longleftrightarrow> rsa_private_ok k \<and> der = der_rsa_pkcs8 k"
proof -
  let ?fields = "rd_bind read_version_zero (\<lambda>_. rd_bind read_rsa_algorithm_identifier (\<lambda>_. rsa_read 0x04))"
  let ?enc = "\<lambda>x. der_uint [0] @ write_der_tlv 0x30 rsa_algorithm_content @ write_der_tlv 0x04 x"
  have fields: "reads ?fields (\<lambda>x bs. bs = ?enc x)"
    by (rule reads_cong, (rule reads_bind reads_version reads_algorithm reads_rsa_tlv)+) auto
  have step: "(let info = der_reader_new c; (version, info) = read_version_zero info in
       rbind version (\<lambda>_.
         let (algorithm, info) = read_rsa_algorithm_identifier info in
         rbind algorithm (\<lambda>_.
           let (private_key, info) = rsa_read 0x04 info in
           rbind private_key (\<lambda>private_key.
             if \<not> der_empty info then Inl (rsa_der_error ''trailing data in PrivateKeyInfo'')
             else parse_pkcs1_private_key private_key)))) = Inr k
    \<longleftrightarrow> rsa_private_ok k \<and> c = ?enc (der_rsa_private_key k)"
    (is "?C c \<longleftrightarrow> _") if "length c < 2 ^ 64" for c
  proof -
    obtain v r0 where r0: "read_version_zero (der_reader_new c) = (v, r0)" by fastforce
    obtain a r1 where r1: "read_rsa_algorithm_identifier r0 = (a, r1)" by fastforce
    obtain b r2 where r2: "rsa_read 0x04 r1 = (b, r2)" by fastforce
    have parsed: "?C c \<longleftrightarrow> v = Inr () \<and> a = Inr () \<and> der_empty r2 \<and> (\<exists>x. b = Inr x \<and> parse_pkcs1_private_key x = Inr k)"
      by (cases v; cases a; cases b) (simp_all add: r0 r1 r2)
    have run: "?fields (der_reader_new c) = (Inr x, r') \<longleftrightarrow> v = Inr () \<and> a = Inr () \<and> b = Inr x \<and> r' = r2" for x r'
      by (cases v; cases a) (auto simp: rd_bind_def r0 r1 r2)
    have "?C c \<longleftrightarrow> (\<exists>x. (\<exists>r'. ?fields (der_reader_new c) = (Inr x, r') \<and> der_empty r') \<and> parse_pkcs1_private_key x = Inr k)"
      unfolding parsed run by blast
    also have "\<dots> \<longleftrightarrow> (\<exists>x. c = ?enc x \<and> parse_pkcs1_private_key x = Inr k)"
      unfolding whole_iff [OF that fields] ..
    also have "\<dots> \<longleftrightarrow> (\<exists>x. c = ?enc x \<and> rsa_private_ok k \<and> x = der_rsa_private_key k)"
    proof (intro ex_cong1 conj_cong refl pkcs1_private_iff)
      show "length x < 2 ^ 64" if "c = ?enc x" for x
        using tlv_shorter [of x "0x04"] \<open>length c < 2 ^ 64\<close> that by simp
    qed
    finally show ?thesis by (simp add: conj_commute)
  qed
  have "length c < 2 ^ 64" if "der = write_der_tlv 0x30 c" for c
    using that tlv_shorter [of c "0x30"] assms by simp
  then show ?thesis
    unfolding parse_pkcs8_private_key_def rbind_eq_Inr read_whole_sequence_iff [OF assms]
    using step by (auto simp: der_rsa_pkcs8_def)
qed

text \<open>A parser that falls back to another one, when their encodings do not overlap.\<close>

lemma either_parser:
  assumes "\<And>k. p1 der = Inr k \<longleftrightarrow> P k \<and> der = A k" "\<And>k. p2 der = Inr k \<longleftrightarrow> P k \<and> der = B k"
    and "\<And>k k'. der = B k \<Longrightarrow> der \<noteq> A k'"
  shows "(case p1 der of Inr k \<Rightarrow> Inr k | Inl _ \<Rightarrow> p2 der) = Inr k \<longleftrightarrow> P k \<and> (der = A k \<or> der = B k)"
proof (cases "p1 der")
  case (Inl e)
  then have "\<not> (P k \<and> der = A k)" using assms(1) [of k] by simp
  then show ?thesis using assms(2) [of k] Inl by auto
next
  case (Inr k')
  then have "der = A k'" using assms(1) [of k'] by simp
  then have "der \<noteq> B k" using assms(3) by blast
  then show ?thesis using assms(1) [of k] Inr by auto
qed

text \<open>The kinds of encoding do not overlap.\<close>

lemma sequence_inject:
  assumes "der = write_der_tlv 0x30 c" "der = write_der_tlv 0x30 d" "length der < 2 ^ 64"
  shows "c = d"
  using read_whole_sequence_iff [OF assms(3), of "[]" c] read_whole_sequence_iff [OF assms(3), of "[]" d] assms(1,2)
  by simp

lemma spki_not_pkcs1: "length (der_rsa_spki k) < 2 ^ 64 \<Longrightarrow> der_rsa_spki k \<noteq> der_rsa_public_key k'"
proof
  assume len: "length (der_rsa_spki k) < 2 ^ 64" and eq: "der_rsa_spki k = der_rsa_public_key k'"
  have "write_der_tlv 0x30 rsa_algorithm_content @ write_der_tlv 0x03 (0 # der_rsa_public_key k)
      = der_uint (rk_modulus k') @ der_uint (rk_public_exponent k')"
    by (rule sequence_inject [OF der_rsa_spki_def _ len]) (simp add: eq der_rsa_public_key_def)
  then show False by (simp add: der_uint_def write_der_tlv_def)
qed

lemma pkcs8_not_pkcs1: "length (der_rsa_pkcs8 k) < 2 ^ 64 \<Longrightarrow> der_rsa_pkcs8 k \<noteq> der_rsa_private_key k'"
proof
  assume len: "length (der_rsa_pkcs8 k) < 2 ^ 64" and eq: "der_rsa_pkcs8 k = der_rsa_private_key k'"
  have "der_uint [0] @ write_der_tlv 0x30 rsa_algorithm_content @ write_der_tlv 0x04 (der_rsa_private_key k)
      = der_rsa_private_content k'"
    by (rule sequence_inject [OF der_rsa_pkcs8_def _ len]) (simp add: eq der_rsa_private_key_def)
  then show False by (simp add: der_rsa_private_content_def der_uint_def write_der_tlv_def)
qed

lemma public_key_der_iff:
  assumes "length der < 2 ^ 64"
  shows "parse_rsa_public_key_der der = Inr k \<longleftrightarrow>
    rsa_public_ok k \<and> (der = der_rsa_public_key k \<or> der = der_rsa_spki k)"
  unfolding parse_rsa_public_key_der_def
  by (rule either_parser [where P = rsa_public_ok and A = der_rsa_public_key and B = der_rsa_spki])
    (use assms spki_not_pkcs1 pkcs1_public_iff spki_public_iff in auto)

lemma private_key_der_iff:
  assumes "length der < 2 ^ 64"
  shows "parse_rsa_private_key_der der = Inr k \<longleftrightarrow>
    rsa_private_ok k \<and> (der = der_rsa_private_key k \<or> der = der_rsa_pkcs8 k)"
  unfolding parse_rsa_private_key_der_def
  by (rule either_parser [where P = rsa_private_ok and A = der_rsa_private_key and B = der_rsa_pkcs8])
    (use assms pkcs8_not_pkcs1 pkcs1_private_iff pkcs8_private_iff in auto)

section \<open>Properties\<close>

text \<open>
  C33: what parse_rsa_public_key_der accepts. For every input that fits in memory it returns the
  key \<open>k\<close> exactly when the input is the DER encoding of \<open>k\<close>, as a PKCS#1 key or in a
  SubjectPublicKeyInfo, and modulus and exponent are odd and greater than one, without leading
  zeros: each key has exactly two accepted encodings.
\<close>

theorem rsa_public_key_der_exact:
  assumes "length der < 2 ^ 64"
  shows "parse_rsa_public_key_der der = Inr k \<longleftrightarrow>
    rsa_public_ok k \<and> (der = der_rsa_public_key k \<or> der = der_rsa_spki k)"
  by (rule public_key_der_iff [OF assms])

theorem rsa_public_key_der_exact_witness:
  "parse_rsa_public_key_der (der_rsa_spki \<lparr>rk_modulus = [0x23], rk_public_exponent = [3]\<rparr>)
    = Inr \<lparr>rk_modulus = [0x23], rk_public_exponent = [3]\<rparr>"
proof -
  let ?k = "\<lparr>rk_modulus = [0x23], rk_public_exponent = [3]\<rparr> :: rsa_public_key_material"
  have "rsa_public_ok ?k" by (simp add: rsa_public_ok_def rsa_odd_uint_def rsa_uint_def be_val_Cons)
  moreover have "length (der_rsa_spki ?k) < 2 ^ 64"
    by (simp add: der_rsa_spki_def der_rsa_public_key_def der_uint_def write_der_tlv_def encoded_integer_content_def
        write_der_length_def rsa_algorithm_content_def rsa_encryption_oid_def)
  ultimately show ?thesis using rsa_public_key_der_exact [of "der_rsa_spki ?k" ?k] by blast
qed

text \<open>
  C32: what parse_rsa_private_key_der accepts. It returns \<open>k\<close> exactly when the input is the
  PKCS#1 or PKCS#8 encoding of \<open>k\<close> and the numbers of \<open>k\<close> satisfy the RSA relations: the modulus
  is the product of the primes, the CRT exponents are the residues of the private exponent and
  inverse to the public exponent, and the coefficient inverts the second prime modulo the first.
\<close>

theorem rsa_private_key_der_exact:
  assumes "length der < 2 ^ 64"
  shows "parse_rsa_private_key_der der = Inr k \<longleftrightarrow>
    rsa_private_ok k \<and> (der = der_rsa_private_key k \<or> der = der_rsa_pkcs8 k)"
  by (rule private_key_der_iff [OF assms])

text \<open>The key with the primes 5 and 7, the public exponent 5 and the private exponent 5.\<close>

theorem rsa_private_key_der_exact_witness:
  "parse_rsa_private_key_der (der_rsa_private_key \<lparr>rp_modulus = [35], rp_public_exponent = [5], rp_private_exponent = [5],
      rp_prime1 = [5], rp_prime2 = [7], rp_exponent1 = [1], rp_exponent2 = [5], rp_coefficient = [3]\<rparr>)
    = Inr \<lparr>rp_modulus = [35], rp_public_exponent = [5], rp_private_exponent = [5],
      rp_prime1 = [5], rp_prime2 = [7], rp_exponent1 = [1], rp_exponent2 = [5], rp_coefficient = [3]\<rparr>"
proof -
  let ?k = "\<lparr>rp_modulus = [35], rp_public_exponent = [5], rp_private_exponent = [5],
      rp_prime1 = [5], rp_prime2 = [7], rp_exponent1 = [1], rp_exponent2 = [5], rp_coefficient = [3]\<rparr> :: rsa_private_key_material"
  have "rsa_private_ok ?k"
    by (simp add: rsa_private_ok_def rsa_odd_uint_def rsa_uint_def rsa_relations_def be_val_Cons)
  moreover have "length (der_rsa_private_key ?k) < 2 ^ 64"
    by (simp add: der_rsa_private_key_def der_rsa_private_content_def der_uint_def write_der_tlv_def encoded_integer_content_def
        write_der_length_def)
  ultimately show ?thesis using rsa_private_key_der_exact [of "der_rsa_private_key ?k" ?k] by blast
qed

end
