(* ===== verification/Rsa_Ops.thy ===== *)
theory Rsa_Ops
  imports Rsa_Der Rsa_Fixed
begin

text \<open>
  src/rsa.cpp: the public operation, the private operation, and the private operation by the
  Chinese remainder theorem with and without blinding. For the keys that the parser of Rsa_Der
  accepts, whose factors are prime, the private operations agree and invert the public one.
\<close>

section \<open>The operations\<close>

definition rsa_error :: "error_code \<Rightarrow> string \<Rightarrow> crypto_error" where
  "rsa_error c message = make_error c ''rsa'' message"

definition left_pad_to_width :: "bigint \<Rightarrow> nat \<Rightarrow> bytes result" where
  "left_pad_to_width v width =
     (let bs = bi_to_be_bytes v in
      if width < length bs then Inl (rsa_error Internal_error ''RSA output is wider than modulus'')
      else if length bs = width then Inr bs
      else Inr (replicate (width - length bs) 0 @ bs))"

text \<open>
  What rsa_operation and rsa_private_operation do before and after the exponentiation, which is
  the argument \<open>mod_exp\<close>.
\<close>

definition rsa_guarded ::
  "(bigint \<Rightarrow> bigint \<Rightarrow> bigint \<Rightarrow> bigint result) \<Rightarrow> bytes \<Rightarrow> bytes \<Rightarrow> bytes \<Rightarrow> bytes result" where
  "rsa_guarded mod_exp modulus_bytes exponent_bytes input =
     (let modulus = bi_from_be_bytes modulus_bytes;
          exponent = bi_from_be_bytes exponent_bytes;
          representative = bi_from_be_bytes input in
      if \<not> (has_value modulus \<and> has_value exponent \<and> has_value representative)
      then Inl (rsa_error Invalid_key ''RSA integer import failed'')
      else if bi_is_zero (projr modulus) then Inl (rsa_error Invalid_key ''RSA modulus must be non-zero'')
      else if bi_is_zero (projr exponent) then Inl (rsa_error Invalid_key ''RSA exponent must be non-zero'')
      else if bi_compare (projr representative) (projr modulus) \<ge> 0
      then Inl (rsa_error Invalid_argument ''RSA representative must be less than modulus'')
      else rbind (mod_exp (projr representative) (projr exponent) (projr modulus)) (\<lambda>out.
             left_pad_to_width out (length modulus_bytes)))"

definition rsa_operation :: "bytes \<Rightarrow> bytes \<Rightarrow> bytes \<Rightarrow> bytes result" where
  "rsa_operation = rsa_guarded bi_mod_exp"

definition import_non_zero :: "bytes \<Rightarrow> string \<Rightarrow> bigint result" where
  "import_non_zero bs name =
     (case bi_from_be_bytes bs of
        Inl _ \<Rightarrow> Inl (rsa_error Invalid_key ''RSA integer import failed'')
      | Inr v \<Rightarrow> if bi_is_zero v then Inl (rsa_error Invalid_key name) else Inr v)"

definition fixed_mod_exp_to_bigint :: "bytes \<Rightarrow> bytes \<Rightarrow> bytes \<Rightarrow> nat \<Rightarrow> bigint result" where
  "fixed_mod_exp_to_bigint base_bytes exponent_bytes modulus_bytes exponent_bits =
     (let fixed_width = (length modulus_bytes + 3) div 4 in
      if fixed_width = 0 \<or> fixed_width > max_limbs
      then Inl (rsa_error Invalid_key ''RSA fixed-width modulus is not supported'')
      else
        rbind (rf_from_be_bytes modulus_bytes fixed_width) (\<lambda>modulus.
        rbind (rf_from_be_bytes_mod base_bytes modulus) (\<lambda>base.
        rbind (montgomery_mod_exp_secret base exponent_bytes modulus exponent_bits) (\<lambda>out.
          let output_bytes = rf_to_be_bytes out in
          if length output_bytes < length modulus_bytes
          then Inl (rsa_error Internal_error ''RSA fixed-width output is too short'')
          else bi_from_be_bytes (drop (length output_bytes - length modulus_bytes) output_bytes)))))"

definition crt_recombine ::
  "bigint \<Rightarrow> bigint \<Rightarrow> bigint \<Rightarrow> bigint \<Rightarrow> bigint \<Rightarrow> bigint \<Rightarrow> nat \<Rightarrow> bytes result" where
  "crt_recombine message1 message2 prime1 prime2 coefficient modulus width =
     rbind (bi_mod_subtract message1 message2 prime1) (\<lambda>difference.
     rbind (bi_mod_multiply coefficient difference prime1) (\<lambda>h.
     rbind (bi_mod_multiply prime2 h modulus) (\<lambda>qh.
     rbind (bi_mod_add message2 qh modulus) (\<lambda>out.
       left_pad_to_width out width))))"

definition rsa_public_operation :: "rsa_public_key_material \<Rightarrow> bytes \<Rightarrow> bytes result" where
  "rsa_public_operation key input = rsa_operation (rk_modulus key) (rk_public_exponent key) input"

definition rsa_private_operation :: "rsa_private_key_material \<Rightarrow> bytes \<Rightarrow> bytes result" where
  "rsa_private_operation key input =
     rsa_guarded (\<lambda>representative exponent modulus.
         bi_mod_exp_secret representative exponent modulus (length (rp_private_exponent key) * 8))
       (rp_modulus key) (rp_private_exponent key) input"

definition import_failed :: "bigint result \<Rightarrow> bigint result" where
  "import_failed r =
     (case r of Inl _ \<Rightarrow> Inl (rsa_error Invalid_key ''RSA integer import failed'') | Inr v \<Rightarrow> Inr v)"

definition rsa_private_crt_operation :: "rsa_private_key_material \<Rightarrow> bytes \<Rightarrow> bytes result" where
  "rsa_private_crt_operation key input =
     rbind (import_non_zero (rp_modulus key) ''RSA modulus must be non-zero'') (\<lambda>modulus.
     rbind (import_failed (bi_from_be_bytes input)) (\<lambda>representative.
     rbind (import_non_zero (rp_prime1 key) ''RSA prime1 must be non-zero'') (\<lambda>prime1.
     rbind (import_non_zero (rp_prime2 key) ''RSA prime2 must be non-zero'') (\<lambda>prime2.
     rbind (import_non_zero (rp_exponent1 key) ''RSA exponent1 must be non-zero'') (\<lambda>exponent1.
     rbind (import_non_zero (rp_exponent2 key) ''RSA exponent2 must be non-zero'') (\<lambda>exponent2.
     rbind (import_non_zero (rp_coefficient key) ''RSA coefficient must be non-zero'') (\<lambda>coefficient.
       if bi_compare representative modulus \<ge> 0
       then Inl (rsa_error Invalid_argument ''RSA representative must be less than modulus'')
       else
         rbind (fixed_mod_exp_to_bigint input (rp_exponent1 key) (rp_prime1 key) (length (rp_prime1 key) * 8)) (\<lambda>message1.
         rbind (fixed_mod_exp_to_bigint input (rp_exponent2 key) (rp_prime2 key) (length (rp_prime2 key) * 8)) (\<lambda>message2.
           crt_recombine message1 message2 prime1 prime2 coefficient modulus (length (rp_modulus key)))))))))))"

definition rsa_private_crt_blinded_operation ::
  "rsa_private_key_material \<Rightarrow> bytes \<Rightarrow> bytes \<Rightarrow> bytes result" where
  "rsa_private_crt_blinded_operation key input blinding_factor =
     rbind (import_non_zero (rp_modulus key) ''RSA modulus must be non-zero'') (\<lambda>modulus.
     rbind (import_non_zero (rp_public_exponent key) ''RSA public exponent must be non-zero'') (\<lambda>public_exponent.
     rbind (import_failed (bi_from_be_bytes input)) (\<lambda>representative.
     rbind (import_failed (bi_from_be_bytes blinding_factor)) (\<lambda>blinding.
     rbind (import_non_zero (rp_prime1 key) ''RSA prime1 must be non-zero'') (\<lambda>prime1.
     rbind (import_non_zero (rp_prime2 key) ''RSA prime2 must be non-zero'') (\<lambda>prime2.
     rbind (import_non_zero (rp_exponent1 key) ''RSA exponent1 must be non-zero'') (\<lambda>exponent1.
     rbind (import_non_zero (rp_exponent2 key) ''RSA exponent2 must be non-zero'') (\<lambda>exponent2.
     rbind (import_non_zero (rp_coefficient key) ''RSA coefficient must be non-zero'') (\<lambda>coefficient.
       if bi_compare representative modulus \<ge> 0
       then Inl (rsa_error Invalid_argument ''RSA representative must be less than modulus'')
       else if bi_is_zero blinding
       then Inl (rsa_error Invalid_argument ''RSA blinding factor must be non-zero'')
       else
         let one = bi_from_be_bytes [1]; two = bi_from_be_bytes [2] in
         if \<not> (has_value one \<and> has_value two)
         then Inl (rsa_error Internal_error ''RSA constant import failed'')
         else
           rbind (bi_mod_multiply blinding (projr one) prime1) (\<lambda>blinding_mod_prime1.
           rbind (bi_mod_multiply blinding (projr one) prime2) (\<lambda>blinding_mod_prime2.
             if bi_is_zero blinding_mod_prime1 \<or> bi_is_zero blinding_mod_prime2
             then Inl (rsa_error Invalid_argument ''RSA blinding factor must be invertible'')
             else
               rbind (bi_mod_exp blinding public_exponent modulus) (\<lambda>blinding_power.
               rbind (bi_mod_multiply representative blinding_power modulus) (\<lambda>blinded_representative.
                 let blinded_bytes = bi_to_be_bytes blinded_representative;
                     bits1 = length (rp_prime1 key) * 8; bits2 = length (rp_prime2 key) * 8 in
                 rbind (fixed_mod_exp_to_bigint blinded_bytes (rp_exponent1 key) (rp_prime1 key) bits1) (\<lambda>blinded_message1.
                 rbind (fixed_mod_exp_to_bigint blinded_bytes (rp_exponent2 key) (rp_prime2 key) bits2) (\<lambda>blinded_message2.
                 rbind (bi_mod_subtract prime1 (projr two) prime1) (\<lambda>prime1_minus_two.
                 rbind (bi_mod_subtract prime2 (projr two) prime2) (\<lambda>prime2_minus_two.
                 rbind (fixed_mod_exp_to_bigint (bi_to_be_bytes blinding_mod_prime1)
                          (bi_to_be_bytes prime1_minus_two) (rp_prime1 key) bits1) (\<lambda>inverse1.
                 rbind (fixed_mod_exp_to_bigint (bi_to_be_bytes blinding_mod_prime2)
                          (bi_to_be_bytes prime2_minus_two) (rp_prime2 key) bits2) (\<lambda>inverse2.
                 rbind (bi_mod_multiply blinded_message1 inverse1 prime1) (\<lambda>message1.
                 rbind (bi_mod_multiply blinded_message2 inverse2 prime2) (\<lambda>message2.
                   crt_recombine message1 message2 prime1 prime2 coefficient modulus
                     (length (rp_modulus key)))))))))))))))))))))))"

section \<open>Output\<close>

text \<open>The byte string of a width that denotes a number (I2OSP).\<close>

definition be_octets :: "nat \<Rightarrow> nat \<Rightarrow> bytes \<Rightarrow> bool" where
  "be_octets width n bs \<longleftrightarrow> length bs = width \<and> be_val bs = n"

lemma be_octets_unique: "be_octets w n xs \<Longrightarrow> be_octets w n ys \<Longrightarrow> xs = ys"
  using be_val_inject [of xs ys] by (simp add: be_octets_def)

lemma bytes_width:
  assumes "be_val bs < 256 ^ w" "bs \<noteq> [] \<Longrightarrow> hd bs \<noteq> 0"
  shows "length bs \<le> w"
proof (rule ccontr)
  assume n: "\<not> length bs \<le> w"
  then obtain c cs where bs: "bs = c # cs" by (cases bs) auto
  have "(256::nat) ^ w \<le> 256 ^ length cs" using n bs by (intro power_increasing) auto
  also have "\<dots> \<le> unat c * 256 ^ length cs" using assms(2) bs by (simp add: unat_gt_0 Suc_le_eq)
  finally have "256 ^ w \<le> be_val bs" by (simp add: bs be_val_Cons)
  then show False using assms(1) by simp
qed

lemma left_pad_value:
  assumes "bi_val x < 256 ^ w" "0 < w"
  shows "\<exists>out. left_pad_to_width x w = Inr out \<and> be_octets w (bi_val x) out"
proof -
  have "length (bi_to_be_bytes x) \<le> w"
  proof (cases "bi_val x = 0")
    case False
    then show ?thesis
      using bi_to_be_bytes_hd [of x] assms(1) by (intro bytes_width) (simp_all add: bi_to_be_bytes_val)
  qed (use bi_to_be_bytes_hd [of x] assms(2) in simp)
  then show ?thesis
    by (auto simp: left_pad_to_width_def Let_def be_octets_def be_val_append bi_to_be_bytes_val)
qed

lemma be_val_drop_zeros:
  assumes "be_val bs < 256 ^ k" "k \<le> length bs"
  shows "be_val (drop (length bs - k) bs) = be_val bs"
proof -
  let ?n = "length bs - k"
  have "be_val (take ?n bs @ drop ?n bs) = be_val (take ?n bs) * 256 ^ k + be_val (drop ?n bs)"
    using assms(2) by (subst be_val_append) simp
  then have v: "be_val bs = be_val (take ?n bs) * 256 ^ k + be_val (drop ?n bs)" by simp
  have "be_val (take ?n bs) = 0"
  proof (rule ccontr)
    assume "be_val (take ?n bs) \<noteq> 0"
    then have "1 * 256 ^ k \<le> be_val (take ?n bs) * 256 ^ k" by (intro mult_le_mono1) simp
    then show False using v assms(1) by linarith
  qed
  then show ?thesis using v by simp
qed

lemma be_val_nonempty: "1 < be_val bs \<Longrightarrow> 0 < length bs"
  by (cases bs) auto

text \<open>The exponentiation on fixed-width integers, for the moduli that fit.\<close>

lemma fixed_mod_exp_value:
  assumes "odd (be_val p)" "1 < be_val p" "length p \<le> 256"
  shows "\<exists>z. fixed_mod_exp_to_bigint b e p bits = Inr z \<and> bi_val z = be_val b ^ (be_val e mod 2 ^ bits) mod be_val p"
proof -
  define w where "w = (length p + 3) div 4"
  have w: "valid_width w" "0 < w" "w \<le> max_limbs" "length p \<le> 4 * w"
    using be_val_nonempty [OF assms(2)] assms(3) by (auto simp: w_def valid_width_def max_limbs_def div_greater_zero_iff Suc_le_eq)
  have "be_val p < 256 ^ length p" by (rule be_val_bound)
  also have "\<dots> \<le> 256 ^ (4 * w)" using w(4) by (intro power_increasing) simp_all
  finally have "be_val p < limb_base ^ w" by (simp only: limb_bytes)
  then obtain M where M: "rf_from_be_bytes p w = Inr M" "rf_num w (be_val p) M"
    using rf_from_be_bytes_value [OF w(1), of p] by auto
  have mod: "rf_modulus w (be_val p) M" using M(2) assms by (simp add: rf_modulus_def)
  obtain B where B: "rf_from_be_bytes_mod b M = Inr B" "rf_num w (be_val b mod be_val p) B"
    using rf_from_be_bytes_mod_value [OF mod] by blast
  have lt: "be_val b mod be_val p < be_val p" using assms(2) by simp
  let ?v = "(be_val b mod be_val p) ^ (be_val e mod 2 ^ bits) mod be_val p"
  obtain z where z: "montgomery_mod_exp_secret B e M bits = Inr z" "rf_num w ?v z"
    using montgomery_mod_exp_value [OF B(2) mod lt] by blast
  have v: "be_val (rf_to_be_bytes z) = ?v" and l: "length (rf_to_be_bytes z) = 4 * w"
    using rf_to_be_bytes_value [OF z(2)] by simp_all
  have "?v < be_val p" using assms(2) by simp
  then have "?v < 256 ^ length p" using be_val_bound [of p] by simp
  then have "be_val (drop (4 * w - length p) (rf_to_be_bytes z)) = ?v"
    using be_val_drop_zeros [of "rf_to_be_bytes z" "length p"] v l w(4) by simp
  moreover have "?v = be_val b ^ (be_val e mod 2 ^ bits) mod be_val p" by (rule power_mod)
  ultimately show ?thesis
    using bi_from_be_bytes_val [of "drop (4 * w - length p) (rf_to_be_bytes z)"] w l
    by (simp add: fixed_mod_exp_to_bigint_def M(1) B(1) z(1) flip: w_def)
qed

section \<open>Recombination\<close>

text \<open>The number that crt_recombine computes has the two given residues.\<close>

lemma crt_number:
  assumes n: "n = p * q" and inv: "q * qi mod p = 1" and p: "1 < p" "0 < q"
    and m: "y mod p = m1 mod p" "y mod q = m2 mod q"
    and d: "int d = (int m1 - int m2) mod int p"
  shows "(m2 + q * (qi * d mod p) mod n) mod n = y mod n"
proof -
  have "coprime (q * qi) p"
    by (metis inv coprime_1_left coprime_mod_left_iff p(1) not_one_less_zero)
  then have cop: "coprime p q" by (simp add: coprime_commute)
  let ?x = "m2 + q * (qi * d mod p)"
  have "int (m2 + d) mod int p = int m1 mod int p"
    by (simp add: d mod_add_right_eq)
  then have md: "(m2 + d) mod p = m1 mod p" by (metis of_nat_eq_iff of_nat_mod)
  have "q * (qi * d mod p) mod p = (q * qi mod p) * d mod p"
    by (simp add: mod_mult_right_eq mod_mult_left_eq mult.assoc)
  also have "\<dots> = d mod p" unfolding inv by simp
  finally have "?x mod p = (m2 + d) mod p" by (metis mod_add_right_eq)
  then have "?x mod p = y mod p" using md m(1) by simp
  moreover have "?x mod q = y mod q" using m(2) by simp
  ultimately have "?x mod n = y mod n" unfolding n by (intro mod_product_eq cop)
  then show ?thesis by (simp add: mod_add_right_eq)
qed

lemma crt_recombine_value:
  assumes n: "bi_val N = p * q" and v: "bi_val P = p" "bi_val Q = q" "bi_val QI = qi"
    and inv: "q * qi mod p = 1" and p: "1 < p" "0 < q"
    and m: "y mod p = bi_val M1 mod p" "y mod q = bi_val M2 mod q"
    and w: "p * q \<le> 256 ^ w" "0 < w"
  shows "\<exists>out. crt_recombine M1 M2 P Q QI N w = Inr out \<and> be_octets w (y mod (p * q)) out"
proof -
  have nz: "bi_val P \<noteq> 0" "bi_val N \<noteq> 0" using p n v(1) by simp_all
  obtain D where D: "bi_mod_subtract M1 M2 P = Inr D" "int (bi_val D) = (int (bi_val M1) - int (bi_val M2)) mod int p"
    using bi_mod_subtract_val [OF nz(1), of M1 M2] v(1) by auto
  obtain H where H: "bi_mod_multiply QI D P = Inr H" "bi_val H = qi * bi_val D mod p"
    using bi_mod_multiply_val [OF nz(1), of QI D] v by auto
  obtain K where K: "bi_mod_multiply Q H N = Inr K" "bi_val K = q * bi_val H mod (p * q)"
    using bi_mod_multiply_val [OF nz(2), of Q H] v n by auto
  obtain Z where Z: "bi_mod_add M2 K N = Inr Z" "bi_val Z = (bi_val M2 + bi_val K) mod (p * q)"
    using bi_mod_add_val [OF nz(2), of M2 K] n by auto
  have z: "bi_val Z = y mod (p * q)"
    unfolding Z(2) K(2) H(2) by (rule crt_number [OF refl inv p m D(2)])
  also have "y mod (p * q) < p * q" using p by simp
  finally have "bi_val Z < 256 ^ w" using w(1) by linarith
  from left_pad_value [OF this w(2)] show ?thesis
    by (simp add: crt_recombine_def D(1) H(1) K(1) Z(1) z)
qed

section \<open>The plain operations\<close>

lemma rsa_guarded_value:
  assumes "\<And>x e n. bi_val n = be_val N \<Longrightarrow> bi_val e = be_val E \<Longrightarrow> bi_val n \<noteq> 0 \<Longrightarrow>
      \<exists>z. f x e n = Inr z \<and> bi_val z = bi_val x ^ bi_val e mod bi_val n"
  shows "if be_val N = 0 then rsa_guarded f N E m = Inl (rsa_error Invalid_key ''RSA modulus must be non-zero'')
    else if be_val E = 0 then rsa_guarded f N E m = Inl (rsa_error Invalid_key ''RSA exponent must be non-zero'')
    else if be_val N \<le> be_val m
    then rsa_guarded f N E m = Inl (rsa_error Invalid_argument ''RSA representative must be less than modulus'')
    else \<exists>out. rsa_guarded f N E m = Inr out \<and> be_octets (length N) (be_val m ^ be_val E mod be_val N) out"
proof -
  obtain n where n: "bi_from_be_bytes N = Inr n" "bi_val n = be_val N" using bi_from_be_bytes_val by blast
  obtain e where e: "bi_from_be_bytes E = Inr e" "bi_val e = be_val E" using bi_from_be_bytes_val by blast
  obtain x where x: "bi_from_be_bytes m = Inr x" "bi_val x = be_val m" using bi_from_be_bytes_val by blast
  show ?thesis
  proof (cases "be_val N = 0 \<or> be_val E = 0 \<or> be_val N \<le> be_val m")
    case False
    then obtain z where z: "f x e n = Inr z" "bi_val z = be_val m ^ be_val E mod be_val N"
      using assms [of n e x] n e x by auto
    have "bi_val z < be_val N" unfolding z(2) using False by simp
    also have "\<dots> < 256 ^ length N" by (rule be_val_bound)
    finally have "bi_val z < 256 ^ length N" .
    moreover have "0 < length N" using False by (cases N) auto
    ultimately show ?thesis
      using left_pad_value [of z "length N"] False
      by (simp add: rsa_guarded_def n e x z)
  qed (auto simp: rsa_guarded_def n e x)
qed

lemma rsa_public_value:
  "if be_val (rk_modulus k) = 0
   then rsa_public_operation k m = Inl (rsa_error Invalid_key ''RSA modulus must be non-zero'')
   else if be_val (rk_public_exponent k) = 0
   then rsa_public_operation k m = Inl (rsa_error Invalid_key ''RSA exponent must be non-zero'')
   else if be_val (rk_modulus k) \<le> be_val m
   then rsa_public_operation k m = Inl (rsa_error Invalid_argument ''RSA representative must be less than modulus'')
   else \<exists>out. rsa_public_operation k m = Inr out \<and>
     be_octets (length (rk_modulus k)) (be_val m ^ be_val (rk_public_exponent k) mod be_val (rk_modulus k)) out"
  unfolding rsa_public_operation_def rsa_operation_def by (rule rsa_guarded_value) (rule bi_mod_exp_val)

lemma rsa_private_value:
  "if be_val (rp_modulus k) = 0
   then rsa_private_operation k m = Inl (rsa_error Invalid_key ''RSA modulus must be non-zero'')
   else if be_val (rp_private_exponent k) = 0
   then rsa_private_operation k m = Inl (rsa_error Invalid_key ''RSA exponent must be non-zero'')
   else if be_val (rp_modulus k) \<le> be_val m
   then rsa_private_operation k m = Inl (rsa_error Invalid_argument ''RSA representative must be less than modulus'')
   else \<exists>out. rsa_private_operation k m = Inr out \<and>
     be_octets (length (rp_modulus k)) (be_val m ^ be_val (rp_private_exponent k) mod be_val (rp_modulus k)) out"
  unfolding rsa_private_operation_def
proof (rule rsa_guarded_value)
  fix x e n
  assume "bi_val e = be_val (rp_private_exponent k)" "bi_val n \<noteq> 0"
  moreover have "(256::nat) ^ l = 2 ^ (l * 8)" for l by (simp add: mult.commute [of l] power_mult)
  ultimately show "\<exists>z. bi_mod_exp_secret x e n (length (rp_private_exponent k) * 8) = Inr z \<and>
      bi_val z = bi_val x ^ bi_val e mod bi_val n"
    using be_val_bound [of "rp_private_exponent k"] by (intro bi_mod_exp_secret_val) simp_all
qed

section \<open>Keys with prime factors\<close>

definition rsa_prime_key :: "rsa_private_key_material \<Rightarrow> bool" where
  "rsa_prime_key k \<longleftrightarrow>
     rsa_private_ok k \<and> prime_nat (be_val (rp_prime1 k)) \<and> prime_nat (be_val (rp_prime2 k))"

definition rsa_public_part :: "rsa_private_key_material \<Rightarrow> rsa_public_key_material" where
  "rsa_public_part k = \<lparr>rk_modulus = rp_modulus k, rk_public_exponent = rp_public_exponent k\<rparr>"

lemma rsa_prime_keyD:
  assumes "rsa_prime_key k"
  defines "p \<equiv> be_val (rp_prime1 k)" and "q \<equiv> be_val (rp_prime2 k)" and "d \<equiv> be_val (rp_private_exponent k)"
    and "e \<equiv> be_val (rp_public_exponent k)"
  shows "prime_nat p" "prime_nat q" "odd p" "odd q" "1 < p" "1 < q" "be_val (rp_modulus k) = p * q"
    and "q * be_val (rp_coefficient k) mod p = 1"
    and "be_val (rp_exponent1 k) = d mod (p - 1)" "be_val (rp_exponent2 k) = d mod (q - 1)"
    and "0 < d mod (p - 1)" "0 < d mod (q - 1)" "0 < d" "0 < e"
    and "e * d mod (p - 1) = 1" "e * d mod (q - 1) = 1" "coprime p q" "0 < be_val (rp_coefficient k)"
proof -
  have r: "rsa_relations (be_val (rp_modulus k)) e d p q (be_val (rp_exponent1 k)) (be_val (rp_exponent2 k))
      (be_val (rp_coefficient k))"
    and o: "odd p" "odd q" "1 < p" "1 < q" "1 < e"
    using assms(1) by (simp_all add: rsa_prime_key_def rsa_private_ok_def rsa_odd_uint_def p_def q_def d_def e_def)
  show "prime_nat p" "prime_nat q" using assms(1) by (simp_all add: rsa_prime_key_def p_def q_def)
  show "odd p" "odd q" "1 < p" "1 < q" "0 < e" using o by simp_all
  show dp: "be_val (rp_exponent1 k) = d mod (p - 1)" and dq: "be_val (rp_exponent2 k) = d mod (q - 1)"
    and "be_val (rp_modulus k) = p * q" and inv: "q * be_val (rp_coefficient k) mod p = 1"
    using r by (simp_all add: rsa_relations_def)
  have e: "e * (d mod (p - 1)) mod (p - 1) = 1" "e * (d mod (q - 1)) mod (q - 1) = 1"
    using r unfolding rsa_relations_def by metis+
  then show ed: "e * d mod (p - 1) = 1" "e * d mod (q - 1) = 1" by (simp_all only: mod_mult_right_eq)
  show "0 < d mod (p - 1)" by (rule ccontr) (use e(1) in simp)
  show "0 < d mod (q - 1)" by (rule ccontr) (use e(2) in simp)
  show "0 < d" by (rule ccontr) (use ed in simp)
  show "0 < be_val (rp_coefficient k)" by (rule ccontr) (use inv in simp)
  have "coprime (q * be_val (rp_coefficient k)) p"
    by (metis inv coprime_1_left coprime_mod_left_iff o(3) not_one_less_zero)
  then show "coprime p q" by (simp add: coprime_commute)
qed

lemma rsa_inverse:
  assumes "rsa_prime_key k" "x < be_val (rp_modulus k)"
  shows "x ^ (be_val (rp_public_exponent k) * be_val (rp_private_exponent k)) mod be_val (rp_modulus k) = x"
proof -
  note D = rsa_prime_keyD [OF assms(1)]
  let ?ed = "be_val (rp_public_exponent k) * be_val (rp_private_exponent k)"
  have pos: "0 < ?ed" using D(13,14) by simp
  have "1 mod (be_val (rp_prime1 k) - 1) = 1" "1 mod (be_val (rp_prime2 k) - 1) = 1"
    using D(15,16) by (metis mod_mod_trivial)+
  then have "x ^ ?ed mod be_val (rp_prime1 k) = x mod be_val (rp_prime1 k)"
    "x ^ ?ed mod be_val (rp_prime2 k) = x mod be_val (rp_prime2 k)"
    using power_one_mod [OF D(1) _ pos] power_one_mod [OF D(2) _ pos] D(15,16) by simp_all
  from mod_product_eq [OF D(17) this] assms(2) show ?thesis by (simp add: D(7))
qed

section \<open>The operations by the Chinese remainder theorem\<close>

lemma import_non_zero_value:
  "be_val bs \<noteq> 0 \<Longrightarrow> \<exists>v. import_non_zero bs name = Inr v \<and> bi_val v = be_val bs"
  using bi_from_be_bytes_val [of bs] by (auto simp: import_non_zero_def)

text \<open>The exponents are below the primes, which have as many bits as the exponentiation reads.\<close>

lemma exponent_fits: "be_val e < be_val p \<Longrightarrow> be_val e mod 2 ^ (length p * 8) = be_val e"
proof -
  assume "be_val e < be_val p"
  moreover have "(256::nat) ^ length p = 2 ^ (length p * 8)" by (simp add: mult.commute [of "length p"] power_mult)
  ultimately show ?thesis using be_val_bound [of p] by simp
qed

definition rsa_fits :: "rsa_private_key_material \<Rightarrow> bool" where
  "rsa_fits k \<longleftrightarrow> length (rp_prime1 k) \<le> 256 \<and> length (rp_prime2 k) \<le> 256"

lemma crt_exponentiation:
  assumes "rsa_prime_key k" "rsa_fits k"
  shows "\<exists>z. fixed_mod_exp_to_bigint b (rp_exponent1 k) (rp_prime1 k) (length (rp_prime1 k) * 8) = Inr z \<and>
      bi_val z = be_val b ^ be_val (rp_private_exponent k) mod be_val (rp_prime1 k)"
    "\<exists>z. fixed_mod_exp_to_bigint b (rp_exponent2 k) (rp_prime2 k) (length (rp_prime2 k) * 8) = Inr z \<and>
      bi_val z = be_val b ^ be_val (rp_private_exponent k) mod be_val (rp_prime2 k)"
proof -
  note D = rsa_prime_keyD [OF assms(1)]
  have "be_val (rp_exponent1 k) < be_val (rp_prime1 k)" "be_val (rp_exponent2 k) < be_val (rp_prime2 k)"
    unfolding D(9,10) using D(5,6) by (simp_all add: less_le_trans [OF mod_less_divisor])
  note e = this [THEN exponent_fits]
  show "\<exists>z. fixed_mod_exp_to_bigint b (rp_exponent1 k) (rp_prime1 k) (length (rp_prime1 k) * 8) = Inr z \<and>
      bi_val z = be_val b ^ be_val (rp_private_exponent k) mod be_val (rp_prime1 k)"
    using fixed_mod_exp_value [OF D(3,5), of b "rp_exponent1 k" "length (rp_prime1 k) * 8"] assms(2)
      fermat_exponent [OF D(1,11)] unfolding e(1) by (simp add: D(9) rsa_fits_def)
  show "\<exists>z. fixed_mod_exp_to_bigint b (rp_exponent2 k) (rp_prime2 k) (length (rp_prime2 k) * 8) = Inr z \<and>
      bi_val z = be_val b ^ be_val (rp_private_exponent k) mod be_val (rp_prime2 k)"
    using fixed_mod_exp_value [OF D(4,6), of b "rp_exponent2 k" "length (rp_prime2 k) * 8"] assms(2)
      fermat_exponent [OF D(2,12)] unfolding e(2) by (simp add: D(10) rsa_fits_def)
qed

text \<open>The recombination of two residues of a number below the modulus, for a key.\<close>

lemma key_recombine:
  assumes k: "rsa_prime_key k"
    and v: "bi_val N = be_val (rp_modulus k)" "bi_val P = be_val (rp_prime1 k)" "bi_val Q = be_val (rp_prime2 k)"
      "bi_val QI = be_val (rp_coefficient k)"
    and m: "y mod be_val (rp_prime1 k) = bi_val M1 mod be_val (rp_prime1 k)"
      "y mod be_val (rp_prime2 k) = bi_val M2 mod be_val (rp_prime2 k)"
  shows "\<exists>out. crt_recombine M1 M2 P Q QI N (length (rp_modulus k)) = Inr out \<and>
    be_octets (length (rp_modulus k)) (y mod be_val (rp_modulus k)) out"
proof -
  note D = rsa_prime_keyD [OF k]
  have q: "0 < be_val (rp_prime2 k)" using D(6) by simp
  have "0 < be_val (rp_modulus k)" using D(5,6,7) by simp
  then have w: "0 < length (rp_modulus k)" by (cases "rp_modulus k") auto
  have "be_val (rp_prime1 k) * be_val (rp_prime2 k) \<le> 256 ^ length (rp_modulus k)"
    using be_val_bound [of "rp_modulus k"] unfolding D(7) by simp
  from crt_recombine_value [OF v(1) [unfolded D(7)] v(2-4) D(8,5) q m this w]
  show ?thesis unfolding D(7) .
qed

lemma private_result:
  assumes "rsa_prime_key k" "be_val m < be_val (rp_modulus k)"
  shows "rsa_private_operation k m = Inr out \<longleftrightarrow>
    be_octets (length (rp_modulus k)) (be_val m ^ be_val (rp_private_exponent k) mod be_val (rp_modulus k)) out"
proof -
  have "be_val (rp_modulus k) \<noteq> 0" "be_val (rp_private_exponent k) \<noteq> 0" 
    using rsa_prime_keyD [OF assms(1)] by simp_all
  then obtain z where "rsa_private_operation k m = Inr z"
      "be_octets (length (rp_modulus k)) (be_val m ^ be_val (rp_private_exponent k) mod be_val (rp_modulus k)) z"
    using rsa_private_value [of k m] assms(2) by auto
  then show ?thesis using be_octets_unique by auto
qed

text \<open>The numbers of a key, as the two operations import them.\<close>

lemma rsa_key_imports:
  assumes "rsa_prime_key k"
  obtains N E P Q E1 E2 QI where
    "import_non_zero (rp_modulus k) ''RSA modulus must be non-zero'' = Inr N" "bi_val N = be_val (rp_modulus k)"
    "import_non_zero (rp_public_exponent k) ''RSA public exponent must be non-zero'' = Inr E"
    "bi_val E = be_val (rp_public_exponent k)"
    "import_non_zero (rp_prime1 k) ''RSA prime1 must be non-zero'' = Inr P" "bi_val P = be_val (rp_prime1 k)"
    "import_non_zero (rp_prime2 k) ''RSA prime2 must be non-zero'' = Inr Q" "bi_val Q = be_val (rp_prime2 k)"
    "import_non_zero (rp_exponent1 k) ''RSA exponent1 must be non-zero'' = Inr E1"
    "import_non_zero (rp_exponent2 k) ''RSA exponent2 must be non-zero'' = Inr E2"
    "import_non_zero (rp_coefficient k) ''RSA coefficient must be non-zero'' = Inr QI"
    "bi_val QI = be_val (rp_coefficient k)" "bi_val P \<noteq> 0" "bi_val Q \<noteq> 0" "bi_val N \<noteq> 0"
proof -
  have "be_val (rp_modulus k) \<noteq> 0" "be_val (rp_public_exponent k) \<noteq> 0" "be_val (rp_prime1 k) \<noteq> 0"
    "be_val (rp_prime2 k) \<noteq> 0" "be_val (rp_exponent1 k) \<noteq> 0" "be_val (rp_exponent2 k) \<noteq> 0"
    "be_val (rp_coefficient k) \<noteq> 0"
    using rsa_prime_keyD [OF assms] by simp_all
  note im = this [THEN import_non_zero_value]
  show ?thesis
    using im(1) [of "''RSA modulus must be non-zero''"] im(2) [of "''RSA public exponent must be non-zero''"]
      im(3) [of "''RSA prime1 must be non-zero''"] im(4) [of "''RSA prime2 must be non-zero''"]
      im(5) [of "''RSA exponent1 must be non-zero''"] im(6) [of "''RSA exponent2 must be non-zero''"]
      im(7) [of "''RSA coefficient must be non-zero''"] rsa_prime_keyD [OF assms]
    by (elim exE conjE) (rule that, assumption+, simp_all)
qed

lemma crt_equals_private:
  assumes k: "rsa_prime_key k" "rsa_fits k" and lt: "be_val m < be_val (rp_modulus k)"
  shows "rsa_private_crt_operation k m = rsa_private_operation k m"
proof -
  note D = rsa_prime_keyD [OF k(1)]
  from k(1) obtain N E P Q E1 E2 QI where
    N: "import_non_zero (rp_modulus k) ''RSA modulus must be non-zero'' = Inr N" "bi_val N = be_val (rp_modulus k)" and
    E: "import_non_zero (rp_public_exponent k) ''RSA public exponent must be non-zero'' = Inr E"
      "bi_val E = be_val (rp_public_exponent k)" and
    P: "import_non_zero (rp_prime1 k) ''RSA prime1 must be non-zero'' = Inr P" "bi_val P = be_val (rp_prime1 k)" and
    Q: "import_non_zero (rp_prime2 k) ''RSA prime2 must be non-zero'' = Inr Q" "bi_val Q = be_val (rp_prime2 k)" and
    Es: "import_non_zero (rp_exponent1 k) ''RSA exponent1 must be non-zero'' = Inr E1"
      "import_non_zero (rp_exponent2 k) ''RSA exponent2 must be non-zero'' = Inr E2" and
    QI: "import_non_zero (rp_coefficient k) ''RSA coefficient must be non-zero'' = Inr QI"
      "bi_val QI = be_val (rp_coefficient k)" and
    m: "bi_val P \<noteq> 0" "bi_val Q \<noteq> 0" "bi_val N \<noteq> 0"
    by (rule rsa_key_imports)
  obtain X where X: "bi_from_be_bytes m = Inr X" "bi_val X = be_val m" using bi_from_be_bytes_val by blast
  obtain M1 where M1: "fixed_mod_exp_to_bigint m (rp_exponent1 k) (rp_prime1 k) (length (rp_prime1 k) * 8) = Inr M1"
      "bi_val M1 = be_val m ^ be_val (rp_private_exponent k) mod be_val (rp_prime1 k)"
    using crt_exponentiation(1) [OF k] by blast
  obtain M2 where M2: "fixed_mod_exp_to_bigint m (rp_exponent2 k) (rp_prime2 k) (length (rp_prime2 k) * 8) = Inr M2"
      "bi_val M2 = be_val m ^ be_val (rp_private_exponent k) mod be_val (rp_prime2 k)"
    using crt_exponentiation(2) [OF k] by blast
  obtain out where out: "crt_recombine M1 M2 P Q QI N (length (rp_modulus k)) = Inr out"
      "be_octets (length (rp_modulus k)) (be_val m ^ be_val (rp_private_exponent k) mod be_val (rp_modulus k)) out"
    using key_recombine [OF k(1) N(2) P(2) Q(2) QI(2), of "be_val m ^ be_val (rp_private_exponent k)" M1 M2] M1(2) M2(2)
    by auto
  have "rsa_private_crt_operation k m = Inr out"
    using lt N(2) X(2)
    by (simp add: rsa_private_crt_operation_def N(1) P(1) Q(1) Es QI(1) X(1) M1(1) M2(1) out(1) import_failed_def)
  then show ?thesis using iffD2 [OF private_result [OF k(1) lt] out(2)] by simp
qed

section \<open>Blinding\<close>

lemma unblind:
  assumes p: "prime_nat p" "\<not> p dvd r" and ed: "e * d mod (p - 1) = 1" and n: "p dvd n"
  shows "((x * (r ^ e mod n) mod n) ^ d mod p) * ((r mod p) ^ (p - 2) mod p) mod p = x ^ d mod p"
proof -
  have "1 mod (p - 1) = 1" using ed by (metis mod_mod_trivial)
  moreover have "0 < e * d" using ed by (cases "e * d") auto
  ultimately have re: "r ^ (e * d) mod p = r mod p" using power_one_mod [OF p(1)] ed by simp
  have "(x * (r ^ e mod n) mod n) mod p = (x * r ^ e) mod p"
    using n by (metis mod_mod_cancel mod_mult_right_eq)
  then have "(x * (r ^ e mod n) mod n) ^ d mod p = (x * r ^ e) ^ d mod p" by (metis power_mod)
  also have "(x * r ^ e) ^ d = x ^ d * r ^ (e * d)" by (simp add: power_mult_distrib power_mult)
  also have "\<dots> mod p = x ^ d * r mod p" using re by (metis mod_mult_right_eq)
  finally have "((x * (r ^ e mod n) mod n) ^ d mod p) * ((r mod p) ^ (p - 2) mod p) mod p
      = (x ^ d * r) * r ^ (p - 2) mod p" by (metis mod_mult_eq power_mod)
  also have "\<dots> = x ^ d * (r * r ^ (p - 2) mod p) mod p" by (simp add: mod_mult_right_eq mult.assoc)
  also have "\<dots> = x ^ d mod p" unfolding fermat_inverse [OF p] by simp
  finally show ?thesis .
qed

text \<open>The inverse of the blinding factor that the code computes, by Fermat.\<close>

lemma blinding_inverse:
  assumes p: "odd (be_val pb)" "1 < be_val pb" "length pb \<le> 256"
    and v: "bi_val P = be_val pb" "bi_val Two = 2" "bi_val B = r mod be_val pb"
  shows "\<exists>T z. bi_mod_subtract P Two P = Inr T \<and>
    fixed_mod_exp_to_bigint (bi_to_be_bytes B) (bi_to_be_bytes T) pb (length pb * 8) = Inr z \<and>
    bi_val z = (r mod be_val pb) ^ (be_val pb - 2) mod be_val pb"
proof -
  have p3: "2 < be_val pb" using p(1,2) by presburger
  obtain T where T: "bi_mod_subtract P Two P = Inr T" "int (bi_val T) = (int (be_val pb) - 2) mod int (be_val pb)"
    using bi_mod_subtract_val [of P P Two] v p(2) by auto
  have "(int (be_val pb) - 2) mod int (be_val pb) = int (be_val pb) - 2"
    using p3 by (intro mod_pos_pos_trivial) simp_all
  then have t: "bi_val T = be_val pb - 2" using T(2) p3 by simp
  have "be_val (bi_to_be_bytes T) < be_val pb" using t p3 by (simp add: bi_to_be_bytes_val)
  note e = exponent_fits [OF this]
  show ?thesis
    using fixed_mod_exp_value [OF p, of "bi_to_be_bytes B" "bi_to_be_bytes T" "length pb * 8"] T(1)
    unfolding e by (simp add: bi_to_be_bytes_val v(3) t)
qed

lemma blinded_equals_private:
  assumes k: "rsa_prime_key k" "rsa_fits k" and lt: "be_val m < be_val (rp_modulus k)"
    and r: "\<not> be_val (rp_prime1 k) dvd be_val r" "\<not> be_val (rp_prime2 k) dvd be_val r"
  shows "rsa_private_crt_blinded_operation k m r = rsa_private_operation k m"
proof -
  note D = rsa_prime_keyD [OF k(1)]
  let ?p = "be_val (rp_prime1 k)" and ?q = "be_val (rp_prime2 k)" and ?n = "be_val (rp_modulus k)"
  let ?d = "be_val (rp_private_exponent k)" and ?e = "be_val (rp_public_exponent k)"
  from k(1) obtain N E P Q E1 E2 QI where
    N: "import_non_zero (rp_modulus k) ''RSA modulus must be non-zero'' = Inr N" "bi_val N = be_val (rp_modulus k)" and
    E: "import_non_zero (rp_public_exponent k) ''RSA public exponent must be non-zero'' = Inr E"
      "bi_val E = be_val (rp_public_exponent k)" and
    P: "import_non_zero (rp_prime1 k) ''RSA prime1 must be non-zero'' = Inr P" "bi_val P = be_val (rp_prime1 k)" and
    Q: "import_non_zero (rp_prime2 k) ''RSA prime2 must be non-zero'' = Inr Q" "bi_val Q = be_val (rp_prime2 k)" and
    Es: "import_non_zero (rp_exponent1 k) ''RSA exponent1 must be non-zero'' = Inr E1"
      "import_non_zero (rp_exponent2 k) ''RSA exponent2 must be non-zero'' = Inr E2" and
    QI: "import_non_zero (rp_coefficient k) ''RSA coefficient must be non-zero'' = Inr QI"
      "bi_val QI = be_val (rp_coefficient k)" and
    m: "bi_val P \<noteq> 0" "bi_val Q \<noteq> 0" "bi_val N \<noteq> 0"
    by (rule rsa_key_imports)
  obtain X where X: "bi_from_be_bytes m = Inr X" "bi_val X = be_val m" using bi_from_be_bytes_val by blast
  obtain R where R: "bi_from_be_bytes r = Inr R" "bi_val R = be_val r" using bi_from_be_bytes_val by blast
  obtain One where One: "bi_from_be_bytes [1] = Inr One" "bi_val One = 1"
    using bi_from_be_bytes_val [of "[1]"] by (auto simp: be_val_Cons)
  obtain Two where Two: "bi_from_be_bytes [2] = Inr Two" "bi_val Two = 2"
    using bi_from_be_bytes_val [of "[2]"] by (auto simp: be_val_Cons)
  obtain R1 where R1: "bi_mod_multiply R One P = Inr R1" "bi_val R1 = be_val r mod ?p"
    using bi_mod_multiply_val [OF m(1), of R One] R One P by auto
  obtain R2 where R2: "bi_mod_multiply R One Q = Inr R2" "bi_val R2 = be_val r mod ?q"
    using bi_mod_multiply_val [OF m(2), of R One] R One Q by auto
  have "be_val r \<noteq> 0" by (rule ccontr) (use r in simp)
  then have r0: "bi_val R \<noteq> 0" "bi_val R1 \<noteq> 0" "bi_val R2 \<noteq> 0" 
    using r R(2) R1(2) R2(2) by (auto simp: dvd_eq_mod_eq_0)
  obtain BP where BP: "bi_mod_exp R E N = Inr BP" "bi_val BP = be_val r ^ ?e mod ?n"
    using bi_mod_exp_val [OF m(3), of R E] R E N by auto
  obtain BR where BR: "bi_mod_multiply X BP N = Inr BR" "bi_val BR = be_val m * (be_val r ^ ?e mod ?n) mod ?n"
    using bi_mod_multiply_val [OF m(3), of X BP] X BP N by auto
  obtain B1 where B1: "fixed_mod_exp_to_bigint (bi_to_be_bytes BR) (rp_exponent1 k) (rp_prime1 k) (length (rp_prime1 k) * 8) = Inr B1"
      "bi_val B1 = bi_val BR ^ ?d mod ?p"
    using crt_exponentiation(1) [OF k, of "bi_to_be_bytes BR"] by (auto simp: bi_to_be_bytes_val)
  obtain B2 where B2: "fixed_mod_exp_to_bigint (bi_to_be_bytes BR) (rp_exponent2 k) (rp_prime2 k) (length (rp_prime2 k) * 8) = Inr B2"
      "bi_val B2 = bi_val BR ^ ?d mod ?q"
    using crt_exponentiation(2) [OF k, of "bi_to_be_bytes BR"] by (auto simp: bi_to_be_bytes_val)
  have fits: "length (rp_prime1 k) \<le> 256" "length (rp_prime2 k) \<le> 256" using k(2) by (simp_all add: rsa_fits_def)
  obtain T1 I1 where I1: "bi_mod_subtract P Two P = Inr T1"
      "fixed_mod_exp_to_bigint (bi_to_be_bytes R1) (bi_to_be_bytes T1) (rp_prime1 k) (length (rp_prime1 k) * 8) = Inr I1"
      "bi_val I1 = (be_val r mod ?p) ^ (?p - 2) mod ?p"
    using blinding_inverse [OF D(3,5) fits(1) P(2) Two(2) R1(2)] by blast
  obtain T2 I2 where I2: "bi_mod_subtract Q Two Q = Inr T2"
      "fixed_mod_exp_to_bigint (bi_to_be_bytes R2) (bi_to_be_bytes T2) (rp_prime2 k) (length (rp_prime2 k) * 8) = Inr I2"
      "bi_val I2 = (be_val r mod ?q) ^ (?q - 2) mod ?q"
    using blinding_inverse [OF D(4,6) fits(2) Q(2) Two(2) R2(2)] by blast
  obtain M1 where M1: "bi_mod_multiply B1 I1 P = Inr M1" "bi_val M1 = bi_val B1 * bi_val I1 mod ?p"
    using bi_mod_multiply_val [OF m(1), of B1 I1] P by auto
  obtain M2 where M2: "bi_mod_multiply B2 I2 Q = Inr M2" "bi_val M2 = bi_val B2 * bi_val I2 mod ?q"
    using bi_mod_multiply_val [OF m(2), of B2 I2] Q by auto
  have "bi_val M1 = be_val m ^ ?d mod ?p"
    unfolding M1(2) B1(2) I1(3) BR(2) by (rule unblind [OF D(1) r(1) D(15)]) (simp add: D(7))
  moreover have "bi_val M2 = be_val m ^ ?d mod ?q"
    unfolding M2(2) B2(2) I2(3) BR(2) by (rule unblind [OF D(2) r(2) D(16)]) (simp add: D(7))
  ultimately obtain out where out: "crt_recombine M1 M2 P Q QI N (length (rp_modulus k)) = Inr out"
      "be_octets (length (rp_modulus k)) (be_val m ^ ?d mod ?n) out"
    using key_recombine [OF k(1) N(2) P(2) Q(2) QI(2), of "be_val m ^ ?d" M1 M2] by auto
  have "rsa_private_crt_blinded_operation k m r = Inr out"
    using lt N(2) X(2) r0
    by (simp add: rsa_private_crt_blinded_operation_def N(1) E(1) P(1) Q(1) Es QI(1) X(1) R(1) One(1) Two(1)
        R1(1) R2(1) BP(1) BR(1) B1(1) B2(1) I1(1,2) I2(1,2) M1(1) M2(1) out(1) import_failed_def)
  then show ?thesis using iffD2 [OF private_result [OF k(1) lt] out(2)] by simp
qed

text \<open>The public operation, for the public part of a key.\<close>

lemma public_result:
  assumes "rsa_prime_key k" "be_val m < be_val (rp_modulus k)"
  shows "rsa_public_operation (rsa_public_part k) m = Inr out \<longleftrightarrow>
    be_octets (length (rp_modulus k)) (be_val m ^ be_val (rp_public_exponent k) mod be_val (rp_modulus k)) out"
proof -
  have "be_val (rp_modulus k) \<noteq> 0" "be_val (rp_public_exponent k) \<noteq> 0" 
    using rsa_prime_keyD [OF assms(1)] by simp_all
  then obtain z where "rsa_public_operation (rsa_public_part k) m = Inr z"
      "be_octets (length (rp_modulus k)) (be_val m ^ be_val (rp_public_exponent k) mod be_val (rp_modulus k)) z"
    using rsa_public_value [of "rsa_public_part k" m] assms(2) by (auto simp: rsa_public_part_def)
  then show ?thesis using be_octets_unique by auto
qed

text \<open>Two operations that raise to exponents whose product acts as one.\<close>

lemma rsa_compose:
  assumes f: "\<And>m out. be_val m < n \<Longrightarrow> f m = Inr out \<longleftrightarrow> be_octets w (be_val m ^ e mod n) out"
    and g: "\<And>m out. be_val m < n \<Longrightarrow> g m = Inr out \<longleftrightarrow> be_octets w (be_val m ^ d mod n) out"
    and inv: "\<And>x. x < n \<Longrightarrow> x ^ (e * d) mod n = x"
    and ex: "\<And>m. be_val m < n \<Longrightarrow> \<exists>out. f m = Inr out"
    and m: "length m = w" "be_val m < n"
  shows "rbind (f m) g = Inr m"
proof -
  obtain c where c: "f m = Inr c" using ex [OF m(2)] by blast
  then have v: "be_octets w (be_val m ^ e mod n) c" using f [OF m(2)] by simp
  then have lt: "be_val c < n" using m(2) by (simp add: be_octets_def)
  have "be_val c ^ d mod n = be_val m ^ (e * d) mod n"
    using v by (simp add: be_octets_def power_mod power_mult)
  then have "be_octets w (be_val c ^ d mod n) m" using m inv [OF m(2)] by (simp add: be_octets_def)
  then show ?thesis using g [OF lt] c by simp
qed

text \<open>The blinded operation on any input and blinding factor.\<close>

lemma rsa_blinded_value:
  assumes k: "rsa_prime_key k" "rsa_fits k"
  shows "rsa_private_crt_blinded_operation k m r =
    (if be_val (rp_modulus k) \<le> be_val m
     then Inl (rsa_error Invalid_argument ''RSA representative must be less than modulus'')
     else if be_val r = 0 then Inl (rsa_error Invalid_argument ''RSA blinding factor must be non-zero'')
     else if be_val (rp_prime1 k) dvd be_val r \<or> be_val (rp_prime2 k) dvd be_val r
     then Inl (rsa_error Invalid_argument ''RSA blinding factor must be invertible'')
     else rsa_private_operation k m)"
proof -
  obtain X where X: "bi_from_be_bytes m = Inr X" "bi_val X = be_val m" using bi_from_be_bytes_val by blast
  obtain R where R: "bi_from_be_bytes r = Inr R" "bi_val R = be_val r" using bi_from_be_bytes_val by blast
  obtain One where One: "bi_from_be_bytes [1] = Inr One" "bi_val One = 1"
    using bi_from_be_bytes_val [of "[1]"] by (auto simp: be_val_Cons)
  have Two: "has_value (bi_from_be_bytes [2])" using bi_from_be_bytes_val [of "[2]"] by (auto simp: has_value_iff)
  show ?thesis
  proof (cases "be_val m < be_val (rp_modulus k) \<and> \<not> be_val (rp_prime1 k) dvd be_val r \<and> \<not> be_val (rp_prime2 k) dvd be_val r")
    case True
    moreover have "be_val r \<noteq> 0" by (rule ccontr) (use True in simp)
    ultimately show ?thesis using blinded_equals_private [OF k, of m r] by auto
  next
    case False
    from k(1) obtain N E P Q E1 E2 QI where
      im: "import_non_zero (rp_modulus k) ''RSA modulus must be non-zero'' = Inr N"
        "import_non_zero (rp_public_exponent k) ''RSA public exponent must be non-zero'' = Inr E"
        "import_non_zero (rp_prime1 k) ''RSA prime1 must be non-zero'' = Inr P"
        "import_non_zero (rp_prime2 k) ''RSA prime2 must be non-zero'' = Inr Q"
        "import_non_zero (rp_exponent1 k) ''RSA exponent1 must be non-zero'' = Inr E1"
        "import_non_zero (rp_exponent2 k) ''RSA exponent2 must be non-zero'' = Inr E2"
        "import_non_zero (rp_coefficient k) ''RSA coefficient must be non-zero'' = Inr QI"
      and v: "bi_val N = be_val (rp_modulus k)" "bi_val P = be_val (rp_prime1 k)" "bi_val Q = be_val (rp_prime2 k)"
      and m: "bi_val P \<noteq> 0" "bi_val Q \<noteq> 0"
      by (rule rsa_key_imports)
    obtain R1 where R1: "bi_mod_multiply R One P = Inr R1" "bi_val R1 = be_val r mod be_val (rp_prime1 k)"
      using bi_mod_multiply_val [OF m(1), of R One] R(2) One(2) v(2) by auto
    obtain R2 where R2: "bi_mod_multiply R One Q = Inr R2" "bi_val R2 = be_val r mod be_val (rp_prime2 k)"
      using bi_mod_multiply_val [OF m(2), of R One] R(2) One(2) v(3) by auto
    show ?thesis
      using False Two X(2) v(1) R(2)
      by (auto simp: rsa_private_crt_blinded_operation_def im X(1) R(1) One(1) R1 R2 import_failed_def dvd_eq_mod_eq_0)
  qed
qed

section \<open>Properties\<close>

text \<open>
  C16: the private operation inverts the public one and the other way round, on every message below
  the modulus in as many bytes as the modulus, for each key the parser accepts whose factors are
  prime: encryption is undone by decryption, and a signature is verified.
\<close>

theorem rsa_roundtrip:
  assumes "rsa_private_ok k" "prime_nat (be_val (rp_prime1 k))" "prime_nat (be_val (rp_prime2 k))"
    and m: "length m = length (rp_modulus k)" "be_val m < be_val (rp_modulus k)"
  shows "rbind (rsa_public_operation (rsa_public_part k) m) (rsa_private_operation k) = Inr m \<and>
    rbind (rsa_private_operation k m) (rsa_public_operation (rsa_public_part k)) = Inr m"
proof -
  have k: "rsa_prime_key k" using assms by (simp add: rsa_prime_key_def)
  note D = rsa_prime_keyD [OF k]
  have ex: "\<exists>out. rsa_public_operation (rsa_public_part k) x = Inr out" "\<exists>out. rsa_private_operation k x = Inr out"
    if "be_val x < be_val (rp_modulus k)" for x
    using rsa_public_value [of "rsa_public_part k" x] rsa_private_value [of k x] that D(13,14)
    by (auto simp: rsa_public_part_def)
  have inv: "x ^ (be_val (rp_private_exponent k) * be_val (rp_public_exponent k)) mod be_val (rp_modulus k) = x"
    if "x < be_val (rp_modulus k)" for x
    using rsa_inverse [OF k that] by (simp add: mult.commute)
  show ?thesis
    by (intro conjI rsa_compose [OF public_result [OF k] private_result [OF k] rsa_inverse [OF k] ex(1) m]
        rsa_compose [OF private_result [OF k] public_result [OF k] inv ex(2) m])
qed

definition example_key :: rsa_private_key_material where
  "example_key = \<lparr>rp_modulus = [35], rp_public_exponent = [5], rp_private_exponent = [5],
      rp_prime1 = [5], rp_prime2 = [7], rp_exponent1 = [1], rp_exponent2 = [5], rp_coefficient = [3]\<rparr>"

lemma prime_nat_check: "1 < p \<Longrightarrow> list_all (\<lambda>m. \<not> m dvd p) [2..<p] \<Longrightarrow> prime_nat p"
proof -
  assume p: "1 < p" and all: "list_all (\<lambda>m. \<not> m dvd p) [2..<p]"
  have "m = 1 \<or> m = p" if "m dvd p" for m
  proof -
    have "m \<le> p" using that p by (auto dest: dvd_imp_le)
    moreover have "m \<noteq> 0" by (rule ccontr) (use that p in simp)
    moreover have "\<not> (2 \<le> m \<and> m < p)" using all that by (auto simp: list_all_iff)
    ultimately show ?thesis by linarith
  qed
  then show ?thesis using p by (simp add: prime_nat_def)
qed

lemma example_key_ok: "rsa_private_ok example_key" "prime_nat (be_val (rp_prime1 example_key))"
    "prime_nat (be_val (rp_prime2 example_key))" "rsa_fits example_key" "be_val (rp_modulus example_key) = 35"
    "length (rp_modulus example_key) = 1" "be_val (rp_prime1 example_key) = 5" "be_val (rp_prime2 example_key) = 7"
  by (simp_all add: example_key_def rsa_private_ok_def rsa_odd_uint_def rsa_uint_def rsa_relations_def be_val_Cons
      rsa_fits_def prime_nat_check list_all_iff)

theorem rsa_roundtrip_witness:
  "rbind (rsa_public_operation (rsa_public_part example_key) [11]) (rsa_private_operation example_key) = Inr [11]"
  using rsa_roundtrip [OF example_key_ok(1-3), of "[11]"] by (simp add: example_key_ok(5,6) be_val_Cons)

text \<open>
  C15: the operation by the Chinese remainder theorem, on fixed-width integers, returns what the
  private operation returns, for every input: also the error for an input that is not below the
  modulus. The factors have to be prime and to fit the width of 2048 bits.
\<close>

theorem rsa_crt_correct:
  assumes "rsa_private_ok k" "prime_nat (be_val (rp_prime1 k))" "prime_nat (be_val (rp_prime2 k))"
    and "length (rp_prime1 k) \<le> 256" "length (rp_prime2 k) \<le> 256"
  shows "rsa_private_crt_operation k m = rsa_private_operation k m"
proof (cases "be_val m < be_val (rp_modulus k)")
  case True
  then show ?thesis using assms by (intro crt_equals_private) (simp_all add: rsa_prime_key_def rsa_fits_def)
next
  case False
  have k: "rsa_prime_key k" using assms by (simp add: rsa_prime_key_def)
  obtain X where X: "bi_from_be_bytes m = Inr X" "bi_val X = be_val m" using bi_from_be_bytes_val by blast
  from k show ?thesis
    by (rule rsa_key_imports)
      (use False X rsa_private_value [of k m] rsa_prime_keyD [OF k] in \<open>auto simp: rsa_private_crt_operation_def import_failed_def\<close>)
qed

theorem rsa_crt_correct_witness:
  "rsa_private_crt_operation example_key [11] = rsa_private_operation example_key [11]"
  using rsa_crt_correct [OF example_key_ok(1-3), of "[11]"] by (simp add: example_key_def)

text \<open>
  C14: blinding does not change the result. The blinded operation fails exactly on an input that
  is not below the modulus, and on a blinding factor that is zero or not invertible; otherwise it
  returns what the private operation returns, whatever the blinding factor.
\<close>

theorem rsa_blinding_correct:
  assumes "rsa_private_ok k" "prime_nat (be_val (rp_prime1 k))" "prime_nat (be_val (rp_prime2 k))"
    and "length (rp_prime1 k) \<le> 256" "length (rp_prime2 k) \<le> 256"
  shows "rsa_private_crt_blinded_operation k m r =
    (if be_val (rp_modulus k) \<le> be_val m
     then Inl (rsa_error Invalid_argument ''RSA representative must be less than modulus'')
     else if be_val r = 0 then Inl (rsa_error Invalid_argument ''RSA blinding factor must be non-zero'')
     else if be_val (rp_prime1 k) dvd be_val r \<or> be_val (rp_prime2 k) dvd be_val r
     then Inl (rsa_error Invalid_argument ''RSA blinding factor must be invertible'')
     else rsa_private_operation k m)"
  using rsa_blinded_value [of k m r] assms by (simp add: rsa_prime_key_def rsa_fits_def)

theorem rsa_blinding_correct_witness:
  "rsa_private_crt_blinded_operation example_key [11] [3] = rsa_private_operation example_key [11]"
  using rsa_blinding_correct [OF example_key_ok(1-3), of "[11]" "[3]"]
  by (simp add: example_key_ok(5,7,8) be_val_Cons) (simp add: example_key_def)

text \<open>
  The public operation on any key and input: the three refusals, and otherwise the power
  modulo the modulus, in exactly as many bytes as the modulus is written in.
\<close>

lemma rsa_public_operation_exact:
  "if be_val (rk_modulus k) = 0
   then rsa_public_operation k m = Inl (rsa_error Invalid_key ''RSA modulus must be non-zero'')
   else if be_val (rk_public_exponent k) = 0
   then rsa_public_operation k m = Inl (rsa_error Invalid_key ''RSA exponent must be non-zero'')
   else if be_val (rk_modulus k) \<le> be_val m
   then rsa_public_operation k m = Inl (rsa_error Invalid_argument ''RSA representative must be less than modulus'')
   else \<exists>out. rsa_public_operation k m = Inr out \<and> length out = length (rk_modulus k) \<and>
     be_val out = be_val m ^ be_val (rk_public_exponent k) mod be_val (rk_modulus k)"
  using rsa_public_value [of k m] by (auto simp: be_octets_def)

end
