(* ===== verification/Mgf1.thy ===== *)
theory Mgf1
  imports Hmac
begin

text \<open>
  The hash and the mask generation function that src/rsa_pss.cpp and src/rsa_oaep.cpp define in the
  same words. The loop of mgf1 counts in 32 bits; it ends for every size, because each digest is
  not empty, and returns the octets that PKCS #1 (appendix B.2.1) prescribes.
\<close>

section \<open>Hash\<close>

text \<open>The branch for other algorithms of the source is for values outside the enumeration.\<close>

fun rsa_digest :: "hash_algorithm \<Rightarrow> bytes \<Rightarrow> bytes result" where
  "rsa_digest Sha256 input =
     (case sha256_update sha256_new input of
        (Inl e, _) \<Rightarrow> Inl e
      | (Inr _, context) \<Rightarrow> fst (sha256_final context))"
| "rsa_digest Sha512 input =
     (case sha512_update sha512_new input of
        (Inl e, _) \<Rightarrow> Inl e
      | (Inr _, context) \<Rightarrow> fst (sha512_final context))"

lemma rsa_digest_spec: "length x < 2 ^ 64 \<Longrightarrow> rsa_digest a x = Inr (hash_spec a x)"
  using sha256_update_absorbed [OF sha256_absorbed_new, of x] sha512_update_absorbed [OF sha512_absorbed_new, of x]
  by (cases a) (auto simp: sha256_final_absorbed sha512_final_absorbed split: prod.split sum.split)

text \<open>A digest has its size, for inputs of any length.\<close>

lemma sha256_final_length: "fst (sha256_final c) = Inr d \<Longrightarrow> length d = 32"
  by (auto simp: sha256_final_def md_finish_def sha256_transform_def Let_def length_concat_const [of store_be32 4]
      split: if_splits)

lemma sha512_final_length: "fst (sha512_final c) = Inr d \<Longrightarrow> length d = 64"
  by (auto simp: sha512_final_def md_finish_def sha512_transform_def Let_def length_concat_const [of store_be64 8]
      split: if_splits)

lemma rsa_digest_length: "rsa_digest a x = Inr d \<Longrightarrow> length d = digest_size a"
  by (cases a) (auto dest: sha256_final_length sha512_final_length split: prod.splits sum.splits)

section \<open>MGF1\<close>

function mgf1_loop :: "hash_algorithm \<Rightarrow> bytes \<Rightarrow> nat \<Rightarrow> u32 \<Rightarrow> bytes \<Rightarrow> bytes result" where
  "mgf1_loop algorithm seed output_size counter out =
     (if \<not> length out < output_size then Inr out
      else
        (case rsa_digest algorithm (seed @ store_be32 counter) of
           Inl e \<Rightarrow> Inl e
         | Inr block \<Rightarrow>
             mgf1_loop algorithm seed output_size (counter + 1)
               (out @ take (min (length block) (output_size - length out)) block)))"
  by pat_completeness auto
termination
proof (relation "measure (\<lambda>(algorithm, seed, output_size, counter, out). output_size - length out)", goal_cases)
  case (2 algorithm seed output_size counter out block)
  then have "0 < length block" using rsa_digest_length [of algorithm] digest_le_block(3) [of algorithm] by metis
  moreover have "n - (l + min k (n - l)) < n - l" if "l < n" "0 < k" for n l k :: nat using that by arith
  ultimately show ?case using 2 by simp
qed simp

declare mgf1_loop.simps [simp del]

definition mgf1 :: "hash_algorithm \<Rightarrow> bytes \<Rightarrow> nat \<Rightarrow> bytes result" where
  "mgf1 algorithm seed output_size = mgf1_loop algorithm seed output_size 0 []"

text \<open>PKCS #1: the concatenation of the digests of the seed and a counter, cut to size.\<close>

definition mgf1_octets :: "hash_algorithm \<Rightarrow> bytes \<Rightarrow> nat \<Rightarrow> bytes" where
  "mgf1_octets a seed n =
     take n (concat (map (\<lambda>i. hash_spec a (seed @ store_be32 (of_nat i))) [0..<(n + digest_size a - 1) div digest_size a]))"

lemma length_digests: "length (concat (map (\<lambda>i. hash_spec a (f i)) is)) = digest_size a * length is"
  by (rule length_concat_const) simp

lemma length_mgf1_octets [simp]: "length (mgf1_octets a seed n) = n"
  using ceil_div_cover [of "digest_size a" n] digest_le_block(3) [of a]
  by (simp add: mgf1_octets_def length_digests mult.commute min_def)

text \<open>The loop after \<open>c\<close> rounds, which have filled the output with whole digests.\<close>

lemma mgf1_loop_spec:
  fixes a
  assumes "length seed + 4 < 2 ^ 64"
  defines "T \<equiv> \<lambda>k. concat (map (\<lambda>i. hash_spec a (seed @ store_be32 (of_nat i))) [0..<k])"
  shows "out = take n (T c) \<Longrightarrow> mgf1_loop a seed n (of_nat c) out = Inr (mgf1_octets a seed n)"
proof (induction "n - length out" arbitrary: c out rule: less_induct)
  case less
  let ?h = "digest_size a" and ?k = "(n + digest_size a - 1) div digest_size a"
  have h: "0 < ?h" by (rule digest_le_block)
  have T: "length (T k) = ?h * k" for k by (simp add: T_def length_digests)
  have octets: "mgf1_octets a seed n = take n (T ?k)" by (simp add: mgf1_octets_def T_def)
  show ?case
  proof (cases "length out < n")
    case False
    then have "n \<le> c * ?h" using less.prems T [of c] by (simp add: mult.commute min_def split: if_splits)
    then have "?k \<le> c" using ceil_div_le_iff [OF h] by blast
    then obtain d where d: "c = ?k + d" using le_Suc_ex by blast
    have "T (?k + d) = T ?k @ concat (map (\<lambda>i. hash_spec a (seed @ store_be32 (of_nat i))) [?k..<?k + d])"
      unfolding T_def upt_add_eq_append [OF le0] by simp
    moreover have "n \<le> length (T ?k)" using ceil_div_cover [OF h, of n] T [of ?k] by (simp add: mult.commute)
    ultimately have "take n (T c) = take n (T ?k)" unfolding d by simp
    then show ?thesis using False less.prems octets by (simp add: mgf1_loop.simps)
  next
    case True
    let ?b = "hash_spec a (seed @ store_be32 (of_nat c))"
    let ?out = "out @ take (min (length ?b) (n - length out)) ?b"
    have dig: "rsa_digest a (seed @ store_be32 (of_nat c)) = Inr ?b"
      using assms(1) by (intro rsa_digest_spec) simp
    have full: "out = T c" "length (T c) < n" using True less.prems by (simp_all add: min_def split: if_splits)
    have "?out = take n (T (Suc c))" using full by (simp add: T_def min_def)
    moreover have "n - length ?out < n - length out" using True h by simp
    ultimately have "mgf1_loop a seed n (of_nat (Suc c)) ?out = Inr (mgf1_octets a seed n)"
      using less.hyps by blast
    then show ?thesis using True dig by (subst mgf1_loop.simps) (simp add: add.commute)
  qed
qed

lemma mgf1_spec: "length seed + 4 < 2 ^ 64 \<Longrightarrow> mgf1 a seed n = Inr (mgf1_octets a seed n)"
  using mgf1_loop_spec [of seed "[]" n a 0] by (simp add: mgf1_def)

text \<open>Constant-time conditions, and their conjunction.\<close>

lemma and_masks [simp]:
  "(if P then 0xff else 0) AND (if Q then 0xff else 0) = (if P \<and> Q then 0xff else (0::u8))"
  by simp

lemma mask_is_set [simp]: "(if P then 0xff else 0) = (0xff::u8) \<longleftrightarrow> P"
  by simp

lemma xor_bytes_twice: "length xs = length ys \<Longrightarrow> xor_bytes (xor_bytes xs ys) ys = xs"
  by (simp add: xor_bytes_cancel)

end
