(* ===== verification/Rsa_Pss.thy ===== *)
theory Rsa_Pss
  imports Mgf1 Secure_Memory
begin

text \<open>
  src/rsa_pss.cpp: the PSS encoding of a message hash with a salt, and its verification, which
  recovers the salt from the masked data block and hashes again. The verification, written with
  masks instead of branches, accepts exactly the encodings. Its sizes are computed in 64 bits, as in
  the code; where they wrap, the code reads outside its arrays, and the result is None.
\<close>

section \<open>Encoding\<close>

record rsa_pss_params =
  ps_message_hash :: hash_algorithm
  ps_mgf1_hash :: hash_algorithm
  ps_salt_length :: u64

definition pss_error :: "error_code \<Rightarrow> string \<Rightarrow> crypto_error" where
  "pss_error c message = make_error c ''rsa_pss'' message"

definition pss_hash :: "hash_algorithm \<Rightarrow> bytes \<Rightarrow> bytes \<Rightarrow> bytes result" where
  "pss_hash algorithm message_hash salt = rsa_digest algorithm (replicate 8 0 @ message_hash @ salt)"

text \<open>The unused bits of the first byte are cleared.\<close>

definition clear_unused_bits :: "nat \<Rightarrow> bytes \<Rightarrow> bytes" where
  "clear_unused_bits unused_bits db =
     (if 0 < unused_bits then db[0 := db ! 0 AND drop_bit unused_bits 0xFF] else db)"

definition emsa_pss_encode :: "nat \<Rightarrow> bytes \<Rightarrow> bytes \<Rightarrow> rsa_pss_params \<Rightarrow> bytes result" where
  "emsa_pss_encode encoded_bits message_hash salt params =
     (let hash_size = digest_size (ps_message_hash params) in
      if hash_size = 0 \<or> digest_size (ps_mgf1_hash params) = 0
      then Inl (pss_error Unsupported_algorithm ''hash algorithm is not supported'')
      else if length message_hash \<noteq> hash_size
      then Inl (pss_error Invalid_argument ''message hash size does not match RSA-PSS hash algorithm'')
      else if length salt \<noteq> unat (ps_salt_length params)
      then Inl (pss_error Invalid_argument ''salt size does not match RSA-PSS salt length'')
      else
        let encoded_size = (encoded_bits + 7) div 8 in
        if encoded_size < hash_size + length salt + 2
        then Inl (pss_error Invalid_argument ''RSA-PSS encoded message is too short for hash and salt'')
        else
          rbind (pss_hash (ps_message_hash params) message_hash salt) (\<lambda>digest.
            let db_size = encoded_size - hash_size - 1;
                padding_size = encoded_size - length salt - hash_size - 2;
                db = replicate db_size 0;
                db = db[padding_size := 0x01];
                db = write_at db (padding_size + 1) salt in
            rbind (mgf1 (ps_mgf1_hash params) digest db_size) (\<lambda>db_mask.
              let db = xor_bytes db db_mask;
                  db = clear_unused_bits (8 * encoded_size - encoded_bits) db
              in Inr (db @ digest @ [0xBC]))))"

section \<open>Verification\<close>

text \<open>
  A salt length is any 64-bit number, so the sum of the guard and the padding size can wrap. A result of
  None is a read outside the encoded message or outside the data block, which C++ leaves undefined: the
  bytes of the message that the code splits off first, and in the data block the padding, the byte
  behind it and the salt.
\<close>

definition emsa_pss_verify :: "bytes \<Rightarrow> nat \<Rightarrow> bytes \<Rightarrow> rsa_pss_params \<Rightarrow> bool result option" where
  "emsa_pss_verify encoded_message encoded_bits message_hash params =
     (let hash_size = digest_size (ps_message_hash params) in
      if hash_size = 0 \<or> digest_size (ps_mgf1_hash params) = 0
      then Some (Inl (pss_error Unsupported_algorithm ''hash algorithm is not supported''))
      else if length message_hash \<noteq> hash_size
      then Some (Inl (pss_error Invalid_argument ''message hash size does not match RSA-PSS hash algorithm''))
      else if length encoded_message \<noteq> (encoded_bits + 7) div 8
      then Some (Inl (pss_error Invalid_argument ''encoded message size does not match encoded bit count''))
      else
        let encoded_size = (of_nat (length encoded_message) :: u64) in
        if encoded_size < of_nat hash_size + ps_salt_length params + 2 then Some (Inr False)
        else if length encoded_message < hash_size + 1 then None
        else
          let valid_mask = constant_time_is_zero (last encoded_message XOR 0xBC);
              masked_db_size = length encoded_message - hash_size - 1;
              masked_db = take masked_db_size encoded_message;
              digest = take hash_size (drop masked_db_size encoded_message);
              unused_bits = 8 * length encoded_message - encoded_bits;
              valid_mask =
                (if 0 < unused_bits
                 then valid_mask AND constant_time_is_zero (masked_db ! 0 AND push_bit (8 - unused_bits) 0xFF)
                 else valid_mask) in
          (case mgf1 (ps_mgf1_hash params) digest masked_db_size of
             Inl e \<Rightarrow> Some (Inl e)
           | Inr db_mask \<Rightarrow>
               let db = clear_unused_bits unused_bits (xor_bytes masked_db db_mask);
                   padding_size = unat (encoded_size - of_nat hash_size - ps_salt_length params - 2);
                   salt_size = unat (ps_salt_length params) in
               if length db < padding_size + 1 + salt_size then None
               else
                 let padding_diff = foldl (\<lambda>d b. d OR b) 0 (take padding_size db);
                     valid_mask = valid_mask AND constant_time_is_zero padding_diff;
                     valid_mask = valid_mask AND constant_time_is_zero (db ! padding_size XOR 0x01) in
                 (case pss_hash (ps_message_hash params) message_hash (take salt_size (drop (padding_size + 1) db)) of
                    Inl e \<Rightarrow> Some (Inl e)
                  | Inr expected_hash \<Rightarrow>
                      let valid_mask = valid_mask AND constant_time_bool_mask (constant_time_equal digest expected_hash)
                      in Some (Inr (valid_mask = 0xFF)))))"

section \<open>The masked data block\<close>

lemma length_clear [simp]: "length (clear_unused_bits u db) = length db"
  by (simp add: clear_unused_bits_def)

text \<open>The bits that are kept and the bits that have to be zero complement each other.\<close>

lemma ff_mask: "(0xFF::u8) = mask 8"
  by (simp add: mask_eq_exp_minus_1)

lemma bit_drop_ff: "n < 8 \<Longrightarrow> bit (drop_bit u (0xFF::u8)) n \<longleftrightarrow> n + u < 8"
  unfolding ff_mask by (auto simp: bit_drop_bit_eq bit_mask_iff)

lemma bit_push_ff: "n < 8 \<Longrightarrow> bit (push_bit u (0xFF::u8)) n \<longleftrightarrow> u \<le> n"
  unfolding ff_mask by (auto simp: bit_push_bit_iff bit_mask_iff)

lemma unused_bits_zero:
  assumes "u \<le> 8"
  shows "(b::u8) AND push_bit (8 - u) 0xFF = 0 \<longleftrightarrow> b AND drop_bit u 0xFF = b"
proof -
  have "b AND push_bit (8 - u) 0xFF = 0 \<longleftrightarrow> (\<forall>n<8. bit b n \<longrightarrow> n + u < 8)"
    using assms by (auto simp: bit_eq_iff bit_and_iff bit_push_ff)
  also have "\<dots> \<longleftrightarrow> b AND drop_bit u 0xFF = b"
    by (auto simp: bit_eq_iff bit_and_iff bit_drop_ff)
  finally show ?thesis .
qed

lemma clear_fix:
  "x # xs = clear_unused_bits u (x # xs) \<longleftrightarrow> u = 0 \<or> x AND drop_bit u 0xFF = x"
  by (auto simp: clear_unused_bits_def)

text \<open>Masking twice, clearing the unused bits each time, gives a block back whose unused bits are clear.\<close>

lemma and_xor_and: "((((x::u8) AND m) XOR y) AND m) = (x XOR y) AND m"
  by (rule bit_word_eqI) (auto simp: bit_and_iff bit_xor_iff)

lemma unmask:
  assumes "length xs = length ys"
  shows "clear_unused_bits u (xor_bytes (clear_unused_bits u (xor_bytes xs ys)) ys) = clear_unused_bits u xs"
proof (cases xs)
  case (Cons x xs')
  then obtain y ys' where ys: "ys = y # ys'" using assms by (cases ys) auto
  show ?thesis
    using assms by (simp add: Cons ys clear_unused_bits_def and_xor_and xor_bytes_cancel)
qed (simp add: clear_unused_bits_def)

lemma clear_clear [simp]: "clear_unused_bits u (clear_unused_bits u db) = clear_unused_bits u db"
  by (cases db) (simp_all add: clear_unused_bits_def and.assoc)

lemma unmask_iff:
  assumes "length xs = length ys" "length zs = length ys" "clear_unused_bits u xs = xs" "clear_unused_bits u zs = zs"
  shows "clear_unused_bits u (xor_bytes xs ys) = zs \<longleftrightarrow> xs = clear_unused_bits u (xor_bytes zs ys)"
  using unmask [OF assms(1), of u] unmask [OF assms(2), of u] assms(3,4) by metis

text \<open>The data block of a salt.\<close>

definition pss_db :: "nat \<Rightarrow> bytes \<Rightarrow> bytes" where
  "pss_db padding_size salt = replicate padding_size 0 @ [0x01] @ salt"

lemma pss_db_written:
  "write_at ((replicate (p + 1 + length salt) 0)[p := 0x01]) (p + 1) salt = pss_db p salt"
proof -
  have "replicate (p + 1 + length salt) (0::u8) = replicate p 0 @ 0 # replicate (length salt) 0"
    using replicate_add [of p "Suc (length salt)" "0::u8"] by simp
  then show ?thesis by (simp add: write_at_def pss_db_def list_update_append)
qed

lemma pss_db_cleared: "u < 8 \<Longrightarrow> clear_unused_bits u (pss_db p salt) = pss_db p salt"
proof -
  assume u: "u < 8"
  have "(1::u8) AND drop_bit u 0xFF = 1"
  proof (rule bit_word_eqI)
    fix n
    assume "n < LENGTH(8)"
    then show "bit ((1::u8) AND drop_bit u 0xFF) n = bit (1::u8) n"
      using u by (auto simp: bit_and_iff bit_drop_ff bit_1_iff)
  qed
  then show ?thesis by (cases p) (simp_all add: clear_unused_bits_def pss_db_def)
qed

text \<open>A block of the right shape is the block of its salt.\<close>

lemma all_equal_iff: "(\<forall>x\<in>set xs. x = a) \<longleftrightarrow> xs = replicate (length xs) a"
  by (induction xs) auto

lemma pss_db_iff:
  assumes "length db = p + 1 + s"
  shows "foldl (\<lambda>d b. d OR b) 0 (take p db) = (0::u8) \<and> db ! p = 0x01 \<longleftrightarrow> db = pss_db p (drop (p + 1) db)"
proof -
  have l: "length (take p db) = p" using assms by simp
  have zero: "foldl (\<lambda>d b. d OR b) 0 (take p db) = 0 \<longleftrightarrow> take p db = replicate p 0"
    using fold_or_eq_0 [of "\<lambda>b. b" 0 "take p db"] all_equal_iff [of "take p db" 0] unfolding l by simp
  have "p < length db" using assms by simp
  from id_take_nth_drop [OF this] obtain xs y ys where db: "db = xs @ y # ys" "length xs = p"
    using l by metis
  then show ?thesis unfolding zero by (auto simp: pss_db_def)
qed

section \<open>The operations, against the encoding of a salt\<close>

definition pss_encoding :: "nat \<Rightarrow> bytes \<Rightarrow> bytes \<Rightarrow> rsa_pss_params \<Rightarrow> bytes" where
  "pss_encoding bits mh salt params =
     (let n = (bits + 7) div 8; hs = digest_size (ps_message_hash params);
          h = hash_spec (ps_message_hash params) (replicate 8 0 @ mh @ salt)
      in clear_unused_bits (8 * n - bits)
           (xor_bytes (pss_db (n - length salt - hs - 2) salt) (mgf1_octets (ps_mgf1_hash params) h (n - hs - 1)))
         @ h @ [0xBC])"

text \<open>What both operations need of the sizes.\<close>

definition pss_sizes :: "nat \<Rightarrow> bytes \<Rightarrow> rsa_pss_params \<Rightarrow> bool" where
  "pss_sizes bits mh params \<longleftrightarrow> length mh = digest_size (ps_message_hash params) \<and>
     digest_size (ps_message_hash params) + unat (ps_salt_length params) + 2 \<le> (bits + 7) div 8"

lemma digest_size_le: "digest_size a \<le> 64" "0 < digest_size a"
  by (cases a; simp)+

lemma emsa_pss_encode_iff:
  assumes "bits < 2 ^ 60"
  shows "emsa_pss_encode bits mh salt params = Inr em \<longleftrightarrow>
    pss_sizes bits mh params \<and> length salt = unat (ps_salt_length params) \<and> em = pss_encoding bits mh salt params"
proof -
  let ?n = "(bits + 7) div 8" and ?hs = "digest_size (ps_message_hash params)"
  note ds = digest_size_le [of "ps_message_hash params"] digest_size_le [of "ps_mgf1_hash params"]
  show ?thesis
  proof (cases "pss_sizes bits mh params \<and> length salt = unat (ps_salt_length params)")
    case True
    let ?h = "hash_spec (ps_message_hash params) (replicate 8 0 @ mh @ salt)"
    let ?p = "?n - length salt - ?hs - 2"
    have sizes: "length mh = ?hs" "?hs + length salt + 2 \<le> ?n" using True by (simp_all add: pss_sizes_def)
    have "?n \<le> bits + 7" by simp
    then have "length (replicate 8 (0::u8) @ mh @ salt) < 2 ^ 64" using sizes assms by simp
    then have h: "pss_hash (ps_message_hash params) mh salt = Inr ?h"
      unfolding pss_hash_def by (rule rsa_digest_spec)
    have m: "mgf1 (ps_mgf1_hash params) ?h k = Inr (mgf1_octets (ps_mgf1_hash params) ?h k)" for k
      using ds by (intro mgf1_spec) simp
    have k: "?n - ?hs - 1 = ?p + 1 + length salt" using sizes(2) by simp
    have db: "write_at ((replicate (?n - ?hs - 1) 0)[?p := 0x01]) (?p + 1) salt = pss_db ?p salt"
      unfolding k by (rule pss_db_written)
    have "emsa_pss_encode bits mh salt params = Inr (pss_encoding bits mh salt params)"
      unfolding emsa_pss_encode_def Let_def h rbind_simps m db pss_encoding_def
      using sizes True ds by simp
    then show ?thesis using True by auto
  next
    case False
    then show ?thesis using ds by (auto simp: emsa_pss_encode_def pss_sizes_def Let_def)
  qed
qed

text \<open>The accumulated mask of the verification.\<close>

lemma verify_mask:
  "((((if B then constant_time_is_zero a AND constant_time_is_zero b else constant_time_is_zero a) AND
      constant_time_is_zero c) AND constant_time_is_zero d) AND constant_time_bool_mask e) = 0xFF
    \<longleftrightarrow> a = 0 \<and> (B \<longrightarrow> b = 0) \<and> c = 0 \<and> d = 0 \<and> e"
  by simp

text \<open>The sizes in 64 bits: the sum is the number modulo \<open>2 ^ 64\<close>, and without a wrap the padding size is the difference.\<close>

lemma unat_u64_less: "unat (x::u64) < 2 ^ 64"
  using unsigned_less [where ?'a = nat, of x] by simp

lemma size_sum: "unat (of_nat hs + s + 2 :: u64) = (hs + unat s + 2) mod 2 ^ 64"
  by (simp add: unat_word_ariths unsigned_of_nat take_bit_eq_mod mod_simps)

lemma size_difference:
  assumes "hs + unat (s::u64) + 2 \<le> n" "n < 2 ^ 64"
  shows "unat (of_nat n - of_nat hs - s - 2 :: u64) = n - hs - unat s - 2"
proof -
  have "(of_nat n - of_nat hs - s - 2 :: u64) = of_nat n - of_nat (hs + unat s + 2)" by simp
  also have "\<dots> = of_nat (n - hs - unat s - 2)" using assms(1) by (simp add: of_nat_diff)
  finally show ?thesis using assms(2) by (simp add: unsigned_of_nat take_bit_nat_eq_self)
qed

lemma emsa_pss_verify_iff:
  assumes "bits < 2 ^ 60" "pss_sizes bits mh params"
  shows "emsa_pss_verify em bits mh params = Some (Inr True) \<longleftrightarrow>
    (\<exists>salt. length salt = unat (ps_salt_length params) \<and> em = pss_encoding bits mh salt params)"
proof (cases "length em = (bits + 7) div 8")
  case n: True
  let ?hs = "digest_size (ps_message_hash params)" and ?s = "unat (ps_salt_length params)"
  let ?H = "ps_message_hash params" and ?M = "ps_mgf1_hash params"
  note ds = digest_size_le [of ?H] digest_size_le [of ?M]
  define u where "u = 8 * length em - bits"
  define p where "p = length em - ?hs - ?s - 2"
  define mdb where "mdb = take (length em - ?hs - 1) em"
  define h where "h = take ?hs (drop (length em - ?hs - 1) em)"
  define db where "db = clear_unused_bits u (xor_bytes mdb (mgf1_octets ?M h (length em - ?hs - 1)))"
  define salt where "salt = take ?s (drop (p + 1) db)"
  have sizes: "length mh = ?hs" "?hs + ?s + 2 \<le> length em" using assms(2) n by (simp_all add: pss_sizes_def)
  have u: "u < 8" unfolding u_def n by simp
  have len: "length em - ?hs - 1 = p + 1 + ?s" "length mdb = p + 1 + ?s" "length h = ?hs" "length db = p + 1 + ?s"
    using sizes(2) by (simp_all add: p_def mdb_def h_def db_def)
  have em: "em = mdb @ h @ [last em]"
  proof -
    have ne: "em \<noteq> []" using sizes(2) by auto
    have "drop (length em - ?hs - 1) em = h @ drop ?hs (drop (length em - ?hs - 1) em)"
      unfolding h_def by (rule append_take_drop_id [symmetric])
    also have "drop ?hs (drop (length em - ?hs - 1) em) = drop (length em - 1) em" using sizes(2) by simp
    also have "\<dots> = [last em]" using ne by (cases em rule: rev_cases) simp_all
    finally show ?thesis unfolding mdb_def by (metis append_take_drop_id)
  qed
  have lsalt: "length salt = ?s" "salt = drop (p + 1) db" using len(4) by (simp_all add: salt_def)
  have mgf: "mgf1 ?M h k = Inr (mgf1_octets ?M h k)" for k using ds len(3) by (intro mgf1_spec) simp
  have "length em \<le> bits + 7" using n by simp
  then have "length (replicate 8 (0::u8) @ mh @ salt) < 2 ^ 64" using sizes lsalt(1) assms(1) by simp
  then have hash: "pss_hash ?H mh salt = Inr (hash_spec ?H (replicate 8 0 @ mh @ salt))"
    unfolding pss_hash_def by (rule rsa_digest_spec)
  have first: "(0 < u \<longrightarrow> mdb ! 0 AND push_bit (8 - u) 0xFF = 0) \<longleftrightarrow> clear_unused_bits u mdb = mdb"
    using unused_bits_zero [of u "mdb ! 0"] u len(2) by (cases mdb) (auto simp: clear_unused_bits_def)
  have small: "length em < 2 ^ 64" using n assms(1) by simp
  have guards: "\<not> (?hs = 0 \<or> digest_size ?M = 0)" "\<not> length mh \<noteq> ?hs" "\<not> length em \<noteq> (bits + 7) div 8"
    "\<not> (of_nat (length em) :: u64) < of_nat ?hs + ps_salt_length params + 2" "\<not> length em < ?hs + 1" "\<not> length db < p + 1 + ?s"
    using sizes ds n small len(4) by (simp_all add: word_less_nat_alt size_sum unsigned_of_nat take_bit_nat_eq_self)
  have p': "unat (of_nat (length em) - of_nat ?hs - ps_salt_length params - 2 :: u64) = p"
    unfolding p_def by (rule size_difference [OF sizes(2) small])
  have "emsa_pss_verify em bits mh params = Some (Inr
      (((((if 0 < u then constant_time_is_zero (last em XOR 0xBC) AND constant_time_is_zero (mdb ! 0 AND push_bit (8 - u) 0xFF)
           else constant_time_is_zero (last em XOR 0xBC)) AND constant_time_is_zero (foldl (\<lambda>d b. d OR b) 0 (take p db))) AND
         constant_time_is_zero (db ! p XOR 0x01)) AND
        constant_time_bool_mask (constant_time_equal h (hash_spec ?H (replicate 8 0 @ mh @ salt)))) = 0xFF))"
    unfolding emsa_pss_verify_def Let_def if_not_P [OF guards(1)] if_not_P [OF guards(2)] if_not_P [OF guards(3)]
      if_not_P [OF guards(4)] if_not_P [OF guards(5)]
    unfolding mdb_def [symmetric] h_def [symmetric] u_def [symmetric] p' mgf sum.case
      db_def [symmetric] if_not_P [OF guards(6)] salt_def [symmetric] hash
    by (rule refl)
  then have "emsa_pss_verify em bits mh params = Some (Inr True) \<longleftrightarrow>
      last em = 0xBC \<and> clear_unused_bits u mdb = mdb \<and> db = pss_db p salt \<and>
      h = hash_spec ?H (replicate 8 0 @ mh @ salt)"
    unfolding verify_mask first lsalt(2) pss_db_iff [OF len(4), symmetric]
    by (auto simp: xor_eq_0_iff simp flip: lsalt(2))
  also have "\<dots> \<longleftrightarrow> (\<exists>salt. length salt = ?s \<and> em = pss_encoding bits mh salt params)"
  proof
    assume ok: "last em = 0xBC \<and> clear_unused_bits u mdb = mdb \<and> db = pss_db p salt \<and>
      h = hash_spec ?H (replicate 8 0 @ mh @ salt)"
    let ?mask = "mgf1_octets ?M h (length em - ?hs - 1)"
    have l: "length mdb = length ?mask" "length (pss_db p salt) = length ?mask"
      using len lsalt(1) by (simp_all add: pss_db_def)
    have "mdb = clear_unused_bits u (xor_bytes (pss_db p salt) ?mask)"
      using unmask_iff [OF l, of u] ok pss_db_cleared [OF u] unfolding db_def by blast
    then have "em = pss_encoding bits mh salt params"
      using em ok lsalt(1) unfolding pss_encoding_def Let_def n [symmetric] u_def [symmetric]
      by (metis (no_types, lifting) append_assoc diff_commute p_def)
    then show "\<exists>salt. length salt = ?s \<and> em = pss_encoding bits mh salt params" using lsalt(1) by blast
  next
    assume "\<exists>salt. length salt = ?s \<and> em = pss_encoding bits mh salt params"
    then obtain s where s: "length s = ?s" "em = pss_encoding bits mh s params" by blast
    define h' where "h' = hash_spec ?H (replicate 8 0 @ mh @ s)"
    let ?mask = "mgf1_octets ?M h' (length em - ?hs - 1)"
    have pp: "length em - length s - ?hs - 2 = p" using s(1) by (simp add: p_def)
    have e: "em = clear_unused_bits u (xor_bytes (pss_db p s) ?mask) @ h' @ [0xBC]"
      using s(2) unfolding pss_encoding_def Let_def n [symmetric] u_def [symmetric] h'_def [symmetric] pp .
    have l: "length (pss_db p s) = length ?mask" "length (xor_bytes (pss_db p s) ?mask) = p + 1 + ?s" "length h' = ?hs"
      using len(1) s(1) by (simp_all add: pss_db_def h'_def)
    have mdb: "mdb = clear_unused_bits u (xor_bytes (pss_db p s) ?mask)"
      unfolding mdb_def len(1) using l by (subst e) simp
    have "drop (p + 1 + ?s) em = h' @ [0xBC]" using l by (subst e) simp
    then have hh: "h = h'" unfolding h_def len(1) using l(3) by simp
    have "db = pss_db p s"
      unfolding db_def mdb hh unmask [OF l(1)] by (rule pss_db_cleared [OF u])
    moreover have "salt = s" unfolding lsalt(2) calculation by (simp add: pss_db_def)
    moreover have "last em = 0xBC" by (subst e) simp
    ultimately show "last em = 0xBC \<and> clear_unused_bits u mdb = mdb \<and> db = pss_db p salt \<and>
        h = hash_spec ?H (replicate 8 0 @ mh @ salt)"
      using mdb hh h'_def by simp
  qed
  finally show ?thesis .
next
  case False
  have "length (pss_encoding bits mh salt params) = (bits + 7) div 8" if "length salt = unat (ps_salt_length params)" for salt
    using assms(2) that by (simp add: pss_encoding_def pss_sizes_def Let_def pss_db_def)
  then show ?thesis using False by (auto simp: emsa_pss_verify_def Let_def)
qed

text \<open>
  The other outcome: the sizes wrap. The guard then compares with the wrapped sum, and whenever it lets
  the message pass, the padding size reaches beyond the data block.
\<close>

lemma some_result:
  "(if a then Some x else if b then Some y else if c then Some z else (case r of Inl e \<Rightarrow> Some (f e) | Inr h \<Rightarrow> Some (g h))) \<noteq> None"
  by (simp split: sum.split)

lemma emsa_pss_verify_undefined:
  assumes "bits < 2 ^ 60"
  shows "emsa_pss_verify em bits mh params = None \<longleftrightarrow>
    length mh = digest_size (ps_message_hash params) \<and> length em = (bits + 7) div 8 \<and>
    2 ^ 64 \<le> digest_size (ps_message_hash params) + unat (ps_salt_length params) + 2 \<and>
    digest_size (ps_message_hash params) + unat (ps_salt_length params) + 2 - 2 ^ 64 \<le> length em"
proof (cases "length mh = digest_size (ps_message_hash params) \<and> length em = (bits + 7) div 8")
  case True
  let ?hs = "digest_size (ps_message_hash params)" and ?s = "unat (ps_salt_length params)" and ?n = "length em"
  let ?sum = "of_nat ?hs + ps_salt_length params + 2 :: u64"
  note ds = digest_size_le [of "ps_message_hash params"] digest_size_le [of "ps_mgf1_hash params"]
  have small: "?n < 2 ^ 64" using True assms by simp
  have s: "?s < 2 ^ 64" using unat_u64_less [of "ps_salt_length params"] by simp
  have enough: "(of_nat ?n :: u64) < ?sum \<longleftrightarrow> ?n < (?hs + ?s + 2) mod 2 ^ 64"
    using small by (simp add: word_less_nat_alt size_sum unsigned_of_nat take_bit_nat_eq_self)
  have mgf: "mgf1 a (take ?hs xs) k = Inr (mgf1_octets a (take ?hs xs) k)" for a xs k
    using ds(1) by (intro mgf1_spec) simp
  show ?thesis
  proof (cases "2 ^ 64 \<le> ?hs + ?s + 2")
    case wrap: True
    define w where "w = ?hs + ?s + 2 - 2 ^ 64"
    have w: "?hs + ?s + 2 = 2 ^ 64 + w" "w \<le> ?hs + 1" using wrap s by (simp_all add: w_def)
    have mod: "(?hs + ?s + 2) mod 2 ^ 64 = w" unfolding w(1) using w(2) ds(1) by simp
    have "emsa_pss_verify em bits mh params = None" if "w \<le> ?n" "?hs + 1 \<le> ?n"
    proof -
      have p: "unat (of_nat ?n - of_nat ?hs - ps_salt_length params - 2 :: u64) = ?n - w"
      proof -
        have "unat ?sum = w" by (simp only: size_sum mod)
        then have "?sum = of_nat w" by (metis of_nat_unat ucast_id)
        then have "(of_nat ?n - of_nat ?hs - ps_salt_length params - 2 :: u64) = of_nat (?n - w)"
          using that(1) by (simp add: of_nat_diff algebra_simps)
        then show ?thesis using small by (simp add: unsigned_of_nat take_bit_nat_eq_self)
      qed
      have guards: "\<not> (?hs = 0 \<or> digest_size (ps_mgf1_hash params) = 0)" "\<not> length mh \<noteq> ?hs" "\<not> ?n \<noteq> (bits + 7) div 8"
        "\<not> (of_nat ?n :: u64) < ?sum" "\<not> ?n < ?hs + 1"
        using True that ds unfolding enough mod by simp_all
      have "length (clear_unused_bits u (xor_bytes (take (?n - ?hs - 1) em) (mgf1_octets a h (?n - ?hs - 1)))) < ?n - w + 1 + ?s" for u a h
        using that w(2) by simp
      then show ?thesis
        unfolding emsa_pss_verify_def Let_def if_not_P [OF guards(1)] if_not_P [OF guards(2)] if_not_P [OF guards(3)]
          if_not_P [OF guards(4)] if_not_P [OF guards(5)] mgf sum.case p
        by (simp only: if_True)
    qed
    moreover have "emsa_pss_verify em bits mh params = None" if "w \<le> ?n" "\<not> ?hs + 1 \<le> ?n"
    proof -
      have "\<not> (of_nat ?n :: u64) < ?sum" using that(1) unfolding enough mod by simp
      then show ?thesis using True that(2) ds by (simp add: emsa_pss_verify_def Let_def)
    qed
    moreover have "emsa_pss_verify em bits mh params \<noteq> None" if "\<not> w \<le> ?n"
    proof -
      have "(of_nat ?n :: u64) < ?sum" using that unfolding enough mod by simp
      then show ?thesis using True ds by (simp add: emsa_pss_verify_def Let_def)
    qed
    ultimately show ?thesis using True wrap unfolding w_def by blast
  next
    case False
    then have mod: "(?hs + ?s + 2) mod 2 ^ 64 = ?hs + ?s + 2" by simp
    have "emsa_pss_verify em bits mh params \<noteq> None" if fits: "?hs + ?s + 2 \<le> ?n"
    proof -
      have guards: "\<not> (of_nat ?n :: u64) < ?sum" "\<not> ?n < ?hs + 1" using fits unfolding enough mod by simp_all
      have block: "\<not> length (clear_unused_bits u (xor_bytes (take (?n - ?hs - 1) em) (mgf1_octets a h (?n - ?hs - 1)))) < ?n - ?hs - ?s - 2 + 1 + ?s" for u a h
        using fits by simp
      show ?thesis
        unfolding emsa_pss_verify_def Let_def if_not_P [OF guards(1)] if_not_P [OF guards(2)] mgf sum.case size_difference [OF fits small]
          if_not_P [OF block]
        by (rule some_result)
    qed
    moreover have "emsa_pss_verify em bits mh params \<noteq> None" if "\<not> ?hs + ?s + 2 \<le> ?n"
    proof -
      have "(of_nat ?n :: u64) < ?sum" using that unfolding enough mod by simp
      then show ?thesis using True ds by (simp add: emsa_pss_verify_def Let_def)
    qed
    ultimately show ?thesis using False by blast
  qed
qed (use digest_size_le in \<open>auto simp: emsa_pss_verify_def Let_def\<close>)

lemma emsa_pss_verify_sizes:
  assumes "bits < 2 ^ 60" "\<not> pss_sizes bits mh params"
  shows "emsa_pss_verify em bits mh params \<noteq> Some (Inr True)"
proof
  let ?hs = "digest_size (ps_message_hash params)" and ?s = "unat (ps_salt_length params)"
  assume ok: "emsa_pss_verify em bits mh params = Some (Inr True)"
  then have l: "length mh = ?hs" "length em = (bits + 7) div 8" "\<not> (of_nat (length em) :: u64) < of_nat ?hs + ps_salt_length params + 2"
    by (auto simp: emsa_pss_verify_def Let_def split: if_splits)
  then have "length em < 2 ^ 64" "length em < ?hs + ?s + 2" using assms by (simp_all add: pss_sizes_def)
  with l(3) have "2 ^ 64 \<le> ?hs + ?s + 2" "(?hs + ?s + 2) mod 2 ^ 64 \<le> length em"
    by (auto simp: word_less_nat_alt size_sum unsigned_of_nat take_bit_nat_eq_self not_less intro: ccontr)
  moreover from this(1) have "(?hs + ?s + 2) mod 2 ^ 64 = ?hs + ?s + 2 - 2 ^ 64"
    using unat_u64_less [of "ps_salt_length params"] digest_size_le(1) [of "ps_message_hash params"] by (simp add: le_mod_geq)
  ultimately have "emsa_pss_verify em bits mh params = None"
    using l emsa_pss_verify_undefined [OF assms(1)] by simp
  then show False using ok by simp
qed

section \<open>Properties\<close>

text \<open>
  C13: the PSS verification accepts exactly the encodings, and where it is undefined. For every size,
  hash, mask hash and 64-bit salt length, emsa_pss_verify says true of an encoded message exactly when
  emsa_pss_encode returns it for the message hash and some salt. It reads outside its arrays exactly
  when message hash and encoded message have their sizes, hash size plus salt length plus two wraps in
  64 bits, and the wrapped sum is at most the size of the encoded message; for every other salt length
  what is not an encoding gives false or an error.
\<close>

theorem pss_verify_iff_encode:
  assumes "bits < 2 ^ 60"
  shows "(emsa_pss_verify em bits mh params = Some (Inr True) \<longleftrightarrow> (\<exists>salt. emsa_pss_encode bits mh salt params = Inr em)) \<and>
    (emsa_pss_verify em bits mh params = None \<longleftrightarrow>
       length mh = digest_size (ps_message_hash params) \<and> length em = (bits + 7) div 8 \<and>
       2 ^ 64 \<le> digest_size (ps_message_hash params) + unat (ps_salt_length params) + 2 \<and>
       digest_size (ps_message_hash params) + unat (ps_salt_length params) + 2 - 2 ^ 64 \<le> length em)"
proof (rule conjI [OF _ emsa_pss_verify_undefined [OF assms]], cases "pss_sizes bits mh params")
  case True
  then show "emsa_pss_verify em bits mh params = Some (Inr True) \<longleftrightarrow> (\<exists>salt. emsa_pss_encode bits mh salt params = Inr em)"
    using emsa_pss_verify_iff [OF assms True] emsa_pss_encode_iff [OF assms] by simp
next
  case False
  then have "emsa_pss_verify em bits mh params \<noteq> Some (Inr True)"
    by (rule emsa_pss_verify_sizes [OF assms])
  then show "emsa_pss_verify em bits mh params = Some (Inr True) \<longleftrightarrow> (\<exists>salt. emsa_pss_encode bits mh salt params = Inr em)"
    using False emsa_pss_encode_iff [OF assms] by simp
qed

text \<open>An ordinary salt length, and the one that makes the sum for SHA-256 zero.\<close>

theorem pss_verify_iff_encode_witness:
  "(\<forall>em. emsa_pss_verify em 1023 (replicate 32 7) \<lparr>ps_message_hash = Sha256, ps_mgf1_hash = Sha512, ps_salt_length = 20\<rparr> = Some (Inr True)
    \<longleftrightarrow> (\<exists>salt. emsa_pss_encode 1023 (replicate 32 7) salt
          \<lparr>ps_message_hash = Sha256, ps_mgf1_hash = Sha512, ps_salt_length = 20\<rparr> = Inr em)) \<and>
   emsa_pss_verify (replicate 128 0) 1023 (replicate 32 7)
     \<lparr>ps_message_hash = Sha256, ps_mgf1_hash = Sha256, ps_salt_length = - 34\<rparr> = None"
proof
  show "\<forall>em. emsa_pss_verify em 1023 (replicate 32 7) \<lparr>ps_message_hash = Sha256, ps_mgf1_hash = Sha512, ps_salt_length = 20\<rparr> = Some (Inr True)
    \<longleftrightarrow> (\<exists>salt. emsa_pss_encode 1023 (replicate 32 7) salt
          \<lparr>ps_message_hash = Sha256, ps_mgf1_hash = Sha512, ps_salt_length = 20\<rparr> = Inr em)"
    by (intro allI conjunct1 [OF pss_verify_iff_encode]) simp
  show "emsa_pss_verify (replicate 128 0) 1023 (replicate 32 7)
     \<lparr>ps_message_hash = Sha256, ps_mgf1_hash = Sha256, ps_salt_length = - 34\<rparr> = None"
    by (rule iffD2 [OF conjunct2 [OF pss_verify_iff_encode]]) simp_all
qed

end
