(* ===== verification/Rsa_Oaep.thy ===== *)
theory Rsa_Oaep
  imports Mgf1 Secure_Memory
begin

text \<open>
  src/rsa_oaep.cpp: the OAEP encoding of a message under a label, and its decoding, which scans for
  the separator without branching on the data. The decoding returns a message exactly for the
  encodings of that message.
\<close>

section \<open>Encoding\<close>

record rsa_oaep_params =
  oa_message_hash :: hash_algorithm
  oa_mgf1_hash :: hash_algorithm
  oa_label :: bytes

definition oaep_error :: "error_code \<Rightarrow> string \<Rightarrow> crypto_error" where
  "oaep_error c message = make_error c ''rsa_oaep'' message"

text \<open>resize: the vector is cut or filled up with zeros.\<close>

definition resize :: "nat \<Rightarrow> bytes \<Rightarrow> bytes" where
  "resize n bs = take n bs @ replicate (n - length bs) 0"

definition eme_oaep_encode :: "nat \<Rightarrow> bytes \<Rightarrow> bytes \<Rightarrow> rsa_oaep_params \<Rightarrow> bytes result" where
  "eme_oaep_encode encoded_size message seed params =
     (let hash_size = digest_size (oa_message_hash params) in
      if hash_size = 0 \<or> digest_size (oa_mgf1_hash params) = 0
      then Inl (oaep_error Unsupported_algorithm ''hash algorithm is not supported'')
      else if length seed \<noteq> hash_size
      then Inl (oaep_error Invalid_argument ''seed size does not match RSA-OAEP hash algorithm'')
      else if encoded_size < 2 * hash_size + 2
      then Inl (oaep_error Invalid_argument ''RSA-OAEP encoded message is too short'')
      else if length message > encoded_size - 2 * hash_size - 2
      then Inl (oaep_error Invalid_argument ''RSA-OAEP message is too large'')
      else
        rbind (rsa_digest (oa_message_hash params) (oa_label params)) (\<lambda>label_hash.
          let db_size = encoded_size - hash_size - 1;
              db = resize (db_size - length message - 1) label_hash;
              db = db @ [0x01] @ message in
          rbind (mgf1 (oa_mgf1_hash params) seed db_size) (\<lambda>db_mask.
            let db = xor_bytes db db_mask in
            rbind (mgf1 (oa_mgf1_hash params) db hash_size) (\<lambda>seed_mask.
              let masked_seed = xor_bytes seed seed_mask
              in Inr ([0] @ masked_seed @ db)))))"

section \<open>Decoding\<close>

text \<open>The loop over the bytes from the index \<open>i\<close>: the separator, the scanning and the invalid mask.\<close>

fun oaep_scan :: "bytes \<Rightarrow> u64 \<Rightarrow> u64 \<Rightarrow> u8 \<Rightarrow> u8 \<Rightarrow> u64 \<times> u8 \<times> u8" where
  "oaep_scan [] i separator scanning_mask invalid_padding_mask = (separator, scanning_mask, invalid_padding_mask)"
| "oaep_scan (b # bs) i separator scanning_mask invalid_padding_mask =
     (let is_zero = constant_time_is_zero b;
          is_one = constant_time_is_zero (b XOR 0x01);
          take_separator_mask = scanning_mask AND is_one;
          separator = constant_time_select_size take_separator_mask i separator;
          invalid_padding_mask = invalid_padding_mask OR (scanning_mask AND NOT (is_zero OR is_one));
          scanning_mask = scanning_mask AND NOT is_one
      in oaep_scan bs (i + 1) separator scanning_mask invalid_padding_mask)"

definition eme_oaep_decode :: "bytes \<Rightarrow> rsa_oaep_params \<Rightarrow> bytes result" where
  "eme_oaep_decode encoded_message params =
     (let hash_size = digest_size (oa_message_hash params) in
      if hash_size = 0 \<or> digest_size (oa_mgf1_hash params) = 0
      then Inl (oaep_error Unsupported_algorithm ''hash algorithm is not supported'')
      else if length encoded_message < 2 * hash_size + 2
      then Inl (oaep_error Authentication_failed ''RSA-OAEP encoded message is invalid'')
      else
        let masked_seed = take hash_size (drop 1 encoded_message);
            masked_db = drop (1 + hash_size) encoded_message in
        rbind (mgf1 (oa_mgf1_hash params) masked_db hash_size) (\<lambda>seed_mask.
          let seed = xor_bytes masked_seed seed_mask in
          rbind (mgf1 (oa_mgf1_hash params) seed (length masked_db)) (\<lambda>db_mask.
            let db = xor_bytes masked_db db_mask in
            rbind (rsa_digest (oa_message_hash params) (oa_label params)) (\<lambda>label_hash.
              let valid_mask = constant_time_bool_mask (encoded_message ! 0 = 0);
                  valid_mask = valid_mask AND constant_time_bool_mask (constant_time_equal (take hash_size db) label_hash);
                  (separator, scanning_mask, invalid_padding_mask) =
                    oaep_scan (drop hash_size db) (of_nat hash_size) (of_nat (length db)) 0xFF 0;
                  valid_mask = valid_mask AND NOT invalid_padding_mask;
                  valid_mask = valid_mask AND NOT scanning_mask in
              if valid_mask \<noteq> 0xFF
              then Inl (oaep_error Authentication_failed ''RSA-OAEP encoded message is invalid'')
              else Inr (drop (unat (separator + 1)) db)))))"

section \<open>The scan\<close>

lemma scan_done: "oaep_scan bs i sep 0 bad = (sep, 0, bad)"
  by (induction bs arbitrary: i) (simp_all add: Let_def)

lemma or_all_ones: "(0xFF::u8) OR x = 0xFF"
proof -
  have "(0xFF::u8) = - 1" by code_simp
  then show ?thesis by (simp only: bit.disj_one_left)
qed

lemma scan_invalid: "snd (snd (oaep_scan bs i sep m 0xFF)) = 0xFF"
  by (induction bs arbitrary: i sep m) (simp_all add: Let_def or_all_ones)

text \<open>
  A run of zeros and a one: the index of the one. Zeros only leave the scanning mask set, and
  anything else sets the invalid mask.
\<close>

lemma scan_step:
  "oaep_scan (0 # bs) i sep 0xFF 0 = oaep_scan bs (i + 1) sep 0xFF 0"
  "oaep_scan (1 # bs) i sep 0xFF 0 = (i, 0, 0)"
  "b \<noteq> 0 \<Longrightarrow> b \<noteq> 1 \<Longrightarrow> snd (snd (oaep_scan (b # bs) i sep 0xFF 0)) = 0xFF"
  by (simp_all add: Let_def scan_done scan_invalid xor_eq_0_iff not_0xff_u8 select_size_eq)

lemma scan_zeros: "oaep_scan (replicate k 0 @ bs) i sep 0xFF 0 = oaep_scan bs (i + of_nat k) sep 0xFF 0"
proof (induction k arbitrary: i)
  case (Suc k)
  show ?case
    using Suc [of "i + 1"] by (simp only: replicate_Suc append_Cons scan_step(1) of_nat_Suc add.assoc)
qed simp

lemma split_zeros:
  obtains k where "bs = replicate k (0::u8)" | k t where "bs = replicate k 0 @ 1 # t"
    | k b t where "bs = replicate k 0 @ b # t" "b \<noteq> 0" "b \<noteq> 1"
proof -
  let ?z = "takeWhile (\<lambda>b. b = 0) bs" and ?r = "dropWhile (\<lambda>b. b = 0) bs"
  have z: "?z = replicate (length ?z) 0"
    by (metis (mono_tags) replicate_length_same set_takeWhileD)
  have bs: "bs = replicate (length ?z) 0 @ ?r" using z by (metis takeWhile_dropWhile_id)
  show ?thesis
  proof (cases ?r)
    case Nil
    then show ?thesis using bs that(1) by (metis append_Nil2)
  next
    case (Cons b t)
    then have "b \<noteq> 0" using hd_dropWhile [of "\<lambda>b. b = 0" bs] by auto
    then show ?thesis using bs Cons that(2,3) by metis
  qed
qed

lemma zeros_one_unique: "replicate k 0 @ 1 # t = replicate k' 0 @ (b::u8) # t' \<Longrightarrow> b \<noteq> 0 \<Longrightarrow> k = k' \<and> b = 1 \<and> t = t'"
proof (induction k arbitrary: k')
  case 0
  then show ?case by (cases k') auto
next
  case (Suc k)
  then show ?case by (cases k') auto
qed

text \<open>What the masks say together, and the message behind the separator.\<close>

lemma scan_valid:
  assumes "oaep_scan bs i sep 0xFF 0 = (sep', scanning, bad)"
  shows "scanning = 0 \<and> bad = 0 \<longleftrightarrow> (\<exists>k t. bs = replicate k 0 @ 1 # t)"
    and "bs = replicate k 0 @ 1 # t \<Longrightarrow> sep' = i + of_nat k"
proof -
  have not_one: "(0::u8) = 0xFF \<longleftrightarrow> False" by simp
  show "scanning = 0 \<and> bad = 0 \<longleftrightarrow> (\<exists>k t. bs = replicate k 0 @ 1 # t)"
  proof (cases rule: split_zeros [of bs])
    case (1 k)
    then have "oaep_scan bs i sep 0xFF 0 = (sep, 0xFF, 0)" using scan_zeros [of k "[]"] by simp
    moreover have "replicate k 0 \<noteq> replicate k' 0 @ (1::u8) # t" for k' t
      by (metis in_set_conv_decomp in_set_replicate zero_neq_one)
    ultimately show ?thesis using assms 1 by simp
  next
    case (2 k t)
    then show ?thesis using assms scan_zeros [of k "1 # t" i sep] unfolding scan_step(2) by auto
  next
    case (3 k b t)
    then have "bad = 0xFF"
      using assms scan_zeros [of k "b # t" i sep] scan_step(3) [OF 3(2,3), of t "i + of_nat k" sep] by simp
    moreover have "bs \<noteq> replicate k' 0 @ 1 # t'" for k' t'
      using zeros_one_unique [of k' t' k b t] 3 by metis
    ultimately show ?thesis by auto
  qed
  show "bs = replicate k 0 @ 1 # t \<Longrightarrow> sep' = i + of_nat k"
    using assms scan_zeros [of k "1 # t" i sep] unfolding scan_step(2) by simp
qed

section \<open>The operations, against the encoding of a seed\<close>

definition oaep_db :: "nat \<Rightarrow> bytes \<Rightarrow> rsa_oaep_params \<Rightarrow> bytes" where
  "oaep_db n message params =
     (let hs = digest_size (oa_message_hash params)
      in hash_spec (oa_message_hash params) (oa_label params) @ replicate (n - 2 * hs - 2 - length message) 0
           @ [1] @ message)"

definition oaep_encoding :: "nat \<Rightarrow> bytes \<Rightarrow> bytes \<Rightarrow> rsa_oaep_params \<Rightarrow> bytes" where
  "oaep_encoding n message seed params =
     (let hs = digest_size (oa_message_hash params); G = oa_mgf1_hash params;
          db = xor_bytes (oaep_db n message params) (mgf1_octets G seed (n - hs - 1))
      in 0 # xor_bytes seed (mgf1_octets G db hs) @ db)"

definition oaep_sizes :: "nat \<Rightarrow> bytes \<Rightarrow> bytes \<Rightarrow> rsa_oaep_params \<Rightarrow> bool" where
  "oaep_sizes n message seed params \<longleftrightarrow>
     (let hs = digest_size (oa_message_hash params)
      in length seed = hs \<and> length message + 2 * hs + 2 \<le> n)"

lemma length_oaep_db:
  "length message + 2 * digest_size (oa_message_hash params) + 2 \<le> n \<Longrightarrow>
    length (oaep_db n message params) = n - digest_size (oa_message_hash params) - 1"
  by (simp add: oaep_db_def Let_def)

lemma digest_size_bounds: "0 < digest_size a" "digest_size a \<le> 64"
  by (cases a; simp)+

lemma eme_oaep_encode_iff:
  assumes "n < 2 ^ 60" "length (oa_label params) < 2 ^ 64"
  shows "eme_oaep_encode n message seed params = Inr em \<longleftrightarrow>
    oaep_sizes n message seed params \<and> em = oaep_encoding n message seed params"
proof (cases "oaep_sizes n message seed params")
  case True
  let ?hs = "digest_size (oa_message_hash params)"
  note ds = digest_size_bounds [of "oa_message_hash params"] digest_size_bounds [of "oa_mgf1_hash params"]
  have sizes: "length seed = ?hs" "length message + 2 * ?hs + 2 \<le> n" using True by (simp_all add: oaep_sizes_def Let_def)
  have guards: "\<not> (?hs = 0 \<or> digest_size (oa_mgf1_hash params) = 0)" "\<not> length seed \<noteq> ?hs" "\<not> n < 2 * ?hs + 2"
    "\<not> length message > n - 2 * ?hs - 2"
    using sizes ds by simp_all
  have label: "rsa_digest (oa_message_hash params) (oa_label params) = Inr (hash_spec (oa_message_hash params) (oa_label params))"
    by (rule rsa_digest_spec [OF assms(2)])
  have db: "resize (n - ?hs - 1 - length message - 1) (hash_spec (oa_message_hash params) (oa_label params)) @ [0x01] @ message
      = oaep_db n message params"
    using sizes by (simp add: resize_def oaep_db_def Let_def algebra_simps)
  have m1: "mgf1 (oa_mgf1_hash params) seed k = Inr (mgf1_octets (oa_mgf1_hash params) seed k)" for k
    using sizes ds by (intro mgf1_spec) simp
  have m2: "mgf1 (oa_mgf1_hash params) db k = Inr (mgf1_octets (oa_mgf1_hash params) db k)" if "length db < n" for db k
    using that assms(1) by (intro mgf1_spec) simp
  have l: "length (xor_bytes (oaep_db n message params) (mgf1_octets (oa_mgf1_hash params) seed (n - ?hs - 1))) < n"
    using sizes by (simp add: length_oaep_db)
  have "eme_oaep_encode n message seed params = Inr (oaep_encoding n message seed params)"
    unfolding eme_oaep_encode_def Let_def if_not_P [OF guards(1)] if_not_P [OF guards(2)] if_not_P [OF guards(3)]
      if_not_P [OF guards(4)] label rbind_simps db m1 m2 [OF l] oaep_encoding_def
    by simp
  then show ?thesis using True by auto
next
  case False
  then show ?thesis
    using digest_size_bounds by (auto simp: eme_oaep_encode_def oaep_sizes_def Let_def)
qed

lemma oaep_db_iff:
  assumes "length db = n - digest_size (oa_message_hash params) - 1" "2 * digest_size (oa_message_hash params) + 2 \<le> n"
  shows "length m + 2 * digest_size (oa_message_hash params) + 2 \<le> n \<and> db = oaep_db n m params \<longleftrightarrow>
    take (digest_size (oa_message_hash params)) db = hash_spec (oa_message_hash params) (oa_label params) \<and>
    (\<exists>k. drop (digest_size (oa_message_hash params)) db = replicate k 0 @ 1 # m)" (is "?L \<longleftrightarrow> ?R")
proof
  assume ?L
  then show ?R by (auto simp: oaep_db_def Let_def)
next
  let ?hs = "digest_size (oa_message_hash params)"
  assume r: ?R
  then obtain k where k: "drop ?hs db = replicate k 0 @ 1 # m" by blast
  then have "length (drop ?hs db) = k + 1 + length m" by simp
  then have l: "k + 1 + length m = n - 2 * ?hs - 1" using assms by simp
  have "db = take ?hs db @ drop ?hs db" by simp
  then have "db = hash_spec (oa_message_hash params) (oa_label params) @ replicate k 0 @ 1 # m" using r k by simp
  moreover have "k = n - 2 * ?hs - 2 - length m" using l by simp
  ultimately show ?L using l assms(2) by (simp add: oaep_db_def Let_def)
qed

lemma decode_mask:
  "(((constant_time_bool_mask a AND constant_time_bool_mask b) AND NOT bad) AND NOT scanning) = 0xFF
    \<longleftrightarrow> a \<and> b \<and> scanning = 0 \<and> bad = (0::u8)" 
proof -
  have "(0xFF AND NOT bad) AND NOT scanning = 0xFF \<longleftrightarrow> scanning = 0 \<and> bad = (0::u8)"
  proof -
    have ff: "(0xFF::u8) = - 1" by code_simp
    have "(0xFF AND NOT bad) AND NOT scanning = NOT (bad OR scanning)" unfolding ff by simp
    also have "\<dots> = 0xFF \<longleftrightarrow> bad OR scanning = 0"
      unfolding ff by (metis bit.compl_zero bit.double_compl)
    finally show ?thesis by (auto simp: or_eq_0_iff)
  qed
  then show ?thesis by (cases a; cases b) simp_all
qed

lemma unat_of_nat_small: "n < 2 ^ 60 \<Longrightarrow> unat (of_nat n :: u64) = n"
  by (simp add: unsigned_of_nat take_bit_nat_eq_self)

lemma eme_oaep_decode_iff:
  assumes "length em < 2 ^ 60" "length (oa_label params) < 2 ^ 64"
  shows "eme_oaep_decode em params = Inr m \<longleftrightarrow>
    (\<exists>seed. oaep_sizes (length em) m seed params \<and> em = oaep_encoding (length em) m seed params)"
proof (cases "2 * digest_size (oa_message_hash params) + 2 \<le> length em")
  case True
  let ?H = "oa_message_hash params" and ?G = "oa_mgf1_hash params"
  let ?hs = "digest_size ?H" and ?n = "length em"
  note ds = digest_size_bounds [of ?H] digest_size_bounds [of ?G]
  define ms where "ms = take ?hs (drop 1 em)"
  define mdb where "mdb = drop (1 + ?hs) em"
  define seed where "seed = xor_bytes ms (mgf1_octets ?G mdb ?hs)"
  define db where "db = xor_bytes mdb (mgf1_octets ?G seed (length mdb))"
  have len: "length ms = ?hs" "length mdb = ?n - ?hs - 1" "length seed = ?hs" "length db = ?n - ?hs - 1"
    using True by (simp_all add: ms_def mdb_def seed_def db_def)
  have em: "em = em ! 0 # ms @ mdb"
  proof -
    obtain x xs where x: "em = x # xs" using True by (cases em) auto
    show ?thesis unfolding ms_def mdb_def by (simp add: x)
  qed
  have guards: "\<not> (?hs = 0 \<or> digest_size ?G = 0)" "\<not> ?n < 2 * ?hs + 2" using True ds by simp_all
  have m1: "mgf1 ?G mdb k = Inr (mgf1_octets ?G mdb k)" for k using len assms(1) by (intro mgf1_spec) simp
  have m2: "mgf1 ?G seed k = Inr (mgf1_octets ?G seed k)" for k using len ds by (intro mgf1_spec) simp
  have label: "rsa_digest ?H (oa_label params) = Inr (hash_spec ?H (oa_label params))"
    by (rule rsa_digest_spec [OF assms(2)])
  obtain sep scanning bad where scan:
    "oaep_scan (drop ?hs db) (of_nat ?hs) (of_nat (length db)) 0xFF 0 = (sep, scanning, bad)"
    by (cases "oaep_scan (drop ?hs db) (of_nat ?hs) (of_nat (length db)) 0xFF 0") auto
  let ?valid = "em ! 0 = 0 \<and> take ?hs db = hash_spec ?H (oa_label params) \<and> (\<exists>k t. drop ?hs db = replicate k 0 @ 1 # t)"
  have eval: "eme_oaep_decode em params =
      (if (((constant_time_bool_mask (em ! 0 = 0) AND
             constant_time_bool_mask (constant_time_equal (take ?hs db) (hash_spec ?H (oa_label params)))) AND NOT bad)
            AND NOT scanning) \<noteq> 0xFF
       then Inl (oaep_error Authentication_failed ''RSA-OAEP encoded message is invalid'')
       else Inr (drop (unat (sep + 1)) db))"
    unfolding eme_oaep_decode_def Let_def if_not_P [OF guards(1)] if_not_P [OF guards(2)]
    unfolding ms_def [symmetric] mdb_def [symmetric] m1 rbind_simps seed_def [symmetric] m2 db_def [symmetric] label scan prod.case
    by (rule refl)
  have sep: "drop (unat (sep + 1)) db = t" if "drop ?hs db = replicate k 0 @ 1 # t" for k t
  proof -
    have "length (drop ?hs db) = k + 1 + length t" using that by simp
    then have l: "?hs + k + 1 < 2 ^ 60" using len(4) assms(1) by simp
    have s1: "sep + 1 = of_nat (?hs + k + 1)" using scan_valid(2) [OF scan that] by simp
    have "unat (sep + 1) = ?hs + k + 1" unfolding s1 by (rule unat_of_nat_small [OF l])
    then have "drop (unat (sep + 1)) db = drop (k + 1) (drop ?hs db)" by (simp add: add.commute)
    then show ?thesis unfolding that by simp
  qed
  have "eme_oaep_decode em params = Inr m \<longleftrightarrow> em ! 0 = 0 \<and> take ?hs db = hash_spec ?H (oa_label params) \<and>
      (\<exists>k. drop ?hs db = replicate k 0 @ 1 # m)"
    unfolding eval decode_mask constant_time_equal_iff scan_valid(1) [OF scan] using sep by auto
  also have "\<dots> \<longleftrightarrow> em ! 0 = 0 \<and> length m + 2 * ?hs + 2 \<le> ?n \<and> db = oaep_db ?n m params"
    using oaep_db_iff [OF len(4) True] by simp
  also have "\<dots> \<longleftrightarrow> (\<exists>seed. oaep_sizes ?n m seed params \<and> em = oaep_encoding ?n m seed params)"
  proof
    assume ok: "em ! 0 = 0 \<and> length m + 2 * ?hs + 2 \<le> ?n \<and> db = oaep_db ?n m params"
    have "mdb = xor_bytes (oaep_db ?n m params) (mgf1_octets ?G seed (?n - ?hs - 1))"
      using ok len(2) xor_bytes_twice [of mdb "mgf1_octets ?G seed (length mdb)"] unfolding db_def by simp
    moreover have "ms = xor_bytes seed (mgf1_octets ?G mdb ?hs)"
      using xor_bytes_twice [of ms "mgf1_octets ?G mdb ?hs"] len(1) unfolding seed_def by simp
    ultimately have "em = oaep_encoding ?n m seed params"
      using em ok unfolding oaep_encoding_def Let_def by metis
    then show "\<exists>seed. oaep_sizes ?n m seed params \<and> em = oaep_encoding ?n m seed params"
      using ok len(3) by (auto simp: oaep_sizes_def Let_def)
  next
    assume "\<exists>seed. oaep_sizes ?n m seed params \<and> em = oaep_encoding ?n m seed params"
    then obtain s where s: "length s = ?hs" "length m + 2 * ?hs + 2 \<le> ?n" and e: "em = oaep_encoding ?n m s params"
      by (auto simp: oaep_sizes_def Let_def)
    let ?db = "xor_bytes (oaep_db ?n m params) (mgf1_octets ?G s (?n - ?hs - 1))"
    have lx: "length (xor_bytes s (mgf1_octets ?G ?db ?hs)) = ?hs" using s(1) by simp
    have ld: "length (oaep_db ?n m params) = ?n - ?hs - 1" by (rule length_oaep_db [OF s(2)])
    have e': "em = 0 # xor_bytes s (mgf1_octets ?G ?db ?hs) @ ?db" using e unfolding oaep_encoding_def Let_def .
    have d: "drop 1 em = xor_bytes s (mgf1_octets ?G ?db ?hs) @ ?db" by (subst e') simp
    have ms: "ms = xor_bytes s (mgf1_octets ?G ?db ?hs)"
      unfolding ms_def d using lx by simp
    have dd: "drop (1 + ?hs) em = drop ?hs (drop 1 em)" by simp
    have mdb: "mdb = ?db" unfolding mdb_def dd d using lx by simp
    have "seed = s" unfolding seed_def ms mdb using s(1) by (intro xor_bytes_twice) simp
    then have "db = oaep_db ?n m params"
      unfolding db_def using mdb ld len(2) xor_bytes_twice [of "oaep_db ?n m params" "mgf1_octets ?G s (?n - ?hs - 1)"] by simp
    moreover have "em ! 0 = 0" by (subst e') simp
    ultimately show "em ! 0 = 0 \<and> length m + 2 * ?hs + 2 \<le> ?n \<and> db = oaep_db ?n m params" using s(2) by simp
  qed
  finally show ?thesis .
next
  case False
  then show ?thesis
    using digest_size_bounds by (auto simp: eme_oaep_decode_def oaep_sizes_def Let_def)
qed

section \<open>Properties\<close>

text \<open>
  C12: the OAEP decoding returns a message exactly for its encodings. For every encoded message
  and every label, eme_oaep_decode returns \<open>m\<close> exactly when eme_oaep_encode of \<open>m\<close>, in as many
  bytes and with some seed, returns the encoded message: what was encoded is decoded, and nothing
  else is, also for a separator at the end or a wrong label.
\<close>

theorem oaep_decode_iff_encode:
  assumes "length em < 2 ^ 60" "length (oa_label params) < 2 ^ 64"
  shows "eme_oaep_decode em params = Inr m \<longleftrightarrow> (\<exists>seed. eme_oaep_encode (length em) m seed params = Inr em)"
  using eme_oaep_decode_iff [OF assms] eme_oaep_encode_iff [OF assms] by simp

theorem oaep_decode_iff_encode_witness:
  "\<forall>m. eme_oaep_decode (replicate 128 0) \<lparr>oa_message_hash = Sha256, oa_mgf1_hash = Sha256, oa_label = [1, 2]\<rparr> = Inr m
    \<longleftrightarrow> (\<exists>seed. eme_oaep_encode 128 m seed
          \<lparr>oa_message_hash = Sha256, oa_mgf1_hash = Sha256, oa_label = [1, 2]\<rparr> = Inr (replicate 128 0))"
  using oaep_decode_iff_encode [of "replicate 128 0" "\<lparr>oa_message_hash = Sha256, oa_mgf1_hash = Sha256, oa_label = [1, 2]\<rparr>"]
  by simp

end
