(* ===== verification/Keys.thy ===== *)
theory Keys
  imports Crypto_Prelude "HOL-Library.AList"
begin

text \<open>
  src/key.cpp, src/key_store.cpp and their headers: secret keys with an algorithm and a mask of
  usages, the records of public and private keys, and the store that keeps keys of the three kinds
  under identifiers. A store built by any sequence of insertions keeps one key under an identifier,
  and it never hands out a key for a usage the key was not imported with.
\<close>

section \<open>Usages and secret keys\<close>

datatype key_algorithm = Generic_secret | Aes_128 | Aes_192 | Aes_256 | Key_hmac_sha256 | Key_hmac_sha512

datatype key_usage = Usage_none | Usage_encrypt | Usage_decrypt | Usage_mac | Usage_derive | Usage_sign | Usage_verify

type_synonym usage_mask = u32

fun key_usage_value :: "key_usage \<Rightarrow> usage_mask" where
  "key_usage_value Usage_none = 0"
| "key_usage_value Usage_encrypt = push_bit 0 1"
| "key_usage_value Usage_decrypt = push_bit 1 1"
| "key_usage_value Usage_mac = push_bit 2 1"
| "key_usage_value Usage_derive = push_bit 3 1"
| "key_usage_value Usage_sign = push_bit 4 1"
| "key_usage_value Usage_verify = push_bit 5 1"

definition usage_or :: "usage_mask \<Rightarrow> key_usage \<Rightarrow> usage_mask" where
  "usage_or lhs rhs = lhs OR key_usage_value rhs"

definition has_key_usage :: "usage_mask \<Rightarrow> key_usage \<Rightarrow> bool" where
  "has_key_usage usages usage \<longleftrightarrow> usages AND key_usage_value usage \<noteq> 0"

fun key_algorithm_name :: "key_algorithm \<Rightarrow> string" where
  "key_algorithm_name Generic_secret = ''generic-secret''"
| "key_algorithm_name Aes_128 = ''AES-128''"
| "key_algorithm_name Aes_192 = ''AES-192''"
| "key_algorithm_name Aes_256 = ''AES-256''"
| "key_algorithm_name Key_hmac_sha256 = ''HMAC-SHA256''"
| "key_algorithm_name Key_hmac_sha512 = ''HMAC-SHA512''"

fun key_algorithm_secret_size :: "key_algorithm \<Rightarrow> nat" where
  "key_algorithm_secret_size Aes_128 = 16"
| "key_algorithm_secret_size Aes_192 = 24"
| "key_algorithm_secret_size Aes_256 = 32"
| "key_algorithm_secret_size _ = 0"

record secret_key =
  sk_algorithm :: key_algorithm
  sk_usages :: usage_mask
  sk_bytes :: bytes

fun is_known_algorithm :: "key_algorithm \<Rightarrow> bool" where
  "is_known_algorithm Generic_secret = True"
| "is_known_algorithm Aes_128 = True"
| "is_known_algorithm Aes_192 = True"
| "is_known_algorithm Aes_256 = True"
| "is_known_algorithm Key_hmac_sha256 = True"
| "is_known_algorithm Key_hmac_sha512 = True"

definition validate_secret_key_material :: "key_algorithm \<Rightarrow> bytes \<Rightarrow> unit result" where
  "validate_secret_key_material algorithm bs =
     (if \<not> is_known_algorithm algorithm
      then Inl (make_error Unsupported_algorithm ''key'' ''key algorithm is not supported'')
      else
        let expected_size = key_algorithm_secret_size algorithm in
        if expected_size \<noteq> 0 \<and> length bs \<noteq> expected_size
        then Inl (make_error Invalid_key ''key'' ''secret key size does not match algorithm'')
        else if expected_size = 0 \<and> bs = []
        then Inl (make_error Invalid_key ''key'' ''secret key must not be empty'')
        else Inr ())"

text \<open>SecureBuffer::copy_from and clone, which do not fail.\<close>

definition secure_copy :: "bytes \<Rightarrow> bytes result" where
  "secure_copy bs = Inr bs"

definition secret_import_raw :: "key_algorithm \<Rightarrow> bytes \<Rightarrow> usage_mask \<Rightarrow> secret_key result" where
  "secret_import_raw algorithm bs usages =
     rbind (validate_secret_key_material algorithm bs) (\<lambda>_.
     rbind (secure_copy bs) (\<lambda>buffer.
       Inr \<lparr>sk_algorithm = algorithm, sk_usages = usages, sk_bytes = buffer\<rparr>))"

definition secret_import_raw_usage :: "key_algorithm \<Rightarrow> bytes \<Rightarrow> key_usage \<Rightarrow> secret_key result" where
  "secret_import_raw_usage algorithm bs usage = secret_import_raw algorithm bs (key_usage_value usage)"

definition secret_from_buffer :: "key_algorithm \<Rightarrow> bytes \<Rightarrow> usage_mask \<Rightarrow> secret_key result" where
  "secret_from_buffer algorithm bs usages =
     rbind (validate_secret_key_material algorithm bs) (\<lambda>_.
       Inr \<lparr>sk_algorithm = algorithm, sk_usages = usages, sk_bytes = bs\<rparr>)"

definition secret_from_buffer_usage :: "key_algorithm \<Rightarrow> bytes \<Rightarrow> key_usage \<Rightarrow> secret_key result" where
  "secret_from_buffer_usage algorithm bs usage = secret_from_buffer algorithm bs (key_usage_value usage)"

definition secret_export_raw :: "secret_key \<Rightarrow> bytes result" where
  "secret_export_raw key = secure_copy (sk_bytes key)"

section \<open>Public and private keys\<close>

datatype asymmetric_key_algorithm = Rsa | Ecdsa_p256 | Ecdsa_p384 | Ed25519

record public_key =
  pub_algorithm :: asymmetric_key_algorithm
  pub_usages :: usage_mask
  pub_material :: bytes
  pub_der_encoded :: bool

record private_key =
  priv_algorithm :: asymmetric_key_algorithm
  priv_usages :: usage_mask
  priv_material :: bytes
  priv_der_encoded :: bool

definition public_export_der :: "public_key \<Rightarrow> bytes result" where
  "public_export_der key =
     (if \<not> pub_der_encoded key
      then Inl (make_error Invalid_key ''asymmetric'' ''public key material is not DER encoded'')
      else Inr (pub_material key))"

definition private_export_der :: "private_key \<Rightarrow> bytes result" where
  "private_export_der key =
     (if \<not> priv_der_encoded key
      then Inl (make_error Invalid_key ''asymmetric'' ''private key material is not DER encoded'')
      else secure_copy (priv_material key))"

section \<open>The key store\<close>

text \<open>
  An unordered_map is an association list; emplace adds an entry unless the key is there, and find
  returns the entry. The pointers that find returns are the entries themselves.
\<close>

definition emplace :: "'k \<Rightarrow> 'v \<Rightarrow> ('k \<times> 'v) list \<Rightarrow> ('k \<times> 'v) list" where
  "emplace k v m = (case map_of m k of None \<Rightarrow> m @ [(k, v)] | Some _ \<Rightarrow> m)"

record key_store =
  ks_secret :: "(string \<times> secret_key) list"
  ks_public :: "(string \<times> public_key) list"
  ks_private :: "(string \<times> private_key) list"

definition key_store_new :: key_store where
  "key_store_new = \<lparr>ks_secret = [], ks_public = [], ks_private = []\<rparr>"

definition key_store_error :: "error_code \<Rightarrow> string \<Rightarrow> crypto_error" where
  "key_store_error c message = make_error c ''key_store'' message"

definition require_key ::
  "('k \<Rightarrow> usage_mask) \<Rightarrow> 'k option \<Rightarrow> key_usage \<Rightarrow> string \<Rightarrow> string \<Rightarrow> 'k result" where
  "require_key usages key usage missing_message usage_message =
     (case key of
        None \<Rightarrow> Inl (key_store_error Invalid_key missing_message)
      | Some k \<Rightarrow>
          if \<not> has_key_usage (usages k) usage then Inl (key_store_error Invalid_key usage_message) else Inr k)"

definition has_id :: "key_store \<Rightarrow> string \<Rightarrow> bool" where
  "has_id s key_id \<longleftrightarrow> map_of (ks_secret s) key_id \<noteq> None \<or> map_of (ks_public s) key_id \<noteq> None \<or> map_of (ks_private s) key_id \<noteq> None"

definition validate_new_id :: "key_store \<Rightarrow> string \<Rightarrow> unit result" where
  "validate_new_id s key_id =
     (if key_id = [] then Inl (key_store_error Invalid_argument ''key id must not be empty'')
      else if has_id s key_id then Inl (key_store_error Invalid_argument ''key id already exists'')
      else Inr ())"

definition insert_secret :: "key_store \<Rightarrow> string \<Rightarrow> secret_key \<Rightarrow> unit result \<times> key_store" where
  "insert_secret s key_id key =
     (case validate_new_id s key_id of
        Inl e \<Rightarrow> (Inl e, s)
      | Inr _ \<Rightarrow> (Inr (), s\<lparr>ks_secret := emplace key_id key (ks_secret s)\<rparr>))"

definition insert_public :: "key_store \<Rightarrow> string \<Rightarrow> public_key \<Rightarrow> unit result \<times> key_store" where
  "insert_public s key_id key =
     (case validate_new_id s key_id of
        Inl e \<Rightarrow> (Inl e, s)
      | Inr _ \<Rightarrow> (Inr (), s\<lparr>ks_public := emplace key_id key (ks_public s)\<rparr>))"

definition insert_private :: "key_store \<Rightarrow> string \<Rightarrow> private_key \<Rightarrow> unit result \<times> key_store" where
  "insert_private s key_id key =
     (case validate_new_id s key_id of
        Inl e \<Rightarrow> (Inl e, s)
      | Inr _ \<Rightarrow> (Inr (), s\<lparr>ks_private := emplace key_id key (ks_private s)\<rparr>))"

definition store_contains :: "key_store \<Rightarrow> string \<Rightarrow> bool" where
  "store_contains s key_id = has_id s key_id"

definition find_secret :: "key_store \<Rightarrow> string \<Rightarrow> secret_key option" where
  "find_secret s key_id = map_of (ks_secret s) key_id"

definition find_public :: "key_store \<Rightarrow> string \<Rightarrow> public_key option" where
  "find_public s key_id = map_of (ks_public s) key_id"

definition find_private :: "key_store \<Rightarrow> string \<Rightarrow> private_key option" where
  "find_private s key_id = map_of (ks_private s) key_id"

definition require_secret :: "key_store \<Rightarrow> string \<Rightarrow> key_usage \<Rightarrow> secret_key result" where
  "require_secret s key_id usage =
     require_key sk_usages (find_secret s key_id) usage
       ''secret key id was not found'' ''secret key usage is not allowed''"

definition require_public :: "key_store \<Rightarrow> string \<Rightarrow> key_usage \<Rightarrow> public_key result" where
  "require_public s key_id usage =
     require_key pub_usages (find_public s key_id) usage
       ''public key id was not found'' ''public key usage is not allowed''"

definition require_private :: "key_store \<Rightarrow> string \<Rightarrow> key_usage \<Rightarrow> private_key result" where
  "require_private s key_id usage =
     require_key priv_usages (find_private s key_id) usage
       ''private key id was not found'' ''private key usage is not allowed''"

section \<open>The store as a transition system\<close>

inductive store_step :: "key_store \<Rightarrow> key_store \<Rightarrow> bool" where
  step_secret: "store_step s (snd (insert_secret s key_id k))"
| step_public: "store_step s (snd (insert_public s key_id k))"
| step_private: "store_step s (snd (insert_private s key_id k))"

inductive reachable_store :: "key_store \<Rightarrow> bool" where
  store_new: "reachable_store key_store_new"
| store_step: "reachable_store s \<Longrightarrow> store_step s t \<Longrightarrow> reachable_store t"

inductive_cases store_stepE: "store_step s t"

text \<open>
  The abstract store: one map from identifiers to keys of either kind.
\<close>

datatype any_key = A_secret secret_key | A_public public_key | A_private private_key

definition store_map :: "key_store \<Rightarrow> string \<Rightarrow> any_key option" where
  "store_map s key_id =
     (case find_secret s key_id of Some k \<Rightarrow> Some (A_secret k) | None \<Rightarrow>
      case find_public s key_id of Some k \<Rightarrow> Some (A_public k) | None \<Rightarrow>
        map_option A_private (find_private s key_id))"

definition store_ids :: "key_store \<Rightarrow> string list" where
  "store_ids s = map fst (ks_secret s) @ map fst (ks_public s) @ map fst (ks_private s)"

text \<open>No identifier twice, in one kind or in two, and none empty.\<close>

definition store_ok :: "key_store \<Rightarrow> bool" where
  "store_ok s \<longleftrightarrow> distinct (store_ids s) \<and> [] \<notin> set (store_ids s)"

lemma emplace_new: "map_of m k = None \<Longrightarrow> emplace k v m = m @ [(k, v)]"
  by (simp add: emplace_def)

lemma has_id_iff: "has_id s key_id \<longleftrightarrow> key_id \<in> set (store_ids s)"
  by (auto simp: has_id_def store_ids_def map_of_eq_None_iff)

lemma not_has_id:
  "\<not> has_id s key_id \<Longrightarrow> map_of (ks_secret s) key_id = None \<and> map_of (ks_public s) key_id = None \<and> map_of (ks_private s) key_id = None"
  by (simp add: has_id_def)

lemma validate_new_id_iff: "validate_new_id s key_id = Inr () \<longleftrightarrow> key_id \<noteq> [] \<and> \<not> has_id s key_id"
  by (simp add: validate_new_id_def)

lemmas insert_defs = insert_secret_def insert_public_def insert_private_def

text \<open>What an insertion does: nothing with an error, or one more identifier.\<close>

lemma insert_cases:
  "if key_id \<noteq> [] \<and> \<not> has_id s key_id
   then insert_secret s key_id k = (Inr (), s\<lparr>ks_secret := ks_secret s @ [(key_id, k)]\<rparr>)
   else \<exists>e. insert_secret s key_id k = (Inl e, s)"
  "if key_id \<noteq> [] \<and> \<not> has_id s key_id
   then insert_public s key_id k' = (Inr (), s\<lparr>ks_public := ks_public s @ [(key_id, k')]\<rparr>)
   else \<exists>e. insert_public s key_id k' = (Inl e, s)"
  "if key_id \<noteq> [] \<and> \<not> has_id s key_id
   then insert_private s key_id k'' = (Inr (), s\<lparr>ks_private := ks_private s @ [(key_id, k'')]\<rparr>)
   else \<exists>e. insert_private s key_id k'' = (Inl e, s)"
  using not_has_id [of s key_id] by (auto simp: insert_defs validate_new_id_def emplace_new)

text \<open>A step leaves the store or adds an identifier that is new, to one of the three maps.\<close>

lemma store_step_cases:
  assumes "store_step s t"
  obtains "t = s"
  | i k where "i \<noteq> []" "i \<notin> set (store_ids s)" "t = s\<lparr>ks_secret := ks_secret s @ [(i, k)]\<rparr>"
  | i k where "i \<noteq> []" "i \<notin> set (store_ids s)" "t = s\<lparr>ks_public := ks_public s @ [(i, k)]\<rparr>"
  | i k where "i \<noteq> []" "i \<notin> set (store_ids s)" "t = s\<lparr>ks_private := ks_private s @ [(i, k)]\<rparr>"
  using assms
proof (cases rule: store_step.cases)
  case (step_secret i k)
  then show ?thesis using insert_cases(1) [of i s k] that(1,2) unfolding has_id_iff by (metis snd_conv)
next
  case (step_public i k)
  then show ?thesis using insert_cases(2) [of i s k] that(1,3) unfolding has_id_iff by (metis snd_conv)
next
  case (step_private i k)
  then show ?thesis using insert_cases(3) [of i s k] that(1,4) unfolding has_id_iff by (metis snd_conv)
qed

lemma store_ok_step: "store_step s t \<Longrightarrow> store_ok s \<Longrightarrow> store_ok t"
proof (erule store_step_cases)
  assume ok: "store_ok s"
  show "t = s \<Longrightarrow> store_ok t" using ok by simp
  have d: "distinct (a @ b @ c)" "[] \<notin> set (a @ b @ c)"
    if "store_ids s = a @ b @ c" for a b c using ok that by (simp_all add: store_ok_def)
  show "store_ok t" if "i \<noteq> []" "i \<notin> set (store_ids s)" "t = s\<lparr>ks_secret := ks_secret s @ [(i, k)]\<rparr>" for i k
    using that(1,2) d [OF store_ids_def] unfolding that(3) by (auto simp: store_ok_def store_ids_def)
  show "store_ok t" if "i \<noteq> []" "i \<notin> set (store_ids s)" "t = s\<lparr>ks_public := ks_public s @ [(i, k)]\<rparr>" for i k
    using that(1,2) d [OF store_ids_def] unfolding that(3) by (auto simp: store_ok_def store_ids_def)
  show "store_ok t" if "i \<noteq> []" "i \<notin> set (store_ids s)" "t = s\<lparr>ks_private := ks_private s @ [(i, k)]\<rparr>" for i k
    using that(1,2) d [OF store_ids_def] unfolding that(3) by (auto simp: store_ok_def store_ids_def)
qed

lemma store_ok_reachable: "reachable_store s \<Longrightarrow> store_ok s"
proof (induction rule: reachable_store.induct)
  case store_new
  show ?case by (simp add: store_ok_def store_ids_def key_store_new_def)
qed (rule store_ok_step)

section \<open>The interface of a kind of key\<close>

text \<open>
  What the three insert and find pairs promise: together they keep one map from identifiers to
  keys, in which an identifier is used once, by a key of any kind.
\<close>

locale key_slot =
  fixes valid :: "'s \<Rightarrow> bool"
    and insert :: "'s \<Rightarrow> string \<Rightarrow> 'k \<Rightarrow> unit result \<times> 's"
    and find :: "'s \<Rightarrow> string \<Rightarrow> 'k option"
    and abs_map :: "'s \<Rightarrow> string \<Rightarrow> 'a option"
    and tag :: "'k \<Rightarrow> 'a"
  assumes insert_new: "valid s \<Longrightarrow> i \<noteq> [] \<Longrightarrow> abs_map s i = None \<Longrightarrow>
      \<exists>t. insert s i k = (Inr (), t) \<and> valid t \<and> abs_map t = (abs_map s)(i \<mapsto> tag k)"
    and insert_old: "valid s \<Longrightarrow> i = [] \<or> abs_map s i \<noteq> None \<Longrightarrow> \<exists>e. insert s i k = (Inl e, s)"
    and find_abs: "valid s \<Longrightarrow> find s i = Some k \<longleftrightarrow> abs_map s i = Some (tag k)"
    and tag_inject: "tag k = tag k' \<longleftrightarrow> k = k'"
begin

lemma insert_iff: "valid s \<Longrightarrow> fst (insert s i k) = Inr () \<longleftrightarrow> i \<noteq> [] \<and> abs_map s i = None"
  using insert_new [of s i k] insert_old [of s i k] by (metis fst_conv Inr_not_Inl)

lemma insert_valid: "valid s \<Longrightarrow> valid (snd (insert s i k))"
  using insert_new [of s i k] insert_old [of s i k] by (metis snd_conv)

lemma insert_abs:
  "valid s \<Longrightarrow> abs_map (snd (insert s i k)) = (if i \<noteq> [] \<and> abs_map s i = None then (abs_map s)(i \<mapsto> tag k) else abs_map s)"
  using insert_new [of s i k] insert_old [of s i k] by (metis snd_conv)

lemma find_inserted: "valid s \<Longrightarrow> fst (insert s i k) = Inr () \<Longrightarrow> find (snd (insert s i k)) i = Some k"
  using find_abs [OF insert_valid] insert_iff insert_abs by simp

lemma persists: "valid s \<Longrightarrow> abs_map s j = Some a \<Longrightarrow> abs_map (snd (insert s i k)) j = Some a"
  by (auto simp: insert_abs)

end

text \<open>The finds of a store in which an identifier is used once.\<close>

lemma map_of_disjoint: "set (map fst xs) \<inter> set (map fst ys) = {} \<Longrightarrow> map_of xs i = Some v \<Longrightarrow> map_of ys i = None"
  by (force dest: map_of_SomeD simp: map_of_eq_None_iff)

lemma store_ok_disjoint:
  assumes "store_ok s"
  shows "find_secret s i = Some k \<Longrightarrow> find_public s i = None \<and> find_private s i = None"
    and "find_public s i = Some k' \<Longrightarrow> find_secret s i = None \<and> find_private s i = None"
    and "find_private s i = Some k'' \<Longrightarrow> find_secret s i = None \<and> find_public s i = None"
proof -
  have d: "set (map fst (ks_secret s)) \<inter> set (map fst (ks_public s)) = {}"
    "set (map fst (ks_secret s)) \<inter> set (map fst (ks_private s)) = {}"
    "set (map fst (ks_public s)) \<inter> set (map fst (ks_private s)) = {}"
    using assms by (auto simp: store_ok_def store_ids_def)
  show "find_secret s i = Some k \<Longrightarrow> find_public s i = None \<and> find_private s i = None"
    unfolding find_secret_def find_public_def find_private_def
    using map_of_disjoint [OF d(1)] map_of_disjoint [OF d(2)] by simp
  show "find_public s i = Some k' \<Longrightarrow> find_secret s i = None \<and> find_private s i = None"
    unfolding find_secret_def find_public_def find_private_def
    using map_of_disjoint [OF d(1) [unfolded Int_commute [of _ "set (map fst (ks_public s))"]]] map_of_disjoint [OF d(3)] by simp
  show "find_private s i = Some k'' \<Longrightarrow> find_secret s i = None \<and> find_public s i = None"
    unfolding find_secret_def find_public_def find_private_def
    using map_of_disjoint [OF d(2) [unfolded Int_commute [of _ "set (map fst (ks_private s))"]]]
      map_of_disjoint [OF d(3) [unfolded Int_commute [of _ "set (map fst (ks_private s))"]]] by simp
qed

lemma store_map_None: "store_map s i = None \<longleftrightarrow> \<not> has_id s i"
  by (auto simp: store_map_def has_id_def find_secret_def find_public_def find_private_def split: option.split)

lemma store_map_find:
  assumes "store_ok s"
  shows "find_secret s i = Some k \<longleftrightarrow> store_map s i = Some (A_secret k)"
    and "find_public s i = Some k' \<longleftrightarrow> store_map s i = Some (A_public k')"
    and "find_private s i = Some k'' \<longleftrightarrow> store_map s i = Some (A_private k'')"
  using store_ok_disjoint(1) [OF assms, of i] store_ok_disjoint(2) [OF assms, of i]
  by (cases "find_secret s i"; cases "find_public s i"; cases "find_private s i"; simp add: store_map_def)+

text \<open>An identifier that is new is mapped to the key, and nothing else changes.\<close>

lemma map_of_snoc:
  "map_of xs i = None \<Longrightarrow> map_of (xs @ [(i, k)]) j = (if j = i then Some k else map_of xs j)"
  by (simp add: map_add_def split: option.split)

lemma store_map_insert:
  assumes "\<not> has_id s i"
  shows "store_map (s\<lparr>ks_secret := ks_secret s @ [(i, k)]\<rparr>) = (store_map s)(i \<mapsto> A_secret k)"
    and "store_map (s\<lparr>ks_public := ks_public s @ [(i, k')]\<rparr>) = (store_map s)(i \<mapsto> A_public k')"
    and "store_map (s\<lparr>ks_private := ks_private s @ [(i, k'')]\<rparr>) = (store_map s)(i \<mapsto> A_private k'')"
proof -
  have n: "map_of (ks_secret s) i = None" "map_of (ks_public s) i = None" "map_of (ks_private s) i = None"
    using not_has_id [OF assms] by simp_all
  note d = store_map_def find_secret_def find_public_def find_private_def
  show "store_map (s\<lparr>ks_secret := ks_secret s @ [(i, k)]\<rparr>) = (store_map s)(i \<mapsto> A_secret k)"
    by (rule ext) (simp add: d map_of_snoc n cong: option.case_cong del: map_of_append)
  show "store_map (s\<lparr>ks_public := ks_public s @ [(i, k')]\<rparr>) = (store_map s)(i \<mapsto> A_public k')"
    by (rule ext) (simp add: d map_of_snoc n cong: option.case_cong del: map_of_append)
  show "store_map (s\<lparr>ks_private := ks_private s @ [(i, k'')]\<rparr>) = (store_map s)(i \<mapsto> A_private k'')"
    by (rule ext) (simp add: d map_of_snoc n cong: option.case_cong del: map_of_append)
qed

lemma insert_old_cases:
  "i = [] \<or> has_id s i \<Longrightarrow> \<exists>e. insert_secret s i k = (Inl e, s)"
  "i = [] \<or> has_id s i \<Longrightarrow> \<exists>e. insert_public s i k' = (Inl e, s)"
  "i = [] \<or> has_id s i \<Longrightarrow> \<exists>e. insert_private s i k'' = (Inl e, s)"
  by (auto simp: insert_defs validate_new_id_def)

interpretation secret_slot: key_slot store_ok insert_secret find_secret store_map A_secret
proof (unfold_locales, unfold store_map_None)
  fix s i k
  assume ok: "store_ok s"
  show "i \<noteq> [] \<Longrightarrow> \<not> has_id s i \<Longrightarrow>
      \<exists>t. insert_secret s i k = (Inr (), t) \<and> store_ok t \<and> store_map t = (store_map s)(i \<mapsto> A_secret k)"
    using insert_cases(1) [of i s k] store_ok_step [OF step_secret ok, of i k] store_map_insert(1) [of s i k] by simp
  show "i = [] \<or> \<not> \<not> has_id s i \<Longrightarrow> \<exists>e. insert_secret s i k = (Inl e, s)" using insert_old_cases(1) by simp
  show "find_secret s i = Some k \<longleftrightarrow> store_map s i = Some (A_secret k)" by (rule store_map_find(1) [OF ok])
qed simp

interpretation public_slot: key_slot store_ok insert_public find_public store_map A_public
proof (unfold_locales, unfold store_map_None)
  fix s i k
  assume ok: "store_ok s"
  show "i \<noteq> [] \<Longrightarrow> \<not> has_id s i \<Longrightarrow>
      \<exists>t. insert_public s i k = (Inr (), t) \<and> store_ok t \<and> store_map t = (store_map s)(i \<mapsto> A_public k)"
    using insert_cases(2) [of i s k] store_ok_step [OF step_public ok, of i k] store_map_insert(2) [of s i k] by simp
  show "i = [] \<or> \<not> \<not> has_id s i \<Longrightarrow> \<exists>e. insert_public s i k = (Inl e, s)" using insert_old_cases(2) by simp
  show "find_public s i = Some k \<longleftrightarrow> store_map s i = Some (A_public k)" by (rule store_map_find(2) [OF ok])
qed simp

interpretation private_slot: key_slot store_ok insert_private find_private store_map A_private
proof (unfold_locales, unfold store_map_None)
  fix s i k
  assume ok: "store_ok s"
  show "i \<noteq> [] \<Longrightarrow> \<not> has_id s i \<Longrightarrow>
      \<exists>t. insert_private s i k = (Inr (), t) \<and> store_ok t \<and> store_map t = (store_map s)(i \<mapsto> A_private k)"
    using insert_cases(3) [of i s k] store_ok_step [OF step_private ok, of i k] store_map_insert(3) [of s i k] by simp
  show "i = [] \<or> \<not> \<not> has_id s i \<Longrightarrow> \<exists>e. insert_private s i k = (Inl e, s)" using insert_old_cases(3) by simp
  show "find_private s i = Some k \<longleftrightarrow> store_map s i = Some (A_private k)" by (rule store_map_find(3) [OF ok])
qed simp

section \<open>Usages\<close>

lemma has_usage_single: "has_key_usage (key_usage_value u) v \<longleftrightarrow> u = v \<and> u \<noteq> Usage_none"
  by (cases u; cases v) (simp_all add: has_key_usage_def)

lemma has_usage_or: "has_key_usage (usage_or m u) v \<longleftrightarrow> has_key_usage m v \<or> (u = v \<and> u \<noteq> Usage_none)"
proof -
  have "(m OR key_usage_value u) AND key_usage_value v = (m AND key_usage_value v) OR (key_usage_value u AND key_usage_value v)"
    by (rule bit.conj_disj_distrib2)
  then show ?thesis
    using has_usage_single [of u v] by (simp add: has_key_usage_def usage_or_def or_eq_0_iff)
qed

lemma require_key_iff: "require_key f k u a b = Inr x \<longleftrightarrow> k = Some x \<and> has_key_usage (f x) u"
  by (auto simp: require_key_def split: option.split)

text \<open>Keys stay in the store as they are.\<close>

lemma store_step_persists: "store_step s t \<Longrightarrow> store_ok s \<Longrightarrow> store_map s i = Some a \<Longrightarrow> store_map t i = Some a"
  by (elim store_stepE) (simp_all add: secret_slot.persists public_slot.persists private_slot.persists)

lemma store_steps_persist:
  assumes "store_step\<^sup>*\<^sup>* s t" "store_ok s" "store_map s i = Some a"
  shows "store_ok t \<and> store_map t i = Some a"
  using assms(1)
proof (induction rule: rtranclp_induct)
  case (step t u)
  then show ?case using store_ok_step store_step_persists by blast
qed (use assms(2,3) in simp)

section \<open>Properties\<close>

text \<open>
  C17: the invariant of the key store. In every store that insertions of keys of the three kinds
  can lead to, no identifier occurs twice, under one kind or under two, and none is empty.
\<close>

theorem key_store_invariant:
  assumes "reachable_store s"
  shows "distinct (store_ids s) \<and> [] \<notin> set (store_ids s)"
  using store_ok_reachable [OF assms] by (simp add: store_ok_def)

theorem key_store_invariant_witness:
  "distinct (store_ids (snd (insert_public key_store_new ''k''
     \<lparr>pub_algorithm = Rsa, pub_usages = 32, pub_material = [1], pub_der_encoded = True\<rparr>)))"
  using key_store_invariant [OF reachable_store.store_step [OF store_new step_public],
      of "''k''" "\<lparr>pub_algorithm = Rsa, pub_usages = 32, pub_material = [1], pub_der_encoded = True\<rparr>"]
  by blast

text \<open>
  C18: the key store refines one map from identifiers to keys of any kind. An insertion succeeds
  exactly for a nonempty identifier that is not in the map, which then maps it to the key; otherwise
  the store is left as it is. The three lookups read that map.
\<close>

theorem key_store_refines_map:
  assumes "reachable_store s"
  defines "new \<equiv> \<lambda>i. i \<noteq> [] \<and> store_map s i = None"
  shows
    "((fst (insert_secret s i k) = Inr () \<longleftrightarrow> new i) \<and>
      store_map (snd (insert_secret s i k)) = (if new i then (store_map s)(i \<mapsto> A_secret k) else store_map s) \<and>
      (find_secret s i = Some k \<longleftrightarrow> store_map s i = Some (A_secret k))) \<and>
     ((fst (insert_public s i k') = Inr () \<longleftrightarrow> new i) \<and>
      store_map (snd (insert_public s i k')) = (if new i then (store_map s)(i \<mapsto> A_public k') else store_map s) \<and>
      (find_public s i = Some k' \<longleftrightarrow> store_map s i = Some (A_public k'))) \<and>
     ((fst (insert_private s i k'') = Inr () \<longleftrightarrow> new i) \<and>
      store_map (snd (insert_private s i k'')) = (if new i then (store_map s)(i \<mapsto> A_private k'') else store_map s) \<and>
      (find_private s i = Some k'' \<longleftrightarrow> store_map s i = Some (A_private k''))) \<and>
     (store_contains s i \<longleftrightarrow> store_map s i \<noteq> None)"
proof -
  have ok: "store_ok s" by (rule store_ok_reachable [OF assms(1)])
  show ?thesis
    unfolding new_def secret_slot.insert_iff [OF ok] public_slot.insert_iff [OF ok] private_slot.insert_iff [OF ok]
      secret_slot.insert_abs [OF ok] public_slot.insert_abs [OF ok] private_slot.insert_abs [OF ok]
      secret_slot.find_abs [OF ok] public_slot.find_abs [OF ok] private_slot.find_abs [OF ok]
      store_contains_def store_map_None
    by simp
qed

theorem key_store_refines_map_witness:
  "fst (insert_private key_store_new ''k''
     \<lparr>priv_algorithm = Rsa, priv_usages = 16, priv_material = [1], priv_der_encoded = True\<rparr>) = Inr ()"
  using key_store_refines_map [OF store_new, of "''k''" undefined undefined
      "\<lparr>priv_algorithm = Rsa, priv_usages = 16, priv_material = [1], priv_der_encoded = True\<rparr>"]
  by (simp add: store_map_None has_id_iff store_ids_def key_store_new_def)

text \<open>
  C19: no key is handed out for a usage it was not imported with, nor replaced. require_secret
  returns a key exactly when it is the one under the identifier and its mask has the usage; and
  what a reachable store returns, every later store returns as well, whatever is inserted.
\<close>

theorem key_requirements_stable:
  assumes "reachable_store s" "store_step\<^sup>*\<^sup>* s t"
  shows
    "(require_secret s i u = Inr k \<longleftrightarrow> store_map s i = Some (A_secret k) \<and> has_key_usage (sk_usages k) u) \<and>
     (require_public s i u = Inr k' \<longleftrightarrow> store_map s i = Some (A_public k') \<and> has_key_usage (pub_usages k') u) \<and>
     (require_private s i u = Inr k'' \<longleftrightarrow> store_map s i = Some (A_private k'') \<and> has_key_usage (priv_usages k'') u) \<and>
     (require_secret s i u = Inr k \<longrightarrow> require_secret t i u = Inr k) \<and>
     (require_public s i u = Inr k' \<longrightarrow> require_public t i u = Inr k') \<and>
     (require_private s i u = Inr k'' \<longrightarrow> require_private t i u = Inr k'')"
proof -
  have ok: "store_ok s" by (rule store_ok_reachable [OF assms(1)])
  note later = store_steps_persist [OF assms(2) ok, of i]
  show ?thesis
    unfolding require_secret_def require_public_def require_private_def require_key_iff store_map_find [OF ok]
    using later store_map_find by blast
qed

theorem key_requirements_stable_witness:
  "require_secret (snd (insert_secret (snd (insert_secret key_store_new ''k''
       \<lparr>sk_algorithm = Aes_128, sk_usages = 3, sk_bytes = [1]\<rparr>)) ''k''
       \<lparr>sk_algorithm = Aes_256, sk_usages = 3, sk_bytes = [2]\<rparr>)) ''k'' Usage_decrypt
     = Inr \<lparr>sk_algorithm = Aes_128, sk_usages = 3, sk_bytes = [1]\<rparr>"
proof -
  let ?k1 = "\<lparr>sk_algorithm = Aes_128, sk_usages = 3, sk_bytes = [1]\<rparr> :: secret_key"
  let ?s = "snd (insert_secret key_store_new ''k'' ?k1)"
  have reach: "reachable_store ?s" by (rule reachable_store.store_step [OF store_new step_secret])
  have "require_secret ?s ''k'' Usage_decrypt = Inr ?k1"
    by (simp add: require_secret_def require_key_iff find_secret_def insert_secret_def validate_new_id_def has_id_def
        key_store_new_def emplace_def has_key_usage_def)
  then show ?thesis
    using key_requirements_stable [OF reach r_into_rtranclp, OF step_secret, of "''k''" Usage_decrypt ?k1] by blast
qed

text \<open>
  Importing a secret key. import_raw returns a key exactly for material of the size of the
  algorithm (any nonempty size for the generic and HMAC keys); the key has the algorithm and the
  bytes, exports them again, and with one usage it allows exactly that usage.
\<close>

lemma secret_import_exact:
  "(secret_import_raw_usage a bs u = Inr k \<longleftrightarrow>
     k = \<lparr>sk_algorithm = a, sk_usages = key_usage_value u, sk_bytes = bs\<rparr> \<and>
     (if key_algorithm_secret_size a = 0 then bs \<noteq> [] else length bs = key_algorithm_secret_size a)) \<and>
   secret_from_buffer_usage a bs u = secret_import_raw_usage a bs u \<and>
   secret_export_raw k = Inr (sk_bytes k) \<and>
   (has_key_usage (key_usage_value u) v \<longleftrightarrow> u = v \<and> u \<noteq> Usage_none)"
proof -
  have "is_known_algorithm a" by (cases a) simp_all
  then show ?thesis
    using has_usage_single [of u v]
    by (auto simp: secret_import_raw_usage_def secret_import_raw_def secret_from_buffer_usage_def secret_from_buffer_def
        validate_secret_key_material_def secure_copy_def secret_export_raw_def Let_def)
qed

end
