(* ===== verification/Asymmetric.thy ===== *)
theory Asymmetric
  imports Keys Rsa_Pss Rsa_Oaep
begin

text \<open>
  include/crypto_core/asymmetric.hpp: the algorithms and the parameter structures of signatures
  and of encryption with public keys. A pointer to a key is an option.
\<close>

datatype signature_algorithm = Rsa_pss | Rsa_pss_sha256 | Ecdsa_p256_sha256 | Ecdsa_p384_sha384 | Sig_ed25519

datatype asymmetric_encryption_algorithm = Rsa_oaep | Rsa_oaep_sha256

datatype key_agreement_algorithm = Ecdh_p256 | Ecdh_p384

datatype verify_status = Valid | Invalid

fun asymmetric_key_algorithm_name :: "asymmetric_key_algorithm \<Rightarrow> string" where
  "asymmetric_key_algorithm_name Rsa = ''RSA''"
| "asymmetric_key_algorithm_name Ecdsa_p256 = ''ECDSA-P256''"
| "asymmetric_key_algorithm_name Ecdsa_p384 = ''ECDSA-P384''"
| "asymmetric_key_algorithm_name Ed25519 = ''Ed25519''"

fun signature_algorithm_name :: "signature_algorithm \<Rightarrow> string" where
  "signature_algorithm_name Rsa_pss = ''RSA-PSS''"
| "signature_algorithm_name Rsa_pss_sha256 = ''RSA-PSS-SHA256''"
| "signature_algorithm_name Ecdsa_p256_sha256 = ''ECDSA-P256-SHA256''"
| "signature_algorithm_name Ecdsa_p384_sha384 = ''ECDSA-P384-SHA384''"
| "signature_algorithm_name Sig_ed25519 = ''Ed25519''"

fun asymmetric_encryption_algorithm_name :: "asymmetric_encryption_algorithm \<Rightarrow> string" where
  "asymmetric_encryption_algorithm_name Rsa_oaep = ''RSA-OAEP''"
| "asymmetric_encryption_algorithm_name Rsa_oaep_sha256 = ''RSA-OAEP-SHA256''"

fun key_agreement_algorithm_name :: "key_agreement_algorithm \<Rightarrow> string" where
  "key_agreement_algorithm_name Ecdh_p256 = ''ECDH-P256''"
| "key_agreement_algorithm_name Ecdh_p384 = ''ECDH-P384''"

fun verify_status_name :: "verify_status \<Rightarrow> string" where
  "verify_status_name Valid = ''valid''"
| "verify_status_name Invalid = ''invalid''"

record verify_result =
  vr_status :: verify_status

definition verify_valid :: verify_result where
  "verify_valid = \<lparr>vr_status = Valid\<rparr>"

definition verify_invalid :: verify_result where
  "verify_invalid = \<lparr>vr_status = Invalid\<rparr>"

definition is_valid :: "verify_result \<Rightarrow> bool" where
  "is_valid r \<longleftrightarrow> vr_status r = Valid"

definition pss_for_hash :: "hash_algorithm \<Rightarrow> rsa_pss_params" where
  "pss_for_hash h = \<lparr>ps_message_hash = h, ps_mgf1_hash = h, ps_salt_length = of_nat (digest_size h)\<rparr>"

definition oaep_for_hash :: "hash_algorithm \<Rightarrow> rsa_oaep_params" where
  "oaep_for_hash h = \<lparr>oa_message_hash = h, oa_mgf1_hash = h, oa_label = []\<rparr>"

definition oaep_with_label :: "hash_algorithm \<Rightarrow> bytes \<Rightarrow> rsa_oaep_params" where
  "oaep_with_label h label = \<lparr>oa_message_hash = h, oa_mgf1_hash = h, oa_label = label\<rparr>"

record sign_params =
  sp_algorithm :: signature_algorithm
  sp_private_key :: "private_key option"
  sp_rsa_pss :: rsa_pss_params

record verify_params =
  vp_algorithm :: signature_algorithm
  vp_public_key :: "public_key option"
  vp_signature :: bytes
  vp_rsa_pss :: rsa_pss_params

record asymmetric_encrypt_params =
  ep_algorithm :: asymmetric_encryption_algorithm
  ep_public_key :: "public_key option"
  ep_rsa_oaep :: rsa_oaep_params

record asymmetric_decrypt_params =
  dp_algorithm :: asymmetric_encryption_algorithm
  dp_private_key :: "private_key option"
  dp_rsa_oaep :: rsa_oaep_params

end
