(* ===== verification/P256_Words.thy ===== *)
theory P256_Words
  imports Limbs Crypto_Prelude
begin

text \<open>
  src/p256_fixed.cpp, the integers: 256-bit numbers as eight 32-bit limbs (struct U256) and their
  products as sixteen (struct U512), reduced bit by bit modulo the field prime or the group order.
  The limb loops of Limbs are used where the code repeats them; each operation is proved against
  the number its limbs denote.
\<close>

section \<open>Numbers of eight limbs\<close>

type_synonym u256 = "u32 list"
type_synonym u512 = "u32 list"

definition p_value :: u256 where
  "p_value = [0xFFFFFFFF, 0xFFFFFFFF, 0xFFFFFFFF, 0x00000000, 0x00000000, 0x00000000, 0x00000001, 0xFFFFFFFF]"

definition a_value :: u256 where
  "a_value = [0xFFFFFFFC, 0xFFFFFFFF, 0xFFFFFFFF, 0x00000000, 0x00000000, 0x00000000, 0x00000001, 0xFFFFFFFF]"

definition b_value :: u256 where
  "b_value = [0x27D2604B, 0x3BCE3C3E, 0xCC53B0F6, 0x651D06B0, 0x769886BC, 0xB3EBBD55, 0xAA3A93E7, 0x5AC635D8]"

definition gx_value :: u256 where
  "gx_value = [0xD898C296, 0xF4A13945, 0x2DEB33A0, 0x77037D81, 0x63A440F2, 0xF8BCE6E5, 0xE12C4247, 0x6B17D1F2]"

definition gy_value :: u256 where
  "gy_value = [0x37BF51F5, 0xCBB64068, 0x6B315ECE, 0x2BCE3357, 0x7C0F9E16, 0x8EE7EB4A, 0xFE1A7F9B, 0x4FE342E2]"

definition n_value :: u256 where
  "n_value = [0xFC632551, 0xF3B9CAC2, 0xA7179E84, 0xBCE6FAAD, 0xFFFFFFFF, 0xFFFFFFFF, 0x00000000, 0xFFFFFFFF]"

definition p_minus_two_value :: u256 where
  "p_minus_two_value = [0xFFFFFFFD, 0xFFFFFFFF, 0xFFFFFFFF, 0x00000000, 0x00000000, 0x00000000, 0x00000001, 0xFFFFFFFF]"

definition n_minus_two_value :: u256 where
  "n_minus_two_value = [0xFC63254F, 0xF3B9CAC2, 0xA7179E84, 0xBCE6FAAD, 0xFFFFFFFF, 0xFFFFFFFF, 0x00000000, 0xFFFFFFFF]"

definition p256_fixed_error :: "error_code \<Rightarrow> string \<Rightarrow> crypto_error" where
  "p256_fixed_error c message = make_error c ''p256_fixed'' message"

definition u256_zero :: u256 where
  "u256_zero = replicate 8 0"

definition u256_one :: u256 where
  "u256_one = (replicate 8 0)[0 := 1]"

definition u256_word :: "u32 \<Rightarrow> u256" where
  "u256_word v = (replicate 8 0)[0 := v]"

definition u256_is_zero :: "u256 \<Rightarrow> bool" where
  "u256_is_zero v = list_all (\<lambda>limb. limb = 0) v"

definition u256_compare :: "u256 \<Rightarrow> u256 \<Rightarrow> int" where
  "u256_compare lhs rhs = compare_down (rev lhs) (rev rhs)"

fun subtract_loop :: "u256 \<Rightarrow> u256 \<Rightarrow> u64 \<Rightarrow> u256" where
  "subtract_loop (l # ls) (r # rs) borrow =
     (let left = ucast l;
          right = ucast r + borrow
      in if left \<ge> right then low32 (left - right) # subtract_loop ls rs 0
         else low32 (push_bit 32 1 + left - right) # subtract_loop ls rs 1)"
| "subtract_loop _ _ borrow = []"

definition subtract_wrapped :: "u256 \<Rightarrow> u256 \<Rightarrow> u256" where
  "subtract_wrapped lhs rhs = subtract_loop lhs rhs 0"

definition subtract_checked :: "u256 \<Rightarrow> u256 \<Rightarrow> u256" where
  "subtract_checked lhs rhs = subtract_wrapped lhs rhs"

definition multiply_wide :: "u256 \<Rightarrow> u256 \<Rightarrow> u512" where
  "multiply_wide lhs rhs = multiply_rows lhs rhs (replicate 16 0)"

definition word_bit_at :: "u32 list \<Rightarrow> nat \<Rightarrow> bool" where
  "word_bit_at v i = (drop_bit (i mod 32) (v ! (i div 32)) AND 1 \<noteq> 0)"

text \<open>One left shift through the limbs; the second component is the bit that is shifted out.\<close>

fun shift_left_loop :: "u256 \<Rightarrow> u32 \<Rightarrow> u256 \<times> u32" where
  "shift_left_loop [] carry = ([], carry)"
| "shift_left_loop (x # xs) carry =
     (let (out, c) = shift_left_loop xs (drop_bit 31 x)
      in ((push_bit 1 x OR carry) # out, c))"

definition shift_left_one_add :: "u256 \<Rightarrow> bool \<Rightarrow> u256 \<times> bool" where
  "shift_left_one_add v b =
     (let (out, carry) = shift_left_loop v (if b then 1 else 0) in (out, carry \<noteq> 0))"

definition reduce_step :: "u512 \<Rightarrow> u256 \<Rightarrow> u256 \<Rightarrow> nat \<Rightarrow> u256" where
  "reduce_step v modulus remainder i =
     (let (remainder, carry) = shift_left_one_add remainder (word_bit_at v i)
      in if carry then subtract_wrapped remainder modulus
         else if u256_compare remainder modulus \<ge> 0 then subtract_checked remainder modulus
         else remainder)"

definition reduce_wide :: "u512 \<Rightarrow> u256 \<Rightarrow> u256" where
  "reduce_wide v modulus = foldl (reduce_step v modulus) u256_zero (rev [0..<16 * 32])"

definition reduce_256 :: "u256 \<Rightarrow> u256 \<Rightarrow> u256" where
  "reduce_256 v modulus = reduce_wide (v @ replicate 8 0) modulus"

section \<open>Modular operations\<close>

definition u256_mod_add :: "u256 \<Rightarrow> u256 \<Rightarrow> u256 \<Rightarrow> u256" where
  "u256_mod_add lhs rhs modulus =
     (let (sum, carry) = add_limbs lhs rhs 0
      in reduce_wide (sum @ [low32 carry] @ replicate 7 0) modulus)"

definition u256_mod_subtract :: "u256 \<Rightarrow> u256 \<Rightarrow> u256 \<Rightarrow> u256" where
  "u256_mod_subtract lhs rhs modulus =
     (if u256_compare lhs rhs \<ge> 0 then subtract_checked lhs rhs
      else let delta = subtract_checked rhs lhs in subtract_checked modulus delta)"

definition u256_mod_multiply :: "u256 \<Rightarrow> u256 \<Rightarrow> u256 \<Rightarrow> u256" where
  "u256_mod_multiply lhs rhs modulus = reduce_wide (multiply_wide lhs rhs) modulus"

definition exp_step :: "u256 \<Rightarrow> u256 \<Rightarrow> u256 \<Rightarrow> u256 \<Rightarrow> nat \<Rightarrow> u256" where
  "exp_step base exponent modulus acc i =
     (let acc = u256_mod_multiply acc acc modulus
      in if word_bit_at exponent i then u256_mod_multiply acc base modulus else acc)"

definition u256_mod_exp :: "u256 \<Rightarrow> u256 \<Rightarrow> u256 \<Rightarrow> u256" where
  "u256_mod_exp base exponent modulus =
     foldl (exp_step (reduce_256 base modulus) exponent modulus) (reduce_256 u256_one modulus) (rev [0..<8 * 32])"

definition field_add :: "u256 \<Rightarrow> u256 \<Rightarrow> u256" where
  "field_add lhs rhs = u256_mod_add lhs rhs p_value"

definition field_subtract :: "u256 \<Rightarrow> u256 \<Rightarrow> u256" where
  "field_subtract lhs rhs = u256_mod_subtract lhs rhs p_value"

definition field_multiply :: "u256 \<Rightarrow> u256 \<Rightarrow> u256" where
  "field_multiply lhs rhs = u256_mod_multiply lhs rhs p_value"

definition field_inverse :: "u256 \<Rightarrow> u256" where
  "field_inverse v = u256_mod_exp v p_minus_two_value p_value"

definition scalar_reduce :: "u256 \<Rightarrow> u256" where
  "scalar_reduce v = reduce_256 v n_value"

section \<open>Bytes\<close>

definition u256_from_be :: "bytes \<Rightarrow> u256 result" where
  "u256_from_be bs =
     (let bs = dropWhile (\<lambda>b. b = 0) bs in
      if length bs > 32 then Inl (p256_fixed_error Invalid_argument ''integer exceeds 256 bits'')
      else Inr (limbs_from_le_bytes 8 (rev bs)))"

definition coordinate_from_be :: "bytes \<Rightarrow> u256 result" where
  "coordinate_from_be bs =
     (if length bs \<noteq> 32 then Inl (p256_fixed_error Invalid_argument ''P-256 coordinates must be 32 bytes'')
      else
        rbind (u256_from_be bs) (\<lambda>v.
          if u256_compare v p_value \<ge> 0 then Inl (p256_fixed_error Invalid_key ''P-256 coordinate exceeds field'')
          else Inr v))"

definition scalar_from_be_reduced :: "bytes \<Rightarrow> u256 result" where
  "scalar_from_be_reduced bs = rbind (u256_from_be bs) (\<lambda>v. Inr (scalar_reduce v))"

definition to_be_bytes_fixed :: "u256 \<Rightarrow> bytes" where
  "to_be_bytes_fixed v = limbs_to_be_bytes v"

definition to_be_bytes_minimal :: "u256 \<Rightarrow> bytes" where
  "to_be_bytes_minimal v =
     (if u256_is_zero v then [0] else dropWhile (\<lambda>b. b = 0) (limbs_to_be_bytes v))"

section \<open>Scalars modulo the group order\<close>

definition p256_fixed_scalar_inverse :: "bytes \<Rightarrow> bytes result" where
  "p256_fixed_scalar_inverse scalar =
     rbind (scalar_from_be_reduced scalar) (\<lambda>reduced.
       if u256_is_zero reduced then Inl (p256_fixed_error Invalid_argument ''scalar has no inverse'')
       else Inr (to_be_bytes_minimal (u256_mod_exp reduced n_minus_two_value n_value)))"

definition p256_fixed_scalar_add_mod :: "bytes \<Rightarrow> bytes \<Rightarrow> bytes result" where
  "p256_fixed_scalar_add_mod lhs rhs =
     rbind (scalar_from_be_reduced lhs) (\<lambda>left.
     rbind (scalar_from_be_reduced rhs) (\<lambda>right.
       Inr (to_be_bytes_minimal (u256_mod_add left right n_value))))"

definition p256_fixed_scalar_multiply_mod :: "bytes \<Rightarrow> bytes \<Rightarrow> bytes result" where
  "p256_fixed_scalar_multiply_mod lhs rhs =
     rbind (scalar_from_be_reduced lhs) (\<lambda>left.
     rbind (scalar_from_be_reduced rhs) (\<lambda>right.
       Inr (to_be_bytes_minimal (u256_mod_multiply left right n_value))))"

definition p256_fixed_scalar_reduce_fixed_32 :: "bytes \<Rightarrow> bytes result" where
  "p256_fixed_scalar_reduce_fixed_32 scalar =
     rbind (scalar_from_be_reduced scalar) (\<lambda>reduced. Inr (to_be_bytes_fixed reduced))"

definition p256_fixed_scalar_is_valid_nonzero :: "bytes \<Rightarrow> bool result" where
  "p256_fixed_scalar_is_valid_nonzero scalar =
     (let scalar = dropWhile (\<lambda>b. b = 0) scalar in
      if length scalar > 32 then Inr False
      else rbind (u256_from_be scalar) (\<lambda>v. Inr (\<not> u256_is_zero v \<and> u256_compare v n_value < 0)))"

section \<open>The loops on numbers\<close>

lemma low32_wraps: "low32 (push_bit 32 1 + x) = low32 x"
  by (rule word_unat_eq_iff [THEN iffD2]) (simp add: unat_ucast_mod unat_word_ariths mod_mod_cancel mod_add_eq)

lemma subtract_loop_sub: "subtract_loop ls rs borrow = fst (sub_limbs ls rs borrow)"
proof (induction ls rs borrow rule: subtract_loop.induct)
  case (1 l ls r rs borrow)
  have "push_bit 32 1 + ucast l - (ucast r + borrow) = push_bit 32 1 + (ucast l - (ucast r + borrow) :: u64)" by simp
  then have "low32 (push_bit 32 1 + ucast l - (ucast r + borrow)) = low32 (ucast l - (ucast r + borrow))"
    by (simp only: low32_wraps)
  then show ?case using 1 by (cases "ucast l < ucast r + borrow") (auto simp: Let_def split: prod.split)
qed simp_all

definition u256_val :: "u256 \<Rightarrow> nat" where
  "u256_val v = limb_val v"

text \<open>Numbers of eight limbs, and those below a bound.\<close>

definition u256_ok :: "u256 \<Rightarrow> bool" where
  "u256_ok v \<longleftrightarrow> length v = 8"

lemma u256_bound: "u256_ok v \<Longrightarrow> u256_val v < 2 ^ 256"
  using limb_val_bound [of v] by (simp add: u256_ok_def u256_val_def limb_base_def)

lemma u256_inject: "u256_ok v \<Longrightarrow> u256_ok w \<Longrightarrow> u256_val v = u256_val w \<longleftrightarrow> v = w"
  using limb_val_inject [of v w] by (simp add: u256_ok_def u256_val_def)

lemma subtract_wrapped_ok [simp]: "u256_ok l \<Longrightarrow> u256_ok r \<Longrightarrow> u256_ok (subtract_wrapped l r)"
  using sub_limbs_value [of l r 0] by (simp add: u256_ok_def subtract_wrapped_def subtract_loop_sub)

lemma subtract_wrapped_val:
  assumes "u256_ok l" "u256_ok r"
  shows "u256_val (subtract_wrapped l r) =
    (if u256_val r \<le> u256_val l then u256_val l - u256_val r else 2 ^ 256 + u256_val l - u256_val r)"
  using sub_limbs_le(1) [of l r] sub_limbs_less [of l r] assms
  by (auto simp: u256_ok_def u256_val_def subtract_wrapped_def subtract_loop_sub limb_base_def not_le)

lemma u256_compare_val:
  assumes "u256_ok l" "u256_ok r"
  shows "u256_compare l r =
    (if u256_val l < u256_val r then -1 else if u256_val r < u256_val l then 1 else 0)"
  using compare_down_value [of l r] assms by (simp add: u256_ok_def u256_val_def u256_compare_def)

lemma u256_is_zero_iff: "u256_is_zero v \<longleftrightarrow> u256_val v = 0"
  by (simp add: u256_is_zero_def u256_val_def limb_val_eq_0 list_all_iff)

lemma u256_constants [simp]: "u256_ok u256_zero" "u256_ok u256_one" "u256_ok (u256_word v)" "u256_val u256_zero = 0"
  "u256_val u256_one = 1" "u256_val (u256_word v) = unat v"
  by (simp_all add: u256_ok_def u256_zero_def u256_one_def u256_word_def u256_val_def numeral_eq_Suc)

lemma multiply_wide_val:
  assumes "u256_ok l" "u256_ok r"
  shows "limb_val (multiply_wide l r) = u256_val l * u256_val r" "length (multiply_wide l r) = 16"
  using multiply_rows_value [of l r "replicate 16 0"] assms by (simp_all add: u256_ok_def u256_val_def multiply_wide_def)

text \<open>The bit of a number.\<close>

lemma word_bit_at_iff: "i < 32 * length v \<Longrightarrow> word_bit_at v i \<longleftrightarrow> odd (limb_val v div 2 ^ i)"
  using limb_bit_odd [of i v] by (simp add: word_bit_at_def less_mult_imp_div_less mult.commute)

lemma shift_word:
  assumes "unat c \<le> 1"
  shows "unat (push_bit 1 x OR c) + limb_base * unat (drop_bit 31 x) = 2 * unat (x::u32) + unat c"
proof -
  have c: "c = 0 \<or> c = 1" using assms unfolding word_unat_eq_iff unat_0 unat_1 by linarith
  have or: "push_bit 1 x OR c = push_bit 1 x + c"
    by (rule disjunctive_add [symmetric]) (use c in \<open>auto simp: mult.commute [of x] bit_double_iff bit_1_iff\<close>)
  have p: "unat (push_bit 1 x) = (2 * unat x) mod limb_base"
    by (simp add: push_bit_eq_mult unat_word_ariths limb_base_def mult.commute)
  have d: "unat (drop_bit 31 x) = (2 * unat x) div limb_base"
    by (simp add: unat_drop_bit_div limb_base_def)
  have half: "limb_base = 2 * 2 ^ 31" by (simp add: limb_base_def)
  have m: "(2 * unat x) mod limb_base = 2 * (unat x mod 2 ^ 31)" unfolding half by (rule mod_mult_mult1)
  have "unat x mod 2 ^ 31 < 2 ^ 31" by simp
  then have "2 * (unat x mod 2 ^ 31) + unat c < limb_base" using assms unfolding half by linarith
  then have "unat (push_bit 1 x + c) = 2 * (unat x mod 2 ^ 31) + unat c"
    unfolding unat_word_ariths(1) p m by (simp add: limb_base_def)
  then show ?thesis unfolding or d m [symmetric] using div_mult_mod_eq [of "2 * unat x" limb_base] by simp
qed

lemma shift_left_loop_value:
  "unat c \<le> 1 \<Longrightarrow> limb_val (fst (shift_left_loop xs c)) + limb_base ^ length xs * unat (snd (shift_left_loop xs c))
      = 2 * limb_val xs + unat c
    \<and> length (fst (shift_left_loop xs c)) = length xs \<and> unat (snd (shift_left_loop xs c)) \<le> 1"
proof (induction xs arbitrary: c)
  case (Cons x xs)
  have "unat (drop_bit 31 x) \<le> 1" using unat_limb [of x] by (simp add: unat_drop_bit_div limb_base_def)
  note ih = Cons.IH [OF this]
  obtain out d where o: "shift_left_loop xs (drop_bit 31 x) = (out, d)" by fastforce
  have "unat (push_bit 1 x OR c) + limb_base * limb_val out + limb_base * (limb_base ^ length xs * unat d)
      = unat (push_bit 1 x OR c) + limb_base * (2 * limb_val xs + unat (drop_bit 31 x))"
    using ih by (simp add: o flip: distrib_left)
  also have "\<dots> = 2 * unat x + unat c + limb_base * (2 * limb_val xs)"
    using shift_word [OF Cons.prems, of x] by (simp add: algebra_simps)
  finally show ?case using ih by (simp add: o algebra_simps)
qed simp

text \<open>One step of the division: the remainder takes in the next bit.\<close>

lemma reduce_step_value:
  assumes "u256_ok m" "u256_ok r" "u256_val r < u256_val m" "i < 32 * length v"
  shows "u256_ok (reduce_step v m r i) \<and>
    u256_val (reduce_step v m r i) = (2 * u256_val r + limb_val v div 2 ^ i mod 2) mod u256_val m"
proof -
  define b where "b = word_bit_at v i"
  obtain out c where s: "shift_left_loop r (if b then 1 else 0) = (out, c)" by fastforce
  have bit: "limb_val v div 2 ^ i mod 2 = (if b then 1 else 0)"
    using word_bit_at_iff [OF assms(4)] by (auto simp: b_def mod2_eq_if)
  define t where "t = 2 * u256_val r + (if b then 1 else 0)"
  have "limb_base ^ 8 = 2 ^ 256" by (simp add: limb_base_def)
  then have val: "u256_val out + 2 ^ 256 * unat c = t" "u256_ok out" "unat c \<le> 1"
    using shift_left_loop_value [of "if b then 1 else 0" r] assms(2) s
    by (auto simp: u256_ok_def u256_val_def t_def)
  have t: "t < 2 * u256_val m" using assms(3) by (simp add: t_def)
  have red: "t mod u256_val m = (if t < u256_val m then t else t - u256_val m)"
    using t by (simp add: mod_if le_mod_geq)
  note mb = u256_bound [OF assms(1)] and ob = u256_bound [OF val(2)]
  show ?thesis
  proof (cases "c = 0")
    case True
    then have "reduce_step v m r i = (if u256_compare out m \<ge> 0 then subtract_wrapped out m else out)"
      using s by (simp add: reduce_step_def shift_left_one_add_def b_def subtract_checked_def)
    moreover have "u256_val out = t" using val(1) True by simp
    ultimately show ?thesis
      using red assms(1) val(2) unfolding bit t_def [symmetric]
      by (simp add: u256_compare_val subtract_wrapped_val)
  next
    case False
    then have c: "unat c = 1" using val(3) by (simp add: unat_eq_0 le_Suc_eq)
    have "reduce_step v m r i = subtract_wrapped out m"
      using s False by (simp add: reduce_step_def shift_left_one_add_def b_def)
    moreover have "u256_val out < u256_val m" using val(1) c t mb by simp
    moreover have "\<not> t < u256_val m" using val(1) c mb by simp
    ultimately show ?thesis
      using red assms(1) val c unfolding bit t_def [symmetric] by (simp add: subtract_wrapped_val)
  qed
qed

lemma reduce_wide_value:
  assumes "length v = 16" "u256_ok m" "0 < u256_val m"
  shows "u256_ok (reduce_wide v m)" "u256_val (reduce_wide v m) = limb_val v mod u256_val m"
proof -
  have "u256_ok (foldl (reduce_step v m) u256_zero (rev [n..<512])) \<and>
      u256_val (foldl (reduce_step v m) u256_zero (rev [n..<512])) = limb_val v div 2 ^ n mod u256_val m" if "n \<le> 512" for n
    using that
  proof (induction "512 - n" arbitrary: n)
    case 0
    have "limb_val v < 2 ^ 512" using limb_val_bound [of v] assms(1) by (simp add: limb_base_def)
    then show ?case using 0 by simp
  next
    case (Suc k)
    define r where "r = foldl (reduce_step v m) u256_zero (rev [Suc n..<512])"
    have n: "n < 512" using Suc by simp
    then have f: "foldl (reduce_step v m) u256_zero (rev [n..<512]) = reduce_step v m r n"
      by (simp add: upt_rec [of n] r_def)
    have r: "u256_ok r" "u256_val r = limb_val v div 2 ^ Suc n mod u256_val m"
      using Suc(1) [of "Suc n"] Suc(2) n by (simp_all add: r_def)
    have "2 * (limb_val v div 2 ^ Suc n) + limb_val v div 2 ^ n mod 2 = limb_val v div 2 ^ n"
      by (simp add: div_mult2_eq mult.commute [of 2] mult_div_mod_eq)
    then have "(2 * u256_val r + limb_val v div 2 ^ n mod 2) mod u256_val m = limb_val v div 2 ^ n mod u256_val m"
      unfolding r(2) by (metis mod_add_left_eq mod_mult_right_eq)
    then show ?case
      unfolding f using reduce_step_value [OF assms(2) r(1), of n v] r(2) assms(1,3) n by simp
  qed
  from this [of 0] show "u256_ok (reduce_wide v m)" "u256_val (reduce_wide v m) = limb_val v mod u256_val m"
    by (simp_all add: reduce_wide_def)
qed

lemma reduce_256_value:
  assumes "u256_ok v" "u256_ok m" "0 < u256_val m"
  shows "u256_ok (reduce_256 v m)" "u256_val (reduce_256 v m) = u256_val v mod u256_val m"
  using reduce_wide_value [of "v @ replicate 8 0" m] assms
  by (simp_all add: reduce_256_def u256_ok_def u256_val_def limb_val_append)

section \<open>The modular operations on numbers\<close>

lemma u256_mod_add_value:
  assumes "u256_ok l" "u256_ok r" "u256_ok m" "0 < u256_val m"
  shows "u256_ok (u256_mod_add l r m)" "u256_val (u256_mod_add l r m) = (u256_val l + u256_val r) mod u256_val m"
proof -
  obtain out c where a: "add_limbs l r 0 = (out, c)" by fastforce
  have v: "limb_val out + limb_base ^ 8 * unat c = u256_val l + u256_val r" "length out = 8"
    using add_limbs_value [of l r 0] assms(1,2) by (simp_all add: a u256_ok_def u256_val_def)
  have "limb_base ^ 8 * unat c < limb_base ^ 8 * limb_base"
    using u256_bound [OF assms(1)] u256_bound [OF assms(2)] v(1) by (simp add: limb_base_def)
  then have "unat c < limb_base" by simp
  then have "unat (low32 c) = unat c" by (simp add: unat_low32 limb_base_def)
  then have "limb_val (out @ [low32 c] @ replicate 7 0) = u256_val l + u256_val r"
    using v by (simp add: limb_val_append)
  then show "u256_ok (u256_mod_add l r m)" "u256_val (u256_mod_add l r m) = (u256_val l + u256_val r) mod u256_val m"
    using reduce_wide_value [of "out @ [low32 c] @ replicate 7 0" m] assms(3,4) v(2) by (simp_all add: u256_mod_add_def a)
qed

lemma u256_mod_subtract_value:
  assumes "u256_ok l" "u256_ok r" "u256_ok m" "u256_val l < u256_val m" "u256_val r < u256_val m"
  shows "u256_ok (u256_mod_subtract l r m)"
    "u256_val (u256_mod_subtract l r m) = (u256_val l + (u256_val m - u256_val r)) mod u256_val m"
proof -
  have "(u256_val l + (u256_val m - u256_val r)) mod u256_val m =
    (if u256_val r \<le> u256_val l then u256_val l - u256_val r else u256_val m - (u256_val r - u256_val l))"
    using assms(4,5) by (auto simp: mod_if)
  then show "u256_ok (u256_mod_subtract l r m)"
    "u256_val (u256_mod_subtract l r m) = (u256_val l + (u256_val m - u256_val r)) mod u256_val m"
    using assms by (auto simp: u256_mod_subtract_def subtract_checked_def u256_compare_val subtract_wrapped_val Let_def)
qed

lemma u256_mod_multiply_value:
  assumes "u256_ok l" "u256_ok r" "u256_ok m" "0 < u256_val m"
  shows "u256_ok (u256_mod_multiply l r m)" "u256_val (u256_mod_multiply l r m) = u256_val l * u256_val r mod u256_val m"
  using reduce_wide_value [OF multiply_wide_val(2) [OF assms(1,2)] assms(3,4)] multiply_wide_val(1) [OF assms(1,2)]
  by (simp_all add: u256_mod_multiply_def)

lemma u256_mod_exp_value:
  assumes "u256_ok x" "u256_ok e" "u256_ok m" "0 < u256_val m"
  shows "u256_ok (u256_mod_exp x e m)" "u256_val (u256_mod_exp x e m) = u256_val x ^ u256_val e mod u256_val m"
proof -
  define b where "b = reduce_256 x m"
  have b: "u256_ok b" "u256_val b = u256_val x mod u256_val m"
    using reduce_256_value [OF assms(1,3,4)] by (simp_all add: b_def)
  have o: "u256_ok (reduce_256 u256_one m)" "u256_val (reduce_256 u256_one m) = 1 mod u256_val m"
    using reduce_256_value [of u256_one, OF _ assms(3,4)] by simp_all
  have "u256_ok (foldl (exp_step b e m) (reduce_256 u256_one m) (rev [n..<256])) \<and>
      u256_val (foldl (exp_step b e m) (reduce_256 u256_one m) (rev [n..<256])) = u256_val x ^ (u256_val e div 2 ^ n) mod u256_val m"
    if "n \<le> 256" for n
    using that
  proof (induction "256 - n" arbitrary: n)
    case 0
    then show ?case using u256_bound [OF assms(2)] o by simp
  next
    case (Suc k)
    define a where "a = foldl (exp_step b e m) (reduce_256 u256_one m) (rev [Suc n..<256])"
    have n: "n < 256" using Suc by simp
    then have f: "foldl (exp_step b e m) (reduce_256 u256_one m) (rev [n..<256]) = exp_step b e m a n"
      by (simp add: upt_rec [of n] a_def)
    have a: "u256_ok a" "u256_val a = u256_val x ^ (u256_val e div 2 ^ Suc n) mod u256_val m"
      using Suc(1) [of "Suc n"] Suc(2) n by (simp_all add: a_def)
    note sq = u256_mod_multiply_value [OF a(1) a(1) assms(3,4)]
    note ml = u256_mod_multiply_value [OF sq(1) b(1) assms(3,4)]
    have bit: "word_bit_at e n \<longleftrightarrow> odd (u256_val e div 2 ^ n)"
      using word_bit_at_iff [of n e] n assms(2) by (simp add: u256_ok_def u256_val_def)
    have d: "u256_val e div 2 ^ n = 2 * (u256_val e div 2 ^ Suc n) + u256_val e div 2 ^ n mod 2"
      by (simp add: div_mult2_eq mult.commute [of 2] mult_div_mod_eq)
    have "u256_val a * u256_val a mod u256_val m = u256_val x ^ (2 * (u256_val e div 2 ^ Suc n)) mod u256_val m"
      unfolding a(2) by (simp add: mod_mult_eq flip: power_add mult_2)
    then have "u256_val (exp_step b e m a n) = u256_val x ^ (2 * (u256_val e div 2 ^ Suc n) + u256_val e div 2 ^ n mod 2) mod u256_val m"
      using sq ml bit b(2)
      by (auto simp: exp_step_def Let_def mod2_eq_if mod_mult_eq mult.commute [of _ "u256_val x"])
    then show ?case unfolding f using d sq(1) ml(1) by (auto simp: exp_step_def Let_def)
  qed
  from this [of 0] show "u256_ok (u256_mod_exp x e m)" "u256_val (u256_mod_exp x e m) = u256_val x ^ u256_val e mod u256_val m"
    by (simp_all add: u256_mod_exp_def b_def)
qed

section \<open>The constants\<close>

definition p256_p :: nat where
  "p256_p = 2 ^ 256 - 2 ^ 224 + 2 ^ 192 + 2 ^ 96 - 1"

definition p256_n :: nat where
  "p256_n = 0xFFFFFFFF00000000FFFFFFFFFFFFFFFFBCE6FAADA7179E84F3B9CAC2FC632551"

lemma p256_constants [simp]:
  "u256_ok p_value" "u256_ok a_value" "u256_ok b_value" "u256_ok gx_value" "u256_ok gy_value" "u256_ok n_value"
  "u256_ok p_minus_two_value" "u256_ok n_minus_two_value"
  "u256_val p_value = p256_p" "u256_val n_value = p256_n" "u256_val p_minus_two_value = p256_p - 2"
  "u256_val n_minus_two_value = p256_n - 2" "u256_val a_value = p256_p - 3"
  by (simp_all add: u256_ok_def u256_val_def limb_base_def p_value_def a_value_def b_value_def gx_value_def gy_value_def
      n_value_def p_minus_two_value_def n_minus_two_value_def p256_p_def p256_n_def)

lemma p256_sizes [simp]: "0 < p256_p" "0 < p256_n" "p256_p < 2 ^ 256" "p256_n < 2 ^ 256" "p256_n < p256_p" "3 < p256_p"
  by (simp_all add: p256_p_def p256_n_def)

end
