(* ===== verification/Hex_Numerals.thy ===== *)
theory Hex_Numerals
  imports Main
begin

text \<open>
  Arithmetic on large numbers by rewriting, four bits at a time: a number is a sequence of
  hexadecimal digits, the lowest first, and sums and products are evaluated by tables of digits. The
  certificates of the development (primality, the order of the base point) are checked with these
  rules.
\<close>

section \<open>Digits\<close>

definition h0 :: "nat \<Rightarrow> nat" where "h0 x = 16 * x"
definition h1 :: "nat \<Rightarrow> nat" where "h1 x = 1 + 16 * x"
definition h2 :: "nat \<Rightarrow> nat" where "h2 x = 2 + 16 * x"
definition h3 :: "nat \<Rightarrow> nat" where "h3 x = 3 + 16 * x"
definition h4 :: "nat \<Rightarrow> nat" where "h4 x = 4 + 16 * x"
definition h5 :: "nat \<Rightarrow> nat" where "h5 x = 5 + 16 * x"
definition h6 :: "nat \<Rightarrow> nat" where "h6 x = 6 + 16 * x"
definition h7 :: "nat \<Rightarrow> nat" where "h7 x = 7 + 16 * x"
definition h8 :: "nat \<Rightarrow> nat" where "h8 x = 8 + 16 * x"
definition h9 :: "nat \<Rightarrow> nat" where "h9 x = 9 + 16 * x"
definition hA :: "nat \<Rightarrow> nat" where "hA x = 10 + 16 * x"
definition hB :: "nat \<Rightarrow> nat" where "hB x = 11 + 16 * x"
definition hC :: "nat \<Rightarrow> nat" where "hC x = 12 + 16 * x"
definition hD :: "nat \<Rightarrow> nat" where "hD x = 13 + 16 * x"
definition hE :: "nat \<Rightarrow> nat" where "hE x = 14 + 16 * x"
definition hF :: "nat \<Rightarrow> nat" where "hF x = 15 + 16 * x"

lemmas hex_defs = h0_def h1_def h2_def h3_def h4_def h5_def h6_def h7_def h8_def h9_def hA_def hB_def hC_def hD_def hE_def hF_def

definition addc :: "nat \<Rightarrow> nat \<Rightarrow> nat" where "addc x y = 1 + (x + y)"

text \<open>Literals, four bits at a time.\<close>

lemma hex_literals:
  "(1::nat) = h1 0"
  "numeral (num.Bit0 (num.Bit0 (num.Bit0 (num.Bit0 m)))) = h0 (numeral m)" "numeral (num.Bit1 (num.Bit0 (num.Bit0 (num.Bit0 m)))) = h1 (numeral m)" "numeral (num.Bit0 (num.Bit1 (num.Bit0 (num.Bit0 m)))) = h2 (numeral m)" "numeral (num.Bit1 (num.Bit1 (num.Bit0 (num.Bit0 m)))) = h3 (numeral m)"
  "numeral (num.Bit0 (num.Bit0 (num.Bit1 (num.Bit0 m)))) = h4 (numeral m)" "numeral (num.Bit1 (num.Bit0 (num.Bit1 (num.Bit0 m)))) = h5 (numeral m)" "numeral (num.Bit0 (num.Bit1 (num.Bit1 (num.Bit0 m)))) = h6 (numeral m)" "numeral (num.Bit1 (num.Bit1 (num.Bit1 (num.Bit0 m)))) = h7 (numeral m)"
  "numeral (num.Bit0 (num.Bit0 (num.Bit0 (num.Bit1 m)))) = h8 (numeral m)" "numeral (num.Bit1 (num.Bit0 (num.Bit0 (num.Bit1 m)))) = h9 (numeral m)" "numeral (num.Bit0 (num.Bit1 (num.Bit0 (num.Bit1 m)))) = hA (numeral m)" "numeral (num.Bit1 (num.Bit1 (num.Bit0 (num.Bit1 m)))) = hB (numeral m)"
  "numeral (num.Bit0 (num.Bit0 (num.Bit1 (num.Bit1 m)))) = hC (numeral m)" "numeral (num.Bit1 (num.Bit0 (num.Bit1 (num.Bit1 m)))) = hD (numeral m)" "numeral (num.Bit0 (num.Bit1 (num.Bit1 (num.Bit1 m)))) = hE (numeral m)" "numeral (num.Bit1 (num.Bit1 (num.Bit1 (num.Bit1 m)))) = hF (numeral m)"
  "numeral num.One = h1 0" "numeral (num.Bit0 num.One) = h2 0" "numeral (num.Bit1 num.One) = h3 0" "numeral (num.Bit0 (num.Bit0 num.One)) = h4 0"
  "numeral (num.Bit1 (num.Bit0 num.One)) = h5 0" "numeral (num.Bit0 (num.Bit1 num.One)) = h6 0" "numeral (num.Bit1 (num.Bit1 num.One)) = h7 0" "numeral (num.Bit0 (num.Bit0 (num.Bit0 num.One))) = h8 0"
  "numeral (num.Bit1 (num.Bit0 (num.Bit0 num.One))) = h9 0" "numeral (num.Bit0 (num.Bit1 (num.Bit0 num.One))) = hA 0" "numeral (num.Bit1 (num.Bit1 (num.Bit0 num.One))) = hB 0" "numeral (num.Bit0 (num.Bit0 (num.Bit1 num.One))) = hC 0"
  "numeral (num.Bit1 (num.Bit0 (num.Bit1 num.One))) = hD 0" "numeral (num.Bit0 (num.Bit1 (num.Bit1 num.One))) = hE 0" "numeral (num.Bit1 (num.Bit1 (num.Bit1 num.One))) = hF 0"
  unfolding hex_defs nat_of_num_numeral [symmetric] by simp_all

lemma hex_add:
  "h0 x + h0 y = h0 (x + y)" "h0 x + h1 y = h1 (x + y)" "h0 x + h2 y = h2 (x + y)" "h0 x + h3 y = h3 (x + y)" "h0 x + h4 y = h4 (x + y)" "h0 x + h5 y = h5 (x + y)" "h0 x + h6 y = h6 (x + y)" "h0 x + h7 y = h7 (x + y)"
  "h0 x + h8 y = h8 (x + y)" "h0 x + h9 y = h9 (x + y)" "h0 x + hA y = hA (x + y)" "h0 x + hB y = hB (x + y)" "h0 x + hC y = hC (x + y)" "h0 x + hD y = hD (x + y)" "h0 x + hE y = hE (x + y)" "h0 x + hF y = hF (x + y)"
  "h1 x + h0 y = h1 (x + y)" "h1 x + h1 y = h2 (x + y)" "h1 x + h2 y = h3 (x + y)" "h1 x + h3 y = h4 (x + y)" "h1 x + h4 y = h5 (x + y)" "h1 x + h5 y = h6 (x + y)" "h1 x + h6 y = h7 (x + y)" "h1 x + h7 y = h8 (x + y)"
  "h1 x + h8 y = h9 (x + y)" "h1 x + h9 y = hA (x + y)" "h1 x + hA y = hB (x + y)" "h1 x + hB y = hC (x + y)" "h1 x + hC y = hD (x + y)" "h1 x + hD y = hE (x + y)" "h1 x + hE y = hF (x + y)" "h1 x + hF y = h0 (addc x y)"
  "h2 x + h0 y = h2 (x + y)" "h2 x + h1 y = h3 (x + y)" "h2 x + h2 y = h4 (x + y)" "h2 x + h3 y = h5 (x + y)" "h2 x + h4 y = h6 (x + y)" "h2 x + h5 y = h7 (x + y)" "h2 x + h6 y = h8 (x + y)" "h2 x + h7 y = h9 (x + y)"
  "h2 x + h8 y = hA (x + y)" "h2 x + h9 y = hB (x + y)" "h2 x + hA y = hC (x + y)" "h2 x + hB y = hD (x + y)" "h2 x + hC y = hE (x + y)" "h2 x + hD y = hF (x + y)" "h2 x + hE y = h0 (addc x y)" "h2 x + hF y = h1 (addc x y)"
  "h3 x + h0 y = h3 (x + y)" "h3 x + h1 y = h4 (x + y)" "h3 x + h2 y = h5 (x + y)" "h3 x + h3 y = h6 (x + y)" "h3 x + h4 y = h7 (x + y)" "h3 x + h5 y = h8 (x + y)" "h3 x + h6 y = h9 (x + y)" "h3 x + h7 y = hA (x + y)"
  "h3 x + h8 y = hB (x + y)" "h3 x + h9 y = hC (x + y)" "h3 x + hA y = hD (x + y)" "h3 x + hB y = hE (x + y)" "h3 x + hC y = hF (x + y)" "h3 x + hD y = h0 (addc x y)" "h3 x + hE y = h1 (addc x y)" "h3 x + hF y = h2 (addc x y)"
  "h4 x + h0 y = h4 (x + y)" "h4 x + h1 y = h5 (x + y)" "h4 x + h2 y = h6 (x + y)" "h4 x + h3 y = h7 (x + y)" "h4 x + h4 y = h8 (x + y)" "h4 x + h5 y = h9 (x + y)" "h4 x + h6 y = hA (x + y)" "h4 x + h7 y = hB (x + y)"
  "h4 x + h8 y = hC (x + y)" "h4 x + h9 y = hD (x + y)" "h4 x + hA y = hE (x + y)" "h4 x + hB y = hF (x + y)" "h4 x + hC y = h0 (addc x y)" "h4 x + hD y = h1 (addc x y)" "h4 x + hE y = h2 (addc x y)" "h4 x + hF y = h3 (addc x y)"
  "h5 x + h0 y = h5 (x + y)" "h5 x + h1 y = h6 (x + y)" "h5 x + h2 y = h7 (x + y)" "h5 x + h3 y = h8 (x + y)" "h5 x + h4 y = h9 (x + y)" "h5 x + h5 y = hA (x + y)" "h5 x + h6 y = hB (x + y)" "h5 x + h7 y = hC (x + y)"
  "h5 x + h8 y = hD (x + y)" "h5 x + h9 y = hE (x + y)" "h5 x + hA y = hF (x + y)" "h5 x + hB y = h0 (addc x y)" "h5 x + hC y = h1 (addc x y)" "h5 x + hD y = h2 (addc x y)" "h5 x + hE y = h3 (addc x y)" "h5 x + hF y = h4 (addc x y)"
  "h6 x + h0 y = h6 (x + y)" "h6 x + h1 y = h7 (x + y)" "h6 x + h2 y = h8 (x + y)" "h6 x + h3 y = h9 (x + y)" "h6 x + h4 y = hA (x + y)" "h6 x + h5 y = hB (x + y)" "h6 x + h6 y = hC (x + y)" "h6 x + h7 y = hD (x + y)"
  "h6 x + h8 y = hE (x + y)" "h6 x + h9 y = hF (x + y)" "h6 x + hA y = h0 (addc x y)" "h6 x + hB y = h1 (addc x y)" "h6 x + hC y = h2 (addc x y)" "h6 x + hD y = h3 (addc x y)" "h6 x + hE y = h4 (addc x y)" "h6 x + hF y = h5 (addc x y)"
  "h7 x + h0 y = h7 (x + y)" "h7 x + h1 y = h8 (x + y)" "h7 x + h2 y = h9 (x + y)" "h7 x + h3 y = hA (x + y)" "h7 x + h4 y = hB (x + y)" "h7 x + h5 y = hC (x + y)" "h7 x + h6 y = hD (x + y)" "h7 x + h7 y = hE (x + y)"
  "h7 x + h8 y = hF (x + y)" "h7 x + h9 y = h0 (addc x y)" "h7 x + hA y = h1 (addc x y)" "h7 x + hB y = h2 (addc x y)" "h7 x + hC y = h3 (addc x y)" "h7 x + hD y = h4 (addc x y)" "h7 x + hE y = h5 (addc x y)" "h7 x + hF y = h6 (addc x y)"
  "h8 x + h0 y = h8 (x + y)" "h8 x + h1 y = h9 (x + y)" "h8 x + h2 y = hA (x + y)" "h8 x + h3 y = hB (x + y)" "h8 x + h4 y = hC (x + y)" "h8 x + h5 y = hD (x + y)" "h8 x + h6 y = hE (x + y)" "h8 x + h7 y = hF (x + y)"
  "h8 x + h8 y = h0 (addc x y)" "h8 x + h9 y = h1 (addc x y)" "h8 x + hA y = h2 (addc x y)" "h8 x + hB y = h3 (addc x y)" "h8 x + hC y = h4 (addc x y)" "h8 x + hD y = h5 (addc x y)" "h8 x + hE y = h6 (addc x y)" "h8 x + hF y = h7 (addc x y)"
  "h9 x + h0 y = h9 (x + y)" "h9 x + h1 y = hA (x + y)" "h9 x + h2 y = hB (x + y)" "h9 x + h3 y = hC (x + y)" "h9 x + h4 y = hD (x + y)" "h9 x + h5 y = hE (x + y)" "h9 x + h6 y = hF (x + y)" "h9 x + h7 y = h0 (addc x y)"
  "h9 x + h8 y = h1 (addc x y)" "h9 x + h9 y = h2 (addc x y)" "h9 x + hA y = h3 (addc x y)" "h9 x + hB y = h4 (addc x y)" "h9 x + hC y = h5 (addc x y)" "h9 x + hD y = h6 (addc x y)" "h9 x + hE y = h7 (addc x y)" "h9 x + hF y = h8 (addc x y)"
  "hA x + h0 y = hA (x + y)" "hA x + h1 y = hB (x + y)" "hA x + h2 y = hC (x + y)" "hA x + h3 y = hD (x + y)" "hA x + h4 y = hE (x + y)" "hA x + h5 y = hF (x + y)" "hA x + h6 y = h0 (addc x y)" "hA x + h7 y = h1 (addc x y)"
  "hA x + h8 y = h2 (addc x y)" "hA x + h9 y = h3 (addc x y)" "hA x + hA y = h4 (addc x y)" "hA x + hB y = h5 (addc x y)" "hA x + hC y = h6 (addc x y)" "hA x + hD y = h7 (addc x y)" "hA x + hE y = h8 (addc x y)" "hA x + hF y = h9 (addc x y)"
  "hB x + h0 y = hB (x + y)" "hB x + h1 y = hC (x + y)" "hB x + h2 y = hD (x + y)" "hB x + h3 y = hE (x + y)" "hB x + h4 y = hF (x + y)" "hB x + h5 y = h0 (addc x y)" "hB x + h6 y = h1 (addc x y)" "hB x + h7 y = h2 (addc x y)"
  "hB x + h8 y = h3 (addc x y)" "hB x + h9 y = h4 (addc x y)" "hB x + hA y = h5 (addc x y)" "hB x + hB y = h6 (addc x y)" "hB x + hC y = h7 (addc x y)" "hB x + hD y = h8 (addc x y)" "hB x + hE y = h9 (addc x y)" "hB x + hF y = hA (addc x y)"
  "hC x + h0 y = hC (x + y)" "hC x + h1 y = hD (x + y)" "hC x + h2 y = hE (x + y)" "hC x + h3 y = hF (x + y)" "hC x + h4 y = h0 (addc x y)" "hC x + h5 y = h1 (addc x y)" "hC x + h6 y = h2 (addc x y)" "hC x + h7 y = h3 (addc x y)"
  "hC x + h8 y = h4 (addc x y)" "hC x + h9 y = h5 (addc x y)" "hC x + hA y = h6 (addc x y)" "hC x + hB y = h7 (addc x y)" "hC x + hC y = h8 (addc x y)" "hC x + hD y = h9 (addc x y)" "hC x + hE y = hA (addc x y)" "hC x + hF y = hB (addc x y)"
  "hD x + h0 y = hD (x + y)" "hD x + h1 y = hE (x + y)" "hD x + h2 y = hF (x + y)" "hD x + h3 y = h0 (addc x y)" "hD x + h4 y = h1 (addc x y)" "hD x + h5 y = h2 (addc x y)" "hD x + h6 y = h3 (addc x y)" "hD x + h7 y = h4 (addc x y)"
  "hD x + h8 y = h5 (addc x y)" "hD x + h9 y = h6 (addc x y)" "hD x + hA y = h7 (addc x y)" "hD x + hB y = h8 (addc x y)" "hD x + hC y = h9 (addc x y)" "hD x + hD y = hA (addc x y)" "hD x + hE y = hB (addc x y)" "hD x + hF y = hC (addc x y)"
  "hE x + h0 y = hE (x + y)" "hE x + h1 y = hF (x + y)" "hE x + h2 y = h0 (addc x y)" "hE x + h3 y = h1 (addc x y)" "hE x + h4 y = h2 (addc x y)" "hE x + h5 y = h3 (addc x y)" "hE x + h6 y = h4 (addc x y)" "hE x + h7 y = h5 (addc x y)"
  "hE x + h8 y = h6 (addc x y)" "hE x + h9 y = h7 (addc x y)" "hE x + hA y = h8 (addc x y)" "hE x + hB y = h9 (addc x y)" "hE x + hC y = hA (addc x y)" "hE x + hD y = hB (addc x y)" "hE x + hE y = hC (addc x y)" "hE x + hF y = hD (addc x y)"
  "hF x + h0 y = hF (x + y)" "hF x + h1 y = h0 (addc x y)" "hF x + h2 y = h1 (addc x y)" "hF x + h3 y = h2 (addc x y)" "hF x + h4 y = h3 (addc x y)" "hF x + h5 y = h4 (addc x y)" "hF x + h6 y = h5 (addc x y)" "hF x + h7 y = h6 (addc x y)"
  "hF x + h8 y = h7 (addc x y)" "hF x + h9 y = h8 (addc x y)" "hF x + hA y = h9 (addc x y)" "hF x + hB y = hA (addc x y)" "hF x + hC y = hB (addc x y)" "hF x + hD y = hC (addc x y)" "hF x + hE y = hD (addc x y)" "hF x + hF y = hE (addc x y)"
  by (simp_all add: hex_defs addc_def)

lemma hex_addc:
  "addc (h0 x) (h0 y) = h1 (x + y)" "addc (h0 x) (h1 y) = h2 (x + y)" "addc (h0 x) (h2 y) = h3 (x + y)" "addc (h0 x) (h3 y) = h4 (x + y)" "addc (h0 x) (h4 y) = h5 (x + y)" "addc (h0 x) (h5 y) = h6 (x + y)" "addc (h0 x) (h6 y) = h7 (x + y)" "addc (h0 x) (h7 y) = h8 (x + y)"
  "addc (h0 x) (h8 y) = h9 (x + y)" "addc (h0 x) (h9 y) = hA (x + y)" "addc (h0 x) (hA y) = hB (x + y)" "addc (h0 x) (hB y) = hC (x + y)" "addc (h0 x) (hC y) = hD (x + y)" "addc (h0 x) (hD y) = hE (x + y)" "addc (h0 x) (hE y) = hF (x + y)" "addc (h0 x) (hF y) = h0 (addc x y)"
  "addc (h1 x) (h0 y) = h2 (x + y)" "addc (h1 x) (h1 y) = h3 (x + y)" "addc (h1 x) (h2 y) = h4 (x + y)" "addc (h1 x) (h3 y) = h5 (x + y)" "addc (h1 x) (h4 y) = h6 (x + y)" "addc (h1 x) (h5 y) = h7 (x + y)" "addc (h1 x) (h6 y) = h8 (x + y)" "addc (h1 x) (h7 y) = h9 (x + y)"
  "addc (h1 x) (h8 y) = hA (x + y)" "addc (h1 x) (h9 y) = hB (x + y)" "addc (h1 x) (hA y) = hC (x + y)" "addc (h1 x) (hB y) = hD (x + y)" "addc (h1 x) (hC y) = hE (x + y)" "addc (h1 x) (hD y) = hF (x + y)" "addc (h1 x) (hE y) = h0 (addc x y)" "addc (h1 x) (hF y) = h1 (addc x y)"
  "addc (h2 x) (h0 y) = h3 (x + y)" "addc (h2 x) (h1 y) = h4 (x + y)" "addc (h2 x) (h2 y) = h5 (x + y)" "addc (h2 x) (h3 y) = h6 (x + y)" "addc (h2 x) (h4 y) = h7 (x + y)" "addc (h2 x) (h5 y) = h8 (x + y)" "addc (h2 x) (h6 y) = h9 (x + y)" "addc (h2 x) (h7 y) = hA (x + y)"
  "addc (h2 x) (h8 y) = hB (x + y)" "addc (h2 x) (h9 y) = hC (x + y)" "addc (h2 x) (hA y) = hD (x + y)" "addc (h2 x) (hB y) = hE (x + y)" "addc (h2 x) (hC y) = hF (x + y)" "addc (h2 x) (hD y) = h0 (addc x y)" "addc (h2 x) (hE y) = h1 (addc x y)" "addc (h2 x) (hF y) = h2 (addc x y)"
  "addc (h3 x) (h0 y) = h4 (x + y)" "addc (h3 x) (h1 y) = h5 (x + y)" "addc (h3 x) (h2 y) = h6 (x + y)" "addc (h3 x) (h3 y) = h7 (x + y)" "addc (h3 x) (h4 y) = h8 (x + y)" "addc (h3 x) (h5 y) = h9 (x + y)" "addc (h3 x) (h6 y) = hA (x + y)" "addc (h3 x) (h7 y) = hB (x + y)"
  "addc (h3 x) (h8 y) = hC (x + y)" "addc (h3 x) (h9 y) = hD (x + y)" "addc (h3 x) (hA y) = hE (x + y)" "addc (h3 x) (hB y) = hF (x + y)" "addc (h3 x) (hC y) = h0 (addc x y)" "addc (h3 x) (hD y) = h1 (addc x y)" "addc (h3 x) (hE y) = h2 (addc x y)" "addc (h3 x) (hF y) = h3 (addc x y)"
  "addc (h4 x) (h0 y) = h5 (x + y)" "addc (h4 x) (h1 y) = h6 (x + y)" "addc (h4 x) (h2 y) = h7 (x + y)" "addc (h4 x) (h3 y) = h8 (x + y)" "addc (h4 x) (h4 y) = h9 (x + y)" "addc (h4 x) (h5 y) = hA (x + y)" "addc (h4 x) (h6 y) = hB (x + y)" "addc (h4 x) (h7 y) = hC (x + y)"
  "addc (h4 x) (h8 y) = hD (x + y)" "addc (h4 x) (h9 y) = hE (x + y)" "addc (h4 x) (hA y) = hF (x + y)" "addc (h4 x) (hB y) = h0 (addc x y)" "addc (h4 x) (hC y) = h1 (addc x y)" "addc (h4 x) (hD y) = h2 (addc x y)" "addc (h4 x) (hE y) = h3 (addc x y)" "addc (h4 x) (hF y) = h4 (addc x y)"
  "addc (h5 x) (h0 y) = h6 (x + y)" "addc (h5 x) (h1 y) = h7 (x + y)" "addc (h5 x) (h2 y) = h8 (x + y)" "addc (h5 x) (h3 y) = h9 (x + y)" "addc (h5 x) (h4 y) = hA (x + y)" "addc (h5 x) (h5 y) = hB (x + y)" "addc (h5 x) (h6 y) = hC (x + y)" "addc (h5 x) (h7 y) = hD (x + y)"
  "addc (h5 x) (h8 y) = hE (x + y)" "addc (h5 x) (h9 y) = hF (x + y)" "addc (h5 x) (hA y) = h0 (addc x y)" "addc (h5 x) (hB y) = h1 (addc x y)" "addc (h5 x) (hC y) = h2 (addc x y)" "addc (h5 x) (hD y) = h3 (addc x y)" "addc (h5 x) (hE y) = h4 (addc x y)" "addc (h5 x) (hF y) = h5 (addc x y)"
  "addc (h6 x) (h0 y) = h7 (x + y)" "addc (h6 x) (h1 y) = h8 (x + y)" "addc (h6 x) (h2 y) = h9 (x + y)" "addc (h6 x) (h3 y) = hA (x + y)" "addc (h6 x) (h4 y) = hB (x + y)" "addc (h6 x) (h5 y) = hC (x + y)" "addc (h6 x) (h6 y) = hD (x + y)" "addc (h6 x) (h7 y) = hE (x + y)"
  "addc (h6 x) (h8 y) = hF (x + y)" "addc (h6 x) (h9 y) = h0 (addc x y)" "addc (h6 x) (hA y) = h1 (addc x y)" "addc (h6 x) (hB y) = h2 (addc x y)" "addc (h6 x) (hC y) = h3 (addc x y)" "addc (h6 x) (hD y) = h4 (addc x y)" "addc (h6 x) (hE y) = h5 (addc x y)" "addc (h6 x) (hF y) = h6 (addc x y)"
  "addc (h7 x) (h0 y) = h8 (x + y)" "addc (h7 x) (h1 y) = h9 (x + y)" "addc (h7 x) (h2 y) = hA (x + y)" "addc (h7 x) (h3 y) = hB (x + y)" "addc (h7 x) (h4 y) = hC (x + y)" "addc (h7 x) (h5 y) = hD (x + y)" "addc (h7 x) (h6 y) = hE (x + y)" "addc (h7 x) (h7 y) = hF (x + y)"
  "addc (h7 x) (h8 y) = h0 (addc x y)" "addc (h7 x) (h9 y) = h1 (addc x y)" "addc (h7 x) (hA y) = h2 (addc x y)" "addc (h7 x) (hB y) = h3 (addc x y)" "addc (h7 x) (hC y) = h4 (addc x y)" "addc (h7 x) (hD y) = h5 (addc x y)" "addc (h7 x) (hE y) = h6 (addc x y)" "addc (h7 x) (hF y) = h7 (addc x y)"
  "addc (h8 x) (h0 y) = h9 (x + y)" "addc (h8 x) (h1 y) = hA (x + y)" "addc (h8 x) (h2 y) = hB (x + y)" "addc (h8 x) (h3 y) = hC (x + y)" "addc (h8 x) (h4 y) = hD (x + y)" "addc (h8 x) (h5 y) = hE (x + y)" "addc (h8 x) (h6 y) = hF (x + y)" "addc (h8 x) (h7 y) = h0 (addc x y)"
  "addc (h8 x) (h8 y) = h1 (addc x y)" "addc (h8 x) (h9 y) = h2 (addc x y)" "addc (h8 x) (hA y) = h3 (addc x y)" "addc (h8 x) (hB y) = h4 (addc x y)" "addc (h8 x) (hC y) = h5 (addc x y)" "addc (h8 x) (hD y) = h6 (addc x y)" "addc (h8 x) (hE y) = h7 (addc x y)" "addc (h8 x) (hF y) = h8 (addc x y)"
  "addc (h9 x) (h0 y) = hA (x + y)" "addc (h9 x) (h1 y) = hB (x + y)" "addc (h9 x) (h2 y) = hC (x + y)" "addc (h9 x) (h3 y) = hD (x + y)" "addc (h9 x) (h4 y) = hE (x + y)" "addc (h9 x) (h5 y) = hF (x + y)" "addc (h9 x) (h6 y) = h0 (addc x y)" "addc (h9 x) (h7 y) = h1 (addc x y)"
  "addc (h9 x) (h8 y) = h2 (addc x y)" "addc (h9 x) (h9 y) = h3 (addc x y)" "addc (h9 x) (hA y) = h4 (addc x y)" "addc (h9 x) (hB y) = h5 (addc x y)" "addc (h9 x) (hC y) = h6 (addc x y)" "addc (h9 x) (hD y) = h7 (addc x y)" "addc (h9 x) (hE y) = h8 (addc x y)" "addc (h9 x) (hF y) = h9 (addc x y)"
  "addc (hA x) (h0 y) = hB (x + y)" "addc (hA x) (h1 y) = hC (x + y)" "addc (hA x) (h2 y) = hD (x + y)" "addc (hA x) (h3 y) = hE (x + y)" "addc (hA x) (h4 y) = hF (x + y)" "addc (hA x) (h5 y) = h0 (addc x y)" "addc (hA x) (h6 y) = h1 (addc x y)" "addc (hA x) (h7 y) = h2 (addc x y)"
  "addc (hA x) (h8 y) = h3 (addc x y)" "addc (hA x) (h9 y) = h4 (addc x y)" "addc (hA x) (hA y) = h5 (addc x y)" "addc (hA x) (hB y) = h6 (addc x y)" "addc (hA x) (hC y) = h7 (addc x y)" "addc (hA x) (hD y) = h8 (addc x y)" "addc (hA x) (hE y) = h9 (addc x y)" "addc (hA x) (hF y) = hA (addc x y)"
  "addc (hB x) (h0 y) = hC (x + y)" "addc (hB x) (h1 y) = hD (x + y)" "addc (hB x) (h2 y) = hE (x + y)" "addc (hB x) (h3 y) = hF (x + y)" "addc (hB x) (h4 y) = h0 (addc x y)" "addc (hB x) (h5 y) = h1 (addc x y)" "addc (hB x) (h6 y) = h2 (addc x y)" "addc (hB x) (h7 y) = h3 (addc x y)"
  "addc (hB x) (h8 y) = h4 (addc x y)" "addc (hB x) (h9 y) = h5 (addc x y)" "addc (hB x) (hA y) = h6 (addc x y)" "addc (hB x) (hB y) = h7 (addc x y)" "addc (hB x) (hC y) = h8 (addc x y)" "addc (hB x) (hD y) = h9 (addc x y)" "addc (hB x) (hE y) = hA (addc x y)" "addc (hB x) (hF y) = hB (addc x y)"
  "addc (hC x) (h0 y) = hD (x + y)" "addc (hC x) (h1 y) = hE (x + y)" "addc (hC x) (h2 y) = hF (x + y)" "addc (hC x) (h3 y) = h0 (addc x y)" "addc (hC x) (h4 y) = h1 (addc x y)" "addc (hC x) (h5 y) = h2 (addc x y)" "addc (hC x) (h6 y) = h3 (addc x y)" "addc (hC x) (h7 y) = h4 (addc x y)"
  "addc (hC x) (h8 y) = h5 (addc x y)" "addc (hC x) (h9 y) = h6 (addc x y)" "addc (hC x) (hA y) = h7 (addc x y)" "addc (hC x) (hB y) = h8 (addc x y)" "addc (hC x) (hC y) = h9 (addc x y)" "addc (hC x) (hD y) = hA (addc x y)" "addc (hC x) (hE y) = hB (addc x y)" "addc (hC x) (hF y) = hC (addc x y)"
  "addc (hD x) (h0 y) = hE (x + y)" "addc (hD x) (h1 y) = hF (x + y)" "addc (hD x) (h2 y) = h0 (addc x y)" "addc (hD x) (h3 y) = h1 (addc x y)" "addc (hD x) (h4 y) = h2 (addc x y)" "addc (hD x) (h5 y) = h3 (addc x y)" "addc (hD x) (h6 y) = h4 (addc x y)" "addc (hD x) (h7 y) = h5 (addc x y)"
  "addc (hD x) (h8 y) = h6 (addc x y)" "addc (hD x) (h9 y) = h7 (addc x y)" "addc (hD x) (hA y) = h8 (addc x y)" "addc (hD x) (hB y) = h9 (addc x y)" "addc (hD x) (hC y) = hA (addc x y)" "addc (hD x) (hD y) = hB (addc x y)" "addc (hD x) (hE y) = hC (addc x y)" "addc (hD x) (hF y) = hD (addc x y)"
  "addc (hE x) (h0 y) = hF (x + y)" "addc (hE x) (h1 y) = h0 (addc x y)" "addc (hE x) (h2 y) = h1 (addc x y)" "addc (hE x) (h3 y) = h2 (addc x y)" "addc (hE x) (h4 y) = h3 (addc x y)" "addc (hE x) (h5 y) = h4 (addc x y)" "addc (hE x) (h6 y) = h5 (addc x y)" "addc (hE x) (h7 y) = h6 (addc x y)"
  "addc (hE x) (h8 y) = h7 (addc x y)" "addc (hE x) (h9 y) = h8 (addc x y)" "addc (hE x) (hA y) = h9 (addc x y)" "addc (hE x) (hB y) = hA (addc x y)" "addc (hE x) (hC y) = hB (addc x y)" "addc (hE x) (hD y) = hC (addc x y)" "addc (hE x) (hE y) = hD (addc x y)" "addc (hE x) (hF y) = hE (addc x y)"
  "addc (hF x) (h0 y) = h0 (addc x y)" "addc (hF x) (h1 y) = h1 (addc x y)" "addc (hF x) (h2 y) = h2 (addc x y)" "addc (hF x) (h3 y) = h3 (addc x y)" "addc (hF x) (h4 y) = h4 (addc x y)" "addc (hF x) (h5 y) = h5 (addc x y)" "addc (hF x) (h6 y) = h6 (addc x y)" "addc (hF x) (h7 y) = h7 (addc x y)"
  "addc (hF x) (h8 y) = h8 (addc x y)" "addc (hF x) (h9 y) = h9 (addc x y)" "addc (hF x) (hA y) = hA (addc x y)" "addc (hF x) (hB y) = hB (addc x y)" "addc (hF x) (hC y) = hC (addc x y)" "addc (hF x) (hD y) = hD (addc x y)" "addc (hF x) (hE y) = hE (addc x y)" "addc (hF x) (hF y) = hF (addc x y)"
  by (simp_all add: hex_defs addc_def)

lemma hex_zero:
  "h0 0 = 0" "0 + x = (x :: nat)" "x + 0 = (x :: nat)"
  "addc 0 0 = h1 0" "addc (h0 x) 0 = h1 x" "addc 0 (h0 x) = h1 x" "addc (h1 x) 0 = h2 x"
  "addc 0 (h1 x) = h2 x" "addc (h2 x) 0 = h3 x" "addc 0 (h2 x) = h3 x" "addc (h3 x) 0 = h4 x"
  "addc 0 (h3 x) = h4 x" "addc (h4 x) 0 = h5 x" "addc 0 (h4 x) = h5 x" "addc (h5 x) 0 = h6 x"
  "addc 0 (h5 x) = h6 x" "addc (h6 x) 0 = h7 x" "addc 0 (h6 x) = h7 x" "addc (h7 x) 0 = h8 x"
  "addc 0 (h7 x) = h8 x" "addc (h8 x) 0 = h9 x" "addc 0 (h8 x) = h9 x" "addc (h9 x) 0 = hA x"
  "addc 0 (h9 x) = hA x" "addc (hA x) 0 = hB x" "addc 0 (hA x) = hB x" "addc (hB x) 0 = hC x"
  "addc 0 (hB x) = hC x" "addc (hC x) 0 = hD x" "addc 0 (hC x) = hD x" "addc (hD x) 0 = hE x"
  "addc 0 (hD x) = hE x" "addc (hE x) 0 = hF x" "addc 0 (hE x) = hF x" "addc (hF x) 0 = h0 (addc x 0)"
  "addc 0 (hF x) = h0 (addc x 0)"
  by (simp_all add: hex_defs addc_def)

text \<open>A product: the multiples of the first factor, and one of them for each digit of the second.\<close>

fun hexm :: "nat list \<Rightarrow> nat \<Rightarrow> nat" where
  "hexm ms y = (if y = 0 then 0 else (0 # ms) ! (y mod 16) + 16 * hexm ms (y div 16))"

declare hexm.simps [simp del]

function hexb :: "nat list \<Rightarrow> nat \<Rightarrow> nat \<Rightarrow> nat \<Rightarrow> nat" where
  "hexb ms m x y = (if length ms < 14 then hexb (ms @ [m]) (m + x) x y else hexm (ms @ [m]) y)"
  by auto
termination by (relation "measure (\<lambda>(ms, m, x, y). 14 - length ms)") auto

declare hexb.simps [simp del]

lemma hexm_0: "hexm ms 0 = 0" "hexm ms (16 * y) = 16 * hexm ms y"
  by (subst hexm.simps, simp)+ 

lemma hexm_digit: "d < 16 \<Longrightarrow> 0 < d \<Longrightarrow> hexm ms (d + 16 * y) = ms ! (d - 1) + 16 * hexm ms y"
  by (subst hexm.simps) (simp add: nth_Cons')

lemma hexm_digits:
  "hexm [a1, a2, a3, a4, a5, a6, a7, a8, a9, a10, a11, a12, a13, a14, a15] 0 = 0"
  "hexm [a1, a2, a3, a4, a5, a6, a7, a8, a9, a10, a11, a12, a13, a14, a15] (h0 y) = h0 (hexm [a1, a2, a3, a4, a5, a6, a7, a8, a9, a10, a11, a12, a13, a14, a15] y)"
  "hexm [a1, a2, a3, a4, a5, a6, a7, a8, a9, a10, a11, a12, a13, a14, a15] (h1 y) = a1 + h0 (hexm [a1, a2, a3, a4, a5, a6, a7, a8, a9, a10, a11, a12, a13, a14, a15] y)"
  "hexm [a1, a2, a3, a4, a5, a6, a7, a8, a9, a10, a11, a12, a13, a14, a15] (h2 y) = a2 + h0 (hexm [a1, a2, a3, a4, a5, a6, a7, a8, a9, a10, a11, a12, a13, a14, a15] y)"
  "hexm [a1, a2, a3, a4, a5, a6, a7, a8, a9, a10, a11, a12, a13, a14, a15] (h3 y) = a3 + h0 (hexm [a1, a2, a3, a4, a5, a6, a7, a8, a9, a10, a11, a12, a13, a14, a15] y)"
  "hexm [a1, a2, a3, a4, a5, a6, a7, a8, a9, a10, a11, a12, a13, a14, a15] (h4 y) = a4 + h0 (hexm [a1, a2, a3, a4, a5, a6, a7, a8, a9, a10, a11, a12, a13, a14, a15] y)"
  "hexm [a1, a2, a3, a4, a5, a6, a7, a8, a9, a10, a11, a12, a13, a14, a15] (h5 y) = a5 + h0 (hexm [a1, a2, a3, a4, a5, a6, a7, a8, a9, a10, a11, a12, a13, a14, a15] y)"
  "hexm [a1, a2, a3, a4, a5, a6, a7, a8, a9, a10, a11, a12, a13, a14, a15] (h6 y) = a6 + h0 (hexm [a1, a2, a3, a4, a5, a6, a7, a8, a9, a10, a11, a12, a13, a14, a15] y)"
  "hexm [a1, a2, a3, a4, a5, a6, a7, a8, a9, a10, a11, a12, a13, a14, a15] (h7 y) = a7 + h0 (hexm [a1, a2, a3, a4, a5, a6, a7, a8, a9, a10, a11, a12, a13, a14, a15] y)"
  "hexm [a1, a2, a3, a4, a5, a6, a7, a8, a9, a10, a11, a12, a13, a14, a15] (h8 y) = a8 + h0 (hexm [a1, a2, a3, a4, a5, a6, a7, a8, a9, a10, a11, a12, a13, a14, a15] y)"
  "hexm [a1, a2, a3, a4, a5, a6, a7, a8, a9, a10, a11, a12, a13, a14, a15] (h9 y) = a9 + h0 (hexm [a1, a2, a3, a4, a5, a6, a7, a8, a9, a10, a11, a12, a13, a14, a15] y)"
  "hexm [a1, a2, a3, a4, a5, a6, a7, a8, a9, a10, a11, a12, a13, a14, a15] (hA y) = a10 + h0 (hexm [a1, a2, a3, a4, a5, a6, a7, a8, a9, a10, a11, a12, a13, a14, a15] y)"
  "hexm [a1, a2, a3, a4, a5, a6, a7, a8, a9, a10, a11, a12, a13, a14, a15] (hB y) = a11 + h0 (hexm [a1, a2, a3, a4, a5, a6, a7, a8, a9, a10, a11, a12, a13, a14, a15] y)"
  "hexm [a1, a2, a3, a4, a5, a6, a7, a8, a9, a10, a11, a12, a13, a14, a15] (hC y) = a12 + h0 (hexm [a1, a2, a3, a4, a5, a6, a7, a8, a9, a10, a11, a12, a13, a14, a15] y)"
  "hexm [a1, a2, a3, a4, a5, a6, a7, a8, a9, a10, a11, a12, a13, a14, a15] (hD y) = a13 + h0 (hexm [a1, a2, a3, a4, a5, a6, a7, a8, a9, a10, a11, a12, a13, a14, a15] y)"
  "hexm [a1, a2, a3, a4, a5, a6, a7, a8, a9, a10, a11, a12, a13, a14, a15] (hE y) = a14 + h0 (hexm [a1, a2, a3, a4, a5, a6, a7, a8, a9, a10, a11, a12, a13, a14, a15] y)"
  "hexm [a1, a2, a3, a4, a5, a6, a7, a8, a9, a10, a11, a12, a13, a14, a15] (hF y) = a15 + h0 (hexm [a1, a2, a3, a4, a5, a6, a7, a8, a9, a10, a11, a12, a13, a14, a15] y)"
  by (simp_all only: hex_defs) (simp_all add: hexm_0 hexm_digit hexm_digit [of 1, simplified] hexm_digit [of 2, simplified])

lemma hexb_multiples:
  "hexb [] m x y = hexb [m] (m + x) x y"
  "hexb [a1] m x y = hexb [a1, m] (m + x) x y"
  "hexb [a1, a2] m x y = hexb [a1, a2, m] (m + x) x y"
  "hexb [a1, a2, a3] m x y = hexb [a1, a2, a3, m] (m + x) x y"
  "hexb [a1, a2, a3, a4] m x y = hexb [a1, a2, a3, a4, m] (m + x) x y"
  "hexb [a1, a2, a3, a4, a5] m x y = hexb [a1, a2, a3, a4, a5, m] (m + x) x y"
  "hexb [a1, a2, a3, a4, a5, a6] m x y = hexb [a1, a2, a3, a4, a5, a6, m] (m + x) x y"
  "hexb [a1, a2, a3, a4, a5, a6, a7] m x y = hexb [a1, a2, a3, a4, a5, a6, a7, m] (m + x) x y"
  "hexb [a1, a2, a3, a4, a5, a6, a7, a8] m x y = hexb [a1, a2, a3, a4, a5, a6, a7, a8, m] (m + x) x y"
  "hexb [a1, a2, a3, a4, a5, a6, a7, a8, a9] m x y = hexb [a1, a2, a3, a4, a5, a6, a7, a8, a9, m] (m + x) x y"
  "hexb [a1, a2, a3, a4, a5, a6, a7, a8, a9, a10] m x y = hexb [a1, a2, a3, a4, a5, a6, a7, a8, a9, a10, m] (m + x) x y"
  "hexb [a1, a2, a3, a4, a5, a6, a7, a8, a9, a10, a11] m x y = hexb [a1, a2, a3, a4, a5, a6, a7, a8, a9, a10, a11, m] (m + x) x y"
  "hexb [a1, a2, a3, a4, a5, a6, a7, a8, a9, a10, a11, a12] m x y = hexb [a1, a2, a3, a4, a5, a6, a7, a8, a9, a10, a11, a12, m] (m + x) x y"
  "hexb [a1, a2, a3, a4, a5, a6, a7, a8, a9, a10, a11, a12, a13] m x y = hexb [a1, a2, a3, a4, a5, a6, a7, a8, a9, a10, a11, a12, a13, m] (m + x) x y"
  "hexb [a1, a2, a3, a4, a5, a6, a7, a8, a9, a10, a11, a12, a13, a14] m x y = hexm [a1, a2, a3, a4, a5, a6, a7, a8, a9, a10, a11, a12, a13, a14, m] y"
  by (subst hexb.simps; simp)+

lemma hexm_value: "hexm (map (\<lambda>i. Suc i * x) [0..<15]) y = x * y"
proof (induction "map (\<lambda>i. Suc i * x) [0..<15]" y rule: hexm.induct)
  case (1 y)
  let ?ms = "map (\<lambda>i. Suc i * x) [0..<15]"
  show ?case
  proof (cases "y = 0")
    case False
    have "(0 # ?ms) ! (y mod 16) = y mod 16 * x"
    proof (cases "y mod 16")
      case (Suc d)
      then have "d < 15" using mod_less_divisor [of 16 y] by simp
      then show ?thesis using Suc by simp
    qed simp
    then have "hexm ?ms y = y mod 16 * x + 16 * (x * (y div 16))"
      using 1 False by (subst hexm.simps) simp
    also have "\<dots> = x * (16 * (y div 16) + y mod 16)"
      by (simp only: distrib_left mult.left_commute [of x 16] mult.commute [of _ x] add.commute)
    also have "\<dots> = x * y" by (simp only: mult_div_mod_eq)
    finally show ?thesis .
  qed (simp add: hexm.simps)
qed

lemma hexb_value:
  "length ms \<le> 14 \<Longrightarrow> ms = map (\<lambda>i. Suc i * x) [0..<length ms] \<Longrightarrow> m = Suc (length ms) * x \<Longrightarrow> hexb ms m x y = x * y"
proof (induction ms m x y rule: hexb.induct)
  case (1 ms m x y)
  have snoc: "ms @ [m] = map (\<lambda>i. Suc i * x) [0..<Suc (length ms)]"
    unfolding upt_Suc_append [OF le0] map_append using 1(3,4) by simp
  show ?case
  proof (cases "length ms < 14")
    case True
    then show ?thesis using 1(1) [OF True] 1(4) snoc by (subst hexb.simps) (simp add: algebra_simps)
  next
    case False
    then have "length ms = 14" using 1(2) by simp
    then show ?thesis using snoc hexm_value [of x y] by (subst hexb.simps) (simp add: numeral_eq_Suc)
  qed
qed

lemma hex_mult: "x * y = hexb [] x x y"
  by (rule hexb_value [symmetric]) simp_all

lemmas hex_simps = hex_literals hex_add hex_addc hex_zero hex_mult hexb_multiples hexm_digits

end
