(* ===== verification/Prime_Certificates.thy ===== *)
theory Prime_Certificates
  imports P256_Words Number_Facts Hex_Numerals
begin

text \<open>
  The certificates of modular powers: a list of squarings and multiplications, each with the quotient
  and the residue of its product, which the rules of Hex_Numerals check. The reductions modulo the
  two primes of P-256 use their sparse form.
\<close>

section \<open>Reductions with given quotients\<close>

definition plain_check :: "nat \<Rightarrow> nat \<Rightarrow> nat \<Rightarrow> nat \<Rightarrow> bool" where
  "plain_check n t q r \<longleftrightarrow> t = q * n + r"

definition shift24 :: "nat \<Rightarrow> nat" where
  "shift24 x = h0 (h0 (h0 (h0 (h0 (h0 (h0 (h0 (h0 (h0 (h0 (h0 (h0 (h0 (h0 (h0 (h0 (h0 (h0 (h0 (h0 (h0 (h0 (h0 x)))))))))))))))))))))))"

definition shift8 :: "nat \<Rightarrow> nat" where
  "shift8 x = h0 (h0 (h0 (h0 (h0 (h0 (h0 (h0 x)))))))"

definition field_check :: "nat \<Rightarrow> nat \<Rightarrow> nat \<Rightarrow> bool" where
  "field_check t q r \<longleftrightarrow> t + (shift8 (shift24 (shift24 q)) + q) =
     shift8 (shift8 (shift24 (shift24 q))) + (shift24 (shift24 q) + (shift24 q + r))"

definition order_check :: "nat \<Rightarrow> nat \<Rightarrow> nat \<Rightarrow> bool" where
  "order_check t q r \<longleftrightarrow> t + (shift8 (shift24 (shift24 q)) + q * 0x4319055258E8617B0C46353D039CDAAF) =
     shift8 (shift8 (shift24 (shift24 q))) + (shift24 (shift24 q) + r)"

lemma shifts: "shift24 x = 2 ^ 96 * x" "shift8 x = 2 ^ 32 * x"
  by (simp_all add: shift24_def shift8_def h0_def)

definition reduces :: "nat \<Rightarrow> (nat \<Rightarrow> nat \<Rightarrow> nat \<Rightarrow> bool) \<Rightarrow> bool" where
  "reduces n check \<longleftrightarrow> (\<forall>t q r. check t q r \<longrightarrow> t mod n = r mod n)"

lemma plain_check: "reduces n (plain_check n)"
  by (auto simp: reduces_def plain_check_def)

lemma field_check_eq: "field_check t q r \<longleftrightarrow> t = q * p256_p + r"
  by (auto simp: field_check_def shifts p256_p_def)

lemma field_check: "reduces p256_p field_check"
  by (simp add: reduces_def field_check_eq)

lemma order_check: "reduces p256_n order_check"
proof -
  have "t = q * p256_n + r" if "order_check t q r" for t q r
    using that by (simp add: order_check_def shifts p256_n_def)
  then show ?thesis unfolding reduces_def by (metis mod_mult_self3)
qed

lemma p256_p_numeral: "p256_p = 0xFFFFFFFF00000001000000000000000000000000FFFFFFFFFFFFFFFFFFFFFFFF"
  by (simp add: p256_p_def)

section \<open>Powers\<close>

text \<open>A step squares or multiplies by the base, and gives the quotient and the residue.\<close>

fun power_run :: "(nat \<Rightarrow> nat \<Rightarrow> nat \<Rightarrow> bool) \<Rightarrow> nat \<Rightarrow> (bool \<times> nat \<times> nat) list \<Rightarrow> nat \<times> nat \<Rightarrow> (nat \<times> nat) option" where
  "power_run check b [] s = Some s"
| "power_run check b ((True, q, r) # steps) (x, e) =
     (if check (x * b) q r then power_run check b steps (r, e + 1) else None)"
| "power_run check b ((False, q, r) # steps) (x, e) =
     (if check (x * x) q r then power_run check b steps (r, e + e) else None)"

lemmas power_simps = power_run.simps if_True simp_thms hex_simps shift24_def shift8_def

lemma mod_eq_mult: "x mod n = y mod n \<Longrightarrow> x' mod n = y' mod n \<Longrightarrow> x * x' mod n = y * y' mod (n :: nat)"
  by (metis mod_mult_eq)

lemma power_run_reaches:
  assumes "reduces n check"
  shows "power_run check b steps (x, e) = Some (y, f) \<Longrightarrow> x mod n = b ^ e mod n \<Longrightarrow> y mod n = b ^ f mod n"
proof (induction steps arbitrary: x e)
  case (Cons step steps)
  obtain m q r where step: "step = (m, q, r)" by (cases step) auto
  have check: "t mod n = r mod n" if "check t q r" for t q r using assms that unfolding reduces_def by blast
  have m: "x * b mod n = b ^ (e + 1) mod n" using mod_eq_mult [OF Cons.prems(2) refl, of b] by (simp add: mult.commute)
  have sq: "x * x mod n = b ^ (e + e) mod n" using mod_eq_mult [OF Cons.prems(2) Cons.prems(2)] by (simp add: power_add)
  show ?case
  proof (cases m)
    case True
    then have c: "check (x * b) q r" and run: "power_run check b steps (r, e + 1) = Some (y, f)"
      using Cons.prems(1) by (simp_all add: step split: if_splits)
    from run show ?thesis by (rule Cons.IH) (use check [OF c] m in simp)
  next
    case False
    then have c: "check (x * x) q r" and run: "power_run check b steps (r, e + e) = Some (y, f)"
      using Cons.prems(1) by (simp_all add: step split: if_splits)
    from run show ?thesis by (rule Cons.IH) (use check [OF c] sq in simp)
  qed
qed simp

lemma power_start: "b mod n = b ^ 1 mod (n :: nat)"
  by simp

text \<open>A residue one, from the quotient.\<close>

lemma mod_one_by: "x = k * n + 1 \<Longrightarrow> 1 < n \<Longrightarrow> x mod n = (1::nat)"
  by (simp only: mod_mult_self3 mod_less)

end
