(* ===== verification/Rsa_Primes.thy ===== *)
theory Rsa_Primes
  imports Prime_Certificates
begin

text \<open>
  A prime of 278 bits, 3 * 2 ^ 276 + 1, a factor of the RSA key on which the properties of the
  provider are applied (the other is the field prime of P-256). Proth's theorem needs one power
  modulo it, computed by squarings with given quotients.
\<close>

definition rsa_p :: nat where
  "rsa_p = 3 * 2 ^ 276 + 1"

lemma rsa_p_run_1: "power_run (plain_check 364250417292324200797399107529409794995451282322276160234714826826044553475976593409) 33
    [(False, 0, 1089),
     (True, 0, 35937),
     (False, 0, 1291467969),
     (False, 0, 1667889514952984961),
     (False, 0, 2781855434090103443811378243892171521),
     (False, 0, 7738719656176637865585711108188299507866081632238837778123205228883453441),
     (False, 164413763372115887524128189647754939252111056181773432394599226, 159252189844012504226919782581333951476802088161901020720911370063273586037106639047),
     (False, 69625891326735437501173991831833895522232756412715996939934448755611210831606310384, 44321980396677080610405055976140684984119337799666467004015592791335829360522409153),
     (False, 5393097311696130638703028944289337375979868189942796379535311558215041355756777003, 102568053940033969519599538136459837781391708980859490661641034968314947429925604182),
     (False, 28881794473286410572974073781292745895829368849620743346203309032038695381093474139, 135604621494588091918185643619793101211698739557844300283527039579792126175676539273),
     (False, 50483438035248624241975159555461443249905364205322128313414553040898354971341463426, 41161837829452397102599878747597370542357807740534660426248017305407084517665209295),
     (False, 4651461777567171814431397377508952550696500857866580267941515739636834240914452299, 230376694324420325887537753955387435670895728163206707635083024673615713163106099734),
     (False, 145705862692956232170302975615995668376986762882296982843742526158315439092589222310, 19636124317831945716065281369116151962033297517839124726051259516418851935173115966),
     (False, 1058550271792581731746824518000902928763218259179933274167617042220042628955109584, 361681255883632808513264070079905669986154903785626893462007174557597360581076981300)]
    (33, 1)
    = Some (361681255883632808513264070079905669986154903785626893462007174557597360581076981300, 12288)"
  by (simp only: power_simps plain_check_def)

lemma rsa_p_run_2: "power_run (plain_check 364250417292324200797399107529409794995451282322276160234714826826044553475976593409) 33
    [(False, 359130215498365287630003341814715221795753086996012875526916379506188502258033748269, 363278862896643730682376941800635223396350052228954688388734816585757636086479130979),
     (False, 362309899899350070142441475677476758491138413539701313678965836730516166684760902494, 39927945722557913621572029938649873696977631965121961591689357318924638116505436395),
     (False, 4376771511957101085701742601780045815279213093059201429738976986600394464469978113, 244031427984024209443715165421326595142233474081020942673763510741407171610860538808),
     (False, 163490101910109496608589823271008306404738627028303779346538337853741039258434746883, 257661628809705080138028352240166489063539043449813656327259760175601518912552966717),
     (False, 182263387518895397341451148547820092694050732520645132643383318310951694579443412061, 257523275436352230546289198295415370610279621653845852544661041167429950915866052140),
     (False, 182067704642448054815689056931602022408138726741016646365874327936697727306829710351, 354450697864348578573064566532721274298583495085344646886561051337301726970032903041),
     (False, 344914628102393713927026445152690463772521125470870750894979524818970395562267672397, 14662194067968336109662491590604934534706478919241159494196735924049126618425616308),
     (False, 590198184218514297267351772083555723085356785190469228775509055265801406765558628, 240362870449659099540205758546832260520739839774751895890391786015592717065327668012),
     (False, 158611512157674812072028835292918101395645567611903739829308535181343573956368398433, 92376218852183276244516711588697377020027475615028588384074319151173279725534304047),
     (False, 23427195699210756623940063782010952003024220428953067299610468605561989972189627194, 347602478303646041204239301717505096098753763731520105193599284293734892598813013863),
     (False, 331715427592408959531952513918636344824597474220244774868562719921971510364746025683, 203840893272782473058091773136562577050623337953868280680212756660038110623467659422),
     (False, 114072922905945825888034817863716489314565770152752235897269442699135807983706081190, 192979958945893395285397410904826575395786266288367685239273542444643611613612497374),
     (False, 102240828800125249317589050115293648250729518921561526017074804958536083044873601409, 212178649593827945275595884134819416651847138243576181915042812024215904908034382595),
     (False, 123595683645656373381586801764462542361021937888788542709475693544337608342087060962, 180456416072739656342029589666722517409615028505647453043210088257922150693168534567)]
    (361681255883632808513264070079905669986154903785626893462007174557597360581076981300, 12288)
    = Some (180456416072739656342029589666722517409615028505647453043210088257922150693168534567, 201326592)"
  by (simp only: power_simps plain_check_def)

lemma rsa_p_run_3: "power_run (plain_check 364250417292324200797399107529409794995451282322276160234714826826044553475976593409) 33
    [(False, 89401457227936466137581196288076100095941836413039195915126282521190480248021768471, 162408291574347379453526140078090078872113313461321151437895207671744182659971269850),
     (False, 72412966244950576184795651374397372787548670211724098118298140257164549021492993526, 115174017641715564582321386610195128326315539561752059744814998712519167754347752366),
     (False, 36417403275309139297334832209588885100454747845876610842198590006134549492966780526, 244354563140829496267471120733020543154929155581272141224529774119718466068417444822),
     (False, 163923360669280616516240689336264633801594901964148081217418416680829763961670527431, 231950804416721458608062028247119369482932899839638807628195687195785821527746309405),
     (False, 147703813408089445511312293306645406195025964833640650682924146737166588316140131501, 244354923601279708942830138455316104961478568826864558351676048916174723878721577116),
     (False, 163923844293823654145832690626922731179222771379737520728251324663675711401463656315, 84193091036621231289856953862272100626229604809527857329856451267393320895064649621),
     (False, 19460448751145918907874820837633789265034147853562075850880418950612581551511216788, 301310252049970030847544761277841587132549701121544677500995881979525854558764493349),
     (False, 249245748749701238835738169371923572563849159791780509187912014626776107682417749343, 360172689959217736216677189661392969510827714357747887248074991196616063446677355514),
     (False, 356140612155703489227557373941649462177881889573951573541393727978635383833924909249, 57516911581474314199394704030052003395055667178016445554120992412203885731849664355),
     (False, 9082199939433939636424377742353409818092626226798572265640446384579755515737138636, 127588523485675218073349627710603018256660918235445932643686797237678721057720715901),
     (False, 44691318259191842755098675428241802485115964823044201421954262200486080747895061961, 228748754825394938105010209679460668235462528313669831209574225653427313514195026752),
     (False, 143653899487986399809331424628956606999296737209723402486313758019066912136756547703, 250652509709897989141282460697444367456740244480512351775546138611569819440651779977),
     (False, 172482110222127242495531073814055107903451900678816991544421048321943467851956765678, 198515049031625589580854288459179500042121905508309464538311053033879526734325904227),
     (False, 108189923253820678761472659833162278712199806048350386182983375462293509373499041588, 180150392424374602163650841296477795789290186265929967218971066521292621218518774037)]
    (180456416072739656342029589666722517409615028505647453043210088257922150693168534567, 201326592)
    = Some (180150392424374602163650841296477795789290186265929967218971066521292621218518774037, 3298534883328)"
  by (simp only: power_simps plain_check_def)

lemma rsa_p_run_4: "power_run (plain_check 364250417292324200797399107529409794995451282322276160234714826826044553475976593409) 33
    [(False, 89098494744099413840959779382356272991075488568165171297837897692213757609699552160, 328237860280668376154957784960494557869264103510697525359010523443988627523757563929),
     (False, 295785777604658811827282993344653465382489828355413525276090440563657951206203410213, 165759238476819745109422740818965982288266058369958648087456210226595248338182830924),
     (False, 75431966131049371561614065160898493127684594250438669435790327691845795313151628915, 269968672681170343416489507753341264214652211495628969671239400692064734329767872541),
     (False, 200090599129613531841813183688224697683729413352860416584168083419959133847200645292, 145022501796698172432682773263291593158266816533619535952607512286461995224507716253),
     (False, 57739195424159968756629841701994635698229707574856030290315106304983688490012398718, 245772132166325470824035512701426567505999944434173428971103325604496411171281510347),
     (False, 165830807823359051374174975016103514675997700859481277158486974238303906954960858123, 84120159147655625967690523303780685536854640207533548383544156991559359428562149102),
     (False, 19426748300326590478852610864102013761980517287710038145583273599886300406516288984, 104294017404493134757594632936948064215876335217163091551968355919867631051965699948),
     (False, 29861989307315836925224020594854269708875924801119295582363406828637477385678444055, 157286695678658242895033152833159654725792323221001568822729629337116886503078969209),
     (False, 67917848444513431574437260532399383972472356132167404120088228147957675690964849917, 329286864731311272889091261817994759215424755071504681741339472244964003535353688628),
     (False, 297679382471531941375804847005924825005909883433875327744313033357850743613922858532, 258534095929811532824209988197799317541229902514651707905938217083847792628785906796),
     (False, 183499800096601014387769231493608691944101105353920261893880291679591530472844127004, 156872027408241556972762574120667837772686039198355882725299273729133682451533668980),
     (False, 67560205328255278934319674862947036983465329774246432207044996243381559544567918776, 140316955221561123043676708678122819729687752738846592336820510541468324710725293016),
     (False, 54053055227795588612063018102777506686860170950371373300743665722493418635512710345, 3323049159031078061160358416826569627912660360218407580057432387434815545405260151),
     (False, 30316109986704620595825006698877530585988051239989082342488912919293220743401371, 216803851358699914847093740999848906999199367214258652027165298957297728295828379062)]
    (180150392424374602163650841296477795789290186265929967218971066521292621218518774037, 3298534883328)
    = Some (216803851358699914847093740999848906999199367214258652027165298957297728295828379062, 54043195528445952)"
  by (simp only: power_simps plain_check_def)

lemma rsa_p_run_5: "power_run (plain_check 364250417292324200797399107529409794995451282322276160234714826826044553475976593409) 33
    [(False, 129042844517163313284571549161838843475189181676154288463901460282290517908814124855, 170998208413232775913128488156683781656908514202452398072420385630853671985863919149),
     (False, 80275507981282335203335691315797926639014727403487134963318203448243865861493691286, 323112357408342697220643033461457911317381828032000153793057022216975673171020550227),
     (False, 286620386837307358189476426234256291514308047211350059428862356411104554594295363753, 26174170383197387294401754189905418726078820399804748754745867879029429030392447552),
     (False, 1880813755386421111899977047416495481844629865746153751982046193852877531971309212, 179386705964842211703547155077423487349739326499674252843160280966615005147530608996),
     (False, 88344690216487701024417617241950916215143940553780677192663714678352746119210556886, 257476917113671780658517269879658261971280620125881039284132221169422713742548963642),
     (False, 182002160324656463523901704722170391662082898728266217121706324860620809769350910681, 118122757890533426802458114930940168088597134014548631247764839970720821754025602635),
     (False, 38306025935085747684894192065772466882750173110751124991485112890720250919692686795, 316112387575393010096019204136414516539965658246789395259122636178734170220420609070),
     (False, 274336107344581026988469955527650163646020545847639360699030583078333270505087789408, 23194399475578929941653056898721814863827301265837238911385386740211273887533453028),
     (False, 1476951408956074029848364279904124880851190981338186148419809874731423628015618777, 67321162946265680053477866218174402007559035661129264908551656665702010683407527991),
     (False, 12442371416147064833723574747741596192082952924894645208802915560019708006998441793, 66657809999426496695947711071451539213754416486906287438504889856570549966134553744),
     (False, 12198376235088187881197151025151056950147130006444033316968706188053888565558231751, 175099211318611349005940629565100522004580106121738698440611903176839831859303288377),
     (False, 84172130899150520012106479797978528532633921253029176708759629027800227778845587715, 119447357604077418494135521273996238972020972756811231174569263839390119309422923694),
     (False, 39169951663078059495378136489226882662656250526005592342968595642665717603544932356, 22557041327016630430917634859776213248777245376708415791241381298727886268726164032),
     (False, 1396896446162172960100978641837757548057780981194838789742527584201012272589114966, 92595883416998203235568574904358695397393334601757888267122473199495491462431637930)]
    (216803851358699914847093740999848906999199367214258652027165298957297728295828379062, 54043195528445952)
    = Some (92595883416998203235568574904358695397393334601757888267122473199495491462431637930, 885443715538058477568)"
  by (simp only: power_simps plain_check_def)

lemma rsa_p_run_6: "power_run (plain_check 364250417292324200797399107529409794995451282322276160234714826826044553475976593409) 33
    [(False, 23538744827005587424162204996511994590729133239099633511353768833816712677677661738, 8709258943126962808697007927499079630898780659012168384978023138797833192752400058),
     (False, 208239133676993547206541295615242098037918072001656661353035534809650890732180098, 77267726993111718217914144959595245053037725204827239687300004357264589301370629282),
     (False, 16390651461877835429988600844710091401674800144168859572487901668545014809136643065, 303023633191111999959652175535308064266682079420719746001399836063655750356011276939),
     (False, 252088447708352356135427756493646410127442868882199138493273000083618124406234515338, 47796657775771450989209050842969767012108581314834842079884993084208441999953002479),
     (False, 6271840431965250891299210842529979085572021760452051925950553445918197450358571635, 3564524738749368894755453482523624126382268967205127056167873501901177396584791726),
     (False, 34882147033916397183593730658717552207509563968972138074730002997598042679789747, 300520297619759693903098635219066820629589204403297056755882307979209428165372081553),
     (False, 247940551318545011948245676863564928280142319410696771208439327527301799635608408199, 108587887758571375330901063247754342932454031445212640737673498936431010494957931418),
     (False, 32371491721326223495050017113572361104815663992087861637184433804079109665709211456, 65877649366862029035113257524328426772718795152594982279302615340303814767074597220),
     (False, 11914508481181280089896497962906816740282583684336912700081364676096446737570465273, 123131343120484059919332164222196669469407380196141927090725100847522017491556542743),
     (False, 41623363869716203105189483641279847956372500192174537886752116381953246926713537671, 237824510574273747970702445892350473625198585696323229512046003642415571805214153610),
     (False, 155279157263122612201006694181807997716819693413905215237989128867055932088429955008, 6917747952537575548586184490485721847668513372724715484490378759943441849696689828),
     (False, 131380046426775268543924344374245140518316622586446219054570820908589306481824362, 160790199797572820042665151033174501334547706962956221766931650364636212060213839526),
     (False, 70977237426731682599140184406052321834411145475754575039744003600856898928309701883, 129044077287410869063529884943135747517836676333901697489152312400069382668187215529),
     (False, 45716828567405962214144814847130752441101251740537637731596884005263103485586503538, 318046175145299797951198119369407491266852085997706161731172026741194751993732768799)]
    (92595883416998203235568574904358695397393334601757888267122473199495491462431637930, 885443715538058477568)
    = Some (318046175145299797951198119369407491266852085997706161731172026741194751993732768799, 14507109835375550096474112)"
  by (simp only: power_simps plain_check_def)

lemma rsa_p_run_7: "power_run (plain_check 364250417292324200797399107529409794995451282322276160234714826826044553475976593409) 33
    [(False, 277702823998072345020808979705668546498563093686418438650031998157359335689706574763, 19302575361085126342235468232196776766169792104431283240447582582339021444276365334),
     (False, 1022893586066516556783351658144831100676266579863826835493715407238177063167851539, 47145986217783596515513236218106846485698385452730741679890695339873573891159025105),
     (False, 6102241510031292454600415929116183242712421306687671343867774969303321547323444844, 339797688893242168032572871189708729684770014836364024595214668724813565368194827829),
     (False, 316986512288675740823355171070829142000141920446389627200091010544282760286942938202, 359939549682777115806386267442631025321254385916185172388107067960667235869785342623),
     (False, 355679700764396356098385055465407117384371083825965254642265308601585018577354250727, 190551735381403958407556038905476814859341919393821754761010294082961207566378861786),
     (False, 99684069346513695994951004360024875822755821612585731137764213394932544081527964315, 297230040944988416245724925043557446852809342408101331471731370030955068780674909961),
     (False, 242541100973561430159989142195265042658381312015351858548997575039820879649042416287, 254801426966608847769309253195444691639224215851497131836067078190760234383138569138),
     (False, 178239376269860026837780564744782754397376244225982111215992390123837873910270527987, 281012645107835883298403368436759788778017390814268954038537350256030885249951825361),
     (False, 216796201079236492345374160319427622687498096176502621806960506214478193358478190812, 55962068139003999022243548747544905022108929515855729170896480727958924178599222213),
     (False, 8597802285786211820932685736180764937551803097945187793667995118289213017673871108, 147006574439603117746224166434704880716143352513709608221608999351018995752964290197),
     (False, 59329878299420075763833668588376702490632091693566362455901153050108356246041998202, 202725407641317455225489857492165206517208711015741526497959444320254892140767248191),
     (False, 112827848513776781813242734638683438351058296349487976023914509226723910019291485048, 351186371971751419339257243054450610137822594793074195890272053374870838318893923849),
     (False, 338590875956919065590552491848545397303018445145983708696364623546772489055020017556, 353352282080375537996140673105466929727283376957033100801728447192627597203557086397),
     (False, 342780211974901684265091905547112922665441404479813379830346180979189102344593943932, 129728531800908673272101044971980414229964381295653467227191698374000784310415697421)]
    (318046175145299797951198119369407491266852085997706161731172026741194751993732768799, 14507109835375550096474112)
    = Some (129728531800908673272101044971980414229964381295653467227191698374000784310415697421, 237684487542793012780631851008)"
  by (simp only: power_simps plain_check_def)

lemma rsa_p_run_8: "power_run (plain_check 364250417292324200797399107529409794995451282322276160234714826826044553475976593409) 33
    [(False, 46203082177152576512051830864597821392419532435439843510878843366572123629500960368, 118363572975061121727273660515854581566326774376722081917535395951525858711267036729),
     (False, 38462372978365422381948516403526684543939385355962368222404279385798757894844239535, 64124767788677589818337448923544934454814155025478019061512800733766267716136794626),
     (False, 11288898100703629056616284091423677046358714239240653405069987765402918001949551995, 178888859429854140774620228894737669214848008646939098107522165847129086947882678921),
     (False, 87855009929698911450311841677785462362624078882861585241967868635344188734059254045, 128708325523426643464055976583836917735819412497681313001811526680218532760774134836),
     (False, 45479242500770219127376798366918053591522773260568877674861230761839214520060332582, 276698685527127862613896501505050853709978729809595555580319598829033897932379594858),
     (False, 210191008541787007797271119341869074931061295718763572393924683374811015271037147836, 117877644829665751476114128568979121828720034036692520385486319689036402297423827240),
     (False, 38147215462041517988833209755909733679815179295401103867941229685545365936967324805, 81414304474513868517053046218004767805618811188508294397384298343262123861440807355),
     (False, 18197066244537493736619199486727073678098271120056501387251484432100504313580720517, 149929284279739319526684030575613041540093443177612245048715904730638759012848823572),
     (False, 61712462683590672489470448446569938828992926571320037948401476711975037251423436643, 19710906456401652194139003534849907734251367610059903203641234007988974665699953197),
     (False, 1066628382257185029380622772807784769053071588552206095830817291565344641723882394, 315136052339635530542867398452435714611053051109112950712358197675462413394118979663),
     (False, 272644111769154220264700005846207635506480223399747173456433928142677074113477733800, 50195688611655009830174093805627930531986300073745676839745463495041940706871069369),
     (False, 6917238898249925999703010649115715653918894609662315754240830358839539883347461833, 297751252834017535987660658964321153487141349018245521461723658621620651115623199464),
     (False, 243392469453446162130442424012552753210229802143110494119518600579146995426257815616, 270697476535392277722321632712619327671083689838459653475750735074747788426607012352),
     (False, 201172381207793366029870527206715672677602218849349611673444732938806527959206799798, 120753077318255653248576412420332552622931408180425685308669901341131960298771240522)]
    (129728531800908673272101044971980414229964381295653467227191698374000784310415697421, 237684487542793012780631851008)
    = Some (120753077318255653248576412420332552622931408180425685308669901341131960298771240522, 3894222643901120721397872246915072)"
  by (simp only: power_simps plain_check_def)

lemma rsa_p_run_9: "power_run (plain_check 364250417292324200797399107529409794995451282322276160234714826826044553475976593409) 33
    [(False, 40030992387653464372726825759579325914205630709382704121332749167571367121700437726, 104474370106418057483196678852602096669862453518918116073134301312934056849148284550),
     (False, 29965357597307074117763489550719191840302826174977046874430123920652814801036039515, 348119461873988467390281381749177921892616785310699730924671083937458747020956145865),
     (False, 332702871382514324369885723601175089665970385915373842151801360993219537636701294929, 276686363580390792436276174605476225982868138900062101479093889817305610110730075264),
     (False, 210172288505305288437163382836664977160924152235942772693703190278023336809466706749, 346588884224494439679072355206348812083921080737403282239838750607225470580095452355),
     (False, 329783711878568009064614569855518800103713388346581041334542357321279453369953950565, 182340325320005268028356928254974850056329723006027348490324063379828712821784219940),
     (False, 91277848039148930533298854758218560286170404288134497555624222004728327969434750832, 149224478035242609715858801631510190168825665599550362214372835701273630076205137312),
     (False, 61133615193691786149153182443168421770594469498574128573415837031462821161518797520, 32456182235343993501117999508696364214164203509123015405893393674365708653137039664),
     (False, 2891976824966721212187396682965719445638707818852294420347085974138086174375306877, 165465660264188701699173020120465512334251424499721809751509320971546108090078659203),
     (False, 75165005795151541597795051384959489974099121760589464517205562261871286239875624942, 157606668462888917449762166769825657539684632687476178247504386281050990062103387931),
     (False, 68194463931213816327724770532719303158630089323855395083969757509469401065319683373, 112338435814750654944654821340033151645652217467289096466916726434298520073237772204),
     (False, 34646286077352396714136371563851572201250018453876657883520053729728627565299657831, 273748270800625533090506833444237031521015833353893489898466857334878061732285181737),
     (False, 205732408828490230265946571129146884234081958407985329049707100442320735229965024420, 281456952822417217761707665875503861135301655862237535135903900903942503942022289389),
     (False, 217482293859680203752010993938859641479925070229115007649329502667332212841525408296, 5820264530526039877596591530196453307302094026284548250138503161195535844954472257),
     (False, 93000522709389787486217067786387953941005021004512292007003505911833373393950045, 192412493328164667719933331781846419372929207582159376469635698971561253155960420644)]
    (120753077318255653248576412420332552622931408180425685308669901341131960298771240522, 3894222643901120721397872246915072)
    = Some (192412493328164667719933331781846419372929207582159376469635698971561253155960420644, 63802943797675961899382738893456539648)"
  by (simp only: power_simps plain_check_def)

lemma rsa_p_run_10: "power_run (plain_check 364250417292324200797399107529409794995451282322276160234714826826044553475976593409) 33
    [(False, 101640426012330567808103119075978316372412477363519669811755346924410727878210246983, 170719864141512603629523959170297077972811151357851518802635899610613073608561439689),
     (False, 80014381944019519565241685863667762237123031090058780350289487653256845035602033153, 5683137196114748334872015594690393668185182302716840166125944037999797749165128144),
     (False, 88669900860930642592064451828126434488836399777444949094063956474905458987926690, 163451974643458845614423017617840627745361226424676331145845387548132286249911698526),
     (False, 73346650399043777791611833691906793690877564653416593871933155915789007303521291655, 121073290479965893084643138152460325912225597890661307653471314977287425103870870781),
     (False, 40243582359116494044003267300202053123887236715273915908431645974536083134286629601, 335749260084025859458027406522906209446263908525053964474373996889232848943038650152),
     (False, 309478205913770775633450529423438906356998454776795699633064908290507858110334364904, 171502929592387173399886600049184884797773118690614363555115095233430495554802305368),
     (False, 80750092415587010299683065620012071645076336006211410641636502643575497291391084440, 60966206167903072242197084491114812234296547060242834853584111507902047142055159464),
     (False, 10204184039477249698695657710726571092887349104670095320840952630872422353055234455, 8509209058835969962253865570411315396260601968205090681533590551945952235766060201),
     (False, 198782582996650828838483546056834026092297714597227063885056439286037116915844321, 215515040503975404151701004485741650369514805562313224790024439638978905254997480112),
     (False, 127513190042977953963717285575161936036375510581103784856458652019940777453995421889, 290795914358555269387511902855009748745639423196033348621039997648635839461863802943),
     (False, 232154198850962249000827800058289439827683412526227006412932021620199470703232870805, 81338910365336743159659344494009585095909358461996480016645969232466208975023937004),
     (False, 18163378888076028913227169211765186384790244596426280430230869886664935009852680808, 91176981568331183447693361325160558043274646751243823956007987675101708842086901544),
     (False, 22822875618671221665916521632153435623139153333156318238055632542784700921888130843, 11552269084321667579559477254542205361891419233968121720049935140161554132746170149),
     (False, 366382342094811533424541091535381896694908660892066242996398031966257609826987652, 259987445873603733226388806803261262486518798708692354331073481393216960755991096533)]
    (192412493328164667719933331781846419372929207582159376469635698971561253155960420644, 63802943797675961899382738893456539648)
    = Some (259987445873603733226388806803261262486518798708692354331073481393216960755991096533, 1045347431181122959759486794030391945592832)"
  by (simp only: power_simps plain_check_def)

lemma rsa_p_run_11: "power_run (plain_check 364250417292324200797399107529409794995451282322276160234714826826044553475976593409) 33
    [(False, 185568687921732186957035157824354609959543585072123819962797674090712428697174754952, 263544396025226045462851922383505875356961429293304196893990222720709016360411308721),
     (False, 190681040786730242714837779993962995946721571545215152249438192284999319444348135315, 272274883238903232222866170420838383609401786929983387277741857397679125108901517006),
     (False, 203523753229535684387614833731780734773853279377588364014029397526500686297726684411, 355161788906697457717326947086134960039588064594746845780296393147865036303901556937),
     (False, 346299936283048025248653336131839463238370200398128364899994244061685395582094076712, 156649292300324828340316130016816835179143093714639777688631126483798804797773230761),
     (False, 67368490503331853162835118047278382641786529926563832304976850614598372104160380395, 119560484773646822784451596361772633312218791026354469007331966664775795246066822566),
     (False, 39244181586859816098838195288393844660802161420015765974728500680726527159208091777, 298951730706546045710904011080892976973436899678478147229106013128134716563441526563),
     (False, 245359052590226236919394056799882414456754674005958203092779685264734976755176939690, 71651331348267045011485622667120804468140790540719037144424853705347142963790089759),
     (False, 14094460953929405451530571763469989356094075886311642149493859659670244713273857142, 268577564328323703263744788857166875675031259569799280398821417404844661514391901003),
     (False, 198033837810664122289867295868569732618565756717107405060374130539183300287671377605, 268358924654959259925172711940496588612277834106824299380027413445070184778159200564),
     (False, 197711544100086045546532865420256308550752890626262285246948224502338896965039049786, 224991350042516880135907071462729089038854513920512211685617347881457428604947457622),
     (False, 138973368844019968662079015966201481328222419930364007348703804683280150113873969577, 58028908167651802562977461393513569902697260365686490539425244455219367100921176891),
     (False, 9244613110291489228088861543184640612224444475360726732474872860066240047002497049, 103969769829719609612232172405665452930844918537761060089767510232655254964917075840),
     (False, 29676597541876489662131104492744745034798671323669006747162042253398462666451308841, 353127025443303560830252065551622471624542428957918545499034081165936281507767676631),
     (False, 342343317065743603123262393345380721433390115440367684206059393880884865610254842942, 132780550403036937591071443929527620672069522811037899113832922322041087366296140883)]
    (259987445873603733226388806803261262486518798708692354331073481393216960755991096533, 1045347431181122959759486794030391945592832)
    = Some (132780550403036937591071443929527620672069522811037899113832922322041087366296140883, 17126972312471518572699431633393941636592959488)"
  by (simp only: power_simps plain_check_def)

lemma rsa_p_run_12: "power_run (plain_check 364250417292324200797399107529409794995451282322276160234714826826044553475976593409) 33
    [(False, 48402620088652294983754647619899315038476552903676991781716002880964853173228161478, 223328803611079489112361848268978858256630203981702662757242546346449073975981521187),
     (False, 136927103318399234697361509461731713197417927965818523850502382372361624642753376912, 127678295122960177656952285250590383039672031813872071983847633059889703785777915961),
     (False, 44754230253696516965629488947160057437204110715266921431107208121967010339961021541, 141384832462822195142844256928641086539605422785923325597581161019790190083530930252),
     (False, 54878923678755495622329582222186716214946558746299113364693279617752391844754008025, 200791662632038398621286647576488471585169036170171501257825356607808316425940676279),
     (False, 110685643361067814997657924506839620879552962117036585462473230231657999973064611815, 160100192157561277569998566693093271242771056053588648504121929544030652457200758506),
     (False, 70369367643901356052937241744660252188767509057132271057683265842968109177807614213, 121160415706395190991585794348190407224291153361077763464914362407097537176300829919),
     (False, 40301522351765445406986063071786623744076993126940712231925836220507410076025051087, 57834857321769986409831304111241932419765410491208689999523651852717004992713060978),
     (False, 9182887822871349139764917535494912561485349339082130884033269909482938413359336557, 199723262439643462031983568440657998924087395738796855998661431936412729105167363671),
     (False, 109510874019183396501110231270024317873243251698471898491917130370712453767586691343, 97650583502226176175238249544707712561813407547595458694190741088585251981679437954),
     (False, 26178793504778752705867158584019118793750185483084546918325230534880858087746161463, 144124697860069564861140328266348582882692589367371035327367673624706830806520108749),
     (False, 57026505796933961718512137027908409772442320147969770064762447796667448569237799942, 211091120144851764685223026811805873229594216523162801938445571542462142471768562723),
     (False, 122331942226019895704134552417682837209039236028108195753501566943599461291297345636, 43247979647996925653176425332773410517367572893692224147280390550050603817872661605),
     (False, 5134895266660743809996343256314129849588360721509323953395968794538492972150212648, 14688902274115766005533569342860808600261537067087483741679722129234160816855938993),
     (False, 592350316637701994056135148619131156504141965223962815060437410283529541662913136, 25653229549686008634073950040906664651844961152528242920576042630350088667380733425)]
    (132780550403036937591071443929527620672069522811037899113832922322041087366296140883, 17126972312471518572699431633393941636592959488)
    = Some (25653229549686008634073950040906664651844961152528242920576042630350088667380733425, 280608314367533360295107487881526339773939048251392)"
  by (simp only: power_simps plain_check_def)

lemma rsa_p_run_13: "power_run (plain_check 364250417292324200797399107529409794995451282322276160234714826826044553475976593409) 33
    [(False, 1806691646974130232876057975323550343259782281547693084186041844929285910949069193, 192775240201282115588838583669311744400239969851382855508916199613353129307343481688),
     (False, 102024023777131118859973715582188375523811917303111807900156267957079995367884043552, 151779016731884530159408770331084023557664034059883116917073978786700209692839180576),
     (False, 63244594450552842152480653937101451822157664670844211173659859483593091263139518275, 323366499144014533778115537518817794611322185044064673067445054417516115403335642301),
     (False, 287071442624424015881612432745626659055300454242546319958562491708427217346717288188, 323805158380596044541041055088249032923060715632364139261545463229635155629466221709),
     (False, 287850818053386411036266010535636513022521149975832947772181228408407507726033463815, 274444767494143144218092111073241399339059258007621996330163936848278197003773885346),
     (False, 206780629010144159389025347055900913589734610769618679644273174430491793392704231126, 183338600710822928699683107353546724492331256121486440994060412717673370950689291182),
     (False, 92280038442967309517932532603549291356299456310248614048085641459129556117389649077, 100424544526660464296382299042004855720022328916450215469723699025825793985161823631),
     (False, 27687241152269043455437645846714280936381128048184984950493324062267679857140222084, 306997982419001453010728939367918865253684017584474584901107118154928361581519379805),
     (False, 258744415201864465812293087526687117437645712519785542073006618253906661486241277767, 312026646712639209505237655922097023582805229326989809766540098751470832415851400322),
     (False, 267290368484598654171954669751492942743874049694716455725679613986258971062356703121, 258736508795671891002840824128800982779085899520487637337636977142999778018363374195),
     (False, 183787245822280933902139258195336598241421586207493565060738164536637015579244885754, 266925855393318251374393471105057036945433892350900645125231713988631364051277502639),
     (False, 195605574887439052333720814274995757211432960769293697242688194003017420940146624082, 113418315433130912626395150167470947570277825521875830828539307399023907370570088783),
     (False, 35315578692571773883774611328476023542702066052207392226386047681054872393482486808, 55445600887318060436926644476689765809023940474635105178646540287511953666880172617),
     (False, 8439838396365092635652444779345147601839313911789146008525751404664878286369794896, 34408396097611229193020060090123237566509854234011673227384785328836611847601188225)]
    (25653229549686008634073950040906664651844961152528242920576042630350088667380733425, 280608314367533360295107487881526339773939048251392)
    = Some (34408396097611229193020060090123237566509854234011673227384785328836611847601188225, 4597486622597666575075041081450927550856217366550806528)"
  by (simp only: power_simps plain_check_def)

lemma rsa_p_run_14: "power_run (plain_check 364250417292324200797399107529409794995451282322276160234714826826044553475976593409) 33
    [(False, 3250340056741663541764899969059799409374654812023271494677080216027715032768506455, 268045847217520822785367471846013359287980253356169333526894699066523106880151695530),
     (False, 197250498008070698317137474242847858834223625988049309253879866310488171771879262571, 280729660483786639246532719820556786578271002795800597177770236111986880738202986361),
     (False, 216359785834081601756543077462294762921987085590068785165650098247750309256692116548, 299254884335202692556365644625012031478304143948004550550106816902420817835715390189),
     (False, 245856920258805397996514590854704115093748178726837374932910525053765084721468859939, 68605670150123612120094169069551372116359074267762944171995413280658397312345913670),
     (False, 12921709223383630842935892091146106698125279044381002269550080620550636312825331984, 65553538157664047861908316979243562750313837840237046201442458039366640563281575444),
     (False, 11797560581899358160224630775645928885738810717246828032954404347862349334580774279, 36208515503609197906706227269122448561728010747095953569566186343982365210675670025),
     (False, 3599327640365987750757003396889022111570450911390601926566640941890595887073792739, 297438361293939877107767423412884898015873124640599406921093821298105198172144043374),
     (False, 242881200869632110022881355456363712087862569682160352437690095888172994309515863139, 111870482355661079250214802593924515062731902969694163051142735308353217202099853025),
     (False, 34358244296655206163831876345537384002461000483326963435109699081541973903779677394, 141767711450043783614407072507802170667589902175376821476778544838650565445474954479),
     (False, 55176557268439399760188967601042346177327086616058295204695691880891136745332844502, 39254348531093864794037157936536281725666892600492524145472808674987826165247074123),
     (False, 4230342109296637220983980386764940492344555958389988010948071645715821350577296171, 90895284453540711425032470489480368430970747766872766982006276331331192201616682190),
     (False, 22682068005043800251224512643751185170307040334411676674982486456228162250116837727, 38723313045560907053098523107547895278873734106227802655265015812631832774352454757),
     (False, 4116659589221852027320129362847306970391678080231176240478902582525853677049392246, 229986293933617634061634995190822533938545739840583741475246058737471630306832622435),
     (False, 145212449694659523322796776758299408758588946267608828012474586251294264352126914654, 312121123913546223797775757429688759553525999771870602265067380595641367706663413739)]
    (34408396097611229193020060090123237566509854234011673227384785328836611847601188225, 4597486622597666575075041081450927550856217366550806528)
    = Some (312121123913546223797775757429688759553525999771870602265067380595641367706663413739, 75325220824640169166029473078491996993228265333568414154752)"
  by (simp only: power_simps plain_check_def)

lemma rsa_p_run_15: "power_run (plain_check 364250417292324200797399107529409794995451282322276160234714826826044553475976593409) 33
    [(False, 267452256382379129313306532242599997127468714490370230100969279731610182332389528091, 172691543079466728472423643154888278079806293594986202049493955423098716677803007902),
     (False, 81873259810801473096390026702227959994982794356709207117169664499149746379620308530, 103931299466033472698219378218477743061323446088012593253453659841082738015729962834),
     (False, 29654640038557761371060276255391142259899298931960823869054706351121977638889865637, 25226497814895902140136196963765870954556673805657729049179450429754051326031525023),
     (False, 1747084318352977199935524509116604374516359460818270788684080069751873864571645137, 317838606127463552909308768810299551606495634543997553973436739359931426498994048496),
     (False, 277340463453678304597175131953977736122034940373650639950358553247770070223022171171, 94177761154522128760886024684460949773891335720794646631172127850947544776931450077),
     (False, 24349871064005290209125355449347218526292905551169274071456168180024559693675575351, 163546807520252745274054218640659469887616958971629557943977901600517874152873844370),
     (False, 73431784783929875681338809165083861006452136567998374775840902104678262108444093500, 191931154538613812898529931819461914373984962010065463556375524879620195005900955400),
     (False, 101132535019065661511518218701665351726861924248152638627057852983809738689135983152, 326984712403723873173946032275352309747314671109309963800427116440641720381810914832),
     (False, 293531584508631124250237150159097435267087399226507005887892277033294866513814834651, 31659192538396053315606541971601047945877977957935826245947048164377927657166172965),
     (False, 2751690662797090398248009559820088150000347919786252070966048267652199137025463934, 9274910857492062199578945845056484813220657835872322677840300240344572871185280219),
     (False, 236167118362933202609239700569880199812079446833992587203185084771236560296036474, 27946274207209431240489174453458267182908447629257978339050189959826618798220688095),
     (False, 2144113513637412954024234068498842407520538621374543567125948425437531652205468065, 89776818299518368761443362159076208425132843107043229682018712810622306554235745440),
     (False, 22127296830291320951035431761154593830137400477193885265914756923487467120703644528, 285201905050074640309632107442855692369068870179124417603625861959760281944157077648),
     (False, 223308259325653379226388732277005369357564150545672079744522439940861428311448992806, 203799446810157029816708721402040782226835455433664969147604181257141062347473196250)]
    (312121123913546223797775757429688759553525999771870602265067380595641367706663413739, 75325220824640169166029473078491996993228265333568414154752)
    = Some (203799446810157029816708721402040782226835455433664969147604181257141062347473196250, 1234128417990904531616226886918012878737051899225184897511456768)"
  by (simp only: power_simps plain_check_def)

lemma rsa_p_run_16: "power_run (plain_check 364250417292324200797399107529409794995451282322276160234714826826044553475976593409) 33
    [(False, 114026539293689559144512454460450086435064619808431139370993969278239331588751863198, 224078664854618053355812940186602650914231931625188928770894286936121031005377600518),
     (False, 137848155168294256728076986100272982832255332259736405896943665683508921409931176792, 346285625362363118882266522057092848960982351566107994899012330190945976732512904396),
     (False, 329206855064129610937000158070227964836725084226589852266687884306562942668785390050, 304152901295159784267214458017117513729243957326151606743087271843037492955111944366),
     (False, 253970848005978769283738953008413879444468780212189712889096938813391638345552544168, 331182430584083725397613267108353474074044979623723772802643177001412751703428953244),
     (False, 301116476798866099624163919447624346965911794523958708392446266381743459721406864704, 183175936868036065099024376755113892482325934790308803561621887152919783272256987600),
     (False, 92116363508665226381867929858551583395511292176154978827954381870951288887565079192, 87261603678038300867017057577719248352567981100412822610484371728944106429083514472),
     (False, 20904814696072247101897732706786245407618833877887433732462429913706001972229235646, 106286475641900490390387432183010242082535881311195646776362494542423213224041981570),
     (False, 31013869492180160353340499209990655440844101374619368586124198144089997407146485985, 113296343252255391889906545023196834430112297466805455425114467201861430226757792035),
     (False, 35239661466280407842190613778552804102529535039647079250280358879659643243262660649, 202503199531916147760447960460734727994838062546370032034127445376195945267692378784),
     (False, 112580641981126402205432998904552152698706001226744176776099351778875327164450349952, 216274637295237690164851074788243396995321326685687624040716001700022864965666652288),
     (False, 128413631163113275239323868320673732131042936172518744031583948191836126527867026922, 197623609350314732308299225192855207596032609753593014335278117653410357842644877846),
     (False, 107220442636590514292000661336082054153052896764787722646732028856752721437015717465, 83734769678841594569172622487364154418426712200561775092975316372005704919536411531),
     (False, 19249152012752964673621504229911146904947970949069901531035809097017385373116544318, 318123368464974920537661510837549935731679508959793121606894479582800751288774563899),
     (False, 277837643442652620653944277961968938351110937990303751898983025037101428745190612094, 193555479560884749291784383385332201074429844773423305995364144732924034187957993755)]
    (203799446810157029816708721402040782226835455433664969147604181257141062347473196250, 1234128417990904531616226886918012878737051899225184897511456768)
    = Some (193555479560884749291784383385332201074429844773423305995364144732924034187957993755, 20219960000362979846000261315264723005227858316905429360827707686912)"
  by (simp only: power_simps plain_check_def)

lemma rsa_p_run_17: "power_run (plain_check 364250417292324200797399107529409794995451282322276160234714826826044553475976593409) 33
    [(False, 102851560051825757683644630727339504694409065664692218434154219824743464289978778970, 200282258219827787338150135587201727838405800194118687110340272410232195362649191295),
     (False, 110124741258543702121162272269222444797599471196540870971335641600494414403231594733, 50602982487476766833260381798086885742327532551982682277945348879263506025696862228),
     (False, 7029948944637326649125885799100731921313340499478108547344208075882138057031877131, 66963634669150135328077805001322635247572082469622006173216737835546986830780694405),
     (False, 12310564807135773122453543176185181126679385179946050350800901957883533443677467003, 119221461657137646185872272944866918308645132329709270862327109603280883632053520798),
     (False, 39021937230225011191132351611214160491671280183695312063693888211636756971878197459, 210801697072232721153842050271300599088956228652275820956614483975856755133558609073),
     (False, 121996718133807314963656390480601299525432727585182894877111026953286080284683873276, 196235588631475340515898014335623855533473184511043489371293745716205739124505081445),
     (False, 105719594041363082555562609300988870362818527969596546119810373895411356067694647982, 60799239416826847041589131233358860793596791294265935281228914026378427132286937387),
     (False, 10148368644689890938640448439268523657481611208629532797481904638576140568273181267, 170804540299612484529637274910681422114287350357819546512169795792551445070243918566),
     (False, 80093775056813720831297038328360492146969490194316695511093382965788859025876519457, 344810545331039543641002457078504527566516773531747077638526529270448203082273037443),
     (False, 326408170113561925081363407631920803177871362604226176043276506317981797847277708108, 358033911925271926942349976220544722695225752415151616947122236037113674466381318077),
     (False, 351923500984317662901718646116119140327404927108434853077665679651783311364697507502, 267054627517976795782885333568480134475941137585090380299937847201692596684665723611),
     (False, 195794351064613611842752205442337421193074096104122265235249271006367256029549295047, 145627328363343709083381581270736667196036402365686699857853163537303910665746334098),
     (False, 58221810489308202797742795833243377092110401864238351603869886194372803799159570935, 250475147178454511288295815714467580435329218310473423997682912907855079086448506189),
     (False, 172238098779497304885073303672451884556314585014842966307688504331176556571731169888, 330677079907431995487754959368235274607444363059617309367751070530918027277091235529)]
    (193555479560884749291784383385332201074429844773423305995364144732924034187957993755, 20219960000362979846000261315264723005227858316905429360827707686912)
    = Some (330677079907431995487754959368235274607444363059617309367751070530918027277091235529, 331283824645947061796868281389297221717653230664178554647801162742366208)"
  by (simp only: power_simps plain_check_def)

lemma rsa_p_run_18: "power_run (plain_check 364250417292324200797399107529409794995451282322276160234714826826044553475976593409) 33
    [(False, 300198231724607626109618043958725534188786686903131080448873508122698542313059259742, 186038668290177643364948481441679879582060828042857392057625142366240381847295669363),
     (False, 95018109674275693752682547654582308369567099217827543316350624285878238356175877934, 6647326488270211906095543537752083621344440864459586275193744307938049809083888763),
     (False, 121309262375387080181131925653332004843129572520201670687174349174691358329232961, 6667560570333530944450434917540553426887977197583007773997247160575154221819516120),
     (False, 122048903305410772752370402516516351865524515251965048106016370549471110920740623, 249136527477503018574198018903723056036598276070898726008128554315173273572119500593),
     (False, 170402026674237082137341974793145132417855851055814160923507306860953368081327941107, 136345486984713532179024563353334157658318360573831815763188951865736696706090987886),
     (False, 51036569729388841697682673778265658661527191428656994505913124082231462052411506613, 140121733361244009876219759376019286053327931071289957860148741227399165738383035279),
     (False, 53902752688962559044555480156011234921026559591723085530200591870115428844608240397, 98743346517921413945197115449906825690267557998381438424635634505616235495160864468),
     (False, 26767981637570436014298389455085103017280441293093810086305955211197734948694853354, 4199254170169997514539943701295908001874240196104320290101204712997208609326979238),
     (False, 48411023703888856851050999701257255856485976737904741437679580825600282556550821, 293246298208833427790243898814770393746964988942375352518419222431799717129520921855),
     (False, 236083165126949575111767545599882711663187511151697607077448210545878584928998004576, 249761400582940600533621105189868150097031365411184192118063078608066382325943201441),
     (False, 171257888144268881015534650610059381375471564228356584032213974444186916096896493327, 343613907087914380002823372015536061195723125695772770482114231471786207544943794738),
     (False, 324146552863015594541712337328615157687468219638266286024202399515450519105334475219, 78707179188549483285951418296193430191106914300783867805570410792690894187127257073),
     (False, 17007036263315708474904865276340855110755807849421010312334542214878110058169953416, 200016573196947034060743958698392251413468374936132789783868011742540559956725892185),
     (False, 109832762446344422897334588429053258430877055290820075208903589457625378373030394891, 255045412499546685840051163794619298956792180623270024249900245322446683952026200806)]
    (330677079907431995487754959368235274607444363059617309367751070530918027277091235529, 331283824645947061796868281389297221717653230664178554647801162742366208)
    = Some (255045412499546685840051163794619298956792180623270024249900245322446683952026200806, 5427754182999196660479889922282245680622030531201901439349574250370927951872)"
  by (simp only: power_simps plain_check_def)

lemma rsa_p_run_19: "power_run (plain_check 364250417292324200797399107529409794995451282322276160234714826826044553475976593409) 33
    [(False, 178580886524724033260713463769618405379814862833676292554303324689841754184786691225, 119321164529387130191033215527484160803938570246535151881742736859453409509981913611),
     (False, 39087231280295088301525881575934267883792350330331060479041323760889175739539284385, 115929434271241735337632046808432708745894000770022239348386471681410254635499440856),
     (False, 36896687258052921236680818718067174035826494598002121294951641352012012594307537194, 118310094831278048364033910729270820457355689548437557809114664316303995395959258390),
     (False, 38427625266802865267643336281362591598139227273588073901732874926403425879410825728, 56165171173634139641574440531806333088703084051936502411312640416615958749572965348),
     (False, 8660323511536298858391849689250788443153660292414268549493027767507649059213256049, 327935818451807726515059772975149011965721235919015084246177744349916711736125980063),
     (False, 295241668693410753482023513436519840131324420150736851038639128113579292320721679602, 157870272885820139704363297716279860409134024390990951486277227609117286339550540751),
     (False, 68422771472192125435884798120822561422262376647624560343309571369745370586602774839, 192910958536237749527723943493367707768190051592307542393499349456754547162633207850),
     (False, 102167729003599028175177441343552932618922907332455622861190199464596952024513989117, 114434588959000253105062241368629803044621825290753796464777935584844095806341692647),
     (False, 35951297592353637018112971421107768380391558297973746587752809322779466336807739227, 48307929529033357207966490019172289121006356370564771380385944916143754774734911766),
     (False, 6406735434181285183338686318094454074722617417780296873834033690547976597868748984, 85891203606211607408738925838632835059804684357348001152301373849297853966955392300),
     (False, 20253371051056744095202420017252922027179563724991681361502538446540060867871471989, 96295178465843075889395749048850780417360857157015065017262900185697286868313769499),
     (False, 25457105758994477546666990974362493818349603965274819360095213893457566628597658216, 39694211409041505109819446511242828510723099976371797964671688499509805035922412657),
     (False, 4325679105869575718177211534428601463932531879648531331672446777712415306630991479, 21143009675491734908368902501056255923261779627997055145992266392612121301267237738),
     (False, 1227251464695459261151819344401519106077624780794655864133811942264066413022669907, 358215747597790658390231085207806840789113285762689668346790052840162142260852513681)]
    (255045412499546685840051163794619298956792180623270024249900245322446683952026200806, 5427754182999196660479889922282245680622030531201901439349574250370927951872)
    = Some (358215747597790658390231085207806840789113285762689668346790052840162142260852513681, 88928324534258838085302516486672313231311348223211953182303424518077283563470848)"
  by (simp only: power_simps plain_check_def)

lemma rsa_p_run_20: "power_run (plain_check 364250417292324200797399107529409794995451282322276160234714826826044553475976593409) 33
    [(False, 352281056480063784128797582016638836613655391757227166917687726495774948432847623162, 7974982314512470864621361314869362880479604302881765373245982114371841864967230503),
     (False, 174606094866173069127179673929735846713982745892366816399775200954037980336203844, 282182452012185004443043188449266799589924210386358917629913912070151323851802768813),
     (False, 218604927938093704400645478868399807800840705385482026785072475059686599991506570648, 295940765136870198745775281952792362594055777658927401359746965545109980818095769937),
     (False, 240441554249502156312745709798796548548891544560326954788030934630625797904238453581, 56411795117643918460591725255571007423861092543263742608605548145726277906275936340),
     (False, 8736546280580182086740705219301681707088880652841452850972014706613544713908375496, 241310955403162623711443955277917261916782845300072687375170525236803790204441889736),
     (False, 159865231261642357144967897841953653870080111657659293363792914428706001823904342120, 235831975511698147693310262385460888640994948025897428191947220881283332665909062616),
     (False, 152688145389592662397131441197318330658303891434202998010459388888420495588459155495, 159964928507261500073368377258135614979821139431685295852175879330042315272685631001),
     (False, 70250512113476477148277218757101256040967631252433312608875362402844580214513858865, 308892696105082765714630822364916216318075729996354973414411507742106637831817041216),
     (False, 261948080708698956072620581871031364892046305020463123533802054474675657382620016138, 84666892760011499438834418077469188137989200078735882114081179387778362878798324214),
     (False, 19680094762615795956687800803685087124191919059850635092151159314532623429965421308, 360334985010823892659135925509104173165047492856424814407427463371915928487357758824),
     (False, 356461640834712661773350719216968281922421881730695265769225316617947161452609714752, 364250417292324200797399107529409794995451282322276160234714826826044553475976593408)]
    (358215747597790658390231085207806840789113285762689668346790052840162142260852513681, 88928324534258838085302516486672313231311348223211953182303424518077283563470848)
    = Some (364250417292324200797399107529409794995451282322276160234714826826044553475976593408, 182125208646162100398699553764704897497725641161138080117357413413022276737988296704)"
  by (simp only: power_simps plain_check_def)

lemma rsa_p_prime: "prime_nat rsa_p"
proof (rule proth [where k = 3 and m = 276 and a = 33])
  note r1 = power_run_reaches [OF plain_check rsa_p_run_1 power_start]
  note r2 = power_run_reaches [OF plain_check rsa_p_run_2 r1]
  note r3 = power_run_reaches [OF plain_check rsa_p_run_3 r2]
  note r4 = power_run_reaches [OF plain_check rsa_p_run_4 r3]
  note r5 = power_run_reaches [OF plain_check rsa_p_run_5 r4]
  note r6 = power_run_reaches [OF plain_check rsa_p_run_6 r5]
  note r7 = power_run_reaches [OF plain_check rsa_p_run_7 r6]
  note r8 = power_run_reaches [OF plain_check rsa_p_run_8 r7]
  note r9 = power_run_reaches [OF plain_check rsa_p_run_9 r8]
  note r10 = power_run_reaches [OF plain_check rsa_p_run_10 r9]
  note r11 = power_run_reaches [OF plain_check rsa_p_run_11 r10]
  note r12 = power_run_reaches [OF plain_check rsa_p_run_12 r11]
  note r13 = power_run_reaches [OF plain_check rsa_p_run_13 r12]
  note r14 = power_run_reaches [OF plain_check rsa_p_run_14 r13]
  note r15 = power_run_reaches [OF plain_check rsa_p_run_15 r14]
  note r16 = power_run_reaches [OF plain_check rsa_p_run_16 r15]
  note r17 = power_run_reaches [OF plain_check rsa_p_run_17 r16]
  note r18 = power_run_reaches [OF plain_check rsa_p_run_18 r17]
  note r19 = power_run_reaches [OF plain_check rsa_p_run_19 r18]
  note r20 = power_run_reaches [OF plain_check rsa_p_run_20 r19]
  have p: "rsa_p = 364250417292324200797399107529409794995451282322276160234714826826044553475976593409" by (simp add: rsa_p_def)
  have e: "(3 :: nat) * 2 ^ (276 - 1) = 182125208646162100398699553764704897497725641161138080117357413413022276737988296704" by simp
  show "33 ^ (3 * 2 ^ (276 - 1)) mod rsa_p = rsa_p - 1"
    unfolding e p by (rule trans [OF r20 [symmetric]]) simp
qed (simp_all add: rsa_p_def)

end
