(* ===== verification/P256_Prime.thy ===== *)
theory P256_Prime
  imports Prime_Certificates
begin

text \<open>
  The field prime and the order of P-256 are prime: Pocklington certificates down to numbers that
  trial division settles. Each power is computed by squarings and multiplications whose quotients and
  residues are given.
\<close>

lemma prime_313: "prime_nat 313"
  by (rule prime_nat_by_trial [where m = 18]) (simp_all add: upt_rec_numeral)

lemma prime_5: "prime_nat 5"
  by (rule prime_nat_by_trial [where m = 3]) (simp_all add: upt_rec_numeral)

lemma run_704251_1_1: "power_run (plain_check 704251) 148689
    [(False, 31392, 571329),
     (False, 463495, 8996),
     (False, 114, 643402),
     (True, 135841, 639887),
     (False, 581405, 320114),
     (True, 67585, 626711),
     (False, 557708, 260813),
     (True, 55065, 442842),
     (False, 278464, 486500),
     (False, 336076, 390924),
     (False, 216998, 515278),
     (True, 108791, 1)]
    (148689, 1) = Some (1, 313)"
  by (simp only: power_simps plain_check_def)

lemma power_704251_1: "(148689 :: nat) ^ 313 mod 704251 = 1"
proof -
  note r1 = power_run_reaches [OF plain_check run_704251_1_1 power_start]
  show ?thesis by (rule trans [OF r1 [symmetric] mod_less]) (simp)
qed

lemma run_704251_2_1: "power_run (plain_check 704251) 574807
    [(False, 469155, 209344),
     (False, 62229, 74857),
     (True, 61098, 1)]
    (574807, 1) = Some (1, 5)"
  by (simp only: power_simps plain_check_def)

lemma power_704251_2: "(574807 :: nat) ^ 5 mod 704251 = 1"
proof -
  note r1 = power_run_reaches [OF plain_check run_704251_2_1 power_start]
  show ?thesis by (rule trans [OF r1 [symmetric] mod_less]) (simp)
qed

lemma prime_704251: "prime_nat 704251"
proof (rule pocklington [where certs =
    "[(313 :: nat, 148689 :: nat, 512127 :: nat),
       (5 :: nat, 574807 :: nat, 306580 :: nat)]"])
  have b: "(148689 :: nat) - 1 = 148688" by simp
  have "148688 * 512127 = 108125 * 704251 + (1::nat)"
    by (simp only: hex_simps)
  then have c1: "(148689 - 1) * 512127 mod 704251 = (1::nat)"
    unfolding b by (rule mod_one_by) simp
  have b: "(574807 :: nat) - 1 = 574806" by simp
  have "574806 * 306580 = 250229 * 704251 + (1::nat)"
    by (simp only: hex_simps)
  then have c2: "(574807 - 1) * 306580 mod 704251 = (1::nat)"
    unfolding b by (rule mod_one_by) simp
  show "\<forall>(r, b, c) \<in> set [(313 :: nat, 148689 :: nat, 512127 :: nat),
       (5 :: nat, 574807 :: nat, 306580 :: nat)].
      prime_nat r \<and> b ^ r mod 704251 = 1 \<and> (b - 1) * c mod 704251 = 1"
    using prime_313 power_704251_1 c1 prime_5 power_704251_2 c2 by (simp only: list.set ball_simps prod.case simp_thms)
qed (simp_all)

lemma prime_1087: "prime_nat 1087"
  by (rule prime_nat_by_trial [where m = 33]) (simp_all add: upt_rec_numeral)

lemma run_4349_1_1: "power_run (plain_check 4349) 16
    [(False, 0, 256),
     (False, 15, 301),
     (False, 20, 3621),
     (False, 3014, 3755),
     (False, 3242, 567),
     (True, 2, 374),
     (False, 32, 708),
     (True, 2, 2630),
     (False, 1590, 1990),
     (True, 7, 1397),
     (False, 448, 3257),
     (True, 11, 4273),
     (False, 4198, 1427),
     (True, 5, 1087),
     (False, 271, 2990),
     (True, 11, 1)]
    (16, 1) = Some (1, 1087)"
  by (simp only: power_simps plain_check_def)

lemma power_4349_1: "(16 :: nat) ^ 1087 mod 4349 = 1"
proof -
  note r1 = power_run_reaches [OF plain_check run_4349_1_1 power_start]
  show ?thesis by (rule trans [OF r1 [symmetric] mod_less]) (simp)
qed

lemma prime_4349: "prime_nat 4349"
proof (rule pocklington [where certs =
    "[(1087 :: nat, 16 :: nat, 290 :: nat)]"])
  have b: "(16 :: nat) - 1 = 15" by simp
  have "15 * 290 = 1 * 4349 + (1::nat)"
    by (simp only: hex_simps)
  then have c1: "(16 - 1) * 290 mod 4349 = (1::nat)"
    unfolding b by (rule mod_one_by) simp
  show "\<forall>(r, b, c) \<in> set [(1087 :: nat, 16 :: nat, 290 :: nat)].
      prime_nat r \<and> b ^ r mod 4349 = 1 \<and> (b - 1) * c mod 4349 = 1"
    using prime_1087 power_4349_1 c1 by (simp only: list.set ball_simps prod.case simp_thms)
qed (simp_all)

lemma run_78283_1_1: "power_run (plain_check 78283) 27295
    [(False, 9516, 75997),
     (False, 73777, 59118),
     (False, 44644, 71672),
     (False, 65619, 23407),
     (False, 6998, 63215),
     (True, 22041, 17822),
     (False, 4057, 29553),
     (True, 10304, 21103),
     (False, 5688, 62905),
     (True, 21933, 10936),
     (False, 1527, 57955),
     (True, 20207, 17144),
     (False, 3754, 42354),
     (True, 14767, 47369),
     (False, 28662, 74815),
     (True, 26085, 63370)]
    (27295, 1) = Some (63370, 1087)"
  by (simp only: power_simps plain_check_def)

lemma run_78283_1_2: "power_run (plain_check 78283) 27295
    [(False, 51297, 73849),
     (False, 69666, 11323),
     (True, 3948, 1)]
    (63370, 1087) = Some (1, 4349)"
  by (simp only: power_simps plain_check_def)

lemma power_78283_1: "(27295 :: nat) ^ 4349 mod 78283 = 1"
proof -
  note r1 = power_run_reaches [OF plain_check run_78283_1_1 power_start]
  note r2 = power_run_reaches [OF plain_check run_78283_1_2 r1]
  show ?thesis by (rule trans [OF r2 [symmetric] mod_less]) (simp)
qed

lemma prime_78283: "prime_nat 78283"
proof (rule pocklington [where certs =
    "[(4349 :: nat, 27295 :: nat, 45308 :: nat)]"])
  have b: "(27295 :: nat) - 1 = 27294" by simp
  have "27294 * 45308 = 15797 * 78283 + (1::nat)"
    by (simp only: hex_simps)
  then have c1: "(27295 - 1) * 45308 mod 78283 = (1::nat)"
    unfolding b by (rule mod_one_by) simp
  show "\<forall>(r, b, c) \<in> set [(4349 :: nat, 27295 :: nat, 45308 :: nat)].
      prime_nat r \<and> b ^ r mod 78283 = 1 \<and> (b - 1) * c mod 78283 = 1"
    using prime_4349 power_78283_1 c1 by (simp only: list.set ball_simps prod.case simp_thms)
qed (simp_all)

lemma run_46076956964474543_1_1: "power_run (plain_check 46076956964474543) 14924512230972257
    [(False, 4834109715712659, 39615520795334212),
     (False, 34060180864278014, 479722200063342),
     (True, 155383955755462, 28670286212499028),
     (False, 17839400986058274, 42163605713426002),
     (False, 38582618381850063, 16064613323257795),
     (True, 5203393058566210, 14209385879001285),
     (False, 4381944042312335, 45049687069263320),
     (False, 44045319802765640, 17306006722319880),
     (True, 5605485388188473, 1015511865026321),
     (False, 22381346684945, 41057491128939906),
     (True, 13298686998782070, 8555301586343832),
     (False, 1588498678194600, 7960512424376424),
     (True, 2578442086225722, 2613100648073922),
     (False, 148193271578871, 23677825880281131),
     (True, 7669343316780752, 25291484605186331),
     (False, 13882409683164539, 42088725683410884)]
    (14924512230972257, 1) = Some (42088725683410884, 1374)"
  by (simp only: power_simps plain_check_def)

lemma run_46076956964474543_1_2: "power_run (plain_check 46076956964474543) 14924512230972257
    [(True, 13632708030879949, 5249274636206881),
     (False, 598018749970180, 37112982812620421),
     (False, 29892891891967115, 17407464015563796),
     (True, 5638347814739506, 11168935376211814),
     (False, 2707321091845855, 42701836965601331),
     (True, 13831297248415590, 10809619143948697),
     (False, 2535928449600353, 45679646375684130),
     (True, 14795821728548906, 43186381257681452),
     (False, 40477141916550365, 10157284970109),
     (True, 3289985575365, 27323129502832818),
     (False, 16202315756315414, 18522094576315322),
     (True, 5999381149683423, 39507750673421065),
     (False, 33875118195774770, 10862454959054115),
     (False, 2560779519976811, 36460505338610852),
     (True, 11809704757479364, 8552902305302312),
     (False, 1587607834007920, 29368821212164784)]
    (42088725683410884, 1374) = Some (29368821212164784, 704250)"
  by (simp only: power_simps plain_check_def)

lemma run_46076956964474543_1_3: "power_run (plain_check 46076956964474543) 14924512230972257
    [(True, 9512679661726209, 1)]
    (29368821212164784, 704250) = Some (1, 704251)"
  by (simp only: power_simps plain_check_def)

lemma power_46076956964474543_1: "(14924512230972257 :: nat) ^ 704251 mod 46076956964474543 = 1"
proof -
  note r1 = power_run_reaches [OF plain_check run_46076956964474543_1_1 power_start]
  note r2 = power_run_reaches [OF plain_check run_46076956964474543_1_2 r1]
  note r3 = power_run_reaches [OF plain_check run_46076956964474543_1_3 r2]
  show ?thesis by (rule trans [OF r3 [symmetric] mod_less]) (simp)
qed

lemma run_46076956964474543_2_1: "power_run (plain_check 46076956964474543) 26474877516403237
    [(False, 15211923392618226, 44179472089257451),
     (False, 42360127114955551, 16457217042979208),
     (False, 5877992181830576, 33800210629280496),
     (True, 19420910046832489, 33254889689538025),
     (False, 24000883763135330, 19269590271996435),
     (True, 11071912640318580, 32636498666551155),
     (False, 23116566617735236, 5209958795736877),
     (False, 589094255382444, 1535137450590037),
     (False, 51145890428941, 33410142498712406),
     (False, 24225506529107185, 30824339447417381),
     (True, 17711035301736710, 9716123354888767),
     (False, 2048812666170640, 21257339368762769),
     (True, 12214032635586588, 17630455598453969),
     (False, 6745952534337498, 26048004820539547),
     (True, 14966651068171943, 19917840586966590),
     (False, 8609951693504544, 9928042633404708)]
    (26474877516403237, 1) = Some (9928042633404708, 2446)"
  by (simp only: power_simps plain_check_def)

lemma run_46076956964474543_2_2: "power_run (plain_check 46076956964474543) 26474877516403237
    [(False, 2139161025904904, 14589728669706392),
     (False, 4619666676767921, 21772858162122561),
     (True, 12510239195453971, 42413525933369704),
     (False, 39041362551081371, 32334008894009163),
     (False, 22690042920237501, 37009586299523526),
     (True, 21264951697398068, 10575018460670738),
     (False, 2427048633653236, 8853001637893496),
     (True, 5086753758423257, 1)]
    (9928042633404708, 2446) = Some (1, 78283)"
  by (simp only: power_simps plain_check_def)

lemma power_46076956964474543_2: "(26474877516403237 :: nat) ^ 78283 mod 46076956964474543 = 1"
proof -
  note r1 = power_run_reaches [OF plain_check run_46076956964474543_2_1 power_start]
  note r2 = power_run_reaches [OF plain_check run_46076956964474543_2_2 r1]
  show ?thesis by (rule trans [OF r2 [symmetric] mod_less]) (simp)
qed

lemma prime_46076956964474543: "prime_nat 46076956964474543"
proof (rule pocklington [where certs =
    "[(704251 :: nat, 14924512230972257 :: nat, 14499061334772664 :: nat),
       (78283 :: nat, 26474877516403237 :: nat, 41560644167870315 :: nat)]"])
  have b: "(14924512230972257 :: nat) - 1 = 14924512230972256" by simp
  have "14924512230972256 * 14499061334772664 = 4696304454204081 * 46076956964474543 + (1::nat)"
    by (simp only: hex_simps)
  then have c1: "(14924512230972257 - 1) * 14499061334772664 mod 46076956964474543 = (1::nat)"
    unfolding b by (rule mod_one_by) simp
  have b: "(26474877516403237 :: nat) - 1 = 26474877516403236" by simp
  have "26474877516403236 * 41560644167870315 = 23879896510863973 * 46076956964474543 + (1::nat)"
    by (simp only: hex_simps)
  then have c2: "(26474877516403237 - 1) * 41560644167870315 mod 46076956964474543 = (1::nat)"
    unfolding b by (rule mod_one_by) simp
  show "\<forall>(r, b, c) \<in> set [(704251 :: nat, 14924512230972257 :: nat, 14499061334772664 :: nat),
       (78283 :: nat, 26474877516403237 :: nat, 41560644167870315 :: nat)].
      prime_nat r \<and> b ^ r mod 46076956964474543 = 1 \<and> (b - 1) * c mod 46076956964474543 = 1"
    using prime_704251 power_46076956964474543_1 c1 prime_78283 power_46076956964474543_2 c2 by (simp only: list.set ball_simps prod.case simp_thms)
qed (simp_all)

lemma prime_919: "prime_nat 919"
  by (rule prime_nat_by_trial [where m = 31]) (simp_all add: upt_rec_numeral)

lemma run_3677_1_1: "power_run (plain_check 3677) 16
    [(False, 0, 256),
     (True, 1, 419),
     (False, 47, 2742),
     (True, 11, 3425),
     (False, 3190, 995),
     (False, 269, 912),
     (False, 226, 742),
     (True, 3, 841),
     (False, 192, 1297),
     (False, 457, 1820),
     (True, 7, 3381),
     (False, 3108, 3045),
     (True, 13, 919),
     (False, 229, 2528),
     (True, 11, 1)]
    (16, 1) = Some (1, 919)"
  by (simp only: power_simps plain_check_def)

lemma power_3677_1: "(16 :: nat) ^ 919 mod 3677 = 1"
proof -
  note r1 = power_run_reaches [OF plain_check run_3677_1_1 power_start]
  show ?thesis by (rule trans [OF r1 [symmetric] mod_less]) (simp)
qed

lemma prime_3677: "prime_nat 3677"
proof (rule pocklington [where certs =
    "[(919 :: nat, 16 :: nat, 1716 :: nat)]"])
  have b: "(16 :: nat) - 1 = 15" by simp
  have "15 * 1716 = 7 * 3677 + (1::nat)"
    by (simp only: hex_simps)
  then have c1: "(16 - 1) * 1716 mod 3677 = (1::nat)"
    unfolding b by (rule mod_one_by) simp
  show "\<forall>(r, b, c) \<in> set [(919 :: nat, 16 :: nat, 1716 :: nat)].
      prime_nat r \<and> b ^ r mod 3677 = 1 \<and> (b - 1) * c mod 3677 = 1"
    using prime_919 power_3677_1 c1 by (simp only: list.set ball_simps prod.case simp_thms)
qed (simp_all)

lemma prime_197: "prime_nat 197"
  by (rule prime_nat_by_trial [where m = 15]) (simp_all add: upt_rec_numeral)

lemma run_66417393611_1_1: "power_run (plain_check 66417393611) 66219752670
    [(False, 66022699857, 12689715273),
     (True, 12651953970, 57037443240),
     (False, 48982198103, 17293177667),
     (True, 17241717654, 31662112296),
     (False, 15093777405, 59811232161),
     (False, 53862148122, 64182281379),
     (False, 62022386291, 30292754840),
     (True, 30202611456, 44495615184),
     (False, 29809356600, 9750671256),
     (False, 1431486313, 43304471293),
     (True, 43175608415, 34116265745),
     (False, 17524318933, 45699867962),
     (True, 45563877005, 11020143485),
     (False, 1828490337, 3548908318),
     (True, 3538347687, 6415281303),
     (False, 619654460, 23989722749)]
    (66219752670, 1) = Some (23989722749, 1838)"
  by (simp only: power_simps plain_check_def)

lemma run_66417393611_1_2: "power_run (plain_check 66417393611) 66219752670
    [(False, 8665001233, 41926794638),
     (True, 41802031369, 1)]
    (23989722749, 1838) = Some (1, 3677)"
  by (simp only: power_simps plain_check_def)

lemma power_66417393611_1: "(66219752670 :: nat) ^ 3677 mod 66417393611 = 1"
proof -
  note r1 = power_run_reaches [OF plain_check run_66417393611_1_1 power_start]
  note r2 = power_run_reaches [OF plain_check run_66417393611_1_2 r1]
  show ?thesis by (rule trans [OF r2 [symmetric] mod_less]) (simp)
qed

lemma run_66417393611_2_1: "power_run (plain_check 66417393611) 34676449721
    [(False, 18104537077, 64988562794),
     (True, 33930458689, 17104244495),
     (False, 4404797656, 49375629209),
     (False, 36706540670, 7084306311),
     (False, 755636335, 19605973036),
     (False, 5787552895, 16661503451),
     (True, 8698953019, 28349725562),
     (False, 12100850330, 45306974214),
     (False, 30906390642, 63019929534),
     (True, 32902637383, 1)]
    (34676449721, 1) = Some (1, 197)"
  by (simp only: power_simps plain_check_def)

lemma power_66417393611_2: "(34676449721 :: nat) ^ 197 mod 66417393611 = 1"
proof -
  note r1 = power_run_reaches [OF plain_check run_66417393611_2_1 power_start]
  show ?thesis by (rule trans [OF r1 [symmetric] mod_less]) (simp)
qed

lemma prime_66417393611: "prime_nat 66417393611"
proof (rule pocklington [where certs =
    "[(3677 :: nat, 66219752670 :: nat, 49445954925 :: nat),
       (197 :: nat, 34676449721 :: nat, 51215684949 :: nat)]"])
  have b: "(66219752670 :: nat) - 1 = 66219752669" by simp
  have "66219752669 * 49445954925 = 49298816584 * 66417393611 + (1::nat)"
    by (simp only: hex_simps)
  then have c1: "(66219752670 - 1) * 49445954925 mod 66417393611 = (1::nat)"
    unfolding b by (rule mod_one_by) simp
  have b: "(34676449721 :: nat) - 1 = 34676449720" by simp
  have "34676449720 * 51215684949 = 26739653989 * 66417393611 + (1::nat)"
    by (simp only: hex_simps)
  then have c2: "(34676449721 - 1) * 51215684949 mod 66417393611 = (1::nat)"
    unfolding b by (rule mod_one_by) simp
  show "\<forall>(r, b, c) \<in> set [(3677 :: nat, 66219752670 :: nat, 49445954925 :: nat),
       (197 :: nat, 34676449721 :: nat, 51215684949 :: nat)].
      prime_nat r \<and> b ^ r mod 66417393611 = 1 \<and> (b - 1) * c mod 66417393611 = 1"
    using prime_3677 power_66417393611_1 c1 prime_197 power_66417393611_2 c2 by (simp only: list.set ball_simps prod.case simp_thms)
qed (simp_all)

lemma run_11290956913871_1_1: "power_run (plain_check 11290956913871) 11005834445932
    [(False, 10727911971965, 5643159722109),
     (True, 5500657041493, 4696631261185),
     (False, 1953629384276, 7556793911829),
     (True, 7365967594247, 3931621629491),
     (False, 1369029104919, 5656375487632),
     (True, 5513539078731, 9950783735323),
     (False, 8769681586998, 6484838465071),
     (False, 3724496536374, 3795550391287),
     (True, 3699704069048, 2958272429676),
     (False, 775078306908, 6832905144108),
     (True, 6660358672383, 6274357044063),
     (False, 3486644809353, 6296887312506),
     (True, 6137876516116, 4316488980556),
     (False, 1650176974492, 10199938090604),
     (False, 9214341870735, 7980902619631),
     (True, 7779366587862, 6295143257290)]
    (11005834445932, 1) = Some (6295143257290, 989)"
  by (simp only: power_simps plain_check_def)

lemma run_11290956913871_1_2: "power_run (plain_check 11290956913871) 11005834445932
    [(False, 3509784771308, 4541950130832),
     (True, 4427255509247, 10290007110287),
     (False, 9377792080640, 10097814664929),
     (False, 9030754592818, 4488041396563),
     (True, 4374708093729, 4949345916757),
     (False, 2169526036683, 10121155867156),
     (True, 9865573549266, 4462919340706),
     (False, 1764035519184, 3073852377172),
     (False, 836826188313, 4972578927961),
     (False, 2189942037988, 4411301485973),
     (True, 4299906041273, 5599892714053),
     (False, 2777337531983, 7000984850616),
     (False, 4340977408065, 5410809809841),
     (False, 2592947880467, 5569658187524),
     (False, 2747428102195, 11013148203731),
     (True, 10735041040664, 2645783521948)]
    (6295143257290, 989) = Some (2645783521948, 2026897)"
  by (simp only: power_simps plain_check_def)

lemma run_11290956913871_1_3: "power_run (plain_check 11290956913871) 11005834445932
    [(False, 619980263711, 281703879423),
     (True, 274590212623, 9358352863603),
     (False, 7756540830663, 9361035315136),
     (True, 9124647778466, 1360122724866),
     (False, 163842076522, 7855389481294),
     (True, 7657022943133, 992156498165),
     (False, 87182558959, 3948505946936),
     (True, 3848797147332, 351331622180),
     (False, 10932103424, 5264635758096),
     (True, 5131691672701, 692164329901),
     (False, 42431431032, 11099462024929),
     (True, 10819175240603, 9352713534615),
     (False, 7747195488197, 2472477117638),
     (True, 2410041419487, 6744474544439),
     (False, 4028705204312, 11000544012969),
     (True, 10722755134526, 3149536881962)]
    (2645783521948, 2026897) = Some (3149536881962, 518885887)"
  by (simp only: power_simps plain_check_def)

lemma run_11290956913871_1_4: "power_run (plain_check 11290956913871) 11005834445932
    [(False, 878542239289, 11072075691725),
     (True, 10792480474905, 6997750405445),
     (False, 4336967283680, 6635301722745),
     (False, 3899335484822, 9276168569063),
     (False, 7620904408550, 4698454700919),
     (True, 4579807981243, 8225201689855),
     (False, 5991869719711, 8341271909744),
     (False, 6162171869313, 3315273204913),
     (True, 3231554979319, 10753786030067),
     (False, 10242171222741, 6080334484078),
     (True, 5926792141545, 1)]
    (3149536881962, 518885887) = Some (1, 66417393611)"
  by (simp only: power_simps plain_check_def)

lemma power_11290956913871_1: "(11005834445932 :: nat) ^ 66417393611 mod 11290956913871 = 1"
proof -
  note r1 = power_run_reaches [OF plain_check run_11290956913871_1_1 power_start]
  note r2 = power_run_reaches [OF plain_check run_11290956913871_1_2 r1]
  note r3 = power_run_reaches [OF plain_check run_11290956913871_1_3 r2]
  note r4 = power_run_reaches [OF plain_check run_11290956913871_1_4 r3]
  show ?thesis by (rule trans [OF r4 [symmetric] mod_less]) (simp)
qed

lemma prime_11290956913871: "prime_nat 11290956913871"
proof (rule pocklington [where certs =
    "[(66417393611 :: nat, 11005834445932 :: nat, 4247528171144 :: nat)]"])
  have b: "(11005834445932 :: nat) - 1 = 11005834445931" by simp
  have "11005834445931 * 4247528171144 = 4140268376953 * 11290956913871 + (1::nat)"
    by (simp only: hex_simps)
  then have c1: "(11005834445932 - 1) * 4247528171144 mod 11290956913871 = (1::nat)"
    unfolding b by (rule mod_one_by) simp
  show "\<forall>(r, b, c) \<in> set [(66417393611 :: nat, 11005834445932 :: nat, 4247528171144 :: nat)].
      prime_nat r \<and> b ^ r mod 11290956913871 = 1 \<and> (b - 1) * c mod 11290956913871 = 1"
    using prime_66417393611 power_11290956913871_1 c1 by (simp only: list.set ball_simps prod.case simp_thms)
qed (simp_all)

lemma run_774023187263532362759620327192479577272145303_1_1: "power_run (plain_check 774023187263532362759620327192479577272145303) 239904036708680826588713273592995675716678834
    [(False, 74356876869018956304737472191396132438729484, 180836970888392937109762415412400018745385904),
     (False, 42249393271671320342316886269777324778759365, 243183204269241263732066299054259209529884621),
     (True, 75373236001106252478287741119718815850563312, 513322048639056445280604907601721794067888378),
     (False, 340428465134964895048841608283573266688366379, 396905583784263125828608720171882138079503047),
     (False, 203526257392972596421053394208778435486868763, 130090798985951700960814789255876603454414020),
     (False, 21864481916407103095032379975814558610524583, 400853877064979514990127694584026358943076751),
     (False, 207595629435992003814647200009818296244011098, 468346277402043939758521319158783766076143307),
     (True, 145161235961758441872528120920500669928161180, 532837199756195093123012285017253092913726498),
     (False, 366804878866449766713279668156836306992695816, 450345874981661500179215806459281691515191756),
     (True, 139582114723417326152508710393998550119575079, 12950063513236845703204038826796591870788567),
     (False, 216665531157750517896349358898550558798485, 467706795098939392427271868303897044401647534),
     (True, 144963032098562917279675380292192556014388933, 338439033845167259999918773546032742814963657),
     (False, 147981328614968741156537666870529456283256121, 143714622903002175568491969184907942354663986),
     (False, 26683816681476324057338374179847386965790144, 210929417556808435433802975623887869592114564),
     (True, 65376360250123166194129163204252542078378369, 241887359025303191941068912219020977341787569),
     (False, 75591397543385410167978107866400251083931948, 199665641243772463214157490996149833903089517)]
    (239904036708680826588713273592995675716678834, 1) = Some (199665641243772463214157490996149833903089517, 2618)"
  by (simp only: power_simps plain_check_def)

lemma run_774023187263532362759620327192479577272145303_1_2: "power_run (plain_check 774023187263532362759620327192479577272145303) 239904036708680826588713273592995675716678834
    [(True, 61885217542067674349897565166844475159108296, 110766790945911079730407655412476546616449490),
     (False, 15851310630411173206651586066549402687881843, 287732758439669583440823442691750024129826671),
     (False, 106960801228702229080801246159679146827470083, 624822365063853111543706003224896947041472092),
     (False, 504381515060563782493746137996242274677653574, 519826977403666199119172818775108725189593542),
     (True, 161117382943144427773270752532468649273687573, 259611095042883804821869910630250123133070409),
     (False, 87074808324079596445599921920514046466527548, 107984025925653568225698392108251932843120237),
     (False, 15064858581739288625981785214850779523989232, 663780661055272976944396163616690392727558873),
     (True, 205734999540910139775416709419055104241198532, 1295145514798491210489618866064724193698886),
     (False, 2167121001158770579936570733795668644963, 679779800922692099200407571126910064382582207),
     (False, 597011285122086539768021594461113226860032051, 55247594773297384865582089673578053003884396),
     (True, 17123674358410165334851874501966379718975663, 124259953424114524931468442670833128739313375),
     (False, 19948415343410194274085968241550266514717045, 166979677567385571702690901826889877283100990),
     (True, 51754391025873491812307733582776591933734767, 407950128917574817300460114580406992330596259),
     (False, 215010752161360796082631602243391035952948470, 174228554134884876609207739979283497353258671),
     (True, 54001138641140938321487027181015060429230455, 10683600782770387431271522215829668199866749),
     (False, 147462411415784779781166086030141826391875, 403381867336468153408295490651052116137215876)]
    (199665641243772463214157490996149833903089517, 2618) = Some (403381867336468153408295490651052116137215876, 2682030)"
  by (simp only: power_simps plain_check_def)

lemma run_774023187263532362759620327192479577272145303_1_3: "power_run (plain_check 774023187263532362759620327192479577272145303) 239904036708680826588713273592995675716678834
    [(True, 125025890569549445312812154934233750819682031, 45075884828769655415942873684759006327818191),
     (False, 2625031687073640062082246801501208554721729, 53119572202821180488164109335601488331123594),
     (True, 16464105997584552163888700288647825994930450, 72222297984364957355408593252168939478633046),
     (False, 6738894146806082548414527740850583405823787, 633546644803170964400996833632403195245515655),
     (True, 196364140031599846757097386494796403361999303, 643943462759250887642917308314226278353422461),
     (False, 535724497732900593495277469265040647967333923, 520479420946794203775333670322990756362282852),
     (True, 161319604068165622778129773108884836964901211, 365135437974502483289255617137177668516892635),
     (False, 172247925202580329712256845076505946256707489, 516208399514307605030917603997742827740969058),
     (False, 344267608663249716968686136104964498975387394, 83865554728773377082658862459776747030896982),
     (False, 9086848282711980244728155857698614820626409, 260786711815411935000921945260721073769601397),
     (False, 87865208922144846329194724339625976512473974, 301916852588118562619876853584877161330507487),
     (True, 93577392613186279258065854644620555723202938, 114103229666656399800599645312980045718929944),
     (False, 16820616274288641428155690566981975213593402, 677635551494967384142218289859802404273752330),
     (True, 210029243175122516324407903563124235500377904, 264122995258262077506412993277521877370598308),
     (False, 90127734894903551450719717928419077808388725, 748508404265978378922727127154997487385554189),
     (False, 723834686706933825546252177364629100071552366, 290708388684213874407891556880678996330010823)]
    (403381867336468153408295490651052116137215876, 2682030) = Some (290708388684213874407891556880678996330010823, 2746400652)"
  by (simp only: power_simps plain_check_def)

lemma run_774023187263532362759620327192479577272145303_1_4: "power_run (plain_check 774023187263532362759620327192479577272145303) 239904036708680826588713273592995675716678834
    [(False, 109184542067986277357929146980032298750235027, 600107229582482798753667272105741747553009148),
     (False, 465268602960532994580283949675390311385887979, 451628346748218089554723845236140512802673267),
     (False, 263516864795270649972253137534824254351330096, 647711553680570290322151489102828592127514201),
     (True, 200754472098152954062338242904804159112493675, 162648415029006040597663013185383854622663109),
     (False, 34177925605787838716253647514320123076127996, 100811214664004952297235929966305681771343093),
     (True, 31245856379191199293539511832930084590320364, 4529131834650322936260844183729603177343270),
     (False, 26501835491730441994910311088990225183535, 738798488680055663848858242146132949051106795),
     (False, 705176816221265764658707104240688499690612284, 212197608569440898030936846364947860210469973),
     (False, 58173741851042239646450001698711533096441325, 611662598012171365201966882200068091920774254),
     (True, 189581305549284835315651478436540138224514453, 107490929922674541028182685979138013894375577),
     (False, 14927588999614072558127950741905451881707810, 428514384118415798799327133172829012624166499),
     (False, 237233949083060710740815391442271919533153588, 123112171513004749905655622436907816722119837),
     (True, 38157909736992746380796764625010268234719861, 14570351318222915415050510440971613097467175),
     (False, 274274906785395738688881389296428539558162, 307353622189253784146515789467733022718867539),
     (True, 95262488092791474867901955311445415396557672, 179424857306776720527791497966625525847554910),
     (False, 41592138257992926315286455922942538770747198, 12760254733867435581323976898175335728997106)]
    (290708388684213874407891556880678996330010823, 2746400652) = Some (12760254733867435581323976898175335728997106, 5624628535702)"
  by (simp only: power_simps plain_check_def)

lemma run_774023187263532362759620327192479577272145303_1_5: "power_run (plain_check 774023187263532362759620327192479577272145303) 239904036708680826588713273592995675716678834
    [(False, 210360753466355049724361386048940519736466, 608934423554622959591554371304870260536656038),
     (False, 479056878774813708404709476938199859036976079, 49609428510534586306200199002045736898650507),
     (True, 15376157141447303379347305615426658806473513, 242407917038261564931085190143643492973409399),
     (False, 75917103272543291283073317297195941725099485, 188618252588007745745347610616623087011072246),
     (True, 58461142944280090962733286447667500942231335, 409488997346431755417402532522990225193371659),
     (False, 216635937665644392017399376959692676635721344, 748975556399951343441387078282558254717965049),
     (True, 232140667531839708688479699428116217630422586, 58879420444759787673844649935737846485059308),
     (False, 4478917697759430441239599853650325971029290, 268766097057310162588418118724378802928513994),
     (False, 93324355285529034915745795087183870489155607, 579427088523412077373256988916526363172668115),
     (True, 179590094718695945094742859491662647106404918, 115849632421622726957554667016336624677377756),
     (False, 17339451263306396451828362663695449448113131, 442467904078768740334507190777508594509321843),
     (False, 252935376305725370389869640063269160234737299, 421102461554465227200839842547965567395160052),
     (True, 130518286864295823529913109778191514141565069, 468258671804389894967266956674505999713518461),
     (False, 283281156595839260678979641206572268414954562, 772206593973023659184065814045438259181086235),
     (False, 770394264135131650515562670869554878284373416, 729956662500632008214574148879767999044010177),
     (True, 226245870715336404259589178463437068849777386, 98183791710502837171872621037358553140975660)]
    (12760254733867435581323976898175335728997106, 5624628535702) = Some (98183791710502837171872621037358553140975660, 5759619620559317)"
  by (simp only: power_simps plain_check_def)

lemma run_774023187263532362759620327192479577272145303_1_6: "power_run (plain_check 774023187263532362759620327192479577272145303) 239904036708680826588713273592995675716678834
    [(False, 12454480838917357758651120372162369028547845, 439595611907087558110647116537180562784913565),
     (True, 136250132491220349533911549745355548272618455, 374293936137183831703995803249810610515616345),
     (False, 180997097934958446917283059752176422828759418, 54522974439528009768619437895106080305445371),
     (True, 16899082452104291993705535593226727741553592, 124612552733726421171192149611473185353399038),
     (False, 20061786977873594423513588038715798426393906, 750928370779272975393467306452587285313601926),
     (True, 232745931121162272499654054834623669917963661, 1)]
    (98183791710502837171872621037358553140975660, 5759619620559317) = Some (1, 46076956964474543)"
  by (simp only: power_simps plain_check_def)

lemma power_774023187263532362759620327192479577272145303_1: "(239904036708680826588713273592995675716678834 :: nat) ^ 46076956964474543 mod 774023187263532362759620327192479577272145303 = 1"
proof -
  note r1 = power_run_reaches [OF plain_check run_774023187263532362759620327192479577272145303_1_1 power_start]
  note r2 = power_run_reaches [OF plain_check run_774023187263532362759620327192479577272145303_1_2 r1]
  note r3 = power_run_reaches [OF plain_check run_774023187263532362759620327192479577272145303_1_3 r2]
  note r4 = power_run_reaches [OF plain_check run_774023187263532362759620327192479577272145303_1_4 r3]
  note r5 = power_run_reaches [OF plain_check run_774023187263532362759620327192479577272145303_1_5 r4]
  note r6 = power_run_reaches [OF plain_check run_774023187263532362759620327192479577272145303_1_6 r5]
  show ?thesis by (rule trans [OF r6 [symmetric] mod_less]) (simp)
qed

lemma run_774023187263532362759620327192479577272145303_2_1: "power_run (plain_check 774023187263532362759620327192479577272145303) 62363334908586357327233683356375951471604756
    [(False, 5024636993977224749702746945870186685228189, 264776938510174001584286560532342913762273269),
     (False, 90574582674551234671831016384636570148113531, 364529298071974993389857153901350231859551468),
     (True, 29370260573233273776537028054101492941594269, 665370983998895665819140056216526517695513301),
     (False, 571970651050956042041951423889171674922536389, 476401191431700898208464567856505365754985734),
     (False, 293218729014989444816511975705684755512506135, 606179418096137421699902284222792481144584851),
     (False, 474731885258450999450341422536808710122756209, 341790587554137627582024653107675192445255874),
     (True, 27538194244023322094811370921599362386827399, 528312976520639984124090051542583945105779847),
     (False, 360602376973841093373855063570485727097161990, 621524558620383464099112304590991515822710439),
     (False, 499071324121380663216507990391932843132921688, 49143086296621385432990165548276218383541257),
     (False, 3120117033309138814797440728093193738946152, 731155133390228112994776863231895040384415993),
     (False, 690661259093354100503118746280021416807462174, 527997776458875802798621383275948611669907327),
     (True, 42540976428246020118077619821117612837361668, 67769754243878182916777050219703457634001808),
     (False, 5933594323592208940114359167070349133654241, 38269943219267688248130347766428626633088841),
     (False, 1892176588641811763851643911288704456605770, 679802026397751789565540298427746694970524971),
     (False, 597050324459010732776259016651958911873867072, 349146370330477858830505889533058071243388025),
     (True, 28130852387014498942205291411670897722191812, 761428246052998240121862298810443976642587864)]
    (62363334908586357327233683356375951471604756, 1) = Some (761428246052998240121862298810443976642587864, 5257)"
  by (simp only: power_simps plain_check_def)

lemma run_774023187263532362759620327192479577272145303_2_2: "power_run (plain_check 774023187263532362759620327192479577272145303) 62363334908586357327233683356375951471604756
    [(False, 749038250310128513159647252211800859326227666, 1106260970677738863140894077559804949529698),
     (True, 89131856184541577603603977916760115685129, 669311967710190380520993434330551466055744601),
     (False, 578766266297347096041757315094232684634405541, 103721426375634039963678630476907695360325278),
     (True, 8356873743186250802355774111695247895710767, 260119771191988685606405083292774034726244767),
     (False, 87416367465921282592998584725002710996684896, 304407682760786068561252515095008382577440801),
     (False, 119717391996219313078356156875717337003848435, 169235292532558360303647319578848403150370796),
     (False, 37002230307642344995186446005336226603746829, 90816091350806716753052261000524277576179429),
     (False, 10655446224287355396025969133004492889189515, 377655670609161962322002556839253419418667996),
     (False, 184262962518584839924090717697407924242029370, 444970108954419689855915816696414920641106906),
     (True, 35851406502615057247851672424513268378444627, 573311402359761316438302851268871281290407955),
     (False, 424646146890956292666854952810264191440642711, 402073388539549325925576612320140526227445592),
     (False, 208860680702881639324748144288004466408464126, 168040264618169209494326606002014787985330286),
     (True, 13539066365129935888051707136709010906182140, 742457379715025630833390071130517384044951796),
     (False, 712178872369645913644919704150370793351968438, 326455152379711767496518929459351429757678902),
     (True, 26302612551525498265274462540471255749439916, 351919440187590784100694982524689749683943364),
     (False, 160004628310677325566679222059549242502943878, 716420721760279417209552563905966051089331462)]
    (761428246052998240121862298810443976642587864, 5257) = Some (716420721760279417209552563905966051089331462, 10767894)"
  by (simp only: power_simps plain_check_def)

lemma run_774023187263532362759620327192479577272145303_2_3: "power_run (plain_check 774023187263532362759620327192479577272145303) 62363334908586357327233683356375951471604756
    [(True, 57722282926100219686687612559869418260631007, 612065905933149645166583268739320862968423151),
     (False, 483996706261744577995909718530844693603257155, 105300999053197197487388186490771708158375836),
     (True, 8484140498916896343272880782512992784125940, 242907944898827776146267654079053933961616196),
     (False, 76230622888152205795746098385150425295093935, 450601831276594159150774843608725746055473111),
     (False, 262320320231815402192134691312011343745050894, 354638621072244516135195359152383009745967439),
     (False, 162486800945412119273913389661951828532815089, 180569542205867656582674979600750961209341754),
     (True, 14548554901418772324748442744765654278508660, 610722194503468157033420586428400331151958044),
     (False, 481873934781933883607670607939713957382894408, 201629836528486400335460262365714073454140312),
     (True, 16245390616067332909854923175989471835082871, 106543158399337635406350414046148470072118959),
     (False, 14665509752799580269074537386332533027993268, 171188920778324263546681706593738232845423477),
     (True, 13792754758267024243827542247295827023699640, 591273207884399977465921749584286144878465692),
     (False, 451671231708048152817933630432548876753091759, 267305966476423517653408553060859512081180887),
     (False, 92313099774835768779853329828845221711634363, 47880403821580546080759104167965261070259780),
     (True, 3857741871584198250133680615475852011108299, 51011506068760403171748286950611192006344083),
     (False, 3361880876725227912176645680562310087796037, 436274911824772231599359668452334561297546678),
     (True, 35150831249037080163417189607154730402014806, 500637738116644938300702216870480629287444350)]
    (716420721760279417209552563905966051089331462, 10767894) = Some (500637738116644938300702216870480629287444350, 5513162555)"
  by (simp only: power_simps plain_check_def)

lemma run_774023187263532362759620327192479577272145303_2_4: "power_run (plain_check 774023187263532362759620327192479577272145303) 62363334908586357327233683356375951471604756
    [(False, 323812191870700855528214255901759606477270058, 31960577414057428151020045047093665799684926),
     (True, 2575075560967721437019668812152290126898620, 188800005134152285336246667994008107012926196),
     (False, 46052162939299251241813092446135683119075531, 112184332833634156770993457734025848079149523),
     (False, 16259622115225690365289097707056222582715531, 690643964731016710341435726632986707244326636),
     (False, 616246507686309086606659750787355379827407660, 194153119894383769830322448752581043723855516),
     (True, 15642988787360373914622805225651258068415697, 537943440958823003179046251978629574412412905),
     (False, 373868832914035369048780519155261546764164838, 331447961092009012788158566769693508831083111),
     (True, 26704884998892748889528040526066753087704126, 726176499393436512955146318478816229834255738),
     (False, 681287482014107156733193431533437092528025021, 54918073784683856170453206812552118054298281),
     (False, 3896517414268523412068614339833171936870137, 657052143114181923792248185243663950014038450),
     (False, 557757862910057960565608026549527109688329569, 210700601756783244926925888307395078959038093),
     (True, 16976225530470016373099369352486423460521553, 417511711491312386003852891409306309264754749),
     (False, 225207761344564652705129097201135762859528578, 718157658735208250330294856036523901821083867),
     (True, 57862228581559910038128532684230347388466919, 400097150633922043129518586299939878375339995),
     (False, 206812576909122360590452671922511957266677653, 224788877609196556888011557782265509167586166),
     (True, 18111323134425214635277169753324209155713733, 444462040040332295363709493242041073876859397)]
    (500637738116644938300702216870480629287444350, 5513162555) = Some (444462040040332295363709493242041073876859397, 5645478456935)"
  by (simp only: power_simps plain_check_def)

lemma run_774023187263532362759620327192479577272145303_2_5: "power_run (plain_check 774023187263532362759620327192479577272145303) 62363334908586357327233683356375951471604756
    [(False, 255220396865908248742914753633567197322461367, 499619089778483648955887349003724567679194408),
     (True, 40254495130480229958439550813261702551608249, 1)]
    (444462040040332295363709493242041073876859397, 5645478456935) = Some (1, 11290956913871)"
  by (simp only: power_simps plain_check_def)

lemma power_774023187263532362759620327192479577272145303_2: "(62363334908586357327233683356375951471604756 :: nat) ^ 11290956913871 mod 774023187263532362759620327192479577272145303 = 1"
proof -
  note r1 = power_run_reaches [OF plain_check run_774023187263532362759620327192479577272145303_2_1 power_start]
  note r2 = power_run_reaches [OF plain_check run_774023187263532362759620327192479577272145303_2_2 r1]
  note r3 = power_run_reaches [OF plain_check run_774023187263532362759620327192479577272145303_2_3 r2]
  note r4 = power_run_reaches [OF plain_check run_774023187263532362759620327192479577272145303_2_4 r3]
  note r5 = power_run_reaches [OF plain_check run_774023187263532362759620327192479577272145303_2_5 r4]
  show ?thesis by (rule trans [OF r5 [symmetric] mod_less]) (simp)
qed

lemma prime_774023187263532362759620327192479577272145303: "prime_nat 774023187263532362759620327192479577272145303"
proof (rule pocklington [where certs =
    "[(46076956964474543 :: nat, 239904036708680826588713273592995675716678834 :: nat, 632032488684931311808149900400938671518447982 :: nat),
       (11290956913871 :: nat, 62363334908586357327233683356375951471604756 :: nat, 320823578353898442153005187681585320549721256 :: nat)]"])
  have b: "(239904036708680826588713273592995675716678834 :: nat) - 1 = 239904036708680826588713273592995675716678833" by simp
  have "239904036708680826588713273592995675716678833 * 632032488684931311808149900400938671518447982 = 195894836048269483691189999882415607806979835 * 774023187263532362759620327192479577272145303 + (1::nat)"
    by (simp only: hex_simps)
  then have c1: "(239904036708680826588713273592995675716678834 - 1) * 632032488684931311808149900400938671518447982 mod 774023187263532362759620327192479577272145303 = (1::nat)"
    unfolding b by (rule mod_one_by) simp
  have b: "(62363334908586357327233683356375951471604756 :: nat) - 1 = 62363334908586357327233683356375951471604755" by simp
  have "62363334908586357327233683356375951471604755 * 320823578353898442153005187681585320549721256 = 25848874546239207388856993115695594837749793 * 774023187263532362759620327192479577272145303 + (1::nat)"
    by (simp only: hex_simps)
  then have c2: "(62363334908586357327233683356375951471604756 - 1) * 320823578353898442153005187681585320549721256 mod 774023187263532362759620327192479577272145303 = (1::nat)"
    unfolding b by (rule mod_one_by) simp
  show "\<forall>(r, b, c) \<in> set [(46076956964474543 :: nat, 239904036708680826588713273592995675716678834 :: nat, 632032488684931311808149900400938671518447982 :: nat),
       (11290956913871 :: nat, 62363334908586357327233683356375951471604756 :: nat, 320823578353898442153005187681585320549721256 :: nat)].
      prime_nat r \<and> b ^ r mod 774023187263532362759620327192479577272145303 = 1 \<and> (b - 1) * c mod 774023187263532362759620327192479577272145303 = 1"
    using prime_46076956964474543 power_774023187263532362759620327192479577272145303_1 c1 prime_11290956913871 power_774023187263532362759620327192479577272145303_2 c2 by (simp only: list.set ball_simps prod.case simp_thms)
qed (simp_all)

lemma run_835945042244614951780389953367877943453916927241_1_1: "power_run (plain_check 835945042244614951780389953367877943453916927241) 759074791811550622595041579907670563367995104130
    [(False, 689273230231255300807902159637831919060980321952, 647332857910852564228259594691936466030803962468),
     (False, 501276767915099666124679438404411616115335513061, 609148362356661693887757724387713610316610456323),
     (False, 443882921256948393968160602109980930362556787879, 436757161973802191269863693825462981655576968490),
     (False, 228193013769427511907738116315774183577158868152, 596444357120076490495737815832728594089156751468),
     (True, 541597656937372359647364887434502833423023606618, 316043291769354130845930427120401550911078281902),
     (False, 119485560921816137504584673779819700390984854678, 275589276963661954737246149169473066293496254206),
     (False, 90854596581397733795547587471059079239476902889, 263875934029315002438032681578314154386736991187),
     (True, 239610930820938268821426528462617801628757888627, 185665639081793809088332295594383557676216914203),
     (False, 41236837104853328082743962635371621669352534453, 641018156373988747879660530665291676346116391036),
     (False, 491544606446590218543531916967213651334576801238, 567307618039865189591249462325854946709496428938),
     (True, 515140218907723779851143994755275389647032561972, 177423908061995549065010396671303620700307834688),
     (False, 37657072607866446549388512560053428712173705534, 524690383641730182272913870911035657565099005650),
     (True, 476441899408770166796739774148608731049027209344, 665678341561495004856004881427591008301484994596),
     (False, 530091850576935433839066240625364265483014989975, 214838863787470782343808955705843151755729794241),
     (False, 55213841892712958272253213826159678544887684840, 383893162169974580530391210946492573508978039641),
     (True, 348591842078035220070706056017109013507512331851, 227463855420172958768259354356817233852448964239)]
    (759074791811550622595041579907670563367995104130, 1) = Some (227463855420172958768259354356817233852448964239, 2221)"
  by (simp only: power_simps plain_check_def)

lemma run_835945042244614951780389953367877943453916927241_1_2: "power_run (plain_check 835945042244614951780389953367877943453916927241) 759074791811550622595041579907670563367995104130
    [(False, 61893788356805878464087155812289728684174252496, 67416258205039176704293947084047439751506205585),
     (False, 5436902715715328592151909170826501447545889138, 339907948133192792819225193221318990902086983967),
     (True, 308651337020303703628259449253080270777186440643, 306245340566852185055598742519732271213409227747),
     (False, 112191835443009278818673527170654222114343432276, 52570207609332042227369953051976162659611665493),
     (False, 3305990930537246660859939134952055755704839767, 507990240330464985125284966481296682260424540202),
     (True, 461277436236426553872463868640283629799647447523, 3431830406959465402298739682291141893404560217),
     (False, 14088796926778398834334666628864335114247235, 250498950120037442038507953334232201939198658454),
     (False, 75064413137435808366258676665287377236875492184, 157918907641518890592038701400444629932553485772),
     (True, 143397299922039993400474333466455359706103234304, 352906505932503467145107947320762888258070163096),
     (False, 148984676785778729844679450642469118953044272536, 164042735181433108288676384334726976220753752040),
     (True, 148958004131097307980159620155848649901444838260, 355844824024740234031765643006791719808566884540),
     (False, 151475913350946187213446936293675669254368492768, 768154269686866053021272481893275217546600318512),
     (False, 705860974369530856050779382733414305760180560066, 278980004266679184413256334003311688918697736238),
     (False, 93104018622628185781903405222091136373870200515, 56359567567527867684532460713841031080482663529),
     (True, 51176961230654187903208265500900596273603417508, 564452529305987826342840239523796765146326739342),
     (False, 381133497705099247152975304159865182351552380993, 679043157652678338982411182791235100861718262651)]
    (227463855420172958768259354356817233852448964239, 2221) = Some (679043157652678338982411182791235100861718262651, 4549298)"
  by (simp only: power_simps plain_check_def)

lemma run_835945042244614951780389953367877943453916927241_1_3: "power_run (plain_check 835945042244614951780389953367877943453916927241) 759074791811550622595041579907670563367995104130
    [(True, 616600993460327187193481224933411564389131947966, 835173363493474799772361215689400333946014906824),
     (False, 834402397095497676599449854366326147406804465546, 792271537932866468478953450596193423663828428390),
     (False, 750879732635381862667867606282177385646444585600, 677811290657704475305923364208934766603761662500),
     (True, 615482404156611115415131904144940871469510979101, 747258594715876583420527798254489847950127534659),
     (False, 667981002527853444936881986114133658518888127952, 174058040725675054229895908684701527382563905849),
     (True, 158052341182862384420772690754928380244544925092, 311686835228906278551658655994347560141111825198),
     (False, 116214198715929032789328020134349281568780481847, 273761680958807296675109787308227934065287445077),
     (False, 89653570718182678938858201378762948267480640907, 614892554540437282630655415201340934723524288342),
     (True, 558349429970869242787957979916038856529073161971, 827865149579084092876773537338883878442219900449),
     (False, 819863353752684191715723674094635547071587542048, 610758637226382637681087381870282590959426272033),
     (False, 446232819259274764556167649189820148752750636814, 495492096457910395944039279993881095823263902915),
     (True, 449928572999417152210846361949436964622335860831, 573820185242335762782248789720630557385506741679),
     (False, 393889057715348441126965447249454247825466691797, 289562231141614406790506055955137907671415196964),
     (True, 262935216088034613877568610355839086822996622867, 737167322465446685760450072925769474722884041373),
     (False, 650061467978490747869529947886368868885371548318, 570157925079570220366435090834617134648053794491),
     (True, 517728422812795783396258915658539222102390084309, 748986048453348613894226106838220100068956586361)]
    (679043157652678338982411182791235100861718262651, 4549298) = Some (748986048453348613894226106838220100068956586361, 2329241303)"
  by (simp only: power_simps plain_check_def)

lemma run_835945042244614951780389953367877943453916927241_1_4: "power_run (plain_check 835945042244614951780389953367877943453916927241) 759074791811550622595041579907670563367995104130
    [(False, 671072944306794993428075860613461477610981460782, 465259158276193927397285559589569340179062259859),
     (False, 258947745869315152799205560193194637118479882517, 236985835279983406465034953525485765820725754284),
     (False, 67184184707344877954692315759676512075684085259, 384359126575010384730399264377805214229600712237),
     (True, 349014958211117860677073161180211120854311161334, 193100513721356317636394386299178116557489739316),
     (False, 44605573949370381195885470509127337529470568837, 104159419365833819840041759014623575586225159139),
     (False, 12978346774443743532117860252459826384046704129, 175314511450581548099153136823194489276727943232),
     (False, 36766983918737488900476559301016989362017568342, 265659706986245529533183947292171377353655601402),
     (False, 84425502095825686693497444762180405773465927364, 742788501189777689611001576597303579332925442880),
     (False, 660013194190710059314440133017385620094091591193, 624657554290882774982960760640289184301245305887),
     (False, 466773580096773113871830304734218895236354931476, 411756571059470584692158761919229938109164119053),
     (False, 202816531282257300642113498029459967477670106208, 478593873395191755738961195270044280800079204681),
     (True, 434584244718127049134736730921707889664275020923, 239415178374848078396105116502030063513034769087),
     (False, 68568655521121452624021556601374263566720681080, 2783336594275442524620851784272271391085513289),
     (False, 9267310894303858488790191589654956831559377, 341196879384141658483863354415769897898315308664),
     (True, 309821743173256415166195751489438282155543618936, 396820573082061128693035623672217826007629346744),
     (False, 188369521037361946479824758607414875772097347059, 190943101927107648375831080395739199790955067317)]
    (748986048453348613894226106838220100068956586361, 2329241303) = Some (190943101927107648375831080395739199790955067317, 19081144755210)"
  by (simp only: power_simps plain_check_def)

lemma run_835945042244614951780389953367877943453916927241_1_5: "power_run (plain_check 835945042244614951780389953367877943453916927241) 759074791811550622595041579907670563367995104130
    [(True, 173384717916370433191693832671534033807267070662, 585450273931736673116220269398984303732315015668),
     (False, 410017412539961113317490338314702922168974057295, 32034636986014111317438489994373723032005213129),
     (False, 1227614155196353791737414771777364423902071958, 76648404891202770045442245206631129164081562763),
     (True, 69600116090468961809881711188825937636422403775, 181273836013918285318462870059733522904316776415),
     (False, 39309047799323340096644401385006834890669874677, 672262121094082744150628365099352261106702876068),
     (False, 540629271805250048985333326095753843299342846570, 57759172915127296361487890612555477554450727254),
     (True, 52447864321358190628378931933038304466852129821, 513300866846812495742450126985035411525215605159),
     (False, 315185528462755137291357672935646441991371869544, 660224537606018701526560894060862550956595567177),
     (False, 521441503961367850635430136244013866450245996495, 269285288879827549683361456394909120113863729034),
     (True, 244522862466542886711197308614136965089414044262, 505691823725781412561075090842561709899126769278),
     (False, 305910326229647691435222785694186256774312322097, 45364811515137873090623982944223298180139096907),
     (True, 41193240124925620331186880961832130566141931663, 419269199244106576770637843182106563422460794127),
     (False, 210284950028276495208633733898422061225364990762, 299452994987774276737283280228423195032086544487),
     (True, 271916463811236096195816519168441164047909374280, 497369096813225019131333128712092287448845669830),
     (False, 295923782023478787748894583165005680568252164801, 701308864140019032534475910905747977625113984859),
     (False, 588357006820363141117657733071801514090241356430, 631055663394195986503095464571308967532623740251)]
    (190943101927107648375831080395739199790955067317, 19081144755210) = Some (631055663394195986503095464571308967532623740251, 19539092229336412)"
  by (simp only: power_simps plain_check_def)

lemma run_835945042244614951780389953367877943453916927241_1_6: "power_run (plain_check 835945042244614951780389953367877943453916927241) 759074791811550622595041579907670563367995104130
    [(False, 476384487229673670356044742562573731627422244252, 199434584434129326957875703946493112444703074269),
     (False, 47579866448654782379223731598763553898856352901, 346695347110725233600332262054970864425893608220),
     (False, 143786562075278045172010718581130543983630575805, 728439919888066655979673740257810194949731564395),
     (False, 634760289338806928550229458313966116156796106322, 340593042732093551794369219356501281138657598423),
     (False, 138769434466674695205334917423385925280589178616, 195028714185513651960965066825761738983107008473),
     (False, 45500837297536826416983720702884056570936773093, 462997367278627840240681332910379370464686265316),
     (False, 256436190507620087673813011955486246223068483087, 203096061982307161182349797210549279169926506889),
     (False, 49342969104721508968683289160129803085495344854, 76104359370346897542014823570380730960042690507),
     (True, 69106098876884203153040816225393233924233835611, 417918677199221242204855024534899164660185714659),
     (False, 208932420106199865606894761032805267756616213746, 183625108313638248198621749800178322510581431495),
     (True, 166739658495111181189743437157695383291997202559, 90615099562224732666720365108361206297844564631),
     (False, 9822531211650111011824486175814428274653314329, 773054108212952157384444143082827760453740429872),
     (True, 701967063139898311494601625937681324880717485869, 801916553462973055928244680064753970662283913931),
     (False, 769273249101652767219962443662232932944296105035, 35700651635166786255554125903264771632427114326),
     (True, 32417758749708637060444964710459556789615414023, 443083719347173428748762152761909438581602665837),
     (False, 234851781432153636513739320476855161772513602545, 535345709169065105339753001039093665603529482224)]
    (631055663394195986503095464571308967532623740251, 19539092229336412) = Some (535345709169065105339753001039093665603529482224, 80032121771361943582)"
  by (simp only: power_simps plain_check_def)

lemma run_835945042244614951780389953367877943453916927241_1_7: "power_run (plain_check 835945042244614951780389953367877943453916927241) 759074791811550622595041579907670563367995104130
    [(False, 342839557438113923986869047074969212506399307156, 516407691258597853069633576868076172346669349580),
     (False, 319012483015600083335577509819370325174607150658, 592940444063132732412167710579252338234534901822),
     (True, 538415950078888397230186330899388248372170362512, 446341605677506210825105173848353398490118735468),
     (False, 238318093763487235945537696001306643860595948141, 21816562882403064602017452252431082533654970043),
     (False, 569370463306809810552154688469349180376134789, 383352420446525479862706219016304116563905534700),
     (False, 175799928028290591710702520613038058329215493955, 58316461385305536966271546090344506111293761845),
     (False, 4068221589510526649747823776076456939448001921, 284142038100475319092827425728631831934192574064),
     (True, 258013442889603311835634222901389741119063405767, 824790778821942388142346033681906477549418485473),
     (False, 813785350054916916519645018640146226660110530579, 70751243106348381243495717479684278599263431190),
     (True, 64245234336403252163323279580508125109886476205, 737017226894047307568954424071425807750277014295),
     (False, 649796775252172143427147449036200649166111425737, 624082941709431190584511549521833959259030545408),
     (False, 465915219841363040445276979494479447658682027996, 207288146806698675962273933175913866551292847428),
     (True, 188226736125858696668221152724700608853630864550, 543987977307325234056889089812215126776786471090),
     (False, 353998055494564170799414078973126307128965138812, 286647515653516396100504838087124114703336610408),
     (True, 260288526484640232155319200532166914668361335806, 515368766303806080173551581399884541783531693794),
     (False, 317730175859797172802491144650413359339968301131, 325832126205371414891481345082759626968073104865)]
    (535345709169065105339753001039093665603529482224, 80032121771361943582) = Some (325832126205371414891481345082759626968073104865, 163905785387749260456502)"
  by (simp only: power_simps plain_check_def)

lemma run_835945042244614951780389953367877943453916927241_1_8: "power_run (plain_check 835945042244614951780389953367877943453916927241) 759074791811550622595041579907670563367995104130
    [(True, 295869872857602282468263428938967814599617638871, 780944039646905092831676380212867722420164207539),
     (False, 729561827919263072981394761018131892297658400582, 372450585818671040388311259468254255223738382259),
     (True, 338201480484010873345053659085857005365755278707, 87577820914376687981510211250399105421454072283),
     (False, 9175094448214060386204253358876784942756926965, 78313096165577157556056461929715111803532878524),
     (False, 7336536161003164677356946298419202697712619136, 765824786768160045942324226696472091582084134800),
     (False, 701586317748481004687034281865826497294267143347, 604464229516883857019612968353436091807454824373),
     (False, 437082566796924808482688830084062076154752472269, 89261412908316244805153485804143610939731663300),
     (True, 81053281012650789165493822265147351378173507037, 208118064125825794661693257140368730153868934083),
     (False, 51813368614736054530083775177370711907605828036, 76766074522284710629886725700001148714029122213),
     (True, 69706965280549963696961808999805983571338043828, 236875041698712025712538513652300362335885921142),
     (False, 67121380646154568225440142019434515991000086567, 513058867335660987616799994938729843352202112517),
     (True, 465879972042379345004408217394118245726163749977, 428733464043627810994879705088254312137766971753),
     (False, 219885726814396686868737797473375912993577801800, 578344416868948984047691096155137418068581059209),
     (False, 400124706314853837531860282561012543803263392552, 770109746594542931579311447416611094843358396649),
     (False, 709459344608884904458958072050050650431464614915, 219051863844034281614356631823864499933876029686),
     (False, 57400566578758770284741594681769330235459102431, 165668742366468668679834627278703220683360035725)]
    (325832126205371414891481345082759626968073104865, 163905785387749260456502) = Some (165668742366468668679834627278703220683360035725, 335679048474110485414919280)"
  by (simp only: power_simps plain_check_def)

lemma run_835945042244614951780389953367877943453916927241_1_9: "power_run (plain_check 835945042244614951780389953367877943453916927241) 759074791811550622595041579907670563367995104130
    [(False, 32832460042577847060618767481815989096545587996, 256815195454800963515795749744902207253381276589),
     (True, 233199470267151421081041082252091289484543186915, 583809984261869384347508540071259765943067961055),
     (False, 407723092428017550998959340134008655453068266731, 163551941056459280667429163463842665493688793854),
     (True, 148512341522420905755352766327179212248326421628, 140246818418290753412295156587253799982069248672),
     (False, 23529262191254684382013851209291676807799842146, 708940596382443202209440608767265276509406464398),
     (False, 601231831998859972871332421003449589604617272968, 426802816292294444577223472218520191003349381116),
     (False, 217909832332889220067033187800449774188115426764, 151341764967842010177455992682308196515965327332),
     (False, 27399324915045367995535504170612188197547113609, 235573586345044503579001477553026763091892315455),
     (True, 213911156804060731301381653497796290257546461996, 766497940191954204661432737400615780594229696114),
     (False, 702820236532473227662048144443121928356485012309, 126203190864149307616911472608267153965444291527),
     (True, 114598036940238387000468935906324118615938969076, 98345090498220001976472064046520866225200707194),
     (False, 11569847700912525274730492962914789854897546201, 601853664079505181470525224650299559248970392195),
     (False, 433315367231917200479340497053945254263423487740, 258213557849115608790275059752777047684081392685),
     (True, 234469244701713932679263567540602899810023694158, 504000976525410158170077421949244201909072530972),
     (False, 303868043354262007261738599908531907886456652429, 489136642194024723730740899070521374923080346395),
     (True, 444157541557836848215061164738149424490228237580, 811558457879687660981202475031740823899973194570)]
    (165668742366468668679834627278703220683360035725, 335679048474110485414919280) = Some (811558457879687660981202475031740823899973194570, 343735345637489137064877343515)"
  by (simp only: power_simps plain_check_def)

lemma run_835945042244614951780389953367877943453916927241_1_10: "power_run (plain_check 835945042244614951780389953367877943453916927241) 759074791811550622595041579907670563367995104130
    [(False, 787883290494267610282336853152850663533202864940, 393486261282271016523084990560177911868347654360),
     (True, 357302797157021331674190739367928191057947410915, 375307805266122484295790108040153017141064271285),
     (False, 168499053855811167094930279568595372533039484501, 336546474274809936634720614240327325347511359484),
     (True, 305598971206421309619797249713626711165035609960, 493579638377115024391236952310797072285068148560),
     (False, 291431669678106775305693996190942543596189213170, 823500078665955044553265012550883094070301109630),
     (True, 747774218615724060217325561755752802691482365179, 297711088177804081715916790927087546355660830761),
     (False, 106025979633810301817657250653266871798171640407, 179251365744274142893560633739037413150849212034),
     (False, 38436799666772019389063665557729083120719717959, 701633607286105444995380538752689081929246396037),
     (False, 588902013882939689785736404949046802293337654062, 91369198728291083395481851139194217846567202427),
     (True, 82967243057553443650507754134653554274258340818, 311247715898150467290075661022113198845167300372),
     (False, 115886973133657392757221348642272338803976143559, 209361165748660005031486220461825675724097547665),
     (True, 190109128319447704796614376432598477834333740201, 498788136027042228777312941671869452730599641009),
     (False, 297614785743929509790778614743431951023837593664, 426990051736328341574113833298831966697263937057),
     (True, 387725709523991841053379444187953544967253845001, 89651430555780134794480892858389562488072173169),
     (False, 9614721775389109019033840206050921298458188217, 197651752525302828246827991316509880533650983264),
     (False, 46732994756959110816758183268517930545749685639, 624253171474282327323059124113756523637422501697)]
    (811558457879687660981202475031740823899973194570, 343735345637489137064877343515) = Some (624253171474282327323059124113756523637422501697, 351984993932788876354434399760284)"
  by (simp only: power_simps plain_check_def)

lemma run_835945042244614951780389953367877943453916927241_1_11: "power_run (plain_check 835945042244614951780389953367877943453916927241) 759074791811550622595041579907670563367995104130
    [(False, 466169427896035924643981710952742813649893181785, 721005885392010804471646689637031432938136374624),
     (False, 621870410731856004756508116219174556294190691694, 784085314136085290314027057525700294017210105122),
     (True, 711983882328213281171577856842978599772753769417, 133370069964579362137652717018371214793756365363),
     (False, 21278403080895093765465448157791575999681572905, 336819747101604700791829825354772135793024116664),
     (True, 305847114928345902206354360599251479099467964865, 374161351346742659646230753179666666933398834855),
     (False, 167471196988874115852853642919651149799402864484, 141751384479317804391058475319053573440751862381),
     (False, 24036813410424673076711576236314170681496136964, 464172567138561452482026386374356379009404352837),
     (False, 257739637411421324290324191745108626941096527120, 532415197670739791457110759671397444795966672649),
     (False, 339096385989241718298249192640608507719292865521, 434093120461639153355300911184612486254170119640),
     (True, 394175607712766192531345162029120000025463346432, 97912942912193647774198506100970797969837159088),
     (False, 11468390749688963926447296029106038630302719227, 667025092471518295303574720486256657716010229037),
     (False, 532238905074388776303084453662597021249667884597, 149082332837939991670766673947974664586364340492),
     (True, 135373302122683398018751579387286529022324613999, 476485132061903049755387944691225119204822385201),
     (False, 271594506340302108759175293782805529715439098998, 738803566664145402712534234949303269185061805883),
     (False, 652950472258367544558842448939311436425889950524, 241689502734565808750073633887757158001575585405),
     (True, 219464677341304686757492504967520178817600098587, 381118870174985666043432125222943368628977314183)]
    (624253171474282327323059124113756523637422501697, 351984993932788876354434399760284) = Some (381118870174985666043432125222943368628977314183, 720865267574351618773881650709062421)"
  by (simp only: power_simps plain_check_def)

lemma run_835945042244614951780389953367877943453916927241_1_12: "power_run (plain_check 835945042244614951780389953367877943453916927241) 759074791811550622595041579907670563367995104130
    [(False, 173757347508682195719794307475299732018903657960, 582731136332626314907122235724972418042222469129),
     (False, 406217586194077841722604132997620025306903070275, 397554952997396800119973186996160773292673157366),
     (False, 189067382023558518158137616993027331626920324434, 236253730732713758639926119694254553571307551362),
     (False, 66769730621588809067288450364809414647793222293, 476704553013257556431297564087281591459647871431),
     (False, 271844701959572607123003179724691361991690729856, 346312904782434624944383483840979074428967580465),
     (False, 143469512896223198058537962729041199772502359076, 71765941288199625458349242613004164794701626909),
     (True, 65166624825270947662738720085951100417134908245, 638543572790337134565929942265034103130989032125),
     (False, 487756818626523976603352311245899379748377699926, 526979466841310943920119650633722763947208931459),
     (False, 332207674474238195636279694657959807118325293978, 467877159046211237196323025426778671318798413983),
     (False, 261870128889521300369985576435959943598551319716, 45909684936122493339320685306034651544149140733),
     (False, 2521337007125016066434136329949659402498898337, 408395726415461315009164001266860965443554879072),
     (False, 199519180000839041178982644861834304238328826790, 481053347700316604830749658109522745107221994794),
     (True, 436817555344762958754248859433447400214868766670, 233182933372020718932618184348901474334552041750),
     (False, 65045281290237266036681871801255944565139247493, 557743765087541078440963197608359550780170405687),
     (True, 506455820625740339620941284472386454240385450712, 182972415758533001690012092561058990298013541718),
     (False, 40049169785873112687469591893552121416758771678, 237974186079129634398286145778573131494868911126)]
    (381118870174985666043432125222943368628977314183, 720865267574351618773881650709062421) = Some (237974186079129634398286145778573131494868911126, 5905328271969088460995638482608639352966)"
  by (simp only: power_simps plain_check_def)

lemma run_835945042244614951780389953367877943453916927241_1_13: "power_run (plain_check 835945042244614951780389953367877943453916927241) 759074791811550622595041579907670563367995104130
    [(True, 216091006735918226038080672137322011673925429659, 605854722994094937206122215282778140128119109561),
     (False, 439095785996469985780442101542743532051672244288, 40137418706345807568919153960898167848247763313),
     (False, 1927174992368819555695470563826473508084766805, 140599811892416248330392687370353273421631700964),
     (True, 127670800767484970968858209829587870189779947293, 534685861821373211666891132573486426558705472707),
     (False, 341994935533103541961051693256127732845706934879, 88548626639598598295497660259241061072153769010),
     (True, 80406039793203907605068707419950617956249985546, 703926592309887669296269496795243611915933352714),
     (False, 592757444951762118570923918638283810190498870912, 88841430143470534101253843891902768653775852004),
     (False, 9441768670275284744641288724071360827910915103, 739018444218422952870733066720789305717931795193),
     (True, 671061186251815630838989466107833741142716125291, 176438508138095114675217012505258985453581494959),
     (False, 37239944710249515099386852004066991367149026357, 414471060129623550077917369112182433746982120644),
     (False, 205499465878410914103577968904549738087380751859, 247652797471706519497042416711620986961792483717),
     (True, 224879610718924296872281147143231378540164448129, 302196766375133183759668950805246803342532869121),
     (False, 109245083100646998404862604587224175705522950129, 5527542932537274611991009905941311703150748552),
     (False, 36549927718935038298669076813730024237570312, 693072022110437333455954000863347947427204427512),
     (True, 629339818179033711621991677101797598006746425974, 539175858322916918519562921151812605098526266826),
     (False, 347762821127164710900031176417874870980757596319, 757802197547174614211978011994808738278575688397)]
    (237974186079129634398286145778573131494868911126, 5905328271969088460995638482608639352966) = Some (757802197547174614211978011994808738278575688397, 6047056150496346584059533806191246697438634)"
  by (simp only: power_simps plain_check_def)

lemma run_835945042244614951780389953367877943453916927241_1_14: "power_run (plain_check 835945042244614951780389953367877943453916927241) 759074791811550622595041579907670563367995104130
    [(True, 688117658779215847332282373395470002019869966799, 585376404572727195020205464330081697957679108051),
     (False, 409913950934375069568226846549711913309582311335, 123398511569150020213746997628201664009128441866),
     (False, 18215542754574836357914965423112370910766108445, 59551680309611154810999083649505313303160911711),
     (False, 4242387296389249430334234642487317133990935839, 792164469475591668977333215472024027259874657322),
     (True, 719320110007585570567601121598299870474868189946, 307171646748745417739346585143116005173607220874),
     (False, 112871559490301959686038128019004629947274215134, 765036918376563629349245891964054940338562258582),
     (False, 700143498557699816896859768683404376414200158412, 816016135123465239042949409827216795034554549432),
     (True, 740978469374612458641702996937429120294722429364, 199353010362806648490774473175262884484522449436),
     (False, 47540951536720840331481429009114141124026719064, 644799085676566343788562791794823309147541095672),
     (True, 585505872976987283277729582881091774552669320882, 605925974814297474496688051396989196144256378798),
     (False, 439199072188793479940178158621264770397258265664, 31038845376211832288414026560135646620327371780),
     (True, 28184634038567004694859909001647680984861329039, 1)]
    (757802197547174614211978011994808738278575688397, 6047056150496346584059533806191246697438634) = Some (1, 774023187263532362759620327192479577272145303)"
  by (simp only: power_simps plain_check_def)

lemma power_835945042244614951780389953367877943453916927241_1: "(759074791811550622595041579907670563367995104130 :: nat) ^ 774023187263532362759620327192479577272145303 mod 835945042244614951780389953367877943453916927241 = 1"
proof -
  note r1 = power_run_reaches [OF plain_check run_835945042244614951780389953367877943453916927241_1_1 power_start]
  note r2 = power_run_reaches [OF plain_check run_835945042244614951780389953367877943453916927241_1_2 r1]
  note r3 = power_run_reaches [OF plain_check run_835945042244614951780389953367877943453916927241_1_3 r2]
  note r4 = power_run_reaches [OF plain_check run_835945042244614951780389953367877943453916927241_1_4 r3]
  note r5 = power_run_reaches [OF plain_check run_835945042244614951780389953367877943453916927241_1_5 r4]
  note r6 = power_run_reaches [OF plain_check run_835945042244614951780389953367877943453916927241_1_6 r5]
  note r7 = power_run_reaches [OF plain_check run_835945042244614951780389953367877943453916927241_1_7 r6]
  note r8 = power_run_reaches [OF plain_check run_835945042244614951780389953367877943453916927241_1_8 r7]
  note r9 = power_run_reaches [OF plain_check run_835945042244614951780389953367877943453916927241_1_9 r8]
  note r10 = power_run_reaches [OF plain_check run_835945042244614951780389953367877943453916927241_1_10 r9]
  note r11 = power_run_reaches [OF plain_check run_835945042244614951780389953367877943453916927241_1_11 r10]
  note r12 = power_run_reaches [OF plain_check run_835945042244614951780389953367877943453916927241_1_12 r11]
  note r13 = power_run_reaches [OF plain_check run_835945042244614951780389953367877943453916927241_1_13 r12]
  note r14 = power_run_reaches [OF plain_check run_835945042244614951780389953367877943453916927241_1_14 r13]
  show ?thesis by (rule trans [OF r14 [symmetric] mod_less]) (simp)
qed

lemma prime_835945042244614951780389953367877943453916927241: "prime_nat 835945042244614951780389953367877943453916927241"
proof (rule pocklington [where certs =
    "[(774023187263532362759620327192479577272145303 :: nat, 759074791811550622595041579907670563367995104130 :: nat, 829816007257442285709994915664332448456883264405 :: nat)]"])
  have b: "(759074791811550622595041579907670563367995104130 :: nat) - 1 = 759074791811550622595041579907670563367995104129" by simp
  have "759074791811550622595041579907670563367995104129 * 829816007257442285709994915664332448456883264405 = 753509359011803945872605034392251507628474740084 * 835945042244614951780389953367877943453916927241 + (1::nat)"
    by (simp only: hex_simps)
  then have c1: "(759074791811550622595041579907670563367995104130 - 1) * 829816007257442285709994915664332448456883264405 mod 835945042244614951780389953367877943453916927241 = (1::nat)"
    unfolding b by (rule mod_one_by) simp
  show "\<forall>(r, b, c) \<in> set [(774023187263532362759620327192479577272145303 :: nat, 759074791811550622595041579907670563367995104130 :: nat, 829816007257442285709994915664332448456883264405 :: nat)].
      prime_nat r \<and> b ^ r mod 835945042244614951780389953367877943453916927241 = 1 \<and> (b - 1) * c mod 835945042244614951780389953367877943453916927241 = 1"
    using prime_774023187263532362759620327192479577272145303 power_835945042244614951780389953367877943453916927241_1 c1 by (simp only: list.set ball_simps prod.case simp_thms)
qed (simp_all)

lemma run_p256_1_1: "power_run field_check 49835480456766173544607506164699712169824023691580347094409044481755491731278
    [(False, 21448573294544170472655412528810831098693183198980888702170054916863537234831, 93113400196744933169596744545737750910068619147406646832811164272688935346003),
     (False, 74876490745826700175428160032438036345155585077531259588882631235768349046012, 112003738346499202821954465974961657099273101764124776941024808540969973082597),
     (False, 108339330338890430214693724279211726791503850837409467813881267972039429350232, 84130139020408375770667120702234023794294777483307623079878411925877020297777),
     (True, 36208569407188811051844550611062306190611803008716252305086001570462526354207, 16346905657406051443772244718933393580989117033493703202305667065823044347149),
     (False, 2307768401057869049033309135123235413591482885653443070215356069943334613975, 61337360029647253300638896715041560784000029629514201073812665489506110862976),
     (False, 32491612864603856485014642652131876530273391378890038849427686569677890237923, 99644022771642597367978176980665984720801634133652959190709128229945351992803),
     (False, 85747924075175954760895717507042556377688908473550011068836150817310585861143, 105270755088114387843990745859018791812199033886542520759285535394984783870816),
     (True, 45307228616732911237235742741243393044361984343699143335432606118045844158430, 92559402320388686490308619144853973188016603973281120713519121476587493125918),
     (False, 73988154254162423644368117613006722947767236311343173159432618032318594512805, 33142648805271654093525409952314163349313098883146954568247641231123114000169),
     (False, 9486271275700692818139365060269083635650301225777645916509126509341719957386, 69373413200539461397798810990584993008136956260076958254163223466984760296475),
     (False, 41563033294526183268656270273123492419021146255399092825194162417801973393748, 14725008382126762008721452554584300285548535853423826493454175617838776927277),
     (True, 6337461155226863420469739776728166905562560328043614364466895801068903078813, 99712949985582419183957345880312879965244343946945906913280940783172915829843),
     (False, 85866594709805142326815908693010423644084991661556727362196407046179452585081, 32077698738105582900875619855098485126926957283139269605460652244598989899618),
     (True, 13805844073309258225767446762927104118798401228125871846235082535840023067148, 33682893403183782337971845921566021128463925347947773878072398208070680750056),
     (False, 9798055426300836299463576348505536855781043019203967911226586798240291600375, 90163839108564592042454296612235149291024517714823036645986757318864937171511),
     (False, 70207886723819743186775238241776900995647592939950142631859040255410331584976, 106740602738331188596261631687916461420097739637945631406243582803447036182945)]
    (49835480456766173544607506164699712169824023691580347094409044481755491731278, 1) = Some (106740602738331188596261631687916461420097739637945631406243582803447036182945, 4684)"
  by (simp only: power_simps field_check_def)

lemma run_p256_1_2: "power_run field_check 49835480456766173544607506164699712169824023691580347094409044481755491731278
    [(True, 45939832833016899399396592741068699958709872273384339395326313534781249311287, 73584430746550582421469543324906080093916079548032300834541481128372324808773),
     (False, 46761989400305421812644003799163447131202353630055861080981055108494996715379, 20971854721007271915654671957779531142749880703661512524125828057926160153100),
     (True, 9026026416987919219114221490589466900627402219430168300883606268280654350732, 78212725842336451567463347567907317486783962539190005264838377906488072719668),
     (False, 52829433559795978199145516942699259993636962819839621689223097964303658692282, 64454621570206209341624298131441620123699973031594320878628269068828827124042),
     (False, 35878083469167850522915543142614979757925268891988454583103211249461916164294, 1116370257583757544051529311212647305050879059752379335350941144127921392170),
     (True, 480471926309750713389958210724011821571568383067769987191149612576366061256, 65732466738261353030761595034184240685705317071310742572481075174737085670804),
     (False, 37314787331000103410517824808644404553340765725667404550511857873628197628424, 61997097017394545743969605186078911924648342864177821369847905618024539703192),
     (False, 33194323246051795140912862749207237132654909670127159622360090837179829936053, 10594167377580439941814940833080784933801630698616637101132616406049591593461),
     (False, 969292316855022109437698916587575552133806280299256230933329327665451755290, 34629165642460833764918311599882756714387078742049676995139639257116086307731),
     (False, 10356312950830990762870066394031648792056950134064950008432323979844153924190, 79229218018699382661798617269254754283177450778295308711072634958152284393671),
     (True, 34099273733655190812242032932923039842952075959671344333111735605560305737305, 78719579221955249691855020906976812825612603910862622364100223627526033599483),
     (False, 53516368822261994785995586006923516504319310068886159945409393928089585524341, 94405583468800599396674739500207361691015466012151821239811224009885084345998),
     (False, 76969111196307577726703401771388484631491407276129240640665741886116628269879, 86238883739782847545826868768636129878684168035392381767328445654608424174075),
     (False, 64228438396796943978316654526134642367283071197985994350051059948200000853150, 25172645846970865608672510045347535936077499139265135472506030396111803809975),
     (True, 10833994867065695962941524512302768800761034463097472903744743965422868077890, 59819354489464390897308805586596641166292903142703745348832039346685963654660),
     (False, 30903278418575779006245842980098606992596106363539661963643946430303822144500, 35995447062781632245280591162231610376561336165413101578947259825763121796100)]
    (106740602738331188596261631687916461420097739637945631406243582803447036182945, 4684) = Some (35995447062781632245280591162231610376561336165413101578947259825763121796100, 9596178)"
  by (simp only: power_simps field_check_def)

lemma run_p256_1_3: "power_run field_check 49835480456766173544607506164699712169824023691580347094409044481755491731278
    [(False, 11189643593835701372204138363905077822868379384718104410695506233904189847656, 85266826129279451092986020299828316631009937934296316494240973585090747521144),
     (False, 62788673110066985663714308585467197086574128812545423356352776692071213442739, 45234362175057882114678355163763017004339055703579203404223468998331403656947),
     (True, 19468308996947966419791266427716002684632758514590985027336517368843333017741, 8547466787125708624371946270313145314037749009470428773732095444507711943575),
     (False, 630951466332838164300100965135227976152658871082718915198778441165589158140, 12525448468190481371063681401714328956338422547257577458782041076957220969485),
     (True, 5390797822248033987687477051133567507431076935373663113483657759296555173794, 12142320210972766631619099326004767608187692107373118028579311728985023491736),
     (False, 1273281630128937259522237808219015426428798070178808266729455937091541790231, 42404285887488068564299044889779890527939780620932513550101339796648943741015),
     (True, 18250279229265628158363988974659223017966530622499935512714821482719570151237, 53888963088259672647858293054688037337443277845255679715780820621645198979783),
     (False, 25079609173059836316930608699323533055952942792943268770450417182407406355758, 15217296879123290294740662157250219059567331272749971392965699689264610827231),
     (False, 1999844081634072009469716579545880516062023739657975281818832169232017901201, 96451672218247868816883835997708398542560388648744341089608577369271885632210),
     (True, 41511604623720737293271404630975171202160343381829250300597690237240802119242, 91590497669958691634924006381607320011579796142173512739279921835355458439238),
     (False, 72447257154078766757468273667237625018823077023682181817867164527599268342755, 77998020868994800150623806549123901243977023181557405362723361824882139045639),
     (True, 33569381735756587863069311600892142556016239397355962778782793183742042895187, 24544249943758801822031343734293778362447745222740175411918821663496238962805),
     (False, 5202602435191440533846071316376079013217529047035069165662217353765927237884, 9729055371390716335107179259139951256304063218966754676611849408948707188341),
     (False, 817452375763169226964039663777009078789494068208747630963918661122960693119, 94399386946593052303872208112815128420296126414523216755897031079073253669112),
     (True, 40628326471951149759763069573061185836953918972174839890977414927756774726582, 74678783810389891989124886061264596317547742349567568055622603957283639459654),
     (False, 48163227638699182125039113690335108328909432589949550632663134902720437317690, 38897640320159468466872147705236990859582817250081523122473256431599285106526)]
    (35995447062781632245280591162231610376561336165413101578947259825763121796100, 9596178) = Some (38897640320159468466872147705236990859582817250081523122473256431599285106526, 9826486746)"
  by (simp only: power_simps field_check_def)

lemma run_p256_1_4: "power_run field_check 49835480456766173544607506164699712169824023691580347094409044481755491731278
    [(True, 16741062426708961301842321644252806026494688229223963360040821464254534122986, 67335370800874809036429006211322145411285326192409727917453632731987896102542),
     (False, 39156838708164407653441577503906943625692839529074446989796461716694952025597, 112406301014692398892490621099678634514194268826417421213806873035614659278017),
     (True, 48378279169472496694125079917957432205055959983789299880498806406273716875509, 57986702283224612543641536006196476045026128787086276926861403780121925929667),
     (False, 29038750959703678658443949335514997946471504409833733242709839503405520911884, 79748654587429413846576862488450159345936468987127219484619411793293258477205),
     (False, 54924718535403301499861657754842619487440425600690220363754916049563857089385, 25287361143905975527518200368893384078257654139092592970420194262804822201890),
     (False, 5522403455910132617199385587905069200093888747860803492136777261217602669458, 57116581366385384694054524119591533803698727109874005576263080039027307243542),
     (True, 24582268908463685755126433444855519794807087905460133919874452753498980955919, 14696119337392869370339922458537940632164065576737879198946643049192133920707),
     (False, 1865204480303790116592572740284164621542271384562142134788944226883566633886, 45440676137362746025072947036647890160528022346206832270198102892984247796263),
     (False, 17832436238968999847047197951290724193293934742627016661724578261259701710566, 6416368683192118510561625949366057902468722439502379919391554202389615218903),
     (False, 355549220671341032350642960795311721003166279726116575030110308082457382678, 28156253336685269610411906897945216029662303084126433587219050318322447262631),
     (False, 6846535090315098640150181769092922735766332420590056532483714868547162323671, 81595031872871992242007145571799700602621285586558467045762758740258540868040),
     (False, 57497444529565828536537008344873257457281816379878075431736918698344102761392, 22899664415629573992289071117748766196972065259867147316676017171260475981808),
     (False, 4528760418130104772686374035157421017635301403325758820695490598269270823256, 9409431630324875505085281716988029583971704627204820831713082911944924664408),
     (True, 4049702784707964991928260443258722755132378746626207347039085116149106527295, 57518248150792607597819836248436815706315551939492445948813898143302361860879),
     (False, 28571458489931660131578017042962567188824120765620828358453038241888817201023, 67092204275733451309582113341735114564313508715391535044977734471433888860768),
     (True, 28875653404184669205626603305126154782134502735049224623004880996810461108214, 6159462503583904173575313033415314526548245647057193520437885198746834247990)]
    (38897640320159468466872147705236990859582817250081523122473256431599285106526, 9826486746) = Some (6159462503583904173575313033415314526548245647057193520437885198746834247990, 20124644859011)"
  by (simp only: power_simps field_check_def)

lemma run_p256_1_5: "power_run field_check 49835480456766173544607506164699712169824023691580347094409044481755491731278
    [(False, 327647411768634870019908807765455431421335637772788430055152609426841949219, 3059443734082896351046986971991211824934910420967619686509003255732198525831),
     (True, 1316746674649578314341526523241363753082859558878631938967844716215326932171, 66511370764292553489567364448806455402153629281013344475601127152934952284397),
     (False, 38204358096593842048532788602811824934847194583108214332202735706725386350997, 51498617238709613836325641549625232381370407560752286319363032070323240414462),
     (True, 22164366758145122312005647897255660016043755905537222823764940544691796875604, 9563348912510295691093332796353715796634117396751513245533344440679342031032),
     (False, 789843615795404771571270586747954252860892313549023496167508040489567822909, 92207283716321632971453554977227507850344266812843002287271409666825737021565),
     (True, 39684872403228511389867051862167761196607796878134973815402619814240002630185, 77317977741812208077487069790672292841970546903730115905584075245472076899135),
     (False, 51627617420592317857246543774694839454432010694406112681050311224776062302763, 105222560753139898588472290594609018084882987845524808453205717560848445981612),
     (True, 45286486372119078067609230847642929281930201754487505858618304111616072807801, 71199570054112927167344366622187686471769342110985876192239312805098041788385),
     (False, 43780009588402327784495219269728705700208511617663126082352382440205242833600, 25591310128064608451566881694663576744573591190897214215296742326346925354625),
     (False, 5655957661157803012467326695965685482085772219918383247339041465015983998155, 9995338555143672067836262901490411821543412706517760549666911728924765430220),
     (True, 4301869865381724860599792699170260808702922445424338675332623327669383708535, 105852879624554335934854489404282093698137956579677389662471174209492118249375),
     (False, 96766818883929846590990262709383068893754590403972012048086514731895648262096, 86058010168089234852449926697402671725453263397221963169563070410530310749329),
     (False, 63959301232027271355734237693261873410250778612321267221068486700601349128261, 46483712298167536155035983176764097097037228424599011527212314955467729341030),
     (True, 20006013809672953267027140866592056770292238095409250184394677111924272952885, 9656484558450878962812088598203562176883563975672133049454034491735545637705),
     (False, 805302803183728640151170155034462195649643686374138432148001978559374749356, 64522946372748719618122437047001592046775345544211930673997354009888998361469),
     (True, 27769876637518160709473883676519617813414455363193396131341540208395344352600, 101754790422484487997628686688382562605790764842643730878100804981412610204782)]
    (6159462503583904173575313033415314526548245647057193520437885198746834247990, 20124644859011) = Some (101754790422484487997628686688382562605790764842643730878100804981412610204782, 10303818167814123)"
  by (simp only: power_simps field_check_def)

lemma run_p256_1_6: "power_run field_check 49835480456766173544607506164699712169824023691580347094409044481755491731278
    [(False, 89419212007772403882740583402489795678046349118252376980408179083308387661803, 108388139477649143106053465177408472577687728487818282000772504382895900333871),
     (True, 46648912231566526614881521411480450513027527236683687410765525961154999781244, 17199332338816805296750950910631214482584621311557462067630183693193152422094),
     (False, 2554725758196374111892535980911703446240928013511748479018965960903566917099, 53551428589800227558186282862076103955601681509007748298822906275114712736687),
     (False, 24766419913183378188961934114372255871025820279434011490156298277643958176684, 38535261954121369514251329249084158944593507017086516536977315672325710257485),
     (False, 12824420251845158207926527743159561281014622806774254686500058849618391844572, 41209145977291244321589576712330399858833989785967246213776317766763450421253),
     (False, 14665887140982819131120189718091872308624861416080767946832226772967199591527, 75942245450580099616155623823649132398562896826181048943588713664037651016832),
     (False, 49806724132932761802139768884508341340990645593443068298134847805430177000910, 60994619816023500964482698483652165365386060710469688084773411821345173220814),
     (True, 26251328605766763146251000502347668169127076940781093240232799830544604953090, 59027102946620766548529766348815357469500085611013613013818422830148218261702),
     (False, 30090128833769631313839797968615730970146444775633961868299822132187892788509, 104803121258956794025177619826078107004778489039980791067671649428939546887745),
     (False, 94857034712154053220703623478080909021734505961209061174904748351908467201988, 90573440013091544130588216197390792839667035656524770467474587657651190330437),
     (False, 70847223603522138557503727555111181452193997560062236863062536858818822658547, 32905076845003001521837245736145929157131205060761227195241293246093100741772),
     (True, 14161937358764502512453786985421569087921140022369699855779375262030332852716, 65132432664402522771345331464259961935253701481644184889197605120338931863700),
     (False, 36636646024031756492749694231461245397575954393644232509545902314647234119353, 48606257638834221207287948385574024183641678723808765827329333998303681076297),
     (True, 20919531024577251508953182868851506468514518524616718724851863349956491512910, 11852023126320210104305366262151240654864305798271858908736032043380728310156),
     (False, 1213126502378244049850553256494872663444019447835276873098446557545422033486, 78438364009683393645460649414846880141676804383224523434417652441942273341150),
     (True, 33758899967370762251826711267074426441046573871608050520614065277464972853395, 21305311941584572552022681814475988272738092341924565215920747179241574976055)]
    (101754790422484487997628686688382562605790764842643730878100804981412610204782, 10303818167814123) = Some (21305311941584572552022681814475988272738092341924565215920747179241574976055, 21102219607683324967)"
  by (simp only: power_simps field_check_def)

lemma run_p256_1_7: "power_run field_check 49835480456766173544607506164699712169824023691580347094409044481755491731278
    [(False, 3920097823812550057951708692996388289921619905790573326163634324182945633396, 111512680563143207947094057377319457428193649703181401927875724546595827215429),
     (True, 47993675999664906569657661231006747735145896098212029204585281646754074043267, 72702957408214224029875833343595873153647192261520593999370910445035862590345),
     (False, 45648369002982508191046763354220107993687057487072309447839607036457013583428, 22000237812563605257995218259113290594145404524476283669233171959378189294997),
     (True, 9468629757257737224338282463355693841790119251460827409662849571956503015673, 3128046580474756285620083440318150349824629831406211978565272894371775842143),
     (False, 84502106114039188779671462949929383387388964587042897074700210835292972181, 103213963269926483315509250572564551208195070063044527106014404428639410895318),
     (True, 44422010903174528130595696645343308930337012603773175547508569015172049569469, 23548175857684211713764786478534126591549113575178712821718507067048453734385),
     (False, 4788898706344669128446020306626240591647881102279998527184810220202994754568, 18675508301727001965413235784797434453400159214714005668185251752629377230057),
     (True, 8037707371356850350949255128923839348900054615784475976099428333247754063494, 27206579165651047947518742583990945481375706529125787948464477037427835858052),
     (False, 6392474260932806613690687940057544006771690434152072570835284806400803387212, 73576244092090371164128275246416362519457122610100501868951466573274216160092),
     (True, 31666303799669962328705535462995393072697918829563746447802969198018996671392, 34915575739461385685762276360103417594424383506959106004141949048094735887784),
     (False, 10528330886260842041352088711537819588787019057646281864211872506170196252884, 7717171135999692811330770790570966732480721881369926947137278594004545885972),
     (False, 514324689609109452103641187852179339477087769987294558014088214303591603657, 113544376387051498111313129344028036500030101777761249918513076936743162885977),
     (True, 48868092708241051395361445146699728677395207825577458883964551343690117647227, 20356359695453732860192892925619842802618854347145601352948142500073652344729),
     (False, 3578667445043660386260844690397411141026612071579617304066919792182960868393, 6858148908823025313711627899967910160867485769954085304791710307497808012698),
     (True, 2951662313427487471759461422347159075982800406634938841331947755191827687822, 78164723199025455517027301890149354959461945671477786003096301821434050483322),
     (False, 52764605893593505142369496692205208076039354960688888476103787876639291607564, 8924743888537371270313144705235740991824381941853219526216388040432521270320)]
    (21305311941584572552022681814475988272738092341924565215920747179241574976055, 21102219607683324967) = Some (8924743888537371270313144705235740991824381941853219526216388040432521270320, 10804336439133862383606)"
  by (simp only: power_simps field_check_def)

lemma run_p256_1_8: "power_run field_check 49835480456766173544607506164699712169824023691580347094409044481755491731278
    [(True, 3841099186239297358944384414749946728122675214903800557475496168537824035701, 45692936729085080829289415916302928799869897198407316793690908533013529164309),
     (False, 18030976737411169577663260850720617224812613254663736367794662256202054652371, 27545491390229246816072905069717692396969680424122285442193975505190485579660),
     (False, 6552728265838491154033969474987705574748108423111108979852538955077024170955, 7855308032894021032126927904690488789099051412732437790569298975970759522395),
     (True, 3380827244976901509198046646955274425816630542075112580128880584839671147173, 54459867806506163605739210421587286251188498394660247333595154867520382440287),
     (False, 25613815431847855590602406017116196320187617036842485386505365236321688375877, 108335992044676180878279571413245970012539271393709659724472632901123783102342),
     (True, 46626468622555608523042088617789715554965943879841291993694794354300662631720, 62072791974306230313535760894905643025826803931518667277162757129647576527356),
     (False, 33275429519937250877225675675602487962913925894920651880441262185510798507531, 54604667644106217258313527228081269595712105237122263234503587465952404745755),
     (False, 25750202357145352599892030817474050739187305469082218520617060147633203949316, 70000995263039682613273734539666183619124413866518581768833560196444816172509),
     (True, 30127561003307185136524772854144501216681971355183059610986138382172054628576, 111639483961410939709924864934269731236110070614374367906309619695691919932726),
     (False, 107635801928819739296007726538424450292187946064714197420340286584673689430845, 105658204551861574702362946351929937079060551073493323399378222084382241272481),
     (False, 96411216562837208413017960510578471147809872976830958240103555992992568040536, 78241231485437274099941284994328178022332971901779091523416487866779312137625),
     (False, 52867949322830487444180935056756516051125727915947161034680652861678245789478, 103007722317963988101971631136082903537075235505322563676544974806971404113047),
     (True, 44333247352909537108973716397808815514812672689921548924833748301113742655785, 87119662952619473373146233617004011199613887423843651418333684046587262527531),
     (False, 65547100192568214772215806841113550422086928751764568140021393189104537755637, 52172693292652119223024712886956311496120748525568858769668930589401779984174),
     (False, 23507563806575633071001852632090449515781302733163619810319063436463216939323, 28440945665301537130626448930097415937235102245243478152100378534135807647103),
     (True, 12240630612512658209616236652839860677714290458968007435155421453208017861322, 17584444145389920229919272054566610396977763538157814566247408310854203404412)]
    (8924743888537371270313144705235740991824381941853219526216388040432521270320, 10804336439133862383606) = Some (17584444145389920229919272054566610396977763538157814566247408310854203404412, 11063640513673075080813989)"
  by (simp only: power_simps field_check_def)

lemma run_p256_1_9: "power_run field_check 49835480456766173544607506164699712169824023691580347094409044481755491731278
    [(False, 2670412789086133726053621646077492511869151535760254116624456135451434906571, 43592142000806683930425532828456200056501714099621030209487680609766532853723),
     (True, 18761517782127368627572875656351079410510179597998661070960421672611201514960, 63856821307023458796180262764336637979213532499526882708912958100239176241034),
     (False, 35215649490780784444936293805900235338028902266426675019070793065487631447914, 45495178149830725520417728462154242021537684816716621530071101742905829780942),
     (True, 19580560960810467897347244389346908336832141361990857972004804161309298872582, 81398091567917631081208187706358223155467135719982074590387200812727075432394),
     (False, 57220224249192633761147207411215128012680150692074661791775664488968637850783, 88178124883184954359919069561369781324534737111430625076708384325273799577603),
     (True, 37950772365347590456840539431537874438966914004026550275578022038669552579804, 85203545390975558756674976677821028834514036942081897732605212474071519161030),
     (False, 62695510519752692038516348062886078091126293182108651985685516370353399866115, 8093239777239085868922986688232800625575756023761609152172095049547846890535),
     (True, 3483230119613800750483929524969910690833361278121623775026406389849934787795, 111849726940930410437641472923405341987419659420361430934408716468213014325685),
     (False, 108041589905450885401308781684105286144657302232154332547045033004218587266118, 20918873020386965025262524873751034513282399079767379027529093607101315987007),
     (False, 3779180870016943503290055584245654259114656581516221290465672733113376938582, 83557916615801108848866695611546383807425031724609671574208214250216059780567),
     (True, 35962291974453978883819709965515770436004813356055550399559838649935283996558, 78265006498687690792762967073329806293323192915820945438061153593951339773968),
     (False, 52900083969568622685982710473528203197976309441832671515591914197051687920886, 47292424853076657428166411703215956226005677710546675205104873071045659944438),
     (True, 20354073672830775621102222035612516563408851663744595138867018504322821231098, 94130875371147577589452805068804159867001511658925003862736749706626283363566),
     (False, 76521822505868031037788214718044264888458588790347987098481659314457014756587, 71112058050295926319547853048454683350505863742876759239104284601016195011119),
     (True, 30605748660150986653083510603275659276688322506950702142399947691101286566113, 78578584152576701662084540412631277796673296147066797832029524249711390317619),
     (False, 53324833583461529921631110033339518428451261992298886578087053310205831081891, 41721341230721261120043215969946741985142337925427694930864809641963062927820)]
    (17584444145389920229919272054566610396977763538157814566247408310854203404412, 11063640513673075080813989) = Some (41721341230721261120043215969946741985142337925427694930864809641963062927820, 5664583943000614441376762862)"
  by (simp only: power_simps field_check_def)

lemma run_p256_1_10: "power_run field_check 49835480456766173544607506164699712169824023691580347094409044481755491731278
    [(True, 17956348311122119154651926981321724385040364559959082373405774443717655591460, 54855546909140491044872692218925142090624204480562840010000664082489747495500),
     (False, 25987362757004139856970839459814968428051687779843999674541332140502506192057, 13243248990841361190897088466586726376763654692476044293565424922808777982793),
     (False, 1514642710304727059794098434128550205877053824957404418635842161367445879872, 36220689218697079354959843419338486713203954531125115397636565175566057506577),
     (False, 11330120532621854569058735753028100540047926700327262241739261154871251286623, 98467892401194457859630202247178164994619505155354914675410179481319504259456),
     (False, 83735649819038087069648873389015072451361146047991536542676129017688246552686, 36904384577976503389134576425023116107446789421660457764188418204322510653550),
     (True, 15883189853009757600583821600432955470922061938810057696979412264878367749795, 39077645287139152688385871713930889307000370196221235219792446517075336546855),
     (False, 13187967948426056677588554166780749013301717098979405559618344858839693002008, 10339832370350452752693504662939181535490744315639373561272202921226076657417),
     (True, 4450135734944071942235904946593966671992479541031280531085494692485048497570, 97304657732503622476507710811652864477048542147182704660669112971408791189856),
     (False, 81768940184152558874639358093730085566216429667072800224586237943036985579391, 49589683889968284621963345970001492977432641741333064524880728517813803776895),
     (True, 21342785497773846287210827972315952091328056440468788855555246762760520929399, 88026898029129039678343162944886907989480857143825522437460799227285921016361),
     (False, 66919379635285553406415496634046540032374181124304715127054479840843749885565, 63493336538642458500626319688989168266161395872428139150048301586093896565006),
     (False, 34815882607365094090154822369705875803492962226931000251464432391681063571340, 20537131317832980199950320428342594564808003535981156290004363277808194415696),
     (True, 8838926850767693812910985237069672592017943510180179035804100964950895144456, 71854672666193232600536719068040837400873480492752125684074573803158921993832),
     (False, 44589349921704309987696770433727969019961792513856243987201139494062415102835, 11554848999760679191085838496637805153938711641733592048940165619178769993139),
     (True, 4973063837395164728639823508050266261782025220241358770586817834818736452113, 100159784739848429763411770435707278838736993228749829408499262041501312353179),
     (False, 86637891651716832697409169521654981148571148280570791638702503446688500238060, 68798071648341857715442129791208124076281942069945909519586355635287819830981)]
    (41721341230721261120043215969946741985142337925427694930864809641963062927820, 5664583943000614441376762862) = Some (68798071648341857715442129791208124076281942069945909519586355635287819830981, 5800533957632629187969805171830)"
  by (simp only: power_simps field_check_def)

lemma run_p256_1_11: "power_run field_check 49835480456766173544607506164699712169824023691580347094409044481755491731278
    [(False, 40876494195831925594671294679989769475189883490149945482027511632339857061867, 57193596974312679764294372063677027559175652023160897617050991912963470035844),
     (True, 24615415471842070721750075427188028075190065332859236577404717867325811587886, 3056443355678070558211962723928452487463751397167241722809539860942047091046),
     (False, 80677756573659831784974802320881688714551671322263823203582304162549199999, 46923264168330033461085605369755626288798040787927229979458794591645822028067),
     (True, 20195191488257052827037698996124796347502292111866026542338759881962372127284, 41465215239280007219121623380879203606653368332489422550948214033591923480542),
     (False, 14848717961347932301794321742497668997886975479721168029766698569167752412120, 39935803325730635339513725653527876339859681823729983943215992965599730327644),
     (False, 13773552218874687520044276634692446714877477012849092435960901337910442884456, 90361985237310692469423471485404393550036813250918604422836662624223734505080),
     (True, 38890678802311729555182052893887260640974924604840127675419634513804347743213, 114495432071262960606986325140686435791416342042385620697501860104193360407677),
     (False, 113213295092811278842046705516400248552900113193619183113402690230866297973261, 57737502962190702623796833518270092053966185364613681449695316458301759332118),
     (True, 24849505869675474777062693103793222349412738750766964715411871474950565748009, 101118482909306627999439708412601761858974251304032414972287714649189859553245),
     (False, 88304370839223398236070001067364501497129691188395633523311184666983251410140, 98991747611908501479481283801550909870319755131755361075924055855702469566885),
     (False, 84628977351445471316874992822738177282552385985275039281639548441126335253958, 74484672330370180160306919635247013587237516834677522066787730709263109915167),
     (True, 32057280057408292337059608293163456311537684112272803684597340359318426029716, 85318354711573165458440069797578285316077113408949491577550940809043586485510),
     (False, 62864585139886893751904531425655798723601057397786486395348513923343128461774, 24326438284938559286491669048649102757645940698490099272234503900370301591026),
     (True, 10469797617429603950094390237112492461865090614942538848835715664362535384984, 90074867795933620323668087997526654991828422258085648761623079968304657839444),
     (False, 70069396482823487356577813059781884854821739598044981249905917151546393598657, 65012253557666414317917424532808888845387265080113817952807030953637386485329),
     (True, 27980468387072154471033247251460916145949300711667562786246758832699653731280, 41722823871434861483623452890322696192587853770316482894908878103708117133182)]
    (68798071648341857715442129791208124076281942069945909519586355635287819830981, 5800533957632629187969805171830) = Some (41722823871434861483623452890322696192587853770316482894908878103708117133182, 2969873386307906144240540247977399)"
  by (simp only: power_simps field_check_def)

lemma run_p256_1_12: "power_run field_check 49835480456766173544607506164699712169824023691580347094409044481755491731278
    [(False, 15033790681886073497603497771865299217251332751256140561426889087627000591136, 62325780679655915184980789577546400037799026035353764981789416172860332266788),
     (True, 26824243747524408439372656025199379078531648007041002984383237060302347016187, 40693098457891914149453313239224640872617524016637167969535283013756341290227),
     (False, 14300875590001720569293780799228659672938344591731629937527113122546456559985, 97407956255925097665205066435165884134532795714617356494665209361803644960794),
     (False, 81942643980791038059061350045850453227754683468079016071373554915908334106822, 88758724412531479357261739400316502106590606183599427546740451240735208356714),
     (False, 68036695883669284877059919163793716192105269413472819881229720612223158225652, 101766743743560344671521878070257193201046041282189875319372309119738071126744),
     (False, 89440221718024009620647620756696152260143105603571774414375863168861039424752, 70958042641568202408549320320493771759732918455668196208933995451494961646384),
     (False, 43483487083263417852267483010533256845581550777418274334650246050853112272796, 20550112645271455156512091494061196842174081726745971181411468120488181858460),
     (False, 3647115555244471123658054635196393442623789219537887666894849588202567386553, 110502177171577325465426631608586117879704826723019176610804847656890518250697),
     (False, 105453932500308992153457367438089291052375870684559562904129860789515834477839, 91420427131174948602249054955457462473970577902241075199139207809313372893920),
     (False, 72178458423556715412522519010593014060504937526668492646084746154224903166672, 16641041290832893110575784526166857396865123559322104333852438605720306245328),
     (False, 2391564545831146848488809775049057880929315930042792552124817099910616907662, 96158170960517972015424737675496557645665933580732081813745505488304792955022),
     (False, 79853415768969647078179905169541107845761977320215882968079345605715976301859, 47818676102878492716327944048259740322127896610120105242388815154330643225575),
     (True, 20580565690149887335405741798468405775363000581714176463156575522330373330673, 95212726242736584972065763130516854764417633837117196502599107576796654495827),
     (False, 78290868576568530023003365354603379282886091686814791088005296892546747947833, 47102102604521881421033767586811476152295682450265997920156808351263959475746),
     (False, 19160273252660842819750817732677912957094313809158327614151771431743843720768, 100042551718800283693092237238705984474427235281324464863611942150243472702148),
     (True, 43057074667423661321817214289720793693228545755383405756232954975119303974887, 40261213722415956002709728437481862883666932303654234360513387139383651656607)]
    (41722823871434861483623452890322696192587853770316482894908878103708117133182, 2969873386307906144240540247977399) = Some (40261213722415956002709728437481862883666932303654234360513387139383651656607, 24329202780634367133618505711430856709)"
  by (simp only: power_simps field_check_def)

lemma run_p256_1_13: "power_run field_check 49835480456766173544607506164699712169824023691580347094409044481755491731278
    [(False, 13998929818575883167669354992008367590469819738517323603647324674299712058980, 85998207106306811061566012826854482364734558932376314398664032404501908722469),
     (False, 63870439474182845453733960620308147107004907206829887137806814261928850826089, 114868312274874868679062986889134238825235260126241398754909989077078242928322),
     (True, 49437898309932638357449471755280582906878738776366088021652338252523857660859, 53367925263645178660176783331177972890132265179649344113712765935618568251607),
     (False, 24596977793291986749702186330946233434212554553619495189867782037380103611388, 15632525616797115942984276927001593604687866410558740971567457581581173688461),
     (False, 2110471093719254584438779130586373175644199425009097479075780548119617010731, 53744314373118629224403954193784520738181150618977430774432237244479646800340),
     (False, 24945152532736817315642162876093728532670064942495947997362666932044202734968, 51742847736828538033281175205689616357519961880664290035148255890882199457032),
     (True, 22269480538360630592784372427127456456032626298283425859040889303832468927424, 71884594981801130587268487250139953863028209933364751650580965742376080794672),
     (False, 44626494183986320291477912382331154091573970870523950345386957292576683928230, 107401468592318558440225569185759096014664739093156436765688135260857517650854),
     (True, 46224261308014879187305060641864011975346680015766045292297769843860662220463, 95351097189061267086041430734993856899713216921736511954838174061962257612099),
     (False, 78518591357661153633246005502575192570581802406256735414353522498491888690344, 86079558193582497626318005418423745260230486651490182961914832790419175236657),
     (True, 37047575264750238220962614409968851397657218141528827787748757109824468432363, 28151602362488757841427732128755201006772640197551242458154154072559803241433),
     (False, 6844273395360774041274805363949455179867740009376602607100861495089435777526, 27004727722570505942382264306765728638007986729982198604236327958660011788263),
     (False, 6297971859246362585580968430110824022500392657353845765813448594973891744766, 89021753274887329207074232218748275561413362120276380995661403864929507886703),
     (True, 38313859572031279506164817510825653896253889948864701410755637792069726177873, 4362670284183359197785983536380213342288858623580865270248633622920543570211),
     (False, 164371263514556592080177752032073388310414927424248509317477104064927222896, 74327606029928710509974548649988194788439699128395728657068211632694455322425),
     (True, 31989680667852003470300373438986232130542775653831226060056406081286255513884, 69178324482884029716513385180255703574111342980090659243425967881627862553466)]
    (40261213722415956002709728437481862883666932303654234360513387139383651656607, 24329202780634367133618505711430856709) = Some (69178324482884029716513385180255703574111342980090659243425967881627862553466, 24913103647369591944825349848505197270331)"
  by (simp only: power_simps field_check_def)

lemma run_p256_1_14: "power_run field_check 49835480456766173544607506164699712169824023691580347094409044481755491731278
    [(False, 41329598687568825316740650892673100018368924477486600885924701559762293427473, 56762938125844509892826739738379236248670853714906122121286707801055143617333),
     (False, 27826004061685754790544146981844480872437992593069559172264846368982850781866, 102235235561027813401551352914859195807920267536282571208779783592497310780323),
     (True, 44000778624338049456948378262933993733224594242395381283291177513662793110373, 88873672713801783519465768767797980057178931055339114031370074983499828909071),
     (False, 68213033856664575364472111852385340810027124875139825383562697632622614103735, 50991411342848575260372905116356973553140065361724588922814047328862192476056),
     (False, 22455109398812329593494139960643631980539962260368444211114213558467128714202, 54777293812716233751215850609467963881374932554635423463631613026131917803034),
     (False, 25913272123397147343602659186806384166169505754458314683846340879879585902966, 75612269491005770657300585176466960916590848083621121560858077240946093886490),
     (True, 32542583903682913924135064687251706781739723084235809369604040186290307110043, 30222426915494128612996337030174060154190123663335069458755409430859615304327),
     (False, 7888233944920405115024718345252534197970368868976571647119391314775620052998, 4264924650847319098157553224646248205816890188210762271129152219274141227831),
     (False, 157088298531004320282337782121348795893497823187960273136336111703603161070, 33457376898540980102486956983301040922351909595134694962732931656751460076991),
     (True, 14399640458450013070349602173013640715199604151704557994127322102235025773086, 43397137597308600875577173611519796160176819810118936664503002635184468261712),
     (False, 16264596005504109355609364235877726018987419649297541851855785967703586653585, 83068338027519114109375013051870222883113711325585465342973539629927764606609),
     (False, 59592575189817221229289881187527139010769590208311296953253306888052616352558, 24004964419074422366998481722940899398883804778489786079516254660581517222223),
     (True, 10331439248832171370991891517268358956117027247564726414944751224083816934270, 112577199809091590152931888625242148119181186618620531032127314713958698990224),
     (False, 109451569647666603113992072928007002021733101539469573700715173861074003256337, 31315498595747283182195894252734948165753757487356750813129046918318806332689),
     (False, 8469148963351992542138097158399431038058190709959411796456537758649303013861, 3054904276306423461650114753697763851525169549995671522035890837819843355910),
     (False, 80596526075639674952584365223142752175948847220320481273657700787557646105, 7164265050850129805490162217351050517287174953960035424672348729424297917245)]
    (69178324482884029716513385180255703574111342980090659243425967881627862553466, 24913103647369591944825349848505197270331) = Some (7164265050850129805490162217351050517287174953960035424672348729424297917245, 102044072539625848606004632979477288019276968)"
  by (simp only: power_simps field_check_def)

lemma run_p256_1_15: "power_run field_check 49835480456766173544607506164699712169824023691580347094409044481755491731278
    [(False, 443265978434751657170072765381968039755513140967649073215135489683386635024, 31209029460410358791040779761486560116851066257473205260336802709339175010201),
     (True, 13431979579567127044244001987082021859828402092815577971824171464433852510956, 84841866130392968929241222520318378548180530307834948327831052552786485379722),
     (False, 62164369755958526518295248353162610627230236088296777690281219615552733388319, 17206799949001675803704789637201150880491090440126091150233278668988897398915),
     (False, 2556944662662531164004764673020739635178834889114611078646527223793496788376, 4469311686486172735608363450803935036307183872224517647906709822012240703649),
     (True, 1923536372182130969634726865506558595772230075412105553998848085643278550722, 54658313070214774521339934226174119475280086270884381734498285042088240430800),
     (False, 25800822906427112903775981223669175782999186594731582382036653530031311450396, 51498632788710889440331202906682986279739497192735481980265274387304799525404),
     (False, 22904061902609562369704840440964340853216429632083217908034625741881893105882, 74185186528882707237917509481026247583538030020121967868531879511039426323434),
     (True, 31928385079272143100080373259022425588805464792028610268597232536970542134129, 19926031798188344465829606593786486185758220895505622089032912020799547574973),
     (False, 3428962599518429267235581151543716853068790756261327745201803439215827398422, 12539401793679842528987883751046552580652162220769440619058068104661412085407),
     (False, 1357921758002776208456239174078887499929470051311845547434833397125314397344, 98512385366649598609019448514182342994473382615437330311513570873291368049505),
     (False, 83811339244402431013538067112560384170486449279133532692398936180441277316140, 77182155496932373127372364899974680858297397429464497573517303880097155675885),
     (False, 51446391267114787626665038387933520169718175151893524780909026287322775488414, 99380815687506378087218018210101497624808451812753782912779684195905905909511),
     (False, 85295520566795094904836115824058419480539136635917681580087552107125619917076, 25202760300917492189045044023706384878041808473093680232688773501849941291845),
     (True, 10846955754906633785251267965494954380662780091272897752946847869448855377622, 36663106313997414308809054083084190675566873677160953577789535118237003143388),
     (False, 11608594108268802004511433468145891436752127934137683496056708755875793097711, 3650793420634556216856096640879927797995094682782934240577397020486337712383),
     (False, 115105381473301060001745190579932106216455367550584183873903482446375091706, 75493890547426188694351583354783890502956385050628441825396994900476212108283)]
    (7164265050850129805490162217351050517287174953960035424672348729424297917245, 102044072539625848606004632979477288019276968) = Some (75493890547426188694351583354783890502956385050628441825396994900476212108283, 417972521122307475890194976683938971726958463620)"
  by (simp only: power_simps field_check_def)

lemma run_p256_1_16: "power_run field_check 49835480456766173544607506164699712169824023691580347094409044481755491731278
    [(False, 49220353038392427798455277156483673351313041405781239446509285820813652056368, 68351857066626478185001724009312225267813128310767721512238689371828833698121),
     (True, 29417792357466858386615067944415702685759566487735277712132864115524964129987, 1)]
    (75493890547426188694351583354783890502956385050628441825396994900476212108283, 417972521122307475890194976683938971726958463620) = Some (1, 835945042244614951780389953367877943453916927241)"
  by (simp only: power_simps field_check_def)

lemma power_p256_1: "(49835480456766173544607506164699712169824023691580347094409044481755491731278 :: nat) ^ 835945042244614951780389953367877943453916927241 mod p256_p = 1"
proof -
  note r1 = power_run_reaches [OF field_check run_p256_1_1 power_start]
  note r2 = power_run_reaches [OF field_check run_p256_1_2 r1]
  note r3 = power_run_reaches [OF field_check run_p256_1_3 r2]
  note r4 = power_run_reaches [OF field_check run_p256_1_4 r3]
  note r5 = power_run_reaches [OF field_check run_p256_1_5 r4]
  note r6 = power_run_reaches [OF field_check run_p256_1_6 r5]
  note r7 = power_run_reaches [OF field_check run_p256_1_7 r6]
  note r8 = power_run_reaches [OF field_check run_p256_1_8 r7]
  note r9 = power_run_reaches [OF field_check run_p256_1_9 r8]
  note r10 = power_run_reaches [OF field_check run_p256_1_10 r9]
  note r11 = power_run_reaches [OF field_check run_p256_1_11 r10]
  note r12 = power_run_reaches [OF field_check run_p256_1_12 r11]
  note r13 = power_run_reaches [OF field_check run_p256_1_13 r12]
  note r14 = power_run_reaches [OF field_check run_p256_1_14 r13]
  note r15 = power_run_reaches [OF field_check run_p256_1_15 r14]
  note r16 = power_run_reaches [OF field_check run_p256_1_16 r15]
  show ?thesis by (rule trans [OF r16 [symmetric] mod_less]) (simp add: p256_p_def)
qed

lemma prime_p256: "prime_nat p256_p"
proof (rule pocklington [where certs =
    "[(835945042244614951780389953367877943453916927241 :: nat, 49835480456766173544607506164699712169824023691580347094409044481755491731278 :: nat, 35893950584104763925847036954507472337811148100266109799856099637894785463246 :: nat)]"])
  have b: "(49835480456766173544607506164699712169824023691580347094409044481755491731278 :: nat) - 1 = 49835480456766173544607506164699712169824023691580347094409044481755491731277" by simp
  have "49835480456766173544607506164699712169824023691580347094409044481755491731277 * 35893950584104763925847036954507472337811148100266109799856099637894785463246 = 15448311581982382821756396509525202587693568224294205004967363464185155815691 * 115792089210356248762697446949407573530086143415290314195533631308867097853951 + (1::nat)"
    by (simp only: hex_simps)
  then have c1: "(49835480456766173544607506164699712169824023691580347094409044481755491731278 - 1) * 35893950584104763925847036954507472337811148100266109799856099637894785463246 mod p256_p = (1::nat)"
    unfolding b p256_p_numeral by (rule mod_one_by) simp
  show "\<forall>(r, b, c) \<in> set [(835945042244614951780389953367877943453916927241 :: nat, 49835480456766173544607506164699712169824023691580347094409044481755491731278 :: nat, 35893950584104763925847036954507472337811148100266109799856099637894785463246 :: nat)].
      prime_nat r \<and> b ^ r mod p256_p = 1 \<and> (b - 1) * c mod p256_p = 1"
    using prime_835945042244614951780389953367877943453916927241 power_p256_1 c1 by (simp only: list.set ball_simps prod.case simp_thms)
qed (simp_all add: p256_p_def)

lemma prime_43: "prime_nat 43"
  by (rule prime_nat_by_trial [where m = 7]) (simp_all add: upt_rec_numeral)

lemma prime_7: "prime_nat 7"
  by (rule prime_nat_by_trial [where m = 3]) (simp_all add: upt_rec_numeral)

lemma prime_3: "prime_nat 3"
  by (rule prime_nat_by_trial [where m = 2]) (simp_all add: upt_rec_numeral)

lemma run_155317_1_1: "power_run (plain_check 155317) 23632
    [(False, 3595, 106809),
     (False, 73450, 128831),
     (True, 19602, 10358),
     (False, 690, 119434),
     (False, 91841, 11759),
     (True, 1789, 26575),
     (False, 4547, 4226),
     (True, 643, 1)]
    (23632, 1) = Some (1, 43)"
  by (simp only: power_simps plain_check_def)

lemma power_155317_1: "(23632 :: nat) ^ 43 mod 155317 = 1"
proof -
  note r1 = power_run_reaches [OF plain_check run_155317_1_1 power_start]
  show ?thesis by (rule trans [OF r1 [symmetric] mod_less]) (simp)
qed

lemma run_155317_2_1: "power_run (plain_check 155317) 16223
    [(False, 1694, 78731),
     (True, 8223, 81322),
     (False, 42579, 25141),
     (True, 2626, 1)]
    (16223, 1) = Some (1, 7)"
  by (simp only: power_simps plain_check_def)

lemma power_155317_2: "(16223 :: nat) ^ 7 mod 155317 = 1"
proof -
  note r1 = power_run_reaches [OF plain_check run_155317_2_1 power_start]
  show ?thesis by (rule trans [OF r1 [symmetric] mod_less]) (simp)
qed

lemma run_155317_3_1: "power_run (plain_check 155317) 53025
    [(False, 18102, 102291),
     (True, 34922, 1)]
    (53025, 1) = Some (1, 3)"
  by (simp only: power_simps plain_check_def)

lemma power_155317_3: "(53025 :: nat) ^ 3 mod 155317 = 1"
proof -
  note r1 = power_run_reaches [OF plain_check run_155317_3_1 power_start]
  show ?thesis by (rule trans [OF r1 [symmetric] mod_less]) (simp)
qed

lemma prime_155317: "prime_nat 155317"
proof (rule pocklington [where certs =
    "[(43 :: nat, 23632 :: nat, 148074 :: nat),
       (7 :: nat, 16223 :: nat, 450 :: nat),
       (3 :: nat, 53025 :: nat, 85869 :: nat)]"])
  have b: "(23632 :: nat) - 1 = 23631" by simp
  have "23631 * 148074 = 22529 * 155317 + (1::nat)"
    by (simp only: hex_simps)
  then have c1: "(23632 - 1) * 148074 mod 155317 = (1::nat)"
    unfolding b by (rule mod_one_by) simp
  have b: "(16223 :: nat) - 1 = 16222" by simp
  have "16222 * 450 = 47 * 155317 + (1::nat)"
    by (simp only: hex_simps)
  then have c2: "(16223 - 1) * 450 mod 155317 = (1::nat)"
    unfolding b by (rule mod_one_by) simp
  have b: "(53025 :: nat) - 1 = 53024" by simp
  have "53024 * 85869 = 29315 * 155317 + (1::nat)"
    by (simp only: hex_simps)
  then have c3: "(53025 - 1) * 85869 mod 155317 = (1::nat)"
    unfolding b by (rule mod_one_by) simp
  show "\<forall>(r, b, c) \<in> set [(43 :: nat, 23632 :: nat, 148074 :: nat),
       (7 :: nat, 16223 :: nat, 450 :: nat),
       (3 :: nat, 53025 :: nat, 85869 :: nat)].
      prime_nat r \<and> b ^ r mod 155317 = 1 \<and> (b - 1) * c mod 155317 = 1"
    using prime_43 power_155317_1 c1 prime_7 power_155317_2 c2 prime_3 power_155317_3 c3 by (simp only: list.set ball_simps prod.case simp_thms)
qed (simp_all)

lemma run_191039911_1_1: "power_run (plain_check 191039911) 76243073
    [(False, 30428229, 20435710),
     (False, 2186026, 30720414),
     (False, 4940034, 180634422),
     (True, 72090294, 73134972),
     (False, 27997940, 163657444),
     (False, 140199808, 134076048),
     (True, 53509080, 34323624),
     (False, 6166832, 128061424),
     (True, 51108673, 157267849),
     (False, 129466016, 154922225),
     (True, 61828685, 30350390),
     (False, 4821747, 55407583),
     (True, 22112889, 48909680),
     (False, 12521764, 117579396),
     (False, 72366629, 194797),
     (True, 77742, 97130219)]
    (76243073, 1) = Some (97130219, 1213)"
  by (simp only: power_simps plain_check_def)

lemma run_191039911_1_2: "power_run (plain_check 191039911) 76243073
    [(False, 49383814, 11587407),
     (False, 702826, 184495163),
     (True, 73631096, 154083443),
     (False, 124276164, 96752845),
     (True, 38613576, 101860949),
     (False, 54311441, 76258850),
     (False, 30440823, 86635747),
     (True, 34575893, 61465008),
     (False, 19775696, 4637008),
     (False, 112551, 110169103),
     (True, 43967938, 1)]
    (97130219, 1213) = Some (1, 155317)"
  by (simp only: power_simps plain_check_def)

lemma power_191039911_1: "(76243073 :: nat) ^ 155317 mod 191039911 = 1"
proof -
  note r1 = power_run_reaches [OF plain_check run_191039911_1_1 power_start]
  note r2 = power_run_reaches [OF plain_check run_191039911_1_2 r1]
  show ?thesis by (rule trans [OF r2 [symmetric] mod_less]) (simp)
qed

lemma prime_191039911: "prime_nat 191039911"
proof (rule pocklington [where certs =
    "[(155317 :: nat, 76243073 :: nat, 69522358 :: nat)]"])
  have b: "(76243073 :: nat) - 1 = 76243072" by simp
  have "76243072 * 69522358 = 27746025 * 191039911 + (1::nat)"
    by (simp only: hex_simps)
  then have c1: "(76243073 - 1) * 69522358 mod 191039911 = (1::nat)"
    unfolding b by (rule mod_one_by) simp
  show "\<forall>(r, b, c) \<in> set [(155317 :: nat, 76243073 :: nat, 69522358 :: nat)].
      prime_nat r \<and> b ^ r mod 191039911 = 1 \<and> (b - 1) * c mod 191039911 = 1"
    using prime_155317 power_191039911_1 c1 by (simp only: list.set ball_simps prod.case simp_thms)
qed (simp_all)

lemma prime_1511: "prime_nat 1511"
  by (rule prime_nat_by_trial [where m = 39]) (simp_all add: upt_rec_numeral)

lemma run_3023_1_1: "power_run (plain_check 3023) 4
    [(False, 0, 16),
     (False, 0, 256),
     (True, 0, 1024),
     (False, 346, 2618),
     (True, 3, 1403),
     (False, 651, 436),
     (True, 0, 1744),
     (False, 1006, 398),
     (True, 0, 1592),
     (False, 838, 1190),
     (False, 468, 1336),
     (False, 590, 1326),
     (True, 1, 2281),
     (False, 1721, 378),
     (True, 0, 1512),
     (False, 756, 756)]
    (4, 1) = Some (756, 1510)"
  by (simp only: power_simps plain_check_def)

lemma run_3023_1_2: "power_run (plain_check 3023) 4
    [(True, 1, 1)]
    (756, 1510) = Some (1, 1511)"
  by (simp only: power_simps plain_check_def)

lemma power_3023_1: "(4 :: nat) ^ 1511 mod 3023 = 1"
proof -
  note r1 = power_run_reaches [OF plain_check run_3023_1_1 power_start]
  note r2 = power_run_reaches [OF plain_check run_3023_1_2 r1]
  show ?thesis by (rule trans [OF r2 [symmetric] mod_less]) (simp)
qed

lemma prime_3023: "prime_nat 3023"
proof (rule pocklington [where certs =
    "[(1511 :: nat, 4 :: nat, 1008 :: nat)]"])
  have b: "(4 :: nat) - 1 = 3" by simp
  have "3 * 1008 = 1 * 3023 + (1::nat)"
    by (simp only: hex_simps)
  then have c1: "(4 - 1) * 1008 mod 3023 = (1::nat)"
    unfolding b by (rule mod_one_by) simp
  show "\<forall>(r, b, c) \<in> set [(1511 :: nat, 4 :: nat, 1008 :: nat)].
      prime_nat r \<and> b ^ r mod 3023 = 1 \<and> (b - 1) * c mod 3023 = 1"
    using prime_1511 power_3023_1 c1 by (simp only: list.set ball_simps prod.case simp_thms)
qed (simp_all)

lemma run_208150935158385979_1_1: "power_run (plain_check 208150935158385979) 89709188498985666
    [(False, 38662994691918466, 182968091247875342),
     (False, 160831957778221415, 68403140478076679),
     (True, 29480483565452550, 51229439360086764),
     (False, 12608425012127902, 71670934976505638),
     (True, 30888842324025734, 56667563029401322),
     (False, 15427327757368464, 202982491100981428),
     (False, 197942380908395664, 13238548238924128),
     (True, 5705568502562226, 35749554960119994),
     (False, 6139922834716848, 5181791720285844),
     (True, 2233256025700242, 141740337589005186),
     (False, 96518054480793227, 171869456179930363),
     (False, 141911973372150052, 127291454208390861),
     (False, 77843101219591502, 183015074923970863),
     (False, 160914567229496506, 16161647893075395),
     (True, 6965370182895974, 174461904865139524),
     (False, 146225411987762336, 85309554380259632)]
    (89709188498985666, 1) = Some (85309554380259632, 2914)"
  by (simp only: power_simps plain_check_def)

lemma run_208150935158385979_1_2: "power_run (plain_check 208150935158385979) 89709188498985666
    [(True, 36766834070862226, 17370506687305658),
     (False, 1449594748849603, 62356355023896627),
     (False, 18680266840538313, 7807666190463702),
     (False, 292862731052947, 174029606068114691),
     (False, 145501646510392859, 132889431482701520),
     (False, 84840363490839461, 132012496847993081),
     (True, 56894935182236881, 205533089479085447),
     (False, 202948167581729097, 197290510986058846),
     (False, 186996737225910346, 165609903457412982),
     (False, 131763232782520048, 101238916212525332),
     (True, 43632093274199028, 131231057839262700),
     (False, 82736070959795009, 18445662471511189),
     (True, 7949738060923608, 56916321372324642),
     (False, 15563070308056827, 119019145908399531),
     (False, 68054256311584941, 9134552999077722),
     (True, 3936822749437568, 172721609590873780)]
    (85309554380259632, 2914) = Some (172721609590873780, 5969997)"
  by (simp only: power_simps plain_check_def)

lemma run_208150935158385979_1_3: "power_run (plain_check 208150935158385979) 89709188498985666
    [(False, 143322701850759954, 12941146683203434),
     (False, 804576147345932, 145933806537904928),
     (False, 102313621000249747, 9010687143587871),
     (True, 3883438865429207, 159573380234568433),
     (False, 122332689306009471, 178308904112468380),
     (True, 76847827168786765, 27239248481473145),
     (False, 3564608812690910, 196755381951440135),
     (True, 84797916637947671, 1)]
    (172721609590873780, 5969997) = Some (1, 191039911)"
  by (simp only: power_simps plain_check_def)

lemma power_208150935158385979_1: "(89709188498985666 :: nat) ^ 191039911 mod 208150935158385979 = 1"
proof -
  note r1 = power_run_reaches [OF plain_check run_208150935158385979_1_1 power_start]
  note r2 = power_run_reaches [OF plain_check run_208150935158385979_1_2 r1]
  note r3 = power_run_reaches [OF plain_check run_208150935158385979_1_3 r2]
  show ?thesis by (rule trans [OF r3 [symmetric] mod_less]) (simp)
qed

lemma run_208150935158385979_2_1: "power_run (plain_check 208150935158385979) 178020065538317618
    [(False, 152250787199935037, 108804223277547701),
     (False, 56873916968100200, 160271110383289601),
     (True, 137071080428353659, 161837891375543257),
     (False, 125829379843777924, 198856138326840453),
     (True, 170070736173748493, 75551878961421307),
     (False, 27422823780531491, 70441975211223560),
     (True, 60245153519048932, 56981033440955652),
     (False, 15598479870045867, 96674266611046311),
     (True, 82680191971618440, 27611470791354438),
     (False, 3662694662801777, 192492137209211161),
     (False, 178011320771512646, 31348348139377487),
     (False, 4721184319060793, 165903688822613822),
     (True, 141888315489801882, 186168321596303518),
     (False, 166507270023131406, 100488811194219850),
     (True, 85942562501823717, 668981317853357),
     (False, 2150055214963, 101228659585965672)]
    (178020065538317618, 1) = Some (101228659585965672, 1510)"
  by (simp only: power_simps plain_check_def)

lemma run_208150935158385979_2_2: "power_run (plain_check 208150935158385979) 178020065538317618
    [(True, 86575314207151349, 40064996568273625),
     (False, 7711730666952552, 37090189975572217),
     (True, 31721202911030995, 1)]
    (101228659585965672, 1510) = Some (1, 3023)"
  by (simp only: power_simps plain_check_def)

lemma power_208150935158385979_2: "(178020065538317618 :: nat) ^ 3023 mod 208150935158385979 = 1"
proof -
  note r1 = power_run_reaches [OF plain_check run_208150935158385979_2_1 power_start]
  note r2 = power_run_reaches [OF plain_check run_208150935158385979_2_2 r1]
  show ?thesis by (rule trans [OF r2 [symmetric] mod_less]) (simp)
qed

lemma prime_208150935158385979: "prime_nat 208150935158385979"
proof (rule pocklington [where certs =
    "[(191039911 :: nat, 89709188498985666 :: nat, 133855595432530999 :: nat),
       (3023 :: nat, 178020065538317618 :: nat, 70005499209399486 :: nat)]"])
  have b: "(89709188498985666 :: nat) - 1 = 89709188498985665" by simp
  have "89709188498985665 * 133855595432530999 = 57689276452991746 * 208150935158385979 + (1::nat)"
    by (simp only: hex_simps)
  then have c1: "(89709188498985666 - 1) * 133855595432530999 mod 208150935158385979 = (1::nat)"
    unfolding b by (rule mod_one_by) simp
  have b: "(178020065538317618 :: nat) - 1 = 178020065538317617" by simp
  have "178020065538317617 * 70005499209399486 = 59871859561029959 * 208150935158385979 + (1::nat)"
    by (simp only: hex_simps)
  then have c2: "(178020065538317618 - 1) * 70005499209399486 mod 208150935158385979 = (1::nat)"
    unfolding b by (rule mod_one_by) simp
  show "\<forall>(r, b, c) \<in> set [(191039911 :: nat, 89709188498985666 :: nat, 133855595432530999 :: nat),
       (3023 :: nat, 178020065538317618 :: nat, 70005499209399486 :: nat)].
      prime_nat r \<and> b ^ r mod 208150935158385979 = 1 \<and> (b - 1) * c mod 208150935158385979 = 1"
    using prime_191039911 power_208150935158385979_1 c1 prime_3023 power_208150935158385979_2 c2 by (simp only: list.set ball_simps prod.case simp_thms)
qed (simp_all)

lemma run_2624747550333869278416773953_1_1: "power_run (plain_check 2624747550333869278416773953) 9274061155462587152010873
    [(False, 32768183859937222229010, 1266270720206729203541245599),
     (False, 610893621616642736643597567, 2301912954953465256297096450),
     (True, 8133384681538056888314734, 2248013503723782665532377348),
     (False, 1925352673357733513259338827, 1744970194356041017568339973),
     (True, 6165530203031861069162693, 2586300114703274451494791000),
     (False, 2548415859065506250561530057, 2125449728315673936096794679),
     (True, 7509884430886917589095944, 1205592157378993366379398135),
     (False, 553749426206286234238603375, 2261404752786767841043586850),
     (False, 1948359359465288477016106084, 2618731767255041984196892448),
     (False, 2612729772034040065014346855, 570795146607013269607964889),
     (False, 124128927884389847886394812, 1569309312985778391540850485),
     (True, 5544864891336245550150785, 1945408099571766959976820300),
     (False, 1441895878099983068586000044, 656293638469207707696036068),
     (True, 2318892473422931250605386, 1811330392256897828969856506),
     (False, 1249993657293324409116514205, 342365288667786725432025671),
     (True, 1209684574887508643586091, 1711089712534083060165233060)]
    (9274061155462587152010873, 1) = Some (1711089712534083060165233060, 1479)"
  by (simp only: power_simps plain_check_def)

lemma run_2624747550333869278416773953_1_2: "power_run (plain_check 2624747550333869278416773953) 9274061155462587152010873
    [(False, 1115470325505228009763417017, 392859456549103533154405399),
     (False, 58801294082710933979758475, 1796976253660493349629347526),
     (False, 1230260660995361439381823403, 1541403170023242006466098617),
     (False, 905200857223575938899369381, 270072481182505760642779596),
     (False, 27789013493048895425255432, 119607449558026110604560520),
     (False, 5450406835490154869849046, 499952733341149846927971562),
     (False, 95229248063682454127648071, 438275756352106332737225181),
     (False, 73182519431850685798005668, 2089271074582529665731717157),
     (False, 1663037507181214857999219573, 594690445107688101493980580),
     (False, 134739329676636853031987444, 1172847950609207098934890268),
     (True, 4144041821707837114488927, 220122418689522986117365533),
     (False, 18460396011632547031511721, 1422387307400468750809370976),
     (False, 770811521281963021075082414, 1001771725499119877307630034),
     (True, 3539575546955120250146399, 1684413776997049903489414435),
     (False, 1080961013479779298782860173, 1237603900470860282238895356),
     (True, 4372845021893946564305708, 473708283672591566997582064)]
    (1711089712534083060165233060, 1479) = Some (473708283672591566997582064, 12115979)"
  by (simp only: power_simps plain_check_def)

lemma run_2624747550333869278416773953_1_3: "power_run (plain_check 2624747550333869278416773953) 9274061155462587152010873
    [(False, 85493760339537698436594211, 1023550909498223475239114013),
     (False, 399145610861272355925818259, 1249836059932912608649956342),
     (False, 595139207391555969073642092, 97791538487145979715991288),
     (False, 3643468492223761182200318, 1243493290078641444721181890),
     (False, 589114012992951359164582900, 113812231862709445634768400),
     (True, 402134520860947056301868, 2214314123698948036549168996),
     (False, 1868060430340796835383124170, 1385652440399406108346904006),
     (True, 4895947220084256684051340, 1025612775772757717772510218),
     (False, 400755328143653704152545037, 260560584930054652833386263),
     (False, 25866037444422549740564498, 1801306570209216981074184575),
     (True, 6364584392023492508820696, 59551806837762223168752687),
     (False, 1351146207257546452092672, 1980211498511513267337947553),
     (False, 1493948466906247579637940583, 1497276532918083971022653210),
     (True, 5290350354324558483521342, 1825390753317626536163147404),
     (False, 1269475002223986604037211289, 1431867353030928513419183799),
     (True, 5059239086376152471376658, 236853469163531064126857453)]
    (473708283672591566997582064, 12115979) = Some (236853469163531064126857453, 24813525099)"
  by (simp only: power_simps plain_check_def)

lemma run_2624747550333869278416773953_1_4: "power_run (plain_check 2624747550333869278416773953) 9274061155462587152010873
    [(False, 21373318682653448403526821, 1319738745945808147051953796),
     (True, 4663053343007435897861379, 2006269439336149971713762721),
     (False, 1533525409977882455548902960, 1169575476923793452436722961),
     (False, 521157471333774724992658304, 1426004741806567079328251809),
     (False, 774737183161158906676228974, 284822503722270259484658259),
     (False, 30907299491070544304551952, 1272846396464331381088004825),
     (True, 4497367878605641302714488, 1141185193560933527482331161),
     (False, 496163391346741749509997679, 397405532393289735173952834),
     (True, 1404159120165949527918611, 1200583986277270953788424799),
     (False, 549158302070641134165695720, 1550843275262010035458609241),
     (True, 5479618554358991057346648, 1945642750205248456912017849),
     (False, 1442243735381226270346797377, 2572839912983993615192265520),
     (True, 9090655096789596985755397, 1133268645975879057044224619),
     (False, 489303370828420788859382762, 2272276034778875232066896975),
     (True, 8028668092651727927538299, 1819589292675422172137683228),
     (False, 1261418529030684979357115770, 319942862389716505130961174)]
    (236853469163531064126857453, 24813525099) = Some (319942862389716505130961174, 25409049701950)"
  by (simp only: power_simps plain_check_def)

lemma run_2624747550333869278416773953_1_5: "power_run (plain_check 2624747550333869278416773953) 9274061155462587152010873
    [(True, 1130459068979245724251336, 2210494923517753540118593694),
     (False, 1861622008667546208832276508, 1664769056706905366028369512),
     (False, 1055894313270725339590243421, 2211815924756194424408704931),
     (True, 7815043449876076756042978, 1904451270433438909781762729),
     (False, 1381822278867996831712282539, 512854580548257692021620774),
     (True, 1812077029373228047812356, 814210471709097850118312434),
     (False, 252572363447458205201652578, 1971920158561455040973303522),
     (False, 1481464040702283410173107304, 1164904945113448648556351772),
     (True, 4115976677417496047312234, 879208981799728139767375954),
     (False, 294507726496968291365643166, 535204821654236048096154918),
     (False, 109132095803082761759788779, 973640035823397928386713337),
     (False, 361168036612741933803736339, 422886813856537914838897502),
     (True, 1494192526456645723895674, 1946225211733846219023959924),
     (False, 1443107385434704120405196894, 2212115574176144386702383794),
     (True, 7816102205810704204402111, 707819287696565783903977379),
     (False, 190878602390369032352443863, 2473375982634366783750609202)]
    (319942862389716505130961174, 25409049701950) = Some (2473375982634366783750609202, 26018866894798246)"
  by (simp only: power_simps plain_check_def)

lemma run_2624747550333869278416773953_1_6: "power_run (plain_check 2624747550333869278416773953) 9274061155462587152010873
    [(True, 8739217651802639540525813, 1880464607385245832295304557),
     (False, 1347233237413155015828225293, 1293431710853162151046773020),
     (False, 637381522816446081262324101, 2543631188804192631858979147),
     (True, 8987451459440909264620979, 1961453858274210751559705344),
     (False, 1465779532835227861145406199, 1262578066725016388754223689),
     (True, 4461086630165291582268032, 1)]
    (2473375982634366783750609202, 26018866894798246) = Some (1, 208150935158385979)"
  by (simp only: power_simps plain_check_def)

lemma power_2624747550333869278416773953_1: "(9274061155462587152010873 :: nat) ^ 208150935158385979 mod 2624747550333869278416773953 = 1"
proof -
  note r1 = power_run_reaches [OF plain_check run_2624747550333869278416773953_1_1 power_start]
  note r2 = power_run_reaches [OF plain_check run_2624747550333869278416773953_1_2 r1]
  note r3 = power_run_reaches [OF plain_check run_2624747550333869278416773953_1_3 r2]
  note r4 = power_run_reaches [OF plain_check run_2624747550333869278416773953_1_4 r3]
  note r5 = power_run_reaches [OF plain_check run_2624747550333869278416773953_1_5 r4]
  note r6 = power_run_reaches [OF plain_check run_2624747550333869278416773953_1_6 r5]
  show ?thesis by (rule trans [OF r6 [symmetric] mod_less]) (simp)
qed

lemma prime_2624747550333869278416773953: "prime_nat 2624747550333869278416773953"
proof (rule pocklington [where certs =
    "[(208150935158385979 :: nat, 9274061155462587152010873 :: nat, 2035673288804527262494271578 :: nat)]"])
  have b: "(9274061155462587152010873 :: nat) - 1 = 9274061155462587152010872" by simp
  have "9274061155462587152010872 * 2035673288804527262494271578 = 7192675947259547095846255 * 2624747550333869278416773953 + (1::nat)"
    by (simp only: hex_simps)
  then have c1: "(9274061155462587152010873 - 1) * 2035673288804527262494271578 mod 2624747550333869278416773953 = (1::nat)"
    unfolding b by (rule mod_one_by) simp
  show "\<forall>(r, b, c) \<in> set [(208150935158385979 :: nat, 9274061155462587152010873 :: nat, 2035673288804527262494271578 :: nat)].
      prime_nat r \<and> b ^ r mod 2624747550333869278416773953 = 1 \<and> (b - 1) * c mod 2624747550333869278416773953 = 1"
    using prime_208150935158385979 power_2624747550333869278416773953_1 c1 by (simp only: list.set ball_simps prod.case simp_thms)
qed (simp_all)

lemma prime_337: "prime_nat 337"
  by (rule prime_nat_by_trial [where m = 19]) (simp_all add: upt_rec_numeral)

lemma run_104471_1_1: "power_run (plain_check 104471) 41739
    [(False, 16675, 90196),
     (False, 77871, 57175),
     (True, 22842, 100743),
     (False, 97148, 3341),
     (False, 106, 88355),
     (True, 35300, 23045),
     (False, 5083, 45932),
     (False, 20194, 61250),
     (False, 35910, 8890),
     (False, 756, 52024),
     (True, 20785, 1)]
    (41739, 1) = Some (1, 337)"
  by (simp only: power_simps plain_check_def)

lemma power_104471_1: "(41739 :: nat) ^ 337 mod 104471 = 1"
proof -
  note r1 = power_run_reaches [OF plain_check run_104471_1_1 power_start]
  show ?thesis by (rule trans [OF r1 [symmetric] mod_less]) (simp)
qed

lemma prime_104471: "prime_nat 104471"
proof (rule pocklington [where certs =
    "[(337 :: nat, 41739 :: nat, 27776 :: nat)]"])
  have b: "(41739 :: nat) - 1 = 41738" by simp
  have "41738 * 27776 = 11097 * 104471 + (1::nat)"
    by (simp only: hex_simps)
  then have c1: "(41739 - 1) * 27776 mod 104471 = (1::nat)"
    unfolding b by (rule mod_one_by) simp
  show "\<forall>(r, b, c) \<in> set [(337 :: nat, 41739 :: nat, 27776 :: nat)].
      prime_nat r \<and> b ^ r mod 104471 = 1 \<and> (b - 1) * c mod 104471 = 1"
    using prime_337 power_104471_1 c1 by (simp only: list.set ball_simps prod.case simp_thms)
qed (simp_all)

lemma run_3969899_1_1: "power_run (plain_check 3969899) 2100184
    [(False, 1111054, 670310),
     (True, 354612, 512852),
     (False, 66252, 3425356),
     (False, 2955506, 3412842),
     (False, 2933951, 1376015),
     (True, 727949, 679609),
     (False, 116342, 2403423),
     (True, 1271475, 3198807),
     (False, 2577487, 3159436),
     (False, 2514430, 2695526),
     (False, 1830238, 410714),
     (False, 42491, 1011387),
     (False, 257664, 3607833),
     (False, 3278788, 1753477),
     (False, 774498, 2753827),
     (True, 1456849, 15917)]
    (2100184, 1) = Some (15917, 6529)"
  by (simp only: power_simps plain_check_def)

lemma run_3969899_1_2: "power_run (plain_check 3969899) 2100184
    [(False, 63, 3247252),
     (False, 2656149, 2292553),
     (True, 1212822, 2284774),
     (False, 1314943, 1330319),
     (True, 703774, 2979870),
     (False, 2236738, 1267438),
     (True, 670509, 1)]
    (15917, 6529) = Some (1, 104471)"
  by (simp only: power_simps plain_check_def)

lemma power_3969899_1: "(2100184 :: nat) ^ 104471 mod 3969899 = 1"
proof -
  note r1 = power_run_reaches [OF plain_check run_3969899_1_1 power_start]
  note r2 = power_run_reaches [OF plain_check run_3969899_1_2 r1]
  show ?thesis by (rule trans [OF r2 [symmetric] mod_less]) (simp)
qed

lemma prime_3969899: "prime_nat 3969899"
proof (rule pocklington [where certs =
    "[(104471 :: nat, 2100184 :: nat, 2243650 :: nat)]"])
  have b: "(2100184 :: nat) - 1 = 2100183" by simp
  have "2100183 * 2243650 = 1186951 * 3969899 + (1::nat)"
    by (simp only: hex_simps)
  then have c1: "(2100184 - 1) * 2243650 mod 3969899 = (1::nat)"
    unfolding b by (rule mod_one_by) simp
  show "\<forall>(r, b, c) \<in> set [(104471 :: nat, 2100184 :: nat, 2243650 :: nat)].
      prime_nat r \<and> b ^ r mod 3969899 = 1 \<and> (b - 1) * c mod 3969899 = 1"
    using prime_104471 power_3969899_1 c1 by (simp only: list.set ball_simps prod.case simp_thms)
qed (simp_all)

lemma run_1002328039319_1_1: "power_run (plain_check 1002328039319) 221842812587
    [(False, 49099926936, 43770435985),
     (True, 9687603505, 205113530100),
     (False, 41973843472, 111238534432),
     (True, 24620152663, 11475939087),
     (False, 131391293, 832256144102),
     (True, 184201216126, 650306553680),
     (False, 421916375846, 859251653526),
     (False, 736598573645, 400271084921),
     (False, 159844816406, 302889308727),
     (True, 67037749633, 526942726822),
     (False, 277023715249, 209786344253),
     (False, 43908090473, 994872820122),
     (False, 987473052125, 701431592009),
     (True, 155246138095, 45570059978),
     (False, 2071807117, 968757327161),
     (False, 936310990128, 294983477089)]
    (221842812587, 1) = Some (294983477089, 3876)"
  by (simp only: power_simps plain_check_def)

lemma run_1002328039319_1_2: "power_run (plain_check 1002328039319) 221842812587
    [(False, 86813147335, 114567849056),
     (True, 25357021723, 42031741235),
     (False, 1762563953, 61163257218),
     (True, 13537114074, 393188727360),
     (False, 154238302490, 283876965290),
     (False, 80398959483, 376752872023),
     (True, 83385791378, 838469361919),
     (False, 701397988780, 707646521741),
     (True, 156621673286, 813704021733),
     (False, 660576387181, 898200753550),
     (False, 804890776303, 54020144843),
     (True, 11956146489, 198127737850),
     (False, 39163426508, 780931754448),
     (False, 608437937663, 180632813207),
     (True, 39979018600, 107247103109),
     (False, 11475226347, 142236728188)]
    (294983477089, 3876) = Some (142236728188, 3969898)"
  by (simp only: power_simps plain_check_def)

lemma run_1002328039319_1_3: "power_run (plain_check 1002328039319) 221842812587
    [(True, 31480907045, 1)]
    (142236728188, 3969898) = Some (1, 3969899)"
  by (simp only: power_simps plain_check_def)

lemma power_1002328039319_1: "(221842812587 :: nat) ^ 3969899 mod 1002328039319 = 1"
proof -
  note r1 = power_run_reaches [OF plain_check run_1002328039319_1_1 power_start]
  note r2 = power_run_reaches [OF plain_check run_1002328039319_1_2 r1]
  note r3 = power_run_reaches [OF plain_check run_1002328039319_1_3 r2]
  show ?thesis by (rule trans [OF r3 [symmetric] mod_less]) (simp)
qed

lemma prime_1002328039319: "prime_nat 1002328039319"
proof (rule pocklington [where certs =
    "[(3969899 :: nat, 221842812587 :: nat, 718861591819 :: nat)]"])
  have b: "(221842812587 :: nat) - 1 = 221842812586" by simp
  have "221842812586 * 718861591819 = 159103877307 * 1002328039319 + (1::nat)"
    by (simp only: hex_simps)
  then have c1: "(221842812587 - 1) * 718861591819 mod 1002328039319 = (1::nat)"
    unfolding b by (rule mod_one_by) simp
  show "\<forall>(r, b, c) \<in> set [(3969899 :: nat, 221842812587 :: nat, 718861591819 :: nat)].
      prime_nat r \<and> b ^ r mod 1002328039319 = 1 \<and> (b - 1) * c mod 1002328039319 = 1"
    using prime_3969899 power_1002328039319_1 c1 by (simp only: list.set ball_simps prod.case simp_thms)
qed (simp_all)

lemma run_order_1_1: "power_run order_check 87100853353288773503221377379439407917267979139877395891460378271501865302703
    [(False, 65518799311832325030846166508389095140620151955677005097057111205800769661160, 66386774443674632795348814888143091457303300480279567486967123123430803098169),
     (False, 38061355063979262664472905897264701402890066988586732804058302112668825872024, 95407197016289744818123534278275699098734732020118204344815588354765647319705),
     (False, 78611011378927703092370003188206140694909541337628911854422307027940275251144, 15072792665147495272773261688649497362988721726933097232451972839000135278889),
     (False, 1962043178215707730052981471341535040262757455659937107466066144906101627294, 22462966593530157671378121693892731117077545076995050521604181080388179666835),
     (False, 4357679972984913013757104379730550268681552782327805932514952612233000997351, 25182795797145931924795783192040251380499897907971541384767853436598635450706),
     (True, 18942943500814275328691914324361263590401869347274820838032787338472535594551, 46982269703307845198482082548949415639188700493728677447093252558503618424999),
     (False, 19062905605445609732577465094301344245492044403457017210107707620863160617626, 85900729206174939686208652998371430507573489256980312361416213384107432702007),
     (True, 64616044744949930005528626083348360908002726063187189217519893404781489666821, 24960262034937331068011595836533173341208796901717587859379400477788871443972),
     (False, 5380459797395317185258256785086757297826734960949859707212961653347483493944, 76030039897964072075093157835964967968565458253027771947798291306881864335448),
     (True, 57191138019513145926509164229222912531912125188268494685153980020155662590916, 76328958529752053317681275124988212857777331436401751809693002587159964763940),
     (False, 50315267217024453799856359207008205371821454807852810460589558480401519840001, 11343462399800226940244550172605102105190717810197626963035707988197631319231),
     (True, 8532752640887469241850560861444670494168022261117325388001420255748556517437, 49338182828922703239561654018103628459675224400987918749498044927111174019140),
     (False, 21022647587245427399886468171492521376746692929710437243930143723396722559688, 5839988159296725271949422596945436476966843731922178684841015725213579542728),
     (False, 294540515965365435140441598545943236634244913400444990385138327443584027965, 64791250057576908879711193871499369225058948827666091253615096538583760902899),
     (True, 48737121925394324645026677515330812417575884436732363156477951547477164791714, 71578259731726698543705319928322578350348442581176152279545247304349013677531),
     (False, 44246954184537637326348001080589295937793070514356920312477417554105439835861, 29325196105216031250340997569935770673679659227336315563545461291943944939252)]
    (87100853353288773503221377379439407917267979139877395891460378271501865302703, 1) = Some (29325196105216031250340997569935770673679659227336315563545461291943944939252, 2170)"
  by (simp only: power_simps order_check_def)

lemma run_order_1_2: "power_run order_check 87100853353288773503221377379439407917267979139877395891460378271501865302703
    [(True, 22058930130163061848146038493918753302307637478321382544955944108660653272429, 30441579961033616360178752637779115132152906666648567663963612203489233995855),
     (False, 8003049231113811383379293204078699755081832640666350106715429066427989424849, 109588736904228842461269163320476422521183286372586641957353273222532678055744),
     (False, 103717718007891009958459309695627572276311622343242766651919070372765828342635, 75262202490422748160560264237733591126936316698821213988095719014561117021221),
     (False, 48918705607073387453906372427438630731180304975236197380812814140787206976127, 79709129703412927751665910077865897481201960910503125347234530008928816551978),
     (True, 59958614310884178804982390999804477768309658726705388267154556690761078669832, 4197459976496321767981671772376286714798453429954765146472899718166217620526),
     (False, 152157806068091204265620581013402101816218611769330132644892562259218416194, 41998099943980458546352763705032873370536354490413109455653819865780100405090),
     (False, 15232822992771569156712868528521240691441098713965461439944592549703480446350, 83647912254145505551825225599927054287439168913508073518811300237526973804950),
     (False, 60427040156137267207444498703118056233371036285588465658395305777543693864639, 21772260984055395703171782099819376850067294022129352110834095534180396334709),
     (False, 4093814625769998327457902751180022337033683100838034404611367878301711640137, 39665624248685355219368130031315023680355590830325869283027225173731652876128),
     (True, 29837182698853982011624919383715642111000741580447598278143747888798301658645, 35999652474967833171114676694543736113797778880171909455483995784566750153979),
     (False, 11192258358548969203029970484214964331758445181201583132472718989032722628542, 20150709529650857609935458520495652661733993320935404601303949925680399752443),
     (True, 15157719388915394336715845057115265481861824308245987524007584037935864546459, 24144510581816682170783088458375648255616358949048885404158195064479388914058),
     (False, 5034518292319740063500172642888924737293844184403164429522949845630036908798, 92026813733562298726396401018432156578945666074978694226452442213032327568902),
     (True, 69224193658132287426841008998733686870407187090612425497240960446006537208269, 9426419490854404535956133687904027725405935891238317451617133847679197654845),
     (False, 767387349373540424499338029129004272333569129159947392286125192349857882890, 43259675999320073375477984006343511205271489716356953853114042843543666027615),
     (True, 32540691864384844237834155658619266596709221852426811519381060955273907572768, 4470361887538435940527919741186225990841324127198991895160442790853219999953)]
    (29325196105216031250340997569935770673679659227336315563545461291943944939252, 2170) = Some (4470361887538435940527919741186225990841324127198991895160442790853219999953, 2223247)"
  by (simp only: power_simps order_check_def)

lemma run_order_1_3: "power_run order_check 87100853353288773503221377379439407917267979139877395891460378271501865302703
    [(False, 172586361830397481828831425870102426998592106108015893362557829871798913859, 28189363445393036468553017775402736729494621774662182982076478892643502992238),
     (True, 21204536754831594977385786201403972811521974222696135162428515198745553248359, 74798708765071977529022063509109822782279472655545997517961401371786244978843),
     (False, 48318040300301117916187815684248228770368877927737117967363668673636184337797, 75252320655408633706836374752728480541687748011163045681387883729818569903556),
     (False, 48905860518129071299459921499531418650154982017760701772516982763302168111497, 76709198788332740189880367028277383725401818298003932334767076729899738434743),
     (True, 57702013324700168468950583444252553848536667792197010868220823457850948284309, 16482275052545667340921511811785665469495266533326075997908725653516472504308),
     (False, 2346148107011372480477534167222064190706836213148778478009511082540120595605, 23085615794151851872011002547332374096400874850972598358495083580476612160619),
     (False, 4602608522133200094063003697334246349735139473830931511650913832500527556940, 9900047796285449200574969762610028459744185894274866322957812152931000592301),
     (False, 846439053281806108701572343876160703768618864652487115836253409109425647059, 102995292658349255468205003590388924195645804842242950102869756062400078113830),
     (True, 77474877110271443680417975425509750907380972611000002746647792081812269640398, 40945057677820238313859313495625775618610483412054410205904905408598789863628),
     (False, 14478517139408198200630553078722844226186621243245678507103795297367388538872, 35334780884807741958332530584122883207331780186268707771887909570778292110616),
     (True, 26579445876713373204251295656043987864530223904645654191687431157018902441968, 104745509433263536710206640626665123579504065623556283737546476407861536116856),
     (False, 94752774747004195595626581719328692445820869056034228925096250058705458635815, 35324405861489335351525770140258846724391313281339565285512406956863794849001),
     (True, 26571641601043454103278020503259634620363935490933679743291574204463507868036, 39598717393343517800674786886123135572779423167213116406304919613916013260419),
     (False, 13542016815580886420132939531341905877923723033071714827163255064664308549778, 104781154958431572962383709474700787161588346624814645890464579046350330955479),
     (False, 94817275595377185020957714832882912566280877430360891660995867797706782306139, 80515803904812646199095111105636370319710342103929430162322303145409771038150),
     (True, 60565408883804917628780159172364199752448993196851423103302159870165356580365, 30278434011217161816964248652456154951775534494969795595179679019399316904765)]
    (4470361887538435940527919741186225990841324127198991895160442790853219999953, 2223247) = Some (30278434011217161816964248652456154951775534494969795595179679019399316904765, 2276605597)"
  by (simp only: power_simps order_check_def)

lemma run_order_1_4: "power_run order_check 87100853353288773503221377379439407917267979139877395891460378271501865302703
    [(False, 7917497407842232929300514920793914717780996472785926645352664479056138967023, 16310276008659308941611909329602500733684772678513436137930831947590475861738),
     (False, 2297437634062954639510562173767555643176649826133475985332472947327726418498, 60699976806468771109397868950935464115180772088561850797164528321205254042882),
     (False, 31819852370159259945662069924263536247149158744555702205093881409957645034853, 61346044534063074059133431724420090706749987672407418174021636291804607473167),
     (False, 32500814223487241891378136983058850838145730537672132951458970324931817618050, 24262261110516290496401654650869019055524738694068930917992306472527129749439),
     (False, 5083743787759748499753519856839997646260028557953748942554044606368291397812, 44211359318597329441719677323357390864570702114902265537599816426006147294093),
     (True, 33256564855332878887538518370820391558632183676811771679326715027755419588060, 25912019156628040486903024076824072266140121256446527739849781334409386199239),
     (False, 5798606289534041306336386058885656524695933010948538787333373612434603262141, 45708454867613643183617772397485403392214750717692580699842611371637874245092),
     (False, 18043226101475447022390986163974507963185368211273491788037528725330103311680, 31123443683626588171718162507474997910266172118279138938088650074514890158544),
     (False, 8365586572741790310887709584121220606825131812488555561586841424037006779782, 49550185997593811765448988075282374293707817323291440907134883581087260052378),
     (True, 37272524519046313695024605422886174461771289777846559620118094734159851592131, 68087271337998499121119311369954724758772780258561005271079429272030241717395),
     (False, 40036211021569571679285206264720974186480462357610403679997523356729407350692, 108642452824974845897496121540892255159469559727250283604283143001313998732677),
     (True, 81722770665782117588225546048146651478183814439081128856594964048696068470636, 66012899332576610403674197955529978758590945792093245047026009741225376877247),
     (False, 37633856578719955548211044723338325293733076877049879342663237096460980266995, 47011642666002115402855859565873739206328375404717843129221858227014399997854),
     (True, 35362987417126903644751561010844080572827554729276159022678716171551204795415, 19182049422007765349073965903102334909331548967749043135252013483042212631227),
     (False, 3177687029723611959266876846315432133082671136561318811676768613546994568452, 69414960039600043565313898843780261056009262196244683767483523604721263878741),
     (False, 41612831326894463260066288337061927964211514904930562223773080697165567053545, 12379782852299687213175387756077735944697777402587402117482984147992313006976)]
    (30278434011217161816964248652456154951775534494969795595179679019399316904765, 2276605597) = Some (12379782852299687213175387756077735944697777402587402117482984147992313006976, 9324976525468)"
  by (simp only: power_simps order_check_def)

lemma run_order_1_5: "power_run order_check 87100853353288773503221377379439407917267979139877395891460378271501865302703
    [(True, 9312291177377544579637333869317012219271863197556609417415322961254394429328, 48708457196044439751179333972364024062669875022040994892736855412788019802096),
     (False, 20489429101748167966114255127887376223360026017147140939996889656861700640655, 88639599890919404687483086019440312734184371234037749471203551055067920771521),
     (False, 67854192133529312346539214164235380185846463248759834681049155117869443085390, 4576190021159035671498035750842984360105547446801305070481312308447948984531),
     (False, 180854454329014400648164535217448840057176490549204383176193025253571377824, 65672062986329177527203509984683015692845054900640921367282624861167726616905),
     (True, 49399684957654308054872216680602314709777175265643351832115087400567003539153, 102656754384656855128260187153462793449201521494184565294355802337547577314758),
     (False, 91011478354509445542430296161560229587148434701356602616758837800144873311844, 92631635522398443636935113763485664624162753150824805954395361076641703392128),
     (True, 69679151283420381741331596506952863953281844737283140033436015575113041506571, 114590067937319070700408389698351708558632731283449014973080564532129670273285),
     (False, 113400524676818734341210622071175227243739044069681295765071410971269521308881, 76018735714622634435470169337421342688256264429883914363217786101360558950136),
     (True, 57182634813273274503526666410473521502488744392708439801620854093299329749108, 111131177299988301208717580940179048362790337529957718626501439554430588844756),
     (False, 106657878377557243073942945525233933709901561618776325451606248280567393877163, 24493081947087995222267887592259374426261534299996323191193537126416276854389),
     (True, 18424128568643109616052077453432215290681552463883328825041279123515916243221, 93274646873052715533313319825685067910985185837094627320117182118943191640918),
     (False, 75136046068633807321491692089773273802419813840100022528554795258137556055600, 34472179441104432097617233855460479955135225009871926489193039759097620966324),
     (True, 25930581844958625518658582851538203374209736841288508255298457483769478328624, 73973096876368191695205966760813416058181919659039204895939831512682178455516),
     (False, 47257278962638713512975285248971689650292144460578082363493015275976677732688, 18912037141841657233564810137687806011210223863360559698468674955060613192384),
     (False, 3088856512508709387447757670721443871232169330960134205569279997159260285571, 104320498804300783568078055470278339261378681117804056503067301055719833103757),
     (False, 93985405609252838090873200624761343316876960347906052892391854912169636891328, 111133518242674321799730130500577701925267416417277236777803740773152760183017)]
    (12379782852299687213175387756077735944697777402587402117482984147992313006976, 9324976525468) = Some (111133518242674321799730130500577701925267416417277236777803740773152760183017, 9548775962080504)"
  by (simp only: power_simps order_check_def)

lemma run_order_1_6: "power_run order_check 87100853353288773503221377379439407917267979139877395891460378271501865302703
    [(True, 83596594042837873430332912203482676104988158350692562705502196762582445827672, 84032801934682118698653592468299971429948867638464970600900044958789392815983),
     (False, 60984406181367570922934078822728882780427316396381885199217708332940397494804, 98542952281222481013170963479079741272971896034320096549379988913062405297613),
     (True, 74125748090217790464564102150466365349721256891070797148671874765631154982546, 45341749332559287622960932001307514400135422850429957651482836779912075764465),
     (False, 17754876404395739047076566153365907608201312344329062208136814180856614968264, 36927844097584443908439246954725117683418827712794909491510481357561461830809),
     (False, 11776846579028114639677610289131172917599254829092059973341458541450682208992, 79449248738134217122281350223903652045519616725770652921994001441615306828433),
     (False, 54513077431280776139684207965931325787341843583741846917943659888833153262798, 8255404239422577124218840011971270720122797775496867323533720365283604151027),
     (False, 588569561366726651086923408490441239830172482797344649852124447546862163067, 107202160958800132870177419687335385424334614538239249699381910379971808035006),
     (True, 80639357701415306557187621739325684932072384554513816027306617268892524031085, 114104490021635357053169883111218895122274502334732560843385821625399555210853),
     (False, 112441486563427605548457750083675692618429570692993237329083967541009569133831, 96120255340100075202425712098055443469088751251119741810423738528182918039970),
     (True, 72303352688017112542103553287396416897884519540888341132119101529538676355328, 8962122245748700521213114633770724995275955794043501245668164987620357490878),
     (False, 693653907581106834329816753070235519885356707130720200363733064822942761383, 3948990794503477688152483568490244768915604361437700920591944700428377408557),
     (False, 134676974924798746029722975590716325847877917169923686408326542031206904851, 53483577658279706334600233611451113033995771750112028573826804203240023488230),
     (True, 40231291154615484980379875221104738995444038408583644814798459404327602845640, 69196255056698476513023674603740379840592334153176587631870990803480569484530),
     (False, 41351026192931217680985564369623551215746935540127185233912250032867816043075, 21969296503343716242319423129974746143808955010006119723062011011145494126225),
     (True, 16525692610454399415406275370723627243283488396410460845559543570539982780918, 66696077365464612174451174813549163485395849465497491176746393834668093135433),
     (False, 38416844935398113185266652370529698625637007105077758453143464543102373187368, 25181262817213567177431640690075051032975586413979889387187831686544513766697)]
    (111133518242674321799730130500577701925267416417277236777803740773152760183017, 9548775962080504) = Some (25181262817213567177431640690075051032975586413979889387187831686544513766697, 9777946585170437686)"
  by (simp only: power_simps order_check_def)

lemma run_order_1_7: "power_run order_check 87100853353288773503221377379439407917267979139877395891460378271501865302703
    [(True, 18941790366250480842338895088199006082075783243779096310729488682533246134282, 69380183078226958818038384443532428532093647221395175998341310822814509523933),
     (False, 41571145635204320307132782943585518342833186307838821208454071458800833610967, 89029871013628316045891490325856872277487388685395236230003580553804710793666),
     (True, 66969840445081964725946570009914979263032646838974990054579395477002134976331, 95137581028993841031516304103725074940117021886567588801682916499442228249059),
     (False, 78167337559696162794761091749734788536326426527840735574563889313526702593018, 43162669028206646747118212766337862096703885381632892942518237130672368769839),
     (False, 16089320180189687024650926267895871025226931429826353806752491831318812559322, 43498181661867871786519853545379835277576664338160013087128540304146847528103),
     (True, 32720100033623116969838585905388127800968056206272354422415898809385094012662, 21565776281799713870893981403752422955596022919460749685892305782864202562131),
     (False, 4016532647508694234334343175750696855541279986756884937173956211582981824633, 40869318110796250671235381425432645120814643993002569459423499170208242119584),
     (True, 30742622468366301538693811287758542262983025586233728017932253260045697217089, 43311730739660212166970617847856034576555703066506161830775914020797091413711),
     (False, 16200640583113768408805461726352934749041276825405477344928689379943180290658, 114885873838617624720086225292133202154485926777755197272684559341273346586719),
     (False, 113986750715629115840530644735513019369378928473827354952893005002481397174268, 54001352119440749126746504887940227684004509608926476678430860180367346088069),
     (False, 25184328658498828737182932297602149555817524048074029090849655268859471370569, 51532749606353551514094034636814284782229393896259702775049830984288935372800),
     (True, 38763843859838591202510593948549819374938453487398916304889023336839534650308, 45712956705571715780462260709984245537288640206946546072913345900661557162748),
     (False, 18046780440840142876132481600578565018777399973566339717175102494409800340891, 97308113161278746888193290047414952137723801285092977269454567208628241918725),
     (False, 81774747753332275562395786333651679549037222328318819486135654139761164943499, 29778709592936407928201272739754785894962088846837631589298993932138639518494),
     (True, 22400070980605011715447865444323761978698169149781292517801923536398748750529, 30960246357067006791695123178458321045621134556229069726063551844263316468081),
     (False, 8278085843575494868356852397898530267218617805101153136799225616799804932869, 72126961917174455772256878928054182750773727776407652648103341730386297357900)]
    (25181262817213567177431640690075051032975586413979889387187831686544513766697, 9777946585170437686) = Some (72126961917174455772256878928054182750773727776407652648103341730386297357900, 10012617303214528192202)"
  by (simp only: power_simps order_check_def)

lemma run_order_1_8: "power_run order_check 87100853353288773503221377379439407917267979139877395891460378271501865302703
    [(False, 44927927899726067355994106258297405815898939463247212740889930164516992482911, 82501915429380609192881476353785657319466294666531337152098917705882786131841),
     (True, 62059397029492497336955881772795419815199701897599361424341971201951952513969, 46874182920210477487703213064529397063862549851106338952096659652168711375662),
     (False, 18975294766862525647971380148260980538781609217473296752367975969482866764254, 10884890410015241356726157816129911436701676371232276430385544293878974752518),
     (False, 1023220498447013451712723503737615269604294080678077338820724680397433875263, 36153039041556815696100338639724887249942228181531659937133332853317079796277),
     (True, 27194954105316602290780801295398153715653906455271146536050561357635227662707, 34386008897566512177212015789689914058992179974352654755724313993764026789848),
     (False, 10211385043372822211935755983937812545209931940735112974441461573797308870964, 50729778386890833951866013197679944790498251102859157685851823749157092061388),
     (False, 22225269728986684185150129377905019939280462471570514739175372388958329536313, 49541950686122636874760396107311543419290775448051559161503141998131707815047),
     (True, 37266329772395993245992635635641685260846469876640668253696486178984337170794, 61353930211111578030147626650361073776718074763300461074646198762418934213055),
     (False, 32509170341606350002224053728702302350558680867581188021760016174600223939408, 109773357683947891170310664097141832174832778290788891782165181425955268839473),
     (False, 104067472479201220668158220298297443939859622711449716004178010282548122977538, 52837375641916230758592613333880675064294668594044260353236134085340396534207),
     (False, 24110354029913036531709350907944004638687541490275594702734256969665109900899, 47279932492910712650917562820810992744823948858782545746793799249483840131118),
     (False, 19305222245996616074322572794064147039846688168194007720635024996758479409845, 101614116939346757483754923987519880551752548910699798912836255195009856517119),
     (True, 76435932355268265199018812238076941714541388341362472674683684750839379605476, 63411204868482185224623092695350567005670153265803915542142553722718809108013),
     (False, 34725868842109025987937197832527286099588518830849240795430773802297753128121, 92320495487095264092594444757292106071056631879162305234980231690610207207520),
     (True, 69445106256924258162725615854402398002212742623597786063840237993862110790322, 18929459760202210432036615344789611412486293155066023212624789127042618129742),
     (False, 3094550320809539319907449774123193681405291240723841687662429801700475837370, 18219417090205270408698880036961711710817408370869018412074353662400076717034)]
    (72126961917174455772256878928054182750773727776407652648103341730386297357900, 10012617303214528192202) = Some (18219417090205270408698880036961711710817408370869018412074353662400076717034, 20505840236983353737631046)"
  by (simp only: power_simps order_check_def)

lemma run_order_1_9: "power_run order_check 87100853353288773503221377379439407917267979139877395891460378271501865302703
    [(False, 2866751618099097995951711074011811329413601090277355535016190277415612777615, 75491740519538286152998158602226688660871310043979178195936135740421095757221),
     (True, 56786219725524566233360786996158198288003188935059090184937971168703253053387, 48749565470566314469336781136437832494204376293959766822752452780381293340560),
     (False, 20524028452856341979093883237742081266521335673450578887397565526542634585409, 99995403161571070765082161145015376585975405803474498309099656320708813101679),
     (False, 86353745939241908247385394576747579468799018363659897256900879324560765608803, 65460144638868422084210726607264581539226157559627882926975896861883959638734),
     (False, 37006245982461540493176839758298482873316422831769877211924503255976972085194, 34789957418082413212757900335657300040418340547650876914784152081658017150170),
     (False, 10452710072042958400120417004134986115402647185968864737281654094062536930761, 80847692928423665565271616758806678296934551281453533806891672375849618094091),
     (False, 56449015614307492191992620930562598047773511189720146040527471151672741585631, 102857856980175377630779231772724905611287751195832211263074225483200844254442),
     (False, 91368407070834496198479742761508233641316240102147360902438459375799541759747, 61159988453688570808009946371296879930437868336924382897965038053708034516721),
     (True, 46005622851453976074134830149988866742550308474722586237623917837568150402398, 1)]
    (18219417090205270408698880036961711710817408370869018412074353662400076717034, 20505840236983353737631046) = Some (1, 2624747550333869278416773953)"
  by (simp only: power_simps order_check_def)

lemma power_order_1: "(87100853353288773503221377379439407917267979139877395891460378271501865302703 :: nat) ^ 2624747550333869278416773953 mod p256_n = 1"
proof -
  note r1 = power_run_reaches [OF order_check run_order_1_1 power_start]
  note r2 = power_run_reaches [OF order_check run_order_1_2 r1]
  note r3 = power_run_reaches [OF order_check run_order_1_3 r2]
  note r4 = power_run_reaches [OF order_check run_order_1_4 r3]
  note r5 = power_run_reaches [OF order_check run_order_1_5 r4]
  note r6 = power_run_reaches [OF order_check run_order_1_6 r5]
  note r7 = power_run_reaches [OF order_check run_order_1_7 r6]
  note r8 = power_run_reaches [OF order_check run_order_1_8 r7]
  note r9 = power_run_reaches [OF order_check run_order_1_9 r8]
  show ?thesis by (rule trans [OF r9 [symmetric] mod_less]) (simp add: p256_n_def)
qed

lemma run_order_2_1: "power_run order_check 75826181402772799521319382390190118258099127975743022721581095372707945421081
    [(False, 49654599250567561025883570029337046168822827553092417004585697361041715297753, 2996032665313529765690277206867510327786808873919593893693993021034817205704),
     (True, 1961945050978302953195999636462857719935437818899205456111213911934592083058, 100038275311641258350157762665018141239635805261121567542317438983596245845622),
     (False, 86427808631616476778058696194936054708302732017592893086363852586551467853273, 80571418648046638466626729970865907562009996984547680759622138354976898697147),
     (True, 52762006868938323696262549515215956813810956388462358065277864470248962448726, 63258394118838287927127060069853818658206079378473963961145501813882608832013),
     (False, 34558703049434019266194420097985362619498250720029850783923163656577033323260, 76989848665288710696410850041443520284147356500747566728675184915771413909229),
     (False, 51190343294832942166701905862968757675269809901658626905946272433810885423501, 98316108712330550429351822919095865338911756332988425720746989970891984058572),
     (True, 64382076054373071950025923414237071617968009029326121913948389230059756808285, 25570933900129746929933887506487082545516275921775035421658788941722160759167),
     (False, 5646954511175047048626757349350652404604978992006491597311542043884756246499, 92962156430064635378490696210795339443758969419582876517290463852768385619758),
     (False, 74633445057098815263486112151125137198074203015919566105784069377687454687400, 60767628435539086144101495116745352025716720857120476915978790725059934727964),
     (False, 31890819924419061762986582862458064529983771720181812928547466585375059347681, 8738092515775836580477986135602688787666780779966421503902259340789814327007),
     (True, 5722119643352719043578573240720256879732525335828747583787836807232268190446, 7852643135712635907858287769315289862240608896095641943247304894433551535993),
     (False, 532540734322804280517179495689091560018872162533705500880693855558070023781, 64720501314581636699656425317931457623590164409605539967026133479596817356860),
     (False, 36174693098430848966178965397145481943375328124935680839144813002325684540487, 79636805685506243818620450139123832682591256397925599087061087196213868191897),
     (True, 52149977735322583236639497680384875426803962822022187834361373083405181339983, 1538724280048590506401948249560750818125271500969049347677729195947607474930),
     (False, 20447618020862970707415436284796176129587247944707170027924971210380783767, 75888519427180292119035076183155761531042170850412255522076970565380879546877),
     (False, 49736276632742881358650430567934118342253867977203873864586971285368355841609, 24492781203659591074948096189453557949427156655451740941035755161332696103408)]
    (75826181402772799521319382390190118258099127975743022721581095372707945421081, 1) = Some (24492781203659591074948096189453557949427156655451740941035755161332696103408, 3732)"
  by (simp only: power_simps order_check_def)

lemma run_order_2_2: "power_run order_check 75826181402772799521319382390190118258099127975743022721581095372707945421081
    [(True, 16039041037019407797347499620164978848871455479299441225779985449605821606930, 72376221320361571906454057994032916505210733662367939415975503611497441266878),
     (False, 45238992130953404567878644639121296690912642607612943955509441491176233949616, 52583878240373363902804304963603696433599506567482738992206073978774117354580),
     (True, 34434430862305026235111214650289051575259426237876723367932277334070270075582, 93182577155941434205786607120899785805887937791576844665710843248160916403222),
     (False, 74987788411424450178301016580118232361190843243947600981521811234125126846821, 44466723632774984371534933921603006676252099759303130691352746429751873380335),
     (True, 29118930969804087164830831071680824680044330079024784072952762033334494855071, 76947017442602262459219015778177423155721820723872981931650579350029863196936),
     (False, 51133402408483243670910225839033677514959872737857569852222919833645766567460, 5606747340366025017018302836446722985335052353237659693659940572401968155356),
     (True, 3671565508570895497095785999952679490736467068404525494310705573648290876525, 61149007343130398758977666894828724743104262365534418335495381010157544922111),
     (False, 32292370960310711814907119821638430695833756209678727401018718996394766381861, 46022009935183027311807685230796211423570131529121309804722748788510627905612),
     (True, 30137406602326765846353334676016949463714461647081560482139209207451016260548, 104567556899361487657871196154279473335399066436735882212937938281391422752360),
     (False, 94431096549584065470552047364012495826384790147660013007292053118364602715827, 81602708003618279137944995088210491933731572438834173735206628952280563041437),
     (False, 57508263292724291491196026388365518232198169042091485699212472755191430840549, 88955065452546156363395639575183513616017044854417221416294938943091726706388),
     (True, 58252018559287037305309379477701702961606054476246769111681121267673017873773, 104952538571123629040194554922430196007428008784216158023040362392160095131191),
     (False, 95127701966863094991704038929702467916919183084417880496266400244609595371217, 14699695228582237250094233986491540110517626367031418039833690382107371551408),
     (True, 9626061370591978301381173494523614559571312139929658455678556859611598278133, 17489977794421806202288132334051180183624473748155502859575286440204699948971),
     (False, 2641798117085953313791594360537796853581131213806096980213148480039753758044, 41604808868783490447642180648544336027330725153602526710769418549784985304605),
     (False, 14948863370652364343786928554992242772265741084619437215776591091689594698283, 54190114187148081065549329908240437293057949210031219608240613328412570087598)]
    (24492781203659591074948096189453557949427156655451740941035755161332696103408, 3732) = Some (54190114187148081065549329908240437293057949210031219608240613328412570087598, 1911788)"
  by (simp only: power_simps order_check_def)

lemma run_order_2_3: "power_run order_check 75826181402772799521319382390190118258099127975743022721581095372707945421081
    [(True, 35486270751423298601770469781238758025330119233711624125614176134229939032154, 19253772420189554959405265489438479409645495920170443879230938400891400212612),
     (False, 3201494635225015679604362719789982461819058338006881364249751346494802423808, 26087312084946079421192896142839458421495971664522932569185020068896365925392),
     (False, 5877325959470698552651862763289941990937910345161475148008209947737440259763, 62904449699450426085224006332209994963533156314724138344518264733486968929117),
     (False, 34173058099005127113536656478061688823378646773666731141058163205963321991370, 23108752632938417701172281794621179932288598898089389556225894217982895304159),
     (False, 4611838787019458171558847582684308939568075322276440519864977857875503584080, 10925617648213865595674595146359594960109226999012804462307049433105640651761),
     (False, 1030891849425980535091319720163831861721317057743234568394806575020989568684, 86864541840474719404777170331076542979369850627352214956779140170524491460725),
     (False, 65163766200366052119837142843029707529237127959871409199734226994992680521551, 56805969134443073680360344860502067042336961378487585986769346539700044829306),
     (False, 27868208884641914430517974920227725886079722253822669059664437046944774559869, 83966965421851398547816168050825277687865690140206307148236553358619301613975),
     (True, 54985572808442003318609421405801390363616965653686771053733613698764869485058, 37938197440952885057837165701397837585338785847704814571239756382886410668573),
     (False, 12430096346685442364520712399097777609099193437716752230670808629079050308087, 65810490151679404835675069464313272700215919939967781831101754508993186344226),
     (True, 43095847034775878702886461604373579445510714759698707024275728384780640399211, 82792776085320834297010128663768573273169841138258481837013289660996678435447),
     (False, 59197859013161373180329563400206828527751030166284123973109508958943281405190, 39311765608435212921154365018144569964829130835371814258998038148249799214699),
     (True, 25743218648324468556991919070544833620268198472956016003198422578875949754082, 23579185718754499238498932711011940725293296156058941264822172551106056805361),
     (False, 4801519714783679697667854219284555131889707756220079660641964622729361883472, 63682322530974566835683928671110558770604888054341005324535210753889966571153),
     (True, 41702221397968215935298480086111461276399414959434386843998422973348371462181, 75796097727335027665748485991517559466716650845201755300610244720086255167604),
     (False, 49615206616186477131011940716582720572932613558651819181064772906132708384867, 19844699728087516552196152914284114937928953584817429110912836745247898936893)]
    (54190114187148081065549329908240437293057949210031219608240613328412570087598, 1911788) = Some (19844699728087516552196152914284114937928953584817429110912836745247898936893, 3915343902)"
  by (simp only: power_simps order_check_def)

lemma run_order_2_4: "power_run order_check 75826181402772799521319382390190118258099127975743022721581095372707945421081
    [(True, 12995255649389716502577507203658167721695846828684009083688186186124466207620, 71126906878920741627212374057988872140905516023930290567231132012344524949553),
     (False, 43690695250968759670720897288093612789290791958609342902063533349629231014465, 72681184604650449567931727797981134215591054017532014912686839809120234102224),
     (True, 47595105382274559350334338238616247237027109834678605284915336442057803805024, 44245149216876831236794980059893326522761662964530200251270928567764365474288),
     (False, 16906450540566022233778936141905311920136068990692518246484984694086068844461, 80684070120379020411012416521978273854189651054066468627533397178018597216835),
     (False, 56220759255529543245863024425344819374205564728027188897923404595028719571634, 5327925508164389382958670603824724887011769920380320290590851938960725588279),
     (False, 245153105139844910024050512920345573593595036907752909116502673115550579676, 73736541820451173995780159852756859111617759960675760990074976363404840537397),
     (True, 48286203610450183160823400764047731231280565131639697656739877941617143460378, 71970125782273880581317200249346781052458118577350401482928430378721763154675),
     (False, 44732753683254728133129762477673679940879013155519464680445269271032243510476, 22524370362990151303613349159890285149377188844140335041654708891063946045981),
     (False, 4381536456497174928705545337945432151332608455833980562113726027061489884934, 104480823611599370328575487598324122756303310343400057651024354276761253615715),
     (True, 68419025326435486146973996352345166955051192618364601299071438847352309978592, 106713742326742970627863665392829088738104958738582721957462173322852889739467),
     (False, 98347157211150713198885959677365922552680661894982955671589224824306512968782, 40790345669717531291623181790787894933915609686223257212363026561220841555531),
     (True, 26711463376525543386458388288388303214488342903306643863202367981866742709884, 61708607167948124749684401711316188900438443742158369902688680086496936705815),
     (False, 32886117044579258462712161506859550909540146348094417526876474922266938486497, 68309355338604828222472398765539600816965349380824144617755174800587683428832),
     (True, 44732223114152587940514522255322222756018636139755158899698750566105330933039, 1)]
    (19844699728087516552196152914284114937928953584817429110912836745247898936893, 3915343902) = Some (1, 1002328039319)"
  by (simp only: power_simps order_check_def)

lemma power_order_2: "(75826181402772799521319382390190118258099127975743022721581095372707945421081 :: nat) ^ 1002328039319 mod p256_n = 1"
proof -
  note r1 = power_run_reaches [OF order_check run_order_2_1 power_start]
  note r2 = power_run_reaches [OF order_check run_order_2_2 r1]
  note r3 = power_run_reaches [OF order_check run_order_2_3 r2]
  note r4 = power_run_reaches [OF order_check run_order_2_4 r3]
  show ?thesis by (rule trans [OF r4 [symmetric] mod_less]) (simp add: p256_n_def)
qed

lemma prime_p256_n: "prime_nat p256_n"
proof (rule pocklington [where certs =
    "[(2624747550333869278416773953 :: nat, 87100853353288773503221377379439407917267979139877395891460378271501865302703 :: nat, 51921223869577043025896233410665706485550009771255122920941358412934482395187 :: nat),
       (1002328039319 :: nat, 75826181402772799521319382390190118258099127975743022721581095372707945421081 :: nat, 9631013060085677371482002832704039550345574303883859918124457045788451041694 :: nat)]"])
  have b: "(87100853353288773503221377379439407917267979139877395891460378271501865302703 :: nat) - 1 = 87100853353288773503221377379439407917267979139877395891460378271501865302702" by simp
  have "87100853353288773503221377379439407917267979139877395891460378271501865302702 * 51921223869577043025896233410665706485550009771255122920941358412934482395187 = 39056061057604895623894328425221634065315908529882929548383616334901599789017 * 115792089210356248762697446949407573529996955224135760342422259061068512044369 + (1::nat)"
    by (simp only: hex_simps)
  then have c1: "(87100853353288773503221377379439407917267979139877395891460378271501865302703 - 1) * 51921223869577043025896233410665706485550009771255122920941358412934482395187 mod p256_n = (1::nat)"
    unfolding b p256_n_def by (rule mod_one_by) simp
  have b: "(75826181402772799521319382390190118258099127975743022721581095372707945421081 :: nat) - 1 = 75826181402772799521319382390190118258099127975743022721581095372707945421080" by simp
  have "75826181402772799521319382390190118258099127975743022721581095372707945421080 * 9631013060085677371482002832704039550345574303883859918124457045788451041694 = 6306846593464998713267894978977654199470285288516574978017596443495004344351 * 115792089210356248762697446949407573529996955224135760342422259061068512044369 + (1::nat)"
    by (simp only: hex_simps)
  then have c2: "(75826181402772799521319382390190118258099127975743022721581095372707945421081 - 1) * 9631013060085677371482002832704039550345574303883859918124457045788451041694 mod p256_n = (1::nat)"
    unfolding b p256_n_def by (rule mod_one_by) simp
  show "\<forall>(r, b, c) \<in> set [(2624747550333869278416773953 :: nat, 87100853353288773503221377379439407917267979139877395891460378271501865302703 :: nat, 51921223869577043025896233410665706485550009771255122920941358412934482395187 :: nat),
       (1002328039319 :: nat, 75826181402772799521319382390190118258099127975743022721581095372707945421081 :: nat, 9631013060085677371482002832704039550345574303883859918124457045788451041694 :: nat)].
      prime_nat r \<and> b ^ r mod p256_n = 1 \<and> (b - 1) * c mod p256_n = 1"
    using prime_2624747550333869278416773953 power_order_1 c1 prime_1002328039319 power_order_2 c2 by (simp only: list.set ball_simps prod.case simp_thms)
qed (simp_all add: p256_n_def)

end
