(* ===== verification/Rsa_Example_Key.thy ===== *)
theory Rsa_Example_Key
  imports Rsa_Ops Rsa_Primes P256_Prime
begin

text \<open>
  An RSA key of 534 bits whose factors are proved prime (one of them is the field prime of P-256), in a DER form that the parser accepts: the
  key on which the properties of signing and encryption are applied. A modulus of 66 bytes is the
  least that OAEP with SHA-256 admits.
\<close>

section \<open>The key\<close>

text \<open>The big-endian bytes of a number, without leading zeros.\<close>

function octets_of :: "nat \<Rightarrow> bytes" where
  "octets_of v = (if v = 0 then [] else octets_of (v div 256) @ [word_of_nat (v mod 256)])"
  by auto
termination
  by (relation "measure (\<lambda>v. v)") auto

declare octets_of.simps [simp del]

lemma octets_of_val [simp]: "be_val (octets_of v) = v"
proof (induction v rule: octets_of.induct)
  case (1 v)
  then show ?case
    by (subst octets_of.simps) (auto simp: be_val_append be_val_Cons unat_of_nat)
qed

lemma octets_of_uint: "0 < v \<Longrightarrow> rsa_uint (octets_of v)"
proof (induction v rule: octets_of.induct)
  case (1 v)
  show ?case
  proof (cases "v div 256 = 0")
    case True
    then have "v < 256" by simp
    then have "(word_of_nat v :: u8) \<noteq> 0" using 1(2) by (simp add: word_unat_eq_iff unat_of_nat)
    then show ?thesis using 1(2) True by (subst octets_of.simps) (simp add: octets_of.simps [of 0] rsa_uint_def)
  next
    case False
    then show ?thesis using 1 by (subst octets_of.simps) (simp add: rsa_uint_def)
  qed
qed

lemma length_octets_of:
  assumes "v < 256 ^ n"
  shows "length (octets_of v) \<le> n"
proof (cases "v = 0")
  case False
  then have "256 ^ (length (octets_of v) - 1) \<le> v"
    using be_val_lower [of "octets_of v"] octets_of_uint [of v] by (simp add: rsa_uint_def)
  then have "(256::nat) ^ (length (octets_of v) - 1) < 256 ^ n" by (rule le_less_trans [OF _ assms])
  then have "length (octets_of v) - 1 < n" by (rule power_less_imp_less_exp [rotated]) simp
  then show ?thesis by linarith
qed (simp add: octets_of.simps [of 0])

definition rsa_d :: nat where
  "rsa_d = (6 * (rsa_p - 1) * (p256_p - 1) + 1) div 7"

definition long_key :: rsa_private_key_material where
  "long_key = \<lparr>rp_modulus = octets_of (rsa_p * p256_p), rp_public_exponent = [7], rp_private_exponent = octets_of rsa_d,
     rp_prime1 = octets_of rsa_p, rp_prime2 = octets_of p256_p,
     rp_exponent1 = octets_of (rsa_d mod (rsa_p - 1)), rp_exponent2 = octets_of (rsa_d mod (p256_p - 1)),
     rp_coefficient = octets_of 249946141048735823098759150749905631534464560361048698260136750646148633041244411778\<rparr>"

lemma rsa_d_relations:
  "7 * (rsa_d mod (rsa_p - 1)) mod (rsa_p - 1) = 1" "7 * (rsa_d mod (p256_p - 1)) mod (p256_p - 1) = 1"
  "p256_p * 249946141048735823098759150749905631534464560361048698260136750646148633041244411778 mod rsa_p = 1"
proof -
  have d: "7 * rsa_d = 6 * (rsa_p - 1) * (p256_p - 1) + 1" by (simp add: rsa_d_def rsa_p_def p256_p_def)
  have "7 * rsa_d mod (rsa_p - 1) = 1 mod (rsa_p - 1)"
    unfolding d by (metis mod_mult_self3 mult.assoc mult.commute)
  then show "7 * (rsa_d mod (rsa_p - 1)) mod (rsa_p - 1) = 1" by (simp add: mod_mult_right_eq rsa_p_def)
  have "7 * rsa_d mod (p256_p - 1) = 1 mod (p256_p - 1)" unfolding d by (metis mod_mult_self3)
  then show "7 * (rsa_d mod (p256_p - 1)) mod (p256_p - 1) = 1" by (simp add: mod_mult_right_eq p256_p_def)
  have "p256_p * 249946141048735823098759150749905631534464560361048698260136750646148633041244411778
      = 1 + 79455738382511362143558092652343609481798363296116163289926067411318252873853 * rsa_p"
    by (simp add: rsa_p_def p256_p_def)
  then show "p256_p * 249946141048735823098759150749905631534464560361048698260136750646148633041244411778 mod rsa_p = 1" by (simp only: mod_mult_self3 mod_mult_self1) (simp add: rsa_p_def)
qed

lemma long_key_vals [simp]:
  "be_val (rp_modulus long_key) = rsa_p * p256_p" "be_val (rp_prime1 long_key) = rsa_p"
  "be_val (rp_prime2 long_key) = p256_p"
  by (simp_all add: long_key_def)

lemma long_key_ok: "rsa_private_ok long_key"
proof -
  note r = rsa_d_relations
  have "0 < rsa_d mod (rsa_p - 1)" by (rule ccontr) (use r(1) in simp)
  moreover have "0 < rsa_d mod (p256_p - 1)" by (rule ccontr) (use r(2) in simp)
  moreover have "0 < rsa_d" by (rule ccontr) (use r(1) in simp)
  moreover have "0 < rsa_p * p256_p" "1 < rsa_p" "1 < p256_p" "odd rsa_p" "odd p256_p" by (simp_all add: rsa_p_def p256_p_def)
  moreover have "1 < rsa_p * p256_p" using \<open>1 < rsa_p\<close> \<open>1 < p256_p\<close> by (rule less_1_mult)
  moreover have "rsa_odd_uint [7]" by (simp add: rsa_odd_uint_def rsa_uint_def be_val_Cons)
  moreover have "rsa_relations (rsa_p * p256_p) 7 rsa_d rsa_p p256_p (rsa_d mod (rsa_p - 1)) (rsa_d mod (p256_p - 1))
      249946141048735823098759150749905631534464560361048698260136750646148633041244411778"
    unfolding rsa_relations_def using r by blast
  ultimately show ?thesis
    by (simp add: rsa_private_ok_def long_key_def rsa_odd_uint_def octets_of_uint be_val_Cons)
qed

lemma long_key_sizes:
  "length (rp_prime1 long_key) \<le> 256" "length (rp_prime2 long_key) \<le> 256" "length (rp_modulus long_key) = 67"
proof -
  have "rsa_p < 256 ^ 35" "p256_p < 256 ^ 35" by (simp_all add: rsa_p_def p256_p_def)
  then show "length (rp_prime1 long_key) \<le> 256" "length (rp_prime2 long_key) \<le> 256"
    using length_octets_of [of rsa_p 35] length_octets_of [of p256_p 35] by (simp_all add: long_key_def)
  have n: "rsa_p * p256_p < 256 ^ 67" "256 ^ 66 \<le> rsa_p * p256_p" by (simp_all add: rsa_p_def p256_p_def)
  have "(256::nat) ^ 66 < 256 ^ length (octets_of (rsa_p * p256_p))"
    using n(2) be_val_bound [of "octets_of (rsa_p * p256_p)"] by (simp only: octets_of_val)
  then have "66 < length (octets_of (rsa_p * p256_p))" by (rule power_less_imp_less_exp [rotated]) simp
  with length_octets_of [OF n(1)] show "length (rp_modulus long_key) = 67" by (simp add: long_key_def)
qed

section \<open>Its DER form\<close>

lemma tlv_at_most: "length (write_der_tlv tag c) \<le> length c + 10"
proof -
  have "length (write_der_length len) \<le> 9" for len
    using write_length_bytes(4) [of len] by (cases "len = 0") (auto simp: write_der_length_def Let_def)
  then show ?thesis by (simp add: write_der_tlv_def)
qed

lemma der_uint_at_most: "length (der_uint m) \<le> length m + 11"
proof -
  have "length (dropWhile (\<lambda>b. b = 0) m) \<le> length m" by (rule length_dropWhile_le)
  then have "length (encoded_integer_content m) \<le> length m + 1" by (simp add: encoded_integer_content_def Let_def)
  then show ?thesis using tlv_at_most [of "0x02" "encoded_integer_content m"] by (simp add: der_uint_def)
qed

lemma octets_short: "v < 256 ^ 70 \<Longrightarrow> length (der_uint (octets_of v)) \<le> 81"
  using der_uint_at_most [of "octets_of v"] length_octets_of [of v 70] by linarith

lemma long_key_der: "length (der_rsa_private_key long_key) < 2 ^ 64" "length (der_rsa_public_key (rsa_public_part long_key)) < 2 ^ 64"
proof -
  have p: "rsa_p < 256 ^ 70" "p256_p < 256 ^ 70" "0 < rsa_p - 1" "0 < p256_p - 1" by (simp_all add: rsa_p_def p256_p_def)
  have "rsa_d mod (rsa_p - 1) < rsa_p - 1" "rsa_d mod (p256_p - 1) < p256_p - 1"
    using p(3,4) by simp_all
  then have v: "rsa_d mod (rsa_p - 1) < 256 ^ 70" "rsa_d mod (p256_p - 1) < 256 ^ 70" using p(1,2) by linarith+
  have "7 * rsa_d < 256 ^ 70 \<and> rsa_p * p256_p < 256 ^ 70" by (simp add: rsa_d_def rsa_p_def p256_p_def)
  then have w: "rsa_d < 256 ^ 70" "rsa_p * p256_p < 256 ^ 70" by linarith+
  have "length (der_uint (rp_modulus long_key)) \<le> 81" "length (der_uint (rp_private_exponent long_key)) \<le> 81"
    "length (der_uint (rp_prime1 long_key)) \<le> 81" "length (der_uint (rp_prime2 long_key)) \<le> 81"
    "length (der_uint (rp_exponent1 long_key)) \<le> 81" "length (der_uint (rp_exponent2 long_key)) \<le> 81"
    "length (der_uint (rp_coefficient long_key)) \<le> 81"
    unfolding long_key_def rsa_private_key_material.select_convs by (rule octets_short [OF w(2)] octets_short [OF w(1)]
        octets_short [OF p(1)] octets_short [OF p(2)] octets_short [OF v(1)] octets_short [OF v(2)] octets_short; simp)+
  moreover have "length (der_uint (rp_public_exponent long_key)) \<le> 12" "length (der_uint [0]) \<le> 12"
    using der_uint_at_most [of "[7]"] der_uint_at_most [of "[0]"] by (simp_all add: long_key_def)
  ultimately have "length (der_rsa_private_content long_key) \<le> 591"
    "length (der_uint (rp_modulus long_key) @ der_uint (rp_public_exponent long_key)) \<le> 93"
    by (simp_all add: der_rsa_private_content_def)
  then have "length (der_rsa_private_key long_key) \<le> 601" "length (der_rsa_public_key (rsa_public_part long_key)) \<le> 103"
    using tlv_at_most [of "0x30" "der_rsa_private_content long_key"]
      tlv_at_most [of "0x30" "der_uint (rp_modulus long_key) @ der_uint (rp_public_exponent long_key)"]
    by (simp_all add: der_rsa_private_key_def der_rsa_public_key_def rsa_public_part_def)
  then show "length (der_rsa_private_key long_key) < 2 ^ 64" "length (der_rsa_public_key (rsa_public_part long_key)) < 2 ^ 64"
    by simp_all
qed

lemma long_key_parses:
  "parse_rsa_private_key_der (der_rsa_private_key long_key) = Inr long_key"
  "parse_rsa_public_key_der (der_rsa_public_key (rsa_public_part long_key)) = Inr (rsa_public_part long_key)"
proof -
  show "parse_rsa_private_key_der (der_rsa_private_key long_key) = Inr long_key"
    unfolding private_key_der_iff [OF long_key_der(1)] using long_key_ok by blast
  have "rsa_public_ok (rsa_public_part long_key)"
    using long_key_ok by (simp add: rsa_public_ok_def rsa_private_ok_def rsa_public_part_def)
  then show "parse_rsa_public_key_der (der_rsa_public_key (rsa_public_part long_key)) = Inr (rsa_public_part long_key)"
    unfolding public_key_der_iff [OF long_key_der(2)] by blast
qed

end
