(* ===== verification/Native_Rsa.thy ===== *)
theory Native_Rsa
  imports Asymmetric Rsa_Ops Rsa_Example_Key
begin

text \<open>
  src/native_provider.cpp, the RSA operations: PSS signing and verification and OAEP encryption
  and decryption on keys in DER form, with a blinded private operation that is tried again with
  fresh random bytes. The generator (IRng::generate on the bytes of the operating system) is the
  parameter \<open>draw\<close>: from its state and a size it gives an error or bytes, and the next state; what
  the code relies on is that the bytes fill the buffer.
\<close>

section \<open>Algorithms and parameters\<close>

fun is_rsa_pss_algorithm :: "signature_algorithm \<Rightarrow> bool" where
  "is_rsa_pss_algorithm Rsa_pss = True"
| "is_rsa_pss_algorithm Rsa_pss_sha256 = True"
| "is_rsa_pss_algorithm Ecdsa_p256_sha256 = False"
| "is_rsa_pss_algorithm Ecdsa_p384_sha384 = False"
| "is_rsa_pss_algorithm Sig_ed25519 = False"

fun is_rsa_oaep_algorithm :: "asymmetric_encryption_algorithm \<Rightarrow> bool" where
  "is_rsa_oaep_algorithm Rsa_oaep = True"
| "is_rsa_oaep_algorithm Rsa_oaep_sha256 = True"

definition rsa_pss_params_verify :: "verify_params \<Rightarrow> rsa_pss_params" where
  "rsa_pss_params_verify params =
     (if vp_algorithm params = Rsa_pss_sha256 then pss_for_hash Sha256 else vp_rsa_pss params)"

definition rsa_pss_params_sign :: "sign_params \<Rightarrow> rsa_pss_params" where
  "rsa_pss_params_sign params =
     (if sp_algorithm params = Rsa_pss_sha256 then pss_for_hash Sha256 else sp_rsa_pss params)"

definition rsa_oaep_sha256_params :: rsa_oaep_params where
  "rsa_oaep_sha256_params = oaep_for_hash Sha256"

definition native_error :: "error_code \<Rightarrow> string \<Rightarrow> crypto_error" where
  "native_error c message = make_error c ''native_provider'' message"

text \<open>The loop that counts the bits of the first byte that is not zero.\<close>

function high_bits :: "u8 \<Rightarrow> nat" where
  "high_bits v = (if v = 0 then 0 else 1 + high_bits (drop_bit 1 v))"
  by auto
termination
  by (relation "measure unat") (auto simp: unat_drop_bit_div unat_gt_0)

declare high_bits.simps [simp del]

definition bit_length :: "bytes \<Rightarrow> nat" where
  "bit_length bs =
     (case dropWhile (\<lambda>b. b = 0) bs of
        [] \<Rightarrow> 0
      | b # rest \<Rightarrow> length rest * 8 + high_bits b)"

section \<open>The blinded private operation\<close>

type_synonym 'r source = "'r \<Rightarrow> nat \<Rightarrow> bytes result \<times> 'r"

fun blinding_attempts ::
  "'r source \<Rightarrow> rsa_private_key_material \<Rightarrow> bytes \<Rightarrow> nat \<Rightarrow> crypto_error \<Rightarrow> 'r \<Rightarrow> bytes result \<times> 'r" where
  "blinding_attempts draw key input 0 last_error r = (Inl last_error, r)"
| "blinding_attempts draw key input (Suc n) last_error r =
     (case draw r (length (rp_modulus key)) of
        (Inl e, r) \<Rightarrow> (Inl e, r)
      | (Inr blinding_factor, r) \<Rightarrow>
          (case rsa_private_crt_blinded_operation key input blinding_factor of
             Inr out \<Rightarrow> (Inr out, r)
           | Inl e \<Rightarrow>
               if err_code e \<noteq> Invalid_argument then (Inl e, r)
               else blinding_attempts draw key input n e r))"

definition rsa_private_crt_blinded_with_rng ::
  "'r source \<Rightarrow> rsa_private_key_material \<Rightarrow> bytes \<Rightarrow> 'r \<Rightarrow> bytes result \<times> 'r" where
  "rsa_private_crt_blinded_with_rng draw key input r =
     blinding_attempts draw key input 8 (native_error Provider_error ''RSA blinding failed'') r"

section \<open>Signatures\<close>

definition native_sign_rsa :: "'r source \<Rightarrow> sign_params \<Rightarrow> bytes \<Rightarrow> 'r \<Rightarrow> bytes result \<times> 'r" where
  "native_sign_rsa draw params message r =
     (if \<not> is_rsa_pss_algorithm (sp_algorithm params)
      then (Inl (native_error Unsupported_algorithm ''signature algorithm is not supported by NativeProvider''), r)
      else
        (case sp_private_key params of
           None \<Rightarrow> (Inl (native_error Invalid_argument ''private key is required''), r)
         | Some private_key \<Rightarrow>
             if priv_algorithm private_key \<noteq> Rsa \<or> \<not> has_key_usage (priv_usages private_key) Usage_sign
             then (Inl (native_error Invalid_key ''RSA signing key is required''), r)
             else
               (case parse_rsa_private_key_der (priv_material private_key) of
                  Inl e \<Rightarrow> (Inl e, r)
                | Inr key \<Rightarrow>
                    let pss = rsa_pss_params_sign params in
                    (case hash (ps_message_hash pss) message of
                       Inl e \<Rightarrow> (Inl e, r)
                     | Inr message_hash \<Rightarrow>
                         (case (if ps_salt_length pss = 0 then (Inr [], r) else draw r (unat (ps_salt_length pss))) of
                            (Inl e, r) \<Rightarrow> (Inl e, r)
                          | (Inr salt, r) \<Rightarrow>
                              let modulus_bits = bit_length (rp_modulus key) in
                              if modulus_bits = 0 then (Inl (native_error Invalid_key ''RSA modulus must be non-zero''), r)
                              else
                                (case emsa_pss_encode (modulus_bits - 1) message_hash salt pss of
                                   Inl e \<Rightarrow> (Inl e, r)
                                 | Inr encoded_message \<Rightarrow>
                                     rsa_private_crt_blinded_with_rng draw key encoded_message r))))))"

text \<open>\<open>last(n)\<close>: the last \<open>n\<close> bytes of a span.\<close>

definition last_bytes :: "nat \<Rightarrow> bytes \<Rightarrow> bytes" where
  "last_bytes n bs = drop (length bs - n) bs"

text \<open>None is the read outside the arrays that emsa_pss_verify can make.\<close>

definition native_verify_rsa :: "verify_params \<Rightarrow> bytes \<Rightarrow> verify_result result option" where
  "native_verify_rsa params message =
     (if \<not> is_rsa_pss_algorithm (vp_algorithm params)
      then Some (Inl (native_error Unsupported_algorithm ''signature algorithm is not supported by NativeProvider''))
      else
        (case vp_public_key params of
           None \<Rightarrow> Some (Inl (native_error Invalid_argument ''public key is required''))
         | Some public_key \<Rightarrow>
             if pub_algorithm public_key \<noteq> Rsa \<or> \<not> has_key_usage (pub_usages public_key) Usage_verify
             then Some (Inl (native_error Invalid_key ''RSA verification key is required''))
             else
               (case parse_rsa_public_key_der (pub_material public_key) of
                  Inl e \<Rightarrow> Some (Inl e)
                | Inr key \<Rightarrow>
                    if length (vp_signature params) \<noteq> length (rk_modulus key) then Some (Inr verify_invalid)
                    else
                      (case rsa_public_operation key (vp_signature params) of
                         Inl e \<Rightarrow> Some (if err_code e = Invalid_argument then Inr verify_invalid else Inl e)
                       | Inr encoded_message \<Rightarrow>
                           let pss = rsa_pss_params_verify params in
                           (case hash (ps_message_hash pss) message of
                              Inl e \<Rightarrow> Some (Inl e)
                            | Inr message_hash \<Rightarrow>
                                let encoded_bits = bit_length (rk_modulus key) - 1;
                                    encoded_size = (encoded_bits + 7) div 8 in
                                if encoded_size > length encoded_message then Some (Inr verify_invalid)
                                else
                                  (case emsa_pss_verify (last_bytes encoded_size encoded_message) encoded_bits message_hash pss of
                                     None \<Rightarrow> None
                                   | Some (Inl e) \<Rightarrow> Some (Inl e)
                                   | Some (Inr valid) \<Rightarrow> Some (Inr (if valid then verify_valid else verify_invalid))))))))"

section \<open>Encryption\<close>

definition native_asymmetric_encrypt :: "'r source \<Rightarrow> asymmetric_encrypt_params \<Rightarrow> bytes \<Rightarrow> 'r \<Rightarrow> bytes result \<times> 'r" where
  "native_asymmetric_encrypt draw params plaintext r =
     (if \<not> is_rsa_oaep_algorithm (ep_algorithm params)
      then (Inl (native_error Unsupported_algorithm ''asymmetric encryption algorithm is not supported by NativeProvider''), r)
      else
        (case ep_public_key params of
           None \<Rightarrow> (Inl (native_error Invalid_argument ''public key is required''), r)
         | Some public_key \<Rightarrow>
             if pub_algorithm public_key \<noteq> Rsa \<or> \<not> has_key_usage (pub_usages public_key) Usage_encrypt
             then (Inl (native_error Invalid_key ''RSA encryption key is required''), r)
             else
               (case parse_rsa_public_key_der (pub_material public_key) of
                  Inl e \<Rightarrow> (Inl e, r)
                | Inr key \<Rightarrow>
                    let oaep = (if ep_algorithm params = Rsa_oaep_sha256 then rsa_oaep_sha256_params else ep_rsa_oaep params);
                        seed_size = digest_size (oa_message_hash oaep) in
                    if seed_size = 0 \<or> digest_size (oa_mgf1_hash oaep) = 0
                    then (Inl (native_error Unsupported_algorithm ''RSA-OAEP hash algorithm is not supported by NativeProvider''), r)
                    else
                      (case draw r seed_size of
                         (Inl e, r) \<Rightarrow> (Inl e, r)
                       | (Inr seed, r) \<Rightarrow>
                           (case eme_oaep_encode (length (rk_modulus key)) plaintext seed oaep of
                              Inl e \<Rightarrow> (Inl e, r)
                            | Inr encoded \<Rightarrow> (rsa_public_operation key encoded, r))))))"

definition native_asymmetric_decrypt :: "'r source \<Rightarrow> asymmetric_decrypt_params \<Rightarrow> bytes \<Rightarrow> 'r \<Rightarrow> bytes result \<times> 'r" where
  "native_asymmetric_decrypt draw params ciphertext r =
     (if \<not> is_rsa_oaep_algorithm (dp_algorithm params)
      then (Inl (native_error Unsupported_algorithm ''asymmetric encryption algorithm is not supported by NativeProvider''), r)
      else
        (case dp_private_key params of
           None \<Rightarrow> (Inl (native_error Invalid_argument ''private key is required''), r)
         | Some private_key \<Rightarrow>
             if priv_algorithm private_key \<noteq> Rsa \<or> \<not> has_key_usage (priv_usages private_key) Usage_decrypt
             then (Inl (native_error Invalid_key ''RSA decryption key is required''), r)
             else
               (case parse_rsa_private_key_der (priv_material private_key) of
                  Inl e \<Rightarrow> (Inl e, r)
                | Inr key \<Rightarrow>
                    if length ciphertext \<noteq> length (rp_modulus key)
                    then (Inl (native_error Authentication_failed ''RSA-OAEP ciphertext is invalid''), r)
                    else
                      (case rsa_private_crt_blinded_with_rng draw key ciphertext r of
                         (Inl e, r) \<Rightarrow>
                           (if err_code e = Invalid_argument
                            then (Inl (native_error Authentication_failed ''RSA-OAEP ciphertext is invalid''), r)
                            else (Inl e, r))
                       | (Inr encoded, r) \<Rightarrow>
                           let oaep = (if dp_algorithm params = Rsa_oaep_sha256 then rsa_oaep_sha256_params else dp_rsa_oaep params)
                           in (eme_oaep_decode encoded oaep, r)))))"

section \<open>The length in bits\<close>

lemma high_bits_bounds: "v \<noteq> 0 \<Longrightarrow> 2 ^ (high_bits v - 1) \<le> unat v \<and> unat v < 2 ^ high_bits v \<and> 0 < high_bits v"
proof (induction v rule: high_bits.induct)
  case (1 v)
  have half: "unat (drop_bit 1 v) = unat v div 2" by (simp add: unat_drop_bit_div)
  show ?case
  proof (cases "drop_bit 1 v = 0")
    case True
    then have "unat v div 2 = 0" using half by simp
    then have "unat v = 1" using 1(2) by (simp add: unat_gt_0 [symmetric] del: unat_gt_0)
    then show ?thesis using 1(2) True by (simp add: high_bits.simps [of v] high_bits.simps [of 0])
  next
    case False
    note ih = 1(1) [OF 1(2) False]
    have hb: "high_bits v = Suc (high_bits (drop_bit 1 v))" using 1(2) by (simp add: high_bits.simps [of v])
    obtain k where k: "high_bits (drop_bit 1 v) = Suc k" using ih by (cases "high_bits (drop_bit 1 v)") auto
    show ?thesis using ih unfolding hb half k by auto
  qed
qed

lemma bit_length_bounds:
  assumes "be_val bs \<noteq> 0"
  shows "0 < bit_length bs" "2 ^ (bit_length bs - 1) \<le> be_val bs" "be_val bs < 2 ^ bit_length bs"
proof -
  let ?d = "dropWhile (\<lambda>b. b = 0) bs"
  have v: "be_val ?d = be_val bs" by simp
  have ne: "?d \<noteq> []" using v assms by (metis be_val_Nil)
  then obtain b rest where d: "?d = b # rest" by (cases ?d) auto
  then have "b \<noteq> 0" using hd_dropWhile [OF ne] by simp
  note hb = high_bits_bounds [OF this]
  have val: "be_val bs = unat b * 256 ^ length rest + be_val rest" using v unfolding d by (simp add: be_val_Cons)
  have bl: "bit_length bs = length rest * 8 + high_bits b" by (simp add: bit_length_def d)
  have p: "(256::nat) ^ length rest = 2 ^ (length rest * 8)" by (simp add: power_mult mult.commute [of "length rest"])
  show "0 < bit_length bs" using hb bl by simp
  obtain h where h: "high_bits b = Suc h" using hb by (cases "high_bits b") auto
  have "2 ^ (bit_length bs - 1) = (2::nat) ^ h * 256 ^ length rest" by (simp add: bl h p power_add)
  also have "\<dots> \<le> unat b * 256 ^ length rest" using hb h by (intro mult_le_mono1) simp
  finally show "2 ^ (bit_length bs - 1) \<le> be_val bs" using val by simp
  have "be_val bs < (unat b + 1) * 256 ^ length rest" using val be_val_bound [of rest] by simp
  also have "\<dots> \<le> 2 ^ high_bits b * 256 ^ length rest" using hb by (intro mult_le_mono1) simp
  also have "\<dots> = 2 ^ bit_length bs" by (simp add: bl p power_add)
  finally show "be_val bs < 2 ^ bit_length bs" .
qed

lemma bit_length_le: "bit_length bs \<le> 8 * length bs"
proof (cases "be_val bs = 0")
  case True
  have "dropWhile (\<lambda>b. b = 0) bs = []"
  proof (rule ccontr)
    assume ne: "dropWhile (\<lambda>b. b = 0) bs \<noteq> []"
    then obtain b rest where d: "dropWhile (\<lambda>b. b = 0) bs = b # rest" by (cases "dropWhile (\<lambda>b. b = 0) bs") auto
    then have "b \<noteq> 0" using hd_dropWhile [OF ne] by simp
    then have "be_val (b # rest) \<noteq> 0" by (simp add: be_val_Cons unat_gt_0)
    then show False using True be_val_dropWhile_0 [of bs] unfolding d by simp
  qed
  then have "bit_length bs = 0" unfolding bit_length_def by (simp only: list.case)
  then show ?thesis by simp
next
  case False
  note b = bit_length_bounds [OF False]
  have "(2::nat) ^ (bit_length bs - 1) < 2 ^ (8 * length bs)"
    using b(2) be_val_bound [of bs] by (simp add: power_mult)
  then have "bit_length bs - 1 < 8 * length bs" by (rule power_less_imp_less_exp [rotated]) simp
  then show ?thesis using b(1) by simp
qed

section \<open>The blinded operation\<close>

text \<open>Whatever the generator gives, a result is the result of the private operation.\<close>

lemma blinding_attempts_sound:
  assumes k: "rsa_prime_key k" "rsa_fits k"
  shows "fst (blinding_attempts draw k m n e r) = Inr out \<Longrightarrow> rsa_private_operation k m = Inr out"
proof (induction n arbitrary: e r)
  case (Suc n)
  note B = rsa_blinded_value [OF k, of m]
  obtain d r1 where d: "draw r (length (rp_modulus k)) = (d, r1)" by fastforce
  show ?case
  proof (cases d)
    case (Inr b)
    then show ?thesis using Suc d B [of b] by (auto split: if_splits sum.splits)
  qed (use Suc.prems d in simp)
qed simp

text \<open>The first blinding factor that is invertible ends the loop.\<close>

lemma blinding_attempts_first:
  assumes k: "rsa_prime_key k" "rsa_fits k" and m: "be_val m < be_val (rp_modulus k)"
    and d: "draw r (length (rp_modulus k)) = (Inr b, r1)"
    and b: "\<not> be_val (rp_prime1 k) dvd be_val b" "\<not> be_val (rp_prime2 k) dvd be_val b"
  shows "\<exists>out. blinding_attempts draw k m (Suc n) e r = (Inr out, r1) \<and> rsa_private_operation k m = Inr out"
proof -
  have "be_val b \<noteq> 0" by (rule ccontr) (use b in simp)
  then have "rsa_private_crt_blinded_operation k m b = rsa_private_operation k m"
    using rsa_blinded_value [OF k, of m b] m b by simp
  moreover obtain out where "rsa_private_operation k m = Inr out"
    using rsa_private_value [of k m] m rsa_prime_keyD(5-7,13) [OF k(1)] by auto
  ultimately show ?thesis using d by simp
qed

section \<open>Sizes of a key\<close>

lemma rsa_modulus_size:
  assumes "rsa_prime_key k" "rsa_fits k"
  shows "length (rp_modulus k) \<le> 512" "0 < length (rp_modulus k)" "bit_length (rp_modulus k) < 2 ^ 60"
    "256 ^ (length (rp_modulus k) - 1) \<le> be_val (rp_modulus k)"
proof -
  have u: "rsa_uint (rp_modulus k)" using assms(1) by (simp add: rsa_prime_key_def rsa_private_ok_def rsa_odd_uint_def)
  then obtain b bs where m: "rp_modulus k = b # bs" "b \<noteq> 0" by (cases "rp_modulus k") (auto simp: rsa_uint_def)
  have "(256::nat) ^ length bs \<le> unat b * 256 ^ length bs" using m(2) by (simp add: unat_gt_0 Suc_le_eq)
  then have "256 ^ length bs \<le> unat b * 256 ^ length bs + be_val bs" by (rule trans_le_add1)
  then show low: "256 ^ (length (rp_modulus k) - 1) \<le> be_val (rp_modulus k)" unfolding m(1) be_val_Cons by simp
  show "0 < length (rp_modulus k)" by (simp add: m(1))
  have fit: "be_val p < 256 ^ 256" if "length p \<le> 256" for p
    using be_val_bound [of p] power_increasing [OF that, of "256::nat"] by (simp only: less_le_trans one_le_numeral)
  have "be_val (rp_prime1 k) < 256 ^ 256" "be_val (rp_prime2 k) < 256 ^ 256"
    using assms(2) fit unfolding rsa_fits_def by blast+
  then have "be_val (rp_modulus k) < 256 ^ 256 * 256 ^ 256"
    unfolding rsa_prime_keyD(7) [OF assms(1)] by (rule mult_strict_mono) simp_all
  also have "\<dots> = (256::nat) ^ 512" by (simp only: power_add [symmetric]) simp
  finally have "(256::nat) ^ (length (rp_modulus k) - 1) < 256 ^ 512" using low by simp
  then have "length (rp_modulus k) - 1 < 512" by (rule power_less_imp_less_exp [rotated]) simp
  then show l: "length (rp_modulus k) \<le> 512" by simp
  show "bit_length (rp_modulus k) < 2 ^ 60" using bit_length_le [of "rp_modulus k"] l by simp
qed

section \<open>The encoded message of a signature\<close>

lemma and_drop_less: "u \<le> 8 \<Longrightarrow> (x::u8) AND drop_bit u 0xFF = x \<Longrightarrow> unat x < 2 ^ (8 - u)"
proof -
  assume u: "u \<le> 8" and x: "x AND drop_bit u 0xFF = x"
  have "drop_bit u (0xFF::u8) = mask (8 - u)"
    by (rule bit_word_eqI) (auto simp: bit_drop_ff bit_mask_iff)
  then have "take_bit (8 - u) x = x" using x by (simp add: take_bit_eq_mask)
  then have "unat x = unat x mod 2 ^ (8 - u)" by (metis unat_take_bit_mod)
  then show ?thesis by (metis mod_less_divisor zero_less_numeral zero_less_power)
qed

lemma pss_encoding_bound:
  assumes "bits < 2 ^ 60" "emsa_pss_encode bits mh salt params = Inr em"
  shows "length em = (bits + 7) div 8" "be_val em < 2 ^ bits"
proof -
  let ?n = "(bits + 7) div 8" and ?hs = "digest_size (ps_message_hash params)"
  have s: "pss_sizes bits mh params" "length salt = unat (ps_salt_length params)" "em = pss_encoding bits mh salt params"
    using assms(2) emsa_pss_encode_iff [OF assms(1)] by simp_all
  define h where "h = hash_spec (ps_message_hash params) (replicate 8 0 @ mh @ salt)"
  define x where "x = xor_bytes (pss_db (?n - length salt - ?hs - 2) salt) (mgf1_octets (ps_mgf1_hash params) h (?n - ?hs - 1))"
  have em: "em = clear_unused_bits (8 * ?n - bits) x @ h @ [0xBC]"
    using s(3) by (simp add: pss_encoding_def Let_def h_def x_def)
  have hs: "?hs + length salt + 2 \<le> ?n" using s(1,2) by (simp add: pss_sizes_def)
  then have lx: "length x = ?n - ?hs - 1" by (simp add: x_def pss_db_def)
  show len: "length em = ?n" using hs lx by (simp add: em h_def)
  obtain c cs where c: "clear_unused_bits (8 * ?n - bits) x = c # cs"
    using lx hs by (cases "clear_unused_bits (8 * ?n - bits) x") (auto simp flip: length_0_conv)
  have u: "8 * ?n - bits \<le> 8" "bits \<le> 8 * ?n" by simp_all
  have "c # cs = clear_unused_bits (8 * ?n - bits) (c # cs)" unfolding c [symmetric] by simp
  then have "8 * ?n - bits = 0 \<or> c AND drop_bit (8 * ?n - bits) 0xFF = c" by (simp only: clear_fix)
  then have "unat c < 2 ^ (8 - (8 * ?n - bits))"
  proof
    assume "8 * ?n - bits = 0"
    then show ?thesis using unat_u8_less [of c] by simp
  qed (rule and_drop_less [OF u(1)])
  then have cb: "unat c + 1 \<le> 2 ^ (8 - (8 * ?n - bits))" by simp
  have e: "em = c # (cs @ h @ [0xBC])" (is "em = c # ?r") using em c by simp
  have "be_val em < (unat c + 1) * 256 ^ length ?r"
    unfolding e using be_val_bound [of ?r] by (simp add: be_val_Cons)
  also have "\<dots> \<le> 2 ^ (8 - (8 * ?n - bits)) * 256 ^ length ?r" using cb by (rule mult_le_mono1)
  also have "(256::nat) ^ length ?r = 2 ^ (8 * length ?r)" by (simp only: power_mult) simp
  also have "2 ^ (8 - (8 * ?n - bits)) * \<dots> = (2::nat) ^ (8 - (8 * ?n - bits) + 8 * length ?r)" by (simp only: power_add)
  also have "8 - (8 * ?n - bits) + 8 * length ?r = bits"
  proof -
    have "length ?r + 1 = ?n" using len e by simp
    then show ?thesis using u by linarith
  qed
  finally show "be_val em < 2 ^ bits" .
qed

section \<open>Signing and verifying\<close>

lemma hash_result: "length m < 2 ^ 64 \<Longrightarrow> hash a m = Inr (hash_spec a m)"
  by (rule hash_spec_correct)

text \<open>The representative of a signature, which the public operation recovers.\<close>

lemma public_of_private:
  assumes "rsa_prime_key k" "be_val m < be_val (rp_modulus k)" "rsa_private_operation k m = Inr c"
  shows "length c = length (rp_modulus k) \<and>
    (\<exists>out. rsa_public_operation (rsa_public_part k) c = Inr out \<and> be_octets (length (rp_modulus k)) (be_val m) out)"
proof -
  note D = rsa_prime_keyD [OF assms(1)]
  have c: "be_octets (length (rp_modulus k)) (be_val m ^ be_val (rp_private_exponent k) mod be_val (rp_modulus k)) c"
    by (rule iffD1 [OF private_result [OF assms(1,2)] assms(3)])
  have "0 < be_val (rp_modulus k)" using assms(2) by simp
  then have lt: "be_val c < be_val (rp_modulus k)" using c by (simp add: be_octets_def)
  obtain out where out: "rsa_public_operation (rsa_public_part k) c = Inr out"
      "be_octets (length (rp_modulus k)) (be_val c ^ be_val (rp_public_exponent k) mod be_val (rp_modulus k)) out"
    using rsa_public_value [of "rsa_public_part k" c] lt D(13,14) by (auto simp: rsa_public_part_def)
  have "be_val c ^ be_val (rp_public_exponent k) mod be_val (rp_modulus k)
      = be_val m ^ (be_val (rp_public_exponent k) * be_val (rp_private_exponent k)) mod be_val (rp_modulus k)"
    using c by (simp add: be_octets_def power_mod mult.commute flip: power_mult)
  also have "\<dots> = be_val m" by (rule rsa_inverse [OF assms(1,2)])
  finally show ?thesis using out c by (simp add: be_octets_def)
qed

text \<open>What has happened when signing returns a signature.\<close>

lemma native_sign_cases:
  assumes "native_sign_rsa draw params message r = (Inr sig, r')"
    and "sp_private_key params = Some sk" "parse_rsa_private_key_der (priv_material sk) = Inr k" "length message < 2 ^ 64"
  obtains salt em r1 where "is_rsa_pss_algorithm (sp_algorithm params)"
    "emsa_pss_encode (bit_length (rp_modulus k) - 1)
       (hash_spec (ps_message_hash (rsa_pss_params_sign params)) message) salt (rsa_pss_params_sign params) = Inr em"
    "rsa_private_crt_blinded_with_rng draw k em r1 = (Inr sig, r')"
proof -
  define pss where "pss = rsa_pss_params_sign params"
  obtain salt r1 where salt: "(if ps_salt_length pss = 0 then (Inr [], r) else draw r (unat (ps_salt_length pss))) = (Inr salt, r1)"
    using assms(1,2,3) hash_result [OF assms(4), of "ps_message_hash pss"]
    by (cases "if ps_salt_length pss = 0 then (Inr [], r) else draw r (unat (ps_salt_length pss))")
      (auto simp: native_sign_rsa_def Let_def pss_def split: if_splits sum.splits)
  show thesis
    using assms(1,2,3) hash_result [OF assms(4), of "ps_message_hash pss"] salt that [of salt _ r1]
    by (auto simp: native_sign_rsa_def Let_def pss_def [symmetric] split: if_splits sum.splits)
qed

text \<open>Signing returns a signature when the encoding fits and the first blinding factor is invertible.\<close>

lemma native_sign_returns:
  fixes params :: sign_params
  defines "pss \<equiv> rsa_pss_params_sign params"
  assumes k: "rsa_prime_key k" "rsa_fits k"
    and par: "is_rsa_pss_algorithm (sp_algorithm params)" "sp_private_key params = Some sk" "priv_algorithm sk = Rsa"
      "has_key_usage (priv_usages sk) Usage_sign" "parse_rsa_private_key_der (priv_material sk) = Inr k"
    and len: "length message < 2 ^ 64"
    and size: "digest_size (ps_message_hash pss) + unat (ps_salt_length pss) + 2 \<le> (bit_length (rp_modulus k) + 6) div 8"
    and salt: "(if ps_salt_length pss = 0 then (Inr [], r) else draw r (unat (ps_salt_length pss))) = (Inr salt, r1)"
      "length salt = unat (ps_salt_length pss)"
    and d: "draw r1 (length (rp_modulus k)) = (Inr b, r2)"
      "\<not> be_val (rp_prime1 k) dvd be_val b" "\<not> be_val (rp_prime2 k) dvd be_val b"
  shows "\<exists>sig. native_sign_rsa draw params message r = (Inr sig, r2)"
proof -
  have n0: "be_val (rp_modulus k) \<noteq> 0" using rsa_prime_keyD(5-7) [OF k(1)] by simp
  note bl = bit_length_bounds [OF n0]
  have bits: "bit_length (rp_modulus k) - 1 < 2 ^ 60" using rsa_modulus_size(3) [OF k] by simp
  define em where "em = pss_encoding (bit_length (rp_modulus k) - 1) (hash_spec (ps_message_hash pss) message) salt pss"
  have e: "bit_length (rp_modulus k) - 1 + 7 = bit_length (rp_modulus k) + 6" using bl(1) by simp
  have "pss_sizes (bit_length (rp_modulus k) - 1) (hash_spec (ps_message_hash pss) message) pss"
    using size unfolding pss_sizes_def e by simp
  then have em: "emsa_pss_encode (bit_length (rp_modulus k) - 1) (hash_spec (ps_message_hash pss) message) salt pss = Inr em"
    using emsa_pss_encode_iff [OF bits] salt(2) by (simp add: em_def)
  have lt: "be_val em < be_val (rp_modulus k)" using pss_encoding_bound(2) [OF bits em] bl(2) by simp
  obtain out where "blinding_attempts draw k em (Suc 7) (native_error Provider_error ''RSA blinding failed'') r1 = (Inr out, r2)"
    using blinding_attempts_first [OF k lt, where draw = draw and r = r1 and b = b and n = 7, OF d] by blast
  then have "rsa_private_crt_blinded_with_rng draw k em r1 = (Inr out, r2)"
    unfolding rsa_private_crt_blinded_with_rng_def by simp
  then show ?thesis
    using par salt(1) bl(1) em hash_result [OF len, of "ps_message_hash pss"]
    unfolding native_sign_rsa_def pss_def by (simp add: Let_def split del: if_split)
qed

lemma native_verify_valid:
  assumes k: "rsa_prime_key k" "rsa_fits k" and par: "vp_public_key params = Some pk" "is_rsa_pss_algorithm (vp_algorithm params)"
    and pk: "parse_rsa_public_key_der (pub_material pk) = Inr (rsa_public_part k)" "pub_algorithm pk = Rsa"
      "has_key_usage (pub_usages pk) Usage_verify"
    and em: "emsa_pss_encode (bit_length (rp_modulus k) - 1)
        (hash_spec (ps_message_hash (rsa_pss_params_verify params)) message) salt (rsa_pss_params_verify params) = Inr em"
    and sig: "rsa_private_operation k em = Inr (vp_signature params)" and len: "length message < 2 ^ 64"
  shows "native_verify_rsa params message = Some (Inr verify_valid)"
proof -
  let ?n = "rp_modulus k" and ?pss = "rsa_pss_params_verify params"
  let ?bits = "bit_length ?n - 1"
  have n0: "be_val ?n \<noteq> 0" using rsa_prime_keyD(5-7) [OF k(1)] by simp
  note bl = bit_length_bounds [OF n0] and size = rsa_modulus_size [OF k]
  have bits: "?bits < 2 ^ 60" using size(3) by simp
  note enc = pss_encoding_bound [OF bits em]
  have lt: "be_val em < be_val ?n" using enc(2) bl(2) by simp
  obtain out where out: "rsa_public_operation (rsa_public_part k) (vp_signature params) = Inr out"
      "be_octets (length ?n) (be_val em) out" and ls: "length (vp_signature params) = length ?n"
    using public_of_private [OF k(1) lt sig] by blast
  have le: "(?bits + 7) div 8 \<le> length ?n" using bit_length_le [of ?n] bl(1) by simp
  have p: "(256::nat) ^ ((?bits + 7) div 8) = 2 ^ (8 * ((?bits + 7) div 8))" by (simp only: power_mult) simp
  have "be_val em < 256 ^ ((?bits + 7) div 8)" using be_val_bound [of em] unfolding enc(1) .
  then have "be_val (last_bytes ((?bits + 7) div 8) out) = be_val em"
    unfolding last_bytes_def using out(2) le be_val_drop_zeros [of out "(?bits + 7) div 8"] by (simp add: be_octets_def)
  moreover have "length (last_bytes ((?bits + 7) div 8) out) = length em"
    unfolding last_bytes_def using out(2) le enc(1) by (simp add: be_octets_def)
  ultimately have last: "last_bytes ((?bits + 7) div 8) out = em" using be_val_inject by blast
  have ok: "emsa_pss_verify em ?bits (hash_spec (ps_message_hash ?pss) message) ?pss = Some (Inr True)"
  proof -
    have s: "pss_sizes ?bits (hash_spec (ps_message_hash ?pss) message) ?pss"
      using em emsa_pss_encode_iff [OF bits] by blast
    show ?thesis
      using emsa_pss_verify_iff [OF bits s] em emsa_pss_encode_iff [OF bits] by blast
  qed
  show ?thesis
    unfolding native_verify_rsa_def
    using par pk ls out le last ok hash_result [OF len]
    by (simp add: rsa_public_part_def be_octets_def Let_def)
qed

text \<open>
  A caller that asks for the salt length whose sum with the hash size and two is \<open>2 ^ 64\<close> makes verify
  read outside its arrays, whatever the signature below the modulus is.
\<close>

lemma native_verify_undefined:
  assumes par: "vp_public_key params = Some pk" "vp_algorithm params = Rsa_pss"
    and pk: "parse_rsa_public_key_der (pub_material pk) = Inr key" "pub_algorithm pk = Rsa" "has_key_usage (pub_usages pk) Usage_verify"
    and key: "be_val (rk_public_exponent key) \<noteq> 0" "length (rk_modulus key) < 2 ^ 50"
    and sig: "length (vp_signature params) = length (rk_modulus key)" "be_val (vp_signature params) < be_val (rk_modulus key)"
    and salt: "ps_salt_length (vp_rsa_pss params) = - of_nat (digest_size (ps_message_hash (vp_rsa_pss params)) + 2)"
    and len: "length message < 2 ^ 64"
  shows "native_verify_rsa params message = None"
proof -
  let ?n = "rk_modulus key" and ?pss = "vp_rsa_pss params"
  let ?hs = "digest_size (ps_message_hash ?pss)" and ?bits = "bit_length (rk_modulus key) - 1"
  have n0: "be_val ?n \<noteq> 0" using sig(2) by simp
  note bl = bit_length_bounds [OF n0]
  obtain out where out: "rsa_public_operation key (vp_signature params) = Inr out" "length out = length ?n"
    using rsa_public_value [of key "vp_signature params"] n0 key(1) sig(2) by (auto simp: be_octets_def not_le)
  have bits: "?bits < 2 ^ 60" using bit_length_le [of ?n] key(2) by simp
  have le: "(?bits + 7) div 8 \<le> length ?n" using bit_length_le [of ?n] bl(1) by simp
  have s: "unat (ps_salt_length ?pss) = 2 ^ 64 - (?hs + 2)"
    using digest_size_le(1) [of "ps_message_hash ?pss"] unfolding salt
    by (cases "ps_message_hash ?pss") simp_all
  have sum: "?hs + unat (ps_salt_length ?pss) + 2 = 2 ^ 64"
    using digest_size_le(1) [of "ps_message_hash ?pss"] unfolding s by simp
  have "emsa_pss_verify (last_bytes ((?bits + 7) div 8) out) ?bits (hash_spec (ps_message_hash ?pss) message) ?pss = None"
    unfolding emsa_pss_verify_undefined [OF bits] sum using out(2) le by (simp add: last_bytes_def)
  then show ?thesis
    unfolding native_verify_rsa_def
    using par pk sig(1) out le hash_result [OF len, of "ps_message_hash ?pss"]
    by (simp add: rsa_pss_params_verify_def Let_def)
qed

section \<open>Encrypting and decrypting\<close>

lemma private_of_public:
  assumes "rsa_prime_key k" "length m = length (rp_modulus k)" "be_val m < be_val (rp_modulus k)"
    and "rsa_public_operation (rsa_public_part k) m = Inr c"
  shows "length c = length (rp_modulus k)" "be_val c < be_val (rp_modulus k)" "rsa_private_operation k c = Inr m"
proof -
  have c: "be_octets (length (rp_modulus k)) (be_val m ^ be_val (rp_public_exponent k) mod be_val (rp_modulus k)) c"
    by (rule iffD1 [OF public_result [OF assms(1,3)] assms(4)])
  then show l: "length c = length (rp_modulus k)" by (simp add: be_octets_def)
  have "0 < be_val (rp_modulus k)" using assms(3) by simp
  then show lt: "be_val c < be_val (rp_modulus k)" using c by (simp add: be_octets_def)
  have "be_val c ^ be_val (rp_private_exponent k) mod be_val (rp_modulus k)
      = be_val m ^ (be_val (rp_public_exponent k) * be_val (rp_private_exponent k)) mod be_val (rp_modulus k)"
    using c by (simp add: be_octets_def power_mod power_mult)
  also have "\<dots> = be_val m" by (rule rsa_inverse [OF assms(1,3)])
  finally show "rsa_private_operation k c = Inr m"
    using assms(2) by (intro iffD2 [OF private_result [OF assms(1) lt]]) (simp add: be_octets_def)
qed

lemma oaep_encoding_bound:
  assumes "n < 2 ^ 60" "length (oa_label params) < 2 ^ 64" "eme_oaep_encode n m seed params = Inr em"
  shows "length em = n" "be_val em < 256 ^ (n - 1)"
proof -
  let ?hs = "digest_size (oa_message_hash params)"
  have s: "oaep_sizes n m seed params" "em = oaep_encoding n m seed params"
    using eme_oaep_encode_iff [OF assms(1,2)] assms(3) by simp_all
  then show l: "length em = n"
    by (auto simp: oaep_encoding_def oaep_sizes_def Let_def length_oaep_db)
  obtain rest where e: "em = 0 # rest" using s(2) by (simp add: oaep_encoding_def Let_def)
  then have "length rest = n - 1" using l by simp
  then show "be_val em < 256 ^ (n - 1)" using be_val_bound [of rest] e by (simp add: be_val_Cons)
qed

text \<open>The parameters of an encryption: the fixed ones, or those given.\<close>

definition oaep_choice :: "asymmetric_encryption_algorithm \<Rightarrow> rsa_oaep_params \<Rightarrow> rsa_oaep_params" where
  "oaep_choice a oaep = (if a = Rsa_oaep_sha256 then rsa_oaep_sha256_params else oaep)"

lemma native_encrypt_cases:
  assumes "native_asymmetric_encrypt draw \<lparr>ep_algorithm = a, ep_public_key = Some pk, ep_rsa_oaep = oaep\<rparr> m r = (Inr c, r')"
    and "parse_rsa_public_key_der (pub_material pk) = Inr key"
  obtains seed em where "eme_oaep_encode (length (rk_modulus key)) m seed (oaep_choice a oaep) = Inr em"
    "rsa_public_operation key em = Inr c"
proof -
  define o' where "o' = oaep_choice a oaep"
  obtain d r1 where d: "draw r (digest_size (oa_message_hash o')) = (d, r1)" by fastforce
  show thesis
    using assms d that unfolding native_asymmetric_encrypt_def oaep_choice_def [symmetric] asymmetric_encrypt_params.select_convs
    by (auto simp: Let_def o'_def split: if_splits sum.splits)
qed

lemma native_decrypt_value:
  assumes "parse_rsa_private_key_der (priv_material sk) = Inr k" "priv_algorithm sk = Rsa"
    "has_key_usage (priv_usages sk) Usage_decrypt" "length c = length (rp_modulus k)"
    and "rsa_private_crt_blinded_with_rng draw k c r = (x, r')"
  shows "native_asymmetric_decrypt draw \<lparr>dp_algorithm = a, dp_private_key = Some sk, dp_rsa_oaep = oaep\<rparr> c r
    = (case x of
         Inl e \<Rightarrow> (Inl (if err_code e = Invalid_argument
                     then native_error Authentication_failed ''RSA-OAEP ciphertext is invalid'' else e), r')
       | Inr em \<Rightarrow> (eme_oaep_decode em (oaep_choice a oaep), r'))"
proof -
  have "is_rsa_oaep_algorithm a" by (cases a) simp_all
  then show ?thesis
    using assms unfolding native_asymmetric_decrypt_def oaep_choice_def [symmetric] asymmetric_decrypt_params.select_convs
    by (cases x) (simp_all add: Let_def)
qed

section \<open>Properties\<close>

text \<open>
  C3: what NativeProvider signs with RSA-PSS, it verifies. For a private key and the public key of
  the same numbers with prime factors, in any of their DER forms, and for every message, hash, mask
  hash and salt length: if sign returns a signature, whatever random bytes the generator gave for
  the salt and the blinding, verify of the signature with the same parameters says valid.
\<close>

theorem native_rsa_sign_verify:
  assumes "parse_rsa_private_key_der (priv_material sk) = Inr k"
    and "prime_nat (be_val (rp_prime1 k))" "prime_nat (be_val (rp_prime2 k))"
    and "length (rp_prime1 k) \<le> 256" "length (rp_prime2 k) \<le> 256" "length (priv_material sk) < 2 ^ 64"
    and "parse_rsa_public_key_der (pub_material pk) = Inr (rsa_public_part k)" "pub_algorithm pk = Rsa"
      "has_key_usage (pub_usages pk) Usage_verify"
    and "length message < 2 ^ 64"
    and "native_sign_rsa draw \<lparr>sp_algorithm = a, sp_private_key = Some sk, sp_rsa_pss = pss\<rparr> message r = (Inr sig, r')"
  shows "native_verify_rsa \<lparr>vp_algorithm = a, vp_public_key = Some pk, vp_signature = sig, vp_rsa_pss = pss\<rparr> message
    = Some (Inr verify_valid)"
proof -
  have k: "rsa_prime_key k" "rsa_fits k"
    using assms(1-6) private_key_der_iff [OF assms(6)] by (simp_all add: rsa_prime_key_def rsa_fits_def)
  let ?sp = "\<lparr>sp_algorithm = a, sp_private_key = Some sk, sp_rsa_pss = pss\<rparr>"
    and ?vp = "\<lparr>vp_algorithm = a, vp_public_key = Some pk, vp_signature = sig, vp_rsa_pss = pss\<rparr>"
  have params: "rsa_pss_params_sign ?sp = rsa_pss_params_verify ?vp"
    by (simp add: rsa_pss_params_sign_def rsa_pss_params_verify_def)
  obtain salt em r1 where s: "is_rsa_pss_algorithm (sp_algorithm ?sp)"
    "emsa_pss_encode (bit_length (rp_modulus k) - 1)
       (hash_spec (ps_message_hash (rsa_pss_params_sign ?sp)) message) salt (rsa_pss_params_sign ?sp) = Inr em"
    "rsa_private_crt_blinded_with_rng draw k em r1 = (Inr sig, r')"
    by (rule native_sign_cases [OF assms(11) _ assms(1,10)]) simp_all
  have "fst (blinding_attempts draw k em 8 (native_error Provider_error ''RSA blinding failed'') r1) = Inr sig"
    using s(3) by (simp add: rsa_private_crt_blinded_with_rng_def)
  then have "rsa_private_operation k em = Inr sig" by (rule blinding_attempts_sound [OF k])
  then show ?thesis
    using s(1,2) assms(7-10) params by (intro native_verify_valid [OF k, where salt = salt and em = em]) simp_all
qed

text \<open>A generator whose bytes are the number one, and the keys of the example.\<close>

definition ones_source :: "unit source" where
  "ones_source r n = (Inr (replicate (n - 1) 0 @ [1]), r)"

definition example_private :: private_key where
  "example_private = \<lparr>priv_algorithm = Rsa,
     priv_usages = usage_or (usage_or 0 Usage_sign) Usage_decrypt,
     priv_material = der_rsa_private_key long_key, priv_der_encoded = True\<rparr>"

definition example_public :: public_key where
  "example_public = \<lparr>pub_algorithm = Rsa,
     pub_usages = usage_or (usage_or 0 Usage_verify) Usage_encrypt,
     pub_material = der_rsa_public_key (rsa_public_part long_key), pub_der_encoded = True\<rparr>"

lemma example_usages:
  "has_key_usage (priv_usages example_private) Usage_sign" "has_key_usage (priv_usages example_private) Usage_decrypt"
  "has_key_usage (pub_usages example_public) Usage_verify" "has_key_usage (pub_usages example_public) Usage_encrypt"
  by (simp_all add: example_private_def example_public_def has_key_usage_def usage_or_def)

lemma example_materials:
  "parse_rsa_private_key_der (priv_material example_private) = Inr long_key"
  "parse_rsa_public_key_der (pub_material example_public) = Inr (rsa_public_part long_key)"
  "priv_algorithm example_private = Rsa" "pub_algorithm example_public = Rsa"
  "length (priv_material example_private) < 2 ^ 64"
  using long_key_parses long_key_der by (simp_all add: example_private_def example_public_def)

lemma long_key_prime: "rsa_prime_key long_key" "rsa_fits long_key"
  "prime_nat (be_val (rp_prime1 long_key))" "prime_nat (be_val (rp_prime2 long_key))"
  using long_key_ok long_key_sizes rsa_p_prime prime_p256 by (simp_all add: rsa_prime_key_def rsa_fits_def)

lemma ones_invertible:
  assumes "0 < n"
  shows "\<not> be_val (rp_prime1 long_key) dvd be_val (replicate (n - 1) 0 @ [1])"
    "\<not> be_val (rp_prime2 long_key) dvd be_val (replicate (n - 1) 0 @ [1])"
  using long_key_prime(3,4)[THEN prime_nat_gt_1] by (simp_all add: be_val_append be_val_Cons)

lemma length_ones: "0 < n \<Longrightarrow> length (replicate (n - 1) (0::u8) @ [1]) = n"
  by simp

theorem native_rsa_sign_verify_witness:
  "\<exists>sig. native_sign_rsa ones_source \<lparr>sp_algorithm = Rsa_pss_sha256, sp_private_key = Some example_private,
       sp_rsa_pss = pss_for_hash Sha512\<rparr> [1, 2, 3] () = (Inr sig, ()) \<and>
     native_verify_rsa \<lparr>vp_algorithm = Rsa_pss_sha256, vp_public_key = Some example_public, vp_signature = sig,
       vp_rsa_pss = pss_for_hash Sha512\<rparr> [1, 2, 3] = Some (Inr verify_valid)"
proof -
  let ?sp = "\<lparr>sp_algorithm = Rsa_pss_sha256, sp_private_key = Some example_private, sp_rsa_pss = pss_for_hash Sha512\<rparr>"
  have pss: "rsa_pss_params_sign ?sp = pss_for_hash Sha256" by (simp add: rsa_pss_params_sign_def)
  have v: "(2::nat) ^ 530 \<le> be_val (rp_modulus long_key)" by (simp add: rsa_p_def p256_p_def)
  then have "be_val (rp_modulus long_key) \<noteq> 0" by (metis le_zero_eq power_not_zero zero_neq_numeral)
  from le_less_trans [OF v bit_length_bounds(3) [OF this]]
  have "(2::nat) ^ 530 < 2 ^ bit_length (rp_modulus long_key)" .
  then have "530 < bit_length (rp_modulus long_key)" by (rule power_less_imp_less_exp [rotated]) simp
  then have size: "digest_size (ps_message_hash (rsa_pss_params_sign ?sp)) + unat (ps_salt_length (rsa_pss_params_sign ?sp)) + 2
      \<le> (bit_length (rp_modulus long_key) + 6) div 8"
    unfolding pss by (simp add: pss_for_hash_def)
  have "\<exists>sig. native_sign_rsa ones_source ?sp [1, 2, 3] () = (Inr sig, ())"
    by (rule native_sign_returns [OF long_key_prime(1,2) _ _ example_materials(3) example_usages(1) example_materials(1) _ size
          _ _ _ ones_invertible [of 67], where salt = "replicate 31 0 @ [1]" and r = "()" and ?r1.0 = "()"])
      (simp_all add: rsa_pss_params_sign_def ones_source_def pss_for_hash_def long_key_sizes(3))
  then obtain sig where sig: "native_sign_rsa ones_source ?sp [1, 2, 3] () = (Inr sig, ())" ..
  with native_rsa_sign_verify [OF example_materials(1) long_key_prime(3,4) long_key_sizes(1,2) example_materials(5,2,4)
      example_usages(3) _ sig]
  show ?thesis by simp
qed

text \<open>
  C11: what NativeProvider encrypts with RSA-OAEP, it decrypts. For matching keys with prime
  factors, in any of their DER forms, and every message, label and pair of hashes: if encrypt
  returns a ciphertext, decrypting it with the same parameters returns no other plaintext, whatever
  random bytes the generator gives for the blinding, and it does return the plaintext as soon as
  the generator gives an invertible blinding factor.
\<close>

theorem native_rsa_encrypt_decrypt:
  assumes "parse_rsa_private_key_der (priv_material sk) = Inr k" "length (priv_material sk) < 2 ^ 64"
    and "prime_nat (be_val (rp_prime1 k))" "prime_nat (be_val (rp_prime2 k))"
    and "length (rp_prime1 k) \<le> 256" "length (rp_prime2 k) \<le> 256"
    and "priv_algorithm sk = Rsa" "has_key_usage (priv_usages sk) Usage_decrypt"
    and "parse_rsa_public_key_der (pub_material pk) = Inr (rsa_public_part k)" "length (oa_label oaep) < 2 ^ 64"
    and "native_asymmetric_encrypt draw \<lparr>ep_algorithm = a, ep_public_key = Some pk, ep_rsa_oaep = oaep\<rparr> m r = (Inr c, r')"
  shows
    "(native_asymmetric_decrypt draw2 \<lparr>dp_algorithm = a, dp_private_key = Some sk, dp_rsa_oaep = oaep\<rparr> c s = (Inr out, s')
        \<longrightarrow> out = m) \<and>
     (draw2 s (length (rp_modulus k)) = (Inr b, s') \<and> \<not> be_val (rp_prime1 k) dvd be_val b \<and> \<not> be_val (rp_prime2 k) dvd be_val b
        \<longrightarrow> native_asymmetric_decrypt draw2 \<lparr>dp_algorithm = a, dp_private_key = Some sk, dp_rsa_oaep = oaep\<rparr> c s = (Inr m, s'))"
proof -
  have k: "rsa_prime_key k" "rsa_fits k"
    using assms(1-6) private_key_der_iff [OF assms(2)] by (simp_all add: rsa_prime_key_def rsa_fits_def)
  let ?n = "rp_modulus k" and ?o = "oaep_choice a oaep"
  have lab: "length (oa_label ?o) < 2 ^ 64"
    using assms(10) by (simp add: oaep_choice_def rsa_oaep_sha256_params_def oaep_for_hash_def)
  note size = rsa_modulus_size [OF k]
  have n: "length ?n < 2 ^ 60" using size(1) by simp
  obtain seed em where em: "eme_oaep_encode (length ?n) m seed ?o = Inr em"
      and c: "rsa_public_operation (rsa_public_part k) em = Inr c"
    by (rule native_encrypt_cases [OF assms(11,9)]) (simp add: rsa_public_part_def)
  note enc = oaep_encoding_bound [OF n lab em]
  have lt: "be_val em < be_val ?n" using enc(2) size(4) by simp
  note priv = private_of_public [OF k(1) enc(1) lt c]
  have dec: "eme_oaep_decode em ?o = Inr m"
    using eme_oaep_decode_iff [of em ?o m] eme_oaep_encode_iff [OF n lab] em enc(1) n lab by auto
  obtain x s1 where x: "rsa_private_crt_blinded_with_rng draw2 k c s = (x, s1)" by fastforce
  note val = native_decrypt_value [OF assms(1,7,8) priv(1) x, of a oaep]
  have any: "x' = em" if "x = Inr x'" for x'
  proof -
    have "fst (blinding_attempts draw2 k c 8 (native_error Provider_error ''RSA blinding failed'') s) = Inr x'"
      using x that by (simp add: rsa_private_crt_blinded_with_rng_def)
    then have "rsa_private_operation k c = Inr x'" by (rule blinding_attempts_sound [OF k])
    then show ?thesis using priv(3) by simp
  qed
  have "out = m" if "native_asymmetric_decrypt draw2 \<lparr>dp_algorithm = a, dp_private_key = Some sk, dp_rsa_oaep = oaep\<rparr> c s = (Inr out, s')"
    using that any dec unfolding val by (cases x) auto
  moreover have "native_asymmetric_decrypt draw2 \<lparr>dp_algorithm = a, dp_private_key = Some sk, dp_rsa_oaep = oaep\<rparr> c s = (Inr m, s')"
    if d: "draw2 s (length ?n) = (Inr b, s')" "\<not> be_val (rp_prime1 k) dvd be_val b" "\<not> be_val (rp_prime2 k) dvd be_val b"
  proof -
    have "\<exists>out. rsa_private_crt_blinded_with_rng draw2 k c s = (Inr out, s')"
      using blinding_attempts_first [OF k priv(2), where draw = draw2 and r = s and b = b and n = 7
        and e = "native_error Provider_error ''RSA blinding failed''", OF d]
      unfolding rsa_private_crt_blinded_with_rng_def by simp blast
    then show ?thesis using x any dec unfolding val by auto
  qed
  ultimately show ?thesis by blast
qed

lemma native_encrypt_returns:
  fixes params :: asymmetric_encrypt_params
  defines "o' \<equiv> oaep_choice (ep_algorithm params) (ep_rsa_oaep params)"
  assumes k: "rsa_prime_key k" "rsa_fits k"
    and par: "ep_public_key params = Some pk" "pub_algorithm pk = Rsa" "has_key_usage (pub_usages pk) Usage_encrypt"
      "parse_rsa_public_key_der (pub_material pk) = Inr (rsa_public_part k)"
    and seed: "draw r (digest_size (oa_message_hash o')) = (Inr seed, r1)" "length seed = digest_size (oa_message_hash o')"
    and size: "length m + 2 * digest_size (oa_message_hash o') + 2 \<le> length (rp_modulus k)" "length (oa_label o') < 2 ^ 64"
  shows "\<exists>c. native_asymmetric_encrypt draw params m r = (Inr c, r1)"
proof -
  note sz = rsa_modulus_size [OF k]
  have n: "length (rp_modulus k) < 2 ^ 60" using sz(1) by simp
  define em where "em = oaep_encoding (length (rp_modulus k)) m seed o'"
  have em: "eme_oaep_encode (length (rp_modulus k)) m seed o' = Inr em"
    using eme_oaep_encode_iff [OF n size(2)] size(1) seed(2) by (simp add: em_def oaep_sizes_def)
  have lt: "be_val em < be_val (rp_modulus k)" using oaep_encoding_bound(2) [OF n size(2) em] sz(4) by simp
  obtain c where "rsa_public_operation (rsa_public_part k) em = Inr c"
    using rsa_public_value [of "rsa_public_part k" em] lt rsa_prime_keyD(14) [OF k(1)] by (auto simp: rsa_public_part_def)
  moreover have "is_rsa_oaep_algorithm (ep_algorithm params)" by (cases "ep_algorithm params") simp_all
  moreover have rk: "rk_modulus (rsa_public_part k) = rp_modulus k" by (simp add: rsa_public_part_def)
  moreover have ds: "digest_size h \<noteq> 0" for h using digest_size_le(2) [of h] by simp
  ultimately show ?thesis
    using par seed(1) em
    by (simp add: native_asymmetric_encrypt_def o'_def oaep_choice_def Let_def rk ds split del: if_split)
qed

theorem native_rsa_encrypt_decrypt_witness:
  "\<exists>c. native_asymmetric_encrypt ones_source \<lparr>ep_algorithm = Rsa_oaep_sha256, ep_public_key = Some example_public,
       ep_rsa_oaep = oaep_for_hash Sha512\<rparr> [7] () = (Inr c, ()) \<and>
     native_asymmetric_decrypt ones_source \<lparr>dp_algorithm = Rsa_oaep_sha256, dp_private_key = Some example_private,
       dp_rsa_oaep = oaep_for_hash Sha512\<rparr> c () = (Inr [7], ())"
proof -
  let ?ep = "\<lparr>ep_algorithm = Rsa_oaep_sha256, ep_public_key = Some example_public, ep_rsa_oaep = oaep_for_hash Sha512\<rparr>"
  have o: "oaep_choice (ep_algorithm ?ep) (ep_rsa_oaep ?ep) = oaep_for_hash Sha256"
    by (simp add: oaep_choice_def rsa_oaep_sha256_params_def)
  have "\<exists>c. native_asymmetric_encrypt ones_source ?ep [7] () = (Inr c, ())"
    by (rule native_encrypt_returns [OF long_key_prime(1,2) _ example_materials(4) example_usages(4) example_materials(2),
          where seed = "replicate 31 0 @ [1]"])
      (simp_all add: o ones_source_def oaep_for_hash_def long_key_sizes(3)
        oaep_choice_def rsa_oaep_sha256_params_def)
  then obtain c where c: "native_asymmetric_encrypt ones_source ?ep [7] () = (Inr c, ())" ..
  have d: "ones_source () (length (rp_modulus long_key)) = (Inr (replicate (67 - 1) 0 @ [1]), ())"
    by (simp add: ones_source_def long_key_sizes(3))
  have l: "length (oa_label (oaep_for_hash Sha512)) < 2 ^ 64" by (simp add: oaep_for_hash_def)
  have "native_asymmetric_decrypt ones_source \<lparr>dp_algorithm = Rsa_oaep_sha256, dp_private_key = Some example_private,
       dp_rsa_oaep = oaep_for_hash Sha512\<rparr> c () = (Inr [7], ())"
    using native_rsa_encrypt_decrypt [OF example_materials(1,5) long_key_prime(3,4) long_key_sizes(1,2) example_materials(3)
        example_usages(2) example_materials(2) l c, of ones_source "()" _ "()" "replicate (67 - 1) 0 @ [1]"]
      d ones_invertible [of 67, OF zero_less_numeral] by blast
  with c show ?thesis by blast
qed

end
