(* ===== verification/P256_Field.thy ===== *)
theory P256_Field
  imports P256_Prime
begin

text \<open>
  The field of P-256, residues modulo the prime 2^256 - 2^224 + 2^192 + 2^96 - 1, as an instance
  of the class \<open>field\<close>, and the limbs that denote its elements: on them the field
  operations of src/p256_fixed.cpp are the operations of the field.
\<close>

section \<open>Residues\<close>

typedef gf = "{x::nat. x < p256_p}"
  morphisms gf_val gf_abs
  by (rule exI [of _ 0]) simp

setup_lifting type_definition_gf

lift_definition gf_of :: "nat \<Rightarrow> gf" is "\<lambda>n. n mod p256_p"
  by simp

lemma p256_p_not_1 [simp]: "p256_p \<noteq> Suc 0"
  using p256_sizes(6) by linarith

lemma gf_val_of [simp]: "gf_val (gf_of n) = n mod p256_p"
  by transfer simp

lemma gf_val_less [simp]: "gf_val x < p256_p"
  by transfer simp

lemma gf_of_val [simp]: "gf_of (gf_val x) = x"
  by transfer simp

lemma gf_of_eq_iff: "gf_of m = gf_of n \<longleftrightarrow> m mod p256_p = n mod p256_p"
  by transfer simp

instantiation gf :: field
begin

definition zero_gf :: gf where
  "0 = gf_of 0"

definition one_gf :: gf where
  "1 = gf_of 1"

definition plus_gf :: "gf \<Rightarrow> gf \<Rightarrow> gf" where
  "x + y = gf_of (gf_val x + gf_val y)"

definition uminus_gf :: "gf \<Rightarrow> gf" where
  "- x = gf_of (p256_p - gf_val x)"

definition minus_gf :: "gf \<Rightarrow> gf \<Rightarrow> gf" where
  "x - y = gf_of (gf_val x + (p256_p - gf_val y))"

definition times_gf :: "gf \<Rightarrow> gf \<Rightarrow> gf" where
  "x * y = gf_of (gf_val x * gf_val y)"

definition inverse_gf :: "gf \<Rightarrow> gf" where
  "inverse x = gf_of (gf_val x ^ (p256_p - 2))"

definition divide_gf :: "gf \<Rightarrow> gf \<Rightarrow> gf" where
  "divide x y = x * inverse (y :: gf)"

instance
proof
  fix a b c :: gf
  note defs = plus_gf_def times_gf_def zero_gf_def one_gf_def gf_of_eq_iff
  have one: "1 mod p256_p = 1" by simp
  have exponent: "2 < p256_p" using p256_sizes(6) by linarith
  show "a + b + c = a + (b + c)" by (simp add: defs mod_simps add.assoc)
  show "a + b = b + a" by (simp add: defs add.commute)
  show "0 + a = a" by (simp add: defs)
  show "- a + a = 0"
    using gf_val_less [of a] by (simp add: defs uminus_gf_def mod_simps less_imp_le)
  show "a - b = a + - b" by (simp add: defs minus_gf_def uminus_gf_def mod_simps)
  show "a * b * c = a * (b * c)" by (simp add: defs mod_simps mult.assoc)
  show "a * b = b * a" by (simp add: defs mult.commute)
  show "1 * a = a" by (simp add: defs mod_simps one)
  show "(a + b) * c = a * c + b * c" by (simp add: defs mod_simps distrib_right)
  show "(0::gf) \<noteq> 1" by (simp add: defs one)
  show "a \<noteq> 0 \<Longrightarrow> inverse a * a = 1"
  proof -
    assume "a \<noteq> 0"
    then have "gf_val a \<noteq> 0" by (metis gf_of_val zero_gf_def)
    then have "\<not> p256_p dvd gf_val a" using gf_val_less [of a] by (meson dvd_imp_le not_le neq0_conv)
    from fermat_inverse [OF prime_p256 this] show "inverse a * a = 1"
      by (simp add: defs inverse_gf_def mod_simps mult.commute one)
  qed
  show "inverse (0::gf) = 0" by (simp add: inverse_gf_def zero_gf_def exponent zero_power)
  show "a div b = a * inverse b" by (simp add: divide_gf_def)
qed

end

lemma gf_val_0 [simp]: "gf_val 0 = 0"
  by (simp add: zero_gf_def)

lemma gf_val_1 [simp]: "gf_val 1 = 1"
  by (simp add: one_gf_def)

lemma gf_val_add: "gf_val (x + y) = (gf_val x + gf_val y) mod p256_p"
  by (simp add: plus_gf_def)

lemma gf_val_diff: "gf_val (x - y) = (gf_val x + (p256_p - gf_val y)) mod p256_p"
  by (simp add: minus_gf_def)

lemma gf_val_mult: "gf_val (x * y) = gf_val x * gf_val y mod p256_p"
  by (simp add: times_gf_def)

lemma gf_val_inverse: "gf_val (inverse x) = gf_val x ^ (p256_p - 2) mod p256_p"
  by (simp add: inverse_gf_def)

lemma gf_val_eq_0 [simp]: "gf_val x = 0 \<longleftrightarrow> x = 0"
  by (metis gf_of_val gf_val_0)

lemma gf_val_inject: "gf_val x = gf_val y \<longleftrightarrow> x = y"
  by (metis gf_of_val)

lemma gf_of_nat: "of_nat n = gf_of n"
proof (induction n)
  case (Suc n)
  then show ?case by (simp add: plus_gf_def one_gf_def mod_simps gf_of_eq_iff)
qed (simp add: zero_gf_def)

lemma gf_val_numeral: "gf_val (numeral k) = numeral k mod p256_p"
  using gf_val_of [of "numeral k"] unfolding gf_of_nat [symmetric] by simp

lemma gf_small [simp]: "gf_val 2 = 2" "gf_val 3 = 3" "gf_val 4 = 4" "gf_val 8 = 8"
  by (simp_all add: gf_val_numeral p256_p_def)

lemma gf_nonzero [simp]: "(2::gf) \<noteq> 0" "(3::gf) \<noteq> 0" "(4::gf) \<noteq> 0" "(8::gf) \<noteq> 0"
  using gf_small by (metis gf_val_0 zero_neq_numeral)+

section \<open>Limbs of field elements\<close>

definition fw :: "gf \<Rightarrow> u256" where
  "fw x = map (\<lambda>i. word_of_nat (gf_val x div limb_base ^ i)) [0..<8]"

lemma limb_val_digits:
  "limb_val (map (\<lambda>i. word_of_nat (v div limb_base ^ i)) [0..<n]) = v mod limb_base ^ n"
proof (induction n)
  case (Suc n)
  have "v mod (limb_base ^ n * limb_base) = limb_base ^ n * (v div limb_base ^ n mod limb_base) + v mod limb_base ^ n"
    by (rule mod_mult2_eq)
  with Suc show ?case
    by (simp add: limb_val_append unat_of_nat limb_base_def mult.commute [of 4294967296])
qed simp

lemma fw_ok [simp]: "u256_ok (fw x)"
  by (simp add: fw_def u256_ok_def)

lemma fw_val [simp]: "u256_val (fw x) = gf_val x"
proof -
  have "gf_val x < limb_base ^ 8"
    using less_trans [OF gf_val_less p256_sizes(3)] by (simp add: limb_base_def)
  then show ?thesis unfolding u256_val_def fw_def limb_val_digits by simp
qed

lemma fw_unique: "u256_ok v \<Longrightarrow> u256_val v < p256_p \<Longrightarrow> v = fw (gf_of (u256_val v))"
  using u256_inject [of v "fw (gf_of (u256_val v))"] by simp

lemma fw_eqI: "u256_ok v \<Longrightarrow> u256_val v = gf_val x \<Longrightarrow> v = fw x"
  using u256_inject [of v "fw x"] by simp

lemma fw_inject [simp]: "fw x = fw y \<longleftrightarrow> x = y"
  using fw_val gf_val_inject by metis

lemma fw_field [simp]:
  "field_add (fw x) (fw y) = fw (x + y)" "field_subtract (fw x) (fw y) = fw (x - y)"
  "field_multiply (fw x) (fw y) = fw (x * y)" "field_inverse (fw x) = fw (inverse x)"
  using u256_mod_add_value [of "fw x" "fw y" p_value] u256_mod_subtract_value [of "fw x" "fw y" p_value]
    u256_mod_multiply_value [of "fw x" "fw y" p_value] u256_mod_exp_value [of "fw x" p_minus_two_value p_value]
  by (auto intro!: fw_eqI simp: field_add_def field_subtract_def field_multiply_def field_inverse_def
      gf_val_add gf_val_diff gf_val_mult gf_val_inverse)

lemma fw_is_zero [simp]: "u256_is_zero (fw x) \<longleftrightarrow> x = 0"
  by (simp add: u256_is_zero_iff)

lemma fw_compare [simp]: "u256_compare (fw x) (fw y) = 0 \<longleftrightarrow> x = y"
  using gf_val_inject [of x y] by (auto simp: u256_compare_val split: if_splits)

section \<open>The constants of the curve\<close>

definition curve_b :: gf where
  "curve_b = gf_of 0x5AC635D8AA3A93E7B3EBBD55769886BC651D06B0CC53B0F63BCE3C3E27D2604B"

definition base_x :: gf where
  "base_x = gf_of 0x6B17D1F2E12C4247F8BCE6E563A440F277037D812DEB33A0F4A13945D898C296"

definition base_y :: gf where
  "base_y = gf_of 0x4FE342E2FE1A7F9B8EE7EB4A7C0F9E162BCE33576B315ECECBB6406837BF51F5"

lemma fw_constants:
  "a_value = fw (- 3)" "b_value = fw curve_b" "gx_value = fw base_x" "gy_value = fw base_y"
  "u256_zero = fw 0" "u256_one = fw 1" "u256_word 2 = fw 2" "u256_word 3 = fw 3" "u256_word 4 = fw 4" "u256_word 8 = fw 8"
proof -
  have m3: "gf_val (- 3) = p256_p - 3" by (simp add: uminus_gf_def)
  show "a_value = fw (- 3)" by (rule fw_eqI) (simp_all add: m3)
  show "b_value = fw curve_b" "gx_value = fw base_x" "gy_value = fw base_y"
    by (rule fw_eqI; simp add: curve_b_def base_x_def base_y_def b_value_def gx_value_def gy_value_def u256_ok_def u256_val_def
        limb_base_def p256_p_def)+
qed (rule fw_eqI; simp)+

end
