(* ===== verification/P256_Curve.thy ===== *)
theory P256_Curve
  imports P256_Field
begin

text \<open>
  The abstract specification of the curve code: the chord-and-tangent law of P-256 on affine
  points over the field, multiplication by a number as binary doubling and adding, and the
  Jacobian formulas that compute it without inversions, proved to represent the affine law.
  The two implementations (src/p256_fixed.cpp and src/p256.cpp) are refined to this theory.
\<close>

section \<open>The affine law\<close>

text \<open>The point at infinity is None.\<close>

type_synonym ec_point = "(gf \<times> gf) option"

fun on_curve :: "ec_point \<Rightarrow> bool" where
  "on_curve None = True"
| "on_curve (Some (x, y)) = (y * y = x * x * x + - 3 * x + curve_b)"

definition third_point :: "gf \<Rightarrow> gf \<times> gf \<Rightarrow> gf \<Rightarrow> ec_point" where
  "third_point slope P x = (case P of (x1, y1) \<Rightarrow>
     let x3 = slope * slope - x1 - x in Some (x3, slope * (x1 - x3) - y1))"

fun ec_double :: "ec_point \<Rightarrow> ec_point" where
  "ec_double None = None"
| "ec_double (Some (x, y)) =
     (if y = 0 then None else third_point ((3 * (x * x) + - 3) * inverse (2 * y)) (x, y) x)"

fun ec_add :: "ec_point \<Rightarrow> ec_point \<Rightarrow> ec_point" where
  "ec_add None Q = Q"
| "ec_add P None = P"
| "ec_add (Some (x1, y1)) (Some (x2, y2)) =
     (if x1 = x2 then (if y1 + y2 = 0 then None else ec_double (Some (x1, y1)))
      else third_point ((y2 - y1) * inverse (x2 - x1)) (x1, y1) x2)"

fun ec_neg :: "ec_point \<Rightarrow> ec_point" where
  "ec_neg None = None"
| "ec_neg (Some (x, y)) = Some (x, - y)"

definition ec_base :: ec_point where
  "ec_base = Some (base_x, base_y)"

fun ec_mult :: "nat \<Rightarrow> ec_point \<Rightarrow> ec_point" where
  "ec_mult n P =
     (if n = 0 then None
      else let D = ec_double (ec_mult (n div 2) P) in if odd n then ec_add D P else D)"

declare ec_mult.simps [simp del]

lemma ec_mult_0 [simp]: "ec_mult 0 P = None"
  by (simp add: ec_mult.simps)

lemma ec_mult_step: "ec_mult (2 * n + b) P = (let D = ec_double (ec_mult n P) in if b = 1 then ec_add D P else D)"
  if "b < 2" "n \<noteq> 0 \<or> b \<noteq> 0"
  using that by (subst ec_mult.simps) (auto simp: less_2_cases_iff)

lemma ec_mult_double_add: "b < 2 \<Longrightarrow> ec_mult (2 * n + b) P = (if b = 1 then ec_add (ec_double (ec_mult n P)) P else ec_double (ec_mult n P))"
  by (cases "n = 0 \<and> b = 0") (auto simp: ec_mult_step)

text \<open>Every point on a non-vertical line through the curve is determined by the slope.\<close>

lemma tangent_closed:
  fixes l x y :: gf
  assumes "y * y = x * x * x + - 3 * x + b" "l * (2 * y) = 3 * (x * x) + - 3"
  defines "x3 \<equiv> l * l - x - x"
  defines "y3 \<equiv> l * (x - x3) - y"
  shows "y3 * y3 = x3 * x3 * x3 + - 3 * x3 + b"
  using assms(1,2) unfolding x3_def y3_def by algebra

lemma chord_closed:
  fixes l x1 y1 x2 y2 :: gf
  assumes "y1 * y1 = x1 * x1 * x1 + - 3 * x1 + b" "y2 * y2 = x2 * x2 * x2 + - 3 * x2 + b"
    and "l * (x2 - x1) = y2 - y1" "x1 \<noteq> x2"
  defines "x3 \<equiv> l * l - x1 - x2"
  defines "y3 \<equiv> l * (x1 - x3) - y1"
  shows "y3 * y3 = x3 * x3 * x3 + - 3 * x3 + b"
proof -
  have "(x2 - x1) * (y3 * y3 - (x3 * x3 * x3 + - 3 * x3 + b)) = 0"
    using assms(1-3) unfolding x3_def y3_def by algebra
  then show ?thesis using assms(4) by simp
qed

lemma slope_times: "d \<noteq> 0 \<Longrightarrow> n * inverse d * d = (n :: gf)"
  by simp

lemma third_point_on_curve:
  assumes "on_curve (Some (x1, y1))" "on_curve (Some (x2, y2))"
    and "x1 \<noteq> x2 \<and> l * (x2 - x1) = y2 - y1 \<or> x1 = x2 \<and> l * (2 * y1) = 3 * (x1 * x1) + - 3"
  shows "on_curve (third_point l (x1, y1) x2)"
  using assms chord_closed [of y1 x1 curve_b y2 x2 l] tangent_closed [of y1 x1 curve_b l]
  by (auto simp: third_point_def Let_def)

lemma ec_double_on_curve [simp]: "on_curve P \<Longrightarrow> on_curve (ec_double P)"
proof (cases P rule: ec_double.cases)
  case (2 x y)
  moreover assume "on_curve P"
  moreover have "y \<noteq> 0 \<Longrightarrow> (3 * (x * x) + - 3) * inverse (2 * y) * (2 * y) = 3 * (x * x) + - 3" for y :: gf
    by (rule slope_times) simp
  ultimately show ?thesis by (auto simp del: on_curve.simps(2) intro!: third_point_on_curve)
qed simp

lemma ec_add_on_curve [simp]: "on_curve P \<Longrightarrow> on_curve Q \<Longrightarrow> on_curve (ec_add P Q)"
proof (induction P Q rule: ec_add.induct)
  case (3 x1 y1 x2 y2)
  have "(y2 - y1) * inverse (x2 - x1) * (x2 - x1) = y2 - y1" if "x1 \<noteq> x2"
    by (rule slope_times) (use that in simp)
  then have "x1 \<noteq> x2 \<Longrightarrow> on_curve (third_point ((y2 - y1) * inverse (x2 - x1)) (x1, y1) x2)"
    using third_point_on_curve [OF 3] by blast
  then show ?case using ec_double_on_curve [OF 3(1)] by (cases "x1 = x2") (simp_all del: on_curve.simps(2) ec_double.simps)
qed simp_all

lemma ec_mult_on_curve [simp]: "on_curve P \<Longrightarrow> on_curve (ec_mult n P)"
  by (induction n P rule: ec_mult.induct) (subst ec_mult.simps, auto simp: Let_def)

text \<open>The law is commutative, infinity is neutral and the mirrored point is the inverse.\<close>

lemma ec_add_neutral [simp]: "ec_add P None = P"
  by (cases P) simp_all

lemma same_x: "on_curve (Some (x, y1)) \<Longrightarrow> on_curve (Some (x, y2)) \<Longrightarrow> y1 = y2 \<or> y1 + y2 = 0"
proof -
  assume "on_curve (Some (x, y1))" "on_curve (Some (x, y2))"
  then have "(y1 - y2) * (y1 + y2) = 0" unfolding on_curve.simps by algebra
  then show ?thesis by auto
qed

lemma ec_add_commute: "on_curve P \<Longrightarrow> on_curve Q \<Longrightarrow> ec_add P Q = ec_add Q P"
proof (induction P Q rule: ec_add.induct)
  case (3 x1 y1 x2 y2)
  show ?case
  proof (cases "x1 = x2")
    case True
    then have "y1 = y2 \<or> y1 + y2 = 0" using same_x 3 by blast
    then show ?thesis using True by (auto simp: add.commute)
  next
    case False
    have "inverse (x2 - x1) = - inverse (x1 - x2)" by (metis inverse_minus_eq minus_diff_eq)
    then have l: "(y2 - y1) * inverse (x2 - x1) = (y1 - y2) * inverse (x1 - x2)" by (simp add: left_diff_distrib)
    have "(y1 - y2) * inverse (x1 - x2) * (x1 - x2) = y1 - y2" by (rule slope_times) (use False in simp)
    then have "third_point ((y1 - y2) * inverse (x1 - x2)) (x1, y1) x2 = third_point ((y1 - y2) * inverse (x1 - x2)) (x2, y2) x1"
      by (simp add: third_point_def Let_def algebra_simps)
    then show ?thesis using False unfolding l by (simp add: l)
  qed
qed simp_all

lemma ec_neg_on_curve [simp]: "on_curve (ec_neg P) \<longleftrightarrow> on_curve P"
  by (cases P rule: ec_neg.cases) simp_all

lemma ec_add_neg [simp]: "ec_add P (ec_neg P) = None"
  by (cases P rule: ec_neg.cases) simp_all

lemma ec_double_add: "on_curve P \<Longrightarrow> ec_double P = ec_add P P"
proof (cases P rule: ec_double.cases)
  case (2 x y)
  have "y + y = 2 * y" by simp
  then have "y + y = 0 \<longleftrightarrow> y = 0" by simp
  with 2 show ?thesis by simp
qed simp

section \<open>Jacobian coordinates\<close>

text \<open>
  The records of both files, over the type of their numbers: (x, y, z) stands for
  (x / z^2, y / z^3).
\<close>

record 'a jacobian_point =
  jp_x :: 'a
  jp_y :: 'a
  jp_z :: 'a
  jp_infinity :: bool

definition jac_infinity :: "gf jacobian_point" where
  "jac_infinity = \<lparr>jp_x = 0, jp_y = 0, jp_z = 0, jp_infinity = True\<rparr>"

definition jac_double :: "gf jacobian_point \<Rightarrow> gf jacobian_point" where
  "jac_double P = (let x = jp_x P; y = jp_y P; z = jp_z P in
     if jp_infinity P \<or> y = 0 then jac_infinity
     else let s = 4 * (x * (y * y)); m = 3 * (x * x) + - 3 * (z * z * (z * z));
              x3 = m * m - 2 * s
          in \<lparr>jp_x = x3, jp_y = m * (s - x3) - 8 * (y * y * (y * y)), jp_z = 2 * (y * z), jp_infinity = False\<rparr>)"

definition jac_add :: "gf jacobian_point \<Rightarrow> gf \<times> gf \<Rightarrow> gf jacobian_point" where
  "jac_add P Q = (case Q of (x2, y2) \<Rightarrow> let x = jp_x P; y = jp_y P; z = jp_z P in
     if jp_infinity P then \<lparr>jp_x = x2, jp_y = y2, jp_z = 1, jp_infinity = False\<rparr>
     else let h = x2 * (z * z) - x; k = y2 * (z * (z * z)) - y in
       if h = 0 then (if k = 0 then jac_double P else jac_infinity)
       else let j = h * (4 * (h * h)); r = 2 * k; v = x * (4 * (h * h)); x3 = r * r - j - 2 * v
            in \<lparr>jp_x = x3, jp_y = r * (v - x3) - 2 * (y * j), jp_z = 2 * (z * h), jp_infinity = False\<rparr>)"

definition jac_ok :: "gf jacobian_point \<Rightarrow> bool" where
  "jac_ok P \<longleftrightarrow> P = jac_infinity \<or> \<not> jp_infinity P \<and> jp_z P \<noteq> 0"

definition jac_point :: "gf jacobian_point \<Rightarrow> ec_point" where
  "jac_point P = (if jp_infinity P then None
     else Some (jp_x P * (inverse (jp_z P) * inverse (jp_z P)), jp_y P * (inverse (jp_z P) * inverse (jp_z P) * inverse (jp_z P))))"

lemma jac_infinity_simps [simp]: "jac_ok jac_infinity" "jac_point jac_infinity = None" "jp_infinity jac_infinity"
  by (simp_all add: jac_ok_def jac_point_def jac_infinity_def)

lemma jac_point_eqI:
  assumes "\<not> jp_infinity P" "jp_z P \<noteq> 0" "jp_x P = x * (jp_z P * jp_z P)" "jp_y P = y * (jp_z P * jp_z P * jp_z P)"
  shows "jac_ok P" "jac_point P = Some (x, y)"
proof -
  have "jp_z P * inverse (jp_z P) = 1" using assms(2) by simp
  then have "jp_x P * (inverse (jp_z P) * inverse (jp_z P)) = x"
    "jp_y P * (inverse (jp_z P) * inverse (jp_z P) * inverse (jp_z P)) = y"
    unfolding assms(3,4) by algebra+
  then show "jac_ok P" "jac_point P = Some (x, y)" using assms(1,2) by (simp_all add: jac_ok_def jac_point_def)
qed

lemma scale_back:
  assumes "z \<noteq> (0::gf)"
  shows "x * (inverse z * inverse z) * (z * z) = x" "y * (inverse z * inverse z * inverse z) * (z * z * z) = y"
proof -
  have "z * inverse z = 1" using assms by simp
  then show "x * (inverse z * inverse z) * (z * z) = x" "y * (inverse z * inverse z * inverse z) * (z * z * z) = y"
    by algebra+
qed

text \<open>The formulas for the coordinates, with the slope l of the line and the step d between the points.\<close>

lemma double_coordinates:
  fixes l X Y z :: gf
  assumes "l * (2 * Y) = 3 * (X * X) + - 3" "x = X * (z * z)" "y = Y * (z * z * z)" "s = 4 * (x * (y * y))"
    and "m = 3 * (x * x) + - 3 * (z * z * (z * z))" "w = 2 * (y * z)" "x3 = l * l - X - X"
  shows "m * m - 2 * s = x3 * (w * w)"
    "m * (s - (m * m - 2 * s)) - 8 * (y * y * (y * y)) = (l * (X - x3) - Y) * (w * w * w)"
proof -
  have m: "m = l * (2 * Y) * (z * z * (z * z))" unfolding assms by algebra
  show x: "m * m - 2 * s = x3 * (w * w)" unfolding m unfolding assms(2-4,6,7) by algebra
  show "m * (s - (m * m - 2 * s)) - 8 * (y * y * (y * y)) = (l * (X - x3) - Y) * (w * w * w)"
    unfolding x unfolding m unfolding assms(2-4,6,7) by algebra
qed

lemma add_coordinates:
  fixes l X Y z :: gf
  assumes "h = d * (z * z)" "r = 2 * (l * d * (z * (z * z)))" "j = h * (4 * (h * h))" "v = x * (4 * (h * h))"
    and "w = 2 * (z * h)" "x3 = l * l - X - (X + d)" "x = X * (z * z)" "y = Y * (z * z * z)"
  shows "r * r - j - 2 * v = x3 * (w * w)"
    "r * (v - (r * r - j - 2 * v)) - 2 * (y * j) = (l * (X - x3) - Y) * (w * w * w)"
proof -
  show x: "r * r - j - 2 * v = x3 * (w * w)" unfolding assms by algebra
  show "r * (v - (r * r - j - 2 * v)) - 2 * (y * j) = (l * (X - x3) - Y) * (w * w * w)"
    unfolding x unfolding assms by algebra
qed

text \<open>Doubling, with the affine coordinates X, Y of the point.\<close>

lemma jac_double_correct:
  assumes "jac_ok P"
  shows "jac_ok (jac_double P)" "jac_point (jac_double P) = ec_double (jac_point P)"
proof -
  have "jac_ok (jac_double P) \<and> jac_point (jac_double P) = ec_double (jac_point P)"
  proof (cases "jp_infinity P")
    case True
    then show ?thesis by (simp add: jac_double_def jac_point_def)
  next
    case False
    define z where "z = jp_z P"
    then have z: "z \<noteq> 0" using assms False by (auto simp: jac_ok_def)
    define X where "X = jp_x P * (inverse z * inverse z)"
    define Y where "Y = jp_y P * (inverse z * inverse z * inverse z)"
    have xy: "jp_x P = X * (z * z)" "jp_y P = Y * (z * z * z)" using scale_back [OF z] by (simp_all add: X_def Y_def)
    have P: "jac_point P = Some (X, Y)" by (simp add: jac_point_def False X_def Y_def z_def)
    show ?thesis
    proof (cases "Y = 0")
      case True
      then show ?thesis using P xy by (simp add: jac_double_def Let_def)
    next
      case Y: False
      define l where "l = (3 * (X * X) + - 3) * inverse (2 * Y)"
      have l: "l * (2 * Y) = 3 * (X * X) + - 3" unfolding l_def by (rule slope_times) (use Y in simp)
      define x3 where "x3 = l * l - X - X"
      define y3 where "y3 = l * (X - x3) - Y"
      have y: "jp_y P \<noteq> 0" using Y z by (simp add: xy)
      note c = double_coordinates [OF l xy refl refl refl x3_def, folded z_def]
      have "jp_infinity (jac_double P) = False" "jp_z (jac_double P) = 2 * (jp_y P * z)"
        "jp_x (jac_double P) = x3 * (jp_z (jac_double P) * jp_z (jac_double P))"
        "jp_y (jac_double P) = y3 * (jp_z (jac_double P) * jp_z (jac_double P) * jp_z (jac_double P))"
        using y False c unfolding y3_def jac_double_def Let_def z_def [symmetric] by (simp_all only: simp_thms if_False jacobian_point.select_convs)
      then show ?thesis
        using jac_point_eqI [of "jac_double P" x3 y3] Y y z P
        by (simp add: third_point_def x3_def y3_def l_def Let_def)
    qed
  qed
  then show "jac_ok (jac_double P)" "jac_point (jac_double P) = ec_double (jac_point P)" by simp_all
qed

lemma jac_add_correct:
  assumes "jac_ok P" "on_curve (jac_point P)" "on_curve (Some Q)"
  shows "jac_ok (jac_add P Q)" "jac_point (jac_add P Q) = ec_add (jac_point P) (Some Q)"
proof -
  obtain x2 y2 where Q: "Q = (x2, y2)" by fastforce
  have "jac_ok (jac_add P Q) \<and> jac_point (jac_add P Q) = ec_add (jac_point P) (Some Q)"
  proof (cases "jp_infinity P")
    case True
    then show ?thesis using Q by (simp add: jac_add_def jac_point_def jac_ok_def)
  next
    case False
    define z where "z = jp_z P"
    then have z: "z \<noteq> 0" using assms False by (auto simp: jac_ok_def)
    define X where "X = jp_x P * (inverse z * inverse z)"
    define Y where "Y = jp_y P * (inverse z * inverse z * inverse z)"
    have xy: "jp_x P = X * (z * z)" "jp_y P = Y * (z * z * z)" using scale_back [OF z] by (simp_all add: X_def Y_def)
    have P: "jac_point P = Some (X, Y)" by (simp add: jac_point_def False X_def Y_def z_def)
    have "x2 * (z * z) - X * (z * z) = (x2 - X) * (z * z)" "y2 * (z * (z * z)) - Y * (z * z * z) = (y2 - Y) * (z * (z * z))"
      by algebra+
    then have h: "x2 * (z * z) - X * (z * z) = 0 \<longleftrightarrow> X = x2" "y2 * (z * (z * z)) - Y * (z * z * z) = 0 \<longleftrightarrow> Y = y2"
      using z by auto
    show ?thesis
    proof (cases "X = x2")
      case True
      have y: "Y = y2 \<or> Y + y2 = 0" using assms(2,3) same_x [of X Y y2] True P Q by metis
      have "Y + Y = 2 * Y" by simp
      then have yy: "Y + Y = 0 \<longleftrightarrow> Y = 0" by simp
      have add: "jac_add P Q = (if Y = y2 then jac_double P else jac_infinity)"
        unfolding jac_add_def Q prod.case Let_def xy z_def [symmetric] by (simp only: h False True if_False if_True simp_thms) simp
      show ?thesis
      proof (cases "Y = y2")
        case e: True
        have "ec_add (jac_point P) (Some Q) = ec_double (jac_point P)"
          unfolding P Q using True e yy by simp
        then show ?thesis using e add jac_double_correct [OF assms(1)] by simp
      next
        case False
        then show ?thesis using add y True by (simp add: P Q)
      qed
    next
      case X: False
      define l where "l = (y2 - Y) * inverse (x2 - X)"
      have l: "l * (x2 - X) = y2 - Y" unfolding l_def by (rule slope_times) (use X in simp)
      define x3 where "x3 = l * l - X - x2"
      define y3 where "y3 = l * (X - x3) - Y"
      define h where "h = (x2 - X) * (z * z)"
      have hk: "x2 * (z * z) - jp_x P = h" "y2 * (z * (z * z)) - jp_y P = l * (x2 - X) * (z * (z * z))"
        unfolding xy l h_def by algebra+
      have h0: "h \<noteq> 0" using X z by (simp add: h_def)
      have x3: "x3 = l * l - X - (X + (x2 - X))" by (simp add: x3_def)
      note c = add_coordinates [OF h_def refl refl refl refl x3 xy]
      have "jp_infinity (jac_add P Q) = False" "jp_z (jac_add P Q) = 2 * (z * h)"
        "jp_x (jac_add P Q) = x3 * (jp_z (jac_add P Q) * jp_z (jac_add P Q))"
        "jp_y (jac_add P Q) = y3 * (jp_z (jac_add P Q) * jp_z (jac_add P Q) * jp_z (jac_add P Q))"
        using h0 False c unfolding y3_def jac_add_def Let_def Q prod.case z_def [symmetric] hk
        by (simp_all only: simp_thms if_False jacobian_point.select_convs)
      then show ?thesis
        using jac_point_eqI [of "jac_add P Q" x3 y3] h0 X z P
        by (simp add: third_point_def x3_def y3_def l_def Let_def Q)
    qed
  qed
  then show "jac_ok (jac_add P Q)" "jac_point (jac_add P Q) = ec_add (jac_point P) (Some Q)" by simp_all
qed

text \<open>The same points over another representation of the numbers, and two sums computed by squares.\<close>

definition map_jac :: "('a \<Rightarrow> 'b) \<Rightarrow> 'a jacobian_point \<Rightarrow> 'b jacobian_point" where
  "map_jac f P = \<lparr>jp_x = f (jp_x P), jp_y = f (jp_y P), jp_z = f (jp_z P), jp_infinity = jp_infinity P\<rparr>"

lemma map_jac_simps [simp]:
  "jp_x (map_jac f P) = f (jp_x P)" "jp_y (map_jac f P) = f (jp_y P)" "jp_z (map_jac f P) = f (jp_z P)"
  "jp_infinity (map_jac f P) = jp_infinity P"
  by (simp_all add: map_jac_def)

lemma double_shortcuts:
  "2 * ((x + y * y) * (x + y * y) - x * x - y * y * (y * y)) = 4 * (x * (y * y :: gf))"
  "(y + z) * (y + z) - y * y - z * z = 2 * (y * (z :: gf))"
  by algebra+

lemma add_shortcut: "(z + h) * (z + h) - z * z - h * h = 2 * (z * (h :: gf))"
  by algebra

section \<open>The points of the interface\<close>

text \<open>
  P256Point (internal/p256.hpp): two coordinates of 32 bytes, or the flag of the point at infinity,
  whose coordinates are empty when the code makes it and ignored when it reads it.
\<close>

record p256_point =
  pt_x :: bytes
  pt_y :: bytes
  pt_infinity :: bool

definition p256_point_at_infinity :: p256_point where
  "p256_point_at_infinity = \<lparr>pt_x = [], pt_y = [], pt_infinity = True\<rparr>"

definition field_bytes :: "gf \<Rightarrow> bytes" where
  "field_bytes x = limbs_to_be_bytes (fw x)"

lemma field_bytes_simps [simp]: "length (field_bytes x) = 32" "be_val (field_bytes x) = gf_val x"
  using fw_ok [of x] fw_val [of x] by (simp_all add: field_bytes_def u256_ok_def u256_val_def limbs_to_be_bytes_value)

lemma field_bytes_inject [simp]: "field_bytes x = field_bytes y \<longleftrightarrow> x = y"
  using field_bytes_simps(2) gf_val_inject by metis

fun p256_encode :: "ec_point \<Rightarrow> p256_point" where
  "p256_encode None = p256_point_at_infinity"
| "p256_encode (Some (x, y)) = \<lparr>pt_x = field_bytes x, pt_y = field_bytes y, pt_infinity = False\<rparr>"

definition p256_coordinate :: "bytes \<Rightarrow> bool" where
  "p256_coordinate bs \<longleftrightarrow> length bs = 32 \<and> be_val bs < p256_p"

definition p256_abs :: "p256_point \<Rightarrow> ec_point" where
  "p256_abs P = (if pt_infinity P then None else Some (gf_of (be_val (pt_x P)), gf_of (be_val (pt_y P))))"

definition p256_ok :: "p256_point \<Rightarrow> bool" where
  "p256_ok P \<longleftrightarrow> pt_infinity P \<or> p256_coordinate (pt_x P) \<and> p256_coordinate (pt_y P) \<and> on_curve (p256_abs P)"

lemma field_bytes_of: "p256_coordinate bs \<Longrightarrow> field_bytes (gf_of (be_val bs)) = bs"
  using be_val_inject [of "field_bytes (gf_of (be_val bs))" bs] by (simp add: p256_coordinate_def)

lemma p256_coordinate_field_bytes [simp]: "p256_coordinate (field_bytes x)"
  by (simp add: p256_coordinate_def)

lemma p256_abs_encode [simp]: "p256_abs (p256_encode P) = P"
  by (cases P rule: p256_encode.cases) (simp_all add: p256_abs_def p256_point_at_infinity_def)

lemma p256_ok_encode [simp]: "p256_ok (p256_encode P) \<longleftrightarrow> on_curve P"
  by (cases P rule: p256_encode.cases) (simp_all add: p256_ok_def p256_abs_def p256_point_at_infinity_def del: on_curve.simps(2))

lemma p256_encode_abs: "p256_ok P \<Longrightarrow> \<not> pt_infinity P \<Longrightarrow> p256_encode (p256_abs P) = P"
  by (simp add: p256_ok_def p256_abs_def field_bytes_of del: on_curve.simps)

lemma p256_ok_on_curve: "p256_ok P \<Longrightarrow> on_curve (p256_abs P)"
  by (auto simp: p256_ok_def p256_abs_def)

lemma finite_point: "\<not> pt_infinity P \<Longrightarrow> \<lparr>pt_x = pt_x P, pt_y = pt_y P, pt_infinity = False\<rparr> = (P :: p256_point)"
  by (cases P) simp

lemma gf_of_hom: "gf_of m + gf_of n = gf_of (m + n)" "gf_of m * gf_of n = gf_of (m * n)"
  by (simp_all add: plus_gf_def times_gf_def gf_of_eq_iff mod_simps)

section \<open>The base point\<close>

lemma base_on_curve [simp]: "on_curve ec_base"
proof -
  have "0x6B17D1F2E12C4247F8BCE6E563A440F277037D812DEB33A0F4A13945D898C296 * 0x6B17D1F2E12C4247F8BCE6E563A440F277037D812DEB33A0F4A13945D898C296 * 0x6B17D1F2E12C4247F8BCE6E563A440F277037D812DEB33A0F4A13945D898C296 + 0x5AC635D8AA3A93E7B3EBBD55769886BC651D06B0CC53B0F63BCE3C3E27D2604B
      = 0x4FE342E2FE1A7F9B8EE7EB4A7C0F9E162BCE33576B315ECECBB6406837BF51F5 * 0x4FE342E2FE1A7F9B8EE7EB4A7C0F9E162BCE33576B315ECECBB6406837BF51F5 + 3 * 0x6B17D1F2E12C4247F8BCE6E563A440F277037D812DEB33A0F4A13945D898C296 + 0x12BDD1AD23DFC833DCCF5F6141D6BB4A1F365DC1430B0E600B52DD851938D2D6933106A72EFBF035FDAF43963B37FD5456E90C6581A8FB7A0D8A46A3629F0458 * (0xFFFFFFFF00000001000000000000000000000000FFFFFFFFFFFFFFFFFFFFFFFF :: nat)"
    by simp
  moreover have "p256_p = 0xFFFFFFFF00000001000000000000000000000000FFFFFFFFFFFFFFFFFFFFFFFF" by (simp add: p256_p_def)
  ultimately have "base_x * base_x * base_x + curve_b = base_y * base_y + gf_of 3 * base_x + gf_of 0x12BDD1AD23DFC833DCCF5F6141D6BB4A1F365DC1430B0E600B52DD851938D2D6933106A72EFBF035FDAF43963B37FD5456E90C6581A8FB7A0D8A46A3629F0458 * gf_of p256_p"
    unfolding base_x_def base_y_def curve_b_def gf_of_hom by (simp only:)
  moreover have "gf_of p256_p = 0" "gf_of 3 = 3" by (simp_all add: gf_of_eq_iff zero_gf_def flip: gf_val_inject)
  ultimately have "base_x * base_x * base_x + curve_b = base_y * base_y + 3 * base_x" by simp
  then have "base_y * base_y = base_x * base_x * base_x + - 3 * base_x + curve_b" by algebra
  then show ?thesis by (simp add: ec_base_def)
qed

section \<open>Bits of a scalar, most significant first\<close>

definition scalar_bits :: "bytes \<Rightarrow> bool list" where
  "scalar_bits scalar = concat (map (\<lambda>b. map (bit b) (rev [0..<8])) scalar)"

definition bits_val :: "bool list \<Rightarrow> nat" where
  "bits_val bs = foldl (\<lambda>n b. 2 * n + (if b then 1 else 0)) 0 bs"

lemma foldl_bits: "foldl (\<lambda>n b. 2 * n + (if b then 1 else 0)) n (map (bit b) (rev [0..<k])) = 2 ^ k * n + unat (b::u8) mod 2 ^ k"
proof (induction k arbitrary: n)
  case (Suc k)
  have "unat b mod 2 ^ Suc k = 2 ^ k * (unat b div 2 ^ k mod 2) + unat b mod 2 ^ k"
    by (metis mod_mult2_eq power_Suc2)
  moreover have "bit b k \<longleftrightarrow> unat b div 2 ^ k mod 2 = 1"
    by (metis bit_unsigned_iff bit_iff_odd odd_iff_mod_2_eq_one possible_bit_nat)
  ultimately show ?case using Suc by (simp add: algebra_simps)
qed simp

lemma bits_val_scalar: "bits_val (scalar_bits scalar) = be_val scalar"
proof (induction scalar rule: rev_induct)
  case (snoc b bs)
  have "unat b < 2 ^ 8" using unsigned_less [of b] by simp
  then show ?case using snoc foldl_bits [of "be_val bs" b 8]
    by (simp add: bits_val_def scalar_bits_def)
qed (simp add: bits_val_def scalar_bits_def)

definition ec_bits :: "ec_point \<Rightarrow> bool list \<Rightarrow> ec_point" where
  "ec_bits P bits = foldl (\<lambda>R b. if b then ec_add (ec_double R) P else ec_double R) None bits"

lemma ec_bits_mult: "ec_bits P bits = ec_mult (bits_val bits) P"
proof (induction bits rule: rev_induct)
  case (snoc b bits)
  then show ?case
    using ec_mult_double_add [of "if b then 1 else 0" "bits_val bits" P] by (simp add: ec_bits_def bits_val_def)
qed (simp add: ec_bits_def bits_val_def)

lemma ec_mult_None [simp]: "ec_mult n None = None"
  by (induction n rule: less_induct) (subst ec_mult.simps, auto simp: Let_def)

section \<open>The loop over the bits\<close>

definition jac_bits_step :: "gf \<times> gf \<Rightarrow> gf jacobian_point \<Rightarrow> bool \<Rightarrow> gf jacobian_point" where
  "jac_bits_step Q P b = (if b then jac_add (jac_double P) Q else jac_double P)"

text \<open>The accumulator stands for the multiple of the point by the bits that were read.\<close>

lemma jac_bits:
  assumes "on_curve (Some Q)"
  shows "jac_ok (foldl (jac_bits_step Q) jac_infinity bits) \<and>
    jac_point (foldl (jac_bits_step Q) jac_infinity bits) = ec_bits (Some Q) bits"
proof (induction bits rule: rev_induct)
  case (snoc b bits)
  define P where "P = foldl (jac_bits_step Q) jac_infinity bits"
  have d: "jac_ok (jac_double P)" "jac_point (jac_double P) = ec_double (ec_bits (Some Q) bits)"
    using jac_double_correct [of P] snoc by (simp_all add: P_def)
  have "on_curve (ec_bits (Some Q) bits)" unfolding ec_bits_mult by (rule ec_mult_on_curve [OF assms])
  then have "on_curve (jac_point (jac_double P))" unfolding d(2) by (rule ec_double_on_curve)
  note a = jac_add_correct [OF d(1) this assms]
  have "foldl (jac_bits_step Q) jac_infinity (bits @ [b]) = (if b then jac_add (jac_double P) Q else jac_double P)"
    by (simp add: P_def jac_bits_step_def)
  moreover have "ec_bits (Some Q) (bits @ [b]) =
      (if b then ec_add (ec_double (ec_bits (Some Q) bits)) (Some Q) else ec_double (ec_bits (Some Q) bits))"
    by (simp add: ec_bits_def)
  ultimately show ?case using a d by simp
qed (simp add: ec_bits_def)

definition jac_inv :: "gf jacobian_point \<Rightarrow> bool" where
  "jac_inv P \<longleftrightarrow> jac_ok P \<and> on_curve (jac_point P)"

lemma jac_double_inv: "jac_inv P \<Longrightarrow> jac_inv (jac_double P)"
  using jac_double_correct [of P] by (simp add: jac_inv_def)

lemma jac_add_inv: "jac_inv P \<Longrightarrow> on_curve (Some Q) \<Longrightarrow> jac_inv (jac_add P Q)"
  using jac_add_correct [of P Q] by (simp add: jac_inv_def del: on_curve.simps(2))

lemma jac_bits_step_inv: "on_curve (Some Q) \<Longrightarrow> jac_inv P \<Longrightarrow> jac_inv (jac_bits_step Q P b)"
  using jac_double_inv jac_add_inv by (simp add: jac_bits_step_def del: on_curve.simps(2))

lemma foldl_nested: "foldl (\<lambda>a y. foldl g a (f y)) a ys = foldl g a (concat (map f ys))"
  by (induction ys arbitrary: a) simp_all

text \<open>The loop of both implementations, over whatever represents the numbers.\<close>

lemma bit_loop:
  assumes "on_curve (Some Q)"
    and step: "\<And>P byte i. jac_inv P \<Longrightarrow> step byte (map_jac f P) i = Inr (map_jac f (jac_bits_step Q P (bit byte i)))"
  shows "rfold (\<lambda>r byte. rfold (step byte) r (rev [0..<8])) (map_jac f jac_infinity) scalar
    = Inr (map_jac f (foldl (jac_bits_step Q) jac_infinity (scalar_bits scalar)))"
proof -
  note inv = jac_bits_step_inv [OF assms(1)]
  have inner: "rfold (step byte) (map_jac f a) (rev [0..<8])
      = Inr (map_jac f (foldl (jac_bits_step Q) a (map (bit byte) (rev [0..<8])))) \<and>
      jac_inv (foldl (jac_bits_step Q) a (map (bit byte) (rev [0..<8])))" if "jac_inv a" for byte a
    using rfold_refines [where xs = "rev [0..<8]" and I = jac_inv and R = "map_jac f"
        and step = "step byte" and g = "\<lambda>a i. jac_bits_step Q a (bit byte i)" and a = a]
      that inv step
    by (simp add: foldl_map jac_inv_def)
  have "rfold (\<lambda>r byte. rfold (step byte) r (rev [0..<8])) (map_jac f jac_infinity) scalar
      = Inr (map_jac f (foldl (\<lambda>a byte. foldl (jac_bits_step Q) a (map (bit byte) (rev [0..<8]))) jac_infinity scalar))"
    by (rule conjunct1 [OF rfold_refines [where I = jac_inv]]) (use inner in \<open>simp_all add: jac_inv_def\<close>)
  also have "foldl (\<lambda>a byte. foldl (jac_bits_step Q) a (map (bit byte) (rev [0..<8]))) jac_infinity scalar
      = foldl (jac_bits_step Q) jac_infinity (scalar_bits scalar)"
    unfolding scalar_bits_def by (rule foldl_nested)
  finally show ?thesis .
qed

end
