(* ===== verification/Curve_Ring.thy ===== *)
theory Curve_Ring
  imports P256_Curve
begin

text \<open>
  The coordinate ring of the curve, polynomials in X and Y modulo Y^2 = X^3 - 3 X + b, written
  p + q Y with polynomials p and q in X. Ideals of this ring carry the group law of the curve (see
  P256_Group).
\<close>

section \<open>Polynomials over the field\<close>

typedef pol = "{f :: nat \<Rightarrow> gf. \<exists>n. \<forall>i\<ge>n. f i = 0}"
  morphisms coeff Pol
  by (rule exI [of _ "\<lambda>_. 0"]) simp

setup_lifting type_definition_pol

lemma pol_eqI: "(\<And>n. coeff p n = coeff q n) \<Longrightarrow> p = q"
  by (auto simp: coeff_inject [symmetric])

lemma coeff_bounded: "\<exists>n. \<forall>i\<ge>n. coeff p i = 0"
  using coeff [of p] by simp

instantiation pol :: comm_ring_1
begin

lift_definition zero_pol :: pol is "\<lambda>_. 0"
  by simp

lift_definition one_pol :: pol is "\<lambda>n. if n = 0 then 1 else 0"
  by (rule exI [of _ 1]) simp

lift_definition plus_pol :: "pol \<Rightarrow> pol \<Rightarrow> pol" is "\<lambda>f g n. f n + g n"
proof -
  fix f g :: "nat \<Rightarrow> gf" assume "\<exists>n. \<forall>i\<ge>n. f i = 0" "\<exists>n. \<forall>i\<ge>n. g i = 0"
  then obtain m n where "\<forall>i\<ge>m. f i = 0" "\<forall>i\<ge>n. g i = 0" by auto
  then show "\<exists>n. \<forall>i\<ge>n. f i + g i = 0" by (intro exI [of _ "max m n"]) simp
qed

lift_definition uminus_pol :: "pol \<Rightarrow> pol" is "\<lambda>f n. - f n"
  by simp

lift_definition minus_pol :: "pol \<Rightarrow> pol \<Rightarrow> pol" is "\<lambda>f g n. f n - g n"
proof -
  fix f g :: "nat \<Rightarrow> gf" assume "\<exists>n. \<forall>i\<ge>n. f i = 0" "\<exists>n. \<forall>i\<ge>n. g i = 0"
  then obtain m n where "\<forall>i\<ge>m. f i = 0" "\<forall>i\<ge>n. g i = 0" by auto
  then show "\<exists>n. \<forall>i\<ge>n. f i - g i = 0" by (intro exI [of _ "max m n"]) simp
qed

lift_definition times_pol :: "pol \<Rightarrow> pol \<Rightarrow> pol" is "\<lambda>f g n. \<Sum>i\<le>n. f i * g (n - i)"
proof -
  fix f g :: "nat \<Rightarrow> gf" assume "\<exists>n. \<forall>i\<ge>n. f i = 0" "\<exists>n. \<forall>i\<ge>n. g i = 0"
  then obtain m n where "\<forall>i\<ge>m. f i = 0" "\<forall>i\<ge>n. g i = 0" by auto
  then have "f i * g (k - i) = 0" if "m + n \<le> k" for i k
    using that by (cases "m \<le> i") auto
  then have "(\<Sum>i\<le>k. f i * g (k - i)) = 0" if "m + n \<le> k" for k
    using that by (intro sum.neutral) blast
  then show "\<exists>n. \<forall>k\<ge>n. (\<Sum>i\<le>k. f i * g (k - i)) = 0" by (intro exI [of _ "m + n"]) simp
qed

lemma double_sum:
  fixes f :: "nat \<Rightarrow> nat \<Rightarrow> nat \<Rightarrow> gf"
  shows "(\<Sum>j\<le>k. \<Sum>i\<le>j. f i (j - i) (n - j)) = (\<Sum>j\<le>k. \<Sum>i\<le>k - j. f j i (n - j - i))"
  by (induction k) (simp_all add: Suc_diff_le sum.distrib add.assoc)

instance
proof
  fix p q r :: pol
  note rep = plus_pol.rep_eq minus_pol.rep_eq uminus_pol.rep_eq zero_pol.rep_eq
  show "p + q + r = p + (q + r)" by (rule pol_eqI) (simp add: rep add.assoc)
  show "p + q = q + p" by (rule pol_eqI) (simp add: rep add.commute)
  show "0 + p = p" "- p + p = 0" "p - q = p + - q" by (rule pol_eqI; simp add: rep)+
  show "p * q * r = p * (q * r)"
  proof (transfer, rule ext)
    fix f g h :: "nat \<Rightarrow> gf" and n
    show "(\<Sum>i\<le>n. (\<Sum>j\<le>i. f j * g (i - j)) * h (n - i)) = (\<Sum>i\<le>n. f i * (\<Sum>j\<le>n - i. g j * h (n - i - j)))"
      using double_sum [of "\<lambda>i j k. f i * g j * h k" n n] by (simp add: sum_distrib_left sum_distrib_right mult.assoc)
  qed
  show "p * q = q * p"
  proof (transfer, rule ext)
    fix f g :: "nat \<Rightarrow> gf" and n
    show "(\<Sum>i\<le>n. f i * g (n - i)) = (\<Sum>i\<le>n. g i * f (n - i))"
      by (rule sum.reindex_bij_witness [where i = "\<lambda>i. n - i" and j = "\<lambda>i. n - i"]) (auto simp: mult.commute)
  qed
  show "1 * p = p"
  proof (transfer, rule ext)
    fix f :: "nat \<Rightarrow> gf" and n
    show "(\<Sum>i\<le>n. (if i = 0 then 1 else 0) * f (n - i)) = f n"
      by (simp add: if_distrib [of "\<lambda>x. x * _"] sum.delta cong: if_cong)
  qed
  show "(p + q) * r = p * r + q * r"
    by (transfer, simp add: distrib_right sum.distrib)
  show "(0::pol) \<noteq> 1"
    by transfer (metis zero_neq_one)
qed

end

lemma coeff_simps [simp]:
  "coeff 0 n = 0" "coeff (p + q) n = coeff p n + coeff q n" "coeff (- p) n = - coeff p n" "coeff (p - q) n = coeff p n - coeff q n"
  "coeff 1 n = (if n = 0 then 1 else 0)"
  by (transfer, simp)+

lemma coeff_mult: "coeff (p * q) n = (\<Sum>i\<le>n. coeff p i * coeff q (n - i))"
  by transfer simp

section \<open>Degree\<close>

definition deg :: "pol \<Rightarrow> nat" where
  "deg p = (LEAST n. \<forall>i>n. coeff p i = 0)"

lemma coeff_above_deg: "deg p < i \<Longrightarrow> coeff p i = 0"
proof -
  obtain n where "\<forall>i\<ge>n. coeff p i = 0" using coeff_bounded by blast
  then have "\<forall>i>n. coeff p i = 0" by simp
  then have "\<forall>i>deg p. coeff p i = 0" unfolding deg_def by (rule LeastI)
  then show "deg p < i \<Longrightarrow> coeff p i = 0" by simp
qed

lemma le_deg: "coeff p n \<noteq> 0 \<Longrightarrow> n \<le> deg p"
  using coeff_above_deg by (metis not_le)

lemma deg_le: "(\<And>i. n < i \<Longrightarrow> coeff p i = 0) \<Longrightarrow> deg p \<le> n"
  unfolding deg_def by (rule Least_le) simp

lemma lead_nonzero: "p \<noteq> 0 \<Longrightarrow> coeff p (deg p) \<noteq> 0"
proof
  assume "p \<noteq> 0" "coeff p (deg p) = 0"
  then obtain i where "coeff p i \<noteq> 0" using pol_eqI [of p 0] by auto
  then have "i \<le> deg p" "i \<noteq> deg p" using le_deg \<open>coeff p (deg p) = 0\<close> by metis+
  moreover have "coeff p j = 0" if "deg p - 1 < j" for j
    using that \<open>coeff p (deg p) = 0\<close> coeff_above_deg [of p j] by (cases "j = deg p") auto
  then have "deg p \<le> deg p - 1" by (rule deg_le)
  ultimately show False by linarith
qed

lemma lead_mult: "coeff (p * q) (deg p + deg q) = coeff p (deg p) * coeff q (deg q)"
proof -
  have "coeff p i * coeff q (deg p + deg q - i) = 0" if "i \<noteq> deg p" for i
    using that coeff_above_deg [of p i] coeff_above_deg [of q "deg p + deg q - i"]
    by (cases "deg p < i") auto
  then have "(\<Sum>i\<le>deg p + deg q. coeff p i * coeff q (deg p + deg q - i))
      = (\<Sum>i\<le>deg p + deg q. if i = deg p then coeff p (deg p) * coeff q (deg q) else 0)"
    by (intro sum.cong) auto
  then show ?thesis by (simp add: coeff_mult sum.delta)
qed

lemma deg_mult: "p \<noteq> 0 \<Longrightarrow> q \<noteq> 0 \<Longrightarrow> p * q \<noteq> 0 \<and> deg (p * q) = deg p + deg q"
proof -
  assume "p \<noteq> 0" "q \<noteq> 0"
  then have nz: "coeff (p * q) (deg p + deg q) \<noteq> 0" by (simp add: lead_mult lead_nonzero)
  have "coeff (p * q) n = 0" if "deg p + deg q < n" for n
  proof -
    have "coeff p i * coeff q (n - i) = 0" for i
      using that coeff_above_deg [of p i] coeff_above_deg [of q "n - i"] by (cases "deg p < i") auto
    then show ?thesis unfolding coeff_mult by (intro sum.neutral) blast
  qed
  then have "deg (p * q) \<le> deg p + deg q" by (rule deg_le)
  then show ?thesis using nz le_deg [OF nz] by auto
qed

instance pol :: idom
  by standard (use deg_mult in blast)

section \<open>Constants and the variable\<close>

lift_definition cst :: "gf \<Rightarrow> pol" is "\<lambda>(c::gf) (n::nat). if n = 0 then c else 0"
  by (rule exI [of _ 1]) simp

lift_definition pX :: pol is "\<lambda>(n::nat). if n = 1 then (1::gf) else 0"
  by (rule exI [of _ 2]) simp

lemma coeff_cst [simp]: "coeff (cst c) n = (if n = 0 then c else 0)"
  by transfer simp

lemma coeff_pX [simp]: "coeff pX n = (if n = 1 then 1 else 0)"
  by transfer simp

lemma cst_hom: "cst (a + b) = cst a + cst b" "cst (a - b) = cst a - cst b" "cst (- a) = - cst a" "cst 0 = 0" "cst 1 = 1"
  by (rule pol_eqI; simp)+

lemma cst_mult: "cst (a * b) = cst a * cst b"
proof (rule pol_eqI)
  fix n
  have "(\<Sum>i\<le>n. coeff (cst a) i * coeff (cst b) (n - i)) = (\<Sum>i\<le>n. if i = 0 then a * coeff (cst b) n else 0)"
    by (rule sum.cong) auto
  then show "coeff (cst (a * b)) n = coeff (cst a * cst b) n" by (simp add: coeff_mult sum.delta)
qed

lemma deg_cst [simp]: "deg (cst c) = 0"
  using deg_le [of 0 "cst c"] by simp

lemma deg_linear [simp]: "deg (pX - cst x) = 1"
proof -
  have "deg (pX - cst x) \<le> 1" by (rule deg_le) simp
  moreover have "1 \<le> deg (pX - cst x)" by (rule le_deg) simp
  ultimately show ?thesis by simp
qed

lemma deg_0_cst: "deg p = 0 \<Longrightarrow> p = cst (coeff p 0)"
  by (rule pol_eqI) (simp add: coeff_above_deg)

lemma linear_nonzero [simp]: "pX \<noteq> cst x"
proof
  assume "pX = cst x"
  then have "coeff pX 1 = coeff (cst x) 1" by simp
  then show False by simp
qed

lemma linear_not_unit: "(pX - cst x) * p \<noteq> cst c" if "c \<noteq> 0"
proof
  assume e: "(pX - cst x) * p = cst c"
  have "cst c \<noteq> 0" using that coeff_cst [of c 0] by (metis coeff_simps(1))
  then have "p \<noteq> 0" using e by auto
  then show False using deg_mult [of "pX - cst x" p] e by simp
qed

section \<open>The coordinate ring\<close>

definition cubic :: pol where
  "cubic = pX * pX * pX + cst (- 3) * pX + cst curve_b"

datatype cr = Cr pol pol

instantiation cr :: comm_ring_1
begin

definition zero_cr :: cr where
  "0 = Cr 0 0"

definition one_cr :: cr where
  "1 = Cr 1 0"

fun plus_cr :: "cr \<Rightarrow> cr \<Rightarrow> cr" where
  "Cr p q + Cr p' q' = Cr (p + p') (q + q')"

fun minus_cr :: "cr \<Rightarrow> cr \<Rightarrow> cr" where
  "Cr p q - Cr p' q' = Cr (p - p') (q - q')"

fun uminus_cr :: "cr \<Rightarrow> cr" where
  "- Cr p q = Cr (- p) (- q)"

fun times_cr :: "cr \<Rightarrow> cr \<Rightarrow> cr" where
  "Cr p q * Cr p' q' = Cr (p * p' + q * q' * cubic) (p * q' + q * p')"

instance
proof
  fix r s t :: cr
  show "r + s + t = r + (s + t)" "r * s * t = r * (s * t)" "(r + s) * t = r * t + s * t"
    by (cases r; cases s; cases t; simp add: algebra_simps)+
  show "r + s = s + r" "r - s = r + - s" "r * s = s * r"
    by (cases r; cases s; simp add: algebra_simps)+
  show "0 + r = r" "- r + r = 0" "1 * r = r"
    by (cases r; simp add: zero_cr_def one_cr_def)+
  show "(0::cr) \<noteq> 1" by (simp add: zero_cr_def one_cr_def)
qed

end

fun cr_norm :: "cr \<Rightarrow> pol" where
  "cr_norm (Cr p q) = p * p - q * q * cubic"

lemma cr_norm_mult: "cr_norm (r * s) = cr_norm r * cr_norm s"
  by (cases r; cases s) (simp add: algebra_simps)

lemma deg_cubic: "cubic \<noteq> 0" "deg cubic = 3"
proof -
  have x: "pX \<noteq> 0" "deg pX = 1" using linear_nonzero [of 0] deg_linear [of 0] unfolding cst_hom by simp_all
  then have x2: "pX * pX \<noteq> 0" "deg (pX * pX) = 2" using deg_mult [of pX pX] by simp_all
  have x3: "pX * pX * pX \<noteq> 0" "deg (pX * pX * pX) = 3" using deg_mult [OF x2(1) x(1)] x x2 by simp_all
  have m: "deg (cst (- 3) * pX) \<le> 1"
  proof (cases "cst (- 3) * pX = 0")
    case True
    then show ?thesis unfolding True using deg_cst [of 0] unfolding cst_hom by simp
  next
    case False
    then show ?thesis using deg_mult [of "cst (- 3)" pX] x by auto
  qed
  have c: "coeff cubic n = coeff (pX * pX * pX) n" if "1 < n" for n
    using that m coeff_above_deg [of "cst (- 3) * pX" n] by (simp add: cubic_def)
  then have nz: "coeff cubic 3 \<noteq> 0" using lead_nonzero [OF x3(1)] x3(2) by simp
  then show "cubic \<noteq> 0" by auto
  have "deg cubic \<le> 3" by (rule deg_le) (use c coeff_above_deg [of "pX * pX * pX"] x3(2) in simp)
  then show "deg cubic = 3" using le_deg [OF nz] by simp
qed

text \<open>The norm of p + q Y has an odd degree of at least three when q is not zero and dominates.\<close>

lemma deg_norm: "q \<noteq> 0 \<Longrightarrow> cr_norm (Cr p q) \<noteq> 0 \<and> 3 \<le> deg (cr_norm (Cr p q))"
proof -
  assume q: "q \<noteq> 0"
  define m where "m = q * q * cubic"
  have m: "m \<noteq> 0" "deg m = 2 * deg q + 3"
    using deg_mult [OF q q] deg_mult [of "q * q" cubic] deg_cubic by (simp_all add: m_def)
  have "\<exists>n\<ge>3. coeff (p * p - m) n \<noteq> 0"
  proof (cases "p = 0 \<or> 2 * deg p < deg m")
    case True
    then have "coeff (p * p) (deg m) = 0"
      using deg_mult [of p p] coeff_above_deg [of "p * p" "deg m"] by (cases "p = 0") auto
    then show ?thesis using lead_nonzero [OF m(1)] m(2) by (intro exI [of _ "deg m"]) simp
  next
    case False
    then have p: "p \<noteq> 0" "deg (p * p) = 2 * deg p" "p * p \<noteq> 0" using deg_mult [of p p] by auto
    then have "2 * deg p \<noteq> deg m" unfolding m(2) by presburger
    then have lt: "deg m < 2 * deg p" using False by simp
    then have "coeff (p * p - m) (2 * deg p) \<noteq> 0"
      using coeff_above_deg [OF lt] lead_nonzero [OF p(3)] p(2) by simp
    then show ?thesis using lt m(2) by (intro exI [of _ "2 * deg p"]) simp
  qed
  then obtain n where n: "3 \<le> n" "coeff (p * p - m) n \<noteq> 0" by blast
  then have "3 \<le> deg (p * p - m)" using le_deg [OF n(2)] by linarith
  moreover have "p * p - m \<noteq> 0" using n(2) by auto
  ultimately show ?thesis by (simp add: m_def)
qed

lemma norm_nonzero: "r \<noteq> 0 \<Longrightarrow> cr_norm r \<noteq> 0"
proof (cases r)
  case (Cr p q)
  assume "r \<noteq> 0"
  then show ?thesis using Cr deg_norm [of q p] by (cases "q = 0") (auto simp: zero_cr_def)
qed

instance cr :: idom
proof
  fix r s :: cr
  assume "r \<noteq> 0" "s \<noteq> 0"
  then have "cr_norm (r * s) \<noteq> 0" by (simp add: cr_norm_mult norm_nonzero)
  then show "r * s \<noteq> 0" by (auto simp: zero_cr_def)
qed

definition cX :: cr where
  "cX = Cr pX 0"

definition cY :: cr where
  "cY = Cr 0 1"

definition cc :: "gf \<Rightarrow> cr" where
  "cc c = Cr (cst c) 0"

lemma cc_hom: "cc (a + b) = cc a + cc b" "cc (a - b) = cc a - cc b" "cc (- a) = - cc a" "cc 0 = 0" "cc 1 = 1" "cc (a * b) = cc a * cc b"
  by (simp_all add: cc_def cst_hom cst_mult zero_cr_def one_cr_def)

lemma cc_numeral: "cc (numeral k) = numeral k"
proof -
  have "cc (of_nat n) = of_nat n" for n by (induction n) (simp_all add: cc_hom)
  from this [of "numeral k"] show ?thesis by simp
qed

lemma curve_equation: "cY * cY = cX * cX * cX - 3 * cX + cc curve_b"
proof -
  have "cX * cX * cX + cc (- 3) * cX + cc curve_b = cY * cY"
    by (simp add: cX_def cY_def cc_def cubic_def zero_cr_def)
  then show ?thesis by (simp add: cc_hom cc_numeral)
qed

lemma cc_inverse: "c \<noteq> 0 \<Longrightarrow> cc c * cc (inverse c) = 1"
  by (simp add: cc_hom(5) flip: cc_hom(6))

lemma cc_nonzero [simp]: "cc c = 0 \<longleftrightarrow> c = 0"
proof
  assume "cc c = 0"
  then have "coeff (cst c) 0 = coeff 0 0" by (simp add: cc_def zero_cr_def)
  then show "c = 0" by simp
qed (simp add: cc_hom)

lemma line_nonzero [simp]: "cX \<noteq> cc x"
  by (simp add: cX_def cc_def)

text \<open>No multiple of X - x has a constant coefficient of Y.\<close>

lemma line_not_multiple: "(cX - cc x) * r \<noteq> cY + cc c"
proof
  assume e: "(cX - cc x) * r = cY + cc c"
  obtain p q where "r = Cr p q" by (cases r)
  then have "(pX - cst x) * q = cst 1" using e by (simp add: cX_def cc_def cY_def cst_hom)
  then show False using linear_not_unit [of 1 x q] by simp
qed

text \<open>A linear polynomial in X has only trivial factors.\<close>

lemma linear_factors:
  assumes "cX - cc x = r * s"
  shows "\<exists>c. c \<noteq> 0 \<and> (r = cc c \<or> s = cc c)"
proof -
  obtain p q where r: "r = Cr p q" by (cases r)
  obtain u v where s: "s = Cr u v" by (cases s)
  have n: "cr_norm r * cr_norm s = (pX - cst x) * (pX - cst x)"
    unfolding cr_norm_mult [symmetric] assms [symmetric] by (simp add: cX_def cc_def)
  then have nz: "cr_norm r \<noteq> 0" "cr_norm s \<noteq> 0" using linear_nonzero [of x] by auto
  have "deg (cr_norm r) + deg (cr_norm s) = 2"
    using deg_mult [OF nz] deg_mult [of "pX - cst x" "pX - cst x"] n by simp
  then have q: "q = 0" "v = 0" using deg_norm [of q p] deg_norm [of v u] r s by auto
  have pu: "p * u = pX - cst x" using assms r s q by (simp add: cX_def cc_def)
  then have "p \<noteq> 0" "u \<noteq> 0" using linear_nonzero [of x] by auto
  then have "deg p + deg u = 1" using deg_mult [of p u] pu by simp
  then have "deg p = 0 \<or> deg u = 0" by linarith
  then have "p = cst (coeff p 0) \<or> u = cst (coeff u 0)" using deg_0_cst by blast
  then show ?thesis
  proof
    assume "p = cst (coeff p 0)"
    then show ?thesis using r q \<open>p \<noteq> 0\<close> by (intro exI [of _ "coeff p 0"]) (auto simp: cc_def cst_hom)
  next
    assume "u = cst (coeff u 0)"
    then show ?thesis using s q \<open>u \<noteq> 0\<close> by (intro exI [of _ "coeff u 0"]) (auto simp: cc_def cst_hom)
  qed
qed

end
