(* ===== verification/P256_Group.thy ===== *)
theory P256_Group
  imports Curve_Ring
begin

text \<open>
  The chord-and-tangent law of P-256 is associative. To each point belongs an ideal of the
  coordinate ring; the ideal of a sum is, up to principal factors, the product of the ideals, and
  the ideal of a point determines the point. So the points form an abelian group, and doubling and
  adding computes multiples in it.
\<close>

section \<open>Ideals\<close>

definition ideal :: "cr set \<Rightarrow> bool" where
  "ideal K \<longleftrightarrow> 0 \<in> K \<and> (\<forall>r\<in>K. \<forall>s\<in>K. r + s \<in> K) \<and> (\<forall>r\<in>K. \<forall>t. t * r \<in> K)"

text \<open>The ideal that a set generates, and the products of two sets.\<close>

definition gen :: "cr set \<Rightarrow> cr set" where
  "gen S = \<Inter>{K. ideal K \<and> S \<subseteq> K}"

definition products :: "cr set \<Rightarrow> cr set \<Rightarrow> cr set" where
  "products S T = {s * t | s t. s \<in> S \<and> t \<in> T}"

lemma idealD:
  assumes "ideal K"
  shows "0 \<in> K" "r \<in> K \<Longrightarrow> s \<in> K \<Longrightarrow> r + s \<in> K" "r \<in> K \<Longrightarrow> t * r \<in> K" "r \<in> K \<Longrightarrow> r * t \<in> K"
    "r \<in> K \<Longrightarrow> - r \<in> K" "r \<in> K \<Longrightarrow> s \<in> K \<Longrightarrow> r - s \<in> K"
proof -
  show a: "0 \<in> K" "r \<in> K \<Longrightarrow> s \<in> K \<Longrightarrow> r + s \<in> K" "r \<in> K \<Longrightarrow> t * r \<in> K" for r s t
    using assms by (auto simp: ideal_def)
  show "r \<in> K \<Longrightarrow> r * t \<in> K" using a(3) [of r t] by (simp add: mult.commute)
  show m: "r \<in> K \<Longrightarrow> - r \<in> K" for r using a(3) [of r "- 1"] by simp
  show "r \<in> K \<Longrightarrow> s \<in> K \<Longrightarrow> r - s \<in> K" using a(2) [of r "- s"] m by simp
qed

lemma ideal_gen [simp]: "ideal (gen S)"
  unfolding gen_def ideal_def by blast

lemma gen_incl: "S \<subseteq> gen S"
  unfolding gen_def by blast

lemma gen_least: "ideal K \<Longrightarrow> S \<subseteq> K \<Longrightarrow> gen S \<subseteq> K"
  unfolding gen_def by blast

lemma gen_subset: "gen S \<subseteq> gen T \<longleftrightarrow> S \<subseteq> gen T"
  using gen_least [OF ideal_gen] gen_incl by blast

lemma gen_eqI: "S \<subseteq> gen T \<Longrightarrow> T \<subseteq> gen S \<Longrightarrow> gen S = gen T"
  using gen_subset by blast

lemma ideal_quotient: "ideal K \<Longrightarrow> ideal {z. t * z \<in> K}"
  unfolding ideal_def by (auto simp: distrib_left mult.left_commute)

lemma gen_products_cong:
  assumes "gen S = gen S'"
  shows "gen (products S T) = gen (products S' T)"
proof -
  have "products S T \<subseteq> gen (products S' T)" if "S \<subseteq> gen S'" for S S'
  proof
    fix z assume "z \<in> products S T"
    then obtain s t where z: "z = s * t" "s \<in> S" "t \<in> T" by (auto simp: products_def)
    have "t * r \<in> products S' T" if "r \<in> S'" for r
      using that z(3) by (auto simp: products_def mult.commute [of t])
    then have "S' \<subseteq> {r. t * r \<in> gen (products S' T)}" using gen_incl by blast
    then have "gen S' \<subseteq> {r. t * r \<in> gen (products S' T)}" by (rule gen_least [OF ideal_quotient [OF ideal_gen]])
    then show "z \<in> gen (products S' T)" using z that by (auto simp: mult.commute)
  qed
  then show ?thesis using assms gen_incl [of S] gen_incl [of S'] by (intro gen_eqI) simp_all
qed

lemma products_commute: "products S T = products T S"
  unfolding products_def by (metis mult.commute)

lemma products_assoc: "products (products S T) U = products S (products T U)"
  unfolding products_def by (auto simp: mult.assoc) (metis mult.assoc)+

lemma products_one [simp]: "products {1} S = S" "products S {1} = S"
  by (auto simp: products_def)

lemma products_pairs: "products {a, b} {c, d} = {a * c, a * d, b * c, b * d}" "products {a} {b} = {a * b}"
  "products {a} {c, d} = {a * c, a * d}"
  by (auto simp: products_def)

text \<open>The multiples of one element.\<close>

lemma gen_single: "gen {g} = {r. g dvd r}"
proof
  have "ideal {r. g dvd r}" by (simp add: ideal_def)
  then show "gen {g} \<subseteq> {r. g dvd r}" by (rule gen_least) simp
  have "g \<in> gen {g}" using gen_incl by auto
  then show "{r. g dvd r} \<subseteq> gen {g}" using idealD(4) [OF ideal_gen [of "{g}"]] by (auto simp: dvd_def)
qed

section \<open>Ideals up to principal factors\<close>

definition same_class :: "cr set \<Rightarrow> cr set \<Rightarrow> bool" where
  "same_class S T \<longleftrightarrow> (\<exists>a b. a \<noteq> 0 \<and> b \<noteq> 0 \<and> gen (products {a} S) = gen (products {b} T))"

lemma same_class_eq: "gen S = gen T \<Longrightarrow> same_class S T"
  unfolding same_class_def by (rule exI [of _ 1], rule exI [of _ 1]) simp

lemma same_class_refl [simp]: "same_class S S"
  by (rule same_class_eq) simp

lemma same_class_sym: "same_class S T \<Longrightarrow> same_class T S"
  unfolding same_class_def by metis

lemma same_class_trans:
  assumes "same_class S T" "same_class T U"
  shows "same_class S U"
proof -
  obtain a b where ab: "a \<noteq> 0" "b \<noteq> 0" "gen (products {a} S) = gen (products {b} T)"
    using assms(1) by (auto simp: same_class_def)
  obtain c d where cd: "c \<noteq> 0" "d \<noteq> 0" "gen (products {c} T) = gen (products {d} U)"
    using assms(2) by (auto simp: same_class_def)
  have comm: "products {x} (products {y} V) = products {x * y} V" for x y V
    unfolding products_assoc [symmetric] products_pairs ..
  have "gen (products {c} (products {a} S)) = gen (products {c} (products {b} T))"
    using gen_products_cong [OF ab(3), of "{c}"] by (simp add: products_commute)
  moreover have "gen (products {b} (products {c} T)) = gen (products {b} (products {d} U))"
    using gen_products_cong [OF cd(3), of "{b}"] by (simp add: products_commute)
  ultimately have "gen (products {c * a} S) = gen (products {b * d} U)"
    unfolding comm by (simp add: mult.commute)
  moreover have "c * a \<noteq> 0" "b * d \<noteq> 0" using ab cd by simp_all
  ultimately show ?thesis unfolding same_class_def by blast
qed

lemma same_class_products: "same_class S T \<Longrightarrow> same_class (products S U) (products T U)"
  unfolding same_class_def by (metis gen_products_cong products_assoc)

lemma same_class_products2: "same_class S T \<Longrightarrow> same_class (products U S) (products U T)"
  using same_class_products [of S T U] by (simp add: products_commute)

section \<open>The ideal of a point\<close>

fun point_ideal :: "ec_point \<Rightarrow> cr set" where
  "point_ideal None = {1}"
| "point_ideal (Some (x, y)) = {cX - cc x, cY - cc y}"

text \<open>A vertical line: a point and its mirror image.\<close>

lemma curve_point: "on_curve (Some (x, y)) \<Longrightarrow> cc y * cc y = cc x * cc x * cc x - 3 * cc x + cc curve_b"
proof -
  assume "on_curve (Some (x, y))"
  then have "cc (y * y) = cc (x * x * x + - 3 * x + curve_b)" by (simp only: on_curve.simps)
  then show ?thesis by (simp add: cc_hom cc_numeral)
qed

lemma nonsingular:
  assumes "on_curve (Some (x, 0))"
  shows "3 * (x * x) - 3 \<noteq> 0"
proof
  assume s: "3 * (x * x) - 3 = 0"
  have "0 = x * x * x + - 3 * x + curve_b" using assms by simp
  then have "3 * (3 * (curve_b * curve_b - 4)) = 0" using s by algebra
  then have "curve_b * curve_b = 4" by (metis mult_eq_0_iff gf_nonzero(2) eq_iff_diff_eq_0)
  then have "(curve_b - 2) * (curve_b + 2) = 0" by (simp add: algebra_simps)
  then have "curve_b = 2 \<or> curve_b = - 2" by (simp add: eq_neg_iff_add_eq_0)
  moreover have "gf_val curve_b \<noteq> gf_val 2" by (simp add: curve_b_def p256_p_def)
  moreover have "gf_val curve_b \<noteq> gf_val (- 2)" by (simp add: curve_b_def uminus_gf_def p256_p_def)
  ultimately show False by metis
qed

lemma vertical_line:
  assumes "on_curve (Some (x, y))"
  shows "gen (products (point_ideal (Some (x, y))) (point_ideal (Some (x, - y)))) = gen {cX - cc x}"
proof -
  define u v w where "u = cX - cc x" and "v = cY - cc y" and "w = cY + cc y"
  define S where "S = {u * u, u * w, v * u, v * w}"
  note c = curve_equation curve_point [OF assms]
  have vw: "v * w = u * (u * (cX + 2 * cc x) + (3 * (cc x * cc x) - 3))"
    using c unfolding u_def v_def w_def by algebra
  have "S \<subseteq> gen {u}" by (auto simp: S_def gen_single vw)
  moreover have "u \<in> gen S"
  proof -
    note K = idealD [OF ideal_gen [of S]]
    have in_S: "u * u \<in> gen S" "u * w \<in> gen S" "v * u \<in> gen S" "v * w \<in> gen S"
      using gen_incl [of S] by (auto simp: S_def)
    show ?thesis
    proof (cases "y = 0")
      case False
      then have i: "cc (2 * y) * cc (inverse (2 * y)) = 1" by (intro cc_inverse) simp
      have "u = cc (inverse (2 * y)) * (u * w - v * u)"
        using i unfolding v_def w_def cc_hom cc_numeral by algebra
      then show ?thesis using K(3) [OF K(6) [OF in_S(2,3)]] by metis
    next
      case True
      define d where "d = 3 * (x * x) - 3"
      have d: "cc d * cc (inverse d) = 1" by (intro cc_inverse) (use nonsingular assms True in \<open>simp add: d_def\<close>)
      have "cc d = 3 * (cc x * cc x) - 3" by (simp add: d_def cc_hom cc_numeral)
      then have "u = cc (inverse d) * (v * w - (cX + 2 * cc x) * (u * u))"
        using d vw by algebra
      then show ?thesis using K(3) [OF K(6) [OF in_S(4) K(3) [OF in_S(1)]]] by metis
    qed
  qed
  moreover have "products (point_ideal (Some (x, y))) (point_ideal (Some (x, - y))) = S"
    by (simp add: products_pairs S_def u_def v_def w_def cc_hom)
  ultimately show ?thesis using gen_eqI [of S "{u}"] by (simp add: u_def)
qed

text \<open>
  A line Y = m X + c through three points of the curve, counted with multiplicity: the line is the
  product of the ideals of the points.
\<close>

lemma point_ideal_line:
  assumes "y = m * x + c"
  shows "gen (point_ideal (Some (x, y))) = gen {cX - cc x, cY - cc m * cX - cc c}"
proof -
  have y: "cc y = cc m * cc x + cc c" by (simp add: assms cc_hom)
  have a: "cY - cc y = (cY - cc m * cX - cc c) + cc m * (cX - cc x)"
    and b: "cY - cc m * cX - cc c = (cY - cc y) - cc m * (cX - cc x)"
    unfolding y by algebra+
  note K = idealD [OF ideal_gen]
  have g: "cX - cc x \<in> gen {cX - cc x, t}" "t \<in> gen {cX - cc x, t}" for t
    using gen_incl [of "{cX - cc x, t}"] by simp_all
  have "cY - cc y \<in> gen {cX - cc x, cY - cc m * cX - cc c}"
    unfolding a by (rule K(2) [OF g(2) K(3) [OF g(1)]])
  moreover have "cY - cc m * cX - cc c \<in> gen {cX - cc x, cY - cc y}"
    unfolding b by (rule K(6) [OF g(2) K(3) [OF g(1)]])
  ultimately show ?thesis using g(1) by (intro gen_eqI) simp_all
qed

lemma line_ideal:
  assumes e1: "m * m = x1 + x2 + x3" and e2: "- 3 - 2 * m * c = x1 * x2 + x1 * x3 + x2 * x3"
    and e3: "curve_b - c * c = - (x1 * x2 * x3)"
    and tangent: "x1 = x2 \<Longrightarrow> m * x1 + c \<noteq> 0"
  defines "l \<equiv> cY - cc m * cX - cc c"
  defines "P x \<equiv> point_ideal (Some (x, m * x + c))"
  shows "gen (products (products (P x1) (P x2)) (P x3)) = gen {l}"
proof -
  define u where "u x = cX - cc x" for x
  define L where "L = cc m * cX + cc c"
  define S where "S = products (products {u x1, l} {u x2, l}) {u x3, l}"
  have hom: "cc m * cc m = cc x1 + cc x2 + cc x3"
    "- 3 - 2 * cc m * cc c = cc x1 * cc x2 + cc x1 * cc x3 + cc x2 * cc x3"
    "cc curve_b - cc c * cc c = - (cc x1 * cc x2 * cc x3)"
    using arg_cong [OF e1, of cc] arg_cong [OF e2, of cc] arg_cong [OF e3, of cc] by (simp_all add: cc_hom cc_numeral)
  have roots: "u x1 * u x2 * u x3 = l * (cY + L)"
    using hom curve_equation unfolding u_def l_def L_def by algebra
  have S: "S = {u x1 * u x2 * u x3, u x1 * u x2 * l, u x1 * l * u x3, u x1 * l * l,
      l * u x2 * u x3, l * u x2 * l, l * l * u x3, l * l * l}"
    by (auto simp: S_def products_def)
  have "S \<subseteq> gen {l}" unfolding S gen_single by (auto simp: roots)
  moreover have "l \<in> gen S"
  proof -
    define K where "K = {z. l * z \<in> gen S}"
    have K: "ideal K" unfolding K_def by (rule ideal_quotient) simp
    note I = idealD [OF K]
    have in_S: "z \<in> S \<Longrightarrow> z = l * t \<Longrightarrow> t \<in> K" for z t using gen_incl [of S] by (auto simp: K_def)
    have k: "cY + L \<in> K" "u x1 * u x2 \<in> K" "u x1 * u x3 \<in> K" "u x2 * u x3 \<in> K" "l * l \<in> K"
      "u x1 * l \<in> K" "u x2 * l \<in> K" "u x3 * l \<in> K"
      by (rule in_S; (simp add: S roots)?; simp add: mult.commute mult.left_commute)+
    have unit: "1 \<in> K" if "cc a \<in> K" "a \<noteq> 0" for a
      using I(3) [OF that(1), of "cc (inverse a)"] cc_inverse [OF that(2)] by (simp add: mult.commute)
    have scale: "z \<in> K" if "cc a * z \<in> K" "a \<noteq> 0" for a z
    proof -
      have "z = cc (inverse a) * (cc a * z)" using cc_inverse [OF that(2)] by algebra
      then show ?thesis using I(3) [OF that(1)] by metis
    qed
    have "(cY + L) * (cY + L - 2 * l) + l * l = cc 4 * (L * L)"
      unfolding l_def L_def cc_numeral by algebra
    then have LL: "L * L \<in> K" using I(2) [OF I(4) [OF k(1)] k(5)] scale [of 4 "L * L"] gf_nonzero(3) by metis
    have uL: "u x * L \<in> K" if "u x * l \<in> K" for x
    proof -
      have "u x * (cY + L) - u x * l = cc 2 * (u x * L)" unfolding l_def L_def cc_numeral by algebra
      then show ?thesis using I(6) [OF I(3) [OF k(1)] that] scale by (metis gf_nonzero(1))
    qed
    have L: "L = cc m * u x + cc (m * x + c)" for x
      unfolding L_def u_def cc_hom by algebra
    have finish: "1 \<in> K" if "u x \<in> K" "m * x + c \<noteq> 0" for x
    proof -
      have "cc ((m * x + c) * (m * x + c)) = L * L - (cc m * (L + cc (m * x + c))) * u x"
        unfolding L [of x] cc_hom by algebra
      then have "cc ((m * x + c) * (m * x + c)) \<in> K" using I(6) [OF LL I(3) [OF that(1)]] by metis
      then show ?thesis using unit that(2) by auto
    qed
    have double: "m * x + c \<noteq> 0" if "m * m = x + x + x'" "- 3 - 2 * m * c = x * x + x * x' + x * x'" "curve_b - c * c = - (x * x * x')" for x x'
    proof
      assume y: "m * x + c = 0"
      have "x * x * x + - 3 * x + curve_b = (m * x + c) * (m * x + c)" using that by algebra
      then have "0 = x * x * x + - 3 * x + curve_b" using y by simp
      then have "3 * (x * x) - 3 \<noteq> 0" using nonsingular [of x] by simp
      moreover have "3 * (x * x) - 3 = 2 * m * (m * x + c)" using that by algebra
      ultimately show False using y by simp
    qed
    have "1 \<in> K"
    proof (cases "x1 = x2")
      case True
      have "u x1 * L - cc m * (u x1 * u x1) = cc (m * x1 + c) * u x1" unfolding L [of x1] by algebra
      then have "u x1 \<in> K" using I(6) [OF uL [OF k(6)] I(3) [OF k(2)]] scale tangent True by metis
      then show ?thesis using finish tangent True by blast
    next
      case False
      have "u x1 * u x3 - u x2 * u x3 = cc (x2 - x1) * u x3" unfolding u_def cc_hom by algebra
      then have u3: "u x3 \<in> K" using I(6) [OF k(3,4)] scale False by (metis right_minus_eq)
      consider "x3 = x1" | "x3 = x2" | "(x3 - x1) * (x3 - x2) \<noteq> 0" by auto
      then show ?thesis
      proof cases
        case 1
        then show ?thesis using finish [of x1] u3 double [of x1 x2] e1 e2 e3 by (simp add: mult.commute add.commute add.left_commute mult.left_commute)
      next
        case 2
        then show ?thesis using finish [of x2] u3 double [of x2 x1] e1 e2 e3 by (simp add: mult.commute add.commute add.left_commute mult.left_commute)
      next
        case 3
        have "cc ((x3 - x1) * (x3 - x2)) = u x1 * u x2 - (u x3 + cc (x3 - x1) + cc (x3 - x2)) * u x3"
          unfolding u_def cc_hom by algebra
        then have "cc ((x3 - x1) * (x3 - x2)) \<in> K" using I(6) [OF k(2) I(3) [OF u3]] by metis
        then show ?thesis using unit 3 by blast
      qed
    qed
    then show ?thesis by (simp add: K_def)
  qed
  ultimately have "gen S = gen {l}" by (intro gen_eqI) simp_all
  moreover have "gen (products (products (P x1) (P x2)) (P x3)) = gen S"
  proof -
    have g: "gen (P x) = gen {u x, l}" for x unfolding P_def u_def l_def by (rule point_ideal_line) simp
    have "gen (products (P x1) (P x2)) = gen (products {u x1, l} {u x2, l})"
      using gen_products_cong [OF g, of x1 "P x2"] gen_products_cong [OF g, of x2 "{u x1, l}"] by (simp add: products_commute)
    then show ?thesis
      using gen_products_cong [of "products (P x1) (P x2)" "products {u x1, l} {u x2, l}" "P x3"]
        gen_products_cong [OF g, of x3 "products {u x1, l} {u x2, l}"] by (simp add: products_commute S_def)
  qed
  ultimately show ?thesis by simp
qed

section \<open>The ideal of a sum\<close>

lemma class_neg: "on_curve P \<Longrightarrow> same_class (products (point_ideal P) (point_ideal (ec_neg P))) {1}"
proof (cases P rule: ec_neg.cases)
  case (2 x y)
  assume "on_curve P"
  then have "gen (products (point_ideal P) (point_ideal (ec_neg P))) = gen {cX - cc x}"
    using vertical_line [of x y] 2 by simp
  then show ?thesis
    unfolding same_class_def by (intro exI [of _ 1] exI [of _ "cX - cc x"]) (simp add: products_pairs)
qed simp

lemma line_not_0: "cY - cc m * cX - cc c \<noteq> 0"
proof
  assume "cY - cc m * cX - cc c = 0"
  then have "(cX - cc 0) * cc m = cY + cc (- c)" by (simp add: cc_hom algebra_simps)
  then show False using line_not_multiple by blast
qed

lemma class_line:
  assumes "on_curve (Some (x1, y1))" "on_curve (Some (x2, y2))"
    and l: "x1 \<noteq> x2 \<and> l * (x2 - x1) = y2 - y1 \<or> x1 = x2 \<and> y1 = y2 \<and> y1 \<noteq> 0 \<and> l * (2 * y1) = 3 * (x1 * x1) + - 3"
  shows "same_class (products (point_ideal (Some (x1, y1))) (point_ideal (Some (x2, y2)))) (point_ideal (third_point l (x1, y1) x2))"
proof -
  define c where "c = y1 - l * x1"
  define x3 where "x3 = l * l - x1 - x2"
  define T where "T = Some (x3, l * x3 + c)"
  have c1: "y1 = l * x1 + c" by (simp add: c_def)
  have c2: "y2 = l * x2 + c" using l by (auto simp: c_def algebra_simps)
  have curve: "(l * x1 + c) * (l * x1 + c) = x1 * x1 * x1 + - 3 * x1 + curve_b"
    "(l * x2 + c) * (l * x2 + c) = x2 * x2 * x2 + - 3 * x2 + curve_b"
    using assms(1,2) unfolding c1 c2 by simp_all
  have e1: "l * l = x1 + x2 + x3" by (simp add: x3_def)
  have e2: "- 3 - 2 * l * c = x1 * x2 + x1 * x3 + x2 * x3"
  proof (cases "x1 = x2")
    case True
    then have "l * (2 * y1) = 3 * (x1 * x1) + - 3" using l by blast
    then have "l * (2 * (l * x1 + c)) = 3 * (x1 * x1) + - 3" unfolding c1 .
    then show ?thesis unfolding x3_def True [symmetric] by algebra
  next
    case False
    have "(x2 - x1) * (- 3 - 2 * l * c - (x1 * x2 + x1 * x3 + x2 * x3)) = 0"
      using curve unfolding x3_def by algebra
    then show ?thesis using False by simp
  qed
  have e3: "curve_b - c * c = - (x1 * x2 * x3)"
    using curve(1) e1 e2 by algebra
  have tangent: "x1 = x2 \<Longrightarrow> l * x1 + c \<noteq> 0" using l c1 by auto
  have S: "third_point l (x1, y1) x2 = ec_neg T"
    by (simp add: third_point_def T_def x3_def c_def Let_def algebra_simps)
  have curveT: "on_curve T"
    unfolding T_def using curve(1) e1 e2 e3 by simp algebra
  have "gen (products (products (point_ideal (Some (x1, y1))) (point_ideal (Some (x2, y2)))) (point_ideal T))
      = gen {cY - cc l * cX - cc c}"
    using line_ideal [OF e1 e2 e3 tangent] by (simp only: c1 [symmetric] c2 [symmetric] T_def)
  then have "same_class (products (products (point_ideal (Some (x1, y1))) (point_ideal (Some (x2, y2)))) (point_ideal T)) {1}"
    unfolding same_class_def using line_not_0 [of l c]
    by (rule_tac exI [where x = 1], rule_tac exI [where x = "cY - cc l * cX - cc c"]) (simp add: products_pairs(2))
  then have a: "same_class (products (products (products (point_ideal (Some (x1, y1))) (point_ideal (Some (x2, y2)))) (point_ideal T))
      (point_ideal (ec_neg T))) (point_ideal (ec_neg T))"
    using same_class_products [of _ "{1}"] by fastforce
  have b: "same_class (products (products (point_ideal (Some (x1, y1))) (point_ideal (Some (x2, y2))))
      (products (point_ideal T) (point_ideal (ec_neg T)))) (products (point_ideal (Some (x1, y1))) (point_ideal (Some (x2, y2))))"
    using same_class_products2 [OF class_neg [OF curveT]] by simp
  show ?thesis
    unfolding S by (rule same_class_trans [OF same_class_sym [OF b]]) (use a in \<open>simp only: products_assoc\<close>)
qed

lemma class_sum:
  assumes "on_curve P" "on_curve Q"
  shows "same_class (products (point_ideal P) (point_ideal Q)) (point_ideal (ec_add P Q))"
  using assms
proof (induction P Q rule: ec_add.induct)
  case (3 x1 y1 x2 y2)
  show ?case
  proof (cases "x1 = x2")
    case True
    show ?thesis
    proof (cases "y1 + y2 = 0")
      case opp: True
      then have "y2 = - y1" by (simp add: eq_neg_iff_add_eq_0 add.commute)
      then show ?thesis using class_neg [OF 3(1)] True opp by simp
    next
      case False
      then have y: "y1 = y2" using same_x [of x1 y1 y2] 3 True by blast
      have "y1 + y1 = 2 * y1" by simp
      then have y0: "y1 \<noteq> 0" using False y by auto
      then have "(3 * (x1 * x1) + - 3) * inverse (2 * y1) * (2 * y1) = 3 * (x1 * x1) + - 3" by (intro slope_times) simp
      then show ?thesis
        using class_line [OF 3(1,2), of "(3 * (x1 * x1) + - 3) * inverse (2 * y1)"] True False y y0 by simp
    qed
  next
    case False
    then have "(y2 - y1) * inverse (x2 - x1) * (x2 - x1) = y2 - y1" by (intro slope_times) simp
    then show ?thesis using class_line [OF 3(1,2)] False by simp
  qed
qed simp_all

section \<open>The ideal determines the point\<close>

lemma point_ideal_not_principal:
  assumes "on_curve P" "same_class (point_ideal P) {1}"
  shows "P = None"
proof (rule ccontr)
  assume "P \<noteq> None"
  then obtain x y where P: "P = Some (x, y)" by auto
  then have oc: "on_curve (Some (x, y))" using assms(1) by simp
  define S where "S = {cX - cc x, cY - cc y}"
  obtain a b where ab: "a \<noteq> 0" "b \<noteq> 0" "gen (products {a} S) = gen {b}"
    using assms(2) by (auto simp: same_class_def P S_def products_pairs)
  have scaled: "gen (products {a} S) \<subseteq> {r. a dvd r}"
    by (rule gen_least) (auto simp: ideal_def products_def)
  have "b \<in> gen {b}" using gen_incl by auto
  then have "a dvd b" using ab(3) scaled by blast
  then obtain g where b: "b = a * g" ..
  have "a * (cX - cc x) \<in> gen {b}" "a * (cY - cc y) \<in> gen {b}"
    using gen_incl [of "products {a} S"] unfolding ab(3) by (auto simp: S_def products_pairs)
  then have g: "g dvd cX - cc x" "g dvd cY - cc y" using ab(1) by (simp_all add: gen_single b)
  have mem: "a * g \<in> gen (products {a} S)" using \<open>b \<in> gen {b}\<close> ab(3) b by simp
  obtain h where h: "cX - cc x = g * h" using g(1) ..
  then obtain c where c: "c \<noteq> 0" "g = cc c \<or> h = cc c" using linear_factors by blast
  then show False
  proof (elim disjE)
    assume "g = cc c"
    define K where "K = {r. a * (cX - cc x) dvd r * (cY + cc y)}"
    have K: "ideal K" by (auto simp: K_def ideal_def distrib_right mult.assoc dvd_add intro: dvd_mult)
    have "(cY - cc y) * (cY + cc y) = (cX - cc x) * (cX * cX + cX * cc x + cc x * cc x - 3)"
      using curve_equation curve_point [OF oc] by algebra
    then have "products {a} S \<subseteq> K"
      by (auto simp: K_def S_def products_pairs mult.assoc)
    then have "a * g \<in> K" using gen_least [OF K] mem by blast
    then have "a * (cX - cc x) dvd a * (g * (cY + cc y))" by (simp add: K_def mult.assoc)
    then have "cX - cc x dvd g * (cY + cc y)" using ab(1) by simp
    then have "cX - cc x dvd cc (inverse c) * (g * (cY + cc y))" by (rule dvd_mult)
    moreover have "cc (inverse c) * (g * (cY + cc y)) = cY + cc y"
      unfolding \<open>g = cc c\<close> using cc_inverse [OF c(1)] by algebra
    ultimately obtain k where "cY + cc y = (cX - cc x) * k" unfolding dvd_def by auto
    then show False using line_not_multiple by metis
  next
    assume "h = cc c"
    have "g = cc (inverse c) * (g * cc c)" using cc_inverse [OF c(1)] by algebra
    then have "g = cc (inverse c) * (cX - cc x)" using h \<open>h = cc c\<close> by simp
    then obtain k where "cY - cc y = (cX - cc x) * k" using g(2) by (auto simp: dvd_def ac_simps)
    then have "(cX - cc x) * k = cY + cc (- y)" by (simp add: cc_hom)
    then show False using line_not_multiple by blast
  qed
qed

lemma class_inject:
  assumes "on_curve P" "on_curve Q" "same_class (point_ideal P) (point_ideal Q)"
  shows "P = Q"
proof -
  have N: "on_curve (ec_neg Q)" using assms(2) by simp
  have "same_class (point_ideal (ec_add P (ec_neg Q))) {1}"
    using same_class_sym [OF class_sum [OF assms(1) N]] same_class_products [OF assms(3), of "point_ideal (ec_neg Q)"]
      class_neg [OF assms(2)] same_class_trans by blast
  then have "ec_add P (ec_neg Q) = None"
    by (rule point_ideal_not_principal [rotated]) (use assms(1) N in simp)
  moreover have "y1 = y2 \<or> y1 + y2 = 0" if "P = Some (x, y1)" "Q = Some (x, y2)" for x y1 y2
    using same_x [of x y1 y2] assms(1,2) that by blast
  ultimately show ?thesis
    by (cases P; cases Q) (auto simp: third_point_def Let_def split: if_splits)
qed

theorem ec_add_assoc:
  assumes "on_curve P" "on_curve Q" "on_curve R"
  shows "ec_add (ec_add P Q) R = ec_add P (ec_add Q R)"
proof (rule class_inject)
  have "same_class (products (products (point_ideal P) (point_ideal Q)) (point_ideal R)) (point_ideal (ec_add (ec_add P Q) R))"
    using same_class_products [OF class_sum [OF assms(1,2)]] class_sum [of "ec_add P Q" R] assms same_class_trans by force
  moreover have "same_class (products (point_ideal P) (products (point_ideal Q) (point_ideal R))) (point_ideal (ec_add P (ec_add Q R)))"
    using same_class_products2 [OF class_sum [OF assms(2,3)]] class_sum [of P "ec_add Q R"] assms same_class_trans by force
  ultimately show "same_class (point_ideal (ec_add (ec_add P Q) R)) (point_ideal (ec_add P (ec_add Q R)))"
    using same_class_sym same_class_trans unfolding products_assoc by blast
qed (use assms in simp_all)

section \<open>Multiples\<close>

text \<open>The points of the curve form an abelian group; \<open>ec_repeat\<close> is its multiplication by a number.\<close>

primrec ec_repeat :: "nat \<Rightarrow> ec_point \<Rightarrow> ec_point" where
  "ec_repeat 0 P = None"
| "ec_repeat (Suc n) P = ec_add (ec_repeat n P) P"

lemma ec_repeat_on_curve [simp]: "on_curve P \<Longrightarrow> on_curve (ec_repeat n P)"
  by (induction n) simp_all

lemma ec_repeat_add: "on_curve P \<Longrightarrow> ec_repeat (m + n) P = ec_add (ec_repeat m P) (ec_repeat n P)"
  by (induction n) (simp_all add: ec_add_assoc)

lemma ec_repeat_1 [simp]: "ec_repeat (Suc 0) P = P"
  by simp

lemma ec_repeat_None [simp]: "ec_repeat n None = None"
  by (induction n) simp_all

lemma ec_repeat_mult: "on_curve P \<Longrightarrow> ec_repeat (m * n) P = ec_repeat m (ec_repeat n P)"
  by (induction m) (simp_all add: ec_repeat_add ec_add_commute)

lemma ec_repeat_double: "on_curve P \<Longrightarrow> ec_double (ec_repeat n P) = ec_repeat (2 * n) P"
  by (simp add: ec_double_add ec_repeat_add mult_2)

text \<open>Doubling and adding computes the multiple.\<close>

lemma ec_mult_repeat: "on_curve P \<Longrightarrow> ec_mult n P = ec_repeat n P"
proof (induction n rule: less_induct)
  case (less n)
  show ?case
  proof (cases "n = 0")
    case False
    define k where "k = n div 2"
    have n: "n = 2 * k + (if odd n then 1 else 0)" by (simp add: k_def odd_two_times_div_two_succ)
    have "ec_mult n P = (if odd n then ec_add (ec_double (ec_repeat k P)) P else ec_double (ec_repeat k P))"
      using less False by (subst ec_mult.simps) (simp add: Let_def k_def)
    also have "\<dots> = ec_repeat (2 * k + (if odd n then 1 else 0)) P"
      using less(2) by (simp add: ec_repeat_double)
    finally show ?thesis unfolding n [symmetric] .
  qed simp
qed

lemma ec_mult_add: "on_curve P \<Longrightarrow> ec_add (ec_mult m P) (ec_mult n P) = ec_mult (m + n) P"
  by (simp add: ec_mult_repeat ec_repeat_add)

lemma ec_mult_mult: "on_curve P \<Longrightarrow> ec_mult m (ec_mult n P) = ec_mult (m * n) P"
  by (simp add: ec_mult_repeat ec_repeat_mult)

lemma ec_mult_distrib: "on_curve P \<Longrightarrow> on_curve Q \<Longrightarrow> ec_mult n (ec_add P Q) = ec_add (ec_mult n P) (ec_mult n Q)"
proof -
  assume c: "on_curve P" "on_curve Q"
  have swap: "ec_add (ec_add A B) (ec_add C D) = ec_add (ec_add A C) (ec_add B D)"
    if "on_curve A" "on_curve B" "on_curve C" "on_curve D" for A B C D
    using that by (metis ec_add_assoc ec_add_commute ec_add_on_curve)
  have "ec_repeat n (ec_add P Q) = ec_add (ec_repeat n P) (ec_repeat n Q)"
    using c by (induction n) (simp_all add: swap)
  then show ?thesis using c by (simp add: ec_mult_repeat)
qed

end
