(* ===== verification/P256_Fixed.thy ===== *)
theory P256_Fixed
  imports P256_Group Secure_Memory
begin

text \<open>
  src/p256_fixed.cpp, the points: loading and checking them, the affine addition, the Jacobian
  formulas on limbs, multiplication by a scalar without a branch on its bits, and multiplication of
  the base point by windows of four bits. On points of the curve the operations compute the law of
  P256_Curve; every other point is refused.
\<close>

section \<open>Loading and checking points\<close>

record fixed_affine =
  fa_x :: u256
  fa_y :: u256
  fa_infinity :: bool

definition make_point :: "u256 \<Rightarrow> u256 \<Rightarrow> p256_point result" where
  "make_point x y = Inr \<lparr>pt_x = to_be_bytes_fixed x, pt_y = to_be_bytes_fixed y, pt_infinity = False\<rparr>"

definition load_affine :: "p256_point \<Rightarrow> fixed_affine result" where
  "load_affine point =
     (if pt_infinity point then Inr \<lparr>fa_x = u256_zero, fa_y = u256_zero, fa_infinity = True\<rparr>
      else
        rbind (coordinate_from_be (pt_x point)) (\<lambda>x.
        rbind (coordinate_from_be (pt_y point)) (\<lambda>y.
          Inr \<lparr>fa_x = x, fa_y = y, fa_infinity = False\<rparr>)))"

definition fixed_is_on_curve_affine :: "fixed_affine \<Rightarrow> bool" where
  "fixed_is_on_curve_affine point =
     (if fa_infinity point then False
      else
        let y_squared = field_multiply (fa_y point) (fa_y point);
            x_squared = field_multiply (fa_x point) (fa_x point);
            x_cubed = field_multiply x_squared (fa_x point);
            ax = field_multiply a_value (fa_x point);
            rhs = field_add (field_add x_cubed ax) b_value
        in u256_compare y_squared rhs = 0)"

definition require_affine_on_curve :: "p256_point \<Rightarrow> fixed_affine result" where
  "require_affine_on_curve point =
     rbind (load_affine point) (\<lambda>affine.
       if fa_infinity affine \<or> \<not> fixed_is_on_curve_affine affine
       then Inl (p256_fixed_error Invalid_key ''P-256 point is not on the curve'')
       else Inr affine)"

definition fixed_point_double_affine :: "fixed_affine \<Rightarrow> p256_point result" where
  "fixed_point_double_affine point =
     (if fa_infinity point \<or> u256_is_zero (fa_y point) then Inr p256_point_at_infinity
      else
        let x_squared = field_multiply (fa_x point) (fa_x point);
            numerator = field_add (field_multiply (u256_word 3) x_squared) a_value;
            denominator = field_multiply (u256_word 2) (fa_y point);
            slope = field_multiply numerator (field_inverse denominator);
            x3 = field_subtract (field_multiply slope slope) (field_multiply (u256_word 2) (fa_x point));
            y3 = field_subtract (field_multiply slope (field_subtract (fa_x point) x3)) (fa_y point)
        in make_point x3 y3)"

section \<open>Jacobian coordinates\<close>

definition fixed_jacobian_infinity :: "u256 jacobian_point result" where
  "fixed_jacobian_infinity = Inr \<lparr>jp_x = u256_zero, jp_y = u256_zero, jp_z = u256_zero, jp_infinity = True\<rparr>"

definition fixed_affine_to_jacobian :: "fixed_affine \<Rightarrow> u256 jacobian_point" where
  "fixed_affine_to_jacobian point =
     (if fa_infinity point then \<lparr>jp_x = u256_zero, jp_y = u256_zero, jp_z = u256_zero, jp_infinity = True\<rparr>
      else \<lparr>jp_x = fa_x point, jp_y = fa_y point, jp_z = u256_one, jp_infinity = False\<rparr>)"

definition fixed_jacobian_double :: "u256 jacobian_point \<Rightarrow> u256 jacobian_point result" where
  "fixed_jacobian_double point =
     (if jp_infinity point \<or> u256_is_zero (jp_y point) then fixed_jacobian_infinity
      else
        let xx = field_multiply (jp_x point) (jp_x point);
            yy = field_multiply (jp_y point) (jp_y point);
            yyyy = field_multiply yy yy;
            zz = field_multiply (jp_z point) (jp_z point);
            x_plus_yy = field_add (jp_x point) yy;
            s_half = field_subtract (field_subtract (field_multiply x_plus_yy x_plus_yy) xx) yyyy;
            s = field_multiply (u256_word 2) s_half;
            a_zz_squared = field_multiply a_value (field_multiply zz zz);
            m = field_add (field_multiply (u256_word 3) xx) a_zz_squared;
            x3 = field_subtract (field_multiply m m) (field_multiply (u256_word 2) s);
            y3 = field_subtract (field_multiply m (field_subtract s x3)) (field_multiply (u256_word 8) yyyy);
            y_plus_z = field_add (jp_y point) (jp_z point);
            z3 = field_subtract (field_subtract (field_multiply y_plus_z y_plus_z) yy) zz
        in if u256_is_zero z3 then fixed_jacobian_infinity
           else Inr \<lparr>jp_x = x3, jp_y = y3, jp_z = z3, jp_infinity = False\<rparr>)"

definition fixed_jacobian_add_affine :: "u256 jacobian_point \<Rightarrow> fixed_affine \<Rightarrow> u256 jacobian_point result" where
  "fixed_jacobian_add_affine lhs rhs =
     (if fa_infinity rhs then Inr lhs
      else if jp_infinity lhs then Inr (fixed_affine_to_jacobian rhs)
      else
        let z1z1 = field_multiply (jp_z lhs) (jp_z lhs);
            u2 = field_multiply (fa_x rhs) z1z1;
            s2 = field_multiply (fa_y rhs) (field_multiply (jp_z lhs) z1z1);
            h = field_subtract u2 (jp_x lhs);
            s2_minus_y1 = field_subtract s2 (jp_y lhs)
        in if u256_is_zero h
           then (if u256_is_zero s2_minus_y1 then fixed_jacobian_double lhs else fixed_jacobian_infinity)
           else
             let hh = field_multiply h h;
                 i = field_multiply (u256_word 4) hh;
                 j = field_multiply h i;
                 r = field_multiply (u256_word 2) s2_minus_y1;
                 v = field_multiply (jp_x lhs) i;
                 x3 = field_subtract (field_subtract (field_multiply r r) j) (field_multiply (u256_word 2) v);
                 y3 = field_subtract (field_multiply r (field_subtract v x3))
                        (field_multiply (u256_word 2) (field_multiply (jp_y lhs) j));
                 z1_plus_h = field_add (jp_z lhs) h;
                 z3 = field_subtract (field_subtract (field_multiply z1_plus_h z1_plus_h) z1z1) hh
             in if u256_is_zero z3 then fixed_jacobian_infinity
                else Inr \<lparr>jp_x = x3, jp_y = y3, jp_z = z3, jp_infinity = False\<rparr>)"

definition fixed_jacobian_to_affine :: "u256 jacobian_point \<Rightarrow> p256_point result" where
  "fixed_jacobian_to_affine point =
     (if jp_infinity point then Inr p256_point_at_infinity
      else
        let z_inverse = field_inverse (jp_z point);
            z_inverse_squared = field_multiply z_inverse z_inverse;
            z_inverse_cubed = field_multiply z_inverse_squared z_inverse
        in make_point (field_multiply (jp_x point) z_inverse_squared) (field_multiply (jp_y point) z_inverse_cubed))"

section \<open>Masked selection\<close>

definition point_coordinate_byte :: "p256_point \<Rightarrow> bool \<Rightarrow> nat \<Rightarrow> u8" where
  "point_coordinate_byte point x_coordinate index =
     (if pt_infinity point then 0 else (if x_coordinate then pt_x point else pt_y point) ! index)"

definition u256_mask_from_byte :: "u8 \<Rightarrow> u32" where
  "u256_mask_from_byte msk = 0 - ucast (drop_bit 7 msk AND 1)"

definition select_u256 :: "u8 \<Rightarrow> u256 \<Rightarrow> u256 \<Rightarrow> u256" where
  "select_u256 msk if_set if_clear =
     (let word_mask = u256_mask_from_byte msk
      in map (\<lambda>i. (if_set ! i AND word_mask) OR (if_clear ! i AND NOT word_mask)) [0..<8])"

definition select_jacobian :: "u8 \<Rightarrow> u256 jacobian_point \<Rightarrow> u256 jacobian_point \<Rightarrow> u256 jacobian_point" where
  "select_jacobian msk if_set if_clear =
     (let infinity_mask = constant_time_select msk (constant_time_bool_mask (jp_infinity if_set))
            (constant_time_bool_mask (jp_infinity if_clear))
      in \<lparr>jp_x = select_u256 msk (jp_x if_set) (jp_x if_clear),
          jp_y = select_u256 msk (jp_y if_set) (jp_y if_clear),
          jp_z = select_u256 msk (jp_z if_set) (jp_z if_clear),
          jp_infinity = (infinity_mask \<noteq> 0)\<rparr>)"

section \<open>Points\<close>

definition p256_fixed_point_from_coordinates :: "bytes \<Rightarrow> bytes \<Rightarrow> p256_point result" where
  "p256_fixed_point_from_coordinates x y =
     (let point = \<lparr>pt_x = x, pt_y = y, pt_infinity = False\<rparr>
      in rbind (require_affine_on_curve point) (\<lambda>affine. Inr point))"

definition p256_fixed_is_on_curve :: "p256_point \<Rightarrow> bool result" where
  "p256_fixed_is_on_curve point = rbind (load_affine point) (\<lambda>affine. Inr (fixed_is_on_curve_affine affine))"

definition p256_fixed_point_add :: "p256_point \<Rightarrow> p256_point \<Rightarrow> p256_point result" where
  "p256_fixed_point_add lhs rhs =
     (if pt_infinity lhs then
        (if pt_infinity rhs then Inr p256_point_at_infinity
         else p256_fixed_point_from_coordinates (pt_x rhs) (pt_y rhs))
      else if pt_infinity rhs then p256_fixed_point_from_coordinates (pt_x lhs) (pt_y lhs)
      else
        rbind (require_affine_on_curve lhs) (\<lambda>left.
        rbind (require_affine_on_curve rhs) (\<lambda>right.
          if u256_compare (fa_x left) (fa_x right) = 0 then
            (if u256_is_zero (field_add (fa_y left) (fa_y right)) then Inr p256_point_at_infinity
             else fixed_point_double_affine left)
          else
            let numerator = field_subtract (fa_y right) (fa_y left);
                denominator = field_subtract (fa_x right) (fa_x left);
                slope = field_multiply numerator (field_inverse denominator);
                x3 = field_subtract (field_subtract (field_multiply slope slope) (fa_x left)) (fa_x right);
                y3 = field_subtract (field_multiply slope (field_subtract (fa_x left) x3)) (fa_y left)
            in make_point x3 y3)))"

section \<open>Multiplication by a scalar\<close>

definition branch_free_step :: "fixed_affine \<Rightarrow> u8 \<Rightarrow> u256 jacobian_point \<Rightarrow> nat \<Rightarrow> u256 jacobian_point result" where
  "branch_free_step addend byte result bit_index =
     rbind (fixed_jacobian_double result) (\<lambda>doubled.
     rbind (fixed_jacobian_add_affine doubled addend) (\<lambda>added.
       let msk = ucast (0 - ucast (ucast (drop_bit bit_index byte AND 0x01) :: u8) :: u32)
       in Inr (select_jacobian msk added doubled)))"

definition p256_fixed_scalar_multiply_branch_free :: "bytes \<Rightarrow> p256_point \<Rightarrow> p256_point result" where
  "p256_fixed_scalar_multiply_branch_free scalar point =
     (if pt_infinity point then Inr p256_point_at_infinity
      else
        rbind (require_affine_on_curve point) (\<lambda>addend.
        rbind fixed_jacobian_infinity (\<lambda>start.
        rbind (rfold (\<lambda>result byte. rfold (branch_free_step addend byte) result (rev [0..<8])) start scalar) (\<lambda>result.
          fixed_jacobian_to_affine result))))"

definition p256_fixed_scalar_multiply :: "bytes \<Rightarrow> p256_point \<Rightarrow> p256_point result" where
  "p256_fixed_scalar_multiply scalar point = p256_fixed_scalar_multiply_branch_free scalar point"

text \<open>The table of the multiples 0 to 15 of the base point; what cannot be computed stays empty.\<close>

fun fill_window_table :: "nat list \<Rightarrow> p256_point list \<Rightarrow> p256_point list" where
  "fill_window_table [] output = output"
| "fill_window_table (i # is) output =
     (case p256_fixed_point_add (output ! (i - 1)) (output ! 1) of
        Inl e \<Rightarrow> output
      | Inr next_point \<Rightarrow> fill_window_table is (output[i := next_point]))"

definition base_point_window_table :: "p256_point list" where
  "base_point_window_table =
     (let output = (replicate 16 \<lparr>pt_x = [], pt_y = [], pt_infinity = False\<rparr>)[0 := p256_point_at_infinity]
      in case make_point gx_value gy_value of
           Inl e \<Rightarrow> output
         | Inr base \<Rightarrow> fill_window_table [2..<16] (output[1 := base]))"

definition select_window_step :: "u8 \<Rightarrow> bytes \<times> bytes \<times> u8 \<Rightarrow> nat \<Rightarrow> bytes \<times> bytes \<times> u8" where
  "select_window_step selected_nibble s i =
     (case s of (x, y, infinity) \<Rightarrow>
        let entry = base_point_window_table ! i;
            msk = constant_time_is_zero (selected_nibble XOR word_of_nat i);
            infinity = constant_time_select msk (constant_time_bool_mask (pt_infinity entry)) infinity;
            x = map (\<lambda>j. constant_time_select msk (point_coordinate_byte entry True j) (x ! j)) [0..<32];
            y = map (\<lambda>j. constant_time_select msk (point_coordinate_byte entry False j) (y ! j)) [0..<32]
        in (x, y, infinity))"

definition p256_fixed_base_point_select_window :: "u8 \<Rightarrow> p256_point result" where
  "p256_fixed_base_point_select_window nibble =
     (let selected_nibble = nibble AND 0x0F;
          (x, y, infinity) = foldl (select_window_step selected_nibble) (replicate 32 0, replicate 32 0, 0)
            [0..<length base_point_window_table]
      in if infinity \<noteq> 0 then Inr p256_point_at_infinity
         else Inr \<lparr>pt_x = x, pt_y = y, pt_infinity = False\<rparr>)"

definition window_step :: "u256 jacobian_point \<Rightarrow> u8 \<Rightarrow> u256 jacobian_point result" where
  "window_step result nibble =
     rbind (rfold (\<lambda>result i. fixed_jacobian_double result) result [0..<4]) (\<lambda>result.
     rbind (p256_fixed_base_point_select_window nibble) (\<lambda>selected.
     rbind (load_affine selected) (\<lambda>affine.
       fixed_jacobian_add_affine result affine)))"

definition p256_fixed_base_point_multiply_windowed :: "bytes \<Rightarrow> p256_point result" where
  "p256_fixed_base_point_multiply_windowed scalar =
     rbind fixed_jacobian_infinity (\<lambda>start.
     rbind (rfold (\<lambda>result byte. rfold window_step result [drop_bit 4 byte AND 0x0F, byte AND 0x0F]) start scalar)
       (\<lambda>result. fixed_jacobian_to_affine result))"

definition p256_fixed_base_point_multiply :: "bytes \<Rightarrow> p256_point result" where
  "p256_fixed_base_point_multiply scalar = p256_fixed_base_point_multiply_windowed scalar"

definition p256_fixed_x_mod_order :: "p256_point \<Rightarrow> bytes result" where
  "p256_fixed_x_mod_order point =
     rbind (require_affine_on_curve point) (\<lambda>affine.
       Inr (to_be_bytes_minimal (scalar_reduce (fa_x affine))))"

section \<open>The formulas on field elements\<close>

definition fixed_of :: "ec_point \<Rightarrow> fixed_affine" where
  "fixed_of P = (case P of None \<Rightarrow> \<lparr>fa_x = u256_zero, fa_y = u256_zero, fa_infinity = True\<rparr>
     | Some (x, y) \<Rightarrow> \<lparr>fa_x = fw x, fa_y = fw y, fa_infinity = False\<rparr>)"

lemma fixed_of_simps [simp]:
  "fa_x (fixed_of (Some (x, y))) = fw x" "fa_y (fixed_of (Some (x, y))) = fw y"
  "fa_infinity (fixed_of P) \<longleftrightarrow> P = None" "fixed_of (Some (x, y)) = \<lparr>fa_x = fw x, fa_y = fw y, fa_infinity = False\<rparr>"
  by (auto simp: fixed_of_def split: option.split)

lemma to_be_bytes_fixed_fw [simp]: "to_be_bytes_fixed (fw x) = field_bytes x"
  by (simp add: to_be_bytes_fixed_def field_bytes_def)

lemma make_point_fw [simp]: "make_point (fw x) (fw y) = Inr (p256_encode (Some (x, y)))"
  by (simp add: make_point_def)

lemma infinity_jac: "fixed_jacobian_infinity = Inr (map_jac fw jac_infinity)"
  by (simp add: fixed_jacobian_infinity_def map_jac_def jac_infinity_def fw_constants)

lemma fixed_double_jac:
  assumes "jac_ok P"
  shows "fixed_jacobian_double (map_jac fw P) = Inr (map_jac fw (jac_double P))"
proof (cases "jp_infinity P \<or> jp_y P = 0")
  case True
  then show ?thesis by (simp add: fixed_jacobian_double_def jac_double_def infinity_jac Let_def)
next
  case False
  then have z: "jp_y P * jp_z P \<noteq> 0" using assms by (auto simp: jac_ok_def)
  show ?thesis
    unfolding fixed_jacobian_double_def jac_double_def Let_def fw_constants map_jac_simps fw_field fw_is_zero double_shortcuts
    using False z by (simp add: map_jac_def del: mult_minus_left)
qed

lemma fixed_add_jac:
  assumes "jac_ok P"
  shows "fixed_jacobian_add_affine (map_jac fw P) (fixed_of (Some Q)) = Inr (map_jac fw (jac_add P Q))"
proof -
  obtain x2 y2 where Q: "Q = (x2, y2)" by fastforce
  show ?thesis
  proof (cases "jp_infinity P")
    case True
    then show ?thesis
      by (simp add: Q fixed_jacobian_add_affine_def fixed_affine_to_jacobian_def jac_add_def map_jac_def fw_constants)
  next
    case False
    then have z: "jp_z P \<noteq> 0" using assms by (auto simp: jac_ok_def)
    show ?thesis
      unfolding Q fixed_jacobian_add_affine_def jac_add_def Let_def fw_constants map_jac_simps fixed_of_simps
        fixed_affine.select_convs fw_field fw_is_zero add_shortcut prod.case
      using False z fixed_double_jac [OF assms] by (simp add: map_jac_def infinity_jac [unfolded map_jac_def])
  qed
qed

lemma fixed_to_affine_jac: "fixed_jacobian_to_affine (map_jac fw P) = Inr (p256_encode (jac_point P))"
  by (simp add: fixed_jacobian_to_affine_def jac_point_def del: p256_encode.simps(2))

section \<open>Which points are accepted\<close>

lemma coordinate_from_be_eq:
  "coordinate_from_be bs =
    (if length bs \<noteq> 32 then Inl (p256_fixed_error Invalid_argument ''P-256 coordinates must be 32 bytes'')
     else if p256_p \<le> be_val bs then Inl (p256_fixed_error Invalid_key ''P-256 coordinate exceeds field'')
     else Inr (fw (gf_of (be_val bs))))"
proof (cases "length bs = 32")
  case True
  define d where "d = dropWhile (\<lambda>b. b = 0) bs"
  define v where "v = limbs_from_le_bytes 8 (rev d)"
  have d: "length d \<le> 32" using length_dropWhile_le [of "\<lambda>b. b = 0" bs] True by (simp add: d_def)
  then have v: "u256_ok v" "u256_val v = be_val bs"
    by (simp_all add: v_def u256_ok_def u256_val_def limbs_from_le_bytes_value le_val_rev d_def)
  have "u256_from_be bs = Inr v" using d by (simp add: u256_from_be_def v_def d_def Let_def)
  moreover have "u256_compare v p_value \<ge> 0 \<longleftrightarrow> p256_p \<le> be_val bs" using v by (simp add: u256_compare_val)
  ultimately show ?thesis
    using True fw_unique [OF v(1)] v(2) by (auto simp: coordinate_from_be_def not_le)
qed (simp add: coordinate_from_be_def)

lemma coordinate_ok: "p256_coordinate bs \<Longrightarrow> coordinate_from_be bs = Inr (fw (gf_of (be_val bs)))"
  by (simp add: coordinate_from_be_eq p256_coordinate_def)

lemma coordinate_bad: "\<not> p256_coordinate bs \<Longrightarrow> \<exists>e. coordinate_from_be bs = Inl e"
  by (auto simp: coordinate_from_be_eq p256_coordinate_def)

lemma on_curve_fixed: "fixed_is_on_curve_affine (fixed_of P) \<longleftrightarrow> P \<noteq> None \<and> on_curve P"
proof (cases P)
  case (Some Q)
  then show ?thesis
    by (cases Q) (simp add: fixed_is_on_curve_affine_def Let_def fw_constants mult.assoc del: mult_minus_left mult_minus1)
qed (simp add: fixed_is_on_curve_affine_def)

lemma load_affine_ok:
  "pt_infinity P \<or> p256_coordinate (pt_x P) \<and> p256_coordinate (pt_y P) \<Longrightarrow> load_affine P = Inr (fixed_of (p256_abs P))"
  by (auto simp: load_affine_def p256_abs_def fixed_of_def coordinate_ok)

lemma load_affine_bad:
  "\<not> pt_infinity P \<Longrightarrow> \<not> (p256_coordinate (pt_x P) \<and> p256_coordinate (pt_y P)) \<Longrightarrow> \<exists>e. load_affine P = Inl e"
  using coordinate_bad by (cases "p256_coordinate (pt_x P)") (force simp: load_affine_def coordinate_ok)+

lemma require_ok:
  assumes "p256_ok P" "\<not> pt_infinity P"
  shows "require_affine_on_curve P = Inr (fixed_of (p256_abs P))"
  using assms load_affine_ok [of P] on_curve_fixed [of "p256_abs P"]
  by (auto simp: require_affine_on_curve_def p256_ok_def p256_abs_def simp del: fixed_of_simps(4))

lemma require_bad:
  assumes "\<not> p256_ok P \<or> pt_infinity P"
  shows "\<exists>e. require_affine_on_curve P = Inl e"
proof (cases "pt_infinity P \<or> p256_coordinate (pt_x P) \<and> p256_coordinate (pt_y P)")
  case True
  then show ?thesis
    using assms load_affine_ok [OF True] on_curve_fixed [of "p256_abs P"]
    by (auto simp: require_affine_on_curve_def p256_ok_def p256_abs_def simp del: fixed_of_simps(4))
next
  case False
  then show ?thesis using load_affine_bad [of P] by (auto simp: require_affine_on_curve_def)
qed

section \<open>The operations against the law of the curve\<close>

lemma fixed_from_coordinates_ok:
  "p256_ok \<lparr>pt_x = x, pt_y = y, pt_infinity = False\<rparr> \<Longrightarrow>
    p256_fixed_point_from_coordinates x y = Inr \<lparr>pt_x = x, pt_y = y, pt_infinity = False\<rparr>"
  using require_ok [of "\<lparr>pt_x = x, pt_y = y, pt_infinity = False\<rparr>"] by (simp add: p256_fixed_point_from_coordinates_def)

lemma fixed_from_coordinates_bad:
  "\<not> p256_ok \<lparr>pt_x = x, pt_y = y, pt_infinity = False\<rparr> \<Longrightarrow> \<exists>e. p256_fixed_point_from_coordinates x y = Inl e"
  using require_bad [of "\<lparr>pt_x = x, pt_y = y, pt_infinity = False\<rparr>"] by (auto simp: p256_fixed_point_from_coordinates_def)

lemma double_affine_ok: "fixed_point_double_affine (fixed_of P) = Inr (p256_encode (ec_double P))"
proof (cases P)
  case (Some Q)
  obtain x y where Q: "Q = (x, y)" by fastforce
  show ?thesis
    unfolding Some Q fixed_point_double_affine_def Let_def fw_constants fixed_of_simps fixed_affine.select_convs fw_field
      make_point_fw fw_is_zero ec_double.simps third_point_def prod.case
    by (simp only: mult_2 diff_diff_add option.distinct simp_thms if_distrib [of "\<lambda>P. Inr (p256_encode P)"] p256_encode.simps(1))
qed (simp add: fixed_point_double_affine_def)

lemma fixed_point_add_ok:
  assumes "p256_ok P" "p256_ok Q"
  shows "p256_fixed_point_add P Q = Inr (p256_encode (ec_add (p256_abs P) (p256_abs Q)))"
proof (cases "pt_infinity P \<or> pt_infinity Q")
  case True
  have a: "p256_abs R = None" if "pt_infinity R" for R using that by (simp add: p256_abs_def)
  show ?thesis
    using True assms a fixed_from_coordinates_ok [of "pt_x P" "pt_y P"] fixed_from_coordinates_ok [of "pt_x Q" "pt_y Q"]
    by (auto simp: p256_fixed_point_add_def finite_point p256_encode_abs)
next
  case False
  then obtain x1 y1 x2 y2 where abs: "p256_abs P = Some (x1, y1)" "p256_abs Q = Some (x2, y2)"
    by (simp add: p256_abs_def)
  have P: "require_affine_on_curve P = Inr (fixed_of (Some (x1, y1)))"
    and Q: "require_affine_on_curve Q = Inr (fixed_of (Some (x2, y2)))"
    using require_ok [OF assms(1)] require_ok [OF assms(2)] False abs by simp_all
  have u: "(if x1 = x2 then if y1 + y2 = 0 then None else ec_double (Some (x1, y1))
      else third_point ((y2 - y1) * inverse (x2 - x1)) (x1, y1) x2) = ec_add (p256_abs P) (p256_abs Q)"
    unfolding abs by simp
  show ?thesis
    unfolding u [symmetric] p256_fixed_point_add_def P Q rbind_simps if_not_P [OF conjunct1 [OF False [unfolded de_Morgan_disj]]]
      if_not_P [OF conjunct2 [OF False [unfolded de_Morgan_disj]]] double_affine_ok
    by (simp add: third_point_def Let_def del: ec_double.simps fixed_of_simps(4) p256_encode.simps(2))
qed

lemma fixed_point_add_bad:
  assumes "\<not> p256_ok P \<or> \<not> p256_ok Q"
  shows "\<exists>e. p256_fixed_point_add P Q = Inl e"
proof -
  have i: "\<not> pt_infinity R" if "\<not> p256_ok R" for R using that by (simp add: p256_ok_def)
  show ?thesis
    using assms i [of P] i [of Q] require_ok [of P] require_bad [of P] require_bad [of Q]
      fixed_from_coordinates_bad [of "pt_x P" "pt_y P"] fixed_from_coordinates_bad [of "pt_x Q" "pt_y Q"]
    by (cases "p256_ok P"; cases "pt_infinity P"; cases "pt_infinity Q") (auto simp: p256_fixed_point_add_def finite_point)
qed

section \<open>The loop without branches\<close>

lemma select_u256_eq: "length x = 8 \<Longrightarrow> length y = 8 \<Longrightarrow> select_u256 msk x y = (if bit msk 7 then x else y)"
proof -
  have m: "u256_mask_from_byte msk = (if bit msk 7 then - 1 else 0)"
    using drop_bit_7_u8 [of msk, where 'a = 8] by (simp add: u256_mask_from_byte_def)
  assume "length x = 8" "length y = 8"
  then show ?thesis using map_nth [of x] map_nth [of y] by (simp add: select_u256_def m)
qed

lemma select_jacobian_eq:
  "select_jacobian msk (map_jac fw P) (map_jac fw Q) = map_jac fw (if bit msk 7 then P else Q)"
proof -
  have "length (fw x) = 8" for x using fw_ok [of x] by (simp add: u256_ok_def)
  then show ?thesis by (simp add: select_jacobian_def select_u256_eq map_jac_def select_eq)
qed

lemma step_mask: "bit (ucast (0 - ucast (ucast (drop_bit i byte AND 0x01) :: u8) :: u32) :: u8) 7 \<longleftrightarrow> bit (byte :: u8) i"
proof -
  have "drop_bit i byte AND 1 = (of_bool (bit byte i) :: u8)"
    by (rule bit_word_eqI) (auto simp: bit_simps bit_1_iff)
  then show ?thesis by simp
qed

lemma branch_free_jac:
  assumes "jac_ok P"
  shows "branch_free_step (fixed_of (Some Q)) byte (map_jac fw P) i = Inr (map_jac fw (jac_bits_step Q P (bit byte i)))"
  unfolding branch_free_step_def fixed_double_jac [OF assms] rbind_simps fixed_add_jac [OF jac_double_correct(1) [OF assms]]
    Let_def select_jacobian_eq step_mask jac_bits_step_def by simp

lemma fixed_scalar_multiply_ok:
  assumes "p256_ok P"
  shows "p256_fixed_scalar_multiply scalar P = Inr (p256_encode (ec_mult (be_val scalar) (p256_abs P)))"
proof (cases "pt_infinity P")
  case True
  then show ?thesis by (simp add: p256_fixed_scalar_multiply_def p256_fixed_scalar_multiply_branch_free_def p256_abs_def)
next
  case False
  then obtain Q where Q: "p256_abs P = Some Q" by (simp add: p256_abs_def)
  have c: "on_curve (Some Q)" using p256_ok_on_curve [OF assms] unfolding Q .
  have loop: "rfold (\<lambda>r byte. rfold (branch_free_step (fixed_of (Some Q)) byte) r (rev [0..<8])) (map_jac fw jac_infinity) scalar
      = Inr (map_jac fw (foldl (jac_bits_step Q) jac_infinity (scalar_bits scalar)))"
    by (rule bit_loop [OF c]) (use branch_free_jac in \<open>simp add: jac_inv_def del: fixed_of_simps(4)\<close>)
  have "jac_point (foldl (jac_bits_step Q) jac_infinity (scalar_bits scalar)) = ec_mult (be_val scalar) (Some Q)"
    using jac_bits [OF c, of "scalar_bits scalar"] by (simp add: ec_bits_mult bits_val_scalar)
  then show ?thesis
    unfolding p256_fixed_scalar_multiply_def p256_fixed_scalar_multiply_branch_free_def require_ok [OF assms False]
      if_not_P [OF False] rbind_simps infinity_jac Q loop fixed_to_affine_jac by simp
qed

lemma fixed_scalar_multiply_bad: "\<not> p256_ok P \<Longrightarrow> \<exists>e. p256_fixed_scalar_multiply scalar P = Inl e"
  using require_bad [of P]
  by (auto simp: p256_fixed_scalar_multiply_def p256_fixed_scalar_multiply_branch_free_def p256_ok_def)

section \<open>Multiplication of the base point\<close>

lemma fill_window_table_correct:
  "j \<le> length out \<Longrightarrow> 2 \<le> j \<Longrightarrow> \<forall>i<j. out ! i = p256_encode (ec_repeat i ec_base) \<Longrightarrow>
    length (fill_window_table [j..<length out] out) = length out \<and>
    (\<forall>i<length out. fill_window_table [j..<length out] out ! i = p256_encode (ec_repeat i ec_base))"
proof (induction "length out - j" arbitrary: j out)
  case (Suc k)
  then have j: "j < length out" by simp
  have out: "out ! (j - 1) = p256_encode (ec_repeat (j - 1) ec_base)" "out ! 1 = p256_encode (ec_repeat 1 ec_base)"
    using Suc(4,5) by simp_all
  have "p256_fixed_point_add (out ! (j - 1)) (out ! 1) = Inr (p256_encode (ec_repeat (Suc (j - 1)) ec_base))"
    unfolding out by (subst fixed_point_add_ok) simp_all
  then have "p256_fixed_point_add (out ! (j - 1)) (out ! 1) = Inr (p256_encode (ec_repeat j ec_base))"
    using Suc(4) by simp
  then have e: "fill_window_table [j..<length out] out
      = fill_window_table [Suc j..<length out] (out[j := p256_encode (ec_repeat j ec_base)])"
    using j by (simp add: upt_rec [of j] del: upt_Suc)
  have "\<forall>i<Suc j. out[j := p256_encode (ec_repeat j ec_base)] ! i = p256_encode (ec_repeat i ec_base)"
    using Suc(5) j by (auto simp: less_Suc_eq)
  then show ?case
    using Suc(1) [of "out[j := p256_encode (ec_repeat j ec_base)]" "Suc j"] Suc(2,4) j unfolding e by simp
qed simp

lemma window_table:
  "length base_point_window_table = 16"
  "i < 16 \<Longrightarrow> base_point_window_table ! i = p256_encode (ec_repeat i ec_base)"
proof -
  define out where "out = (replicate 16 \<lparr>pt_x = [], pt_y = [], pt_infinity = False\<rparr>)
    [0 := p256_point_at_infinity, 1 := p256_encode ec_base]"
  have out: "length out = 16" by (simp add: out_def)
  have "out ! i = p256_encode (ec_repeat i ec_base)" if "i < 2" for i
    using that by (auto simp: out_def less_2_cases_iff)
  then have "length (fill_window_table [2..<length out] out) = length out \<and>
      (\<forall>i<length out. fill_window_table [2..<length out] out ! i = p256_encode (ec_repeat i ec_base))"
    using fill_window_table_correct [of 2 out] out by simp
  moreover have "base_point_window_table = fill_window_table [2..<length out] out"
    unfolding base_point_window_table_def fw_constants make_point_fw Let_def sum.case out by (simp add: out_def ec_base_def)
  ultimately show "length base_point_window_table = 16"
    "i < 16 \<Longrightarrow> base_point_window_table ! i = p256_encode (ec_repeat i ec_base)"
    using out by simp_all
qed

text \<open>Reading the entry of a nibble without an index that depends on it.\<close>

definition window_entry :: "p256_point \<Rightarrow> bytes \<times> bytes \<times> u8" where
  "window_entry P = (if pt_infinity P then (replicate 32 0, replicate 32 0, 0xff) else (pt_x P, pt_y P, 0))"

lemma select_window_step_eq:
  assumes "i < 16" "length x = 32" "length y = 32" "unat n < 16"
  shows "select_window_step n (x, y, f) i
    = (if i = unat n then window_entry (p256_encode (ec_repeat i ec_base)) else (x, y, f))"
proof -
  have "word_of_nat i = n \<longleftrightarrow> i = unat n"
    using assms(1) by (auto simp: word_unat_eq_iff unat_of_nat)
  then have n: "n XOR word_of_nat i = 0 \<longleftrightarrow> i = unat n" by (auto simp: xor_eq_0_iff)
  show ?thesis
  proof (cases "ec_repeat i ec_base")
    case None
    then show ?thesis
      using n assms map_nth [of x] map_nth [of y]
      by (cases "i = unat n")
        (simp_all add: select_window_step_def window_table window_entry_def p256_point_at_infinity_def
          point_coordinate_byte_def map_replicate_const)
  next
    case (Some Q)
    then obtain a b where "ec_repeat i ec_base = Some (a, b)" by (cases Q) simp
    then show ?thesis
      using n assms map_nth [of x] map_nth [of y] map_nth [of "field_bytes a"] map_nth [of "field_bytes b"]
      by (cases "i = unat n") (simp_all add: select_window_step_def window_table window_entry_def point_coordinate_byte_def)
  qed
qed

lemma window_entry_lengths: "length (fst (window_entry (p256_encode P))) = 32" "length (fst (snd (window_entry (p256_encode P)))) = 32"
  by (cases P rule: p256_encode.cases; simp add: window_entry_def p256_point_at_infinity_def)+

lemma select_window_loop:
  assumes "unat n < 16" "k \<le> 16"
  shows "foldl (select_window_step n) (replicate 32 0, replicate 32 0, 0) [0..<k]
    = (if unat n < k then window_entry (p256_encode (ec_repeat (unat n) ec_base)) else (replicate 32 0, replicate 32 0, 0))"
  using assms(2)
proof (induction k)
  case (Suc k)
  obtain x y f where s: "foldl (select_window_step n) (replicate 32 0, replicate 32 0, 0) [0..<k] = (x, y, f)"
    by (cases "foldl (select_window_step n) (replicate 32 0, replicate 32 0, 0) [0..<k]") auto
  have v: "(x, y, f) = (if unat n < k then window_entry (p256_encode (ec_repeat (unat n) ec_base)) else (replicate 32 0, replicate 32 0, 0))"
    using Suc s by simp
  then have "length x = 32" "length y = 32"
    using window_entry_lengths [of "ec_repeat (unat n) ec_base"] by (auto split: if_splits simp: prod_eq_iff)
  then show ?case
    using select_window_step_eq [of k x y n f] Suc(2) assms(1) v s by auto
qed simp

lemma select_window_eq:
  "p256_fixed_base_point_select_window nibble = Inr (p256_encode (ec_repeat (unat nibble mod 16) ec_base))"
proof -
  have n: "unat (nibble AND 0x0F) = unat nibble mod 16"
    using unat_take_bit_mod [of 4 nibble] by (simp add: take_bit_eq_mask mask_eq_exp_minus_1)
  then show ?thesis
    using select_window_loop [of "nibble AND 0x0F" 16]
    by (cases "ec_repeat (unat nibble mod 16) ec_base" rule: p256_encode.cases)
      (simp_all add: p256_fixed_base_point_select_window_def window_table window_entry_def p256_point_at_infinity_def)
qed

definition ec_window :: "ec_point \<Rightarrow> ec_point \<Rightarrow> nat \<Rightarrow> ec_point" where
  "ec_window P R k = ec_add (ec_double (ec_double (ec_double (ec_double R)))) (ec_repeat k P)"

definition ec_windows :: "ec_point \<Rightarrow> bytes \<Rightarrow> ec_point" where
  "ec_windows P scalar = foldl (\<lambda>R b. ec_window P (ec_window P R (unat b div 16)) (unat b mod 16)) None scalar"

definition jac_add_point :: "gf jacobian_point \<Rightarrow> ec_point \<Rightarrow> gf jacobian_point" where
  "jac_add_point P Q = (case Q of None \<Rightarrow> P | Some Q \<Rightarrow> jac_add P Q)"

definition jac_window :: "gf jacobian_point \<Rightarrow> nat \<Rightarrow> gf jacobian_point" where
  "jac_window P k = jac_add_point (jac_double (jac_double (jac_double (jac_double P)))) (ec_repeat k ec_base)"

lemma jac_add_point_correct:
  assumes "jac_inv P" "on_curve Q"
  shows "jac_inv (jac_add_point P Q)" "jac_point (jac_add_point P Q) = ec_add (jac_point P) Q"
    "fixed_jacobian_add_affine (map_jac fw P) (fixed_of Q) = Inr (map_jac fw (jac_add_point P Q))"
proof -
  have "jac_inv (jac_add_point P Q) \<and> jac_point (jac_add_point P Q) = ec_add (jac_point P) Q \<and>
      fixed_jacobian_add_affine (map_jac fw P) (fixed_of Q) = Inr (map_jac fw (jac_add_point P Q))"
  proof (cases Q)
    case None
    then show ?thesis using assms by (simp add: jac_add_point_def fixed_jacobian_add_affine_def)
  next
    case (Some R)
    then show ?thesis
      using jac_add_inv [of P R] jac_add_correct [of P R] fixed_add_jac [of P R] assms
      by (simp add: jac_add_point_def jac_inv_def del: on_curve.simps(2) fixed_of_simps(4))
  qed
  then show "jac_inv (jac_add_point P Q)" "jac_point (jac_add_point P Q) = ec_add (jac_point P) Q"
    "fixed_jacobian_add_affine (map_jac fw P) (fixed_of Q) = Inr (map_jac fw (jac_add_point P Q))" by simp_all
qed

lemma window_step_jac:
  assumes "jac_inv P"
  shows "window_step (map_jac fw P) nibble = Inr (map_jac fw (jac_window P (unat nibble mod 16)))"
    "jac_inv (jac_window P k)" "jac_point (jac_window P k) = ec_window ec_base (jac_point P) k"
proof -
  define D where "D = jac_double (jac_double (jac_double (jac_double P)))"
  have D: "jac_inv D" using assms by (simp add: D_def jac_double_inv)
  have d: "fixed_jacobian_double (map_jac fw J) = Inr (map_jac fw (jac_double J))" if "jac_inv J" for J
    using fixed_double_jac that by (simp add: jac_inv_def)
  have "rfold (\<lambda>result i. fixed_jacobian_double result) (map_jac fw P) [0..<4] = Inr (map_jac fw D)"
    using assms by (simp add: upt_rec d jac_double_inv D_def)
  moreover have "load_affine (p256_encode Q) = Inr (fixed_of Q)" for Q
    using load_affine_ok [of "p256_encode Q"]
    by (cases Q rule: p256_encode.cases) (simp_all add: p256_point_at_infinity_def p256_abs_def)
  ultimately show "window_step (map_jac fw P) nibble = Inr (map_jac fw (jac_window P (unat nibble mod 16)))"
    using jac_add_point_correct(3) [OF D] by (simp add: window_step_def select_window_eq jac_window_def D_def)
  have p: "jac_point D = ec_double (ec_double (ec_double (ec_double (jac_point P))))"
    using assms jac_double_inv jac_double_correct(2) by (simp add: D_def jac_inv_def)
  show "jac_inv (jac_window P k)" "jac_point (jac_window P k) = ec_window ec_base (jac_point P) k"
    using jac_add_point_correct(1,2) [OF D, of "ec_repeat k ec_base"] p by (simp_all add: jac_window_def D_def ec_window_def)
qed

lemma base_point_multiply_windows:
  "p256_fixed_base_point_multiply scalar = Inr (p256_encode (ec_windows ec_base scalar))"
proof -
  define g where "g = (\<lambda>P (b::u8). jac_window (jac_window P (unat b div 16)) (unat b mod 16))"
  have hi: "unat (drop_bit 4 b AND 0x0F) mod 16 = unat b div 16" for b :: u8
  proof -
    have "unat b < 16 * 16" using unsigned_less [of b] by simp
    then have "unat b div 16 mod 16 = unat b div 16" using less_mult_imp_div_less mod_less by blast
    then show ?thesis
      using unat_take_bit_mod [of 4 "drop_bit 4 b"] by (simp add: take_bit_eq_mask mask_eq_exp_minus_1 unat_drop_bit_div)
  qed
  have lo: "unat (b AND 0x0F) mod 16 = unat b mod 16" for b :: u8
    using unat_take_bit_mod [of 4 b] by (simp add: take_bit_eq_mask mask_eq_exp_minus_1)
  have step: "rfold window_step (map_jac fw P) [drop_bit 4 b AND 0x0F, b AND 0x0F] = Inr (map_jac fw (g P b)) \<and> jac_inv (g P b)"
    if "jac_inv P" for P b
    using window_step_jac(2) [OF window_step_jac(2) [OF that]]
    unfolding rfold.simps window_step_jac(1) [OF that] rbind_simps window_step_jac(1) [OF window_step_jac(2) [OF that]] hi g_def
    unfolding lo by blast
  have i: "jac_inv jac_infinity" by (simp add: jac_inv_def)
  have "rfold (\<lambda>result byte. rfold window_step result [drop_bit 4 byte AND 0x0F, byte AND 0x0F]) (map_jac fw jac_infinity) scalar
      = Inr (map_jac fw (foldl g jac_infinity scalar)) \<and> jac_inv (foldl g jac_infinity scalar)"
    by (rule rfold_refines [where I = jac_inv]) (use step i in auto)
  moreover have "jac_inv (foldl g jac_infinity scalar) \<and> jac_point (foldl g jac_infinity scalar) = ec_windows ec_base scalar"
  proof (induction scalar rule: rev_induct)
    case (snoc b bs)
    then show ?case by (simp add: ec_windows_def) (simp add: g_def window_step_jac)
  qed (simp add: i ec_windows_def)
  ultimately show ?thesis
    by (simp add: p256_fixed_base_point_multiply_def p256_fixed_base_point_multiply_windowed_def infinity_jac fixed_to_affine_jac)
qed

text \<open>The windows add up to the scalar.\<close>

lemma ec_window_repeat: "on_curve P \<Longrightarrow> ec_window P (ec_repeat m P) k = ec_repeat (16 * m + k) P"
  by (simp add: ec_window_def ec_repeat_double ec_repeat_add)

lemma ec_windows_mult:
  assumes "on_curve P"
  shows "ec_windows P scalar = ec_mult (be_val scalar) P"
proof -
  have "ec_windows P scalar = ec_repeat (be_val scalar) P"
  proof (induction scalar rule: rev_induct)
    case (snoc b bs)
    have "16 * (16 * be_val bs + unat b div 16) + unat b mod 16 = be_val (bs @ [b])" by simp
    then show ?case using snoc by (simp add: ec_windows_def ec_window_repeat [OF assms] add.commute)
  qed (simp add: ec_windows_def)
  then show ?thesis by (simp add: ec_mult_repeat [OF assms])
qed

lemma fixed_base_multiply_ok:
  "p256_fixed_base_point_multiply scalar = Inr (p256_encode (ec_mult (be_val scalar) ec_base))"
  by (simp add: base_point_multiply_windows ec_windows_mult)

section \<open>Coordinates and scalars\<close>

lemma scalar_from_be_eq:
  assumes "length (dropWhile (\<lambda>b. b = 0) scalar) \<le> 32"
  shows "\<exists>v. scalar_from_be_reduced scalar = Inr v \<and> u256_ok v \<and> u256_val v = be_val scalar mod p256_n"
proof -
  define d where "d = dropWhile (\<lambda>b. b = 0) scalar"
  define v where "v = limbs_from_le_bytes 8 (rev d)"
  have v: "u256_ok v" "u256_val v = be_val scalar"
    using assms by (simp_all add: v_def u256_ok_def u256_val_def limbs_from_le_bytes_value le_val_rev d_def)
  have "u256_from_be scalar = Inr v" using assms by (simp add: u256_from_be_def v_def d_def Let_def)
  then show ?thesis
    using reduce_256_value [OF v(1), of n_value] v(2) by (simp add: scalar_from_be_reduced_def scalar_reduce_def)
qed

lemma short_scalar: "length scalar \<le> 32 \<Longrightarrow> length (dropWhile (\<lambda>b. b = 0) scalar) \<le> 32"
  using length_dropWhile_le [of "\<lambda>b. b = 0" scalar] by linarith

definition minimal_bytes :: "nat \<Rightarrow> bytes \<Rightarrow> bool" where
  "minimal_bytes v bs \<longleftrightarrow> be_val bs = v \<and> (if v = 0 then bs = [0] else bs \<noteq> [] \<and> hd bs \<noteq> 0)"

lemma to_be_bytes_minimal_ok: "u256_ok v \<Longrightarrow> minimal_bytes (u256_val v) (to_be_bytes_minimal v)"
proof -
  assume v: "u256_ok v"
  have e: "be_val (limbs_to_be_bytes v) = u256_val v" by (simp add: limbs_to_be_bytes_value u256_val_def)
  show ?thesis
  proof (cases "u256_val v = 0")
    case False
    define d where "d = dropWhile (\<lambda>b. b = 0) (limbs_to_be_bytes v)"
    have "be_val d = u256_val v" by (simp add: d_def e)
    then have "d \<noteq> []" using False by auto
    then have "hd d \<noteq> 0" unfolding d_def by (rule hd_dropWhile)
    then show ?thesis
      using False \<open>d \<noteq> []\<close> \<open>be_val d = u256_val v\<close> by (simp add: minimal_bytes_def to_be_bytes_minimal_def u256_is_zero_iff d_def)
  qed (simp add: minimal_bytes_def to_be_bytes_minimal_def u256_is_zero_iff be_val_Cons)
qed

lemma minimal_bytes_unique: "minimal_bytes v bs \<Longrightarrow> minimal_bytes v cs \<Longrightarrow> bs = cs"
proof (cases "v = 0")
  case False
  assume "minimal_bytes v bs" "minimal_bytes v cs"
  then show ?thesis using False by (intro minimal_unique) (auto simp: minimal_bytes_def)
qed (simp add: minimal_bytes_def)

end
