(* ===== verification/P256_Big.thy ===== *)
theory P256_Big
  imports P256_Curve Big_Int
begin

text \<open>
  src/p256.cpp: the curve on numbers of arbitrary length (BigInt), where every field operation may
  fail and each failure is returned. On points of the curve no operation fails, and the results are
  those of the law of P256_Curve.
\<close>

section \<open>Constants and the field\<close>

definition p_bytes :: bytes where
  "p_bytes = [0xFF, 0xFF, 0xFF, 0xFF, 0x00, 0x00, 0x00, 0x01, 0x00, 0x00, 0x00, 0x00, 0x00, 0x00, 0x00, 0x00,
    0x00, 0x00, 0x00, 0x00, 0xFF, 0xFF, 0xFF, 0xFF, 0xFF, 0xFF, 0xFF, 0xFF, 0xFF, 0xFF, 0xFF, 0xFF]"

definition a_bytes :: bytes where
  "a_bytes = [0xFF, 0xFF, 0xFF, 0xFF, 0x00, 0x00, 0x00, 0x01, 0x00, 0x00, 0x00, 0x00, 0x00, 0x00, 0x00, 0x00,
    0x00, 0x00, 0x00, 0x00, 0xFF, 0xFF, 0xFF, 0xFF, 0xFF, 0xFF, 0xFF, 0xFF, 0xFF, 0xFF, 0xFF, 0xFC]"

definition b_bytes :: bytes where
  "b_bytes = [0x5A, 0xC6, 0x35, 0xD8, 0xAA, 0x3A, 0x93, 0xE7, 0xB3, 0xEB, 0xBD, 0x55, 0x76, 0x98, 0x86, 0xBC,
    0x65, 0x1D, 0x06, 0xB0, 0xCC, 0x53, 0xB0, 0xF6, 0x3B, 0xCE, 0x3C, 0x3E, 0x27, 0xD2, 0x60, 0x4B]"

definition gx_bytes :: bytes where
  "gx_bytes = [0x6B, 0x17, 0xD1, 0xF2, 0xE1, 0x2C, 0x42, 0x47, 0xF8, 0xBC, 0xE6, 0xE5, 0x63, 0xA4, 0x40, 0xF2,
    0x77, 0x03, 0x7D, 0x81, 0x2D, 0xEB, 0x33, 0xA0, 0xF4, 0xA1, 0x39, 0x45, 0xD8, 0x98, 0xC2, 0x96]"

definition gy_bytes :: bytes where
  "gy_bytes = [0x4F, 0xE3, 0x42, 0xE2, 0xFE, 0x1A, 0x7F, 0x9B, 0x8E, 0xE7, 0xEB, 0x4A, 0x7C, 0x0F, 0x9E, 0x16,
    0x2B, 0xCE, 0x33, 0x57, 0x6B, 0x31, 0x5E, 0xCE, 0xCB, 0xB6, 0x40, 0x68, 0x37, 0xBF, 0x51, 0xF5]"

definition n_bytes :: bytes where
  "n_bytes = [0xFF, 0xFF, 0xFF, 0xFF, 0x00, 0x00, 0x00, 0x00, 0xFF, 0xFF, 0xFF, 0xFF, 0xFF, 0xFF, 0xFF, 0xFF,
    0xBC, 0xE6, 0xFA, 0xAD, 0xA7, 0x17, 0x9E, 0x84, 0xF3, 0xB9, 0xCA, 0xC2, 0xFC, 0x63, 0x25, 0x51]"

definition p_minus_two_bytes :: bytes where
  "p_minus_two_bytes = [0xFF, 0xFF, 0xFF, 0xFF, 0x00, 0x00, 0x00, 0x01, 0x00, 0x00, 0x00, 0x00, 0x00, 0x00, 0x00, 0x00,
    0x00, 0x00, 0x00, 0x00, 0xFF, 0xFF, 0xFF, 0xFF, 0xFF, 0xFF, 0xFF, 0xFF, 0xFF, 0xFF, 0xFF, 0xFD]"

definition n_minus_two_bytes :: bytes where
  "n_minus_two_bytes = [0xFF, 0xFF, 0xFF, 0xFF, 0x00, 0x00, 0x00, 0x00, 0xFF, 0xFF, 0xFF, 0xFF, 0xFF, 0xFF, 0xFF, 0xFF,
    0xBC, 0xE6, 0xFA, 0xAD, 0xA7, 0x17, 0x9E, 0x84, 0xF3, 0xB9, 0xCA, 0xC2, 0xFC, 0x63, 0x25, 0x4F]"

definition p256_error :: "error_code \<Rightarrow> string \<Rightarrow> crypto_error" where
  "p256_error c message = make_error c ''p256'' message"

text \<open>The small constants, by their one byte: zero_bigint to eight_bigint.\<close>

definition small_bigint :: "u8 \<Rightarrow> bigint result" where
  "small_bigint v = bi_from_be_bytes [v]"

definition field_modulus :: "bigint result" where
  "field_modulus = bi_from_be_bytes p_bytes"

definition scalar_modulus :: "bigint result" where
  "scalar_modulus = bi_from_be_bytes n_bytes"

definition big_curve_a :: "bigint result" where
  "big_curve_a = bi_from_be_bytes a_bytes"

definition big_curve_b :: "bigint result" where
  "big_curve_b = bi_from_be_bytes b_bytes"

definition field_inverse_exponent :: "bigint result" where
  "field_inverse_exponent = bi_from_be_bytes p_minus_two_bytes"

definition scalar_inverse_exponent :: "bigint result" where
  "scalar_inverse_exponent = bi_from_be_bytes n_minus_two_bytes"

definition big_reduce_mod :: "bigint \<Rightarrow> bigint \<Rightarrow> bigint result" where
  "big_reduce_mod v modulus = rbind (small_bigint 0x00) (\<lambda>zero. bi_mod_add v zero modulus)"

definition big_field_add :: "bigint \<Rightarrow> bigint \<Rightarrow> bigint result" where
  "big_field_add lhs rhs = rbind field_modulus (\<lambda>modulus. bi_mod_add lhs rhs modulus)"

definition big_field_subtract :: "bigint \<Rightarrow> bigint \<Rightarrow> bigint result" where
  "big_field_subtract lhs rhs = rbind field_modulus (\<lambda>modulus. bi_mod_subtract lhs rhs modulus)"

definition big_field_multiply :: "bigint \<Rightarrow> bigint \<Rightarrow> bigint result" where
  "big_field_multiply lhs rhs = rbind field_modulus (\<lambda>modulus. bi_mod_multiply lhs rhs modulus)"

definition big_field_inverse :: "bigint \<Rightarrow> bigint result" where
  "big_field_inverse v =
     rbind field_modulus (\<lambda>modulus. rbind field_inverse_exponent (\<lambda>exponent. bi_mod_exp v exponent modulus))"

definition big_scalar_reduce :: "bytes \<Rightarrow> bigint result" where
  "big_scalar_reduce v =
     rbind (bi_from_be_bytes v) (\<lambda>input. rbind scalar_modulus (\<lambda>modulus. big_reduce_mod input modulus))"

definition fixed_32_bytes :: "bigint \<Rightarrow> bytes result" where
  "fixed_32_bytes v =
     (let minimal = bi_to_be_bytes v in
      if length minimal > 32 then Inl (p256_error Internal_error ''field element is too large'')
      else Inr (replicate (32 - length minimal) 0 @ minimal))"

definition make_affine_point :: "bigint \<Rightarrow> bigint \<Rightarrow> p256_point result" where
  "make_affine_point x y =
     rbind (fixed_32_bytes x) (\<lambda>x_bytes.
     rbind (fixed_32_bytes y) (\<lambda>y_bytes.
       Inr \<lparr>pt_x = x_bytes, pt_y = y_bytes, pt_infinity = False\<rparr>))"

section \<open>Loading and checking points\<close>

record big_affine =
  ba_x :: bigint
  ba_y :: bigint

definition load_affine_point :: "p256_point \<Rightarrow> big_affine result" where
  "load_affine_point point =
     (if pt_infinity point then Inl (p256_error Invalid_argument ''point is at infinity'')
      else if length (pt_x point) \<noteq> 32 \<or> length (pt_y point) \<noteq> 32
      then Inl (p256_error Invalid_key ''invalid P-256 coordinate length'')
      else
        rbind field_modulus (\<lambda>modulus.
        rbind (bi_from_be_bytes (pt_x point)) (\<lambda>x.
        rbind (bi_from_be_bytes (pt_y point)) (\<lambda>y.
          if bi_compare x modulus \<ge> 0 \<or> bi_compare y modulus \<ge> 0
          then Inl (p256_error Invalid_key ''P-256 coordinate exceeds field'')
          else Inr \<lparr>ba_x = x, ba_y = y\<rparr>))))"

definition big_is_on_curve_affine :: "big_affine \<Rightarrow> bool result" where
  "big_is_on_curve_affine point =
     rbind (big_field_multiply (ba_y point) (ba_y point)) (\<lambda>y_squared.
     rbind (big_field_multiply (ba_x point) (ba_x point)) (\<lambda>x_squared.
     rbind (big_field_multiply x_squared (ba_x point)) (\<lambda>x_cubed.
     rbind big_curve_a (\<lambda>a.
     rbind (big_field_multiply a (ba_x point)) (\<lambda>ax.
     rbind big_curve_b (\<lambda>b.
     rbind (big_field_add x_cubed ax) (\<lambda>rhs_without_b.
     rbind (big_field_add rhs_without_b b) (\<lambda>rhs.
       Inr (bi_compare y_squared rhs = 0)))))))))"

definition require_on_curve_affine :: "big_affine \<Rightarrow> unit result" where
  "require_on_curve_affine point =
     rbind (big_is_on_curve_affine point) (\<lambda>on_curve.
       if \<not> on_curve then Inl (p256_error Invalid_key ''P-256 point is not on the curve'') else Inr ())"

definition big_point_double :: "big_affine \<Rightarrow> p256_point result" where
  "big_point_double point =
     (if bi_is_zero (ba_y point) then Inr p256_point_at_infinity
      else
        rbind (small_bigint 0x03) (\<lambda>three.
        rbind (small_bigint 0x02) (\<lambda>two.
        rbind (big_field_multiply (ba_x point) (ba_x point)) (\<lambda>x_squared.
        rbind (big_field_multiply three x_squared) (\<lambda>three_x_squared.
        rbind big_curve_a (\<lambda>a.
        rbind (big_field_add three_x_squared a) (\<lambda>numerator.
        rbind (big_field_multiply two (ba_y point)) (\<lambda>denominator.
        rbind (big_field_inverse denominator) (\<lambda>denominator_inverse.
        rbind (big_field_multiply numerator denominator_inverse) (\<lambda>slope.
        rbind (big_field_multiply slope slope) (\<lambda>slope_squared.
        rbind (big_field_multiply two (ba_x point)) (\<lambda>two_x.
        rbind (big_field_subtract slope_squared two_x) (\<lambda>x3.
        rbind (big_field_subtract (ba_x point) x3) (\<lambda>x_minus_x3.
        rbind (big_field_multiply slope x_minus_x3) (\<lambda>slope_times_delta.
        rbind (big_field_subtract slope_times_delta (ba_y point)) (\<lambda>y3.
          make_affine_point x3 y3))))))))))))))))"

section \<open>Jacobian coordinates\<close>

definition big_jacobian_infinity :: "bigint jacobian_point result" where
  "big_jacobian_infinity =
     rbind (small_bigint 0x00) (\<lambda>zero. Inr \<lparr>jp_x = zero, jp_y = zero, jp_z = zero, jp_infinity = True\<rparr>)"

definition big_affine_to_jacobian :: "big_affine \<Rightarrow> bigint jacobian_point result" where
  "big_affine_to_jacobian point =
     rbind (small_bigint 0x01) (\<lambda>one. Inr \<lparr>jp_x = ba_x point, jp_y = ba_y point, jp_z = one, jp_infinity = False\<rparr>)"

definition big_jacobian_double :: "bigint jacobian_point \<Rightarrow> bigint jacobian_point result" where
  "big_jacobian_double point =
     (if jp_infinity point \<or> bi_is_zero (jp_y point) then big_jacobian_infinity
      else
        rbind (small_bigint 0x02) (\<lambda>two.
        rbind (small_bigint 0x03) (\<lambda>three.
        rbind (small_bigint 0x08) (\<lambda>eight.
        rbind (big_field_multiply (jp_x point) (jp_x point)) (\<lambda>xx.
        rbind (big_field_multiply (jp_y point) (jp_y point)) (\<lambda>yy.
        rbind (big_field_multiply yy yy) (\<lambda>yyyy.
        rbind (big_field_multiply (jp_z point) (jp_z point)) (\<lambda>zz.
        rbind (big_field_add (jp_x point) yy) (\<lambda>x_plus_yy.
        rbind (big_field_multiply x_plus_yy x_plus_yy) (\<lambda>x_plus_yy_squared.
        rbind (big_field_subtract x_plus_yy_squared xx) (\<lambda>s_without_yyyy.
        rbind (big_field_subtract s_without_yyyy yyyy) (\<lambda>s_half.
        rbind (big_field_multiply two s_half) (\<lambda>s.
        rbind (big_field_multiply zz zz) (\<lambda>zz_squared.
        rbind big_curve_a (\<lambda>a.
        rbind (big_field_multiply a zz_squared) (\<lambda>a_zz_squared.
        rbind (big_field_multiply three xx) (\<lambda>three_xx.
        rbind (big_field_add three_xx a_zz_squared) (\<lambda>m.
        rbind (big_field_multiply m m) (\<lambda>m_squared.
        rbind (big_field_multiply two s) (\<lambda>two_s.
        rbind (big_field_subtract m_squared two_s) (\<lambda>x3.
        rbind (big_field_subtract s x3) (\<lambda>s_minus_x3.
        rbind (big_field_multiply m s_minus_x3) (\<lambda>m_times_delta.
        rbind (big_field_multiply eight yyyy) (\<lambda>eight_yyyy.
        rbind (big_field_subtract m_times_delta eight_yyyy) (\<lambda>y3.
        rbind (big_field_add (jp_y point) (jp_z point)) (\<lambda>y_plus_z.
        rbind (big_field_multiply y_plus_z y_plus_z) (\<lambda>y_plus_z_squared.
        rbind (big_field_subtract y_plus_z_squared yy) (\<lambda>z_without_yy.
        rbind (big_field_subtract z_without_yy zz) (\<lambda>z3.
          if bi_is_zero z3 then big_jacobian_infinity
          else Inr \<lparr>jp_x = x3, jp_y = y3, jp_z = z3, jp_infinity = False\<rparr>)))))))))))))))))))))))))))))"

definition big_jacobian_add_affine :: "bigint jacobian_point \<Rightarrow> big_affine \<Rightarrow> bigint jacobian_point result" where
  "big_jacobian_add_affine lhs rhs =
     (if jp_infinity lhs then big_affine_to_jacobian rhs
      else
        rbind (small_bigint 0x02) (\<lambda>two.
        rbind (small_bigint 0x04) (\<lambda>four.
        rbind (big_field_multiply (jp_z lhs) (jp_z lhs)) (\<lambda>z1z1.
        rbind (big_field_multiply (ba_x rhs) z1z1) (\<lambda>u2.
        rbind (big_field_multiply (jp_z lhs) z1z1) (\<lambda>z1_times_z1z1.
        rbind (big_field_multiply (ba_y rhs) z1_times_z1z1) (\<lambda>s2.
        rbind (big_field_subtract u2 (jp_x lhs)) (\<lambda>h.
        rbind (big_field_subtract s2 (jp_y lhs)) (\<lambda>s2_minus_y1.
          if bi_is_zero h
          then (if bi_is_zero s2_minus_y1 then big_jacobian_double lhs else big_jacobian_infinity)
          else
          rbind (big_field_multiply h h) (\<lambda>hh.
          rbind (big_field_multiply four hh) (\<lambda>i.
          rbind (big_field_multiply h i) (\<lambda>j.
          rbind (big_field_multiply two s2_minus_y1) (\<lambda>r.
          rbind (big_field_multiply (jp_x lhs) i) (\<lambda>v.
          rbind (big_field_multiply r r) (\<lambda>r_squared.
          rbind (big_field_subtract r_squared j) (\<lambda>r_squared_minus_j.
          rbind (big_field_multiply two v) (\<lambda>two_v.
          rbind (big_field_subtract r_squared_minus_j two_v) (\<lambda>x3.
          rbind (big_field_subtract v x3) (\<lambda>v_minus_x3.
          rbind (big_field_multiply r v_minus_x3) (\<lambda>r_times_delta.
          rbind (big_field_multiply (jp_y lhs) j) (\<lambda>y1_j.
          rbind (big_field_multiply two y1_j) (\<lambda>two_y1_j.
          rbind (big_field_subtract r_times_delta two_y1_j) (\<lambda>y3.
          rbind (big_field_add (jp_z lhs) h) (\<lambda>z1_plus_h.
          rbind (big_field_multiply z1_plus_h z1_plus_h) (\<lambda>z1_plus_h_squared.
          rbind (big_field_subtract z1_plus_h_squared z1z1) (\<lambda>z_without_z1z1.
          rbind (big_field_subtract z_without_z1z1 hh) (\<lambda>z3.
            if bi_is_zero z3 then big_jacobian_infinity
            else Inr \<lparr>jp_x = x3, jp_y = y3, jp_z = z3, jp_infinity = False\<rparr>)))))))))))))))))))))))))))"

definition big_jacobian_to_affine :: "bigint jacobian_point \<Rightarrow> p256_point result" where
  "big_jacobian_to_affine point =
     (if jp_infinity point then Inr p256_point_at_infinity
      else
        rbind (big_field_inverse (jp_z point)) (\<lambda>z_inverse.
        rbind (big_field_multiply z_inverse z_inverse) (\<lambda>z_inverse_squared.
        rbind (big_field_multiply z_inverse_squared z_inverse) (\<lambda>z_inverse_cubed.
        rbind (big_field_multiply (jp_x point) z_inverse_squared) (\<lambda>x.
        rbind (big_field_multiply (jp_y point) z_inverse_cubed) (\<lambda>y.
          make_affine_point x y))))))"

section \<open>Points\<close>

definition p256_is_on_curve :: "p256_point \<Rightarrow> bool result" where
  "p256_is_on_curve point =
     (if pt_infinity point then Inr False
      else rbind (load_affine_point point) (\<lambda>affine. big_is_on_curve_affine affine))"

definition p256_point_from_coordinates :: "bytes \<Rightarrow> bytes \<Rightarrow> p256_point result" where
  "p256_point_from_coordinates x y =
     (if length x \<noteq> 32 \<or> length y \<noteq> 32 then Inl (p256_error Invalid_argument ''P-256 coordinates must be 32 bytes'')
      else
        let point = \<lparr>pt_x = x, pt_y = y, pt_infinity = False\<rparr> in
        rbind (p256_is_on_curve point) (\<lambda>on_curve.
          if \<not> on_curve then Inl (p256_error Invalid_key ''P-256 point is not on the curve'')
          else Inr point))"

definition p256_base_point :: "p256_point result" where
  "p256_base_point = p256_point_from_coordinates gx_bytes gy_bytes"

definition p256_point_add :: "p256_point \<Rightarrow> p256_point \<Rightarrow> p256_point result" where
  "p256_point_add lhs rhs =
     (if pt_infinity lhs then
        (if pt_infinity rhs then Inr p256_point_at_infinity
         else p256_point_from_coordinates (pt_x rhs) (pt_y rhs))
      else if pt_infinity rhs then p256_point_from_coordinates (pt_x lhs) (pt_y lhs)
      else
        rbind (load_affine_point lhs) (\<lambda>left.
        rbind (load_affine_point rhs) (\<lambda>right.
        rbind (require_on_curve_affine left) (\<lambda>left_on_curve.
        rbind (require_on_curve_affine right) (\<lambda>right_on_curve.
          if bi_compare (ba_x left) (ba_x right) = 0 then
            rbind (big_field_add (ba_y left) (ba_y right)) (\<lambda>y_sum.
              if bi_is_zero y_sum then Inr p256_point_at_infinity else big_point_double left)
          else
          rbind (big_field_subtract (ba_y right) (ba_y left)) (\<lambda>numerator.
          rbind (big_field_subtract (ba_x right) (ba_x left)) (\<lambda>denominator.
          rbind (big_field_inverse denominator) (\<lambda>denominator_inverse.
          rbind (big_field_multiply numerator denominator_inverse) (\<lambda>slope.
          rbind (big_field_multiply slope slope) (\<lambda>slope_squared.
          rbind (big_field_subtract slope_squared (ba_x left)) (\<lambda>x3_without_right.
          rbind (big_field_subtract x3_without_right (ba_x right)) (\<lambda>x3.
          rbind (big_field_subtract (ba_x left) x3) (\<lambda>x_delta.
          rbind (big_field_multiply slope x_delta) (\<lambda>slope_times_delta.
          rbind (big_field_subtract slope_times_delta (ba_y left)) (\<lambda>y3.
            make_affine_point x3 y3)))))))))))))))"

section \<open>Multiplication by a scalar\<close>

definition bit_step :: "big_affine \<Rightarrow> u8 \<Rightarrow> bigint jacobian_point \<Rightarrow> nat \<Rightarrow> bigint jacobian_point result" where
  "bit_step addend byte result bit_index =
     rbind (big_jacobian_double result) (\<lambda>doubled.
       if drop_bit bit_index byte AND 0x01 \<noteq> 0 then big_jacobian_add_affine doubled addend else Inr doubled)"

definition p256_scalar_multiply :: "bytes \<Rightarrow> p256_point \<Rightarrow> p256_point result" where
  "p256_scalar_multiply scalar point =
     (if pt_infinity point then Inr p256_point_at_infinity
      else
        rbind (p256_point_from_coordinates (pt_x point) (pt_y point)) (\<lambda>canonical.
        rbind (load_affine_point canonical) (\<lambda>addend.
        rbind big_jacobian_infinity (\<lambda>start.
        rbind (rfold (\<lambda>result byte. rfold (bit_step addend byte) result (rev [0..<8])) start scalar) (\<lambda>result.
          big_jacobian_to_affine result)))))"

definition p256_base_point_multiply :: "bytes \<Rightarrow> p256_point result" where
  "p256_base_point_multiply scalar = rbind p256_base_point (\<lambda>base. p256_scalar_multiply scalar base)"

section \<open>Scalars modulo the group order\<close>

definition p256_scalar_inverse :: "bytes \<Rightarrow> bytes result" where
  "p256_scalar_inverse scalar =
     rbind (big_scalar_reduce scalar) (\<lambda>reduced.
       if bi_is_zero reduced then Inl (p256_error Invalid_argument ''scalar has no inverse'')
       else
         rbind scalar_modulus (\<lambda>modulus.
         rbind scalar_inverse_exponent (\<lambda>exponent.
         rbind (bi_mod_exp reduced exponent modulus) (\<lambda>result.
           Inr (bi_to_be_bytes result)))))"

definition p256_scalar_multiply_mod :: "bytes \<Rightarrow> bytes \<Rightarrow> bytes result" where
  "p256_scalar_multiply_mod lhs rhs =
     rbind (big_scalar_reduce lhs) (\<lambda>left.
     rbind (big_scalar_reduce rhs) (\<lambda>right.
     rbind scalar_modulus (\<lambda>modulus.
     rbind (bi_mod_multiply left right modulus) (\<lambda>product.
       Inr (bi_to_be_bytes product)))))"

definition p256_x_mod_order :: "p256_point \<Rightarrow> bytes result" where
  "p256_x_mod_order point =
     (if pt_infinity point then Inl (p256_error Invalid_key ''point at infinity has no x-coordinate'')
      else
        rbind (load_affine_point point) (\<lambda>affine.
        rbind (require_on_curve_affine affine) (\<lambda>on_curve.
        rbind scalar_modulus (\<lambda>modulus.
        rbind (big_reduce_mod (ba_x affine) modulus) (\<lambda>reduced.
          Inr (bi_to_be_bytes reduced))))))"

definition p256_group_order :: bytes where
  "p256_group_order = n_bytes"

section \<open>Field elements as numbers\<close>

definition fb :: "gf \<Rightarrow> bigint" where
  "fb x = big_int (fw x)"

lemma fb_val [simp]: "bi_val (fb x) = gf_val x"
  using fw_val [of x] by (simp add: fb_def u256_val_def)

lemma fb_eqI: "bi_val v = gf_val x \<Longrightarrow> v = fb x"
  using bi_val_inject [of v "fb x"] by simp

lemma fb_inject [simp]: "fb x = fb y \<longleftrightarrow> x = y"
  using fb_val gf_val_inject by metis

lemma fb_zero [simp]: "bi_is_zero (fb x) \<longleftrightarrow> x = 0"
  by simp

lemma from_be_Inr: "be_val bs = gf_val x \<Longrightarrow> bi_from_be_bytes bs = Inr (fb x)"
  using bi_from_be_bytes_val [of bs] by (auto intro: fb_eqI)

lemma big_constants:
  "small_bigint 0 = Inr (fb 0)" "small_bigint 1 = Inr (fb 1)" "small_bigint 2 = Inr (fb 2)" "small_bigint 3 = Inr (fb 3)"
  "small_bigint 4 = Inr (fb 4)" "small_bigint 8 = Inr (fb 8)" "big_curve_a = Inr (fb (- 3))" "big_curve_b = Inr (fb curve_b)"
proof -
  have m3: "gf_val (- 3) = p256_p - 3" by (simp add: uminus_gf_def)
  show "small_bigint 0 = Inr (fb 0)" "small_bigint 1 = Inr (fb 1)" "small_bigint 2 = Inr (fb 2)" "small_bigint 3 = Inr (fb 3)"
    "small_bigint 4 = Inr (fb 4)" "small_bigint 8 = Inr (fb 8)"
    by (simp_all add: small_bigint_def from_be_Inr be_val_Cons)
  show "big_curve_a = Inr (fb (- 3))"
    unfolding big_curve_a_def by (rule from_be_Inr) (simp add: m3 a_bytes_def be_val_Cons p256_p_def)
  show "big_curve_b = Inr (fb curve_b)"
    unfolding big_curve_b_def by (rule from_be_Inr) (simp add: curve_b_def b_bytes_def be_val_Cons p256_p_def)
qed

lemma be_val_constants:
  "be_val p_bytes = p256_p" "be_val n_bytes = p256_n" "be_val p_minus_two_bytes = p256_p - 2" "be_val n_minus_two_bytes = p256_n - 2"
  "be_val gx_bytes = gf_val base_x" "be_val gy_bytes = gf_val base_y"
  by (simp_all add: p_bytes_def n_bytes_def p_minus_two_bytes_def n_minus_two_bytes_def gx_bytes_def gy_bytes_def be_val_Cons
      p256_p_def p256_n_def base_x_def base_y_def)

lemma field_modulus_Inr: "\<exists>m. field_modulus = Inr m \<and> bi_val m = p256_p"
  using bi_from_be_bytes_val [of p_bytes] by (simp add: field_modulus_def be_val_constants)

lemma big_field [simp]:
  "big_field_add (fb x) (fb y) = Inr (fb (x + y))" "big_field_subtract (fb x) (fb y) = Inr (fb (x - y))"
  "big_field_multiply (fb x) (fb y) = Inr (fb (x * y))" "big_field_inverse (fb x) = Inr (fb (inverse x))"
proof -
  obtain m where m: "field_modulus = Inr m" "bi_val m = p256_p" using field_modulus_Inr by blast
  obtain e where e: "field_inverse_exponent = Inr e" "bi_val e = p256_p - 2"
    using bi_from_be_bytes_val [of p_minus_two_bytes] by (auto simp: field_inverse_exponent_def be_val_constants)
  have m0: "bi_val m \<noteq> 0" using m(2) p256_sizes(1) by linarith
  note ops = bi_mod_add_val [OF m0, of "fb x" "fb y"] bi_mod_multiply_val [OF m0, of "fb x" "fb y"]
    bi_mod_exp_val [OF m0, of "fb x" e] bi_mod_subtract_val [OF m0, of "fb x" "fb y"]
  show "big_field_add (fb x) (fb y) = Inr (fb (x + y))" "big_field_multiply (fb x) (fb y) = Inr (fb (x * y))"
    using ops(1,2) by (auto simp: big_field_add_def big_field_multiply_def m gf_val_add gf_val_mult intro!: fb_eqI)
  show "big_field_inverse (fb x) = Inr (fb (inverse x))"
    using ops(3) by (auto simp: big_field_inverse_def m e gf_val_inverse intro!: fb_eqI)
  obtain z where z: "bi_mod_subtract (fb x) (fb y) m = Inr z" "int (bi_val z) = (int (gf_val x) - int (gf_val y)) mod int p256_p"
    using ops(4) m(2) by auto
  have "int (gf_val x + (p256_p - gf_val y)) = (int (gf_val x) - int (gf_val y)) + int p256_p"
    using gf_val_less [of y] by linarith
  then have "int (gf_val (x - y)) = (int (gf_val x) - int (gf_val y)) mod int p256_p"
    unfolding gf_val_diff zmod_int by (simp only: mod_add_self2)
  then have "bi_val z = gf_val (x - y)" using z(2) by simp
  then show "big_field_subtract (fb x) (fb y) = Inr (fb (x - y))"
    using z(1) by (auto simp: big_field_subtract_def m intro!: fb_eqI)
qed

lemma fixed_32_fb [simp]: "fixed_32_bytes (fb x) = Inr (field_bytes x)"
proof -
  define b where "b = bi_to_be_bytes (fb x)"
  have v: "be_val b = gf_val x" by (simp add: b_def bi_to_be_bytes_val)
  have "length b \<le> 32"
  proof (cases "gf_val x = 0")
    case True
    then show ?thesis using bi_to_be_bytes_hd [of "fb x"] by (simp add: b_def)
  next
    case False
    then have "b \<noteq> []" "hd b \<noteq> 0" using v bi_to_be_bytes_hd [of "fb x"] by (auto simp: b_def)
    from be_val_lower [OF this] have "256 ^ (length b - 1) < p256_p" unfolding v using gf_val_less [of x] by (rule le_less_trans)
    also have "p256_p < 256 ^ 32" using p256_sizes(3) by simp
    finally have "length b - 1 < 32" by (rule power_less_imp_less_exp [rotated]) simp
    then show ?thesis by linarith
  qed
  moreover have "replicate (32 - length b) 0 @ b = field_bytes x"
    using be_val_inject [of "replicate (32 - length b) 0 @ b" "field_bytes x"] v calculation by (simp add: be_val_append)
  ultimately show ?thesis by (simp add: fixed_32_bytes_def b_def [symmetric])
qed

lemma make_affine_fb [simp]: "make_affine_point (fb x) (fb y) = Inr (p256_encode (Some (x, y)))"
  by (simp add: make_affine_point_def)

section \<open>The formulas on field elements\<close>

definition big_of :: "gf \<times> gf \<Rightarrow> big_affine" where
  "big_of Q = \<lparr>ba_x = fb (fst Q), ba_y = fb (snd Q)\<rparr>"

lemma big_of_simps [simp]: "ba_x (big_of Q) = fb (fst Q)" "ba_y (big_of Q) = fb (snd Q)"
  by (simp_all add: big_of_def)

lemma big_infinity_jac: "big_jacobian_infinity = Inr (map_jac fb jac_infinity)"
  by (simp add: big_jacobian_infinity_def big_constants map_jac_def jac_infinity_def)

lemma big_double_jac:
  assumes "jac_ok P"
  shows "big_jacobian_double (map_jac fb P) = Inr (map_jac fb (jac_double P))"
proof (cases "jp_infinity P \<or> jp_y P = 0")
  case True
  then show ?thesis by (simp add: big_jacobian_double_def jac_double_def big_infinity_jac Let_def)
next
  case False
  then have z: "jp_y P * jp_z P \<noteq> 0" using assms by (auto simp: jac_ok_def)
  show ?thesis
    unfolding big_jacobian_double_def jac_double_def Let_def big_constants map_jac_simps big_field rbind_simps fb_zero double_shortcuts
    using False z by (simp add: map_jac_def del: mult_minus_left)
qed

lemma big_add_jac:
  assumes "jac_ok P"
  shows "big_jacobian_add_affine (map_jac fb P) (big_of Q) = Inr (map_jac fb (jac_add P Q))"
proof (cases "jp_infinity P")
  case True
  then show ?thesis
    by (cases Q) (simp add: big_jacobian_add_affine_def big_affine_to_jacobian_def jac_add_def map_jac_def big_constants)
next
  case False
  then have z: "jp_z P \<noteq> 0" using assms by (auto simp: jac_ok_def)
  show ?thesis
    unfolding big_jacobian_add_affine_def jac_add_def Let_def big_constants map_jac_simps big_of_simps
      big_field rbind_simps fb_zero add_shortcut prod.case_eq_if
    using False z big_double_jac [OF assms] by (simp add: map_jac_def big_infinity_jac [unfolded map_jac_def])
qed

lemma big_to_affine_jac: "big_jacobian_to_affine (map_jac fb P) = Inr (p256_encode (jac_point P))"
  by (simp add: big_jacobian_to_affine_def jac_point_def del: p256_encode.simps(2))

section \<open>Which points are accepted\<close>

lemma load_point_ok:
  assumes "\<not> pt_infinity P" "p256_coordinate (pt_x P)" "p256_coordinate (pt_y P)" "p256_abs P = Some Q"
  shows "load_affine_point P = Inr (big_of Q)"
proof -
  obtain m where m: "field_modulus = Inr m" "bi_val m = p256_p" using field_modulus_Inr by blast
  have Q: "Q = (gf_of (be_val (pt_x P)), gf_of (be_val (pt_y P)))" using assms(1,4) by (simp add: p256_abs_def)
  have "bi_from_be_bytes (pt_x P) = Inr (fb (fst Q))" "bi_from_be_bytes (pt_y P) = Inr (fb (snd Q))"
    using assms(2,3) by (simp_all add: from_be_Inr Q p256_coordinate_def)
  then show ?thesis
    using assms(1,2,3) by (simp add: load_affine_point_def m p256_coordinate_def bi_compare_val big_of_def)
qed

lemma load_point_bad:
  assumes "pt_infinity P \<or> \<not> (p256_coordinate (pt_x P) \<and> p256_coordinate (pt_y P))"
  shows "\<exists>e. load_affine_point P = Inl e"
proof (cases "pt_infinity P \<or> length (pt_x P) \<noteq> 32 \<or> length (pt_y P) \<noteq> 32")
  case False
  obtain m where m: "field_modulus = Inr m" "bi_val m = p256_p" using field_modulus_Inr by blast
  obtain x where x: "bi_from_be_bytes (pt_x P) = Inr x" "bi_val x = be_val (pt_x P)" using bi_from_be_bytes_val by blast
  obtain y where y: "bi_from_be_bytes (pt_y P) = Inr y" "bi_val y = be_val (pt_y P)" using bi_from_be_bytes_val by blast
  have "p256_p \<le> bi_val x \<or> p256_p \<le> bi_val y" using False assms x y by (auto simp: p256_coordinate_def)
  then show ?thesis using False x y by (auto simp: load_affine_point_def bi_compare_val m)
qed (auto simp: load_affine_point_def)

lemma on_curve_big: "big_is_on_curve_affine (big_of Q) = Inr (on_curve (Some Q))"
proof (cases Q)
  case (Pair x y)
  have c: "bi_compare (fb x) (fb y) = 0 \<longleftrightarrow> x = y" for x y
    using gf_val_inject [of x y] by (auto simp: bi_compare_val split: if_splits)
  show ?thesis unfolding Pair big_is_on_curve_affine_def by (simp add: big_constants c)
qed

text \<open>What load_affine_point and require_on_curve_affine do together.\<close>

lemma accept_ok:
  assumes "p256_ok P" "p256_abs P = Some Q"
  shows "load_affine_point P = Inr (big_of Q)" "require_on_curve_affine (big_of Q) = Inr ()"
    "p256_is_on_curve P = Inr True" "p256_point_from_coordinates (pt_x P) (pt_y P) = Inr P" "\<not> pt_infinity P"
proof -
  have i: "\<not> pt_infinity P" using assms(2) by (simp add: p256_abs_def split: if_splits)
  then have c: "p256_coordinate (pt_x P)" "p256_coordinate (pt_y P)" "on_curve (Some Q)"
    using assms by (auto simp: p256_ok_def)
  show l: "load_affine_point P = Inr (big_of Q)" by (rule load_point_ok [OF i c(1,2) assms(2)])
  show "require_on_curve_affine (big_of Q) = Inr ()" "p256_is_on_curve P = Inr True"
    using l c(3) i by (simp_all add: require_on_curve_affine_def on_curve_big p256_is_on_curve_def)
  then show "p256_point_from_coordinates (pt_x P) (pt_y P) = Inr P" "\<not> pt_infinity P"
    using c i by (simp_all add: p256_point_from_coordinates_def Let_def finite_point p256_coordinate_def)
qed

lemma accept_bad:
  assumes "\<not> p256_ok P \<or> pt_infinity P"
  shows "(\<exists>e. load_affine_point P = Inl e) \<or> (\<exists>A e. load_affine_point P = Inr A \<and> require_on_curve_affine A = Inl e)"
proof (cases "pt_infinity P \<or> \<not> (p256_coordinate (pt_x P) \<and> p256_coordinate (pt_y P))")
  case True
  then show ?thesis using load_point_bad by blast
next
  case False
  then obtain Q where Q: "p256_abs P = Some Q" by (simp add: p256_abs_def)
  then have "\<not> on_curve (Some Q)" using assms False by (simp add: p256_ok_def)
  then show ?thesis
    using load_point_ok [of P Q] False Q on_curve_big [of Q] by (auto simp: require_on_curve_affine_def)
qed

lemma from_coordinates_bad:
  "\<not> p256_ok \<lparr>pt_x = x, pt_y = y, pt_infinity = False\<rparr> \<Longrightarrow> \<exists>e. p256_point_from_coordinates x y = Inl e"
proof -
  define P where "P = \<lparr>pt_x = x, pt_y = y, pt_infinity = False\<rparr>"
  assume "\<not> p256_ok \<lparr>pt_x = x, pt_y = y, pt_infinity = False\<rparr>"
  then have "(\<exists>e. load_affine_point P = Inl e) \<or> (\<exists>A e. load_affine_point P = Inr A \<and> require_on_curve_affine A = Inl e)"
    by (intro accept_bad) (simp add: P_def)
  then have "(\<exists>e. p256_is_on_curve P = Inl e) \<or> p256_is_on_curve P = Inr False"
    by (auto simp: p256_is_on_curve_def require_on_curve_affine_def rbind_eq_Inl P_def split: if_splits)
  then show ?thesis by (auto simp: p256_point_from_coordinates_def P_def Let_def)
qed

section \<open>The operations against the law of the curve\<close>

lemma big_double_ok: "big_point_double (big_of Q) = Inr (p256_encode (ec_double (Some Q)))"
proof (cases Q)
  case (Pair x y)
  show ?thesis
    unfolding Pair big_point_double_def big_constants big_of_simps fst_conv snd_conv big_field rbind_simps fb_zero
      make_affine_fb ec_double.simps third_point_def prod.case Let_def
    by (simp only: mult_2 diff_diff_add option.distinct simp_thms if_distrib [of "\<lambda>P. Inr (p256_encode P)"] p256_encode.simps(1))
qed

lemma abs_infinity: "p256_abs P = None \<longleftrightarrow> pt_infinity P"
  by (simp add: p256_abs_def)

lemma big_point_add_ok:
  assumes "p256_ok P" "p256_ok Q"
  shows "p256_point_add P Q = Inr (p256_encode (ec_add (p256_abs P) (p256_abs Q)))"
proof (cases "p256_abs P = None \<or> p256_abs Q = None")
  case True
  have c: "p256_point_from_coordinates (pt_x R) (pt_y R) = Inr (p256_encode (p256_abs R))" if "p256_ok R" "\<not> pt_infinity R" for R
    using accept_ok(4) [OF that(1)] p256_encode_abs [OF that] abs_infinity [of R] that(2) by fastforce
  show ?thesis
    using True assms c by (auto simp: p256_point_add_def abs_infinity) (simp_all add: p256_abs_def)
next
  case False
  then obtain x1 y1 x2 y2 where abs: "p256_abs P = Some (x1, y1)" "p256_abs Q = Some (x2, y2)" by auto
  note P = accept_ok [OF assms(1) abs(1)] and Q = accept_ok [OF assms(2) abs(2)]
  have c: "bi_compare (fb x) (fb y) = 0 \<longleftrightarrow> x = y" for x y
    using gf_val_inject [of x y] by (auto simp: bi_compare_val split: if_splits)
  have u: "(if x1 = x2 then if y1 + y2 = 0 then None else ec_double (Some (x1, y1))
      else third_point ((y2 - y1) * inverse (x2 - x1)) (x1, y1) x2) = ec_add (p256_abs P) (p256_abs Q)"
    unfolding abs by simp
  show ?thesis
    unfolding u [symmetric] p256_point_add_def if_not_P [OF P(5)] if_not_P [OF Q(5)] P(1,2) Q(1,2) rbind_simps big_double_ok
      big_of_simps fst_conv snd_conv big_field fb_zero c make_affine_fb
    by (simp add: third_point_def Let_def del: ec_double.simps p256_encode.simps(2))
qed

lemma big_point_add_bad:
  assumes "\<not> p256_ok P \<or> \<not> p256_ok Q"
  shows "\<exists>e. p256_point_add P Q = Inl e"
proof -
  have i: "\<not> pt_infinity R" if "\<not> p256_ok R" for R using that by (simp add: p256_ok_def)
  have ok: "\<exists>A. load_affine_point R = Inr A \<and> require_on_curve_affine A = Inr ()" if "p256_ok R" "\<not> pt_infinity R" for R
    using accept_ok(1,2) [OF that(1)] that(2) abs_infinity [of R] by fastforce
  show ?thesis
  proof (cases "pt_infinity P \<or> pt_infinity Q")
    case True
    then show ?thesis
      using assms i [of P] i [of Q] from_coordinates_bad [of "pt_x P" "pt_y P"] from_coordinates_bad [of "pt_x Q" "pt_y Q"]
      by (auto simp: p256_point_add_def finite_point)
  next
    case False
    then show ?thesis
      using assms accept_bad [of P] accept_bad [of Q] ok [of P] ok [of Q]
      by (cases "load_affine_point P"; cases "load_affine_point Q") (auto simp: p256_point_add_def rbind_eq_Inl)
  qed
qed

lemma bit_step_jac:
  assumes "jac_ok P"
  shows "bit_step (big_of Q) byte (map_jac fb P) i = Inr (map_jac fb (jac_bits_step Q P (bit byte i)))"
proof -
  have "drop_bit i byte AND 0x01 \<noteq> 0 \<longleftrightarrow> bit byte i"
    by (auto simp: and_one_eq bit_iff_odd_drop_bit odd_iff_mod_2_eq_one)
  then show ?thesis
    unfolding bit_step_def big_double_jac [OF assms] rbind_simps big_add_jac [OF jac_double_correct(1) [OF assms]] jac_bits_step_def
    by simp
qed

lemma big_scalar_multiply_ok:
  assumes "p256_ok P"
  shows "p256_scalar_multiply scalar P = Inr (p256_encode (ec_mult (be_val scalar) (p256_abs P)))"
proof (cases "p256_abs P")
  case None
  then show ?thesis using abs_infinity [of P] by (simp add: p256_scalar_multiply_def)
next
  case (Some Q)
  have c: "on_curve (Some Q)" using p256_ok_on_curve [OF assms] unfolding Some .
  have "rfold (\<lambda>r byte. rfold (bit_step (big_of Q) byte) r (rev [0..<8])) (map_jac fb jac_infinity) scalar
      = Inr (map_jac fb (foldl (jac_bits_step Q) jac_infinity (scalar_bits scalar)))"
    by (rule bit_loop [OF c]) (use bit_step_jac in \<open>simp add: jac_inv_def\<close>)
  then show ?thesis
    using jac_bits [OF c, of "scalar_bits scalar"] accept_ok [OF assms Some]
    by (simp add: p256_scalar_multiply_def big_infinity_jac big_to_affine_jac ec_bits_mult bits_val_scalar Some)
qed

lemma big_scalar_multiply_bad: "\<not> p256_ok P \<Longrightarrow> \<exists>e. p256_scalar_multiply scalar P = Inl e"
  using from_coordinates_bad [of "pt_x P" "pt_y P"]
  by (cases "pt_infinity P") (auto simp: p256_scalar_multiply_def finite_point p256_ok_def)

lemma big_base_ok: "p256_base_point = Inr (p256_encode ec_base)"
proof -
  have "gx_bytes = field_bytes base_x" "gy_bytes = field_bytes base_y"
    using be_val_inject [of gx_bytes "field_bytes base_x"] be_val_inject [of gy_bytes "field_bytes base_y"] be_val_constants(5,6)
    by (simp_all add: gx_bytes_def gy_bytes_def)
  moreover have "p256_ok (p256_encode ec_base)" "p256_abs (p256_encode ec_base) = Some (base_x, base_y)"
    by simp_all (simp add: ec_base_def)
  note accept_ok(4) [OF this]
  ultimately show ?thesis by (simp add: p256_base_point_def ec_base_def)
qed

lemma big_base_multiply_ok: "p256_base_point_multiply scalar = Inr (p256_encode (ec_mult (be_val scalar) ec_base))"
  by (simp add: p256_base_point_multiply_def big_base_ok big_scalar_multiply_ok)

end
