(* ===== verification/P256_Contract.thy ===== *)
theory P256_Contract
  imports P256_Fixed P256_Big
begin

text \<open>
  What the rest of the program relies on when it computes with points of P-256: a locale with the
  operations and their laws, interpreted on src/p256_fixed.cpp and on src/p256.cpp. The two files
  differ only in the errors they report.
\<close>

section \<open>The contract\<close>

locale curve_operations =
  fixes from_coordinates :: "bytes \<Rightarrow> bytes \<Rightarrow> p256_point result"
    and point_add :: "p256_point \<Rightarrow> p256_point \<Rightarrow> p256_point result"
    and scalar_multiply :: "bytes \<Rightarrow> p256_point \<Rightarrow> p256_point result"
    and base_multiply :: "bytes \<Rightarrow> p256_point result"
  assumes coordinates_ok: "p256_ok \<lparr>pt_x = x, pt_y = y, pt_infinity = False\<rparr> \<Longrightarrow>
      from_coordinates x y = Inr \<lparr>pt_x = x, pt_y = y, pt_infinity = False\<rparr>"
    and coordinates_bad: "\<not> p256_ok \<lparr>pt_x = x, pt_y = y, pt_infinity = False\<rparr> \<Longrightarrow> \<exists>e. from_coordinates x y = Inl e"
    and add_ok: "p256_ok P \<Longrightarrow> p256_ok Q \<Longrightarrow> point_add P Q = Inr (p256_encode (ec_add (p256_abs P) (p256_abs Q)))"
    and add_bad: "\<not> p256_ok P \<or> \<not> p256_ok Q \<Longrightarrow> \<exists>e. point_add P Q = Inl e"
    and multiply_ok: "p256_ok P \<Longrightarrow> scalar_multiply k P = Inr (p256_encode (ec_mult (be_val k) (p256_abs P)))"
    and multiply_bad: "\<not> p256_ok P \<Longrightarrow> \<exists>e. scalar_multiply k P = Inl e"
    and base_ok: "base_multiply k = Inr (p256_encode (ec_mult (be_val k) ec_base))"
begin

lemma coordinates_iff:
  "from_coordinates x y = Inr P \<longleftrightarrow> P = \<lparr>pt_x = x, pt_y = y, pt_infinity = False\<rparr> \<and> p256_ok P"
  using coordinates_ok [of x y] coordinates_bad [of x y] by force

lemma add_iff:
  "point_add P Q = Inr R \<longleftrightarrow> p256_ok P \<and> p256_ok Q \<and> R = p256_encode (ec_add (p256_abs P) (p256_abs Q))"
  using add_ok [of P Q] add_bad [of P Q] by force

lemma multiply_iff:
  "scalar_multiply k P = Inr R \<longleftrightarrow> p256_ok P \<and> R = p256_encode (ec_repeat (be_val k) (p256_abs P))"
  using multiply_ok [of P k] multiply_bad [of P k] p256_ok_on_curve [of P] by (force simp: ec_mult_repeat)

lemma base_iff: "base_multiply k = Inr R \<longleftrightarrow> R = p256_encode (ec_repeat (be_val k) ec_base)"
  by (auto simp: base_ok ec_mult_repeat)

text \<open>What comes out can be put in again.\<close>

lemma results_ok:
  "point_add P Q = Inr R \<Longrightarrow> p256_ok R" "scalar_multiply k P = Inr R \<Longrightarrow> p256_ok R" "base_multiply k = Inr R \<Longrightarrow> p256_ok R"
  using p256_ok_on_curve by (auto simp: add_iff multiply_iff base_iff)

lemma add_associative:
  assumes "p256_ok P" "p256_ok Q" "p256_ok R"
  shows "rbind (point_add P Q) (\<lambda>S. point_add S R) = rbind (point_add Q R) (point_add P)"
  using assms p256_ok_on_curve by (simp add: add_ok ec_add_assoc)

lemma add_commutes: "p256_ok P \<Longrightarrow> p256_ok Q \<Longrightarrow> point_add P Q = point_add Q P"
  using p256_ok_on_curve by (simp add: add_ok ec_add_commute)

text \<open>The multiples of a point: sums, and two scalars in either order.\<close>

lemma multiples_add:
  assumes "p256_ok P" "be_val k = be_val i + be_val j"
  shows "rbind (scalar_multiply i P) (\<lambda>A. rbind (scalar_multiply j P) (point_add A)) = scalar_multiply k P"
  using assms p256_ok_on_curve by (simp add: add_ok multiply_ok ec_mult_add)

lemma multiples_exchange:
  assumes "p256_ok P"
  shows "rbind (scalar_multiply i P) (scalar_multiply j) = rbind (scalar_multiply j P) (scalar_multiply i)"
  using assms p256_ok_on_curve by (simp add: multiply_ok ec_mult_mult mult.commute)

lemma base_agrees: "rbind (from_coordinates (field_bytes base_x) (field_bytes base_y)) (scalar_multiply k) = base_multiply k"
proof -
  have "p256_ok (p256_encode ec_base)" by simp
  then have "from_coordinates (field_bytes base_x) (field_bytes base_y) = Inr (p256_encode ec_base)"
    using coordinates_ok [of "field_bytes base_x" "field_bytes base_y"] by (simp add: ec_base_def)
  then show ?thesis by (simp add: multiply_ok base_ok)
qed

end

text \<open>Two implementations of the contract agree on every input on which they return a point.\<close>

lemma curve_operations_agree:
  assumes "curve_operations c a m b" "curve_operations c' a' m' b'"
  shows "c x y = Inr R \<longleftrightarrow> c' x y = Inr R" "a P Q = Inr R \<longleftrightarrow> a' P Q = Inr R" "m k P = Inr R \<longleftrightarrow> m' k P = Inr R" "b k = Inr R \<longleftrightarrow> b' k = Inr R"
  using curve_operations.coordinates_iff [OF assms(1)] curve_operations.coordinates_iff [OF assms(2)]
    curve_operations.add_iff [OF assms(1)] curve_operations.add_iff [OF assms(2)]
    curve_operations.multiply_iff [OF assms(1)] curve_operations.multiply_iff [OF assms(2)]
    curve_operations.base_iff [OF assms(1)] curve_operations.base_iff [OF assms(2)] by simp_all

section \<open>The two implementations\<close>

lemma fixed_provides:
  "curve_operations p256_fixed_point_from_coordinates p256_fixed_point_add p256_fixed_scalar_multiply p256_fixed_base_point_multiply"
  by unfold_locales
    (rule fixed_from_coordinates_ok fixed_from_coordinates_bad fixed_point_add_ok fixed_point_add_bad fixed_scalar_multiply_ok
      fixed_scalar_multiply_bad fixed_base_multiply_ok; assumption)+

interpretation fixed_curve: curve_operations p256_fixed_point_from_coordinates p256_fixed_point_add
    p256_fixed_scalar_multiply p256_fixed_base_point_multiply
  by (rule fixed_provides)

lemma big_from_coordinates_ok:
  "p256_ok \<lparr>pt_x = x, pt_y = y, pt_infinity = False\<rparr> \<Longrightarrow>
    p256_point_from_coordinates x y = Inr \<lparr>pt_x = x, pt_y = y, pt_infinity = False\<rparr>"
  using accept_ok(4) [of "\<lparr>pt_x = x, pt_y = y, pt_infinity = False\<rparr>"] by (simp add: p256_abs_def)

lemma big_provides:
  "curve_operations p256_point_from_coordinates p256_point_add p256_scalar_multiply p256_base_point_multiply"
  by unfold_locales
    (rule big_from_coordinates_ok from_coordinates_bad big_point_add_ok big_point_add_bad big_scalar_multiply_ok
      big_scalar_multiply_bad big_base_multiply_ok; assumption)+

interpretation big_curve: curve_operations p256_point_from_coordinates p256_point_add p256_scalar_multiply
    p256_base_point_multiply
  by (rule big_provides)

section \<open>Scalars\<close>

lemma scalar_valid: "p256_fixed_scalar_is_valid_nonzero scalar = Inr (0 < be_val scalar \<and> be_val scalar < p256_n)"
proof -
  define d where "d = dropWhile (\<lambda>b. b = 0) scalar"
  have d: "be_val d = be_val scalar" "dropWhile (\<lambda>b. b = 0) d = d" by (simp_all add: d_def)
  show ?thesis
  proof (cases "length d \<le> 32")
    case True
    define v where "v = limbs_from_le_bytes 8 (rev d)"
    have v: "u256_ok v" "u256_val v = be_val scalar"
      using True d by (simp_all add: v_def u256_ok_def u256_val_def limbs_from_le_bytes_value le_val_rev)
    have "p256_fixed_scalar_is_valid_nonzero scalar = Inr (\<not> u256_is_zero v \<and> u256_compare v n_value < 0)"
      using True d(2) by (simp add: p256_fixed_scalar_is_valid_nonzero_def u256_from_be_def v_def d_def [symmetric])
    then show ?thesis using v by (simp add: u256_is_zero_iff u256_compare_val)
  next
    case False
    have "d \<noteq> []" using False by auto
    moreover from this have "hd d \<noteq> 0" unfolding d_def by (rule hd_dropWhile)
    ultimately have "256 ^ (length d - 1) \<le> be_val d" by (rule be_val_lower)
    moreover have "(256::nat) ^ 32 \<le> 256 ^ (length d - 1)" using False by (intro power_increasing) auto
    moreover have "p256_n < 256 ^ 32" by (simp add: p256_n_def)
    ultimately have "\<not> be_val scalar < p256_n" using d(1) by linarith
    then show ?thesis using False by (simp add: p256_fixed_scalar_is_valid_nonzero_def d_def)
  qed
qed

section \<open>Properties\<close>

text \<open>
  C5: the operations of p256_fixed.cpp compute in the group of the curve. point_add returns a point
  exactly for two points of the curve, and then it is their sum; both multiplications, the one
  without branches and the one by windows of four bits, return the sum of as many copies of the
  point as the scalar says, for scalars of any length.
\<close>

theorem p256_fixed_computes_group:
  "(p256_fixed_point_add P Q = Inr R \<longleftrightarrow>
      p256_ok P \<and> p256_ok Q \<and> R = p256_encode (ec_add (p256_abs P) (p256_abs Q))) \<and>
   (p256_fixed_scalar_multiply scalar P = Inr R \<longleftrightarrow>
      p256_ok P \<and> R = p256_encode (ec_repeat (be_val scalar) (p256_abs P))) \<and>
   (p256_fixed_base_point_multiply scalar = Inr R \<longleftrightarrow> R = p256_encode (ec_repeat (be_val scalar) ec_base))"
  using fixed_curve.add_iff fixed_curve.multiply_iff fixed_curve.base_iff by simp

text \<open>
  Addition is associative and commutative on the points of the curve, and the multiples of a
  point by two scalars can be taken in either order, which is what makes both sides of a key
  agreement arrive at one secret.
\<close>

lemma p256_fixed_group_laws:
  assumes "p256_ok P" "p256_ok Q" "p256_ok R"
  shows "rbind (p256_fixed_point_add P Q) (\<lambda>S. p256_fixed_point_add S R)
      = rbind (p256_fixed_point_add Q R) (p256_fixed_point_add P) \<and>
    p256_fixed_point_add P Q = p256_fixed_point_add Q P \<and>
    rbind (p256_fixed_base_point_multiply i) (p256_fixed_scalar_multiply j)
      = rbind (p256_fixed_base_point_multiply j) (p256_fixed_scalar_multiply i)"
  using fixed_curve.add_associative [OF assms] fixed_curve.add_commutes [OF assms(1,2)]
  by (simp add: fixed_curve.base_ok fixed_curve.multiply_ok ec_mult_mult mult.commute)

lemma p256_fixed_group_laws_witness:
  "rbind (p256_fixed_point_add (p256_encode ec_base) (p256_encode ec_base)) (\<lambda>S. p256_fixed_point_add S p256_point_at_infinity)
      = rbind (p256_fixed_point_add (p256_encode ec_base) p256_point_at_infinity) (p256_fixed_point_add (p256_encode ec_base)) \<and>
    p256_fixed_point_add (p256_encode ec_base) (p256_encode ec_base) = p256_fixed_point_add (p256_encode ec_base) (p256_encode ec_base) \<and>
    rbind (p256_fixed_base_point_multiply [2]) (p256_fixed_scalar_multiply [3])
      = rbind (p256_fixed_base_point_multiply [3]) (p256_fixed_scalar_multiply [2])"
proof -
  have base: "p256_ok (p256_encode ec_base)" by simp
  have infinity: "p256_ok p256_point_at_infinity" by (simp add: p256_ok_def p256_point_at_infinity_def)
  show ?thesis by (rule p256_fixed_group_laws [OF base base infinity])
qed

text \<open>
  C10: the two implementations of the curve are equivalent. On every input, p256.cpp and
  p256_fixed.cpp return the same point or both fail, although one computes with numbers of any
  length and branches on the bits of the scalar, and the other on words, with masks and windows.
\<close>

theorem p256_implementations_agree:
  "(p256_point_from_coordinates x y = Inr R \<longleftrightarrow> p256_fixed_point_from_coordinates x y = Inr R) \<and>
   (p256_point_add P Q = Inr R \<longleftrightarrow> p256_fixed_point_add P Q = Inr R) \<and>
   (p256_scalar_multiply scalar P = Inr R \<longleftrightarrow> p256_fixed_scalar_multiply scalar P = Inr R) \<and>
   (p256_base_point_multiply scalar = Inr R \<longleftrightarrow> p256_fixed_base_point_multiply scalar = Inr R)"
  using curve_operations_agree [OF big_provides fixed_provides] by blast

end
