(* ===== verification/Ec_Der.thy ===== *)
theory Ec_Der
  imports Der P256_Contract
begin

text \<open>
  src/ec_der.cpp: the parsers of P-256 keys and ECDSA signatures, and the writer of signatures. A
  public key is a SubjectPublicKeyInfo; a private key is a SEC 1 sequence, alone or inside a PKCS#8
  structure, which may name the curve and may hold the public key, which then has to fit. Each parser
  is shown to accept exactly the encodings of what it returns.
\<close>

section \<open>Reader\<close>

definition id_ec_public_key_oid :: bytes where
  "id_ec_public_key_oid = [0x2A, 0x86, 0x48, 0xCE, 0x3D, 0x02, 0x01]"

definition prime256v1_oid :: bytes where
  "prime256v1_oid = [0x2A, 0x86, 0x48, 0xCE, 0x3D, 0x03, 0x01, 0x07]"

definition ec_der_error :: "string \<Rightarrow> crypto_error" where
  "ec_der_error msg = make_error Invalid_key ''ec_der'' msg"

fun ec_length_loop :: "nat \<Rightarrow> u64 \<Rightarrow> u64 der_action" where
  "ec_length_loop 0 len r = (Inr len, r)"
| "ec_length_loop (Suc n) len r =
     (if len > drop_bit 8 (- 1) then (Inl (ec_der_error ''DER length is too large''), r)
      else let (b, r) = rd_next r in ec_length_loop n (push_bit 8 len OR ucast b) r)"

definition ec_read :: "u8 \<Rightarrow> bytes der_action" where
  "ec_read tag = der_read ec_der_error ec_length_loop tag"

definition der_next_tag :: "der_reader \<Rightarrow> u8" where
  "der_next_tag r = (if length (rd_data r) \<le> rd_offset r then 0 else rd_data r ! rd_offset r)"

definition ec_read_integer :: "bytes der_action" where
  "ec_read_integer = rd_bind (ec_read 0x02) (\<lambda>content. rd_return (der_integer_magnitude ec_der_error content))"

definition ec_read_octet_string :: "bytes der_action" where
  "ec_read_octet_string = ec_read 0x04"

text \<open>A reader on the content of a value, with nothing behind what it reads.\<close>

definition ec_content :: "string \<Rightarrow> 'a der_action \<Rightarrow> bytes \<Rightarrow> 'a result" where
  "ec_content trailing act data =
     (let (result, reader) = act (der_reader_new data) in
      rbind result (\<lambda>x. if \<not> der_empty reader then Inl (ec_der_error trailing) else Inr x))"

definition read_p256_algorithm_identifier :: "unit der_action" where
  "read_p256_algorithm_identifier =
     rd_bind (ec_read 0x30) (\<lambda>sequence. rd_return (ec_content ''trailing data in EC algorithm identifier''
       (rd_bind (ec_read 0x06) (\<lambda>algorithm_oid.
          if algorithm_oid \<noteq> id_ec_public_key_oid
          then rd_return (Inl (ec_der_error ''algorithm identifier is not id-ecPublicKey''))
          else rd_bind (ec_read 0x06) (\<lambda>curve_oid. rd_return (
            if curve_oid \<noteq> prime256v1_oid then Inl (ec_der_error ''EC public key curve is not prime256v1'')
            else Inr ())))) sequence))"

text \<open>A field that is read exactly when its tag is next.\<close>

definition rd_optional :: "u8 \<Rightarrow> unit der_action \<Rightarrow> unit der_action" where
  "rd_optional tag act reader = (if der_next_tag reader \<noteq> tag then (Inr (), reader) else act reader)"

definition read_optional_p256_parameters :: "unit der_action" where
  "read_optional_p256_parameters = rd_optional 0xA0
     (rd_bind (ec_read 0xA0) (\<lambda>parameters. rd_return (ec_content ''trailing data in EC private key parameters''
        (rd_bind (ec_read 0x06) (\<lambda>curve_oid. rd_return (
           if curve_oid \<noteq> prime256v1_oid then Inl (ec_der_error ''EC private key curve is not prime256v1'')
           else Inr ()))) parameters)))"

definition read_uncompressed_p256_point :: "bytes \<Rightarrow> p256_point result" where
  "read_uncompressed_p256_point point =
     (if length point \<noteq> 66 \<or> point ! 0 \<noteq> 0 \<or> point ! 1 \<noteq> 0x04
      then Inl (ec_der_error ''invalid P-256 public key point'')
      else p256_fixed_point_from_coordinates (take 32 (drop 2 point)) (take 32 (drop 34 point)))"

definition public_key_matches :: "bytes \<Rightarrow> bytes \<Rightarrow> unit result" where
  "public_key_matches private_scalar bits =
     rbind (read_uncompressed_p256_point bits) (\<lambda>point.
     rbind (p256_fixed_base_point_multiply private_scalar) (\<lambda>expected.
       if pt_infinity expected \<or> pt_x point \<noteq> pt_x expected \<or> pt_y point \<noteq> pt_y expected
       then Inl (ec_der_error ''EC private key public key does not match private scalar'')
       else Inr ()))"

definition read_optional_p256_public_key :: "bytes \<Rightarrow> unit der_action" where
  "read_optional_p256_public_key private_scalar = rd_optional 0xA1
     (rd_bind (ec_read 0xA1) (\<lambda>public_key. rd_return (ec_content ''trailing data in EC private key public key''
        (rd_bind (ec_read 0x03) (\<lambda>bits. rd_return (public_key_matches private_scalar bits))) public_key)))"

section \<open>Parsers\<close>

record ec_public_key_material =
  ec_x :: bytes
  ec_y :: bytes

record ec_private_key_material =
  ec_private_scalar :: bytes

record ecdsa_signature_material =
  sig_r :: bytes
  sig_s :: bytes

definition sec1_fields :: "bool \<Rightarrow> ec_private_key_material der_action" where
  "sec1_fields require_parameters =
     rd_bind ec_read_integer (\<lambda>version.
       if version \<noteq> [1] then rd_return (Inl (ec_der_error ''unsupported EC private key version''))
       else rd_bind ec_read_octet_string (\<lambda>scalar.
         if length scalar \<noteq> 32 then rd_return (Inl (ec_der_error ''invalid P-256 private scalar size''))
         else rd_bind (rd_return (p256_fixed_scalar_is_valid_nonzero scalar)) (\<lambda>scalar_valid.
           if \<not> scalar_valid then rd_return (Inl (ec_der_error ''invalid P-256 private scalar''))
           else (\<lambda>private_key.
             let has_parameters = der_next_tag private_key = 0xA0 in
             rd_bind read_optional_p256_parameters (\<lambda>_.
               if require_parameters \<and> \<not> has_parameters
               then rd_return (Inl (ec_der_error ''missing EC private key parameters''))
               else rd_bind (read_optional_p256_public_key scalar) (\<lambda>_.
                 rd_return (Inr \<lparr>ec_private_scalar = scalar\<rparr>))) private_key))))"

definition parse_sec1_p256_private_key :: "bytes \<Rightarrow> bool \<Rightarrow> ec_private_key_material result" where
  "parse_sec1_p256_private_key der require_parameters =
     rbind (ec_content ''trailing data after EC private key'' (ec_read 0x30) der)
       (ec_content ''trailing data in EC private key'' (sec1_fields require_parameters))"

definition parse_p256_public_key_der :: "bytes \<Rightarrow> ec_public_key_material result" where
  "parse_p256_public_key_der der =
     rbind (ec_content ''trailing data after SubjectPublicKeyInfo'' (ec_read 0x30) der)
       (ec_content ''trailing data in SubjectPublicKeyInfo''
         (rd_bind read_p256_algorithm_identifier (\<lambda>_.
          rd_bind (ec_read 0x03) (\<lambda>bits. rd_return (
            rbind (read_uncompressed_p256_point bits) (\<lambda>point. Inr \<lparr>ec_x = pt_x point, ec_y = pt_y point\<rparr>))))))"

definition parse_ecdsa_signature_der :: "bytes \<Rightarrow> ecdsa_signature_material result" where
  "parse_ecdsa_signature_der der =
     rbind (ec_content ''trailing data after ECDSA signature'' (ec_read 0x30) der)
       (ec_content ''trailing data in ECDSA signature''
         (rd_bind ec_read_integer (\<lambda>r. rd_bind ec_read_integer (\<lambda>s. rd_return (Inr \<lparr>sig_r = r, sig_s = s\<rparr>)))))"

definition parse_pkcs8_p256_private_key :: "bytes \<Rightarrow> ec_private_key_material result" where
  "parse_pkcs8_p256_private_key der =
     rbind (ec_content ''trailing data after PrivateKeyInfo'' (ec_read 0x30) der) (\<lambda>content.
     rbind (ec_content ''trailing data in PrivateKeyInfo''
         (rd_bind ec_read_integer (\<lambda>version.
            if version \<noteq> [0] then rd_return (Inl (ec_der_error ''unsupported PrivateKeyInfo version''))
            else rd_bind read_p256_algorithm_identifier (\<lambda>_. ec_read_octet_string))) content) (\<lambda>private_key.
       parse_sec1_p256_private_key private_key False))"

definition parse_p256_private_key_der :: "bytes \<Rightarrow> ec_private_key_material result" where
  "parse_p256_private_key_der der =
     (case parse_sec1_p256_private_key der True of Inr k \<Rightarrow> Inr k | Inl _ \<Rightarrow> parse_pkcs8_p256_private_key der)"

definition parse_p256_pkcs8_private_key_der :: "bytes \<Rightarrow> ec_private_key_material result" where
  "parse_p256_pkcs8_private_key_der der = parse_pkcs8_p256_private_key der"

definition parse_p256_sec1_private_key_der :: "bytes \<Rightarrow> ec_private_key_material result" where
  "parse_p256_sec1_private_key_der der = parse_sec1_p256_private_key der True"

definition encode_ecdsa_signature_der :: "bytes \<Rightarrow> bytes \<Rightarrow> bytes result" where
  "encode_ecdsa_signature_der r s =
     (let body = write_der_tlv 0x02 (encoded_integer_content r) @ write_der_tlv 0x02 (encoded_integer_content s)
      in Inr (write_der_tlv 0x30 body))"

section \<open>The reader, against the encoding\<close>

lemma ec_length_guard: "mask 56 < (len :: u64) \<longleftrightarrow> 256 ^ 7 \<le> unat len"
proof -
  have "unat (mask 56 :: u64) = 2 ^ 56 - 1" by (simp add: mask_eq_exp_minus_1)
  then show ?thesis by (simp add: word_less_nat_alt) linarith
qed

lemma ec_length_loop_value:
  assumes "n \<le> 8" "unat len < 256 ^ (8 - n)" "n \<le> length (der_rest r)"
  shows "ec_length_loop n len r = (Inr (len * 256 ^ n + of_nat (be_val (take n (der_rest r)))), der_advance n r)"
  using assms
proof (induction n arbitrary: len r)
  case (Suc n)
  then obtain b bs where rest: "der_rest r = b # bs" by (cases "der_rest r") auto
  define r1 where "r1 = der_advance 1 r"
  have r1: "der_rest r1 = bs" using rest by (simp add: r1_def)
  have "(256::nat) ^ (8 - Suc n) \<le> 256 ^ 7" by (rule power_increasing) auto
  then have small: "unat len < 256 ^ 7" using Suc.prems(2) by (rule less_le_trans [rotated])
  have "unat (len * 256 + of_nat (unat b)) = unat len * 256 + unat b"
  proof -
    have "unat len * 256 + unat b < 256 ^ 7 * 256" using small unat_u8_less [of b] by linarith
    then have "unat len * 256 + unat b < 2 ^ 64" by simp
    then show ?thesis by (simp add: unat_word_ariths unat_ucast_up)
  qed
  moreover have "unat len * 256 + unat b < 256 ^ (8 - n)"
  proof -
    have "(unat len + 1) * 256 \<le> 256 ^ (8 - Suc n) * 256" using Suc.prems(2) by (intro mult_le_mono) simp_all
    also have "\<dots> = 256 ^ (8 - n)" using Suc.prems(1) by (metis Suc_diff_Suc less_eq_Suc_le mult.commute power_Suc)
    finally have "unat len * 256 + 256 \<le> 256 ^ (8 - n)" by simp
    then show ?thesis using unat_u8_less [of b] by linarith
  qed
  ultimately have next_len: "unat (len * 256 + of_nat (unat b)) < 256 ^ (8 - n)" by simp
  have "ec_length_loop (Suc n) len r = ec_length_loop n (len * 256 + of_nat (unat b)) r1"
    using rest small by (simp add: rd_next_eq r1_def shift_in_octet ec_length_guard del: of_nat_unat)
  also have "\<dots> = (Inr ((len * 256 + of_nat (unat b)) * 256 ^ n + of_nat (be_val (take n bs))), der_advance n r1)"
    using Suc r1 rest next_len by simp
  also have "(len * 256 + of_nat (unat b)) * 256 ^ n + of_nat (be_val (take n bs))
      = len * 256 ^ Suc n + of_nat (be_val (take (Suc n) (der_rest r)))"
    using Suc.prems rest by (simp add: be_val_Cons min_absorb2 algebra_simps)
  also have "der_advance n r1 = der_advance (Suc n) r" by (simp add: r1_def der_advance_advance)
  finally show ?case .
qed (simp add: der_advance_def)

interpretation ec_format: der_format ec_der_error ec_length_loop
  by unfold_locales (simp add: ec_length_loop_value)

lemma reads_ec_tlv: "reads (ec_read tag) (\<lambda>c bs. bs = write_der_tlv tag c)"
  unfolding ec_read_def by (rule ec_format.reads_tlv)

lemma reads_ec_integer: "reads ec_read_integer (\<lambda>m bs. minimal_uint m \<and> bs = der_uint m)"
  unfolding ec_read_integer_def ec_read_def by (rule ec_format.reads_integer)

lemma reads_octets: "reads ec_read_octet_string (\<lambda>c bs. bs = write_der_tlv 0x04 c)"
  unfolding ec_read_octet_string_def by (rule reads_ec_tlv)

section \<open>Parsers up to the end of the bytes\<close>

text \<open>
  Like \<open>reads\<close>, for an action that has to use up the bytes: optional fields are only determined by
  what follows them.
\<close>

definition reads_end :: "'a der_action \<Rightarrow> ('a \<Rightarrow> bytes \<Rightarrow> bool) \<Rightarrow> bool" where
  "reads_end act enc \<longleftrightarrow> (\<forall>r x. der_ok r \<longrightarrow> length (rd_data r) < 2 ^ 64 \<longrightarrow>
     (\<exists>r'. act r = (Inr x, r') \<and> der_empty r') = enc x (der_rest r))"

lemma reads_endD:
  "reads_end act enc \<Longrightarrow> der_ok r \<Longrightarrow> length (rd_data r) < 2 ^ 64 \<Longrightarrow> (\<exists>r'. act r = (Inr x, r') \<and> der_empty r') = enc x (der_rest r)"
  unfolding reads_end_def by blast

lemma reads_end_cong: "reads_end act enc \<Longrightarrow> (\<And>x bs. enc x bs = enc' x bs) \<Longrightarrow> reads_end act enc'"
  unfolding reads_end_def by simp

lemma reads_end_return: "reads_end (rd_return v) (\<lambda>x bs. v = Inr x \<and> bs = [])"
  unfolding reads_end_def rd_return_def by (auto simp: der_empty_iff)

lemma reads_end_if:
  "(\<not> P \<Longrightarrow> reads_end act enc) \<Longrightarrow> reads_end (if P then rd_return (Inl e) else act) (\<lambda>x bs. \<not> P \<and> enc x bs)"
  by (cases P) (auto simp: reads_end_def rd_return_def)

lemma reads_end_value:
  "(\<And>v. m = Inr v \<Longrightarrow> reads_end (act v) (enc v)) \<Longrightarrow> reads_end (rd_bind (rd_return m) act) (\<lambda>x bs. \<exists>v. m = Inr v \<and> enc v x bs)"
  by (cases m) (auto simp: reads_end_def rd_return_def rd_bind_def)

lemma reads_end_bind:
  assumes "reads act enc" "\<And>x. reads_end (act' x) (enc' x)"
  shows "reads_end (rd_bind act act') (\<lambda>y bs. \<exists>x b c. enc x b \<and> enc' x y c \<and> bs = b @ c)"
  unfolding reads_end_def
proof (intro allI impI)
  fix r y
  assume r: "der_ok r" "length (rd_data r) < 2 ^ 64"
  have step: "(\<exists>r'. act' x (der_advance (length b) r) = (Inr y, r') \<and> der_empty r') = enc' x y c"
    if "der_rest r = b @ c" for x b c
    using reads_endD [OF assms(2), of "der_advance (length b) r" x y] der_step [OF r(1) that] r(2) by simp
  show "(\<exists>r'. rd_bind act act' r = (Inr y, r') \<and> der_empty r') = (\<exists>x b c. enc x b \<and> enc' x y c \<and> der_rest r = b @ c)"
    unfolding rd_bind_eq_Inr readsD [OF assms(1) r] using step by blast
qed

lemma reads_end_reads: "reads act enc \<Longrightarrow> reads_end act enc"
proof -
  assume act: "reads act enc"
  have "reads_end (rd_bind act (\<lambda>x. rd_return (Inr x))) (\<lambda>y bs. \<exists>x b c. enc x b \<and> (Inr x = (Inr y :: 'a result) \<and> c = []) \<and> bs = b @ c)"
    by (rule reads_end_bind [OF act reads_end_return])
  moreover have "rd_bind act (\<lambda>x. rd_return (Inr x)) = act"
    by (rule ext) (auto simp: rd_bind_def rd_return_def split: prod.split sum.split)
  ultimately show ?thesis by (auto elim!: reads_end_cong)
qed

lemma reads_end_check: "reads act enc \<Longrightarrow> reads_end (rd_bind act (\<lambda>x. rd_return (f x))) (\<lambda>y bs. \<exists>x. enc x bs \<and> f x = Inr y)"
  by (rule reads_end_reads [OF reads_check])

lemma ec_content_iff:
  assumes "reads_end act enc" "length data < 2 ^ 64"
  shows "ec_content trailing act data = Inr x \<longleftrightarrow> enc x data"
proof -
  have "ec_content trailing act data = Inr x \<longleftrightarrow> (\<exists>r'. act (der_reader_new data) = (Inr x, r') \<and> der_empty r')"
    by (auto simp: ec_content_def rbind_eq_Inr split: prod.split if_splits)
  then show ?thesis using reads_endD [OF assms(1), of "der_reader_new data" x] assms(2) by simp
qed

lemma tlv_content_shorter: "length (write_der_tlv tag c) < 2 ^ 64 \<Longrightarrow> length c < 2 ^ 64"
  by (simp add: write_der_tlv_def)

text \<open>A value whose content is parsed to its end.\<close>

lemma reads_content:
  assumes "reads_end act enc"
  shows "reads (rd_bind (ec_read tag) (\<lambda>c. rd_return (ec_content trailing act c))) (\<lambda>x bs. \<exists>c. bs = write_der_tlv tag c \<and> enc x c)"
  by (rule reads_cong [OF reads_check [OF reads_ec_tlv]]) (metis ec_content_iff [OF assms] tlv_content_shorter)

lemma whole_content_iff:
  assumes "length der < 2 ^ 64" "\<And>c. length c < 2 ^ 64 \<Longrightarrow> f c = Inr x \<longleftrightarrow> enc c"
  shows "rbind (ec_content trailing (ec_read tag) der) f = Inr x \<longleftrightarrow> (\<exists>c. der = write_der_tlv tag c \<and> enc c)"
  unfolding rbind_eq_Inr ec_content_iff [OF reads_end_reads [OF reads_ec_tlv] assms(1)]
  using assms tlv_content_shorter by metis

text \<open>An optional field, which may be required after all.\<close>

lemma next_tag_rest: "der_ok r \<Longrightarrow> der_next_tag r = (case der_rest r of [] \<Rightarrow> 0 | b # bs \<Rightarrow> b)"
  using der_reader_tests [of r] by (cases "der_rest r") (auto simp: der_next_tag_def)

lemma reads_end_optional:
  fixes act :: "unit der_action"
  assumes act: "reads act (\<lambda>_. enc)" and tag: "\<And>a. enc a \<Longrightarrow> \<exists>as. a = tag # as" "tag \<noteq> 0"
    and k: "reads_end k K" "\<And>x as. \<not> K x (tag # as)"
  shows "reads_end (\<lambda>r. let present = der_next_tag r = tag in
      rd_bind (rd_optional tag act) (\<lambda>_. if require \<and> \<not> present then rd_return (Inl e) else k) r)
    (\<lambda>x bs. \<not> require \<and> K x bs \<or> (\<exists>a b. enc a \<and> K x b \<and> bs = a @ b))"
  (is "reads_end ?act ?E")
  unfolding reads_end_def
proof (intro allI impI)
  fix r x
  assume r: "der_ok r" "length (rd_data r) < 2 ^ 64"
  show "(\<exists>r'. ?act r = (Inr x, r') \<and> der_empty r') = ?E x (der_rest r)"
  proof (cases "der_next_tag r = tag")
    case True
    then obtain as where rest: "der_rest r = tag # as" using tag(2) next_tag_rest [OF r(1)] by (cases "der_rest r") auto
    have "?act r = rd_bind act (\<lambda>_. k) r" using True by (simp add: rd_bind_def rd_optional_def)
    then show ?thesis
      using reads_endD [OF reads_end_bind [OF act, of "\<lambda>_. k" "\<lambda>_. K"], OF k(1) r] k(2) rest by auto
  next
    case False
    then have "\<not> (\<exists>a b. enc a \<and> K x b \<and> der_rest r = a @ b)" using tag next_tag_rest [OF r(1)] by fastforce
    moreover have "?act r = (if require then (Inl e, r) else k r)" using False by (simp add: rd_bind_def rd_optional_def rd_return_def)
    ultimately show ?thesis using reads_endD [OF k(1) r] by auto
  qed
qed

section \<open>Fields\<close>

definition ec_algorithm_content :: bytes where
  "ec_algorithm_content = write_der_tlv 0x06 id_ec_public_key_oid @ write_der_tlv 0x06 prime256v1_oid"

lemma reads_ec_algorithm: "reads read_p256_algorithm_identifier (\<lambda>_ bs. bs = write_der_tlv 0x30 ec_algorithm_content)"
  unfolding read_p256_algorithm_identifier_def
  by (rule reads_cong [OF reads_content [OF reads_end_bind [OF reads_ec_tlv reads_end_if [OF reads_end_check [OF reads_ec_tlv]]]]])
    (auto simp: ec_algorithm_content_def split: if_splits)

definition ec_parameters :: bytes where
  "ec_parameters = write_der_tlv 0xA0 (write_der_tlv 0x06 prime256v1_oid)"

lemma reads_parameters:
  "reads (rd_bind (ec_read 0xA0) (\<lambda>parameters. rd_return (ec_content trailing
     (rd_bind (ec_read 0x06) (\<lambda>curve_oid. rd_return (if curve_oid \<noteq> prime256v1_oid then Inl e else Inr ()))) parameters)))
   (\<lambda>_ bs. bs = ec_parameters)"
  by (rule reads_cong [OF reads_content [OF reads_end_check [OF reads_ec_tlv]]]) (auto simp: ec_parameters_def split: if_splits)

text \<open>The bits of a point: no unused bits, the mark of an uncompressed point, and the coordinates.\<close>

definition ec_point_bits :: "bytes \<Rightarrow> bytes \<Rightarrow> bytes" where
  "ec_point_bits x y = 0 # 4 # x @ y"

lemma uncompressed_point_iff:
  "read_uncompressed_p256_point bits = Inr P \<longleftrightarrow> \<not> pt_infinity P \<and> p256_ok P \<and> bits = ec_point_bits (pt_x P) (pt_y P)"
proof
  assume P: "read_uncompressed_p256_point bits = Inr P"
  then have b: "length bits = 66" "bits ! 0 = 0" "bits ! 1 = 4"
    and c: "p256_fixed_point_from_coordinates (take 32 (drop 2 bits)) (take 32 (drop 34 bits)) = Inr P"
    by (auto simp: read_uncompressed_p256_point_def split: if_splits)
  obtain a a' cs where cs: "bits = a # a' # cs" using b(1) by (cases bits; cases "tl bits") auto
  have "take 32 cs @ drop 32 cs = cs" "take 32 (drop 32 cs) = drop 32 cs" using b(1) cs by simp_all
  then show "\<not> pt_infinity P \<and> p256_ok P \<and> bits = ec_point_bits (pt_x P) (pt_y P)"
    using c b cs by (auto simp: fixed_curve.coordinates_iff ec_point_bits_def)
next
  assume P: "\<not> pt_infinity P \<and> p256_ok P \<and> bits = ec_point_bits (pt_x P) (pt_y P)"
  then have "length (pt_x P) = 32" "length (pt_y P) = 32" by (auto simp: p256_ok_def p256_coordinate_def)
  then show "read_uncompressed_p256_point bits = Inr P"
    using P by (cases P) (auto simp: read_uncompressed_p256_point_def ec_point_bits_def fixed_curve.coordinates_iff)
qed

text \<open>The bytes of a public key field that fits a private scalar.\<close>

definition ec_public_bits :: "bytes \<Rightarrow> bytes option" where
  "ec_public_bits scalar = map_option (\<lambda>(x, y). ec_point_bits (field_bytes x) (field_bytes y)) (ec_mult (be_val scalar) ec_base)"

lemma public_key_matches_iff: "public_key_matches scalar bits = Inr u \<longleftrightarrow> ec_public_bits scalar = Some bits"
proof (cases "ec_mult (be_val scalar) ec_base")
  case None
  then show ?thesis by (auto simp: public_key_matches_def ec_public_bits_def rbind_eq_Inr fixed_curve.base_ok p256_point_at_infinity_def)
next
  case (Some a)
  obtain x y where a: "a = (x, y)" by fastforce
  define E where "E = p256_encode (Some (x, y))"
  have base: "p256_fixed_base_point_multiply scalar = Inr E" using Some by (simp add: a E_def fixed_curve.base_ok)
  have E: "p256_ok E" "\<not> pt_infinity E" "pt_x E = field_bytes x" "pt_y E = field_bytes y"
    using fixed_curve.results_ok(3) [OF base] by (simp_all add: E_def)
  have "public_key_matches scalar bits = Inr u \<longleftrightarrow> (\<exists>P. read_uncompressed_p256_point bits = Inr P \<and> pt_x P = pt_x E \<and> pt_y P = pt_y E)"
    using E by (auto simp: public_key_matches_def base rbind_eq_Inr)
  also have "\<dots> \<longleftrightarrow> bits = ec_point_bits (pt_x E) (pt_y E)"
    using E unfolding uncompressed_point_iff by auto
  finally show ?thesis using E by (auto simp: ec_public_bits_def Some a)
qed

lemma reads_public_key:
  "reads (rd_bind (ec_read 0xA1) (\<lambda>public_key. rd_return (ec_content trailing
     (rd_bind (ec_read 0x03) (\<lambda>bits. rd_return (public_key_matches scalar bits))) public_key)))
   (\<lambda>_ bs. \<exists>c. ec_public_bits scalar = Some c \<and> bs = write_der_tlv 0xA1 (write_der_tlv 0x03 c))"
  by (rule reads_cong [OF reads_content [OF reads_end_check [OF reads_ec_tlv]]]) (auto simp: public_key_matches_iff)

section \<open>Public keys and signatures\<close>

definition der_ec_public_key :: "ec_public_key_material \<Rightarrow> bytes" where
  "der_ec_public_key k = write_der_tlv 0x30
     (write_der_tlv 0x30 ec_algorithm_content @ write_der_tlv 0x03 (ec_point_bits (ec_x k) (ec_y k)))"

definition ec_public_ok :: "ec_public_key_material \<Rightarrow> bool" where
  "ec_public_ok k \<longleftrightarrow> p256_ok \<lparr>pt_x = ec_x k, pt_y = ec_y k, pt_infinity = False\<rparr>"

lemma ec_public_key_iff:
  assumes "length der < 2 ^ 64"
  shows "parse_p256_public_key_der der = Inr k \<longleftrightarrow> ec_public_ok k \<and> der = der_ec_public_key k"
proof -
  let ?point = "\<lparr>pt_x = ec_x k, pt_y = ec_y k, pt_infinity = False\<rparr>"
  have point: "rbind (read_uncompressed_p256_point bits) (\<lambda>point. Inr \<lparr>ec_x = pt_x point, ec_y = pt_y point\<rparr>) = Inr k
      \<longleftrightarrow> ec_public_ok k \<and> bits = ec_point_bits (ec_x k) (ec_y k)" (is "?L \<longleftrightarrow> _") for bits
  proof -
    have "?L \<longleftrightarrow> (\<exists>P. read_uncompressed_p256_point bits = Inr P \<and> pt_x P = ec_x k \<and> pt_y P = ec_y k)"
      by (cases k) (auto simp: rbind_eq_Inr)
    also have "\<dots> \<longleftrightarrow> read_uncompressed_p256_point bits = Inr ?point"
    proof
      assume "\<exists>P. read_uncompressed_p256_point bits = Inr P \<and> pt_x P = ec_x k \<and> pt_y P = ec_y k"
      then obtain P where P: "read_uncompressed_p256_point bits = Inr P" "pt_x P = ec_x k" "pt_y P = ec_y k" by auto
      moreover from this have "P = ?point" using uncompressed_point_iff [of bits P] by (cases P) simp
      ultimately show "read_uncompressed_p256_point bits = Inr ?point" by simp
    qed simp
    finally show ?thesis by (simp add: uncompressed_point_iff ec_public_ok_def)
  qed
  have content: "ec_content trailing (rd_bind read_p256_algorithm_identifier (\<lambda>_. rd_bind (ec_read 0x03) (\<lambda>bits. rd_return (
      rbind (read_uncompressed_p256_point bits) (\<lambda>point. Inr \<lparr>ec_x = pt_x point, ec_y = pt_y point\<rparr>))))) c = Inr k
    \<longleftrightarrow> ec_public_ok k \<and> c = write_der_tlv 0x30 ec_algorithm_content @ write_der_tlv 0x03 (ec_point_bits (ec_x k) (ec_y k))"
    if "length c < 2 ^ 64" for c trailing
    unfolding ec_content_iff [OF reads_end_bind [OF reads_ec_algorithm reads_end_check [OF reads_ec_tlv]] that] by (auto simp: point)
  show ?thesis
    unfolding parse_p256_public_key_der_def
    by (rule trans [OF whole_content_iff [OF assms content]], assumption) (auto simp: der_ec_public_key_def)
qed

definition der_ecdsa_signature :: "ecdsa_signature_material \<Rightarrow> bytes" where
  "der_ecdsa_signature k = write_der_tlv 0x30 (der_uint (sig_r k) @ der_uint (sig_s k))"

lemma ecdsa_signature_iff:
  assumes "length der < 2 ^ 64"
  shows "parse_ecdsa_signature_der der = Inr k \<longleftrightarrow> minimal_uint (sig_r k) \<and> minimal_uint (sig_s k) \<and> der = der_ecdsa_signature k"
proof -
  have content: "ec_content trailing (rd_bind ec_read_integer (\<lambda>r. rd_bind ec_read_integer (\<lambda>s.
      rd_return (Inr \<lparr>sig_r = r, sig_s = s\<rparr>)))) c = Inr k
    \<longleftrightarrow> minimal_uint (sig_r k) \<and> minimal_uint (sig_s k) \<and> c = der_uint (sig_r k) @ der_uint (sig_s k)"
    if "length c < 2 ^ 64" for c trailing
    unfolding ec_content_iff [OF reads_end_bind [OF reads_ec_integer reads_end_check [OF reads_ec_integer]] that] by (cases k) auto
  show ?thesis
    unfolding parse_ecdsa_signature_der_def
    by (rule trans [OF whole_content_iff [OF assms content]], assumption) (auto simp: der_ecdsa_signature_def)
qed

section \<open>Private keys\<close>

definition ec_scalar_ok :: "bytes \<Rightarrow> bool" where
  "ec_scalar_ok scalar \<longleftrightarrow> length scalar = 32 \<and> 0 < be_val scalar \<and> be_val scalar < p256_n"

text \<open>A SEC 1 key: the version, the scalar, the name of the curve and the public key, the last two optional.\<close>

definition sec1_content :: "bytes \<Rightarrow> bytes \<Rightarrow> bytes \<Rightarrow> bytes" where
  "sec1_content scalar parameters public_key = der_uint [1] @ write_der_tlv 0x04 scalar @ parameters @ public_key"

definition sec1_public_field :: "bytes \<Rightarrow> bytes \<Rightarrow> bool" where
  "sec1_public_field scalar field \<longleftrightarrow>
     field = [] \<or> (\<exists>c. ec_public_bits scalar = Some c \<and> field = write_der_tlv 0xA1 (write_der_tlv 0x03 c))"

definition der_sec1 :: "bytes \<Rightarrow> bytes \<Rightarrow> bytes \<Rightarrow> bytes" where
  "der_sec1 scalar parameters public_key = write_der_tlv 0x30 (sec1_content scalar parameters public_key)"

definition der_ec_pkcs8 :: "bytes \<Rightarrow> bytes \<Rightarrow> bytes \<Rightarrow> bytes" where
  "der_ec_pkcs8 scalar parameters public_key = write_der_tlv 0x30
     (der_uint [0] @ write_der_tlv 0x30 ec_algorithm_content @ write_der_tlv 0x04 (der_sec1 scalar parameters public_key))"

lemmas tlv_tag = write_der_tlv_def [of "0xA0"] write_der_tlv_def [of "0xA1"]

lemma reads_end_public_field:
  "reads_end (rd_bind (read_optional_p256_public_key scalar) (\<lambda>_. rd_return (Inr (key :: 'a))))
     (\<lambda>x bs. x = key \<and> sec1_public_field scalar bs)"
proof -
  let ?act = "rd_bind (ec_read 0xA1) (\<lambda>public_key. rd_return (ec_content ''trailing data in EC private key public key''
        (rd_bind (ec_read 0x03) (\<lambda>bits. rd_return (public_key_matches scalar bits))) public_key))"
  have "reads_end (\<lambda>r. let present = der_next_tag r = 0xA1 in
      rd_bind (rd_optional 0xA1 ?act) (\<lambda>_. if False \<and> \<not> present then rd_return (Inl (ec_der_error [])) else rd_return (Inr key)) r)
    (\<lambda>x bs. \<not> False \<and> ((Inr key :: 'a result) = Inr x \<and> bs = []) \<or>
      (\<exists>a b. (\<exists>c. ec_public_bits scalar = Some c \<and> a = write_der_tlv 0xA1 (write_der_tlv 0x03 c)) \<and> ((Inr key :: 'a result) = Inr x \<and> b = []) \<and> bs = a @ b))"
    by (rule reads_end_optional [OF reads_public_key _ _ reads_end_return]) (auto simp: tlv_tag)
  then show ?thesis
    unfolding read_optional_p256_public_key_def by (simp add: Let_def) (auto simp: sec1_public_field_def elim!: reads_end_cong)
qed

lemma reads_end_sec1:
  "reads_end (sec1_fields require) (\<lambda>k bs. ec_scalar_ok (ec_private_scalar k) \<and>
     (\<exists>parameters public_key. (parameters = ec_parameters \<or> \<not> require \<and> parameters = []) \<and>
       sec1_public_field (ec_private_scalar k) public_key \<and> bs = sec1_content (ec_private_scalar k) parameters public_key))"
proof -
  let ?opt = "\<lambda>scalar r. let has_parameters = der_next_tag r = 0xA0 in
     rd_bind read_optional_p256_parameters (\<lambda>_.
       if require \<and> \<not> has_parameters then rd_return (Inl (ec_der_error ''missing EC private key parameters''))
       else rd_bind (read_optional_p256_public_key scalar) (\<lambda>_. rd_return (Inr \<lparr>ec_private_scalar = scalar\<rparr>))) r"
  have opt: "reads_end (?opt scalar) (\<lambda>x bs. \<not> require \<and> (x = \<lparr>ec_private_scalar = scalar\<rparr> \<and> sec1_public_field scalar bs) \<or>
      (\<exists>a b. a = ec_parameters \<and> (x = \<lparr>ec_private_scalar = scalar\<rparr> \<and> sec1_public_field scalar b) \<and> bs = a @ b))" for scalar
    unfolding read_optional_p256_parameters_def
    by (rule reads_end_optional [OF reads_parameters _ _ reads_end_public_field])
      (auto simp: tlv_tag ec_parameters_def sec1_public_field_def)
  show ?thesis
    unfolding sec1_fields_def
    apply (rule reads_end_cong [OF reads_end_bind [OF reads_ec_integer reads_end_if [OF reads_end_bind [OF reads_octets
            reads_end_if [OF reads_end_value [OF reads_end_if [OF opt]]]]]]])
    subgoal for k bs
      by (cases k) (fastforce simp: scalar_valid ec_scalar_ok_def sec1_content_def minimal_uint_def)
    done
qed

lemma sec1_private_iff:
  assumes "length der < 2 ^ 64"
  shows "parse_sec1_p256_private_key der require = Inr k \<longleftrightarrow> ec_scalar_ok (ec_private_scalar k) \<and>
    (\<exists>parameters public_key. (parameters = ec_parameters \<or> \<not> require \<and> parameters = []) \<and>
       sec1_public_field (ec_private_scalar k) public_key \<and> der = der_sec1 (ec_private_scalar k) parameters public_key)"
  unfolding parse_sec1_p256_private_key_def
  by (rule trans [OF whole_content_iff [OF assms ec_content_iff [OF reads_end_sec1]]], assumption) (auto simp: der_sec1_def)

lemma pkcs8_ec_private_iff:
  assumes "length der < 2 ^ 64"
  shows "parse_pkcs8_p256_private_key der = Inr k \<longleftrightarrow> ec_scalar_ok (ec_private_scalar k) \<and>
    (\<exists>parameters public_key. (parameters = ec_parameters \<or> parameters = []) \<and>
       sec1_public_field (ec_private_scalar k) public_key \<and> der = der_ec_pkcs8 (ec_private_scalar k) parameters public_key)"
proof -
  let ?fields = "rd_bind ec_read_integer (\<lambda>version.
            if version \<noteq> [0] then rd_return (Inl (ec_der_error ''unsupported PrivateKeyInfo version''))
            else rd_bind read_p256_algorithm_identifier (\<lambda>_. ec_read_octet_string))"
  have fields: "reads_end ?fields (\<lambda>p bs. bs = der_uint [0] @ write_der_tlv 0x30 ec_algorithm_content @ write_der_tlv 0x04 p)"
    by (rule reads_end_cong [OF reads_end_bind [OF reads_ec_integer reads_end_if [OF reads_end_bind [OF reads_ec_algorithm
            reads_end_reads [OF reads_octets]]]]])
      (auto simp: minimal_uint_def)
  have content: "rbind (ec_content trailing ?fields c) (\<lambda>p. parse_sec1_p256_private_key p False) = Inr k \<longleftrightarrow>
     ec_scalar_ok (ec_private_scalar k) \<and> (\<exists>parameters public_key. (parameters = ec_parameters \<or> parameters = []) \<and>
       sec1_public_field (ec_private_scalar k) public_key \<and> c = der_uint [0] @ write_der_tlv 0x30 ec_algorithm_content @
         write_der_tlv 0x04 (der_sec1 (ec_private_scalar k) parameters public_key))"
    if c: "length c < 2 ^ 64" for c trailing
  proof -
    have small: "length p < 2 ^ 64" if "c = der_uint [0] @ write_der_tlv 0x30 ec_algorithm_content @ write_der_tlv 0x04 p" for p
      using c that tlv_content_shorter [of 4 p] by simp
    show ?thesis
      unfolding rbind_eq_Inr ec_content_iff [OF fields c] using small sec1_private_iff [of _ False k] by blast
  qed
  show ?thesis
    unfolding parse_pkcs8_p256_private_key_def
    by (rule trans [OF whole_content_iff [OF assms content]], assumption) (auto simp: der_ec_pkcs8_def)
qed

text \<open>The two kinds of encoding do not overlap.\<close>

lemma ec_sequence_inject:
  assumes "write_der_tlv 0x30 c = write_der_tlv 0x30 d" "length (write_der_tlv 0x30 c) < 2 ^ 64"
  shows "c = d"
  using ec_content_iff [OF reads_end_reads [OF reads_ec_tlv] assms(2), where trailing = "[]"] assms(1) by (metis sum.inject(2))

lemma ec_pkcs8_not_sec1:
  "length (der_ec_pkcs8 scalar parameters public_key) < 2 ^ 64 \<Longrightarrow> der_ec_pkcs8 scalar parameters public_key \<noteq> der_sec1 s p k"
proof
  assume len: "length (der_ec_pkcs8 scalar parameters public_key) < 2 ^ 64"
    and eq: "der_ec_pkcs8 scalar parameters public_key = der_sec1 s p k"
  have "der_uint [0] @ write_der_tlv 0x30 ec_algorithm_content @ write_der_tlv 0x04 (der_sec1 scalar parameters public_key)
      = sec1_content s p k"
    by (rule ec_sequence_inject) (use eq len in \<open>simp_all add: der_ec_pkcs8_def der_sec1_def [of s]\<close>)
  moreover have "der_uint [0] = [2, 1, 0]" "der_uint [1] = [2, 1, 1]"
    by (simp_all add: der_uint_def encoded_integer_content_def write_der_tlv_def write_der_length_def)
  ultimately show False by (simp add: sec1_content_def)
qed

lemma ec_private_iff:
  assumes "length der < 2 ^ 64"
  shows "parse_p256_private_key_der der = Inr k \<longleftrightarrow> ec_scalar_ok (ec_private_scalar k) \<and>
    (\<exists>public_key. sec1_public_field (ec_private_scalar k) public_key \<and>
      (der = der_sec1 (ec_private_scalar k) ec_parameters public_key \<or>
       der = der_ec_pkcs8 (ec_private_scalar k) ec_parameters public_key \<or>
       der = der_ec_pkcs8 (ec_private_scalar k) [] public_key))"
proof (cases "parse_sec1_p256_private_key der True")
  case (Inl e)
  then have "\<not> (ec_scalar_ok (ec_private_scalar k) \<and> sec1_public_field (ec_private_scalar k) public_key \<and>
      der = der_sec1 (ec_private_scalar k) ec_parameters public_key)" for public_key
    using sec1_private_iff [OF assms, of True k] by auto
  then show ?thesis
    using pkcs8_ec_private_iff [OF assms, of k] unfolding parse_p256_private_key_der_def Inl by auto
next
  case (Inr l)
  then obtain public_key where der: "der = der_sec1 (ec_private_scalar l) ec_parameters public_key"
    using sec1_private_iff [OF assms, of True l] by auto
  then have "der \<noteq> der_ec_pkcs8 scalar p q" for scalar p q using assms ec_pkcs8_not_sec1 by metis
  then show ?thesis
    using sec1_private_iff [OF assms, of True k] unfolding parse_p256_private_key_der_def Inr by auto
qed

section \<open>Properties\<close>

text \<open>
  What parse_p256_public_key_der accepts. It returns \<open>k\<close> exactly when the input is the
  SubjectPublicKeyInfo of \<open>k\<close> and the coordinates of \<open>k\<close> are 32 bytes each, below the field prime,
  and a point of the curve.
\<close>

lemma ec_public_key_der_exact:
  assumes "length der < 2 ^ 64"
  shows "parse_p256_public_key_der der = Inr k \<longleftrightarrow>
    p256_ok \<lparr>pt_x = ec_x k, pt_y = ec_y k, pt_infinity = False\<rparr> \<and> der = der_ec_public_key k"
  using ec_public_key_iff [OF assms] by (simp add: ec_public_ok_def)

lemma ec_public_key_der_exact_witness:
  "parse_p256_public_key_der (der_ec_public_key \<lparr>ec_x = field_bytes base_x, ec_y = field_bytes base_y\<rparr>)
    = Inr \<lparr>ec_x = field_bytes base_x, ec_y = field_bytes base_y\<rparr>"
proof -
  let ?k = "\<lparr>ec_x = field_bytes base_x, ec_y = field_bytes base_y\<rparr>"
  have "p256_ok (p256_encode ec_base)" by simp
  then have "p256_ok \<lparr>pt_x = ec_x ?k, pt_y = ec_y ?k, pt_infinity = False\<rparr>" by (simp add: ec_base_def)
  moreover have "length (der_ec_public_key ?k) < 2 ^ 64"
    by (simp add: der_ec_public_key_def write_der_tlv_def write_der_length_def ec_algorithm_content_def id_ec_public_key_oid_def
        prime256v1_oid_def ec_point_bits_def)
  ultimately show ?thesis using ec_public_key_der_exact [of "der_ec_public_key ?k" ?k] by blast
qed

text \<open>
  C24: what parse_p256_private_key_der accepts. It returns \<open>k\<close> exactly when the scalar has 32 bytes
  and is positive and below the order of the group, and the input is its SEC 1 encoding with the name
  of the curve, or its PKCS#8 encoding with or without that name; the public key, where the input
  has one, is the multiple of the base point by the scalar.
\<close>

theorem ec_private_key_der_exact:
  assumes "length der < 2 ^ 64"
  shows "parse_p256_private_key_der der = Inr k \<longleftrightarrow> ec_scalar_ok (ec_private_scalar k) \<and>
    (\<exists>public_key. sec1_public_field (ec_private_scalar k) public_key \<and>
      (der = der_sec1 (ec_private_scalar k) ec_parameters public_key \<or>
       der = der_ec_pkcs8 (ec_private_scalar k) ec_parameters public_key \<or>
       der = der_ec_pkcs8 (ec_private_scalar k) [] public_key))"
  by (rule ec_private_iff [OF assms])

theorem ec_private_key_der_exact_witness:
  "parse_p256_private_key_der (der_ec_pkcs8 (replicate 31 0 @ [2]) [] []) = Inr \<lparr>ec_private_scalar = replicate 31 0 @ [2]\<rparr>"
proof -
  let ?k = "\<lparr>ec_private_scalar = replicate 31 0 @ [2]\<rparr>"
  have "ec_scalar_ok (ec_private_scalar ?k)" by (simp add: ec_scalar_ok_def p256_n_def)
  moreover have "sec1_public_field (ec_private_scalar ?k) []" by (simp add: sec1_public_field_def)
  moreover have "length (der_ec_pkcs8 (ec_private_scalar ?k) [] []) < 2 ^ 64"
    by (simp add: der_ec_pkcs8_def der_sec1_def sec1_content_def der_uint_def encoded_integer_content_def write_der_tlv_def
        write_der_length_def ec_algorithm_content_def id_ec_public_key_oid_def prime256v1_oid_def)
  ultimately show ?thesis using ec_private_key_der_exact [of "der_ec_pkcs8 (replicate 31 0 @ [2]) [] []" ?k] by auto
qed

text \<open>
  C26: signatures have one encoding. parse_ecdsa_signature_der returns the numbers \<open>r\<close> and \<open>s\<close> exactly
  for the bytes that encode_ecdsa_signature_der writes for them, and what it returns is minimal.
\<close>

theorem ecdsa_signature_der_exact:
  assumes "length der < 2 ^ 64"
  shows "parse_ecdsa_signature_der der = Inr k \<longleftrightarrow>
    minimal_uint (sig_r k) \<and> minimal_uint (sig_s k) \<and> encode_ecdsa_signature_der (sig_r k) (sig_s k) = Inr der"
  using ecdsa_signature_iff [OF assms, of k]
  by (auto simp: encode_ecdsa_signature_der_def der_ecdsa_signature_def der_uint_def)

theorem ecdsa_signature_der_exact_witness:
  "parse_ecdsa_signature_der [0x30, 7, 2, 2, 0, 0x80, 2, 1, 5] = Inr \<lparr>sig_r = [0x80], sig_s = [5]\<rparr>"
  using ecdsa_signature_der_exact [of "[0x30, 7, 2, 2, 0, 0x80, 2, 1, 5]" "\<lparr>sig_r = [0x80], sig_s = [5]\<rparr>"]
  by (simp add: encode_ecdsa_signature_der_def encoded_integer_content_def write_der_tlv_def write_der_length_def minimal_uint_def)

end
