(* ===== verification/P256_Scalars.thy ===== *)
theory P256_Scalars
  imports P256_Contract
begin

text \<open>
  The operations of src/p256_fixed.cpp modulo the order of the group, on byte strings of at most 32
  bytes: each returns the minimal bytes of the residue.
\<close>

section \<open>The minimal bytes of a number\<close>

fun nat_bytes :: "nat \<Rightarrow> bytes" where
  "nat_bytes v = (if v < 256 then [of_nat v] else nat_bytes (v div 256) @ [of_nat (v mod 256)])"

declare nat_bytes.simps [simp del]

lemma nat_bytes_minimal: "minimal_bytes v (nat_bytes v)"
proof (induction v rule: nat_bytes.induct)
  case (1 v)
  show ?case
  proof (cases "v < 256")
    case True
    then show ?thesis by (simp add: nat_bytes.simps [of v] minimal_bytes_def be_val_Cons unat_of_nat word_unat_eq_iff)
  next
    case False
    let ?d = "nat_bytes (v div 256)"
    have "v div 256 \<noteq> 0" using False by (simp add: div_eq_0_iff)
    then have d: "be_val ?d = v div 256" "?d \<noteq> []" "hd ?d \<noteq> 0" using 1 [OF False] by (auto simp: minimal_bytes_def)
    have "be_val (?d @ [of_nat (v mod 256)]) = v" by (simp add: d(1) unat_of_nat)
    then show ?thesis using False d by (simp add: nat_bytes.simps [of v] minimal_bytes_def)
  qed
qed

lemma minimal_bytes_iff: "minimal_bytes v bs \<longleftrightarrow> bs = nat_bytes v"
  using nat_bytes_minimal minimal_bytes_unique by blast

lemma be_val_nat_bytes [simp]: "be_val (nat_bytes v) = v"
  using nat_bytes_minimal by (simp add: minimal_bytes_def)

lemma nat_bytes_inject [simp]: "nat_bytes v = nat_bytes w \<longleftrightarrow> v = w"
  by (metis be_val_nat_bytes)

lemma nat_bytes_length: "v < 256 ^ n \<Longrightarrow> 0 < n \<Longrightarrow> length (nat_bytes v) \<le> n"
proof (cases "v = 0")
  case False
  assume v: "v < 256 ^ n" "0 < n"
  have m: "nat_bytes v \<noteq> []" "hd (nat_bytes v) \<noteq> 0" using nat_bytes_minimal [of v] False by (simp_all add: minimal_bytes_def)
  have "(256::nat) ^ (length (nat_bytes v) - 1) < 256 ^ n"
    by (rule le_less_trans [OF be_val_lower [OF m]]) (simp add: v(1))
  then have "length (nat_bytes v) - 1 < n" by (rule power_less_imp_less_exp [rotated]) simp
  then show ?thesis by linarith
qed (simp add: nat_bytes.simps)

lemma nat_bytes_scalar: "v < p256_n \<Longrightarrow> length (nat_bytes v) \<le> 32"
  by (rule nat_bytes_length) (simp_all add: p256_n_def)

lemma to_be_bytes_minimal_eq: "u256_ok v \<Longrightarrow> to_be_bytes_minimal v = nat_bytes (u256_val v)"
  using to_be_bytes_minimal_ok by (simp add: minimal_bytes_iff)

section \<open>Residues modulo the order\<close>

lemma scalar_from_bytes:
  assumes "length bs \<le> 32"
  obtains v where "scalar_from_be_reduced bs = Inr v" "u256_ok v" "u256_val v = be_val bs mod p256_n"
  using scalar_from_be_eq [OF short_scalar [OF assms]] by blast

lemma scalar_multiply_mod_eq:
  assumes "length a \<le> 32" "length b \<le> 32"
  shows "p256_fixed_scalar_multiply_mod a b = Inr (nat_bytes (be_val a * be_val b mod p256_n))"
proof -
  obtain v where v: "scalar_from_be_reduced a = Inr v" "u256_ok v" "u256_val v = be_val a mod p256_n"
    using assms(1) by (rule scalar_from_bytes)
  obtain w where w: "scalar_from_be_reduced b = Inr w" "u256_ok w" "u256_val w = be_val b mod p256_n"
    using assms(2) by (rule scalar_from_bytes)
  show ?thesis
    using u256_mod_multiply_value [OF v(2) w(2), of n_value]
    by (simp add: p256_fixed_scalar_multiply_mod_def v w to_be_bytes_minimal_eq mod_mult_eq)
qed

lemma scalar_add_mod_eq:
  assumes "length a \<le> 32" "length b \<le> 32"
  shows "p256_fixed_scalar_add_mod a b = Inr (nat_bytes ((be_val a + be_val b) mod p256_n))"
proof -
  obtain v where v: "scalar_from_be_reduced a = Inr v" "u256_ok v" "u256_val v = be_val a mod p256_n"
    using assms(1) by (rule scalar_from_bytes)
  obtain w where w: "scalar_from_be_reduced b = Inr w" "u256_ok w" "u256_val w = be_val b mod p256_n"
    using assms(2) by (rule scalar_from_bytes)
  show ?thesis
    using u256_mod_add_value [OF v(2) w(2), of n_value] v w
    by (simp add: p256_fixed_scalar_add_mod_def to_be_bytes_minimal_eq mod_add_eq)
qed

definition scalar_inv :: "nat \<Rightarrow> nat" where
  "scalar_inv k = k ^ (p256_n - 2) mod p256_n"

lemma scalar_inverse_eq:
  assumes "length a \<le> 32"
  shows "p256_fixed_scalar_inverse a =
    (if be_val a mod p256_n = 0 then Inl (p256_fixed_error Invalid_argument ''scalar has no inverse'')
     else Inr (nat_bytes (scalar_inv (be_val a))))"
proof -
  obtain v where v: "scalar_from_be_reduced a = Inr v" "u256_ok v" "u256_val v = be_val a mod p256_n"
    using assms by (rule scalar_from_bytes)
  have "be_val a mod p256_n = 0 \<longleftrightarrow> u256_is_zero v" by (simp add: u256_is_zero_iff v)
  then show ?thesis
    using u256_mod_exp_value [OF v(2), of n_minus_two_value n_value] v
    by (simp add: p256_fixed_scalar_inverse_def to_be_bytes_minimal_eq scalar_inv_def power_mod)
qed

lemma scalar_reduce_eq:
  assumes "length a \<le> 32"
  shows "\<exists>bs. p256_fixed_scalar_reduce_fixed_32 a = Inr bs \<and> length bs = 32 \<and> be_val bs = be_val a mod p256_n"
proof -
  obtain v where v: "scalar_from_be_reduced a = Inr v" "u256_ok v" "u256_val v = be_val a mod p256_n"
    using assms by (rule scalar_from_bytes)
  then show ?thesis
    by (simp add: p256_fixed_scalar_reduce_fixed_32_def to_be_bytes_fixed_def u256_ok_def u256_val_def limbs_to_be_bytes_value)
qed

lemma x_mod_order_eq:
  assumes "on_curve (Some (x, y))"
  shows "p256_fixed_x_mod_order (p256_encode (Some (x, y))) = Inr (nat_bytes (gf_val x mod p256_n))"
proof -
  have "require_affine_on_curve (p256_encode (Some (x, y))) = Inr (fixed_of (Some (x, y)))"
    using require_ok [of "p256_encode (Some (x, y))"] assms by (simp only: p256_ok_encode p256_abs_encode) simp
  then show ?thesis
    using reduce_256_value [of "fw x" n_value]
    by (simp add: p256_fixed_x_mod_order_def scalar_reduce_def to_be_bytes_minimal_eq)
qed

end
