(* ===== verification/P256_Order.thy ===== *)
theory P256_Order
  imports P256_Group Prime_Certificates
begin

text \<open>
  The order of the base point: 256 doublings and some additions of the base point, or of its inverse,
  lead from the point to its negative, so that the multiple by the order is the point at infinity. A
  step gives the slope, the new point and the quotients of the products.
\<close>

section \<open>Congruences modulo the field prime\<close>

definition cong_check :: "nat \<Rightarrow> nat \<Rightarrow> nat \<Rightarrow> nat \<Rightarrow> bool" where
  "cong_check a b q1 q2 \<longleftrightarrow>
     a + (shift8 (shift8 (shift24 (shift24 q1))) + (shift24 (shift24 q1) + (shift24 q1 + (shift8 (shift24 (shift24 q2)) + q2)))) =
     b + (shift8 (shift8 (shift24 (shift24 q2))) + (shift24 (shift24 q2) + (shift24 q2 + (shift8 (shift24 (shift24 q1)) + q1))))"

lemma cong_check: "cong_check a b q1 q2 \<Longrightarrow> (of_nat a :: gf) = of_nat b"
proof -
  assume "cong_check a b q1 q2"
  then have "a + q1 * p256_p = b + q2 * p256_p" by (simp add: cong_check_def shifts p256_p_def)
  then have "a mod p256_p = b mod p256_p" by (metis mod_mult_self1)
  then show ?thesis by (simp add: gf_of_nat gf_of_eq_iff)
qed

definition triple :: "nat \<Rightarrow> nat" where
  "triple t = t + (t + t)"

text \<open>A number that is not a multiple of the prime: \<open>c\<close> is its distance to it.\<close>

definition nonzero_check :: "nat \<Rightarrow> nat \<Rightarrow> bool" where
  "nonzero_check x c \<longleftrightarrow> x \<noteq> 0 \<and> c \<noteq> 0 \<and> x + c = 0xFFFFFFFF00000001000000000000000000000000FFFFFFFFFFFFFFFFFFFFFFFF"

lemma nonzero_check: "nonzero_check x c \<Longrightarrow> (of_nat x :: gf) \<noteq> 0"
proof
  assume x: "nonzero_check x c" and zero: "(of_nat x :: gf) = 0"
  then have "x < p256_p" "x \<noteq> 0" by (auto simp: nonzero_check_def p256_p_numeral)
  moreover have "x mod p256_p = 0" using zero by (simp add: gf_of_nat zero_gf_def gf_of_eq_iff)
  ultimately show False by simp
qed

section \<open>Steps\<close>

text \<open>
  The arguments: for the tangent the distance of \<open>y\<close>, and for a chord the difference \<open>d0\<close> of the
  abscissas and its distance; then the slope, the difference of the old and the new abscissa, the new
  point, and the quotients.
\<close>

datatype ec_step =
    Tangent nat nat nat nat nat nat nat nat nat nat nat nat
  | Chord nat nat nat nat nat nat nat nat nat nat nat nat nat nat
  | Chord_neg nat nat nat nat nat nat nat nat nat nat nat nat nat nat nat

definition third_check :: "nat \<Rightarrow> nat \<Rightarrow> nat \<Rightarrow> nat \<Rightarrow> nat \<Rightarrow> nat \<Rightarrow> nat \<Rightarrow> nat \<Rightarrow> nat \<Rightarrow> nat \<Rightarrow> nat \<Rightarrow> nat \<Rightarrow> bool" where
  "third_check l x y x2 d x3 y3 a2 b2 s a3 b3 \<longleftrightarrow>
     cong_check (l * l) (x3 + (x + x2)) a2 b2 \<and> cong_check (d + x3) x 0 s \<and> cong_check (l * d) (y3 + y) a3 b3"

definition tangent_check :: "nat \<Rightarrow> nat \<Rightarrow> nat \<Rightarrow> nat \<Rightarrow> nat \<Rightarrow> nat \<Rightarrow> bool" where
  "tangent_check x y c l a1 b1 \<longleftrightarrow> nonzero_check y c \<and> cong_check (l * (y + y) + 3) (triple (x * x)) a1 b1"

definition chord_check :: "nat \<Rightarrow> nat \<Rightarrow> nat \<Rightarrow> nat \<Rightarrow> nat \<Rightarrow> nat \<Rightarrow> nat \<Rightarrow> nat \<Rightarrow> nat \<Rightarrow> nat \<Rightarrow> bool" where
  "chord_check x y x2 y2 d0 c l z a1 b1 \<longleftrightarrow>
     nonzero_check d0 c \<and> cong_check (d0 + x) x2 0 z \<and> cong_check (l * d0 + y) y2 a1 b1"

fun ec_run :: "ec_step list \<Rightarrow> nat \<times> nat \<times> nat \<Rightarrow> (nat \<times> nat \<times> nat) option" where
  "ec_run [] s = Some s"
| "ec_run (Tangent c l d x3 y3 a1 b1 a2 b2 s a3 b3 # steps) (x, y, e) =
     (if tangent_check x y c l a1 b1 \<and> third_check l x y x d x3 y3 a2 b2 s a3 b3
      then ec_run steps (x3, y3, e + e) else None)"
| "ec_run (Chord d0 c l d x3 y3 z a1 b1 a2 b2 s a3 b3 # steps) (x, y, e) =
     (if chord_check x y 0x6B17D1F2E12C4247F8BCE6E563A440F277037D812DEB33A0F4A13945D898C296
           0x4FE342E2FE1A7F9B8EE7EB4A7C0F9E162BCE33576B315ECECBB6406837BF51F5 d0 c l z a1 b1 \<and>
         third_check l x y 0x6B17D1F2E12C4247F8BCE6E563A440F277037D812DEB33A0F4A13945D898C296 d x3 y3 a2 b2 s a3 b3
      then ec_run steps (x3, y3, e + 1) else None)"
| "ec_run (Chord_neg f d0 c l d x3 y3 z a1 b1 a2 b2 s a3 b3 # steps) (x, y, e) =
     (if f + 1 = e \<and> chord_check x y 0x6B17D1F2E12C4247F8BCE6E563A440F277037D812DEB33A0F4A13945D898C296
           0xB01CBD1C01E58065711814B583F061E9D431CCA994CEA1313449BF97C840AE0A d0 c l z a1 b1 \<and>
         third_check l x y 0x6B17D1F2E12C4247F8BCE6E563A440F277037D812DEB33A0F4A13945D898C296 d x3 y3 a2 b2 s a3 b3
      then ec_run steps (x3, y3, f) else None)"

lemma hex_not_zero:
  "(0::nat) = 0 \<longleftrightarrow> True"
  "h0 x = 0 \<longleftrightarrow> x = 0" "h1 x = 0 \<longleftrightarrow> False" "h2 x = 0 \<longleftrightarrow> False" "h3 x = 0 \<longleftrightarrow> False" "h4 x = 0 \<longleftrightarrow> False"
  "h5 x = 0 \<longleftrightarrow> False" "h6 x = 0 \<longleftrightarrow> False" "h7 x = 0 \<longleftrightarrow> False" "h8 x = 0 \<longleftrightarrow> False" "h9 x = 0 \<longleftrightarrow> False"
  "hA x = 0 \<longleftrightarrow> False" "hB x = 0 \<longleftrightarrow> False" "hC x = 0 \<longleftrightarrow> False" "hD x = 0 \<longleftrightarrow> False" "hE x = 0 \<longleftrightarrow> False" "hF x = 0 \<longleftrightarrow> False"
  by (simp_all add: hex_defs)

lemmas ec_run_simps = ec_run.simps if_True simp_thms hex_simps shift24_def shift8_def cong_check_def triple_def
  nonzero_check_def third_check_def tangent_check_def chord_check_def hex_not_zero

section \<open>Soundness\<close>

definition point_of :: "nat \<Rightarrow> nat \<Rightarrow> ec_point" where
  "point_of x y = Some (of_nat x, of_nat y)"

definition ec_state :: "nat \<times> nat \<times> nat \<Rightarrow> bool" where
  "ec_state s = (case s of (x, y, e) \<Rightarrow> ec_repeat e ec_base = point_of x y)"

lemma third_checked:
  assumes "third_check l x y x2 d x3 y3 a2 b2 s a3 b3"
  shows "third_point (of_nat l) (of_nat x, of_nat y) (of_nat x2) = point_of x3 y3"
proof -
  let ?l = "of_nat l :: gf" and ?d = "of_nat d :: gf"
  have c: "?l * ?l = of_nat x3 + (of_nat x + of_nat x2)" "?d + of_nat x3 = of_nat x" "?l * ?d = of_nat y3 + of_nat y"
    using assms cong_check [of "l * l"] cong_check [of "d + x3"] cong_check [of "l * d"] by (auto simp: third_check_def)
  have x3: "?l * ?l - of_nat x - of_nat x2 = of_nat x3" unfolding c(1) by simp
  have "?d = of_nat x - of_nat x3" using c(2) by (simp add: eq_diff_eq)
  then have "?l * (of_nat x - of_nat x3) - of_nat y = of_nat y3" using c(3) by simp
  then show ?thesis unfolding third_point_def point_of_def Let_def prod.case x3 by simp
qed

lemma slope_by:
  assumes "(l :: gf) * d = v" "d \<noteq> 0"
  shows "v * inverse d = l"
  using assms by (metis mult.assoc mult.right_neutral right_inverse)

lemma tangent_checked:
  assumes "tangent_check x y c l a1 b1" "third_check l x y x d x3 y3 a2 b2 s a3 b3"
  shows "ec_double (point_of x y) = point_of x3 y3"
proof -
  have y: "(of_nat y :: gf) \<noteq> 0" using assms(1) by (auto simp: tangent_check_def dest: nonzero_check)
  have "(of_nat (l * (y + y) + 3) :: gf) = of_nat (triple (x * x))"
    using assms(1) unfolding tangent_check_def by (blast dest: cong_check)
  then have "of_nat l * (2 * of_nat y) + 3 = 3 * (of_nat x * of_nat x :: gf)"
    by (simp add: triple_def mult_2 algebra_simps)
  then have "of_nat l * (2 * of_nat y) = 3 * (of_nat x * of_nat x :: gf) + - 3" by (simp add: algebra_simps)
  from slope_by [OF this] y have "(3 * (of_nat x * of_nat x) + - 3) * inverse (2 * of_nat y) = (of_nat l :: gf)" by simp
  then show ?thesis using y third_checked [OF assms(2)] by (simp add: point_of_def)
qed

lemma chord_checked:
  assumes "chord_check x y x2 y2 d0 c l z a1 b1" "third_check l x y x2 d x3 y3 a2 b2 s a3 b3"
  shows "ec_add (point_of x y) (point_of x2 y2) = point_of x3 y3"
proof -
  have d0: "(of_nat d0 :: gf) \<noteq> 0" using assms(1) by (auto simp: chord_check_def dest: nonzero_check)
  have "(of_nat (d0 + x) :: gf) = of_nat x2" "(of_nat (l * d0 + y) :: gf) = of_nat y2"
    using assms(1) unfolding chord_check_def by (blast dest: cong_check)+
  then have d: "of_nat d0 = (of_nat x2 - of_nat x :: gf)" and "of_nat l * of_nat d0 = (of_nat y2 - of_nat y :: gf)"
    by (simp_all add: eq_diff_eq)
  from slope_by [OF this(2) d0] have "(of_nat y2 - of_nat y) * inverse (of_nat x2 - of_nat x) = (of_nat l :: gf)"
    unfolding d .
  moreover have "(of_nat x :: gf) \<noteq> of_nat x2" using d0 d by auto
  ultimately show ?thesis using third_checked [OF assms(2)] by (simp add: point_of_def)
qed

lemma base_literals:
  "ec_base = point_of 0x6B17D1F2E12C4247F8BCE6E563A440F277037D812DEB33A0F4A13945D898C296
     0x4FE342E2FE1A7F9B8EE7EB4A7C0F9E162BCE33576B315ECECBB6406837BF51F5"
  by (simp only: ec_base_def base_x_def base_y_def point_of_def gf_of_nat)

lemma base_negated:
  "ec_neg ec_base = point_of 0x6B17D1F2E12C4247F8BCE6E563A440F277037D812DEB33A0F4A13945D898C296
     0xB01CBD1C01E58065711814B583F061E9D431CCA994CEA1313449BF97C840AE0A"
proof -
  have "base_y + of_nat 0xB01CBD1C01E58065711814B583F061E9D431CCA994CEA1313449BF97C840AE0A
      = of_nat (0x4FE342E2FE1A7F9B8EE7EB4A7C0F9E162BCE33576B315ECECBB6406837BF51F5
          + 0xB01CBD1C01E58065711814B583F061E9D431CCA994CEA1313449BF97C840AE0A)"
    by (simp only: base_y_def gf_of_nat [symmetric] of_nat_add)
  also have "\<dots> = gf_of p256_p" by (simp add: gf_of_nat p256_p_numeral)
  also have "\<dots> = 0" by (simp add: zero_gf_def gf_of_eq_iff)
  finally have "- base_y = of_nat 0xB01CBD1C01E58065711814B583F061E9D431CCA994CEA1313449BF97C840AE0A"
    by (simp only: add_eq_0_iff)
  then show ?thesis by (simp only: ec_base_def ec_neg.simps point_of_def base_x_def gf_of_nat)
qed

lemma ec_run_state: "ec_run steps s = Some t \<Longrightarrow> ec_state s \<Longrightarrow> ec_state t"
proof (induction steps arbitrary: s)
  case (Cons step steps)
  obtain x y e where s: "s = (x, y, e)" by (cases s) auto
  have e: "ec_repeat e ec_base = point_of x y" using Cons.prems(2) by (simp add: s ec_state_def)
  show ?case
  proof (cases step)
    case (Tangent c l d x3 y3 a1 b1 a2 b2 s' a3 b3)
    then have c: "tangent_check x y c l a1 b1" "third_check l x y x d x3 y3 a2 b2 s' a3 b3"
      and run: "ec_run steps (x3, y3, e + e) = Some t"
      using Cons.prems(1) by (simp_all add: s split: if_splits)
    have "ec_repeat (e + e) ec_base = ec_double (ec_repeat e ec_base)" by (simp add: ec_repeat_double mult_2)
    then show ?thesis using Cons.IH [OF run] e tangent_checked [OF c] by (simp add: ec_state_def)
  next
    case (Chord d0 c l d x3 y3 z a1 b1 a2 b2 s' a3 b3)
    then have c: "ec_add (point_of x y) ec_base = point_of x3 y3" and run: "ec_run steps (x3, y3, e + 1) = Some t"
      using Cons.prems(1) chord_checked by (auto simp: s base_literals split: if_splits)
    have "ec_repeat (e + 1) ec_base = ec_add (ec_repeat e ec_base) ec_base" by (simp add: ec_add_commute)
    then show ?thesis using Cons.IH [OF run] e c by (simp add: ec_state_def)
  next
    case (Chord_neg f d0 c l d x3 y3 z a1 b1 a2 b2 s' a3 b3)
    then have c: "ec_add (point_of x y) (ec_neg ec_base) = point_of x3 y3" and run: "ec_run steps (x3, y3, f) = Some t"
      and f: "e = f + 1"
      using Cons.prems(1) chord_checked by (auto simp: s base_negated split: if_splits)
    have "ec_repeat e ec_base = ec_add (ec_repeat f ec_base) ec_base" by (simp add: f ec_add_commute)
    then have "ec_add (ec_repeat e ec_base) (ec_neg ec_base) = ec_repeat f ec_base" by (simp add: ec_add_assoc)
    then show ?thesis using Cons.IH [OF run] e c by (simp add: ec_state_def)
  qed
qed simp

section \<open>The chain\<close>

lemma order_run_1: "ec_run
    [Tangent 79657838253606452964112319029819691573475036742305299123656433055298683448842 73404963663004311880882944372748989162084677934852963787452504780932599885725 107716430713571529108640974298193799037424282785529132217851230704639646247197 56515219790691171413109057904011688695424810155802929973526481321309856242040 3377031843712258259223711451491452598088675519751548567112458094635497583569 14977763592705361599069626339595274245038754281486362765233116488694613306585 0 0 46534169364352948997359741750105301721628942037719297803569804305146118019163 1 0 68285499781197989585719486999227194864630654594358475924934958553370135935997,
     Tangent 112415057366643990503473735497916120931997467895538765628421173214231600270382 87876972767636602721277556159866268705790392400063007550586851983819265240629 69937444751394362853081154129677800625605773566187346870280141192349572370725 102369864249653057322725350723741461599905180004905897298779971437827381725266 101744491111635190512325668403432589740384530506764148840112137220732283181254 77625195248966972021901033047669487927741899854888268926558226865316902967245 0 0 66691622851496750087600276706916432343928564453529296610258552421876053353545 1 0 53076949986551359155712414637642380075012279143865775298674923289236871928302,
     Tangent 14047598098721058250371778545974983789701612908526165355421494088134814672697 27703172120280106276542475014640964877769784128290397894053506393076766133776 57658973714803677641718155180021875510167425180345275322331263939138506937535 44710890534849379681007195543719586089737754824560621976448707498688874787731 78410552107786285403689301656392479612049391334024095564584156230482213311870 222825904570151469936480686775614624055051021359099650389769339990524761084407 0 0 6627963540165782931308659620073212613948216025968493060238854333066827531063 0 0 13794867024102797167633170548709480530087960287170413670605167954771568586836,
     Tangent 37381537102569963359008145293015093918036752081266218630949475078384884542081 50497038961444600098837179579397293704748998380821210436411903751412026535562 106830934497147739328261651842152912663712464729901708354827891308657121965860 53672045248057889115442990650974246956111433509949227817154447498898850675822 76677617734363509249014819591226621404800471122547084603525198673829417472272 0 16597076928125735250226123237987612538985573517653716085827390343461446696800 0 22021806163642400483717190451476557770507115257556917290677183797878973792560 1 0 46589070966581345452705754757829563382754396570518333569098896202412046071078,
     Tangent 39114471475992739513682627358180952125285672292743229592008432635037680381679 105685889379630057297744864244456376859903278774705175695258468745067094181512 37629461514751619431341637780437620850941713060641950683146443889813226040205 16042583733306269684101352870536626105169720449307277134008003609085624635617 32399114438360517224045093278977987173122871862196854131348009719644938621618 0 65336234796337407025248441044385020687227937174940292024505107894696099273929 0 96461746999590534112006022212998027193724610493481035814559290617886424113533 0 0 34345205567872236405357056752272055927731587891350694639127348739217723044570,
     Tangent 83392974771995731538652353670429586356963271553093460064185621589222159232333 92257190264489947509697648432172604104304826414879497996841292444775804499812 11508384965989475092458107726914327295427091769411829079435280690089592613212 4534198767316794591643245143622298809742628679895448054572722918996032022405 38538856030597174617352966265796180312895426960288118979288294421866280361154 0 44959971680825098776515824657108850627804435872902947115857376474966051985968 0 73505791402000668709596716232138503076716027744443316273520761027301321894455 0 0 9169290136180799020884137662485132456216300378984925654466849492667379843972,
     Tangent 77253233179759074145344480683611393217190716455002195216245336887000817492797 114115874858064772752367312727904859571072396233825359945061815555709499712488 41511673225010239907788184050843384681037489140664748759425107745782789448334 78814614752662803446552508042186487658791282954521013490681246482080340428022 12674104618141790467894299044247475822858341166545530384190000277770750348115 0 75429277838398552245894917142250254921442338664204684675837316965166654993832 0 112463925501542771450808808645601266753909095737329742300008684812291248574912 1 0 40910747350696085046405709713876409565228817621427963157622325334106325462373,
     Tangent 103117984592214458294803147905160097707227802248744783811343631031096347505836 66938769057372856527559482745200173897135108467541782981739920156071062623541 55006649818603325011116176265836369809721670656752270555899010394159296315611 23807964934059478435436331776350117849069612297768742934782236087921044112411 86241443812278992969236146751152550194975751834835207077668085446343782543686 146283331506134193396004853082631394126302199286169472695383348598074993244469 0 0 38696933732460392563169672272683321552658660804026443300653503963144404832526 0 0 31799041315664850456598752386506188367596290255030648167370306501868565469250]
    (48439561293906451759052585252797914202762949526041747995844080717082404635286, 36134250956749795798585127919587881956611106672985015071877198253568414405109, 1)
    = Some (23807964934059478435436331776350117849069612297768742934782236087921044112411, 86241443812278992969236146751152550194975751834835207077668085446343782543686, 256)"
  by (simp only: ec_run_simps)

lemma order_run_2: "ec_run
    [Tangent 29550645398077255793461300198255023335110391580455107117865545862523315310265 40698697603971872279271710726172391355387150554621642216296652002170646586249 21651415438106704121325180002171739900509919055862403528072263051447442123581 2156549495952774314111151774178377948559693241906339406709973036473601988830 22115702523015271602572671974768413662894969172470766522001632807566541942422 0 45938987185246977891851292681816748788720556879245675782702518124335605690268 0 14304811304081744068290486989514160968243291545772291687252387477996422095299 0 0 7610057091315192195496796521219418538593131617656150018189723569979425613111,
     Tangent 93676386687340977160124774974639159867191174242819547673531998501300555911529 95311599245426418654495727586828151183612009396925129991073108083275900131681 107735189813467525036464776235006571573513817193802255407479929944499967348438 10213448892841498040343822488579379905132019463394398194763674400840732494343 104774171927457593387914541038977971788686657480131065027322895015444410926119 0 36287572521388701097253658692656678664997931871163049640256568545098492413917 0 78453554233895672156824341487293340950739631837171792224120838748662570214658 1 0 88679747521238901864778539960091987213036310983573798632860017418818815602087,
     Tangent 11017917282898655374782905910429601741399485935159249168210736293422686927832 12675700153287740156474934495044206495520278534961625499302018441846204697920 46351821187531846741839487807406094518355687451598115798950534891508890567750 79653716915665900061201781630580858916862475427086596591346770818198939780544 56231866189639730753959129374618610980738706597653232502602271548117074579564 0 20236515080110588983533344567758194443730789710590231192117095084458367916816 0 1387602343750513176200707216336407679493195190551953201187047017429890910670 1 0 5074109906287230261672556106184926832620663565796713008312026351301930939667,
     Tangent 59560223020716518008738317574788962549347436817637081692931359760750023274387 73677156909817085348988077401502627256997272658967852540903805428873672422557 90921460880606979979139000074465402943994281336909082307033660723791125868160 104524345245415168844760228505523029502954337505467828479846741403274911766335 24068680205777287268608992964267617520729588536215884430823708440404643944657 92822712428527245942899152595046491245568478779117448659915443180394346894459 0 0 46879916299396966144743825280548329020876923651256009597404729251716001643126 1 0 57852265948848117985470982184226479650871625278890169712945197118394951132349,
     Tangent 91723409004578961494088453985139956009356554879074429764709922868462453909294 67875135776635817957545939771801546118056421901876765181535992042648937710865 63661121208940232703129086433807696045952523174440327228962694542241893180044 40863224036474936141631142071715333457001814331027501250884046861033018586291 3386129191566091291470497666167764336438333215168340315524161147129268811747 254841989416716614681802414679130815784414851681478510254401264638426743460162 0 0 39787122661957309625360111875254611813632994137985764921480720387306683496464 0 0 37316946910767241416901523264417652580572850918539277823321123908253186820456,
     Tangent 112405960018790157471226949283239809193647810200121973880009470161737829042204 66282883146782992045710058728844105453481577034815386844747305309170508801098 114630158574730566813025734589032343739182713102021427447268990412717501279667 42025154672100618091302854432090563247905244644296387999148687757182615160575 94723202283272416307777814951919253088047486446376176713972625696391150511635 39385457642373822395793430330125253554318489092803202096638183759458747353028 0 0 37942320828745774842795907533735901068191282919841987207985914988049214999297 1 0 65617759017224094918839419622804657642948186396320953487691698629130725424184,
     Tangent 21068886927083832454919631997488320442038656968914137481561005612475947342316 21431968312620642128788201606615470948139103105573672958570419277457591832216 106413056724494488677663379485137317199849178335969746479555070277773931603778 51404187157962378176336921896360819578142209723616955715127248788275781410748 89443666980066831661724560541201252349280700609614168942421156125843984449387 10692712641038568185941626500161408066799613265824784672709327564654991275152 0 0 3966844962255795113391674924964053485284848580916152097254199399503904289658 1 0 19696002337649264227761321257736651821821244980769366945431852937051281013326,
     Tangent 26348422230289417100972886408206321180805442805676145253112475183023113404564 101306383912587663547390020465441668084273096745480984708637300272370785708914 94783440570310134039219296996682336501227139667762260889375715444829939416055 72412835798008492899815071849086056607001213471145009021285164652312939848644 102554733615261634604727271955114922528443021960973746229359109862289549224144 0 88047962763938646717181643364860531448138882108655525742175899996563688343777 0 88632854726371900279487972404740449649139863013130641876129270295461532968056 1 0 82925938071017841150215686549209882030246376807911655628901769883080131344189]
    (23807964934059478435436331776350117849069612297768742934782236087921044112411, 86241443812278992969236146751152550194975751834835207077668085446343782543686, 256)
    = Some (72412835798008492899815071849086056607001213471145009021285164652312939848644, 102554733615261634604727271955114922528443021960973746229359109862289549224144, 65536)"
  by (simp only: ec_run_simps)

lemma order_run_3: "ec_run
    [Tangent 13237355595094614157970174994292651001643121454316567966174521446577548629807 19766169040874654221922818942482627621010133804969109414518357107283128205630 95260112091981150460285678670503711265392284197908612180659058947458496516758 92944812916383591202226840127989918871695072688526711036159737013721541185837 60553895363376070190549143159633388307375388321283848599920050874556475421615 100841327273689259430398208465672646640333372126379034935253224948325234170515 0 0 3374163478842283222678202936039116010371998160266211123277641034684447215025 1 0 16261279084809545489328955753270156169385700092998220230851901299110416844331,
     Tangent 55238193846980178572148303789774185222710755094006465595613580434310622432336 107643709564164152698703452733094107815106753189282039550341495345545121162198 85992194389380059526929845771213621408511700142064861992695634442593552032275 6952618527003531675296994356776297463183372546461849043464102571127989153562 112471650221151969856728932103620803121465996982724043976638783413918408814746 111231457874797697677801361312043125967805769209706778610781457617353223814364 0 0 100068737750158741754812492893186269909057351981485357503594807355338145012368 0 0 79940856588393656061383080629065911982848800198199616108750563970113275400039,
     Tangent 3320438989204278905968514845786770408620146432566270218894847894948689039205 83052415994172762920099391894576162135828269823844400836314597982615477592668 90583117349268550076047214179618026316661126594555187607421274906531005775198 32161590388091230361947227126565844676608389367196975631576458973464081232315 15471909706627164928854461425101131289995033829824593821518099868480843627020 0 160089242509603070216592578863761240521984393372638486631712566807268982641977 0 59569732695108888261901716599076264158404504659076084910940510207087856205535 1 0 64971163362233920952701061968130091650156485489255731040722185210455808434398,
     Tangent 100320179503729083833842985524306442240091109585465720374015531440386254226931 1978492935384150496586660162836772214089456480670725909912700956879815233882 25477217856446908455881184033805510102058960152522812563917778185885317960138 6684372531644321906066043092760334574549429214674163067658680787578763272177 96855569752147665018863380411147536628722905149448873330403642614010621941036 26270201889570011199290127049589336382387393505568621806811252513050456525992 0 0 33805714380485432370706923479098974261713698888089833630936427131963158467 0 0 435318991875611366918516460173322260422670363764113386265708136149034820660,
     Tangent 18936519458208583743834066538260036901363238265841440865129988694856475912915 28696822018140526596358174856571398460797524418450815763082584593846790534031 90151165018221637951855047741948748630884814646058256790658593519235350538279 32325296723778932716908442300219159473750757983906220472533718577210510587849 20736800745816317547941100211167809857392517429255853975351510004630564684767 0 46849932684135044335442063008371601334409893787297558810618943973136573174648 0 7111950389329202969015393713435996619737656172826276450757378600723957427658 1 0 22342216596127718495116220373660519844090505684045798874067107643667157870146,
     Tangent 95055288464539931214756346738239763672693625986034460220182121304236533169184 79783194831804012717082298577301539485505011095582063432572450902672107348967 8244458050527743449683801244957381988447999664562363965773118641089349818939 24080838673251189267224641055261777485302758319343856506760599936121160768910 70782045015843204772139723009081065570680123181450092687981893546901991795586 0 1503746970366364752119692653734651944061941866230031851719898472472491162878 0 54972306147839084395262989010731057096050543397278730028319361228994453050031 0 0 5680605708157999806592135152655980934831038832239785482594836676819381498660,
     Tangent 45010044194513043990557723940326507959406020233840221507551737761965106058365 91107262081107037533870170166398668093208034828978329237959331267974622557247 39605378844811437950273090545834449788143680886440621188326353088723724655861 100267549038796000079648997458834901227245220848193549513967878156264533967000 5009797542289624972333303858064459697507098334052838364352435118597123504984 0 96361127554220654650066214576592918342100754276344602460958133238026779113037 0 71684803862863013119843201058841925753516708028634264171108623457761938265139 1 0 31162211985661662516424465612599549662156464828188597770253293114041431458447,
     Tangent 110782291668066623790364143091343113832579045081237475831181196190269974348967 40164012498358870159469040550151384009269135136777649463223107925134138354231 103451650296678648729712633103662765402384084207087077661494248913120855451794 112607987952473600112633811304579709354947280056396786048007260552010776369157 103808385594532261808417197518044123929568276946600525334048096014844982592250 256997841834215841762446253601777998783231918466424063327623055286228245336339 0 0 13931417171666769695848794078460921629319199987757131801290056387840070402404 1 0 35883568591143730766074071935622292639107452972590650431923989649813280232180]
    (72412835798008492899815071849086056607001213471145009021285164652312939848644, 102554733615261634604727271955114922528443021960973746229359109862289549224144, 65536)
    = Some (112607987952473600112633811304579709354947280056396786048007260552010776369157, 103808385594532261808417197518044123929568276946600525334048096014844982592250, 16777216)"
  by (simp only: ec_run_simps)

lemma order_run_4: "ec_run
    [Tangent 11983703615823986954280249431363449600517866468689788861485535294022115261701 90046739475501331108200754562683651664404557931781745380429797588667984874036 39741993761369699744215358586668201084780483729094099568308884764973126975327 72865994191103900368418452717911508270166796327302686479698375787037649393830 47739020510692012294675537081390407274995880016472573531102395326084814450736 167079320168070164863590891554945062895375361659735438494201424191811368611144 0 0 70025641176906986658044906609243243941110891101240085160934977516363240926752 0 0 30905711978007814789201526739706035483750225384802854593174978575157918277086,
     Tangent 68053068699664236468021909868017166255090263398817740664431235982782283403215 16404100494775509928361681595121949705948261840673203432255118892108257537640 74320480744354402564595872901256182904639903241071602962308793777159180956567 114337602657105746566520026766062898895613036501521397712923213318745566291214 22031670490518099985769479050822638414518110334638301895014522352320470045858 124033757801222533719070748074798849375416371643664482186719471898503016530967 0 0 2323945572428852688629426950866608009852482291072432870547476731857749888026 1 0 10528876741619220622809473104493848438844853558956276929806349844807714270586,
     Tangent 93760418719838148776927967898584935115568033080652012300519108956546627808093 11569599537348033977467371435938979685232707537551743222071909195454674093916 97722391236107538721566035131801072280064452254819259037469419088046562461451 16615211420998207844953991634261826615548584246702138675453794230699003829763 96151858191390696272824414073643418914225141229386506707267472495832706137165 334301481203711374494318556992420660162444503577171944394138238167603774589479 0 0 1155999812832049844618696707865729903252354019713195539679516730633793273615 0 0 9764129312667186922745648597406271489059764402052469195041310600064062389243,
     Tangent 19640231018965552489873032875764154615861002185903807488266158813034391716786 62413738309988737011728987891352272028280215314959104236530144913945818652447 83033264959326388315227545329989614315386187040379915485337309502099590426693 49374035672028068292423893253679785830248540621612537385650116037466511257021 79256956600639487529482899901486295393487541625893452108323742222982335905023 0 96502258097787240401943040773798303655371145594038723565997742563327668968306 0 33641976376736374227788405890909901705022812488941609684519797355712952591362 1 0 44756222169725289152365371590703328153828006342678488632740532128621026805233,
     Tangent 36535132609716761233214547047921278136598601789396862087209889085884761948928 111615304651364738675655952626219126063231495712489021685077446618122530036017 70544573982198076522352991113860193078666207631712262329502132098078069950898 94621550900186240532768349089227166281668476405190589251681615248255539160074 23612451419535512356446731195296399189245073635318629801499671275538232646231 0 89636456070475163838470531021619701982786448405227884241068313930571749773562 0 107589182623563395634620847814325858640774297446162789663260401655706998924323 1 0 67999931344356058922452892727866488648165484998533435496713201464135236524612,
     Tangent 92179637790820736406250715754111174340841069779971684394033960033328865207720 12813714215384421541252168839617386849896304419704425444912218135839687442474 15015628521711616559608389581654537691235662934926262049263303361666238031404 79605922378474623973159959507572628590432813470264327202418311886589301128670 45965289954538637928972426711663391846762557009143098280278750794428678321058 226739041107933375190225563235815240093945175205321111580534322580342224466787 0 0 1417983500541760774168042429857188798301058757817845260538761321429710847758 0 0 1661650411126526623594291502345703654632479706102276142667742792171765861057,
     Tangent 69826799255817610833725020237744181683323586406147215915254880514438419532893 104794485565060306380424063343557915522290778923280060870536098554596864346151 19802291719893712338049545140507646666785708041515293422758998319569174617739 59803630658580911635110414367064981923647105428749033779659313567020126510931 68101072679436867230445935848898376370573937333418965600767120482840390450091 80985591225303259083405840824000562382274427906462224542249709424076051723731 0 0 94841403067658198521205474356432238538480042237444845495853287857945098528030 0 0 17921526314510223732636714592331720608596844707957042118222294352412980113440,
     Tangent 47691016530919381532251511100509197159512206081871348594766510826026707403860 102822934285599741640305051773127442245923842686338691116417439709937025311912 1958084374061773875242342487484117176173056746844778574140483516833378125328 57845546284519137759868071879580864747474048681904255205518830050186748385603 104300214627605143922035278089265480928211230602089785806215194357861799731457 0 28285883295526253499490739113390693667826105593938434736586994986190042936904 0 91306374098613045216376811121247396173922639510103170695676167379305673058729 0 0 1738771467833627520182639905176807262923821696201575295185365118534645522988]
    (112607987952473600112633811304579709354947280056396786048007260552010776369157, 103808385594532261808417197518044123929568276946600525334048096014844982592250, 16777216)
    = Some (57845546284519137759868071879580864747474048681904255205518830050186748385603, 104300214627605143922035278089265480928211230602089785806215194357861799731457, 4294967296)"
  by (simp only: ec_run_simps)

lemma order_run_5: "ec_run
    [Chord_neg 4294967295 106386104219743562761881960322624622985375044259427806985858881975762754103634 9405984990612686000815486626782950544711099155862507209674749333104343750317 2994969309152970952502738985577851916860332913377843180479771831863260849910 13737267093498465490191547495108474561887864558270445684144322097327872620642 44108279191020672269676524384472390185586184123633809521374507952858875764961 23676630656755336655456153975661343253619113743149438738258592382338839638964 1 0 2751682945107309048553710197557685378353584262818964126042655994757062175805 0 77465060212126966812493413284291907548472698462849927644604635587252209750 0 0 355315234548727767972887591501186890721082289735740973193632674254659738249,
     Tangent 92115458553600912107241292973746230276467029672140875457275038926528258214987 104555946567286389792370838099024471843493796523862752548186056154541801728560 109628521801922472057229257724373272695063709568093989046582533801639752289798 50271846599454448975144713609506691020608617970830134670325605460086221329114 10615135060133790210180862747282964019463459519911184734795781022150333763121 7647809327355218429361035156918944165323108212196156577580014567542352994880 0 0 94410127990017402898394857109889870762976662225351447025355399364830412196764 1 0 98990474616526973032823962705930970283896860357457813676671198531016719951045,
     Tangent 105176954150222458552516584202124609510622683895379129460737850286716764090830 87185003277022714453495554820469931908587951283074689584489200932141184851951 6162822778633357629974674347237089820139714729416324429873543136753566039451 44109023820821091345170039262269601200468903241413810240452062323332655289663 76554489819432333607505496186608996966913110691938446592159342207793218141761 49492280091247189915020630380838114291864513277130007959878639352403683129493 0 0 65645458582283017991477918106024331914429196436769525751699074136478159469010 0 0 4640262800464298037869431351603316845247041170985971006638168287427168961469,
     Tangent 39237599390923915155191950762798576563173032723351867603374289101073879712190 102290578275991145773391791415444759461835579959628886621704647429177874408299 100498167148321915175799556995672761267773165391600476276842585991905412273658 59402945882855424932067929216004413462781881265103648159143107640294340869956 110162713540023283015914563531572245379175160543013362116704757393975953863190 0 84848526235507468015061027659131685680955118652052730311629391430417844396074 0 90363361395338277345914447805938118536670564656452545435585924563312677026569 1 0 88779947778674654990640523571347682432091311963284319083092583070530987610841,
     Tangent 5629375670332965746782883417835328150910982872276952078828873914891143990761 112058027311960515046957215189281606908195305841796123406856696715282189535735 1399795336441459072579422662023902622463692590924799661818521102428796563562 58003150546413965859488506553980510840318188674178848497324586537865544306394 74163700890997423830400652609941328384259476849670702973047187618920299233675 0 121796772843006225419927424500575873301480942322284229129912831006316779170745 0 108444381396695722999270477004452124952811723865594595511193576310288645636369 0 0 1354654753289336428852268511696694926621727484946324064050691582928305668955,
     Tangent 41628388319358824932296794339466245145826666565619611222486443689946798620276 35597195622703133496610498550630992986555911464123311226053898227580347407769 62639595808744133581465697826609399847232667695577769136788366331177534669835 111155643948026081040720255676778684523171664393891393556069851515555107490510 52475110367517866012668008749546493462951080893459840787622866113123492276020 41566370512109739283811050250767793502967493120456975534380068022269380927805 0 0 10943410252309900020819116722336785574057217247450545081804811587996269437713 1 0 19256876362944932660083987328858978935880396810413901200716011117312284229420,
     Tangent 63316978842838382750029438199861080067135062521830473407910765195743605577931 37869522475180083744938178272296846089239575967476808962076767218307516246816 113983044309987071518332581621652417020946474492028988441521738812649500530693 112964688848395258285085121004533841032311333317152719310081744011772704813768 87603246520117426545061451348596507725681540761082294324827606250115647188637 285790825843746621165467238668038182367358456279921041619248786518293546798007 0 0 12385135653722240212312953615154867860546731836828667689129677620015758394468 1 0 37277878719718650520165699679138389827811501565621972272305867111979267128881,
     Tangent 28188842690238822217635995600811065804404602654208019870706025058751450665314 83665229526843910575576259414031858276995819118225592631556002006018963361327 81453338852276751841492838917737716973025373525527784009941306603689493293558 31511349996118506443592282086796124059285959791624935300140437408083211520210 111936869487092448000634194913520992445475310869736187536567428787207923968583 204024052818685260260141709543955302193727162604649035895966880544897756402921 0 0 60452062653978070978824313963665376982410227933052176739914146611141943312833 0 0 58853867628411543426569231747528740770987184543948378506694131049370036367546]
    (57845546284519137759868071879580864747474048681904255205518830050186748385603, 104300214627605143922035278089265480928211230602089785806215194357861799731457, 4294967296)
    = Some (31511349996118506443592282086796124059285959791624935300140437408083211520210, 111936869487092448000634194913520992445475310869736187536567428787207923968583, 549755813760)"
  by (simp only: ec_run_simps)

lemma order_run_6: "ec_run
    [Tangent 3855219723263800762063252035886581084610832545554126658966202521659173885368 60335182151704775867089127284386192061139166715645380060226108072711830090806 43485564999739927361662566947873991068005132185382627054310161207317154320014 103817874206734827844627162088329706521366971021532622441363907509633155054147 19962044775018710164234618236985895632537262333325993624943561665202571815657 0 90926481731667069216249868922650475600073665708984140907881496784903315764949 0 31438539800988487635987814663235922224788355641294501114582176384005823910019 1 0 22658797359314302964104055694515221608831654933886118013293506965978293693244,
     Tangent 95830044435337538598462828712421677897548881081964320570590069643664526038294 103914240160845356833661375718184690407466683369452206669011007329267126096205 86706708755686641945327896935449745895573730479591753874099399042731829580591 17111165451048185899299265152879960625793240541940868567264508466901325473556 100928983825072775243101092301857043207529835910434985414547433998687834195564 243417074317626849331253159136684868684715683517101672322158177737424596171154 0 0 93254810253825837683926306987819709198264353470164173093804637862178324941425 0 0 77812412045062659510399911923121278337238052971213780387747035513144001891634,
     Tangent 14863105385283473519596354647550530322556307504855328780986197310179263658387 65177613485238411505762066086254442864014828079625793539882825440000903374575 40928646189841889390520790586145855782812359457337873741690359391885626801274 91974608471562545271475921516141678373067024499893309021107780383882796526233 50491406920779056608656182445374555482732865964385990460261086113111396246889 0 106036990340781976356360623394087732588761487583977836849361822974877689757445 0 36687491594643300051429012185511296775010756033910177523959488741408500901280 1 0 23038115125372502639518737063222581691515008777639203284944380924718615550447,
     Tangent 65300682289577192154041264504033018047353277450904323735272545195755701607062 15529539772737545434017552474622856700691243879508790136671089732285884757818 108132906366171342536906778393018016071517021476865749569019576346726838309840 99633791315747451497266590072531235831636146438317873647621835346023056070344 24841090262206137448056182599223411477544946045714134575537074584066662285964 205625180001042250865487972633112769630824017069612987517384786954001468187460 0 0 2082755455900935248639021199785946816686830294183614945292199110768455693014 1 0 14502322927298673584852035760255227279366151258546847147840355768299457084117,
     Tangent 90950998948150111314641264350184162052541197369576179619996556724800435567987 52041590357320812188780314911592952939662222567637978561852086839904097670844 27291201868762048743769592911113088127465698218434897236016576965560720049772 72342589446985402753496997161418147704170448219882976411605258380462336020572 25791285396232910393089942617186822175000397164375953868408569618717762179868 234861790769965000503569909166050736529159922823194859726235860613289240221923 0 0 23389569575854568305769964452738431779226845538082161105681124584146646950876 0 0 12265756302512896900955466856022667574463559336849900745079591725292436264536,
     Tangent 90000803814123338369607504332220751355085746250914360327125061690149335674083 44208027075984209832175850560514316244267756793042514067404579604156518742204 87966755529857184294146745318926325668474353478485899925799644231162521952322 100167923127484467222047698791899395565782238156687390681339245458166911922201 25347285043409663358662108720605268300681409580504450448815933055421706794187 115897270262248528765108829963788541298602598426808342340667131034320234311155 0 0 16878093065585341170400356984428408669683521721390355376807538556005456496321 1 0 33584649320781053295668772330993431202079017779001688404837913830270867580783,
     Tangent 90444804166946585404035338228802305229404733834785863746717698253445391059764 91093543835830246575737305470707600378346057465014691389200772227128643497335 57807307964688405218646880092060049294313941484032213053842130352246861174766 42360615162796062003400818699839346271468296672655177627497115105920050747435 89946788344587197468954787961902623304239207887905232208750063985821738377483 220074537063448381823342102251558534441111286700506442632478121329404976450410 0 0 71663217972477558513978957708149617858628079624775432468087668776568827947788 0 0 45476962873917223111102513658391873927875059472311532596423381833988911013940,
     Tangent 25845300865769051293742658987504950225846935527385081986783567323045359476468 96683468364239097603522744161141487774024498519916973672659108720986278946101 65716620182237978128080824660706234037972866869681518411551417217032838917646 92436084190914332638017440988540685763581573218263973411479329197754309683740 113797033096506060617053043314459112281335601107924567506385309633908303989341 0 103715805300212020021661641587560691510287039493739573224004290343731546253594 0 80728252842533395960637377732393077719100180638734939254891983205934318091641 1 0 54871717158946096695251561895891909342427227162220614497203440826661394619522]
    (31511349996118506443592282086796124059285959791624935300140437408083211520210, 111936869487092448000634194913520992445475310869736187536567428787207923968583, 549755813760)
    = Some (92436084190914332638017440988540685763581573218263973411479329197754309683740, 113797033096506060617053043314459112281335601107924567506385309633908303989341, 140737488322560)"
  by (simp only: ec_run_simps)

lemma order_run_7: "ec_run
    [Tangent 1995056113850188145644403634948461248750542307365746689148321674958793864610 23424920283899733890826474375399335232920754552102446296160244673594752008246 98639748585180042515621727309583603865150598415154166310183527809388927817720 109588424816090538885093160628364655428517118218400121296829432697232479719971 52307477765675135970886943883631864339115510512956737803804564363777923625000 175330769678985379665451885080237824125824362469531202011731947268311441589775 0 0 4738897916507926551362992178635660697036712186540901131429854676962265389815 1 0 19954975017629229981798254205682200800093653770151885515466297797917651250229,
     Tangent 63484611444681112791810503065775709190970632902333576391729066945089174228951 103057569772381732661025303597141168486015349579815696774445108851019854064039 81081016553293051111389871463866744307461071634835834663244316651895497542296 28507408262797487773703289164497911121056046583564286633585116045336982177675 108933553066396748688589657796862547600416271741208154315112610660000048265342 218041712989931516277044509509655715420781652223493118302463396089704770818520 0 0 91723560390163657258539572935006226725030047568875528673246985376190600315104 0 0 72163932593672290402440967851671557219537227239043654322405811663410721810302,
     Tangent 6858536143959500074107789152545025929669871674082159880421020648867049588609 32975383636534723128906115342500812559913042624456542940875743952368152630286 8997101439536811007763438210549395392492672064628660529233578978877024273946 19510306823260676765939850953948515728563374518935626104351537066459957903729 43542444911136400606724186793815459892622894485680595212825830481453629506018 0 40989280539732708199161187790809206286363005695066324156207407589944169288352 0 9390761781672637063391849377575431459193975502869536447495589166576072368067 0 0 2562203287018767640794018452823910126465996820655429031501355917020898122996,
     Tangent 72249644299219848155973260155592113637463248929609718982707800827413468347933 29312306033421374657803998337941799041079746503331297541325847752927339010044 87278372919331673193505588880338331647234279084566561543960451580446550368085 48024023114285252335131709023017757611415238849659378755924716794880505389595 51273173166149811835313253465009836338545238188441291260287959239950343117094 0 12183066511401674103718307784240510428289143427522275628365948051833227340464 0 7420293483400632154161536047987004497989100025669080576279700902221463479533 1 0 22094172361489041824966539852303952454374942351498099361349495151442707112028,
     Tangent 64518916044206436927384193484397737191540905226849022935245672068916754736857 3523718244520710252896370731850737877054156053434087436586265151161315077219 85607503599667020255421377783674483142574625862946790812298400402444974889815 78208608724974480842407778188750847998926756402002902139159947701302628353731 73988098736098046396854178358009983000556949869930332776449473311236254835031 56632331288635652704251870441811203524680501742281167154470039111776335623900 0 0 107231766448321386048594069121076992382118516559609182867681423694004133040 1 0 2605158300184114728154008542200909591526342244870296492675165522258603750360,
     Tangent 41803990474258202365843268591397590529529193545359981419084157997630843018920 10215548111160415768543568451557008487575725124175585253488311092553151410495 77535425371521370091137605790544071054536288976097260939372172090142695901394 673183353453110751270172398206776944390467425905641199787775611159932452337 61757823062347853414740174812732800818469939905700108020722266215828156367715 145416682489555587409646970650518145305461639919511143789083172100090241944890 0 0 901248297039100204460004668594757926734057364929752641553660381738790657526 0 0 6840422982291465453879163573505076559376295237856786126518277325048027465484,
     Tangent 54034266148008395347957272136674772711616203509590206174811365093038941486236 81951577729929157413203110387132521967274481918326146261944899706543581191259 20014233397070202544191879452252689337301483738605901937801332216230467951208 96451039166739156969775739895361661137175127102590053457520074703796562355080 12270156519667199335860504791356275283771998151283694464787763426023457929220 0 87406165790668920749672481034072434936102582647229784559966930840917876155966 0 58001035633995171717337947896986024582254307811816496960005040914052926396177 1 0 14165026429096041049500961123701919876165711806280521002581597250742700210287,
     Tangent 103521932690689049426836942158051298246314145264006619730745867882843639924731 32330744057940606064883101145198740754467600677463422165236783067803903418122 79983054095159151430652557203730330047341171120354065389892436133018197028668 16467985071580005539123182691631331089833955982235988067627638570778365326412 96981512729597488525485644459110356910317484675011613198049323289925443891556 234169730194573341464163892128541729442444017892061048129732755588854612094867 0 0 9027188458799947085048328778331676341846777892906130135561902705890308017912 0 0 22332368891153310546351241077192860592362423716151023017365518523612186856720]
    (92436084190914332638017440988540685763581573218263973411479329197754309683740, 113797033096506060617053043314459112281335601107924567506385309633908303989341, 140737488322560)
    = Some (16467985071580005539123182691631331089833955982235988067627638570778365326412, 96981512729597488525485644459110356910317484675011613198049323289925443891556, 36028797010575360)"
  by (simp only: ec_run_simps)

lemma order_run_8: "ec_run
    [Tangent 18810576480758760237211802490297216619768658740278700997484308018941653962395 28019081833753191097233379250830650051986537991593640338327899565622963395353 8777789444655725319981505872807528388773283934273069645753733037171042284231 7690195626924280219141676818823802701060672047962918421873905533607323042181 104978779999530073743226932601723490068452467623743198387753045600485776241297 0 39908445539100698237045643959647718984806789105637920999033665645182091077157 0 6779987753570499063800355018555922369281761948714044152414455398679430373804 0 0 2124027664121866334260238193424733154265534932377680599432094230368330445190,
     Tangent 10813309210826175019470514347684083461633675791547115807780585708381321612654 89073244518576954847657416195273430640272266786978618995219003673095284251163 72983327395268443383730373632202488523891858986307129904075613419534823111829 50498957442012085598108750136028887707254956476946102713331923422939597784303 55582294512669170151617380606174223815923950855717109643223759329516384307184 0 159977973282152410992256972890616158935431278260353833724286083861464669310642 0 68519731729277686664497187273043601741846729704466735079482706071345420323104 1 0 56142537985027357885904603893475360629568893652031248235213777948490781471946,
     Tangent 60209794697687078611080066343233349714162192559573204552309871979350713546767 61962211466796988958615311639724952805368054717702688142287617637155752899609 880616353724900017254234260648931140399229161045921731582164204205790366031 49618341088287185580854515875379956566855727315900180981749759218733807418272 112019989045167547172420702890084738694979479232639663218943140446389918421635 6584476889416543198286065800067706466104570613368380759481437866791794902912 0 0 33156977096088930079603872856163700710738583657728133522429693930719763536653 0 0 471231990913432430293070865054370638927348139164444091530542942116949616060,
     Tangent 3772100165188701590276744059322834835106664182650650976590490862477179432316 109477984708084453533422284642717023519009230078173916074978835741701855302480 77111490278740401201396096887962065372680489920128970390213328168571133511479 88298940019903033142155865936825464724261380811061524787070062359029771760744 76227667970566833061061532662406092933447426423974982453858456670212467019023 0 148036934951333005577759139376357659002713773876334029953133706432083204892701 0 103508186245521312563128475208742830751773957252725703437479357901182202540712 1 0 72906626101349464914008812241321723137471916330706317921439897048557947947362,
     Tangent 39564421239789415701635914287001480596638716991315331741675174638654630834928 109452255664203710773423680945220055600392358242962580174716429819394862407820 41180528244273490221214565790835883083271586201655207641982052180923828309088 47118411775629542920941300145989581640989794609406317145088010178105943451656 47010132789345087951641648676581304781324577731332533920106308782578998501473 57892797900348457372801631301872431642474155001064075786164963428488976222635 0 0 103459539867346659433657971156490215013330701204157315173522185704682761258056 0 0 38925817268836864254118998770667790333005642145946065683557128699258052634864,
     Tangent 68781956421011160811055798272826268748761565683957780275427322526288099352478 82754585743683568612252483626513796518135231100551169733965403856424916827099 98100115601115952277584090703753779717999917877856028105290315064212733791509 64810385384869839406054656391643375453076020146840603235331326422760307514098 56322194540710761291833677713864650080405650623887698679680001922924370349080 0 9674010999726190155735870229105776605238547867393477919324599987729833190599 0 59143258475693635203072345269099282933698820082817620822805614433537881046441 1 0 70110440906111045902413917501380861034504308988326255499676296197097140036738,
     Tangent 59469894669645487470863769235542923449680492791402615515853629385942727504871 67467466162534937075719469219853157409778592346670008836075920744190097616240 97603058266199616229028104396350619598499598876633494271840505102469901431922 82999416329026471939723998944700329384662564685497423159024452629157503936127 59937591077865103198529743586718629737616255362494417906121638236065057197018 43192299979751237997828162077460038365696254694371034484922906480638940274359 0 0 39310621489206933949988910134861912204539092093343773650108094338948486646627 1 0 56869437936920775798300411279811986236633992747039636725204474590732027403282,
     Tangent 55854498132491145564167703362688943792469888052795896289411993072802040656933 43314266832197949953767785670930736362857644574701903714992563013025113651964 42374204075536816212191230787561374933646911077276893360983334669169547721381 40625212253489655727532768157138954451015653608220529798041117959987956214746 115149189501108840792858477450199361508285886131625511182698933058013041024777 133639558729384783419308136865423096428976831146771699440141128578721065157680 0 0 16202537876335734320816094063067765962512748485388638222380152975588601041096 0 0 15850889250261975242144727500417733812410353222792368927230997407510582136439]
    (16467985071580005539123182691631331089833955982235988067627638570778365326412, 96981512729597488525485644459110356910317484675011613198049323289925443891556, 36028797010575360)
    = Some (40625212253489655727532768157138954451015653608220529798041117959987956214746, 115149189501108840792858477450199361508285886131625511182698933058013041024777, 9223372034707292160)"
  by (simp only: ec_run_simps)

lemma order_run_9: "ec_run
    [Tangent 642899709247407969838969499208212021800257283664803012834698250854056829174 104465835838017961645031401180052788226065802478212439140119661152745229563397 72375933760078981806966534646704358581724946993736795780505581805083719457757 84041367703766922683263680459842169399376850029774048213069167463771334610940 2830808800414915975004431760676318280831403386617798368107884754347407977600 0 165012041608237526586355987468550960933281651910228351752046270501880548646543 0 94247464846326200732928178717468910355135951072555612404767842904071445957527 1 0 65296450442898189784833503262442723041262818471574340071072869784636901597752,
     Chord 80190282800495777838486351742363318333472242911558013978308544562178167878297 35601806409860470924211095207044255196613900503732300217225086746688929975654 50645762160737310933319485682265360135870427551653978352038613184642587338497 108613231091087454021221764750578751909021957869440654628203790986070308431074 91220225823035717424739362658670991020441035575623707780399007786568124033817 53480023909095335691194159785934346974495350580405813703884195324229153115358 1 0 35074054005003110681889905895293585045379183399375808071073836659357710427100 0 22151713837568124255869574625239537473203083038521516231395744821713273188266 1 0 47505834870595218272526313499427896456198184649387656103933827084816116573820,
     Tangent 62312065301260913071503287163473226555590792834884500491649435984637944738593 90802364444515316525280761695526433080319952044221989360366015861672961906481 79873803750470851591655741741593823155695095385755802439548678777466612044161 11346422072564865833083620917077167864745940189867905340850329009101511989656 82722173846171152427337325349982239864535206483987820175756794561078834230677 131711619149736560955907785885338472139413520525436010951608967519403605399468 0 0 71205809005967518855221265278729708439875424313925093774682430489245183318121 0 0 62635800832163210152749867464953053917640890824124881967719249032160837472706,
     Tangent 33069915364185096335360121599425333665550936931302494019776836747788263623274 77633277860688202901452183647691958440788296841755022847162149722801758531588 71141022242122897597410289542205973771376398326134442357185694986657982995101 55997489040798216998370778324278767623455685279023777179198265331310626848506 12580847288041906770088864842576491592624281527053213172885488776140526067834 0 107587342263959741996202007482926376152907875001788792153281094627426847166997 0 52049547361097125910464533610699847879357973671609665577324998829926780531226 1 0 47696788137079115420590536155235716307265622044722712780120648692576832355227,
     Tangent 103211241922314341992608582106831081937461861888237101022648142532726571786117 347557321428515333293919895426518637253103381077403848722842928772197299593 52467516709975999855814449135537130451773414276635368877872483989325872621623 3529972330822217142556329188741637171682271002388408301325781341984754226883 12612259708555616064157700062835580068383305213509771133314940249552472533238 81166263339282638518845798234663243919472209173440517438354760778350796415531 0 0 1043215408775615436355559089878743773802591816411302981722432480159748454 0 0 157484588922109009801806268352865715124695232449278982722144319823616041217,
     Tangent 103179829501800632698539746886571993461702838201780543062218691059314625320713 50277991940594865714425012846024624792373613765317720793567815831602385637030 98362158738242927060244884047124385492830688667245104312804434482846578968234 20959902802935538845008892091024825208937725750433618184054978168005273112600 39841294966754384307802557826978445848650154517327933623247520357532529682234 0 10629880489967877985625510929703966640377258234162377203004706636814080656016 0 21831167317364831441975050422192816437524844155335210375148333471306624330234 1 0 42709755545705948617618378026317032049718356981215246880389659072121757544948,
     Tangent 75950794243601864454894889122429127681435988897962380572286110951334568171717 49495241397520030547463682115727318672846602877498612412423951022878275933076 107250786764661000752417981523401477913624648623675243558759599225015742267018 29501205248630786855288357517030920825399220542048688820829010251856628699533 52155457369533686420079348623681061594894838062564415820274792968308912725149 0 22678202503476720954848186560127504336475799186896014151783217443452354760621 0 21156703689388795484003921334994921744589114499305720442923392525842060059693 1 0 45844268094577810776199574974604339837905235228894952511459621905763087326735,
     Tangent 63636631840822562342618098325726511935191305352725898375258838340558185128802 98079251080182984759139710401579616013700153452050441491458480835677846001627 81846392483444772075096329230783735546192752431480900954103533258365356329565 63446901975542263542889475235654758809292611525858102062259108302358370223919 49446023553783970841313402381937033757599643973791971659633362993829533454851 0 65805644545271121760775597952946283570016575273018138531065993181196066286682 0 83075964498524825201299180774659500080271082756905107565739895524197188015344 1 0 69326263418632757135969613937364508439172320846872155490404720101236624127505]
    (40625212253489655727532768157138954451015653608220529798041117959987956214746, 115149189501108840792858477450199361508285886131625511182698933058013041024777, 9223372034707292160)
    = Some (63446901975542263542889475235654758809292611525858102062259108302358370223919, 49446023553783970841313402381937033757599643973791971659633362993829533454851, 1180591620442533396544)"
  by (simp only: ec_run_simps)

lemma order_run_10: "ec_run
    [Tangent 66346065656572277921384044567470539772486499441498342535900268315037564399100 54378972434762300943800150669241006745492307930847743815785805959795554327836 73560655823342988814704638415409161775103993819832323198262577107459859345691 105678335362555523490882283769653170564274761121316093059530162503765608732179 93558113087236537296949132360291316832904840505092093413825957706016478272011 57852658613257129092454599871119591200654600234948874984190870660227773419208 0 0 25537777781076279162842056116114327025778277815325220430674602265304942463329 1 0 34545994485285082905286243082081503216699284419824896481709955289928603647514,
     Tangent 22233976123119711465748314589116256697181302910198220781707673602850619581940 40883868693217063044874656343599184622800666526282939220242490283549825534556 76668561357045812937017366998590421641865310593573717088985822972842391727284 29009774005509710553864916771062748922409450527742375970544339530923217004895 24448431323649535723152766740817444779958817164272091288953403837111019410324 223276880571237555437801409887969583585526210449881201672333089880944774202288 0 0 14435275593720948056716592409003115010924336267459465839779082748726796092533 0 0 27070134210334049089382460714480950071780693273665799346562714368998653793519,
     Tangent 91343657886706713039544680208590128750127326251018222906580227471756078443627 42982577790872767947012096177310411935136957596889162151079614707811262263899 40566182675080182714229226156622598520937598683039218049532881406762290211543 104235680540785776602333137563847723931557995259993472116545089433028024647303 68635870643400205559075131873185822480940084161109820786702808593363526681679 3652993602323362787994959385201525627070818509006272401811423927231340742520 0 0 15955338625872133072699466470615525314151580259178157308478772370136984118508 1 0 15058361192039369279381734115939394052828755759535840045598836048604689620854,
     Tangent 47156218566956043203622315076221751049146059254180493408830822715503571172272 23589032498620911277108558351190746087008144832045369150393776714979444432539 69538987712566612208398475788978493708044241844972256568481302519148351368471 34696692828219164393934661774869230223513753415021215548063786913879673278832 92083393813180327469187771909802097711073616856966209229733848109468946223960 253533068858558702721921598042850408061364289171695793798066142426233993345562 0 0 4805530826981799028733024781203831096705690756138868735537806572279070317733 0 0 14166403355007634172870166187449248539110955890021060539263800470751342188730,
     Tangent 23708695397175921293509675039605475819012526558324104965799783199398151629991 43038130720315712253620504585239308209082619079873832473933094769045742641495 55225567400545718855252314752274576614361185988598537074954543408896461069505 95263214638029694301379793972002227139238710841712992668642874813850310063278 77436341596262602123241036807094570119366065801673416354240879410537251191689 0 37261723404250096465844656710689998262598514646725486567124362631400591252781 0 15996608304855753426703278731185558459121203488881084198841360974160423668733 1 0 20526490238641580677462741112396074430067236157926614993302957901293387671626,
     Tangent 38355747614093646639456410142313003410720077613616897841292751898329846662262 62514508434951702300000459917666653648912750387620662890721456225253133867978 12575274115897562527424696795280443772403956282587157246058988422409790481300 82687940522132131773955097176721783366834754559125835422583886391440519581978 107990419989135832800494824275589091723460975222288617078543229883515266618935 151508195847995537155849538091832937361049062869250297008455444041222879831915 0 0 33750697405277638923828961844179700668465101716542957175556503963397367922450 0 0 6789212330057839664638486993264639478080491012498148905387393810363139875576,
     Tangent 7801669221220415962202622673818481806625168193001697116990401425351831235016 4426912461633982634284532815994178216921084561518936702357145581500698877384 8079874433587190707897947342637317306689958337763360586889542590562421633098 74608066088544941066057149834084466060144796221362474835694343800878097948880 88812075653005706671978824062802766701997490690210294086406613236882699668433 168886824521100041158839759814844112790935145629565524975383019183692780685319 0 0 169247779158452870072634668216672194725827065578430086074571055267509671620 0 0 308906222026140295888390712216519544194479799128081816264813429264616785464,
     Tangent 26980013557350542090718622886604806828088652725080020109127018071984398185518 108886877038813747396121499591447799884129143442627256455591532236343673928031 13578575707250474695257828533697006804155001376755605670639098473036697630197 61029490381294466370799321300387459255989794844606869165055245327841400318683 105222282517456285360796596420786673732912461049670854324762719534514171106390 0 22815449345281885896861183334297641442384600076647438890859504039891313861599 0 102393454268940959696291355643352500787573144358834952453725220983512958319418 0 0 12768823099059937726848971653186275306477733403714770250974894963432939015484]
    (63446901975542263542889475235654758809292611525858102062259108302358370223919, 49446023553783970841313402381937033757599643973791971659633362993829533454851, 1180591620442533396544)
    = Some (61029490381294466370799321300387459255989794844606869165055245327841400318683, 105222282517456285360796596420786673732912461049670854324762719534514171106390, 302231454833288549515264)"
  by (simp only: ec_run_simps)

lemma order_run_11: "ec_run
    [Tangent 10569806692899963401900850528620899797173682365619459870770911774352926747561 28520979899711351047377141633113564868684945851017901962902549513894669368948 36759494653398503872001007449428144405823728422112164249570799416226577004878 24269995727895962498798313850959314850166066422494704915484445911614823313805 63432852488625375601123245523218607577579369842014822671883114381672884002033 44663766881708121609028941383396706229539957109152608291157891287315333173224 0 0 7025059310934219211337275359706990874026084390716586521292875297942744277683 0 0 9054304273139904436295225978105875462123212595497284759559643896959215359471,
     Tangent 52359236721730873161574201426188965952506773573275491523650516927194213851918 28842031274702692618057490600764836157072129121449800091938591396401989296641 92169349479849580509767757530496160991010490185340985690540503764569305967928 47892735458402630751728003269870727389241719652444033420477573455912615199828 109839947325503427863794096374748306549811190420612592356725757197985308084414 0 16339342053909431633819574110823589021732156641000274060193349200914475718934 0 7184107081267930244211130180039551928314227789680117653426697853494406538093 1 0 22957969567657351772180104563216890397076844659047334072471663005322415736951,
     Tangent 5952141884852820898903350574659266980274952994677721838807874110881789769537 64814685635120337695168026431342224411818618541361010869934711798486304928810 41874972410245402948958152649144159831969482512348815486011621598741377047444 6017763048157227802769850620726567557272237140095217934465951857171238152384 3884953430589903671596844404771465245368361692014214229720569937838450898391 0 63539236862113073278095844649538203210489126749761591809506591508390928720981 0 36280055940157865020617251410801757873041470518171974047245174081584774077060 0 0 23439538842923368618738717424370411283156059435513360454068885554844416043085,
     Tangent 111907135779766345091100602544636108284717781723276099965813061371028646955560 30790650411522795280137010413943495062797092610666851871563828111299523170653 10667044285717038137087778195423833868297878706798906219446493205195414897948 111142807972796438428379519374710307219060501848586625910553089960842921108387 55664974547474853443656559709167699908466634587299706898152943513244143425979 0 1127884214474467459287239176284757274914031026921374777971061896870471205831 0 8187641826224305026214752766591810844277544697038014971776921494505882564954 1 0 2836508381233781346588541567847849877912798726853828428809970597426305718374,
     Tangent 60127114662881395319040887240239873621619508827990607297380687795622954427972 77012308646371364568774816116626250946061839956853617169911884742586583751505 53715783924342184697006474012482693304643429959236088464010239132868605406845 57427024048454253731373045362227613914417071889350537446542850827974315701542 19823912062538293771763810475059126635823067521651271229686694233803019225569 245996035525378838699343559301810200590004864806321667215540577821642859433214 0 0 51220214813375319534448575963636698415808997558109698186962566211341236243659 0 0 35725899402748208448866129547439692261515962763681996305252704465364340768527,
     Tangent 95968177147817954990933636474348446894263075893639042965846937075064078628382 51134631446271610367643184978140150930777458583514051031569125246747232245535 101861145946369375670336293361544054984571886442541374784508115386474366574509 71357967312441126823734198950091132459931328862099476857568366750367046980984 22370432468006492003816699993641378410065926986726417980700409477932357932543 67933936182915864907439179092183676669260116689789911248623114854548394773909 0 0 22581426339029821861312839109976796485796613779379306933312032035366318549507 1 0 44982625256895616948788992949110989535693379916074025181239556493471179439853,
     Tangent 93421656742349756758880746955766195120020216428563896214833221830934739921408 101189852437204166968956041333504865683641539956980622815904621964735952204575 103039947128943401611863325024180567019049027446500720959331029774699979984694 84110109393853973974568320875318138970968444830889070093770968284534164850241 32493561835971097745099422175732355078146876589008369984383061970605422768524 92826349791267781366198482100286367607016078728701916827211244703934671074565 0 0 88429065457671703276935781608633930117750533496476295941344707058676166415216 1 0 90045849558629129186127436821346149997667032722422350565355227739538151173633,
     Tangent 83298527374385151017598024773675218451939266826281944211150569338261675085427 101472251291397328280796960784805138812882089022373060740152804858981082806173 39774344610379320133068429242207518254246758813624651492562849539549824492876 44335764783474653841499891633110620716721686017264418601208118744984340357365 49018608323704058458418637479046478071920553532925668224444200039933095203484 126339734109274604122857218004352928809240528774220918876004987833357058119736 0 0 88923326734686592601165533411295089603420142782402033875376718774455160379182 0 0 34855509722455832517269677532022171253930567362375726549359939014191702118540]
    (61029490381294466370799321300387459255989794844606869165055245327841400318683, 105222282517456285360796596420786673732912461049670854324762719534514171106390, 302231454833288549515264)
    = Some (44335764783474653841499891633110620716721686017264418601208118744984340357365, 49018608323704058458418637479046478071920553532925668224444200039933095203484, 77371252437321868675907584)"
  by (simp only: ec_run_simps)

lemma order_run_12: "ec_run
    [Tangent 66773480886652190304278809470361095458165589882364645971089431268934002650467 91617844798388085893746479785190861019753210194360239171525341082686028191505 6604285547248818336236524158266978747177792012321740629637960230877145749841 37731479236225835505263367474843641969543894004942677971570158514107194607524 4324380484367905637665138475454714662590163593303967392794348175639344747965 0 26642393305962531981821206450363208604424101231366084821988413384897612283568 0 72490526276390882531119465928458561783065221414568509073591580452530779699821 0 0 5225490034754147000661121095231801685440821947984763587844587027426735928056,
     Tangent 111467708725988343125032308473952858867495979821986346802739283133227753105986 52606527844788967961515245700939435537383646447585204339864557980283534956472 30169882736723985197486215878649396773843329820852368960986051167114418132164 7561596499501850307777151596194245195700564184090309010584107346992776475360 39406167335301139501478106397219716412798254017369262319116177460085054088460 32955725363967281475413783352455685599839030670007316673690591285321508688515 0 0 23900136794811724118179268621558787936928639959392186667630053750578955251176 0 0 13706746178317834914462684570351175425632235371664452864794926484087164678633,
     Tangent 76385921875055109261219340552187857117287889397921051876417453848782043765491 19366929234972693113864654641894508039496395502891914646719270432177671640055 102491833705026922733398996339842247778618346308107397529862306755673615930766 20861852004831176337075602205759570947168361291273225676255431900186258398545 47088645727715050414263043602675304196176908744989654749317332131423936718276 0 11700451151575996971336651306560393384143687469949286526771377377520371402453 0 3239236380915853156574996084355712875535329890287674997119685305785101101760 1 0 17142380831576832653245358375504828060869493994976093931054963479457750054094,
     Tangent 68703443482641198348434403346732269333909234670300659446216299177443161135675 34872235117393217650033923982292069639581382538948677367944031083316488444395 64600605144101772845331402728927165266196962527025876041200463918795244564804 72053336071085652254441646426239979211057542179537663830588599290258111687692 73533193923144120240520999024037774485647571275020208709941140498701477865806 0 17086849858493048016692715142461816456407407832421422722100934953250167471368 0 10502209523774524537996243331321879896751339252490506643847316438521583003893 1 0 19455279774928830539551371239688906021981497854858126174532667327350947967398,
     Tangent 42258895287212128522176447925369799044438572140270105485592490810165619988145 100281488077880824668697027586292623512269255487901671211358908003695888986738 70093003450542374654185843442075547206585877756494901778106646600958028423487 1960332620543277600255802984164432004471664423042762052481952689300083264205 75549980553084846010247217975396801748537159065784304747806568753745700027370 7142227963012865708007332079466343307604434354652521978570661280012830171083 0 0 86848565559992751433409577951252740594581617262569823403556547108609148086305 0 0 60703893830769226886299994895041171029634343952883932158277634882389944338730,
     Tangent 40242108657271402752450228974010771781548984349506009447727062555121397826581 100963173681148023846252067403298616324597949724336231895652229551746076154115 70760830011800688020982448014540962998029468619038540196792124683972952816641 46991591819098838341970801919031042536528339219294536051223459314194228301515 80254630162409300410021616608594831458309838243082737062628990590134781651125 0 131649778567636603409040028395476150597109437547453712166867118616421760818428 0 88033323427227410346593937411945957977885278687574551883301574102998124318300 1 0 61698843323613301422408817240398406460111300871672543006687756759374577080220,
     Tangent 35537459047946948352675830340812742071776305172207577132904640718732316202826 20988116518948833198748170992174700112003339230457180661004640346423240036495 89019028930779009163445489777581268809600152216349628106835178304722736649639 73764652098676077941222759090857347257014330418235222139921912318338589505827 106025776037623075707173048312191227262468068914907679159248478048488385436166 28118000713295790211812566162652156926482616219950150409054317242480557235022 0 0 3804241187951337350014089825461687483195831620358631119965588255137943332568 1 0 16135314289119551373967280306844340278002185162150384652246905829301766617714,
     Tangent 9766313172733173055524398637216346267618074500382635036285153260378712417785 48434647533428210695777113428293724226374333978839107448465486150207771465884 613620755907086161047517525757615562865539970767492851646294560120322298789 73151031342768991780175241565099731694148790447467729288275617758218267207038 98848014599607997841671603218071263404535595603288981097025014726531003136274 52274983164340676040128405983415972880443505031119934783824927286556800911096 0 0 20259718066107825042801848413630832711945587037304655920615643197030861174964 0 0 256671291054806817820353635041802708411726032425693103668244499229216989836]
    (44335764783474653841499891633110620716721686017264418601208118744984340357365, 49018608323704058458418637479046478071920553532925668224444200039933095203484, 77371252437321868675907584)
    = Some (73151031342768991780175241565099731694148790447467729288275617758218267207038, 98848014599607997841671603218071263404535595603288981097025014726531003136274, 19807040623954398381032341504)"
  by (simp only: ec_run_simps)

lemma order_run_13: "ec_run
    [Tangent 16944074610748250921025843731336310125550547812001333098508616582336094717677 87608628089179130212936641726630114466553147919983310777679306198189809944217 85477331218890258649184906749585754980509122502276012165631232913329319167430 103465789334234981893687781764921550243725811360482031318178016153756045893559 91128146876654477273752141678537560812504850988280019935466647559038910067294 0 10939069723391864035451564564743222664356019035908276062348602725165682978437 0 66284940258091855603180820415525814510542076363067387782364713149553582777154 1 0 64672394909526979016468788620564303618231205205959962709801805286839945122842,
     Tangent 24663942333701771488945305270870012717581292427010294260066983749828187786657 88170258225192799646354650550267781488834883942430828503594756203833004394074 100051036079855782863568043039689726448506209514595080469980320457016105978490 3414753254379199030119738725231823795219601845886950848197695696739939915069 97888941727107545247703503344013314544895312591550389105546194316228384420416 138575306082636219949361469951496329993188607798494723507196532295636975932328 0 0 67137526306951594548893059126552817686766189650013283411064702302317187071239 0 0 76184182762547336020794327829111243390845179199034692979183278170075604933050,
     Tangent 17903147483248703514993943605394258985190830823739925089987436992638713433535 111193606922647648117217740669272761966976958631675461914872052946480582110266 94138218619586475426250280773253122224057523161397407797776705100614358438043 25068623845148972366566904901386275101248222099779857245954621904992679330977 36505162258123495637408575790969799935255967690895405749161577975471470961815 0 187700796710792565941758217941662684577372434971604027221474521587335776660632 0 106777745395084019960772270315135500939833626260575154155468191459663337075191 1 0 90399682300994072061385530357498629295097841587627341007879328561928943792057,
     Tangent 79286926952232753125288871158437773594830175724394908446372053333395626892136 26274860071163260749615133054271884927804015276385823352986988723626456487386 109740139461232319161397870349872832848928142402971235817286613206048597154406 31120573594272901967866481500921015782406223112098935624201640007811180030522 96266692100427362868173501559153039150179738630162557879245746791842015306661 0 285238449112819327172041940943427902058614257032344229739663996795837493396 0 5962136761389948738270950984502160426304621118286148354943860336759073666520 1 0 24901587217202863464808193687486348188682766725344707453238065641113058406240,
     Tangent 19525397109928885894523945390254534379906404785127756316287884517025082547290 23720654499626500396395447526871556256473058984366188370620218978231351836634 108884301157500541032908687460014200756580618968196499721877238890518745459743 38028361647128609697655240990314388555911747559192750097858032426159532424730 5465360319165453775748489449815304953905001125968360250466755527021641785627 0 14349404999025175014115239642340690961119733260447258417822136468462901122149 0 4859308211189324799266713853206347450607129216696592699006692380261419650282 1 0 22305555636864269403976349412642233918259170620941722691959403470640067760474,
     Tangent 110326728891190794986948957499592268576181142289321953945066875781845456068324 57470355732538388758995838115001252140695245554849769207783841318305033062498 63374352840462457473639665403760958336806604946597393111971448913413923391802 90446098017022400986713022535961003749191286027885671181420214821612706886879 63131974550647982422323375078757955479099869525758948540942423804217774131507 32042572946897734608973862485781025151537356496450861836371987513239706613955 0 0 28523898398830405206362719755808651069085969427987085153391197020911975574415 1 0 31454191965084905618568595642604660816934054121319996067390786212326716494362,
     Tangent 52660114659708266340374071870649618050986273889531365654591207504649323722444 108343604294981942430261877733429651198545204790308269047839181393396975895708 60798016805403453453656429395642345788342166687212124350000033091527924249869 29648081211618947533056593140318657960849119340673546831420181730084782637010 12304376350995785985430499998999569416821667988988886669223854525172263304196 93802596320979728890471190569794967578935150132786977592579733254970572226408 0 0 101374253385332066505742817777429834442894476090428756914628074095323477191296 0 0 56887101006682215946813599915932426645998421649021965042127346777474382855499,
     Tangent 103487712859360462777266946950408004113264475426301427526309776783694834549755 99508994037266235739230390729180739518880670454000388020754250430950440557957 59906760790752886225912021063506322472753136518400034692911661782645561962207 85533409631222310069842019026219909018182126237563826334042151256306318528754 82884192917055578239821267620871282606423832518833337360965464918717228443388 1625619971009066933420647479463843471405797295148084516653086125641044798303 0 0 85515685586430074926901025256285446564457425563809935143548770322150883027325 1 0 51482459147008796928218921081149189787240174016047448081099881588901041161765]
    (73151031342768991780175241565099731694148790447467729288275617758218267207038, 98848014599607997841671603218071263404535595603288981097025014726531003136274, 19807040623954398381032341504)
    = Some (85533409631222310069842019026219909018182126237563826334042151256306318528754, 82884192917055578239821267620871282606423832518833337360965464918717228443388, 5070602399732325985544279425024)"
  by (simp only: ec_run_simps)

lemma order_run_14: "ec_run
    [Tangent 32907896293300670522876179328536290923662310896456976834568166390149869410563 115507340288663354263139735151229144236423652887808132854146422317619200190023 115637472701332068520459815581028373855295163336505170523864293833864068069566 85688026140246490312079650394599108692973106316348970005711488731309348313139 62061855725511502121992551486838083438508553703279068468404135455024574072277 24184960793796918493217133187427678275509492715715781841546438585256190706047 0 0 115223291604343826150094033617915428615506478698125820137032269414456335290982 1 0 115353104003232346889618371915075411205841389361719168517376075502921208937503,
     Tangent 53730233484844746640704895462569490091577589712011245727129495853842523781674 59304813097069976343214002321551163437830554827851747760863134459641638202804 81457569725941058475853553596803458660812273574410379292189499206040908004053 4230456414305431836226096797795650032160832741938590713521989525268440309086 49124671838347938685251928951248943949999001030374102572576162459989134225383 126659602248591396000024991419154749450377693012876767952646152768116096681744 0 0 30373930382144297819455014067660560406248973306961091385334757531488631801652 0 0 41719827156434268566911649779405976395892477545440832976197796173779479586552,
     Tangent 66667417372008310077445517998158629580087142384916211622957468848877963628568 35056005185323807681652989613787198637006230991696224114560869946632208535561 24345271036250552137846331555774036859172889883895976943152478829076279720774 95677274588411128461077212191429186703074086273332927965903142005059258442263 64620605763212530462287791958507288453317382888459518576246647700373090974875 0 29281268177184366071756770739678108309194914980097521979326393965838596214091 0 10613190485931199960772860920271099675956436634371789213839817342081687059586 1 0 7370520330922416092129410790648061474603242881622411562367538634028299007756,
     Tangent 51171483447143718300409654990900285076768760526830795619286983608494006879076 98897333783922943994835103476271383982315527019141781880955897211883774363092 44191834768429033718390086721071151731275976225566767588591680855903708044776 51485439819982094742687125470358034971798110047766160377311461149155550397487 18036417108397236940060345452196517401558243184952749071772801566024296182937 126785961658926437952084316805496797843270122349399839141979957099931382125704 0 0 84467623792506014887078860052248350248493579486571404585650944663923235639501 0 0 37743982887100470164435420589530868258525982402411139471526775941909356258580,
     Tangent 97755672101959011822637101497211056128527900230337565123760829742842801671014 41220376228299866737234508747014754604254533707955159547276311460245235504166 10953297873969484967281753587416494829665495497562677951800387603200114970554 40532141946012609775405371882941540142132614550203482425511073545955435426933 77930225168048875526569554335812728207882471590125005456198748831574684447411 55835556525699079027756755096678942145949481323534033465927893020539751105420 0 0 14673881678702990173349354127831759379070152404871730039048598117060382967599 0 0 3899221979538114379553787145572547194547728237539548350465870075148138154416,
     Tangent 37861864042307373236127892613594845322203671825165308739334882477292413406540 58552796289129011635996253672923327005524424428906090693634268017665104542721 57594677637163528079886017323473031938891649530501298684660378667362131928400 98729553519205330458216801508876081733327108434992497936384326187460401352484 59808571903455204439454823212555601744759859196738774540015001008567115681539 0 36250331386981131995404395313526904415605558542480882825784459929237935844098 0 29608498962721947112564900155071216931892455775015813553698107742646362390541 1 0 29124005361890256441930359646597266393207527643899594026794104202046300494950,
     Tangent 55983517306901044323242623736851971785326284218551539655518630300299982172412 29458518765219075118969103711623186045184169775367905607900439242527722094429 89214883109426840709165664064681545184023507149852909082135131166837606116761 9514670409778489749051137444194536549303601285139588854249195020622795235723 104280355764289449184024157443938216313822608582864953642618504067499713881338 222112153897702204005471354626657851938057378574058422206144222678466354653953 0 0 7494504449818230154152701269087169081407257244208662494569188240581140387850 0 0 22697045421137635436990548729314498857206684323176356209830696431739249753192,
     Tangent 11511733446066799578673289505469357216263534832425360552915127241367383972613 7790094209811479071829632396875557814577807854782032912120693697899492398472 21082980525101366482243373221967459913056884408397694999488743873062818927545 104223779095033372029505211171634650166332860292032208050294082456427074162129 3983482666076870988866918342339735832766953592986441376532113015967762951308 0 11685778721848821372157350607277656395135776984034706347302191354136840345288 0 524090792484904209646258056925591635159106063774026846329065756973321173159 1 0 1418390544934317726372143998776275365281062041149993564503021971557531167294]
    (85533409631222310069842019026219909018182126237563826334042151256306318528754, 82884192917055578239821267620871282606423832518833337360965464918717228443388, 5070602399732325985544279425024)
    = Some (104223779095033372029505211171634650166332860292032208050294082456427074162129, 3983482666076870988866918342339735832766953592986441376532113015967762951308, 1298074214331475452299335532806144)"
  by (simp only: ec_run_simps)

lemma order_run_15: "ec_run
    [Tangent 111808606544279377773830528607067837697319189822303872819001518292899334902643 32123787782240191116168204876212203373869358406320597214059424789414464123810 17534835394672176169286918880766995082983328250775312132371715163908280325305 86688943700361195860218292290867655083349532041256895917922367292518793836824 52310278531824374803547070041871650755344857372754542306061055199091791579492 279223386532183475081352922194839313824991607771632203219995928323658317658960 0 0 8911988275845958299325443706690848394308679014473217009547765456184336228918 0 0 4864627064390022460972999353715362260524706955539011782959189677385924918750,
     Tangent 63481810678531873959150376907535922774741286042535771889472576109775306274459 72245567588294866902707386709589576785964560801647988390895982995412367871467 112842017632927544215142589279929145855056802028529665036526340850678417401776 89639015277789900407773149960346082758378873428017545076929657750707474288999 39014625053672323628662407946745208263716693429241616955457724404755166127518 129426349031155679599578115846897435234450621507475115482844883513174615510747 0 0 45075808474902839092191703709130667212616777884108363640063025516910938328542 1 0 70404944476725936187804275150635221232722196295308932137482457739895081914482,
     Tangent 76777464156683925134035039002662365266369449986048697240075906904111931726433 62280076875236549515788742325851186263226877518904122402917040193041941832827 55551193765712406195871206440656694080595695257128830931186446181351676018674 34087821512077494211901943519689388677783178170888714145743211569355798270325 67587717092835668233453454104976312413856622508569350024270465293607118182099 166209899276882190067061251284267628693287685280895807443701236129075203018628 0 0 33498039477799320851932951424788518555885711396265448924390868005980300484906 0 0 29878834053633237034711602401137452440866725686846325550526074646956510444331,
     Tangent 48204372117520580529243992844431261116229520906720964171263166015259979671852 102051502466195033443574600068870085621910028158726600791113686316046784749758 69374350384216335575721951685569500103277531278974443151328991545086942615759 80505560338217407398877438783527462104591790307204585189947851333135953508517 34567918126833807258708707667026115476875964640471449813788818411475547443391 0 89029548556830522426014086792167367420224767856749743501144653627929869589812 0 89941456507344500831257623206465904975685965464983262686955523441635077508747 1 0 61141972112308431022742794399732260680882744479734566128923886213276452904432,
     Tangent 81224171083522441503988739282381458053210178774818864381744812897391550410560 68976075888803653050058052760989161489062298434400074505050103827180538607611 78792294156762851298407983440599072289050696200451582575439649416728506923665 1713266181454556100469455342928389815541094106753002614508201916407446584852 102456689743170302549024318863414650725312072532491609098144150817887256756860 126733329954717916386387391985410301818694177212867887776868682478081672780162 0 0 41088290896753938992929397154908572667222279691545891989991482404553693519685 0 0 46935704315141912452499220479507007614236430666249989721334086854158714421264,
     Tangent 13335399467185946213673128085992922804774070882798705097389480490979841097091 102467130659206982500242509757589130823016991523920214179288808242067532623557 114589487330837827001866020302133832706311468387035020206859123265995850599072 2915868060972977861300881990202130639315769135008296603182709959278693839731 80681650462024878089475639753249421008244740881478628617657139790778209398028 0 181256598181698931842735066400695188405252916706412198714077490401479446311381 0 90675562874220399628569399408577090084394566796335172279914152416359868992514 1 0 101402920100783093324664229010853503212948926354501663721118850280667207271016,
     Tangent 35110438748331370673221807196158152521841402533811685577876491518088888455923 39440625305978123012462131571854276764062877112121969036032568130251758227952 92252309154945734281840961573344781503224018127793451506215437102324357993769 26455648116383492342157367366264922666177894422505159292500904165821433699913 57500585127909923193172049028807351422707119763432920586240682032860443110370 0 54742622518182396666650565431202369163509364624838970167281583240414675763832 0 13434103617394917774173772009563863774806629500090308186319492629599646712879 1 0 31422602215782887132132947577766646738009860342094235265501405220542388472190,
     Tangent 58291504082446325569525397920600222107379023651857393609292949276006654743581 22595131696645573734891197331922826777971349576156241304422801297080922823624 17644930743074153114505115234334576802956643740313584332711057645959105726659 8810717373309339227652252131930345863221250682191574959789846519862327973254 81669236606953251268465446041951459374472476291094227886432111942440142486383 0 4307398189515388830673344594077333312595971453915324494951817319877926507856 0 4409109291233823345620825477243686964261248894724989340983837934144993691096 0 0 3443150016869136991576380020009310810710894656209697352274443513573230149113]
    (104223779095033372029505211171634650166332860292032208050294082456427074162129, 3983482666076870988866918342339735832766953592986441376532113015967762951308, 1298074214331475452299335532806144)
    = Some (8810717373309339227652252131930345863221250682191574959789846519862327973254, 81669236606953251268465446041951459374472476291094227886432111942440142486383, 332306998868857715788629896398372864)"
  by (simp only: ec_run_simps)

lemma order_run_16: "ec_run
    [Tangent 34122852603402997494232000907456114155613667124196086309101519366426955367568 43654091144470787883305764636504584494278630391929888250226957898324066698812 74210983003653095365686331700872803712835952208483769129342603374159197953168 50391823580012492624663367380465115680471441888998120025980874454570227874037 81395872682549358015049102608512632439401721762432013407307494309345069453469 0 59568027679775799957865944567985634902562712834406095878459958220567355635297 0 16457770877488598709764998661122370111045762795716820020446240771129900107249 1 0 27977844065641914583142169126953862841818883497095809578563936935730841778764,
     Tangent 34396216527806890747648344340894941090684421652858300788226136999522028400482 16604867754736997266040113778167069130924087196993796134284020148789298653192 85439109967916324671912773618646745399367534922209464527123532354647068689648 80744802822452416715448040711225943811190050382078969694390973408790257038340 12786597033004645628299202062629220819255276600481361940328231095893887820932 42445665168700036207139695465344238049566907069794500190816130396437504674408 0 0 2381178498743629300631696166695539456243842594377925926272101371197806699950 1 0 12252176567281381741912948800341650473180019661575953090381739700855590735265,
     Tangent 103005492177351603134398244886778352710830866814808952255205400212973210033019 101866702726638664488287172846562481877917259222520468198596557154063820022992 66054273780198623232375332316852230509751477975843706785359768339121055886422 14690529042253793483072708394373713301438572406235262909031205069669201151918 69917150327045782207959620669130543614024988735136827564236742481199637244685 146418574070438343217156401610579381297625293906143493645593043045198921176659 0 0 89616010861899945930071190921117290110584981476404294214367262372098810627766 0 0 58110455704513617170491579854459450697034639050063761436594392650278885863857,
     Tangent 45874938883310466554737826280277029916061154680153486631296888827667460609266 51418838074910736040069276496803729058306546522073472552483733323873927323490 65516371497803940051528391941688416093036992580519086708311470536485850932018 64966246754806102194241763402092870738487723241006490396253365842050448073851 36017113553670191414998090967394495751701107324368929149509346107264632727528 0 56503707434981194266326618287729796714044825920065086548466774679394724500181 0 22833139353507962582330887132484195610505804220211846470362982520348403028563 1 0 29093314752973471316666685408230646633277473214915283663987947876898421525457,
     Tangent 79774975656686057347699355982013077778385036090921385046024285201602465126423 51273008092398321760977536000291995584788820495131289915300860347438431040520 36306965779168144771082086513001803365502538713433947569500881833894228492770 28659280975637957423159676889091067372985184527572542826752484008156219581081 95830137637859201561034769186029885269686720678351698140301276444367314411948 77452857133634135659242017673816910197965829110934497684922677616505669895480 0 0 22703807978343459295037579923224949883170692110535185490190739193702028421967 0 0 16076809416780276806600491813742403000381798753756522878808070835509975061124,
     Tangent 19961951572497047201662677763377688260399422736938616055232354864499783442003 38211411312461472692516527507744255454963128689008896786858234506388858174824 75469464023487354342319791989306152828731463819708521274284415287599408710167 68981906162506851843537331849192488074339864123154335748001700029423908724865 71721998213580782298038851992558023938519432691726469350233070098445206957362 0 41967862276585862062254574277160023911463464653691508621117579149894528903824 0 12609772951220908289357007002003158217526873372331548448457463219021657942899 1 0 24904937383879304728909851069351362400084820307627785276522687465261848984198,
     Tangent 44070090996775466464658594956849549591566710723563844845300561210421890896589 28022019948526551619125544805951531503134777171303193444308159298769304614437 42073640090887128111833893635041069620389728507608443439941051218551993181369 26908266071619723731703438214151418453950135615545892308060648810871915543496 69617885243824217062040100106313937405601463475364681690896020353751022864960 88571850408785417023789188021471260097144277076209299592370444237572207322484 0 0 6781409743537039803130202152397664475802263820408145073708535061585529281393 0 0 10181942393250460947436176198935282756855593915921901955355549980299032076981,
     Tangent 46174203966532031700657346843093636124484679939925632504637610955116074988991 110629316199463629359338114452891626773792545320746821403708195959949051452485 114597738587282571247578145695016228905218069828845412018907929127740327465565 28102616694693401246822739468542763078818209201990794484686350991998685931882 6782991328221331070134689780585529067722275417280802832533259154203863352363 0 114268546502979651418952216205949366077790690248775788682890991258524535545405 0 105696733569829087593094596942270575779410441207604373694630751686228684322401 1 0 109488217583538261204060045202782240843445043382074308326214256311871996243802]
    (8810717373309339227652252131930345863221250682191574959789846519862327973254, 81669236606953251268465446041951459374472476291094227886432111942440142486383, 332306998868857715788629896398372864)
    = Some (28102616694693401246822739468542763078818209201990794484686350991998685931882, 6782991328221331070134689780585529067722275417280802832533259154203863352363, 85070591710427575241889253477983453184)"
  by (simp only: ec_run_simps)

lemma order_run_17: "ec_run
    [Tangent 109009097882134917692562757168822044462363867998009511363000372154663234501588 83217004190969843374193191095118813325924866579114174260764206067023888231035 75252835727007264206406539395572841773939988563254734260900673150894015963155 68641870178042385803113647022377494834964364054026374419319309149971767822678 80050680957998976002137090971916654394452043810044399060968385172224349008544 10711878230622966475931521666495506336793867899181561440508917069074900368809 0 0 59806069946102379664875913660126119931446808073312417627470880825276776924433 1 0 54082412613698982702436150292409983214238916513641584165762566435259752853418,
     Tangent 35741408252357272760560355977490919135634099605245915134565246136642748845407 88813823835677382280179254336941464613133652423602579003844922575027168159404 35653824064069722721615873188894374436428256522040346363146941525821528430735 32988046113972663081497773833483120398536107531986028056172367624150239391943 8841079872792554268923910920271026243152737206099605277348016560868161807562 0 726259704054763502281053722886026918538669085375694698761956866443024266153 0 68121193408860748867747806831470827518127144052268012502317358629026066743267 0 0 27346880698749084114430707841123146281550377911117775623565987800467006856534,
     Tangent 106951009337563694493773536029136547286933406209190708918185614747998936046389 109921202568042472204998598877020502213184714948739950636003006614414941118659 37032912667751085747426783781651527122330338715879749919404009069610763224949 111747222656577826096768437001239166806291912231396592332301989863406574020945 12751995964236152804475266244966402987981808253170741844809732708931813881735 11408286222541588308743822410788684903289382097027206963182908267157896256428 0 0 104347981424312821992046820947638683252855165529453456989985572060529148900950 1 0 35155271165730175921128217715154538427396486370117881752379205764811050847794,
     Tangent 103040093246120095958222180704441170542104335162119572350723898599935283972216 1412106598780277193333697476585349388191628790659240673214849988522202529942 39815879681691175610082550344092085182722095742661035023526643903888975640239 71931342974886650486685886657147081623569816488735557308775345959517598380706 839826459125352446302618166165998098231772517270657664251536245849595404666 323219929913239368192232387932497925894171485080832803930768957801670079278932 0 0 17220909130469845013252862561228008464293343328356030024470442577421987168 0 0 485562241930160012678263423328303208819882907786308394582769474081908756087,
     Chord_neg 1361129467366841203870228055647735250943 92300307529376050035064145545058406109279276452596504882602366066431904108531 23491781680980198727633301404349167420806866962693809312931265242435193745420 83896606908903441777154819186249218492359296293722955291179063342590485371916 55049753723784221455550159730406912860171338134855295656795365423420219602731 16881589251102429031135726926740168763398478353880261651979980536097378777975 21071647344105280640228990284812201525100096888986686460514325873521747158233 1 0 66875748344908360113744014147228270511932205230559334790278874661942219602220 0 60786887073435242894872723659495884523016731927157543370462558050535819563039 0 0 39886036948569009533060049758628963296127682214022345340376090986719086804047,
     Tangent 94720441866250968122468456664595372004986046526303627735019305435345350695718 47044328940416726687863785747655120560147554716585393143011918154418659971830 92098420892133359254378105996066478273282042948409889535062728664747057890213 40575257569325318539455067880081264020202578820760686312450883180217418741713 95703701271923301273209711661561697353163877987575606926947703518622424351281 0 9738479188917072371392208714010832764950805519882245006276572384165031534308 0 19113299540122544862508579380283821576840006976517501818829869954956903082587 1 0 37418000114596427573712161632738086608053003031216529629362776474885233790076,
     Tangent 20088387938432947489487735287845876176922265427714707268585927790244673502670 86877972037170470802968974096843588672970267471296764513923470798571003953012 19622530836138865934316995946102317077668311256225915534976958509834187315115 20952726733186452605138071933978946942534267564534770777473924670383231426598 83571136172757008926757375859176615780988538748317300301442529299321242614608 0 100957090118855250484216381156416005613239595825868533217037636982802192715640 0 65183917802705241944835016845511197756753427723142123859316085687599384888120 0 0 14722643808452126369903051527178514877650697834524488021373081536388103073541,
     Tangent 32220953037599239835940071090230957749097604666973013894091102009545855239343 21395834271959895048909858774673419557731562066649993072468930112219665653092 34265757285272859893633550526083694644843862211786463743719402540976180106192 102479058658269841474201968357302825827776548768038621229288153438274149174357 36483364243830492097694694646868735427462226043065953064935300973182192232276 0 19509951860118910423853960010435682511232101938410021667297611572840527108713 0 3953480132494495042580887302206839425370199002564463594360390457300734786961 1 0 6331559168493950174439078425517685196612847287375254039290554493079742567780]
    (28102616694693401246822739468542763078818209201990794484686350991998685931882, 6782991328221331070134689780585529067722275417280802832533259154203863352363, 85070591710427575241889253477983453184)
    = Some (102479058658269841474201968357302825827776548768038621229288153438274149174357, 36483364243830492097694694646868735427462226043065953064935300973182192232276, 10889035738934729630961824445181882007544)"
  by (simp only: ec_run_simps)

lemma order_run_18: "ec_run
    [Tangent 79308724966525756665002752302538838102623917372224361130598330335684905621675 91018299061094595412783837650512459248997734680695013679669561591771713568051 50979050159719925964194340864086253966501724739005031469676561977521950221815 51500008498549915510007627493216571861274824029033589759611591460752198952542 34194242548059552236995980644179873994304680759821055283194165664207351774406 214734573363513249392932415200624233760013853249394383734754453937883111683792 0 0 71544876860499005198001394023895200145940259464373069506980082082961572112095 0 0 40072050387298256809246677310061637954158843089436682349916348358022345570533,
     Chord_neg 21778071477869459261923648890363764015087 112731642005712785011742404708988915871574268912298472431766120565197303536695 3060447204643463750955042240418657658511874502991841763767510743669794317256 5833602035243037290441143612715325669270382576044511200857423198880075803960 100464996390784505102647292064361683795094318434016789438625389011775437055787 66827101318121659170057782378262461596266649010307114516519833757843859750706 90216966678358220751574164274222553643345454109376375427333429677810987761411 1 0 5679416795443726426255812332769568076019126216865181800765636885337976379964 0 293896698277623265919596596609596527899848230116788895954790790457193147366 1 0 5061423551580132672195772065587436036408069022261381064249455585336886336353,
     Tangent 25575122531998028011123282675185019886740689305913938768200201631056110092540 46722349102476586499288377892754313083828035907015456683646369440675137900695 47448284796913315005958335405338054688182753802365977781537671633242185828604 19378816521208344164099446972924406908083895207941136734982162124601673922102 48663376917223552999910950467857833835733863001026790499828349407553462207286 42898329422988996086626879992808457307827315515969431625809003344724350387265 0 0 18852565149661820191888136633701820509170060893703867143929540275700627143561 0 0 19145481713934227178430609920132219346857674716416321505460556543304521315733,
     Tangent 67128712293132695762786496481549739694352280414263523695705281901313635646665 107817413956952308000485590521940549430748221876636176457153376876707234427934 29317128719891625250941214806953577484285495648638301884521693591611781323395 105853777011672967675855679115378402953884542974593149045994099841856990452658 10940731957105796982200997855649318758239847809448198547728357947518016031426 0 80894155912071120605828466587434195232835509820043825767278772381753018927489 0 100391959689463226589939293575809227123665339930052313780105701278635102295194 1 0 27298039311472284770953669720643571424778979492536544266395813030391094761118,
     Chord 58377873492589732845894353086827084778964549966738913145383612184092512036579 57414215717766515916803093862580488751121593448551401050150019124774585817372 24985510257122809948271959512096174088420023767222262048335920866373040817822 88245996116392208878602797178292751401487073906124716262386001522113588410498 17607780895280758797252881937085651552397469068468432783608098319743402042160 59832447520394245895386133651967168069646954290691465664563112857903718015309 1 0 12596723721672548962707740716375776683081939753968374352824107131733111092505 0 5391350368285392150197186635851957068869622166562383593898415733391707502580 0 0 19041639684992722538786715643904537648578944011436317367540273740797204873171,
     Tangent 55959641689962002867311313297440405460439189124598848530970518450963379838642 70704923161541940900689639460938844552325807222637476474817286962838491390398 49953870733056123776947495009937400247633894289128822979357673884461590472934 83445999372580883783002833876555824834849718194629923999784055744148909423177 95034314064293608043637480573006274650079468656345674371316059208005057674901 0 65037218139689181155538362845242874760032918603230220510761460135147729892017 0 43173814319885604501833077481370511133759138275471747167750977502660115150757 1 0 30502814275903377408307178382631031328338666014267739724476294957833227640622,
     Tangent 20757775146062640719059966376401298880006674758944639824217572100862040179050 83985680240027869460185159488474891945030742652106553468435309982292333262854 33258246880462349467465519522717939450814024025442766928082801552429952558154 50187752492118534315537314353837885384035694169187157071701254191718956865023 19318343244149900888909554112507512047700036820738956844163793913490738142288 42547478344983370734579527911933384429362677669613047792068619690381615604876 0 0 60916030909211249977266899220871211254286667000633713105911880943072166177389 0 0 24122688405527056620101824940136205702988892092448820183644608103672796795177,
     Tangent 96473745966206347873787892836900061482386106594551357351369837395376359711663 73494494885373024675372239246036236939830368285747304627080768173574021570222 80599896177497991548229027218801002646113924419914800739732983914544840266094 85379945524976791530005734084444456268007913164562670527501901586041214452880 34234309001792750836284501337695880911805550768712093656636126183932170680606 40735492167857635766965415239098132641226925413886881094288754365054985093312 0 0 46647753013968642937171030270389504374587574127895590581819011979800168477258 1 0 51157628278192616093562725381215295174625604502040564228114563594757012117674]
    (102479058658269841474201968357302825827776548768038621229288153438274149174357, 36483364243830492097694694646868735427462226043065953064935300973182192232276, 10889035738934729630961824445181882007544)
    = Some (85379945524976791530005734084444456268007913164562670527501901586041214452880, 34234309001792750836284501337695880911805550768712093656636126183932170680606, 696898287291822696381556764491640448482792)"
  by (simp only: ec_run_simps)

lemma order_run_19: "ec_run
    [Chord_neg 696898287291822696381556764491640448482791 78851704979285908991744298117761031464841179776769391663875810439908288036357 36940384231070339770953148831646542065244963638520922531657820868958809817594 6544424029391796717241001445150634341785681675435555765420380671302930217287 90448864218126878337301338014866845333165238698780849258137206989294094839360 110723170517206161955401843018985184464928817881072135464898325905614217467471 65051628327530910348266162792748627053189521590887678187984114165609970770003 1 0 4456599724075086762042188746248232706831579266324698889230817372910504436873 0 369882659243444790618830936934042125892389854024819126252719117421953723332 1 0 5112056656521261537237174843090928184476528632531507405137078025013698659761,
     Tangent 50740460882825338414431284156658946476896621824402636007549517143257127083948 79287123822375383354093906045904910561466342133298098142721228520519570063186 86852617408879245901985882110560669107560508026438058755488301307867169393958 23870553108326916053415960908424515357368309854634076709410024597747048073513 22426454969933244970367085442902779281067233440853783952308558344097525413594 228541937782705864642439867851194372806107448735228893845838736465459145902604 0 0 54290824588234795712364887344702448766671040791510269473811809257222728482691 0 0 59471197710968549319526115770683828082160351599071043024894530860799373264641,
     Tangent 93365634240423003792330361506504794249018909974436530243225072964769572440357 78400895777110603117168578481903086034393874045114718378124233596354887060896 16927211830029544798053181523503525699714062330344368250506972404811647568468 6943341278297371255362779384920989657654247524289708458903052192935400505045 45299423983505134542031042700609878495300558237282219628305298686374662765729 0 15606406385157524896730569198442357840237766657886293826854296552954948388144 0 53083941230966309397587097722137361273147447600434294737025669623748353715495 0 0 11461133308272026888114835286826298315949743447008268471540745378676855765755,
     Chord 41496220015609080503689805867876924545108702001752039536941028524147004130241 74295869194747168259007641081530648984977441413538274658592602784720093723710 5039390165970532370232644730398570253599144388732539072758341078584517237866 98846149338245341413330340358831324717245559259818275099893531515890488030625 23889281150408278604729885975497238470494831679761747554543151985912010328371 12828096240017830242442272020679540433052120718783387158239615890091914045409 0 0 1805957941493873847863455678884347140538007164933443011666792606904752843626 0 219319414806872517940904279620411565476074662839758920753999106591516896954 1 0 4301885528762502221062858409413932770753848005373733538350248320579726922712,
     Tangent 102963992970338418520255174928728033097034022696506927037294015418775183808542 36007002829436132153406929242209870127459576095342023039075178731925825567422 38472756478475859007099320448883678044444288747345683583791082081623572993435 101208613882288668360328012476021133956136686347706378166285701213155535188887 96318295528066153459182474378161601793191521699932589642342938412048768680493 6807811067269796123855403685916055784833520587086814609130211753085231809924 0 0 11196829261830647386015938016457822685586660408916533798935899611406824595705 1 0 11963586293534028948649909185721873264941937136686998797818808982097953080068,
     Tangent 19473793682290095303514972571245971736894621715357724553190692896818329173458 49716326168911055167493011979481870967392956069303448122589793512790106854675 14976363954259768309134017971058654949850374692520879590587621680666709747642 86232249928028900051193994504962479006286311655185498575698079532488825441245 97547179277922905753858287434762638719354875587981794979889225362627864566806 182675406611602477198867863325784219055755613967605138878838094656568872643454 0 0 21346130850469915821715064656535480961430776938851032140440437479912750207906 0 0 6430230253654565755253091542262530781283024723355893465052930072106777930101,
     Tangent 18244909932433343008839159514644934810731267827308519215644405946239233287145 73697868531152316697567152067070036012463138556794093635489897278477137534394 19644090082119171532538085385151813258825082393798713838950300041847668712276 66588159845909728518655909119810665747461229261386784736747779490641156728969 17007842572654587751269585739190345929651178385104792275281351793048921466815 68484509166474753738580961950502797806136062353725250263137398763070435530144 0 0 46906277130624894669997937164234320427101296543565376673003691881304866084127 0 0 12502819304487076423311702396440891803910622990316780354803202648150407533773,
     Chord_neg 22300745193338326284209816463732494351449319 97643490658352972003094123082394821985387863679945277454629932535308345760268 18148598552003276759603323867012751544698279735345036740903698773558752093683 68178166421965547825157871713894713383744225133665951125527103461324643904917 104436951839016312473136752458050305855716953382059749741978244709175901853643 77943297217249664808216603611167933421830419294617349190303166090332352729277 33649547453656831794867055761010849091504049056032909083281343800434501739049 1 0 57492305402944768893063810604761772674094054213062505080205296081720585273679 0 40143177382496850041857618705950375820844723749057527377174592721508626940707 1 0 61492282690814647188431110616092796064359483917005249466890163707876662919617]
    (85379945524976791530005734084444456268007913164562670527501901586041214452880, 34234309001792750836284501337695880911805550768712093656636126183932170680606, 696898287291822696381556764491640448482792)
    = Some (77943297217249664808216603611167933421830419294617349190303166090332352729277, 33649547453656831794867055761010849091504049056032909083281343800434501739049, 22300745193338326284209816463732494351449319)"
  by (simp only: ec_run_simps)

lemma order_run_20: "ec_run
    [Tangent 82142541756699416967830391188396724438582094359257405112252287508432596114902 2610935159657224209666110194610020771003224998930801502123070427592678148672 64334112146518250115089161629782581136409822459638802766929542041220619643649 13609185070731414693127441981385352285420596834978546423373624049111733085628 27207936705389321849448110228545085328690310710373447463075531422928549698248 155880762608855358536102548918248932634341302182379498539406028045370550666728 0 0 58872609125741514721224860598856969158092367542171042998741963328276936502 0 0 1450636192110887704762441826387841626851616736660589736525697514998788616881,
     Tangent 88584152504966926913249336720862488201395832704916866732458099885938548155703 114843212608504082247028920794979308078988151240372226873642150116435919425164 2038161387519235435577800956974501761788666076861308773924372298015304536106 11571023683212179257549641024410850523631930758117237649449251751096428549522 93576623733395514631324069856098350198123908361040765268901243278016587587729 0 49171441705138591007739905406901025924809469695273796461101364729664387054445 0 113902111726147803259142084832432401292099353035607418023331907465045429585018 0 0 2021459351442296093250554281738112926165051062909174490544740048942448220257,
     Tangent 22215465476960734131373377093309223331962235054249548926632388030850510266222 78035022417009340961555550402925110498930426424616728277309326562134236307246 47437158180900801600223851660074019529720477621130635027132845381598566678836 79925954712667626420023236313744404523997596552276916817850037678364959724637 47671489580812370043333635485464600263316885559650622197134253883958668523885 0 122658138315933287340096228919431792249795595313233039845246859580178287690669 0 52589643775755614684033172554690655307357347565004122270294742191938094945085 1 0 31969020744767190635204169562540031987633412424453598946174765571569679423142,
     Tangent 68120599629543878719363811463942973266769257855639691998399377424908429330066 76277218112591092080226741792829670898853568281292358704777258319162595946138 43568860323896536157539209588650235460288499516807699514114347895145394267213 36357094388771090262484026725094169063709097035469217303735689783219565457424 53165538030534971635689230976739324883923137953567068078596268870191407821798 102701122108392816133460324849684372112350325979991405663138597090720284919244 0 0 50247076831181515086936735597581115428583730188078961099696721162077292356646 0 0 28700677952234762009635317058168520911534304462364412836206539978618211221761,
     Tangent 62626551179821277127008215972668248646163005461723246116937362438675690032153 112936761040037711991100505146373571724985170975336824781017709783867579208250 24644875599709812711510849068503008100957000985755662410259118192140049184982 11712218789061277550973177656591160962752096049713554893476571591079516272442 29774012501548185192618752920557139816311111551134718735329143181840065744817 0 69462192503024048978242913344996663964914966551421200344264108952331821065925 0 110151842679368636328201485333498273864290391085248866275637746021685368070710 0 0 24037155262044865664545121319646033166897157295914621703687679098223709476635,
     Tangent 86018076708808063570078694028850433713775031864155595460204488127027032109134 34756818619144200491681050125139530734587177680489271172823314166930530383840 42495337973028002013739081660964574194310025538885066995743630295024766065007 85008970026389524299931542945034160298528213926118802093266572604921848061386 16040785503600037263257404709446421716822716478837748554340131235653546998790 0 14320250274265369961823986084951985909635663385085121473897583463547163076521 0 10432806323491434423917089845247132924646648827323110652796199232536681760830 1 0 12755644743610555726426378655470268241557387694266581614943859497241230422423,
     Chord_neg 1427247692373652882189428253678879638492756415 79222680477873176221818489257171327434320879015213260098111139421027654427851 36569408732483072540878957692236246095765264400077054097422491887839443426100 87110422135386227446920633925999133751375320323130581048217599538957632028771 106189215740704519720393515435032686119698305761431612604977780171278194199929 94611843496041253342235474459409047708916051579977503683822423742510751715408 89811665393504248152370763644221369842314177887702332967885714773505897833752 1 0 59599245390479829687382243428683471357520776163695378554492597262145592326019 0 65533195716158723156165578696486838602844879600424308720066667624792354359911 1 0 79886177652376700327839782662021579136722500385234140697645308435825193610067,
     Tangent 25980423816852000610326683305186203687771965527587981227647916535361200020199 108615259683097324717606863842767676669898796628527258015847533006683721331275 58775054688993861191783288315374941849185165228584687182191078863875578459300 35836788807047392150452186144034105859730886351392816501631344878635173256108 92842337590678621607945007655519488717529219920268216317080708752156641366158 63427200602988382629737238908483040646376865709760748567869734166835798462739 0 0 101883252271188305445729983851418795345495755572240450466806599056252789447251 0 0 55132158608313226216201208196107039485085890232051148381043330395310158152090]
    (77943297217249664808216603611167933421830419294617349190303166090332352729277, 33649547453656831794867055761010849091504049056032909083281343800434501739049, 22300745193338326284209816463732494351449319)
    = Some (35836788807047392150452186144034105859730886351392816501631344878635173256108, 92842337590678621607945007655519488717529219920268216317080708752156641366158, 2854495384747305764378856507357759276985512830)"
  by (simp only: ec_run_simps)

lemma order_run_21: "ec_run
    [Tangent 22949751619677627154752439293888084812556923495022097878452922556710456487793 103385602106916870025186739530155456429224125813941217944835544440488596799831 54487488972740454127271232343005331677084507155921543871208964753893145457840 97141389044663186785878400750436347712732522610761586825956011433609125652219 33965795919208921988784689564538673472840118845872732021900205307706595543570 0 132515923620426242678670424740706486848932609103985974534343603637577012860457 0 92308402032474643182404860977419028760843643927658141542223285007403411231426 1 0 48649453457110085323752017499678222106023039596292641503358915893875477512912,
     Chord_neg 5708990769494611528757713014715518553971025659 67090261459599513735871631451769140020116570330570475365421700592340376837018 48701827750756735026825815497638433509969573084719838830111930716526721016933 51568576624724618250436667260959383245278154034628326986436239181053533494673 93553040127273108162494221313410429350169684110322242133193379373745514448745 3588348917390078623384179437025918362562838500439344692762632059863611203474 15850564866769351529341162631406866403613249604716658346370176778894659336035 1 0 29878978023852188195352527221332262237111223409360513437000746121061652778942 0 22966319316244355187915023702415847911175859973243156044928947122809712008450 0 0 41664306699871983189012906128536107098950689669605842819718383094355950774780,
     Tangent 99941524343586897233356284318000707126472893810573655849163454529972438517916 96562071955907254451604504011580758481219204261368749647422189770128023595815 61138402671474461819985725350640244990946017838020083398464303694492460961985 58242035456271865566095901035793246901702964077709575489831959674238248095440 81819400288168471448743820753803828696413089755024150490413482564025584447641 0 26102802420844345983401184543029859046765753624488671004740770053217933519775 0 80525654248095789208095876069818002709402014106109881771119112784985922973187 1 0 50984923739541066530823073827404712199642824887910386293796010914428993990549,
     Tangent 33972688922187777313953626195603744833673053660266163705120148744841513406310 57755009881068112662947801566591734180625985286646310582993331874574742116164 77428772944272461337039159615350352223054046331108932800314427156932343672223 96605351722355652991754188369850468208735061161890956885051163826173002277168 58928019327464168393715601765416521514655845085738282145244061488439637567395 6265052673317949402300845646305774287849789725190226036926229458684551271499 0 0 28807159358723628770475089447614006438661753320804507830313062094441429677248 1 0 38620078253804200375025825982514978531965508274208643157843711781080458670336,
     Chord_neg 22835963077978446115030852058862074215884102635 67626298781907047529995843832355019524114031779441105306326548199776500212069 48165790428449201232701603117052554005972111635849208889207083109090597641882 70775507198749320837764238524435997166574178610820533538716662805997373904747 84947945675642103572945750878346044229275946590873783656460335423736838841730 11657406046713549418808437491504423979459114571017173228590828402436163435438 105558502225579906543064527696814482911316690484162215220853280609121430934475 1 0 41335169171777560214305134475642349251211904899079286746385550061349616270896 0 43260057344160994899412023763387796825494614699736897462419652122418499041467 0 0 51922665716507772431973443549816764088066298328907184659984712319475749052440,
     Tangent 10233586984776342219632919252593090618769452931128098974680350699745666919476 6100621829950246647745778740538432166311791187470348310177296571451371431400 4635051546192617901385402704726288892980358547343763627112673333102462906624 7022354500520931517423034786778135086478756023673409601478155069333700528814 24826805540529338787238008508400679601410442125738536375416633443005880969148 0 7602070787542704907444276769149849659007168191211872440579256077764269666521 0 321417352134076686742248452746613186580608140413381391367184240182669860810 0 0 244202318469941803617135168365419020497832856538197425601010248362511848327,
     Tangent 90965283669826909975459438441006893928675701289551777820116997865861216884803 96817771765824090129293879829359327848870193695649128301530852138134737891656 14685147611892458914246146556785991601982402860570961569697285644587303488050 108129296098984721365874335179399717014582496578392762227314500733613494894715 9438759842311103447084639991650238393685700985651434749809934010132314707816 0 40239463926912576749112879661545238672768664068591251609819899062423426226441 0 80952688509404994612677307267553081044561556067379345505855521006677215605143 1 0 12278759969972792228813310167512014570051018062728107489219271145779099471636,
     Chord_neg 91343852311913784460123408235448296863536410539 56102354405277979155875697022805770718266596362939299964063211292336007594522 59689734805078269606821749926601802811819547052351014231470420016531090259429 76893350726785020600783911851309793602667484360681766451189543039100837527302 13710491975872497127794492739677003501262879883663646893143022020443024972197 94418804123112224238079842439722713513319616694729115334171478713170469922518 75322839282499725018260741247282193943905410229476520789000192937583693078690 1 0 37255550386058709726852892408728008133509086078096333021501816991208313152518 0 51062101274044191204583512270940500443473093255070234294475882470233166378435 0 0 9104643290633758764061098980196716076481046715865377740931697142395388953388]
    (35836788807047392150452186144034105859730886351392816501631344878635173256108, 92842337590678621607945007655519488717529219920268216317080708752156641366158, 2854495384747305764378856507357759276985512830)
    = Some (94418804123112224238079842439722713513319616694729115334171478713170469922518, 75322839282499725018260741247282193943905410229476520789000192937583693078690, 91343852311913784460123408235448296863536410539)"
  by (simp only: ec_run_simps)

lemma order_run_22: "ec_run
    [Tangent 40469249927856523744436705702125379586180733185813793406533438371283404775261 106257977750846176962425417273098076326877275217168651140087118003591742261328 114885305796501971742853139216232766886857915018905889316746571641979023034782 95325587536966501257924150172897520156547845091113540212958538380058544741687 94645274459732822338708212636536786321266599670465721602895080528140215267042 92730225597611276107471932935732937116922795045401790468102617253409447728279 0 0 97508887806555742406399159137110653348540605912762274270595869512127660413411 1 0 105425857245281048411350861782939171271576549261786707135216615950219101756964,
     Tangent 21146814750623426423989234312870787208819543744824592592638550780726882586909 69376869023005996412609354150301551013580394653090504971712404864039927081817 115720757053267265076796899196584417934135198217544932155265921203612073527100 95396919694055484943824697925720675752498790288858922253226248485313569068538 49627808738165575666573499538902172063479271814175086884403840214698998709222 122016256848583413212146741234409440521561486910256775864420877774158317617076 0 0 41567174305762927729613221836373938371393322941104135897343584699661525207927 1 0 69334130337200780822734992377644571250513491332673911966235492470278272832236,
     Tangent 66164280472190673096123947410505401466606871601115227311129791094168099144729 81043873191699848556064663645778058136198560430545436864196608132313912342650 93508808287388054460629104755551914666345794163341855434825078944546827235563 1888111406667430483195593170168761086152996125517066818401169540766741832975 1619071183006583165634351294162955788592033196560440827254095930234476375184 166312373464837632726937797667843356591415699982137177935056351723492029353679 0 0 56723299723698955378749951390944740349022951319767549051961165374046112626399 0 0 65447614364939341637565689066528943151410923178920952748715926809029498138744,
     Chord_neg 730750818495310275680987265883586374908291284311 46551449887239021275856992082629153116609953400524681177442911176315662802311 69240639323117227486840454866778420413476190014765633018090720132551435051640 83088554985166621791193357793746989932386310596026185115808196455409302793195 76929700587997124501835387915486552327602501282548302936163688556622260687454 40750500029026554744057652204089782288636638258259078077771112293011578999472 47731950049110124403972898691605714160341366791553848791200523273259316843804 0 0 33403773349044557775057568301552520918555328041204721785229927155612312893837 0 59621585693831674166491856325900256827732747252163200268996539345856108916892 1 0 55202196461677767153510771902991983200780853144647411904716597535632428620642,
     Tangent 68060139161246124358724548257801859369744776623736465404333108035607781010147 77330986767808502568256814496788291024492578698276407668782156046598055465581 70981656568636088157384074328732071113923914295165375147740816529082456902740 85560932670746715349371024824765284704798867378384017125563927072796219950683 25704178155811058211539598627801190170210823762722936156576637682910972290040 0 20731190306885712432115317391447346292709271359661170542048123477603330605349 0 51644991944303957952775608690169743498965799320089989726463558485541329463634 1 0 47404633445161041586160479090793539301989599419876792820158157327570657218896,
     Tangent 90087911054545190551157848321606383359875319652567378038956993625956125563911 57754883192135177365097597846680364524032341855114467585959930709567270269872 111954111436429755905656099090117156174959916949817128404102724544866256030780 89398910444673208206412372684055702059925093843857202916994833836797061773854 409968540580575386237618802848218558022790450242614217550012006449084648243 164026196557200224777828526738041805811505753225648938163820432473457623078904 0 0 28807032978543456620573879869914961667491745930036860789284054050014910033364 1 0 55840573159914854364199304202104510843678638208454279495210612412588875125227,
     Chord_neg 2923003273981241102723949063534345499633165137243 74832740059589492315337659518149785672923999097474859274382878189152440715383 40959349150766756447359787431257787857162144317815454921150753119714657138568 57044938491522225927485346296607344041589060521635539530578152517690414636859 108259221911919424427556813075754716415909047279360755165549646332336930905883 96931777743110032541553006557708559174102189979786761946978818813327228721922 25016998421317973768985326381112940699462514387314921124494475734326582704324 1 0 36866327250528242519600040443083288849296760479848746075390807265381166024298 0 28103172070674674448486319271935905669660847149511318066271345003190437642269 1 0 53333873645602724783013588986714789703269487454519836273601289493110931690430,
     Tangent 90775090789038274993712120568294632830623629027975393071039155574540515149627 33568429453957272088637597505678673438124695105447881390688209467723578932442 91249454438229317134657587678085192282026231158366242189152251499060676748586 5682323304880715406895418879623366892075958821420519757826567314266551973336 101602898046037339532371856728952430978791747556903669596676632713401581280665 228925361799557985091468280068734070150579100823153470258943532347830916630983 0 0 9731575478858563542071446327016578418107425867466486401988369911033553699384 0 0 26453455455468460180252755423840586177208758589704154499051399520735285483673]
    (94418804123112224238079842439722713513319616694729115334171478713170469922518, 75322839282499725018260741247282193943905410229476520789000192937583693078690, 91343852311913784460123408235448296863536410539)
    = Some (5682323304880715406895418879623366892075958821420519757826567314266551973336, 101602898046037339532371856728952430978791747556903669596676632713401581280665, 5846006547962482205447898127068690999266330274486)"
  by (simp only: ec_run_simps)

lemma order_run_23: "ec_run
    [Tangent 14189191164318909230325590220455142551294395858386644598856998595465516573286 17191620986139768750507542130154500389037514165555603718265466845447421338082 45972501767478903954862630429756506307944227231988235146492865560727959298072 75501910747758060214730235399274434114217875004722598806867333062405690529215 90296482770336505392956015427261136898767705461176831427399977059498404922274 0 29333356512876482728467890069332551371179470299701963596025213224863623593625 0 2552435439645281558674501340663264662138099440967495216378401676763602974187 1 0 6825525228544292466825696197090646722925220999453673674050581020089821000715,
     Chord 88729739756504640307019796802931053618631217936609463384510378963543811960022 27062349453851608455677650146476519911454925478680850811023252345323285893929 20777427694881610050827073052830823461977088995420687290234880181088835477747 79501751289214263555703657036601499204432593169512397874056058960585452431886 111792248668900045421724025312080508439871425250500515128344905410687335951280 38503318178101189870212606703471388236878937159380587131883744033551966893574 1 0 15921430943587733979855365576165817887630653899619634619374040433159089504049 0 3728246934311490798345571783963471836642251922839439407038180512972465249628 1 0 14265584983333837621648260645059177639612739983343770290952794642246393433694,
     Tangent 77288771032255058892484840245936185293207206255909727063649887275315130960377 10190335659228560594655225070484631712737660236026892490421339568374730423976 60609320305422307203999304717131641469741414978486849224864376682861014052490 51182928363477738217724720594948866970130010272013665903480528727826321898790 106646909312872668048545950835505660105114731038602490119583103721594310640026 317014723244207713787579255712823248607317926257821038210185289048971538793699 0 0 896805140626633114665071010142620270317055191617194255226361625091905619526 0 0 5333950895971146257536675574523755865692090947341824908434324013368529338640,
     Tangent 9145179897483580714151496113901913424971412376687824075950527587272787213925 20858386030135550732706536658360988526219833157296531524461690045786227812773 64042658366126163576573506577133463428322167285859585439086242160147097497600 102932359207707823403848660967222977071893986401444394659927917876546322255141 31917541238349963606816662766320751993951324440779832675202236345891040790967 29450299101608875292132450080464281707008689779140805677420794673529541066651 0 0 3757357439088695288773912217949085992324559362171592536314513228134798525208 1 0 11536422735839846658066018972401903012949488937395524675420448573979691768657,
     Chord 61299291296554877117901371234982510660955106539887667531449794149403180234096 54492797913801371644796075714425062869131036875402646664083837159463917619855 17642831140832324540687621335471083589213151434355977424408114395780040771585 113213356218892777365797460705372968502097977335887073000362350915594221479914 105511092199171294800748647211257582099882152480847635855099198269819198629178 2413219885115903999383754771104346877385662234780735766949867619952450467158 1 0 9339956233392525704784898679651078135614557680619000488121418367456625971918 0 2688175788057923779751304306113115673014529729559517419587388070608181093620 1 0 17249918714465857950869877076304553531237130530214007204749021904903122241315,
     Tangent 113378869325240344763313692178303226652700481180509578428583763688914647386793 104903306017855996895041988139992793952912636479124805934444085822633549925532 58285703636415899252977140602675129214027505860768456893180657729142675169985 47225388562755395547771506608582452885854646620079178961918540540676523459193 41785304374726555193023872388781263652204293347477998793223262504177627925780 284056212020146729010254328323853264313404190830480237131940643948976257277287 0 0 95038475326963010874119397383096790015016501986666458785398528082092811701725 0 0 52804669530827852722292264156263292878090446747263791379124574717865498495182,
     Tangent 74006784835629693569673574560626309877881850067812315402310368804689469928171 10665131251334053399427480724824305346201782086366227203189495243448490129929 89926757392156945616146311361857592708924793461268657635105142589835810921288 73090720380954698694322642196132433707015996574100835522347029259707810391856 34890889954141350653667009257042140364410951444036434716743486428704980006964 50084772657545162986451608089934674619997824753189835083621337334658943263704 0 0 982321205048342015200740112165124741685839769364707659619395255145732151249 1 0 8282782331113256118065843659770533837118789505445987151996481810335413174208,
     Tangent 80901199256214898109030437692365433165675191971253879478790144880162117846987 47186297251071776282248654990937323566046540582706787117294092751299589292771 1017857504781159518573312525174450670322224307716926604932112603601252926974 72072862876173539175749329670957983036693772266383908917414916656106557464882 11412635976248561812437724083090170667780352014102392858757679959202182477345 109973112108082726270795356489302767148533208964080470250710804829136757195067 0 0 19228832154687172720694140949279929424836764604877599130034750531841231706697 0 0 414785907287545328582511534805915988840824580557010237290261164023554810395]
    (5682323304880715406895418879623366892075958821420519757826567314266551973336, 101602898046037339532371856728952430978791747556903669596676632713401581280665, 5846006547962482205447898127068690999266330274486)
    = Some (72072862876173539175749329670957983036693772266383908917414916656106557464882, 11412635976248561812437724083090170667780352014102392858757679959202182477345, 374144419069598861148665480132396223953045137567144)"
  by (simp only: ec_run_simps)

lemma order_run_24: "ec_run
    [Chord_neg 374144419069598861148665480132396223953045137567143 92158787628089161346000702531247504696155320674948153273962795369842945024355 23633301582267087416696744418160068833930822740342160921570835939024152829596 68005262269343877668213471984582390454715992055409896537337134935425923298265 93161311013790241264804383710589853049662099555595663558357916335679984206749 94703641072739546673642392909775703517117816126078559554590631629293671112084 44030134307828451019369041256269027862022696881353797329118104720094176288368 1 0 54125308264257762791135694832923980297342253731681737976134864454909907284478 0 39939824282129104676242286145735823274024787349049896187909707223028727862123 1 0 54714095168792299042230468887843340153598255079186730677833706437149662805372,
     Tangent 71761954902527797743328405693138545668063446533936516866415526588772921565583 22847216734594786264978517006548715017438690114164923016774000228003579908888 71964052266496895244437923063459461241009412396943628001571848233696524158263 22739588806242651429204469846316242276108403729134931553018783395597146953821 6705556537799946665595597080830555504880362561235752804291405835655903688609 214992293724913466741131024431649016098948674446217793680600800026829091748947 0 0 4508039504920355730347010520685315604524144678861045011215890296889927188805 0 0 14199400930105242406617085304885291803232644031222435486778882260197885117417,
     Tangent 109086532672556302097101849868577018025205780854054561391242225473211194165342 57006326771675166938253274640014290410987321212691641769744593278470657399320 20350803300265319732593913617883898310910973144175107750528296491271779869520 2388785505977331696610556228432343965197430584959823802490486904325367084301 14261066068100113581721581065675384705888465812630082482862409986280453365529 6794491819231203106295128253219831551843029374830767793003163976218135686360 0 0 28065140841317156928391606970158618647889982620943017598659044921107175932807 0 0 10019031100591374931262152969783971347524274328054342112805259654190120642362,
     Tangent 101531023142256135180975865883732188824197677602660231712671221322586644488422 61188191400965538014465498456641756873627144923558166504983091519199122563709 46873011383631975088061403396102448405984400200840242720203486900215520793006 71307863332701605371246599781737469089299173799409895277820631312976944145246 21298390111741816690016579560289018642212033722767363305173602567109100742323 0 14924152448733857080102954931121779678581556084484281256373106409385927681422 0 32333769884051253868490216943003402336146001016070764782438885917411641039983 1 0 24769177338798668389720498958675074259149977093299909418057028819157509228502,
     Chord 92923787171561095150503432420468018643549919141922166913557080712972558343991 22868302038795153612194014528939554886536224273368147281976550595894539509960 93364511833768862069851086355650334198265550173416023366554272788353120052775 10917313128882177720003482947749499121159516660774408079410075303029812027972 60390550203819427651243116833987969968139657138635487198410556009947132117274 14570363563694651565819576573352329318753702679319397199711006975767794537599 1 0 74925533222367038730968504029171804489252117406447945810359266592805858590689 0 75280894656993011672687426352934162779176246258099523442839567486123426090269 0 0 8802756887500020196950211190787887391374866216343782331896306122300878744278,
     Tangent 101221725646661597196877870376055244211332440735970916995822624333099303316352 102957806797702590413874992165310759113695065657764109426109604663455640642342 113813407801150741016345103690246160456920512379073268788982756198984216734939 62369231613024935397595460093149383041305288174852532604961431119830013236286 1951118267638738212015936212775894974266489417017071999484028494793978976517 68578003578534401336429792023482503557476421746824977740299269080530816576459 0 0 91546063749966262167998047946178643061729204119054998136021227285500274535630 1 0 101198440509103264135737387605601505924573509732502229206875219611878465541122,
     Tangent 113840970942717510550681510736631678555819653998273242196049602814073118877434 58040862963116654558930968031547177308377085457417875315414942009275749213178 113711883332397472368466306882404126087277393835510108334004355845910014040237 64449437490983711791826600160152830484114037754632738466490706582787097050000 25170386999818579582344437233533613122910519071092979800663179243012707295070 98826042936448483494177417121610451352530884220196673389314468160711357431483 0 0 29093021781335922480970026695812755914494057245588347023337314974321473524712 1 0 56998158361092109689458726693766641429614307390021556083958128297236885928049,
     Chord_neg 11972621410227163556757295364236679166497444402148579 99782213013278988729923432042052657248735055186699323724887005443162405439237 16009876197077260032774014907354916281351088228590990470646625865704692414714 28274582661611983962004196079991337672534509111883006652016745678944726916723 38227144526784460017613002940366640798821413385508344134673600696040466298837 26222292964199251774213597219786189685292624369124394331817105886746630751163 59772181889066202597113347597052566907871307462178742257307999490709171027937 1 0 24365226063735271383986036774952020670009604255135187611419937301457945842029 0 6904202438527444629626302920851441024579877753579767739924172231590147316280 0 0 9334459419558390339912839502275272495886721295676947844775290676447645619344]
    (72072862876173539175749329670957983036693772266383908917414916656106557464882, 11412635976248561812437724083090170667780352014102392858757679959202182477345, 374144419069598861148665480132396223953045137567144)
    = Some (26222292964199251774213597219786189685292624369124394331817105886746630751163, 59772181889066202597113347597052566907871307462178742257307999490709171027937, 11972621410227163556757295364236679166497444402148579)"
  by (simp only: ec_run_simps)

lemma order_run_25: "ec_run
    [Tangent 56019907321290046165584099352355006622214835953111571938225631818157926826014 52524019538592188868477812813467909898291329999360184176578821563283047813276 17970459709708794569165025917042312068124279424340536511346281288593546704805 8251833254490457205048571302743877617168344944783857820470824598153084046358 90438162421185092933918139301194478672339675745891317356483253474711643321844 0 36411162305319515629294416983912480064478122392989570483073800400685436421520 0 23825225430371404434909432375536990764782099438306502198805782716313590740092 0 0 8151513487208151513141190642173748169260018682864582843925353799926490987849,
     Tangent 25353926789171155828779307648213094857746467669398996839050377834155454532107 4797914412535618882738947140940087705242764452559566386082461003441599140224 18205262204181259529855180261741364811153168255786979508920935762792142018703 105838660260665446437890837990410086336101320104287192507083520144228039881606 24561456544072993383315496873610526637852894292574776263639996702194117107969 0 5730537156666068148873757894887196942131763833772003569429878443843849935273 0 198804450865354491847780563124319171411019219810729025802669960619695557554 1 0 754345918698727822705249998517026521277930971473705340615958444098382549109,
     Tangent 91230632666283255379381950075797046892233249122715537931893634606672980745982 112951658407332170506176284921456356675999696325755187034632101690504236456366 83977266242235564117213054093118628683604752240153493941070762681072106591825 21861394018429882320677783897291457652496567864133698566012757463155933289781 86698764271956942780042579191596580153506325953882307619111417556192227849508 242304562509810826288833364608407124817225300101834191639997798573443866005747 0 0 110180904619394252535903214610673364403075096676463430035102088650034267951613 0 0 81917267019362348028318947816951898659843728503919773938705225258471235289623,
     Tangent 29093324938399305982654867757810993376579817461408006576422213752674870004443 78958329021715360675365274215070779369861825133557785866401314388881280780803 5417531808928432115788775350575204556629392351477730816289099806876764945984 16443862209501450204889008546716253095867175512655967749723657656279168343797 68135586143962693133402934175488081140106157453345103729416393623668532373081 0 105857123302851894482502414921532684450280051580472426479066334538741566052368 0 53841482301744862213960487079912093008919786019624529629539307742597972548950 0 0 3694201063061239527797358689695998116638837412463064741324476509995166081213,
     Chord_neg 191561942563634616908116725827786866663959110434377263 31995699084405001554163576706081661106895774013385780246120423060803236291489 83796390125951247208533870243325912423190369401904533949413208248063861562462 13948600569775165769926510674005057698330778652895303789336881095231073298252 50024455061486784767985966456414907034579416579696067592541681223299865060034 82211496358370914199600489039708919591373902348250214352715607741846401137714 39239736250392609187526301594402311463718545594802080909353217566902057799110 0 0 3854280802104833804415586946278860551422191904394753247375410163964981849317 0 1680282817090156210041520443561857776304156985777962928768483097516409888557 1 0 6026069199820079500984038118008065792786120414164154787765135554642851566727,
     Tangent 76552352959963639575171145355005262066367597820488233286180413741965040054841 1365880450802188703193992349857055150017525649617494598184502591331820317828 10457828122531302410135116035246478805595071205208407798408220850529635880883 71753668235839611789465373004462440785778831143041806554307386891316765256831 34377092174189873706185281893199600305323105926631448437870500445022188786288 174182856192608802036209382364673995541857345668114935095295908881407130719975 0 0 16111890014302734365252476057471950343945691254982450332916781218217509075 0 0 123360266559015608874277513418163444742542124374207194040181335096952194026,
     Tangent 81414997036166375056512165056207973224763037488658865757663130863844909067663 24249466901890466523356922091875300977341171605656217437690630091486446110563 22646290829273120280589774617671553629267121242430319243896122803479404445708 49107377406566491508875598386790887156511709900611487310411264087837360811123 29504294139126084587891341945378615227363796907406788125024057333178204728406 118993572809134340430145412848215848908324055464245114018514567991211313048992 0 0 5078383584198152778995045858129970970004832424307504698857299498921572185384 0 0 4742642469447110993042676254875561409441052552844130525171091821324350629410,
     Chord 115124273097696209012874433815414600576337383040720574880966447938112141678114 667816112660039749823013133992972953748760374569739314567183370754956175837 75959444191163504380127934880241536814473994715638282114926394843277653600080 68047854220107079343490009549143523632929244121357619852706818015328964624333 96851612396815660928083035787054937053668609194544181653238077381375494040741 108987759992178724467808302027937436813031562835687629951317892835042468535408 1 0 75521357780550376614365194630040759821540631367888611047591966882009942592767 0 49829286276617578844128264484903820702371017696396530433838012254734144856750 1 0 44639294620295684292567449458807761311031232806680766637320160947097307635126]
    (26222292964199251774213597219786189685292624369124394331817105886746630751163, 59772181889066202597113347597052566907871307462178742257307999490709171027937, 11972621410227163556757295364236679166497444402148579)
    = Some (96851612396815660928083035787054937053668609194544181653238077381375494040741, 108987759992178724467808302027937436813031562835687629951317892835042468535408, 766247770254538467632466903311147466655836441737509053)"
  by (simp only: ec_run_simps)

lemma order_run_26: "ec_run
    [Tangent 6804329218177524294889144921470136717054580579602684244215738473824629318543 48010647134479938007935433085908703970798818921623539899214607654952342884742 61994014109963339566118152570609696854600323189614689755660296949252161231595 34857598286852321361964883216445240199068286004929491897577780432123332809146 636104238448760214243348482813609377744817580013974713529138959662778993302 152649104254044442306335363077349307060215754440552945462342149489559639834168 0 0 19906560577589003284823523072042644865825267812405265554351218564369193408736 0 0 25704456635861601726674988852594422820288077361954331290220804726536096363780,
     Tangent 115155984971907488548454098466593964152341325835276339482004492349204318860649 46433862574256519445569863494464312629114449230491095768503992140657159518285 48430530435710291287394199791144714253296254603149054196626786682159163074186 102219157061498278837268130374708099475858174817070751896484625058831267588911 47112217943109027583517335025560545646795907201679376772843195684675860936020 30970016568972250721095711355877516120671037307329874930667109145287887801555 0 0 18620474060607086976986362045515381151149778628719000848870067358523347552122 1 0 19421159165413771849929002394482606179257209058470240726028355864486227114088,
     Tangent 68679871267247221179180111923847027883290236213610937422690435624191236917931 84556821585041771632558737588999569655279520838178530790960040624240145941009 24986858830929247249390116101310327152771221515602412809202240200222251816838 77232298230569031587878014273397772323086953301468339087282384858609015772073 75698798617301969402323320165181099198772759863150229916283464863584485084711 201904547679727323269985101421440533379805200868444255482272498759545445379400 0 0 61747362236254694171535206311008814772450918091531583405271647279875046368486 0 0 18246577797721812610405819009489616984028812120902428932619678608672123987861,
     Tangent 40093290593054279360374126784226474331313383552140084279250166445282612769240 26160929257075740697504202540136394424257602314180486675452883362664540057094 63540659237428491886296161415998046199312198165411747393359571634416436453494 13691638993140539701581852857399726123774755136056591693922813224192579318579 3305864049068204807300011674404289436066989411281643251493050013897418338474 120334488599370877995356966738946599383679485082226284851658552561994660814116 0 0 5910543839919855282985370615927586404119230734598755985809496480013569176161 0 0 14355753511265355095998049299794980964929499372232965473224124148050208524301,
     Chord_neg 12259964324072615482119470452978359466493383067800144847 34747922300765912057470732395398188078988194389985156301921267492889825316707 81044166909590336705226714554009385451097949025305157893612363815977272537244 27117245644227596647403307502854657240933127648007928882874985242739572186814 60664503361584574189090378935009964894893254868474439619911168948382428054187 68819224841912214275188920871797334758967643682872466269545275584677249118343 80786929768686546941108574096880769966063053253900680192862385998562499440749 0 0 8137584796009782546949661340612799444129855543225186073426883058452463302630 0 6350563465466970329913958979442905436493263986900121956193253232408345235788 1 0 14206965698257984432445320416854793972343619660813557486968997119863717043245,
     Tangent 35005159441669701821588872852526803564023090161389634002671245310304598413202 72544474712471297663693408796327132856162737291129515811037852886770857667610 3128581470934852023191246824424197103007631288322449601800424148735415487681 65690643370977362251997674047373137655960012394550016667744851435941833630662 18759643161378782790981521915921469365800481582702514275953592034319187173844 21477860647299036930877830437951825003139733648718470334578731416140705929364 0 0 45449571272073571841071359760841622566746201473432478338113705274430568354352 0 0 1960076037593771938736744994643945139336581206864369481264499746074061888167,
     Tangent 97032446048977465971715925033486104164285661832587799919580039274547910680107 72221406740123949453687156800891020610818798093248675472379810954659572267830 55166421983933442768689809310648444415089407347364084785148687777632931548326 10524221387043919483307864736724693240870605047185931882596163658308902082336 163625431652471179754517188432238389348211627456796995426855837233260883699 88400566145482884943257546919217753870241116718983540336339946427760250373639 0 0 45045664406717664863956379924046683696872931024838279968145276735767828967240 0 0 34408193406554693658291430704871095483983886029803228916572172825157949416387,
     Chord 37915339906862532275744720516073220961892344478855816113247917058773502552950 77876749303493716486952726433334352568193798936434498082285714250093595301001 15854762726855456903853592208127843771278673596029335089551869893594102968363 43641018981410954805004141860221657708559123075892357732589384434804708284083 82675291615989213441001169825910609062397625386583888345540410532371291652204 56452884264725409755683726373660662259281653046497194324917101564265444497273 0 0 5191535294257515621793237282990264276674407119750454087380257058348559611440 0 2170903926504183521025652464185519999468212382392466655725875525641729487593 1 0 5975520485268020602199081353416195188673749951604103671157679684533956732507]
    (96851612396815660928083035787054937053668609194544181653238077381375494040741, 108987759992178724467808302027937436813031562835687629951317892835042468535408, 766247770254538467632466903311147466655836441737509053)
    = Some (82675291615989213441001169825910609062397625386583888345540410532371291652204, 56452884264725409755683726373660662259281653046497194324917101564265444497273, 49039857296290461928477881811913437865973532271200579389)"
  by (simp only: ec_run_simps)

lemma order_run_27: "ec_run
    [Tangent 59339204945630839007013720575746911270804490368793119870616529744601653356678 38193310340305465208053615396901143808178965853446075577001410605526543297671 110225480465784753648829819018458788112409265440336075222587345976450050038352 88241900360560708554868797756859394480074503361538127318486695864788339467803 44623045229550345397025864458125426626753353327387695098625175541365487884866 139848642382576963554990980956642714564683830268053837893650109563499956850929 0 0 12597829132358535234149313347588455397962161996703779299748520475321224558530 1 0 36357198592306517465761172082573163752210170220718419293155237948016266744203,
     Tangent 71169043980805903365671582491282146903332790087902619096908455767501609969085 57009442585358948283679804494421846286512375799861877656875590261272444077600 63033837972053537335591965396102177700070471882781487313386722369164588761817 25208062388507171219276832360757216780004031478756640005099973495623750705986 60516676109974343399024844223946870218108934386381844260202425007321499953961 157800322909272640249971119870389556273152364514444222035647926036900431762424 0 0 28068208856556817459358311625742835156006957968403655904709802183551193426808 0 0 31034278691304640083610928679660400354115675707551798295504016751144160744523,
     Tangent 55275413100381905363672602725460703311977209028908469935331206301545597899990 6342663167678140050046339311707006532603736078593584660270789761940947605557 83820585240275130559326109591095533752723051557301181897858580394859813093109 57179566358588289422648169719069256557367123336745772302775024409631035466828 7420348640963576443376488239812084927201330097302268319498172294449507824350 9833706695575240690448137714644391085733752763446859127991801022126291204081 0 0 347427672589422890558500393682723004261636351176616172963219147636772925399 1 0 4591382212051576966122114324629599978847613120400365001051136396769241095502,
     Tangent 108371740569392672319320958709595488602884813317988045876035459014417590029601 97131743972107047864310451641136806728140869932903710646063492931157017381045 85788230360159449726591295375078229363043598233389629080764220232945504483027 87183425208785088458754321293398600724409668518646457417544435485552628837752 27452155894093954971158365067927818332924020991089483541362657605840488280332 72258870836269365225178380571512466263510295897056576760387339101499248667199 0 0 81478585898242358717946905762202612324401825694874520244067312150170063250967 1 0 71963123594956955462658521570915034837199079683461523218968434154924792170683,
     Tangent 88339933316262293791539081881479755197162122424200830654170973703026609573619 15893405817092515174714779718425859383547298242482376130008291033589485873319 63296780146242094559933861539109013965965372267474232358630644828122255142740 23886645062542993898820459754289586758444296251172225058913790657430373695012 107324999420266464238131680938353600296734846095474106419430806133705619005602 189393183373775934363266603646309841190332473111570911255478902818845645636843 0 0 2181499186942712591330918898827485010940880800539974351638855624411085224995 0 0 8687997778085992620673850388401994648940968449244487331825598514752481235426,
     Chord 24552916231363457860232125498508327444318653274869522936930290059652030940274 91239172978992790902465321450899246085767490140420791258603341249215066913677 40855092305992633435026348101060346439774943148589808981597675913911554361604 115167157200334590501296049882496031884683726416718531245547568958937139561537 24511577072564652160221856821201128403846713249744008008899853007360331987426 23522751163370214999458758258102733918095228021286387762817202826031773184419 0 0 8663041368839402899426862566411615444604077054427975283049474244595001580939 0 14414962012637159860004861007820772378926299516055255213907961441129697751692 1 0 40634596630264547049850853033222004883967281773442305298721997904554800986177,
     Tangent 92269338046986033763238688691304839611990915394003926432716428482835324669532 25721172972147193763348371063863201309009625264190974028796506816067020157681 56992345982075813154746437622309859920191939391260095116822225527467015752741 83311320300845087768172866148298842013740917273774227087611258788760414088636 12020009141998626972031304188453417264725611644264049564527753450448593207083 5115951641299217838784144062854708357888945976875428751505496300468771413597 0 0 5713505504346188279751131505485243295094489975673694010178087289710889163423 1 0 12659845755355121511341582009830202326986722360552032393028453432522819864569,
     Tangent 103772080068357621790666142760954156265360531771026264631005877858418504646868 67719677866474259080646649624365071025163027001740620961015898026559041515825 92839487705130841142123138033406869333226062583147303189769837958363460431944 106263921806070495388747175064299546210600998105917238093375052139264051510643 75843641357138860801568382366678418957231059867037279265500152881675114344432 165765607198292552571731213256099939935439808589790143401081427748495294643785 0 0 39605078391908690202614618787883197945285376277842236651264745926739622563210 1 0 54296111621739821659690843690324176920135449068839790817144511776511471774035]
    (82675291615989213441001169825910609062397625386583888345540410532371291652204, 56452884264725409755683726373660662259281653046497194324917101564265444497273, 49039857296290461928477881811913437865973532271200579389)
    = Some (106263921806070495388747175064299546210600998105917238093375052139264051510643, 75843641357138860801568382366678418957231059867037279265500152881675114344432, 6277101733925179126845168871924920046844612130713674161796)"
  by (simp only: ec_run_simps)

lemma order_run_28: "ec_run
    [Chord 57967728698192205133002857137905941522248094835414824098002659886685450978594 57824360512164043629694589811501632007838048579875490097530971422181646875357 114119926716167721024929242929807631779507736318155999804358661167050287785696 383087762282654405024624819512454012507006411821979308656116819835754945599 105880834043787840983722550244787092198093991694095258784718935319428296565044 66902032153344700094858498865263135722868071258169090051196716629922552315227 1 0 57130612255579961552734542072516772867957824617147409325812639416223129622597 0 112471912049572934614619057897850351052759608548264585931249552882305308876093 0 0 377555562350516274526728122923273882654972113555052852870538199309928061995,
     Tangent 48890057057011548667838948084144437807218072157121224144336914678944545538724 6052628856514835103704635480517969011080836300920373185876513881427115691073 16008693642316914369455411878132350035427872343290832182136376887371334996307 89872140401470926614267138366654742162666119350804426602582558432056961568737 28075492071944428628637768600172628967917685102159294466924480441785146577387 283459664097218940393081383465377801784820658903723968819763696470904792242313 0 0 316380128595516946856197945425134396970360903340320381011291682658187061704 0 0 836798798219860079545690602518415081973850498514453951030099772054180644147,
     Tangent 87716597138411820134059678349234944562168458313131019728609150867081951276564 58714419559088752342957682531882890547879295161078308412439209155553376451557 20694085249268295235326398825562390914567191433591758678112747400060686138596 69178055152202631378940739541092351248098927917212667924469811031996275430141 15024278859330992393099165728182705745983980972464585432333250146739247477044 180790696170224767594819251825953950179647142825805435343541117465226098832686 0 0 29772181223001680879336062785153031009587733240805867340398467444148902287334 0 0 10493300639128784291718985551372024724530979546346237934201650727668549730091,
     Tangent 100767810351025256369598281221224867784102162442825728763200381162127850376907 112454512214915058638705609501613174381602745436101275951965766788502712011391 57837235015489632750535557759025495737697962339129910533831267580791003342779 11340820136712998628405181782066855510400965578082757390638543451205272087362 22166726415263813173021327330292581806997998658499653220271965922687636678679 94805388846269167845924825968532565387008596907331720478782421941795684136832 0 0 109213137129953794039067559237461296635792507746297590273797460487341620438587 0 0 56170141638178334958605453010444569901951148421411210560693119089020455884166,
     Tangent 93625362795092435589676119619114991723088144756790660975261665386179461175272 26367311796547490052843209672676040451524207938821339693792012483255429211410 9786243771081011438152962602195333655851109910998331336224670776307929883171 1554576365631987190252219179871521854549855667084426054413872674897342204191 44382717476202924358719597281611523847252172784494472124265692613030173449738 0 6763081787543976081875998622190077492538514196328579808203031990067171978701 0 6004167781387364175102299056332775704624041232775564220797672769996390115935 0 0 2228450514960009546108959249814419188932652961045489550066992000099359772843,
     Chord_neg 100433627742802866029522701950798720749513794091418786588751 46884984928274464568800366072926392348213093858957321941430208042185062431095 68907104282081784193897080876481181181873049556332992254103423266682035422856 101233785678360898429389203280162460728032273569385450351742491879411368168051 14095670407166654475707330344984836527594602366919350485989735792967194866703 103250995168821581477242335784294258857041396715455389763957768190797245191439 90200241767211082838744234780318191930124485290067052237489765805270080935072 0 0 40990231268213554558497186527671172451673479942012935750115781925292409297291 0 88505867997204418367565348889820959840702786627804953018743619529372567089435 1 0 12323450476824961553421802186277579617875020392749790574457993308533663283693,
     Tangent 25591847443145165923953212169089381599961658125223261958043865503597016918879 97931427411243549066540555046649563010001251023341015271444019036481726177659 51510597759462106643398372105675047371314511527871763646185028408078867254730 51740397409359474833843963678619211485726885187583626117772739782718377936709 28957469925960003058541974749867795284644675934810350759060802208449308043572 123630441850350547589982880865226460667346757885863911971891166903579627826464 0 0 82825731362189641712101849378876626052919601411500675395837739093728489144394 0 0 43565207258902759044291447241620631325061361748371546921916112991967568630726,
     Tangent 86834619284396245704155472199539778245441467480479963436472829100417789810379 23916383908504127320814920499247235338071943260790068826695851199774658532161 29782337534737736274420515603198635761087413603652700492897635132391314865640 21958059874621738559423448075420575724639471583930925624875104650327063071069 2301446622300396061524261894240348261345347506918116504930623815203782742406 57396755529863078464167887404113144184796552704832301232710095349142372522656 0 0 4939831582275285804573117420530419396714680627514352449618715447825703756134 0 0 6151420386581421462905308507381981131762374721293569111202359848235093822162]
    (106263921806070495388747175064299546210600998105917238093375052139264051510643, 75843641357138860801568382366678418957231059867037279265500152881675114344432, 6277101733925179126845168871924920046844612130713674161796)
    = Some (21958059874621738559423448075420575724639471583930925624875104650327063071069, 2301446622300396061524261894240348261345347506918116504930623815203782742406, 401734510971211464118090807803194882998055176365675146355004)"
  by (simp only: ec_run_simps)

lemma order_run_29: "ec_run
    [Chord 26481501419284713199629137177377338478123477942110822370968976066755341564217 89310587791071535563068309772030235051962665473179491824564655242111756289734 107655785313524053207384632749689086701466297737343680683171896272301535607856 83542787464728953308132432527265891308992927402722347364765281080711755077182 54207361620249034013988462497562257945732687596498892455643454878482405847838 38302655913951154196538414179514532202722248692658239899575500294105019881531 0 0 24620739214707243558121932208332653898041155161946943443696312641223593879999 0 100091190948431492284761757862733972544814785231842060531990828462172552050193 1 0 77672528867298756639263623490378668665879384269830949547771841778077646403105,
     Tangent 77489433296405094566159032769893041327363894722632074295958131014762077972420 98320121398991771478232960878068168408311683804957981679008604852470000608294 107865520896902672170877961296098367720949736051978544110499733694548719169978 62133929933702610605807948150871463754869094959810662540677352492800784531811 53643036414874326837152450376296346148945358586100808636735244952387309424019 11084268463510694515627236659951157869731156494277870478112970698968489485051 0 0 83484513819860271298495018618628320342814285634424043330567850349578321211899 1 0 91589599787620291401263618079859888653587725420064629175941959249942490668082,
     Tangent 62149052795481921925544996573111227381140784829189505558798386356479788429932 24711625707990035836757213677336676530110119428760821172960859331550085770712 69844985174928616664296351118662960499766815105207754915589140418500938912487 108081033969130242704209043981616076785188423269893221820621843383166943473275 111761624646748428031396594584772697051453246861695789466665215937626333820173 77126706431091360107839695973566787282356408436508699498778341589768776405304 0 0 5273801079989298992711759171451703007351010460201255471480338390209038256897 1 0 14905881247961626031022612127338108803688615755257337797401419448835476436152,
     Tangent 4030464563607820731300852364634876478632896553594524728868415371240764033778 14479182837348543058115170529577868250784120669398379367044007871309344443269 7740669118381388536514930420080994500979083115656467017360592669772263777232 100340364850748854167694113561535082284209340154236754803261250713394679696043 107637361073382692544949880865282518854281238221575094762938006177825597327184 274700076089008111805568053842679158438722809399207700776118988488411845488698 0 0 1810544546411190896627982403040830530642481021897926315171615745616768300168 0 0 967929365579125946972347145287541906919480508827048162201437556401628705101,
     Tangent 8154728136973556217747566084125054675804905193715219432595625131041500526767 73190846514756066440528370204787592713473390729193855886516030996350794149393 87685937019250659290678216980787756162054846990335762629035178705047857385788 12654427831498194877015896580747326122154493163900992174226072008346822310255 51666092019650557780053796982006506694947621481849618667980888960747444567411 124779053616913940056226096898920947875935385240507121061212650948547578940920 0 0 46263091460547446052177412737064645970700793151507165421524912059859285209508 0 0 55425271291370258517543473224622081354071845223123729765533314283828948228039,
     Chord_neg 6427752175539383425889452924851118127968882821850802341680079 35785133462408256882036688672050588080608456362140755821618008708735582325031 80006955747947991880660758277356985449477687053149558373915622600131515528920 6176386608683837427786877968192582524466496497490581186235131559827447997681 74574680481605118214068972805146173248831495160877266607593096755255449367923 53871836560249325425644370725008726403409141418314039762166606561958470796283 4270485537046517459803832700280099623114525405584113000818623790309016280863 0 0 1908790320776199756632349067279055900863203111831229366377044294910628435680 0 329450412373396954832900260591190031096629865544683763588847864034049152287 1 0 3977837009544744707412116922925741124577154570571899896623321328667898044239,
     Tangent 111521603673309731302893614249127473906971618009706201194715007518558081573088 94358301436730857297121166118899190997647383067117636083356694297572310016277 9255080237538769293780825269606689561001581352619521107323256020135807917472 44616756322710556131863545455402036842407560065694518654843350541822662878811 15425974614520671370720150286208405804326371595937976910291408155477435043809 68231023844799586237423901597434434915709832532214502467940576358137826349262 0 0 76892032182356128999213485434236773486788205600183480166225167200720656908952 0 0 7541911168804681265529593014755840831571280779828999141638849048220491112672,
     Tangent 100366114595835577391977296663199167725759771819352337285242223153389662810142 17526699076518598286959292747608593549735855217038193351843603580730386822157 3115452137725046282710397209178981367159475856578533773670753096319506629386 41501304184985509849153148246223055475248084209115984881172597445503156249425 15590019018388444787587007157228260467092708850676310553963163278119430703346 46905035061179286229304096771822469844231680981367713541980941410117342074834 0 0 2652902997205475437847377821698234861637140615295629629864637515842025252702 0 0 471565825243956377054057898458977682098234609632923356211396945031922985297]
    (21958059874621738559423448075420575724639471583930925624875104650327063071069, 2301446622300396061524261894240348261345347506918116504930623815203782742406, 401734510971211464118090807803194882998055176365675146355004)
    = Some (41501304184985509849153148246223055475248084209115984881172597445503156249425, 15590019018388444787587007157228260467092708850676310553963163278119430703346, 25711008702157533703557811699404472511875531287403209366720316)"
  by (simp only: ec_run_simps)

lemma order_run_30: "ec_run
    [Tangent 100202070191967803975110439792179313062993434564614003641570468030747667150605 59588103269696354061852405776891996202209050943647884514568891443590103185520 19372474064808034431549967813257179163280202035119694440654892118645980860626 22128830120177475417603180432965876311967882173996290440517705326857175388799 35969995264591008790739014834959705567872820483540092334845597775119348765321 28578078547870298112487612160293109088239310524233631704171288277593046545632 0 0 30664806857655565590938753088392412010300610409281894593578609191480955168801 0 0 9969325132964702085175542352995465023057139755475129565001241991290251055003,
     Chord_neg 51422017404315067407115623398808945023751062574806418733440631 26310731173728976341449404819832037890795067352045457555326375390225229246487 89481358036627272421248042129575535639291076063244856640207255918641868607464 112529277506715094974039612116611989909495817493368430044755218228063385779471 100993315875234716257908711231509826417015709572590877799481223936332586069313 36927603455299007922391916150863623425038316016695726836570112699391687173437 11698783572457841558837174148296100381288083387314402029061853898269344073627 0 0 25569342343192865348017497123607408804062580291034990037178786445885521743656 0 109358405937205880947283716298325087225827541702059081884168521292491154854769 1 0 98147506845667851331359065411889630618967012384084140799232302674378697520725,
     Tangent 104093305637898407203860272801111473148798060027975912166471777410597753780324 13634553361178251300919821676365112978366182598744573712433944080389322256603 59354021897692756158587998053509383737460050529945500258207997329929771981506 93365670767962500526501365046761813217664408902040540773895746678329013045882 1675062316964241025541824968285019746553562334839592191571817267541596913988 32575008697217416173817222252558136218354343912903353761032135968259190034842 0 0 1605472762660805974621790516955410195284763372794874266085162095554710895003 1 0 6988953945674683902266735071181222638963009310168234131541505395457413842153,
     Tangent 114117026893392007737155621981122553783532581080450722003961814041325500939963 79372263453053073247238091694958593899985338590758992589263680805139040634123 103913403547135069829415928057811609180253253448038456570634612747183675963567 105244356431183679459782883938357777567497298869292398398794765240012434936266 79897827859708332437811085577886535178858187271290978565753631815904875463522 223551873321712282183206998124991917757748886849830579948676217486372904828271 0 0 54407483694468198048894527228274055040923302631216044273378797417083027732549 1 0 71229754112675181222458898135554477673136726550751816474788469221187925109281,
     Chord 58987294073079021061967148263847710165351794072039663792582946785937067552971 56804795137277227700730298685559863364734349343250650402950684522930030300980 9039263798761385046376781145284954336657879372529437038856323302345651352862 19170175135908990564139630978849646591501283785660091188194129962334086486140 86074181295274688895643252959508130975996015083632307210600635277678348450126 34267887006266789480013691521820536382780944419482733640493717457068632696477 1 0 4604819858919917865561814428184371720075403735280611503096700351702466334665 0 705646565156631218373241161814496823038454182909055216548867980300811738666 0 0 1496512165068004495908247658155809929789543318740179132771959743418580410231,
     Tangent 81524202204089459282683755427587037147305198995807580555039913851798465157474 40855598571423161206456856873444732418140516932401157814002840484563159993596 50731923656992106284955126295426229058537654129369883983129763887296737320912 35342257638282582610688126664081901917458360954262423227470871390381611129214 114443592752788087525458069405772125781242510111494607070126968320089427296672 167768144772191822709704456786718642169373945496309939792449038600449125040591 0 0 14415319267596267003669274441158262575609564034987400963492945422456973194250 0 0 17900040683442287346986823031807889658973697927058993102668460894678336477053,
     Tangent 1348496457568161237239377543635447748843633303795707125406662988777670557279 28898002472127845896461347410569249548530346032757968868529858178512788190871 95868780033849049636860699558347751647878504834229728271058197368921777281833 55265566814789781736524874055141723799665999535323009151946305330326931701332 62548514497265262717985965831864303175532251855983122832984649697117974146427 0 24761250506998027566301346705119266254224205205581394073066046277092924367689 0 7212017267967366875525956281957471363111482659670478075555172529485396026431 1 0 23925781642864331043363291658603289879189624305470880733816789713161149809644,
     Tangent 53243574713090986044711481117543270354553891559307191362548981611749123707524 8507624699838118347836904088627919397636172016402540363350793481020557614633 72574407497445052406969705356257563938685901104037925075239609614313201603862 98483248527700978092252615648291733391066241846575398272240327024880827951421 79471312740491063843390224886121805394057919324538637585570002329452989677053 69940616043444055727679944335781017348848409695109834835517629597383337738937 0 0 625083099604546363417065032060375008829985891746470917664212708436618494804 1 0 5332279830271495208200112627122769118545324341937685168187849022232172148466]
    (41501304184985509849153148246223055475248084209115984881172597445503156249425, 15590019018388444787587007157228260467092708850676310553963163278119430703346, 25711008702157533703557811699404472511875531287403209366720316)
    = Some (98483248527700978092252615648291733391066241846575398272240327024880827951421, 79471312740491063843390224886121805394057919324538637585570002329452989677053, 1645504556938082157027699948761886240760034002393805399470100200)"
  by (simp only: ec_run_simps)

lemma order_run_31: "ec_run
    [Chord_neg 1645504556938082157027699948761886240760034002393805399470100199 65748401976561722429497416553913754341782851094756663919137385001068674537816 50043687233794526333200030395493819188303292320533650276396246307798423316135 36429301493928996209457486837460735940537336244411155096305079287094242148782 68125518690247115954213828837745123715889290336634350731844244298890267916842 30357729837453862138038786810546609675176951509941047540396082725990560034579 22142578155512450794161258678101022823635025928191056423911301601892059781930 1 0 20685077665340062904259923988916221366205603871690308175317668307663974374973 0 11461007538474263489760358883942826865898480660007061151025324169627907967138 0 0 21432941375543832417516376995129754601357553528213150162841586255209077434011,
     Tangent 93649511054843797968536188271306550706451117487099257771622329706975038072021 112899048161347407461053233929617785911275408481364641445520462256580259958039 16578359468056722610856622086813926884748974038347992709860839239724201517212 13779370369397139527182164723732682790427977471593054830535243486266358517367 64384300742549994984629408253058532663396067346711338547375129703251092451939 0 19301635610697629840923343612473605069605035276939935755036547795720850459820 0 110078289135819852532830145237171380879341447413346485272433633584862849094796 0 0 16164152635850927605156821209675627461393514225771948101170927852945408979849,
     Tangent 51407788467806253778068038696349040866690076068578975648158501605616005402012 14240764264428884035059087500334795182274960095819322710721277045654501298711 26557595790195893534688556992731281086255109263809691024189067886856774794816 103013863789557494755191054680408975234259011623073678001879806908276681576502 24393137314911616805953224260136046902813217268144760386998942157131142988351 0 10917413820748067350347952965187723636382537915952197188382033947479577081894 0 1751409515261571961951601995633087457924262311472311323151727118807271862035 1 0 3266202930245972632448454581484663385306935745463276446242529421196178857186,
     Chord 61217786714705205766558977521796512498590081318258384189497905117672820912735 54574302495651042996138469427611061031496062097031930006035726191194276941216 106014218328029986069245540512914783928411127403844086304856823161462873423992 39673133571425905988861280916226671060130440566629109688183853548444160247882 63340730218131588766329773764182304174128571056444568313695953359832521328620 15526906923995565975122073403137470120146155302400052645708301972315543244649 1 0 56048352271642755144461138211038674086209014681782166538268966112943383196462 0 97062023531552365788595182780117464904803090383756867565962956513435024974456 0 0 36323001621962892958182262052901541460214885174508315919944747951058668433144,
     Tangent 100265182286360682787575373546270103409939988112890261549825329336551554609302 74120231057211759393742894776568498695691447720667056595379830993512512424573 33703996471646861614725537046181245610678150314141997582528329073769906372972 29636733746484727151604236718001058563450420742302570731167624286062614955648 49005647822136852916316406033714651869110222259233883133026891779245171250146 84068164953767919512944614948045201230193164305617839736586154169890940976093 0 0 47445457538934375550599087563613267750542285375451868970211925452697770054991 0 0 21574427260670629081521773348935176321597400145092737311607861978178321037711,
     Tangent 66786441388219395846381040915692921660975921156056431062506739529621926603805 48301363789870756407156150070070974184301128573440541136230305767195375451439 9802221624000815075982487786669851194702987078666829117051886395263880443247 19834512122483912075621748931331207368747433663635741614115737890798734512401 51265235559637069085263814295894001042782409367309243640328500395813544163748 0 18127933430212450306753605918809772899902199318964701769897123385288596700929 0 20148369028242530049194013232079729409618123051911385261077653547117893562224 0 0 4088886173818647772723570674412493790522971660177827987950718247451460061989,
     Chord_neg 26328072911009314512443199180190179852160544038300886391521603187 28605049171422539683430836321466706834015515862406006381728342826283670122885 87187040038933709079266610627940866696070627552884307813805288482583427731066 90569777360761294443073655028983302578782674067633900594128380827200203211063 87755349818643294399125984256550814686272640596747600543477665627754333050983 47871251514196866439193211624187966212560936482178455266171703571911499315369 78954225514937015192081493081168065725688291816101764018409467612618984487962 0 0 22374179035174159329726946676933412463991496696393928938660657549596253408211 0 70841493811169761443428435367340811683495069659848885004385539751991946728063 1 0 68640116518248235298177660968208891602735609074792548437320318369626559680669,
     Tangent 36837863695419233570615953868239507804397851599188550177124163696248113365989 22690276188017962549595227413166477997183890378217561153555025659951758879226 40737005508037759163371113001989432563240274413129150193695969296108528927367 7134246006159107275822098622198533649320662069049305072475734275802970388002 97707033615477819930223437976845388135496722775626983131239257468835608151538 28430126969521045999400570415853212070669246952332203778714571809262559762456 0 0 4446319580202269725656576635053891663947939973897096044963916547748307853136 0 0 7982703415696854768033033400036270043561194745703263272793867049729814047542]
    (98483248527700978092252615648291733391066241846575398272240327024880827951421, 79471312740491063843390224886121805394057919324538637585570002329452989677053, 1645504556938082157027699948761886240760034002393805399470100200)
    = Some (7134246006159107275822098622198533649320662069049305072475734275802970388002, 97707033615477819930223437976845388135496722775626983131239257468835608151538, 52656145822018629024886398360380359704321088076601772783043206374)"
  by (simp only: ec_run_simps)

lemma order_run_32: "ec_run
    [Tangent 18085055594878428832474008972562185394589420639663331064294373840031489702413 99257804737944986513454268310240228887102104342693193416841331239260953533355 91302483225652344974866971590402830260327412962754978195138892111163074476371 31623851990863011063652573981203276919079392521584641072870473473506993765582 7477826080513959797091863593690739648665309204756899179694480220026022862284 0 166191654898541507635614325541768953463502238847378676579516360424917707561021 0 85084498160301420522565565615748783354639588827241022639562571288922935452889 1 0 78265139820024637096116599227280086222731557458026630658844048170342252435533,
     Chord_neg 105312291644037258049772796720760719408642176153203545566086412747 16815709303043440695400011271594637283683557004457106922973607243575410869704 98976379907312808067297435677812936246402586410833207272560024065291686984247 101581296201330265304656485885672528116484241894489457105021821650950408499404 80106241627639995933219511005319439126348876539824351252652626561719443878294 67309699573579263893130509925291411322816659397050604015751478220654647741239 52883335038660816555582975987725325450438792596378691775556417828526744392568 0 0 14751971047389527396995218524811265947207088138059207606209256383991673025758 0 89114548397141297596514225017434264024495830789925404416324576916548195330059 1 0 70275058631767437691063899487045772258727592574454779421614942362761377992124,
     Tangent 62908754171695432207114470961682248079647350818911622419977213480340353461383 20694643281906240884923422644712984150568421052942002570803443821130514422184 4577517294260049425461904454373131458063312418684460251098277602285108693792 62732182279319214467668605470918279864753346978366143764653200618369539047447 106572620965749986783732454265165308036502989527319542877544878250019033815936 98478087229048701574543768955246910675523662888825442604216262283887234821136 0 0 3698596885900591551109111918398405445637236060050195268270532270706804774981 0 0 818105003264729643595105481634989374503370642942303955400159223039932498424,
     Tangent 9219468244606261978964992684242265493583153887970771317988753058848064038015 57468041401507609014746173884100595218348163332619880315610235263047542326686 110403569013864955076116459874193491760259781565776008368102195687254779370418 68120702475810508154249592546132361634579708827880449592084636239981857530980 43385106890412543475852262430060000287006649737544223427050076309252752813357 0 3826336585668709198612299499093634996515959291057991343393126890059096069168 0 28521601130502927639837804212961664358272455865384707785721290893482156119822 1 0 54793698932547946906333553999050490915514891482115226816127145204523207210705,
     Chord_neg 421249166576149032199091186883042877634568704612814182264345650987 96110948028452192367500439656073126098269384113451612599293075785967644958257 19681141181904056395197007293334447431816759301838701596240555522899452895694 45470668348036953501395678025593732189329298727867449865484196737856106244984 97654419846961751519707739853339193812489098096120363043316421349003241136720 86258371839205005397239299642200741352176754147050400744301846199845714248211 43231142302790357504673379561133791301959018526517798272819113581879006236541 1 0 37742034643471134843209018229625226697979235672503770362512998940617658638053 0 17855983894211044590128642016134023603177998336365115776452396887961338241229 1 0 38348144228699282077671626229127728582774415133815002310132335720133449168682,
     Tangent 72560946907565891258024067388273782228127124888772515922714517726988091617410 94748858405437480314494716377738013592262933264866181994278424195654017933147 92824037908808403331677108992689623451889349952356486791514225989537694800806 109226423140752850828259637598918691430373547609984228148321251519175117301356 33240141981891041346656804648601232035029718523743150464581019529279111930360 122023166452058100210852364361323345213207167702887215118696838874645453168806 0 0 77529874712120851825098352562598526494368342859836490912216701304251898445881 1 0 75954857403644125637184453984074250580915877084872999649096964634651913782131,
     Tangent 82551947228465207416040642300806341495056424891547163730952611779587985923591 110090688395069473002612821939944391235001290312777969309929959957043898773260 20829455551752582539510362044143756889182293620295772918657668096399549297590 88396967589000268288749275554774934541191253989688455229663583422775568003766 106411359589339690160205133574130775455326073632399745183223047614068469679597 245892223762980357755362991144708838723453786831642019362715453303101436036755 0 0 104670014626666703479093030355776443811528609523341810866800821963783841044222 0 0 19803849435871909754754028664171694883461783040370523136385864422114989216093,
     Tangent 9380729621016558602492313375276798074760069782890569012310583694798628174354 86001537025197276084803175404708590391678700573696975715364854235602973136960 5439552059701480276427298283517568744271779984793682409466421029773688832613 82957415529298788012321977271257365796919474004894772820197162393001879171153 94757613594228652912649187284531652394974962756378727650990446542245434381462 44381189670117049098026804863443882483197612153668037679534957331972123826775 0 0 63875385798245607252657035847103273165195736803621034300414327076942788511165 0 0 4040084612456105841684294820763854023147504318311596974710987462554196379971]
    (7134246006159107275822098622198533649320662069049305072475734275802970388002, 97707033615477819930223437976845388135496722775626983131239257468835608151538, 52656145822018629024886398360380359704321088076601772783043206374)
    = Some (82957415529298788012321977271257365796919474004894772820197162393001879171153, 94757613594228652912649187284531652394974962756378727650990446542245434381462, 3369993332609192257592729495064343021076549636902513458114765207896)"
  by (simp only: ec_run_simps)

lemma order_run_33: "ec_run
    [Tangent 21034475616127595850048259664875921135111180658911586544543184766621663472489 97005571104555948580875596805916334960621595822566663609978083122027239592845 50121290058056327960517896576351882776918554995626530665451069421749415049604 32836125471242460051804080694905483020000919009268242154746092971252464121549 37150246521185505055794760715949972984623765069559221616104335276873421148664 19532988331934965563472690808557417796506217058897745816448087922638801175644 0 0 81267044143456375883769367076257613636570649804441974082077535191900620233670 0 0 41989434681898832507806696042239367992413450731925146980057570720655818484954,
     Chord 15603435822663991707248504557892431182762030516773505841097987745829940513737 100188653387692257055448942391515142347324112898516808354435643563037157340214 52913177031316395095753589927930981836518232569322310516977412052230773293564 108377357551740444480473399118006293191567283713735190414533664706054479408943 40250857129858264334028128526306763358519778710823365935746059574065082566557 16186416088525692992547710616802553882927131609272379764533422226556922996212 0 0 7130257063429520105032323031690907018616612274382339941251290194794278083873 0 24179581892344154624102500104513477795968535878569935575865357688632923377904 1 0 49524888491334215258436763430764971925991606299800418936838114472920025732776,
     Tangent 99605673121830555770149736332605019647159011806017934431000209082310174857739 108934216334540207657614660186980277674452969951698890717101872520785981929490 102404829948795128060821566618034067889125443620307351309430514245973697921141 53638116391419385035904008857680268999480478505806328821849176636958482499367 13680544449179480872476420275507237375935907539337546474628646029749934632578 11519659109914438266073875616629938153396861774172750408956060288092628792184 0 0 102482506096444732497983204969859808570698565410072552814959530883024004855069 1 0 96339827490962407446449906084539471119154099988862260191865018580015204234300,
     Tangent 102111544761176767890221026673900336154150235875952767720904985279117163221373 27147060293187812245380331700020982392518767336855969152220052395047427182395 24727253179921681723025267428436278842554018790348174102429006235340016044544 28910863211497703312878741429243990156926459715458154719420170401618466454823 32328163381188744880142695999896727326692325038366888892388522023048492150170 68125288297689803419004046220459459713886522514968808591663603904137556079644 0 0 6364535674135341810957104046729987519953558973953191655600005563915937403868 0 0 5797220151549148295988829317342722548921279270467345967431824608362421128732,
     Chord_neg 26959946660873538060741835960514744168612397095220107664918121663171 19528698082408748446173843823553924045836489810583593276423910315463938180463 96263391127947500316523603125853649484249653604706720919109720993403159673488 69068548884419812049263633750994656617256749478227902819791013400229780101659 53177438252724737768505053620976806765357094954653045963128651473535698402805 91525514169129214307071134757674756921655508176095422951825150236949865905969 76712516524272980978519075963232580003370763856964007009230490923781024464191 0 0 11648626839296099409126642518912993966652152940589513251104454581122919819195 0 41198535042692942325706435706425430786201831307403838781577033545682370936853 1 0 31719684121374655071448516233209339321863550276013393453398729028125985144834,
     Tangent 39079572686083267784178370986174993526715379558326307186303140385086073389760 79567175105759003875426971602600349970501666480906767124395551431980739299570 25054850454150784188540336745511790480580578846142263611374698923323572609018 66470663714978430118530798012162966441074929329953159340450451313626293296951 17069922510895653103578563912996723857628961923565623771521623316692496420756 111606611899995610108512021371869349776965810956984206888862678244670246438140 0 0 54675024843962200408745913608809527449893655096352186780862487712759254735061 0 0 17216579188863290423065014588275466028854290605221141516666174456650734158463,
     Tangent 98722166699460595659118883036410849672457181491724690424012007992174601433195 4743751772437227868613494312257112933887630918995706424354704407501649451609 3445916705728987578387336151900326390449983720243250292459392729882441086460 63024747009249442540143461860262640050624945609709909047991058583743852210491 91318726210278740191692200199056606702220015570296242960218665742394480431866 113074187909422149193866433697270231771817934908202270719583740006121044527992 0 0 194341263137764461989565084182011829862277203243043338069644799467714376888 0 0 141171763908470254011977206225278993841200227337826572861411460804825810418,
     Tangent 24473363000077508571005246750350966827866127844994071235314965566472617422085 106962756745837757023005238079482980094163893719476443982773369214794914704272 49404191757503244168737199555574235295521555926583645802481340828706074273724 13620555251746198371406262304688404755103389683126263245509717755037777936767 41778555455864338337301768720867180933686528794027175139870564033435851592779 0 65799393042806265223023766792040564902389676695581206001720869113298642077064 0 98806675038781441126595737424520931782737343250379828116427728820126410826485 0 0 45637042920803554116182062643017440159894568626957728413438949507373447788933]
    (82957415529298788012321977271257365796919474004894772820197162393001879171153, 94757613594228652912649187284531652394974962756378727650990446542245434381462, 3369993332609192257592729495064343021076549636902513458114765207896)
    = Some (13620555251746198371406262304688404755103389683126263245509717755037777936767, 41778555455864338337301768720867180933686528794027175139870564033435851592779, 215679573286988304485934687684117953348899176761760861319344973305368)"
  by (simp only: ec_run_simps)

lemma order_run_34: "ec_run
    [Tangent 74013533754491910425395678228540392596399614621263139055663067275431246261172 18521197204006861350846349948746371892786971416080350662994634032573894454883 63244109461007114497530352554130890918908818076191580461954046986650122243907 66168535001095332636573356699965087366280715022224996979089302077254753546811 76509471174350695859775116349626734422163140848878843263152395228320788387391 0 8558608447725913022549079941814828885020222138199003643751138779890221060350 0 2962505886274579201227567039605854216356115198583531060367450905675098274544 1 0 10116033239465418500801382674965046448550551327970391241297059626259650361761,
     Tangent 39282618036005552902922330599780839107923002566411470932381236080546309466560 53819512417777839343250837423019352067144864230886287956071292195363321762600 1112040014325518797098677254730493269180983823306493844648567948587125295900 65056494986769813839474679445234594097099731198918503134440734128667628250911 68523710771943052420578182631588574942853076025776287021275205763219149250147 42312218719723839506835564697650843032663864350021038968394699136100387913960 0 0 25015006954622608324541446789816030607149465164993586337736638931091844863317 0 0 516869949995731413702759175517940122867817857452365631329334714669787882562,
     Tangent 47268378438413196342119264317818998587233067389514027174258425545647948603804 72469420745907888760141267622746597681660829846520623918862858867015046281768 27459874412182631788911556685141492487070197628165735755776866434143448881659 37596620574587182050563122760093101610029533570752767378663867694524179369252 35971843483012870259983000901973000751914717113644046991627276896382065141127 23881556889965942422994370512459762371581891961679286661930119218366902696368 0 0 45355576352945802696820738660475768687380713754347770228199730457732246697250 0 0 17185985726460757776968755392049185589413606613998609464777278928673625986738,
     Chord_neg 1725436586295906435887477501472943626791193414094086890554759786442943 10842940719319269708489462492704812592733415955288980617180213022558225266034 104949148491036979054207984456702760937352727460001333578353418286308872587917 43035593185488448574822023415492774794697082692787533019654140098773065040282 110860817770050468506744469839404808773607497405188495520890576678930992607007 42527892014892962306516099870095866366508179580854586053306922324460284616196 69044252095325334036465622318811283123898157377102647032959792551657665573850 0 0 4029915937376979016515077874208501112332674734959438947883645707147354583023 0 15994722035477484693758358735587555250592095462843899665104080100248420523290 1 0 41202823839676898710011356108560679324299029216273283066419385605222055420347,
     Tangent 46747837115030914726231824630596290406187986038187667162573838757209432280101 396240271226079312112517465191825215228541380447435716513128138844604463093 94020217784484696384879673184260582712283209131321488471289904246039826665558 64299763440764514684333873635242857184311113864823411777550649387287555804589 12721123728999371022620688361904940730499136892613378565394166223497461754299 46386144407325334750144920253215638862585979528428410549125862497558797359895 0 0 1355933325083096557764110256076997745872482630780360748562344669114571068 1 0 321736975727071290250934711075749923956908264071378097698302988697810567495,
     Tangent 103070965481356877740076758587502632799587006522676935630139465085369636099652 114367016617795868063316635489429699768417660887976604423339920318351359214389 69454936127842047793097744948946042054519759982485294652906265043889322868883 110636916523278715653933575635704388659877497297628431320178015652265330789657 64107907618788102244744541240611816377403507337120498561527580583557120093722 81988543971643962794743834530177096568755349978670625221749794774230815610038 0 0 112959482631783793175517082455272565793675706340922296309201643532476177489786 1 0 68600142621922931326289658925289093316205916230981530128805575367139195633766,
     Tangent 51684181591568146517952905708795757152682636078169815634006050725309977760229 75650478868455130737161608246474597750229468180929629630299859916819150746528 69259331638127854488475377428898450547141679259209048106210128980570211502077 41377584885150861165458198206805938112735818038419383213967886671695119287580 48381961745436221507192996444012988771168476592758290519682511160148544964245 233366495555795025548112405620704369413812059436006042971414197723338413496112 0 0 49424749065799922379261535206400361848907863522877862916025145133512421997390 0 0 45249219011974653630488071519964574900638915073450738695083702621636060106639,
     Chord 7061976408755590593594387045991976090027131487622364781876194045387285347706 108730112801600658169103059903415597440059011927667949413657437263479812506245 54490823338255360643602343198801800192731150787386747535970135432375282047783 45113769675010815538644996183793122150250937363933647136334754829147382067774 112055904420496294389510648972420389492571024089776050273166763151414835073757 17518554086625572872078441328773973505813569895166742149624794308487656251189 0 0 3323309144283156245899284998664801164406038766240192961656489020576447090634 0 25642942003462792683464319057130113076901104732898184125174417589260946692766 1 0 21230176173934093921521494196517763974588598004666143749580092526442201298008]
    (13620555251746198371406262304688404755103389683126263245509717755037777936767, 41778555455864338337301768720867180933686528794027175139870564033435851592779, 215679573286988304485934687684117953348899176761760861319344973305368)
    = Some (112055904420496294389510648972420389492571024089776050273166763151414835073757, 17518554086625572872078441328773973505813569895166742149624794308487656251189, 13803492690367251487099820011783549014329547312752695124438078291543545)"
  by (simp only: ec_run_simps)

lemma order_run_35: "ec_run
    [Tangent 98273535123730675890619005620633600024272573520123572045908837000379441602762 48438914839941600459494801844618288576715725141838437212861676566284322941830 107658118205583721013018658081785323797411163359545525376332594281078671996082 4397786214912573376491990890635065695159860730230524896834168870336163077675 15712293508288800751149984210677971699622560758746968540018439291997046007406 310663862209914739210093892780751414146080119816666093696307827102430881677604 0 0 20263288164777865946621921454409818695353589617859931017071889088854821517761 0 0 45036258134309831568572301819490268434292978122919073011634441254698307652215,
     Tangent 100079795702067448011547462738729601830463582656543345655515192016870051846545 34646942086897963817461860977733621555061269410389888767838793224625927255919 85048448750180041393976233102682997228472199877002706643217111555230715844342 35141426675088780745213204737359641996773804268518132449150688623972545087284 30517859346414692788879731587392433219029900070564963169743528790930762948121 0 8901681304145919324389010667714447285630230039137420746120125623513425689156 0 10366948244556751094737274689786524468086915001257421758754204942149597372777 1 0 25447927388846632360659928038951755213025395910873464140903116555403519161821,
     Chord_neg 55213970761469005948399280047134196057318189251010780497752313166174179 13298134618817671013839380515438272205989145257523615546693392093109859548002 102493954591538577748858066433969301324096998157766698648840239215757238305949 5472626748501375631318116606279274449416187736756783661614619784248296135376 114136522784682501331979401912875380448793214427908476743411940732789186196490 36796993100762528175931249773891835078066733255899969901272379200050456744745 82875900576044240927313264052284635027366758225431195529322047955699440722335 0 0 628503447138811907009639503523322802889524320908366417652071371658226048081 0 258650169736587612976925027205141533405271420329167827040262684579499930611 1 0 5394380495524599501848050409492887281581915522044218858762887576182179672984,
     Tangent 32916188634312007835384182897122938502719385189859118666211583353167657131616 70791693820035661909893488112240360301525631271115123675622043088505748150556 102099169934997542085743863397328274457223688254228087816756694583253127486292 50489912376121234852884833325971134150929188416962196280049315925664427112404 58471523614626851182879920308068006727720172844037214495901264455547499332692 0 66254911763171075461148308232837625360202190174178531133193429951257383791848 0 43279847078374145646361537366062985930829091687220685100887753023089775256342 1 0 62420267451843303779163262933326018221477515694158320942121392031032626427075,
     Tangent 57320565595729397579817526641339566802365970571253099699632366853319598521259 115508749928134693825986523708005402895931834873645566053598291406369816586513 54772244018352879301468309055228577300096943739950386831428466383566898976945 111509757568124604314113971220150130380918388092302123644154480850964625989410 62301789847599866877818691835975553766822360650676368825184256877821938072112 0 50610119248704072916206485858992288463537766173051258279245029389314863160197 0 115226103967446564039248271119042936302236405098385108411851980215640635481001 1 0 54638218210444440975324083838385688956102081777705759748838342349123356590531,
     Tangent 53490299362756381884878755113432019763263782764613945370349374431045159781839 22625339349373815971839050908913925059556493830438786052004236675202916178072 72373975201003690292374311848528787160138810994491913430595412665527186356614 39135782367120914021739659371621343220779577097810210213559068185437439632796 58374399711399773600620715426906487860323096503115654508724727516498969176588 297810325896347423491759560313331012438069023360614350487650191005433039968119 0 0 4420906334493696694423297401773599301021604236533369214327080378987692951968 0 0 14141602938099674327420556326949798015711923837509390708025115845686578932908,
     Chord 9303778926785537737312925881176570981983372428231537782285012531644965002490 106488310283570711025384521068231002548102770987058776413248618777222132851461 7085513787631678030478591379576792338025078916195887974894132313219868307039 20075881496699916459527227586935817305822548277624620863783101148622635416968 19059900870420997562212431784685525914957028820185589349775967036814804215828 15876069305454102617307930617614885847025556703356898852538760868693769876713 0 0 569313968789847406031200632650497616604293713524006133483161495611428469539 0 433574572987568152645108085720231900886628952545823265233266367339744102661 0 0 1228477144801395736875899205627367259920414938489780734868731580905820805501,
     Tangent 99916019904902146145389516331792687683060586711933415342994870440173327977238 64666047562596094142300554704833016606208909666924328542013588257619602667633 43751928335969020621977499520007900283497605985977659011533975636808099305368 91100061744808225702932379214085199161545566249498244533775622708873802764411 79302233552338501612514944996690489091171189782526583970084160057245992054656 0 8320480687640443801652769495079155010683588921600695646017504568191934340859 0 36113846255689946326294413448669137909708016361949230700446207944266146774722 1 0 24434003203700929991068054625041778716199965120848308773860462515986506463825]
    (112055904420496294389510648972420389492571024089776050273166763151414835073757, 17518554086625572872078441328773973505813569895166742149624794308487656251189, 13803492690367251487099820011783549014329547312752695124438078291543545)
    = Some (91100061744808225702932379214085199161545566249498244533775622708873802764411, 79302233552338501612514944996690489091171189782526583970084160057245992054656, 883423532183504095174388480754147136917091028016172487964037010658786866)"
  by (simp only: ec_run_simps)

lemma order_run_36: "ec_run
    [Tangent 36489855658017747150182501952717084438914953632763730225449471251621105799295 46397262663143358399713402182387435488110337370348318103448432891698145288687 65009293362610610117364683234475837595693931799614948564526607665750967867842 26090768382197615585567695979609361565851634449883295969249015043122834896569 75442252820952560054897747002511737016555166047292736066318226847015782893304 151468470337880292410580704141561171428535020753044949971054074239430733324216 0 0 18591131719904940978908513188061179800202732149759677852009444290247029070478 0 0 26048871561604210310677157251834690907251172585368405420631146310401941039194,
     Chord_neg 1766847064367008190348776961508294273834182056032344975928074021317573731 22348792911708836173484889273188552636911315076158452026595065673959569738717 93443296298647412589212557676219020893174828339131862168938565634907528115234 101575385658160002914829746210189134889070182907931866497883680637035033637314 61600115305812977646844529283946497676139693272052496163063742264970851005204 80282742286740886701420613645070437419798084593121114001718904087019081745316 85643353520939436462808928856837217363622791613368701251100813458379994411209 0 0 19604856208071119959455490236060920904230879790617544820922519927806806760600 0 89104178376644678170814088247270036231977917729309580850177666455904694216175 1 0 54036985699498524510705638941463595827652926556184238991266927104215000215193,
     Tangent 30148735689416812299888518092570356166463351801921612944432817850487103442742 30858888317741575458202316089213416194109987323505464082228500530540415253863 54197747169727724652958318201513166556160389765068068930681458209279123781389 26084995117013162048462295443557270863637694828053045071037445877739957963927 60874608133020860543006928493121506029757613056718862645509362790042007991725 121340230236229909954054945914525560945010326432723425553572911580159926388881 0 0 8223972766195481799733925374061426064728555287705996622218507554229452313710 0 0 14443838420994984809195940176111031381552567204924376640024736848996301956923,
     Tangent 54917481077335388219690518456286067500328530358571451550024268518825089862226 21374995312708214987368883756839090584918630701485846822280425151698232796497 4384597544440791675217716496742744868167444201904766714032989051624584483228 21700397572572370373244578946814525995470250626148278357004456826115373480699 72764431680146138100241385635517902943866271618439161473011340915678530614883 0 4845823407067038886453418824435224201718585350730774276822228955750845974966 0 3945782719130994434215841910527435156971383348389495607333083285597146501256 0 0 809388211229819020769601742707291081932586695013299036332967529169914269108,
     Tangent 43027657530210110662456061313889670586219871796851152722522290393188567239068 104049711252471366021942165911671692181479163149217110694787277348118447920953 99280899462555353605461671354759337574241188490544745859105383698670804274136 38211587320373265530480354541462761951315205550893846693432704436311667060514 46866024254096877759744920446890587813690622275795892012144301026208015755243 0 118570400972501946191000458906155056581433352775906761398559011537363722114098 0 93498117924573871808053417160564815843658035888181550387795896867800105900647 1 0 89212907310084298145670268608065426945706395301661115412989989075565370102582,
     Chord 10227973973533186228572230711335152251447743975147901302411376280770737574772 105564115236823062534125216238072421278638399440142412893122255028096360279179 90169606689269173572286554834776073159084417604997754167679330598390672263828 53933461817906172292682765350576878684966332773225135639517526381331850133992 100070214712823342000495036140293456796435016192959025249448809363846914780473 50304210740697312425611052533448552891065558600696441912473969421941025352142 0 0 7964727095873871693466193372808891025462027683639858015674633655404124889850 0 70216869096531619789687081550922296139495677742086099223299065311293332011361 1 0 41999061185229597103478052382503529225059180119148516249962554020421474822041,
     Tangent 65487878469658936337086394415959020639020584814593872283059661886926072501809 6165138440403801557327700192285563912088791345059351429933665095587586756367 52484852054103475382343089601337195631805096952628342872917090182825912355286 47585362658719866618151946538956261164629919240330682376531719181021002425187 82343885444231979177336589163059952209261662857447461833131828521156438265189 254092304335734872441680532814820753712399192646049621546869021057323952948756 0 0 328251543335528347709151612086933654871947230008369357324397843667080346356 0 0 2794460149603377536659047564422499726891860673075293139118836586886474848681,
     Tangent 33448203766124269585360857786347621320824480557842852362401802787710659588762 95638654087575220865514599927390236309670371176143459303804585300053262321193 54609696479638817262253103553952176529088619598741210050714880335675361660302 108767755389437298118596289934411658165627443056879786521350470154212738618836 101744840946720941695617927962076648718811610007756023636300462975758560631834 0 77357759027020264336990849877918739393769912939191237076909688332401661223550 0 78992893366542681295203135609067865801844669507587684106026273520821009492489 1 0 45104962757477674951289278387937961774185220580928187138282473839519144126913]
    (91100061744808225702932379214085199161545566249498244533775622708873802764411, 79302233552338501612514944996690489091171189782526583970084160057245992054656, 883423532183504095174388480754147136917091028016172487964037010658786866)
    = Some (108767755389437298118596289934411658165627443056879786521350470154212738618836, 101744840946720941695617927962076648718811610007756023636300462975758560631834, 56539106059744262091160862768265416762693825793035039229698368682162359396)"
  by (simp only: ec_run_simps)

lemma order_run_37: "ec_run
    [Tangent 14047248263635307067079518987330924811274533407534290559233168333108537222117 93507096072782988905319625336485652224427812863632882600275756722876728702100 83110282953319922353494963966038047091346376604448528530117576639117991293272 25657472436117375765101325968373611074281066452431257991232893515094747325564 60569992229983190446292890753728874517490890481314400840936969718373004597848 142181946236676144259973256552500456781663770300423880563824496068576231073635 0 0 75511004901901857348000209900489579261492027167131822852363653582061213538964 0 0 67115130798220396130851665576006614217852704003522030831896463274375373590418,
     Chord 22782088857789075993951259284424303128481883073610490004611187201987657309722 93010000352567172768746187664983270401604260341679824190922444106879440544229 62972383805570798408282104168714462313021426670963980283421176680630504350744 18397899138542024437145551635490744649191390424150633991846467009709660126823 7259573297575351327955774332882866425089676028280623999386426505385087198741 25960519013956118677280958103695800118633066238048762401884410595525235646474 0 0 12389813960770989714412130207870179989022588061044955204446973639836335635757 0 34246908827701209174965645224413068616162915376470406378539924028234713598695 0 0 10005515693422941651194182200278962666960084117484403814274713305106573026490,
     Tangent 89831570196400130085416488845711773411453077177241551793649220713341862207477 27716377618015514619889894330877148387406398157576843441599641773290143662646 60867158860026106526821252181106898661892006418899343367244668560341035624875 62184503647905493563831969101183541293283813024671594827675389253911149427817 89760841398421323635193253762482743029871780186081536033710662772019963000723 0 11062576827552267282349640467308120923242672137773605465192496789651158371568 0 6634283857413335954052514188357385748066643507704731714894466131982350296367 1 0 14569364548172763611331931631191374070696006272292256402101101225151508920203,
     Tangent 26031247811934925127504193186924830500214363229208778161822968536847134853228 20476764488075895020000572145857444528920539241959680410301050806531365921077 11557598796235437147390226836453001000944727096107314088660396660481408176368 50626904851670056416441742264730540292339085928564280739014992593429741251449 74101241918513133168349107652664601561256712195244905192861549037706590157592 68439168139357908904059166296028532412081069207221291730439692660766664802222 0 0 3621127200999019343627294424925225964914658634362153735324574564835484856146 0 0 2043854897274069064016917319254702273690734657630463909720149775383477944571,
     Chord 113604745652592644105308289937474947440510007012767781452362719432519761237788 2187343557763604657389157011932626089576136402522532743170911876347336616163 49349310473956265162745111685043382946407793243101688113952424611456719943583 23315815973472353269782709705025385341336499711900874851943901106393239132478 27311088878197703146659032559705154951002586216663405887071091487036502118971 95983178876593126888295192909692931088798347291724805576520428661808599845006 1 0 48417088790407697696673681606568159359394758234367891951429573289283887855737 0 21032131476880853713512769516968460125326263128631600223686692301513747581833 0 0 9936943441258908883477673699968143497760997852193727125833736362076496675876,
     Tangent 19808910333763121874402254039714642441287796123565508619013202647058498008945 111172097099719159000974537484180927862914227103675072597202747239242612755976 78983755034511430465702065937931567277155690322281951973001612520837397671183 64119423054042521443654413571181161203933039309671768109603110275066202301739 95038348347098749329226897890115321632440393251785315299185216642279353808654 0 164982046417464674914563979630922326236535101443725449968489162044668801186792 0 106736438195675943796467383485115373092662635906456561801667619033464370850145 1 0 75832379775489859050750540795344646394304349728120361341514129796520588461348,
     Tangent 20753740863257499433470549059292251897645750163504998896348414666587744045297 105183041477427711256856663297204403995505456076753037136618489836537156502780 10041297391140147895651270438161162283728136656877058455913512000971538148424 54078125662902373548003143133019998920204902652794709653689598274094664153315 30430556214078752220935261384722562671123994466762593167082165281190169236390 0 66143929919207127266540671110085503985374430062644164022795565447661252217880 0 95546010870773545265718601659328706688474391714042510037527018139236271516457 0 0 9121298416688541870732677303147859167825079159472364328713876281525147243476,
     Chord 110153524841360326973746889069185488812644190288537352537688113751854838335922 5638564368995921788950557880222084717441953126752961657845517557012259518029 114992393277685970062266744656800751353863595515615363557585899852898704712791 27176222007140390127008340683955430585405483356150799457704916970126925330465 26901903655761983420994802449064568334799419296643910195984681303967738822850 54278946444993456338117343794413655565402081274360752090145358470052623745350 1 0 109392770575799914234564733346740943838108930836565885318874213390476311489233 0 114198220292127972931329760615865068669668731514503947449850266854121187714730 0 0 26988534624067324799862490280151207289113057303613997678926946100340897062325]
    (108767755389437298118596289934411658165627443056879786521350470154212738618836, 101744840946720941695617927962076648718811610007756023636300462975758560631834, 56539106059744262091160862768265416762693825793035039229698368682162359396)
    = Some (26901903655761983420994802449064568334799419296643910195984681303967738822850, 54278946444993456338117343794413655565402081274360752090145358470052623745350, 1809251393911816386917147608584493336406202425377121255350347797829195500693)"
  by (simp only: ec_run_simps)

lemma order_run_38: "ec_run
    [Tangent 61513142765362792424580103154993917964684062140929562105388272838814474108601 8992663570177172605521845414261964924849228246651463797454665306269442345062 34128708760166862195017715254586417931924652841770571076647427035836412256701 108565284105951369988674534143885723932960909870163653314870885576998424420100 2839253750022348986798350882219990490735619506893360523678194485581429713921 10319467075975757800522528908456131164661835367798764382219167300346164128447 0 0 698389662349739822243381454935558151026074291939344517499626094743184054244 1 0 2650509184674852110468474738934882529274688855385917404195525268703328949241,
     Tangent 112952835460333899775899096067187583039350523908396953671855436823285668140030 39018020149987714242246986945594517964680254843919629432323122217991705229979 103662253006894376873455978405005507650648585227132988462148220931770390875342 4903031099056993115218555738880216282312324643030664852722664645228033544758 6816125535820863331112328710339799279767568244079322364083658991306136051654 303455087982094675821934431029222227530323824314160428795365144574569505445129 0 0 13147753933855836156751241973637972949044014172610906198296157272788982380133 0 0 34930675352685307219072023556801665061116386009726634110044964102995676634893,
     Chord 43536530194849458643834029513917697920450624883011083143121416071854371090528 72255559015506790118863417435489875609635518532279231052412215237012726763423 70320377984314827821838576231466289945145144328243863501102399004713003907682 38555903493904205505479593690186157969823928986022984890460423128070331576365 82139216815509036372436408998101631842574539072297994157795872826024799822344 46622906696993494679584849862514221749408427476705231786570124014787390845847 0 0 26439675458878703403917028740018495465562928216319299844580282097945200078191 0 42705469722318828833663169132601299732072547987498464375755054730241621043536 1 0 23414947650634646460053960869562061882122252632176212817365884509961347641379,
     Tangent 69169182513362754083112597086893351780677715938585082408963507294079707008104 36661228441783414426633516774136062458879704552082600183592120886352783423353 43421349214982894437383143144031247842727048920788774057940915290931272059618 38717867600526141935053265854070383999847490151509220099854957535093527762726 50415912909403157922524667857808353864950721124130743719398315623506545835222 145278031218165525830108249837586909051799825204417950193491041005693493724673 0 0 11607404961999942805448115278907970955783132609938256854505392229976875197445 0 0 13747744027046761042508393339181911320909260153117790557331059391449272679835,
     Tangent 65376176300953090840172779091599219665135422291159570476135315685360552018729 84126526462178050181261884823144887717190756184101848216471003771620932292296 35426931804015034149187039932452376949404141601478613168071539239268240089252 3290935796511107785866225921618007050443348550030606931783418295825287673474 82658452844047433820019370290033997684156166834431377778116112666500926994673 0 34418685037625810149374706290437714595464632143195268009644884821686293632649 0 61120517842410295130369981728978835827038835068367385829781049086229017602190 0 0 25738759324654200516984514693749161067355767880895056856453840847632991387047,
     Tangent 33133636366308814942678076659373575845929976580858936417417518642366170859278 53085063961662281017418079401884276428623126487223128912759648345435944464786 99643784211013140044396794518945099728504443889070755232751637259572235626699 19439240795854216504166878352080480852025048076250165894565412345120149900726 51606592786353391533604413608440083413253006871618183499369204189696009138844 0 75509197534751280587169406266660323341803390629264792699217578309983692658981 0 24336930398538280839079224947483819053609596420680610777378496271316628751222 1 0 45681848339520365621929044073948531281293937238962326426936534468973240962247,
     Tangent 64185496424002857229093033340967490116833136543672130696164427119171088715107 59348699254776951351374474789973024249386570196781804898524919173779757720106 86791768712304013507811740048690140179348241965498732094254962936904843119391 48439561293906451759052585252797914202762949526041747995844080717082404635286 79657838253606452964112319029819691573475036742305299123656433055298683448842 0 43111028530245925376622655872700053030228173288543680453240331537355270319353 0 30418901042843750282765104073491790790599101413992464091091055869214940442398 1 0 44484719243117308833054556065676591213150066059308347589316335353240384335760]
    (26901903655761983420994802449064568334799419296643910195984681303967738822850, 54278946444993456338117343794413655565402081274360752090145358470052623745350, 1809251393911816386917147608584493336406202425377121255350347797829195500693)
    = Some (48439561293906451759052585252797914202762949526041747995844080717082404635286, 79657838253606452964112319029819691573475036742305299123656433055298683448842, 115792089210356248762697446949407573529996955224135760342422259061068512044368)"
  by (simp only: ec_run_simps)

section \<open>The order\<close>

lemma chain_start: "ec_state (48439561293906451759052585252797914202762949526041747995844080717082404635286, 36134250956749795798585127919587881956611106672985015071877198253568414405109, 1)"
  using base_literals by (simp add: ec_state_def)

lemma chain_end: "ec_repeat (p256_n - 1) ec_base = ec_neg ec_base"
proof -
  note r1 = ec_run_state [OF order_run_1 chain_start]
  note r2 = ec_run_state [OF order_run_2 r1]
  note r3 = ec_run_state [OF order_run_3 r2]
  note r4 = ec_run_state [OF order_run_4 r3]
  note r5 = ec_run_state [OF order_run_5 r4]
  note r6 = ec_run_state [OF order_run_6 r5]
  note r7 = ec_run_state [OF order_run_7 r6]
  note r8 = ec_run_state [OF order_run_8 r7]
  note r9 = ec_run_state [OF order_run_9 r8]
  note r10 = ec_run_state [OF order_run_10 r9]
  note r11 = ec_run_state [OF order_run_11 r10]
  note r12 = ec_run_state [OF order_run_12 r11]
  note r13 = ec_run_state [OF order_run_13 r12]
  note r14 = ec_run_state [OF order_run_14 r13]
  note r15 = ec_run_state [OF order_run_15 r14]
  note r16 = ec_run_state [OF order_run_16 r15]
  note r17 = ec_run_state [OF order_run_17 r16]
  note r18 = ec_run_state [OF order_run_18 r17]
  note r19 = ec_run_state [OF order_run_19 r18]
  note r20 = ec_run_state [OF order_run_20 r19]
  note r21 = ec_run_state [OF order_run_21 r20]
  note r22 = ec_run_state [OF order_run_22 r21]
  note r23 = ec_run_state [OF order_run_23 r22]
  note r24 = ec_run_state [OF order_run_24 r23]
  note r25 = ec_run_state [OF order_run_25 r24]
  note r26 = ec_run_state [OF order_run_26 r25]
  note r27 = ec_run_state [OF order_run_27 r26]
  note r28 = ec_run_state [OF order_run_28 r27]
  note r29 = ec_run_state [OF order_run_29 r28]
  note r30 = ec_run_state [OF order_run_30 r29]
  note r31 = ec_run_state [OF order_run_31 r30]
  note r32 = ec_run_state [OF order_run_32 r31]
  note r33 = ec_run_state [OF order_run_33 r32]
  note r34 = ec_run_state [OF order_run_34 r33]
  note r35 = ec_run_state [OF order_run_35 r34]
  note r36 = ec_run_state [OF order_run_36 r35]
  note r37 = ec_run_state [OF order_run_37 r36]
  note r38 = ec_run_state [OF order_run_38 r37]
  have "p256_n - 1 = 115792089210356248762697446949407573529996955224135760342422259061068512044368" by (simp add: p256_n_def)
  then show ?thesis using r38 base_negated by (simp only: ec_state_def prod.case)
qed

theorem base_order: "ec_repeat p256_n ec_base = None"
proof -
  have "p256_n = Suc (p256_n - 1)" by (simp add: p256_n_def)
  then have "ec_repeat p256_n ec_base = ec_add (ec_neg ec_base) ec_base" by (metis ec_repeat.simps(2) chain_end)
  then show ?thesis by (simp add: ec_add_commute [of "ec_neg ec_base"])
qed

lemma base_periodic: "ec_repeat (k mod p256_n) ec_base = ec_repeat k ec_base"
proof -
  have "ec_repeat k ec_base = ec_repeat (k div p256_n * p256_n + k mod p256_n) ec_base" by simp
  also have "\<dots> = ec_repeat (k mod p256_n) ec_base"
    unfolding ec_repeat_add [OF base_on_curve] ec_repeat_mult [OF base_on_curve] base_order by simp
  finally show ?thesis by simp
qed

end
