(* ===== verification/Ecdsa.thy ===== *)
theory Ecdsa
  imports Ec_Der P256_Scalars P256_Order Hmac
begin

text \<open>
  src/ecdsa.cpp: ECDSA signatures with P-256 on digests of SHA-256, with the deterministic nonces of
  RFC 6979 and the low form of \<open>s\<close>. Signing and verification are shown to compute the formulas of the
  standard, with the group of the curve and residues modulo the order for the byte strings of the
  code.
\<close>

section \<open>Byte strings\<close>

definition ecdsa_group_order :: bytes where
  "ecdsa_group_order =
     [0xFF, 0xFF, 0xFF, 0xFF, 0x00, 0x00, 0x00, 0x00, 0xFF, 0xFF, 0xFF, 0xFF, 0xFF, 0xFF, 0xFF, 0xFF,
      0xBC, 0xE6, 0xFA, 0xAD, 0xA7, 0x17, 0x9E, 0x84, 0xF3, 0xB9, 0xCA, 0xC2, 0xFC, 0x63, 0x25, 0x51]"

definition ecdsa_group_order_half :: bytes where
  "ecdsa_group_order_half =
     [0x7F, 0xFF, 0xFF, 0xFF, 0x80, 0x00, 0x00, 0x00, 0x7F, 0xFF, 0xFF, 0xFF, 0xFF, 0xFF, 0xFF, 0xFF,
      0xDE, 0x73, 0x7D, 0x56, 0xD3, 0x8B, 0xCF, 0x42, 0x79, 0xDC, 0xE5, 0x61, 0x7E, 0x31, 0x92, 0xA8]"

definition ecdsa_error :: "error_code \<Rightarrow> string \<Rightarrow> crypto_error" where
  "ecdsa_error code msg = make_error code ''ecdsa'' msg"

definition ecdsa_hmac_sha256 :: "bytes \<Rightarrow> bytes \<Rightarrow> bytes result" where
  "ecdsa_hmac_sha256 key input =
     (let context = hmac_new Sha256 key in
      if \<not> hm_initialized context then Inl (ecdsa_error Provider_error ''failed to initialize RFC6979 HMAC'')
      else case hmac_update context input of
             (Inl e, _) \<Rightarrow> Inl e
           | (Inr _, context) \<Rightarrow> fst (hmac_final context))"

definition bits_to_octets :: "bytes \<Rightarrow> bytes result" where
  "bits_to_octets digest = p256_fixed_scalar_reduce_fixed_32 digest"

definition fixed_32 :: "bytes \<Rightarrow> bytes" where
  "fixed_32 v =
     (let copy_size = min (length v) 32
      in replicate (32 - copy_size) 0 @ drop (length v - copy_size) v)"

text \<open>std::lexicographical_compare.\<close>

fun lexicographical_compare :: "bytes \<Rightarrow> bytes \<Rightarrow> bool" where
  "lexicographical_compare xs [] = False"
| "lexicographical_compare [] (y # ys) = True"
| "lexicographical_compare (x # xs) (y # ys) =
     (if x < y then True else if y < x then False else lexicographical_compare xs ys)"

definition greater_than_32 :: "bytes \<Rightarrow> bytes \<Rightarrow> bool" where
  "greater_than_32 lhs rhs = lexicographical_compare rhs lhs"

text \<open>The subtraction from the last byte to the first.\<close>

fun subtract_32_loop :: "bytes \<Rightarrow> bytes \<Rightarrow> u16 \<Rightarrow> bytes" where
  "subtract_32_loop (l # ls) (r # rs) borrow =
     (let left = ucast l; right = ucast r + borrow in
      if right \<le> left then ucast (left - right) # subtract_32_loop ls rs 0
      else ucast ((left + 0x100) - right) # subtract_32_loop ls rs 1)"
| "subtract_32_loop _ _ _ = []"

definition subtract_32 :: "bytes \<Rightarrow> bytes \<Rightarrow> bytes" where
  "subtract_32 lhs rhs = rev (subtract_32_loop (rev lhs) (rev rhs) 0)"

definition low_s :: "bytes \<Rightarrow> bytes" where
  "low_s s =
     (let fixed = fixed_32 s
      in if greater_than_32 fixed ecdsa_group_order_half then subtract_32 ecdsa_group_order fixed else fixed)"

section \<open>Rfc6979P256Sha256\<close>

record rfc6979 =
  rfc_k :: bytes
  rfc_v :: bytes

definition rfc6979_create :: "bytes \<Rightarrow> bytes \<Rightarrow> rfc6979 result" where
  "rfc6979_create private_scalar digest =
     rbind (bits_to_octets digest) (\<lambda>digest_octets.
       let k = replicate 32 0x00; v = replicate 32 0x01 in
       rbind (ecdsa_hmac_sha256 k (v @ [0x00] @ private_scalar @ digest_octets)) (\<lambda>k.
       rbind (ecdsa_hmac_sha256 k v) (\<lambda>v.
       rbind (ecdsa_hmac_sha256 k (v @ [0x01] @ private_scalar @ digest_octets)) (\<lambda>k.
       rbind (ecdsa_hmac_sha256 k v) (\<lambda>v.
         Inr \<lparr>rfc_k = k, rfc_v = v\<rparr>)))))"

definition rfc6979_next :: "rfc6979 \<Rightarrow> bytes result \<times> rfc6979" where
  "rfc6979_next s =
     (case ecdsa_hmac_sha256 (rfc_k s) (rfc_v s) of
        Inl e \<Rightarrow> (Inl e, s)
      | Inr next_v \<Rightarrow> (Inr next_v, s\<lparr>rfc_v := next_v\<rparr>))"

definition rfc6979_reject :: "rfc6979 \<Rightarrow> unit result \<times> rfc6979" where
  "rfc6979_reject s =
     (case ecdsa_hmac_sha256 (rfc_k s) (rfc_v s @ [0x00]) of
        Inl e \<Rightarrow> (Inl e, s)
      | Inr next_k \<Rightarrow>
          let s = s\<lparr>rfc_k := next_k\<rparr> in
          (case ecdsa_hmac_sha256 (rfc_k s) (rfc_v s) of
             Inl e \<Rightarrow> (Inl e, s)
           | Inr next_v \<Rightarrow> (Inr (), s\<lparr>rfc_v := next_v\<rparr>)))"

section \<open>Signing\<close>

text \<open>The body of the loop: the numbers of a signature, or none for a nonce that is to be rejected.\<close>

definition ecdsa_attempt :: "bytes \<Rightarrow> bytes \<Rightarrow> bytes \<Rightarrow> (bytes \<times> bytes) option result" where
  "ecdsa_attempt private_scalar digest k_bytes =
     rbind (p256_fixed_scalar_is_valid_nonzero k_bytes) (\<lambda>k_valid.
     if \<not> k_valid then Inr None else
     rbind (p256_fixed_base_point_multiply k_bytes) (\<lambda>point.
     if pt_infinity point then Inr None else
     rbind (p256_fixed_x_mod_order point) (\<lambda>r.
     rbind (p256_fixed_scalar_is_valid_nonzero r) (\<lambda>r_valid.
     if \<not> r_valid then Inr None else
     rbind (p256_fixed_scalar_multiply_mod r private_scalar) (\<lambda>rd.
     rbind (p256_fixed_scalar_add_mod digest rd) (\<lambda>sum.
     rbind (p256_fixed_scalar_inverse k_bytes) (\<lambda>k_inverse.
     rbind (p256_fixed_scalar_multiply_mod k_inverse sum) (\<lambda>s.
     rbind (p256_fixed_scalar_is_valid_nonzero s) (\<lambda>s_valid.
     if \<not> s_valid then Inr None else Inr (Some (r, s)))))))))))"

fun ecdsa_sign_loop :: "nat \<Rightarrow> bytes \<Rightarrow> bytes \<Rightarrow> rfc6979 \<Rightarrow> bytes result" where
  "ecdsa_sign_loop 0 private_scalar digest nonce = Inl (ecdsa_error Provider_error ''failed to generate ECDSA signature'')"
| "ecdsa_sign_loop (Suc attempts) private_scalar digest nonce =
     (case rfc6979_next nonce of
        (Inl e, _) \<Rightarrow> Inl e
      | (Inr k_bytes, nonce) \<Rightarrow>
          rbind (ecdsa_attempt private_scalar digest k_bytes) (\<lambda>signature.
            case signature of
              Some (r, s) \<Rightarrow> encode_ecdsa_signature_der r (low_s s)
            | None \<Rightarrow>
                (case rfc6979_reject nonce of
                   (Inl e, _) \<Rightarrow> Inl e
                 | (Inr _, nonce) \<Rightarrow> ecdsa_sign_loop attempts private_scalar digest nonce)))"

definition sign_ecdsa_p256_sha256_digest :: "bytes \<Rightarrow> bytes \<Rightarrow> bytes result" where
  "sign_ecdsa_p256_sha256_digest private_key_der digest =
     (if length digest \<noteq> 32 then Inl (ecdsa_error Invalid_argument ''SHA-256 digest must be 32 bytes'')
      else
        rbind (parse_p256_private_key_der private_key_der) (\<lambda>private_key.
        rbind (p256_fixed_scalar_is_valid_nonzero (ec_private_scalar private_key)) (\<lambda>valid.
        if \<not> valid then Inl (ecdsa_error Invalid_key ''invalid P-256 private scalar'')
        else
          rbind (rfc6979_create (ec_private_scalar private_key) digest) (\<lambda>nonce.
            ecdsa_sign_loop 16 (ec_private_scalar private_key) digest nonce))))"

section \<open>Verification\<close>

definition public_key_point :: "bytes \<Rightarrow> p256_point result" where
  "public_key_point public_key_der =
     rbind (parse_p256_public_key_der public_key_der) (\<lambda>public_key.
       let invalid = Inl (ecdsa_error Invalid_key ''invalid P-256 public key'')
       in case p256_fixed_point_from_coordinates (ec_x public_key) (ec_y public_key) of
            Inl _ \<Rightarrow> invalid
          | Inr point \<Rightarrow>
              (case p256_fixed_is_on_curve point of
                 Inl _ \<Rightarrow> invalid
               | Inr is_on \<Rightarrow> if \<not> is_on then invalid else Inr point))"

definition verify_ecdsa_p256_sha256_digest :: "bytes \<Rightarrow> bytes \<Rightarrow> bytes \<Rightarrow> bool result" where
  "verify_ecdsa_p256_sha256_digest public_key_der signature_der digest =
     (if length digest \<noteq> 32 then Inl (ecdsa_error Invalid_argument ''SHA-256 digest must be 32 bytes'')
      else
        rbind (public_key_point public_key_der) (\<lambda>public_key.
        case parse_ecdsa_signature_der signature_der of
          Inl _ \<Rightarrow> Inr False
        | Inr signature \<Rightarrow>
            rbind (p256_fixed_scalar_is_valid_nonzero (sig_r signature)) (\<lambda>r_valid.
            if \<not> r_valid then Inr False else
            rbind (p256_fixed_scalar_is_valid_nonzero (sig_s signature)) (\<lambda>s_valid.
            if \<not> s_valid then Inr False else
            case p256_fixed_scalar_inverse (sig_s signature) of
              Inl _ \<Rightarrow> Inr False
            | Inr w \<Rightarrow>
                rbind (p256_fixed_scalar_multiply_mod digest w) (\<lambda>u1.
                rbind (p256_fixed_scalar_multiply_mod (sig_r signature) w) (\<lambda>u2.
                rbind (p256_fixed_base_point_multiply u1) (\<lambda>u1_g.
                rbind (p256_fixed_scalar_multiply u2 public_key) (\<lambda>u2_q.
                rbind (p256_fixed_point_add u1_g u2_q) (\<lambda>r_point.
                if pt_infinity r_point then Inr False
                else rbind (p256_fixed_x_mod_order r_point) (\<lambda>x_mod_order.
                  Inr (x_mod_order = sig_r signature))))))))))) "

section \<open>Comparison and subtraction of byte strings\<close>

lemma lexicographical_compare_iff:
  "length xs = length ys \<Longrightarrow> lexicographical_compare xs ys \<longleftrightarrow> be_val xs < be_val ys"
proof (induction xs ys rule: list_induct2)
  case (Cons x xs y ys)
  have below: "be_val (a # xs) < be_val (b # ys)" if "unat a < unat b" for a b
  proof -
    have "be_val (a # xs) < (unat a + 1) * 256 ^ length xs" using be_val_bound [of xs] by (simp add: be_val_Cons)
    also have "\<dots> \<le> unat b * 256 ^ length xs" using that by (intro mult_le_mono1) simp
    finally show ?thesis using Cons.hyps by (simp add: be_val_Cons)
  qed
  have above: "be_val (b # ys) < be_val (a # xs)" if "unat b < unat a" for a b
  proof -
    have "be_val (b # ys) < (unat b + 1) * 256 ^ length ys" using be_val_bound [of ys] by (simp add: be_val_Cons)
    also have "\<dots> \<le> unat a * 256 ^ length ys" using that by (intro mult_le_mono1) simp
    finally show ?thesis using Cons.hyps by (simp add: be_val_Cons)
  qed
  consider "x < y" | "y < x" | "x = y" by force
  then show ?case
  proof cases
    case 1
    then show ?thesis using below by (simp add: word_less_nat_alt)
  next
    case 2
    then show ?thesis using above by (simp add: word_less_nat_alt not_less less_imp_le)
  next
    case 3
    then show ?thesis using Cons by (simp add: be_val_Cons)
  qed
qed simp

lemma subtract_32_loop_value:
  assumes "length ls = length rs" "unat borrow \<le> 1"
  shows "length (subtract_32_loop ls rs borrow) = length ls \<and> (\<exists>c. le_val (subtract_32_loop ls rs borrow) + le_val rs + unat borrow
    = le_val ls + c * 256 ^ length ls)"
  using assms
proof (induction ls rs arbitrary: borrow rule: list_induct2)
  case (Cons l ls r rs)
  define left where "left = (ucast l :: u16)"
  define right where "right = (ucast r + borrow :: u16)"
  have "unat r + unat borrow < 65536" using Cons.prems unat_u8_less [of r] by linarith
  then have u: "unat left = unat l" "unat right = unat r + unat borrow"
    by (simp_all add: left_def right_def unat_ucast_up unat_word_ariths)
  show ?case
  proof (cases "right \<le> left")
    case True
    then have "unat (left - right) = unat l - (unat r + unat borrow)" "unat r + unat borrow \<le> unat l"
      using u by (simp_all add: unat_sub word_le_nat_alt)
    moreover have "unat l - (unat r + unat borrow) < 256" using unat_u8_less [of l] by linarith
    moreover from calculation have "unat (ucast (left - right) :: u8) = unat l - (unat r + unat borrow)"
      by (simp add: unat_ucast_mod)
    moreover obtain c where "length (subtract_32_loop ls rs 0) = length ls"
      "le_val (subtract_32_loop ls rs 0) + le_val rs = le_val ls + c * 256 ^ length ls" using Cons.IH [of 0] by auto
    moreover have "subtract_32_loop (l # ls) (r # rs) borrow = ucast (left - right) # subtract_32_loop ls rs 0"
      using True by (simp add: left_def right_def)
    ultimately show ?thesis by (intro conjI exI [of _ c]) (simp_all add: mult.left_commute [of c])
  next
    case False
    have "unat l + 256 < 65536" using unat_u8_less [of l] by linarith
    then have "unat (left + 0x100) = unat l + 256" using u by (simp add: unat_word_ariths)
    moreover have "unat right \<le> 256" using u Cons.prems unat_u8_less [of r] by linarith
    ultimately have "unat (left + 0x100 - right) = unat l + 256 - (unat r + unat borrow)"
      using u by (simp add: unat_sub word_le_nat_alt)
    moreover have "unat l < unat r + unat borrow" using False u by (simp add: word_le_nat_alt)
    ultimately have "unat (ucast (left + 0x100 - right) :: u8) = unat l + 256 - (unat r + unat borrow)"
      by (simp add: unat_ucast_mod)
    moreover obtain c where "length (subtract_32_loop ls rs 1) = length ls"
      "le_val (subtract_32_loop ls rs 1) + le_val rs + 1 = le_val ls + c * 256 ^ length ls" using Cons.IH [of 1] by auto
    moreover have "subtract_32_loop (l # ls) (r # rs) borrow = ucast (left + 0x100 - right) # subtract_32_loop ls rs 1"
      using False by (simp add: left_def right_def)
    ultimately show ?thesis
      using \<open>unat right \<le> 256\<close> u by (intro conjI exI [of _ c]) (simp_all add: mult.left_commute [of c])
  qed
qed auto

lemma subtract_32_value:
  assumes "length xs = length ys" "be_val ys \<le> be_val xs"
  shows "be_val (subtract_32 xs ys) = be_val xs - be_val ys"
proof -
  let ?d = "subtract_32_loop (rev xs) (rev ys) 0"
  obtain c where c: "length ?d = length xs" "le_val ?d + be_val ys = be_val xs + c * 256 ^ length xs"
    using subtract_32_loop_value [of "rev xs" "rev ys" 0] assms(1) by (auto simp: le_val_rev)
  have "le_val ?d < 256 ^ length xs" using be_val_bound [of "rev ?d"] c(1) by (metis le_val_rev length_rev rev_rev_ident)
  then have "c * 256 ^ length xs < 1 * 256 ^ length xs" using c(2) assms(2) by linarith
  then have "c = 0" by simp
  then show ?thesis using c by (simp add: subtract_32_def) (metis add_diff_cancel_right' le_val_rev rev_rev_ident)
qed

section \<open>The low form of \<open>s\<close>\<close>

lemma fixed_32_eq: "length v \<le> 32 \<Longrightarrow> fixed_32 v = replicate (32 - length v) 0 @ v"
  by (simp add: fixed_32_def Let_def)

lemma ecdsa_constants: "be_val ecdsa_group_order = p256_n" "be_val ecdsa_group_order_half = p256_n div 2"
  "length ecdsa_group_order = 32" "length ecdsa_group_order_half = 32"
  by (simp_all add: ecdsa_group_order_def ecdsa_group_order_half_def be_val_Cons p256_n_def)

lemma low_s_value:
  assumes "s < p256_n"
  shows "be_val (low_s (nat_bytes s)) = min s (p256_n - s)"
proof -
  define f where "f = fixed_32 (nat_bytes s)"
  have f: "length f = 32" "be_val f = s"
    using nat_bytes_scalar [OF assms] by (simp_all add: f_def fixed_32_eq be_val_append)
  have g: "greater_than_32 f ecdsa_group_order_half \<longleftrightarrow> p256_n div 2 < s"
    using f by (simp add: greater_than_32_def lexicographical_compare_iff ecdsa_constants)
  have "be_val (subtract_32 ecdsa_group_order f) = p256_n - s"
    using subtract_32_value [of ecdsa_group_order f] f assms by (simp add: ecdsa_constants)
  moreover have "odd p256_n" by (simp add: p256_n_def)
  ultimately show ?thesis unfolding low_s_def f_def [symmetric] Let_def g using f(2) by (auto elim: oddE)
qed

lemma encoded_integer_value:
  assumes "be_val v = be_val w"
  shows "encoded_integer_content v = encoded_integer_content w"
proof -
  have "dropWhile (\<lambda>b. b = 0) v = dropWhile (\<lambda>b. b = 0) w"
    by (rule minimal_unique) (use assms hd_dropWhile [of "\<lambda>b. b = 0"] in auto)
  then show ?thesis by (simp add: encoded_integer_content_def)
qed

lemma minimal_uint_iff: "minimal_uint m \<longleftrightarrow> m = nat_bytes (be_val m)"
proof -
  have "minimal_uint m \<longleftrightarrow> minimal_bytes (be_val m) m"
  proof (cases "be_val m = 0")
    case True
    then have "m \<noteq> [] \<Longrightarrow> hd m = 0" using be_val_lower [of m] by auto
    then show ?thesis using True by (auto simp: minimal_uint_def minimal_bytes_def)
  qed (auto simp: minimal_uint_def minimal_bytes_def be_val_Cons)
  then show ?thesis by (simp add: minimal_bytes_iff)
qed

section \<open>The formulas of the standard\<close>

text \<open>The numbers of a signature with the nonce \<open>k\<close>, unless the nonce is to be rejected.\<close>

definition ecdsa_signature :: "nat \<Rightarrow> nat \<Rightarrow> nat \<Rightarrow> (nat \<times> nat) option" where
  "ecdsa_signature d e k =
     (if k = 0 \<or> p256_n \<le> k then None
      else case ec_repeat k ec_base of
             None \<Rightarrow> None
           | Some (x, y) \<Rightarrow>
               let r = gf_val x mod p256_n; s = scalar_inv k * (e + r * d) mod p256_n
               in if r = 0 \<or> s = 0 then None else Some (r, s))"

text \<open>RFC 6979, section 3.2: the states of the generator, and the nonces.\<close>

fun rfc6979_state :: "bytes \<Rightarrow> bytes \<Rightarrow> nat \<Rightarrow> bytes \<times> bytes" where
  "rfc6979_state x h 0 =
     (let K = replicate 32 0; V = replicate 32 1;
          K = hmac_spec Hmac_sha256 K (V @ [0] @ x @ h); V = hmac_spec Hmac_sha256 K V;
          K = hmac_spec Hmac_sha256 K (V @ [1] @ x @ h); V = hmac_spec Hmac_sha256 K V
      in (K, V))"
| "rfc6979_state x h (Suc j) =
     (let (K, V) = rfc6979_state x h j; V = hmac_spec Hmac_sha256 K V;
          K = hmac_spec Hmac_sha256 K (V @ [0]); V = hmac_spec Hmac_sha256 K V
      in (K, V))"

definition rfc6979_nonce :: "bytes \<Rightarrow> bytes \<Rightarrow> nat \<Rightarrow> nat" where
  "rfc6979_nonce x h j = (let (K, V) = rfc6979_state x h j in be_val (hmac_spec Hmac_sha256 K V))"

definition bytes_32 :: "nat \<Rightarrow> bytes" where
  "bytes_32 v = replicate (32 - length (nat_bytes v)) 0 @ nat_bytes v"

fun first_some :: "'a option list \<Rightarrow> 'a option" where
  "first_some [] = None"
| "first_some (Some x # xs) = Some x"
| "first_some (None # xs) = first_some xs"

text \<open>The signature of a digest: that with the first of sixteen nonces that is not rejected.\<close>

definition ecdsa_numbers :: "bytes \<Rightarrow> bytes \<Rightarrow> (nat \<times> nat) option" where
  "ecdsa_numbers d digest =
     first_some (map (\<lambda>j. ecdsa_signature (be_val d) (be_val digest)
       (rfc6979_nonce d (bytes_32 (be_val digest mod p256_n)) j)) [0..<16])"

definition ecdsa_signature_bytes :: "nat \<Rightarrow> nat \<Rightarrow> ecdsa_signature_material" where
  "ecdsa_signature_bytes r s = \<lparr>sig_r = nat_bytes r, sig_s = nat_bytes (min s (p256_n - s))\<rparr>"

section \<open>Signing, against the formulas\<close>

lemma ecdsa_hmac_eq:
  assumes "length key < 2 ^ 64" "length input < 2 ^ 64"
  shows "ecdsa_hmac_sha256 key input = Inr (hmac_spec Hmac_sha256 key input)"
proof -
  have c: "hmac_absorbed Sha256 key (hmac_new Sha256 key) []" by (rule hmac_absorbed_new [OF assms(1)])
  then have "hm_initialized (hmac_new Sha256 key)" by (simp add: hmac_absorbed_def)
  then show ?thesis
    using hmac_update_absorbed [OF c assms(2)]
    by (auto simp: ecdsa_hmac_sha256_def hmac_spec_def hmac_final_absorbed split: prod.split sum.split)
qed

lemma ecdsa_attempt_eq:
  assumes "length d \<le> 32" "length digest \<le> 32" "length k \<le> 32"
  shows "ecdsa_attempt d digest k =
    Inr (map_option (\<lambda>(r, s). (nat_bytes r, nat_bytes s)) (ecdsa_signature (be_val d) (be_val digest) (be_val k)))"
proof (cases "0 < be_val k \<and> be_val k < p256_n")
  case False
  then show ?thesis by (auto simp: ecdsa_attempt_def scalar_valid ecdsa_signature_def)
next
  case k: True
  have base: "p256_fixed_base_point_multiply k = Inr (p256_encode (ec_repeat (be_val k) ec_base))"
    using fixed_curve.base_iff by simp
  show ?thesis
  proof (cases "ec_repeat (be_val k) ec_base")
    case None
    then show ?thesis
      using k by (simp add: ecdsa_attempt_def scalar_valid ecdsa_signature_def base p256_point_at_infinity_def)
  next
    case (Some a)
    obtain x y where a: "a = (x, y)" by fastforce
    have "on_curve (Some (x, y))" using ec_repeat_on_curve [of ec_base "be_val k"] by (simp add: Some a)
    note xr = x_mod_order_eq [OF this]
    define r where "r = gf_val x mod p256_n"
    have r: "length (nat_bytes r) \<le> 32" "r < p256_n" by (simp_all add: r_def nat_bytes_scalar)
    define rd where "rd = r * be_val d mod p256_n"
    define e where "e = (be_val digest + rd) mod p256_n"
    define s where "s = scalar_inv (be_val k) * e mod p256_n"
    have len: "length (nat_bytes rd) \<le> 32" "length (nat_bytes e) \<le> 32" "length (nat_bytes (scalar_inv (be_val k))) \<le> 32" "s < p256_n"
      by (simp_all add: rd_def e_def s_def scalar_inv_def nat_bytes_scalar)
    have s_eq: "s = scalar_inv (be_val k) * (be_val digest + r * be_val d) mod p256_n"
      by (simp add: s_def e_def rd_def mod_simps)
    have steps: "p256_fixed_scalar_multiply_mod (nat_bytes r) d = Inr (nat_bytes rd)"
      "p256_fixed_scalar_add_mod digest (nat_bytes rd) = Inr (nat_bytes e)"
      "p256_fixed_scalar_inverse k = Inr (nat_bytes (scalar_inv (be_val k)))"
      "p256_fixed_scalar_multiply_mod (nat_bytes (scalar_inv (be_val k))) (nat_bytes e) = Inr (nat_bytes s)"
      using k by (simp_all add: scalar_multiply_mod_eq scalar_add_mod_eq scalar_inverse_eq assms r len rd_def [symmetric]
          e_def [symmetric] s_def [symmetric])
    show ?thesis
      using k r len xr
      by (simp add: ecdsa_attempt_def scalar_valid ecdsa_signature_def base Some a steps r_def [symmetric] s_eq [symmetric])
  qed
qed

lemma bytes_32: "v < p256_n \<Longrightarrow> length (bytes_32 v) = 32" "be_val (bytes_32 v) = v"
  using nat_bytes_scalar [of v] by (simp_all add: bytes_32_def be_val_append)

lemma bits_to_octets_eq: "length digest \<le> 32 \<Longrightarrow> bits_to_octets digest = Inr (bytes_32 (be_val digest mod p256_n))"
  using scalar_reduce_eq [of digest] be_val_inject [of _ "bytes_32 (be_val digest mod p256_n)"] bytes_32 [of "be_val digest mod p256_n"]
  by (auto simp: bits_to_octets_def)

lemma rfc6979_state_length: "length (fst (rfc6979_state x h j)) = 32" "length (snd (rfc6979_state x h j)) = 32"
  by (induction j) (simp_all add: Let_def case_prod_unfold)

definition rfc6979_at :: "bytes \<Rightarrow> bytes \<Rightarrow> nat \<Rightarrow> rfc6979" where
  "rfc6979_at x h j = \<lparr>rfc_k = fst (rfc6979_state x h j), rfc_v = snd (rfc6979_state x h j)\<rparr>"

lemma rfc6979_create_eq:
  assumes "length x = 32" "length digest = 32"
  shows "rfc6979_create x digest = Inr (rfc6979_at x (bytes_32 (be_val digest mod p256_n)) 0)"
  using assms by (simp add: rfc6979_create_def bits_to_octets_eq ecdsa_hmac_eq bytes_32 rfc6979_at_def Let_def)

text \<open>One nonce, and what follows when it is rejected.\<close>

lemma rfc6979_step:
  obtains k s where "rfc6979_next (rfc6979_at x h j) = (Inr k, s)" "be_val k = rfc6979_nonce x h j" "length k = 32"
    "rfc6979_reject s = (Inr (), rfc6979_at x h (Suc j))"
proof -
  obtain K V where KV: "rfc6979_state x h j = (K, V)" by fastforce
  have len: "length K = 32" "length V = 32" using rfc6979_state_length [where x = x and h = h and j = j] by (simp_all add: KV)
  let ?k = "hmac_spec Hmac_sha256 K V"
  have "rfc6979_next (rfc6979_at x h j) = (Inr ?k, \<lparr>rfc_k = K, rfc_v = ?k\<rparr>)"
    using len by (simp add: rfc6979_next_def rfc6979_at_def KV ecdsa_hmac_eq)
  moreover have "rfc6979_reject \<lparr>rfc_k = K, rfc_v = ?k\<rparr> = (Inr (), rfc6979_at x h (Suc j))"
    using len by (simp add: rfc6979_reject_def rfc6979_at_def KV ecdsa_hmac_eq Let_def)
  ultimately show thesis using that by (simp add: rfc6979_nonce_def KV)
qed

lemma encode_low_signature:
  assumes "s < p256_n"
  shows "encode_ecdsa_signature_der (nat_bytes r) (low_s (nat_bytes s)) = Inr (der_ecdsa_signature (ecdsa_signature_bytes r s))"
  using encoded_integer_value [of "low_s (nat_bytes s)" "nat_bytes (min s (p256_n - s))"] low_s_value [OF assms]
  by (simp add: encode_ecdsa_signature_der_def der_ecdsa_signature_def der_uint_def ecdsa_signature_bytes_def)

lemma ecdsa_signature_range:
  "ecdsa_signature d e k = Some (r, s) \<Longrightarrow> 0 < r \<and> r < p256_n \<and> 0 < s \<and> s < p256_n"
  by (auto simp: ecdsa_signature_def Let_def split: if_splits option.splits)

lemma ecdsa_sign_loop_eq:
  assumes "length x = 32" "length digest = 32"
  shows "ecdsa_sign_loop n x digest (rfc6979_at x h j) =
    (case first_some (map (\<lambda>j. ecdsa_signature (be_val x) (be_val digest) (rfc6979_nonce x h j)) [j..<j + n]) of
       None \<Rightarrow> Inl (ecdsa_error Provider_error ''failed to generate ECDSA signature'')
     | Some (r, s) \<Rightarrow> Inr (der_ecdsa_signature (ecdsa_signature_bytes r s)))"
proof (induction n arbitrary: j)
  case (Suc n)
  obtain k s where k: "rfc6979_next (rfc6979_at x h j) = (Inr k, s)" "be_val k = rfc6979_nonce x h j" "length k = 32"
    "rfc6979_reject s = (Inr (), rfc6979_at x h (Suc j))" by (rule rfc6979_step)
  have "ecdsa_attempt x digest k = Inr (map_option (\<lambda>(r, s). (nat_bytes r, nat_bytes s))
      (ecdsa_signature (be_val x) (be_val digest) (rfc6979_nonce x h j)))"
    using ecdsa_attempt_eq [of x digest k] assms k by simp
  then show ?case
    using Suc.IH [of "Suc j"] k
    by (cases "ecdsa_signature (be_val x) (be_val digest) (rfc6979_nonce x h j)")
      (auto simp: upt_conv_Cons encode_low_signature dest: ecdsa_signature_range simp del: upt_Suc)
qed simp

lemma ecdsa_sign_eq:
  assumes "length der < 2 ^ 64"
  shows "sign_ecdsa_p256_sha256_digest der digest =
    (if length digest \<noteq> 32 then Inl (ecdsa_error Invalid_argument ''SHA-256 digest must be 32 bytes'')
     else rbind (parse_p256_private_key_der der) (\<lambda>key.
       case ecdsa_numbers (ec_private_scalar key) digest of
         None \<Rightarrow> Inl (ecdsa_error Provider_error ''failed to generate ECDSA signature'')
       | Some (r, s) \<Rightarrow> Inr (der_ecdsa_signature (ecdsa_signature_bytes r s))))"
proof (cases "length digest = 32 \<and> (\<exists>key. parse_p256_private_key_der der = Inr key)")
  case True
  then obtain key where key: "parse_p256_private_key_der der = Inr key" and len: "length digest = 32" by auto
  have ok: "length (ec_private_scalar key) = 32" "0 < be_val (ec_private_scalar key)" "be_val (ec_private_scalar key) < p256_n"
    using ec_private_iff [OF assms] key by (auto simp: ec_scalar_ok_def)
  show ?thesis
    using ok len by (simp add: sign_ecdsa_p256_sha256_digest_def key scalar_valid rfc6979_create_eq ecdsa_sign_loop_eq ecdsa_numbers_def)
next
  case False
  then show ?thesis by (cases "parse_p256_private_key_der der") (auto simp: sign_ecdsa_p256_sha256_digest_def)
qed

section \<open>Verification, against the formulas\<close>

definition ecdsa_valid :: "ec_point \<Rightarrow> nat \<Rightarrow> nat \<Rightarrow> nat \<Rightarrow> bool" where
  "ecdsa_valid Q e r s \<longleftrightarrow> 0 < r \<and> r < p256_n \<and> 0 < s \<and> s < p256_n \<and>
     (case ec_add (ec_repeat (e * scalar_inv s mod p256_n) ec_base) (ec_repeat (r * scalar_inv s mod p256_n) Q) of
        None \<Rightarrow> False
      | Some (x, y) \<Rightarrow> gf_val x mod p256_n = r)"

definition ec_key_point :: "ec_public_key_material \<Rightarrow> p256_point" where
  "ec_key_point k = \<lparr>pt_x = ec_x k, pt_y = ec_y k, pt_infinity = False\<rparr>"

lemma public_key_point_eq:
  assumes "length der < 2 ^ 64"
  shows "public_key_point der = rbind (parse_p256_public_key_der der) (\<lambda>k. Inr (ec_key_point k))"
proof (cases "parse_p256_public_key_der der")
  case (Inr k)
  have ok: "p256_ok (ec_key_point k)"
    using ec_public_key_iff [OF assms, of k] Inr by (simp add: ec_public_ok_def ec_key_point_def)
  have "p256_fixed_is_on_curve (ec_key_point k) = Inr (fixed_is_on_curve_affine (fixed_of (p256_abs (ec_key_point k))))"
    using load_affine_ok [of "ec_key_point k"] ok by (auto simp: p256_fixed_is_on_curve_def p256_ok_def)
  moreover have "p256_abs (ec_key_point k) \<noteq> None" by (simp add: p256_abs_def ec_key_point_def)
  ultimately show ?thesis
    using ok fixed_curve.coordinates_ok [of "ec_x k" "ec_y k"] p256_ok_on_curve [OF ok]
    by (simp add: public_key_point_def Inr on_curve_fixed flip: ec_key_point_def)
qed (simp add: public_key_point_def)

text \<open>The computation for a key and the numbers of a signature.\<close>

definition ecdsa_verify_numbers :: "p256_point \<Rightarrow> bytes \<Rightarrow> ecdsa_signature_material \<Rightarrow> bool result" where
  "ecdsa_verify_numbers public_key digest signature =
     rbind (p256_fixed_scalar_is_valid_nonzero (sig_r signature)) (\<lambda>r_valid.
     if \<not> r_valid then Inr False else
     rbind (p256_fixed_scalar_is_valid_nonzero (sig_s signature)) (\<lambda>s_valid.
     if \<not> s_valid then Inr False else
     case p256_fixed_scalar_inverse (sig_s signature) of
       Inl _ \<Rightarrow> Inr False
     | Inr w \<Rightarrow>
         rbind (p256_fixed_scalar_multiply_mod digest w) (\<lambda>u1.
         rbind (p256_fixed_scalar_multiply_mod (sig_r signature) w) (\<lambda>u2.
         rbind (p256_fixed_base_point_multiply u1) (\<lambda>u1_g.
         rbind (p256_fixed_scalar_multiply u2 public_key) (\<lambda>u2_q.
         rbind (p256_fixed_point_add u1_g u2_q) (\<lambda>r_point.
         if pt_infinity r_point then Inr False
         else rbind (p256_fixed_x_mod_order r_point) (\<lambda>x_mod_order.
           Inr (x_mod_order = sig_r signature)))))))))"

lemma verify_by_numbers:
  "verify_ecdsa_p256_sha256_digest public_key_der signature_der digest =
    (if length digest \<noteq> 32 then Inl (ecdsa_error Invalid_argument ''SHA-256 digest must be 32 bytes'')
     else rbind (public_key_point public_key_der) (\<lambda>public_key.
       case parse_ecdsa_signature_der signature_der of
         Inl _ \<Rightarrow> Inr False
       | Inr signature \<Rightarrow> ecdsa_verify_numbers public_key digest signature))"
  unfolding verify_ecdsa_p256_sha256_digest_def ecdsa_verify_numbers_def ..

lemma ecdsa_verify_numbers_eq:
  assumes "length digest = 32" "p256_ok P"
  shows "ecdsa_verify_numbers P digest \<lparr>sig_r = nat_bytes r, sig_s = nat_bytes s\<rparr> =
    Inr (ecdsa_valid (p256_abs P) (be_val digest) r s)"
proof (cases "0 < r \<and> r < p256_n \<and> 0 < s \<and> s < p256_n")
  case False
  then show ?thesis by (auto simp: ecdsa_verify_numbers_def scalar_valid ecdsa_valid_def)
next
  case True
  define w where "w = scalar_inv s"
  define u1 where "u1 = be_val digest * w mod p256_n"
  define u2 where "u2 = r * w mod p256_n"
  have len: "length (nat_bytes r) \<le> 32" "length (nat_bytes s) \<le> 32" "length (nat_bytes w) \<le> 32"
    using True by (simp_all add: w_def scalar_inv_def nat_bytes_scalar)
  let ?A = "ec_repeat u1 ec_base" and ?B = "ec_repeat u2 (p256_abs P)"
  have on: "on_curve (p256_abs P)" using assms(2) by (rule p256_ok_on_curve)
  then have sum: "on_curve (ec_add ?A ?B)" by simp
  have inverse: "p256_fixed_scalar_inverse (nat_bytes s) = Inr (nat_bytes w)"
    using True len by (simp add: scalar_inverse_eq w_def)
  have multiples: "p256_fixed_scalar_multiply_mod digest (nat_bytes w) = Inr (nat_bytes u1)"
    "p256_fixed_scalar_multiply_mod (nat_bytes r) (nat_bytes w) = Inr (nat_bytes u2)"
    using assms(1) len by (simp_all add: scalar_multiply_mod_eq u1_def u2_def)
  have points: "p256_fixed_base_point_multiply (nat_bytes u1) = Inr (p256_encode ?A)"
    "p256_fixed_scalar_multiply (nat_bytes u2) P = Inr (p256_encode ?B)"
    "p256_fixed_point_add (p256_encode ?A) (p256_encode ?B) = Inr (p256_encode (ec_add ?A ?B))"
    using assms(2) on by (simp_all add: fixed_curve.base_iff fixed_curve.multiply_iff fixed_curve.add_iff)
  have verify: "ecdsa_verify_numbers P digest \<lparr>sig_r = nat_bytes r, sig_s = nat_bytes s\<rparr> =
    (if pt_infinity (p256_encode (ec_add ?A ?B)) then Inr False
     else rbind (p256_fixed_x_mod_order (p256_encode (ec_add ?A ?B))) (\<lambda>x. Inr (x = nat_bytes r)))"
    using True by (simp add: ecdsa_verify_numbers_def scalar_valid inverse multiples points)
  have valid: "ecdsa_valid (p256_abs P) (be_val digest) r s \<longleftrightarrow>
      (case ec_add ?A ?B of None \<Rightarrow> False | Some (x, y) \<Rightarrow> gf_val x mod p256_n = r)"
    using True by (simp add: ecdsa_valid_def u1_def u2_def w_def)
  show ?thesis
  proof (cases "ec_add ?A ?B")
    case None
    then show ?thesis unfolding verify valid by (simp add: p256_point_at_infinity_def)
  next
    case (Some a)
    obtain x y where a: "a = (x, y)" by fastforce
    have "on_curve (Some (x, y))" using sum by (simp only: Some a)
    from x_mod_order_eq [OF this] show ?thesis unfolding verify valid by (simp add: Some a)
  qed
qed

lemma ecdsa_verify_eq:
  assumes "length public_key_der < 2 ^ 64" "length signature_der < 2 ^ 64"
  shows "verify_ecdsa_p256_sha256_digest public_key_der signature_der digest =
    (if length digest \<noteq> 32 then Inl (ecdsa_error Invalid_argument ''SHA-256 digest must be 32 bytes'')
     else rbind (parse_p256_public_key_der public_key_der) (\<lambda>k.
       Inr (\<exists>r s. signature_der = der_ecdsa_signature \<lparr>sig_r = nat_bytes r, sig_s = nat_bytes s\<rparr> \<and>
         ecdsa_valid (p256_abs (ec_key_point k)) (be_val digest) r s)))"
proof (cases "length digest = 32 \<and> (\<exists>k. parse_p256_public_key_der public_key_der = Inr k)")
  case True
  then obtain k where k: "parse_p256_public_key_der public_key_der = Inr k" and len: "length digest = 32" by auto
  have ok: "p256_ok (ec_key_point k)" using ec_public_key_iff [OF assms(1), of k] k by (simp add: ec_public_ok_def ec_key_point_def)
  have parse: "parse_ecdsa_signature_der signature_der = Inr \<lparr>sig_r = nat_bytes r, sig_s = nat_bytes s\<rparr> \<longleftrightarrow>
      signature_der = der_ecdsa_signature \<lparr>sig_r = nat_bytes r, sig_s = nat_bytes s\<rparr>" for r s
    using ecdsa_signature_iff [OF assms(2)] by (simp add: minimal_uint_iff)
  have verify: "verify_ecdsa_p256_sha256_digest public_key_der signature_der digest =
    (case parse_ecdsa_signature_der signature_der of Inl _ \<Rightarrow> Inr False
     | Inr signature \<Rightarrow> ecdsa_verify_numbers (ec_key_point k) digest signature)"
    using len by (simp add: verify_by_numbers public_key_point_eq [OF assms(1)] k)
  show ?thesis
  proof (cases "parse_ecdsa_signature_der signature_der")
    case (Inl e)
    then show ?thesis using len parse by (simp add: verify k)
  next
    case (Inr sg)
    define r s where "r = be_val (sig_r sg)" and "s = be_val (sig_s sg)"
    have sg: "sg = \<lparr>sig_r = nat_bytes r, sig_s = nat_bytes s\<rparr>"
      using ecdsa_signature_iff [OF assms(2), of sg] Inr by (cases sg) (simp add: minimal_uint_iff r_def s_def)
    have "signature_der = der_ecdsa_signature \<lparr>sig_r = nat_bytes r', sig_s = nat_bytes s'\<rparr> \<longleftrightarrow> r' = r \<and> s' = s" for r' s'
      using parse [of r' s'] Inr by (auto simp: sg)
    then show ?thesis using len by (simp add: verify k Inr sg ecdsa_verify_numbers_eq [OF len ok])
  qed
next
  case False
  then show ?thesis
    by (cases "parse_p256_public_key_der public_key_der") (auto simp: verify_by_numbers public_key_point_eq [OF assms(1)])
qed

section \<open>A signature verifies\<close>

lemma scalar_inverse:
  assumes "0 < s" "s < p256_n"
  shows "s * scalar_inv s mod p256_n = 1"
proof -
  have "\<not> p256_n dvd s" using assms by (auto dest: dvd_imp_le)
  then show ?thesis using fermat_inverse [OF prime_p256_n] by (simp add: scalar_inv_def mod_mult_right_eq)
qed

lemma base_negative:
  assumes "k \<le> p256_n"
  shows "ec_repeat (p256_n - k) ec_base = ec_neg (ec_repeat k ec_base)"
proof -
  let ?A = "ec_repeat (p256_n - k) ec_base" and ?B = "ec_repeat k ec_base"
  have "ec_add ?A ?B = ec_repeat p256_n ec_base" using assms by (simp flip: ec_repeat_add [OF base_on_curve])
  then have sum: "ec_add ?A ?B = None" by (simp add: base_order)
  have "?A = ec_add ?A (ec_add ?B (ec_neg ?B))" by simp
  also have "\<dots> = ec_add (ec_add ?A ?B) (ec_neg ?B)" using ec_add_assoc [of ?A ?B "ec_neg ?B"] by simp
  finally show ?thesis by (simp add: sum)
qed

text \<open>With \<open>w\<close> inverse to the lower form of \<open>s\<close>, the verifier arrives at \<open>k\<close> or at its negative.\<close>

lemma low_inverse_multiple:
  assumes s: "s = scalar_inv k * m mod p256_n" "0 < s" and k: "0 < k" "k < p256_n"
  defines "w \<equiv> scalar_inv (min s (p256_n - s))"
  shows "m * w mod p256_n = k \<or> m * w mod p256_n = p256_n - k"
proof -
  have sn: "s < p256_n" unfolding s(1) by simp
  have one: "1 mod p256_n = 1" by (simp add: p256_n_def)
  have ks: "k * s mod p256_n = m mod p256_n"
  proof -
    have "k * s mod p256_n = (k * scalar_inv k mod p256_n) * m mod p256_n" by (simp add: s(1) mod_simps mult.assoc)
    then show ?thesis by (simp add: scalar_inverse [OF k])
  qed
  have mw: "m * w mod p256_n = k * s * w mod p256_n" using ks by (metis mod_mult_left_eq)
  show ?thesis
  proof (cases "s \<le> p256_n - s")
    case True
    then have "s * w mod p256_n = 1" using scalar_inverse [OF s(2) sn] by (simp add: w_def)
    then have "m * w mod p256_n = k" unfolding mw using k(2) by (metis mod_less mod_mult_right_eq mult.assoc mult.right_neutral)
    then show ?thesis ..
  next
    case False
    then have w: "(p256_n - s) * w mod p256_n = 1" using scalar_inverse [of "p256_n - s"] s(2) sn by (simp add: w_def)
    have "(m * w + k) mod p256_n = (k * s * w + k * ((p256_n - s) * w)) mod p256_n"
    proof -
      have "k * ((p256_n - s) * w) mod p256_n = k mod p256_n" using w by (metis mod_mult_right_eq mult.right_neutral)
      then show ?thesis using mw by (metis mod_add_cong)
    qed
    also have "k * s * w + k * ((p256_n - s) * w) = k * w * (s + (p256_n - s))" by (simp add: algebra_simps)
    also have "\<dots> mod p256_n = 0" using sn by simp
    finally have "(m * w mod p256_n + k) mod p256_n = 0" by (simp add: mod_simps)
    then obtain q where q: "m * w mod p256_n + k = p256_n * q" by auto
    have "m * w mod p256_n < p256_n" by simp
    then have "p256_n * q < p256_n * 2" "0 < p256_n * q" using k q by linarith+
    then have "q = 1" by simp
    then have "m * w mod p256_n + k = p256_n" using q by simp
    then have "m * w mod p256_n = p256_n - k" by linarith
    then show ?thesis ..
  qed
qed

lemma signature_valid:
  assumes sg: "ecdsa_signature d e k = Some (r, s)"
  shows "ecdsa_valid (ec_repeat d ec_base) e r (min s (p256_n - s))"
proof -
  have k: "0 < k" "k < p256_n" using sg by (auto simp: ecdsa_signature_def split: if_splits)
  obtain x y where P: "ec_repeat k ec_base = Some (x, y)" and r: "r = gf_val x mod p256_n" "0 < r"
    and s: "s = scalar_inv k * (e + r * d) mod p256_n" "0 < s"
    using sg by (auto simp: ecdsa_signature_def Let_def split: if_splits option.splits)
  have bounds: "r < p256_n" "s < p256_n" using ecdsa_signature_range [OF sg] by auto
  define w where "w = scalar_inv (min s (p256_n - s))"
  have "ec_add (ec_repeat (e * w mod p256_n) ec_base) (ec_repeat (r * w mod p256_n) (ec_repeat d ec_base))
      = ec_repeat (e * w + r * w * d) ec_base"
  proof -
    have "ec_repeat (r * w mod p256_n) (ec_repeat d ec_base) = ec_repeat d (ec_repeat (r * w mod p256_n) ec_base)"
      by (simp flip: ec_repeat_mult add: mult.commute)
    also have "\<dots> = ec_repeat (r * w * d) ec_base" by (simp add: base_periodic flip: ec_repeat_mult) (simp add: mult.commute)
    finally show ?thesis by (simp add: base_periodic ec_repeat_add)
  qed
  also have "\<dots> = ec_repeat ((e + r * d) * w mod p256_n) ec_base" by (simp add: base_periodic algebra_simps)
  finally have sum: "ec_add (ec_repeat (e * w mod p256_n) ec_base) (ec_repeat (r * w mod p256_n) (ec_repeat d ec_base))
      = ec_repeat ((e + r * d) * w mod p256_n) ec_base" .
  have "ec_repeat ((e + r * d) * w mod p256_n) ec_base = Some (x, y) \<or>
      ec_repeat ((e + r * d) * w mod p256_n) ec_base = Some (x, - y)"
    using low_inverse_multiple [OF s k] P base_negative [of k] k unfolding w_def [symmetric] by fastforce
  then show ?thesis
    using bounds r s(2) unfolding ecdsa_valid_def w_def [symmetric] sum by auto
qed

lemma multiple_not_infinite:
  assumes "0 < d" "d < p256_n"
  shows "ec_repeat d ec_base \<noteq> None"
proof
  assume "ec_repeat d ec_base = None"
  then have "ec_repeat (scalar_inv d * d) ec_base = None" by (simp add: ec_repeat_mult)
  then have "ec_repeat (d * scalar_inv d mod p256_n) ec_base = None" by (simp add: base_periodic mult.commute)
  then show False by (simp add: scalar_inverse [OF assms] ec_base_def)
qed

lemma first_some_member: "first_some xs = Some x \<Longrightarrow> Some x \<in> set xs"
  by (induction xs rule: first_some.induct) auto

lemma numbers_from_nonce:
  "ecdsa_numbers d digest = Some (r, s) \<Longrightarrow> \<exists>k. ecdsa_signature (be_val d) (be_val digest) k = Some (r, s)"
  unfolding ecdsa_numbers_def by (drule first_some_member) auto

lemmas der_lengths = write_der_tlv_def write_der_length_def der_uint_def encoded_integer_content_def ec_algorithm_content_def
  id_ec_public_key_oid_def prime256v1_oid_def

text \<open>The public key of a private scalar, and the lengths that the parsers assume.\<close>

lemma public_key_of_scalar:
  assumes d: "0 < be_val d" "be_val d < p256_n" and Q: "p256_fixed_base_point_multiply d = Inr Q"
  defines "k \<equiv> \<lparr>ec_x = pt_x Q, ec_y = pt_y Q\<rparr>"
  shows "length (der_ec_public_key k) < 2 ^ 64" "parse_p256_public_key_der (der_ec_public_key k) = Inr k"
    "p256_abs (ec_key_point k) = ec_repeat (be_val d) ec_base"
proof -
  obtain x y where P: "ec_repeat (be_val d) ec_base = Some (x, y)" using multiple_not_infinite [OF d] by auto
  have "Q = p256_encode (Some (x, y))" using Q by (simp add: fixed_curve.base_iff P)
  then have key: "ec_key_point k = p256_encode (Some (x, y))" and len: "length (ec_x k) = 32" "length (ec_y k) = 32"
    by (simp_all add: k_def ec_key_point_def)
  show l: "length (der_ec_public_key k) < 2 ^ 64"
    using len by (simp add: der_ec_public_key_def ec_point_bits_def der_lengths)
  have "on_curve (Some (x, y))" using ec_repeat_on_curve [of ec_base "be_val d"] by (simp add: P)
  then have "ec_public_ok k" unfolding ec_public_ok_def ec_key_point_def [symmetric] key by (simp only: p256_ok_encode)
  then show "parse_p256_public_key_der (der_ec_public_key k) = Inr k" using ec_public_key_iff [OF l] by simp
  show "p256_abs (ec_key_point k) = ec_repeat (be_val d) ec_base" by (simp only: key P p256_abs_encode)
qed

lemma der_signature_length:
  assumes "r < p256_n" "s < p256_n"
  shows "length (der_ecdsa_signature \<lparr>sig_r = nat_bytes r, sig_s = nat_bytes s\<rparr>) < 2 ^ 64"
proof -
  have content: "length (encoded_integer_content (nat_bytes v)) \<le> 33" if "v < p256_n" for v
    using nat_bytes_scalar [OF that] length_dropWhile_le [of "\<lambda>b. b = 0" "nat_bytes v"]
    by (auto simp: encoded_integer_content_def Let_def)
  have tlv: "length (write_der_tlv tag c) \<le> 10 + length c" for tag c
  proof -
    have "length (write_der_length len) \<le> 9" for len
      using write_length_bytes(4) [of len] by (cases "len = 0") (auto simp: write_der_length_def Let_def)
    then show ?thesis by (simp add: write_der_tlv_def)
  qed
  have "length (der_uint (nat_bytes v)) \<le> 43" if "v < p256_n" for v
    using content [OF that] tlv [of 2 "encoded_integer_content (nat_bytes v)"] unfolding der_uint_def by linarith
  then have "length (der_uint (nat_bytes r)) \<le> 43" "length (der_uint (nat_bytes s)) \<le> 43" using assms by simp_all
  then have "length (der_ecdsa_signature \<lparr>sig_r = nat_bytes r, sig_s = nat_bytes s\<rparr>) \<le> 10 + 86"
    using tlv [of "0x30" "der_uint (nat_bytes r) @ der_uint (nat_bytes s)"] by (simp add: der_ecdsa_signature_def)
  then show ?thesis by simp
qed

lemma signed_verifies:
  assumes "length der < 2 ^ 64" "parse_p256_private_key_der der = Inr key"
    and Q: "p256_fixed_base_point_multiply (ec_private_scalar key) = Inr Q"
    and rs: "ecdsa_numbers (ec_private_scalar key) digest = Some (r, s)" and len: "length digest = 32"
  shows "verify_ecdsa_p256_sha256_digest (der_ec_public_key \<lparr>ec_x = pt_x Q, ec_y = pt_y Q\<rparr>)
    (der_ecdsa_signature (ecdsa_signature_bytes r s)) digest = Inr True"
proof -
  have d: "0 < be_val (ec_private_scalar key)" "be_val (ec_private_scalar key) < p256_n"
    using ec_private_iff [OF assms(1)] assms(2) by (auto simp: ec_scalar_ok_def)
  obtain k where sg: "ecdsa_signature (be_val (ec_private_scalar key)) (be_val digest) k = Some (r, s)"
    using numbers_from_nonce [OF rs] by blast
  note range = ecdsa_signature_range [OF sg]
  note public = public_key_of_scalar [OF d Q]
  have "length (der_ecdsa_signature (ecdsa_signature_bytes r s)) < 2 ^ 64"
    unfolding ecdsa_signature_bytes_def using range by (intro der_signature_length) auto
  from ecdsa_verify_eq [OF public(1) this, of digest] show ?thesis
    using signature_valid [OF sg] len by (auto simp: public ecdsa_signature_bytes_def)
qed

section \<open>Keys for the witnesses\<close>

text \<open>The scalar 2 in PKCS#8, and the base point as a public key.\<close>

definition example_private_der :: bytes where
  "example_private_der = der_ec_pkcs8 (replicate 31 0 @ [2]) [] []"

definition example_public_der :: bytes where
  "example_public_der = der_ec_public_key \<lparr>ec_x = field_bytes base_x, ec_y = field_bytes base_y\<rparr>"

lemma example_private: "length example_private_der < 2 ^ 64"
    "parse_p256_private_key_der example_private_der = Inr \<lparr>ec_private_scalar = replicate 31 0 @ [2]\<rparr>"
proof -
  show l: "length example_private_der < 2 ^ 64"
    by (simp add: example_private_der_def der_ec_pkcs8_def der_sec1_def sec1_content_def der_lengths)
  have "ec_scalar_ok (replicate 31 0 @ [2])" by (simp add: ec_scalar_ok_def p256_n_def)
  then show "parse_p256_private_key_der example_private_der = Inr \<lparr>ec_private_scalar = replicate 31 0 @ [2]\<rparr>"
    using ec_private_iff [OF l, of "\<lparr>ec_private_scalar = replicate 31 0 @ [2]\<rparr>"]
    by (auto simp: example_private_der_def sec1_public_field_def)
qed

lemma example_public: "length example_public_der < 2 ^ 64"
    "parse_p256_public_key_der example_public_der = Inr \<lparr>ec_x = field_bytes base_x, ec_y = field_bytes base_y\<rparr>"
proof -
  show l: "length example_public_der < 2 ^ 64"
    by (simp add: example_public_der_def der_ec_public_key_def ec_point_bits_def der_lengths)
  have "p256_ok (p256_encode ec_base)" by simp
  then have "ec_public_ok \<lparr>ec_x = field_bytes base_x, ec_y = field_bytes base_y\<rparr>" by (simp add: ec_base_def ec_public_ok_def)
  then show "parse_p256_public_key_der example_public_der = Inr \<lparr>ec_x = field_bytes base_x, ec_y = field_bytes base_y\<rparr>"
    using ec_public_key_iff [OF l] by (simp add: example_public_der_def)
qed

section \<open>Properties\<close>

text \<open>
  C4: what is signed verifies. For a private key and a digest of 32 bytes, signing either reports
  that all sixteen nonces were rejected, or returns a signature that verifies under the public key,
  the multiple of the base point by the private scalar.
\<close>

theorem ecdsa_sign_verify:
  assumes "length der < 2 ^ 64" "parse_p256_private_key_der der = Inr key" "length digest = 32"
    and "p256_fixed_base_point_multiply (ec_private_scalar key) = Inr Q"
  shows "case sign_ecdsa_p256_sha256_digest der digest of
      Inl e \<Rightarrow> e = ecdsa_error Provider_error ''failed to generate ECDSA signature''
    | Inr signature \<Rightarrow> verify_ecdsa_p256_sha256_digest (der_ec_public_key \<lparr>ec_x = pt_x Q, ec_y = pt_y Q\<rparr>) signature digest = Inr True"
proof (cases "ecdsa_numbers (ec_private_scalar key) digest")
  case None
  then show ?thesis using assms(2,3) by (simp add: ecdsa_sign_eq [OF assms(1)])
next
  case (Some rs)
  obtain r s where rs: "rs = (r, s)" by fastforce
  show ?thesis
    using signed_verifies [OF assms(1,2,4) _ assms(3)] Some assms(2,3) by (simp add: ecdsa_sign_eq [OF assms(1)] rs)
qed

theorem ecdsa_sign_verify_witness:
  "case sign_ecdsa_p256_sha256_digest example_private_der (replicate 32 0) of
      Inl e \<Rightarrow> e = ecdsa_error Provider_error ''failed to generate ECDSA signature''
    | Inr signature \<Rightarrow> verify_ecdsa_p256_sha256_digest (der_ec_public_key
        \<lparr>ec_x = pt_x (p256_encode (ec_repeat 2 ec_base)), ec_y = pt_y (p256_encode (ec_repeat 2 ec_base))\<rparr>)
        signature (replicate 32 0) = Inr True"
proof (rule ecdsa_sign_verify [OF example_private])
  have "be_val (replicate 31 0 @ [2]) = 2" by simp
  then show "p256_fixed_base_point_multiply (ec_private_scalar \<lparr>ec_private_scalar = replicate 31 0 @ [2]\<rparr>)
      = Inr (p256_encode (ec_repeat 2 ec_base))"
    by (simp only: fixed_curve.base_iff ec_private_key_material.select_convs)
qed simp

text \<open>
  C7: what signing returns. A digest of another size is refused, and so is a private key that does not
  parse; otherwise the signature is the one of the standard for the first of the sixteen nonces of
  RFC 6979 that is not rejected, with the lower of the two forms of \<open>s\<close>, in DER. In particular signing
  is deterministic.
\<close>

theorem ecdsa_sign_exact:
  assumes "length der < 2 ^ 64"
  shows "sign_ecdsa_p256_sha256_digest der digest =
    (if length digest \<noteq> 32 then Inl (ecdsa_error Invalid_argument ''SHA-256 digest must be 32 bytes'')
     else rbind (parse_p256_private_key_der der) (\<lambda>key.
       case ecdsa_numbers (ec_private_scalar key) digest of
         None \<Rightarrow> Inl (ecdsa_error Provider_error ''failed to generate ECDSA signature'')
       | Some (r, s) \<Rightarrow> encode_ecdsa_signature_der (nat_bytes r) (nat_bytes (min s (p256_n - s)))))"
proof -
  have "encode_ecdsa_signature_der (nat_bytes r) (nat_bytes (min s (p256_n - s))) = Inr (der_ecdsa_signature (ecdsa_signature_bytes r s))"
    for r s by (simp add: encode_ecdsa_signature_der_def der_ecdsa_signature_def ecdsa_signature_bytes_def der_uint_def)
  then show ?thesis using ecdsa_sign_eq [OF assms, of digest] by presburger
qed

theorem ecdsa_sign_exact_witness:
  "sign_ecdsa_p256_sha256_digest example_private_der (replicate 32 0) =
    (case ecdsa_numbers (replicate 31 0 @ [2]) (replicate 32 0) of
       None \<Rightarrow> Inl (ecdsa_error Provider_error ''failed to generate ECDSA signature'')
     | Some (r, s) \<Rightarrow> encode_ecdsa_signature_der (nat_bytes r) (nat_bytes (min s (p256_n - s))))"
  using ecdsa_sign_exact [OF example_private(1), of "replicate 32 0"] by (simp add: example_private(2))

text \<open>
  C23: the numbers of a signature. When signing succeeds the signature parses, both of its numbers are
  positive and below the order of the group, and the second is in the lower half, so that negating it
  does not give a second signature in the form that is produced.
\<close>

theorem ecdsa_signature_bounds:
  assumes "length der < 2 ^ 64"
  shows "case sign_ecdsa_p256_sha256_digest der digest of
      Inl e \<Rightarrow> True
    | Inr signature \<Rightarrow> (\<exists>k. parse_ecdsa_signature_der signature = Inr k \<and>
        1 \<le> be_val (sig_r k) \<and> be_val (sig_r k) < p256_n \<and> 1 \<le> be_val (sig_s k) \<and> be_val (sig_s k) \<le> p256_n div 2)"
proof (cases "sign_ecdsa_p256_sha256_digest der digest")
  case (Inr signature)
  obtain key :: ec_private_key_material and r s where key: "ecdsa_numbers (ec_private_scalar key) digest = Some (r, s)"
    and sg: "signature = der_ecdsa_signature (ecdsa_signature_bytes r s)"
    using Inr ecdsa_sign_eq [OF assms, of digest] by (fastforce simp: rbind_eq_Inr split: if_splits option.splits)
  obtain k where "ecdsa_signature (be_val (ec_private_scalar key)) (be_val digest) k = Some (r, s)"
    using numbers_from_nonce [OF key] by blast
  from ecdsa_signature_range [OF this] have range: "0 < r" "r < p256_n" "0 < s" "s < p256_n" by auto
  then have "length signature < 2 ^ 64" unfolding sg ecdsa_signature_bytes_def by (intro der_signature_length) auto
  then have "parse_ecdsa_signature_der signature = Inr (ecdsa_signature_bytes r s)"
    unfolding ecdsa_signature_iff [OF \<open>length signature < 2 ^ 64\<close>] by (simp add: sg minimal_uint_iff ecdsa_signature_bytes_def)
  moreover have "1 \<le> min s (p256_n - s)" "min s (p256_n - s) \<le> p256_n div 2" using range by linarith+
  ultimately show ?thesis using range by (simp add: Inr ecdsa_signature_bytes_def)
qed simp

theorem ecdsa_signature_bounds_witness:
  "case sign_ecdsa_p256_sha256_digest example_private_der (replicate 32 0) of
      Inl e \<Rightarrow> True
    | Inr signature \<Rightarrow> (\<exists>k. parse_ecdsa_signature_der signature = Inr k \<and>
        1 \<le> be_val (sig_r k) \<and> be_val (sig_r k) < p256_n \<and> 1 \<le> be_val (sig_s k) \<and> be_val (sig_s k) \<le> p256_n div 2)"
  by (rule ecdsa_signature_bounds [OF example_private(1)])

text \<open>
  C6: what verification returns. A digest of another size and a public key that does not parse are
  errors; otherwise the answer is whether the signature is the encoding of two numbers that satisfy
  the equation of the standard for the point of the key, the digest and the inverse of \<open>s\<close>. Nothing
  else in a signature, not its form and not its range, is an error.
\<close>

theorem ecdsa_verify_exact:
  assumes "length public_key_der < 2 ^ 64" "length signature_der < 2 ^ 64"
  shows "verify_ecdsa_p256_sha256_digest public_key_der signature_der digest =
    (if length digest \<noteq> 32 then Inl (ecdsa_error Invalid_argument ''SHA-256 digest must be 32 bytes'')
     else rbind (parse_p256_public_key_der public_key_der) (\<lambda>k.
       Inr (\<exists>r s. encode_ecdsa_signature_der (nat_bytes r) (nat_bytes s) = Inr signature_der \<and>
         ecdsa_valid (p256_abs (ec_key_point k)) (be_val digest) r s)))"
  using ecdsa_verify_eq [OF assms, of digest]
  by (simp add: encode_ecdsa_signature_der_def der_ecdsa_signature_def der_uint_def eq_commute [of signature_der])

theorem ecdsa_verify_exact_witness:
  "verify_ecdsa_p256_sha256_digest example_public_der [] (replicate 32 0) = Inr False"
  using ecdsa_verify_exact [OF example_public(1), of "[]" "replicate 32 0"]
  by (simp add: example_public(2) encode_ecdsa_signature_der_def write_der_tlv_def)

end
