(* ===== verification/Ed25519_Prime.thy ===== *)
theory Ed25519_Prime
  imports Prime_Certificates
begin

text \<open>
  The prime 2^255 - 19 of Ed25519, with its certificate, and the powers of the constant d that show
  that it is not a square. The residues are kept below 2^256 - 38, twice the prime.
\<close>

definition ed_p :: nat where
  "ed_p = 2 ^ 255 - 19"

lemma ed_p_numeral: "ed_p = 57896044618658097711785492504343953926634992332820282019728792003956564819949"
  by (simp add: ed_p_def)

definition ed_check :: "nat \<Rightarrow> nat \<Rightarrow> nat \<Rightarrow> bool" where
  "ed_check t q r \<longleftrightarrow> t + q * 38 = shift8 (shift8 (shift24 (shift24 q))) + r"

lemma ed_check: "reduces ed_p ed_check"
proof -
  have "t = 2 * q * ed_p + r" if "ed_check t q r" for t q r
    using that by (simp add: ed_check_def shifts ed_p_def)
  then show ?thesis unfolding reduces_def by (metis mod_mult_self3)
qed

section \<open>The certificate\<close>

lemma prime_ed_991: "prime_nat 991"
  by (rule prime_nat_by_trial [where m = 32]) (simp_all add: upt_rec_numeral)

lemma prime_ed_103: "prime_nat 103"
  by (rule prime_nat_by_trial [where m = 11]) (simp_all add: upt_rec_numeral)

lemma run_ed_8574133_1_1: "power_run (plain_check 8574133) 3435729
    [(False, 1376726, 1932883),
     (True, 774522, 7537281),
     (False, 6625813, 2977832),
     (True, 1193242, 8150342),
     (False, 7747497, 5021863),
     (True, 2012303, 6784828),
     (False, 5368926, 5398426),
     (False, 3398944, 5361924),
     (True, 2148569, 1416919),
     (False, 234153, 488212),
     (True, 195630, 6487758),
     (False, 4909068, 1928520),
     (True, 772774, 5036138),
     (False, 2958046, 6130926),
     (True, 2456714, 7676092),
     (False, 6872110, 3261834)]
    (3435729, 1) = Some (3261834, 990)"
  by (simp only: power_simps plain_check_def)

lemma run_ed_8574133_1_2: "power_run (plain_check 8574133) 3435729
    [(True, 1307045, 1)]
    (3261834, 990) = Some (1, 991)"
  by (simp only: power_simps plain_check_def)

lemma power_ed_8574133_1: "(3435729 :: nat) ^ 991 mod 8574133 = 1"
proof -
  note r1 = power_run_reaches [OF plain_check run_ed_8574133_1_1 power_start]
  note r2 = power_run_reaches [OF plain_check run_ed_8574133_1_2 r1]
  show ?thesis by (rule trans [OF r2 [symmetric]]) (simp)
qed

lemma run_ed_8574133_2_1: "power_run (plain_check 8574133) 4321357
    [(False, 2177960, 7612769),
     (True, 3836830, 1889143),
     (False, 416235, 7025194),
     (False, 5756074, 6703794),
     (False, 5241445, 7452251),
     (True, 3755929, 2240050),
     (False, 585228, 1295176),
     (True, 652767, 6797821),
     (False, 5389509, 3377344),
     (True, 1702179, 1)]
    (4321357, 1) = Some (1, 103)"
  by (simp only: power_simps plain_check_def)

lemma power_ed_8574133_2: "(4321357 :: nat) ^ 103 mod 8574133 = 1"
proof -
  note r1 = power_run_reaches [OF plain_check run_ed_8574133_2_1 power_start]
  show ?thesis by (rule trans [OF r1 [symmetric]]) (simp)
qed

lemma prime_ed_8574133: "prime_nat 8574133"
proof (rule pocklington [where certs =
    "[(991 :: nat, 3435729 :: nat, 1014251 :: nat),
       (103 :: nat, 4321357 :: nat, 3531099 :: nat)]"])
  have b: "(3435729 :: nat) - 1 = 3435728" by simp
  have "3435728 * 1014251 = 406419 * 8574133 + (1::nat)"
    by (simp only: hex_simps)
  then have c1: "(3435729 - 1) * 1014251 mod 8574133 = (1::nat)"
    unfolding b by (rule mod_one_by) simp
  have b: "(4321357 :: nat) - 1 = 4321356" by simp
  have "4321356 * 3531099 = 1779671 * 8574133 + (1::nat)"
    by (simp only: hex_simps)
  then have c2: "(4321357 - 1) * 3531099 mod 8574133 = (1::nat)"
    unfolding b by (rule mod_one_by) simp
  show "\<forall>(r, b, c) \<in> set [(991 :: nat, 3435729 :: nat, 1014251 :: nat),
       (103 :: nat, 4321357 :: nat, 3531099 :: nat)].
      prime_nat r \<and> b ^ r mod 8574133 = 1 \<and> (b - 1) * c mod 8574133 = 1"
    using prime_ed_991 power_ed_8574133_1 c1 prime_ed_103 power_ed_8574133_2 c2 by (simp only: list.set ball_simps prod.case simp_thms)
qed (simp_all)

lemma prime_ed_127: "prime_nat 127"
  by (rule prime_nat_by_trial [where m = 12]) (simp_all add: upt_rec_numeral)

lemma run_ed_1919519569386763_1_1: "power_run (plain_check 1919519569386763) 1059928654987441
    [(False, 585276009466472, 378404018618345),
     (False, 74596583223300, 144327877361125),
     (False, 10851953017714, 177743405145843),
     (False, 16458659019002, 1005663795910123),
     (False, 526881666920155, 1708865658966864),
     (False, 1521329548793915, 165145034047351),
     (True, 91190502356579, 776602915755014),
     (False, 314199499905003, 1731416200464907),
     (False, 1561746025954846, 637185190415151),
     (True, 351843686631655, 1895116067335826),
     (False, 1871022815267149, 120305513753589),
     (True, 66430821239896, 474005533779101),
     (False, 117050771264077, 883469443155450),
     (False, 406621672129529, 1862822030677873),
     (True, 1028621161746300, 1815542347366093),
     (False, 1717197400666580, 725436537604109)]
    (1059928654987441, 1) = Some (725436537604109, 4186)"
  by (simp only: power_simps plain_check_def)

lemma run_ed_1919519569386763_1_2: "power_run (plain_check 1919519569386763) 1059928654987441
    [(False, 274161398760401, 304370075711918),
     (True, 168068390712382, 1094828973022372),
     (False, 624453378483741, 1896718276386001),
     (False, 1874187831867743, 1461878117886092),
     (False, 1113345060731486, 1191509461312646),
     (True, 657932870742959, 1781594674427169),
     (False, 1653580215887711, 690624347585068),
     (False, 248479878550901, 164893845441161),
     (True, 91051799940749, 545245894553514),
     (False, 154878903173901, 1099052493275733),
     (True, 606879580462158, 310417877454699),
     (False, 50199675054245, 734771387221666),
     (False, 281262561783692, 1146338725746560),
     (True, 632990297738272, 1572851233659424),
     (False, 1288791759499647, 960002919039115),
     (False, 480123057488833, 812798369465646)]
    (725436537604109, 4186) = Some (812798369465646, 8574132)"
  by (simp only: power_simps plain_check_def)

lemma run_ed_1919519569386763_1_3: "power_run (plain_check 1919519569386763) 1059928654987441
    [(True, 448814534773895, 1)]
    (812798369465646, 8574132) = Some (1, 8574133)"
  by (simp only: power_simps plain_check_def)

lemma power_ed_1919519569386763_1: "(1059928654987441 :: nat) ^ 8574133 mod 1919519569386763 = 1"
proof -
  note r1 = power_run_reaches [OF plain_check run_ed_1919519569386763_1_1 power_start]
  note r2 = power_run_reaches [OF plain_check run_ed_1919519569386763_1_2 r1]
  note r3 = power_run_reaches [OF plain_check run_ed_1919519569386763_1_3 r2]
  show ?thesis by (rule trans [OF r3 [symmetric]]) (simp)
qed

lemma run_ed_1919519569386763_2_1: "power_run (plain_check 1919519569386763) 576774792492622
    [(False, 173308554161386, 1019916170301366),
     (True, 306463110284087, 1357890764181271),
     (False, 960587928800259, 417520001603824),
     (True, 125455877672296, 759458092768680),
     (False, 300479663698404, 1148669127116148),
     (True, 345150634565688, 78454425872112),
     (False, 3206582020358, 1792084137619390),
     (True, 538483156457196, 1320549840644032),
     (False, 908483512977205, 52170289479609),
     (True, 15676062056764, 1693956375729866),
     (False, 1494899165728531, 1870566401542803),
     (True, 562065407042555, 1)]
    (576774792492622, 1) = Some (1, 127)"
  by (simp only: power_simps plain_check_def)

lemma power_ed_1919519569386763_2: "(576774792492622 :: nat) ^ 127 mod 1919519569386763 = 1"
proof -
  note r1 = power_run_reaches [OF plain_check run_ed_1919519569386763_2_1 power_start]
  show ?thesis by (rule trans [OF r1 [symmetric]]) (simp)
qed

lemma prime_ed_1919519569386763: "prime_nat 1919519569386763"
proof (rule pocklington [where certs =
    "[(8574133 :: nat, 1059928654987441 :: nat, 1290547218147893 :: nat),
       (127 :: nat, 576774792492622 :: nat, 1870148777187772 :: nat)]"])
  have b: "(1059928654987441 :: nat) - 1 = 1059928654987440" by simp
  have "1059928654987440 * 1290547218147893 = 712619969572013 * 1919519569386763 + (1::nat)"
    by (simp only: hex_simps)
  then have c1: "(1059928654987441 - 1) * 1290547218147893 mod 1919519569386763 = (1::nat)"
    unfolding b by (rule mod_one_by) simp
  have b: "(576774792492622 :: nat) - 1 = 576774792492621" by simp
  have "576774792492621 * 1870148777187772 = 561939919808897 * 1919519569386763 + (1::nat)"
    by (simp only: hex_simps)
  then have c2: "(576774792492622 - 1) * 1870148777187772 mod 1919519569386763 = (1::nat)"
    unfolding b by (rule mod_one_by) simp
  show "\<forall>(r, b, c) \<in> set [(8574133 :: nat, 1059928654987441 :: nat, 1290547218147893 :: nat),
       (127 :: nat, 576774792492622 :: nat, 1870148777187772 :: nat)].
      prime_nat r \<and> b ^ r mod 1919519569386763 = 1 \<and> (b - 1) * c mod 1919519569386763 = 1"
    using prime_ed_8574133 power_ed_1919519569386763_1 c1 prime_ed_127 power_ed_1919519569386763_2 c2 by (simp only: list.set ball_simps prod.case simp_thms)
qed (simp_all)

lemma prime_ed_419: "prime_nat 419"
  by (rule prime_nat_by_trial [where m = 21]) (simp_all add: upt_rec_numeral)

lemma prime_ed_97: "prime_nat 97"
  by (rule prime_nat_by_trial [where m = 10]) (simp_all add: upt_rec_numeral)

lemma run_ed_569003_1_1: "power_run (plain_check 569003) 236160
    [(False, 98016, 147552),
     (True, 61240, 136600),
     (False, 32793, 244621),
     (False, 105165, 233146),
     (True, 96765, 184065),
     (False, 59542, 347599),
     (False, 212345, 122766),
     (False, 26487, 308295),
     (False, 167039, 114908),
     (True, 47691, 351207),
     (False, 216776, 162521),
     (True, 67453, 1)]
    (236160, 1) = Some (1, 419)"
  by (simp only: power_simps plain_check_def)

lemma power_ed_569003_1: "(236160 :: nat) ^ 419 mod 569003 = 1"
proof -
  note r1 = power_run_reaches [OF plain_check run_ed_569003_1_1 power_start]
  show ?thesis by (rule trans [OF r1 [symmetric]]) (simp)
qed

lemma run_ed_569003_2_1: "power_run (plain_check 569003) 439588
    [(False, 339607, 207923),
     (True, 160632, 365828),
     (False, 235201, 50981),
     (False, 4567, 425660),
     (False, 318427, 517319),
     (False, 470329, 335774),
     (False, 198143, 217647),
     (True, 168145, 1)]
    (439588, 1) = Some (1, 97)"
  by (simp only: power_simps plain_check_def)

lemma power_ed_569003_2: "(439588 :: nat) ^ 97 mod 569003 = 1"
proof -
  note r1 = power_run_reaches [OF plain_check run_ed_569003_2_1 power_start]
  show ?thesis by (rule trans [OF r1 [symmetric]]) (simp)
qed

lemma prime_ed_569003: "prime_nat 569003"
proof (rule pocklington [where certs =
    "[(419 :: nat, 236160 :: nat, 533245 :: nat),
       (97 :: nat, 439588 :: nat, 345875 :: nat)]"])
  have b: "(236160 :: nat) - 1 = 236159" by simp
  have "236159 * 533245 = 221318 * 569003 + (1::nat)"
    by (simp only: hex_simps)
  then have c1: "(236160 - 1) * 533245 mod 569003 = (1::nat)"
    unfolding b by (rule mod_one_by) simp
  have b: "(439588 :: nat) - 1 = 439587" by simp
  have "439587 * 345875 = 267208 * 569003 + (1::nat)"
    by (simp only: hex_simps)
  then have c2: "(439588 - 1) * 345875 mod 569003 = (1::nat)"
    unfolding b by (rule mod_one_by) simp
  show "\<forall>(r, b, c) \<in> set [(419 :: nat, 236160 :: nat, 533245 :: nat),
       (97 :: nat, 439588 :: nat, 345875 :: nat)].
      prime_nat r \<and> b ^ r mod 569003 = 1 \<and> (b - 1) * c mod 569003 = 1"
    using prime_ed_419 power_ed_569003_1 c1 prime_ed_97 power_ed_569003_2 c2 by (simp only: list.set ball_simps prod.case simp_thms)
qed (simp_all)

lemma run_ed_2773320623_1_1: "power_run (plain_check 2773320623) 2039232613
    [(False, 1499455063, 443143520),
     (False, 70809043, 71196611),
     (False, 1827757, 1235952710),
     (False, 550812296, 1457563692),
     (True, 1071751816, 2200585828),
     (False, 1746129872, 1940495328),
     (False, 1357766601, 2215915161),
     (True, 1629370375, 459602068),
     (False, 76166476, 2237842076),
     (False, 1805754846, 2622000718),
     (True, 1927966543, 1299099845),
     (False, 608534185, 2218026770),
     (True, 1630923048, 2346631106),
     (False, 1985589946, 1583526878),
     (True, 1164372999, 2188613837),
     (False, 1727182384, 2278357337)]
    (2039232613, 1) = Some (2278357337, 2222)"
  by (simp only: power_simps plain_check_def)

lemma run_ed_2773320623_1_2: "power_run (plain_check 2773320623) 2039232613
    [(False, 1871731711, 222355616),
     (True, 163498882, 2542861122),
     (False, 2331552519, 1228799547),
     (False, 544455016, 2538810241),
     (True, 1866796286, 2761983555),
     (False, 2750692831, 2339884312),
     (False, 1974188829, 381792877),
     (True, 280733673, 1288059322),
     (False, 598234767, 274399843),
     (False, 27149862, 1642220623),
     (True, 1207530721, 707418716),
     (False, 180448389, 1146262309),
     (True, 842850792, 1)]
    (2278357337, 2222) = Some (1, 569003)"
  by (simp only: power_simps plain_check_def)

lemma power_ed_2773320623_1: "(2039232613 :: nat) ^ 569003 mod 2773320623 = 1"
proof -
  note r1 = power_run_reaches [OF plain_check run_ed_2773320623_1_1 power_start]
  note r2 = power_run_reaches [OF plain_check run_ed_2773320623_1_2 r1]
  show ?thesis by (rule trans [OF r2 [symmetric]]) (simp)
qed

lemma prime_ed_2773320623: "prime_nat 2773320623"
proof (rule pocklington [where certs =
    "[(569003 :: nat, 2039232613 :: nat, 2440407146 :: nat)]"])
  have b: "(2039232613 :: nat) - 1 = 2039232612" by simp
  have "2039232612 * 2440407146 = 1794440137 * 2773320623 + (1::nat)"
    by (simp only: hex_simps)
  then have c1: "(2039232613 - 1) * 2440407146 mod 2773320623 = (1::nat)"
    unfolding b by (rule mod_one_by) simp
  show "\<forall>(r, b, c) \<in> set [(569003 :: nat, 2039232613 :: nat, 2440407146 :: nat)].
      prime_nat r \<and> b ^ r mod 2773320623 = 1 \<and> (b - 1) * c mod 2773320623 = 1"
    using prime_ed_569003 power_ed_2773320623_1 c1 by (simp only: list.set ball_simps prod.case simp_thms)
qed (simp_all)

lemma run_ed_72106336199_1_1: "power_run (plain_check 72106336199) 67108864
    [(False, 62457, 54187389553),
     (False, 40721430894, 21464407903),
     (True, 19976774, 48587510166),
     (False, 32739787771, 31518525127),
     (False, 13777116943, 36433246472),
     (False, 18408665846, 22775687430),
     (True, 21197173, 27440014093),
     (False, 10442277518, 27871338567),
     (False, 10773138041, 13759367330),
     (True, 12805747, 12413677467),
     (False, 2137112996, 69875393885),
     (False, 67713476068, 21746807693),
     (True, 20239602, 13557737954),
     (False, 2549183166, 28904880082),
     (False, 11586944179, 64780291103),
     (False, 58198576388, 53109887397)]
    (67108864, 1) = Some (53109887397, 5288)"
  by (simp only: power_simps plain_check_def)

lemma run_ed_72106336199_1_2: "power_run (plain_check 72106336199) 67108864
    [(True, 49429001, 46293879809),
     (False, 29721705757, 48142078838),
     (True, 44805496, 63277670328),
     (False, 55529982151, 34576443535),
     (False, 16580102533, 70653804158),
     (True, 65757002, 40671541114),
     (False, 22940761433, 38841347829),
     (True, 36149371, 30324675427),
     (False, 12753191858, 29600164587),
     (False, 12151078390, 7745240959),
     (False, 831948489, 64887186370),
     (False, 58390804150, 45249351050),
     (False, 28395615120, 26008373620),
     (False, 9381082634, 39707436234),
     (True, 36955433, 61738559009),
     (False, 52861508009, 24689944290)]
    (53109887397, 5288) = Some (24689944290, 10833282)"
  by (simp only: power_simps plain_check_def)

lemma run_ed_72106336199_1_3: "power_run (plain_check 72106336199) 67108864
    [(True, 22978758, 63741725718),
     (False, 56347442009, 54132631733),
     (True, 50380862, 47564557774),
     (False, 31375705319, 23617292595),
     (False, 7735471512, 15782971137),
     (True, 14689101, 8381791269),
     (False, 974316940, 37063719301),
     (False, 19051297858, 47083366859),
     (True, 43820161, 1842430137),
     (False, 47076983, 46293231152),
     (True, 43084787, 17015826715),
     (False, 4015435730, 62050700955),
     (True, 57750154, 31625740474),
     (False, 13871006533, 41778356609),
     (True, 38882825, 1)]
    (24689944290, 10833282) = Some (1, 2773320623)"
  by (simp only: power_simps plain_check_def)

lemma power_ed_72106336199_1: "(67108864 :: nat) ^ 2773320623 mod 72106336199 = 1"
proof -
  note r1 = power_run_reaches [OF plain_check run_ed_72106336199_1_1 power_start]
  note r2 = power_run_reaches [OF plain_check run_ed_72106336199_1_2 r1]
  note r3 = power_run_reaches [OF plain_check run_ed_72106336199_1_3 r2]
  show ?thesis by (rule trans [OF r3 [symmetric]]) (simp)
qed

lemma prime_ed_72106336199: "prime_nat 72106336199"
proof (rule pocklington [where certs =
    "[(2773320623 :: nat, 67108864 :: nat, 8149528284 :: nat)]"])
  have b: "(67108864 :: nat) - 1 = 67108863" by simp
  have "67108863 * 8149528284 = 7584709 * 72106336199 + (1::nat)"
    by (simp only: hex_simps)
  then have c1: "(67108864 - 1) * 8149528284 mod 72106336199 = (1::nat)"
    unfolding b by (rule mod_one_by) simp
  show "\<forall>(r, b, c) \<in> set [(2773320623 :: nat, 67108864 :: nat, 8149528284 :: nat)].
      prime_nat r \<and> b ^ r mod 72106336199 = 1 \<and> (b - 1) * c mod 72106336199 = 1"
    using prime_ed_2773320623 power_ed_72106336199_1 c1 by (simp only: list.set ball_simps prod.case simp_thms)
qed (simp_all)

lemma run_ed_75445702479781427272750846543864801_1_1: "power_run (plain_check 75445702479781427272750846543864801) 56747016255153332959347766392083459
    [(False, 42682667773232268908414017687438046, 57392192270217903533858737733785835),
     (True, 43167941454978631853885532493949764, 11341082394838988818629815250146301),
     (False, 1704804192405731279737627904507422, 155959012102660387425813834929579),
     (False, 322393624243290837381199608455, 22924641964887948161263732232624786),
     (True, 17242930842531343492042401309098551, 7545578198456006756186225815011423),
     (False, 754658628359550589924993813264442, 59675109229994158302344740711778887),
     (True, 44885053517926231977951274358462984, 43794930860357342515802492599103949),
     (False, 25422203068193056891041644502487381, 50950134277550388139274988234818420),
     (False, 34407740899438114764535399580280571, 72770009763449134702699768100215029),
     (True, 54734475141785150176454090562513827, 27202643174427731855640178633001884),
     (False, 9808163637598135403272131796267207, 14015100988314359741352330069668649),
     (False, 2603502244084601673036428407930800, 36987265762985529521771229289714401),
     (False, 18133012002749197640021129008412144, 71882887051537174864842870124245457),
     (False, 68488320487820852693680135519074494, 47451906236235715010863708201653155),
     (True, 35691285335268854832693215772895031, 44881019911104472380550725301959314),
     (False, 26698749989116566583575785553969701, 40988219696468876732739275116956095)]
    (56747016255153332959347766392083459, 1) = Some (40988219696468876732739275116956095, 3490)"
  by (simp only: power_simps plain_check_def)

lemma run_ed_75445702479781427272750846543864801_1_2: "power_run (plain_check 75445702479781427272750846543864801) 56747016255153332959347766392083459
    [(True, 30829578000266422385391535031786900, 15332043035409065617477834235825705),
     (False, 3115771156118959595468564969629432, 39480329905849089631997149060323993),
     (True, 29695408078762780592442511714877699, 234780451390292275924586330158888),
     (False, 730616304749782310959424184321, 71735501108764540400206980997411423),
     (False, 68207756706945927034860657168529418, 15937525546816407118415523347669111),
     (False, 3366722188364485494000464704922514, 43630680590840538852296865946500607),
     (True, 32817123564796105957546781321704412, 7605517797477906931605389924957601),
     (False, 766695770156751960061421594445302, 74189065243340561207304552770060299),
     (False, 72953358783499368629595614446925480, 29844968685460824856749028853939921),
     (True, 22448103304257207187218578648877541, 6496845521168618958985737294532398),
     (False, 559461975150145453687258686838385, 42568191075887745383587395894444019),
     (False, 24017947105189956925118291322555313, 53567511594224135328964743008634648),
     (True, 40291180958917862938427239325921830, 8216326081215438965527877440581602),
     (False, 894789392291130386748223669787196, 29712412237263868790509936955998408),
     (True, 22348400038553320152252583613025332, 16007527225797350459071559410994340),
     (False, 3396362144726706123781895481899201, 30506053070532572263728513458111599)]
    (40988219696468876732739275116956095, 3490) = Some (30506053070532572263728513458111599, 3575382)"
  by (simp only: power_simps plain_check_def)

lemma run_ed_75445702479781427272750846543864801_1_3: "power_run (plain_check 75445702479781427272750846543864801) 56747016255153332959347766392083459
    [(True, 22945342578498811126148818162058805, 9610508646292348821329953612318136),
     (False, 1224216534602642292381448468437180, 65832298608511591668556093992813316),
     (True, 49516226855366120671909334056079781, 72353342897573626660186343144851463),
     (False, 69387732586316482150369421071802866, 68403073217836282578895655904920703),
     (True, 51449853075928900328024514284640737, 15459152947841197990123288567953340),
     (False, 3167647752087569441554968090963106, 8442880623864133217694160874123694),
     (False, 944815024393513024985962526866608, 13655657113581771768328179498740628),
     (True, 10271198633307099535452332332253414, 11033137157637951626521046683391638),
     (False, 1613479781328479465639793051223655, 14117643248705449579903760955255389),
     (False, 2641738950619894507590785452807825, 53209439489543348731343165578673496),
     (False, 37526914823943958910080381260554357, 45026339722915023718361148453374059),
     (False, 26871925135651925933812383086651105, 47927644182980611104525402396880376),
     (False, 30446519833863040573779245929834467, 28130072316447045932367772496005309),
     (True, 21158231927495784635471207646264028, 26687327869095617149515767253405403),
     (False, 9440080022894247132141175071273717, 42597155697666840953833477356857092),
     (False, 24050643229381293002752198397144717, 37915366180115829456528539631290147)]
    (30506053070532572263728513458111599, 3575382) = Some (37915366180115829456528539631290147, 7322386052)"
  by (simp only: power_simps plain_check_def)

lemma run_ed_75445702479781427272750846543864801_1_4: "power_run (plain_check 75445702479781427272750846543864801) 56747016255153332959347766392083459
    [(False, 19054431800903764400105031593211033, 24733303604349048894713366285732176),
     (True, 18603328427563793255683330482902394, 12324778730413845035736401498443190),
     (False, 2013370752222354783810455807157140, 8700384576254058316344741335546960),
     (False, 1003326754032217339821580787477747, 63760661403423789310755512201158253),
     (True, 47958030347309184641852713906083014, 45709518917089588620588014544046913),
     (False, 27693560414414528431216449307394349, 68456139577989548683126738097420020),
     (False, 62114115077357068251183257580271704, 22136646226253176392192384474909496),
     (False, 6495149359602180723693337486668727, 75252993186390472078289988028195689),
     (True, 56602068603462949642767972201015117, 13956964227800546053326728666811534),
     (False, 2581947600107605706462303626171683, 48750968884888446591255867108803073),
     (True, 36668384451806535047313919122866432, 64697059003945931065259437622409475),
     (False, 55479759697138254179825709808748625, 40929030134312714681419135575127000),
     (True, 30785058154398312611651986303205923, 45231450859940263498859075549876677),
     (False, 27117305289104624766705239956373212, 48911793286778530787684392282451517),
     (False, 31709738843901400648792627658332937, 49611283173623707106943146682350752),
     (True, 37315475900659884539699508020469460, 71831935470169421365666802305933708)]
    (37915366180115829456528539631290147, 7322386052) = Some (71831935470169421365666802305933708, 7498123317917)"
  by (simp only: power_simps plain_check_def)

lemma run_ed_75445702479781427272750846543864801_1_5: "power_run (plain_check 75445702479781427272750846543864801) 56747016255153332959347766392083459
    [(False, 68391263965941036794183684091547211, 34344241017514213795232369998009253),
     (False, 15634116355205325020052829918971681, 39861800344642687294082677661917528),
     (False, 21061015730378805098826059511387286, 17322343490433587533140966339310698),
     (False, 3977212407571928205963724511970200, 12483880574092517505129590836317004),
     (False, 2065687892958114948186276876399224, 25723673227311938816465581622221592),
     (True, 19348241911641249879669491713674382, 54542960005674162123395106310618746),
     (False, 39431463799781294555109685238030663, 28238288389390818070653075202219453),
     (False, 10569202816768767948240748534860388, 58253495455740345078537522689216421),
     (True, 43815776709512256766166920489406651, 53532795656621825491113725491088788),
     (False, 37984406223556856190287473984044584, 65465683433323879243155648847021160),
     (True, 49240474670391259850952302711305239, 1)]
    (71831935470169421365666802305933708, 7498123317917) = Some (1, 1919519569386763)"
  by (simp only: power_simps plain_check_def)

lemma power_ed_75445702479781427272750846543864801_1: "(56747016255153332959347766392083459 :: nat) ^ 1919519569386763 mod 75445702479781427272750846543864801 = 1"
proof -
  note r1 = power_run_reaches [OF plain_check run_ed_75445702479781427272750846543864801_1_1 power_start]
  note r2 = power_run_reaches [OF plain_check run_ed_75445702479781427272750846543864801_1_2 r1]
  note r3 = power_run_reaches [OF plain_check run_ed_75445702479781427272750846543864801_1_3 r2]
  note r4 = power_run_reaches [OF plain_check run_ed_75445702479781427272750846543864801_1_4 r3]
  note r5 = power_run_reaches [OF plain_check run_ed_75445702479781427272750846543864801_1_5 r4]
  show ?thesis by (rule trans [OF r5 [symmetric]]) (simp)
qed

lemma run_ed_75445702479781427272750846543864801_2_1: "power_run (plain_check 75445702479781427272750846543864801) 71619851993489548214160924360205394
    [(False, 67988010330263269067922325179940407, 51056204657489772041116137221781229),
     (False, 34551153324154616985334593267633262, 13951853596421950726214703758139579),
     (False, 2580057079171039495928858024304704, 35261914322948434709510380241973337),
     (False, 16480761141460289727668294203528701, 37485275404151767223984579351762068),
     (False, 18624597902069613876171602361296519, 57575197198851367167852561075708905),
     (True, 54655559778010766769070578118546292, 23739893640320932589451844446965678),
     (False, 7470041785412281684201223727910734, 26508896365579226505681167817325750),
     (True, 25164630612622768263349764691515861, 59788653760271311643496435673986839),
     (False, 47380871288508161819493125980725737, 2683185080928689377997354356128584),
     (False, 95426007603914550887337870743379, 15556513880931118342720794799942477),
     (False, 3207672752367268766232740050698849, 1906723278238448740107129086581480),
     (True, 1810033368256796081910674565978638, 24027121615475986737898980790382082),
     (False, 7651894728922217680728027550229153, 15570070845864898647515221745911171),
     (False, 3213265940630875980901621903064436, 35490902368935763720850820247274005),
     (False, 16695505635975614383821430760322340, 71225545284952067071315005408785685),
     (True, 67613698909237499392342739925019296, 60845016720791880915516928386784794)]
    (71619851993489548214160924360205394, 1) = Some (60845016720791880915516928386784794, 4297)"
  by (simp only: power_simps plain_check_def)

lemma run_ed_75445702479781427272750846543864801_2_2: "power_run (plain_check 75445702479781427272750846543864801) 71619851993489548214160924360205394
    [(False, 49069939546862430168773858520570419, 546730874024282786471481533700817),
     (True, 519006159275723840669080381383083, 51448874253935273337073202525045415),
     (False, 35084657906215473785533046916613758, 59116226209310465544643274723990067),
     (True, 56118443229541113354182877393792580, 14175045737452954602041911178844818),
     (False, 2663265302788195269134712883804307, 62831322705832911536883777375955217),
     (False, 52326043541346471006919677957226584, 18326631674000506038090356570447305),
     (True, 17397288445725085271219393321004493, 65409327487932319416748364548212277),
     (False, 56708069271011622299532114610254614, 64820228362378081279947594451082915),
     (True, 61533195515567304399942663595016683, 69103880862339073615740484232768427),
     (False, 63295140654513620217666064754494181, 30172279106774597693995259002831348),
     (True, 28642243267766762386377816059480382, 56200733895971007254185390702057130),
     (False, 41864843014646087825050194395870114, 11026450965707093985807955011379586),
     (True, 10467299796022786472381353009119373, 69819678745693193244550705276797111),
     (False, 64613190412776504053511450070447530, 53027031496944396800747388773554791),
     (True, 50338031493351518197960458979814161, 25215644291399741508380866583495693),
     (False, 8427633332737475530896687727239913, 44047006276265222831636624186547936)]
    (60845016720791880915516928386784794, 4297) = Some (44047006276265222831636624186547936, 2200510)"
  by (simp only: power_simps plain_check_def)

lemma run_ed_75445702479781427272750846543864801_2_3: "power_run (plain_check 75445702479781427272750846543864801) 71619851993489548214160924360205394
    [(False, 25715696164685889229713088986361499, 71501487333952744710475318058163397),
     (True, 67875647940907063454766441440739668, 23351143266784530224509728503137350),
     (False, 7227394986639883342071306481617787, 55205961919816033563095923080207113),
     (False, 40395915623012798589650209732278634, 86352329535642751355432418832935),
     (True, 81973404148409316387331415552476, 36503707530934314504062838707054114),
     (False, 17661982322466818594336118046378821, 17108321268974272912117691870545375),
     (True, 16240758543793421166415094934989319, 45377409342108268220098945881692231),
     (False, 27292598662635186233761206685830607, 39061690202264080065321125609993154),
     (True, 37080872454616173067945564884014372, 66031578432175701317549593864952704),
     (False, 57792149942709407947597181211892682, 521744192063408322366199827625334),
     (True, 495286551597263945163249828779315, 39092680272830606182248295292460281),
     (False, 20256125938032178748209943855618432, 46984322858141848818024242710986929),
     (True, 44601748522604461598880303132914228, 69267198341018834295186109728006398),
     (False, 63594672835074149754031405149616198, 64652575437252887746194182777287806),
     (True, 61374044267860919040890862269364491, 68087878841517656881237999117444273),
     (False, 61447625149750194178523581826181891, 68361983583491010255019194521979838)]
    (44047006276265222831636624186547936, 2200510) = Some (68361983583491010255019194521979838, 1126661502)"
  by (simp only: power_simps plain_check_def)

lemma run_ed_75445702479781427272750846543864801_2_4: "power_run (plain_check 75445702479781427272750846543864801) 71619851993489548214160924360205394
    [(True, 64895348380420736629498858151698339, 31387673001528115338357262254580633),
     (False, 13058212516675491073224455182629754, 6658171668561843290518756882791735),
     (False, 587591453335859135450061230602065, 46491967353147011183168370192896160),
     (False, 28649783318610430229780890982115387, 47756317016910210228669047032952613),
     (False, 30229234271240561280770207651357279, 35581468924661256216283358780291290),
     (True, 33777133147883569717034814354936963, 5517373039295944566509710799678897),
     (False, 403487597758238277461913986258735, 31075652390394802723310544661849874),
     (True, 29499806505183637719807447429352336, 73437708186085318258840880855495220),
     (False, 71483156844750832173990938039689233, 51140506097582302122459238635460767),
     (True, 48547171769824116353195115484691597, 1)]
    (68361983583491010255019194521979838, 1126661502) = Some (1, 72106336199)"
  by (simp only: power_simps plain_check_def)

lemma power_ed_75445702479781427272750846543864801_2: "(71619851993489548214160924360205394 :: nat) ^ 72106336199 mod 75445702479781427272750846543864801 = 1"
proof -
  note r1 = power_run_reaches [OF plain_check run_ed_75445702479781427272750846543864801_2_1 power_start]
  note r2 = power_run_reaches [OF plain_check run_ed_75445702479781427272750846543864801_2_2 r1]
  note r3 = power_run_reaches [OF plain_check run_ed_75445702479781427272750846543864801_2_3 r2]
  note r4 = power_run_reaches [OF plain_check run_ed_75445702479781427272750846543864801_2_4 r3]
  show ?thesis by (rule trans [OF r4 [symmetric]]) (simp)
qed

lemma prime_ed_75445702479781427272750846543864801: "prime_nat 75445702479781427272750846543864801"
proof (rule pocklington [where certs =
    "[(1919519569386763 :: nat, 56747016255153332959347766392083459 :: nat, 74602835786463724888147869570305675 :: nat),
       (72106336199 :: nat, 71619851993489548214160924360205394 :: nat, 55965016733432503242248684386325671 :: nat)]"])
  have b: "(56747016255153332959347766392083459 :: nat) - 1 = 56747016255153332959347766392083458" by simp
  have "56747016255153332959347766392083458 * 74602835786463724888147869570305675 = 56113048138023733339996598108928949 * 75445702479781427272750846543864801 + (1::nat)"
    by (simp only: hex_simps)
  then have c1: "(56747016255153332959347766392083459 - 1) * 74602835786463724888147869570305675 mod 75445702479781427272750846543864801 = (1::nat)"
    unfolding b by (rule mod_one_by) simp
  have b: "(71619851993489548214160924360205394 :: nat) - 1 = 71619851993489548214160924360205393" by simp
  have "71619851993489548214160924360205393 * 55965016733432503242248684386325671 = 53127031540805846987153763991134102 * 75445702479781427272750846543864801 + (1::nat)"
    by (simp only: hex_simps)
  then have c2: "(71619851993489548214160924360205394 - 1) * 55965016733432503242248684386325671 mod 75445702479781427272750846543864801 = (1::nat)"
    unfolding b by (rule mod_one_by) simp
  show "\<forall>(r, b, c) \<in> set [(1919519569386763 :: nat, 56747016255153332959347766392083459 :: nat, 74602835786463724888147869570305675 :: nat),
       (72106336199 :: nat, 71619851993489548214160924360205394 :: nat, 55965016733432503242248684386325671 :: nat)].
      prime_nat r \<and> b ^ r mod 75445702479781427272750846543864801 = 1 \<and> (b - 1) * c mod 75445702479781427272750846543864801 = 1"
    using prime_ed_1919519569386763 power_ed_75445702479781427272750846543864801_1 c1 prime_ed_72106336199 power_ed_75445702479781427272750846543864801_2 c2 by (simp only: list.set ball_simps prod.case simp_thms)
qed (simp_all)

lemma prime_ed_1723: "prime_nat 1723"
  by (rule prime_nat_by_trial [where m = 42]) (simp_all add: upt_rec_numeral)

lemma run_ed_430751_1_1: "power_run (plain_check 430751) 293176
    [(False, 199540, 112436),
     (True, 76525, 316461),
     (False, 232495, 110776),
     (False, 28488, 87688),
     (True, 59681, 366657),
     (False, 312099, 399300),
     (False, 370145, 161105),
     (True, 109650, 272330),
     (False, 172172, 367728),
     (True, 250281, 233097),
     (False, 126138, 141771),
     (True, 96491, 259955),
     (False, 156880, 385145),
     (False, 344367, 241408),
     (True, 164306, 58002),
     (False, 7810, 66694)]
    (293176, 1) = Some (66694, 1722)"
  by (simp only: power_simps plain_check_def)

lemma run_ed_430751_1_2: "power_run (plain_check 430751) 293176
    [(True, 45393, 1)]
    (66694, 1722) = Some (1, 1723)"
  by (simp only: power_simps plain_check_def)

lemma power_ed_430751_1: "(293176 :: nat) ^ 1723 mod 430751 = 1"
proof -
  note r1 = power_run_reaches [OF plain_check run_ed_430751_1_1 power_start]
  note r2 = power_run_reaches [OF plain_check run_ed_430751_1_2 r1]
  show ?thesis by (rule trans [OF r2 [symmetric]]) (simp)
qed

lemma prime_ed_430751: "prime_nat 430751"
proof (rule pocklington [where certs =
    "[(1723 :: nat, 293176 :: nat, 198753 :: nat)]"])
  have b: "(293176 :: nat) - 1 = 293175" by simp
  have "293175 * 198753 = 135274 * 430751 + (1::nat)"
    by (simp only: hex_simps)
  then have c1: "(293176 - 1) * 198753 mod 430751 = (1::nat)"
    unfolding b by (rule mod_one_by) simp
  show "\<forall>(r, b, c) \<in> set [(1723 :: nat, 293176 :: nat, 198753 :: nat)].
      prime_nat r \<and> b ^ r mod 430751 = 1 \<and> (b - 1) * c mod 430751 = 1"
    using prime_ed_1723 power_ed_430751_1 c1 by (simp only: list.set ball_simps prod.case simp_thms)
qed (simp_all)

lemma prime_ed_173: "prime_nat 173"
  by (rule prime_nat_by_trial [where m = 14]) (simp_all add: upt_rec_numeral)

lemma run_ed_4153_1_1: "power_run (plain_check 4153) 3249
    [(False, 2541, 3228),
     (False, 2509, 107),
     (True, 83, 2944),
     (False, 2086, 3978),
     (False, 3810, 1554),
     (True, 1215, 3051),
     (False, 2241, 1728),
     (True, 1351, 3569),
     (False, 3067, 510),
     (False, 62, 2614),
     (True, 2045, 1)]
    (3249, 1) = Some (1, 173)"
  by (simp only: power_simps plain_check_def)

lemma power_ed_4153_1: "(3249 :: nat) ^ 173 mod 4153 = 1"
proof -
  note r1 = power_run_reaches [OF plain_check run_ed_4153_1_1 power_start]
  show ?thesis by (rule trans [OF r1 [symmetric]]) (simp)
qed

lemma prime_ed_4153: "prime_nat 4153"
proof (rule pocklington [where certs =
    "[(173 :: nat, 3249 :: nat, 3405 :: nat)]"])
  have b: "(3249 :: nat) - 1 = 3248" by simp
  have "3248 * 3405 = 2663 * 4153 + (1::nat)"
    by (simp only: hex_simps)
  then have c1: "(3249 - 1) * 3405 mod 4153 = (1::nat)"
    unfolding b by (rule mod_one_by) simp
  show "\<forall>(r, b, c) \<in> set [(173 :: nat, 3249 :: nat, 3405 :: nat)].
      prime_nat r \<and> b ^ r mod 4153 = 1 \<and> (b - 1) * c mod 4153 = 1"
    using prime_ed_173 power_ed_4153_1 c1 by (simp only: list.set ball_simps prod.case simp_thms)
qed (simp_all)

lemma run_ed_31757755568855353_1_1: "power_run (plain_check 31757755568855353) 15280470251845350
    [(False, 7352307080117327, 12509653984621069),
     (True, 6019109101033069, 7744443609010793),
     (False, 1888559368848050, 5885479304377199),
     (False, 1090721495325773, 12864275821172732),
     (True, 6189737923096194, 21118981810169718),
     (False, 14044172351262763, 30362203922079185),
     (False, 29027977906284623, 8062028275127306),
     (False, 2046627626692034, 7503051283459634),
     (True, 3610146557315648, 9005053060138156),
     (False, 2553422909250835, 25945538097610581),
     (False, 21197056754059060, 1201380764009381),
     (False, 45447661973543, 23130944776077482),
     (True, 11129618803872828, 8124789742360416),
     (False, 2078616929160536, 10057362543743848),
     (False, 3185065805957001, 13206669931170751),
     (True, 6354483287449421, 16058647842757237)]
    (15280470251845350, 1) = Some (16058647842757237, 3365)"
  by (simp only: power_simps plain_check_def)

lemma run_ed_31757755568855353_1_2: "power_run (plain_check 31757755568855353) 15280470251845350
    [(False, 8120226568863488, 29976180240822905),
     (False, 28294549338729885, 3734191269314620),
     (False, 439079657427066, 26957581844560102),
     (True, 12970832480411774, 29448949200099478),
     (False, 27307994329439877, 30145390572760903),
     (True, 14504669351667755, 26266813173108535),
     (False, 21725259292177864, 60785925340233),
     (True, 29247580858743, 30056133556565271),
     (False, 28445686673652082, 17015325978008495),
     (True, 8187045267373769, 18960811978812793),
     (False, 11320459662724478, 20596445866030115),
     (True, 9910126604106233, 1)]
    (16058647842757237, 3365) = Some (1, 430751)"
  by (simp only: power_simps plain_check_def)

lemma power_ed_31757755568855353_1: "(15280470251845350 :: nat) ^ 430751 mod 31757755568855353 = 1"
proof -
  note r1 = power_run_reaches [OF plain_check run_ed_31757755568855353_1_1 power_start]
  note r2 = power_run_reaches [OF plain_check run_ed_31757755568855353_1_2 r1]
  show ?thesis by (rule trans [OF r2 [symmetric]]) (simp)
qed

lemma run_ed_31757755568855353_2_1: "power_run (plain_check 31757755568855353) 28256283979054930
    [(False, 25140869372015691, 15520356731960977),
     (False, 7584965271398381, 29913774023411036),
     (False, 28176861377485356, 3310526166882628),
     (False, 345099434934960, 24239640325345504),
     (False, 18501312595224227, 12556808208776885),
     (False, 4964879588236266, 14642481967471327),
     (False, 6751178549216685, 2362482347976124),
     (True, 2102005350320916, 9542818390027972),
     (False, 2867500589820124, 3220556097909012),
     (True, 2865471631825209, 9442566590035383),
     (False, 2807568173825645, 9547181545029004),
     (True, 8494550956254973, 6635270135269251),
     (False, 1386332534506086, 15974536033922643),
     (False, 8035385276072601, 12306004812622296),
     (False, 4768528245642057, 28118145909930495),
     (True, 25017961803782933, 1)]
    (28256283979054930, 1) = Some (1, 4153)"
  by (simp only: power_simps plain_check_def)

lemma power_ed_31757755568855353_2: "(28256283979054930 :: nat) ^ 4153 mod 31757755568855353 = 1"
proof -
  note r1 = power_run_reaches [OF plain_check run_ed_31757755568855353_2_1 power_start]
  show ?thesis by (rule trans [OF r1 [symmetric]]) (simp)
qed

lemma prime_ed_31757755568855353: "prime_nat 31757755568855353"
proof (rule pocklington [where certs =
    "[(430751 :: nat, 15280470251845350 :: nat, 15419847897348699 :: nat),
       (4153 :: nat, 28256283979054930 :: nat, 25117532289192573 :: nat)]"])
  have b: "(15280470251845350 :: nat) - 1 = 15280470251845349" by simp
  have "15280470251845349 * 15419847897348699 = 7419369626816150 * 31757755568855353 + (1::nat)"
    by (simp only: hex_simps)
  then have c1: "(15280470251845350 - 1) * 15419847897348699 mod 31757755568855353 = (1::nat)"
    unfolding b by (rule mod_one_by) simp
  have b: "(28256283979054930 :: nat) - 1 = 28256283979054929" by simp
  have "28256283979054929 * 25117532289192573 = 22348182751067372 * 31757755568855353 + (1::nat)"
    by (simp only: hex_simps)
  then have c2: "(28256283979054930 - 1) * 25117532289192573 mod 31757755568855353 = (1::nat)"
    unfolding b by (rule mod_one_by) simp
  show "\<forall>(r, b, c) \<in> set [(430751 :: nat, 15280470251845350 :: nat, 15419847897348699 :: nat),
       (4153 :: nat, 28256283979054930 :: nat, 25117532289192573 :: nat)].
      prime_nat r \<and> b ^ r mod 31757755568855353 = 1 \<and> (b - 1) * c mod 31757755568855353 = 1"
    using prime_ed_430751 power_ed_31757755568855353_1 c1 prime_ed_4153 power_ed_31757755568855353_2 c2 by (simp only: list.set ball_simps prod.case simp_thms)
qed (simp_all)

lemma run_ed_74058212732561358302231226437062788676166966415465897661863160754340907_1_1: "power_run (plain_check 74058212732561358302231226437062788676166966415465897661863160754340907) 69490809710348678725736597923071784769591275419387514694139338586948360
    [(False, 65205092805010724058509481693911802619497405283393978071762564183930444, 71519616562801892103388382173053960292737390607941439804484891354816892),
     (True, 67108776754716563558359131737122969815423170650741816270466108813239670, 60088572800817055067699822372808465038996750913542726491088342583516430),
     (False, 48754033455787053227143250412045333334252480844947036772933228974055733, 17118629486375297366263869992172513952431928154535165163185382980175069),
     (True, 16062869737830452286135292225366587270596661777555495181428833768230351, 12146079979694244760788242387473291469587429348895797694501720504168483),
     (False, 1992044547522082840579823863848383951479760126893298429157976816839057, 2395651831899443575619999089234687095966297154770387525027912120116590),
     (False, 77495087822445039079237264852361491862349524716315893842090587760477, 15296828644126313145744974961239940055169617679615894943873433874295461),
     (True, 14353425086282504865737892801806681191071694404662773140019397762072761, 43721059054021941007937620727309150161093363790991491324210488256659733),
     (False, 25811195467384353434457944471153312082667498091259637099023528689681779, 54145366084523822447349556193522347720892246474823042548156911831397736),
     (False, 39586705650244590695114303733652350290825800877551089867879372803562923, 11284178899928758595452112261148706928403038374904792524681719258534535),
     (False, 1719359524721729166941880383596714815496190213261955054039419103370057, 65005703843471046884297048267651581560333448911250758560582020233644526),
     (False, 57059728776402460545016788136365993048673996778021577359657008303012132, 19725819712346748675443769062338017613349506663441072692576982044880952),
     (False, 5254082551642884870011616403604822228042039257669484825247234726285907, 12430649277858096617397832310638085779599167596201800559753500024728655),
     (True, 11664012020694149654050661273693827585045177861513306420757057816684433, 16488791084382246799063329195349597831915365803818537886827378575255069),
     (False, 3671169224758582565215260573731736558182603699177323017635958900429533, 9293335252714972421011222278431605344465301221926876074407541797388330),
     (True, 8720186023837842309767968243216656650878169910138828063952753679830250, 60520719854243219452359807267076029475540889845657328400153334185602050),
     (False, 49457816986520061052599828384610406585150744543594384139565917418218757, 62649038190508363808868157521511367298565452286601008433079165484409901)]
    (69490809710348678725736597923071784769591275419387514694139338586948360, 1) = Some (62649038190508363808868157521511367298565452286601008433079165484409901, 3718)"
  by (simp only: power_simps plain_check_def)

lemma run_ed_74058212732561358302231226437062788676166966415465897661863160754340907_1_2: "power_run (plain_check 74058212732561358302231226437062788676166966415465897661863160754340907) 69490809710348678725736597923071784769591275419387514694139338586948360
    [(True, 58785274864172564978238097271020834217664697322979236184322714387021570, 15459224745017810788352643921931952037489605334639773072259534817348370),
     (False, 3227023997730027750792216689738321783827199670966315820861771213203059, 28359251969016250589659298495829548329463671157755749961776992040422387),
     (True, 26610247660490374552054940016104018364878402077384779744687697381681945, 28898954463404599452705114139140607843227380482184701809133096180111205),
     (False, 11276933891097541106464235840547451075223872140517113775716415003063673, 61679951769401270256133154634072863207601360989907571523135267296980614),
     (True, 57875955052131959558502596530324751273525002035917155990402107957411303, 44386420042930672904774800204028633739195555525872125164314896662021219),
     (False, 26602779239921558788100578704185384953606828239746201324354901174354861, 59228798659852483538777554761405857106818981195051448333249571419647034),
     (False, 47368825971504306033897494700467706248979121775547851107423351671733895, 49988289520951304755462861377473370203768246459590314323104548528054391),
     (False, 33741417690624116755479172582783739043935572728498516834502474980944029, 37661333353264301021608172432500049613005408045974469237840209302286578),
     (False, 19152177423829149052695310406872935094047919710772752700298999907421803, 70980303981236952471606078841106998093533045672561211122371820332354763),
     (False, 68030315171967995624612023372973203793377214663234964543718524123344646, 52247318512001495963789877266779596816089994955878048767870468351552247),
     (True, 49025061969894815286382672160878370128335376781274009396112150831644401, 15504786470342720572006793299412239246961055792330727722137379079153213),
     (False, 3246073522717165390452652653399498760296061110700142160580998009540588, 70800302450674573892742726391040867568412593492343041149342563322990053),
     (False, 67685711579467504042020316749784514532869345476316547024711972559743930, 39666023434882669378100004012145365570174821715713642686279104492998299),
     (True, 37219694950425653862102296185332327637520676949714989786509485013580225, 3813330949319903746706357158824799547867432834979888866162030837075565),
     (False, 196352199067417461586538443491426526047572085524668185936767153628965, 54457054016747637761234044828742479419451705898635219166543719720497970),
     (False, 40043779383283579835539427345705655331709482317719760620099548571901320, 25086861342753132844123559195358833963996130658705733667228388330823660)]
    (62649038190508363808868157521511367298565452286601008433079165484409901, 3718) = Some (25086861342753132844123559195358833963996130658705733667228388330823660, 7618068)"
  by (simp only: power_simps plain_check_def)

lemma run_ed_74058212732561358302231226437062788676166966415465897661863160754340907_1_3: "power_run (plain_check 74058212732561358302231226437062788676166966415465897661863160754340907) 69490809710348678725736597923071784769591275419387514694139338586948360
    [(True, 23539675661558012232298456547767905733907991314407689878651609924483279, 43016147267044533255360330744923395071930668403343685849810606499003547),
     (False, 24985600616398588476382660049299169997743606881761720902256868822427871, 45548416654163662946989229590980918867446862091683458246820881766362212),
     (False, 28013885066242269479414017535318597878811308220692180015997314870649215, 50362897778357678881159979551316732957488773334104321548699067459594939),
     (False, 34249023559248143987794474991313829488921458333334835164171686982698733, 8058115798895833518575096545522646825460154682346841652045998395442890),
     (True, 7561146440667794974608053673946236214971220586135317968429200450155468, 30138998045167067039545138789380605446470916367358942309560691737030924),
     (False, 12265475625868077988065236866554469718489044089065477196321414362409142, 44458325802544415260310141788221946128684192994289115076160292050921982),
     (False, 26689041771813581363380054609209693809111114489788329739337277570061037, 34956416377924708812584833391066731331428334105073926156463017554867765),
     (False, 16499872207280321900179574448284649955831219928363297244469708580385072, 27063767240421245371670393497775576037049557763079395928471369014354921),
     (False, 9890158973842764382112685306967015267831400813015361299506339412315039, 54582386480431125853757461786824306985761364127501348953120948267915868),
     (True, 51216118948826337561448492802124399820274916464456518651862656646570861, 24627844351702883214247671479365326121165235476687372841128841614065553),
     (False, 8189918376804531515019646162821105934229566551986171142858254659619616, 27691236453781807718351382395639427352850495292916169326783651972764097),
     (True, 25983430764161101014843601966375779213667230034178689103714190041938609, 33462177856732312977482458949185793226312159699037618458221659049652557),
     (False, 15119421676554684452994739473067336927314888216892096428379405400378566, 61392593880810527463924959528173778757311164427099980987858676796838887),
     (True, 57606319428775264901460797103922311334590154155581923553275258987235413, 60522204641388360257719954407151554074121441222322640975335301043935729),
     (False, 49460243766368912895369284531014703936433329475250143928248516387071258, 66494777883818425524571068794604990268042630633811135201786230449410435),
     (False, 59703783316854360543473686271218222885712683409227846422244892485008601, 25146831207668739255478987090142306662060850434388965546291807105748118)]
    (25086861342753132844123559195358833963996130658705733667228388330823660, 7618068) = Some (25146831207668739255478987090142306662060850434388965546291807105748118, 15601805596)"
  by (simp only: power_simps plain_check_def)

lemma run_ed_74058212732561358302231226437062788676166966415465897661863160754340907_1_4: "power_run (plain_check 74058212732561358302231226437062788676166966415465897661863160754340907) 69490809710348678725736597923071784769591275419387514694139338586948360
    [(True, 23595946996193845935960268753943988643992004739927462772895180512696304, 4418043689444550588193089361604960770901480851736057515784393458278752),
     (False, 263564422116533214393332283404658758901866257377273961427067469841220, 71625999902448688497403920367029378508867208824599201403249065493890964),
     (True, 67208599099045115917747962944181933971886561148223622861679083926670477, 70026358427040506751005012594322903354664875418879215560212674228316401),
     (False, 66214005086249253360918057493976021345058515020597983734481941087258877, 16005818535721617859440829226313588989063628183447169412506179545611362),
     (True, 15018689340246172964656092481139191702453203241408251988468295986589023, 5233083480857771156401381539959552528946055228533057878759786677202459),
     (False, 369778876740107772530320027032034935752067621280820209089429776356115, 17512010692912870619326190286180936219043663164820941696798039531550376),
     (True, 16431989887486870082753651452953517014627514238468363765682353232225426, 58761858112128581606698526888167103783755522459499880568752279973281978),
     (False, 46624889278103816124299780701435866171754795843127711460850521153151417, 9115332237757384932281554698061847565289252530121841209344886891477265),
     (False, 1121945544442864793568882036408278439350928599833624924415931836106136, 2692730915697347831801620319815693350728736276079617885917056033374873),
     (True, 2526661726763840876788438902282405926214657634834609147754987782055538, 55772034321670566900961724857498522248902638185328895211401788113265314),
     (False, 42001011064232579314635855604726054825791334143320717714621909947461369, 26404091923647375740408567288368687304206602728147916432685523916596913),
     (True, 24775668487527579274730279228878205837523061080061206676130742974624860, 28155963719885292663869233263185011440794308128056499501030933989264660),
     (False, 10704529096027493516037434422122975800621396136341392691888139893058473, 72017606064911330134260248507632559368591235682826466152072835998060589),
     (True, 67576053677180330616629943233089163057864940632717198085502128324908644, 39029411345767429855283388972154723937832219281437205361763690687083932),
     (False, 20568886201696959215637305926335050245365419721114267411974152033892708, 32876229480256621926417853433990232096703252779879402308502689519174468),
     (False, 14594552379243094315235564341915492122223041191843309119298066224582439, 7963069614644238283459393797668488914944186349773571909586209491550851)]
    (25146831207668739255478987090142306662060850434388965546291807105748118, 15601805596) = Some (7963069614644238283459393797668488914944186349773571909586209491550851, 7988124466140)"
  by (simp only: power_simps plain_check_def)

lemma run_ed_74058212732561358302231226437062788676166966415465897661863160754340907_1_5: "power_run (plain_check 74058212732561358302231226437062788676166966415465897661863160754340907) 69490809710348678725736597923071784769591275419387514694139338586948360
    [(False, 856224790580052648252299607152212072189013623184275505554596131482877, 31505606371679734915597632626915222924733724867874634384297152427674762),
     (False, 13403013605414843918867045137427116402619455850082241461207262329311297, 521996684128122800450994722304361214880888938588269984063213587430265),
     (False, 3679275102475609907240638876579281944543892446948478182562086072149, 63622491301712469240719337677697986037203019750541906203034889293871082),
     (False, 54657292555168066080301140898266457306844266982155826042111064728784748, 56259855649652985023487455234066437022742588223661817081389133021764288),
     (False, 42738964943021804069947805343069192078977057644627253621634363969057860, 59900081992770125190464991667576853121166246648803135680613466184267924),
     (True, 56205855445438440236647810987738117080710262840673622649599182826979733, 39592860730417117421109109325925042521510364406505185451266831930566809),
     (False, 21167059843573265940468394185102077516431699487291598051644216090572862, 19025033299264162242865288013985535389942198835586416267748497141776647),
     (False, 4887397071614313035138393844401345559971169193937482126138499577974131, 19805125702327730363595856493154502132147759524759545386817652433485792),
     (True, 18583681278401715142462043954640822404743085539767961164081728777971741, 5906885040421737832385902041286875095156901290711012408705425971392033),
     (False, 471133309775613513804156902465727190351247947935434179165677761001309, 60688311841524180538260234487814259969280552838343943316980635116625826),
     (False, 49732110164126861449830064672323737440126069532694360385137330888591845, 24321529933764802597704879003681229446450917915474982795370914980078861),
     (True, 22821544648871855760513227236970689698521603379489326161688890430263565, 28309188993743864354119995794692672907098942770400917878836700263464505),
     (False, 10821354606241405317794069652878288959864772123749136179126587037146337, 67241748145528839015290775908505659537711352443657857229420214850587366),
     (True, 63094737944137360166187736190325576317940489773958894676842222411024999, 60542823618953760195985956460082226097793212992085384377238442965085667),
     (False, 49493950184732922062618604491832068055065704410839160204936910378105841, 26143839111559215195727422264990294832303013692299729171496339606897102),
     (False, 9229230604839820148052983257870110306586399473899350493420252141743732, 71767012575208267561789999981739833886720218061578490749258469057553480)]
    (7963069614644238283459393797668488914944186349773571909586209491550851, 7988124466140) = Some (71767012575208267561789999981739833886720218061578490749258469057553480, 32719357813309612)"
  by (simp only: power_simps plain_check_def)

lemma run_ed_74058212732561358302231226437062788676166966415465897661863160754340907_1_6: "power_run (plain_check 74058212732561358302231226437062788676166966415465897661863160754340907) 69490809710348678725736597923071784769591275419387514694139338586948360
    [(True, 67340915076543384513009003184130505597310359112906807477410026726079663, 15089693157574510382182701161636976077402364812960693399877747156618459),
     (False, 3074592691184918147012371785573497143633698834739218891079059484857158, 25395140090164848658330976235476322931644535928932287388579706368372375),
     (False, 8708192061399118207022194496784019117026021617358432798585932307902202, 12668898356788410963166880372496557892454171381630445606479836339163411),
     (False, 2167227369559085140387686768707649366183382497312460294858956601574189, 55439294398990933576200016024163585161698407644495546410110660003105498),
     (False, 41501344011055878027643310336518411140250074860301155159649017640292832, 48158632485780896101307869594086028138883932934278980787520389481349380),
     (False, 31316633190646780728872806054252730655893188300041124740030491933550437, 29245472480340452644908188353001949927634830624785091451703325249558041),
     (True, 27441812164163053134291350223640052757847712613260698417090983914692235, 5262655384154029339887369427438655103143598368955218141797589714005615),
     (False, 373969890312900118544229126412572430169734908288163451271111946862383, 53527649568209001782109899888253346421370061626086870202323502455126844),
     (False, 38688609440843711594316916478688868534955272662912979965440702112866707, 57887333527408384065663007883632062389954849944151095831365012000917087),
     (True, 54317239511560344076899158100271338562567700196816271730110459001874524, 28741354823994296104102599167852568318234805925763761286590825576274052),
     (False, 11154272384371786707675360186922517067854776095864250549691304733472193, 10394975247490756072048067907818780794211548523699109495866895681599653),
     (True, 9753884413545468491735223752452997229226578631209222447755767141750354, 70306694236446224497553090461427935672663011880187344383308312900988002),
     (False, 66745213961716712285034807504196165748305986619441218882659596756894301, 28443812409077481838139535916947888052106385153367323533823562228480997),
     (True, 26689592992122105573968516746931357266504905926683550465438161709441499, 6058161326686104506509767362518466438300810243177755962935241661215327),
     (False, 495573918218776861380724171170418784838998889059210415490969498773328, 64626547237750622114558381112777726342050614913402680176672835028788433),
     (True, 60640824705736395538887086456924856282947218605859274906178996780823542, 8561294054536115214763048862812563300850391688772331354866046657087286)]
    (71767012575208267561789999981739833886720218061578490749258469057553480, 32719357813309612) = Some (8561294054536115214763048862812563300850391688772331354866046657087286, 33504622400829043759)"
  by (simp only: power_simps plain_check_def)

lemma run_ed_74058212732561358302231226437062788676166966415465897661863160754340907_1_7: "power_run (plain_check 74058212732561358302231226437062788676166966415465897661863160754340907) 69490809710348678725736597923071784769591275419387514694139338586948360
    [(False, 989704628073063231095820929019139151043285892299353321348922055185932, 36781484586013188291994815198667327962455988113257514883499633424325472),
     (False, 18267759353532207287850845191533534497452139509581697424459241542928740, 19477574820838436447262613960184437708484853736358682987912313020055604),
     (False, 5122671840209806959243918648614486318311731927635657571519742729909160, 17122525010930080973339902285721003814245309361381338023074399469796696),
     (True, 16066525013127683941679139187632153290609120369601453348169778737255281, 33534202839170675392774773078084590756052566323445909790810864890538693),
     (False, 15184578705937526338526358130788060576123757098324868410199272675449356, 51616557159329087214336911584915183548063457314543452683716923892542357),
     (False, 35975334465651789807785177244734236811536386770838770066952163788661616, 7399279194160524617355845866512131580960267693093438452628761309589737),
     (False, 739274289414022646774464145240794244789092288023062619159609308135695, 33616883812961096930177594836185426618247826163348996184336596610353804),
     (True, 31543624804143795401372149552915992081545793673204590011312017661732400, 5933479754957687115263889334557200918118611157100847521435238470274640),
     (False, 475385250379037911428009816078093438984740553851885802262762110947451, 14336279935129974174054975263115676965375905441394529752784382210451543),
     (True, 13452116438780701927195980153696448685219192449278152595987828510904498, 51968074544915443050853184026991512074198152344691996686766403611619794),
     (False, 36466999030324605872082704842055594744717493798636621540665652048406948, 63824172049869067758371739205746588224430630807102992312863351353180600),
     (False, 55004364641658049268359706502261789168972459018865883579382640152360359, 23264100614034235473877808345694419852854765562465094234057164817454387),
     (True, 21829330322759278034277462956182953248690603805369642106925978877366230, 11741091190541849402442408807575640090437838923264796719928274115084710),
     (False, 1861417083375131924960273513537136971098806446276249139986536237447695, 37717593148442807394054486163438144220104385097918398820864708864424735),
     (True, 35391430490981821719144748504152791201964658868197925618944096232753167, 59228104365960871589726723090521178529080881482093050408438963449782131),
     (False, 47367715441001941765585224182725185753889923557605212507899915190210918, 13507632358020618231333936115789662806170749353786151581656609961478535)]
    (8561294054536115214763048862812563300850391688772331354866046657087286, 33504622400829043759) = Some (13507632358020618231333936115789662806170749353786151581656609961478535, 68617466676897881618742)"
  by (simp only: power_simps plain_check_def)

lemma run_ed_74058212732561358302231226437062788676166966415465897661863160754340907_1_8: "power_run (plain_check 74058212732561358302231226437062788676166966415465897661863160754340907) 69490809710348678725736597923071784769591275419387514694139338586948360
    [(True, 12674574165301964505604330386436462672418603274578541889088401142548999, 58629963836264783547180002017400022820953712434667027232132231095850507),
     (False, 46415819834257952514320518238710910999477737200338844505459032051911712, 39058923809251392743187118949778949161721885674917556639258481778154265),
     (True, 36650037069100384833547429129123105587514032731558891090824558060714992, 9609591384533456727184507870268536842446415018177214894865471534977656),
     (False, 1246914328207901965502055734768863998105084011736624059396702840171716, 5518158153721761316414653698950850966518108126749063920385876136067924),
     (False, 411163978793913020809755564137080449168040554734500982072209574661681, 39134881298050836457439882271746409895979812372998356443380991277985109),
     (False, 20680203824837290405677642799755814983843657334489347001551863326444898, 2357229829368336086363968184068480706041449792849514555233597382899395),
     (False, 75029254196689794430275267164123708730657508367121999897084790701015, 70048830873628163489751038714850340948888408567514897645778867870445420),
     (False, 66256509922562041776007394466599533436829780029580822964288723670445917, 21096274322495181654056228316694004908583996016909017325399247074749681),
     (True, 19795200700236032567627679408872024934274778346093238382124088317352464, 16367628016440380218608147792250637123016603750901998476124299141028312),
     (False, 3617414423056635936164762571874875245632601679595711958371020546856789, 58209009056363856163919647922998448463607661507289528083370734572201721),
     (True, 54619076298411294535919018338255534466571299997354744143184092305831927, 72673651261861536175686475248798047186166162359656255055487502527389771),
     (False, 71314974975200237269576219547222593489964896670541065193354625386437375, 5973398739388142478790041290713061660658390566777000578168659599233316),
     (True, 5605000442312209084657542412497824648948151226264505795909561492386768, 43477568222200666162815720758861920635987876099241236114146871915643184),
     (False, 25524501183175336964893809329725528581276922837225211827632694692920017, 70726800137517028945052418957015574868200704304142002994171876303422437),
     (False, 67545246814914206555510569272041410566927562837474306531880467245350535, 13425488488152914968327258939250946223593136639521399437396685170183724),
     (False, 2433811652954976446060677822264118504712033849679919066133967844411249, 20859651830738554837844317495110081143063745965334709576123523462845333)]
    (13507632358020618231333936115789662806170749353786151581656609961478535, 68617466676897881618742) = Some (20859651830738554837844317495110081143063745965334709576123523462845333, 140528571754286861555186744)"
  by (simp only: power_simps plain_check_def)

lemma run_ed_74058212732561358302231226437062788676166966415465897661863160754340907_1_9: "power_run (plain_check 74058212732561358302231226437062788676166966415465897661863160754340907) 69490809710348678725736597923071784769591275419387514694139338586948360
    [(True, 19573171462138868370597061816294790746578931010824396237925858755621860, 65875989959565106116157440672307734624877495937618734181800857916576860),
     (False, 58597769147144158860280490858118705987368021379214692177348956682345935, 54328731465629948892809345986128608741944427426647338557332036791796555),
     (True, 50978107636977944895883400349337756630531496002185406468732525757895695, 28751713256252279953017188645486945203257454578351364225077138433204435),
     (False, 11162313869968576515117901105762276234650500029858282335513160301618019, 27732261886882233192090007511917548108539294899031979164441172483665992),
     (True, 26021926029705267306572385665179760247177316692952380056917083498482706, 49048791545928503446991499418642506651376789147592086617207039224318778),
     (False, 32485039313650495733778635901500989062662224396470847936228617904626554, 29830384705951221689350282562048135494180079748340173133392523922768806),
     (False, 12015572869932427919200703816676405295190818850461994554887197143694409, 70779221516830014532028755164764554906423245664872226016442655510776673),
     (False, 67645410464056020291764130372201244713728318268693952233537681964055978, 4776016739476383425396356787024453292311077597965417645852431837656883),
     (True, 4481464758201904612982906281703871931913990366860139741262820846553342, 13343515644713718985950547620931362457704974308825894258439671891400686),
     (False, 2404181834683087747573735740496693382824306071752325178736159234308968, 30922993883467338952396632951182357453347135762627428385299862561916620),
     (False, 12911890733443662437870278040266188928121363695954865311490784876767423, 65933938997997676177403535464422736796389339035714832240843866738351739),
     (True, 61867585502088436564056292990031118840903759777216446308235688345952388, 23402695734552683400455183129959257897885927750734406470861750166462124),
     (False, 7395346814834053161877071080853646497522339231157375605502364060337947, 20318828662040728653205584238680791815082056623166991293171589060093447),
     (False, 5574733482811244416150700755546758509533645355876461549431049288844139, 9017984251820936276590934740907688311811313151229997054038155577447736),
     (True, 8461816785630873519629144540758674407849527313528842800763268139437516, 73559081625808744828472315670605024424302882386835939047348511341645948),
     (False, 73063314519516522595067256047994990589025411354408059274244836846212388, 59239012891502970510217184823069787201125316683826105851223857506262788)]
    (20859651830738554837844317495110081143063745965334709576123523462845333, 140528571754286861555186744) = Some (59239012891502970510217184823069787201125316683826105851223857506262788, 143901257476389746232511227690)"
  by (simp only: power_simps plain_check_def)

lemma run_ed_74058212732561358302231226437062788676166966415465897661863160754340907_1_10: "power_run (plain_check 74058212732561358302231226437062788676166966415465897661863160754340907) 69490809710348678725736597923071784769591275419387514694139338586948360
    [(True, 55585556555868434557961957481260651888940438833367041915890425569110408, 55425548822881768762782103190096078353747189688382871308340960791767624),
     (False, 41480766939531886757752126080578861010283027324772500907309750197605960, 60482700084958343193604755511764808881061662758304802174614941319599656),
     (False, 49395696636338470509773213147369423275155950816694401315599061755072271, 28052053438532184663107614499273156625875714349423099449157943358628539),
     (True, 26321995030059542187392211992399305672098535795321082300499076396491368, 40852399532862371118675251678767133373962111330341709305892624660455264),
     (False, 22535225817822580475519486307097207275372423197513404460453010476385460, 32437125260860859179199849050956986733445710409847340428055917767297476),
     (True, 30436625674361816423063821037764902312924634725134499166843372323385690, 15151217314024759360594537935714382483680489456364192473979144464918530),
     (False, 3099715448518685330731312581106687872287884043853220667458884116402562, 39249534954968383205318994974143953668846356667305428427434957341157166),
     (False, 20801555119138840270325815258914311696646353856782977944637692196616791, 18056134178495012569833871164394590282059854967675292156989643458782119),
     (False, 4402266398855072408339201084159379108419914924117673180691019192438839, 43987254657693965685029742969779038560688291517769187972018105360843188),
     (True, 41274422245873464419576769973861877198521597167538645368041074959575125, 47423558883384396741351968237643840278403913843019483683827773286633305),
     (False, 30367920777232129737365332987832592167098977868788655489964996288999037, 28926930436698826442651590268352887552066052455340698769046093842516466),
     (False, 11298777996592259094026465602406538519439907213081122675098930372451111, 59514756208547018225988258314315604871175999231794748916913292596231479),
     (False, 47827324963318527226872765211885122871788173377908600896210549462544749, 33181212105214845361569297259871291135272380886917483804238504061780098),
     (False, 14866586650519854300916907170797561111957928368969584812869041382607893, 23824746294722281297815847960217577762463607327494843138104712477910653),
     (True, 22355399220105113948387135333194952395221317176037053679233075792785398, 38488019720988126202545473782025695460388893290946876613681746821203094),
     (False, 20002206472258976189974690351086820492846459329747843790756595422885157, 48397271469118125572325509829617129479743234218355118030771411706955437)]
    (59239012891502970510217184823069787201125316683826105851223857506262788, 143901257476389746232511227690) = Some (48397271469118125572325509829617129479743234218355118030771411706955437, 294709775311646200284182994311970)"
  by (simp only: power_simps plain_check_def)

lemma run_ed_74058212732561358302231226437062788676166966415465897661863160754340907_1_11: "power_run (plain_check 74058212732561358302231226437062788676166966415465897661863160754340907) 69490809710348678725736597923071784769591275419387514694139338586948360
    [(True, 45412459443297955005665002142502904683064377528452142724603826936777894, 72445856303582737268265764553588218104962561695651867502817892122723462),
     (False, 70868603250153519378692636054206735112269282144954987635334025317336552, 7955729586241911644845483387700071232416006842114705942560318665332780),
     (True, 7465074707932490213541332621627190996967475363880004591218042675552023, 21245508397163562972210216720433768351455504912581162466780804319735939),
     (False, 6094822037954634333781480133724469997040453822377760382967329043139679, 9735353000635679632728456742109745805895601099746339844365915103662868),
     (True, 9134943146323052919360786964091734127958690349699166205912217736325330, 12907812885971884836785182254276701148673432393349214887251598086222170),
     (False, 2249738784554913891590711062235887986955683583338371044713315653267054, 40517183489063807666995306799740037280275233039526065469296175571930922),
     (True, 38018361285673923921986679794750033810570273275652288554627546840233233, 2745984390310550488677559837647962143635610521992583723983751628425589),
     (False, 101817610682277321359453038157104900226200602485406133978052427895134, 67910354579507421028615363730533684601932902935596694567711991427550383),
     (False, 62272853866573745222688651779577081439260343594998990237507930535249240, 39285681072268432588821901806463419609608610912967932440633128830786009),
     (False, 20839886359199365023455090999758192084558698981523213750387234013997285, 5744487928750228590013537295726309742386549567459486389957134087710586),
     (False, 445583823130102042323416983019884121463496204912738054085708061107101, 7511338993929206140307100490863447871524741664769441442882292903982789),
     (False, 761836012509048889151232221825974324058459990596777649045071413693108, 67316513304620917555931220476904262213934114132902651273743347499849565),
     (True, 63164892100600648141694461383294205373336902973130516144913564536463157, 1)]
    (48397271469118125572325509829617129479743234218355118030771411706955437, 294709775311646200284182994311970) = Some (1, 75445702479781427272750846543864801)"
  by (simp only: power_simps plain_check_def)

lemma power_ed_74058212732561358302231226437062788676166966415465897661863160754340907_1: "(69490809710348678725736597923071784769591275419387514694139338586948360 :: nat) ^ 75445702479781427272750846543864801 mod 74058212732561358302231226437062788676166966415465897661863160754340907 = 1"
proof -
  note r1 = power_run_reaches [OF plain_check run_ed_74058212732561358302231226437062788676166966415465897661863160754340907_1_1 power_start]
  note r2 = power_run_reaches [OF plain_check run_ed_74058212732561358302231226437062788676166966415465897661863160754340907_1_2 r1]
  note r3 = power_run_reaches [OF plain_check run_ed_74058212732561358302231226437062788676166966415465897661863160754340907_1_3 r2]
  note r4 = power_run_reaches [OF plain_check run_ed_74058212732561358302231226437062788676166966415465897661863160754340907_1_4 r3]
  note r5 = power_run_reaches [OF plain_check run_ed_74058212732561358302231226437062788676166966415465897661863160754340907_1_5 r4]
  note r6 = power_run_reaches [OF plain_check run_ed_74058212732561358302231226437062788676166966415465897661863160754340907_1_6 r5]
  note r7 = power_run_reaches [OF plain_check run_ed_74058212732561358302231226437062788676166966415465897661863160754340907_1_7 r6]
  note r8 = power_run_reaches [OF plain_check run_ed_74058212732561358302231226437062788676166966415465897661863160754340907_1_8 r7]
  note r9 = power_run_reaches [OF plain_check run_ed_74058212732561358302231226437062788676166966415465897661863160754340907_1_9 r8]
  note r10 = power_run_reaches [OF plain_check run_ed_74058212732561358302231226437062788676166966415465897661863160754340907_1_10 r9]
  note r11 = power_run_reaches [OF plain_check run_ed_74058212732561358302231226437062788676166966415465897661863160754340907_1_11 r10]
  show ?thesis by (rule trans [OF r11 [symmetric]]) (simp)
qed

lemma run_ed_74058212732561358302231226437062788676166966415465897661863160754340907_2_1: "power_run (plain_check 74058212732561358302231226437062788676166966415465897661863160754340907) 50366660687963342066214195241331738400016478712605795091965648721912165
    [(False, 34254141644186217020428424057326180715600974550576837552249688036855694, 7802281847156748092368892361999587268393808452123780968751200334912767),
     (True, 5306297139612438294307887723420301546039816615299573182024270938642118, 29040472366972254561562325954594829123936097252563062056311700070589529),
     (False, 11387650392568571085155452276260188899626345184623308290097254722866701, 21880194644149128212141964935672254611860787854105770536869020732004034),
     (True, 14880622941956559897266154274693668406854968720927701886699059056178248, 23110561087147311338478651312411576108542666005990154214467205423682674),
     (False, 7211867719404728600783885372265376979634822048525541133709684598003416, 25613996426219930936439322709444662479021080411417300620022961033251964),
     (False, 8858933921233403899454685730485446024341673712253708455934140577671624, 46666185094313576584799348882438028473080144783604259719198344313534328),
     (False, 29405689806759884617208738232040834776868424997442473871063530170518744, 29636698517563013245056486056201819245636977999424871921287424824950776),
     (False, 11860047206280235552239888295115415390155788339412493551254197904790650, 18015193702248897098618859271073013593093639290311207993714552256882626),
     (False, 4382325634856346573665294679959460630350864178245006230018119644766928, 69259940216952883035864598396593339468783489499305423861495305269532180),
     (True, 47103376917468359397681313853531563259101143935077422181518199377163882, 791517081586758203574939112370459214442304589107947621452766765448726),
     (False, 8459551848841260837108230965222934266717948620651256348531286022111, 35873908744054325422508938912176833575914151981263590778917428501228399),
     (True, 24397685585360117670416985784831302475900975004246932968988314714473927, 47261137258240857276044880379649609050641808839505082419645022560542046),
     (False, 30160261941620190363563892914120429237593464359508871253219620727838088, 48019823207666988973248470791262058122374435076880118503325945882800300),
     (False, 31136363352740632189807297702743412517383495469005860556476207757542900, 9532080045962710462452703541454693049524318231493471353594022402679700),
     (True, 6482725191590041141591215953624653846141433456501357279682007942279927, 43037525083149970342040757375233848788986459671230609159172640247476711),
     (False, 25010441069804388198972197294423849207435263113996928578628157408576129, 61389138586735059115376915318187828444244915124639735002187075758968518)]
    (50366660687963342066214195241331738400016478712605795091965648721912165, 1) = Some (61389138586735059115376915318187828444244915124639735002187075758968518, 3610)"
  by (simp only: power_simps plain_check_def)

lemma run_ed_74058212732561358302231226437062788676166966415465897661863160754340907_2_2: "power_run (plain_check 74058212732561358302231226437062788676166966415465897661863160754340907) 50366660687963342066214195241331738400016478712605795091965648721912165
    [(False, 50887351954206721912550569541824377626550747421162531588647344483703173, 42422567393750195079891593305644064572579777943321007394258133075518413),
     (False, 24300805513309531756591411541163763075016564626479596917691124501755048, 34796225492356391499454703510644300743546600278428363220973382701890033),
     (True, 23664758004952742884060541029718276394678480678661260866358163606859117, 31697769785419376077047109524413132556028412468373866048799149575952326),
     (False, 13567011304982319708619923464746602593103081347280942817624593864208673, 44349853131689820930067893243990022856750807819292284146241744596723865),
     (True, 30162137618839800149544364884872615964067442645109895738122736023858619, 38670084523449469223850741657358711962602591693710355242852372993090292),
     (False, 20191892051875709544117757901853536467840285548689813040262580594419130, 15898078711559931732645489469331260497298794997283734720968050402294354),
     (True, 10812212535391259687166588786351235255688695942297903042458800219061135, 49496691997382715858028470477176056868908389471768786202435854799066965),
     (False, 33081037582299183250161414007964714613232388343210991006834033678462272, 13334364241479038631764099632208211471209186538162428114254937928550521),
     (False, 2400885238299286863526131936525583055145082471188705128925629640153590, 8919263599748635838533935085419739996972728324255649057506481349465311),
     (False, 1074199068901153926959838060277305204218242963246417812231773343265880, 26875184796412476990078408320014861295131945461728128001528779330973561),
     (False, 9752808381287814472532686913834088628421829249040004389310974842013355, 72520547051270076043529549704146824557890016999303711198887200164207736),
     (False, 71014807818919161132947781318955353428055079694197047951303794278645529, 14631664103526122054336177730867075332193584467986466337216061484890893),
     (False, 2890774521004438607149169897552507321801715736436539733042315494063442, 17510531579623168624152665776562553904169605162470048037815434160515555),
     (True, 11908834550485702719754528150895861372423358168302600963848120389049631, 56562906838817669622179259238668999312257543411028625459872530309671258),
     (False, 43200643277880443297734388682544007725584117676655366588693253065780989, 72254613394959382607504792148728565360204983584778019155494766125685541),
     (False, 70494938565532420483531516149699609850714311133814014428674326644264504, 31679388667609057934473893764378746830458957141625734728832274921197553)]
    (61389138586735059115376915318187828444244915124639735002187075758968518, 3610) = Some (31679388667609057934473893764378746830458957141625734728832274921197553, 14788356)"
  by (simp only: power_simps plain_check_def)

lemma run_ed_74058212732561358302231226437062788676166966415465897661863160754340907_2_3: "power_run (plain_check 74058212732561358302231226437062788676166966415465897661863160754340907) 50366660687963342066214195241331738400016478712605795091965648721912165
    [(True, 21545011160147019160748814405083791717580883564864083689591853031777126, 62330084820475188889906978050484934931885430494198476502016656830238963),
     (False, 52459265898804044548918670232578794076652683635381935865004739558412959, 156491467644029265814041067705323724249821157559755035149740710701556),
     (False, 330680130424142201867492807283283975799034273318473638386024287105, 41599622339189666628072096007011672823263508475990189560958922886716901),
     (True, 28291717904018078795362785654275272881697796196139360688810080310222846, 9738087239775113245284398970389029130335080668754625000524992719239343),
     (False, 1280483819288506695043505940598908379408119702098574662287540074013338, 72219878304541027510131710483225690731781351265473514874567596002054083),
     (False, 70427176539591418856612778123501629970752817968519371326185589411254346, 49994653357172630133344671333671397224179933517429075488484595887639067),
     (True, 34001141115115486627727954996196558923384802593888126004249552548846637, 63871694734302497309134432135059951727284635269478502328931977638070296),
     (False, 55086306267802225888682825439780245256853439195016330385720965193254231, 58397378724231518149098669240198526150419970110951285517819299743400099),
     (False, 46048287097832340731716205985817572865952599233002335712534123882798657, 21861974827045310340958617650722585114801807696787267790088088573447902),
     (True, 14868231725479615796684492838639644876005701186146731485272596912898416, 35637396345292153976530533031050655619902210182125549194164281323224518),
     (False, 17148996328843998137005011451859859853105525807231613239908911049284482, 57776808575603328259392098319041151683625998931770243828774507183427150),
     (True, 39293750224157996332714316141079606072367492539834888136366322921109048, 58443965329846517842618261469919602365394900239035443557703177262053214),
     (False, 46121786597943563093519716357800988676091860473171413156525204916225183, 69335931331321170597108947722101967434508864902767311113569199407268815),
     (True, 47155058135951302137062969844492771177913341160933438576592221450931712, 30767829289622228023890482723604344330822179810084441956114663348491691),
     (False, 12782637931243450100575622410563970750823456622373340925671934624251264, 47225358319618133431370279176889987018163039252403313545040082014383033),
     (False, 30114613708949972056533393336580634268412245537649898959419891378535234, 50114181469743308329903992969882724995301607318545899768759094891261851)]
    (31679388667609057934473893764378746830458957141625734728832274921197553, 14788356) = Some (50114181469743308329903992969882724995301607318545899768759094891261851, 15143277916)"
  by (simp only: power_simps plain_check_def)

lemma run_ed_74058212732561358302231226437062788676166966415465897661863160754340907_2_4: "power_run (plain_check 74058212732561358302231226437062788676166966415465897661863160754340907) 50366660687963342066214195241331738400016478712605795091965648721912165
    [(False, 33911582412225246552647355218265078588539703892541261798954210157317720, 5339860236537849418110611976584794680478125276261427152658813455974161),
     (False, 385022893392364959834196769417918970378651394639351092116277816724935, 211010837680083980781946931418466226138779625785816674147354262237876),
     (True, 143507531045816065131983422637332270001536867611463282379726427179302, 35400698955743708349087991581864584158237309055510687581153146685854626),
     (False, 16921951534001737469782325269285770173486071524689686700658814761870570, 34275404680387469102185322456611821581611648703228186871287725215192886),
     (False, 15863242207137393009422013433503661693844879226754779730192719875722417, 32732313280262942439808376678638526184449137138322770410249582864996777),
     (True, 22261100500394175738973858219837926600917170773696001266992594334980532, 13715194756380344843097457320450180900177963606011194450199825665869681),
     (False, 2539982538935045420013403193269811995122404114823842251935023255533660, 52282520511141286036244394046839613127634857710274077519783128221612141),
     (True, 35557109378341088828094700332340793513741337648965300564302826481783184, 63834056841627049635098261830767923748266111099564657028635602503687377),
     (False, 55021403602797202076914541991224373039651100057953239027756696290943261, 13240321605631079530897496498103370891317627065678677212494446360862402),
     (True, 9004683763008580351568871641123031437168723624695083972623990033949327, 19500499971570139216247938463870636235827157006975701801351427773700741),
     (False, 5134737730093950341358538617754003478548140175897286803944565123898687, 34134306643439999868178131358355369441371973524504307410274427696259972),
     (False, 15732905872789275740063436930132372751985498848193571182727785903315476, 22071204106227036066454854014447793259161825127250711420777066136464052),
     (False, 6577772170358520973202740159027545617051741438638039697874102572984349, 7409591107851173906961821330429690179439099626530225482286413966794161),
     (True, 5039229916516825389106193449567963432752579839824785880916833715566724, 17995410360502502963383836960331365299687624985988465281779316275689897),
     (False, 4372706038860421696147745379769818727613842989621699942940437422818343, 12009410991144029852706805799621916909448904330034473869096411953013508),
     (True, 8167546935510941139926322278592048552598521685360257601674859202527480, 49798882250818805238088771955393025607688264678597474253136367878900460)]
    (50114181469743308329903992969882724995301607318545899768759094891261851, 15143277916) = Some (49798882250818805238088771955393025607688264678597474253136367878900460, 15506716586355)"
  by (simp only: power_simps plain_check_def)

lemma run_ed_74058212732561358302231226437062788676166966415465897661863160754340907_2_5: "power_run (plain_check 74058212732561358302231226437062788676166966415465897661863160754340907) 50366660687963342066214195241331738400016478712605795091965648721912165
    [(False, 33486207429639465704738434599014169231931730901049238470463608877087942, 23979130080455901954590177847971281771861583643021846249671168901168206),
     (False, 7764144693740549502386826269139978391934736141688106294357001814839106, 32758736207668876780515193305715137975078976250271316605532014226149294),
     (False, 14490422578775088658424775290308504052465142970359173047147829796939505, 19878844628667124089982165679399314839274985468218307171898963150867401),
     (True, 13519513708715332653840559982579306934654371082979857479388910694888006, 46603567226280001679121039487386058280643087606446326747955976374371723),
     (False, 29326828154191711000231850674431325699632983141568092507508576144497430, 27771079404647158571876171819740734586575067929802787795889928576619719),
     (False, 10413873395571801538254471796674447527473420488082617526493881505207431, 71715662583034708287986319417068799145850729919358298767340105615959044),
     (False, 69447210106143825373099229221058315931555021997078516395751993402846386, 29571594308668422704278745956076548406531769895014170693623864688481834),
     (True, 20111509602930942454686820117020605298234438932442735211758206711227689, 43605071125902084723413418338778665940236181279435214416689181342336687),
     (False, 25674427693270343578666276101976781545896626478603802526080391649383444, 14262849684967249391705588667349992310664821650858604492526928128392261),
     (True, 9700100556306321015546177316351644487402337140231265806664311062844456, 39202279288957997597669538223651207024425926101456892198700002168793473),
     (False, 20751495948183587082853824402273604054885982191823581847303002184213567, 44813694030764109177895229107227865962096155111771988132910765314916460),
     (True, 30477593748752625414901239476864655140352830038598174337730957905181677, 23597610909681507802333021786488496031166891684443945428571442204774861),
     (False, 7519047788198773382767980897556998806420435589386719178576023762941459, 32241248353360639806880057522170452275873819143993388287630614527606008),
     (False, 14036229839044461017173991487329032357872351211283409014466141557165731, 73929481385713088702728708014832690031596386894045380634233173805838047),
     (False, 73800973805534981848655583073224069411728827084851973083296512082654580, 60446935731329847307228399233172669550566369391716413613602305147870149),
     (True, 41109691812322528352984329536107421387412591598309549852491815746083112, 1)]
    (49798882250818805238088771955393025607688264678597474253136367878900460, 15506716586355) = Some (1, 31757755568855353)"
  by (simp only: power_simps plain_check_def)

lemma power_ed_74058212732561358302231226437062788676166966415465897661863160754340907_2: "(50366660687963342066214195241331738400016478712605795091965648721912165 :: nat) ^ 31757755568855353 mod 74058212732561358302231226437062788676166966415465897661863160754340907 = 1"
proof -
  note r1 = power_run_reaches [OF plain_check run_ed_74058212732561358302231226437062788676166966415465897661863160754340907_2_1 power_start]
  note r2 = power_run_reaches [OF plain_check run_ed_74058212732561358302231226437062788676166966415465897661863160754340907_2_2 r1]
  note r3 = power_run_reaches [OF plain_check run_ed_74058212732561358302231226437062788676166966415465897661863160754340907_2_3 r2]
  note r4 = power_run_reaches [OF plain_check run_ed_74058212732561358302231226437062788676166966415465897661863160754340907_2_4 r3]
  note r5 = power_run_reaches [OF plain_check run_ed_74058212732561358302231226437062788676166966415465897661863160754340907_2_5 r4]
  show ?thesis by (rule trans [OF r5 [symmetric]]) (simp)
qed

lemma prime_ed_74058212732561358302231226437062788676166966415465897661863160754340907: "prime_nat 74058212732561358302231226437062788676166966415465897661863160754340907"
proof (rule pocklington [where certs =
    "[(75445702479781427272750846543864801 :: nat, 69490809710348678725736597923071784769591275419387514694139338586948360 :: nat, 70463328703800545008217672123162676565183935400628861884889913886334520 :: nat),
       (31757755568855353 :: nat, 50366660687963342066214195241331738400016478712605795091965648721912165 :: nat, 18232248056023258384404751131439975669387062239511397558448549501188471 :: nat)]"])
  have b: "(69490809710348678725736597923071784769591275419387514694139338586948360 :: nat) - 1 = 69490809710348678725736597923071784769591275419387514694139338586948359" by simp
  have "69490809710348678725736597923071784769591275419387514694139338586948359 * 70463328703800545008217672123162676565183935400628861884889913886334520 = 66117633491858138461393741777649859022484251587227054915412604379442197 * 74058212732561358302231226437062788676166966415465897661863160754340907 + (1::nat)"
    by (simp only: hex_simps)
  then have c1: "(69490809710348678725736597923071784769591275419387514694139338586948360 - 1) * 70463328703800545008217672123162676565183935400628861884889913886334520 mod 74058212732561358302231226437062788676166966415465897661863160754340907 = (1::nat)"
    unfolding b by (rule mod_one_by) simp
  have b: "(50366660687963342066214195241331738400016478712605795091965648721912165 :: nat) - 1 = 50366660687963342066214195241331738400016478712605795091965648721912164" by simp
  have "50366660687963342066214195241331738400016478712605795091965648721912164 * 18232248056023258384404751131439975669387062239511397558448549501188471 = 12399670712182237045161807348470345042472065485440476986607377034942449 * 74058212732561358302231226437062788676166966415465897661863160754340907 + (1::nat)"
    by (simp only: hex_simps)
  then have c2: "(50366660687963342066214195241331738400016478712605795091965648721912165 - 1) * 18232248056023258384404751131439975669387062239511397558448549501188471 mod 74058212732561358302231226437062788676166966415465897661863160754340907 = (1::nat)"
    unfolding b by (rule mod_one_by) simp
  show "\<forall>(r, b, c) \<in> set [(75445702479781427272750846543864801 :: nat, 69490809710348678725736597923071784769591275419387514694139338586948360 :: nat, 70463328703800545008217672123162676565183935400628861884889913886334520 :: nat),
       (31757755568855353 :: nat, 50366660687963342066214195241331738400016478712605795091965648721912165 :: nat, 18232248056023258384404751131439975669387062239511397558448549501188471 :: nat)].
      prime_nat r \<and> b ^ r mod 74058212732561358302231226437062788676166966415465897661863160754340907 = 1 \<and> (b - 1) * c mod 74058212732561358302231226437062788676166966415465897661863160754340907 = 1"
    using prime_ed_75445702479781427272750846543864801 power_ed_74058212732561358302231226437062788676166966415465897661863160754340907_1 c1 prime_ed_31757755568855353 power_ed_74058212732561358302231226437062788676166966415465897661863160754340907_2 c2 by (simp only: list.set ball_simps prod.case simp_thms)
qed (simp_all)

lemma run_ed_p_1_1: "power_run ed_check 427094198651976259540344842774561673889945192655078505504941250475370961481
    [(False, 1575318795296327167160377484239873213673388518550315490447989879062763015, 108810308999722890605204920279274340643399673973271180696951903052742522940891),
     (False, 102249501003041008442734530407647814023119959105738345353327167416036427991322, 91572038437732146781434257455406722975905633052450885471872686993354150908725),
     (True, 337759570909333563637938583506332789751170784816852955231329914561263691008, 23595339778929221574950158379684636989810540296840158120950850987015741184541),
     (False, 4808100993342295188340302877405752130877915406150222552767962672010149274038, 6282790753020112160267437030074574253813645774790429746783168155208757012557),
     (False, 340899450957604429045750384646717036469798768746284989919885128167174918119, 115013118605088745162053814141860268773107578789311700326127602402743350166387),
     (True, 424220998590245364653577131827925695162507604534613719205134420611007506832, 68404051012074025571496731455953476750905285803998395307071334751970583156011),
     (False, 40409618875366939032105310341475849790256315651290732844740434461015064117725, 14765951865405134974180171522516868216084625300557217921428897807662836440071),
     (False, 1882972627297547808152327628142540625039551653288121265180131491978554451344, 11554121375415031160054870094484159041886858321128307609288837777664692362129),
     (True, 42616885509742166903068466199280913998686886085312820304197169855574400153, 42964186242273528919480151297187199593800320547943492549527490510683516048655),
     (False, 15941687481582142936221388073709978565304056623236180522051711119010813206397, 37003784059958960157345119118553341277671936768359138821891938964508967281519),
     (True, 136486884417366341723223334054845330623753527242544072520773779595729416399, 14671606099065127063022213855609452736378076549275320985106317603993266282337),
     (False, 1858987318943328133226808256908615139095894396762019473074749646425198711281, 87865935049994456953755148917238257060209639259653146919219458857451797892231),
     (True, 324089766115820104961561486394478652730952259914481382541578633160588333140, 87976333074705502474538802887444462604276340943566514490838156165991430534391),
     (False, 66842521214110823268707917955391664901185742328059942130578604202269931595252, 29073007563727784458119572883955390856799487653336218899532319023272387176585),
     (False, 7299633112830806660331454642210594283286396761044485891937053725081900003202, 7190997028744376346268700502463936442155378438461371155507295982460665308829),
     (True, 26523686840176285776046579654160738032114821974822622083884159916611754382, 4157821615592735047075923612481559027157523199671150384308970709873844682713)]
    (427094198651976259540344842774561673889945192655078505504941250475370961481, 1) = Some (4157821615592735047075923612481559027157523199671150384308970709873844682713, 1373)"
  by (simp only: power_simps ed_check_def)

lemma run_ed_p_1_2: "power_run ed_check 427094198651976259540344842774561673889945192655078505504941250475370961481
    [(False, 149297596243033873242158593115362876508319870040953887338140052495679230747, 102298231198449325852821080589371701022915434395950080073675581137857881496563),
     (False, 90376883043223211536460684018711274146299763245106374184235376552344905418934, 104538132292191782754007214558444849975029687492728379879577305183100329784237),
     (True, 385584456882909291556126039558217699864743988145929866728752128156398066954, 40440106144718400821540455593356056199791998023367103711011080090474654244305),
     (False, 14123608924995988490717551768086125858384714220205027297270736005495721401678, 76797052574042325109202831923495182093872672419864110737652630296786671984181),
     (True, 283262663658494665352630385478464101058006367539712292138932581940232329587, 70164721883247628471525263758248190444729493568950327099897171733053031269935),
     (False, 42516619480486324536196325740499458173067522013426274805321624029914135285856, 34067905650330885376214357040890487092902312925747111900244971875174262221537),
     (True, 125658021712161354852814677071033948950571253935775310145756068178753980278, 84652701043279354713346185571077226947962359451286970059242075275274381684653),
     (False, 61887472979574018377241787268192821995221298747719613956915424654601754425439, 47094443517399156349300524024427429903823497482600708622350416849876375165187),
     (True, 173705852856676061295828731468354573156332749434780021093294187477167138214, 101259084142231865543015640012682897708309147874304798708068888499505374299775),
     (False, 88550108982913486370007114238423815441032064698293338861216816814826876631201, 56715318399219758725908861935049355093506756589464799281442750455431083793127),
     (True, 209192040860078002198860287747834132452824909761302180718072208887716649748, 66441617309740024206989518539106223545978631999958374340006210086808257095383),
     (False, 38124266863226202322925309653565751869894366138225894819340980195726044462411, 59104131272114013341258737411128029456461135205970884041297998614670533042611),
     (False, 30168713220743097696333174412361868926878605543441362661600636631272836295328, 34475720864833310237200659141354986539800323128223961765242012503204121900777),
     (False, 10264736882965420415457077647467673724717717286977669465402823982466945110771, 71320507679481756328187838516351318008156403380221210573011685955360482062371),
     (False, 43928862922871920556762326430209201549936767709016032407161038255141737378771, 78765651467342584766069176501368053217158448193782339412208900876999874336283),
     (True, 290523756988264945865435545213208413522993457058965565875310299525778172209, 78563932728798942145294491069233201458578000975059035087798151684593632520441)]
    (4157821615592735047075923612481559027157523199671150384308970709873844682713, 1373) = Some (78563932728798942145294491069233201458578000975059035087798151684593632520441, 1406449)"
  by (simp only: power_simps ed_check_def)

lemma run_ed_p_1_3: "power_run ed_check 427094198651976259540344842774561673889945192655078505504941250475370961481
    [(False, 53304949988121534515824057406995896430030339937409607945504767984649644736264, 90093643910259383914419746486640939133831924588395937313388095046756780973409),
     (True, 332306575543576213463399004395038465375727818801561696529802559099990714702, 88067485005665488728169623248157087393732544722766227019993488130982509878333),
     (False, 66981103513275548868978909880836758237573363845982417971671031927315389939392, 64756784449806365638328705814121075894920491927308708452443606627457457796873),
     (False, 36215264444224810134450186116561456532124117730571904110859721820628799257575, 106168545591810393278731846563247527321960741660540064364610973639309429850779),
     (False, 97344819903705336787394539557965343569984339589574665467111815883233415082300, 93025641530130161913133755714740661799779061092736365188218156033753173301441),
     (False, 74735416202365542392983359014824459483208835206369936454979766643344923621814, 69857784537585267797931947221663477657155386490069575952808475418203695141509),
     (True, 257667468504983397953358372110823256447799068364635199410715635151842300460, 13033836636409619576203285041929315740509890397965984269460621985817963461749),
     (False, 1467120064795119757859186411668976920422936387051566625104421046268707926538, 18012499511680179466168436990979991220342139247899090100618785015025608325877),
     (True, 66438338709765104637958398115606658021247362977298625845345173084384111867, 60543257108545310042264679995540211410063829534573634020203930853842004074271),
     (False, 31655754770941207653208362962270575401465841189349563733389676051002059594653, 21581212595436810779393696112502495100442804460030777336590753122133947916047),
     (False, 4022284597826775272582552507316253813872877223677225147678561469868033736491, 3870653889746994953254229336911450733415792976807813643271218860991907988291),
     (True, 14276742324879772277876077213222590992783921651720295079883760863677508424, 107819471396687445929428680861273092729479589429087041154569925801368178518219),
     (False, 100395791187734380550408233297992346441732435743757422535010076714393516004699, 84448357859143284509366402288253809817964389750648348876163246386040969051259),
     (False, 61589053208029156118402114447323719262504956481273080045057813134209070160579, 12232028869470017615029316762883465893934505441106724646864222281143264304139),
     (True, 45117318482673422682803285236213610668685705486124206173865289606437940254, 112708593110593084344332496551161232941119806258623304572363405610842979215767),
     (False, 109707209228550435527021637249788220443112974314084547202373676933433259409980, 98134297104782126979012325435601860352240936095982260235665192243688994016249)]
    (78563932728798942145294491069233201458578000975059035087798151684593632520441, 1406449) = Some (98134297104782126979012325435601860352240936095982260235665192243688994016249, 2880408682)"
  by (simp only: power_simps ed_check_def)

lemma run_ed_p_1_4: "power_run ed_check 427094198651976259540344842774561673889945192655078505504941250475370961481
    [(True, 361964183031035165531090967038293966065642086853119765649404321314748893025, 97009872349267084026535176980834886136588931345184009354895517312730493193319),
     (False, 81274251075420172282439367106011452161454470781915998616498415615736609718880, 27143910601110349143206876423926992600671392057274617250910455765128494361521),
     (False, 6363058889204545475598635644187003134447831224468311955170167751972388516836, 71582252803103059402989995826819966724969860344658813780684890603282455110713),
     (False, 44251891041240869081137612831969694806969758580373113554073967255772132667164, 73899950783661197037605447564047957350154600968859830261146338986947478459097),
     (False, 47163867253787930469342827267061766682689603827114828320958925011090225569636, 76751231668920740317850347768025285589759166199705003536008599495512899118281),
     (False, 50873523411631609351717171817547780384931877896631723051243272978550351356906, 25705762800136888165837530949334492319840948396082470717858426788475772959373),
     (True, 94814613296778869947842242938152953522137033200808450457110328815305307860, 111794670500425310137420028935395016570189691576610049579053534684673931913133),
     (False, 107935252180171666683243871102340575056540204960026408874713606913708494336910, 9328384199961946514849016524349611796790993897360035376919041506704867840509),
     (False, 751508607844137964374159397909519171256918286028549966106164759485775496390, 98689535353386676020142939040514440176432238658162270191902812289948162410861),
     (False, 84113037880385528348464775824699299050412275789921444311284692098019141602937, 97846339677724322678395674451580684043677073736768690648027379467810461580895),
     (True, 360902064302845713331547475930188264497504180620265290530140907660116115278, 931337745902142669503822979629507155062445057196598851932773263800614343851),
     (False, 7490926216594692879760253344988209973780639055028880126500781694446110969, 81330878790061592806602395040554199889754210878277895510759078847277743669039),
     (False, 57125766434758950650969837243197343968817971992320640929768877581211158039223, 28628147833040885614083903199927218548719804159746322474575484140979817464267),
     (True, 105593706255561302249819427386037045686676118667507931189436086045649847863, 16748802369321623596929648019124830412481028278176832388809779744939476061453),
     (False, 2422638564122133294974745897405353490155676422042093635653052128137501940644, 71361624266373147376140248878538387874866005389216795568715105109709142256897),
     (False, 43979527888973163005325192957321342196460383020603348533205675043109405013339, 47350905953550313082384582914768386779591231700435899029508418642693787469187)]
    (98134297104782126979012325435601860352240936095982260235665192243688994016249, 2880408682) = Some (47350905953550313082384582914768386779591231700435899029508418642693787469187, 11798153965716)"
  by (simp only: power_simps ed_check_def)

lemma run_ed_p_1_5: "power_run ed_check 427094198651976259540344842774561673889945192655078505504941250475370961481
    [(False, 19363225151130657641303722641587491195373854053227576813959012678798343171503, 24895018856059544791694011103445338352869710297645988051505428434340829014275),
     (True, 91824218725022015644347140682902819485173207641052945440394991104626661080, 18286491706746720111909911167239461845430351747451606516454706886817732371435),
     (False, 2887898311045856792127538341985867930054223960137505846353164407971792050746, 86967000382539209110400370992380729817505282220029812952719779051274881695317),
     (True, 320774083810007185992989465675945691761828409421758369807179712081708389432, 2150482011269721680385419428221410907065699691468881212954920958681876326541),
     (False, 39938590893861435757102100154231761749708797496193339355837800783840703293, 73432494970711151337912055459527797482595767441732917201706658666716308240567),
     (True, 270852635971127863328626060932938398763694976178740918796519694390531908794, 615639248898527530914655200055543362126431148332174501206200115354439136715),
     (False, 3273208794147911726788044489127459923331684193841384164527105688146062851, 84829954524913456510874887778493553190296003769372516425783120269914355762027),
     (True, 312891681013261941049338082787313152214190885886783557214048731489016835514, 90065175249325744754522145552389215144202809832472902724917788916509101744415),
     (False, 70054317580078675389535547742901973747265967646950227185859826973300392283775, 42892772822102542169306915204145899428812776403664100718868341355792405637275),
     (True, 158208169116560205833738124748963963995244962414941636712654633690503850061, 10655145512141068181299758743976465767743253949402457322145616363997767470497),
     (False, 980482575560196963289039949479664982157095095389387503185336937488324924728, 43365375727238642226433009608777351315137695456240631560981909811885169829265),
     (True, 159951344841078093909729623199918014095044804018292316675537704296360735125, 52954004240388556051630569594327453169900630189205355599216072741077851524215),
     (False, 24216909665944659728635767593659642373586971783896261420148903776877326610044, 98741721151084534315541801354966498251366784521402672325281353794187941430713),
     (False, 84202017254356923387339370977811691069387391826432281186643184865391264158103, 68201309851602413017335581207957578015778647272956682819282429337862850894875),
     (True, 251557632045023095909566402208472706040638055649751448600828849403068536675, 39194011694532861197585445397462742577184241789917629493980119483213449050725),
     (False, 13266627822586334414421756975262066219330772937461182998758731153731669082838, 6747319875131162801097707974104998613051739066779536586996007209040751155101)]
    (47350905953550313082384582914768386779591231700435899029508418642693787469187, 11798153965716) = Some (6747319875131162801097707974104998613051739066779536586996007209040751155101, 6040654830447098)"
  by (simp only: power_simps ed_check_def)

lemma run_ed_p_1_6: "power_run ed_check 427094198651976259540344842774561673889945192655078505504941250475370961481
    [(False, 393173020689122250495854024293450653081109026229058319188260930075718647565, 49447354364721713194753236194045317723599705392660705943689883380473733771831),
     (False, 21115784936389270221997152400729145436071915300563585118593919393789625899092, 78576667740498728699603811213080143762337556814778768283207247683213523919945),
     (False, 53322232579692937562764567012525615432590769772329230256800059960606426541202, 114550870731795693916553507074294283080061958062298714097233849572306848725629),
     (False, 113322957309451375849070364409395148490072354396097962799675493125747496674791, 85117556154800964091531332598593339992889896510061265745902563732283077034323),
     (True, 313952487398714238915685229918305116368624219446016865465412368704719228573, 91106814714510502916471694600493640798166361036560537053837026930254705506809),
     (False, 71684099856013044559959349378399006307763311992754550514715410831301871634660, 1051611998923141826009797223490874826198337660205141390567873028323129697801),
     (True, 3878826152383984662133087596141371350057553443088015906384312149860229914, 61910197730058524039374607700947186024550902038778232915264817494324033894509),
     (False, 33101333676771830681642410912490715350227509976772234838042349666695935360607, 44948132143435640219097594094126751821041459212659784388464654142315055652995),
     (True, 165789274596810330478152351462614220530823336396744449168983499451739729762, 56808428832765546586786594999807077741969289592272847145634860535062554041319),
     (False, 27870622317153616853881210476131908520050200811668569960268005376633408940617, 15183330085620730413189302277146226574846145713174755474153417594564283322695),
     (True, 56003067554089925958575882416890469066157125276148648528302273098388203890, 14715464329062704689330619358469326494056273169863050137747010548928835308075),
     (False, 1870118173410858384054825747293522773273645827944314924218984198221046451821, 66233589745875862202821423465978376948532929139956190393122154223739823851367),
     (False, 37885907746547803227527047306007373264336404930785796986445140160093423447780, 66040241019372712601924197996666593908047845497232578929372599364119900242249),
     (False, 37665037936730847949858572795808530039594558077194828149715961665735228426864, 12206315590289187577063587375699211527986512043509871530905784480271535158129),
     (True, 45022476145525990037355385915856283193725619418182343412331723538999468959, 115013559004705139902603821184988497804543664096237392095032851362933204102867),
     (False, 114240263234371098846283814799040354275635592389352164106640001301742499674462, 8283292595388329537658228419669681448450095595656154570310510417934030734813)]
    (6747319875131162801097707974104998613051739066779536586996007209040751155101, 6040654830447098) = Some (8283292595388329537658228419669681448450095595656154570310510417934030734813, 12371261092755656946)"
  by (simp only: power_simps ed_check_def)

lemma run_ed_p_1_7: "power_run ed_check 427094198651976259540344842774561673889945192655078505504941250475370961481
    [(True, 30552572602577425950224154372993579402432643861490927434350114037251739112, 29194840390136022116418100174159504709805301889691385347983575010945946447477),
     (False, 7360940725913038776289718644399847248109634496414589290145147127531273343682, 30492838542768468573451822991558255628888822711841750278965777210605666241093),
     (False, 8030023540638355926097145340857145517028199262166297305335876102522476900198, 109353132316050476961830342285854915204649183595592086386568381944900976934845),
     (False, 103272232378703089730207313806828753602117459027309861214490419332775783577035, 19709125795719655226069039630352240814242255658673949586447148764939482631595),
     (True, 72696272632251044837418941712301607354076026387301183060525829695821772532, 47110194911469156145231840522974075674518002055742112016483809358682030910459),
     (False, 19166857418454629418065433280537025444101187728770112639054609072513006877326, 40494757217524916096333893757326246094581674999797029203460448369644634437933),
     (False, 14161808228068670873072063920347863231939754965090394496192451753894368215576, 14046244411728167707452189639360387591141704235863090888507860272065114661241),
     (True, 51808975385198660212123901621513552378040967378820087508898791839891388961, 99667298209774682751890390177301138651455335077842734755095661602254792291943),
     (False, 85787987744804196569428773886807588017020015245084236353789785245779243164510, 3965495623081387202325048284201900577925103003699130040957530623572669095269),
     (True, 14626562026415676007268918161711050912055327039763158535792754625780548946, 48115563690958252294366590751518736589017891715099409102972364313245174885881),
     (False, 19993658328021365843891640350170158269541059124225240930332355068821630019937, 62345949444333990594323537125555098037923256645194597944542279315302002499735),
     (False, 33568937547616031759659756607334964756635288817171743998864199767900886214030, 71645722849711767119671395709734014681753674980449717236194046713902219701285),
     (False, 44330399740325861194190302204805725109181700694431554308182440503736815339244, 22493727517867778858110474721550285763551410488176906280050856999598203094113),
     (False, 4369623011215384836795982754749960230732657496577742110974615183584821625264, 18236932998569906468569683699579568805780828746576787585565551316487316073697),
     (False, 2872266381796537328195269186151580790893008060536985998315619745889856125374, 5102668634240568565005920089858105890408700390013788100827743235669774675957),
     (True, 18820976335102023093803443199535600472133892609914256061971960853791827747, 23217560225020900800868158653767406622250201998932074277285362442830949162511)]
    (8283292595388329537658228419669681448450095595656154570310510417934030734813, 12371261092755656946) = Some (23217560225020900800868158653767406622250201998932074277285362442830949162511, 25336342717963585427809)"
  by (simp only: power_simps ed_check_def)

lemma run_ed_p_1_8: "power_run ed_check 427094198651976259540344842774561673889945192655078505504941250475370961481
    [(False, 4655370728285916944703728439833946114821929371442257385518074884617998136086, 94575799289758882214009525202862173703481638173201645824270420505887908665893),
     (False, 77246916177190761573180356056097098703388219851088729324004543813013096011073, 71950346924507900638186627964471431982982734791178927739792554437698390896895),
     (True, 265385795911100964964213221577013514382254576653542683567438389335817175630, 112256869821666813140614101427668679834283671312925111108785801706968766215755),
     (False, 108829583308853048013440489658770471765100453949221433836090492834848140458354, 95191029161190850103678317810983695723704707055481582464722510118550524412133),
     (True, 351108064343947365623897323140554632070717866478577132066011121548472209354, 94008222117870095535545606587904176936099154990548781626900531964948024843081),
     (False, 76322535364658862943608605787107781454286278879327214317070451880176456248589, 61913962292030903089858867168758908556397412544126376129593330171929132968639),
     (False, 33105359372543893083423717128358962177472968105677392340834473648781863890617, 26375387592200140890173505680436436792661476440963051257229024838570486475255),
     (False, 6007846263254011486756652306766144324039613969626077814340859737718116074366, 91717283023745745920535045013068323707661446887961613944615262050082758660357),
     (True, 338295299390273907657801305309234640662947791889471230410715464339541289268, 33931685941557301511288560371654561991362058332413347338498451496995116694053),
     (False, 9943333075861196698848345715217576977453096236337373163957286843941755812679, 46827083578937047338973185283795024181349560821802590185014908488548392900067),
     (True, 172719707089540900860177415018145596048136621252693295963172931700072157275, 14922624575515049999085843965852871933967550605227272973617535814066968361277),
     (False, 1923142813023891386307709833127995433614999668466264929134817784318395662025, 88658411486817708741619865736655897834774488397048230129041213951153229597279),
     (False, 67882995972688219712360276840479705377690289748818684913023293435519701767768, 51891996475240217344912424168125591879105831540732490679134744077936660996177),
     (False, 23255295900806183695565134109718146853381736840546153729535416519700236218763, 19140153767181499296239325850950729903334084726047275970455364331694667609155),
     (True, 70597643492864377487159217273412366349623125325077587713733707718292870904, 25870209673725791005099146413977272964973700726988415966429102470849746230763),
     (False, 5779909085074624259752913927858604924515963346298452119402774450081675650625, 16586492654914733038421171950010917443393386346348609537740207997284538925919)]
    (23217560225020900800868158653767406622250201998932074277285362442830949162511, 25336342717963585427809) = Some (16586492654914733038421171950010917443393386346348609537740207997284538925919, 51888829886389422956153650)"
  by (simp only: power_simps ed_check_def)

lemma run_ed_p_1_9: "power_run ed_check 427094198651976259540344842774561673889945192655078505504941250475370961481
    [(False, 2375911345961623924703665707348194909764232072861055170994283113842944064496, 109091342498657659941051669831408638508933163990541437520015380835749203133153),
     (True, 402378779165487495340505728433333923293019698617555272729473874512534705907, 67256788973508436796491609758235976018580535265728723188551005995433033602107),
     (False, 39065498280769169153400062702803821490777163270788464147557798058156433034225, 79595789515624708384051081365805910283368160789054788625290365614737835330399),
     (False, 54714357002670788765153991256115907072449800044411246293669639423238159834544, 92738661226271356649524419289680464301905238908537377648732134139671512462689),
     (True, 342062609469930799707927086079026997911826213654813846509327379246133331165, 13161885828497315930338179622069594602816986716662520367521160593352437861239),
     (False, 1496088719906870265989775758600995581709181071820031631197446847292850958206, 92672938966954231087446630816829768175148918641450227918942952430291590512133),
     (False, 74169778551720699041076806652239969919459224985716752788950514249468602993735, 5336162824863808408774520543149894654978572959110978044898307474619920170659),
     (True, 19682209731018559130840494443869063485564233495020474858386816229931898759, 6534086500411352515605416736540961252281407838113646525919276315765372299397),
     (False, 368715053645468146891672525815927378795145003120218589256726405209082723428, 78678461145678728276565506874783810850424238981136265485761766155548238433265),
     (True, 290202159193402531148789164098170973645384381677487456408540998479984015991, 66193207351571760760915895456705897402075121455616154391810762127362400456547),
     (False, 37839724011786284087604676124758949171964492471339986238956399580022561751514, 31597311088197662903317824254006645896954700625787065299652998370027058857637),
     (True, 116545338698508914747198674005147971864424472299591868216491113311329887666, 17857118941885755913934996461555689516774609490124423633927675041538817982329),
     (False, 2753872902760364042955405151659053911051585321980852377163747585032266545088, 32294338397354689586334010135233411745826965615842880175415626416136535543217),
     (False, 9006869980430021814639035611354310262420579591873770942277318148035330903719, 53191778784578336092435193111559535145129931313818340832078408778359895728427),
     (True, 196195614782563248624467636584105646285047451841991828320219321269143888778, 105489970001451853020552469331566980902979732019080461674609267478645350455743),
     (False, 96104438949193429340649098955955045773411462369786375892021168751531777942440, 1066350097371616244608709201357086835961572863019353798640477471761230210929)]
    (16586492654914733038421171950010917443393386346348609537740207997284538925919, 51888829886389422956153650) = Some (1066350097371616244608709201357086835961572863019353798640477471761230210929, 53134161803662769107101338298)"
  by (simp only: power_simps ed_check_def)

lemma run_ed_p_1_10: "power_run ed_check 427094198651976259540344842774561673889945192655078505504941250475370961481
    [(False, 9820209114924602324869225026719197661124433447145623700634248359046930081, 15451062292172214578687848063875692540822169175763367467861159906663917071303),
     (True, 56990586416247057424466234117560640225580740740713855866475297402715646606, 39079945980709552727829154126448901845503137050084226364366802750329737593555),
     (False, 13189520872406834391321713346698344843113377473362572666238061835855525027939, 6052533470867388388243386427431353180621175833394532827112508014776918427803),
     (False, 316370156694299499779877966929865888509667906938526587718249738075151488300, 76701031958162828537328626377738337516470723302767651810114553670707563213409),
     (True, 282908495698807255081845023601397104177152132183451519605954638915616718061, 37327648956835527861954850602035973830915837589063758778108050188192798900951),
     (False, 12033234617514008347470784719977684485792026488751663601945202978653930363163, 33267923290920006646348411955384490173081692254371029322198126365514954427027),
     (True, 122707320787955234063086911767787981158403664449958326102683845269763738000, 52811916541552230674351750521636694425773201333048980882767612662244023622987),
     (False, 24087125011412595370409273632484298944036438334666229509571463450681972526832, 93254610548912898294841235998316712458190916876777727833618819593268212059033),
     (True, 343965666612694610620640077945197886054217884153951125682016061884508160963, 74273420103513639105577701750911884783501288600259742408484593840329530206099),
     (False, 47641777346005551845412831956071252492901771155713989961294249410474073609462, 64661140882216011823084888829058062074412025337296677778637118344468271282925),
     (False, 36108366018171473125242389857491627521020750438373112928853648784321787854208, 4316640957919633527417326022940494293136556844104967943592883887724232564841),
     (False, 160921089534883083573796411448123187214122520463928249054173590511537400480, 108652917286297234562871667402246381012699472972725197960552062435511857004241),
     (False, 101953911640955315966033906762262755762113602196589448094575988116426825883918, 86733600907765515791803225465211718346131087513889359441311049185382202625717),
     (False, 64967456550591409487962621256139534694479094434466558938123866833157306241918, 84146852026386779469364033389628624797424169586072920623158127898678176919725),
     (True, 310372086487184487367831212601382649811885370664580946147442417050168043991, 30120870554414790599917219396157085023656965128991068650241534225007351359807),
     (False, 7835309380214793108804043538909833512283347466639222348946316290165294897930, 59257760405400935049071684029155055184453478307629971313701417087214409466109)]
    (1066350097371616244608709201357086835961572863019353798640477471761230210929, 53134161803662769107101338298) = Some (59257760405400935049071684029155055184453478307629971313701417087214409466109, 108818763373901351131343540835778)"
  by (simp only: power_simps ed_check_def)

lemma run_ed_p_1_11: "power_run ed_check 427094198651976259540344842774561673889945192655078505504941250475370961481
    [(True, 218569730116755933257404070927571400451073094213481946896426350960612962876, 1413649219280934531446496131273304719275850685815183126542350847550491520781),
     (False, 17258554779833544277437486202318518603017984402897048231439073753322433276, 35030720980695644378816764561547296219421716289698107714707623755379142404113),
     (False, 10597886440344814222309020844578415045934417526944501877294478507606626816611, 9083174125231035012971863669220518592960513462494751382030832059112884571091),
     (False, 712518901184814994848913217855089550241379550966051411030235379901297581327, 90122000364347544155803467365565634286218824304488674893409614619337153945635),
     (True, 332411167119003901616651309104145785695586439263064682274205723049919050860, 86716837799562774402711976388372605381530753589187952949646732582781005873155),
     (False, 64942346299182914404402958765300206578692494857986735300173152239760778278106, 86309338538265600333043781781241735353597568616633264796769968829451672180837),
     (False, 64333426989520634901507979316765378115565978145006125610334213411173520438660, 48760568120287607313244737400751252546748954040758908117490580321502832363889),
     (False, 20533293932889706573230275301759277923127274792197276988805543009673695357367, 18752600839214641451504158238092613507130635490091465246567841187716579775755),
     (True, 69168170993529856843678779955385923766932384832339644836955876884014756281, 4487855551162701382290647692735831292533838689423624501989313993105958993817),
     (False, 173939753404251595232488346776415566726526808560032078340271891682881285131, 3470059142953666683075277900049516285889329993707106351591321912957552472851),
     (True, 12799165631231599175778328784273833477211386087099007708825490161158004876, 55599644297254399380067768221438791830964206220885686812723745998587011109683),
     (False, 26697164429303492083397508210378243925862012320937773445357107249409120250747, 4276256896512921966777910784492040295702496729740251883230389088679480856683),
     (False, 157924199877733933369623770590525576561603791241060454843612514973200261186, 67806806159202063055710377076821107073929365889709913325143444887251859363461),
     (True, 250102521946563329707086086170419856023955778047733022901485373076378087462, 64445155595613281829191129197907708902090326676750298740245963975174201086865),
     (False, 35867545935982348061183152088341879884773462454334722626582200814534262291439, 95922971350517665933430365510311847653107965539844816280964768577172877295003),
     (True, 353807801993290733372576430512719218435033238378462804665174309396082609457, 113929068229529699797420013170203877784118450763377535806164697006480007464057)]
    (59257760405400935049071684029155055184453478307629971313701417087214409466109, 108818763373901351131343540835778) = Some (113929068229529699797420013170203877784118450763377535806164697006480007464057, 111430413694874983558495785815837851)"
  by (simp only: power_simps ed_check_def)

lemma run_ed_p_1_12: "power_run ed_check 427094198651976259540344842774561673889945192655078505504941250475370961481
    [(False, 112096022043843013589659093757730662647405659852858368142962014043817198757810, 97151876084447402022255475392259973320690835625504025862348352506293931795869),
     (False, 81512364867893684483760462563814318406533194072456214905970086490058962867276, 51357944849270631485319320095534754282669371783778929746672321335688037287313),
     (True, 189431596271282801535500750535185600317296998598658746231942133829189538475, 51504761583591706547536408701101016105097333222671630412155068755894286915003),
     (False, 22909513795418488583211813557907264551052440102163672588780126694776946698554, 13147773102530263327504344159677121487624124388812220260110426715028969182517),
     (True, 48495002156619880192292024879162907454236424051955915502764972649759210696, 42532873960830155040291175100454154608398784018656757614686213500177675678669),
     (False, 15623220716401623433129920896920086422793449803137205898821981882945509472054, 91901884947967633526128517083543705206406422488586378046591417639672627201069),
     (True, 338976195740054523514964811143936673606434520397548503095174584665519755751, 86314846021655829381833821792213030452103022880224679890510957296528896469791),
     (False, 64341637609395254211845760874831209722944655596696224561765551180242930473073, 81031601838926024157127552643305255085212949571097452941576627480982900117127),
     (True, 298881618604813905126880557460138399140052452381962023165734633304860665407, 59565990149262684004431425791255023790138763904481900165546217443290929776601),
     (False, 30642051679283582001371176107936597840469347116480135565738247328410395419227, 181539981528841370896392010405143427464651272142820995378620891568511594355),
     (True, 669602504325209630805247780564548843376418151278684438439572834482439133, 20576194369042005321323406879754413262613389749674551276827807808911608711321),
     (False, 3656379097235891055483716391694978611892491470629759872943158816257312314815, 17594918541358062859687974302911580657972998141100381007557325450992553076171),
     (False, 2673595066088999682795176260709012134284182012173150653565938842504046525246, 71108374410997592828092959064910722386902197489832212846433031988796782156333),
     (True, 262280216088565154414919845777581802449615652657006332644996519314757297670, 13547494505314555353564332335546720698143927910890016770158293596247968771513),
     (False, 1585035804953595767939176895205858803044264662252818178659742122207163107329, 16621207520729886235252116062600683020206437109920826252734728687185905696727),
     (True, 61306617347108045192803991496493555739212799896324674319555241361208809149, 24599783715049411654164990527693390622538588542985779900912408707697406945885)]
    (113929068229529699797420013170203877784118450763377535806164697006480007464057, 111430413694874983558495785815837851) = Some (24599783715049411654164990527693390622538588542985779900912408707697406945885, 57052371811775991581949842337708979963)"
  by (simp only: power_simps ed_check_def)

lemma run_ed_p_1_13: "power_run ed_check 427094198651976259540344842774561673889945192655078505504941250475370961481
    [(False, 5226171863839117799143501425935877625041130066588286089694122722358334480738, 36829516250710780220594809354039240191529106751320639223436334677316561148501),
     (False, 11714213606435555717552870546987407517619287696429871638790568635634196065071, 14461871592483881261971735660831462372461240489643981566949155844261368744243),
     (False, 1806217776491168934638948809335545814025432107984430536871235055935965478184, 59580163901925987449809781660550518799611933703649604900255384922047450657817),
     (True, 219758901707819920280137935437457187630541758731154931430552199480587470909, 59384539286986114462046623685623363391667423242909063887348253245747497819695),
     (False, 30455651414147800486341669978575114104274973957416699508440074676830259973684, 7158098948971886558576652146981367849817102045754648514887025370984853448793),
     (True, 26402343671483443416161117047735853443267158083395695853515629592877816968, 86442446104427366907239350503580726439769792264746636153369610961105014753169),
     (False, 64532011968471684599467551368532273871168183470897161678740837243116656159736, 95206123737383735265594978890603530954364627195886264809601608703528748795633),
     (False, 78280010809036430775591075468074476548099669060985431502934488052760239303396, 46290870977842009651219441905567801483858885668603628707966749067052151377081),
     (True, 170741909705624512767882334892939018756665281238351543244674649981947823602, 45796910907002135359556463008630531184017085385285995109024888162234071944365),
     (False, 18113128992131338858242149276399899415730104331758407899988853090344109838519, 18925848904889527251558927032832563491764017733430678968223446013598255622163),
     (True, 69807189118729851767927239979918205446544670624875299393126204473913533900, 43680681889148021210465643787893166518816456483605302979587780277143547361203),
     (False, 16477826618971256499844892333634363626060709139948016873602718411687971236161, 99063010149863439361977073546729822299749884063426620554817265029468703655631),
     (False, 84750867218909863864006962703933459305164327763679905947965147035384634736851, 7187583571531403571541192479571030223266130461352245206968650259847417526963),
     (False, 446156191999161852517691726299312862353053743124737792051096874793613391824, 23082673300399872453320408359655312087986661798854847349922983523607334609417),
     (True, 85139459188569255955715764467404994683642655515324184765393661388365608261, 1247820739513428705333943914063554994307787498311081325790949607112222869199),
     (False, 13447003229803103802242446042429090806905987103652161164077339566230258300, 55885030403390827198661044796475792737209301704752976192224170574425337248201)]
    (24599783715049411654164990527693390622538588542985779900912408707697406945885, 57052371811775991581949842337708979963) = Some (55885030403390827198661044796475792737209301704752976192224170574425337248201, 116843257470517230759833277107627990964658)"
  by (simp only: power_simps ed_check_def)

lemma run_ed_p_1_14: "power_run ed_check 427094198651976259540344842774561673889945192655078505504941250475370961481
    [(True, 206129558884283124306643343662937500570277506871017730617516268217040416169, 25038954099469458288254562946984128934245302939337638064752321068281080834919),
     (False, 5414439160091535174202654798274464726364769737769970256688767007802946841243, 33421684130539673618910053061915198821022852828531219354501376754304965023347),
     (False, 9646677743522310913480015951430861950411817225668209120989117952710667109737, 92619915905686850205649129021767970319537379204432873552606189684536995595583),
     (False, 74084929971294932476683972552569312385759500622075295532351194857162056725006, 111834671674172045682004541558353670015963724057062685698104418643762897220501),
     (True, 412497432206228327536692358944402725968535928171350825650114295292437457687, 41927681362474810558901233770005482544224610147512712285175177604325912526055),
     (False, 15181783798980726703779906001545805757280036157374805047636044720602810679145, 84172375948606243756275617837320133197375099253990053742394948130208385335815),
     (False, 61187158116758764758043400448825085593832263138391666420218380118885792854778, 80977750413936660035305063193206816157886083777252654220184206165073772981581),
     (False, 56630777674823866542593476300111308430207608321831432015483808638949041141612, 112015253291407134515564438998207235618875746745959196692992912444798182023985),
     (False, 108361607883437808688051106199902685153825917935099858151406696872124893776681, 41037558855858883095835497007071344765608773977758229929618132943568355661687),
     (True, 151365291270070499869014824705989063125686502322242259549684169635179727304, 97728951259310918215511891089543976316806403947610476648446397138707786103455),
     (False, 82483596048345547235887859780442696357484016645454260248518116350971370678214, 6120293442433010531706024161689829872621248450926808720705778420986109154853),
     (False, 323493531105723952808858114672998728635209851973352896487024809184851637522, 98091599585338563864700449322806951714699448975883639215598560463878448398853),
     (True, 361806695045704826477579640782776402593501594987481636887271635813156024771, 63138529398254038208087929730455343276242197342948488346061773220163189667935),
     (False, 34427860494026500991163414412004143815730198868041653685588681890341577236318, 51414570362755797027132370453925940601523893504077987996327556878326179748661),
     (False, 22829349250007852107224090806292843836671285395230354379772759585773202396010, 48246343998747768039029153989911253679638057025269545489768349315671039285941),
     (False, 20102493396374060759306520833269527783072657530577963272345582641073582511392, 13443027365235758617710690735036083026702903156202438579611993614039717537465)]
    (55885030403390827198661044796475792737209301704752976192224170574425337248201, 116843257470517230759833277107627990964658) = Some (13443027365235758617710690735036083026702903156202438579611993614039717537465, 478589982599238577192277103032844250991243816)"
  by (simp only: power_simps ed_check_def)

lemma run_ed_p_1_15: "power_run ed_check 427094198651976259540344842774561673889945192655078505504941250475370961481
    [(False, 1560685068667356191953517278077838179977311232878913721603571843227957356885, 5094288190720057255866228165664700896184293644057298435464830388783757628495),
     (True, 18790065425442164855394948738084332863557823602889823346718224256348669306, 101448352653255474362161454562714372315039556076751056141591762418017287430307),
     (False, 88881445389298405189369919901026548595539858190822161904121446753219447532881, 30356728427362183254141964481547826613398364510626263086244827861487337628111),
     (False, 7958496706315913620565281248073683848050604107564449201628805858401247526377, 52151714678777916517093620022923185720340113327740698312847380521262070838775),
     (False, 23488662842609393658793770319350129595088517746769773397888727326577339623598, 105925133562656190650411781454685701655157850886987474589891155557343440387621),
     (False, 96898967746154563343526168862932312205656197708042593880608160519734547860532, 23848110337895607038555914864983429469145945694081578780429697481831243333905),
     (True, 87962741161466151626250633883005550240213815617665259846397599754165484599, 36882427607679055049084078993013576130148470320869556564280883003706241382403),
     (False, 11747896382176161189898762689392946914449522677698850513101959621704905324782, 61196902614287346042225801619867791349196406810741511854308417124130082702173),
     (True, 225722173718314707767314792142283649949404281150089913663693965903308236889, 71330277127002017575113516302056233543795618841255080987997501237675728200891),
     (False, 43940898454531037589192879369048649441568758955331781402778297416015330884280, 61111498212119523672397479802838339486146877632951218224403907443473344190441),
     (False, 32252766474191375084251532121649356028363527444526916936408764401639412454987, 54087528215946073155958381366094848266149682620593789860136698574670231503155),
     (False, 25264771780004962914029662256764024114474976038453008117994510793562482475438, 3454422497939475245097952810502437080307365063314429584957310335774205128701),
     (True, 12741490530834591252787884172079222567028593543232246610537508574126943725, 57501231533071249507402569806155447708013924934939701136513029160767157826131),
     (False, 28554555407005472953600858332072695309339328120007911079309672580481122737184, 75061482390674225092760222965693113522814128777490142516882445234475611861929),
     (True, 276861086818900171886464364305154844306142503503995609360588477704824676463, 27515545535926308937322503410892203774386948920680962559862085304073803036075),
     (False, 6538488519608148777940303622291882746584423826544164487518487998354634435363, 73228955973725225002897500134571014402946676286056668771539373730441004492651)]
    (13443027365235758617710690735036083026702903156202438579611993614039717537465, 478589982599238577192277103032844250991243816) = Some (73228955973725225002897500134571014402946676286056668771539373730441004492651, 980152284363240606089783507011265026030067336294)"
  by (simp only: power_simps ed_check_def)

lemma run_ed_p_1_16: "power_run ed_check 427094198651976259540344842774561673889945192655078505504941250475370961481
    [(True, 270101891033501189308309092491437377317144773993977347204620533954620424202, 152601542187853448978894384823834346382814296877938378035810330098204564735),
     (False, 201112449317534764221509469196762883743089942492049325193731160156890164, 7944787618265426689801874799470840118240902831307408831714471606153947456953),
     (True, 29304011384826980579923000988071962375358538738932545990934987592822659922, 43212696407549048340183088799881863943380797803870698773975049607352091859437),
     (False, 16126638210870260773578285188283249191279366420220853642579413793732396190002, 71145430448210452294805149056022874037108572937901659320415379632610718057173),
     (False, 43713454925985834032709193287347408128008455504881083545664320865863539068518, 87050051216181074340539568469277498020375926540221814973312963959468008220765),
     (False, 65442393056827987620392985815999698553969925974127769998128673209245024254625, 92512564736447603948087550536168478537171847297980546094427727524618866156975),
     (True, 341228662178925529332194936797475410065788337727849538018370048603530951359, 37609090340799994068413948117007459714616060363820694041986930964516200758593),
     (False, 12215373999890003976451486779873614872480266081389101947175077606526300575681, 110701768062165793913769194160527465718637097585677872410821457371287037219111),
     (True, 408318765394818834616241685974785482019080253691235385382138158707819312302, 43592869395818373592638075423708317801563560622377129968516538277453276638195),
     (False, 16411641543716599158132488666018716596446627747118332688044068928617828932294, 24129088018652640207492990780057566407310139409365711431546068897174889792013),
     (True, 88999115392144963388608117875524820593306133129199338175807934439711016362, 60790197773277575886465245554605177717636557036405490455069885993615278440177),
     (False, 31914513069544596653225570472183009842172215481261402313021632574249585426972, 41951026389111493503745053818503403431014430706196953495844715157911231262473),
     (False, 15198694718194716283513467373387354385302819277000324519860186317022373645180, 77060391279396152825075488939385274240653426293240349784231669737718394684089),
     (False, 51284193447473470877043430591511750158389049801132085516159282679498093577495, 45301230596733068608101926095525219423301194013730194622074493052818202864411),
     (False, 17723158007559496625787182536802809024638187154844748761245023032257705032405, 81224041550134899324303008973887674139665064087297288266552091063485179482231),
     (False, 56975782794770759641531091418413062537702415193376120250051938220645046953839, 2671061329618180745943128540173869411813959564420915532455685974633346068939)]
    (73228955973725225002897500134571014402946676286056668771539373730441004492651, 980152284363240606089783507011265026030067336294) = Some (2671061329618180745943128540173869411813959564420915532455685974633346068939, 2007351878375916761271876622359070773309577904733408)"
  by (simp only: power_simps ed_check_def)

lemma run_ed_p_1_17: "power_run ed_check 427094198651976259540344842774561673889945192655078505504941250475370961481
    [(False, 61615337227047749354975225875617260389016028458646894312505821646627234980, 77747895875446438269214909763892392370976167030681820468513660868957711353681),
     (True, 286769808753912081236647751276864248773718877896002023010443910908263620784, 48875752355309939871757830869853963593084430361509727384008678131659470121529),
     (False, 20630417708429570644463258472261510480745475702513847310479575508226207494536, 69417582776280036505264694108456992410224852171346933739619333823587546700513),
     (True, 256043803022063194528425927868312320538306895719553111062746749653840301292, 104941716426279836436306336298449931753896569887733625125464185535290181791537),
     (False, 95108084835770105141793717830339113902228326188679141294247707024133296946823, 90309776578479100837588643325258065129017999105204548733750210364634079678315),
     (False, 70435344930510445208657639186761180428337447323940588510692206858890343681424, 74192594338798774692372676280320142398726752085575720076864540115897129384473),
     (True, 273656230177325479494422950204033971344388057275199370714243861458815115700, 1188509806696210650476978033865354061220524217420591674021322177887516285913),
     (False, 12199067914890348178071394204535446384203100597817713436751418979817898586, 76084777555720211152121210247564487295966653453081410957641188595356698859341),
     (False, 49993858940044458395037952268950410031668190264340660506650514017262826033596, 9158062086995183296474116827685833754134459320366243158570917193835372941073),
     (True, 33779122684572347802959335835126107169403517582892173139736845802879172807, 103406569602599389268655397570678586200090066549270649758794732870222741955427),
     (False, 92345847694846120070903529202913807428874981219291232002226284477341795441784, 50828671785725133366299989468331228970208255617437728885958789178441912054297),
     (True, 187479395076607472138194312311636359507229022485426933418559487882398145437, 28898903750496282879679321878388304113225678355916847888928122834657925688431),
     (False, 7212467133819589911966133556596848908995702019730501906825487942729146061695, 85808933282367652619278785531605832412749646795438322728754375875805045734651),
     (False, 63589603396541021926986086636877009269769158447160633267702045556276261961583, 68052807662534487900782862643392215978228943576097528628467142262968402053267),
     (True, 251009888033702588321974900081975624064199585526540361305225076809202865218, 10883884111433223667315730906048902467283898482463509180944817238766197940663),
     (False, 1023031315276872439523240911982644183661189782748734268140526912320168707631, 5144760294901772364282408473618567633164474540798402114368452765518994217931)]
    (2671061329618180745943128540173869411813959564420915532455685974633346068939, 2007351878375916761271876622359070773309577904733408) = Some (5144760294901772364282408473618567633164474540798402114368452765518994217931, 2055528323456938763542401661295688471869007774447010650)"
  by (simp only: power_simps ed_check_def)

lemma run_ed_p_1_18: "power_run ed_check 427094198651976259540344842774561673889945192655078505504941250475370961481
    [(True, 18976229636069618791379099641019616745686337134342736541700700401225688172, 10909525949548386168691328525332258314036126523250977308007417133613522629355),
     (False, 1027857405698435995207129267812493420745705415857323487769098668355551571675, 90210185720671680444399118456293231180041461549112341342551158962912021026875),
     (True, 332736435056910304060653172350821186266304386922125542980015512000690225262, 35473777925468659493192455858913558920296932341781913299141401153519128098599),
     (False, 10867658823621327930355496744088043958241783598792644173348929934163630530349, 66807974948477022782373550400361001910965881565558718022587229620111935498399),
     (True, 246418375487655530835541949219373325629829290951020565470247156822575011341, 79312720118210102190921483695527537274697912718314936291755734097886970085701),
     (False, 54325883693635732362134574054045600128954840464532208897066186266770251488743, 29363207334662175738176701975008737388551397254642481293381588306645293993187),
     (True, 108304941978781096677661364005207936871976584590248319545843488895745659915, 112065126940531526042424223033412375345577650071696475205410155407837730141277),
     (False, 108458123166415761596613054343864392865880423695312898399772538141637018377870, 115361291917393325258887505550683192057331828448495793184187222381141186933469),
     (True, 425505221051297622839174277794123923780252804638676240267710391029062228721, 25770220652076729703954283827994460942888674864077140685525943211072465597131),
     (False, 5735316435094616109568612739385888246126266457225021392643845545859772540938, 8896506518635824632252471503557819642004337646078590729625394372647992286837),
     (False, 683533985416879692297786108947205732021185951235499106389653189164471990707, 3270634289514136040657782920523117569381182486830442725595559209654771036683),
     (False, 92381515233065772967103002246679226143760422428159769957478690697529066397, 58831068447098572377176351672026065370696817470092976852248486356449789334983),
     (False, 29890596477050125535532661471205274282757817438043465813831347466097150153955, 12127046850670377601399111952288469842357163137868326475687148510484977113699),
     (False, 1270080419888993198223907298537855070630548674718050795926782333129186008092, 8874275769270908184188935443134861264243532294721441566785998064904699407985),
     (False, 680122199606095338659859863955566980557440223630981678877425379940716923959, 66771866405823745384913865893266008176508096757692179209287099812773563244043),
     (False, 38504203289565858209161167147868284713292417464429527386626981304747802875316, 19062982700936893164249770525031733872625842725087887329754823910341902028081)]
    (5144760294901772364282408473618567633164474540798402114368452765518994217931, 2055528323456938763542401661295688471869007774447010650) = Some (19062982700936893164249770525031733872625842725087887329754823910341902028081, 4209722006439810587734838602333569990387727922067477815168)"
  by (simp only: power_simps ed_check_def)

lemma run_ed_p_1_19: "power_run ed_check 427094198651976259540344842774561673889945192655078505504941250475370961481
    [(False, 3138360416931725727397420900446030953783029059343883709176253093728328068972, 102319891404868628979806100932685528597200274788253551953120647559892845497705),
     (False, 90415159153464513090079515645555374203302109742074873797489017200784217089414, 26252106810406842817318653114017037046469348289253642811714271005625672427253),
     (True, 96829779952735147631655272112033588360972070614485972525708993732681373077, 42539694043354245764428298156228308720361762160177639521841687359636435415547),
     (False, 15628231438102444741533480861344526715530470916382132053435951177844058023262, 7298012876961017116817833736953902880851091651394476276115149294234802001933),
     (False, 459970903911494998939802430381914961385016213712866775101949450938712226654, 24918802905425761976188496551454470664772191904275086604180514545327758295197),
     (False, 5362600695172045838203362263358031960753315528638317530102889352440388462579, 92828969074386298337268343198734947948682947899686878930651082401447674891867),
     (True, 342395706128577196295751044470439510004643092702868975549044651761432827712, 37901783930670076816202507891744535059531726142026751002839882051544061921651),
     (False, 12406246701214598448866330061473737496851786393003076938702931900803108566839, 15787933884063083731523860917793289395884463571981110586113620482883928423379),
     (False, 2152641497094767491581252759223320558720149776296938827788792210162826701776, 63372831996278633562927023998409462037185156093741187629387976442786756718793),
     (False, 34683853289817725238473513586635431561148367170201646324485756117817597333581, 13994427115391014544897438931103655458000929880022612602248729650544166562111),
     (False, 1691341710629372032456726819892673006520305288894284780308833595192586342186, 105605852163894932056937678669102036632116074286264756599707739718129634639293),
     (True, 389522696239271879272113437504448181837643295313802176583228809038991162393, 7792953258318192402506248742945906843063739171489836101192825421831502117019),
     (False, 524475556891158495720693767142271285913427585482631349395122856129769048686, 36510454222244557545753177085367381112249008224871749310992412418525559372333),
     (False, 11512127264433420799710164598579838596099133695317753556234288145784593175526, 3391444908789519947781968715478177066730850710392458618625210508572239126541),
     (False, 99332334748543862205452594388701392622483744730930257379212243706937588828, 113733855399803491855861407975244931413666055142075329793944192673534582765137),
     (True, 419502490640997765303389663935524269032066493935202393731989451202046660595, 51741045559351665938260127113028283849658206032324741655895138422641520268587)]
    (19062982700936893164249770525031733872625842725087887329754823910341902028081, 4209722006439810587734838602333569990387727922067477815168) = Some (51741045559351665938260127113028283849658206032324741655895138422641520268587, 17243021338377464167361898915158302680628133568788389130929289)"
  by (simp only: power_simps ed_check_def)

lemma run_ed_p_1_20: "power_run ed_check 427094198651976259540344842774561673889945192655078505504941250475370961481
    [(False, 23120195975461741629027152544373996676523163001823768714882741832599997886127, 1281180011868650444630595478451720830310410161403018414055916712227899081523),
     (True, 4725578008844062746736159662355132181917330432417689558880593713249457286, 82034532043454480294037342999242766744951365662562877786845155121216199418735),
     (False, 58118516488601347313118201123518601265199265377388623148132842136352411211282, 6110498484767490160012387194862094183338803037229949066059940975401214070989),
     (False, 322458917342972106935840567170551295976791700205312722531540697369038287298, 40652497878284694455916509182302965871476730293353521110614708928568924022517),
     (False, 14272353099674029087234781427668148379531564257665565055919663055255380715403, 88436952294238484729171400296067073817886806639615336408948778045088911066395),
     (False, 67544290655850068536538965721905203664913670530873304437562859990075012145027, 29642843034655779190120872711423060262391059387480439409824296092015036808779),
     (True, 109336366370463664876709267648661214896472991468669789433487123238071989046, 66861383986505563117482308331408288546908255908924836190168717845504591084391),
     (False, 38607513674174703659866696544035284103595351233090935481551031552578309480949, 74931516632297852043656842146587825368825464877449195857936304809325622537679),
     (True, 276381713644173266315602204370929703020425440408390043183874707215364663700, 84536554957591491022773872679833159446053723222893652882242356098214507839999),
     (False, 61717766482745301942263411118683780286996393132353714015539682597118307216265, 93662825570723469395648956651732782146893392762420115020733986478642325779031),
     (True, 345471350366794268803641479343088476266058655214422482819839322262703009366, 108789692946083672438708342565643662988460292854880802213777622769502317220243),
     (False, 102210758690491361400018872458271530249133367115328153605709150543261595711468, 17429284222239830338714962168769917735811350151224145602336360785018620028785),
     (True, 64287173908043632492549916886596355752628373891965303807354001436196077914, 13647012101339909475706741026878740918802404762863524864323803974798575217813),
     (False, 1608408143603114633585759752727941473324239662155388439692444535627236892811, 44455817729236273955704688426866812287097401340775231564928827058831537529691),
     (True, 163973393809079162273971919748291881727591955594375617690840226106600626796, 42873535862385400870569295475397005767977804929020322949604621165613685325563),
     (False, 15874487535810620817436594123789973359541379323737732719419008391647206931697, 44791489242781786909265050548923091543747540072748862133077574124394209220063)]
    (51741045559351665938260127113028283849658206032324741655895138422641520268587, 17243021338377464167361898915158302680628133568788389130929289) = Some (44791489242781786909265050548923091543747540072748862133077574124394209220063, 17656853850498523307378584489122101944963208774439310470071592510)"
  by (simp only: power_simps ed_check_def)

lemma run_ed_p_1_21: "power_run ed_check 427094198651976259540344842774561673889945192655078505504941250475370961481
    [(False, 17326550732445680592211087507670287490581812667760208883078125300176412403093, 7011010108012449295366675052212234035989141795679286681817061645826850319455),
     (True, 25859812734577490687691622819761757715094742507684066910215889940815691919, 41599346437214943269335985176841925201108572334754302293596973627811171328593),
     (False, 14944938254432491555081636844013777774653755240220752239718863447843583056995, 68442955553578565277663374118012602259203159246194237303815777524434419373139),
     (True, 252448931944031560336224226561964999077581323146708315074883724544027246303, 111989862045935245819655107794867124070064255875929176985391692104700793261765),
     (False, 108312487352769844814230464300452329910308018366299088266200686768419725148718, 43111428312042068187591432377517063048474920655567231042172106260225974564461),
     (False, 16051141864235185265781245704672440335311991263368664751523411321496185570434, 18920132259804569315768614258737812853067287572619192688969069954356508644789),
     (False, 3091501389139237405037139705617541019332011470983537212803712998258115198635, 17364286459625907262916709223841540656474419502209649122876690190511085715291),
     (True, 64047432423797067764689534596217592103715062139555061950800015160199092922, 106709049617500743892570686746210574529572076338635829306137896061235193104015),
     (False, 98338507796788389597839698293215458616523804472625122371582640088442191896879, 25560460532752166059024512366388919500430392815330470846198193266275789041883),
     (False, 5642329687197930508566069585169193819399805841209534993214107912832773180576, 106712376164323691412608983131877378949735708101580492575261519874668119964441),
     (False, 98344639099630921444333780195395450910682037286730616234779558233678761147195, 34767274707632539804949650353880568988641946971994994966360875238719381656371),
     (False, 10439084384414392216018828122881122318370260507523865529161421127762178339826, 12250687549962048527441467273582542250518375019267036893351929307712672911893),
     (False, 1296110523916768794549242435430751141567448532941779921009713020144791118784, 111448721624314943125488183995787284886705791027160970873922954044385277199417),
     (False, 107268273968505279725603690738798065169596283634526332379268337059884394397850, 22772710635225984970476670226846727287526824665216155064187402118027739720589),
     (False, 4478685487856342961644575610752935285826800559800471465574689250829528111713, 25809686641063958277258083485708375472088177256631378857986530677596184581647),
     (True, 95197931966075998999371901786790175306643064987036860682170776243433316702, 19419232893673161220677835722053384491163709809631580167057346603409087562811)]
    (44791489242781786909265050548923091543747540072748862133077574124394209220063, 17656853850498523307378584489122101944963208774439310470071592510) = Some (19419232893673161220677835722053384491163709809631580167057346603409087562811, 72322473371641951467022682067444129566569303140103415685413242924161)"
  by (simp only: power_simps ed_check_def)

lemma run_ed_p_1_22: "power_run ed_check 427094198651976259540344842774561673889945192655078505504941250475370961481
    [(False, 3256756214199026190048492507458099650176708137735982354111530012526456109619, 43001586116334059698006118021632416418498950987614820796677036205144386242859),
     (False, 15969453705344966726130882475187119092093221827323283932982776160860233833302, 90010995174830613118617195528969026856625831074095092407835364091806708210685),
     (False, 69970058453288219468949081727897940734159374334323876488266252425305295939682, 17770247765474568520304619363434123025478323839786252019487271968448159536789),
     (False, 2727144036577131348474294582734945176036420184167578988622025407185420827789, 48065247105543337114516180495608380835543182355398403694558119201372402904999),
     (False, 19951863676818558537052133531828153199883933148870336480596672219794708390145, 599968072777846552391101320883920476723717382385810874574704455671077184791),
     (True, 2212956730875236851332543941565029758591205567989811622326395311212194734, 18783464869209027112019837103896923231651912764359258796427627009736708138339),
     (False, 3047000488692341758869225495241214252588448885603894044982381706625906126525, 10615849756382961826258691359158727798145802165111405256613649610189885584471),
     (False, 973263949138398327051456485046800039777372691004230464605542546353074748845, 36069140429540684803996402120739584342844263790454023630244107316981634932031),
     (True, 133039491119707251099028973356756085855139388675854144956017766319894051505, 41557155152069536204416056485474963873434171871509600680607766749639639151421),
     (False, 14914638432628107675177436980667620589006406862225783774294809896585095395280, 534710732574991255856639317971141407552769210907976025071979522572597437801),
     (False, 2469215033722200982749205514143367094721094118662665651562688738799753641, 98210376570331147029392356756677324793940829127226610970854749710332619346983),
     (True, 362244798905457594007928174816642227556265412263727415604364649579087340956, 82600491938449780829220527561508225478695201790417058782348576431848439499335),
     (False, 58923207219195051157129872326471126357197834670782781814098196209075046660971, 33373462488292782889176464436905593308302515039873486142965162814828944421267),
     (True, 123096597630831062378821869806326823896293893615602117554104038503169984937, 1)]
    (19419232893673161220677835722053384491163709809631580167057346603409087562811, 72322473371641951467022682067444129566569303140103415685413242924161) = Some (1, 74058212732561358302231226437062788676166966415465897661863160754340907)"
  by (simp only: power_simps ed_check_def)

lemma power_ed_p_1: "(427094198651976259540344842774561673889945192655078505504941250475370961481 :: nat) ^ 74058212732561358302231226437062788676166966415465897661863160754340907 mod ed_p = 1"
proof -
  note r1 = power_run_reaches [OF ed_check run_ed_p_1_1 power_start]
  note r2 = power_run_reaches [OF ed_check run_ed_p_1_2 r1]
  note r3 = power_run_reaches [OF ed_check run_ed_p_1_3 r2]
  note r4 = power_run_reaches [OF ed_check run_ed_p_1_4 r3]
  note r5 = power_run_reaches [OF ed_check run_ed_p_1_5 r4]
  note r6 = power_run_reaches [OF ed_check run_ed_p_1_6 r5]
  note r7 = power_run_reaches [OF ed_check run_ed_p_1_7 r6]
  note r8 = power_run_reaches [OF ed_check run_ed_p_1_8 r7]
  note r9 = power_run_reaches [OF ed_check run_ed_p_1_9 r8]
  note r10 = power_run_reaches [OF ed_check run_ed_p_1_10 r9]
  note r11 = power_run_reaches [OF ed_check run_ed_p_1_11 r10]
  note r12 = power_run_reaches [OF ed_check run_ed_p_1_12 r11]
  note r13 = power_run_reaches [OF ed_check run_ed_p_1_13 r12]
  note r14 = power_run_reaches [OF ed_check run_ed_p_1_14 r13]
  note r15 = power_run_reaches [OF ed_check run_ed_p_1_15 r14]
  note r16 = power_run_reaches [OF ed_check run_ed_p_1_16 r15]
  note r17 = power_run_reaches [OF ed_check run_ed_p_1_17 r16]
  note r18 = power_run_reaches [OF ed_check run_ed_p_1_18 r17]
  note r19 = power_run_reaches [OF ed_check run_ed_p_1_19 r18]
  note r20 = power_run_reaches [OF ed_check run_ed_p_1_20 r19]
  note r21 = power_run_reaches [OF ed_check run_ed_p_1_21 r20]
  note r22 = power_run_reaches [OF ed_check run_ed_p_1_22 r21]
  show ?thesis by (rule trans [OF r22 [symmetric]]) (simp add: ed_p_def)
qed

lemma prime_ed_p: "prime_nat ed_p"
proof (rule pocklington [where certs =
    "[(74058212732561358302231226437062788676166966415465897661863160754340907 :: nat, 427094198651976259540344842774561673889945192655078505504941250475370961481 :: nat, 55540832096118778044507775605005710249233119951144946814680141076505643269084 :: nat)]"])
  have b: "(427094198651976259540344842774561673889945192655078505504941250475370961481 :: nat) - 1 = 427094198651976259540344842774561673889945192655078505504941250475370961480" by simp
  have "427094198651976259540344842774561673889945192655078505504941250475370961480 * 55540832096118778044507775605005710249233119951144946814680141076505643269084 = 409719996120619553712206717513598108624848060785013849502386565616653579131 * 57896044618658097711785492504343953926634992332820282019728792003956564819949 + (1::nat)"
    by (simp only: hex_simps)
  then have c1: "(427094198651976259540344842774561673889945192655078505504941250475370961481 - 1) * 55540832096118778044507775605005710249233119951144946814680141076505643269084 mod ed_p = (1::nat)"
    unfolding b ed_p_numeral by (rule mod_one_by) simp
  show "\<forall>(r, b, c) \<in> set [(74058212732561358302231226437062788676166966415465897661863160754340907 :: nat, 427094198651976259540344842774561673889945192655078505504941250475370961481 :: nat, 55540832096118778044507775605005710249233119951144946814680141076505643269084 :: nat)].
      prime_nat r \<and> b ^ r mod ed_p = 1 \<and> (b - 1) * c mod ed_p = 1"
    using prime_ed_74058212732561358302231226437062788676166966415465897661863160754340907 power_ed_p_1 c1 by (simp only: list.set ball_simps prod.case simp_thms)
qed (simp_all add: ed_p_def)

section \<open>The curve constants\<close>

lemma run_curve_d_10_1: "power_run ed_check 37095705934669439343138083508754565189542113879843219016388785533085940283555
    [(False, 11884157267178818009938394045686396073474740221192355047517744383113254626618, 114632246215647415544377209486832321205332626905925146385017704287037017833061),
     (False, 113484020877395304150750735852401722992614617005187850602272067026743025417829, 15257158250826269087230739434633273866020551487152820574608988610276305688279),
     (True, 4887855980484119666525867097738221295290517035083746189953001278558058167153, 39775759090595666116847373212896098028635936347162599905395200525999918081451),
     (False, 13663377365880004452780646697077411705356094645125769804037129663252641788512, 114902168836853693924862685139776853927201554728440412884305765837499437013625)]
    (37095705934669439343138083508754565189542113879843219016388785533085940283555, 1) = Some (114902168836853693924862685139776853927201554728440412884305765837499437013625, 10)"
  by (simp only: power_simps ed_check_def)

lemma power_curve_d_10: "(37095705934669439343138083508754565189542113879843219016388785533085940283555 :: nat) ^ 10 mod ed_p = 114902168836853693924862685139776853927201554728440412884305765837499437013625 mod ed_p"
proof -
  note r1 = power_run_reaches [OF ed_check run_curve_d_10_1 power_start]
  show ?thesis by (rule r1 [symmetric])
qed

lemma run_curve_d_2_254_1: "power_run ed_check 37095705934669439343138083508754565189542113879843219016388785533085940283555
    [(False, 11884157267178818009938394045686396073474740221192355047517744383113254626618, 114632246215647415544377209486832321205332626905925146385017704287037017833061),
     (False, 113484020877395304150750735852401722992614617005187850602272067026743025417829, 15257158250826269087230739434633273866020551487152820574608988610276305688279),
     (False, 2010334897867427449672115187076012395396271650861677470214471420435146691067, 54796492566592819735100556252902215869967935679571083334000815809515954590675),
     (False, 25931439853777156579476048456722806107846009545245648601954395261039538771922, 54823896953304481462853788943445337848418668633931609586217502389461783611669),
     (False, 25957383591088341863397650748290374896557477291658023983741295170424019850076, 87884640195025923011778927029684568715268395543504941988628538286563965033313),
     (False, 66703261277023872663211143058122564401158299455237978073641596484281382692675, 64936083460362558365780827871109520242908583329717874065670557642880847408819),
     (False, 36416088205551281720536669265045277230690251223279826305491483015140177922505, 56507692005548654274979686209282300646154391050001142396142121315506118870271),
     (False, 27576316109554262128250491980164015709535421207734207604070946933318080339038, 51201602187525274814879328404781698320906555762637209035081480029990635875317),
     (False, 22640614603616042261819622038461647670695975952445864887868626235888177787388, 29180410700599335802161275652968247215546957828505740347976434942071923844065),
     (False, 7353666163761050578421640816065596494165651909223506771655724265433995066650, 110731908731789645021061388448568565755192558336441986439160127357463426522525),
     (False, 105892861007588358945038646833863446198018988179278770472172289659777479752479, 62996648810435436679770601277024237620137080745983351567554550085478889568483),
     (False, 34273306470977700583765334705373754856973754034364769402244616498823592675741, 101820234557205772191662167211296803570902324362149475686741966098824336606871),
     (False, 89534269858767883952587136661535858760419710143560373676827761977151058003749, 103765999588014718807647514892059874407534279441702643947712018987558500433039),
     (False, 92988931639639831699544919522408346814790552689316718687643175584987194396981, 46230125762789931504348702992889320562644236510388037966845959167166734427583),
     (False, 18457431264264745938697551696809825610170552800080606242269106703043893190464, 35411486486701786501341216206026036779469211662077939091333857319064023689217),
     (False, 10829525431809434415621227858295383097319530739694584260694664062537740699077, 57866611128604602349878912696119558977367049016394458398248913105275211098943)]
    (37095705934669439343138083508754565189542113879843219016388785533085940283555, 1) = Some (57866611128604602349878912696119558977367049016394458398248913105275211098943, 65536)"
  by (simp only: power_simps ed_check_def)

lemma run_curve_d_2_254_2: "power_run ed_check 37095705934669439343138083508754565189542113879843219016388785533085940283555
    [(False, 28918596301050365879174836958343501811924327818742077606178604662781922618144, 81748681925200890662212068706227999081518443196848492052046698793481654607937),
     (False, 57714193089746865809793940905755152214782465366680653728637065691953727213998, 49788138303094101483294909271194087000654275091298279629854944446028658503765),
     (False, 21407841692946730172027561347826403542313895721183124833434080147354808934037, 69951794126464834267919984771833152577804131447856325745918382783249473766999),
     (False, 42258962021857848996266331710931742565552048142311378185674355324416198815927, 14041628332899272424085585224534315692825143868517593685312845500275844410555),
     (False, 1702770262959714286139778737878904553348767326996526732324337096486054593191, 17415879677256508668208214034156441125687095797658147232692035638168682673507),
     (False, 2619461026487187286741567880149387085614642294980370833736102485814579692618, 46346441988330867070915283973035103356819381593109560731516161028971290806085),
     (False, 18550426882577459017114043954775946404261300607014573991658433705949977724940, 84557262345944804444408021164922356770557051194215395797372526189665579371105),
     (False, 61748005952178073287925901954833656536712255137974156221586817244484428716925, 5192102590030004233125287311156163181486329336679779931107397501551881047375),
     (False, 232813221377722361251948587772400284395484121228402443737386765152325014055, 63899556102707990100373631975859956746800171563442158643536056615227055624235),
     (False, 35262799877068393108209962253029619812631188338664606982008171087464547064186, 38642388511049842532997249887562231067005535680249436635413389682910246842197),
     (False, 12895822155678782298549119956500682322548020507471537348145068979150897001971, 101649727853065757103260300678060763922686219792659480421587209427143193547851),
     (False, 89234655326284885238947570809438753832894450432313467511333989268513785841253, 108867395034796544402569412758695650223237354391660366716666639257113743606007),
     (False, 102356817117026992021456947221645961126214416274237202570203556522518443770676, 5463981764247350069877690113938636608608485660407696710683174392738474453001),
     (False, 257833647502805515157299928493255533871557021472980749535535671906532465373, 81639126726636526671463256207123160511169093477243193467814463688232513654047),
     (False, 57559605812345192086501839566395365334210822518363439529087802011656085134984, 8170735765650445587628494911647658115991475438259492620058471173917357486577),
     (False, 576558583507830865721634820748983817488689569563050473387207082805883387234, 61957020516837585667628192958281749631257923409067152448764916362107824914797)]
    (57866611128604602349878912696119558977367049016394458398248913105275211098943, 65536) = Some (61957020516837585667628192958281749631257923409067152448764916362107824914797, 4294967296)"
  by (simp only: power_simps ed_check_def)

lemma run_curve_d_2_254_3: "power_run ed_check 37095705934669439343138083508754565189542113879843219016388785533085940283555
    [(False, 33151421799260087938827654237623249651093969621977778600256890081190418100993, 24001112783839736510788735402276954297617801198291707727106546600181223332495),
     (False, 4974894387491119689732195691528700461275636658274062759107742865791836405233, 11402775583226237064480427144317358391994581252652328492795402271057230138791),
     (False, 1122903057176361758877279043621776459198100050558965242712785806078738224636, 18745044538490207766730372460733256261074108627383141193197586559958610814553),
     (False, 3034548362192810029882808531090377611462849489890332262000517260887665767870, 33042437874870021541295759602419307379533465038763848519589462497051398112549),
     (False, 9428992152279007256478537041184166167919716500753842356158285580910264018402, 43600193173036024095318477494772528291139809358095520561138892690074965874405),
     (False, 16417156450385829160396573190721990571402865311282452210114205391854238607267, 45582902965807721893521349155946408111172651984972270145641020397621478165259),
     (False, 17944240029487538091229203852342730180210212187166883754468973534751219955129, 83297040966843612330487602050542179233833041402873721700184996993557426400239),
     (False, 59921166286340682794342625410724921965050522293978042520522175355016569698859, 75768959184789739015248604107133216721632174415074935087208009382072847780739),
     (False, 49579683843343316936579871083528506556793696474926585704067553344992577080144, 92923160244117838300038662911122025571675226509531819310859658071698413400809),
     (False, 74570843022420410762272397829025685306552508005216918186611517745018179462094, 68360926075691372743947436969772304116626373213520871764046510964159320828069),
     (False, 40358682917866449281605662561097662919404423214326202914591481461363397127371, 11635526565827162936892424499058655732267861049269445318104848657342988820603),
     (False, 1169211811927814455668607084107006455754382983167991685432789720975497585347, 90645661537917585260597013824081794602934191985165016387301538582362285909003),
     (False, 70960253068814521203705341704112570710027939579398707150068314257819322756554, 58938993162752049117050408075342788015868527362750352093220236037739257062517),
     (False, 30000364773791760198260431640885267324955440613777771488542147767807722167678, 82671430668884199473635607093330874115720657179772186569916669117819531558445),
     (False, 59024459217008053968811282070813929650585180391125029558986271428184616497893, 109365840096641372267997944744224046433717428688328878313365033582025485083111),
     (False, 103296236028095667116440832724956713159644592489330166499998226529789281209449, 23849927364741195951623333686572855857794985239873315072205353917751292442119)]
    (61957020516837585667628192958281749631257923409067152448764916362107824914797, 4294967296) = Some (23849927364741195951623333686572855857794985239873315072205353917751292442119, 281474976710656)"
  by (simp only: power_simps ed_check_def)

lemma run_curve_d_2_254_4: "power_run ed_check 37095705934669439343138083508754565189542113879843219016388785533085940283555
    [(False, 4912417066226646962239673418977345163276603195966734632472517498117493166430, 60301741238650003329285469273662713259911758486152445206017480864429282986021),
     (False, 31403699685912877054079309015831370226029315999794148985998063019967505213473, 81916420966358239023195874349104450523952207037880629458773740824067973466687),
     (False, 57951282061979535679246903457579983659578904191262224183245652287687626199250, 60462612843542883547943802416070562003797638491025229894374847167865801079469),
     (False, 31571479329436171583793682982705351557761765741735915512902285404046441237278, 99044598011596802654420030996931073044408575987235460826751205845607939604317),
     (False, 84719366062853634857438273001893762658886381004745088329588882026735991055195, 84526291033163785770632284602802270669615319230312331178299641315751132866379),
     (False, 61702780586159348750996022805876844534887322833154279003609893603156117109429, 4704783605330373753237316467542577843740889148595908986428045312913238173399),
     (False, 191161494008625680731978375091288720963719734071357814085835103732597517194, 320153941403287101074942445972867807183247279882254051937909411615907806989),
     (False, 885194721601303411586333621763005735437394413455424024395839263574226409, 94308304653086056746392373910114899665792195597365902937139309935755185579839),
     (False, 76810569574497451569288213318071427128199172695547188953293865511425075552877, 98112072171731305389650378944468070428015089791959610550703178381748375379375),
     (False, 83131574611306506623715772537538202969304719552230988804614318580668928656128, 5507771470112097640072010886648672406648542342091647157367659581061464395681),
     (False, 261982893363362619260165045381761816728658598376880727308209873575330422351, 4935901611989888789431969953379896154439148313327403348544696463697650893563),
     (False, 210404051638727181321590800855803128651750422901271230913764217601948285941, 85848657065026945426063170796514514292271483867435986702618607595728688760951),
     (False, 63648492469669346704336586706058406058645416600557366841375449548363097404236, 106059843534487749338537301323051036805439273399810373085573834292386402616473),
     (False, 97145586409670887596470742292679568111699610221018631559031156135111124822926, 3610558526666665039372862737115447881275250708918889978490577995032936258181),
     (False, 112582240810663411546061198388721183765324352186075958868480597833633745894, 70381147101112081339643572117284999997664663420937749514737392733956433349949),
     (False, 42779311608378997782539067231077190268605662850550835628559415717314147740852, 12226894858551572502057424557981686302691164168159462463836949819709314589505)]
    (23849927364741195951623333686572855857794985239873315072205353917751292442119, 281474976710656) = Some (12226894858551572502057424557981686302691164168159462463836949819709314589505, 18446744073709551616)"
  by (simp only: power_simps ed_check_def)

lemma run_curve_d_2_254_5: "power_run ed_check 37095705934669439343138083508754565189542113879843219016388785533085940283555
    [(False, 1291080926743453644955398375065967692708581484321278130283847073350331351941, 14826778677362703193884376602193608869125890563339706621286018690781822803007),
     (False, 1898518002356346131980524669221122872290027962724205772523861646326339524692, 96846849537594238648936089337372937821136977024623479100242651343231888880633),
     (False, 81001321654491369588208346830434939495953847267932646299834179471896744888995, 70892490363090178560407916655442207427778292234693780625019958707849389358179),
     (False, 43403182574766016003910597837126130564026543680386541557416258023501265894881, 60792731082881739715540649352164801206220009150916257727634794986897302633903),
     (False, 31917173071651842635873639984169760431731386353426773008424211596890510092101, 29228706266140858839077311551957914819590977485005099569886391884540300767711),
     (False, 7378027943181993934110604814940413685674536178398895260823262474342732538782, 32604389559304985318275711228448481180881859832327563104657947791761000655285),
     (False, 9180646325123298167002733359203699039285704575676054200997098907485942869677, 108674337950977754460976941445538530565004743056253473229549763390039644858279),
     (False, 101994115546861481899478930582950555259985499694396840013011085294262152798358, 109715713430931214053516790838000990835483531579800725837957315527068449154357),
     (False, 103958205201628707569674547576148868906317158478150684385318554330387361176592, 8827578240614711766626531289027483506529441397647291020875294834269865215833),
     (False, 672983259110771405068467042354392982097187582590231259107434159822459865663, 30053648637333793939059304511193988740718703518593479945482839774179028861515),
     (False, 7800375676486499270896379544522935892091855955618874376157540217368591190241, 61251740051812596414216079560519446769757481254327827671200734108017506259807),
     (False, 32400966975261575604251259481566933571648267997225630969335544331409226780624, 37723491388965227538568224922254875299750934637434706830692962010619219940897),
     (False, 12289801591339842878686553242325312873382478396409137199140924826125804487682, 23482398920728037055484958987698233502570794262915770550510165087867136428173),
     (False, 4762182483313400198511839155962088854806945233920656127308846112948598347241, 2913449873963000395863867833627717636007759931302864581656358679616096296511),
     (False, 73305441019364064892395037744869578752423320453694725549198234605813168906, 28814273752109488018361111641197560077901799789864946887480397269968000161533),
     (False, 7170285788348466962891528852078878684772218288999176289051448407105564512830, 87227185377933875508102420316114389011900842152885979339664281599448392018749)]
    (12226894858551572502057424557981686302691164168159462463836949819709314589505, 18446744073709551616) = Some (87227185377933875508102420316114389011900842152885979339664281599448392018749, 1208925819614629174706176)"
  by (simp only: power_simps ed_check_def)

lemma run_curve_d_2_254_6: "power_run ed_check 37095705934669439343138083508754565189542113879843219016388785533085940283555
    [(False, 65708995485543338651785661368589464109961110909221126095198911708736995947650, 15035671665582883807505432099261439866403088940502000910944598161873808185301),
     (False, 1952390909640450382295949332935530777755626624811045581675457645301258437536, 11753443121135623473605194458699050594894308513679866335113192075544946049273),
     (False, 1193029904820570152838661293653752629362894832232027550471267200157101436376, 25328999641297646205512465644180506243745235430587796265914057310775505698881),
     (False, 5540604950256843565593425111170018359188845514365403362425267271807711623599, 68000295707079826968921836105193760481837788723625703118996045667524455899259),
     (False, 39933990713072949229946738677862980786003175971857549528332858011474012584888, 7185309773907929632655173671023356164830110103638638486176761733666760087657),
     (False, 445873952936488715614203374184400993752961421899454637235785788286708625842, 70354066647818897936113724726655747371564080468789768557981050865614446705533),
     (False, 42746397672653880169839011258702100692438763400462199208264546392278586123826, 102193489687138835242222638711672995380482192777945876308084980302542194804341),
     (False, 90191906918885894404847580517598535795864348102033546012586366092894884437301, 64624003536002890352876456199582974076833184122309351390798500112388783408983),
     (False, 36066901120179758749199402549138629100915472424258219503134185203818087151364, 78939549947676954343388792428961048987478162394079573596082860520252705573417),
     (False, 53815874529825660614884768434974667315138087032046326593166552593967421921060, 82668758186858300383175458569660886617578941357549396462499427175065594604009),
     (False, 59020643164583521564939992365080692498181809182590321998422844167055778764888, 53724202469606623773428478265670954259844292332902592295644776546962872570657),
     (False, 24926486342947207288296664179284695852867736825467935809418141884539127315435, 25581332695636849386736427390298248615557812438485070067461741488282450186019),
     (False, 5651548277565446976419611059651407285626704084365822014903272589572721913957, 32499224521620093019686737315952876721171104007644676355931023451918952811975),
     (False, 9121517725982030437019531307801081185973487432387716600924203897320117368262, 13662189002055701033203496342753519581186579816061464666843996540584189283349),
     (False, 1611987568039652478963426372614245195147701584975989874274302037372711066849, 34022029981273722227449974369135158826748562242479321918106665272991433114399),
     (False, 9996352355940238048502824983338503837847003681562182998935675566545854189691, 33170795209814005178986012135227831693771649629723766530373679608543207239683)]
    (87227185377933875508102420316114389011900842152885979339664281599448392018749, 1208925819614629174706176) = Some (33170795209814005178986012135227831693771649629723766530373679608543207239683, 79228162514264337593543950336)"
  by (simp only: power_simps ed_check_def)

lemma run_curve_d_2_254_7: "power_run ed_check 37095705934669439343138083508754565189542113879843219016388785533085940283555
    [(False, 9502390552746212035758925073926277231660614728769711427100471536621520407045, 53299854774906036470629588476909291483140238430469963505955295654764977659079),
     (False, 24534271190182033241853881447837542424023740706166921763835895919716398078295, 31829976712593085651177393626113183360518426558897396510547580637854191314331),
     (False, 8749711868897794944311434995047364838096267497893979302037543160207784391218, 40466033327476975156011043537098356291971531069821480007360084637203752361797),
     (False, 14141724741699901118635252238083989535976691555344264964939274085377246561857, 50347070775611396311249507724867970017753617347029354828097968805614592898623),
     (False, 21891197856265356252618882266436330803745424292851423176950284672440640863529, 69249353120481713792943056038619413259792607426669566338036084870241623816087),
     (False, 41414512331467100223698976333806865726302248294881287191618799933499078746305, 75971733145487126438046844593710254673791232025647370454490209017214451914679),
     (False, 49845410641999766129606785352748858718917228954287404818443956756189169470504, 39715038696029117413965431998762068794224005506209678710521413898476243104449),
     (False, 13621693062247471898537972537187326341093658186128381464326448223706315260968, 62362541425494740461450838887911867298771416794160255078278419007049388692337),
     (False, 33586807170184608048790122903334127010097198168054694078851011793219716396644, 77573583158530551106921556117905117206463790663618263297797597879536986819257),
     (False, 51969533011190798204128600818825942798004220145541212414735362884738826040156, 12957466869487817746332994176223644189679668738445900204589868942836418287961),
     (False, 1449977703828896597694155486295346186585263797931914846849490075015054289088, 93242820049376532404947912748663857245759570221358268606763421419764486704497),
     (False, 75084779521868545256213454757757365275498384577638082025154027807830014260313, 7967324776915820693604167375849016553863872025312278999643883331868877254935),
     (False, 548208988359799438175248636050385483387818940905122629764519812631080151889, 15704018403712782810392270449173173486727196051729002805073770873203267386903),
     (False, 2129819020008432807390087995926337080543253018135666798981623468909745583015, 88413814978423713091412809828433764371156206447123385943307359230090880798939),
     (False, 67508952731805136557112745203683726403050908074361849094133121451453811892800, 3453710091790850405208260616488243328959567296133897757214241703897164591321),
     (False, 103013197850599829312898310489974930550858088518942821380187976440232575303, 79948010181526766320012038560972146411656078254419754716229564719379390285947)]
    (33170795209814005178986012135227831693771649629723766530373679608543207239683, 79228162514264337593543950336) = Some (79948010181526766320012038560972146411656078254419754716229564719379390285947, 5192296858534827628530496329220096)"
  by (simp only: power_simps ed_check_def)

lemma run_curve_d_2_254_8: "power_run ed_check 37095705934669439343138083508754565189542113879843219016388785533085940283555
    [(False, 55199663241983080741743708424011587935867149485141309543876839632460099217684, 43498826915887574187316462065184751259048128879109824245447346571803992130577),
     (False, 16340908567427115319908860491810208077183417178628976632329324979798240694076, 81807000371759688225864614385175855468694019004012940767272856756196356508681),
     (False, 57796567571287432624456796783084774066123343777691699428097312365796498428804, 59406019261714787858775496560683463181904649519739471790205276302272317537769),
     (False, 30477687618973516555958621615465853630723598040891990416796907753894728186979, 7883391118716676775368281820554739073963772169303615271574940622846059009219),
     (False, 536719355700446695199735951685989855378233392349741341323941488250974294284, 54148353346703517840114025035848409515285581756918547390862764341432327246929),
     (False, 25321627664479096854652049364486668471229743629673631857960888917082184226316, 94351634543913825139721428625119572605036479303123438055888574355983724775273),
     (False, 76881166923788088631947590014801736481690610838248009059420766461837238104632, 30653896678107846554837511045238072132541007929112983229977670922412146416993),
     (False, 8115074075796946410851638108474024351983146265769392257218993601598581371266, 43211375709218958830840261284235934849466549339679448857820596578394214791181),
     (False, 16125652477488334998510290573253058612651358547776876514265253740941979674655, 99232813909079228966929019479754600641671895549012607563493136607924087989571),
     (False, 85041658900654129697337487275061546986772772724259510027955488066036459613792, 23561437571807061799944059487907684832515951547452977319602627838663490490825),
     (False, 4794294188028663996449636938207178261030660244016024729013327695981635145943, 2558364616445738113630073847402164064408999232675216685068548078047143546811),
     (False, 56525705286024189181982225351540292280564366702184859155462376608527828221, 77544713907659204936472271504366594646450485170818379140611536675567216308263),
     (False, 51930858961329223858102903105337998678404468229757846139421411409102799341824, 94403883809599961919803394564186157506514705316239276333857900378006111583217),
     (False, 76966339730437809950122873712007081119643655098480829406759011334126786796575, 56075000986630904908806029260835210244867700609676047991947101644067586319739),
     (False, 27155617938684818315855606309845829032529151719919254362998309110360222235258, 25265755117632924804604423017919085054779240065774389368026222897472161904437),
     (False, 5512970582609293159774640921651769868401477270077303236819255719258986431574, 83889307674379303882624146244299804938720276301975727486089951297940082947517)]
    (79948010181526766320012038560972146411656078254419754716229564719379390285947, 5192296858534827628530496329220096) = Some (83889307674379303882624146244299804938720276301975727486089951297940082947517, 340282366920938463463374607431768211456)"
  by (simp only: power_simps ed_check_def)

lemma run_curve_d_2_254_9: "power_run ed_check 37095705934669439343138083508754565189542113879843219016388785533085940283555
    [(False, 60776310268169284395365711477504187352948265418912793147603518543998040033843, 103039159205619688147968483872220731578963113304409694773238993088404253397275),
     (False, 91690791657116840616417795204680148818599800849605675803582373779291528836316, 114012806154690566134747698074975285816912330829520192945873425529266912489857),
     (False, 112260863871500979039107443669252593997128141756980001138690943480645442087495, 25580256273409323159017864677783765978320661467029019518307037513340369004939),
     (False, 5651072671054461818930543951571716882557259197804433497378502089352800176494, 82194090377415262762085235180617236235592427637219892923566836439247942236109),
     (False, 58344819041346924957490602010196976119758320191111132771942586106890305512230, 16939158957661109359723780483371088245482602707405210236927589568946768507341),
     (False, 2478019941455899774154916972347375633516369328524038006823050957763904444860, 44579352343815497436089231828373019877256035451312757836449216811211773866001),
     (False, 17162818880666652496635533388643627430006934761529023318885741738634706425560, 25107811252728940454024524314710934618938832563563661470539324486459960739121),
     (False, 5444259534955372006783749116122997497308611276740991757543296545142994841163, 57985258932760412036439374403709529179328319548539906197846254775294722331267),
     (False, 29037305360370934535992154943654425967622980167795143681119227156234783668976, 32650799251512293479006306102229814425414050034598375683592088371469171420841),
     (False, 9206800730381786468377514939714025430921784571871494321851846251106546780302, 26407578083747182638919564937479734255356609860958445376207926514506149458085),
     (False, 6022520060243174083244784462534602070916275064666259212569015295595458025794, 36646577683182275580360764709500855128027941573324182192731116164089956338213),
     (False, 11598129584976130914986315200151943283248746168135922433847871333627173183335, 104422617441264766086289776703648244040655025860302050876449902217320759333539),
     (False, 94169499014192457422278424809301180602890104159449843742387658431070008976528, 26331907545493135307301667893676773474106834185206916516131522717743275950377),
     (False, 5988054620582378241040142777734569333690699911509458508582138919043384363327, 99752924492332911320006115952894475014058771703485212299130517413845059221483),
     (False, 85935455611127249254259771261130671029479547027460283501101708935886678565814, 54452270159509654876428541761007347567436224697365889676840549936441135472317),
     (False, 25606669203863731160327154191049000005510424019407600820546593222963608229920, 35772691352581731416046607631293999744988951341776975704951051574743884000329)]
    (83889307674379303882624146244299804938720276301975727486089951297940082947517, 340282366920938463463374607431768211456) = Some (35772691352581731416046607631293999744988951341776975704951051574743884000329, 22300745198530623141535718272648361505980416)"
  by (simp only: power_simps ed_check_def)

lemma run_curve_d_2_254_10: "power_run ed_check 37095705934669439343138083508754565189542113879843219016388785533085940283555
    [(False, 11051579214400018744913591211794662707734117621860386635492380039233967864985, 106144419803024865553455902530753445133560827667040316825239858419018738936711),
     (False, 97300583567758009215161112415965239603731751839091596076757214772532922320093, 78201989730277290896863898023116126186683344052679706525509295419931083627007),
     (False, 52814930951289395925131127602856884342188844765250609735677097336431450049939, 103375037963895563439710829999509699447632687637658662784073616310737112911827),
     (False, 92289538468686292132968061807094556275174509141338364502271222782376854020817, 34011062094457200978218880410978363942926003783374749361039035244338070721263),
     (False, 9989908226133276114388996654646482012586617234276973728253232022405903753417, 113226331134222756157010522214728115116886269265428551805770235053373243283703),
     (False, 110717425918808867543661661170501351622854986835238510954150956986026035897477, 47216945299975851582572404903671299639233460997093114900650603892803888654863),
     (False, 19253818962465290676671445735219820877745237369041565955297595203876707035535, 98439016800684653455162470945575346069318273085168218131755945316325893773339),
     (False, 83686546227050992293677000845531345508999770606670094365703660837688960851199, 7574154094182388269677630332475182308019340205040717044557188770969075671219),
     (False, 495438078890211183639653735175632876210249990510697156229067853016781692433, 87243565472928352684200614093024726931405754698910578597830099015331103454127),
     (False, 65733676338022282328901833420346868200179771250620150609344080641911230436158, 76532687911391954820391492304648749485495938322443853049660407387778374700245),
     (False, 50584218296105410286729479849243840882552870989447675581944785734111357803954, 32499401239444037217098884253923035682401722438239281149421103377145502503333),
     (False, 9121616924604142842867089344358412035605769503627734107487434902914512878984, 112335441036208307279714739407688691843085947228658562833480544805426504005257),
     (False, 108981981376432755640103213661683155157336531828283224479961863422981668133917, 71050669340780448197186586192081225137444808349161552194532000272291233415583),
     (False, 43597085491968491117567537707769837043570830389784175009606399340467082472963, 65830668087396331047269320741086442766490809822766827288136559103768876152115),
     (False, 37426363833465854833342064287328643199591811320375610263398441360195235782927, 114560191937623110979755769853416547175262271754876170188938633052833012551779),
     (False, 113341400636508917770817066268367358676951501312939685087698308301698436916562, 112770912374399051528297966790898311803616384074080068230329243093632623874165)]
    (35772691352581731416046607631293999744988951341776975704951051574743884000329, 22300745198530623141535718272648361505980416) = Some (112770912374399051528297966790898311803616384074080068230329243093632623874165, 1461501637330902918203684832716283019655932542976)"
  by (simp only: power_simps ed_check_def)

lemma run_curve_d_2_254_11: "power_run ed_check 37095705934669439343138083508754565189542113879843219016388785533085940283555
    [(False, 109828562223195512001577835758205974438189112798280233361334505885218172241161, 42478297902063700686842492314084327555120762534280279075015698989450211005647),
     (False, 15583152567170067336488464921908670317597027625605453736316408051481254208534, 7558362174224668354655462060353561043672705475237485512845514697634647399077),
     (False, 493374280860107365448210896057052053966308226711134626453078157638698626245, 35805019411627967527707678010963213349188615251908578619776172205756758528919),
     (False, 11071563036051576449678662578519609401247068279902515438298022845260791185282, 9463952896371273789771935485684493441447351631436760133935847992523701727325),
     (False, 773510565485761618921685971556689966693531099827144165275225823414279231455, 80426704409866247892138297493183423499674199277326241886358390328464307064035),
     (False, 55862665790362272970361179452974786444436771492412698203694662444864748682669, 114001934878254918188132822918399650674348581683285459401357638069987746953463),
     (False, 112239456439460509513971576704855940800761014330929203107034366767768724145122, 102213181542235630928238392891221423725692491344990510772236874533288134414813),
     (False, 90226668762956413325321086939136746858368451055714899421712956044222412861576, 71207105690376055541122356649383147040624333767985893400939920914053353065721),
     (False, 43789277265811150089484852181657948796527542284766114785970859568379020536104, 35611019074713607337211780448851761426203602587100387699996109171236917372449),
     (False, 10951911204750356362790613863780804748313743105650489424417593833521316073076, 66318313671452897046400867476008513756808569182609397514907498279210851071353),
     (False, 37982894662270582065279543887915696526841184347324489148232069252407558798277, 48207046224228647430025570462951771019924952416760790091758986321769264394863),
     (False, 20069758832160275504794179081541804480557817807915507665255209345314194717816, 87318483684213220983172156789445685401266592236854604988652522190759775766001),
     (False, 65846619083655545374073148140297679811397757444238833429744773368758750149142, 27104561340530338883181977914873923786142215327669417676517480065818053864485),
     (False, 6344623802036163447121272454774846427322109935657419000077019251937046437587, 42145074586988519207243725995231411755453472825574454987986684620321702269099),
     (False, 15339625734729458799620094240316854325160841200065501794702519213440235362805, 84009558614051575355483140388927902416335258031798440675142486485950377077911),
     (False, 60950674480561319439255035613213248135162542865098999667781445432110877841330, 64131341741366542624583215977204134340058716177679081482801157316320482739581)]
    (112770912374399051528297966790898311803616384074080068230329243093632623874165, 1461501637330902918203684832716283019655932542976) = Some (64131341741366542624583215977204134340058716177679081482801157316320482739581, 95780971304118053647396689196894323976171195136475136)"
  by (simp only: power_simps ed_check_def)

lemma run_curve_d_2_254_12: "power_run ed_check 37095705934669439343138083508754565189542113879843219016388785533085940283555
    [(False, 35519084426559474807307499711109781415359242616814838261149678297702947835903, 56153190387323098034212337801092402844409461830102230979279434269158278397667),
     (False, 27231400792954886135513268434265658903439084143749896380853701239505392810110, 71010431148170578169673931277587892309942237642998980613031452919250397274109),
     (False, 43547718717765730361544838103267533560024753417522026061877707044748382155691, 68391887791018984006015913448417599786622121097439200055027539542005880384363),
     (False, 40395249333768256643362787721011578743031473882846814564628626148510363227283, 36263321357884339254886106800073906456493229210653524419975036581149695978635),
     (False, 11356807572666178544582039927355933236707567305175187151189398660680332758380, 13520909816004060424205741586036773845823571691461259632768807879147934617985),
     (False, 1578821173852689719434152645975369158446979441342041080062523124307698604211, 13088509730956474486911395985977437281312823153837479512767688339060229049747),
     (False, 1479454150155662999906958401691669260790884663459046170493218255418103082860, 48306698911329120393648873656358914361868686143789127096089063397231144815729),
     (False, 20152820240830229764963273994212360390247877497563143990236162379248026213394, 62077567589824717636229105213591880673643114444142678724886794642665641407629),
     (False, 33280549848023233530176729201380010506685781503488217839912660522775559122836, 114408249717550659207051540640409800120387402941914288162679918023471110890913),
     (False, 113040948562617111539252572617005817414320004381817077854514751573938667783236, 103673922979743550638853503132556385914833226547994079222135980438697984823641),
     (False, 92823977672439821277104717557243402100347409373280591042151290125483820963454, 2798968329227510331965770543485280146674552384604050810248133987303434209189),
     (False, 67657676440765986217893881245001500269154770478666212491550772159839758697, 17271963629668828895743931666793183272921421890422111113204850956778988344815),
     (False, 2576348087244489562775031881409677325350983418702794016237544661603053931110, 68438925586915828836136310163313294164112368253149672891538966336065737957445),
     (False, 40450833613441106427182490062335277199853268770630424577417062857466310940692, 52985709406169284414453576005239198369707814771029402378004499304457035998609),
     (False, 24245917141378003568719283374858717768203318591338826225827353785736596759878, 28395376362777250338980733033239658419476534928549479748155121123094135522437),
     (False, 6963320241430831424398927832296402413870234118666679168651769612170819717407, 28223816011461595061649990561270345023772980476533578909397333618154898114483)]
    (64131341741366542624583215977204134340058716177679081482801157316320482739581, 95780971304118053647396689196894323976171195136475136) = Some (28223816011461595061649990561270345023772980476533578909397333618154898114483, 6277101735386680763835789423207666416102355444464034512896)"
  by (simp only: power_simps ed_check_def)

lemma run_curve_d_2_254_13: "power_run ed_check 37095705934669439343138083508754565189542113879843219016388785533085940283555
    [(False, 6879431880844945285222901568183545210350643866295119894378014096819901174540, 87971990978927898518392412646123615896648797078400347848266956610731128560369),
     (False, 66835923315411681689470614444367790119044477942990685773344817967955490553217, 49318025652049843194453144783419513701133196942063569740887357297266461964295),
     (False, 21005473432915674600350231153169372057297299255460398872143118764716723500253, 2838378742919774328616105684954162426785529803545870282983828110493852952831),
     (False, 69576375565236046720818823032472521927936442713465278811356952864858693764, 92523810718274533999041605327351492733030334103001604111630486996521932718489),
     (False, 73931264270446033489672990421339431684674206876029672462678165231057805594662, 52095840594871020352984654284617458368634907480024861865286541807515911418645),
     (False, 23438359435107082830619142661000170349419180196562288830704873093898370338141, 29890089027440052307955542811046151044506197416000060076396416055560628886407),
     (False, 7715703447039726738014455923594204638915372948317593927177607361306378383481, 36983023029181491183733405607353767798099001041577321665971016518416027644711),
     (False, 11812067658385311308463982387689901981319366279369060554581235661883654286822, 64669457894743007844963173146126452868853977700245297172676694707685179449365),
     (False, 36117655462875656058481352017266376063076088346283822600624215370792318627727, 40595894081312105796548892286430299595861933676845771090962482372291570651379),
     (False, 14232635641312908009046556818499256222288087516665174834974723185132825469068, 60719531612723037982902708355596508687362184802833965602344923376228576926577),
     (False, 31840357519694111973085677726727808352337652356476517846225508567449227594747, 73522555300397920096006421375131718984868378129605623452401890048814462521123),
     (False, 46683380302615907478782113535998475121011609288884959795856442161796452302383, 20591811312257574805952165435479273131801715326892029721548233792111423904195),
     (False, 3661931448966115341258652544730902457903155957742748274688703218340597627796, 91937561032525364173309738860089646765573232552197783077422561750582023193217),
     (False, 72997345365155939352993330166553315627746162331885296062709411899976448582571, 12627142322172445465509886086198679732234095072417729137319266061543565791331),
     (False, 1376991504986287564616444091696307010982962541962348301058505547718049735721, 52354443647123618033105725153378904528181892790494857741332179026525437355103),
     (False, 23671632385716616875798243053293827134707351563631195814433029418066522669783, 32461797710931872588633918539653114666552426253581665717378452144631764338475)]
    (28223816011461595061649990561270345023772980476533578909397333618154898114483, 6277101735386680763835789423207666416102355444464034512896) = Some (32461797710931872588633918539653114666552426253581665717378452144631764338475, 411376139330301510538742295639337626245683966408394965837152256)"
  by (simp only: power_simps ed_check_def)

lemma run_curve_d_2_254_14: "power_run ed_check 37095705934669439343138083508754565189542113879843219016388785533085940283555
    [(False, 9100520748578608013561112577706831554764952963900577787557210560194587367446, 80987278122117685760715671254643392257704539832170910740968608402088577365117),
     (False, 56644104626065417497732771504102137980332698363963465676893139753478898594674, 11160985111369069860025691973984590681340911260197017622168830464742447720437),
     (False, 1075786692136631578356735250020335376342597370240257466617273714293436253254, 68609152183075888732119922091936959264677520424178194065172112901254356742877),
     (False, 40652308756887663882306227078286992539318815923243967013547397551891092870026, 82438815688521934667494758062948281878823592885217892682652789498479592339781),
     (False, 58692768883350447669893469524834919047071424032710455829344832978284140649776, 21141245129308992988212397305821745476886367455630107906939714366271540765113),
     (False, 3859954929230971913318042241218976698845420255488144042804121456934300050196, 80298238353372613952528212714168827492039860280895260218710478581996633582761),
     (False, 55684348776540708616707362898937488843112283580105719108873125759887143207032, 93142012066000818127204663876578472367726727145850232703293355587940015020385),
     (False, 74922513868134083405547862858635623357459646574808198217756874943718766488599, 111325605252882642362160462697059902264432925997613038398159023627257173025323),
     (False, 107031408333261564677407197638115305504348092906970980005625276243291775881127, 79491546315820106868141732550164977921758567281059828532148693628365234849283),
     (False, 54571136744320751077461865189992342620413069356497192368260610196907359461226, 66667704475988053080423810894119723490966063256541063278323201901435052019141),
     (False, 38384166391440551302659553389397326513666414548815052657613084134733375272207, 105374733936380170953847926943175950066888306466919986899330763439185392662995),
     (False, 95894586800360535659245548849153319094465139837582033354396608272888723567582, 37519815131447873958893781004077390844134767606606249436604190537360115783389),
     (False, 12157449932636288126512467046794927404493598305708175302801476538362701888390, 61501649660494200570301630967207843308461344059774964729842020641987881341101),
     (False, 32665900890776908747112732861376841759440732635107918597339767762551610856466, 23734039342966615611041550698397531350555764573609631411401145310884367011733),
     (False, 4864793676699216057602465827417424130528652238399064407542841337029239244344, 23303214157043848117970997012201791464190239014719409365083165208829806426377),
     (False, 4689783158986684558076026272578392776343423229572703672636015037853662669282, 28043672143627119946615459286976086745129751614777672221937283092729395132893)]
    (32461797710931872588633918539653114666552426253581665717378452144631764338475, 411376139330301510538742295639337626245683966408394965837152256) = Some (28043672143627119946615459286976086745129751614777672221937283092729395132893, 26959946667150639794667015087019630673637144422540572481103610249216)"
  by (simp only: power_simps ed_check_def)

lemma run_curve_d_2_254_15: "power_run ed_check 37095705934669439343138083508754565189542113879843219016388785533085940283555
    [(False, 6791893578216913947373473236789637565255980993728232896485369489636799049221, 71101959058112415846578218408371005803805477334880847020559383028436623129991),
     (False, 43660051521656690225954085493529828505354410841402254745837394891388250273643, 110321854304824769685683993859504772227713719025075286283857921958205133051667),
     (False, 105110043504877677275775309331785326046060961885882479068898762697430019648199, 31933700547534742652239758242339398861384285083523808442757452050198577235187),
     (False, 8806829873927029360692698330929351727508732981713723710177352564125486230432, 21838270876744089629165115224763448186799998524386525511591389131983501949033),
     (False, 4118675792338633772390510553255304279509278372556065205465584603443719977424, 109306567483385448470034885776655712099398037643566157477899792734983919972337),
     (False, 103184300185763049029734385628820303530397088929287822221639936354195945961456, 17743989237178221163708171291957384331561369771630945253638559371858177470081),
     (False, 2719090363796894370228920104631251848487829611871959738746430077274653744699, 40121032890054088878683719174141691455198752752619290032293612223990553745859),
     (False, 13901617034180315122168055974170465452353170992758651368306036674934942072354, 26212303946701238508051624984674247843387678874947084772920612965198478467989),
     (False, 5933780819742072674078125536630116647160734563524079302138613372850005600254, 32055400631577625608422061580332562717291440700438244989177095520042140370029),
     (False, 8874083855115382022177733469347714572998246737542315095998180123337707892005, 68193590262586622284543780126144714830667697498037494349458553639942718245351),
     (False, 40161342484896459432968394270422137441276427111173208204203296279912848640171, 12008576159316480653247804281451158796185895261588644517139619875944025970643),
     (False, 1245386470906089087212443141293350505157837846709593592896324337914242112021, 60936725236274778147767575401228599358289859811003236455886476196135590819591),
     (False, 32068550684070143821201237290543990509506425130262178925045895879550290775331, 73654030440672924926347378493427699317955846678183293238834052853171857651043),
     (False, 46850490701806007252693335647816314989722673042155293158102947868066526418942, 111168917197413697571628731897223899829805223578757336153425060549805612839933),
     (False, 106730332203580734985544157055928659213298785988338808715330016823046149178468, 60576602302091986300947162077999389584841354463112816080194506252840104128225),
     (False, 31690634227568995571854255287706502263565807738685872264584433104201179462879, 92907105357758687678954769060049154733184097635766011160345381622112913304283)]
    (28043672143627119946615459286976086745129751614777672221937283092729395132893, 26959946667150639794667015087019630673637144422540572481103610249216) = Some (92907105357758687678954769060049154733184097635766011160345381622112913304283, 1766847064778384329583297500742918515827483896875618958121606201292619776)"
  by (simp only: power_simps ed_check_def)

lemma run_curve_d_2_254_16: "power_run ed_check 37095705934669439343138083508754565189542113879843219016388785533085940283555
    [(False, 74545077153473921280356198262941194068385182108055701074432805921203390677428, 106161533468800658322087792030265014045243801541295495647910602243665429321745),
     (False, 97331961645055315539049389230585933101895461937193908875201641838122657805675, 61495035766753022870742453772469182651459897810166132031820360132319119023875),
     (False, 32658875479859021006194295060813500037821718666053776218462370331641981394445, 101175772314982577747864724352872079375807461281006454011097307515154072449015),
     (False, 88404458119357233292735707575781899767402236113815988218659252038836320901026, 20686881971552290675110987834394136425122706652629100009006508496437495734877),
     (False, 3695823164809268588546475483289821234037596676811441827283369334983750639153, 113159312143676637078934497180162025690811708745136253681041767137360044478735),
     (False, 110586396783860595821426002644989481382192418318400922156441165662298234988274, 61528473608069611428592179952501048379409489738595274252703766215935994644173),
     (False, 32694401573323439345898415208591494643717916068298444623216503610593350261908, 100432656250328347344319005430640675033223329227097089805809156185104856448545),
     (False, 87110600628544332870590300507493988017217218049937451443827908524467307833579, 83119832163445196219076544821455238114071100857547270013751581048963450082083),
     (False, 59666481055709049779162741377493426089049192217341682793117761233567604769341, 106621508156322808102671634562228385373687675116002931899593644380004756851671),
     (False, 98177225028125760585605808964758748492782804951005293792057444770901777385187, 78227338578109189707314002376481546052630063427761637167575148824854546101315),
     (False, 52849175978439813172525683265140051842205087783051191022125339377316400861672, 43988771178186399574123804567659684202707112078126573850372098260695974539769),
     (False, 16711089699755138325414765934142988087880400303482465149739392489654700870151, 58076527934843556125936348758503352633899251741541029226307992905781475688763),
     (False, 29128786942033069597641574027292524006478753149624697564797488735027264619808, 81768419800552398666129871756056788245057752428405242221454813004370326570585),
     (False, 57742066152517916114690137217395677972019192472685386758919787567522222830824, 889920400462501498708299868911053926068429937200151155151818170413692626273)]
    (92907105357758687678954769060049154733184097635766011160345381622112913304283, 1766847064778384329583297500742918515827483896875618958121606201292619776) = Some (889920400462501498708299868911053926068429937200151155151818170413692626273, 28948022309329048855892746252171976963317496166410141009864396001978282409984)"
  by (simp only: power_simps ed_check_def)

lemma power_curve_d_2_254: "(37095705934669439343138083508754565189542113879843219016388785533085940283555 :: nat) ^ 28948022309329048855892746252171976963317496166410141009864396001978282409984 mod ed_p = 889920400462501498708299868911053926068429937200151155151818170413692626273 mod ed_p"
proof -
  note r1 = power_run_reaches [OF ed_check run_curve_d_2_254_1 power_start]
  note r2 = power_run_reaches [OF ed_check run_curve_d_2_254_2 r1]
  note r3 = power_run_reaches [OF ed_check run_curve_d_2_254_3 r2]
  note r4 = power_run_reaches [OF ed_check run_curve_d_2_254_4 r3]
  note r5 = power_run_reaches [OF ed_check run_curve_d_2_254_5 r4]
  note r6 = power_run_reaches [OF ed_check run_curve_d_2_254_6 r5]
  note r7 = power_run_reaches [OF ed_check run_curve_d_2_254_7 r6]
  note r8 = power_run_reaches [OF ed_check run_curve_d_2_254_8 r7]
  note r9 = power_run_reaches [OF ed_check run_curve_d_2_254_9 r8]
  note r10 = power_run_reaches [OF ed_check run_curve_d_2_254_10 r9]
  note r11 = power_run_reaches [OF ed_check run_curve_d_2_254_11 r10]
  note r12 = power_run_reaches [OF ed_check run_curve_d_2_254_12 r11]
  note r13 = power_run_reaches [OF ed_check run_curve_d_2_254_13 r12]
  note r14 = power_run_reaches [OF ed_check run_curve_d_2_254_14 r13]
  note r15 = power_run_reaches [OF ed_check run_curve_d_2_254_15 r14]
  note r16 = power_run_reaches [OF ed_check run_curve_d_2_254_16 r15]
  show ?thesis by (rule r16 [symmetric])
qed

end
