(* ===== verification/Edwards.thy ===== *)
theory Edwards
  imports Complex_Main
begin

text \<open>
  The twisted Edwards curve y^2 - x^2 = 1 + d x^2 y^2 over a field in which -1 is a square and d is
  not: its addition law has no exceptions and makes the points an abelian group. The locale states
  what the field has to satisfy; the field of Ed25519 does (theory Ed25519_Field).
\<close>

section \<open>The law\<close>

type_synonym 'a edwards_point = "'a \<times> 'a"

fun edwards_curve :: "'a::field \<Rightarrow> 'a edwards_point \<Rightarrow> bool" where
  "edwards_curve d (x, y) \<longleftrightarrow> y * y - x * x = 1 + d * x * x * y * y"

fun edwards_add :: "'a::field \<Rightarrow> 'a edwards_point \<Rightarrow> 'a edwards_point \<Rightarrow> 'a edwards_point" where
  "edwards_add d (x1, y1) (x2, y2) =
     ((x1 * y2 + y1 * x2) / (1 + d * x1 * x2 * y1 * y2), (y1 * y2 + x1 * x2) / (1 - d * x1 * x2 * y1 * y2))"

definition edwards_zero :: "'a::field edwards_point" where
  "edwards_zero = (0, 1)"

fun edwards_neg :: "'a::field edwards_point \<Rightarrow> 'a edwards_point" where
  "edwards_neg (x, y) = (- x, y)"

primrec edwards_repeat :: "'a::field \<Rightarrow> nat \<Rightarrow> 'a edwards_point \<Rightarrow> 'a edwards_point" where
  "edwards_repeat d 0 P = edwards_zero"
| "edwards_repeat d (Suc n) P = edwards_add d (edwards_repeat d n P) P"

lemma edwards_add_commute: "edwards_add d P Q = edwards_add d Q P"
  by (cases P; cases Q) (simp add: ac_simps)

lemma edwards_add_zero [simp]: "edwards_add d P edwards_zero = P" "edwards_add d edwards_zero P = P"
  by (cases P; simp add: edwards_zero_def)+

lemma edwards_zero_on_curve [simp]: "edwards_curve d edwards_zero"
  by (simp add: edwards_zero_def)

lemma edwards_neg_on_curve: "edwards_curve d P \<Longrightarrow> edwards_curve d (edwards_neg P)"
  by (cases P) simp

section \<open>The identities behind the laws\<close>

lemma closure_identity:
  fixes d x1 y1 x2 y2 :: "'a::field"
  assumes "y1 * y1 - x1 * x1 = 1 + d * x1 * x1 * y1 * y1" "y2 * y2 - x2 * x2 = 1 + d * x2 * x2 * y2 * y2"
  shows "(y1 * y2 + x1 * x2) * (y1 * y2 + x1 * x2) * (1 + d * x1 * x2 * y1 * y2) * (1 + d * x1 * x2 * y1 * y2) -
    (x1 * y2 + y1 * x2) * (x1 * y2 + y1 * x2) * (1 - d * x1 * x2 * y1 * y2) * (1 - d * x1 * x2 * y1 * y2) =
    (1 - d * x1 * x2 * y1 * y2 * (d * x1 * x2 * y1 * y2)) * (1 - d * x1 * x2 * y1 * y2 * (d * x1 * x2 * y1 * y2)) +
    d * (x1 * y2 + y1 * x2) * (x1 * y2 + y1 * x2) * (y1 * y2 + x1 * x2) * (y1 * y2 + x1 * x2)"
  using assms by algebra

lemma assoc_x_identity:
  fixes d x1 y1 x2 y2 x3 y3 :: "'a::field"
  assumes "y1 * y1 - x1 * x1 = 1 + d * x1 * x1 * y1 * y1" "y2 * y2 - x2 * x2 = 1 + d * x2 * x2 * y2 * y2"
    "y3 * y3 - x3 * x3 = 1 + d * x3 * x3 * y3 * y3"
  shows "((x1 * y2 + y1 * x2) * y3 * (1 - d * x1 * x2 * y1 * y2) + (y1 * y2 + x1 * x2) * x3 * (1 + d * x1 * x2 * y1 * y2)) *
     ((1 - d * x2 * x3 * y2 * y3 * (d * x2 * x3 * y2 * y3)) + d * x1 * y1 * (x2 * y3 + y2 * x3) * (y2 * y3 + x2 * x3)) =
     (x1 * (y2 * y3 + x2 * x3) * (1 + d * x2 * x3 * y2 * y3) + y1 * (x2 * y3 + y2 * x3) * (1 - d * x2 * x3 * y2 * y3)) *
     ((1 - d * x1 * x2 * y1 * y2 * (d * x1 * x2 * y1 * y2)) + d * (x1 * y2 + y1 * x2) * (y1 * y2 + x1 * x2) * x3 * y3)"
  using assms by algebra

lemma assoc_y_identity:
  fixes d x1 y1 x2 y2 x3 y3 :: "'a::field"
  assumes "y1 * y1 - x1 * x1 = 1 + d * x1 * x1 * y1 * y1" "y2 * y2 - x2 * x2 = 1 + d * x2 * x2 * y2 * y2"
    "y3 * y3 - x3 * x3 = 1 + d * x3 * x3 * y3 * y3"
  shows "((y1 * y2 + x1 * x2) * y3 * (1 + d * x1 * x2 * y1 * y2) + (x1 * y2 + y1 * x2) * x3 * (1 - d * x1 * x2 * y1 * y2)) *
     ((1 - d * x2 * x3 * y2 * y3 * (d * x2 * x3 * y2 * y3)) - d * x1 * y1 * (x2 * y3 + y2 * x3) * (y2 * y3 + x2 * x3)) =
     (y1 * (y2 * y3 + x2 * x3) * (1 + d * x2 * x3 * y2 * y3) + x1 * (x2 * y3 + y2 * x3) * (1 - d * x2 * x3 * y2 * y3)) *
     ((1 - d * x1 * x2 * y1 * y2 * (d * x1 * x2 * y1 * y2)) - d * (x1 * y2 + y1 * x2) * (y1 * y2 + x1 * x2) * x3 * y3)"
  using assms by algebra

text \<open>Sums of fractions with the denominators of a sum of points.\<close>

lemma fractions_sum:
  fixes a b u v d x y :: "'a::field"
  assumes "u \<noteq> 0" "v \<noteq> 0"
  shows "(a / u * y + b / v * x) / (1 + d * (a / u) * x * (b / v) * y) = (a * y * v + b * x * u) / (u * v + d * a * b * x * y)"
    "(b / v * y + a / u * x) / (1 - d * (a / u) * x * (b / v) * y) = (b * y * u + a * x * v) / (u * v - d * a * b * x * y)"
proof -
  have n: "a / u * y + b / v * x = (a * y * v + b * x * u) / (u * v)" "b / v * y + a / u * x = (b * y * u + a * x * v) / (u * v)"
    and s: "1 + d * (a / u) * x * (b / v) * y = (u * v + d * a * b * x * y) / (u * v)"
      "1 - d * (a / u) * x * (b / v) * y = (u * v - d * a * b * x * y) / (u * v)"
    using assms by (simp_all add: field_simps)
  show "(a / u * y + b / v * x) / (1 + d * (a / u) * x * (b / v) * y) = (a * y * v + b * x * u) / (u * v + d * a * b * x * y)"
    "(b / v * y + a / u * x) / (1 - d * (a / u) * x * (b / v) * y) = (b * y * u + a * x * v) / (u * v - d * a * b * x * y)"
    unfolding n s using assms by simp_all
qed

lemma denominators_of_fractions:
  fixes a b u v d x y :: "'a::field"
  assumes "u \<noteq> 0" "v \<noteq> 0" "1 + d * (a / u) * x * (b / v) * y \<noteq> 0" "1 - d * (a / u) * x * (b / v) * y \<noteq> 0"
  shows "u * v + d * a * b * x * y \<noteq> 0" "u * v - d * a * b * x * y \<noteq> 0"
proof -
  have s: "1 + d * (a / u) * x * (b / v) * y = (u * v + d * a * b * x * y) / (u * v)"
      "1 - d * (a / u) * x * (b / v) * y = (u * v - d * a * b * x * y) / (u * v)"
    using assms(1,2) by (simp_all add: field_simps)
  show "u * v + d * a * b * x * y \<noteq> 0" "u * v - d * a * b * x * y \<noteq> 0"
    using assms(3,4) unfolding s by auto
qed

section \<open>The complete curve\<close>

locale complete_edwards =
  fixes d i :: "'a::field"
  assumes root: "i * i = - 1"
    and nonsquare: "w * w \<noteq> d"
    and two: "(2::'a) \<noteq> 0"
begin

lemma product_not_unit:
  assumes P: "y1 * y1 - x1 * x1 = 1 + d * x1 * x1 * y1 * y1" and Q: "y2 * y2 - x2 * x2 = 1 + d * x2 * x2 * y2 * y2"
  shows "d * x1 * x2 * y1 * y2 * (d * x1 * x2 * y1 * y2) \<noteq> 1"
proof
  define e where "e = d * x1 * x2 * y1 * y2"
  assume "d * x1 * x2 * y1 * y2 * (d * x1 * x2 * y1 * y2) = 1"
  then have ee: "e * e = 1" by (simp add: e_def)
  then have nz: "x1 \<noteq> 0" "y1 \<noteq> 0" "x2 \<noteq> 0" "y2 \<noteq> 0" by (auto simp: e_def)
  have sq: "(i * x1 + e * y1) * (i * x1 + e * y1) = d * (x1 * y1 * (i * x2 + y2)) * (x1 * y1 * (i * x2 + y2))"
    "(i * x1 - e * y1) * (i * x1 - e * y1) = d * (x1 * y1 * (i * x2 - y2)) * (x1 * y1 * (i * x2 - y2))"
    using P Q root ee e_def by algebra+
  have "w = 0" if "v * v = d * w * w" for v w :: 'a
  proof (rule ccontr)
    assume "w \<noteq> 0"
    then have "v / w * (v / w) = d" using that by (simp add: field_simps)
    then show False using nonsquare by blast
  qed
  from this [OF sq(1)] this [OF sq(2)] have "i * x2 + y2 = 0" "i * x2 - y2 = 0" using nz by simp_all
  then have "2 * y2 = 0" by algebra
  then show False using two nz by simp
qed

lemma denominators:
  assumes "edwards_curve d (x1, y1)" "edwards_curve d (x2, y2)"
  shows "1 + d * x1 * x2 * y1 * y2 \<noteq> 0" "1 - d * x1 * x2 * y1 * y2 \<noteq> 0"
proof -
  have p: "y1 * y1 - x1 * x1 = 1 + d * x1 * x1 * y1 * y1" "y2 * y2 - x2 * x2 = 1 + d * x2 * x2 * y2 * y2"
    using assms by simp_all
  note n = product_not_unit [OF p]
  show "1 + d * x1 * x2 * y1 * y2 \<noteq> 0"
  proof
    assume "1 + d * x1 * x2 * y1 * y2 = 0"
    then have "d * x1 * x2 * y1 * y2 * (d * x1 * x2 * y1 * y2) = 1" by algebra
    then show False using n by contradiction
  qed
  show "1 - d * x1 * x2 * y1 * y2 \<noteq> 0" using n by auto
qed

lemma on_curve_add: "edwards_curve d P \<Longrightarrow> edwards_curve d Q \<Longrightarrow> edwards_curve d (edwards_add d P Q)"
proof -
  assume c: "edwards_curve d P" "edwards_curve d Q"
  obtain x1 y1 where P: "P = (x1, y1)" by (cases P)
  obtain x2 y2 where Q: "Q = (x2, y2)" by (cases Q)
  define u v a b where "u = 1 + d * x1 * x2 * y1 * y2" and "v = 1 - d * x1 * x2 * y1 * y2"
    and "a = x1 * y2 + y1 * x2" and "b = y1 * y2 + x1 * x2"
  have nz: "u \<noteq> 0" "v \<noteq> 0" using denominators c unfolding P Q u_def v_def by blast+
  have "b * b * u * u - a * a * v * v = u * v * (u * v) + d * a * a * b * b"
    using closure_identity [of y1 x1 d y2 x2] c unfolding P Q u_def v_def a_def b_def by (simp add: algebra_simps)
  then have "b / v * (b / v) - a / u * (a / u) = 1 + d * (a / u) * (a / u) * (b / v) * (b / v)"
    using nz by (simp add: field_simps)
  then show ?thesis by (simp add: P Q u_def v_def a_def b_def)
qed

lemma add_assoc:
  assumes "edwards_curve d P" "edwards_curve d Q" "edwards_curve d R"
  shows "edwards_add d (edwards_add d P Q) R = edwards_add d P (edwards_add d Q R)"
proof -
  obtain x1 y1 where P: "P = (x1, y1)" by (cases P)
  obtain x2 y2 where Q: "Q = (x2, y2)" by (cases Q)
  obtain x3 y3 where R: "R = (x3, y3)" by (cases R)
  define u v a b where "u = 1 + d * x1 * x2 * y1 * y2" and "v = 1 - d * x1 * x2 * y1 * y2"
    and "a = x1 * y2 + y1 * x2" and "b = y1 * y2 + x1 * x2"
  define u' v' a' b' where "u' = 1 + d * x2 * x3 * y2 * y3" and "v' = 1 - d * x2 * x3 * y2 * y3"
    and "a' = x2 * y3 + y2 * x3" and "b' = y2 * y3 + x2 * x3"
  note defs = u_def v_def a_def b_def u'_def v'_def a'_def b'_def
  have nz: "u \<noteq> 0" "v \<noteq> 0" "u' \<noteq> 0" "v' \<noteq> 0" using denominators assms unfolding P Q R defs by blast+
  have S: "edwards_add d P Q = (a / u, b / v)" and T: "edwards_add d Q R = (a' / u', b' / v')"
    by (simp_all add: P Q R defs)
  have ST: "edwards_curve d (a / u, b / v)" "edwards_curve d (a' / u', b' / v')"
    using on_curve_add assms unfolding S [symmetric] T [symmetric] by blast+
  have l: "1 + d * (a / u) * x3 * (b / v) * y3 \<noteq> 0" "1 - d * (a / u) * x3 * (b / v) * y3 \<noteq> 0"
    using denominators [OF ST(1) assms(3) [unfolded R]] .
  have r: "1 + d * (a' / u') * x1 * (b' / v') * y1 \<noteq> 0" "1 - d * (a' / u') * x1 * (b' / v') * y1 \<noteq> 0"
    using denominators [OF ST(2) assms(1) [unfolded P]] .
  note dl = denominators_of_fractions [OF nz(1,2) l] and dr = denominators_of_fractions [OF nz(3,4) r]
  have c: "y1 * y1 - x1 * x1 = 1 + d * x1 * x1 * y1 * y1" "y2 * y2 - x2 * x2 = 1 + d * x2 * x2 * y2 * y2"
    "y3 * y3 - x3 * x3 = 1 + d * x3 * x3 * y3 * y3"
    using assms by (simp_all add: P Q R)
  have x: "(a * y3 * v + b * x3 * u) * (u' * v' + d * a' * b' * x1 * y1) = (a' * y1 * v' + b' * x1 * u') * (u * v + d * a * b * x3 * y3)"
    using assoc_x_identity [OF c] unfolding defs by (simp add: algebra_simps)
  have y: "(b * y3 * u + a * x3 * v) * (u' * v' - d * a' * b' * x1 * y1) = (b' * y1 * u' + a' * x1 * v') * (u * v - d * a * b * x3 * y3)"
    using assoc_y_identity [OF c] unfolding defs by (simp add: algebra_simps)
  have "edwards_add d (a / u, b / v) (x3, y3) = edwards_add d (a' / u', b' / v') (x1, y1)"
    unfolding edwards_add.simps fractions_sum [OF nz(1,2)] fractions_sum [OF nz(3,4)]
    using x y dl dr by (simp add: frac_eq_eq)
  then have "edwards_add d (edwards_add d P Q) R = edwards_add d (edwards_add d Q R) P" unfolding S T by (simp only: P R)
  then show ?thesis by (simp only: edwards_add_commute [of d P "edwards_add d Q R"])
qed

lemma add_neg: "edwards_curve d P \<Longrightarrow> edwards_add d P (edwards_neg P) = edwards_zero"
proof -
  assume c: "edwards_curve d P"
  obtain x y where P: "P = (x, y)" by (cases P)
  have "1 - d * x * (- x) * y * y \<noteq> 0"
    using denominators(2) [of x y "- x" y] c by (simp add: P)
  moreover have "y * y - x * x = 1 - d * x * (- x) * y * y" using c by (simp add: P)
  ultimately show ?thesis by (simp add: P edwards_zero_def mult.commute)
qed

lemma repeat_on_curve [simp]: "edwards_curve d P \<Longrightarrow> edwards_curve d (edwards_repeat d n P)"
  by (induction n) (simp_all add: on_curve_add)

lemma repeat_add: "edwards_curve d P \<Longrightarrow> edwards_repeat d (m + n) P = edwards_add d (edwards_repeat d m P) (edwards_repeat d n P)"
  by (induction n) (simp_all add: add_assoc)

lemma repeat_zero [simp]: "edwards_repeat d n edwards_zero = edwards_zero"
  by (induction n) simp_all

lemma repeat_mult: "edwards_curve d P \<Longrightarrow> edwards_repeat d (m * n) P = edwards_repeat d m (edwards_repeat d n P)"
  by (induction m) (simp_all add: repeat_add edwards_add_commute)

lemma repeat_periodic:
  assumes "edwards_curve d P" "edwards_repeat d l P = edwards_zero"
  shows "edwards_repeat d (k mod l) P = edwards_repeat d k P"
proof -
  have "edwards_repeat d k P = edwards_repeat d (k div l * l + k mod l) P" by simp
  also have "\<dots> = edwards_repeat d (k mod l) P"
    unfolding repeat_add [OF assms(1)] repeat_mult [OF assms(1)] assms(2) by simp
  finally show ?thesis by simp
qed

section \<open>Projective points\<close>

text \<open>Extended coordinates X, Y, Z, T with T Z = X Y stand for the point X / Z, Y / Z.\<close>

lemma extended_sum:
  assumes z: "Z1 \<noteq> 0" "Z2 \<noteq> 0" and t: "T1 * Z1 = X1 * Y1" "T2 * Z2 = X2 * Y2"
    and c: "edwards_curve d (X1 / Z1, Y1 / Z1)" "edwards_curve d (X2 / Z2, Y2 / Z2)"
    and A: "A = (Y1 - X1) * (Y2 - X2)" and B: "B = (Y1 + X1) * (Y2 + X2)"
    and C: "C = T1 * T2 * (d + d)" and D: "D = (Z1 + Z1) * Z2"
  shows "(D - C) * (D + C) \<noteq> 0"
    "((B - A) * (D - C)) / ((D - C) * (D + C)) = fst (edwards_add d (X1 / Z1, Y1 / Z1) (X2 / Z2, Y2 / Z2))"
    "((D + C) * (B + A)) / ((D - C) * (D + C)) = snd (edwards_add d (X1 / Z1, Y1 / Z1) (X2 / Z2, Y2 / Z2))"
proof -
  define e where "e = d * (X1 / Z1) * (X2 / Z2) * (Y1 / Z1) * (Y2 / Z2)"
  have dn: "1 + e \<noteq> 0" "1 - e \<noteq> 0" using denominators [OF c] unfolding e_def .
  have T: "T1 = X1 * Y1 / Z1" "T2 = X2 * Y2 / Z2" using t z by (simp_all add: field_simps)
  have DC: "D - C = 2 * Z1 * Z2 * (1 - e)" "D + C = 2 * Z1 * Z2 * (1 + e)"
    using z by (simp_all add: C D T e_def field_simps)
  have nz: "D - C \<noteq> 0" "D + C \<noteq> 0" unfolding DC using z dn two by simp_all
  then show "(D - C) * (D + C) \<noteq> 0" by simp
  have BA: "B - A = 2 * Z1 * Z2 * (X1 / Z1 * (Y2 / Z2) + Y1 / Z1 * (X2 / Z2))"
    "B + A = 2 * Z1 * Z2 * (Y1 / Z1 * (Y2 / Z2) + X1 / Z1 * (X2 / Z2))"
    using z by (simp_all add: A B field_simps)
  have k: "2 * Z1 * Z2 \<noteq> 0" using z two by simp
  have "((B - A) * (D - C)) / ((D - C) * (D + C)) = (B - A) / (D + C)" using nz by simp
  also have "\<dots> = (X1 / Z1 * (Y2 / Z2) + Y1 / Z1 * (X2 / Z2)) / (1 + e)" unfolding BA DC by (rule mult_divide_mult_cancel_left [OF k])
  finally show "((B - A) * (D - C)) / ((D - C) * (D + C)) = fst (edwards_add d (X1 / Z1, Y1 / Z1) (X2 / Z2, Y2 / Z2))"
    by (simp add: e_def)
  have "((D + C) * (B + A)) / ((D - C) * (D + C)) = (B + A) / (D - C)" using nz by simp
  also have "\<dots> = (Y1 / Z1 * (Y2 / Z2) + X1 / Z1 * (X2 / Z2)) / (1 - e)" unfolding BA DC by (rule mult_divide_mult_cancel_left [OF k])
  finally show "((D + C) * (B + A)) / ((D - C) * (D + C)) = snd (edwards_add d (X1 / Z1, Y1 / Z1) (X2 / Z2, Y2 / Z2))"
    by (simp add: e_def)
qed

end

end
