(* ===== verification/Ed25519_Field.thy ===== *)
theory Ed25519_Field
  imports Ed25519_Prime Edwards
begin

text \<open>
  The field of Ed25519, residues modulo 2^255 - 19, as an instance of the class \<open>field\<close>, and its curve:
  the constant d is not a square and -1 is one, so the law of the theory Edwards is complete.
\<close>

section \<open>Residues\<close>

lemma ed_p_pos [simp]: "0 < ed_p" "1 < ed_p" "2 < ed_p"
  by (simp_all add: ed_p_def)

typedef ef = "{x::nat. x < ed_p}"
  morphisms ef_val ef_abs
  by (rule exI [of _ 0]) simp

setup_lifting type_definition_ef

lift_definition ef_of :: "nat \<Rightarrow> ef" is "\<lambda>n. n mod ed_p"
  by simp

lemma ed_p_not_1 [simp]: "ed_p \<noteq> Suc 0"
  by (simp add: ed_p_def)

lemma ef_val_of [simp]: "ef_val (ef_of n) = n mod ed_p"
  by transfer simp

lemma ef_val_less [simp]: "ef_val x < ed_p"
  by transfer simp

lemma ef_of_val [simp]: "ef_of (ef_val x) = x"
  by transfer simp

lemma ef_of_eq_iff: "ef_of m = ef_of n \<longleftrightarrow> m mod ed_p = n mod ed_p"
  by transfer simp

instantiation ef :: field
begin

definition zero_ef :: ef where
  "0 = ef_of 0"

definition one_ef :: ef where
  "1 = ef_of 1"

definition plus_ef :: "ef \<Rightarrow> ef \<Rightarrow> ef" where
  "x + y = ef_of (ef_val x + ef_val y)"

definition uminus_ef :: "ef \<Rightarrow> ef" where
  "- x = ef_of (ed_p - ef_val x)"

definition minus_ef :: "ef \<Rightarrow> ef \<Rightarrow> ef" where
  "x - y = ef_of (ef_val x + (ed_p - ef_val y))"

definition times_ef :: "ef \<Rightarrow> ef \<Rightarrow> ef" where
  "x * y = ef_of (ef_val x * ef_val y)"

definition inverse_ef :: "ef \<Rightarrow> ef" where
  "inverse x = ef_of (ef_val x ^ (ed_p - 2))"

definition divide_ef :: "ef \<Rightarrow> ef \<Rightarrow> ef" where
  "divide x y = x * inverse (y :: ef)"

instance
proof
  fix a b c :: ef
  note defs = plus_ef_def times_ef_def zero_ef_def one_ef_def ef_of_eq_iff
  have one: "1 mod ed_p = 1" by simp
  have exponent: "2 < ed_p" by (simp add: ed_p_def)
  show "a + b + c = a + (b + c)" by (simp add: defs mod_simps add.assoc)
  show "a + b = b + a" by (simp add: defs add.commute)
  show "0 + a = a" by (simp add: defs)
  show "- a + a = 0"
    using ef_val_less [of a] by (simp add: defs uminus_ef_def mod_simps less_imp_le)
  show "a - b = a + - b" by (simp add: defs minus_ef_def uminus_ef_def mod_simps)
  show "a * b * c = a * (b * c)" by (simp add: defs mod_simps mult.assoc)
  show "a * b = b * a" by (simp add: defs mult.commute)
  show "1 * a = a" by (simp add: defs mod_simps one)
  show "(a + b) * c = a * c + b * c" by (simp add: defs mod_simps distrib_right)
  show "(0::ef) \<noteq> 1" by (simp add: defs one)
  show "a \<noteq> 0 \<Longrightarrow> inverse a * a = 1"
  proof -
    assume "a \<noteq> 0"
    then have "ef_val a \<noteq> 0" by (metis ef_of_val zero_ef_def)
    then have "\<not> ed_p dvd ef_val a" using ef_val_less [of a] by (meson dvd_imp_le not_le neq0_conv)
    from fermat_inverse [OF prime_ed_p this] show "inverse a * a = 1"
      by (simp add: defs inverse_ef_def mod_simps mult.commute one)
  qed
  show "inverse (0::ef) = 0" by (simp add: inverse_ef_def zero_ef_def exponent zero_power)
  show "a div b = a * inverse b" by (simp add: divide_ef_def)
qed

end

lemma ef_val_0 [simp]: "ef_val 0 = 0"
  by (simp add: zero_ef_def)

lemma ef_val_1 [simp]: "ef_val 1 = 1"
  by (simp add: one_ef_def)

lemma ef_val_add: "ef_val (x + y) = (ef_val x + ef_val y) mod ed_p"
  by (simp add: plus_ef_def)

lemma ef_val_diff: "ef_val (x - y) = (ef_val x + (ed_p - ef_val y)) mod ed_p"
  by (simp add: minus_ef_def)

lemma ef_val_mult: "ef_val (x * y) = ef_val x * ef_val y mod ed_p"
  by (simp add: times_ef_def)

lemma ef_val_inverse: "ef_val (inverse x) = ef_val x ^ (ed_p - 2) mod ed_p"
  by (simp add: inverse_ef_def)

lemma ef_val_eq_0 [simp]: "ef_val x = 0 \<longleftrightarrow> x = 0"
  by (metis ef_of_val ef_val_0)

lemma ef_val_inject: "ef_val x = ef_val y \<longleftrightarrow> x = y"
  by (metis ef_of_val)

lemma ef_of_nat: "of_nat n = ef_of n"
proof (induction n)
  case (Suc n)
  then show ?case by (simp add: plus_ef_def one_ef_def mod_simps ef_of_eq_iff)
qed (simp add: zero_ef_def)

lemma ef_val_numeral: "ef_val (numeral k) = numeral k mod ed_p"
  using ef_val_of [of "numeral k"] unfolding ef_of_nat [symmetric] by simp

section \<open>The curve\<close>

definition ed_d :: ef where
  "ed_d = of_nat 37095705934669439343138083508754565189542113879843219016388785533085940283555"

definition ed_i :: ef where
  "ed_i = of_nat 19681161376707505956807079304988542015446066515923890162744021073123829784752"

abbreviation ed_curve :: "ef edwards_point \<Rightarrow> bool" where
  "ed_curve \<equiv> edwards_curve ed_d"

abbreviation ed_add :: "ef edwards_point \<Rightarrow> ef edwards_point \<Rightarrow> ef edwards_point" where
  "ed_add \<equiv> edwards_add ed_d"

abbreviation ed_repeat :: "nat \<Rightarrow> ef edwards_point \<Rightarrow> ef edwards_point" where
  "ed_repeat \<equiv> edwards_repeat ed_d"

lemma ef_eqI: "m mod ed_p = n mod ed_p \<Longrightarrow> (of_nat m :: ef) = of_nat n"
  by (simp add: ef_of_nat ef_of_eq_iff)

lemma ef_of_nat_eq_0: "(of_nat m :: ef) = 0 \<longleftrightarrow> m mod ed_p = 0"
  by (simp add: ef_of_nat zero_ef_def ef_of_eq_iff)

lemma ef_two: "(2::ef) \<noteq> 0"
proof -
  have "(of_nat 2 :: ef) \<noteq> 0" unfolding ef_of_nat_eq_0 by (simp add: ed_p_def)
  then show ?thesis by simp
qed

lemma ef_val_power: "ef_val (x ^ n) = ef_val x ^ n mod ed_p"
  by (induction n) (simp_all add: ef_val_mult mod_mult_right_eq)

lemma ef_of_nat_val [simp]: "of_nat (ef_val x) = x"
  by (simp add: ef_of_nat)

lemma ef_fermat: "(x :: ef) ^ ed_p = x"
  using fermat_power [OF prime_ed_p, of "ef_val x"] ef_val_less [of x]
  by (simp add: ef_val_power flip: ef_val_inject)

lemma ed_i_square: "ed_i * ed_i = - 1"
proof -
  have "(19681161376707505956807079304988542015446066515923890162744021073123829784752 *
      19681161376707505956807079304988542015446066515923890162744021073123829784752 + 1) mod ed_p = 0"
    by (simp add: ed_p_def)
  then have "ed_i * ed_i + 1 = 0" unfolding ed_i_def ef_of_nat_eq_0 [symmetric] by (simp only: of_nat_add of_nat_mult of_nat_1)
  then show ?thesis by (simp only: eq_neg_iff_add_eq_0)
qed

lemma ed_d_nonzero: "ed_d \<noteq> 0"
  unfolding ed_d_def ef_of_nat_eq_0 by (simp add: ed_p_def)

lemma ed_d_power: "ed_d ^ (2 ^ 254) = - (ed_d ^ 10)"
proof -
  have "ed_d ^ 28948022309329048855892746252171976963317496166410141009864396001978282409984 = of_nat 889920400462501498708299868911053926068429937200151155151818170413692626273"
    unfolding ed_d_def of_nat_power [symmetric] by (rule ef_eqI [OF power_curve_d_2_254])
  then have s: "ed_d ^ (2 ^ 254) = of_nat 889920400462501498708299868911053926068429937200151155151818170413692626273" by (rule back_subst [of "\<lambda>n. ed_d ^ n = _"]) simp
  have t: "ed_d ^ 10 = of_nat 114902168836853693924862685139776853927201554728440412884305765837499437013625"
    unfolding ed_d_def of_nat_power [symmetric] by (rule ef_eqI [OF power_curve_d_10])
  have "(of_nat (889920400462501498708299868911053926068429937200151155151818170413692626273 + 114902168836853693924862685139776853927201554728440412884305765837499437013625) :: ef) = 0" unfolding ef_of_nat_eq_0 by (simp add: ed_p_def)
  then show ?thesis unfolding s t by (simp add: eq_neg_iff_add_eq_0)
qed

lemma ed_d_nonsquare: "w * w \<noteq> ed_d"
proof
  assume w: "w * w = ed_d"
  have e: "2 * (2::nat) ^ 254 = ed_p + 19" by (simp add: ed_p_def)
  have "ed_d ^ (2 ^ 254) = w ^ (2 * 2 ^ 254)" by (simp only: w [symmetric] power_mult power2_eq_square)
  also have "\<dots> = w ^ 20" unfolding e power_add ef_fermat by (simp only: power_Suc [symmetric]) simp
  also have "\<dots> = ed_d ^ 10" by (simp add: w [symmetric] flip: power2_eq_square power_mult)
  finally have "- (ed_d ^ 10) = ed_d ^ 10" unfolding ed_d_power .
  then have "2 * ed_d ^ 10 = 0" by (simp only: mult_2 eq_neg_iff_add_eq_0 [symmetric])
  then show False using ef_two ed_d_nonzero by simp
qed

interpretation ed: complete_edwards ed_d ed_i
  by unfold_locales (rule ed_i_square ed_d_nonsquare ef_two)+

end
