(* ===== verification/Ed25519.thy ===== *)
theory Ed25519
  imports P256_Scalars Ed25519_Field Sha2 Der
begin

text \<open>
  src/ed25519.cpp: Ed25519 on numbers of arbitrary length (BigInt), with points in extended
  coordinates X, Y, Z, T. Every operation may fail and each failure is returned. The lemmas relate
  the operations to the field and the curve of Ed25519_Field; Ed25519_Signatures states what signing
  and verifying do.
\<close>

section \<open>Constants and the field\<close>

definition ed_field_modulus_bytes :: bytes where
  "ed_field_modulus_bytes = [0x7F, 0xFF, 0xFF, 0xFF, 0xFF, 0xFF, 0xFF, 0xFF, 0xFF, 0xFF, 0xFF, 0xFF, 0xFF, 0xFF, 0xFF, 0xFF,
    0xFF, 0xFF, 0xFF, 0xFF, 0xFF, 0xFF, 0xFF, 0xFF, 0xFF, 0xFF, 0xFF, 0xFF, 0xFF, 0xFF, 0xFF, 0xED]"

definition ed_group_order_bytes :: bytes where
  "ed_group_order_bytes = [0x10, 0x00, 0x00, 0x00, 0x00, 0x00, 0x00, 0x00, 0x00, 0x00, 0x00, 0x00, 0x00, 0x00, 0x00, 0x00,
    0x14, 0xDE, 0xF9, 0xDE, 0xA2, 0xF7, 0x9C, 0xD6, 0x58, 0x12, 0x63, 0x1A, 0x5C, 0xF5, 0xD3, 0xED]"

definition ed_curve_d_bytes :: bytes where
  "ed_curve_d_bytes = [0x52, 0x03, 0x6C, 0xEE, 0x2B, 0x6F, 0xFE, 0x73, 0x8C, 0xC7, 0x40, 0x79, 0x77, 0x79, 0xE8, 0x98,
    0x00, 0x70, 0x0A, 0x4D, 0x41, 0x41, 0xD8, 0xAB, 0x75, 0xEB, 0x4D, 0xCA, 0x13, 0x59, 0x78, 0xA3]"

definition ed_sqrt_minus_one_bytes :: bytes where
  "ed_sqrt_minus_one_bytes = [0x2B, 0x83, 0x24, 0x80, 0x4F, 0xC1, 0xDF, 0x0B, 0x2B, 0x4D, 0x00, 0x99, 0x3D, 0xFB, 0xD7, 0xA7,
    0x2F, 0x43, 0x18, 0x06, 0xAD, 0x2F, 0xE4, 0x78, 0xC4, 0xEE, 0x1B, 0x27, 0x4A, 0x0E, 0xA0, 0xB0]"

definition ed_sqrt_exponent_bytes :: bytes where
  "ed_sqrt_exponent_bytes = [0x0F, 0xFF, 0xFF, 0xFF, 0xFF, 0xFF, 0xFF, 0xFF, 0xFF, 0xFF, 0xFF, 0xFF, 0xFF, 0xFF, 0xFF, 0xFF,
    0xFF, 0xFF, 0xFF, 0xFF, 0xFF, 0xFF, 0xFF, 0xFF, 0xFF, 0xFF, 0xFF, 0xFF, 0xFF, 0xFF, 0xFF, 0xFE]"

definition ed_inverse_exponent_bytes :: bytes where
  "ed_inverse_exponent_bytes = [0x7F, 0xFF, 0xFF, 0xFF, 0xFF, 0xFF, 0xFF, 0xFF, 0xFF, 0xFF, 0xFF, 0xFF, 0xFF, 0xFF, 0xFF, 0xFF,
    0xFF, 0xFF, 0xFF, 0xFF, 0xFF, 0xFF, 0xFF, 0xFF, 0xFF, 0xFF, 0xFF, 0xFF, 0xFF, 0xFF, 0xFF, 0xEB]"

definition ed_base_point_bytes :: bytes where
  "ed_base_point_bytes = [0x58, 0x66, 0x66, 0x66, 0x66, 0x66, 0x66, 0x66, 0x66, 0x66, 0x66, 0x66, 0x66, 0x66, 0x66, 0x66,
    0x66, 0x66, 0x66, 0x66, 0x66, 0x66, 0x66, 0x66, 0x66, 0x66, 0x66, 0x66, 0x66, 0x66, 0x66, 0x66]"

text \<open>Four coordinates of one type; the code's are big integers.\<close>

record 'a extended_point =
  ex_x :: 'a
  ex_y :: 'a
  ex_z :: 'a
  ex_t :: 'a

definition ed25519_error :: "error_code \<Rightarrow> string \<Rightarrow> crypto_error" where
  "ed25519_error code message = make_error code ''ed25519'' message"

definition ed_zero :: "bigint result" where
  "ed_zero = bi_from_be_bytes [0x00]"

definition ed_one :: "bigint result" where
  "ed_one = bi_from_be_bytes [0x01]"

definition ed_field_modulus :: "bigint result" where
  "ed_field_modulus = bi_from_be_bytes ed_field_modulus_bytes"

definition ed_group_order :: "bigint result" where
  "ed_group_order = bi_from_be_bytes ed_group_order_bytes"

definition ed_field_add :: "bigint \<Rightarrow> bigint \<Rightarrow> bigint result" where
  "ed_field_add lhs rhs = rbind ed_field_modulus (\<lambda>modulus. bi_mod_add lhs rhs modulus)"

definition ed_field_subtract :: "bigint \<Rightarrow> bigint \<Rightarrow> bigint result" where
  "ed_field_subtract lhs rhs = rbind ed_field_modulus (\<lambda>modulus. bi_mod_subtract lhs rhs modulus)"

definition ed_field_multiply :: "bigint \<Rightarrow> bigint \<Rightarrow> bigint result" where
  "ed_field_multiply lhs rhs = rbind ed_field_modulus (\<lambda>modulus. bi_mod_multiply lhs rhs modulus)"

definition ed_field_square :: "bigint \<Rightarrow> bigint result" where
  "ed_field_square v = ed_field_multiply v v"

definition ed_field_inverse :: "bigint \<Rightarrow> bigint result" where
  "ed_field_inverse v =
     rbind ed_field_modulus (\<lambda>modulus.
     rbind (bi_from_be_bytes ed_inverse_exponent_bytes) (\<lambda>exponent. bi_mod_exp v exponent modulus))"

definition ed_is_odd :: "bigint \<Rightarrow> bool" where
  "ed_is_odd v = (let bs = bi_to_be_bytes v in bs \<noteq> [] \<and> last bs AND 1 \<noteq> 0)"

section \<open>Little-endian numbers and scalars\<close>

definition ed_from_le_bytes :: "bytes \<Rightarrow> bigint result" where
  "ed_from_le_bytes bs = bi_from_be_bytes (rev bs)"

definition ed_to_fixed_le_bytes :: "bigint \<Rightarrow> nat \<Rightarrow> bytes result" where
  "ed_to_fixed_le_bytes v n =
     (let bs = bi_to_be_bytes v in
      if length bs > n \<and> \<not> (length bs = 1 \<and> bs ! 0 = 0)
      then Inl (ed25519_error Invalid_argument ''integer does not fit fixed-width output'')
      else Inr (map (\<lambda>i. if i < length bs then bs ! (length bs - 1 - i) else 0) [0..<n]))"

definition ed_reduce_mod_order :: "bytes \<Rightarrow> bigint result" where
  "ed_reduce_mod_order little_endian =
     rbind (ed_from_le_bytes little_endian) (\<lambda>v.
     rbind ed_group_order (\<lambda>order.
     rbind ed_zero (\<lambda>z. bi_mod_add v z order)))"

definition ed_multiply_mod_order :: "bigint \<Rightarrow> bigint \<Rightarrow> bigint result" where
  "ed_multiply_mod_order lhs rhs = rbind ed_group_order (\<lambda>order. bi_mod_multiply lhs rhs order)"

definition ed_add_mod_order :: "bigint \<Rightarrow> bigint \<Rightarrow> bigint result" where
  "ed_add_mod_order lhs rhs = rbind ed_group_order (\<lambda>order. bi_mod_add lhs rhs order)"

definition ed_scalar_is_canonical :: "bytes \<Rightarrow> bool result" where
  "ed_scalar_is_canonical little_endian =
     rbind (ed_from_le_bytes little_endian) (\<lambda>v.
     rbind ed_group_order (\<lambda>order. Inr (bi_compare v order < 0)))"

definition ed_scalar_bit :: "bytes \<Rightarrow> nat \<Rightarrow> bool" where
  "ed_scalar_bit little_endian b =
     (let byte_index = b div 8; bit_index = b mod 8 in
      byte_index < length little_endian \<and> drop_bit bit_index (little_endian ! byte_index) AND 1 \<noteq> 0)"

definition ed_clamp_scalar :: "bytes \<Rightarrow> bytes" where
  "ed_clamp_scalar scalar =
     (let s1 = scalar[0 := scalar ! 0 AND 248]; s2 = s1[31 := s1 ! 31 AND 63] in s2[31 := s2 ! 31 OR 64])"

section \<open>Points\<close>

definition ed_identity :: "bigint extended_point result" where
  "ed_identity =
     rbind ed_zero (\<lambda>z. rbind ed_one (\<lambda>one. Inr \<lparr>ex_x = z, ex_y = one, ex_z = one, ex_t = z\<rparr>))"

definition ed_make_affine_point :: "bigint \<Rightarrow> bigint \<Rightarrow> bigint extended_point result" where
  "ed_make_affine_point x y =
     rbind ed_one (\<lambda>z.
     rbind (ed_field_multiply x y) (\<lambda>t. Inr \<lparr>ex_x = x, ex_y = y, ex_z = z, ex_t = t\<rparr>))"

definition ed_point_add :: "bigint extended_point \<Rightarrow> bigint extended_point \<Rightarrow> bigint extended_point result" where
  "ed_point_add lhs rhs =
     rbind (ed_field_subtract (ex_y lhs) (ex_x lhs)) (\<lambda>y1_minus_x1.
     rbind (ed_field_subtract (ex_y rhs) (ex_x rhs)) (\<lambda>y2_minus_x2.
     rbind (ed_field_add (ex_y lhs) (ex_x lhs)) (\<lambda>y1_plus_x1.
     rbind (ed_field_add (ex_y rhs) (ex_x rhs)) (\<lambda>y2_plus_x2.
     rbind (rbind (bi_from_be_bytes ed_curve_d_bytes) (\<lambda>d. ed_field_add d d)) (\<lambda>two_d.
     rbind (ed_field_add (ex_z lhs) (ex_z lhs)) (\<lambda>two_z1.
     rbind (ed_field_multiply y1_minus_x1 y2_minus_x2) (\<lambda>a.
     rbind (ed_field_multiply y1_plus_x1 y2_plus_x2) (\<lambda>b.
     rbind (ed_field_multiply (ex_t lhs) (ex_t rhs)) (\<lambda>c0.
     rbind (ed_field_multiply two_z1 (ex_z rhs)) (\<lambda>d0.
     rbind (ed_field_multiply c0 two_d) (\<lambda>c.
     rbind (ed_field_subtract b a) (\<lambda>e.
     rbind (ed_field_subtract d0 c) (\<lambda>f.
     rbind (ed_field_add d0 c) (\<lambda>g.
     rbind (ed_field_add b a) (\<lambda>h.
     rbind (ed_field_multiply e f) (\<lambda>x3.
     rbind (ed_field_multiply g h) (\<lambda>y3.
     rbind (ed_field_multiply e h) (\<lambda>t3.
     rbind (ed_field_multiply f g) (\<lambda>z3.
       Inr \<lparr>ex_x = x3, ex_y = y3, ex_z = z3, ex_t = t3\<rparr>)))))))))))))))))))"

definition ed_bit_step ::
  "bytes \<Rightarrow> bigint extended_point \<times> bigint extended_point \<Rightarrow> nat \<Rightarrow> (bigint extended_point \<times> bigint extended_point) result" where
  "ed_bit_step scalar s b =
     rbind (if ed_scalar_bit scalar b then ed_point_add (fst s) (snd s) else Inr (fst s)) (\<lambda>next_result.
     rbind (ed_point_add (snd s) (snd s)) (\<lambda>doubled. Inr (next_result, doubled)))"

definition ed_scalar_multiply :: "bytes \<Rightarrow> bigint extended_point \<Rightarrow> bigint extended_point result" where
  "ed_scalar_multiply scalar point =
     rbind ed_identity (\<lambda>start.
     rbind (rfold (ed_bit_step scalar) (start, point) [0..<length scalar * 8]) (\<lambda>s. Inr (fst s)))"

definition ed_points_equal :: "bigint extended_point \<Rightarrow> bigint extended_point \<Rightarrow> bool result" where
  "ed_points_equal lhs rhs =
     rbind (ed_field_multiply (ex_x lhs) (ex_z rhs)) (\<lambda>left_x.
     rbind (ed_field_multiply (ex_x rhs) (ex_z lhs)) (\<lambda>right_x.
     rbind (ed_field_multiply (ex_y lhs) (ex_z rhs)) (\<lambda>left_y.
     rbind (ed_field_multiply (ex_y rhs) (ex_z lhs)) (\<lambda>right_y.
       Inr (bi_compare left_x right_x = 0 \<and> bi_compare left_y right_y = 0)))))"

section \<open>Encodings of points\<close>

text \<open>The root of the quotient: the candidate, or the candidate times the root of -1.\<close>

definition ed_square_root :: "bigint \<Rightarrow> bigint \<Rightarrow> bigint result" where
  "ed_square_root p x2 =
     rbind (bi_from_be_bytes ed_sqrt_exponent_bytes) (\<lambda>exponent.
     rbind (bi_mod_exp x2 exponent p) (\<lambda>x.
     rbind (ed_field_square x) (\<lambda>check.
       if bi_compare check x2 = 0 then Inr x
       else
         rbind (bi_from_be_bytes ed_sqrt_minus_one_bytes) (\<lambda>sqrt_minus_one.
         rbind (ed_field_multiply x sqrt_minus_one) (\<lambda>corrected.
         rbind (ed_field_square corrected) (\<lambda>check.
           if bi_compare check x2 \<noteq> 0 then Inl (ed25519_error Invalid_key ''Ed25519 point is not on the curve'')
           else Inr corrected))))))"

definition ed_decode_point :: "bytes \<Rightarrow> bigint extended_point result" where
  "ed_decode_point encoded =
     (if length encoded \<noteq> 32 then Inl (ed25519_error Invalid_key ''Ed25519 public key must be 32 bytes'')
      else
        let x_odd = (last encoded AND 0x80 \<noteq> 0);
            y_bytes = encoded[31 := encoded ! 31 AND 0x7F] in
        rbind (ed_from_le_bytes y_bytes) (\<lambda>y.
        rbind ed_field_modulus (\<lambda>p.
          if bi_compare y p \<ge> 0 then Inl (ed25519_error Invalid_key ''Ed25519 point y-coordinate is not canonical'')
          else
            rbind (ed_field_square y) (\<lambda>y2.
            rbind ed_one (\<lambda>one_value.
            rbind (bi_from_be_bytes ed_curve_d_bytes) (\<lambda>d.
            rbind (ed_field_subtract y2 one_value) (\<lambda>u.
            rbind (ed_field_multiply d y2) (\<lambda>dy2.
            rbind (ed_field_add dy2 one_value) (\<lambda>v.
            rbind (ed_field_inverse v) (\<lambda>v_inverse.
            rbind (ed_field_multiply u v_inverse) (\<lambda>x2.
            rbind (ed_square_root p x2) (\<lambda>x.
              if bi_is_zero x \<and> x_odd then Inl (ed25519_error Invalid_key ''Ed25519 point has invalid x parity'')
              else
                rbind (if ed_is_odd x \<noteq> x_odd then ed_field_subtract p x else Inr x) (\<lambda>x.
                  ed_make_affine_point x y)))))))))))))"

definition ed_encode_point :: "bigint extended_point \<Rightarrow> bytes result" where
  "ed_encode_point point =
     rbind (ed_field_inverse (ex_z point)) (\<lambda>z_inverse.
     rbind (ed_field_multiply (ex_x point) z_inverse) (\<lambda>x.
     rbind (ed_field_multiply (ex_y point) z_inverse) (\<lambda>y.
     rbind (ed_to_fixed_le_bytes y 32) (\<lambda>encoded.
       Inr (if ed_is_odd x then encoded[31 := encoded ! 31 OR 0x80] else encoded)))))"

section \<open>Hashing\<close>

text \<open>The three functions sha512: one update for each part, then the digest.\<close>

fun ed_sha512_run :: "sha512_ctx \<Rightarrow> bytes list \<Rightarrow> bytes result" where
  "ed_sha512_run c [] = fst (sha512_final c)"
| "ed_sha512_run c (part # parts) =
     (case sha512_update c part of
        (Inl e, c) \<Rightarrow> Inl e
      | (Inr u, c) \<Rightarrow> ed_sha512_run c parts)"

definition ed_sha512 :: "bytes list \<Rightarrow> bytes result" where
  "ed_sha512 parts = ed_sha512_run sha512_new parts"

section \<open>Signing and verifying\<close>

definition sign_ed25519_seed :: "bytes \<Rightarrow> bytes \<Rightarrow> bytes result" where
  "sign_ed25519_seed seed message =
     (if length seed \<noteq> 32 then Inl (ed25519_error Invalid_key ''Ed25519 private seed must be 32 bytes'')
      else
        rbind (ed_sha512 [seed]) (\<lambda>digest.
          if length digest \<noteq> 64 then Inl (ed25519_error Internal_error ''SHA-512 digest must be 64 bytes'')
          else
            let scalar_bytes = ed_clamp_scalar (take 32 digest) in
            rbind (ed_decode_point ed_base_point_bytes) (\<lambda>base.
            rbind (ed_scalar_multiply scalar_bytes base) (\<lambda>public_point.
            rbind (ed_encode_point public_point) (\<lambda>public_key.
            let prefix = take 32 (drop 32 digest) in
            rbind (ed_sha512 [prefix, message]) (\<lambda>r_digest.
            rbind (ed_reduce_mod_order r_digest) (\<lambda>r.
            rbind (ed_to_fixed_le_bytes r 32) (\<lambda>r_bytes.
            rbind (ed_scalar_multiply r_bytes base) (\<lambda>r_point.
            rbind (ed_encode_point r_point) (\<lambda>r_encoded.
            rbind (ed_sha512 [r_encoded, public_key, message]) (\<lambda>k_digest.
            rbind (ed_reduce_mod_order k_digest) (\<lambda>k.
            rbind (ed_from_le_bytes scalar_bytes) (\<lambda>a.
            rbind (ed_multiply_mod_order k a) (\<lambda>k_times_a.
            rbind (ed_add_mod_order r k_times_a) (\<lambda>s.
            rbind (ed_to_fixed_le_bytes s 32) (\<lambda>s_bytes.
              Inr (r_encoded @ s_bytes)))))))))))))))))"

definition validate_ed25519_public_key :: "bytes \<Rightarrow> unit result" where
  "validate_ed25519_public_key public_key = rbind (ed_decode_point public_key) (\<lambda>point. Inr ())"

definition verify_ed25519 :: "bytes \<Rightarrow> bytes \<Rightarrow> bytes \<Rightarrow> bool result" where
  "verify_ed25519 public_key signature message =
     (if length public_key \<noteq> 32 then Inl (ed25519_error Invalid_key ''Ed25519 public key must be 32 bytes'')
      else if length signature \<noteq> 64 then Inr False
      else
        rbind (ed_scalar_is_canonical (take 32 (drop 32 signature))) (\<lambda>s_canonical.
          if \<not> s_canonical then Inr False
          else
            rbind (ed_decode_point public_key) (\<lambda>public_point.
            (case ed_decode_point (take 32 signature) of
               Inl e \<Rightarrow> Inr False
             | Inr r_point \<Rightarrow>
                 rbind (ed_sha512 [take 32 signature, public_key, message]) (\<lambda>digest.
                 rbind (ed_reduce_mod_order digest) (\<lambda>h.
                 rbind (ed_to_fixed_le_bytes h 32) (\<lambda>h_bytes.
                 rbind (ed_decode_point ed_base_point_bytes) (\<lambda>base.
                 rbind (ed_scalar_multiply (take 32 (drop 32 signature)) base) (\<lambda>left.
                 rbind (ed_scalar_multiply h_bytes public_point) (\<lambda>h_a.
                 rbind (ed_point_add r_point h_a) (\<lambda>right.
                   ed_points_equal left right)))))))))))"

section \<open>Field elements as numbers\<close>

definition eb :: "ef \<Rightarrow> bigint" where
  "eb x = (case bi_from_be_bytes (nat_bytes (ef_val x)) of Inl e \<Rightarrow> bi_zero | Inr v \<Rightarrow> v)"

lemma eb_val [simp]: "bi_val (eb x) = ef_val x"
  using bi_from_be_bytes_val [of "nat_bytes (ef_val x)"] by (auto simp: eb_def)

lemma eb_eqI: "bi_val v = ef_val x \<Longrightarrow> v = eb x"
  using bi_val_inject [of v "eb x"] by simp

lemma eb_inject [simp]: "eb x = eb y \<longleftrightarrow> x = y"
  using eb_val ef_val_inject by metis

lemma eb_compare [simp]: "bi_compare (eb x) (eb y) = 0 \<longleftrightarrow> x = y"
  using ef_val_inject [of x y] by (auto simp: bi_compare_val split: if_splits)

lemma ed_from_be_Inr: "be_val bs = ef_val x \<Longrightarrow> bi_from_be_bytes bs = Inr (eb x)"
  using bi_from_be_bytes_val [of bs] by (auto intro: eb_eqI)

definition ed_order :: nat where
  "ed_order = 2 ^ 252 + 27742317777372353535851937790883648493"

lemma ed_byte_constants:
  "be_val ed_field_modulus_bytes = ed_p" "be_val ed_group_order_bytes = ed_order"
  "be_val ed_inverse_exponent_bytes = ed_p - 2" "be_val ed_sqrt_exponent_bytes = (ed_p + 3) div 8"
  "be_val ed_curve_d_bytes = ef_val ed_d" "be_val ed_sqrt_minus_one_bytes = ef_val ed_i"
proof -
  show "be_val ed_field_modulus_bytes = ed_p" "be_val ed_inverse_exponent_bytes = ed_p - 2"
    "be_val ed_sqrt_exponent_bytes = (ed_p + 3) div 8"
    by (simp_all add: ed_field_modulus_bytes_def ed_inverse_exponent_bytes_def ed_sqrt_exponent_bytes_def be_val_Cons ed_p_def)
  show "be_val ed_group_order_bytes = ed_order" by (simp add: ed_group_order_bytes_def be_val_Cons ed_order_def)
  show "be_val ed_curve_d_bytes = ef_val ed_d"
    unfolding ed_d_def ef_of_nat ef_val_of by (simp add: ed_curve_d_bytes_def be_val_Cons ed_p_def)
  show "be_val ed_sqrt_minus_one_bytes = ef_val ed_i"
    unfolding ed_i_def ef_of_nat ef_val_of by (simp add: ed_sqrt_minus_one_bytes_def be_val_Cons ed_p_def)
qed

lemma ed_constants [simp]:
  "ed_zero = Inr (eb 0)" "ed_one = Inr (eb 1)" "bi_from_be_bytes ed_curve_d_bytes = Inr (eb ed_d)"
  "bi_from_be_bytes ed_sqrt_minus_one_bytes = Inr (eb ed_i)"
  by (simp_all add: ed_zero_def ed_one_def ed_from_be_Inr ed_byte_constants be_val_Cons)

lemma ed_modulus: obtains m where "ed_field_modulus = Inr m" "bi_val m = ed_p"
  using bi_from_be_bytes_val [of ed_field_modulus_bytes] by (auto simp: ed_field_modulus_def ed_byte_constants)

lemma ed_order_number: obtains m where "ed_group_order = Inr m" "bi_val m = ed_order"
  using bi_from_be_bytes_val [of ed_group_order_bytes] by (auto simp: ed_group_order_def ed_byte_constants)

text \<open>The difference takes any numbers: the negation of a coordinate subtracts from the modulus.\<close>

lemma ed_field [simp]:
  "ed_field_add (eb x) (eb y) = Inr (eb (x + y))" "ed_field_subtract (eb x) (eb y) = Inr (eb (x - y))"
  "ed_field_multiply (eb x) (eb y) = Inr (eb (x * y))" "ed_field_inverse (eb x) = Inr (eb (inverse x))"
  "bi_val m = ed_p \<Longrightarrow> ed_field_subtract m (eb y) = Inr (eb (- y))"
proof -
  obtain md where md: "ed_field_modulus = Inr md" "bi_val md = ed_p" by (rule ed_modulus)
  obtain e where e: "bi_from_be_bytes ed_inverse_exponent_bytes = Inr e" "bi_val e = ed_p - 2"
    using bi_from_be_bytes_val [of ed_inverse_exponent_bytes] by (auto simp: ed_byte_constants)
  have n0: "bi_val md \<noteq> 0" using md(2) by simp
  note ops = bi_mod_add_val [OF n0, of "eb x" "eb y"] bi_mod_multiply_val [OF n0, of "eb x" "eb y"]
    bi_mod_exp_val [OF n0, of "eb x" e]
  show "ed_field_add (eb x) (eb y) = Inr (eb (x + y))" "ed_field_multiply (eb x) (eb y) = Inr (eb (x * y))"
    using ops(1,2) by (auto simp: ed_field_add_def ed_field_multiply_def md ef_val_add ef_val_mult intro!: eb_eqI)
  show "ed_field_inverse (eb x) = Inr (eb (inverse x))"
    using ops(3) by (auto simp: ed_field_inverse_def md e ef_val_inverse intro!: eb_eqI)
  have sub: "ed_field_subtract v (eb y) = Inr (eb (of_nat (bi_val v) - y))" for v
  proof -
    obtain z where z: "bi_mod_subtract v (eb y) md = Inr z" "int (bi_val z) = (int (bi_val v) - int (ef_val y)) mod int ed_p"
      using bi_mod_subtract_val [OF n0, of v "eb y"] md(2) by auto
    have "int (bi_val v + (ed_p - ef_val y)) = (int (bi_val v) - int (ef_val y)) + int ed_p"
      using ef_val_less [of y] by linarith
    then have "int ((bi_val v + (ed_p - ef_val y)) mod ed_p) = (int (bi_val v) - int (ef_val y)) mod int ed_p"
      unfolding zmod_int by (simp only: mod_add_self2)
    moreover have "ef_val (of_nat (bi_val v) - y) = (bi_val v + (ed_p - ef_val y)) mod ed_p"
      by (simp add: ef_val_diff ef_of_nat mod_add_left_eq)
    ultimately have "bi_val z = ef_val (of_nat (bi_val v) - y)" using z(2) by simp
    then show ?thesis using z(1) by (auto simp: ed_field_subtract_def md intro!: eb_eqI)
  qed
  show "ed_field_subtract (eb x) (eb y) = Inr (eb (x - y))" by (simp add: sub)
  assume "bi_val m = ed_p"
  moreover have "(of_nat ed_p :: ef) = 0" by (simp add: ef_of_nat_eq_0)
  ultimately show "ed_field_subtract m (eb y) = Inr (eb (- y))" by (simp add: sub)
qed

lemma ed_square_simp [simp]: "ed_field_square (eb x) = Inr (eb (x * x))"
  by (simp add: ed_field_square_def)

lemma ed_is_odd_iff: "ed_is_odd v \<longleftrightarrow> odd (bi_val v)"
proof -
  have ne: "bi_to_be_bytes v \<noteq> []" using bi_to_be_bytes_hd [of v] bi_to_be_bytes_val [of v] by (metis be_val_Nil not_Cons_self2)
  then obtain bs b where b: "bi_to_be_bytes v = bs @ [b]" by (metis rev_exhaust)
  have "odd (bi_val v) \<longleftrightarrow> odd (unat b)" using bi_to_be_bytes_val [of v] by (simp add: b flip: bi_to_be_bytes_val)
  moreover have "b AND 1 \<noteq> 0 \<longleftrightarrow> odd (unat b)"
    using bit_unsigned_iff [of b 0, where 'a = nat] by (simp add: and_one_eq odd_iff_mod_2_eq_one bit_0)
  ultimately show ?thesis by (simp add: ed_is_odd_def b)
qed

section \<open>Little-endian bytes\<close>

primrec le_bytes :: "nat \<Rightarrow> nat \<Rightarrow> bytes" where
  "le_bytes 0 v = []"
| "le_bytes (Suc n) v = of_nat (v mod 256) # le_bytes n (v div 256)"

lemma length_le_bytes [simp]: "length (le_bytes n v) = n"
  by (induction n arbitrary: v) simp_all

lemma le_val_le_bytes: "le_val (le_bytes n v) = v mod 256 ^ n"
proof (induction n arbitrary: v)
  case (Suc n)
  have "v mod 256 + 256 * (v div 256 mod 256 ^ n) = v mod (256 * 256 ^ n)" by (simp add: mod_mult2_eq)
  then show ?case by (simp add: Suc unat_of_nat)
qed simp

lemma le_val_bound: "le_val bs < 256 ^ length bs"
  using be_val_bound [of "rev bs"] by (simp add: le_val_rev [symmetric])

lemma le_bytes_le_val: "le_bytes (length bs) (le_val bs) = bs"
proof (induction bs)
  case (Cons b bs)
  have b: "unat b < 256" by (rule unat_u8_less)
  have "(unat b + 256 * le_val bs) mod 256 = unat b" "(unat b + 256 * le_val bs) div 256 = le_val bs"
    using b by simp_all
  then show ?case using Cons by simp
qed simp

lemma le_val_inject: "length xs = length ys \<Longrightarrow> le_val xs = le_val ys \<Longrightarrow> xs = ys"
  by (metis le_bytes_le_val)

lemma le_val_replicate: "le_val (replicate n 0) = 0"
  by (induction n) simp_all

lemma ed_from_le_val: "\<exists>v. ed_from_le_bytes bs = Inr v \<and> bi_val v = le_val bs"
  using bi_from_be_bytes_val [of "rev bs"] by (simp add: ed_from_le_bytes_def le_val_rev [symmetric])

lemma ed_to_fixed_le_val:
  assumes "bi_val v < 256 ^ n" "0 < n"
  shows "ed_to_fixed_le_bytes v n = Inr (le_bytes n (bi_val v))"
proof -
  define bs where "bs = bi_to_be_bytes v"
  have "minimal_bytes (bi_val v) bs"
    using bi_to_be_bytes_hd [of v] bi_to_be_bytes_val [of v]
    by (auto simp: minimal_bytes_def bs_def split: if_splits)
  then have l: "length bs \<le> n" using nat_bytes_length [OF assms] by (simp add: minimal_bytes_iff)
  define out where "out = map (\<lambda>i. if i < length bs then bs ! (length bs - 1 - i) else 0) [0..<n]"
  have "out = rev bs @ replicate (n - length bs) 0"
    by (rule nth_equalityI) (use l in \<open>auto simp: out_def nth_append rev_nth\<close>)
  then have "le_val out = bi_val v"
    by (simp add: le_val_append le_val_rev bs_def bi_to_be_bytes_val) (simp add: le_val_replicate)
  then have "out = le_bytes n (bi_val v)" using le_bytes_le_val [of out] by (simp add: out_def)
  then show ?thesis using l by (simp add: ed_to_fixed_le_bytes_def Let_def bs_def [symmetric] out_def [symmetric])
qed

section \<open>Sums and multiples of points\<close>

definition map_ext :: "('a \<Rightarrow> 'b) \<Rightarrow> 'a extended_point \<Rightarrow> 'b extended_point" where
  "map_ext f E = \<lparr>ex_x = f (ex_x E), ex_y = f (ex_y E), ex_z = f (ex_z E), ex_t = f (ex_t E)\<rparr>"

lemma map_ext_simps [simp]:
  "ex_x (map_ext f E) = f (ex_x E)" "ex_y (map_ext f E) = f (ex_y E)" "ex_z (map_ext f E) = f (ex_z E)" "ex_t (map_ext f E) = f (ex_t E)"
  by (simp_all add: map_ext_def)

definition ext_point :: "ef extended_point \<Rightarrow> ef edwards_point" where
  "ext_point E = (ex_x E / ex_z E, ex_y E / ex_z E)"

definition ext_ok :: "ef extended_point \<Rightarrow> bool" where
  "ext_ok E \<longleftrightarrow> ex_z E \<noteq> 0 \<and> ex_t E * ex_z E = ex_x E * ex_y E \<and> ed_curve (ext_point E)"

text \<open>A big extended point that stands for a point of the curve.\<close>

definition ext_denotes :: "bigint extended_point \<Rightarrow> ef edwards_point \<Rightarrow> bool" where
  "ext_denotes B P \<longleftrightarrow> (\<exists>E. B = map_ext eb E \<and> ext_ok E \<and> ext_point E = P)"

lemma ext_denotes_on_curve: "ext_denotes B P \<Longrightarrow> ed_curve P"
  by (auto simp: ext_denotes_def ext_ok_def)

definition ext_add :: "ef extended_point \<Rightarrow> ef extended_point \<Rightarrow> ef extended_point" where
  "ext_add P Q =
     (let a = (ex_y P - ex_x P) * (ex_y Q - ex_x Q); b = (ex_y P + ex_x P) * (ex_y Q + ex_x Q);
          c = ex_t P * ex_t Q * (ed_d + ed_d); d = (ex_z P + ex_z P) * ex_z Q
      in \<lparr>ex_x = (b - a) * (d - c), ex_y = (d + c) * (b + a), ex_z = (d - c) * (d + c), ex_t = (b - a) * (b + a)\<rparr>)"

lemma ed_point_add_ext: "ed_point_add (map_ext eb P) (map_ext eb Q) = Inr (map_ext eb (ext_add P Q))"
  by (simp add: ed_point_add_def ext_add_def map_ext_def Let_def)

lemma ext_add_ok:
  assumes "ext_ok P" "ext_ok Q"
  shows "ext_ok (ext_add P Q) \<and> ext_point (ext_add P Q) = ed_add (ext_point P) (ext_point Q)"
proof -
  define a b c d where "a = (ex_y P - ex_x P) * (ex_y Q - ex_x Q)" and "b = (ex_y P + ex_x P) * (ex_y Q + ex_x Q)"
    and "c = ex_t P * ex_t Q * (ed_d + ed_d)" and "d = (ex_z P + ex_z P) * ex_z Q"
  have z: "ex_z P \<noteq> 0" "ex_z Q \<noteq> 0" and t: "ex_t P * ex_z P = ex_x P * ex_y P" "ex_t Q * ex_z Q = ex_x Q * ex_y Q"
    and curve: "ed_curve (ex_x P / ex_z P, ex_y P / ex_z P)" "ed_curve (ex_x Q / ex_z Q, ex_y Q / ex_z Q)"
    using assms by (simp_all add: ext_ok_def ext_point_def)
  note sum = ed.extended_sum [OF z t curve a_def b_def c_def d_def]
  have e: "ext_add P Q = \<lparr>ex_x = (b - a) * (d - c), ex_y = (d + c) * (b + a), ex_z = (d - c) * (d + c), ex_t = (b - a) * (b + a)\<rparr>"
    by (simp add: ext_add_def Let_def a_def b_def c_def d_def)
  have p: "ext_point (ext_add P Q) = ed_add (ext_point P) (ext_point Q)"
    unfolding e using sum(2,3) by (simp add: ext_point_def prod_eq_iff)
  have "ed_curve (ed_add (ext_point P) (ext_point Q))" using assms by (intro ed.on_curve_add) (simp_all add: ext_ok_def)
  moreover have "(b - a) * (b + a) * ((d - c) * (d + c)) = (b - a) * (d - c) * ((d + c) * (b + a))" by algebra
  ultimately show ?thesis using sum(1) p by (simp add: ext_ok_def) (simp add: e)
qed

lemma ed_point_add_denotes:
  assumes "ext_denotes A P" "ext_denotes B Q"
  shows "\<exists>C. ed_point_add A B = Inr C \<and> ext_denotes C (ed_add P Q)"
proof -
  obtain E F where "A = map_ext eb E" "ext_ok E" "P = ext_point E" "B = map_ext eb F" "ext_ok F" "Q = ext_point F"
    using assms by (auto simp: ext_denotes_def)
  then show ?thesis using ed_point_add_ext [of E F] ext_add_ok [of E F] by (auto simp: ext_denotes_def)
qed

lemma ed_identity_denotes: "\<exists>C. ed_identity = Inr C \<and> ext_denotes C edwards_zero"
proof -
  define E :: "ef extended_point" where "E = \<lparr>ex_x = 0, ex_y = 1, ex_z = 1, ex_t = 0\<rparr>"
  have "ext_ok E" "ext_point E = edwards_zero" by (simp_all add: E_def ext_ok_def ext_point_def edwards_zero_def)
  moreover have "ed_identity = Inr (map_ext eb E)" by (simp add: ed_identity_def E_def map_ext_def)
  ultimately show ?thesis by (auto simp: ext_denotes_def)
qed

lemma bit_le_val: "bit (le_val bs) n \<longleftrightarrow> n div 8 < length bs \<and> bit (bs ! (n div 8)) (n mod 8)"
proof (induction bs arbitrary: n)
  case (Cons b bs)
  have l: "le_val (b # bs) = unat b + 2 ^ 8 * le_val bs" "unat b < 2 ^ 8" using unat_u8_less [of b] by simp_all
  show ?case
  proof (cases "n < 8")
    case True
    have "take_bit 8 (le_val (b # bs)) = unat b" unfolding l(1) using l(2) by (simp add: take_bit_eq_mod)
    then have "bit (unat b) n \<longleftrightarrow> bit (le_val (b # bs)) n" using True by (metis bit_take_bit_iff)
    then show ?thesis using True by (simp add: bit_unsigned_iff)
  next
    case False
    have "drop_bit 8 (le_val (b # bs)) = le_val bs" unfolding l(1) using l(2) by (simp add: drop_bit_eq_div)
    then have "bit (le_val (b # bs)) n \<longleftrightarrow> bit (le_val bs) (n - 8)" using False by (metis bit_drop_bit_eq comp_apply le_add_diff_inverse not_less)
    moreover have "n div 8 = Suc ((n - 8) div 8)" "n mod 8 = (n - 8) mod 8" using False by (simp_all add: le_div_geq le_mod_geq)
    ultimately show ?thesis using Cons by simp
  qed
qed simp

lemma ed_scalar_bit_iff: "ed_scalar_bit bs n \<longleftrightarrow> odd (le_val bs div 2 ^ n)"
proof -
  have "drop_bit k b AND 1 \<noteq> 0 \<longleftrightarrow> bit b k" for k and b :: u8
    using bit_drop_bit_eq [of k b] by (simp add: and_one_eq odd_iff_mod_2_eq_one [symmetric] bit_iff_odd_drop_bit)
  then show ?thesis by (simp add: ed_scalar_bit_def Let_def bit_iff_odd [symmetric] bit_le_val)
qed

lemma ed_scalar_loop:
  assumes "ext_denotes A P" "ext_denotes Z edwards_zero"
  shows "\<exists>r a. rfold (ed_bit_step bs) (Z, A) [0..<n] = Inr (r, a) \<and>
    ext_denotes r (ed_repeat (le_val bs mod 2 ^ n) P) \<and> ext_denotes a (ed_repeat (2 ^ n) P)"
proof (induction n)
  case 0
  then show ?case using assms by simp
next
  case (Suc n)
  have P: "ed_curve P" using assms(1) by (rule ext_denotes_on_curve)
  obtain r a where ra: "rfold (ed_bit_step bs) (Z, A) [0..<n] = Inr (r, a)"
    "ext_denotes r (ed_repeat (le_val bs mod 2 ^ n) P)" "ext_denotes a (ed_repeat (2 ^ n) P)"
    using Suc by blast
  obtain a2 where a2: "ed_point_add a a = Inr a2" "ext_denotes a2 (ed_repeat (2 ^ Suc n) P)"
    using ed_point_add_denotes [OF ra(3,3)] by (auto simp: ed.repeat_add [OF P, symmetric] mult_2)
  have m: "le_val bs mod 2 ^ Suc n = (if odd (le_val bs div 2 ^ n) then 1 else 0) * 2 ^ n + le_val bs mod 2 ^ n"
    by (rule mod_power2_Suc)
  obtain r2 where r2: "(if ed_scalar_bit bs n then ed_point_add r a else Inr r) = Inr r2"
    "ext_denotes r2 (ed_repeat (le_val bs mod 2 ^ Suc n) P)"
  proof (cases "odd (le_val bs div 2 ^ n)")
    case True
    obtain c where "ed_point_add r a = Inr c" "ext_denotes c (ed_add (ed_repeat (le_val bs mod 2 ^ n) P) (ed_repeat (2 ^ n) P))"
      using ed_point_add_denotes [OF ra(2,3)] by blast
    moreover have "le_val bs mod 2 ^ Suc n = le_val bs mod 2 ^ n + 2 ^ n" unfolding m using True by simp
    ultimately show ?thesis using True that [of c] by (simp only: ed_scalar_bit_iff ed.repeat_add [OF P] simp_thms if_True)
  next
    case False
    moreover have "le_val bs mod 2 ^ Suc n = le_val bs mod 2 ^ n" unfolding m using False by simp
    ultimately show ?thesis using that [of r] ra(2) by (simp only: ed_scalar_bit_iff simp_thms if_False)
  qed
  have "ed_bit_step bs (r, a) n = Inr (r2, a2)" by (simp only: ed_bit_step_def fst_conv snd_conv r2(1) a2(1) rbind_simps)
  then show ?case using ra(1) a2(2) r2(2) by (simp add: rfold_append)
qed

lemma ed_scalar_multiply_denotes:
  assumes "ext_denotes A P"
  shows "\<exists>C. ed_scalar_multiply bs A = Inr C \<and> ext_denotes C (ed_repeat (le_val bs) P)"
proof -
  obtain Z where Z: "ed_identity = Inr Z" "ext_denotes Z edwards_zero" using ed_identity_denotes by blast
  have "le_val bs mod 2 ^ (length bs * 8) = le_val bs"
    using le_val_bound [of bs] by (simp add: power_mult mult.commute [of _ 8])
  then obtain r a where "rfold (ed_bit_step bs) (Z, A) [0..<length bs * 8] = Inr (r, a)" "ext_denotes r (ed_repeat (le_val bs) P)"
    using ed_scalar_loop [OF assms Z(2), of bs "length bs * 8"] by auto
  then show ?thesis by (simp add: ed_scalar_multiply_def Z(1))
qed

lemma ed_points_equal_denotes:
  assumes "ext_denotes A P" "ext_denotes B Q"
  shows "ed_points_equal A B = Inr (P = Q)"
proof -
  obtain E F where E: "A = map_ext eb E" "ext_ok E" "P = ext_point E" and F: "B = map_ext eb F" "ext_ok F" "Q = ext_point F"
    using assms by (auto simp: ext_denotes_def)
  then have z: "ex_z E \<noteq> 0" "ex_z F \<noteq> 0" by (simp_all add: ext_ok_def)
  show ?thesis using z by (simp add: ed_points_equal_def E(1,3) F(1,3) ext_point_def frac_eq_eq)
qed

section \<open>Encoding and decoding\<close>

definition ed_encode :: "ef edwards_point \<Rightarrow> bytes" where
  "ed_encode P = le_bytes 32 (ef_val (snd P) + 2 ^ 255 * (ef_val (fst P) mod 2))"

lemma length_ed_encode [simp]: "length (ed_encode P) = 32"
  by (simp add: ed_encode_def)

lemma ef_val_bound: "ef_val x < 2 ^ 255"
  using ef_val_less [of x] by (simp add: ed_p_def)

lemma encode_bound: "ef_val y + 2 ^ 255 * (ef_val x mod 2) < 256 ^ 32"
proof -
  have "ef_val x mod 2 \<le> 1" by simp
  then have "2 ^ 255 * (ef_val x mod 2) \<le> 2 ^ 255 * 1" by (rule mult_le_mono2)
  then show ?thesis using ef_val_bound [of y] by simp
qed

lemma le_val_ed_encode: "le_val (ed_encode (x, y)) = ef_val y + 2 ^ 255 * (ef_val x mod 2)"
  using encode_bound [of y x] by (simp add: ed_encode_def le_val_le_bytes)

lemma le_val_update: "k < length bs \<Longrightarrow> le_val (bs[k := b]) + 256 ^ k * unat (bs ! k) = le_val bs + 256 ^ k * unat b"
proof (induction bs arbitrary: k)
  case (Cons c bs)
  show ?case
  proof (cases k)
    case (Suc j)
    then have "256 * (le_val (bs[j := b]) + 256 ^ j * unat (bs ! j)) = 256 * (le_val bs + 256 ^ j * unat b)" using Cons by simp
    then show ?thesis using Suc by (simp add: distrib_left mult.assoc)
  qed simp
qed simp

lemma le_val_top: "length bs = Suc k \<Longrightarrow> le_val bs = le_val (take k bs) + 256 ^ k * unat (bs ! k) \<and> le_val (take k bs) < 256 ^ k"
proof -
  assume l: "length bs = Suc k"
  have "le_val (take k bs @ [bs ! k]) = le_val (take k bs) + 256 ^ k * unat (bs ! k)" using l by (simp add: le_val_append)
  moreover have "take k bs @ [bs ! k] = bs" using take_Suc_conv_app_nth [of k bs] l by simp
  ultimately show ?thesis using le_val_bound [of "take k bs"] l by simp
qed

lemma ed_encode_denotes:
  assumes "ext_denotes A P"
  shows "ed_encode_point A = Inr (ed_encode P)"
proof -
  obtain E where E: "A = map_ext eb E" "P = ext_point E" using assms by (auto simp: ext_denotes_def)
  define x y where "x = fst P" and "y = snd P"
  have xy: "P = (x, y)" "x = ex_x E * inverse (ex_z E)" "y = ex_y E * inverse (ex_z E)"
    by (simp_all add: x_def y_def E(2) ext_point_def divide_inverse)
  define bs where "bs = le_bytes 32 (ef_val y)"
  have "ef_val y < 256 ^ 32" by (rule less_trans [OF ef_val_bound]) simp
  then have fixed: "ed_to_fixed_le_bytes (eb y) 32 = Inr bs" and v: "le_val bs = ef_val y"
    by (simp_all add: ed_to_fixed_le_val bs_def le_val_le_bytes)
  have l: "length bs = 32" by (simp add: bs_def)
  have "256 ^ 31 * unat (bs ! 31) < 256 ^ 31 * 128" using le_val_top [of bs 31] l v ef_val_bound [of y] by simp
  then have b: "unat (bs ! 31) < 128" by simp
  have top: "unat (b OR 0x80) = unat b + 128" if "unat b < 128" for b :: u8
  proof -
    have "b AND 0x80 = 0" using that by (simp add: high_bit_u8)
    then have "b OR 0x80 = b + 0x80" by (simp add: disjunctive_add_eq_or)
    then show ?thesis using that by (simp add: unat_word_ariths)
  qed
  have upd: "le_val (bs[31 := bs ! 31 OR 0x80]) = ef_val y + 2 ^ 255"
    using le_val_update [of 31 bs "bs ! 31 OR 0x80"] l v top [OF b] by (simp add: distrib_left)
  have "(if odd (ef_val x) then bs[31 := bs ! 31 OR 0x80] else bs) = ed_encode (x, y)"
  proof (rule le_val_inject)
    show "le_val (if odd (ef_val x) then bs[31 := bs ! 31 OR 0x80] else bs) = le_val (ed_encode (x, y))"
      unfolding le_val_ed_encode by (simp add: upd v mod2_eq_if)
  qed (simp add: l)
  then show ?thesis
    by (simp add: ed_encode_point_def E(1) xy(2,3) [symmetric] fixed ed_is_odd_iff) (simp add: xy(1))
qed

text \<open>The root: a square root of the argument when there is one.\<close>

lemma ef_exponents: "(ed_p + 3) div 8 * 2 * 2 = (ed_p - 1) div 2 + 2" "(ed_p - 1) div 2 * 2 = ed_p - 1" "ed_p = Suc (ed_p - 1)"
  by (simp_all add: ed_p_def)

lemma ef_half_power: "(x :: ef) \<noteq> 0 \<Longrightarrow> x ^ ((ed_p - 1) div 2) = 1 \<or> x ^ ((ed_p - 1) div 2) = - 1"
proof -
  assume x: "x \<noteq> 0"
  define h where "h = x ^ ((ed_p - 1) div 2)"
  have "h * h = x ^ (ed_p - 1)" by (simp only: h_def power_add [symmetric] mult_2_right [symmetric] ef_exponents(2))
  moreover have "x * x ^ (ed_p - 1) = x" using ef_fermat [of x] ef_exponents(3) by (metis power_Suc)
  ultimately have "h * h = 1" using x by simp
  then have "(h - 1) * (h + 1) = 0" by (simp add: algebra_simps)
  then show ?thesis unfolding h_def [symmetric] by (auto simp: eq_neg_iff_add_eq_0)
qed

lemma ef_root:
  fixes a :: ef
  defines "w \<equiv> a ^ ((ed_p + 3) div 8)"
  assumes "x * x = a"
  shows "w * w = a \<or> w * ed_i * (w * ed_i) = a"
proof (cases "x = 0")
  case True
  have "(ed_p + 3) div 8 \<noteq> 0" by (simp add: ed_p_def)
  then show ?thesis using True assms by (simp add: power_0_left)
next
  case False
  have "w * w = x ^ ((ed_p + 3) div 8 * 2 * 2)"
    by (simp only: w_def assms(2) [symmetric] power_mult power2_eq_square power_mult_distrib)
  also have "\<dots> = x ^ ((ed_p - 1) div 2) * a" unfolding ef_exponents(1) power_add by (simp add: power2_eq_square assms(2))
  finally have "w * w = a \<or> w * w = - a" using ef_half_power [OF False] by auto
  moreover have "w * ed_i * (w * ed_i) = - (w * w)" using ed_i_square by algebra
  ultimately show ?thesis by auto
qed

lemma ed_square_root_cases:
  assumes p: "bi_val p = ed_p"
  shows "(\<exists>r. r * r = a \<and> ed_square_root p (eb a) = Inr (eb r)) \<or>
    ((\<forall>r. r * r \<noteq> a) \<and> (\<exists>e. ed_square_root p (eb a) = Inl e \<and> err_code e = Invalid_key))"
proof -
  obtain e where e: "bi_from_be_bytes ed_sqrt_exponent_bytes = Inr e" "bi_val e = (ed_p + 3) div 8"
    using bi_from_be_bytes_val [of ed_sqrt_exponent_bytes] by (auto simp: ed_byte_constants)
  define w where "w = a ^ ((ed_p + 3) div 8)"
  have "bi_val p \<noteq> 0" using p by simp
  then have x: "bi_mod_exp (eb a) e p = Inr (eb w)"
    using bi_mod_exp_val [of p "eb a" e] by (auto simp: p e w_def ef_val_power intro!: eb_eqI)
  show ?thesis
  proof (cases "w * w = a")
    case True
    then show ?thesis by (auto simp: ed_square_root_def e x)
  next
    case False
    then show ?thesis using ef_root [of _ a] by (auto simp: ed_square_root_def e x w_def [symmetric] ed25519_error_def)
  qed
qed

text \<open>The bytes without the top bit, and the top bit.\<close>

lemma decode_bytes:
  assumes "length bs = 32"
  shows "le_val (bs[31 := bs ! 31 AND 0x7F]) = le_val bs mod 2 ^ 255" "last bs AND 0x80 \<noteq> 0 \<longleftrightarrow> 2 ^ 255 \<le> le_val bs"
proof -
  define lo b where "lo = le_val (take 31 bs)" and "b = bs ! 31"
  have v: "le_val bs = lo + 256 ^ 31 * unat b" "lo < 256 ^ 31" using le_val_top [of bs 31] assms by (simp_all add: lo_def b_def)
  have "le_val bs mod (256 ^ 31 * 128) = lo + 256 ^ 31 * (unat b mod 128)"
    unfolding v(1) using v(2) by (subst mod_mult2_eq) simp
  moreover have "(256::nat) ^ 31 * 128 = 2 ^ 255" by simp
  moreover have "unat (b AND 0x7F) = unat b mod 128" by (simp add: and_0x7f unat_take_bit_mod)
  then have "le_val (bs[31 := b AND 0x7F]) + 256 ^ 31 * unat b = lo + 256 ^ 31 * (unat b mod 128) + 256 ^ 31 * unat b"
    using le_val_update [of 31 bs "b AND 0x7F"] assms v(1) by (simp add: b_def)
  ultimately show "le_val (bs[31 := bs ! 31 AND 0x7F]) = le_val bs mod 2 ^ 255" by (simp add: b_def)
  have "bs \<noteq> []" using assms by auto
  then have l: "last bs = b" using assms by (simp add: b_def last_conv_nth)
  have "2 ^ 255 \<le> le_val bs \<longleftrightarrow> 128 \<le> unat b"
  proof
    assume "2 ^ 255 \<le> le_val bs"
    then have "256 ^ 31 * 128 < 256 ^ 31 * Suc (unat b)" using v by simp
    then show "128 \<le> unat b" by simp
  next
    assume "128 \<le> unat b"
    then have "256 ^ 31 * 128 \<le> 256 ^ 31 * unat b" by (rule mult_le_mono2)
    then show "2 ^ 255 \<le> le_val bs" using v(1) by simp
  qed
  then show "last bs AND 0x80 \<noteq> 0 \<longleftrightarrow> 2 ^ 255 \<le> le_val bs" by (simp add: l high_bit_u8 not_less)
qed

lemma curve_denominator: "ed_d * (y * y) + 1 \<noteq> 0"
proof
  assume z: "ed_d * (y * y) + 1 = 0"
  then have y: "y \<noteq> 0" by auto
  have "ed_i * inverse y * (ed_i * inverse y) = - 1 * (inverse y * inverse y)"
    unfolding ed_i_square [symmetric] by (simp only: ac_simps)
  also have "- 1 = ed_d * (y * y)" using z by (simp only: eq_neg_iff_add_eq_0 eq_commute [of "- 1"])
  also have "ed_d * (y * y) * (inverse y * inverse y) = ed_d" using right_inverse [OF y] by algebra
  finally show False using ed_d_nonsquare by blast
qed

lemma curve_square: "ed_curve (x, y) \<longleftrightarrow> x * x = (y * y - 1) * inverse (ed_d * (y * y) + 1)"
proof -
  have "ed_curve (x, y) \<longleftrightarrow> x * x * (ed_d * (y * y) + 1) = y * y - 1"
    by (simp only: edwards_curve.simps) algebra
  then show ?thesis using curve_denominator [of y] by (simp add: eq_divide_eq flip: divide_inverse)
qed

lemma square_eq: "(x :: ef) * x = r * r \<Longrightarrow> x = r \<or> x = - r"
proof -
  assume "x * x = r * r"
  then have "(x - r) * (x + r) = 0" by (simp add: algebra_simps)
  then show ?thesis by (simp add: eq_neg_iff_add_eq_0)
qed

lemma odd_minus: "(r :: ef) \<noteq> 0 \<Longrightarrow> odd (ef_val (- r)) \<longleftrightarrow> even (ef_val r)"
proof -
  assume r: "r \<noteq> 0"
  then have "ef_val r \<noteq> 0" by simp
  then have "ed_p - ef_val r < ed_p" by (simp only: diff_less ed_p_pos(1) neq0_conv)
  then have "ef_val (- r) = ed_p - ef_val r" by (simp add: uminus_ef_def)
  moreover have "odd ed_p" by (simp add: ed_p_def)
  ultimately show ?thesis using less_imp_le [OF ef_val_less [of r]] by (simp add: even_diff_nat not_less)
qed

lemma ed_make_affine_denotes:
  assumes "ed_curve (x, y)"
  shows "\<exists>A. ed_make_affine_point (eb x) (eb y) = Inr A \<and> ext_denotes A (x, y)"
proof -
  define E where "E = \<lparr>ex_x = x, ex_y = y, ex_z = 1, ex_t = x * y\<rparr>"
  have "ed_make_affine_point (eb x) (eb y) = Inr (map_ext eb E)" by (simp add: ed_make_affine_point_def E_def map_ext_def)
  moreover have "ext_ok E" "ext_point E = (x, y)" using assms by (simp_all add: E_def ext_ok_def ext_point_def)
  ultimately show ?thesis by (auto simp: ext_denotes_def)
qed

text \<open>What the decoder does after it has read the two parts: the point of this parity, or an error.\<close>

lemma decode_cases:
  fixes bs :: bytes
  defines "v \<equiv> le_val bs mod 2 ^ 255" and "s \<equiv> 2 ^ 255 \<le> le_val bs"
  assumes l: "length bs = 32"
  shows "(\<exists>x A. v < ed_p \<and> ed_curve (x, of_nat v) \<and> (odd (ef_val x) \<longleftrightarrow> s) \<and> ed_decode_point bs = Inr A \<and> ext_denotes A (x, of_nat v)) \<or>
    ((\<exists>e. ed_decode_point bs = Inl e \<and> err_code e = Invalid_key) \<and>
     (ed_p \<le> v \<or> (\<forall>x. ed_curve (x, of_nat v) \<longrightarrow> odd (ef_val x) \<noteq> s)))"
proof -
  obtain n where n: "ed_from_le_bytes (bs[31 := bs ! 31 AND 0x7F]) = Inr n" "bi_val n = v"
    using ed_from_le_val decode_bytes(1) [OF l] v_def by metis
  obtain p where p: "ed_field_modulus = Inr p" "bi_val p = ed_p" by (rule ed_modulus)
  define y :: ef where "y = of_nat v"
  define a where "a = (y * y - 1) * inverse (ed_d * (y * y) + 1)"
  show ?thesis
  proof (cases "v < ed_p")
    case False
    then show ?thesis
      by (simp add: ed_decode_point_def l n(1) p Let_def bi_compare_val n(2) ed25519_error_def)
  next
    case True
    have n: "ed_from_le_bytes (bs[31 := bs ! 31 AND 0x7F]) = Inr (eb y)"
      using n eb_eqI [of n y] True by (simp add: y_def ef_of_nat)
    have "ef_val y = v" using True by (simp add: y_def ef_of_nat)
    then have d: "ed_decode_point bs = rbind (ed_square_root p (eb a)) (\<lambda>x.
        if bi_is_zero x \<and> s then Inl (ed25519_error Invalid_key ''Ed25519 point has invalid x parity'')
        else rbind (if ed_is_odd x \<noteq> s then ed_field_subtract p x else Inr x) (\<lambda>x. ed_make_affine_point x (eb y)))"
      using True unfolding ed_decode_point_def a_def s_def decode_bytes(2) [OF l, symmetric]
      by (simp add: l n p Let_def bi_compare_val)
    consider (root) r where "r * r = a" "ed_square_root p (eb a) = Inr (eb r)"
      | (none) e where "\<forall>r. r * r \<noteq> a" "ed_square_root p (eb a) = Inl e" "err_code e = Invalid_key"
      using ed_square_root_cases [OF p(2), of a] by blast
    then show ?thesis
    proof cases
      case none
      then show ?thesis unfolding d y_def [symmetric] curve_square a_def [symmetric] by auto
    next
      case root
      have curve: "ed_curve (x, y) \<longleftrightarrow> x = r \<or> x = - r" for x
        unfolding curve_square a_def [symmetric] root(1) [symmetric] using square_eq [of x r] by auto
      show ?thesis
      proof (cases "r = 0 \<and> s")
        case True
        then show ?thesis unfolding d y_def [symmetric] curve by (simp add: root(2) ed25519_error_def)
      next
        case False
        define x where "x = (if odd (ef_val r) \<noteq> s then - r else r)"
        have "odd (ef_val x) \<longleftrightarrow> s" using False odd_minus [of r] by (cases "r = 0") (auto simp: x_def)
        moreover have "ed_curve (x, y)" unfolding curve by (simp add: x_def)
        moreover have "ed_decode_point bs = ed_make_affine_point (eb x) (eb y)"
          unfolding d root(2) using False p(2) by (auto simp: ed_is_odd_iff x_def)
        ultimately show ?thesis using ed_make_affine_denotes [of x y] \<open>v < ed_p\<close> unfolding y_def [symmetric] by metis
      qed
    qed
  qed
qed

lemma ed_decode_encode: "ed_curve P \<Longrightarrow> \<exists>A. ed_decode_point (ed_encode P) = Inr A \<and> ext_denotes A P"
proof -
  assume c: "ed_curve P"
  obtain x y where P: "P = (x, y)" by (cases P)
  have v: "le_val (ed_encode P) mod 2 ^ 255 = ef_val y" "2 ^ 255 \<le> le_val (ed_encode P) \<longleftrightarrow> odd (ef_val x)"
    using ef_val_bound [of y] unfolding P le_val_ed_encode by (auto simp: mod2_eq_if)
  consider (found) z A where "ed_curve (z, y)" "odd (ef_val z) \<longleftrightarrow> odd (ef_val x)" "ed_decode_point (ed_encode P) = Inr A" "ext_denotes A (z, y)"
    using decode_cases [of "ed_encode P"] c unfolding v using ef_val_less [of y] by (auto simp: P simp del: edwards_curve.simps)
  then show ?thesis
  proof cases
    case found
    then have "z * z = x * x" using c unfolding P curve_square by simp
    then have "z = x" using square_eq odd_minus [of x] found(2) by (cases "x = 0") fastforce+
    then show ?thesis using found(3,4) P by blast
  qed
qed

lemma ed_decode_Inr:
  assumes "ed_decode_point bs = Inr A"
  obtains P where "ed_curve P" "bs = ed_encode P" "ext_denotes A P"
proof -
  have l: "length bs = 32" using assms by (simp add: ed_decode_point_def split: if_splits)
  define v where "v = le_val bs mod 2 ^ 255"
  from decode_cases [OF l] obtain x where x: "v < ed_p" "ed_curve (x, of_nat v)" "odd (ef_val x) \<longleftrightarrow> 2 ^ 255 \<le> le_val bs" "ext_denotes A (x, of_nat v)"
    using assms by (auto simp: v_def)
  have "le_val bs < 2 ^ 255 * 2" using le_val_bound [of bs] l by simp
  then have "le_val bs div 2 ^ 255 < 2" by (simp add: less_mult_imp_div_less)
  moreover have "1 \<le> le_val bs div 2 ^ 255 \<longleftrightarrow> odd (ef_val x)" by (simp add: x(3) Suc_le_eq div_greater_zero_iff)
  ultimately have "le_val bs div 2 ^ 255 = ef_val x mod 2" by (auto simp: mod2_eq_if less_2_cases_iff)
  then have "le_val bs = v + 2 ^ 255 * (ef_val x mod 2)" by (metis v_def mod_mult_div_eq)
  then have "bs = ed_encode (x, of_nat v)" by (intro le_val_inject) (use x(1) in \<open>simp_all add: l le_val_ed_encode ef_of_nat\<close>)
  then show ?thesis using that x(2,4) by blast
qed

lemma ed_decode_Inl: "ed_decode_point bs = Inl e \<Longrightarrow> err_code e = Invalid_key"
  using decode_cases [of bs] by (cases "length bs = 32") (auto simp: ed_decode_point_def ed25519_error_def)

lemma ed_encode_inject: "ed_encode P = ed_encode Q \<longleftrightarrow> P = Q" if c: "ed_curve P" "ed_curve Q"
proof
  assume e: "ed_encode P = ed_encode Q"
  obtain A where "ed_decode_point (ed_encode P) = Inr A" "ext_denotes A P" using ed_decode_encode [OF c(1)] by blast
  moreover obtain B where "ed_decode_point (ed_encode Q) = Inr B" "ext_denotes B Q" using ed_decode_encode [OF c(2)] by blast
  ultimately show "P = Q" using e ed_points_equal_denotes [of A P A Q] ed_points_equal_denotes [of A P A P] by simp
qed simp

end
