(* ===== verification/Ed25519_Order.thy ===== *)
theory Ed25519_Order
  imports Ed25519
begin

text \<open>
  The order of the base point of Ed25519: 252 doublings and some additions of the base point lead
  from the point to the neutral point. The law has no exceptions, so a step gives the new point and
  the quotients and residues of the products, and the rules of Hex_Numerals check them.
\<close>

section \<open>The base point\<close>

definition ed_base :: "ef edwards_point" where
  "ed_base = (of_nat 15112221349535400772501151409588531511454012693041857206046113283949847762202,
     of_nat 46316835694926478169428394003475163141307993866256225615783033603165251855960)"

lemma ed_base_encoded: "ed_encode ed_base = ed_base_point_bytes"
proof (rule le_val_inject)
  have "ef_val (fst ed_base) = 15112221349535400772501151409588531511454012693041857206046113283949847762202"
    "ef_val (snd ed_base) = 46316835694926478169428394003475163141307993866256225615783033603165251855960"
    unfolding ed_base_def fst_conv snd_conv ef_of_nat ef_val_of by (simp_all add: ed_p_numeral)
  then show "le_val (ed_encode ed_base) = le_val ed_base_point_bytes"
    using le_val_ed_encode [of "fst ed_base" "snd ed_base"] by (simp add: ed_base_point_bytes_def)
qed (simp add: ed_base_point_bytes_def)

section \<open>Steps\<close>

definition ed_cong :: "nat \<Rightarrow> nat \<Rightarrow> bool \<Rightarrow> nat \<Rightarrow> bool" where
  "ed_cong a b k q \<longleftrightarrow> a + q * 38 = shift8 (shift8 (shift24 (shift24 q))) +
     (if k then b + 0x7FFFFFFFFFFFFFFFFFFFFFFFFFFFFFFFFFFFFFFFFFFFFFFFFFFFFFFFFFFFFFED else b)"

lemma ed_cong: "ed_cong a b k q \<Longrightarrow> (of_nat a :: ef) = of_nat b"
proof (rule ef_eqI)
  assume "ed_cong a b k q"
  then have "a = (2 * q + (if k then 1 else 0)) * ed_p + b" by (auto simp: ed_cong_def shifts ed_p_def split: if_splits)
  then show "a mod ed_p = b mod ed_p" by (metis mod_mult_self3)
qed

lemma ed_checked: "ed_check t q r \<Longrightarrow> (of_nat t :: ef) = of_nat r"
  using ed_check by (intro ef_eqI) (auto simp: reduces_def)

lemma ed_base_on_curve [simp]: "ed_curve ed_base"
proof -
  define X Y :: ef where "X = of_nat 15112221349535400772501151409588531511454012693041857206046113283949847762202"
    and "Y = of_nat 46316835694926478169428394003475163141307993866256225615783033603165251855960"
  have checks: "ed_check (15112221349535400772501151409588531511454012693041857206046113283949847762202 * 15112221349535400772501151409588531511454012693041857206046113283949847762202) 1972321560320841270278744374193267408781431727405043547041590956762319828168 84083640453803786942255083919428330328719544220452864738830527845996062841940"
    "ed_check (46316835694926478169428394003475163141307993866256225615783033603165251855960 * 46316835694926478169428394003475163141307993866256225615783033603165251855960) 18526734277970591267771357601390065256523197546502490246313213441266100742384 37053468555941182535542715202780130513046395093004980492626426882532201484768"
    "ed_check (15112221349535400772501151409588531511454012693041857206046113283949847762202 * 46316835694926478169428394003475163141307993866256225615783033603165251855960) 6044888539814160309000460563835412604581605077216742882418445313579939104880 104723448469481276956857709134621151491779197886945936996402957833490381921680"
    "ed_check (104723448469481276956857709134621151491779197886945936996402957833490381921680 * 104723448469481276956857709134621151491779197886945936996402957833490381921680) 94712866237893016472865300609317272502374042738642766079098496980848092795181 30655112042971184558329056706696549839726511367961720624960021019854854290862"
    "ed_check (37095705934669439343138083508754565189542113879843219016388785533085940283555 * 30655112042971184558329056706696549839726511367961720624960021019854854290862) 9820817892056197673320983740611713801538146210483848944317880256615591727533 10865872720795493305073123787695754110961843205372397773524691040492703462776"
    by (simp_all only: hex_simps shift24_def shift8_def ed_check_def simp_thms)
  have sum: "ed_cong (1 + 10865872720795493305073123787695754110961843205372397773524691040492703462776 + 84083640453803786942255083919428330328719544220452864738830527845996062841940) (37053468555941182535542715202780130513046395093004980492626426882532201484768) True 0"
    by (simp only: hex_simps shift24_def shift8_def ed_cong_def simp_thms if_True if_False)
  note e = checks [THEN ed_checked, unfolded of_nat_mult, folded X_def Y_def ed_d_def]
  have "Y * Y = 1 + ed_d * (X * Y * (X * Y)) + X * X"
    unfolding e using sum [THEN ed_cong, unfolded of_nat_add of_nat_1] by (simp only:)
  then have "Y * Y - X * X = 1 + ed_d * X * X * Y * Y" by (simp only: diff_eq_eq ac_simps)
  then show ?thesis by (simp only: ed_base_def edwards_curve.simps X_def Y_def)
qed

text \<open>
  A doubling: the squares \<open>a\<close> and \<open>b\<close> of the coordinates, their product \<open>m\<close>, the denominators \<open>w\<close> and
  \<open>z\<close>, the new point, and the quotients. An addition of the base point: the product \<open>m\<close> of the
  coordinates, its multiple \<open>v\<close>, the denominator \<open>z\<close>, the numerators \<open>s\<close> and \<open>t\<close>, the new point.
\<close>

datatype ed_step =
    Ed_double nat nat nat nat nat nat nat nat nat nat nat nat bool nat bool nat
  | Ed_add_base nat nat nat nat nat nat nat nat nat nat nat nat bool nat bool nat

definition double_check :: "nat \<Rightarrow> nat \<Rightarrow> nat \<Rightarrow> nat \<Rightarrow> nat \<Rightarrow> nat \<Rightarrow> nat \<Rightarrow> nat \<Rightarrow> nat \<Rightarrow> nat \<Rightarrow> nat \<Rightarrow> nat \<Rightarrow> nat \<Rightarrow> nat \<Rightarrow>
    bool \<Rightarrow> nat \<Rightarrow> bool \<Rightarrow> nat \<Rightarrow> bool" where
  "double_check x y a qa b qb m qm w q1 z q2 x3 y3 k3 q3 k4 q4 \<longleftrightarrow>
     ed_check (x * x) qa a \<and> ed_check (y * y) qb b \<and> ed_check (x * y) qm m \<and>
     ed_cong (w + a) b False q1 \<and> ed_cong (z + w) 2 False q2 \<and>
     ed_cong (x3 * w) (m + m) k3 q3 \<and> ed_cong (y3 * z) (a + b) k4 q4"

definition add_base_check :: "nat \<Rightarrow> nat \<Rightarrow> nat \<Rightarrow> nat \<Rightarrow> nat \<Rightarrow> nat \<Rightarrow> nat \<Rightarrow> nat \<Rightarrow> nat \<Rightarrow> nat \<Rightarrow> nat \<Rightarrow> nat \<Rightarrow> nat \<Rightarrow> nat \<Rightarrow>
    bool \<Rightarrow> nat \<Rightarrow> bool \<Rightarrow> nat \<Rightarrow> bool" where
  "add_base_check x y m qm v qv z q2 s qs t qt x3 y3 k3 q3 k4 q4 \<longleftrightarrow>
     ed_check (x * y) qm m \<and>
     ed_check (25118807164114332256265917848056083839023238678420704602006751320993253119284 * m) qv v \<and>
     ed_cong (z + v) 1 False q2 \<and>
     ed_check (x * 46316835694926478169428394003475163141307993866256225615783033603165251855960 +
       y * 15112221349535400772501151409588531511454012693041857206046113283949847762202) qs s \<and>
     ed_check (y * 46316835694926478169428394003475163141307993866256225615783033603165251855960 +
       x * 15112221349535400772501151409588531511454012693041857206046113283949847762202) qt t \<and>
     ed_cong (x3 * (1 + v)) s k3 q3 \<and> ed_cong (y3 * z) t k4 q4"

fun ed_run :: "ed_step list \<Rightarrow> nat \<times> nat \<times> nat \<Rightarrow> (nat \<times> nat \<times> nat) option" where
  "ed_run [] s = Some s"
| "ed_run (Ed_double a qa b qb m qm w q1 z q2 x3 y3 k3 q3 k4 q4 # steps) (x, y, e) =
     (if double_check x y a qa b qb m qm w q1 z q2 x3 y3 k3 q3 k4 q4 then ed_run steps (x3, y3, e + e) else None)"
| "ed_run (Ed_add_base m qm v qv z q2 s qs t qt x3 y3 k3 q3 k4 q4 # steps) (x, y, e) =
     (if add_base_check x y m qm v qv z q2 s qs t qt x3 y3 k3 q3 k4 q4 then ed_run steps (x3, y3, e + 1) else None)"

lemmas ed_run_simps = ed_run.simps if_True if_False simp_thms hex_simps shift24_def shift8_def ed_cong_def ed_check_def
  double_check_def add_base_check_def

section \<open>Soundness\<close>

lemma quotient_by: "(x :: ef) * w = a \<Longrightarrow> w \<noteq> 0 \<Longrightarrow> a / w = x"
  by (simp add: divide_eq_eq)

lemma double_checked:
  assumes "double_check x y a qa b qb m qm w q1 z q2 x3 y3 k3 q3 k4 q4" "ed_curve (of_nat x, of_nat y)"
  shows "ed_add (of_nat x, of_nat y) (of_nat x, of_nat y) = (of_nat x3, of_nat y3)"
proof -
  define X Y A B Q W Z :: ef where "X = of_nat x" and "Y = of_nat y" and "A = of_nat a" and "B = of_nat b" and "Q = of_nat m"
    and "W = of_nat w" and "Z = of_nat z"
  have c: "X * X = A" "Y * Y = B" "X * Y = Q" "W + A = B" "Z + W = 2" "of_nat x3 * W = Q + Q" "of_nat y3 * Z = A + B"
    using assms(1) ed_checked [of "x * x"] ed_checked [of "y * y"] ed_checked [of "x * y"] ed_cong [of "w + a"] ed_cong [of "z + w"]
      ed_cong [of "x3 * w"] ed_cong [of "y3 * z"]
    unfolding double_check_def X_def Y_def A_def B_def Q_def W_def Z_def by fastforce+
  have curve: "ed_curve (X, Y)" using assms(2) by (simp only: X_def Y_def)
  have "W = B - A" using c(4) by (simp add: eq_diff_eq)
  then have w: "1 + ed_d * X * X * Y * Y = W" using curve c(1,2) by simp
  have "Z = 2 - W" using c(5) by (simp add: eq_diff_eq)
  then have z: "1 - ed_d * X * X * Y * Y = Z" unfolding w [symmetric] by simp
  have nz: "W \<noteq> 0" "Z \<noteq> 0" using ed.denominators [OF curve curve] unfolding w z .
  have "ed_add (X, Y) (X, Y) = ((X * Y + Y * X) / W, (Y * Y + X * X) / Z)" unfolding edwards_add.simps w z ..
  also have "\<dots> = (of_nat x3, of_nat y3)"
    unfolding mult.commute [of Y X] c(1-3) add.commute [of B A] quotient_by [OF c(6) nz(1)] quotient_by [OF c(7) nz(2)] ..
  finally show ?thesis by (simp only: X_def Y_def)
qed

lemma base_product: "ed_d * of_nat 15112221349535400772501151409588531511454012693041857206046113283949847762202 * of_nat 46316835694926478169428394003475163141307993866256225615783033603165251855960
    = of_nat 25118807164114332256265917848056083839023238678420704602006751320993253119284"
proof -
  have checks: "ed_check (37095705934669439343138083508754565189542113879843219016388785533085940283555 * 15112221349535400772501151409588531511454012693041857206046113283949847762202) 4841423303564809261504147658895969186031420279642948640118540763443814961872 89294553573801013032117889814414058725414040680846162772237231155198131219054"
    "ed_check (89294553573801013032117889814414058725414040680846162772237231155198131219054 * 46316835694926478169428394003475163141307993866256225615783033603165251855960) 35717821429520405212847155925765623490165616272338465108894892462079252487622 25118807164114332256265917848056083839023238678420704602006751320993253119284"
    by (simp_all only: hex_simps shift24_def shift8_def ed_check_def simp_thms)
  show ?thesis using checks [THEN ed_checked, unfolded of_nat_mult, folded ed_d_def] by (simp only:)
qed

lemma add_base_checked:
  assumes "add_base_check x y m qm v qv z q2 s qs t qt x3 y3 k3 q3 k4 q4" "ed_curve (of_nat x, of_nat y)"
  shows "ed_add (of_nat x, of_nat y) ed_base = (of_nat x3, of_nat y3)"
proof -
  define X Y U V :: ef where "X = of_nat x" and "Y = of_nat y" and "U = of_nat 15112221349535400772501151409588531511454012693041857206046113283949847762202"
    and "V = of_nat 46316835694926478169428394003475163141307993866256225615783033603165251855960"
  define Q R Z S T :: ef where "Q = of_nat m" and "R = of_nat v" and "Z = of_nat z" and "S = of_nat s" and "T = of_nat t"
  note defs = X_def Y_def U_def V_def Q_def R_def Z_def S_def T_def
  have base: "ed_base = (U, V)" by (simp only: ed_base_def U_def V_def)
  have c: "X * Y = Q" "Z + R = 1" "X * V + Y * U = S" "Y * V + X * U = T" "of_nat x3 * (1 + R) = S" "of_nat y3 * Z = T"
    using assms(1) [unfolded add_base_check_def, THEN conjunct1, THEN ed_checked]
      assms(1) [unfolded add_base_check_def, THEN conjunct2, THEN conjunct2, THEN conjunct1, THEN ed_cong]
      assms(1) [unfolded add_base_check_def, THEN conjunct2, THEN conjunct2, THEN conjunct2, THEN conjunct1, THEN ed_checked]
      assms(1) [unfolded add_base_check_def, THEN conjunct2, THEN conjunct2, THEN conjunct2, THEN conjunct2, THEN conjunct1, THEN ed_checked]
      assms(1) [unfolded add_base_check_def, THEN conjunct2, THEN conjunct2, THEN conjunct2, THEN conjunct2, THEN conjunct2, THEN conjunct1, THEN ed_cong]
      assms(1) [unfolded add_base_check_def, THEN conjunct2, THEN conjunct2, THEN conjunct2, THEN conjunct2, THEN conjunct2, THEN conjunct2, THEN ed_cong]
    unfolding defs by (simp_all only: of_nat_add of_nat_mult of_nat_1)
  have "ed_d * U * V * Q = R"
    using assms(1) [unfolded add_base_check_def, THEN conjunct2, THEN conjunct1, THEN ed_checked] base_product
    unfolding defs by (simp only: of_nat_mult)
  moreover have "ed_d * X * U * Y * V = ed_d * U * V * (X * Y)" by (simp only: ac_simps)
  ultimately have w: "1 + ed_d * X * U * Y * V = 1 + R" by (simp only: c(1))
  have z: "1 - ed_d * X * U * Y * V = Z" using c(2) w by (simp add: algebra_simps)
  have curve: "ed_curve (X, Y)" "ed_curve (U, V)" using assms(2) ed_base_on_curve by (simp_all only: X_def Y_def base)
  have nz: "1 + R \<noteq> 0" "Z \<noteq> 0" using ed.denominators [OF curve] unfolding w z .
  have "ed_add (X, Y) ed_base = ((X * V + Y * U) / (1 + R), (Y * V + X * U) / Z)" unfolding base edwards_add.simps w z ..
  also have "\<dots> = (of_nat x3, of_nat y3)" unfolding c(3,4) using quotient_by [OF c(5) nz(1)] quotient_by [OF c(6) nz(2)] by simp
  finally show ?thesis by (simp only: X_def Y_def)
qed

definition ed_state :: "nat \<times> nat \<times> nat \<Rightarrow> bool" where
  "ed_state s = (case s of (x, y, e) \<Rightarrow> ed_repeat e ed_base = (of_nat x, of_nat y))"

lemma ed_run_state: "ed_run steps s = Some t \<Longrightarrow> ed_state s \<Longrightarrow> ed_state t"
proof (induction steps arbitrary: s)
  case (Cons step steps)
  obtain x y e where s: "s = (x, y, e)" by (cases s) auto
  have e: "ed_repeat e ed_base = (of_nat x, of_nat y)" using Cons.prems(2) by (simp add: s ed_state_def)
  have curve: "ed_curve (of_nat x, of_nat y)" using ed.repeat_on_curve [OF ed_base_on_curve, of e] unfolding e .
  show ?case
  proof (cases step)
    case (Ed_double a qa b qb m qm w q1 z q2 x3 y3 k3 q3 k4 q4)
    then have c: "double_check x y a qa b qb m qm w q1 z q2 x3 y3 k3 q3 k4 q4" and run: "ed_run steps (x3, y3, e + e) = Some t"
      using Cons.prems(1) by (simp_all add: s split: if_splits)
    have "ed_repeat (e + e) ed_base = (of_nat x3, of_nat y3)"
      unfolding ed.repeat_add [OF ed_base_on_curve] e by (rule double_checked [OF c curve])
    then show ?thesis using Cons.IH [OF run] by (simp add: ed_state_def)
  next
    case (Ed_add_base m qm v qv z q2 s' qs t' qt x3 y3 k3 q3 k4 q4)
    then have c: "add_base_check x y m qm v qv z q2 s' qs t' qt x3 y3 k3 q3 k4 q4" and run: "ed_run steps (x3, y3, e + 1) = Some t"
      using Cons.prems(1) by (simp_all add: s split: if_splits)
    have "ed_repeat (e + 1) ed_base = (of_nat x3, of_nat y3)"
      unfolding Suc_eq_plus1 [symmetric] edwards_repeat.simps e by (rule add_base_checked [OF c curve])
    then show ?thesis using Cons.IH [OF run] by (simp add: ed_state_def)
  qed
qed simp

lemma ed_run_start: "ed_state (15112221349535400772501151409588531511454012693041857206046113283949847762202,
    46316835694926478169428394003475163141307993866256225615783033603165251855960, 1)"
  by (simp only: ed_state_def prod.case One_nat_def edwards_repeat.simps edwards_add_zero ed_base_def)

section \<open>The chain\<close>

lemma ed_order_run_1: "ed_run
    [Ed_double 84083640453803786942255083919428330328719544220452864738830527845996062841940 1972321560320841270278744374193267408781431727405043547041590956762319828168 37053468555941182535542715202780130513046395093004980492626426882532201484768 18526734277970591267771357601390065256523197546502490246313213441266100742384 104723448469481276956857709134621151491779197886945936996402957833490381921680 6044888539814160309000460563835412604581605077216742882418445313579939104880 68761917339453591016858616292039708037596835538192679793253483044449268282726 1 47030171897862604406712368716648199815673149127447884246204100963463861357174 1 24727413235106541002554574571675588834622768167397638456726423682521233608206 15549675580280190176352668710449542251549572066445060580507079593062643049417 False 14684114917437307763060920148576435585720283972827300081641825745044331896802 False 6315663879228955466064067121248839578148347381884208732494139366397285763325,
     Ed_double 76207833909785470340567298640490737111209035124295955057007362305667938750440 5280541782492274117465997771992155357369681668124420125128228778569146700902 59035960550681642277465784823354510299113773217537704625032885196461590046853 2088160013732957863738991517579832628768670368923247167588350733512233024382 74449024099992761256664103060435329998566141341482435819055987289245927191534 3320634909327811803519759433561083727621344797860796421191930028804253007016 98620215878212367360469471191551681041174722758882313607483106898706780936311 1 17171873359103828063101513817136226812095261906758250431974477109206348703589 1 14582954232372986451776170844943001818709880559417862259286374126315108956272 32483318716863467900234833297694612235682047836132991208333042722294373421359 False 12420313892006672448671017156863701941285695456526737508641271524767116438338 False 4817249943095638421740578097342117469957692905055480870868580259592597771371,
     Ed_double 86000540463908264546539647942295051834314071471524325963580052612849588757246 1836589662940036664955297256078308323702183587359155855367951595695065700581 95889839964960661546428647103451097907045056547040178931583660498325855110475 9112591385226386032934753283221086718167009708694184613663109359536182419447 15591078450528575260807955779595146919206594628260116491306850071973737403224 4090976795424683184666828200670767126864649384917545226639375994571953685388 9889299501052396999888999161156046072730985075515852968003607885476266353229 0 105902789736263798423681985847531861780538999590124711071453976122436863286671 1 46706390780465557264338673484185971070529246228527338942042475661633188627656 15299170165656271974649334809062094114079726227711063015095704409550798436788 False 3988990008588275649242701271355021194031754754731362400587721940047153492012 True 13992534480245548633026671948308337980067601474278989803744406742798565041911,
     Ed_double 58023906327850244534411930063599578734555833773111626573628917610570973929570 18839688912310708133129413753389301696929696657322638503249234815172636664267 102941730406083664598023543295634537704018153460038638047038982736020084671194 2021421405377624054980184675126579611382888397888753523160117784913192038375 77938011517472589438230071565224482714660279719659463517425725336414198583724 6171138504198423284052093709529769473321551647529741318912796292718716222498 44917824078233420063611613232034958969462319686927011473410065125449110741624 0 70874265159082775359959371776652948883807664978713552566047518882464018898276 1 16121637619009607773439840283436156467545443443832420589584197780484295031288 50925107901044861941301590032293890690813323578124472818968980802518735333355 False 6253871807594372014418683773505498556598831545994175274349052055105349654468 False 31170346993535341295910844550152168481593887174964052521074649688648199202792,
     Ed_double 5031371835616021532169564742474723985845627018416561311224232525340879450410 2244602383725759341814531349289368708084649965292993671893011473375250986583 56149268211426110757272259297771002552864775690226663369123229707859921611009 22396751209989397783478297647971502016267538163746889692607368939190516322892 8124413159588571830372899760804653409298702349860309863812709235480468626390 7090261007442179281629405913590570480090776430124376462099629307542941241325 51117896375810089225102694555296278567019148671810102057898997182519042160599 0 64674192861506106198468290453391629286250835993830461981558586825394087479301 1 26148317933504540005443173402042326458672162458767831815669826413036406984486 30850316547316149219369061290562558254923949145644564178378051444253659681385 False 11543508847026329111206869718577079170640843515122759457448527070362493018683 False 17231050371070086539058560767242359687921883015285207959738462513180340768917,
     Ed_double 84691191334415835484237284053450649258134596301963428101393692826398336600284 5904846654509526940358970632850038128564806975787208987148896494368016745844 59976587633972873294487980438844566660990450278709707578022642123443287870601 8219404601285073815123741207765463748855635307095041288144827613350109496788 107636443780084130643924865509439216639163890506555616856568243253713458873996 6966658005238837636926934455561158202200462971293153579410654491537649660793 91077485536873233233821681394081825256125838642386843516086533304958080910215 1 24714603700442962189749303614606082597144146023253720523371050702955048729685 1 2703967047724422927942795606844806438471095130334849099131707700624039388171 27636351750987415494008535949645960827550590090960186204735008729987540453670 True 2126833718118436040483331691563818854194808354139074172326150044815412851188 True 5898688638839934658681425230121156447212303324331137241549726950212988921342,
     Ed_double 130178454804153595346643229197475977126618406711946655211554815701260402505 63142809179258527905509758774173343668464933683894605036259322326800727032 111992247397159434186140308579669665028843182808033106811067724774786423373914 6596028650445720537125511388371941521087090788547687805044876153957234709657 22645945933674281140587610878838865629536203181607753132167188847366227300200 645361742293433662014672330616215785516273523126920481780730844618637278065 111862068942355280590793665350472189051716564401321160155856169959085162971409 0 3930020294960914832777319658215718801553420264319403883601414048827966668491 1 25155917782814837260398069725241853231864729763246304429004555936282046356871 18508826420441071939750277538143617204571229748311242415842946762595677996796 True 24302117941426623257317030286434658662556878206960853555589526793437530744305 True 628195448820007393619682818682694459665318832873675442732810954242625967466,
     Ed_double 79066557781302062472275842280020375877425635282859394894966119689013153973843 5465141907913701019291883036561074996764962962280594207760235645017898399051 105518164021115932404281978194428076303355099383313198496217724401223599519326 2958549739610498746313969192879556997744325461658815288872983152147147896605 28255934015990876396835182447625188220584650644680008791509700496723788466886 4021056349840487434145736157896345863886531907794968851288001062652728189035 26451606239813869932006135914407700425929464100453803601251604712210445545483 0 89340482997502325491564849094280207427340520565186760438205979295702684094417 1 42740085206947573681423002599456489563927820004573071834350074001818321593686 6935684722522267618220753829624209639984359598320562595061366101608187623111 False 9763567718630744900309318934954654298996000837179477158075834814766999178367 False 5351293228318807986930579124436182761287105964769799365042826111148840661391]
    (15112221349535400772501151409588531511454012693041857206046113283949847762202, 46316835694926478169428394003475163141307993866256225615783033603165251855960, 1)
    = Some (42740085206947573681423002599456489563927820004573071834350074001818321593686, 6935684722522267618220753829624209639984359598320562595061366101608187623111, 256)"
  by (simp only: ed_run_simps)

lemma ed_order_run_2: "ed_run
    [Ed_double 35606534378525790103230894501605286368724735598376693380062203638302668139664 15775817635981002131637656378951278388621660814525097767669134129232502674834 95072604167403572182830004973862444075819569054605536760732092455170038558317 415431856243996744748888727402503155619785400960253735347293876611744725098 45190082622104628312424241671176328100266152815574825809524629283795790963326 2560034609977444864547583779342560934997054210320140177745565155560703463590 59466069788877782079599110472257157707094833456228843380669888816867370418653 0 56326019448438413343971874536430750146175151209411720658787695191045759221247 1 21224688672439988911666787158810613738323773477623112347883957939967013762058 38366836778969845606589656703794235990595431744668605526092433715493688021992 False 10900129932501198238345034246806694042042607335947876521479856189182511637439 True 18663202372644279288856375779910944544699831431328332879517796112855589046803,
     Ed_double 97176814669751791961331638350035881966993594050048837860361476910455477638812 3890485198161743444694657213850387453762099395300031537196341643193433025524 100481386138818137750775422741740365615049310345899684141398623586841730362412 12712562439453150251439889192750016725289525263552745257296015435742068863474 52993498652388747170776059107235367940069893473374626431275307784703556584762 7032640755889598681182638375859935656904994930780239875984850010128195889463 3304571469066345789443784391704483648055716295850846281037146676386252723600 0 112487517768249849634127200616983424205214268369789717758420437331526876916300 1 48427913736837608266186835246980452511660467837864105011084951035203551898472 12175353081024358281744367214419414005476983323671937693306148471852937756989 False 1382076298089506217328290458953218032270219347712071949809408330493193652062 False 11827882673655666902622711587716628558826220410088202341979785148053737222162,
     Ed_double 107745617158661073730643712858536227948766213704182821434879560715518138645914 20254085096400344781348870549152206668097025232580084102637008710487983914815 3964708806616716139192950668214921144962744586907307194858093446234447009315 1280218913260927973395374473561042581479913756992009245628827647932684409247 46495268282186673125544095118715147387064133624640828383339661155530964615084 5092117713801204633929771907408687292436906441468454066189651371212816495238 12011180885271837832120222818366601049466515548365049799436116738629438003299 1 103780908352044357591450762190321306803803469117275514240021467269283691636601 1 27186305465236551749842573802124445331552679641832078930108365447931276498935 2312041997451586708872587523550236508157965803316305389071105927566014363214 True 2820051306579042042720568415031557815549892550279360571002741195703241202976 True 2072212533896258661949950122650816543665563038316641778678150649216302495682,
     Ed_double 112893465250063286822664810275014358982800884631348564172167002654615455075483 6382950767339323248612655220370063671425874609878182595392764506146761416679 22440973479787171080036952760742150146445054828206266474739775423162664482434 46164968895450431864037012577100342393426094724403393093160506624043972869 6180570604009350440728393675017435254415269018264322255408180225748186833284 542833974282571341062466503349952044073030509180423889456034773119410330747 25339597467040079680943127494415699016914154862498266342030356776460339046849 1 90452491770276115742627857514272208836355829803142297697427227231452790593051 1 56574002287690562566387008107654176112985293065528815433473093068153251878634 40555259698712479228142211631679471073561232444601298047972603499607234388181 False 12380486909873380050220167736073637611381241334859549034702138514307895286101 False 31680266918933993300909998753692476650762552477407392013150490416754519264193,
     Ed_double 50110231003758046817038484304822033700961302021795066851657094388743097915412 27641074238568598853692743036258995424686254036469268647490251894842804648328 24699639327948418390538980601651082462040209609146103150823064307718405801657 14204157642057359900021234830340361395512750847015741535107366814991982314048 47694195569265988180568496077563044120930293615753979484739072568851707629476 19814595021863025293368957716148095935240415384614677123209366490042753231811 90381497561506566997071481305516956614348892252991600338623553926888437526143 1 25410591675809628426499503703170951238921092412648963700834030081024692113757 1 10780707225527799223727042055056551995903319194379151477081117380874163309022 52019749602470059668344983068026172384793681144736228079710257376320252456841 False 8414879377626306181556012183407246210782981666754842089364242570834552170753 False 11415741998722265616858387315961381642896447628983917505653075086807246951916,
     Ed_double 81687726723291830262043366755203039790420506704046153256002692295939523620912 1003727016656091432962840111421858620997676348512646257480090377096232666514 23983658653110741046797562031848362533921721350793336277565583987404423841605 23369941474651332465891163113020576032973995584952917382046225795862931508062 22151050159598718000824632839360862287443212695418183222754214503199414033276 4843247013706738452416310937774158042163340161206525369100547775765972645037 58088021167135106208325180285333230596771199312387747061020475699378029860591 1 57704068070181089215245804723354677256498785353252816978437108308535099779309 1 3464320599267112696879288753247079893959896359625474425290602150960671705994 51694133746787581571724731688211103718833232899104586370422228323317173487873 False 1737903941672021020319071408690294434994292122693943325396996539804750817099 False 25761361006623585640064363470509717915432973241181959669704117825313886302380,
     Ed_double 70417736111256302775413053307226476030771531920948605371312834168872631089088 103647125581345244817408413145560287842898883042628575669911012106250139226 90862158341725158878480410283896776219593352700060417296526848641461813626203 23078290420634095367436884420083484803079046045768003115734297767310929786687 70306683887092660829441676004053990108156516714525261301708461110126070815984 1546608698226613187038366736737447808590792824460516509779041444052664494561 20444422230468856103067356976670300188821820779111811925214014472589182537115 0 95347667006847339320503628032017607664448163886528752114243569535323947102785 1 41301554414245700419639718923570458390119154231634759147665520927567584100098 29364674778601018936997556626806786174514088488710242926018946766714482756934 False 7292263424740110701420259336305325332664105544317037793657854732611241057399 True 24180004445866003085002649026863679924993021560970089569022949167941261873275,
     Ed_double 45391671137534403074720419505764436091644343539005579418723482906010677114852 14731735201157128722088608004979215009929531475019124308055228231876482361424 47881891000084448267009268888673151732711162328078132983817925270972579269112 7446831044612669429044075278431521435224140610322440100310517061704984530478 86457290668585925813581261819796752029813865422837638920975603235254019700748 10474003200161348751738442504712550803821405432477129942519530275696107110208 2490219862550045192288849382908715641066818789072553565094442364961902154260 0 113301869374766150231282135625779192212203165876568010474363141642951227485640 1 42474966419402231471674152001358115696747244471432888578155981280875302200677 20182938281251249849712136486927848134532420155649429100890386875073412000822 False 913464863924871446871871485632366292976437230681929835114718562341541051838 False 19748884848727153807721026526096864432770703599074429020928672123431342941842]
    (42740085206947573681423002599456489563927820004573071834350074001818321593686, 6935684722522267618220753829624209639984359598320562595061366101608187623111, 256)
    = Some (42474966419402231471674152001358115696747244471432888578155981280875302200677, 20182938281251249849712136486927848134532420155649429100890386875073412000822, 65536)"
  by (simp only: ed_run_simps)

lemma ed_order_run_3: "ed_run
    [Ed_double 68670688775040258079731139310274342187825050011122042215850897770725758961393 15580708355920522264987471210600769289315011923375370635961244616305289844932 90242024447256615590966967825572751384242330422912643761370507265976321116498 3517951876919071736128013979278742287863783054472498408597396379444124332557 71560406339981227513996431377705551479418523318064277342744850559375832337038 7403524985062133609642212319022343403969070188991010190084397979222333896672 21571335672216357511235828515298409196417280411790601545519609495250562155105 0 94220753565099837912335156493389498656852704253849962493937974512662567484795 1 52869748631960986034856376238747990075784338722812323924650009680084842073895 3796174517710171698598804855217198428321733657889201949428151222167600506353 True 9849300605573610795655159541011086056412540584330987297407802889242757441275 False 3088971155794753261424119838460845742716769921604375673432720038737500486228,
     Ed_double 22426315020650050572431875831546162574670067512398152741410310814204673357403 24139907473972160177223683649591110037960260447383579229119680777243510361239 101214206794097563530058281805285411619937223619520221196422267784295186442457 124455315245040555276111663991405517400302449869137799806306641284556984724 36198129113847880432536743064857659430185746807428019971436497145765773382095 1733303145632441246283824070971146893297339419960932476633285811296961584580 78787891773447512957626405973739249045267156107122068455011956970090513085054 0 37004197463868682465944579034948658808002828558518495584445627037822616554846 1 48142588613070057936665739918694510016346910601601381787709232357287830656052 10385474060292222039643213821294435966838835008701008210657350549376377214577 False 32757445576150698639456416439631333482731488993534404183774514462702507746641 False 3318932540333588659197964628271730890082078311754452042780778083889582464409,
     Ed_double 59420310622978626117770799565583336740153731657930795642535054073900757557638 20016124189772173164390479805024770486507579149287623760873178671918846874617 87680869975041895842089043198425013142922827214684210766226882238163240155139 931480485130095611131592023439121041110076003043599898433082050508017265355 45794896526220341663685371134854690546978524840329220096458378881627849243074 4317942689604995881437770276039269872158067774650753621927056317884250872285 28260559352063269724318243632841676402769095556753415123691828164262482597501 0 87531529885252925699252741375846231450500889108887148915765755843650647042399 1 16394032366096881154453202042718985456910765089875944486157716261812202804788 25091281840661552205135748393579341584120703124592003105179293019326456324854 False 4001175967662033375095283548459026010555079210065447198262298339986109941680 True 18967429474339067284674119424739216198875917163719978949582142934275452849490,
     Ed_double 114297913013887152247477184454552541314374589239558718200942430828269625715326 2321093772388880213007114645539434998401406286361545810605310991286784208141 89460870012137878212783742554800043535144233165260780032205350805237833957004 5437093574822730851012053180783432869743992034211892662948640964402211215644 32554118880109915173843239536039952849279409455579901328664719854407113195416 3552464501781352732259505616770224157082813928295058823720558773826097755632 90955046235566921388877543108935410074039628591342625870720503984881337881576 1 24837043001749274034693441899752497779230356074297938168737080023031791758324 1 3030652980257820293954590240644581873411659236202283991563565950415750739437 3449896845806921515373747351251070124616437120332303971385432452490848855288 False 2380587342010530600016069990447408884083177940574501764204989153623646136060 False 739992143464080471157877451769775741013504971027860323038850846505670029559,
     Ed_double 80680106221976876163424273448715315084605574462092541495927319366491288290711 79321977410056210247605071210483355207507240536247496316989405636626035821 55194951025301780737678421512084749314833827876868927484614227852837330110224 102785849405616987197035574607634623475476764891537370624834991333662491640 837913252601431597421498049501486032401634533130800224872491665313403819718 90294943516377428451088638189805132113273337550374223343682622451683814381 90306934040641099997825133072057342083498238080416950028144492494259171459411 1 25485155196675095425745851936630565769771746585223614011313091513653958180489 1 32641263228758150355667687431806095122956256108730064648049172982697192869757 52273704419139405159775014317290835933664475552332708366394330415164319248459 True 25457113908371413956159590616601037658842222461056252532064887435588709834179 False 11505133715106685318438013115535527628143023739177414103287938688097043825142,
     Ed_double 96602029811772988610239692020708339078361650528188663287144684713552417739861 9201423622173636612957688921623276777350551242280054864148867573742976415106 442756712643441013360350999483881952147128973027272610422832223737156801267 23598677523636404978037966749780251096361709254790011078522685477075434916143 103070310480345980304291422893880701472306235006327839532703665701278142723445 14735719487627540833227863761264862476924960860921654993699319809666147882441 19632816138186647826691643987463450727055463110479173362735731518097868701304 1 96159273099129547596879341021224457126214521555161390676721852489815260938596 1 26993053454492735757774095526931594398941435313067218024451801426996192317244 20756573878643363325793821026438350840612369149764266371668034898098235986297 False 4576734550442099675544524802048790004563801310494005634850464702922513220007 False 17237248842691209302023093086579383849563269138645756273976973051767758463158,
     Ed_double 90168992495278390650291195036872579506842401181212394857611413443355633470290 6292527750352474166883181857312468482896558013960911911652168760626757196027 79187968464268564946882626788759504537333188394185977351226037281133189877111 3720766781369509440976288583151591587317660646209085329068821881262579252401 102728834441538063532053667680475529514071961488683515810552976835151495387552 4838701088552308511225303674364040750160830208583593677805577433192936033942 104811065206306369720162416760574832883760771878614146533072207845690686046719 1 10981024031009825703408568248113074969509212787026417506385376162222443593181 1 31520167665919384194696730538735098277674977480128774019718915946563876798036 48871947419602552330465379555019735272161840172752412330071639916632071437120 False 28530984891165763834333789777658916505020156115232740972836800934048870860110 True 4634721012391527985644001353627521743451499217727629622035585030044791691065,
     Ed_double 67868327164979077267852631320559374488947815108354652690575224899045660515510 8580214557243595160578194119009172348161115701933221352854460262408469456257 25194749909890808467313694962940389565743985186254284259420393002815085332294 20627205712552837623150351396759312580945093559999276497992497586394775554097 73981364998712221751120994600758829366684952895528732743784634096575274826366 13303602922896642982683450995877515325817314942064407880251854194501568206373 73118511982227926623032048651068922930066154743540195608302752111682554456682 1 42673577255088268800538936357618984923203829922100368431154831896230575183218 1 4953187230743962930662113245944254306680232166954327932822645132912059759223 14955570584878506545981286824704959560776362796341363640094685063311756888261 False 3127758401000115747363976897246046417265928477121113410593217404207368763673 False 5511669242272071101046756650991487229020815627418257698688349790351249591803]
    (42474966419402231471674152001358115696747244471432888578155981280875302200677, 20182938281251249849712136486927848134532420155649429100890386875073412000822, 65536)
    = Some (4953187230743962930662113245944254306680232166954327932822645132912059759223, 14955570584878506545981286824704959560776362796341363640094685063311756888261, 16777216)"
  by (simp only: ed_run_simps)

lemma ed_order_run_4: "ed_run
    [Ed_double 450787860824523239827867616150723005913709490852919519438516117495014638127 211880309824295675876286077724297936294506234522569332510208553254509229749 73649230886241294322953874374304904271687176388306691701636235765318787211833 1931643974925375388369375474275056429001817470057675369816336109412165171056 35904166375489452817137140598001589045575754508954150922190349373018797885359 639747859611442987039604815588727888261820502673886912494911252111876653178 73198443025416771083126006758154181265773466897453772182197719647823772573706 0 42593646211899424340444978250533726587496517768186791857259864360089357066194 1 19657949635683093185289569710211585343964433529222332533539288290160154185011 56892661656082980073316383795158683496393820909924608301927348333889896713218 False 12426853301307723378992605785429922290359215000755026403927239860597775436176 False 20927732788947304765125101227361104982470291199342137290780370782502680322134,
     Ed_double 33462052297860942501944603491064500179428926143228287835019208147929321170805 3337317656364706633472638595092968621866885394689077506442163719004519578242 110274153186199456815197844275019038639020476676837893485471527290919237889202 27953334045815130700766106331280317480908176054784765064207628630138651097389 4523399798257254590754249182144745153245192064643050249694357589298209563360 9658631127926954585411431417027225654182235802168757750469860889542191992431 76812100888338514313253240783954538459591550533609605650452319142989916718397 0 38979988348977681110317744224733369393678434132030958389005264864923212921503 1 46976510156322507137269201780554059652401452413839958562844701649608332008299 25448670393978825583576233442397517457541692536451699283561630611656102572950 True 31162443490540625457499922859952117677481221007876534107569761195059180628333 True 8566983133201647579776393425855978415479151430878425559819762743115009682903,
     Ed_double 114464555434079632614341763777268323993663022193884169879370600425481925455895 19058232051968978138755990707185622475655600350245381893554993102946625761397 6062508102088789087873405838118090100237238198270844475160358945591552731578 5593083509306452659579970547548613431627905478547276930493247702111309990089 13069972696881662464176143830263831955044910506444508678823835549512677542230 10324450755677193335173072235780059710581904282770231810368054659792489335590 7390041905325351897102627069537673959844200670027238635247342528022756915581 1 108402047331990843526468357939150233893425783995613325404210241479890372724319 1 18958742773298937073755619970621164217249748928981220693078384958060703810681 49060669014889618634034845030820105181036997350936347239322049348217814945797 True 1209978198768103236464401576812013705730729118032579233682154562426816413174 False 45929536289749278289233211897206422455530085082435864989378605332082502431865,
     Ed_double 3221116772142742624083727028771474358971601256098553452349921806648502678121 3104131982690578105708305509922531384910167843070614324728360445072249688180 51143320912004233526329062066921228336122691730984584944346945153983038533333 20786819376369498036657377599843718967194257476737509309953246320217810825962 106217407480923007096020347237933241186747966162025744199309938611873632441107 8032747403261276225545969489630468555106902228938958487220299556871638870425 47922204139861490902245335038149753977151090474886031491997023347334535855212 0 67869885097454704521325649970538153876118894190754532547460560660578593784688 1 13692443628628542482398138298848103782249043847728748207160598387591474036267 6535661448952062909216951562535374120699607245381865810845630213621355776630 False 5666812673185785682479235502907137607893567366648457066478587328888416726555 False 3830784939609592224960202021342453097142369705486683954321145882552622867157,
     Ed_double 40540922634884440869148252621722709756703051378462659280693314666496775317615 1619134897366981898735830055617135879280745129309908261812456496005329895513 83771819120457089559189582277940254870940440687058010763300947614874785916724 368892822097491801442025653353675487690100749097943713004766378527444504312 73238567091850963942623075928678053092195122133475405206234856856138173994088 772843607495228429135652906308758524755475390894315704937408508478396832489 43230896485572648690041329656217545114237389308595351482607632948378010599109 0 72561192751743546733529655352470362739032595357045212556849951059535119040791 1 44073126145632928819502260833325828264688543470827754699842109261297194996573 25708642289863751966302024225237904726630733908921048717331198880892436709901 True 16454671184768785335943002876008076819497209191051995316392382116651207575634 False 16110338459799141085428059177425932102618861685059040387836395733512929255124,
     Ed_double 18109303835630395787630502626210963119918577131317795804766374310592175114653 16775243119310473706460722537434516781471926199974878634632355622565184422062 92264879965104208898310870753508228727687659583067809485332200359312889667741 5707939918361645198801019189104272875453221219242624784103964389007882245470 114161690552344855160970771511742978098446636235545220772080577628537571666475 9785299169720554621394214791208294125954057457953538430817562259332003266051 74155576129473813110680368127297265607769082451750013680565826048720714553088 0 41636513107842382312890616881390642245500902213890550358891757959192415086812 1 32998196372564612992359818786763423324015994136376432300157753889179321890705 22310901527710631603180993315816672899331474004376446475717230095796374000992 False 21132706727710113461846438594703581457886985746297064207393020824560193757705 False 8022552749716974612427462277920470487421031504857049092614695013097252847695,
     Ed_double 71898994764849460048177184357471906738962180331116579392944752276187114485351 9403759540176116404841415319450381671877375421443781875592668151327123278513 89357808375351003701255104193215429662944188699887332694043853572961161829554 4298880262528182617777327038122421323706348426080475356138186911754874672995 64849806576640998161441555899494030420531959944198676685331981083134364075442 6358115780702975304027235064996238583191027482194994962555532251426966193491 17458813610501543653077919835743522923982008368770753301099101296774047344203 0 98333275626814651770493065172944384929287976296869810738358482711139082295697 1 54882909907635354958311263340029521311980981711637644057731212095996500430552 42932185445836734984879765196158360688663229692937278561535355964359997581186 False 8275094618212995376787715799925255554492151103847861720298241802424696174714 True 36458988282478224813427446946962743571527337706193327042403450503687714068806,
     Ed_double 51924457221791681464021085313618644751656621282212576244331576802390251737192 26013295206689316725597765344258886276694656271168533012595556263661983734044 99349254028623065069362757892163233933021543382789491913559802163470632879702 15917948793359523244431234444611781177771949748334722873138107672273653496403 76194588682751770048040029354923573727905825974901968524676411870249770366310 20348914001651913192678274290935324173051556593897429885916929053969981497369 47424796806831383605341672578544589181364922100576915669228225361080381142510 0 68367292430484811818229312430143318671905062565063648370229358646832748497390 1 34881215023217925273427507880129132732978197777830040111026122875038460546235 49417579777138232809020590461442191010157021293872759678974198530760482863386 False 14286248272635847011235720069379408289786175486325281451870304201939016109635 False 29177693831105186524964563939870096701497613296378892132264247961687430875827]
    (4953187230743962930662113245944254306680232166954327932822645132912059759223, 14955570584878506545981286824704959560776362796341363640094685063311756888261, 16777216)
    = Some (34881215023217925273427507880129132732978197777830040111026122875038460546235, 49417579777138232809020590461442191010157021293872759678974198530760482863386, 4294967296)"
  by (simp only: ed_run_simps)

lemma ed_order_run_5: "ed_run
    [Ed_double 111511870352638870660333859600394317429980054872908601439926236304685690773863 10507619039521220778323950516443275986003028935001839140198077072760295835869 68638678791633117595874410799931605604994805801694235445688867642446225568242 21090362969656216595273509395820771638839590437810115650678807739605912802973 113346051505357195562258627026342497388249742108651811069536990836250019818846 14886554318927297562241785169606009780138417906475961613215539516516399585168 72918897676310442359111536208225196028284735594426198045220215345673664434277 1 42873191561005753064459448800462711824985249071214365994237368662239465205623 1 34085450069500794510152409520807677869950508039913904939590977699961040436501 52278291416665193925925829527972181593462278765769350530558236265859287513035 True 21464967617735376040122645681859100201892232560683171313557693578647781554832 False 19356565868633245911626917930725799936272591407993801297749549766121345240650,
     Ed_double 20877889227369134581360446098026073001958175578184379653690332041048211008841 10033655270346515834533502684172426496052673352587998998218730628071728496920 452116843404706588950606756200988410948624906422344664402082373231998932809 23602819255160328111594887687044869934854805451089756701554475667894772891192 64342450695536980876318833691168616978944946117350409796199316946821021721573 15389039990024577600807764754326368444430080433901877226304819649908850192069 95366316853351767431161145666862823262260433993878529050169334340096917563866 1 20425772383964427992409839341825084591009550671762034989288249667816212076034 1 23406589806172960174851795884335653806454241620752476244917220156478142938335 37854925133430588252830311134599570623631025784885083249593544768206604501465 False 19277657693325004878929192263224598982858742536326746059986781100107935674118 False 6677624434280298922843414282663075976589755271050769003159596616109488179920,
     Ed_double 54789937969430450461392492192610195340572918117614190371870136257741711785725 4731484248734661767358105288222401495219734471194330490673835430610339894250 96085218796691183601035350337477477516054885980942748645504557547146654152513 12375589440490248325133865893487233463632525600744225188915626333590659285944 32048662158370501651638383871353832204187101492090984920718339102748595281067 7652117779182872441213290023573779075848111552855484752824467266283274887846 41295280827260733139642858144867282175481967863328558273634421289404942366788 0 74496808410055462283928126863820625677788016802312005765823162718508187273112 1 30886537925985998524254955874096819652783119677955825045199375216769416949702 54037904725904619508111005987774813902206702994070596763696498304265167397445 False 11015158857884976078078585811919553346274832053594633828583529793957711361029 False 34766204338847049611747269944388233254028461295144930676396724610432390787249,
     Ed_double 96662624138077654034644088181096113299364019517323820910183252967748136129228 8238716749450737978314414910597431874884677192239499107026192227989519979612 4819405138755268459782662796927153421734029262446485257178829122885728960755 25218433887838417237696690255896777020541703388727148518602672279978345735615 111554105152797195474912063139995504330504380659153442554032624610949600700566 14414143528723809034635490112458162368932957227330800138108662360524352595188 23948870237993809848709559624518947975639994410763228386453160163050722471425 1 91843218999322385574861425384168959877629990254877335653004423844862407168475 1 19639451821147740670698624700272734820894813909735291580470206199768700605392 57494903421850047051437277431621495081848935660098712752929417894600320224466 False 4061958690856936451759886123509927389400086448000079574830456064548442085466 True 45603434924603788830698861050984954176653061300866008995537918780861571708241,
     Ed_double 87436501138815895835849481775958541599370248319879651499966609848236457078278 3331039886884445057812358907630171347637547290393699221157059835768378069457 51786424541380850522250984575031372002548230966687997072060340242999128574190 28548270795191347126110254150640215278139920143935139252470932109723625426167 3122081717808172628843919130257368056159335319061369468836479314842844397144 9751688506118347671565105816905697581286749105110784361338587865720341936436 80142012639881150109972487807760738256447967312448909611551314402675801135810 1 35650076597435045313598497200927169596822017353191654427906269605237328504090 1 12469452200683121609960440379957844757586634886744101850068664139886892025012 10489147278187110362134995111963226564141046001348941075622680658741593532648 False 8630356378071883778552287860460938562986153368333125733318302534568550683084 False 3229399403466665379371176173343192637793632824217289524325256219651311122374,
     Ed_double 97209173963544207177747202393441750384681375896091185729999225363279542236560 1342813997132823431173821830001219593926271102248456861398231281936244487808 79094442396679687949254951969200637787021080499646548794505609464761538414360 950170355748649216829073398476182922356288982699394096195914492241962729828 91310934720847393246686142049378994635890124888743258280004413929157849804820 1129558344380652375096110129744527695770823200857641054224574695455157875422 97677357670451676195078734584446795255609689269195927103963968109395125817698 1 18114731566864519228492250424241112597660295396444636935493615898518003822202 1 549689331659327561605194692422602825769416452111816234011461274565005995655 51469744701391552480837245041655791053255331145812797331218148961728035441779 False 463694901869136884329888541181723114645660909893080575042606759676874004975 False 8052023374151923549931885686099152567533091097155512803400547460664609695231,
     Ed_double 38972963138345067542640454168629713787418318893903754864202874525014077599127 2609490538864048365643824668792843690506887981249452839076225082005180001 18601480151489333215018227384034065350445246815637260757282160242380614328327 22878373100229803525050144658626539119004470164461591392494039840776139727093 80779743706138651455268545013498214238795693292369056239384446008782099875893 244337672391408809561015515659229279097189607859886885493524707908087801624 95420606250460461095948758224092259416296912587374069932536869725279666369098 1 20371482986855734327622226784595648436973072078266494106920714282633463270802 1 45113617814944202352153583642261178502360614596484279216729123193977391993714 1980278042691965713981149139930452264163076071667628639090250557504770174587 False 37176708619799700791691493116268521767112342923072614957832689786193130288057 False 348393406852379658300899855966216574195601530496055811757352824487255392340,
     Ed_double 108399841771433797811864394385471897201962478136294723898366883562941113705830 17576662842498887403961423468336487140265777693142221728686038944859078902667 6123816660203867009469211925308660434491264739889593187138057142548568540091 33866744716306100803235114968472574488067085275033938511944328230310019211 42514426125661769260058301094397044005663115628621717523018535198570031467450 771533766890013029608705428539781580895597564633839174360072979118013462366 13516064126086264621175802548524671085798771269235433328228757587520584474159 1 102276025111229930802395182460163236767471213396405130711228826420392545165741 1 6975916580616431138430993573433071747917420592434172169347774209021880766693 27729946105412964655112236315850267932468036882545041507320998583854342562650 True 814277870473506876960285157670178819587911182758077243874328944202965590281 True 24493112464683634221757961192977032097834826357909266261338566942090382365610]
    (34881215023217925273427507880129132732978197777830040111026122875038460546235, 49417579777138232809020590461442191010157021293872759678974198530760482863386, 4294967296)
    = Some (6975916580616431138430993573433071747917420592434172169347774209021880766693, 27729946105412964655112236315850267932468036882545041507320998583854342562650, 1099511627776)"
  by (simp only: ed_run_simps)

lemma ed_order_run_6: "ed_run
    [Ed_double 68522244216465915310399782709943145529020848356475881503108263641919995484175 420265429704644571641155971057901271218931313652339972130005011029501908313 60465869889415236996922155373107483151381993215170293877038305844445825135630 6640781041899526959736096598158647041591273181610063419866637100879450065815 18408639415301046201686838874843235575286973466641218752632030265278046338872 1670595911089322038408419028571810607644303755550495231786766055615620123161 107735714910265517110093357671852245475631129524334976413387626210438959291353 1 8056374327050678313477627336835662377638855141305587626069957797474170348547 1 26721402367527682574942110461580517411213448744716771766358148163877301105728 9288387344892172799170744310978976179910527092723579902952158489343272868948 False 24862228554925258758869754236080072824985383676846437757868976774812595359880 True 646250757180189955329748858701031710900877163903544982996606807565872633149,
     Ed_double 33671761132938668716968355817731459130941245537923774340473593982934957189660 6166512316950260716103139015737105666749548977966100349629985743083082402938 9369855906724599718353316982462596288628062933705435244445942865404608900264 745078010397877774606561820407739886365145315862532250132262443682745347780 36702443156538073551760730366593961591875231585749729043684442456472330641546 2143486115702013993590670230299229793929881406253237832212068078592116766151 91490184011102126424955946173419045010956802061422224943429932890382781350502 1 24301905226214068998615038835268862842313182604218339096027651117530348289398 1 10988524301762373242246727351929902921498129982664316002800509126742121162784 28440719635374571293396157229875541269413226941353902928329788578666889313331 False 8682303920764878024133599698125430623132225072117635963823045115759748439662 False 5969005980431500767018577553779913537203030823082179443114872648677424600443,
     Ed_double 59212573375041080921745308676534705900766997485479713280411575142527143003106 1042797199063828864155976965791375318938943436161674612742548828147109562475 53422587340125716117276118721945366611880146525523773164267098185638252264253 6985576810175608595097881075783321499442765529182142169870988170038396092046 87662534696720454505048998949621433868072797879997279061805186194633509248116 2698988686804070465397591521364527555144573287836607758800432193233889557006 110002103202400830619101795054098568564383133705684623923313107051024238901045 1 5789986034915364804469189954589339288886850959955940116144476956888890738855 1 40716425138725944745186331899970009610267626729218118393270956274853491203124 46769152930682528968583401401235025295039214644177585564512426226384755878073 False 38680469707766106735557425095077366066432489923172903429139898089607111159526 False 2338611766288130464553460896811929199708926739474780903890580563632308016872,
     Ed_double 102219794029544804607637007832454461846386324997840244946380575523574613390976 14317275791438158172738680343887442126587832813693036791515173724771512725800 94945374578651259839178454505694722396191512695047128893395322159821875708215 18890354947915163892432014477045211596406970493706408636342172350762477627793 85234919369499536331311563179861411363635991890541778933487747760431259678366 16445620133867248161055578205114586187427161133347119266510176599208699788807 108517669786422650655112431681928168403075172362847447986472330644160391957137 1 7274419450893544768458553326759739450194812302793116052985253363752737682763 1 37510741031459341378829814964903502667912927266993467424549080808057139144766 57303500313920857781889356400330248464357243021787478340933447880777082073539 False 35154199526992374235485723769742447673777438889237279666913895568171438698645 False 3599984247918142933136024659017255714211626826488236608301610277283313904617,
     Ed_double 60384808461010268153720616461837399102450335975053166277919562152787451993394 12151570128814612046427715664746750600517085655106508575022941237474417685869 21580954225722465741183183212747869377089978193632687721068183383227502783813 28358510238964546952459328042144431802099798554512888295310161984290567002346 65259173896380693186720828880019420424259118173512341471755224611482523194788 18563416332062504126192501363616352220485829693929836704988219022939293683607 76988235002028393011033551759598378127909626884220085482606205238353180430317 1 38803854235287802412537433249089529725360357781420478556851378769559949209583 1 36241354563762173459705108462830400635564419268406145900966660417613821977637 21485101354679558701669270959816344644464678765615788190638683578533731429966 True 24096274109264237466516200291835935844675934137724264687031889348927836834398 True 7200014670161879595077291405836690928852514239745507112389160184643191519539,
     Ed_double 47835925833525280752292334920954784138162618353042094504951201546527212052887 11343052787694634182552159659376404978953864126230374031309431083602617399109 78599504243209200420024338016361041957158949263354277368579029283490642912918 3986538141433680705451136942028507447671395588090536380833973284463774029331 110214651654652662124645868368495498518157281729133751593853772890884736397552 6724545529509061013412635377040044475835058515851230332068761415656326420855 30763578409683919667732003095406257818996330910312182863627827736963430860031 0 85028510827632275755838981913281650034273653755328381175829756270949698779869 1 20584796599643323532861987265526248228488799407283500188808238372131189701480 26478740800733269288198131365468684670960535144929794027484143547518195267108 False 5468957408158083642049877152057360579018711546623843494228798070837504264012 True 19443883547716881032010515525425532395273685647446119557083405012811380168401,
     Ed_double 84308529444822400950894285064064313736840146996279383189472628839693792924982 3659436960155746720896298266026631061154818963849028902498028482771524725241 110796668777036470369322490988977003471816122289477369504095181739703553710738 6055022575466807702420156643990103853404790080032783955761978702642112644187 52591812484226085270612738911347323365355109191762834691951864078521228047910 4707225659264772837551881642240104239476660833612938159310697993084235024785 26488139332214069418428205924912689734975975293197986314622552900009760785756 0 89303949905102126005142779083775218118294009372442577724835031107903368854144 1 39134758420864184254969116302644788663556954029588642642423917089530226989597 5124259569483350729196958378822907526496602783247669422492733697864938451662 False 8952312205541603887174833236488353378086917477779098517464180371620825710544 False 3952054263016144899194280323521385593345235114462137369742061799230054624396,
     Ed_double 101319150556121998147591591492456029344913238771006116733106884914016847234713 13226545325739194196557529552625905138277818993623431349481638574945380218552 92162839328281894493599392274712226530722877610052564370158306627475430205716 226768825991435217433703159629076138458615291419537303216422134279931594936 75703686841932040197325402294775782314576579915058810743510848957711282632880 1731868400150652949525045290037796141353594549125076180601537872644020837183 106635778009476091769578785790944105039079623504687011676509005721371712610901 1 9156311227840103653992199217743802814190361160953552362948578286541417028999 1 37386868568128681599499830859763869162133292900805977973436494315455022169426 36563616321823734465666870349235432940379598201907262626645125270466793116054 False 34430485220190799087859488619716730134630198973322479190322684731243581535617 True 2891284308479862909303535436166462718006928280869986333061297066270580804416]
    (6975916580616431138430993573433071747917420592434172169347774209021880766693, 27729946105412964655112236315850267932468036882545041507320998583854342562650, 1099511627776)
    = Some (37386868568128681599499830859763869162133292900805977973436494315455022169426, 36563616321823734465666870349235432940379598201907262626645125270466793116054, 281474976710656)"
  by (simp only: ed_run_simps)

lemma ed_order_run_7: "ed_run
    [Ed_double 52539149006834560532777171946138345711525187380469293665837697436252808788034 12071445903923356625327971609387859625332535724437826745984981480855420697829 11810882024622263479901055610517824163361296948526950448052493495722935372364 11545676801716211413840706079042920953687468514945103000931928140270638374524 56583979703411916882932154846613088400979015318514747688785230390140028694546 11805634795981962816302971504078683186933773409107912796475128571097132848721 75063822255103898370694868673067386305106094233698220821672380067383256224228 1 40728266982212297052876116335620521548163890431942343217785203940529873415672 1 28582163575878071020286779611073458927627633926762077980797377317166201949523 29517287490576008752010229265386725675942288741512148107897703457428460766064 False 18528782583142067506733901155739240322152600426736664636405528956561279716724 False 10382297905023610792484042154137524688243488981099266155618381315540041280445,
     Ed_double 16750869363103890057789392107417178272367973941330160966593174051650662746533 7055232184332819661579676170570640605997907867288651951950998162887495079402 83525188747593899612526476672332444864939922597663175529833134175823245082536 7524436829321251911436703034928136087384315769184520730440358799551260704220 105225353818126756018705601125409237219816317058046649179066063294908494579068 7286058528944609835486611660509503666703805937230251375939332699349965410898 66774319384490009554737084564915266592571948656333014563239960124172582336003 0 49017769852826185868833900443772641260698036009307549476217623883740547303897 1 6664938945656958224937745274414537263586471401885907820916253978327430063844 2126634075982654318590492885153132310981526013601685661016577258450272533730 False 3843498850109693657536030040770158285168341401168418214625735687956594771202 True 900258907014359214520001296725374143887698647868189846469368410615494061404,
     Ed_double 28963786056264478739964414270080282863026439873531010215644412559386094620268 383630794140807714677841566890684243750276476356182241867996816244470968666 48140214097000550024012438201104301899262872413226607346701798664274356380404 39057698353309556117237063686645822377706676734561869608184513524473666152 106254942252417812937381814032582039605265059218434336909825689168886309578040 122408070961813064537594846055945616374334742118857933572765202088522161960 19176428040736071284048023931024019036236432539695597131057386104888261760136 0 96615661196580124139522961077663888817033552125944966908400197903024867879764 1 26893906638378427820269402226975745300041457754729633179574373243303786072539 23888113636819035429926907107258444263090323522691660954731306854220582218409 False 4453923137427376080008622512765875154763013296891359375026056577019935185988 False 19931982477923264176706360342560927358672925059629100494652915092611570787698,
     Ed_double 114113568139261540854796165159442756524514092897939817558648701873427491166727 6246387115370605694976890874086513149131914384931160003423148675073103217453 42585694708468464723920608170010917867415056338389835575483172056834577400899 4928160264524179358454976444622467856354787030856596315437130925007062741859 6566018336193216325911265768803656355213526754227263191813385605921770051483 5548260698525730758129312780234213953478309304023130369096296092780352324716 44264215806523119292695428019256069196170948106090582056292054191320215874070 1 71527873430793076130875556989431838657099036559549981983165529816592913765830 1 189355175404241672738129259114556965478340615081311091777345303360588540836 51767299105794865359908754261640899704919154549996018629901376258684159289317 False 72385414266057164902732697172746690884268007616187103333551056547114071573 False 31978046537396819716718601677129679517414713132522598688356755023366893931858,
     Ed_double 61290635893791374021505390679406223005891683983327030537782643495125612239750 309653126466052690842430686211668696943705206211443812065725009362891577 48282530794193426281863408860408107496729661527109718795922353851781480438773 23143664427856237022515007999052593593093310447139357252102320033582397794042 37728407000571974825017289759833298152414496648295915347572432767815991083458 84655230482037271192904544071004628018001704897288090652706063204178448573 102783984137718247683929003189689792344107962209423252297597294364568997838921 1 13008105099597947739641981818998115509162022456217311741860289643344131800979 1 14160459449409432346176007562822108240728702992215244509282193488000767962072 40953833938605278231697173707354259912669188943485919940833211413684494670284 False 12569670769545535366712506455312364639466011093222728373679653544520459961202 True 4600761413096395821477121363303433521097638929088592278065988931242422839318,
     Ed_double 16729815229498189487242461362964406022806685772887485180222678855059630008200 1731712530096986631457121176886926379928410067091698939761853979449455692108 60023592538600867482500486570580658894941230441162231618123656484962654861000 14484724520631092519836239704457821252024246574570217973485815697567209571572 93510120700181015485472077745306497262290692345014758821431402473550217258580 5008330954258108037458924291207516672067099372999861580737009989775293176766 43293777309102677995258025207616252872134544668274746437900977629903024852800 0 72498311928213517428312959801071654981135439997365817601556606378010104787100 1 4068261697406638961935849621742963533803537470089883744480903389537982658853 17740693327176817854801454122587194558819032432129012706849247534385017891832 False 1521091959932559245657192426815944724963342119123919842750689637073681920380 False 11107583662476557897971701365246022481121002598011947490465951042816222901000,
     Ed_double 89024061974581062794576262707244577230481951604423510011500355732452000123183 142935094682203499872774931693312856470141403083225346071615347549620916937 68433062631842493933951710139904279952432979829210712405162616730440904769676 2718080326574741989879786824415405998181707147358694671959392512138700775426 104839420453052111100666073952861715789082520434560227198218319965806710680882 623304956528339630107718616942007537825040382081731946977180186746382058943 95201089894577626562946432441347610575221012890427766433119845005902034286391 1 20590999342738568860624552567340297278048971775212797606337739002011095353509 1 11823766772564295466429875255239566661981081448176083546584427805840615152756 54040755356101629851791062456974045253014690287858169301317937866514626344693 False 9721177766301638662217855040931197196066842621852255736817070461128590844884 False 9609923832862138731678464361822975892158508545343999197041555064693591077011,
     Ed_double 49692888505539991589651109477210428163537269227713792271642992840678244772954 1207348978784483538955572998578499907820593360004118671924191155699212030759 58054993843002818791774583250617342315533547993273669708709846913093746935147 25221094624803364363474037253033200406747924322202629287212368455709319490499 65124897584658687233931677639164651674920527387881057320479190361613477028338 5518211924082217502634134293666974768756293327450607615635499525166964653965 8362105337462827202123473773406914151996278765559877437066854072415502162193 0 107429983899853368221447511235280993701273705900080686602390729935497627477707 1 51502639449004291622700088031154688719483163480862436225495097465744471100900 25964330211653062987717188781243886463821901684982951650673786718455132103697 False 3719342997147948676129236177138140599164621353594214735199464895482827197088 False 24089275830334053846065625032275568297718353780523266683280930075881909627111]
    (37386868568128681599499830859763869162133292900805977973436494315455022169426, 36563616321823734465666870349235432940379598201907262626645125270466793116054, 281474976710656)
    = Some (51502639449004291622700088031154688719483163480862436225495097465744471100900, 25964330211653062987717188781243886463821901684982951650673786718455132103697, 72057594037927936)"
  by (simp only: ed_run_simps)

lemma ed_order_run_8: "ed_run
    [Ed_double 68479700463675067878549781619676501860565124919488898153626074176042021406256 22907625967243603685755209182977030391453612724193251838655827406758145671728 87657739868065605629127084431469569361093459021455593818610418106883809645377 5822042315499593920750214574707347446146497764194430182646977261982124689584 96213686930869051739420890757252773918417667531349171207998584599209535013692 11548556954396058882676511169123746441529004435398287992620770871953969043396 19178039404390537750577302811793067500528334101966695664984343930841788239121 0 96614049832925657672993682196894840352741650563673868374473240077071341400779 1 21734724549841690193090842476809076716419456331211857741265759957945129922704 29304975373538996048835671269729647815982116853415896625128567603603329907841 False 3599808990458280384362388977373192807813914304360657563460735641020397207100 False 24451345249406939417004616423388715798024495066303038464930392854310700416897,
     Ed_double 15724652912634175668349569669919060383993782753813844693421844783656527059968 4079710922991548997222228293486053347339577451390279234958899348152216245376 50371134560157638418833019963855244835743390693346833681848292009253997450259 7416582491085827816564209265693219295574415509494577047271947019271215687539 11657061758660818173365302068352874721741763806348322850356254281234951842294 5500682921251753474360745263416266627237332765797545371710168186757397616865 34646481647523462750483450293936184451749607939532988988426447225597470390291 0 81145607589792732673087534714751723401520376726107575051031136782315659249609 1 30001687184291412988809724842551122044758922095287536204847335704949115767033 50835770704986724242436677611718431048705647431520755367710246538243619075335 True 8976890487699300556139756267205078671213290797508553788384025514320245248117 False 35625054598480655860369939094313152386262303483319585680379024814331070137806,
     Ed_double 14752581198935628786322670884674571823329053913906046507686215848635462347541 7773425972644087415027688336031152042949243467262263176672595606933970385926 114945293766347907775380241398500353670831833851035716737142237271996053601599 22318239529070994968396093204571573705667113546429434127778844309632265067837 62499255640919301701814524523333980528771124440849125215092253216512932429863 13171529251342549348385540758802773211956848515106293318567948630942135319204 100192712567412278989057570513825781847502779937129670229456021423360591254058 0 15599376669903916434513414494862126005767204728510893810001562584552538385842 1 48882273411393669122044540803817352985557027118982854238955416614908556491266 11407218847596422755991434262659321162615585973279975075808294900032260014207 False 42296909934077481094279978044375401751196335983157155713187330094241743521199 False 1536767362362588456013616533809546744320278377084474927802269179079990392273,
     Ed_double 18625302148070083949570190640721746342587371726817617065735136719429098302454 20635923141251952793601597880845936808124664599405369299530855957556937944899 69346033171898958758639790576988537896627675990042682261899495959980314080941 1123778340075272837068570380226257790508753367665343720382519139524844153746 104689233685512930638317348474387085747901241978872806484831859376736471619830 4815620775517630968071299570246795448808610748398931373254342981839892097684 50720731023828874809069599936266791554040304263225065196164359240551215778487 0 65071358213487320614501385072421116299229680402415498843293224767361913861413 1 39468567782001629845469931291703114351231301360810771182933666088696363117813 48520602033621835552297087477366344329736087438136796734023135166735240273716 True 17288526561290517191717894907514116639855257806395175270830227227572032020889 True 27266987723081583177052487403577492154529034555981571419434305575704674080418,
     Ed_double 32384743728415568275332939694451248442614540101600321302590461198767578085647 13453145659802438752040883944779388013242831860428101489745047558056238726889 26905925928956907637801043875296054442946136080023003284577326745408324153450 20331689644877796191759944139334706362270898241356214324069880358647513890047 9872084444207351340321441493399001403586287205237122265895727186172937118616 16538596745263423680904039530647955343446085097341051632507429913736059435054 110313271437857534786039089189532713853601580644063246021444449554553875707701 1 5478817799458660637531895819155193999668404021577318018013134453359253932199 1 14634154268926673608900308779686697918188551795673908169701089186353020356853 22635139240448021868201029866848773426210620100937671088354264929878430660010 True 13941724713360967779071596124449556604403674566035533706865403615788903625414 True 1071004112462511917268255529405914083340320049116244364520291143181362552128,
     Ed_double 61886865511341068558884469176127758165496466049492046876642642121270333827797 1849508654497341589839048596174705453338802441832771856281696835294321842394 91282166347875622023025675632826556729731451965043942239232748725175064965646 4424736886683235576143629324916105165248211925234902248337003600019045661623 73807929129663664388067785608984151743290065105653477650134094608943305934236 2860697321597352639546169379892663456693758205454079157185175516852164767703 29395300836534553464141206456698798564234985915551895362590106603904731137849 0 86396788400781641959429778551989109289034998750088668676867477404008398502051 1 40334547811194980222132355507048888492367411465942395326465999366654848330295 30141215867806221944935945054462736214036523470954538064480540475644488758752 True 10239440145048922694963262281082271686106739383455636792897158763102737244833 True 22489483233487717546896325636544952708455664832918109219806719334186426080520,
     Ed_double 49098832940808785947895306146109539579535613838535363846791726578611936359357 14049973170440750846911358213288562722490835689954103499921767663759396762866 100962810059201361699412523745261899597707875769958310706961600110501429428912 7845897763600542469768542872612002219044269344798699145059315453217097170504 69088086958136208411880983548226283793871052838178405179320423580700913355524 10499269168690205095487844857557666013026534577758226156030345557252554884742 51863977118392575751517217599152360018172261931422946860169873531889493069555 0 63928112118923619672053767409535547835097722734217617179287710476023636570345 1 1858744241653336215343795677286102722518125133862047495966642301222759149346 51688159461706094879304629140765766764511202268320054417312410136779795003785 False 832542788138805431432049671579147582810375264804420641749754260444034752059 False 28536720211659054630246524499795738729547246913922624864829990284160916550122,
     Ed_double 7631806883515040223264401812127939053363626114205680986194610665971438943838 29837359172253532593190220152072796551828453331707263690276206604278752511 85026251848891428211081919358213138099305055207692095203433650475104390712461 23072956418146761870970577737297294723335730110334640511568123307103091842218 5495084401660452631061616883313056335601062133206433446046602487240929848558 829720487763196853209490591687383090862479162247593066673184490246195303274 77394444965376387987817517546085199045941429093486414217239039809132951768623 0 38397644271939807435753467462602708807328555572154149822218544198780177871277 1 44388040078108422381599858079345000847427885062711346041771517276226329616898 1423604317745427322790381226394774763053130405907994130724317794966956167955 False 29668587444736811220561029649973830095479950375751113178964082968051971583781 False 472079332334650374197999336039345144948473213507669218735477701693009664782]
    (51502639449004291622700088031154688719483163480862436225495097465744471100900, 25964330211653062987717188781243886463821901684982951650673786718455132103697, 72057594037927936)
    = Some (44388040078108422381599858079345000847427885062711346041771517276226329616898, 1423604317745427322790381226394774763053130405907994130724317794966956167955, 18446744073709551616)"
  by (simp only: ed_run_simps)

lemma ed_order_run_9: "ed_run
    [Ed_double 49766012895383348414263039472969506633583113625067288290119866918064515786608 17015826512445322151520824368419853716663916679774739711195505184949460862002 22945427066134581807489790825342923926658940703234701284971710820832629599149 17502484555311896600272142347326671166583387584731358469188299692130925462 102468363751531693167628479770640974550161163529891934082405542103073238026310 545728174762803450291697579760635634212693509547573979194722045717442493360 88971503408067428816797736361061325146345811743807977034309427910681243452439 1 26820585829248766606773248647626582706924172921832587005148156097231886187461 1 1010247752756362260881243234901448331704228065985397871388404881884689704343 34905110436806704375115117043721051740842418404017689336019589974414716422638 True 776246995536449492751021783779396642309772697883032584573675027171215275196 True 8084969504532273515910243375067115398936852643209196572204542614215439257094,
     Ed_double 63757662102581668982119516046159360626203903924318831149305777017609300015969 8814078134971349924608631493289384082654493630163340324022260428788719160 100951476383832169882943496180832805228298932410690483191252235462583296553762 10522020481974605810512182017805320570034903112736198212730074823603964121909 19849296478328768495495805247695997168837367132856874395156421056346847466394 304535565518861980456015910429646359489494283630135254884558543264357985780 37193814281250500900823980134673444602095028486371652041946458444973996537793 0 78598274956065694522747004874014463251174956179268911997511125562939133102107 1 49444157831517844751255683186086055092391671187830014667142777982061391761769 38325651754372413483217343763106935496036760575967773049932675282070249514007 True 15882059264940304616540455658578716763583894371733930795336591711489202285460 False 26014990612068549169539427825190744301401102695586159863969582791347238726441,
     Ed_double 75666214754642245343289446378075154588386973874625583384363207578450999971579 21113054957127317597604870963252409333478387494284429129794138597702881203159 52414096105016112318972561125847816011130022201065242725889021254113806096209 12685284392675615563969326200454309086155807287022641744271488689316626746080 101574732493441851701023493442989842980681186740976047555993884058168561728605 16365363012452540754966241379497217555719471741475987413826576858411864482061 92539970587690062399254099756460569276013032992080223380983397683575935764528 1 23252118649626133024316885252227338577256951673560340658474186324337193875372 1 48577842308630573365019333121847151099247213871386595032531930153824808034985 11698818496297094926714371527533498792080572905846263409223249541482347665093 False 38822963883489493776776793385909943648580866157738919183495782326726365431815 False 2349230569446159435661339708995050319240215105744145864622837121650344144296,
     Ed_double 106649680452578926880271044282595163886567724540738849870148267213465763479529 20379688965847643568748234151049558047369109148429178722184779249859635302052 54042309679372350102968492827550906001541835481189147834254848133886901655845 1181966359798580554475264841366241349999792210339444260383756620418602153698 46361589381050185680625026890177279253421462440776560773133113149222398787011 4907963608340045335962435441193894650111780136523543863531779455856116886553 63184718464109618646268433553643649968244095606090862003564164928334267816214 1 52607370773206576777302551455044257885025889059549702035893419079578861823686 1 51416308261230323791972553180748498853602467457543596950952167188234310296102 26500516396956780220658887122604521806411632574870530108424521362596479422245 False 28056536360540495087851036531862506419346994000052198105437491884714166490747 False 12039876825427063636617170838706868414124843770493275253150128882880513432552,
     Ed_double 8479949907815206322747222586558612540473416559966801777647231810697524924342 22830892616469861498328560037363679263754199809282203798194146384502433644019 46533835114435830991140841182957619482787105925399188529935847788396443961025 6064985733749529547179347322574249036075738538130472118956671253206467285500 88306591220949680382444885590671726352699398514326974666870243642073906717810 11767286773409458275008422937191674237977346725433413861895460733408740818910 38053885206620624668393618596399006942313689365432386752288615977698919036683 0 77738204030695570755177366412288900910956295300208177287168968030214210603217 1 15426476579153824640063748107939638128818377676814173710932605230473017653035 54874201845107823946446372651255629171375058352614330916365376676602781150596 True 5069753665836416645607446985936258303176625345354050243438510957451014739732 True 36840356946265560653122478855545476045197792240032948145895216325703302289392,
     Ed_double 108640187172537291951084452863222520613669812588826217961324518660546166966863 2055202399530495329205828990392538506859616955956992314871445844241522739369 34490743450305302374985133008062185278080079732693765141113652779820704452662 26005041000393537402884997108038621570688671741991717675548523723193330755073 74804248345053627757259461956131139087193458331450219304982813132224554188016 7310651315983939799285324561890710685110257934790167457014815646516129790678 41642645515084205847471665153527572517680251809508111219246718127187667125697 1 74149443722231989576099319855160335335589732856132452820210865880725462514203 1 12712558393922043510311116546282894497829799292545297912541506421626765270056 39685799954857566999031473139583267673043941812564928655249869908845569230293 False 4571854314701315978517596352582513585030584031159232130774129532426540648500 False 25413480400145795068911210363341055050026485374185503242997993963703862125373,
     Ed_double 206788088039937471700845053581293731980571941670231244528004409893661984872 1395683781019439432130514172388566282833469714423340315716023735816913757468 7913248016317091004117510025372140587854409498299002538084903284287147536839 13601643501129706535153053839394804348049738703965847372267745330290501573245 96494156337274354394268032564831674558912828068778150994257463053226384625690 4357016551464453045509072139260825040755642873933452796161395346108156675091 7706459928277153532416664971790846855873837556628771293556898874393485551967 0 108085629309039041891154320036897060997396147109011792745900685133519644087933 1 35966709613487039836771455641568151899303686490727459701589928757130906345287 4590715909301946484670322652103488894781039724476604802293138388114824244525 True 2393738710597453491240572894730356577820982019468452917336025698447226725900 False 4285184085580964853698899322874258492819137157965968916734492633150326472793,
     Ed_double 100031697351559722191810172254020951193904174071603920139687764424420650816553 11171783918413077381438860264345924643687813252340506048514400412290402417492 57858984589633460253607382477869424864789957424786155042986665155121279065867 182004424470875551585321634089622789690434405007745825102619342873866186571 26829535402774552580800680567331033539880934571920642580760763613951512763619 1425943232524968035114388162455712104046260318915576053150209333711419701372 73619376475389933485368195232536381524155768018822798942756484738613757889212 1 42172712761926261938202789776151526329114216646817765096701099269299371750688 1 14209203893922473311723595664823042609383238336090280855951284872268697714335 54096248485646036580969450637608332943982160324686939405543494070853926149657 False 9034060424787105467632236209696219269871952823447341417618028814081245333659 False 19702430139309716287780746858141968638326572785774690529385463117603677769102]
    (44388040078108422381599858079345000847427885062711346041771517276226329616898, 1423604317745427322790381226394774763053130405907994130724317794966956167955, 18446744073709551616)
    = Some (14209203893922473311723595664823042609383238336090280855951284872268697714335, 54096248485646036580969450637608332943982160324686939405543494070853926149657, 4722366482869645213696)"
  by (simp only: ed_run_simps)

lemma ed_order_run_10: "ed_run
    [Ed_double 26083094743944653033976969024732106412821112563578965996396137224966895092565 1743655172204933331808252598260157251385519898622637158161738371047046366670 67354490998328411219457407076608511408435510768852235774962310403717346710243 25272919069825988761249014357557092372169639726831187763186278686314120338947 4975509444067247565308788967192026903932001450383679535544650631823633154885 6638317260633057296260100673097792613108964964156592313372409641221716928645 41271396254383758185480438051876404995614398205273269778566173178750451617678 0 74520692982932437238090546956811502857655586460367294260891410829162678022222 1 50225331128728478106780859889537807505048902429356838599409066831481056211564 48567226733225781276449566422287543329128010889111409895804967816670485558982 False 17901650766254306314566147691844416315944777272518340617920269649552178233739 False 31256568702215029468387034392549469392117488454325935231079385676185076327302,
     Ed_double 30188643125384472175311118815076783984103056978045581827239051964012607903594 21785459642414599349339687712879406246245275697150627314162341201858090028799 23677792157631423665900132171330266314692160452764529451606872403410026000288 20370782910067753386529337595950184651038545167877269894529862869196753407882 17863636513371094960873524169772018094962086971645575055616983034505209094344 21066249523151245305717984404301972702245046356705608915569308190084319130848 109281238269563146914159998364941390183859088140359511663825404447310547736592 1 6510850967753048509410986643746517669410896525281052375632179560602581903308 1 14277504181738407774235093378032955288190316525985673811547794837958257411428 44871378086723879356737413210653521226866440740474535279860816276104559603579 False 13474697163305131197230248999365881978631553604670080981863574513808243484856 False 2523064031097972051311728520298910539087350969804530261915625544376136531025,
     Ed_double 95247522258623607630401980038756213391917857690793318623083712500796070101002 1760458136667458290116900618815928836771685975431938829910467675811515782959 79287194983624203385195171616498659987074021284539972775653772180156168520699 17388412150290959307609593367810121836829953819169934374501042054903764396779 41317564216361070356463726464854876757564603485380021172701403133098881785732 5532772510568911319804446298183642889273846852596882642077157862808522469460 99831761962316791178364176586430354448426148259387218192027643687273228059595 1 15960327274999404245206808422257553404843836406253345847429940320639901580305 1 32418571708367977452352489589045334204504079160877254915429124079150328663559 18387148233383658620287056230463085911877635595024572348568551271925735393572 True 27950122977011604648860655582345341458668576423216137196955499467231390766204 True 2534412371274113695278091932855379724752754252997052335362563736364601278845,
     Ed_double 99933582858885725554367337788746370709632413410580657758507046386270543144973 9076300449650265424297859317033572579286695405433861010263862955671907921946 103761322839113970485550502364662248995423050245397261921481916121482208187880 2919778219594199907548231720469746938031887121227555827795741834739321646948 110988543874704568374930598042581845895008494954403349673573944348671050888212 5147891254424658885511444949203294175019173081263623823812669949643219256132 3827739980228244931183164575915878285790636834816604162974869735211665042907 0 111964349257087950492387820432772029567479347830823959876482714272701464596993 1 15779270961168218795229828090701533240215204226023372799860239005869904877004 44830166261951740603279398495576682241725607809926503424472229723689170610363 False 521615480943006009599763006299340614483318980972441360536092665948432792998 False 43348215112685739538182844702348319097522119387807680977178036181441608744847,
     Ed_double 81580365055168642883912088019840006533047874749280980590603569223397873226968 2150279813637962598236660458863977109632791812256626175393480955000748841676 66956051627608549653749080414514215992644726849719721567320670198034317482045 17356486270450313850559446747061525087473369260690415373389984994853252243238 78112699551669482205435065840540509387655631658813178210957034804183498366394 6109116307865954958809217344715550489196163426226839596076823586444638960921 101167775809756102193407977403362117312866836766079305016174684982549573894975 1 14624313427560093230163007605325790540403147899561259023282899025363555744925 1 11934888751358376585367388605542262864084187912753477682625882954803615290685 14214449243666306908341928066213895894989764915988732118960193112150360243653 True 10427535745012606789708591650328474143864191669274289425629747116620288123381 False 1795257018927061744950545278132770571532583658334035814576943600598042614294,
     Ed_double 94404775605642314701993386535212245132033625558120500589568242782803075036383 1230149403517250069739095135837693076094658945730853911589182119987737557129 25105690069755438709619503705027136633667338540014567677511048448904334127159 1744942755861866076655357860176444503483288134426032092008574727851535415125 103932622027138490519286567169495606751074670551883706036274092823165584118039 1465107603657567899260783595872390743962350638406375292394257480680210262017 46493003701429319431197102178502799354903697647534631127400389674014388730674 1 69299085535886875992373882830185108498366287018105932912057194333898740909226 1 24745401508182352002952447462187517145313719592095512250459315231990663674346 12605203304109359736839575646170095420028150170075032505021828813425976392506 False 9935808667855957272212912682766056908855095537432991344159726103612336959087 False 7543944216935392274820947743206510243069994447771362454719540858461626539443,
     Ed_double 25557460403430350883108379526969847634296080207038563008463989972849692842550 5288227372304954448067052609427223915971515881298414235843586976495980394067 15030971162385982691295537241036019987567503582478883738379594755061991314466 1372210756231210958290849661913478093257412875848699426951374381564669028965 11990104883221028882767868200242142529707802647264116283082279345616689071600 2693800750180527201966513903944916171664977310488791728964976893778163842162 105265599996271827231758142722754080206541408041080884769373188790125428111814 1 10526489241044368191812842285933827646728576624559679270084395217787701528086 1 7139742008745815782467698207918707217570867389629573492211592981809669859250 10391024330052931068916219853641704524060189883573610974407450960946334497572 False 6490678519746476135152238169245664384928432884044699026462807894204696764350 False 944632802933158757967202704958034249215165722147720798920277312086265049312,
     Ed_double 16879574432720943023237383320540916768971744813932027665843072400977814823694 440236602407047523253030352156877647137342469692162875954627201074834758247 75125647141423058170378136188946716197373812446698194823071937207060751988512 932476366381646516091071594021946020725908976108022259472911973411432853464 88934537136747417642108559225307954774518608976161044039187260075749872826550 640710720497733901337695079419044734774992789772919162598937117759847716525 58246072708702115147140752868405799428402067632766167157228864806082937164818 0 57546016528614080276430232140282108424867917032874396882228719201830192475082 1 43672721813094808158322153823698981319419680095264823938511427045013292716276 26774469600843634339468622105851699981555180542412972644232493480876266571002 False 21968379246521659001955883528436608815224465132343367479800469543883270889366 False 13306298213837587392149166317145352050702997721720353210641213305913778416471]
    (14209203893922473311723595664823042609383238336090280855951284872268697714335, 54096248485646036580969450637608332943982160324686939405543494070853926149657, 4722366482869645213696)
    = Some (43672721813094808158322153823698981319419680095264823938511427045013292716276, 26774469600843634339468622105851699981555180542412972644232493480876266571002, 1208925819614629174706176)"
  by (simp only: ed_run_simps)

lemma ed_order_run_11: "ed_run
    [Ed_double 73936371813143309710119167035624226656212517981577159933674963831520176387720 16471821547799669165630199241043698367813859897737843730504696210965163521172 58171066550917271383207068609657777807683407133445479092711468459727236579216 6191029345167685453892035556314083559534759583899263178387947541727441952306 29692651458458722651386678943218269027918203595633553304967606314881341146280 10098392474586891240984816707072469919704436002667979479118363503751025755664 100026783975090157096658886582721459004740873817508883198494088636120189831394 1 15765305262226038326912098425966448848529110848131680840963495371792939808506 1 3989370560455708984633793475698444523747174347184717690382157232120584787329 32505703979076959151485506556792486289027941138272760644562679672175933443866 False 3446210443871048902660397014488080577792677078448869674563927510558639927117 False 4425711198140754791721100694390501176422171252034786449367317029912503327870,
     Ed_double 30487002574446610154730321493836973039638276218779905702368129004279592733659 137445291586480523176949144433900838257708632181998696255357617708526181759 24530182021331115029237648765788341619760597161785634791478930125574435236550 9125155251407827423519466132410909123462610576577653870056518233924493247947 79678314094971313097894235824303446379030064193968602432205128757589707765478 1119915007624084313404722312422137960780005481197174810884106519148858751682 109835268684200700298078312280639276433392305608646293128568385129207972142789 1 5956820553115495125492672728048631419877679056994270910889198878705157497111 1 5059886806144239654386250234132239322534981646959530787642810205204823263599 44781990901350621119000479168942884261150661419375333506507720470732519651804 True 4799585451174262400651890734476986371022271397294199391430778929427371856797 True 2303769502456032756643870251100059387641690021219091218522607217874919885607,
     Ed_double 93759373622476053345649741908718084777417699080739154429981755228883971158007 221107112408346442272426391200078915244347485491185054518064194221416074953 35010202011287647401839105359730664013137961781984940417399077985207078580744 17319203084577932016775937176463303337938523986662115960064883064391615794964 19658369665235245082149304414353253972531841028835533060650594893938220700934 1956885020445696306046649953025545087061144398194057732416592795565168078219 57042917626127789479760348459700487088990247366886350026874906764236237062635 1 58749171611188405943810636548987420764279737298754214012582677243676892577265 1 5034499113101539419171195675489016129397586213000300161297322761474792468007 38984291250628169793609367006953049629309747617110716218706415095166866209475 True 2480156633229781269698545138357719434335467519782073289313207583468357202386 False 19779372078948672402819849334548949552509917536049300519416165222597033759538,
     Ed_double 10138823816228670735999588802943978883559805220610629936915263364430938824181 218893894105953307827785037199248314977284663780029788748322366061058867766 8261898635779067567591989394772910976705568884983865985829889180867412802145 13125032757626656446518864597603934823997022774747881249121413991590534700260 105596238132709007668345542920000182756586277061670540386030493019461927186959 1694989537013458282131305965178125868178269496230726099444136854007663051967 113915164056866592255163385600516839946415748330013800088372209824349603617862 1 1876925180449603168407599408171067906854236335626763951085374183563526022038 1 28701589195663402661877848408121388944364705228705833837290335451947214372354 7204387230095814289155112784314167486479491389461677700039482462117900149790 False 28236352443868962742979896275132377723871484370024841387374586957385580611635 False 116779098563139590658968648660665931924169170666145644743566988374170387003,
     Ed_double 56998755938091370291070698006047480445084369417523521863751252675336526908860 7114313488793525084071536199288845795650369741414764254118247195523608485172 67377521214543147109024931251953405289822847694068784026929549193474856167464 448244743687039813160883534640381753161192019110441277292913383891666172582 15828852265494758598689257559483382727910318521573488710566707110690670763182 1785764157522908634067998786603132322393744020918346094412370085474803038211 10378765276451776817954233245905924844738478276545262163178296518138329258604 0 105413323960864418605616751762781983008531506389095301876279287489774800381296 1 4043104448796842162745666493312998641829351915822871392692138036596732345587 25583947464430871653586840964872231498494354583644780039898113211018348195426 False 362394636271207180292772648767932417188625758287067986099780891751735857508 False 23290787479777709319315578740452114998222683733407837908552200112272991871414,
     Ed_double 25391271803617694851847061966072791099793153323433917476267283164908230709161 141172801108875623042693353646444188036107246405226985047692123768268762496 3632626949657580173525132976792651677110343432779993480533013156541500029588 5652703670639197966464028489960496890731628830557974881765363952233784711256 22010513831528394592904587434045697391277219438079571537769825521642273135796 893312941259981227714131532208505904689947268611874092773224315712221689517 94033444383356080745249056019407768430587174774986640043723313999546398960325 1 21758644853960114678321928989280139422682809890653923995734270008366730679575 1 16967413801548701797242886843680090165318588349974756792262810250234279035069 44697289841450513164033704384247986028022748316827147885385602092788632953231 True 13779044600942710151821121759625130669315232079078868015947817356445503329158 False 8399126935186324078070138928628534898413296813011572309011732287518552337862,
     Ed_double 18885343258768609127666904365383633371174608951381730958559066587306746075087 2486293606145646350496455402337598660530178635484255481902507596721187054513 15433474686101271728566116691911443799038164259020486587144560526262599792423 17253749650168596720389280381967866017339131059355353148890711874679425522481 11164741149164088860478908496572165269971705595013781226447418203528424620879 6549647886509004120268512299649671803219062132882085627953097719252178132970 112340220664648858024470197335215718281133539973279319668043077946868983357234 1 3451868572667337399100787673472189572136444692361244371414506061044146282666 1 2579649274306548849837733000395332723289589758529702916422942026934274000925 15903853772550703579537912563242422228297542773675645660330868481778530607407 False 2502747559196867591263421543201493361442165101752791502492621670982641807454 False 474108493795729191908316797106559204014433822177169498148187598060285509024,
     Ed_double 17648800607939531649123189867617809845885283142616312580244501113783314320721 57470164173233832926124944331273027635330178097793659208978079892833335148 19916030833505028602677996370045109918692982050774580560561502893253468291343 2184368262846430560925188534583858585582704687405564482413691065791120353997 108667860431402862730053395835336264113450707117365341157864414641669445613591 354310601987276070623888652156837946189236340141887428111454560507095283158 2267230225565496953554806502427300072807698908158267980317001779470153970622 0 113524859011750698470016178506260607780462285757482296059140582228442975669278 1 47877216812782924174466763867175181383956969618415943364604849026510454529253 28112003636980376946454994616205437214785284325558286572284790568403397987982 False 937444637097990671955323215853750376673561833565041395204743620456693595508 False 27561565478667668716334015938000878360932813027204946040779495183030796585834]
    (43672721813094808158322153823698981319419680095264823938511427045013292716276, 26774469600843634339468622105851699981555180542412972644232493480876266571002, 1208925819614629174706176)
    = Some (47877216812782924174466763867175181383956969618415943364604849026510454529253, 28112003636980376946454994616205437214785284325558286572284790568403397987982, 309485009821345068724781056)"
  by (simp only: ed_run_simps)

lemma ed_order_run_12: "ed_run
    [Ed_double 84189466624801737441657681473159532333637075305383834346287497490552740571853 19796066422467745067703792640073322759673192665105474467280320666771902665822 112087324353044446799908399014845885128678442918695827230061523365268949530926 6825032294442042956006752558548273940647282895375672654340714785478552281751 97849384317144366513986421597959043772288549060718847246772336084452255660972 11623630785441445661160356095436150777823778543198142502233130467251068466113 27897857728242709358250717541686352795041367613311992883774025874716208959073 0 87894231509073486065320267467001555058228617052328571155683558133196920680827 1 44624650523877827989751820302168351134993681066479444271153806569668535957209 27714478525736819310693039843449131161995095049081766735341612278922679271227 True 10751443899904106322560277831287955446061848962081607608765038293436779856418 False 21037212539639788319686168001190768623468585295566766810408427757378406955275,
     Ed_double 23052889066911309075051274216413664491472635380754046555849302581361933450495 17197715729067926577049932762580509701650674558715726925911218052357181802557 68997900848912772393375998573695876460603262492852862699629345918470024294907 6633374740992193734413712833053511714014462678160230187274024435788079197739 9205726195042407234123636793485231167026848696830507373100660342512761027099 10680772121900332617965066075838188166023201348961683002706178161108463039428 45945011782001463318324724357282211969130627112098816143780043337108090844412 0 69847077455314732105246260651405695884139357553541747895677540670805038795488 1 35329897255136253373431638007078284535646557446689786639069168126562061520510 48102472413184753722918898271017592259334671993463580839736558443832467501512 False 14018509868297797897846884569056129567637813570798211482727774319429654932589 False 29015946931831426898650182171071138597224844489175480999802353090354216712623,
     Ed_double 8866595252916672104230237371879226515623982040324604830359393350979854653694 10779679754290395289615176502379525574646370164130335368982943223355515814447 46034385614370088908633881136161137940086743227695858900255237509633308054000 19982780062970993862616835079682448414168781011673000997957912574406234467528 30459864909311829520625569308862054915393657933846545777330876678332923810594 14676783356009796087154687824261564906385369701456649161054396536149014220387 37167790361453416804403643764281911424462761187371254069895844158653453400306 0 78624298875862778619167341244405996428807223478269309969561739849259676239594 1 57854637032597121065424460477283781507211162156907553379809587845807142677871 8595708305423838218427337239184970131694134488607489845436010670114592093907 False 18570603871378848051538474354210280297322971076146716835916628550763207702281 False 5836595084403920662655483292085167332549160178542918950555446391634623908568,
     Ed_double 32003675131047043337023062772284325022170149671927581673024915080788916870219 28906629530740626600828771169165434268967110289502976785182073195055749526839 65455832589488720165423793889728249439610548816005918433451897194642960078481 638093688080041340600167719103636773617543270503607849793750249532573841116 71267936947899612904245645657843392009157650261235737751590275469671448571083 4294780302557247360532865586500076386818386284552778849952978277353302884893 33452157458441676828400731117443924417440399144078336760426982113854043208262 0 82339931778874518595170253891243983435829585521562227279030601894059086431638 1 13661732206155304631473207485375887840040863051006406460921523783662717752866 18702667302471406267943646186561629076477578914690077859029294500205891615865 False 3946853536589350008944244331953066655167425169984841725145604227771281357287 False 13299495327459694427545920845193593599350459495485875110343907358277455772665,
     Ed_double 86959391945712875083712100022905886775861918504871290086033083012867022067774 1611879776088813036834549922881389849832262239157140827543862139686164858959 2145181576643387393055617499552989808729851102013272686176730388196977293869 3020843362710539012575078293387971262782466259125715863052167591730936251722 18636631121321414363834053672757474783051163001957490629455523040235890188756 2206634614766395947753684695051527547527076911107247362823987538806719210683 30977878868246707732914502485335010886137917262782546639601231383243084865993 1 84814210369069487690656482523352896967132067402858017399856352624670044773907 1 34678801872141263131717568048919688293891458498596049038512335591958388269398 14051700864432503195603174423174243178139259455397278969489826247036072519711 False 9277626224442571750495562136776594034375398511840112784139105059035590842699 False 10292446755293011343030542724826223061409451583049982858829234037703946563733,
     Ed_double 30453523544171789610488975275877498141388666535143582171648006176593304228144 10386022976254076549140699377805548375619845586488357496889232448511396154370 75551172319894963173483149025635060108817281111262846902570731151713576775741 1705214047730136791648375814599227611677061649152645959455507554792509545610 630640242978021335747709937409030970097222652370547565037949077903315607406 4208371689757977671218710521116355800127744478299625730101605174216484681014 45097648775723173562994173749757561967428614576119264730922724975120272547597 0 70694440461593021860576811258930345885841370089521299308534859032792857092303 1 56271287709999114249430521279143619599708294450613804315340758418615759138947 26709183970593361440546052460951843372876673094798344582055628577437062451 True 21916028858432456729691157790144108753092210424668559258844622871812697624651 False 16306734151043729651202277467341860249096720909923363516854864702791223816,
     Ed_double 101982677593723987270019892412433995027531353047510700095285969701682230108895 27346063460793367490958026014223635654661644487069724972880138946036605160393 89363622869689230009141003915848414113512982349220722092237746088626519364745 6160874314245475853823755742754448254642814635754975016828147019405072 83896327933716483430096248399254716150423448349269003646723643951375199316795 12979817409013448911543259815092442281827171376165495632897411384047453899 103173034513281438162692096512102326939251613967350586036409360394857418895748 1 12619054724034757260878888496585580914018370698289978003048223613055710744152 1 4941794609987678981879188000114348043986995390085707309908914207158224370220 11393072468401385903230649060352828887982933982104030268046685519118680025095 False 4403236431884804065779150346530092334259937650277111598161962850302096641265 False 1241620268712780915202220793203249363155906617400488892283292996136204009600,
     Ed_double 99432808576143065543122362820664875351823071114729063523551372644815362433044 210906756481884415961400360036642977968469458941359412629190562435166271222 48407601543401111570941028220499820225300047697195205515422188721638768007735 1120992816739111581489506169946488785929259370705428760752913157224516769105 23890735769612542958424550405637298557479604195731865387875257069971051011896 486235497488549771106645886421482799100380178137620073339187800644827500598 64766882204574241451389650408522852726746961248106706031328400084736535214589 1 51025207032741953972181334600165055126523023417533858008129183923176594425311 1 37070215148198071430799085968753265750032279687669442199535644547659159008720 24277510719184982406390712670096807578634110983235809048632298767886642985665 False 20734769306052260484486210585248815200301020642122273934879172660009726271056 False 10698183432437889146075414362827447304528022265844068860837008258280696732882]
    (47877216812782924174466763867175181383956969618415943364604849026510454529253, 28112003636980376946454994616205437214785284325558286572284790568403397987982, 309485009821345068724781056)
    = Some (37070215148198071430799085968753265750032279687669442199535644547659159008720, 24277510719184982406390712670096807578634110983235809048632298767886642985665, 79228162514264337593543950336)"
  by (simp only: ed_run_simps)

lemma ed_order_run_13: "ed_run
    [Ed_double 13901154556729247207195609933392095227111618495350866612196765522111903641764 11867830178944828061721933557913389166727716352727412127383436412472078412582 81337989569320608908842703771248308260665354425787146819214933171968181073847 5090136386710925650436003248496882256312405530117325941604870176063652172761 93007156159642641344439233055327678526171394665569685370503780699717252860158 7772314598956549268581218978388894446268347412784212177011671476761977749229 67436835012591361701647093837856213033553735930436280207018167649856277432083 0 48355254224724833721923891170831694819716248735204283832439416358056852207817 1 39149621700212626749621435400351405351231184907008598760301451381081013983041 34503224398479003962600496102980592214075457369331528461237883842917276072424 True 22800578146505837399256654583386360011224442695393368958181519254895113843881 True 14408688869424970755671285021461838463333437899275941402670804214061353129776,
     Ed_double 25764693178057243269404942464310379731767855065561913031396000398054970704693 13236594048566662128790872741205822917624866469401335457109607005153052558206 40829067799227343785130420498638688989002648190299601337089683166380609352994 10281121117453199039699299256431494830582268818117254835772587230124391655659 87100197096555002921102224844123401570902574672567692044561520990523648284892 11665634427491461782414311538109668568210995875347016362656162065739388089054 15064374621170100515725478034328309257234793124737688305693682768325638648301 0 100727714616146094907845506974359598596035191540902875733763901239587490991599 1 23185922985978961765525879604265755828711139395011139482900477285540574790618 36367764535089816925445391884049081669258296710246889978535540710889807755205 False 3016453300903248466955048761776696138184715227484297867590893556566354963233 False 31636373706064688905307517669349280720538598179342890680516065396639352980146,
     Ed_double 68031855594577928094394454583408185437772702916020632894833389804467626661748 4642692158442374546529275988840753738008024356396748411658604592758369544312 49258838521896172793373365723232724066029299060394668135222601849699743923365 11422320004685597488393079154516066254908022815442226030703055519030843707170 78356579682298401631247198105250304329778567654206222878148293912870763149480 7282191669887115127751050419328256335275413607619196805310458341538851434145 97019072164634440122549896148512446481526580810014599279846796053145246901515 1 18773017072681755301021088860175461371743403855625964759610787954767882738385 1 23334028275166191184164139591657077754376896079733520656064186218287653342618 41978652946500496924928875394389872458253357230394695728294241695963720135571 False 19550953679402150273407154505176108137098001641835784318265398421121622586595 False 6805870536092433727776849400348434399961985454377522196404690447607058891689,
     Ed_double 38719172931530469311446099517323116700665521046712838431814903530284452669442 4702194071568641343000302300603424888671796981373710127079709841691120552309 73698492643957752641764684942200725952583099242626504480968655501190942201273 15218719299477240530389751522489801848606106187694777773628515361195205381816 99698796295943178930569436487521459418726295130790285796909909946380331976246 8459395466986346466052900774640423333665365736588105164308805255181184761484 34979319712427283330318585424877609251917578195913666049153751970906489531831 0 80812769524888912093252399583810298601352406469726897990303832037006640108069 1 28796363583862847668812044605178507244825877227342242014774155208318462834757 55234959353662462202983325031925176159492936554011128458548182362800408727260 True 8699015753060811920002635010995619704042310741533747836175837615316957184337 True 38549179562826498070086343570451038304275039561730971338965447195939233716762,
     Ed_double 43676407081436101795278528860245185451466301162281650521699511689520672610115 7161374849662761632545048008111876724147381238076179165675743433815230171383 54984767832863922176479572003759806012894112410834976357802606724823015057120 26348092990600723501265982656414082822522973066149975642782419847156740336760 92763892930183649861326704811882378640115114537910407413775250571814099398680 13736395832949184484128651179952276644665050943724015177154247772530113364930 11308360751427820381201043143514620561427811248553325836103095035302342447005 0 104483728485888375042369941865173287291842173417087238203354488972610787192895 1 22152377815713073885123024134220181662013025517934765653685593051807730951109 20210740406512502967027943336656788111164148198915921899551468572151061000341 True 2163421365760100820889959582131916934081631414399973913141007801950294545282 False 18236941116114626114825967207296395552932011085851266140755965864484749144020,
     Ed_double 37307642121170823507518390795242709207057485228015892226513605842367764099541 4238008365876780380815791433588521002860705978145895490225011539737905068330 34195073489666912487331255423040836473326156693889085324379557827997934233879 3527650554281549971502171634186289392082798566792179252169890725813774671349 37801792846738321984046147415129542773653191509808566433653081782568292178475 3866550473087745707251243582316162237032214957362651944844475955738982135003 112679520605812284403383849636486035119538656131513757137323535993543299774236 1 3112568631503911020187135372201872733731328534126806902134048014369829865664 1 43620949520144324161844112921540314179791160756548604822571317354672290688656 55960850383955117084497078728968100220583635988916106362750056582565381170825 False 42448389286996191997846374500068061352547587633046387473537668761934091274217 False 1504265003288746650622612070766443386654264342436319537181619754852747849810,
     Ed_double 74402066074376626135390918140789709755110498321864731772322936341013483568042 16432791303551072750819560539261553856455992876050231024753696966117700915703 34554616987195725783005149381691457395381431288438293539592305158228934028897 27045170324866948804573350654007407244464052526137844895798698146396617077336 76157153334162005499425190632276598545091623960401412321489873742974862175710 21081452504927907299816341168495697353906027636557809995741014915802482007005 75944640150135295071185216249589655493540917632214125806726952825128580100753 1 39847449087180900352385768759098252359729067033426438232730631182784549539147 1 13910242112313529748247338058346265735204793031963188360415155111564876935229 28026033346964984143781324810989054090462624756509060308165423548333335784666 True 9123320414884277607369371253902980804574695047814339543324930195594951708666 True 9644578867732549221015170303700968355178192290824192102675408911278742741343,
     Ed_double 103840158834160892097751392157779539577107511465962651111232189855468292972595 1671054014982082141864953648014147663568881261364223299477643203585572548727 42209469967991523397106147877006153749283175044807159784231044148364266943544 6783352389085872093607660737078756988104936811841425792526897506674244121294 56760693409997494309001354461445261382907859295936477196810239989673061250724 3366800891769551256843192360344482187743393210241322209639202258246384608355 54161400371146826722925740727914522025445648244485072712456438300809103610847 1 61630688866169368700645244280773385827824336421155491327001145707104026029053 1 11371879162373812903597632893053130771100210169456679508604354695621139343631 5678923034335803499854193512949185707312411812586470592763075824256665264606 True 5319162166797997460111609494534744854145329598789053552312872931594005354470 True 3022623919555979022830399559143754212831692567152514557953625327285670407235]
    (37070215148198071430799085968753265750032279687669442199535644547659159008720, 24277510719184982406390712670096807578634110983235809048632298767886642985665, 79228162514264337593543950336)
    = Some (11371879162373812903597632893053130771100210169456679508604354695621139343631, 5678923034335803499854193512949185707312411812586470592763075824256665264606, 20282409603651670423947251286016)"
  by (simp only: ed_run_simps)

lemma ed_order_run_14: "ed_run
    [Ed_double 78207923925382263179307654739172892905429569149375586534601045329110464335543 1116826171247249841671706179050008429506417219093728553601733009736242973641 16514601529163156540417523873022901093200945476234645883644222079288455482926 278517876673016640774662029196422710968279639383484115199432975600891519095 96003115345887882597089892265519900434042656778009958260498718096744392171378 557723994309585800920327673686290256169361122513006293872664850333234958696 54098766841097088784680854142537916041041360992499623388500760758091120787281 1 61693322396219106638890130866149991812228623673140940650956823249822008852619 1 18362839244894279592215249911553963787851060777743113998886545263569847927955 4210807820446419651105742493190316853815492326276504789502512130186582234685 True 8579229940433087341328855602565492151992973217925536051306389233120245664925 False 2243492851078146420264348709517771243711069369602963892232581957196787835377,
     Ed_double 81865956541108411252191612610336064335130379779162179676432345266606326941493 2912063055039535483839083339352084230077464017841776326660406755202656708034 28565901591049998092651835507862710499753885724690303336575128976488415330339 153127062630273430822647923876207569980603919155705572469314126952398370207 81966967097727139994989092097560688746409247107010624185989201051504961407167 667769168060598867716070211847900659030929642367967535499923889696491654196 62492034287257782264031207906214554017893490611168687699600367717795218028744 1 53300054950058413159539777102473353835376494054471876339857216290117911611156 1 23921107455925441612550629086478938150848187330668405596858230151041390475098 12599238266398634998434556842240768274292438963378237556139324609460374067494 False 12910024140432535628330758411841407084649884603599675462697237316973890535661 False 5799533425393186727897691810749726720762798368961133586565145242237205575184,
     Ed_double 149202544661811086607969612249948291027276885612223067144079141627193841478 4941783032735220845723593705288267746725729174153293311532318043431968376587 36443008689869511386452555283098296623727318480874646029181809971308290461640 1370912347631486109642133738571169621480517515099512899307085618675821865702 12657216457906541513922650052004728109288984374048301564551828589787977539556 2602835257731938512325905655100941921089789629876387993218567349171103228972 36293806145207700299844585670848348332700041595262422962037730829681096620162 0 79498283092108495123726399337839559520569943070378141077419853178232033019738 1 34696320127735655402512265767697602636168153659137920083789137692959599647944 42120638134327975966011272240411516459099234670144041314385743337890494036069 False 10875194712889635468307630821073657358109998700498221127910621820457853781492 False 28918369436795190971756672907525869957373462884014205956808661669905827961698,
     Ed_double 62567073576585148354155105954895356044855322957875598311954783706740947677806 10396518780648754718931796913566520738993635741645639084562800832909418271085 68960878920559626390936986378864327188815415962641357405561810995262642983859 15321842524206318975680630363703435200847483608434390610266886674483666905599 79305474970081298124219198548386420681141677738031638769346435383888628288198 12621165697234693918090142947213140658169486086417778554873775484652630268981 6393805343974478036781880423968971143960093004765759093607027288521695306053 0 109398283893341717386789104584718936709309891660874804945850556719391434333847 1 33227521516354605999830589514515865710822327852925376114255137871690735587244 22681039011760707337500602565057111277108423406256855863837270100715275112616 False 1834756640437478990658906588866526448011765324003773390804940109000953002632 True 21428637838282663054643772091882439566524336367087289878857609652877335909881,
     Ed_double 91654703411028391167831323638866141318262962110424370311850474021456098908392 9534918951648049168169458763471609626314428213394266607268985670508376405028 45894105387922525475056358195364242454104763682354458199287955548660006590814 4442700136437528387021801902027035712271456740632630345043211419001506782229 104531508753641647606678391685227067061410843951895711021838279727309998509454 6508516399872367470169010603546768768071417435747568954821627041740951553325 70031491214210329730796019565186008989111786237570651926895065535117037322320 1 45760598023105865692774965443501898864158198428069912112562518472796092317580 1 45816511225176877996140255040609219587091107439457578341038316968132283752617 36549853415134963004198791385929027950142848447981419764990803009399724054934 False 27709998364013556180971716255691945692986505428931519640572059780180979532034 False 14444364558493737163235147217291536791382015911428533962219730641745894785093,
     Ed_double 60632754476964037106362037056829518169935357239498343228458079812542299360087 18128636547394354482817323381415659334555754194332781749261817890908996523249 66361564978511080598699446040967221459355869535930909596487987303029887696484 11536986623757510291243507931841244012666872810874878394724760368474922812864 21403777906207674038378970158233840688647711021143883915663938863505409298474 14462013599573546311858885266320110644663447918850299997946843129062188468198 5728810501547043492337408984137703289420512296432566368029907490487588336397 0 110063278735769151931233576024550204563849472369207997671427676517425541303503 1 4109725613230504426324669336546893204699348150375590650961079986402263006479 13548220015390787328262599706228652778399536104956932282542935971617933593799 True 203328564210449780068348712058175547349263542216982528836488442869854164517 False 12877922194419891285585102855705896384958215724976192373763847205763812979987,
     Ed_double 72665242112862442840828576260947308982766279365758234788028169418974374826465 145863544973500427257166071976218256831618424285609168135571292900099318912 60144952878792674772451862872324856883788026253938698158122546409217597145261 1585205576602392838999529473885684700392919360378396255566148017009343049930 64473783184387983289379177156377333535750643043895800574496859397534529813171 480857260437010355524825040548316934391322081825635121584167154895968995975 103271800003246427355194271620065455754291731553821027409551960998156351958694 1 12520289234069768068376713388622452098978253111819536629905623009756777681206 1 31674252996734707212481088088643240141425643801543286253248344469973004656554 6786196619175573608309283443380719738877074976577908471831120085453336700494 False 28249400647974968418751540977364990488092018122777014197099759667355111993783 False 733773308962482765530664414966966500414318959378697857266941721268639726431,
     Ed_double 96649108645580194799368546782514365825272598650660663843856094443961787219828 8664307808152394722400231783386238169462044172583006399867787321533024469656 40709147454971181750106034047496121391787124572157512507142884826362733797696 397716846266806158090120446338995941358935481214132404304868644626149560330 79109125220816365187394133241447040725905278665470898146417558645030685935152 1856324642012607178206946302792012377219380489826197922433923376048505216838 59852128046707182374308472273669663419784510587137412702744374390314076217766 1 55939961190609013049262512735018244433485474078503151336713209617599053422134 1 30407400204072033917609480172618297228059702465168718418817308450301417256315 49315877793598952090227901245738270288685983126601288875006392048674637302542 False 15717374326423992617684163180393758081838645987724254009134013187069754771157 False 23824842508892997367789983508797812951747473124160425204228718194892026534048]
    (11371879162373812903597632893053130771100210169456679508604354695621139343631, 5678923034335803499854193512949185707312411812586470592763075824256665264606, 20282409603651670423947251286016)
    = Some (30407400204072033917609480172618297228059702465168718418817308450301417256315, 49315877793598952090227901245738270288685983126601288875006392048674637302542, 5192296858534827628530496329220096)"
  by (simp only: ed_run_simps)

lemma ed_order_run_15: "ed_run
    [Ed_double 20495840434490456549651655980107922696349532064696614367799627897971362446159 7985087696929013324729584536415087396972995455213803793027841339768694342617 93018463272589794203649881879656708893062981503259701530590043069681250341274 21003643846244810380767233308382827218303991973183661521219950107542633714505 93083489733671578296235123170140569152721534755219635333054726563167308383370 12950518833905003675482259655282688255904578367071928145939687408237264099320 72522622838099337653998225899548786196713449438563087162790415171709887895115 0 43269466399216857769572759109139121656556535227077476876667168836203241744785 1 44417092014879103586055534704850737242542372632022894149816268053224964424171 28092835439062208164608941398448814112137896638247692330991965419364853280613 True 27819206242649986373834832265473350405893290819919489385784855349433327200412 False 10497798313302156780734227358519870308637485047462714169562167029705250876414,
     Ed_double 44014333604605181916701837215057151708617599203115215347688203906162397232421 17038107491219181466759140153937939421205604721343495404270036181990950743090 17375790814775961522567478063410255792648026610634130943666030271963535559957 6815728157290148335213488512256576153939248556352763255039893443134115412394 106427893449155224902702951407231645665554701713883646266482326837918027092693 10776228884671983613409532233457348818693668936782413792803279543050758113685 89153546447486975029436625857041011937300412073159479635435410373714267967434 1 26638542789829220394134359151646895915969572592481084404022173634198861672466 1 55913645708648454082380885333952414587415523972517829512720425474171989429039 4170341877731070479064719941590894238873155105706772330803492495594024043916 False 43050434987123820586906890736075925589372025244260159880377629321229989073230 False 959407773794225760882712688905319313395597259839215562734184809981735047211,
     Ed_double 37265580280313924835117652233860266343178161674971604424534919180204158114731 26999562725091074061942578175015449043528418054583649937796402090813992782855 59951538087061308184465205531671598556720699308452595403632404197625267376626 150198096361428197473331106103694205773911866526473967346476481040102629035 84809916820914050792413083349060104872718046322498611658959972166380636081922 2013773304992310706988070989941008904532968730861466802970484280767169125149 22685957806747383349347553297811332213542537633480990979097485017421109261895 0 93106131430568812074223431710876575639727447032159573060360098990492020378005 1 57358306754892087581061482960601343272150180511706384027111409727530014615872 7501227636099754662821696917164574092234190941956901631865902241653090361542 False 11237625432606927171865394756270927816855606101110772147431614771681275918102 True 6031588952039072519208009309686010418597647799035247170131712900413699728898,
     Ed_double 79410468248569976841145602292151281606174404973036380846992549088254928197872 28412781697422230882595075295221654524844808888483103756335309493247891941544 36150819914670983865658493972032628921975880312566781595115115019457156698602 485943525323776175612563804731469131674245977331990051854604422668646521969 35936091494439235029460010819927767650367147721502905873935455995229631522494 3715778155689629445798082393699816458395553337640256526612213602582747679685 72532440903417202448083876688569255169071460005170964787580149939115358140628 1 43259648333898992975487108320118652684198524660469599251877434068797771499272 1 48782782515836871628938299209492917508321674529612667649282153140637733656059 20014236295691833912353873433172840618145541540180033958100959161035845143094 False 30557651332142097324803741999724855653433415580166300181339489852107437571568 False 7477270939025104767106916102153564915823895805790040669557342699103433029303,
     Ed_double 18464875247740320991855995216138063252190439638509353809262367462564467286007 20552007357861169462758305879408120309297798792388057206380764074900571266613 68381649349112064773410985990093299652636897428304129486622282522415569280960 3459387054316118328214223756839111953292798088459726669170556743654336735962 16324921186737112315829435542998497945699870423325273797190452355162889059432 8431924347027464938495549510699842446816820565061152909250293183949779396793 49916774101371743781554990773955236400446457789794775677359915059851101994953 0 65875315135944451642015994234732671452823526875845788362097668948062027644947 1 11618050754323719385443732951567856244563825728122233676622712000620990083402 42578444816027188744577909552774348432010679314070739170427174452067063733643 False 5008421722258323705584974520913169960754370850222979064087440722118574907929 False 24223316883985278441182991196502495514302993430857013636389152963445448523873,
     Ed_double 89169184662018284418367582371130411651346042933150911675334746832840352530330 1165702287773752083230515162402752024438399789437112106908860874146232842713 35045427740426205295541579314770150517539181118903833336539248999628975071767 15656716921618713434860451475143714987575499729093026144243235927771992154709 42177520358070340801541137415099698134788673131271229592327392462671930891682 4272127190821564400449465976951153733354148249445512394964747571960528199198 61668332315724116300744981952327646719463122851393485700662086174701752181335 1 54123756921592079122826003056360261133806861814247078338795497833211377458565 1 31547400550276104307900899036819671847265416450370273588479799778844560833009 37367989165521616201930780541222369146292023138676617257266389707008216833638 True 16801455035882695455575926707596004775734579613285978484969949905307850228199 True 17466616031931745631680056406120134112366897448097721680231233505970996171888,
     Ed_double 86827291077427810189480205298873811927831376497306929318609727590515549410365 8595047278573729931179507095871727121500992490410765682922890450629082846042 63202478617292357340377080954464704659548076311041153312702701918487879518096 12059257445581483530974028920288963466452422416295549906154782212752284410226 4309272136459255695269943094171929475470987126508740885122848156311858047458 10180858897424377921974527608605786800296630351929419892727218211037706482458 92167276777180742574467860664278800584986684479374788033550558335885459747629 1 23624812460135452849103124344409107268283300186265776005907025672027669892271 1 25956985989161136316235961527236916457717926829394295299028523314216733689351 50364565591067077996626372578228644798066456462962263809084137884269951378152 True 20661037621155779162318214743941071884024381299185143087320822018785082398393 True 10275774662693433615083217556447191567789791570024729691267695669949044739659,
     Ed_double 41169590906554677606152591491781451779129989420583973833197338450503217695945 5818749157039770845259978213524012573401822359452461037401476850922022048772 70450074404899280176906261933508408015344489096521094889406937078815844096798 21906414193616897401346056718429073467980452730743392143533469437782517570997 105363440727144432576847521002443527091984556276779595799307907079913567985082 11290169579013080224396380394972742695194279378675512525210779436494794707115 29280483498344602570753670441726956236214499675937121056209598628312626400853 0 86511605738971592852817314566960951617055484989703442983247985379600503239047 1 35118750000941396177384144572236461584765045922296921590426241445782749078564 22276559719444846469370701617737789620267379936674566170770241509797286014565 False 8880520134476223112898847083142696803672250152481307364772042987770465660736 False 16643459534783120638941259941866085904560199420183055117539200556705914521894]
    (30407400204072033917609480172618297228059702465168718418817308450301417256315, 49315877793598952090227901245738270288685983126601288875006392048674637302542, 5192296858534827628530496329220096)
    = Some (35118750000941396177384144572236461584765045922296921590426241445782749078564, 22276559719444846469370701617737789620267379936674566170770241509797286014565, 1329227995784915872903807060280344576)"
  by (simp only: ed_run_simps)

lemma ed_order_run_16: "ed_run
    [Ed_double 77755929656044597578796638049252766971229422628169922318682679057844872652220 10651216415146592248924960779656886858562272032057814245668647922052007666962 13187641589905115826548361229984669102995576847681520297945112305998342289033 4285656439939838857416201032740142589770937205638715045308730596036444869704 65305189588528201532310418116316650843323713381935589159305338455709611388768 6756289974739532837409703087008830083062023595153436724700471319790184614354 51223801171176713671322708189419809985036138885152162018720017256066599276711 1 64568288066139481752248276819268097868233845780488402020737566751846530363189 1 15495667847963519095070902975254013254054297059438951355864834066532640060236 44548947909159043917403409442457288878516759169055680620236387754235369409972 False 6854932958605595638942669859015324655055412678186317522115165695420749388370 True 24841501009164216777171919367759160752652788856302264143697002813793412240397,
     Ed_double 79102585664421807483565792672518961876649635950675303832934038372129694199142 2073679848390096382028176889035257850213189748833028028705342391779666368073 34486957985349129115044403175253303003496102905908769150412358799959533485624 17139415765661719855271897158759033771877229113356144772794319170449002051420 104448962290448195196348010223248252003278813753597303316646283471887817602156 5961682739498322459281728023620329512660505725360637026555639478447608990282 71176461558243517055049595511422248980116451620874029356935904435742968926380 1 44615627679072678368521389497265658873153533044766534682521679572170160713520 1 1871107102280547590065037923261765627391729441701934941391723968422325914548 2197280331012323570322413448915527766660864684378650497684553118254920260348 False 1150154415677547246673022346437138455005360874600422460526564766014187522236 False 846629867383050851293604387704862898878119808339824914058449159665822187253,
     Ed_double 85105307395913097808334280353829155704430736496731752900065777948272172844438 30235587001365120089989167364980787772255433930527688439588266134414379217 47679240260070827730061826133678274614938030600305210192778435769405610653314 41695774597853085158116035146766255430869878598048433543771916417902468355 42414000632193492548731604098584829473083930098332983081973783367648035050346 35506284238747043369670347104270590233956697224790935410998180704835360271 78366022101473925345298530788537026763777278769214021332170241829046567448774 1 37426067135842270078272454220150881089492705896426542707287342178866562191126 1 45090698995977474290632961691477301097024747374015152515190560720018468165568 12254579022675596810231884862276069575540423112673550018377525848277481401878 False 30516581377572347758490274519341091297427606514217354203041482277252012242030 False 3960898367453720502054375382029553782451651406704040090231200506989122998462,
     Ed_double 50151567742083915403006704729513598861750007393716480547905557551737401024198 17558808631381150291576356773450903892628447846009273305882341474023377773937 35387201892726500366004841035987841783003010303688914802120122892639194447484 1296934082562560239253872353465784919285234709960911856450530121574997495300 46789133672297026358009295838471323197393040457180671883701612162379181008258 4772066361989518281367127771083028873215445845716302708344208395228180854427 101027723387958780386569121315162150774522987575612998293672149348814923063184 1 14764365849357415037001863693525757078746997090027565745785434659098206576716 1 5054797618327281071443738716493596768237980643463800357794684862056619267462 32528688704343641313631911710448027152095479374942741660511292005602282822378 False 4410272747733675011802691676020523258062613178386599531513311351277674326054 False 4147653469197573739280530771674675113130148616857113080604686894592843792167,
     Ed_double 19237035084168597692816260180861388576713280536920292836470542299916724430972 220662561065638548245631578595393550443309718635487595964771667872374406564 113473074647757058397294752889243549442034497066130465358733566663059554176408 9138064575857879924530511983128643937295843064195836401861639117181366257662 47985808947650724724281455063829068565248703916884836757988464658757678515212 1420010117038603302327755035835035588045410697685019760212528146340491940888 94236039563588460704478492708382160865321216529210172522263024363142829745436 0 21556049673727734719092492300305746987948768136430391517194559644770299894464 1 3116396207800974126741352651042756943303008617071878591507809562704911510205 51997965663228500457050430249387147003714475761347555819390336249670266088570 False 2536242659308600824770825830314698923269644936852033642731520095943635871922 False 9680028559395928343856379389769142025461297161165512880262282467411041567950,
     Ed_double 25211711377514661832308726032615467661418129499638502194904493941110731940943 83873824092522205738443157278711950197869135036057771720390865170653329009 78599547356094546813270014178860798540719416938809774495634406345080751561478 23350372645689711577884414236858639704769710554954670419095810616928833871339 1998577488736166631470066964698425100045433387161778713947904619954702085702 1399458841045145282156254682113185567536222881003930651509058091400607528126 53387835978579884980961288146245330879301287439171272300729912403970019620535 0 62404253258736310442609696862442576973968697226469291738727671603943110019365 1 14055490458127722535889980752338964994832593866234835702288268286656839412260 46226773486422651493508693434203867574287052738705572908570241545752789081928 False 6480513687244096985678829695577448229735412125363870573413147110494008418552 True 24913163748765762291873623147423097688579648236320762062544434173065116664575,
     Ed_double 22377138122730296514629323477100554758979488105455555682115790497646546212004 1706133927799041978633104129261548554177441569179836051046489863360668737102 104255322720942272721908175185055411739246851110016145812959495779091930458406 18454754560870009712344039443028467531019725890392495344833270281588320022561 98127735527805542540057134310458833629908900162000739933015373647162141530938 5611263929410595261931312659102191419863588333448290660875373109975304582879 81878184598211976207278851707954856980267363004560590130843705281445384246402 0 33913904639104219216292133300733050873002621661079973908613878726467745393498 1 13255665929656146281080449887007641909509999304849491744738638209813853897619 55705207129829464869897097349416518624188726193119147708421062336186161442401 False 9373264349140360354142463231996979531419614426072995054050316996476625599069 False 16315286259588107565695948864919310869998189320539160932306850891508229898056,
     Ed_double 94087665208053930966631774275160682302868321472410638502916271801480813986743 1517484315172197476763182678272714977537924808306517422612816826832837091741 56184216138168669577508209592615501950648467373623606262366461116530571012871 26798636433767534899626657339698830205308125273226129017782833535847496644785 17747523903147214068710475614443526042617638164588231123624066064919149405459 6377029908683542323173309129267810175776746149828186511879678167348714575120 77888640167430934034447420326142727501050130566853531798907773322962886666026 1 37903449069885261389123564682545180352219854098787032240549810684950242973874 1 34445898214599204196824587830670445739267303633182408050117152659121903233060 43048524062920118298805915568484795959327268000798232147099016825120495085163 False 23170358087089765207266412586682662236330520655969816393368318403259843964229 False 14091528619096550645869636348176427971795317317381281154990652321599811290276]
    (35118750000941396177384144572236461584765045922296921590426241445782749078564, 22276559719444846469370701617737789620267379936674566170770241509797286014565, 1329227995784915872903807060280344576)
    = Some (34445898214599204196824587830670445739267303633182408050117152659121903233060, 43048524062920118298805915568484795959327268000798232147099016825120495085163, 340282366920938463463374607431768211456)"
  by (simp only: ed_run_simps)

lemma ed_order_run_17: "ed_run
    [Ed_add_base 2546723617105803217066704043024384113612712956060210350476893017486688072586 12806100036082569026303195927579793493691777840184667117903818307204830489253 27813688684368300567652370372397580291409784359111339637190381077511838153316 552461397490362044347061487654890953446022227316015542964961069992010365146 87978400552947894855918614636290327561860200306529224402267202930401291486583 1 101193610596821246448867182499458913559227312854596851196869305693774124272684 19396694948445507885155385707042871108434043829262654195597960597271552111629 63040145965148400798382185860323394142569921996872532241033655918923491601640 21715002042847916182726100853827697727558633664847369805109057470385743240020 49932680846730765880533179156762681844729764660303290282431838816456080660122 25436089807757778647346428845003824853559812566485633362966320115826425843867 False 11994014870916745435403619690903657826204968679072966227745752845510523711255 True 19326246830396486722913448722425690475963357088240061687456438262169520804364,
     Ed_double 56761452516617590440665290583553599805902463576855100806972647400859279889914 21532322570253522273723722568939428478998659695446800643113603018104881504265 65447885218589864991006038918917767833447406641165144634164384565618141573385 5587554978667859247686143995570351860781538796377048485718230266313343517448 90173482962024324576137112317343450357785944387720780121890328036822560965526 10968729925552109419814114698079378905496422252171100615215350212308681063076 8686432701972274550340748335364168027544943064310043827191737164758861683471 0 107105656535343920873230236673323739825725041601330520212265846843154267956429 1 45845635456993680877874570622767193015359724682723034542109229243268624991385 14906051268862452619194289072522337966404639265274421987706965009373385014011 True 3439224818373781858484085338745558949191609443935934788878015002132926852683 False 13787836613163895543848996356676400828673269680079875496381923700508835828790,
     Ed_double 83464858816034013996653855119317846302685418676321075135852093467562438334673 18151691573228856816371044141948593632903971881094103168842195921374283387024 105907039959507517840645852031317611320084187047781606636946111090102150431575 1918873438534960620739326937957384900007492397454360131397570346861388807877 78821609882422362951234534070324820401152830783415502254900511978925337795231 5901762349023190329797742721584617221067221108722605427921221454731188855098 22442181143473503843991996911999765017398768371460531501094017622539712096902 0 93349908093842691579578988096688142835871216294180032538363566385373417542998 1 50412905269872468201606962024865812625821008958274146366492674513135294034459 41340301024210643977268782884999423105620272384844862766448241307131736671351 False 9770749966489426819467825902263320838990292453060728471735033772148725456122 False 33327952942213448737580366152598964342898914956474269692409905659420456671725,
     Ed_add_base 15133845184697110549259993010045177211434194572472332122933423855483171260711 17998506574056245456931526692321318667326584288935624330302922474662295870751 111363345216446923440737917087072980511617972374344995323404063147288260228154 3282988858304996508266490112934528817601845029318603658299149089807763070365 4428744020869271982833067921614927341652012291295568716053520860624869411745 1 86241398641552269742095934634768603671048885476373107804766618189797246040678 25560554693481166838048225836667919761383726740454079069981964142764526146668 10496252634235302129471224291286844525180511772406189250314183672726467710932 23115593915426578282748673246119650324451929099493762570562919214550677271277 57287386626394774113138642367524579237642912431093605397008543154920470742987 53034412112453024451555980813444223768796676148163660906444619035861838582367 True 55096294189389941864145214491775409682363021686294820563899972848546859187271 True 2028427305270954886787913768279669184592144214271617803893219309927835421083,
     Ed_double 87930060022369813335915952349454960254326787679068316272806532844330334770967 28342563711376564160965462348172144091677102349941544145881745503349952876949 72781523773577412632060720842802040702813399008658258058438219528047386368061 24290509711323825601546896126553272799640415888576426960467786468251283373386 64928881583575439473846439256782423040515904542907771227820057491692969717495 26238432100165716279078588944264881829739397023290368218399386454495384889483 100643552988523794719715753502034988301756595995230505825089270691630181236992 1 15148536248792400703855231506652919551513388670410058214368313316282948402908 1 19116843779388832953239487290352966440392542320173648942287117641758470389515 25488289157064646651594096343608121960962033258311311893140349779412757921655 False 16615876719704356026142607367541666603721071521726499783097754364710333457805 False 3334513391706423671485817499848616353203083573906472715945446776738618265944,
     Ed_double 70672587131157445010747395505586731384153328353142453110396083919543981498593 3156119891200504670117883533127857221640582718322136518673267182750878287484 53446827099098558835464285992304312191191239411253675176601730405829466273597 5610511809858391264122729378015812065276298669965147798749764076912812287986 80464655197771149932514097266714319256467282697020295629710091159803445609417 4208021853901119223794880734619911295352226665561365843404363562592331113746 98566329205257309248287875495405488660307895723751786105663230494198614414902 1 17225760032058886175283109513282419192962088941888777933794353513714515224998 1 18498329282623250392098226507012794913375033583563504655804061550556098950901 41279984179417285780657987301543487999306998951695814509490041373997411205442 False 15746433334330905153137767025468116008204832041169694677977936619427493477766 False 6140998977438526956782879879114301238940852213657961207703083078477026847187,
     Ed_double 7290094037027260365874079713297005905634214904763442610406105687026762785837 2955194854002860402608778442672855745160825681893975416450638505742808741118 94022706703668567219132951782838485177360199529269960954489786346655382903676 14716351566647293500129328853720478489881901895394583990934551253389229846356 32028222444889833424625356827809151814541152357744845269827836719257528310798 6594671062263304007000785462609169348761860162151175500476106073646809119878 86732612666641306853258872069541479271725984624506518344083680659628620117839 0 29059476570674888570312112939146428581544000041134045695373903348284509522061 1 14621198854137609352185386775297015418456171262585965701722812123582990923450 33937705450845299837390715378349635587930408361541413706760981795318198807960 False 10951825684212428140189205304435279087483134186645330298447693371035821214873 True 8517092686617480529025550716608350105189828159336004492331404271775290526901,
     Ed_add_base 106434220726907853503844683995003760827653022198082936061949901832118968869658 4285352680984755380620093564843409654809821158892408315656981331354316389879 63274205342452462710721183939614507552953278818750173839499631270185251928544 23088802384613964464848622639690771192029512427322073967255886795181131340036 52517883894863732712849801069073400300316705846890390199957952737727877711355 1 63643253609840428582287160236749544648881557649584072110509705311325922019818 10277746862476688256872784251890459658894026252720644747867312340187508444999 51938902891306560622085224374119773474230777855437171377907083587527907009816 15483319564555665938550549222408644965948945186892268198593532559613286737758 27877563148636166296583294313130482326244455833426469144258226879776221768882 56480669708456234018729618168058262420089375595568892252833829453556394352379 False 15233602457062587700468446967072570972398409453866876660131156968434453553364 True 25616993989749368615425783133651948469726831780808068054302656589016146202610]
    (34445898214599204196824587830670445739267303633182408050117152659121903233060, 43048524062920118298805915568484795959327268000798232147099016825120495085163, 340282366920938463463374607431768211456)
    = Some (27877563148636166296583294313130482326244455833426469144258226879776221768882, 56480669708456234018729618168058262420089375595568892252833829453556394352379, 10889035741470030830827987437816582766633)"
  by (simp only: ed_run_simps)

lemma ed_order_run_18: "ed_run
    [Ed_double 97138799415929645702671578018758802690643949612442997731554822199323353459090 6711672034118053868498638243286740038809654987183600105393478871590750627933 100748718834869428238709875846948171396628982098288942809931030896604460234425 27549948115865469359768431742942671941348848752796496010930423254633911687792 44997341563850431356257937676664835373838530759390934329557353818134932441422 13598022514713587587598369428492618753316220333188775492764960000192189976972 3609919418939782536038297828189368705985032485845945078376208697281106775335 0 112182169818376412887532687180498539147284952179794618961081375310632022864565 1 7181545153153658992490409873721432091519160302102083578082316776455721205806 30124551327989883748844865177565059155945571811946707080541867253947019832129 False 223890936566740090470316258388899636364397592641516699849014028526000305567 False 29185392154491587042713319955868871660366664241645654305810329819061129389065,
     Ed_add_base 36105805796996866113167551754108448794178386429628784835714138853452406177496 1868355835061091890325146770948422576481912498369775285775160087634894902711 93626745744021898864775405538795375074333135362370709108974955941001655082658 7832441570865522894010729010635932890300043190682478291720954484159267487547 22165343493294296558795579469892532778936849303269854930482628066911474557241 1 86282404804455308107488532158337585106776588086649323856442011878901838762386 6804224190165398667051789458717426051983590934475756279603439355695311661084 35682516539075839986135040182779786263157205302209938871246605021795217630186 12987096131808967099505962600231387835281552313282243938856916852368530192417 55660204125881035873450010420822442695295268816026090290732757797478260026784 41953128703760247731795518423853730188813635863000597912660838984699085041553 False 45005525110387138958701279044752243068004501129499589952552659283909436406115 True 8030820710311104034079524894402286874537827560889726619584941051393456208381,
     Ed_double 12292025709512914193552705198935122316091668364226492858173596426665992946592 26755353873832136323164378394565988425569661653860274703493860021719907363568 62334896841130405261781730865708067385144724776862471038881637325660430717889 15200218077307630924343253166986697494283374667730994611898261373471320781040 111303451694653279652632781081423197221843164629174724844341986481868896242840 20166487389175785514562781482655055061653070053165280303904583749772574151444 50042871131617491068229025666772945069053056412635978180708040898994437771297 0 65749218105698704355341959341914962784216928253004585858749543108918691868603 1 45340448844476955606121183183790380756329997751998089644027756915405812468754 87218061823437062862524815159498314920337631806933426226619702735567148666 False 19595174882142450344753022311764894959506447052810457243649135157266040944821 True 49524275858194115133161006957223204557671643221671256924814292633995764616,
     Ed_double 4985105257287888622139707589292311421145851043749106660628830950023145422102 17753857927248844102564890550951432944153711164079547680922971198279644682643 39416316082305495483193004255017063248641698442145296110719478121016457675008 65695250498903623105542062631903226138169650988232904498690510037046426 104581872062271465399011321098979621731624305617788444954105717973864279516264 34151780976291099854681249427579095156275614452432351793906733395152389550 34431210825017606861053296665724751827495847398396189450090647170993312252906 0 81360878412298588562517688342963156025774137267244374589366936836919817386994 1 37847067547736812907613392178316615709320464223749883799397257470128482073281 55635828216023469306926131801644175454036345660854447591928505339137426199365 False 11253967092467428159869959252347957000534120100275181955199661994742958237921 False 39092306604591779190176602058666823873973424814651546873143037160415844186650,
     Ed_add_base 13747928368033674318958387238106870498377335163149903538141628413029339324327 18184773782348642300481870969461541914937346191449372372416376184196710632331 63090871008433310484144997527743111588591230918389642209716558992626832843776 2982341573222130599396742766478592785630798005847771799780128244789254778254 52701218228882884939425987480944796264678753747250921829741025015286296796123 1 45877188305630960309686882192720240421493144232246867963871411580776117635320 22399953029543427948431299431860917620522984192631748657545759610707913806165 74655502616265337609465036123457313572140319696799549036095289266269675607244 27193816064510221148153113101827085024195192071068185809130022054668770778991 57545990244224688421572221211126488057580714605475232348723459436708012890204 35687759351612237211236719554375743390279023673868451052610253484044299090849 False 31354703688867402046717664777923740589831456903234967992430744092384636802106 True 16242805584365022189657932170965036804705729112317305648201774715148499397733,
     Ed_double 55674162847552795183515847616006953294579328583786413919610244145643385240722 28599026194279912557082917628513724848173472473584403222395559941130714029403 114397629118012422929884650685163612343818732792897157710861846103305806279745 10999163897356640320748393358084755430841926568598872267772962537589367615872 75444315993824806868438885801808276426239285904725572743120847700351515080580 17735990990516444440439365485670372111000036682373818239518404295071136704092 58723466270459627746368803069156659049239404209110743791251601957662421039023 0 57068622966856567677202181939531248804030580456529820248205982050250708600877 1 25505436711441821349224520623107218615185855420401250367390122961195493794301 10834264678591212176408020173122028602766981354020079086933210599053296751427 True 12934973902820059934698545227130528734212809161595998083619753963343238524443 False 5339713361579070233752500264427327986716676774007286110408194755078843749794,
     Ed_add_base 110055525443924291293714954584660432168846271800944802671734312701610035918785 2386455360594394505827165552391125638311601302832968922254103469252127796679 57351257911128336756940992245167576102576926150797395471782910124459778063260 23874372931517258598983925205764510463970697949203611741476636216151165873660 58440831326187858666629992763520331750693058514843168567674673883453351576639 1 3360815873945088312334957149260653347662425256533759045137699488155340682542 11616172886532984290032760678064592169465892088984877471534223595154311299964 110316881011322038898489802890072739686599719616636385981915164490573368301328 7662463541659594584898715043245243705062342068594673454835055951307838470153 5951660249397061052838907657352874682530068772392159092747818845053982748366 383492649047447492132876812637389019540975490061146958416779088910438222177 False 2947828337936055731241071015846302959349751952116170843253151190960726955108 True 193550607519328389333089925070952368152713644458883249621085629085027577237,
     Ed_double 40897574831936582174202420256324314074636888028190249860275419837947658622426 305912605580982922605206240507682428411517920005819491875197829864667826985 114720582476589941395717646235053597943264295228370481773954302503283206994475 1270092048965584488219209045623290189040456950426439819423587044698726423 84992554739141685693843137921481117829681458798723742840094557617355964517940 19711346174900163239342532379426320816044445241042074580355787467499376129 73823007644653359221515225978729283868627407200180231913678882665335548372049 0 41969081592662836202055759029958623984642577465460332125778701342577581267851 1 39420117311695778002754389671734815539648133358847459765785141429581430649532 57263608508551927592209812425632193522298652320133510630284797669641859026319 False 25132214478747059521425815391789405505013037650241170678078151428177257717106 False 20755313023674231752244180931476458138995803376114647915621750735297338022416]
    (27877563148636166296583294313130482326244455833426469144258226879776221768882, 56480669708456234018729618168058262420089375595568892252833829453556394352379, 10889035741470030830827987437816582766633)
    = Some (39420117311695778002754389671734815539648133358847459765785141429581430649532, 57263608508551927592209812425632193522298652320133510630284797669641859026319, 348449143727040986586495598010130648532278)"
  by (simp only: ed_run_simps)

lemma ed_order_run_19: "ed_run
    [Ed_add_base 97299198169161712294164526363761464031552113013823895042657574648856230280798 19494752879635126951211365694687162068479553234514855000359953103654362559295 72805434184831704459273986731011439001007414647088755058191293332096349269212 21107139633909301569948283363920715932188394680472915838081747544306526040790 42986655052484490964296998277676468852262570018551808981266290675816780370687 1 59731876917456926803621321969402599022039338500283870948749413372739794789476 23241617293382654926470835328884954683104706315574103561960866795930859536709 76225745748858148225909717288582199340075431298755745307750098189535543045520 28050229565954360932017884802364657981058949000571958633256589616568983182008 54957028674345625386292104491866298896631989815821660862623363705384700723356 39280216741068718864247843185427530508037596380663197934973601941874015924352 False 34554781423310965078742690815933929979454482149915560291515108146387089699124 False 14582387610042261021170567798060037845276363695951807599157440056434206975448,
     Ed_double 61044095284582257765099982028517440252191704038002841230338990587543721731394 26083603988894143063836738961143020446248729799261074229312440063704384425379 104785795122465638138977784063887284974047510830929307516769803993698176722040 13325050419144653099280703324812335709850885362041125317773512910788863427668 50023481905320784016533717788976372035758207461060460819257849744344777904590 18643104308698619909055643368885123040564515506702460388427428226774495140189 43741699837883380373877802035369844721855806792926466286430813406154454990646 0 72050389399432815049693182973318063131414177872714097753026770601758674649254 1 28498209533750886880708622333780873119282470982510598449329597170505239338536 33209755268966469203241440138855714524204106697467375813453458661585326051113 False 10765503373789287722186091855698531557947143735933090363502798737215138609362 False 20664415114618921786530901470794755806214703217941017166739343865216433758566,
     Ed_add_base 74881219676241532270334464030424571389801976860119881006506588518325662393908 8173430244270889802479175191140481565723018818749313507864967846608580143170 29285591335075288086971137688610851766144618558529408933320465192184369055092 16244001897281861556774771938519699285015511454262032825625900244873989711110 86506497902240907336599847320077056087125366107111155106137118815728760584807 1 35380955321381194706818545646080688918631723572574949694493158970123556756200 15733545125254825622973138349265787872313237618654966284536727787883668387557 39386070985812820592317213520339330989438259359118990954312910198943863161358 17003251619078876041753839934167612941765504619515555915466324596577014133153 47665411179420988199152695816139026835228442965515613043269557029774361999958 40908640816570166830668392336996678150383855343728565389933924782170062846764 False 12055311911316595233950072071199260684906836158678770248708907791318507999903 False 30562219528911376952313513340463987080790587590290263911981543136689485390655,
     Ed_double 105024814698799898045062975187867698658850566853052157044603744608559287279568 19621300883921515970197347513054558324905137403930241708363086903788176338802 70484353706022052436026330827115800106724568817101468002288798533510672992800 14452773971711256662232054763227800273282654030195767778727103989832819852952 31456498729136020326035464298519935393669259592526946436739819496761200080692 16839899842524478607287991057345976493688738171688613325002367672918754227890 81251628244538349814534340647936009301143986629689874997142637932864515353130 1 34540460992777845609036644360751898552125998035950689042314946075048614286770 1 53011014817224097919821535701825386355148612634680166929673301417710634291120 17822171030124132882905675502759293263064695569656206798606987611841664385142 False 37197975243085255332646663319088668564818475118673815919514919359444913253292 False 5316304484419249162034418524986324453836784433747973060865326397539064039814,
     Ed_double 50099175265701212757228933109249117597712726258792097167560829381849437525744 24269081855777787093459249436287976534942936721963304846961854979851881772072 89717153779506818670885983713155045970268389821401235337983239289104979473456 2743104320157941143365635654608189394676031878491393765088816472040251809346 87342859440112487486181800511333130304953052303633370113375798625567483092228 8159204819395744968716138517554453150982307661231436873179991415008682261894 39617978513805605913657050603905928372555663562609138170422409907255541947712 0 76174110723510589509913934404781979480714321103031425869035174100657587692188 1 8696358334141002097446952723756445933336158382040018733145859827398848667418 49914493966203379105677895045971336036193560656021944568162311710992010284313 False 2975437613222721968683015710273418762380752741161906794570901540281500597420 False 32836372632477287911217150796975596468577068946608830895703635347679422822278,
     Ed_add_base 35980141891282797890812997592293968063186039874508956594276892710693177764494 3748739041298296567135468834669012896076746796855920617072760923507995483830 87213055595075640802136723351093466151244781588768504674534404151380296241974 7805181268059760287126784479987154124458796199222357417358470330232210630389 28579033642240554621434261657594441702025203076872059364923179856532833397925 1 62109354420955211702639204784967927617000062838274614868554598888313903658560 9992968337434820378127079890497356415646404858499219432373811203830380136177 87204232345283836611159547505478006575522435575292213288155530151976842041464 21100774016616120833181321924321323931586800599408212243769207601206138652074 20003058431961547951497558378328913927630366611825520932737951555670178101694 41711661583115221338664852699981923362593820736584798088137966721947159977737 False 15066036536596162306076720106445584526215916245731556663142507215411648416205 True 10294994999308059617276806400155666179714595786561789479289848454116892480644,
     Ed_double 108693043202752352900995750447987433994965681108523333271776900965390284827870 3455524028177919528820628159853892720777327961141194258910481701365632480767 70449667983828590218565962044578593473768220256560175036402717883496467075527 15025747643765861661299416779633620442308630875420200499276400163534196460729 82080665164686398397647045042976111135380888109957431969088285836813290318154 7205680538600826238942791867054073884635189658694490474320692306224106378938 77548714018392432741141196605279067332072523813677405804083400926019311887555 1 38243375218923762682429788403408840521197460851963158235374183081893817752345 1 48361799481732452258310008605251695646839394849197599993193540983467408139089 28850018310685785537724921971788550702123068128843119852870584222088729439683 True 32389046454954828829623059169062533281321669417909066418929819798503582060381 False 9528475413092478470605827041727464323168039983646708301157108495437762876831,
     Ed_add_base 18301099179711039853387664646119630800634729387444904304988320309529977478269 12049517456465872563867332407251775226782694235667504204894703731931016065191 76097886757176798732801289548765059161024540315212698493782408226407062993700 3970062067403694321887956577571434500061135328951368018653222372237117739552 39694202480139396690769695459922848692245444350427865545675175781506066646199 1 32506393795841250038601987644895618757528654971189782089378490453327194537444 23109984462507122341960413871315706549100291983571805964303503868772134704069 59915389522918490765791113844231138012340590178688831918677541062902263272162 17851787545563003262406875445306540600436293177895659517852817159131474231152 6524136925382497845497990750620719219972309053138269261620455642650257696179 32687756102173419839738327621345076281640632553782164119018581021130387120530 True 4287624795494881651430611947165032068560258305329313755691257301699717079107 False 11205553141733409965590451361461935714403909594962972314622694968852262621046]
    (39420117311695778002754389671734815539648133358847459765785141429581430649532, 57263608508551927592209812425632193522298652320133510630284797669641859026319, 348449143727040986586495598010130648532278)
    = Some (6524136925382497845497990750620719219972309053138269261620455642650257696179, 32687756102173419839738327621345076281640632553782164119018581021130387120530, 5575186299632655785383929568162090376516475)"
  by (simp only: ed_run_simps)

lemma ed_order_run_20: "ed_run
    [Ed_double 38134908279230487866828381120361179123680825568080288215549782246588546364065 367593010036321372992249446001334855611887535314526291977905532479420851412 65005182698387595048131801269693774794072042245361399586761270815192268918718 9227654549053897585255416581191892959920468649350038022321983677283145550959 93856357346294065660440597059308265235863921995485729952855645591616230937254 1841744094944266666241836918127007625988811337907279496592917028367757101592 26870274419157107181303420149332595670391216677281111371211488568603722554653 0 88921814818159088242267564859355312182878767988359452668246095439309407085247 1 19723872438064333015929157217746717740626330217824660321675774613946615010670 21303058035315253966641959758337918704060649694381899939773433418985170655356 False 4577047262123671754434700975479782864313398226252709889148692270322350991049 True 16359550934385617630092311229137464765723345294613570365344393400708933989900,
     Ed_add_base 104144355581698638553966767395770114635044621657057131440611253582106017303970 3628734933420899675844799239745941594051904621266074751840546661442357878975 13571376971171779595442189776861336201744772968007343070452196977697091062664 22592061360307439999164496492550600630311087971714029010024595572929216442992 102220712266144415828128795231826571651525211697633220969005387030216038577235 1 33055342774968966379577779982627593142348464717327547879292004196160765762316 10669847098976424652978014105761489674292535348484959991559419649995067022502 17086213436102527869551621700618798046002435961742130925329548976117628933572 11095419155466535328249565199918710944656948974085094289068915157896584556436 5700462861304222720211358789181151713673062822807622547646952396858314580476 56311582959803724590613789277351838386338983009212439841190491760668280263837 False 668121034092131946605374399572906727448113693978382338308777594861321652488 True 49711600826096586638437223766193625980270446256168022815533168798551746148263,
     Ed_double 23513670875869467581997992211740610845353736751144587754235098891040066045866 280634687975182566254727029689203410771262891899761118936965519294362484895 80050564128778110788997442475587691556377026875097074289552486179976074464639 27385241913546406282779589558005468656488254108320570201844715098184632861785 97330448856790294321564056496160151359218974354312078358888748673918238606594 2772228132663866333180378581149620631669673656843636754214271374019137498041 56536893252908643206999450263847080711023290123952486535317387288936008418773 0 59255195984407552216571534744840827142246694541688077504140196718977121221127 1 47214667442132870039466560671630717999127855303762461079108938381861003867556 2428761846637101439049808510545357031527352040189891179774799491635762890900 False 23053134551157161204643720147406462913172025666746782075618218710515880482200 True 1242889390543556588521245556656378672514039201238849012575673546767036446727,
     Ed_add_base 61728467070100319506048493021237332620265283724807343331778621672606340819722 990336936144992308693976107536082841690533440551612529721732912538186404111 10067559411427926407688204266184673440677511864510852424928984238785755457218 13390771952411917339120818928755015524448762935061217579703010584567131952335 105724529825888269015882780742503234412592472801129711614528599769127374182681 1 64056522666140332729845423043377288776947021100006567035086048489774302149118 19202848792048323489225240961878139716505175531728590598962976557577110340329 1676539588450318416850666666312383377370212234303644718120817598238475281512 7133570817865625625538380458495289662679982097365657316585983276992525819600 12680069865085673657364980716583914121526263284386501750244750949353272907776 29189507275317351527673672757469484306572559378073767741755834378979921331658 False 1102470449826436918133139925753320973008219076555514195369277904256891435237 False 26651621478280874108198775087373989309781496026831631139450535813118147805357,
     Ed_double 30451442568016740197572667695966316793897473865713617117819980248373832033188 1388559208513167299902962557767557038614990454373400804671196908979871143206 76470802743281820338080220814045701186383482252943138307140781061090543700704 7358251678398964732295993623393452308908949650144531147370307541211160367370 24674709174159359578854751198902354293746404205082358317024056535504875799234 3196461813724411024425168805740505453538087552174786296789906637334371215163 46019360175265080140507553118079384392486008387229521189320800812716711667516 0 69772729062051115283063431890608523460783976278411042850136783195196417972384 1 54816600594738306420286682143143620712680911767461230060916008255668003262777 16209310812522612296589866303659665155382191529397976157135582126063987450639 False 21785813719819716690820195625121043692888108733453741467580285983623861139868 False 9767228996851367131525983035319667651848877177340795164516428330341839232358,
     Ed_add_base 37300157521434351399833749048974395232432447020775272115172358955539659511949 7673575307074401196145880270657276123257173734542389945886330308326128330073 90045621197159761418305131222452784671961114008467891903311239307778688698672 8091532592107795470910708400193778379501523083482257455901382865228870238178 25746468040156434005265853786235123181308870657172672136146344700134440941227 1 65243565391946139228821338602446071592439026481724764935118539700915154904512 24042144799007573870361585188467796125630284043223215277432314042556136272907 60296207693051375168500107911797308438080924459135478660437922437659757825320 13637931553440254419778680623742359946860471427787022943241088585558016500313 9236868749522475433794884665054858661075400880844910072807125839065565934169 53534573944258633740297998628247868840752349263625163209795551774449998643276 True 7183043245404537940748004025125850640840429206652157706185222812234351860262 False 11903457362051418464021409024585380818213305710911783683385417237153126616134,
     Ed_double 26784895680407985067996388008328994881525516062515898248387772128738993273587 736835692816992495426295032142934470936677520435367105396604631282989518363 48720470073296081760235603893557202923767176681400405084454504029773165351350 24750832516023801963328256145046821102434814371342533344330084424376226372737 110767008663739960161782563490125865595166067322356156883263628999990269554736 4270514819637293288813940759235864707925360990670731196627288257561663436246 21935574392888096692239215885228208042241660618884506836066731901034172077763 0 93856514844428098731331769123459699811028324046756057203390852106878957562137 1 32807492278451714518024242747678992964510574890744187687700940251621586338769 40453238950094755533905636755029630710955410361198424601326306779390904129628 True 6215028956280012889408393307158262528585744663500806487344073107828300283487 True 32789804960192173546619570306744689621908050052632935618445206627667940566175,
     Ed_double 40429973557248512973131323743637852916299735330452356436364937495405816213881 9295380683517373035579226661856838402591958841674491875745043724745001276260 43208668243045562197511800827789551076898077432552091922569308973302096631876 14132783615291067083904075214776501096573215749103674985963260948754669104446 55057530029933285114644647619277817178648271484291216580018789992775258382258 11461657987477527657760956760186392356285611647335687438821301560790012801513 2778694685797049224380477084151698160598342102099735486204371477896280417995 0 113013394551519146199190507924536209692671642563540828553253212530016849221905 1 3173557203866977758930918142168074842609526964066679682373632983669999625528 8954205231232762621913306626095315593824658619748111029230214390750799667638 False 76156727074721737927533031261596401898648469661334198762169144437275295178 True 8739328699895903029310243667608220613673242454064793867644887128437707799758]
    (6524136925382497845497990750620719219972309053138269261620455642650257696179, 32687756102173419839738327621345076281640632553782164119018581021130387120530, 5575186299632655785383929568162090376516475)
    = Some (3173557203866977758930918142168074842609526964066679682373632983669999625528, 8954205231232762621913306626095315593824658619748111029230214390750799667638, 178405961588244985132285746181186892048527228)"
  by (simp only: ed_run_simps)

lemma ed_order_run_21: "ed_run
    [Ed_double 44748369336765904829732966113606869675779034307650591222683368197367402664502 86978872153990547759488635877227247238635645131420629433403630738965452409 24774468968661589754586488919277828616057948763096839174678012731076801667522 692428920240929196654016573348535999463682810979261760424978449962825324789 113748365342814008090128141593413547552310187256207075319390394574672077640030 245411259988944880665056434273631872483278302362319008701270434930498151933 95818188869211880348424507814358866793548899121086811991452228541622528642918 1 19973900368104315075146477194329041059721085544553752048005355466290600996982 1 4975281576403062120541725238804772750745349865914664607763268745188977783680 36130638114638380033291301790050328464138816635864625910333182520635167934796 False 4117055602894035811926807233709333396528198683716331531922584125073203330410 False 6232461739754563260037363311505875433899911225021405578605622999580301374376,
     Ed_add_base 76311284292490499689109622657339384813006745202611197527672600674880732928942 1552438507150758801415751552193586554808578051663736678496231637903405380781 76761325272526737185998655772800328634248626480008783927950801717820564252430 16554226175679323844921291084379735586906157801913053269908938601334298117401 39030763964789458237572329235887579219021358185631780111506782290092565387469 1 84501526896696816001969042141442750496240569871845008441390325558829171813802 6705583301181201732202687733142412244348476904583849398661472997918596332355 103346046904232774124843054697554098746395087161092863640777473462377315165492 15101587656679820361101167794730307069734035156184049317234197077167171644686 4494930324297705238928315781281950089124660224002781989033932708575865903552 19033705974236780840128659864685083296059595886141308798561595460433839772284 False 2979796037651642893886435998104440243981880719960008205849507875177211804695 False 6415810355861729636632581089744747000339578871187344778596804001240206850748,
     Ed_double 100385649152403379958987512325408194018344844338221249885706988119380661156332 174488592039151351528745090414921941365096349840983528379018342232629744114 47625991871471536858873221578495088804289431643925025685934321032409425073074 3128728097920394835827975536045023030225765366251058676925439377770545365259 6530918960443991296248026833232810504671075916411744587447115138828452720490 738868973959159931234012042555223772703469647881776944210155480794122588311 63032431956384352323456694261774802639214571971344339839684916920941893556640 1 52759657280931843100114290746913105214055412694296224199772667086971236083260 1 42736300586347337527673401514686043119112405254552907449394366408818202814323 37415531055014906191276277580949249280505028007338226955517247790858995285108 False 23263877321149568301382257860976673306748061090174882584720744457403339361630 False 17048060955190710093837458538217283021995934666892804892551289114532566328013,
     Ed_add_base 87861682780284441348783557450232094233990688154197234829686147407403122401700 13809245452750860719311570723022824197316013289001492213423879064298307534508 2549317608568013378509202714432089311066257600565576388282025219375299386850 19059857036946081268262909236139352569747538822908824309301116301094623588275 113242771628748182045061782294255818542203727065074987651175558788537830253049 1 115264745306466611742573529052981486859331762281136518954150970634597359825814 21977684455325616807455567365121815508113279785302740433619818587757342841009 109503417573544664312273006857770310424210878460659057522730891669126959658998 20543799270771674008575223746571955789271463298956747171869815211532205706236 1745966718743928534882433221199639114489728795043925531037180933237776953618 27551202652941532664438277638267618745815767233958923708527360089602785054678 False 38439790916504046995520667566160561002197760682711101917248231249666632048 False 26944626102479443887993178195819145647821969444598745609455788180641228458488,
     Ed_double 43029150880119973511755197375809645011027658622489671843838001784655779375308 26326494348968321763040194564569682915937326428791090239563710488422578092 79526455086317716660075077818508123504645506192033322345376998653820600973490 6555445822103952937412380875763178158154712991443239680863593440863390492253 31157668571776395769301400149204909066263026920673693075734511346983659594088 415429786354550787079953096598605672760290368068962439904355926647037652442 36497304206197743148319880442698478493617847569543650501538996869164821598182 0 79294785031118452275251104565989429359652137096096913537918587138748308041718 1 6325106324328923875334157443714861701031812246251669767632808791238195422299 37013090868973522862327582104646724282912696314668626334458182903256646562842 False 1993653721736134009001737282961221434030854159832312871495760710951670922429 False 25346680443577894154233617800298534873948539211919377405175012442355067844571,
     Ed_add_base 78739975143804067883158016431507331182080253990249894118855194816326030767952 2021828405380033770421827924854113103386245115798459895783185886791768629747 57937138055209186241940734850353443164096450117215364250269056567459838658568 17081082695474580396998478410375464629048998472019200665369809268486977081100 57854951182107009181630250158334464689173534548425199789188527440453290981331 1 49734666264259684893722681351490613094701114332418507524628578229125331690736 7360683601385489800056437099599419628492300699291691458352538985237032590006 75268983734101161725330721404638166793360994398275838416405103660813497627948 15630736668571616770555475391714181023762250652678139762955646846479404155365 48274040955167243620615632892235520449680682176662995315326980845032333470994 29349566237275668693845590060395141512822641094558767637846043978629211356274 False 24154152444474642500563760013921877513191628986037419224747695256845314055325 False 14664367255637887909778704026589562272172827787083039389558805639922714354777,
     Ed_double 66934650434157446944020389252835385267727326148013375773236721105619125241410 20125580646230833033450123299530516267930577432558467225271200120285225044837 80724924414151261802080630272309252882292652428873544049064141853146720856162 7439170015758125998566514843276141900544134863422529809134893745955009511893 64843958103844411816615314918560179117113713326669901817440077505904435585900 12235915008415286544743538877773962468346262199574469875596975872279394066172 13790273979993814858060241019473867614565326280860168275827420747527595614752 0 102001815257322380565510743989214040238704658384780395763630163260385534025148 1 33299318657402391076189670885073565614607611514577447881234553940466351503359 27036001545307066290331638876295109330997141591964008343711275830162213453425 False 3965786701469332289024289821883684640051815058014140918627322182198159524116 False 23816145412741769893658072565035471122975503913992972658482555468050355651036,
     Ed_double 58422494713639304065902480839520095312296931985810070596217171516546389215253 9576169066046014348214900648157702403491922729422907864945883759930481391886 100277329700080576985693265847794755711558167731608889570201631744809332820417 6312567502429043951299704949640704614337217784822482445102026023821191510096 113531144006695730919504434581903036198898766218549359322929741350208501237673 7774973546198620940075545208635334942906406782414423815443373174092161941599 41854834986441272919790785008274660399261235745798818973984460228262943605164 0 73937254250874922503780200000413247454008748919841745065473123779650186034736 1 21100643038311570825460518721661591154866501983810839492487611895868151017842 6965955738465159294542530618170607979179371982733204655515325933591485603364 False 7627152582645648464711192897010091404501711200831164120134280444499677065679 False 4448003692891803215815418284627826651543290136869579849604687400075910840233]
    (3173557203866977758930918142168074842609526964066679682373632983669999625528, 8954205231232762621913306626095315593824658619748111029230214390750799667638, 178405961588244985132285746181186892048527228)
    = Some (21100643038311570825460518721661591154866501983810839492487611895868151017842, 6965955738465159294542530618170607979179371982733204655515325933591485603364, 5708990770823839524233143877797980545552871324)"
  by (simp only: ed_run_simps)

lemma ed_order_run_22: "ed_run
    [Ed_add_base 42104476860364520639564726091870728510090894365322852371273545401089795101176 1269397127439188907698406494180975480180943775072888777012569965321898863144 88711264661163463326589871848733178765830588208808217257138202180778625604916 9133734799739447276478691416601793649846052919199529503873742884014968325166 27080824576152732096981113159954729087439396456832346782319381827134504034983 1 38475369527197971139274927281025321625082588848988973701535574325912283965078 9349395876904509582595498035001663781349283268578435783503567909400199071365 100911148166537772433953451461546865567092707619151693324862848690643694599620 5540262895631190821658100314721494761191663568426019315264056941532693398648 57587860629326703910348865271655242652316958815152756415581081694806604527534 5956384283592027817810417263546127891376223789932719839086892494800798068047 False 44119524737895686443673006822248827407493417841283184280718191121285173330200 True 1393046787173140195867229900934407135292000208522848421892583101745832771484,
     Ed_double 101010532773374320584626177381309512295751532777046224139288173539018173668080 28640658560584950757126394168099996421576123711586150944428202731257152345362 95173984311950499965669855124044825298625683368754270368575749193177255017021 306398424689520939867207700939027128464152259853203267524577495531450926106 99787483971450763175541712069217366165039288258040308951500208382316646156236 2962339053017677657475615223130554026057832252900256008436921686401225649119 109955540775892374804614662751423220856144135257348610268745159662072210988839 1 5836548461423820618956322257264686997125849408291953770712424345840918651061 1 15166065459516624714937921526938291997144197479455259554370747081019562696090 53516782788221748965783119446205476306219340060040153882600850294703229442331 False 14401613616505329685394992848528517812517864290290975352814432683464823609931 False 2697535715093451167753310351461525570375731491020564329652373095255735425705,
     Ed_add_base 110665573783118141477953598696269535074788196600964353807921444195030329882250 7009451477168248645269657904797726798573696396191028409396707924745818361730 59791006302458880692422271450274501238533178600572075341756521509714024786818 24006710871819834863005283547852495935222635559012991768057424107822659070959 56001082934857314731148713558413406614736806065068488697701062498199104853081 1 13483310387816027240133912922675801807248518261141077778088002654373945156596 13050991992556009290791342832528811071256911796436342015641060377940872992817 66766467268022166524478086882494813326565579776076964644294022639238864890272 23386061961443699146039599303486875969398228235849106297396049433631173130366 16947582654287120705139077674872603070130500593782557302156536283747266056542 32444640192851423343593227593215780685698499572163294396331914729190673298619 False 8751142050966334174307295468543418917009029095712265210408612900746786678399 True 15691356794743244376793244216380210091792040816073165810238052453383524977991,
     Ed_double 106956748972314306434950573166127516927720385657203117597583134485937437767762 2480485149855396329465754831233128054938396218047357352784917493747615187549 47901498970401034682135876790527895078656872397755361381360843007909463377571 9090903222984183998011666519667307422000008010889673679460964541873615512455 23658024013669848533593698488293845846417552328070933447680515200919400926000 4748668281043099889505484521296815011838548410368654337046467420941938765201 56736839235402923670756288633088286004206471406192807823235292529885155249707 1 59055250001913271752814696375599621849063513259447756216222291478027974390193 1 27565562340830960021300504704140132117450922267726861166191304821153164724818 56587268284476076025326926206139307494756410468266648764991227526919622662842 False 13506819760025369219160880300704187970484111529809634562052453632919651827487 True 28860134552163535795096744693921022866055419061551496020887003416770138038988,
     Ed_add_base 83300307675147081922173766582603420605908000592132508026817799582839745197608 13471212773405572831903152016561279986297654221954043600185950627946162706126 15499113600865600370443634992536839218169793579342524348661102727288961963954 18070356783312064578974825580811720049911612870810182911469811835688596311091 100292975636450595053127350016151068635100191086298039690796481280624167675945 1 6378696597037928283721698853244200297980531360947276127782728403775397899164 18411524998825388307377183540599250641088098324445929905876070681191136697900 60639683891373821154833213151215563842845837691284281390041246539491424770592 26232535463199491048455309711753720777976743618931844886680691770216259630618 36594509101607685444143145351273771217631668124095778819123196011822457300705 10062317462881503222237389853715870619905910492408973806852928756161359391022 True 4898283271936528667027483321723823335713808898754020093812977150415031546969 False 8715446511053871392489869704422122816588608059033128452352316759550608529851,
     Ed_double 100760736275106711373236800570852937558233198745677973868519291675162474588679 11565195042323138694372981816630506838288609413801277100245503272282297836977 55387577031220869917217771255112827011192987121497961811103277181062429591952 874414076045362910973404688097304416022332361251553701948064290105962972034 8619047422927177459407064466438074480433478305550727655869761169818018077064 3180058071359295024777217375567779383002342140610516778082081190945116696927 70418929993430353967551955692947797306229773041460551982041569513813084643171 1 45373159243885841456019029315740110547040211624180012057416014494100044996729 1 24212505518564374803770329768920966332889223972393874900041213620574924429370 821011036284524145049993947379913613933264190969427422587629806035329929263 False 14724829151177075547582270820961409984994966072170706676139695174168921091979 False 321713380729987997452280639228192970270180456267896151700275396980019422352,
     Ed_add_base 18434854501664866092723906774266930013847281007387448760528676533774205320608 171676099617649857030430902017177305007524622857052750962692505954874353199 114399490756609223457264427037591433536318258651787980763672134740116385623164 3999077643178014478723635897936149886066678473360200970487453568852927231946 1392598480706971966306557971096474316951726013852583275785449267796744016735 1 97153733120653702442561409306618553126646983204893091434708541551890679131788 9792153745950237323318247355437398046003850778344095272990966782956831620681 77994469517793089985367639164700559374838451434499639182601481836281970728198 3488419448645109504574087560531230077847623581104083201510730761102134677039 47644912502939530382359701638589880653790537994592361529115457060242217249769 37284250659358192310948175616937262349477083080106127936244343020712085663572 True 47071900709111152139914238631637554326072966449467556989269977430361898640126 False 448407064459350740706837809466434936436725565656180569517784122509890733439,
     Ed_double 88102813685771979771643853815756619908596186691363623962231961679626993825343 19604428094913421043695489765669947211438343079655122016465175390749146808941 34331497719412535683478874726684430337521601510997011218262200945636278706578 12005270449700641379206704442516989056390293483836349456243953729336209176347 60356418534258432689715339171662988768867264116944045338122065959280907707256 15341331796527481870781669146433404149829778493902535966030710591766405501494 62020773270956751335406005919615718282195399485273951295487823273922414521133 1 53771315966359444088164979089072189571074585180366612743969760733990715118767 1 16141687387880132514068786843488823486526529975638266225420353395087229188939 51374989975681168649272189396038456273500400051367613109295671102719039749130 True 8645840491249603882129304641598695846736528144143152733764975866269043211437 True 23857422704319190779445127161908745359275330776165463616090110791673045035580]
    (21100643038311570825460518721661591154866501983810839492487611895868151017842, 6965955738465159294542530618170607979179371982733204655515325933591485603364, 5708990770823839524233143877797980545552871324)
    = Some (16141687387880132514068786843488823486526529975638266225420353395087229188939, 51374989975681168649272189396038456273500400051367613109295671102719039749130, 91343852333181432387730302044767688728845941214)"
  by (simp only: ed_run_simps)

lemma ed_order_run_23: "ed_run
    [Ed_double 67331214757262021092156253533413650407990597737050772591700468923268320064993 2250188881159595206120023135787622696402545273492789774356958262675800187836 73821675978162594125039239831596249545074524013085673414887931176661490922400 22794213424994038737726542177000163780227972690878380705248150063261229070250 90691846421770716237656326397689650078833982582977757807547698249380267231974 7161793462792707529506306595869189122346414980253314492131881748695915976852 6490461220900573032882986298182599137083926276034900823187462253393170857407 0 109301628016415622390687998710505308716186058389605663216270121754519958782493 1 18274922276918964952578507571894065478826777477480902085797603658111838472277 53383320646283222191225385821786623071157441667112969733967699327836746093139 True 1024359048485752365634647717280890994527610390148232800658882792715129737629 False 50391040476024910122069416400900428943434175192382812665726799223428973906783,
     Ed_add_base 32149930483905031022927389890263935347196935728914761104608192727643219457751 8425239082569999146869069999516710596818973092552554549032040719543019758924 70578632529241706440400058539723026473527843977060928572235971013628471069100 6974292540052359558597729517570084600375070711498648899595501644161710459008 45213456708074488983170926468964881379742140688579635467221612994284658570799 1 108392831077563052002091201390524609615748200478553741673801377538359612538386 14277116349712558602139796006568889779362048826935798786553512127424704722994 111866806302924322344923550945886190564410927571573143410979334293757308488530 23738419264413822861540790982292343160773707889248837201389055316521419904668 4421209796543816737945832095169827929321829883655335141629864975900701071152 18881394321546789232653723012706754561547162527590205182188611750345511727587 False 2694855439782390405713396832851194671194967654806116318330139949531824438667 True 7372637546902646773761422122160127344612193748057539402722343831140774044083,
     Ed_double 53124339186619936306365917742458360446705705306715146114990817951134635531596 168812016380438493731452451592762977675333278406142748854550832828812434946 3024450759747220498370554524040615393170317844637596596510663845511850584887 3078854988056025012549716954974998903459061883099427530525871356973235965709 71616435091411134831701325519650753100347708925147799313958748472098693184118 720935308246661239490648193352568305548811849692886339390465859371590392097 65692200810443479615575621790270162799734597203563014520977429902290344693189 1 50099888426872715807995363218417745053535387462077549518480154105622784946711 1 37233243637644635886484444231942479829511118969561751824492630132131652594808 35716134568041981073915865194045950335392175990310485314945566560269182124760 False 21123495862099618987012993144392397513161510502075856412312614548475543859662 True 15453338554335499379564013966387932422282584533157130639351367776256778944236,
     Ed_double 107331365397969764891955278053431004784240552426116207907649795612644354185348 11972445103213826948008555942042593206528176728908679208927621081821337397142 80548124159237889259783727267529652013270201568887052062933116638942643494646 11016661646617767831708059503031106953587321359825574687796490694714670334873 99261577053206205769819538893844113272569820145267151087693576402771627693018 11484614786087188136823576395402168627772753930649295416539326387765856927519 89008847998584319791399434222786555082299633808411408194740905034211418949196 1 26783241238731875632171550785901352770970350857229155844716678973701710690704 1 24096867884023311703676343571826367693095074372676533961657325893634564663022 48840458543553667040747453853382823868399279356356279314183331141507991866416 False 18523151839286319458179252563620519976046692308569951507916398960473005129762 False 11297022033183241448322769636578488218436085404557693082750595664274766600815,
     Ed_add_base 91725783812567671794343979318445449160071313522870488721455436413809613194678 10163924709114336699659688321541170121525072683227638626942374921024208467113 87209496235755685930406735984850977640673767366594332082670736296497052950648 19898097449843801508402079986289942269219044062964194674187192662788422467648 28582593001560509493164249023836930212596217299046231956786847711416076689251 1 102940171500651576114577102068277013041646659592574819814953085852842825791786 16012997978380932681422874099333177811156961112501797138436297771388794777967 30201043976408765318854774253714458632487734286248270173488953259231455905456 22681106388346793800094490390622084912157843705234218930495974052781410729526 7101013764181857221469411635023371419982929742177865615485145664565034020814 25100303233440515294907358208048928369648285879095887028887101799012100541157 False 5348170477071706697587423332931440323485683591539361650827367800853506029250 True 6195861533051754627784639872649911054284864216104998842148453572427700863549,
     Ed_double 44416205975368794750482955720310376090836935280991076875313038234663547579122 435473587282420079839728503817941356102793417735423141746999127712957957613 56004828344740000215492781125330106871314244583195966908660809092056429072603 5441004014699363573950754224850175767258886471098046526411140081891433945627 11340547411407874696421214105492702444993738336142087238842942400331824087094 1539289945624014452655882920375762135538327113115293581077714622647233070248 11588622369371205465009825405019730780477309302204890033347770857392881493481 0 104203466867944989958561159603668177072792675363435674006109813150520248146419 1 53408905309115804121594073890693190338668643613776928652792734171959268815793 26483783170820254269247772943573845581745577449426428630935316615510250579427 True 5345232466790867829601947594481904486075455514042991288985687648444355126752 False 23833251825367714268900247540578770345950989621748657576269152817134858954606,
     Ed_double 101690178419922182091548818276041571350573190658768601599630318866560559876605 24634767237612140258000582436953852666744994565099377505367363854323556289978 47456706994410422948641199519857843828940889677814998393353358139773116868791 6057328921680650110736915585553725949075796492236443720262953491369419471181 75380412621216327730857879510734400218356269295638482181713775362702808637699 12215600192674077249191776463313850147003686868015220742419819894333216336344 61558617811804436280663366252504180331637683684686960833180623281125686632084 1 54233471425511759142907618756183727521632300980953603206276960726787443007816 1 11204901660007146097635782991627139458299335402172885422977940875802867618905 36942444326890742571743156249884644698204962760366454599975305440929898478453 False 5956868586191338253312465517475455653603784679008744491817686927229886306739 False 17302710504555925686344918830447751800041130184681833387797658926959237524674,
     Ed_double 32973000164973606617293386093639313942701138770863484062557239612303129421839 1084269418035252867234028511019160790258982730800831582032613131581919073557 99997197083219665047349742530145954163363501841783403558770366821315996683953 11786160883999382292574297370732168841417519447810195235971209196791386406772 18920133709436333242573724993407444886456051807173885406935680569654249723905 3574825003068523872658903681886810028047156373481080571909271070626045711470 67024196918246058430056356436506640220662363070919919496213127209012867262114 0 48767892319070136993514628572181267632607621594720644543244456798900262377786 1 51048747630529511839803579679101694524274710854628509194748325267846176738410 34785133162986051122207142014404093044404547312893108922996096204964038334053 False 29548662055886053026472365323669171800965389873103590166058114910423527110285 False 14650375855299129138096392834465936698634969427003842784845360420470620033717]
    (16141687387880132514068786843488823486526529975638266225420353395087229188939, 51374989975681168649272189396038456273500400051367613109295671102719039749130, 91343852333181432387730302044767688728845941214)
    = Some (51048747630529511839803579679101694524274710854628509194748325267846176738410, 34785133162986051122207142014404093044404547312893108922996096204964038334053, 5846006549323611672814739330865132078646140237736)"
  by (simp only: ed_run_simps)

lemma ed_order_run_24: "ed_run
    [Ed_double 86088779413773796889748015026819564227332473382894331004325422294049925142970 22505636195099135762606383239455327517423199867170741858714850759906294698185 85163488867951095835432557677673539431266727917651591187845022698241042874881 10449811357032884027862515032703055797296632606462513440256581839405342142236 70646077247605296727530010388766242844497349172416534981999517460081012265158 15335568222560170026556663047415559292310076322600301729504837509980711874014 114866798691493494369255527659541883057204239200397824222977184412104247371809 1 925290545822701054315457349146024796065745465242739816480399595808882268091 1 38447436415520228730318655948007036615162944990665611450841878511050912814562 43226023682789180894875564242548572743382562615766922785903075213201218164758 False 38140204292318019753978984376982807006475163540186911273115032124727786809879 True 345417647359482405266093190992005225904211478603815811199168734469186752361,
     Ed_add_base 95459041942934969111312141023363046898675522258238640990001060850295410572856 14352705853969687293794147141896311784705010561402774638891853663293637236930 16282747359936196682134791068234946745895808119491011393364212401481888726114 20707954078981618095824570316504302428756196682835357919881245747794338297755 99509341877379998741436193940452961107374176546149552646093371606431240913785 1 19155837569895448384769079288092223121766750761033172896627092465885544321118 21020476004322312335727655418691952837123161362154790088920642818165826962691 49439461651605072783858302462862207530097441489554456068748123680997775622046 22308249407264497847233711668413144204898268662025227570578795248281378715871 36253365327508524168327475278594622190197624296806891398655908051179136010934 38182556675339376168532434969117332378792094434931356290158978755564755239789 False 5097968198548187994240642058824007356123206899860145127390904715294325662154 True 32813304526975545039341769044178272893451680705789400447064253429152242122065,
     Ed_double 51064052843125470921033828619487781656279303791714422391943320898719195328182 11350572446068596042451683649495585725248958535640750230096256127081173559763 7404495493982704100686256597141883809986239706503216847473424958435897983057 12590736067275873865054273239658347333376548734261879730977261613562789575868 57445988270057789208681860734985165586628564688478146377716931625599730736116 11954583300180044788302781757719778853314342007906287102744809639111654124345 72132531888173428603223412986342010006976920580429358494987688067629832294773 1 43659557349142766820347572022345897846293064085211205544469895940283297345127 1 36470187828176730787690773519897088750218511127693597254697914208494429909451 14289315859350520889735269757835766235125379915083913646700927110445618995880 True 22719056230966111025339396183973740581769618742159180313622304159628944384829 True 5387805068122710217430189391750833502060396528488326884094438964524819431514,
     Ed_double 98923528653994050806745887731503366352647372293629430621461622423300093026389 11486748438371283986821056242219563599923287135234130111402867289254704392794 39515167233693945710807668178081421782457880774415315732714090771100997611976 1763372170527207093336157077570717864659341340108540679587460030416300009388 75153389713956769261374774038561744326790437166897541535732893018987605368460 4500601351605224939888034774630560203361682893187840549795718841881386263790 56383727817016090327632765455265963283080493146426449150710052355714034225485 1 59408361420300105095938219553421944570189491519214114888747531652199095414415 1 36242719547386367832092709090365289091310188186370592785764569521386442689665 22801451611581524946006030768697689912587225703047036705318993451432822540772 True 17648007284160177897200028307380478723572395751311187587957645409777976083572 True 11698526964757234946113235076477874819735355342692144182787664586517819699117,
     Ed_add_base 29214751080763353236502738211171482345269429079998274469532581026315345789178 7136814107725170772951591171724971075342539715553146642616743352112382241449 69804510706794118680032590515570862443992491605315339270051298359929809782268 6337563330784100720001876044037582131264388222055069331778044954712544848958 45987578530522076743538394493117045409277493060325224769406285647983319857631 1 62714085648581550048489067688728581466294107886741220816049505080937111264986 17472943821852308714924999604296545230556653278965425629832062476449345662271 56849956919067670790984986322364171414956557400272654730112968523169353793298 13850679252549660853421409604834682946653397899392536257370933840155203518724 17977687200378766520469855506185426433244603964387150153831268803065788620999 23829798240367299117482332870122674492589616894605558674963680955362637185181 True 10837732239982869726538101853080989111717557847149839988969434222172317099002 True 9464158779442953250905918624448399382303499203967323693014016258196958952618,
     Ed_double 17790775981077325468247676941864344710840285653934078234328696053292745487321 2791185815917604988541320883602715754813843515577570259717997307137892981660 88502654117095630925839857568450240755148042103601507806766473686050856562977 4904128493724500551395843812197454948862571516787111072675463466501277604708 4862301079558997064086717402577551662697642745243713219444740264592916756749 3699774843300764326567768666202463227053725040548897810919869420189248834715 70711878136018305457592180626585896044307756449667429572437777632758111075656 0 45080211101297889965978804382102011808962228215973134467019806375155018564244 1 48043343536172139435196906553186576664235951167462051256955606494226539371365 28074312453822650681200990644777641663801131291702889797533929640980940669016 False 29339094542236169459830608873240646828473503830346186264568250465916719412579 False 10929899790893998193346541524108237780587768436335632212076871777522890890847,
     Ed_add_base 21140786814321241383291108648355622375140692392448442120251399926119409632034 11648324567289751288762814982758002356752092884874738631312557298985239780247 78719760836132931666982443622085803333345588493011178350366578689991885248744 4586076223205853454271745769282759194942667050052575556011574628720332665344 37072328401183263756588541386602104519924396172629385689091005317921244391155 1 96170363582698389330716761481172304218070974403457885401547646069089620108242 22881363401327539528588385630904598538349642769215593115749980125638042592055 46959630351453097828701228550662764866815839688170893018298684836169530881432 17499942978912110533703720392660906120042942353270174548679692093124490414121 6718121287919759270692202190471620706227207625049064646828695707523574943721 10581737216253995200824244887115323533449877297429941709184113590567564488270 True 4567228249671698771806720190579494987434135217486003066598692936597634115373 False 3387879428723254638305505556158184717515077904579160142987286214813690047741,
     Ed_double 43891544663731997256685676416336045597009912159845006880491352533391203407749 389777522251111009822888386006497769348456152962559447600518596421871908254 2517518916948905150322640438263457993197691264569594252999045457490150969922 967019105116633284562069247901027469885511529034882454306163877638326935461 49644962369144870867653054479405317567891934148484406332289825133032841783022 613939989544457013164811459179243994683813172496892963094687863019827566376 74418063490533103317207949030615320249457763770365151411965276932012077202071 1 41374025746783092106363035978072587603812220895275412627492307075901052437829 1 21272228237420306519524510949909448175283051436036579507101838866096980217099 13699638219252845177998177070027743899677877202898228156131160510746757635314 True 13671383269655103951799330941526470167875830329569478260043680734657245082882 True 4895059655097024409920882972438759544419066020525425326194905829590354301807]
    (51048747630529511839803579679101694524274710854628509194748325267846176738410, 34785133162986051122207142014404093044404547312893108922996096204964038334053, 5846006549323611672814739330865132078646140237736)
    = Some (21272228237420306519524510949909448175283051436036579507101838866096980217099, 13699638219252845177998177070027743899677877202898228156131160510746757635314, 187072209578355573530071658587684226516676487607574)"
  by (simp only: ed_run_simps)

lemma ed_order_run_25: "ed_run
    [Ed_add_base 67141324846541292187403922543596289983297777625585479216875512612496576543508 2516768052891445791438261894752217563527246385570189773183002794526950191661 52715388519236229477078553747026122513823083127559906597964588836509461982300 14564984556992682881026508442152625325453165617698404162983511175228959501314 63076700718079965946492431261661785339446901538080657441492995171403667657599 1 101398499521005395655560500119156447137108797016038051946396794335953026298824 10296854242536945054204768009187847867603111551023781993782332587736865289778 81939970797459518235605046641816421945489633402913837401228485389827954782642 8256129762401029430049067036218242407315251060515419895022080797994311474502 31422791588605148127480284556997324743049164154876866685716933492750258541693 36833338935696003000431725558863866260308351327193223244017775142391106574013 True 14305508069358519283883332314563556359097856897165151770637385235427940217090 True 20064630596074979228137425510475851104490288031739745049352312436651609563802,
     Ed_double 32474559680399340759698533707119631074738916946641593259572462464787597669807 8527282284347182472022232182235144565093603474140313164211269619327255195329 62060421414435641565670332216148548409986399426269177228922439088083597743667 11716645464193235501310140139832316375934390997537940859758365935425316599799 96772874772741189832462460558543342513149618388763204026503698769650600506795 9995556177561694209450342124928607013919859827894608504261777662631199139243 29585861734036300805971798509028917335247482479627583969349976623296000073860 0 86206227503279894617599186499658990518022502186012980070107607384617129566040 1 50547723143105343873705362138856521156801824478478595786187059310424494155640 48727162311385565690249055687868181294657450924389329331668217083584726297269 False 12915372351709057544922024736059344731109056029654449196243846183248305404345 False 36276958706526488625098947814724807433599219822075476729335676804354769174007,
     Ed_add_base 13176992376291293044936196680669288786484325329995337552781599009191586908396 21271290001660243165007985955231264407923231314582390939200485459660092504718 61627190151854068507635562544914172458863990330223298478921149537562313890338 2858488284330893334663721868302775870836092503425013846188517233633334151587 54164899085462126915935422463773735394405994335417265560536434470350815749561 1 93992396715399407583923803274702454775430773000277631537157907006712114671676 26578553599190349653807470256080522447577533598557906906612503331677935119519 49918077955379711571221771855401790733355816608055844043502364946200171708296 26087933738884452047385706200570407060969689256160663701253579322092760093488 45072847051770582852677904397233237900608742669196365493300256298962420134960 3313965178810964140045143880238958989160085499802132147086326439306858510190 False 23988796939763050024715447686739545309379066637620523702601399534849805059218 False 1550197346514271704815846496319128751528631804647426791070809112828512765703,
     Ed_double 105610810238894952923683042643970715674714341465494314355947816123834301262570 17544907901165971110147986451271310681455187188843510698096809366395044043735 82259063546608585501716416712703218664753152649251996293017976910609121955346 94845557055829597933686112138670214751136556890335183807023754782595370973 11540035420438812273226975633570189150581655835747769167596982326324484728636 1289983163990643962115096036717838022261860729195817725132714991140600892218 92440342545029828001604359077420410843308795849398245976527744794687950332674 1 23351746692286367421966625931267497009961188816242318062929839213225179307226 1 33164609487726988682635751979433197387281571469612430005465509922041589747683 46058148429821750338458264942922861838899167103652096408274888061081207097702 False 26476315278622969057337140459437940149594992894287471915231027767188400895715 False 9288529314335162982367608713563940022497117251650068041107745806372305050032,
     Ed_double 81592316745141219102638521644801248157014714971298126672547880890692451171161 9498846853166288403235491441033300542244522008700885426104429747279749944536 49885822011847214670175837840797114141582551998388126718797026289556631039070 18320362390523700326903129096958448308606971740566658577686396543350439739983 75779136463510712264458211256513308953052050395329648621086577720385489670396 13191751841286739111333938590769762493713756273832771654148833264368893462215 84085594504022190991108301204683773837837821692730564085706729406777309507807 1 31706494733294004432462683804004134015432162972909999953750854601135820132093 1 37883734501405162496687231761161735944733767219730337919411773834546124344961 28489712405073648492736526177834487860465506473193375274838680684822891367565 True 27510310579633359476265585144001365433926763237239287301882188605545705402257 False 7801128058698331880309772680446133955921790489945395424212572942925911048693,
     Ed_add_base 3100368670046198745886059515801263150264560036127091500626245930576863382619 9320988228851953468074448865627620893774497553985016545272199572305041912477 39890332687088474235092959711751902961728556234385591098902999554666397120480 672563758660073997192049614167932991702335340116005356992458898024110300742 75901756550227721188478025296936004891541428431254972940554584453246732519419 1 32053297340702652496034962570383456755081990284320671867326163054639436605468 18871734337423601738214937814188786233822302142864467011264908021206310087939 62412868911454125745387760509081659730000636960204364231925766080160121515624 16340155206250638828394026039031148005194202911621509165937427701186331277001 52122569193539170509907653839149966985910306175727007350525768166852472709154 49642474924334789352151903836107790837956900622954848004851656057486785850165 False 17956206156491120716778317531150255361732114467428274566769991105929595608847 True 32540660342825473909200390531840768823111856560670136165880443878756703457269,
     Ed_double 89235375964393015486373923270106273351973053776859183622432712833342703443706 23462416450291929427420366221421233691258029439813713069765685491804245586745 39320724389995296333659159014330805576302610393299211642555260394415722157059 21282760617285906051917380447463798826986928688563309128818212598045147426567 69272559751115693632511094303555051075416824846437326285904738259352333625424 22346028569180566153861281484397083940366159850610381485300568070316831364657 65877437662918476270856220752912440077599541282080592059580131568986148353251 1 49914651574397719152714764255775467775670443383559971979877452438926981286649 1 32520233469089850074396062145445549845446230779983103410803641664622336703620 13236398305289721393420813698022438044469856831616409749656312681143025679211 False 18501692708495572114955300593350788128632562171055695291252176525041526350414 False 5705832012015937883092057504823458133627867337540874342228830541784886370263,
     Ed_add_base 39390557329843248254252425434995777893453537536648126435905316932815450940064 3717445345473273072132720811526872550112045753680758618482452180949918437022 1168829974140480072396570718540965371846760078506016090785091562474269321212 8545003550522826944162447596824230514929702774124342445959769602026795492618 114623259263175715351174414290146942481423224587134547948672492445438860318687 1 25413764246698126655646902245825885324969618999153270530952779314781864262598 14735598110779752355978415939370887930862528346298616576799064709015889362988 3305160715938889280419859292849055024690798452420492483513596678106584584388 9538829977913636170617965166423302819118798382003242811909609518945021958094 37627931935021761482704569153252389389089808816308089192902312385114312996502 42795954838054511369627665874370894386069809627892147428379503057845542347625 False 379824347243901617047990504669614461767106628936012019176863499983848901036 True 42363963368549527867945486124241692641701011971895261869495167032295437516431]
    (21272228237420306519524510949909448175283051436036579507101838866096980217099, 13699638219252845177998177070027743899677877202898228156131160510746757635314, 187072209578355573530071658587684226516676487607574)
    = Some (37627931935021761482704569153252389389089808816308089192902312385114312996502, 42795954838054511369627665874370894386069809627892147428379503057845542347625, 2993155353253689176481146537402947624266823801721211)"
  by (simp only: ed_run_simps)

lemma ed_order_run_26: "ed_run
    [Ed_double 74932038060254246593940197741819271021690815077822339772940972638957561856092 12227616506727148647694597692706840740821336571813631478626742630804546997844 43247108009900115749635998596296834292778024035722780025743188143854777588547 15817088736927010762755607212061561388783404250922261604385673641237239573411 84070440699228578793863562030673164126638114263709894875563678200705909651578 13907023237487481210217611251980192573879445007195944763348628856426562741214 84107159186962064579266785863165471124357193623541004292259799512810345372353 1 31684930050354130844304199145522436728912791042099559747197784495102784267547 1 9372910703001367764504881945900723668793127580713374801032126535556155951588 47458370499355176847250307961660708075136169068240206536411520530882530713620 False 6808141192848108873342148178921556512087240443776109862374568946358675873496 True 12986337490586171353833588931451368598466556813046015844602868740140366066024,
     Ed_add_base 55321481628395854072352653576205734495387732317305930106525541752930125103988 3841566999354717909900332953882071787488149836873312907500549082139725567014 14599994121075923719631341421862537281715157383611175165341775266532282414318 12000902982316525591867627448121982982027819365415541172834686086502113604213 101192095116240271703939643586825370571554827282029388874115808741380847225581 1 104900199430488473324547392362651755395507417188790379577725378106686883016022 9943036458466561906372711614537482815496830851603818195348427956320615145101 9168097205677628160132821223698375780177944711919446870478246214780716221838 20206622623462704190306119474426546397804441182833704659236773832065102260881 42486912344109881166137482647792600304169956637962093098215458926868988697928 16586477326572747629164652926135993329397808048155564689111664503700123034858 False 5357090234163994446217006183086948839458518136338867354978900428247556980245 False 14495121405349074144722418631882879827684037451845912304545311781684856301170,
     Ed_double 7244532485130708595416797783876880710674765254653577218766169112098791024292 15589473619708528008321345283244658190067801436033933093361699050151430902854 28774572506300941913249072912871650751808238893125468121703364089323953415154 2375906954585391772861437510158705318943553690948851805292274757761025805245 41750786390133135300637372152973793740929395929411661832909272954853764606416 6085978868792677031331412759930494905547284387687482580682753862757837271296 21530040021170233317832275128994770041133473638471890902937194977225162390862 0 94262049216145962105738709879693137812136511027168673136520389030687967249038 1 49591747201784275946112184045747094430858561845254385591559863304493539355595 14738411143204505100293040353176933809879947010122064958650536609829833027238 False 9220943408196851717065311799326627898807359989808807676717782321147308343921 False 11997994385447340473965557937228206118389633799032808054563166679618065458651,
     Ed_add_base 38936589967839919529706294590635278121296631687973571405458674873083921953524 6312206337962945071900870930023566959163723758277776429346988714832269713107 113693089831889903433001217174585864566584480502345349122122492877080019252942 8446524296023907108068014414645444568756918720560251196855063977689915337413 2098999405426291990569767834102043286685504163295214917335091130833110386957 1 114208968573573132519697495792364916245889439595568766167468856239885213027386 21760233838961847493454982622802597835315277499972889758692172368544631571305 99508374422501718590431060071025078385238775357812585074331943691300758045538 12367667235130334807657467451574505106175455411269562705290356866533689636734 25642617154688694782683584096778241258047849052791524465859825264430943054453 11944319465707052963627734564822561830341555968206873257523078761283489919070 True 25177785416045880368198551799349234328043775682589756661003129951603601022178 False 216518413493321324107150313735201351390889651184360994762159056305088214074,
     Ed_double 41431943895726259265024093806495648405305577651910475648536262938467369782107 5678659214743911676583283304541072628275224539290919979827347518301691931499 25369227182291795480980102573651431464709381693644603816471793032931721323114 1232094251330697549199022509343266611331084455364370496426031211068026756257 92180338338583171057466650749072458102060195212782069790918693205561402356804 2645116892266212627353222993218327965436701698578471710111117657040654199197 99729372523881731639526993775843690912673788707374692207393114102377481180905 1 16062716713434463784043991232844216940596195958265871832064469905535648458995 1 49626519104615782636461673506839644991766269466049547832608512919430059762862 5497443879606017388126645566956597823844182433267009051391897920469032444321 False 42742312047797308403346046341663488905575209255040469447903598215601468671799 False 762607223582748651533034498543902826776182719369999694281584706047390365763,
     Ed_double 99207261235956016136399723703393817958986057790428076807183955624591743252056 21269081632971469467752594977396993512526417737134671370772325793114721320206 42098670261951958269394030958961474536723483013509530679567090368599924997591 261001329265920898459073193276755696673978792123133113774850282703924322025 51902285476971797838738312994409095622302267005995631446787815137392157774212 2356110901140041210731167357761154727046538020943078076283384888365845758505 58683498263312137556565292264255564431007409888722017911840718751921311385433 1 57108590974004057867005692744432343422262574776918546127616865255991818254467 1 31480752397025564694247816226876651691785264586090852770071192750515267479274 55116015393685266842364943097694836093668791922548169601515429150914097604109 False 15954463649346170133842521483938460127567947173599966707281651861905118919341 False 27183186692347114445223916607315980273481695085298082795407627734216238073772,
     Ed_double 80796134765152096238001933861393688061118332898806483380546265559995057379234 8558769238990897589928012322571521932518284418585192115134747263467922954629 88680716500136309397498663777422001430709006269072805198053385289668177935161 26234738252723146138629450359410560359728497055069256871177351307979799743640 85707460369924248747048005927121521917613626198686622666571620227621878976580 14984561079670791338547082870091770032556632231731049705656768948200619134507 7884581734984213159496729916028313369590673370266321817507119729673120555927 0 107907507502331982264074255092659594483679311295374242221950464278240009083973 1 29707555633416399197301393273435295307406394544358281180759695095383496277064 44506112060121558473101940915810747367683008126742387616070465765470525891639 False 2022864014986411691926205395000602656649469068010062883360904321274374086616 False 41475576204384472569539055515068481503594373817479745129374962062563579030124,
     Ed_add_base 41440895551313894169692890085905933821225931558593600298168394680911692414524 11418463979377203560532468375727733192493720751625290779695559618750292022614 10438396132132756103521956041109645718172944128562567793725954487593591265232 8989783938764900282133011537192695585328455837510893963286790937762214061808 105353693105183439320049028967578262135097040537077996245731629520319538374667 1 12856532840331496823945347418038052585019748768498315600665934708615439554990 17691590190000959207622014994488435773116841339275753653966244755393049910436 87211026071010633853237918649264003423011366570104720657557373149227621349644 21679628139790578615040268410792843616206136119080905460523731960088595496238 28011345793104222541411892069606517383511935464533680311720643938952373222920 52704116657848168108849387445173680171518028498198701666310674034085738511176 False 2525159754077076546194341558227181228008113981055955096141095865956810504065 False 47952959207521580869993181058778046585022534418122925163559443061087062639326]
    (37627931935021761482704569153252389389089808816308089192902312385114312996502, 42795954838054511369627665874370894386069809627892147428379503057845542347625, 2993155353253689176481146537402947624266823801721211)
    = Some (28011345793104222541411892069606517383511935464533680311720643938952373222920, 52704116657848168108849387445173680171518028498198701666310674034085738511176, 95780971304118053647396689196894323976538361655078777)"
  by (simp only: ed_run_simps)

lemma ed_order_run_27: "ed_run
    [Ed_double 6762267790343196995792283594829600512764698240105353452272244176015832233320 6776244373074097421841250724591156617346272079451457921372942350124320130460 45563931553210758918108109359445014652852878428208293299890982692717541025790 23988891909456061347830197578859094699254003983944690922550129761313915623557 58818183447466627298789080485736662073208162207413069874037758487949912245580 12749689949866795731071035224884904439646431794383571598579383942862693079330 38801663762867561922315825764615414140088180188102939847618738516701708792470 0 76990425474448633501255159244072493713181804477537624191838845491211420847430 1 49353785906577151898022427047153101020095498874332043076739115814840327628444 52320361446721183978012038413085851240738767850764734026973844171436026511285 False 16538340561821476395356714403201783064906003496516398421503452189264547775240 False 34787928219381757867473965513459902964848724337004775805319845834021348766780,
     Ed_add_base 48306637800693263232376955757243521041185763555908502330950207207879013468430 22300382818933066563480633556406324076985228697994719821351654457132841179195 110217730433140206272807023894273417441265768953523488199929633376392476140278 10479171139018427464729474973907406620884902225349565849996030013022704916629 5574358804175989150763961114414490412004215712117075839527950631520653499621 1 62929749426696444308694797462199481199251157517036173702738902458945820834408 26569933199172054738813061444627988128342886017332619865683739461140691066849 15726176570263687688032900539494047341508585256924522727027143627804903425294 27369390625550643975752427606921279758697734760608967330851058738552407338853 51290802721813768416660444149951597393996215275993725630667521719902509409495 35381548807883153399885066021202252524612354858435607086589095409881686197224 True 48821606945065874869795745134538148352368502920736095809473308371287504056326 False 1703306757842357003119090046673992763513173602986868278162092099756186019345,
     Ed_double 86633612463792210029210827068433459452689871452021929716888277740926851947617 22719569714786791937978575877245104546738645119112606626910009303984321541496 107709172164277208185610857110039913705092283529533079140820772408172818629040 10811222116209853446861059918691662209126989727615808106881790360506286409832 37569352971385655659369408159440583109209787004771441644932840909549931985508 15672469957580858519462122824518435756197603141063632013919822738200449046114 21075559700484998156400030041606454252402412077511149423932494667245966681423 0 94716529536831197267170954967081453600867572588129414615525089340667162958477 1 14910951248545249454087686907326638166962553328327524545672823441378494468261 5421491214895433453294363164902074669642310507112482223999524701382391742533 True 2713973340490185812612828269774149087774987338293338559430368427923467096231 False 4434714289824105785505693275587191859921913490585768299242355797618222606808,
     Ed_add_base 97327793951662172153791789404225094599970125406373563098007518974987976624345 698144335525730148988677216702180958951356047097488852321415646271021868816 62384262869075384111566938577358220840365126692709286300245946247692308762462 21113342924229626174487591711236410003622368038438187892215041725609780457191 53407826368240811312004046431329687012904857972931277739211637760220820877437 1 760897342514607713340543806646166040684914132470616938885169281406579433114 6671948484620819844559373441921527192857677113868135679509241529286952497744 14992862738230110446069149068066655003523510323049748952628559808887549045128 4114649945087985399807418530372503959153170002808169208149799244814372513213 22099117863755106538735530764060004613157866850517076057667690246164956557830 785495364037636087310003685321122387638403543618727422741813996180127394678 False 11906143045417011575056532658816109037676899099256783355362513879151776023312 False 362301088890453126932628594610913213321891675686835265938571080003272758871,
     Ed_double 47151902879842612360865739335142524758311477078480615225109429496191755879564 4217654362857400185274346092013145018709003339518987673759056524212439588732 100022248843377512769198315976131613457256259071191186676533482706806269728644 5328541621354367442733206713242161528558543457132035752219784919808178480 47683007919181625644068489815204757923953804089519228970732068548261513273106 149913130902441273661571675724265020778319977830234066976071253965794805533 52870345963534900408332576640989088698944781992710571451424053210614513849080 0 62921743273781295015238408367698819154325202672929992588033530797298615790820 1 31026703742185374618485082949821731230709165413863141516654419053735671792272 37241772735327170643246908160350648444781752334006528059498772819509655010622 False 14166706652951522324627268986057595311627212218012327523628269777135680341926 False 20237282862304427772089641141821776660990316476811338843350189428470183894884,
     Ed_double 35705056112590158957021576893059303192202280518000989421029988649733112463464 8313662456960882577913817079965104719597144293985927829489847033882004383740 113866102638391384620733312730604632992745592791674447791482149698543719042950 11977930837979796997978043207999996257414012859677353120422630994712215473883 28780632981838032461475176809828828773888222696852217053910868276111316797142 9979001649453047477447999182589074662303962969237429613659222643032772145529 78161046525801225663711735837545329800543312273673458370452161048810606579486 0 37631042711514969759859249171142578052726672391967105669005422959102523060414 1 39118270552832779624660189756944654802583303827645786142883129881328360291615 56369328790041725851357775274451092705729152700639970495966246858166523159832 False 26405300956462037394222459467174505568778850529874003784259022617808183939847 False 18319356989664557595999817457461201425322347874040214872232732204993728701333,
     Ed_double 81441305927396223162063800969629166199405412766645469611735701272597893215271 13215402719855888320431654341854533606985961249227784862416336623758503819873 25040028572589654605638714762985566382690655619377486813170333518259366620060 27441436191098769681391713196379049164955535802871160581568237686587306685018 58862751677041054172665439954084273162519643155115690960534880942928110209820 19043361848071849553001404165108593732227721201169553707015663283437347947070 59390811882509626867145898802044308036555227518372581240892216253574603044687 1 56401277354806568556425086206643599816714757147267982798565367754338526595213 1 27343817540998960862162013541640585396187784652925542086983099250793879578768 43649302063445602409811987528767732391982280180390537625697051690931684796309 False 14024891807581105873208795943351806773956867669979964362580825739483239526412 False 21261179483328121455348975345629708531327233844015290171494974135182185527907,
     Ed_add_base 88257042372455507432438725434760650988834066685768214740731317782574118978342 10307600107021521643723108220087103488869933555214673035950592552778446592265 23978471493084765722983126927184521159842913366570062674876841495348745906056 19145622493132594697940249384709949583490122679828385045578311304355643846264 91813617744231429700587858081503386693427071299070501364580742512564383733843 1 88042059265237216209726282117459097482081915645198589174742469214093763788068 16634271231659338332159655337484800382934233108428250479393079621209146937435 44101997965491770001705915888227938441401560552266102376790495149773247687906 21028408686031464470567427185933022673587127547079349444665456596053659063815 30554204909796683808099133764424976088249324170489316970666310281790807539802 10117919832648649270147282553060447803121663747516745210900521371290313102025 False 6327229573704955943791896039774846850497561007055679847857709469855978977327 True 8022679528457849478028535202161163603535748597296072407579118391665770468390]
    (28011345793104222541411892069606517383511935464533680311720643938952373222920, 52704116657848168108849387445173680171518028498198701666310674034085738511176, 95780971304118053647396689196894323976538361655078777)
    = Some (30554204909796683808099133764424976088249324170489316970666310281790807539802, 10117919832648649270147282553060447803121663747516745210900521371290313102025, 3064991081731777716716694054300618367249227572962520889)"
  by (simp only: ed_run_simps)

lemma ed_order_run_28: "ed_run
    [Ed_double 1807480649906010389636324347647881268521103597797931548070031644965411523702 8062376659915956986657945894113571572636009855732953463058108049115270977299 102704996276641009204039223464729541724882221575380413128961517044116518613231 884104453198806748042298357765964980132088164365857007630925016075590533653 52575176821600383565826532211170333728132352465503593040814800957683044828544 2669828291931490313030602312203055113942642046215680537517115269643743309897 100897515626734998814402899117081660456361117977582481580891485399151107089529 0 14894573610581196609168085891606247396908866688058082458566098608762022550371 1 10950113157765468567880379036581688966647656506851898087076985522071645199127 26371577427737249637332322679329188789882387014033670513732553243270610048620 True 9541577673633532739997983132776472504797696633839035037172793721722544854077 True 3392230020304261627246195407856028541675221853931604000643966973398221360381,
     Ed_add_base 24076990262107699021704277362660883688849491549393166199818578691238752311334 2493881567251610792011688766550772800219767421180381148122622369500316370947 19189788188874378452011150789156534435045826306965630828293136095567349910660 5223027578737549600373125565177512059525595477782403287924690366757678372802 96602301048441816971559834219531373418224158358674933211164447912345779729239 1 112029647742583630966534085011520806949558732318223799782067136811639929793656 7821844422698014548367177447160365479532031206627519870019879980166102985348 928753160087692620309581186379694265499458075617231385768875212796118639020 11977748753946706105976497676097632028177229024947385486679764815062364921433 36476630206220356812664536890580105726017369562043821218479578882572298256105 32463397277693549799477155252098896379156441205142596837932313448612820694820 True 6045134966574938946421054144537439795281815804150023319472689906448876184100 False 27083360336020872707966482484578782180476352501270001335980048695069472172520,
     Ed_double 103753380260294391352989750872653259549364812015066407356262961310489010521903 11490807014237326242629902635757259867619499877755679776433231882147649555989 102675837723082821854055348687549810081961913972618920023970682242544696556016 9101417633543576317372941053401232091944275848587470469769638883279584851408 78858432528553295579531985566001209359216553024173237347095172272725188912600 10226565092103301802162774857300070761473276694278195877563725777371756980750 114714546700104625924636582823584458385867086623193076707165304939968815674011 1 1077542537211569498934402185103449467402898042447487332292279067944313965889 1 23439499719140888596059716453684320736473547521337625074624875727317601235927 55487378001520788752909848249088949715837252676707524947615649479631097418743 True 23221375509061488991279553924538330317394220720571984209116300188897973587176 False 516356604918288954705504720410461840961600869105813350541605603908041110396,
     Ed_double 36786048089082627821406513023298412487727009944714815818376594466058369647639 4744798636093250161571271771062701603430184850111520966977181492798526453905 20095517688189486177213020206299035048031631356124590491389032170842375777771 26589459934292606905211221081587329228174323585181497502305746110923693393311 53835928234733639677677574777620906280898514939576362417612577815274599357181 11232169569174411386802738119847213426624469506662633711365369050700465578210 99101558836423053779377492191688530413574606077050338712470021712697135770030 1 16690530400893141644193492816999377439695378588590225326987562295215993869870 1 29101740107165328779289898146620948296435339898791707777757327352776143205406 33087688527030325700225304504556825421303992384298990272585372829606877606433 False 24906950280184639351669488960726584522521613348348014679006145211770833384041 False 4769333336095549872376017796238520209960208304513323436784261395924713358350,
     Ed_add_base 75470205398346502650367189971150825355061368009302259427025227713175975671534 8315847123951510443938881820573727412824680399443364255163242536637637658968 91331915285718576480219785786661585086282828825961261269009961178041384960712 16371770718739515478247823203994774411199510504665943329738785336965439153128 24460173951597618943351199222026322766987155839679302770447622829871744679187 1 50360155586807578576830999887754148487261635079644450178380602994336111391302 15959026217738056811652541727317933484944637864363323252692006425781295166138 108737884715872440038014197727326254771065962347122048880402849570641742263506 17033192717900179917876155757176200821679246905671146172006893367824442916557 35773991173264228330058040176377463597902356043074975501516802543889720080682 27321923990433253382170255787847336983739376902274204720564515684984515071800 False 28217015106897829056733192802828713165584475983239553240674169617918216751618 False 5771542925774876797148972152435618073395335574456958719868036442803255613303,
     Ed_double 17073353022284573727035613481348639421995960631340853492285491684806542747930 11052382359574474797518946872933782978205648895527449257689780435679328353753 106276616729271853945169469351836309704506031218655415905676174722030901435242 6446792138011120683494464668529003356179247456036252797860210105720224614071 14752505592053171748988183362558316697541987681658133974756556763457630482426 8441114363755387670289896675520299043517107220519165731711355877499571204263 89203263706987280218133855870487670282510070587314562413390683037224358687312 0 26588825530328915205437129138200237570759914078326001626066900970688770952588 1 30388176730912152420367414077002040141107926867141623309896608102819075344778 15742675219236997690172616893011859797038150913669579714319550839750172297309 False 23410274055479335961856582134485941137307914119693820224243477167386859706158 False 3614920911626749898730222302083899522968460113412896030976841573725128811740,
     Ed_double 46377451867719066625497257383754865399081266385850400157249042961018834987140 7974994588244758384181689488630810472164242465004877003538868193855201892528 72093560891619365968298246116795591077672696047857314628510322256624131687953 2140317397248500038506462325881855894436788810279366258006020572416729471436 56928843629612031713430397450527494676737365174228051677615348437049675250766 4131467010661333421316120934854868158196716920367974006092152348606776560082 25716109023900299342800988733040725678591429662006914471261279295605296700813 0 90075980213415896080769996275647182174678555003633649568196304712307832939087 1 47874622032957938312982104383318577006024427794041316055325789274471186837794 19056198757102973308842849740484068364756409390293038103369998072139031458508 False 10632410277651373716112645816771395568113775460873096818242542102819609899755 True 14824033260767450538615331140947958702104290100060443278694809283749732267773,
     Ed_add_base 100087669466556879728284543853547959946390151908149026726792759950643709623946 7878848364256122602891965678656736578554635897778780200569385009452991778947 67441959159792805151955683515840547187742863565668500827771802297342148881908 21712043416743580120347010014235541285374420854752372438372713452854829217522 48350130077523390271615301492847360665527121099972063211685781710570980757991 1 88381019703409054167762263926739748900035367873646871764208424170620290926348 21636905533507675935029199250892261716441861713986845260969921228715533377446 12368661310280681781031432582516331059832715681962504785035424632988794195302 13870677371562655261969914768522438449615655362230916764692481825881529189267 5860110492963201981856826760885980745013111881863117920430046883062743275455 40500563407256977558648635231407271141602471220772873576961693089472641954953 True 3413163499695549793852999707992455957699632649010804533993408813691569256301 True 16911410113177138416614349968331635342620184975104529423558417843689095737214]
    (30554204909796683808099133764424976088249324170489316970666310281790807539802, 10117919832648649270147282553060447803121663747516745210900521371290313102025, 3064991081731777716716694054300618367249227572962520889)
    = Some (5860110492963201981856826760885980745013111881863117920430046883062743275455, 40500563407256977558648635231407271141602471220772873576961693089472641954953, 98079714615416886934934209737619787751975282334800668469)"
  by (simp only: ed_run_simps)

lemma ed_order_run_29: "ed_run
    [Ed_double 24161024258206493558686906661216940052796351012593808299241937593499916763083 296573757464170685793972088926118654282176592503416398172144099209732479079 24633383158275641392622148544000792019114458835915407866996477609971371922059 14165869595317972389618205279120501191008876919056110968602169631893357036175 58639602509397739237752067075758726231694891309061938339170854495455507565785 2049689043155303127391002251847024607766321288816169023722853517830653101835 472358900069147833935241882783851966318107823321599567754540016471455158976 0 115319730337247047589635743125904055886951876842318964471703043991441674480924 1 44513467393311629882219681278549454448452645554949374393926954149795086478912 21564308064597749689501092161846402216840028171023694803145132256262125421042 False 181586951532371388716721173748653078880538031159528552060265912037336599779 False 21476339249929683525103275724635346695394252353370970155163503496989447915317,
     Ed_add_base 50558579522642495514596034715451468003010390948503783284290121931762676585578 8289876538331362090195821485785280811565883488980454447805482027181872835287 93915161390377662130297834059736512372185502625007568939197755304336734300632 10967685425538761246650350427723615939544433853772029762447053906287907645240 21876927846938533293273150948951395481084482040632995100259828703576395339267 1 80046495969215286295585993621711569837398673388979598429899493529535775129942 20619781264122858018935841517401577979341066679582980270906324113488606409019 114403666258576175593595084857865656174008293287471491588747539498580748587364 14435251119444654231310579196532262799308960539925655516246184176354832550910 48225605231701453106823918160491809341169977847209719186338761785639688200030 30288425779799683707918205956190588053803212843770298177904220309486244324014 False 39114204850397413725881490806052970240847067492190547943251051198613921491676 False 5722478191269128135865790438502100647034534425087643701437873907467905241663,
     Ed_double 76123884076315717842295761994985786981788240682879447832311002762466488007084 20085214933788471268064075823991307207329964433761386844315952068460573518492 84958551723994064272821268003849563075066727055832606820337207778899185307862 7922723756527472432235932882745020763835665439795139512866611560861641493683 38890513683028053072911595536565692935523612779958912227752683603147573847444 12614658517410857189054449479408504629401845212859228664200933346761505107912 8834667647678346430525506008863776093278486372953158988026205016432697300778 0 106957421589637848993045478999824131759991498292687405051431378991480432339122 1 18485897695379219479251896618958576321301971785790935937486305432984567540853 5135115013356098684513319122605950125998461865111178353048299996305560522489 False 1410431087161233915850192674913443351642931382812307495104662513607846806777 False 4743317656779997645018258219326850282139042711466365389549722958811272332944,
     Ed_double 56036459065471296419342917434050778922104842395204898303434095397622505443497 2951224179949404348273796270724460247213167395345817758415318648069277780744 103381015964709963433601871235437911023725676089988092665076839767298242276639 227730636644365551615586679193801168499876541665751459797705315985094375309 59152706705002347214940254805043282926844447709298644351325599505104913684537 819807392855250785526253585068905576730613061661304164568554067165019660210 47344556899238667014258953801387132101620833694783194361642744369675736833142 0 68447532338077528409312031207300775751649150970857369677814839638237392806758 1 16339528236496691939590721682649823247685028605055816977317060602486908857975 46912073065785929873180278986697487381563322510766422184469136375330933898906 False 6680833979202710162495888549093719720080331859644009071806524780829954510212 False 27730872284683050742821439891869984379596647257062683756861751956422402786994,
     Ed_double 102386313955429060061120981288582497752917436295742443423870208122860084044013 2305685861182589936878563732539426219719195475987332906138696525235684951994 90772865719112139693419402624276084494168738343340669456851883282160245872924 19005984034187429438468136624249177673755019465160974382070795140802980725844 111927113538252871624976841173754431137159130348808399370642232446344940246416 6619805787595886721591319092531982403193897290559425138719189104283388926383 104178641000999275055869406344381494594521286713238790072439259167213291468809 1 11613448236316920367701578664306413258748697952401773967018324840699838171091 1 9422300342174524535148235573337221172757009586604872706425046381849786434397 53901441408313695849221648591935008568638912998192699214422862715959583962048 True 8477284166962352622947866952928758434622213081734655546117539471325724094604 True 5406082607036906942563345897844034756700659632230710754678451168518157830809,
     Ed_add_base 59963928208148477788249910847912354532832734964084325289241591239430169028234 4386099026025533475275681933140014574864511088502204415363745686994583129639 75955257711121397230811664439897065782643188667261065785502713718826788743742 13007990091415232690444158963983074658783633799268551081248051565661522699993 39836831526194798192759320568790842070626795998379498253954870289086340896157 1 66501625382789260370155972902640515134518167411880720123990698794583825642222 10803688392514504986235752127537527530915678036806198206355205312318064570553 3668799127786839487542293390279896247148238876852030559077801375856244532102 22790296912363416561679803418887807208403485158801806313471911626663885251214 32914972624431858797876721902444315681841508241160289231587954857579826506229 737725485047049417543065231757893202303905156444528531050424694599830111533 True 21590984709839178129801331816057984498703497106484903088385695471351212037912 True 253805299256389954441808393773339639824476675703582562132204318791808839935,
     Ed_double 89595572983993510426297583131472145490786612215797470365872695218961875998637 9356385483698086494386679321704026574473702602730307826120480682232189499198 84762011752416818075304179869059827166419529057744794298836361775002625797543 4700138799400063297223444472669817064818211198180456611760034359118239877 1242738118952431281244167001689771637560899874968319252588589451881574411859 209705294244262952897512844588786291360395617257412945131536949599778713851 110958528005739503072577581746275589528902901507587887972421250563953879438804 1 4833561231576692350993403262412318324367083158052676067036333443959250201096 1 13570168504664276947452866115781809515343961375472577212827339906740801897588 32316583099159130187777584522396779712188715834565581627682555495253243358566 False 13003702860749027843949288726590917206819676718702111441062550622776849977833 False 1349005655170287470752487155949216087709362820630541544011028209467670702822,
     Ed_double 89448276479626052467065577864085596901142836041660526370368083988420948636222 1590345890275521863581361174749860095236591833347951729022087847907617199789 18210428461993604018680754937780065507813102257127263294659257992741633044648 9019282319575698873020485224397270247339160554425757574565369663856683361846 73511292269087058501973544335111388682942786092961146497190658640443570716000 3787318123708634106723481695881943150279256320960934697751343921356776368796 44554241219683746975186162082382376459940250881107300963748758012233814048324 1 71237848017632448448384822926305531393329733784533263075708825995679315591576 1 31961187902138024331987063265119082511841779020706932216365125386497243608924 51485858820657006325143143247408615096775519400504352977603889057187114012570 False 12297959945614163690459605689280427642128826759707749938522061382083645798712 False 31675236278069033416847877308570910636221686835716414555668470541062862084025]
    (5860110492963201981856826760885980745013111881863117920430046883062743275455, 40500563407256977558648635231407271141602471220772873576961693089472641954953, 98079714615416886934934209737619787751975282334800668469)
    = Some (31961187902138024331987063265119082511841779020706932216365125386497243608924, 51485858820657006325143143247408615096775519400504352977603889057187114012570, 6277101735386680763835789423207666416126418069427242782052)"
  by (simp only: ed_run_simps)

lemma ed_order_run_30: "ed_run
    [Ed_add_base 8947420091296776881770304951834650256412616281419937987243474390819150166242 14211240326594431792000807725088571894344729287006947439754467615472168204231 45419276189006528518164640082681446412359034287256828487011767152463180538492 1940966100274633628480586886186213963176789854542731637296299419200018264782 70372813048309666905406344926006461440910950378383735552445816855449949101407 1 45462119589686071233636861541829685489712394854919713656043493109742606987078 19503981648677971328922706098624413273787407009954165409826241570041706665499 31345168449110561943683951369127270000643835200788239730758929213013879307194 24765652201874207143273923068273777415167053552354143576751012911459193083523 57079556726555812321218398179692440968416760101177303346808530885432012225165 39485694343387990765806775054015137112882334580391309392671481259694407400002 True 22389371923293855357460288983653881394373487569340676803063711822777908345791 False 23997488985754016546393042873946988012685009007449408007233302490074197067690,
     Ed_double 47856060647946217857813491356423741153442749987706110160089547800657836705465 28137291740394007880442725090307741119160514019431845644913096589129841708120 13003062071543908752769165975979183794618347514148768561951418241871485268546 13464823616612026564944714229216037354625154135694436221507748026309843393221 69302139875755383427700338683349812451511702870042591815893502279743945438432 19464420626711696410595474101283077843639249312914881248883533055347939114001 80939090660913886318526659628243350494445582192083222441319454449126778202979 1 34852998576402309105044325380444557358824402473557341598138129558786351436921 1 26270273178380303867716622946619189516232811290750045112590069406779274417556 6819201919878899432256775948016138296805239893095651982895950986108398389825 False 18363016303419974090980510556611001157525455980155597235697539021873111025270 False 2052555026610104816519538463699319817339715846388929386212041110010830360443,
     Ed_add_base 52615908370398286812462837375764065464074464682356738096530853037226471895172 1547103074775700004810929687080829555168785138360273363625811814296134736936 35370886552851378854493695355773042116505969380590624035413093355125317967052 11413982292106509069397302983398558506205332648635685876758526102340632525002 80421202684464816569077289652914865736764015285049940004044490652787811672847 1 107010362258158015031291683388324527957796871446751981605070793936618691214032 11398094843934534387081208060468779510626653913509444120372305592970298074761 30256552065082772543556967766147197362555542853460501251835457503608822003198 6156258538672917133014889688361756231190325566024807753096491842982560734293 46516069351215928195723824531537446578796494241378432717070545182826119238584 2593572258169826836315182778159545680380166261027146287436179586520916660317 False 14209214314583692813513080897179144412259527024321949808059806237763177043540 True 1801316494286575804650761003212882594023938556072769936584601879295321479124,
     Ed_double 2921134236305628986657966547743936482235685695371589922018132391777782453280 18686464007506845125440980553313889917752676796084685187979610134058432978512 99044309906984098722371476931605916038268668864494054185094443572272543475685 58092198721468055752253830662432814176121657850567906036413210914815192698 59505880281809457107056294538610630073044683039252335114370825070897108331218 1041891443733774017675880390939102863074967051480465240436330683223183765295 96123175670678469735713510383861979556032983169122464263076311180494761022405 0 19668913566637725687857474624825928297237001496518099776381272827418368617495 1 32080808650729089712689836685165055626969319743689461596394593581647775563400 22322086262095604931589943350594634795260992548807119827695177526400995207186 False 26631432474384183433275993467278347666279411421835912857057424789086876511818 True 3791720040704622481355406104385256888598814206382626870464537820849204563822,
     Ed_double 115209496587464803362007352264999300846206354571042549816834567581968536156008 8888157131143827648999140005629873613987555912146912236990894981879804187804 40695715403237646774285392526192655786012078026823580065669053757280652593660 4303191507938165783166334655484609901417040934956815567622271756644756970932 10068955863881955132887196160405270116027242195246036881123874679905973519872 6184451656206730283999096897334552605218275144053696393706112851991132136936 41278308053089038835849025269881262793075708121421594288292070183225246077550 1 74513781184227156587721959738806645060194276544218969751165513824687883562350 1 50904227614069973077619089724579555230659690712761492275383683064085126711148 24337072882872450992312182431122328840252124559719762743561524975961913237673 False 18146666171223875437513334648365575175753719830470553163286448768978265917572 False 15661236751176335368102327013408673891160500714228149565752208025025266618609,
     Ed_double 110721179657232488102127696896751539329303054001778902782833332538641006360250 22378388766043333947183282713678008465365473228936623537535864890169215300023 50451916076890323258642827761355136211066826980614633308678700829537816616805 5115143188170128550260291295867841676823474591617562380124461074808718789038 37145434766669652517773110456111202921277379570454201316014558104619010831284 10699002890870227640900962765620301778728657773308546107544517000987832409340 55522825656974030580086115873291504735033757644476294565302952298809939896453 1 60269263580342164843484869135396403118236227021164269474154631709103189743447 1 34282795379400204901608762835670460043884582036916316514833081028176241702263 24497205706531260742345875906375877421980725255924459479322111501730016531675 True 16438754006614129600161384690952021762476043409959967651462240764720899947739 False 12750685797566451376714612439529068544946084922683424052050066610091239650915,
     Ed_double 112259343184786052814576349838459399065945755794569860771805854415580170940631 10150175774245017218057840011620109900326801569414087507329908419880110945681 39215945282720667182539107795428122829368397005747576303614359036756374767429 5182677775147267566004216216550344877764452031220280167179819952362267330802 73714136799748082821557594583311600206018322113537553156953991735253604583319 7252936674135371204351590292278721481499931516443688614288668669143072539047 42748691335250809791533742965656631616692625876818279571266088629089333466696 1 73043397902065385632037242043031276236577358788822284468191495378823796173204 1 45207237250579875287010383350935072580776376899334672728075445674857248128957 39496403936422486459992131965206754953856236350836269560288891189196379720652 False 16689829539077792332392956379083955803465799541036456631066460396088654103633 False 24914927845511910581925151401046837210361509586075501365804463373893400358226,
     Ed_double 19027690306449657348952799728840495686833543476945156409388854276189653610001 17649688448419475089189013843680711388688093071198832379236567185727015807276 90001468631423175217974974658311566649735434314162634941925093473001517107764 13472128659082187956973628356019229500969327992291425700247276165193611009830 34674941842886151333184914093934119711149281422174537548399874250125713295134 15420080206335628701770836077141669145511754022138049511411218158758190495835 70973778324973517869022174929471070962901890837217478532536239196811863497763 0 44818310912342677554548810079216836890368093828423085506921344811101266142137 1 9892520292109483162572564166578499435656583822902843799552226239812497413752 9008749611818964087347399449852483827934081256811672802427903721465208423428 False 6063536351334894319778187217592357163222891095723760048140102470892455574446 True 3486912998058509956917485053905606844422229190735999548340979059723551026589]
    (31961187902138024331987063265119082511841779020706932216365125386497243608924, 51485858820657006325143143247408615096775519400504352977603889057187114012570, 6277101735386680763835789423207666416126418069427242782052)
    = Some (9892520292109483162572564166578499435656583822902843799552226239812497413752, 9008749611818964087347399449852483827934081256811672802427903721465208423428, 401734511064747568885490523085290650632090756443343538051424)"
  by (simp only: ed_run_simps)

lemma ed_order_run_31: "ed_run
    [Ed_double 71669462502437143639896942645756602012965751521328348485625129367360879730374 845152362086062295285701715789969055190589654641831255593277432376139847185 42893036914839265107573899480393841508983116128445347258141479911796262426068 700890450314923336868440082831641362068536195860029964283492525754130000342 55161528214191074116151481761788052039236041564500264621204561498291152967818 769648763818419540051547289421281671413758349843623614409473286579783741431 87015663649718316891247941843325147349287349272757562811973934552348512335592 1 28776425587597878532323043165362760503982635392883001227483649455564617304308 1 26450955390802645953664691021712693689080146882962175223139059409733634075108 7029650407934620676104484191732264441212876711085723728871113250616960456461 False 19877415224649362708378321293499775174524773482115356597307061170132448728350 False 1746995094424520263065320935522456772122697390991144724600513861320200732377,
     Ed_double 37078548266183356162372646324546474657677704053480317447456508594432606282716 6042321592905114483040450759923771423552212339606067411144035727805857644226 36797029286019545556298156691575913852039113882350933494295746001653125663217 426764774547742948533747780021186120567990806071270353610282153059480271948 38344688880033839218913717197470624398730056859417460450275814421341152983302 1605817552632026198791482232180583617892294684499143636601519406512714299907 115510570257152384817496495375717347047631394494511180086296821415133649020399 1 281518980163810606074489632970560805638590171129383953160762592779480619501 1 53225446781400123981637113255338407782598344362863930321378839546324471726739 27503260717915990209811022232029524814432321788172091784122867413129178028382 True 53096042660657874958352390221696959309037087519423383123645182428646081661546 True 66867175119523402835365952995134882901509485665025114721716577676237706750,
     Ed_add_base 74600027863700421356313135893717273055254839068291551633668265504597226772788 12642256904581778416355808331288836750105024763102896904715378633063278708495 47567903797325742193752772125342629129582158350482220368138108274958103866922 16183002886366082172477842867696873709348163028883881606353362114542312070815 68224185439990453229818212883345278723687826315158343671319475732955025772977 1 33222618225724157012965845720591066485615031202780197572406032801851199403994 24879675771821866481403982687461678449212133237918649779319821840710864488945 17871970038808155257371473669378720378797608171430386584945822110696287262484 17947847341069742332143902567091432634961420193961494413033255188991949323593 47638900093209241086500703960377163963752889572894534682165132697181666283116 9414796038546579272882302064801099789234076811809801703463649773311016487315 False 19570271437108688417886315823826813735202150019578224831220615505607912460313 True 5547156071232632803187464712180621085694651776770183452181898157832707958389,
     Ed_double 65246687586604371864115910074056222932061390187360826157240778351713303982850 19599480560709957310930235841210977768455639167289734632744053885259354729347 72729574835328494585362632623895331062635635564115889098233744231906578303511 765496028539287835847508386344266263893898086270909313878783429468415832493 12034453482709603984119402445521487603778409108673206969347901787786020976470 3873412517491061993907180029391799283006551624967230264521821435329742165715 7482887248724122721246722549839108130574245376755062940992965880193274320661 0 108309201988592072702324262458848799722695739288885501098464618127719855319239 1 52707699458219734912636431914815688423041032854204147085330656849257502128785 52586691772534450039728846841482686455362345716854665075727080296838771706547 True 3406154727696122011592647953296345114755628634638487835808934980628933467902 False 49188356982056631749923951102113841071801847712905871572162686399137306763614,
     Ed_double 60228714064576427311280890104717769759547104099006158778234183862820023842703 23992153526863915048823719373121444259370586405004746422560854419297355923789 69762852846684999093653007977990245215405918761353601349624166817675632620267 23882116384582451223811655510829145941197465537502548284763325165872946779579 23450665337847143573972734546229047547832826524899675887732393977643292392751 23937071726619660795871071017072236483802649646376325610981854150386728339778 9534138782108571782372117873272475455858814662347442571389982954855608777564 0 106257950455207623641198867135415432397411170003293121468067601053057520862336 1 2673402932148531547107587101725952916967954612901684150676566424992611920626 31655839118409182644619130518795716063027509376645458296855566994938982546265 False 220123798987348287939694352441766559318889033382497209051514750021014316769 False 29049347039313417944667349384379456080320613594599335432719705411715047383215,
     Ed_double 64052615237156078494942489926022025410340275955136517226078006562371572771142 61723415517379601226066224027626638490534949563072554787253891383204555483 78570042880720003682033704937099729182929440902212439475052520718268309006039 8654236717646699730351713866274389322561877103975408105170205843816553265057 89819253179414899069972827768611080620503092621526431569768961422370205542796 730868694711348690099250409321265573200548837358102601116090625697787585303 14517427643563925187091215011077703772589164947075922248974514155896736234897 0 101274661593752270236479769997610204080680819718564641790483069852016393405003 1 26931898706660821378425676654164295381909143220003310721896831866299589966997 27161039048821407706094934906532111534963157263474457588061893131751394556670 True 3376585510746100328050026333548099035307048658743886748394199818541276984816 True 23755725078649032897261573586084617537904211921928839382868960693318651960560,
     Ed_add_base 40027301281629146433948136030996031837153727214601577494114303932124368113492 6317343069363827729903935871128655830615842975959198518990801921866885681701 53124175522642640779641223425360848761120064716102303375765059716549088498030 8683132576807565922898117910922470885041233124583974550307079142780284474101 62667913714673554643929761583327059092149919949538260663692524291364041141869 1 10512210742586429017398720567247629676857604231167200549555189376104808347390 14317592613258571998769354276426033794811473262451577026025187108181817943215 115606520627983508763341518959582615528063116327133780924944870641067197063834 14379343256633160605353065514536096139480161685232551293326945051630658750620 6007178557758863974497699739583902112067564387995961943234209455561371622117 48542331631091881365046212303379963747331365514249702488391522452460280112193 True 2756029450718232909025204381223987274902375424558125749728214554721627475056 True 26271627623296891195583579973008944925941861007902669984060031766284305728383,
     Ed_double 71337250169782847838293780636599004385613706536501173150077433011692770005269 311646455837230070385976472517669433593086736081191631176707612608843157290 106790678047658700062648181827860920357704627821459793534580275534105626628727 20349904520278077663502987887397838884067832320407089138393080507367717895289 82327295885950281580555578028141632132682534291507570636652037803975980185787 2518327941387040742196153925249260734318105604412079551618877535718067518953 35453427877875852224354401191261915972090921284958620384502842522412856623458 0 80338661359440343199216583817425991881179063380681943654954741485500273016442 1 30379295610005895885873551476443218142662634496355608369107386881925725826212 15711646161003209074385637007322689994056268571472675329254925485257620334900 False 9301586774918598611197410990597603566994854407173058964643100725801951135789 False 10901026388263861561389637562399465885251820467325745118896244861752601754198]
    (9892520292109483162572564166578499435656583822902843799552226239812497413752, 9008749611818964087347399449852483827934081256811672802427903721465208423428, 401734511064747568885490523085290650632090756443343538051424)
    = Some (30379295610005895885873551476443218142662634496355608369107386881925725826212, 15711646161003209074385637007322689994056268571472675329254925485257620334900, 25711008708143844408671393477458601640453808412373986435291154)"
  by (simp only: ed_run_simps)

lemma ed_order_run_32: "ed_run
    [Ed_double 81130254590649900444723835020752269245935819936976510197169169636877025423648 7970333792567074300833552029677436969599245452531858142692903941567137729752 90932310910431096022170060807599559808417264096524973258483312704823376119860 2131888514271775564298834213149563196698622263999710673432849098480167483430 8874469670108540972063707362050236450977141362179192890381001389860693538772 4122118759483519082355339722548380001149102349101234578553183024296403805686 9802056319781195577446225786847290562481444159548463061314143067946350696212 0 105990032917534999846124759221840617290788540506092100978143440939966778943688 1 19618558156598118238544061018918908007199299033605490404590045955165031735621 55108462981749255908326986482108205328185594408017535509722063598025571702263 False 1660754316037545634711977982234754570591195417268232514103220692596470042646 False 50443409769551048798136765206812350469209513504103274391373280030398213694682,
     Ed_double 82429303322763924574775972831242646533709920507640751399464307074570438978537 3323956124109600735347904899329475162862476752156358259007032171200727269048 115595146796717894855521782835316702553910917193585365498148669326931923477415 26227548982095019890521932869038045094587316339270766491012208421409781214473 53571036404982767649063052133053257714035255625385935812169262711214876249317 9336981421177792317403251423709979316125210987982090783809277226977567352147 33165843473953970280745810004074056020200996685944614098684362252361484498878 0 82626245763362225142825175004613851833068987979695949940773221755551645141022 1 1772049106821383432228774107145018979097305770153729527744653108524867992021 28504177405642424407412692300342345308069558964449570503349411535145208144323 False 507560608778252450773371617813031438862757194216845773799308926203390723198 False 20339845175209793125268160758930432434026182319663334404818346277977696965273,
     Ed_add_base 38321658331954629290282442071550269176623901675528865628642321158481212040047 436219800895248492150829692191654106297648373215150892866360515152550785032 11040412211170037060605826679826993003638744326046072968473953474608191485484 8313127020936671738594155170104604781363112530524707269928696804776844461168 104751677026146158362965158328860914849631240339594491070983630533304938154415 1 105630749793334931003202409684784258333131717095842191637739720547185849563518 4428948031271982467913406616557722429051290501868861088497357856205384076756 7066262596826791957239220184446667992365830680850104603148869766120649887532 11632944087398069778292889510196271628542218491356018824349882277845765323355 49042154037322794099334427497096733299310378285418259489083413912747779908133 53866831023813293732834314221503321339224643019687842646564963495742984033470 True 4676015433023635294585143617047745257533664944319978460713340555881899865431 False 48730797785882182481108489945122912216963475064004341151354281736665442969191,
     Ed_double 8526319104374445467062170723454247965558020605511964302768896533725034727673 20771132885349103618505594174158729281202994297615970344945512668237038961392 76575653387349231553927960262092412841682358852178538181845307990826119359086 25059013130000139142545558731116777625239447600576123970244599179352428721943 75338354431321848655381159467450771321707197713435367468729356529381183307466 22814558766255832683897818214160711634912739742335506957539970989722288804078 68049334282974786086865789538638164876124338246666573879076411457101084631413 0 47742754954341409336705195470049742977145646418973990160381172550812045008487 1 34176151585086268872575892940100855868029275509244201496247284808788520171881 664410718797386863613291445030950771941023795186902931500380433267895438400 True 20084829447655088104827250515476559699833012218610321032664962957688055357814 True 273946159409643419818056509851795892903174699801266428807312963175812370254,
     Ed_add_base 53387636947332271965847210465019049380119154444425707900649662156463358512880 196101491819856193809568104741912512942690578529486035360954307141178279240 50837833667089343425818783844853780999661748500615545870713444355452269277548 11581393567217987004775617774292250844565173885859045358963699254300322724114 64954255570226851997752201163834126853608236165025018168744139652460860362351 1 104091374287995824346350720495988708229206081712981215185160926482090647078834 13757174000341350369643954481736182998932006561062723645601943483945387256287 92513377874318941604693588568792054027016657057437540594754217389302042927640 4726151616489042584485702482660124718200972433579236831810246228586331421389 27691254005517608749097760316010025698746731598567634159107660816925038401567 48096188549525518152463405152899299260784975857470836686159698307190462908230 True 12157681707257314939600371621301032102588729210195046706936035109879539827250 False 26979840709126041197380393341505288330655878281715693582159662344749530579205,
     Ed_double 46616939738092514535312823242377718001017674309790799697273239476091675280051 6622261964947579416229719845483177003707202618673763949114879015777459745731 64593784032582246960961331936473893867751357381967368059318760069140633211858 19977559505386513495136583559635129776592748956881902015421114970908524618029 74013961333558873798365458964707683436383623752712675712292921828751339022554 11502027319781416934209497292775299936468051323412324928440911836052790979472 17976844294489732425648508694096175866733683072176568362045520593048957931807 0 97815244942826462997922476314591731986536301593463995677412063414864171708093 1 4183424385098056479091527886468513445986396722568748155859335171152264882143 56859640691828592856089311954044441851848874316674061461239559209907989611052 True 649481059405939552575043260879024198905747251714823886640422584157229634928 True 48032121350133999571140429277356633549931360755576700567286291199736775555961,
     Ed_double 60692051850769219611906582923323921233252130186015726658428192250407225458453 151141927752634505913850802915700027773015879348944562078223238372913337902 59087063658952675356944615354078802792494641374990397030275237240940801649228 27920894776997843266610722206510889207165149189318540447514905904265604733162 112782464609794498184509140523992242852158640996816861401846165292029252221968 2054268205754525654976147482225662366527440528506184177037642004841920335466 114187101045499651168609017439442789412512495854615234411304628998446705830673 1 1604988191816544254961967569245118440757488811025329628152955009466423809227 1 16543882880562123313899933023136451188033879104484481943921987163200044858969 26240645358455929895830302924190089779128465020963339268628074434922973607409 True 16314568971080119069848273838952954335295074263509407862701767760983179875174 False 363720235323249719116765820796027742304001283029725959487643200655001553969,
     Ed_double 85292959646059875368323040789058708079544508893298125819853314801232664826207 2363719858312664996630020144029368584844080927946167767550238979302254752973 58232714182677684928717408456894365916481695635188794533776357476854861065679 5946619267029768134586333356477917217130962553029429967344563045624039428749 34629645098275639674560100671375830488582092860635046988366627706888496850385 3749152177666701129280236960506068406128598517976748512075810027726535517932 88731843773934004983965352676523565690207171407531232753380626683535325879370 1 27060245463382190439605632332164342163062813258109331286076957324377803760530 1 48354901946900536552788200233915163657251902760056735011531930345400365880798 10379905066273012143075641691220052577901014669586258503183312161873057363892 False 37054514116785986622322588629356922662784848309239078430726624011976954456505 False 2425751023494205098103654074498670482045144315713296735749066869048746768913]
    (30379295610005895885873551476443218142662634496355608369107386881925725826212, 15711646161003209074385637007322689994056268571472675329254925485257620334900, 25711008708143844408671393477458601640453808412373986435291154)
    = Some (48354901946900536552788200233915163657251902760056735011531930345400365880798, 10379905066273012143075641691220052577901014669586258503183312161873057363892, 1645504557321206042154969182557350504989043738391935131858633880)"
  by (simp only: ed_run_simps)

lemma ed_order_run_33: "ed_run
    [Ed_double 40588153303366125956302064013033079690429444352530751358230219471463432211864 20193059454193155256948901168382224563160605590194527027903947981666415846030 31139762911534487811839649870487989414642645084403461360667109326647868108478 930481778975606432945589879776281932081964196931629489060856719771402472557 52605256945991530184971598828480275703873551263777838191043414502009965898250 4334659604155536843770959345345646371222801646926458093447367684748302572867 106343698845484557279108570866142817577483185397513274041894473863097565536512 1 9448390391831638144462414142545090275786799268127289997563110144815564103388 1 34817962774408924004609728842069097757243237204805353665363852609461556030501 34480212789599307767426641486036494500413052572798616032060881553362380660124 False 31976890408345604779163465582006581467645614693265310611739003125307035537294 False 2813512679280432876655391422494537324595834475601704458426214407006343666865,
     Ed_add_base 49979952325770479536251110030119689976638610372282827232443528712931459034044 10367986045242487821897100999506940941236891691977189214227723548553387597960 55245911238552845887844002054988718107712931801126212760831213830521919967490 10842163681576167684832894410276833039488756121916185115777373739865650864147 60546177998763349535726982953699189745557052864514351278626370177391209672409 1 42606322974960356038655462828398208849379751707769221544122936640058605948290 18427255980646351052895737851470854049399981736858695849682343852441569105091 18288542328215607301905997721607375892705664213018657236041815246771334873342 18336236308313249549158050410093628971539237461589347328903296900174910453050 24226895374618106659116131195679280819576462891801018587051468913665352423618 10657744473042264316917654138142245039141681680294090143512408778128701078179 False 11558966767658267239587317752451440077291753892988908903674257657346619411626 True 5572796018971887475926122677099752249382669825478171703517350844243340363040,
     Ed_double 71645824513080923284072752019083436498606569947259576262190144014253284686796 5068934012320583282162593389110499225152482576395841184194191237886704426636 14757878373047115006504126044322916454700258781813962329904547222972602527799 980960944748695336537179856413167725137283240723174112292862263909061844429 18501833444756835189815268231692518280628505549149320556731152143917719313874 2229893786168927433235023145589303012206947737182313006899608868781535469826 58904143097282387146002359033927387809363673500194950107171987216632447480901 1 56887946140033808277568625974760520043906311165445613932285596791280682158999 1 47127129882912222334612223425190246482250204454372596025710040209991759164515 37207836472573605657027629452996536732768279341854132325361500055974684701242 True 23973858841927357621186520907969586662476889397387380546341416301251756365291 True 18279982779314196784812645605097389607734766294626417756267514372557838801743,
     Ed_add_base 89236531225271039900460885584730095929653348649627949842204902179142481643022 15143508970732317729925063805563609441277619959346719141710940688484458982896 16886119716222854953862023807435222686972158890121739735952385124188051281802 19358103257365527736485800658369870044033026525513954262314152614663733091427 98905969521093340469708961201252685166297825775518824303505198883725078358097 1 114976910287516078905877866329675769735260911026606691190979239156631207692360 23706909602823732851929720968806881617959975892896000420105099516552300242138 97724362899201277119995554944391437894095903819025581902346775865192144515134 21033775993376392432342295434097660258364085406501887340919421023026816525792 25850291702385039089705815863301593243824270257295058013194416816645428824643 52862340791569726939521175492245091512308466285024913160457364284197473719333 True 3769783611824512243081180905639801381168869623605771746192199481263147570990 True 45153352889496817902582998072169791073392712004327526676049482704122757750841,
     Ed_double 83712296201066971067625082441420205856732217321473087273384619801005546853895 5771012385214348273601897222585660543471224082484435734001871458467034769573 64523495588637414778081999124538078623627561498372260780220573766613137872487 24133143225672964333703788535590163745955189214809351132635495555983266316349 70712141629316621198075882784338193132165362539177445238616457551379266141701 11801384175151253193630368366482017835532147974416200056172946716713348367241 96603288624886639134027901691805780620165328842539737546293537973520720658490 1 19188800612429556289543083316882127233104655823100826493164046034392408981410 1 47668506025256424057880501778284614458459873968470420885894048734073685034598 22777209261683400770356490794144172479419291288539475263999903657459202638785 False 39768990059736885073052218669408653281964767232892746252397332084373292736141 False 3774587106155895943990345446592175189632659156538846923671087193455405166466,
     Ed_double 47429716783640706806480101121042346953613855298115864367032139942873693959906 19623848931707681999599766117991945149100440270988550056043182579710991084101 14354883543650249562436615627494051332612007179142895490243700758142752213091 4480455143073129309485532959680833164586488094153198161132241236847041314283 37541862492407264177658638587127121507188399912056276422834982405724227355128 9376767826546619689399607161974263463869036187686800897885572453543852470899 82717255997325738179527499515139612232268136546667595162669144823182187893083 1 33074833239990457244043485493548295621001848118972968876788439184730941746817 1 39203128155213677977345552687042741019723081864488185449160336017169539406297 53429556324878822811492669075039719846484716734628412067323585715668216287328 True 28005153105621073299787166794002756925420049879524125343728946927346197086927 True 15261609641658829786571972275180204309173926878008921518707914282243996617235,
     Ed_double 89469389828832919482585189594582137667568388081740623923750705426012645585713 13272800130622541619987405634085298523034174139502888563703969371330916349152 84142616103352899616313160143092156117253547815906461644423514171592572581714 24653821412813853962394166993178200570639672196550616515070437091340721135315 12774921958365388965962985978560182008620804216267045511906281295709402835880 18089368260620394989368599182677794325022020234446693031273772174478197949132 110465315511836175557298955557197926302955144399806401760130392753493056635899 1 5326773725480019866272029451489981550314840265834162279327191254420073004001 1 17179928634608776335855279116398590624439681128104293081511127752604250091313 2065434119168113416192914070849982498875745002896447428818405040074261326135 True 16389601825072604042551114253834745320645840217766700098324810459423822712611 False 95015991767329123341520152203713755474555129717608356715334632439976203346,
     Ed_double 7495893493851129611594936658786190628466819240700766471183140245561448993817 2548964699007545924204161015179234709081270792262480338205274762406309708724 7208356147007292739746089919997670867370485330710253406341838721821793544459 36842051376070649076833057700896231348348967613464900853119411053528954767 59987800688614543299963512700740467732962702588317144573080700880359615772357 306445897992821018531014078327899674331598958963871524646268093255726098501 115504551890472358551722138269899388092173650755650050974616282484173474190540 1 287537346843836871848846738788519761096333909990513064841301523739655449360 1 41970059443255629436746040121147474181782205244688557244624197442527986126946 2749566447724481074810875257022618188845693891279486039555405916380591399505 False 41865838510559108781274714468507240399919439278822952811711340070463509587587 False 6827781125264848946925863992792940921742305817969918203966869355399453838]
    (48354901946900536552788200233915163657251902760056735011531930345400365880798, 10379905066273012143075641691220052577901014669586258503183312161873057363892, 1645504557321206042154969182557350504989043738391935131858633880)
    = Some (41970059443255629436746040121147474181782205244688557244624197442527986126946, 2749566447724481074810875257022618188845693891279486039555405916380591399505, 105312291668557186697918027683670432319298799257083848438952568368)"
  by (simp only: ed_run_simps)

lemma ed_order_run_34: "ed_run
    [Ed_add_base 30276583801174399461799536447034249998635561658716478759374583758255261945494 996609250375180443419529954809661320290542641750055509501988297744654792782 71695121844604203535375607529797301694259912582236687902599039150337816886286 6567906971012300785901453104673698201824776774307987987001770882045517552745 44096967392711991888195377478890606159010072083403876136858544857575312753613 1 36109396593009651775926994676762433865687220720873351585971779417467678525132 17146874343407049005667046135548920026581398615802076372141273923950763981931 113502596070646637849893590365322827442846518158985276993198034692588133848426 6577410000697449251411605213609693856680418718684891473132564202684926920917 51692698283830926969327739432498620873191069779333547088749148276845332165653 39825539986436554910525940381600580530878942910780759385059752163392448836256 True 32006627795962207559287982544278917071591875154515209207487739009083596418085 False 15166714321733442477833324551263258497394309770719631282574186935484567517799,
     Ed_double 89939715229375402882115903657612160893685716354943072390252422556533293508785 23077008744411105195199483564786124427901945582913133900791740106915947616788 54136969051220025142570360357773583200335168757483535288864565522491084411648 13697599254475794186403561280531705142374659851619064974053516495820122864256 50803665763761492003975442982639540456399450884194878306844367701306701007134 17779190582615872780199764614409567926117706156190503003806124412382811439333 79989343059160817684025441708849330159919437068181026938069726973870920542761 1 35802746178155377739545543299838577693350547597459537101387857034042209097139 1 3609047266958342264993655834425064837628322803713904465248745425201916620095 36819707691922247039763420342983000657693468670778352051107521710083395294508 True 2493135082499429309576856132040870360665333603854431974928876979165305975411 True 11384600256637717066357506440205929621925180172217125940017202284884914107135,
     Ed_add_base 47772344501259088447562274162738709245333984939468516424123469764937972488494 1147609187216501395755621589125861965282039008761230405616145979356966376767 107062161024640138341220729532849124371529455668955256995983521563420121451288 10363266758624535036537266018843641608200500981111893292119644656012065601696 8729928212676057082350255475838783481740528996685307043474062444493008188611 1 35118765952915164028305164807940293970003950680184532694433871705531007929026 6249021213024831553416780603430465135780926789861273868963328863206316745355 92944406337074125801455979702371695265717029191959132491664340550596843628620 15198905937816244594632336042953601240689886672572619657708188572041738224625 10298583590938875153164971391064236052137420539887998460421844841791697024261 39721747537701931533897904886531262321975515991640029014413414299453786492482 True 9522141123812493040149746577826651449945378705944165989041879241942867017123 False 2994746936256395247537997111326718686371645360303854286946028949308177302609,
     Ed_double 57317023573165651629558615130469068575962431526709785360343558177572560974135 915959152979643671885415583891152965063240255556589176937661838239097371157 29545623798060050196017434319385275337200132913699193371696731758940034806426 13626295525380743834100865975971987235227315536065121779273338417289355313001 115782531046667543365202135480373657813666862127213380210456332042403341894920 3532864292281555326441164139004118147666548551006769987345649369147976319109 88020689462210593990029804197604114614507686052629972050810757589280603472189 1 27771399775105601433541180811083793238762298613010591988646826418632526167711 1 41624762869133589161707553839250387869259934796874863605569802240756500874970 34359104419271605801232395358121429974130969143944266532131005602166841500771 False 31641542618106762112487067393137828151354866225872422620653957402144640890005 False 8240635703416258745342361281554306478935519358811535237983284204414888878190,
     Ed_double 14646844942618044262580238945680015794985786735767550561246597396293618726314 14963205995537322306334973201736892426379541933477046798399573973119910859857 12906995901765785952293847547687680615036769252860677719771053872430444533633 10195412003274880068350533428953024760467436179080807073170640574190592199796 93853460698402880915052591063402496106075657211020400786639744905593073180570 12351358225489853687246759570144838776079901814204907669134779760580816446850 114052240196463937113284593610695572673320967182733691197982040484049955447217 1 1739849040852258310286391397992335179949017482906872841475543523863174192683 1 18771153336795610656729609871300248964384786801083351631412664812400623823017 527216025600113533795188917339950037295425176681845975472807790961107518504 True 18489104940019731962166118152482767422876456560437808793279204978675040058700 True 7921752707841180592978043474970244002421999481507504392765067442957065232,
     Ed_add_base 33023252409420749389953859193936009892941869670815413911560950364590655196728 85467434980578722852491445241620026809091665660822294420843044926016841080 112676912422732559836739289380919951029059811027760677392801306916441507369862 7163742485931328970741793304664785060164541831066495734517098315123067618305 3115176814583635586831695627767956824210173637879886646656277091471622270037 1 25454227964336924170963118630543196809626640481070392256229180642830937724980 7577269189644862088916421492219059640478373249441407211424509119444857342626 26001244201347740631259975111685215547844110511708819880572530556307866634492 2660741370800736619577526436317607176734567662236862972092822737196642220659 57291545147455937577630001586804989029099866304158534730175833414665057309549 52947328827721870730609407849680071456032189476974766600300213089895134876974 True 55750219705531793324440975800200430597619045511713992311503178746669492355521 False 1424452155969043370957418023551956239174824206146476021447354617141573524377,
     Ed_double 112712259089554220479551228307499417868561339488841075797400458374840583627487 28346678663478090069901732068659715631946706992688977756454793161167919662393 59563299711172033722288327684165295376091968185231165171537794889492259462504 24210804455261977770787368873527757926825050159564976572804763080343913402214 24653301928013824324612015042047707126705815922119471575252113057480045136794 26197249742627850677157501876122015055409032224047933800721947450810538769334 62643129858934008666308084385353785360800613362030653413594920522564805474915 1 53148959378382186757262900623334122492469371303609910625862663485348324164985 1 46563948444541997288735240497800228441980342344995145248860956090451607482341 10029233439667061374595826967338523812887179514540457251339864559030767171290 True 25190939107920703897474929919289207035452890251025140837067271808843240668211 True 4603451964569904192697242832592911673515753658680125808285166003626979219895,
     Ed_double 55971790839841570820190169147563595598774285572941606607169725685650429380617 18724951842800165371679969556461277964818753630282487809768350211174005941768 114851742517991717978469564080778323178125610439406285034253041233142963026560 868673534175427969122386107815105902241862902291013394519869426253642744730 80199327594374433224259258992217821554915417647885164625488773633283353418436 4033096836743436338153160989688248077012502560217350934619227390732182568123 58879951678150147158279394933214727579351324866464678427083315547492533645943 0 56912137559166048265291590075473180273918659799175885612374268460420595993957 1 33683050213653020648278182468628761847364229033008629272528878908605765257871 37331029606741395365081079808422202610273205539470024307491581876433078389304 True 17127736290239185798637128310308253883657677751941266404732052478579492073034 True 18348306056122854245755127074481928227105305128401570366380486063305424668149]
    (41970059443255629436746040121147474181782205244688557244624197442527986126946, 2749566447724481074810875257022618188845693891279486039555405916380591399505, 105312291668557186697918027683670432319298799257083848438952568368)
    = Some (33683050213653020648278182468628761847364229033008629272528878908605765257871, 37331029606741395365081079808422202610273205539470024307491581876433078389304, 3369993333393829974333376885877453834217561576226683150046482187828)"
  by (simp only: ed_run_simps)

lemma ed_order_run_35: "ed_run
    [Ed_double 109454260077232881604060558377586925954922124018652722017549754027206709989853 9798146653785751407101383252362508740973877965741246189344256952906735023306 91825964389828902137656080248427250343298197303358705213435478188213039612808 12035414342021274682150054141171542112146502678085873459276422574924352504396 16691504524152616911189337848612254552075360969757472629172234264246821410126 10859316496087624093131777301333982193117540282001342390284574939359136663121 98163793549912215957166506879528232241646057950346547235343308168919459262853 1 17628295687403979466404478129159675611623926715294016804114275838993670377047 1 1290143439815768707560230374421511508363318719548980579159130470153901944962 29925096225485849262161601611834714714444292527669886531649988065020832755901 False 1093730798969251547120333152094282644212034812057594450154026821810533037683 False 4555824566354531761910542369278674700762382895113900502193486080451777498807,
     Ed_add_base 19296110163390507727702621389550770858326229647886484811875127866249099530714 333422316113838092643355272632135284308143793164768295132534137149290916176 2332892480358352094418491884026759482392595374230867308541856922825959060678 4185910051405399690712344020184662527243531214652292228883992581770677460901 113459196756957843329152493124661148370877389291409696730915727085087170579221 1 56440138127431150031709819812436163414505607192521596680591900490814311214090 4421632282160465768777710725821112018129866746943187343267349567515811069084 112254254849139198047305512905374482387269531105730146386237871580348388077580 12138417291920491166454753547135573367210150546323432223569967557841636263248 10647496459789907889841911993901846947665068050556686536976710827039461549130 41468085144731360108487144473386467541613981209325428781306989290744839980699 False 214517801598496963180276698172714685377860131043053350225556356130412881910 True 40632617155111330089980478983692986029356253466832583029127309234313203857275,
     Ed_double 3725087117481014275414805655908246460843168222370745064433571141796282267666 979075354870643912044768029510938936564540882711669252527887816940243378733 82867781999840694172561392425353726626673679906144591620274121010982577288095 14850773458680416854077931566241424425615597622363593780393754824209907174897 6569374386124456216206134623532292286139419115525973364145034524491846393350 3813138640826093672343843074691178472575029357567725618480385787224982938740 79142694882359679897146586769445480165830511683773846555840549869186295020429 0 36649394354956515526424398239242427687439472981866717483617034138726834619471 1 33545777270781970816846392840559806609800458560842515073889883007380097530079 38770330194197131230986231004903401676867012024676671413093324368428121063957 True 22928191663351567464455433360996577838116839256872748137463158082911510844929 False 12271210666618610353011103728910570101316489667173588636839921422846903181657,
     Ed_double 43849159754763434460877194699064550652357096352869159999904189376481865157423 9718446053724513491665485943732976482144712201421259972656546415865935398541 31435669135218373153279925376792176634553635174518757352725829155122325346717 12981357476730447411297790714460277572249754077963067886214434475339467417734 81174737674079384351822215147640885186524071253134676283346483140996824018971 11232035538659865931099028605158145196345170094669454274882791858958394308984 103378598617771134115973715686415533835466523487290161392279223786553589829192 1 12413490619545061307597269322272374017803461178350402647178360221359539810708 1 10249851094992890276461163221183007043252792971195400933895904811896838397872 57379744134713207714001444210530995972202117068904428508159584865550341213869 False 9151015835542164628105839398963483147557926836959991167939061094789349318809 False 6151395317760718706987630482154736182105105891510613363599218849169188415244,
     Ed_add_base 58260130885893255287173463363964278396968356942074126656257860232024915225088 5079222916897372731003203437113501870861128208522537327476749067734765011160 94190510356382034639491124615194600011936084195419939684190896400008903580288 12638384907966560280331095111252429385668426688964842793010042354256470989248 21601578880934160784079860393493307841333900470220624355266687607904226059611 1 106603617637972848772467285123632395176539116383686739088344911935351929405406 11588667863635839662849616121936708659646844408354627775130705406053082900674 13646893184821514018375517003669524445611391026109141796132545627729155365326 24289623050910000895899689338857280661085143081414114183741482418970722084921 35676768864117116956288014429314487628588473484725353558495975046987171879557 18871604518867651548056898693869455120274890510894453785979109042847284411078 True 29021093662890008728412851942497368796690610180812290174250515262827364374641 False 3520589846069882616538127179172067419377786305427516341226960870813475395634,
     Ed_double 43357900399925840237796224902405180916890342927648804566820342184338945895823 10992390283026712810027712114103589298487469494846639667630433892531997882937 2644561440094016841930326717840580096126773207765987505422238101380244643028 3075663108441210511139247467402872371416574780335862714280288128312272956872 78632072196516326474800883452640332909591492569615703210787436624912199410706 5814541191452073400964336666637574101464935946138259132664553159200022157630 75078750277484372027705086824123307032506414945757746978059479924954428387103 1 40713338959831823395865898184564600820763569719882817061398104082958701252797 1 4947258978508634401443377430765445144928401367669557285691355574816121444229 21121279374181869361115637925514818365051779124511815966017700697277607915301 True 3207766815954388467842422392353346176477747342473042385359879535049689244537 False 7426395119825216897126081053762212874995517017399642821967777360910959504627,
     Ed_add_base 91729895503102108864543620133706708905248676407883548291177527090974781754089 902414316122692558865629761661183953655676407081277101811579708831347899080 112848965220495485748617048486558176397917865844597213293205215949166263487336 19898989399909935687657547189062228803059985677802105679503637136993452166030 2943124016820709674953936522129731455352118821043350746252368058746866152563 1 50525342306338460956952798868188691285855593093159721445079818953067263169444 4735477474735270396726345408619419308512498852267533701982733315305850983351 100021994911473708845349630594461974697274780066215121636501607439509262165136 9094186883864943870513983242580692045560374183047731708626360668938098624009 42776685266588708067526227503599860784731445751316951848994669870455819838933 3834698150254463617327759397064941500725928903016397929928140544581549714898 True 41689416778755731778168176963019658144146612372696211537696752433641336234686 False 97467731151660897337448760574520255983669200007042475613120755286821049231,
     Ed_double 41141379646543115143469387456592452927026038335520264574536165077093115617361 15802848143162143417249450415084384478375649557180572451785349473961284157636 61740045241544623737162720378862568025133307217500307670147280156745224519002 126994080514664976777713577454881313595322033652048043575086474626859271849 57342353227945151841892195768922573662460331534487524685731006257935066801252 1416639745825930568904717356585281608694686692679049783152919438634992480759 20598665595001508593693332922270115098107268881980043095611115079652108901641 0 95193423642314686829877652086417792755162715783660520943846468928261020738259 1 47286174134070855786543341154707284721224923384334543339918546056786543845161 1440202793720337178644104369878532272314368088435659799191261277769424010232 True 8411905292238524427943508532628143169358954298956616486912959230689008610326 True 1184000008778517068678981471556153809631328870523708764982318721405519909512]
    (33683050213653020648278182468628761847364229033008629272528878908605765257871, 37331029606741395365081079808422202610273205539470024307491581876433078389304, 3369993333393829974333376885877453834217561576226683150046482187828)
    = Some (47286174134070855786543341154707284721224923384334543339918546056786543845161, 1440202793720337178644104369878532272314368088435659799191261277769424010232, 107839786668602559178668060348078522694961970439253860801487430010518)"
  by (simp only: ed_run_simps)

lemma ed_order_run_36: "ed_run
    [Ed_add_base 90767449985316559440112737277314820248085101664675903619993519981825402726812 588137588161662904450833892074328951630306559754745953277335461893690708230 20956228487786355262720063387488219088392619334056049590087682084327597812968 19690205850649729584214762359882203487394664131382764830577024400335777176180 94835860749529840160850921621199688764877365331584514449369901923585531826931 1 47690587183569288482273485573873175680343882969268559322369723442032115136480 19102432955355408251650219842373641451928202973280809271971439517481938266628 89670471969559376555005656598943349841131084291086704405502188353771818509654 6747479655968439926333830498085707597975583680026900887780121665134023585906 35659851890152512044796678277464580590585547479394426467727999487167010446979 57673746985498339841710763531772135533147976006905136807480650877135249691020 True 6453774251530007619032698717486221802869520224004442652142839138759283125939 False 47235864505480173995263003431639591236400697944043872768092737033062747681667,
     Ed_double 26397792172441792112422679107982502316437081282244493182340965725047394040407 10981968156921452420591525670730040831426788446675059856687680794977374450333 108150235829785777330127863479781492658812970464184519566492247164193008524294 28726151443127499603773881525335783234967552356745769210005987813700641127097 32734692338486684549643324808588771067789705742378086937613606227198468524336 17761466167502316515457393245850846034836131720593143444272496395595064058978 81752443657343985217705184371798990342375889181940026384151281439145614483887 0 34039645579972210205865800636888917510894095483700537655306302568767515156013 1 20332050815655288025906297227560576373010587982413805215759228307698247796721 53922350819820610022582763428601644454111909928749845684575526777602540373518 True 14354994798810832420678504337228904070459702727620261698556763911671900147197 True 15851667612489140466276883677173612542097086193004789282343939265470971792558,
     Ed_double 114032428489030517007917962563734908829387323286021276715861551980847727172613 3570125499015224282695463743226904616942934303082740838155387732394907626086 103851962844646039679258649267205443533612991576568162418297045694812339145778 25110695705443518205750699624376947833399987059455708232470999436498047820877 88604086831409689623222881474630781425328645163198804769542864810843058534938 9468280468808261373741313542824155080987010613586751171149326261466226863730 105611623592931718094911671712158442557495652956187449741893077721877741613063 1 10180465644384477328659313296529465295774331709453114297564506286035388026837 1 50242507862864045129014291616323898158028095038543557661265311507345511726180 28738936282848908552861297545615226914652032367012226095504241913487766328668 False 45825175655157697360884983824316961522585573302021637792188407240713938406868 True 2526733522218975279681118663764382926937449616188676053028390968198218827012,
     Ed_double 81992339919673559120150949871173364874094552205591341460013392175533607731968 21800363159320635070309855786969663230752387968686073604048103272512459020584 86770108966477141928214022286665882814357902096402600209743163772324897444134 7132840111183337951471806867392208176953956522866085088426160673110477009705 75676078839206051315951301163623979338006203949454860695389146824885604629450 12469903960382603654885099525466279932688752703944620279420008726547990457855 4777769046803582808063072415492517940263349890811258749729771596791289712166 0 111014320190512612615507912593195389913006634774829305289727812411121839927734 1 47213513768989031318709365191837782997224605700942164799012088457145018428121 24647234324866477227857489006549381762340335359561312152584915517753859285788 False 1948106007604659853010534977232274764632367554682355671222036910186445181557 False 23630249537543788056743078339746506754556677229273269369703437128460142785605,
     Ed_add_base 69708048650992043236535009754292658161948585545689848602521711106695835935240 10049758535573289755901701212844727860718691561938004295699040653539886358146 34894767700522941279382205208947009075608632113565832153020813931950225371332 15121784600175275881849697324679843309166452132775845420788821807016993757286 80897321536793254144188779799740898777661352552074731886436770075962904268567 1 2017390772605517114451763807835349427109554708602133790901240192526951192310 22102157733284031770132705202340177386454368778096392118971993428409479061137 7928914632187555630949693013361379264014443559738156690905712079039465260428 16020809241324723980218652525823498763872715456307341069049695227294166170603 10780657088011873692095173863374486613782177310246218511429659787704742976020 9960583645259155079940220988912608018877849146799766322875488219803080217478 False 3248827508191609308526380127316832128232754570355923792270562602694398625075 False 6958891087915311273585332261702020169106111193221268329824572664006180210651,
     Ed_double 107341823117963678576541915804476605060888037453016967721379592471567880796310 1003717680670759734661474478491400840538422878416573320189007058237988842705 28868014099948203869849157757786500100629791218247113689373613656408356635286 856822147416879106024089415123091553350713352158934619571506210201279054851 19680398643143814547224920881416280807567803787344061647047077576657710526102 927365914055832486306627604129336643697466554998826401429500731562126883221 37318280219300720716878226961997802893011738430870710007451605192753605478874 1 78473809018015474706692758046690104960258246234769854032005978815159524161026 1 19520993289593675301791621986498411775641279234603098012999461043033004474604 49399524639183804229508180840786175836824236055816958990961529669334933379373 False 6291361547567414317533664415380492691600352115400658488373468992148579275454 False 33478702108664966252679192247291123472610712323481301636245508039981713812499,
     Ed_add_base 28435597580269034382612082704658118651463634506703099175357813311674910360998 8328097328084581784183970888261219785398617316918610999056763166157971483703 62121013606157455017280429154288308669545109621476718061494295625924661131062 6168541365129350277474675320972980766068582264902102967677522114162461494565 53671075631158740406290555854399599183724875044163845977963288381988468508837 1 3834136104126371130817740624760924931979167243997432210794804139311755419954 14255612802027937775260548203968270337602341839240159522691824343063874581184 98508956186218614849925590483573140578939458640442948267272822800489715790878 22307527696315641287420932191370130584892956853370988474464247033207806297645 52866022374841985227542485789639896387365144822978864966374991526001521859937 42272207255388275542905021813636668585854440978608851353251886416287774516488 True 28361962521638506552080912214049772258424044018847895187339738182284395346636 False 19593694592124167665669603497256083994840514707294392147820321085442076055161,
     Ed_double 81630994833495872218696541415065576043134897556641980149853531476433910830209 24136504835052331747423098005240533511579114480570202993853606874933944137120 113218607807256987923548209745063935749633879332527304822534993468573974506454 15432310773667481584753654555632722250290579311773169167075882527231738380905 59515198057993615084564712795048120266037034035331707955778525553849786432074 19299793874667557177916540003694867317398663808601786311066758426010773902459 31587612973761115704851668329998359706498981775885324672681461992140063676245 0 84204476263555079718719316678689548146771002889755239366776122015773065963655 1 4551203492515922517329503580567040517420236449880047851609665108631079977147 33914370255970765644914294603488346863090483971190990106199516017054965386083 True 1241549879903997250141862259092895213311613644023082654218833681850188275991 False 24662667406919814279058660889070418197101513575060309211629316495391606106699]
    (47286174134070855786543341154707284721224923384334543339918546056786543845161, 1440202793720337178644104369878532272314368088435659799191261277769424010232, 107839786668602559178668060348078522694961970439253860801487430010518)
    = Some (4551203492515922517329503580567040517420236449880047851609665108631079977147, 33914370255970765644914294603488346863090483971190990106199516017054965386083, 3450873173395281893717377931138512726238783054056123545647597760336614)"
  by (simp only: ed_run_simps)

lemma ed_order_run_37: "ed_run
    [Ed_add_base 35238385120094165670437224574426618481168180005354399854136950059732589058217 1333002982950839355933792620734291788565883883609302112325711498070048611108 92413582923458337618385636052563302570222562618257935488649183074925252455826 7644271784338666836143913059494234256107168874839499746430839785585632622149 23378506313857857805185348956124605283047422047382628550808400932987877184073 1 25433687383229747454468301559793892466050432350110826772931140425749705811262 6246703202089405901185684972941016767488214834420695973476969907669221785788 14021489443279788542386172015960852453848347786367459899973542940024567879860 14159733365446449039100725070789277192434366266478690817093981714455164994093 24898072446730875058324464635274744103231412362742814476939893381529870263761 3572356243712331394584431853448279708448240053539060300675007062115761895219 True 19871133665914733651159247890460381098582524013687656560226757071856502546332 True 721261301605943837384574100031506835773141489833790673519219953024269128361,
     Ed_double 80127942820018440682106823519641463578466943994019685825405798718954554207287 5353681893519891196890040746704326678535838228890741746233552439074556259433 46469458463294051158635400011946866742986096837118552483447001805129806804955 110212443838328887895945972866898792848487289054381289206541210382029106147 30029320038784100423794608504559820443884202325926094141484381555543529105305 768142151569512077538818735232218801681364918332793740067498208006130999673 82133604880591805900099561500993311017789137508739430697498787094088382237566 1 33658484356724389523471423507694596835480847156901133341958796913824747402334 1 28007100554162193911497947825404195673766719981092104748154988957757924298310 1892464663442303264481743150687121542294508656958639699621386618021879303569 False 19865986924651139217472217028194674258553062700269974594611106428567807832325 False 550102279781637508761871903557593865183544554397776953709249939571740241198,
     Ed_add_base 68597002052892237786113514056589782708115506966292098040567171443786088903960 457738075833476351692138161604439367877262790985955842476078213684255516035 10004744597918957931626377549254235231607433388483703847222897096861773160764 14880764981029995660146165710956258216239542677640440799805546766176801439962 105787344639397237491944607459433672621662551277156860192234686911051356479135 1 6685553384898246678197346813532020517335302272663515085135484021927502946588 11449828984701181959365058632245014771759245555571211848288964066139985496275 69746344431746235673098983318451236724798677020849817635888275581497716812994 4412239913567930942789024100373897108603536976239773118705111471123607610717 43726857591729232589671160113458785147323062147537873899967101955184611880434 14654457685681891066229743770206199244034052426290092959431900339011514259484 False 3778116839901008262632289054162673845251087623002826621762135619938607950339 False 13388273550548342759885890364609951991567770446930313132217660457107014639477,
     Ed_double 23522454422518159196735608467091837728027541822717080609064844071436668634150 16512683098140161314425699556474327133114957108122947765605888704888506565547 77405100642516204511638013728462716349345941350069449549062797238946348675342 1854644228944724665082320043722340031750759950329284627420985050345390129893 66856651516282369091706983780234262375775785487335745507229435248047762660476 5533999675854593572103809118783960216447001463823097715762032040415197926710 53882646219998045314902405261370878621318399527352368939997953167509680041192 0 61909443017318150108668579747317029231951585138288195099459630840403449598708 1 45239298867352071971455422187424767329835932237310608488394325826843554540902 24032635060160304593507287691654709661832266283965059758020181900559423689442 False 21051637915560840741746146239918876512489281192256674038923647170608220688684 False 12849297915021208698603137981311768255416212549336390098980366186716346125378,
     Ed_double 86042970856990881466186102836159603522271309672138989870644762579307208382644 17674732146987194209046268096961670522959419600061377827584628457284966178520 27533716703246468375750994235633752542984431632617506214843864114942367713682 4987970695917922844875241312356337401558769664660054041025448584494594315709 15794775958784093445427741518635023810839154599544250387140016487599984646868 9389411377044388381086739445041072635445442138986150291401114856020243460492 57282835083571782333135876408162056873983106626119080383656685543548288970936 1 58509254153744413090435108600525850979286878039521483655800898464364840668964 1 48817293213565226808069124748884300379850778142562498499897636027429603761404 30367277722626747756509043029546041452780372217781070443500528112750390987582 False 24150120917568125369468703571329537689319689283431659449613010799681578589996 False 15344457310801439919269570677338569283005186623451125840573954311105919816189,
     Ed_add_base 3845783647813853989818542072635960324404545162510326229043539806484421544998 12802673398913767649206392548716391922266399114309547237213626357105397745685 108294598819316809919238995967274216474197848320954455766547820408170706234308 834266818058316215624549249618837631744489253232234709279889581401921029538 7497490417999385504331989041413691379072136344686108272909763599742423405591 1 18014364602046097340356609409995343802638152897002834133909043036850610444648 23490202046499872204772203559483373986921702585911541572566777756770134864522 51767367922258268895288076791979506141153891970378466777001068791351447334852 18518138567437193953060046882739228671321851696035313801556373105618410379162 29150837971814916930324087917526669383155322011530539339262964580447859181202 20886027445211448205564169565203056936974939987073881925517524440748670628303 False 27263333136122734934705569037007744587154053452101617109723578490639360674365 True 1352361734484362544555899817452237205698693485601081182947597968105178628164,
     Ed_double 5505949183972954762577838306031327561384696828632637324066983247486166799544 7338768650398886615014174126314942534118098452047640837750205514086125523870 17507167478355638346463241593186478100493645255115361020893553640768283276167 3767322494268837422915350467645942400176451246585012345222793893006673001729 1646426164884960015573957620727021515447492294238899114787312630416421218876 5258089787830052191247854678374516954559903584925176151243068330106578175085 12001218294382683583885403287155150539108948426482723696826570393282116476623 0 103790870942933511839685581721532757314161036239157840342631013614631013163277 1 25335157397224064810727546649077329020987306241188701084484325885278230524487 56499352931851677030934307074909205277494527853910966412453122714500355443528 True 2625850837041840482367035512299329170897183420131128687469706309259858712650 True 50643503257727270389390483454603132133345300789638023703887087639950124522102,
     Ed_double 4676371109663066328464767698352611914143539305270725870406009933469764647809 5543299240646764428079476389994486316848447713007880649315694504229448851320 110993602689662226092691374063200058335388953046948271476190213195116172869460 27568177608191883197929988974929066892826888583844905760395321569043205079438 48734802885381136001640683608991130660205130049997759782564623164505763485470 12361984387690562058049817054331011907978454684357342512876150474619309506817 106317231579999159764226606364847446421245413741677545605784203261646408221651 0 9474857657317035659344378643840461432024570923963018433673380746266721418249 1 33468246251091802277162750893010513158038490179708009519437843300632902611014 19990701531033070754536670780678670244859385900952709280885457965823267921360 False 30729657878105302643110574922745866095656415902474003751020012965452728200263 True 1635768494411165888129814855875490493863566229268798852228165243949985582339]
    (4551203492515922517329503580567040517420236449880047851609665108631079977147, 33914370255970765644914294603488346863090483971190990106199516017054965386083, 3450873173395281893717377931138512726238783054056123545647597760336614)
    = Some (33468246251091802277162750893010513158038490179708009519437843300632902611014, 19990701531033070754536670780678670244859385900952709280885457965823267921360, 110427941548649020598956093796432407239641057729795953460723128330771700)"
  by (simp only: ed_run_simps)

lemma ed_order_run_38: "ed_run
    [Ed_add_base 22502917339936124371740631989860269217258969490719913022794566058083108901578 5778060711915002563621517880046009131027778695567822045325182449574004335319 114666745298601756512359516398251885228359683009792917933752718100037056673704 4881563542163800723368847736922372469536537046923473254733152244798853092976 1125343938714438911211468610436022624910301655847646105704865907876072966195 1 76438207913085821115333477610004276165143739310287664117983136265005332701614 15996318757859533566483430078263287843470246410560521475929060539878921107877 8239527504630587655981761141944414280788585544440700931714862852803314930568 12364278019305690079623826650495574689731622991364276660962919917873252787570 22447166499508127474527842120993333846123081520558669137059332898312327054959 54265590371628899450116391776266978716474793025414165819494953341467286072549 True 22229010121745884676999942705607955586488516101204662766434692755638985687534 True 527388819112809083376778797616366968365158433569125376461574213140584020681,
     Ed_double 104987864325070299234338494932543800698252199456887175351712929171502559869283 4351551882132001471985687264313120197370925642967945190553489030523581696251 13190282742101436868861010480109162059219730486462311699850044526241721026207 25431394474160849940332646645270697098326365335955679842962634902863871456753 8331037894923651998878377154994639004653734129336542132854557007714952258041 10519792416643782255474762685300219970873372156309874067680366254107059892525 23994507654347333058093500556253269214237515695215700387594699362652290796822 1 91797581582968862365477484452434638639032468970424863651862884645260838843078 1 28453374248227000866266897595044367308303262490350169015129684846287635579551 50392920836618097506333891712514152469691514477864711348785880132440819315019 False 5896125639393602798076832158765110482372474126823031383236350440709264085580 False 39950468915217930086339882659264269637757287669228352445483107957892910018304,
     Ed_add_base 83762391693556861166313879786798581223356429934957327861955299482111501065009 12382958503209097709702473586001586012745344958475372174426475476944692355770 96808603891998082100079098063010925389077960423137463272056895111111003312750 18170596786135277534175257966296841588171760459990193048336256078989241067247 18983485345318113323491886945676982464192024242503100767400688896802126327149 1 51660539070860180361438255606493500192513613440755804082947921002649558495358 17958215002859083937826914771366783794528455517521463394784305880884869265780 77429724551494599367925644305933204443795987712578690291704258915607953543400 23870666317217565145500966918115618824442362493300382908431139074044861730479 1621326940781623262197234775215568553749203287001246320490367674196489544318 32080098788136790842617678490038203060280651919491355901586274469046175576345 False 1355519177720910999710865515056029998254292315212694270618672412057448159770 True 5259358296686583090495522276552817362531997557049948335932959833439087732872,
     Ed_double 33529398058431151403428931269686741135007670236530883843511813028487093277122 22701905339291076271077940124968474224521775305876679075922948510732348549 58618247689728650642646597205773073048212948384126719516536363293923170292781 8887763793150025190574345522996467149718316749457260894283219988468110927978 36851071434129179556780719674822625756109458914990288540293045333218890024834 449187235248365517981972967997685136189230686325997717219247864389889350462 25088849631297499239217665936086331913205278147595835673024550265436077015659 0 90703239606018696184353319072601575940064706518044728366433033742477052624241 1 34384238182073006178069933254488639127672314385114214494712529299097683811614 34251516519615103235380146423070665924645835872818708078242511792528492253171 False 7450085641590953217225724529870311455138488116096582399703573780756046239471 False 26830187884259676575402718299944299165662920753423121884162089727760745718546,
     Ed_add_base 18053611523965395039324981843140640772086827893086155573020086286132831723706 10170921950410009924794053680286929252688412103026292686830989363253493465056 29823859046403435223092954575634388580225931721526923481358319721034183274162 3916374507734288606813266006003384836788991790844045139555873501413691649879 85968230190912760200478030433053519273044052944113640558099264286878946365737 1 53755577998019987555425860741861907692665228923968032128357151664359902475742 18223918606832922142103372459447134631274604616866213908429948918985666412880 6422654252066881650438750087634035961606569292177645816968295061588282496594 18188151670425116620120880921499351174445341301269788354438703446262391474053 28842322866662695101697430760900425762679659409644402323439306366411147837946 9761178027016640074682791369973620950860201088524020599458394503989755496560 False 7428740403701037561417834495607969938672002015186995111668643234841338899672 False 7247051202618890037196071474541242139777452267919610850413404967042904076587,
     Ed_double 54027463632963374331253505352415281194287919986443101436799288557479709999194 7184252342488391873161251437726644639600966384991636877034383887323779945689 80380041756944438449304203802992350142308928528196467740059764616255210519578 822859291189008860854137901870318918969664389221916021609022027637328771039 99030941211481198571690734402518445987086259581407237431418815197110235472296 2431384130544364366548221949744416183549719146086779529742250679783002769868 26352578123981064118050698450577068948021008541753366303260476058775500520384 0 89439511113335131305520286558110838905248976123887197736197107949137629119516 1 37506276807084222626353825328018893399078232438955536360852282380883455200981 2492126853213382445177156677230850023112426627203254834806236867597778582191 False 8535877504314168345760963954272368098431066706540681245627710148594199566744 False 1924955399388261636325588257399350162304657163687669081421477976529624289208,
     Ed_double 26475907896131564535681443347048412933494116545761916510613433484765389362043 12148677938149521093932143648460095345798570505421073938246040911241462855291 71693042972204003147005547491076753023538673352535365713050119783608762569223 53636619681145897057825286340901551884777735188516119442561930843081908321 31152302965612620816069688738776795960691798906091808345880112186316109077945 807226125814355416539568576501479435125290112944724028492582992584250092437 45217135076072438611324104144028340090044556806773449202436686298843373207180 0 70574954161243756812246880864659567763225427858867114837020897709069756432720 1 22847219772423635185681153393094833246866319033157594545808682649676972131368 24427505239755214185516880459940309536382996784490331653087388143460021280905 False 8921903295527213149486265216775455981699995473263115996348062741451684513075 False 14888496044284896613303171374895114208957161545496684102226164206020639635683,
     Ed_add_base 89550091643245178834349187094694670164559760614841481707791530016781423615042 4819850685662028719996618944738293155237402039157969824933417638190892365951 69975990334183707121316403085274961336152848790837842492158598652557152693986 19426123998033303944445719552307392405759619898155757320178298813470476388079 45816098903132488302254581923412946517117135874802721547298985355355976945913 1 99362168046838472156925078921919102572860363599080988647089222378035611690924 12326962920238443133833879538575372591373499565103028369398887599191706279067 98457018857979596073295906529504934654083935408434492521223659622960745556518 12752831378856911883512496905534972441640059674772947129195289153081231543141 15607491374204947381801637572098982197401030839946607366513930992352658701411 26091167286181408863558197301785676569014798891055641832243596720412745066288 True 9431988599012643537669294130246859218269540398872746996090783764593671897208 False 10323637035617312715756224284667030666848193220307743935358213251275484730937]
    (33468246251091802277162750893010513158038490179708009519437843300632902611014, 19990701531033070754536670780678670244859385900952709280885457965823267921360, 110427941548649020598956093796432407239641057729795953460723128330771700)
    = Some (15607491374204947381801637572098982197401030839946607366513930992352658701411, 26091167286181408863558197301785676569014798891055641832243596720412745066288, 1766847064778384329583297500742918515834256923676735255371570053292347229)"
  by (simp only: ed_run_simps)

lemma ed_order_run_39: "ed_run
    [Ed_double 26387660839857817193340104406653437479009166129056943101103852974161939628847 2103717003470208757973117384239159123227357334517136288958555841399686113313 93730710430782805310993192410787370266226486371150596778949679291198182295218 5879063197143856979794513110124216899510270313527147267362460219439082498787 96697033829455001264450378007090739098363777720043551880532991320691760602448 3516800422586908750806553493830550320545225152056800925287083202460841883040 67343049590924988117653088004133932787217320242093653677845826317036242666371 0 48449039646391207305917897004553975066052664423546910361611757690876886973529 1 8339407891475578256109406314033389688077825897931079265545181224721380128309 14411104097030611677840457467204474875789736621984749864130968427849626073984 True 4850082271540916632133457109748055804748613718856959697405036829666011701453 True 6029808757611546258365915964206452346909166875723113513351739068813590677789,
     Ed_double 98845443671491029727954990009872312023279832360060106278476766006814742671427 600608594580852612480061938997934168089944636887150619750345727214153854823 9047904965123393813053298988479005256630821112390612786264784593888816283478 1793558805816275838119859271967557250097665157132816003423309276048342967561 66517430323993746736988801312674659745327949406403079180538131195558677829070 1037895386664487381680488909656399859053894128856023646017702609097880240157 25994550530948559508669293987294601086620973417971070547245602594987203251949 1 89797538706367635914901691021393306766649011247669493492211981412925926387951 1 39264564646777584416147252555802575144227215801683492967450929427167060917054 40065731243285388296861411513965264594756594454614871647746646604496551058896 False 8814632471951527307066185991237288309302873632386805377335118173198429195097 True 31071242222291488053860447319422867649190345654525432087454171710624372289929,
     Ed_double 8732619721342024046955261249103374742713886629714326427189325629238741048922 13314433197083485573133852765320496876365523860424010842402496376452403097353 50075401408821587013478170636668334422151334343655534774991492763042808139816 13863320289257278013768611170456935903412267380148317315364566489084762425500 53922097705312781189386445458699039873022296289710781231146543816227405246340 13586105103416804205665657702784256344748164306050466196967980927611105023078 41342781687479562966522909387564959679437447713941208347802167133804067090894 0 74449307549836632457048075621122948173832536951699355691655416874109062549006 1 44880989264414195861500069738921222519456978269966649804517089717879672848313 1546339169748125145722901462106044967887532546555657227775867959589051460664 False 16024453425949744779275727360672265279139456781668029072492660643551367671479 False 994229236066295545431813607581196600543900301352243630347064524974772433027,
     Ed_add_base 58115610232253915381947062189397643388031497622794671715356070882265172929176 599360734690353123268310498515612882366764339460969450067997447826578321072 30850388794461008356340749867904762765060952389244797150867762825686489515352 12607034006070678079820736968924775366762846000213809578272067535884281798484 84941700442855187067230235140783145088209032276395766888589821182226640124547 1 49659763880838246870671765460168754460901924209741993708253754409063041241934 18154211045385265088469145820343697910402296767090767176293198957286228946513 77030481923248883612693360382294755663226160676569359314655857304646156200298 6476029462314438396344128069890663794509907053646135533211364585690117408016 18053222263634361305855105219809109573232490017589156119389911819071556298256 1634416155515521967732387716334528856130276468544269853481625711525712847514 False 4809904800011606946460610300801013594972796375052315582091837625875576512133 False 1198960036002371892729850573533893427946419698564707864420054766504825408570,
     Ed_double 68073328602677440910724386604288090715796068664282635192869086554754479810594 2814689986569046643240993999362772158756337277987901632103781495349552085579 62887731590077327780873335103459194261718178934566334444977814689353899515178 23069936702975185834081438887303483400573004977116834780299806097396615441 7795170134098059586683686054241519394804616408906916466783473428491460038098 254822918570221979973432395554829481723523000036306654862909066229460895907 110606492224716082293719933507859011399192094935924263291566312142512549344482 1 5185597012600113129851051500828896454077889729716300747891271865400580295418 1 34144957097517302969900519650324142526391146976073663008844441055809135266959 13477872844461983576805325086849635354223631478547208319393978535174704114081 False 32615819928592440229394844507806618490004679860411562142129672363426772706529 False 603588877433628779660123923386989091052027365809345083917614989604350757107,
     Ed_add_base 23004988184981747185839449076670663887397257975086836799161349176390215010943 3974376773673752028256926002297350367393530421721950479613799025769607819032 23967646032946898628064432545590231535941203324023685575583399675432548192102 4990477897388688208844344951949655361314288953335719304513711213541656388895 91824443204369296795506552463097676317328781341616878463874184332480581447797 1 17620353380395366217522583028665622574999535073710414025271099506079377965980 15417002812547236885746986960041641037631365080102008651479796059817239715039 28139801929790268508738956058436841492745000798892631229601934687333039804664 9847465221438101720791844197290585722396499262704728595156194685238691086943 25036327314646752809446091612251300931583514095727444226340371576570197130530 20718649112110971591101687240541283720274203768004015509479259840302106251880 False 5182235116361230885434173025048871279411142452729909115397300000241797858445 False 16430124296031619931013595224461177401978068967460486934849361485488425960552,
     Ed_double 36780633665985478537941956175794129765913030000297837223406554718976728174268 5413303184481476694302111359324315950538408761234570035623329739840557802484 75412824743950555819963328007252514619347468622165612192542389022286889941474 3707182622389706396720960698621120080938980598200284788867492217239802834187 72829532641209273450577474299189320379398193075437690942003917585093319694318 4479743686332577371959776472564283146654806514424996598922864675847449103509 38632191077965077282021371831458384853434438621867774969135834303310161767206 0 77159898159351118141549613177229522999835546043772789070321749704602967872694 1 48602127682807241686792544930334912770734280407262349510648378981754656774796 14896546008551902507861833581581249897269383101427497819164763597328000121031 False 16215327798341262478127072911160743010527554508880064925651747078288696082830 False 9926550082279127798742180865953915186755600463048667437800935837132211853414,
     Ed_add_base 82572270591323554428055353489464851259169719405094253370389989456699403732508 6252619120263080852483223169257411512705586471997623232276181949191192663116 103879721864116606432132688604464174674757310848244249641542418447831596259884 17912423514836294989499914846950313401015311975287075345384093773651826682506 11912367373199588991438296404223733178512673817396314397915165560081533380015 1 100306832069818190047818240514670977359170944874261768601353831099778396827292 21385024480024559738459386516675950818889458644964466175956190608040200027185 25046552076208403291088717051308787821881921682392803037330959333789720291172 12301764264582604900699980480087562046378276171647193974011510774467024852310 25452525139586193577814080180147294761845195363170810351692420795700209202037 9955479218950249630024612020081751001364681705065937858489586508707314000519 True 22834040301499024882113026519279060817365549341340538884645594021668120323348 True 1024191951397751739070432873868493021884419590582331648005327353277017788268]
    (15607491374204947381801637572098982197401030839946607366513930992352658701411, 26091167286181408863558197301785676569014798891055641832243596720412745066288, 1766847064778384329583297500742918515834256923676735255371570053292347229)
    = Some (25452525139586193577814080180147294761845195363170810351692420795700209202037, 9955479218950249630024612020081751001364681705065937858489586508707314000519, 56539106072908298546665520023773392506696221557655528171890241705355111335)"
  by (simp only: ed_run_simps)

lemma ed_order_run_40: "ed_run
    [Ed_double 63370057907381371836657622437110107421500481034579240582640172182517723552967 5594778021955677373284772755737484624555222723368123718325442034080908264349 41993070079233513751009675288627459563312559363983493064174326305743196225517 855944193871662966782030359936119672475387544068330849572358864607900979178 42008066669917239945342136705627323923577461677634826884722048845434803609027 2188336757424174274144739390026403299163798715020969266456825278603843700312 94415101409168337337923037860205259995082062995044816520991738131138602312448 1 21376987828147858085647947148482647858187921670595747518465845876774527327452 1 38823202192124254823219545279976819572354035081847699169591199256710391515063 26488032689393992913822052743315664127874533080011939685237019824962035270410 False 31655846233896108598815401731244978266252503591404651828127715598479730523665 False 4890095308948603103989184350089373370656860076315569030231817787460994607482,
     Ed_add_base 86099989455009085238493296650860798513088532609712190630616570158251519589722 8881006082067775905941762291908022431301402745028724942191321528700219939646 18234708207899363743760903124338899277060922935501645780547204992556248216478 18677692458939330115942643025658420682628422645206587602399049245811240435465 97557381029416831679810081884349008576209061730138918258910379015356881423421 1 62485847170477469937944046269064330431318200896584008612538780914614938325482 18986278809544826738498199516334320635241609813153522555869469268356559021541 6569500695164572602722161242668043415651412599766007536880881269321199943710 15662094836761983515810159475804353725612772938867968279853510914264247761092 29480407674484881991165473992333333532656185409511787335224061812275946374726 8047385049404066477546574034471471023683495617186820188619048946815956201004 False 4642516041768662000130414130720166331342683514994496650215242106544100754664 False 6780098836856787748268768696911642472430153396873546392447765328639137156363,
     Ed_double 13498952683569314453862821446859133914860943215094634815263188388933048962718 7505646045237302560205341711736467262365585791380134365245887184898089900271 62812915281881910514154269214036736060693365828899672607282413108870563790358 559281783064173447419913451764376299943946119897792022539976490477347055121 902508306019616097607143607275218460423164931525852396789083865632144470710 2048846285895767344014347713964608687943864082909480137508385235609917470253 49313962598312596060291447767177602145832422613805037792019224719937514827640 0 66478126639003599363279537241510305707437562051835526247438359287975614812260 1 40723064091278394470160226633226033255871972153633611957575699319485813703775 52428304004418591725394878486448937626966356733106605391415261096087565531150 False 17343288930301154919435790909262173695835015739945477845293642496712962264710 False 30099944271069454562887846187011646516590774271818524805996151927955806580138,
     Ed_add_base 85911245305128661071169066489921384375913429099209408838112474615336399700840 18438575538551631209457951642374395342447401619077051677779089455790957827545 27315613794989525650095218252133897562876984928819488205352127640262485173574 18636748142834243536670580343558472429604140603978746454221415188593337094657 88476475442326669773475766756554010290392999736821075834105456367650644466325 1 72954649235023688718671761192147134365349845877237183945894289680192089581018 23131732238768696393135296182405245122266436891273529758651093584256806279409 47864476629537443901083496988333432167267583361299490430516873963347098474106 26286157551548247283229468740155750863232906274588548126894836876146846269878 14468465919551656594788940210003176114366628755067019173999132446022708953956 14365702671583615013167551189811344678142067377534549506927962054433563455958 False 3413143590961959343178060571891867886486899671708308770324622204041701778709 False 10976801161512524886121196546214054441423972097634732452591104904202450340978,
     Ed_double 61057217788065878780571973880131324079376835040228288662682909778103906319796 1807865351113857500906267374017537421880458170961146772727052949818443563430 72463549208908226636611934808925946549978124445928078472529341372616240254510 1782275582102865018760927081645523316992925615886201819944238251064998277223 109037207940520527739466021578691194748628098266573439679815877162173015136158 1795024866407162290749725763959817786462410949007548055654787798320289837905 11406331420842347856039960928794622470601289405699789809846431594512333934714 0 104385757816473847567531024079893285382668695259940774229611152413400795705186 1 33908238402890978490375835200266742769172485184974421439498022467306534363207 11561374258965942087571714298305826102868468939589988506543073232105665007373 False 3340198865637748637204455847550549582151652480774444853421905901677769091809 False 10422497956217078566015747717689990908069009717046014043679473966711805560764,
     Ed_double 90899847756117090129669579843760341410950586759167988255610959431940327312207 9929595701748127730013752963581038855815342229553748598698975305543016662229 114006446703057576715894971175404679540761237653491614880579265969748573594923 1154356706371648108180085177233476841596610708846376610736487805197842179547 2488069719491771366864006411325375887293944675091313884768527123498010614443 3385601185885904463057556416421191111681086907558445688084518768062137273816 23106598946940486586225391331644338129810650894323626624968306537808246282716 0 92685490290375708837345593677043569723459333771316937414489277470104883357184 1 51807256109180004044237420629385641666284612334529300788108844370624048629136 6703519720479716095729827217348405258395122028821743400690375244702634681232 False 10338266606476170176782997137920919727793535489330923300930165882360130182505 False 5365815713804678326417353290577538187996315215113636096954586677275388354671,
     Ed_add_base 60562243842937172748374080298638499038260056473459190998118020377112449178864 2999263294058522864648039219538418308395967892505663352869100471910307778856 35461402494982789107892869334525602709537029749262665376070873469567685765308 13137782853187843606459918231934883013286748299546286285831331029177228062666 80330686742333406315678115674162305143732954916377898663386710538345443874591 1 66271410902008391875824305931044351758353836463285018646455053029320822312990 21597790136813457326132302495995490588633434431005539528730656565452772988133 63492892939568450155494028509713520873373925368990850132624324825736899192064 9442860479563617994340347637402020697331630200377060714255342693701565629136 15289731748132165646149198412199763807897871159798043259304613122779778607251 14236063193093128168129286054882270282460430183359107066080112890724734685857 True 4682490273144659854785727374504672015339576177275491931729054467885524579190 True 9876259598914657954360511063633251375391742962731392363329529805068086705613,
     Ed_double 3153294612711581534273750997187919972503105807736811397552974848662372972477 2018928050004490085629834959921811942853123299840284291649407472795277465838 83006867939762511691374466289790901217945502534193694954537914406613094570947 1750253377174820982145830794403592360226664815212800533766054455241418638299 27247742922603722961125010286627589129735758540651857821119812095513345529899 1879796701186948732464351719420510228940905555411019535069292424836032780596 79853573327050930157100715292602981245442396726456883556984939557950721598470 0 35938515910265265266470269716084926607827587939183680482472644449962408041430 1 50312939540898636350818742489147235214811487820615099797501150463460839580994 55386695404241615358924637345021854539715644425831568808103224120380294194155 False 34697258106245998669438211589494874849980861575430699663488893365221772552359 False 17190428526795006227897953270728920551335423584754589000492575855508348239037]
    (25452525139586193577814080180147294761845195363170810351692420795700209202037, 9955479218950249630024612020081751001364681705065937858489586508707314000519, 56539106072908298546665520023773392506696221557655528171890241705355111335)
    = Some (50312939540898636350818742489147235214811487820615099797501150463460839580994, 55386695404241615358924637345021854539715644425831568808103224120380294194155, 1809251394333065553493296640760748560214279089844976901500487734571363562746)"
  by (simp only: ed_run_simps)

lemma ed_order_run_41: "ed_run
    [Ed_add_base 71540944827168491190864655565535616321526171070324777407950495360334729094550 24066129867753697510048484875892935743779221924479897403955472243870434890240 97826852538326535219619409249127418627822941873473788478835479817752289172350 15519395230611861960570791606004931565401261106402861970442634502672061743825 17965236698989660203951575759560489225447042792166775560622104190160840467549 1 104637500343824511169797840443784904842941473058996317771603802122408003003936 27353787082304642561393677446891586157802675588750355986296933319619292133043 15773962163521899199640531242430650666979831095985013464339144814311336126100 28721104971126889600543050603654904812378146409902896704540266738983066933956 51872155851566556063538290990191317148460249988409666650861039146474861596918 11802273043629714068065006270029927896359548511386885817262733898970000288062 False 43824148737277838869596043258415069685403289863714089738256215528946648954409 False 1831132249288253151109527884751559582200425663514074070094711893641773233981,
     Ed_double 21646175586890248743471995472950281459057024977471780625624944011042953888860 23237516227680904528866147225385717968481348681316832503633664586406714571668 15831922513782202560986940842324029330760155014020081968305375440807193394190 1202963431386974025657304336719270987254863160951067188592393537586067798023 79840152418768917984013384070057309964658184410839423618025328889996075839300 5287143109294613493603098736134784012478357323090050084709393299480231483592 109977836164208149241085930378061655724973114702188865382138015437677369145228 1 5814253073108046182485054630626252128296869963451698657319568570235760494672 1 21899774947921560910852297759271069639382909542664740987399982237893057430496 50991681853204441562074798379791702070647292781544839766488688163191875246508 False 20800124405038940886293308823828878647217540672742689227372557820756704974956 False 2560438669608146996341679067603293935773713213954333877502711468518262954487,
     Ed_double 28519248218138877393578600314457690706088936825655663467604991332797571790646 4141907672005736379701926683727943292358906445218034921291623902572951839065 48294345414569544922300593302254882300776777981878510298913927188761660752106 22455347643735846946035304993850137531783123804240303058371742071566166225471 9661775355283160961256115362803031478898815065432349826653285188877071470184 9644064323880541165478562128534628006454326286398608154822341640418882155708 19775097196430667528721992987797191594687841156222846831308935855964088961460 0 96016992040885527894848992020890716258582143509417717208148648151949040678440 1 42783823269122696939284341094755422415180979639778424813682678720006717057747 46316835694926478169428394003475163141307993866256225615783033603165251855960 False 7306667227048843842097590903581012427472878185151858160386019587956875126174 False 38406796816354211157939596808356286503432857403767086883259459260779616271376,
     Ed_add_base 11068640767834918466713275874066756361490786778694627043054626174422747718218 17113529307649078775713736437902168966072391855911369925473071488002686823099 104926216516520702118497861220992153742308141460268166265932892967420426177122 2401123037397436792463156656059071553593336326709559684513416320807970337855 10865872720795493305073123787695754110961843205372397773524691040492703462777 1 0 23158417847463239084714197001737581570653996933128112807891516801582625927980 68761917339453591016858616292039708037596835538192679793253483044449268282726 24110523392417450383743188931991063603468772165618375302294679126478704795316 0 57896044618658097711785492504343953926634992332820282019728792003956564819950 False 0 False 5432936360397746652536561893847877055480921602686198886762345520246351731388]
    (50312939540898636350818742489147235214811487820615099797501150463460839580994, 55386695404241615358924637345021854539715644425831568808103224120380294194155, 1809251394333065553493296640760748560214279089844976901500487734571363562746)
    = Some (0, 57896044618658097711785492504343953926634992332820282019728792003956564819950, 7237005577332262213973186563042994240857116359379907606001950938285454250989)"
  by (simp only: ed_run_simps)

section \<open>The order\<close>

lemma ed_base_order: "ed_repeat ed_order ed_base = edwards_zero"
proof -
  note r1 = ed_run_state [OF ed_order_run_1 ed_run_start]
  note r2 = ed_run_state [OF ed_order_run_2 r1]
  note r3 = ed_run_state [OF ed_order_run_3 r2]
  note r4 = ed_run_state [OF ed_order_run_4 r3]
  note r5 = ed_run_state [OF ed_order_run_5 r4]
  note r6 = ed_run_state [OF ed_order_run_6 r5]
  note r7 = ed_run_state [OF ed_order_run_7 r6]
  note r8 = ed_run_state [OF ed_order_run_8 r7]
  note r9 = ed_run_state [OF ed_order_run_9 r8]
  note r10 = ed_run_state [OF ed_order_run_10 r9]
  note r11 = ed_run_state [OF ed_order_run_11 r10]
  note r12 = ed_run_state [OF ed_order_run_12 r11]
  note r13 = ed_run_state [OF ed_order_run_13 r12]
  note r14 = ed_run_state [OF ed_order_run_14 r13]
  note r15 = ed_run_state [OF ed_order_run_15 r14]
  note r16 = ed_run_state [OF ed_order_run_16 r15]
  note r17 = ed_run_state [OF ed_order_run_17 r16]
  note r18 = ed_run_state [OF ed_order_run_18 r17]
  note r19 = ed_run_state [OF ed_order_run_19 r18]
  note r20 = ed_run_state [OF ed_order_run_20 r19]
  note r21 = ed_run_state [OF ed_order_run_21 r20]
  note r22 = ed_run_state [OF ed_order_run_22 r21]
  note r23 = ed_run_state [OF ed_order_run_23 r22]
  note r24 = ed_run_state [OF ed_order_run_24 r23]
  note r25 = ed_run_state [OF ed_order_run_25 r24]
  note r26 = ed_run_state [OF ed_order_run_26 r25]
  note r27 = ed_run_state [OF ed_order_run_27 r26]
  note r28 = ed_run_state [OF ed_order_run_28 r27]
  note r29 = ed_run_state [OF ed_order_run_29 r28]
  note r30 = ed_run_state [OF ed_order_run_30 r29]
  note r31 = ed_run_state [OF ed_order_run_31 r30]
  note r32 = ed_run_state [OF ed_order_run_32 r31]
  note r33 = ed_run_state [OF ed_order_run_33 r32]
  note r34 = ed_run_state [OF ed_order_run_34 r33]
  note r35 = ed_run_state [OF ed_order_run_35 r34]
  note r36 = ed_run_state [OF ed_order_run_36 r35]
  note r37 = ed_run_state [OF ed_order_run_37 r36]
  note r38 = ed_run_state [OF ed_order_run_38 r37]
  note r39 = ed_run_state [OF ed_order_run_39 r38]
  note r40 = ed_run_state [OF ed_order_run_40 r39]
  note r41 = ed_run_state [OF ed_order_run_41 r40]
  have n: "ed_order = 7237005577332262213973186563042994240857116359379907606001950938285454250989" by (simp add: ed_order_def)
  have "(of_nat 57896044618658097711785492504343953926634992332820282019728792003956564819950 :: ef) = of_nat 1" by (rule ef_eqI) (simp add: ed_p_numeral)
  then show ?thesis using r41 unfolding n by (simp add: ed_state_def edwards_zero_def)
qed

lemma ed_base_periodic: "ed_repeat (k mod ed_order) ed_base = ed_repeat k ed_base"
  by (rule ed.repeat_periodic [OF ed_base_on_curve ed_base_order])

end
