(* ===== verification/Ed25519_Signatures.thy ===== *)
theory Ed25519_Signatures
  imports Ed25519_Order
begin

text \<open>
  What signing and verifying of src/ed25519.cpp compute: the signatures of RFC 8032 over the group of
  theory Edwards. The base point has the order of the group_order bytes, so what is signed is
  verified.
\<close>

section \<open>Hashing and scalars\<close>

lemma ed_sha512_run_absorbed:
  assumes "sha512_absorbed c msg" "list_all (\<lambda>part. length part < 2 ^ 64) parts"
  shows "ed_sha512_run c parts = Inr (sha512 (msg @ concat parts))"
  using assms
proof (induction parts arbitrary: c msg)
  case (Cons part parts)
  note u = sha512_update_absorbed [OF Cons.prems(1), of part]
  then have "fst (sha512_update c part) = Inr ()" "sha512_absorbed (snd (sha512_update c part)) (msg @ part)"
    using Cons.prems(2) by simp_all
  then show ?case using Cons.IH [of "snd (sha512_update c part)" "msg @ part"] Cons.prems(2)
    by (cases "sha512_update c part") simp
qed (simp add: sha512_final_absorbed)

lemma ed_sha512_value: "list_all (\<lambda>part. length part < 2 ^ 64) parts \<Longrightarrow> ed_sha512 parts = Inr (sha512 (concat parts))"
  unfolding ed_sha512_def using ed_sha512_run_absorbed [OF sha512_absorbed_new] by simp

lemma ed_order_bounds: "0 < ed_order" "ed_order < 256 ^ 32"
  by (simp_all add: ed_order_def)

lemma ed_reduce_value: "\<exists>v. ed_reduce_mod_order bs = Inr v \<and> bi_val v = le_val bs mod ed_order"
proof -
  obtain v where v: "ed_from_le_bytes bs = Inr v" "bi_val v = le_val bs" using ed_from_le_val by blast
  obtain m where m: "ed_group_order = Inr m" "bi_val m = ed_order" by (rule ed_order_number)
  show ?thesis using bi_mod_add_val [of m v "eb 0"] ed_order_bounds by (simp add: ed_reduce_mod_order_def v m)
qed

lemma ed_order_fixed: "bi_val v = n mod ed_order \<Longrightarrow> ed_to_fixed_le_bytes v 32 = Inr (le_bytes 32 (n mod ed_order))"
proof -
  assume v: "bi_val v = n mod ed_order"
  have "n mod ed_order < 256 ^ 32" by (rule less_trans [OF mod_less_divisor ed_order_bounds(2)]) (rule ed_order_bounds)
  then show ?thesis using ed_to_fixed_le_val [of v 32] v by simp
qed

lemma le_val_order [simp]: "le_val (le_bytes 32 (n mod ed_order)) = n mod ed_order"
proof -
  have "n mod ed_order < 256 ^ 32" by (rule less_trans [OF mod_less_divisor ed_order_bounds(2)]) (rule ed_order_bounds)
  then show ?thesis unfolding le_val_le_bytes by (rule mod_less)
qed

lemma ed_scalar_canonical: "ed_scalar_is_canonical bs = Inr (le_val bs < ed_order)"
proof -
  obtain v where v: "ed_from_le_bytes bs = Inr v" "bi_val v = le_val bs" using ed_from_le_val by blast
  obtain m where m: "ed_group_order = Inr m" "bi_val m = ed_order" by (rule ed_order_number)
  show ?thesis by (simp add: ed_scalar_is_canonical_def v m bi_compare_val)
qed

lemma ed_base_decoded: obtains B where "ed_decode_point ed_base_point_bytes = Inr B" "ext_denotes B ed_base"
  using ed_decode_encode [OF ed_base_on_curve] by (auto simp: ed_base_encoded)

section \<open>The signature of a message\<close>

definition ed_secret_scalar :: "bytes \<Rightarrow> nat" where
  "ed_secret_scalar seed = le_val (ed_clamp_scalar (take 32 (sha512 seed)))"

definition ed_public_point :: "bytes \<Rightarrow> ef edwards_point" where
  "ed_public_point seed = ed_repeat (ed_secret_scalar seed) ed_base"

definition ed_nonce :: "bytes \<Rightarrow> bytes \<Rightarrow> nat" where
  "ed_nonce seed message = le_val (sha512 (drop 32 (sha512 seed) @ message)) mod ed_order"

definition ed_challenge :: "ef edwards_point \<Rightarrow> ef edwards_point \<Rightarrow> bytes \<Rightarrow> nat" where
  "ed_challenge R A message = le_val (sha512 (ed_encode R @ ed_encode A @ message)) mod ed_order"

definition ed_signature :: "bytes \<Rightarrow> bytes \<Rightarrow> bytes" where
  "ed_signature seed message =
     (let r = ed_nonce seed message; R = ed_repeat r ed_base; k = ed_challenge R (ed_public_point seed) message
      in ed_encode R @ le_bytes 32 ((r + k * ed_secret_scalar seed) mod ed_order))"

text \<open>The equation that a verifier checks.\<close>

definition ed_valid :: "ef edwards_point \<Rightarrow> ef edwards_point \<Rightarrow> nat \<Rightarrow> bytes \<Rightarrow> bool" where
  "ed_valid A R s message \<longleftrightarrow> s < ed_order \<and> ed_repeat s ed_base = ed_add R (ed_repeat (ed_challenge R A message) A)"

lemma ed_public_point_on_curve [simp]: "ed_curve (ed_public_point seed)"
  by (simp add: ed_public_point_def del: edwards_curve.simps)

lemma ed_signature_valid:
  fixes seed message :: bytes
  defines "r \<equiv> ed_nonce seed message" and "A \<equiv> ed_public_point seed"
  defines "R \<equiv> ed_repeat r ed_base"
  shows "ed_valid A R ((r + ed_challenge R A message * ed_secret_scalar seed) mod ed_order) message"
proof -
  note base = ed_base_on_curve
  define k where "k = ed_challenge R A message"
  have "ed_repeat ((r + k * ed_secret_scalar seed) mod ed_order) ed_base = ed_repeat (r + k * ed_secret_scalar seed) ed_base"
    by (rule ed_base_periodic)
  also have "\<dots> = ed_add R (ed_repeat k A)"
    by (simp only: ed.repeat_add [OF base] ed.repeat_mult [OF base] R_def A_def ed_public_point_def)
  finally show ?thesis using ed_order_bounds by (simp add: ed_valid_def k_def del: edwards_add.simps)
qed

lemma sign_ed25519_value:
  assumes "length seed = 32" "length message < 2 ^ 64"
  shows "sign_ed25519_seed seed message = Inr (ed_signature seed message)"
proof -
  obtain B where B: "ed_decode_point ed_base_point_bytes = Inr B" "ext_denotes B ed_base" by (rule ed_base_decoded)
  define scalar where "scalar = ed_clamp_scalar (take 32 (sha512 seed))"
  define A where "A = ed_public_point seed"
  obtain a where a: "ed_scalar_multiply scalar B = Inr a" "ext_denotes a A"
    using ed_scalar_multiply_denotes [OF B(2), of scalar] by (auto simp: A_def ed_public_point_def ed_secret_scalar_def scalar_def)
  define r where "r = ed_nonce seed message"
  define R where "R = ed_repeat r ed_base"
  obtain v where v: "ed_reduce_mod_order (sha512 (drop 32 (sha512 seed) @ message)) = Inr v" "bi_val v = r"
    using ed_reduce_value by (auto simp: r_def ed_nonce_def)
  have v32: "ed_to_fixed_le_bytes v 32 = Inr (le_bytes 32 r)" "le_val (le_bytes 32 r) = r"
    using ed_order_fixed [of v] v(2) by (simp_all add: r_def ed_nonce_def)
  obtain p where p: "ed_scalar_multiply (le_bytes 32 r) B = Inr p" "ext_denotes p R"
    using ed_scalar_multiply_denotes [OF B(2), of "le_bytes 32 r"] unfolding v32(2) R_def by blast
  define k where "k = ed_challenge R A message"
  obtain h where h: "ed_reduce_mod_order (sha512 (ed_encode R @ ed_encode A @ message)) = Inr h" "bi_val h = k"
    using ed_reduce_value by (auto simp: k_def ed_challenge_def)
  obtain s where s: "ed_from_le_bytes scalar = Inr s" "bi_val s = ed_secret_scalar seed"
    using ed_from_le_val by (auto simp: ed_secret_scalar_def scalar_def)
  obtain m where m: "ed_group_order = Inr m" "bi_val m = ed_order" by (rule ed_order_number)
  have m0: "bi_val m \<noteq> 0" using m(2) ed_order_bounds(1) by simp
  obtain t where t: "bi_mod_multiply h s m = Inr t" "bi_val t = k * ed_secret_scalar seed mod ed_order"
    using bi_mod_multiply_val [OF m0, of h s] h(2) s(2) m(2) by auto
  obtain u where u: "bi_mod_add v t m = Inr u" "bi_val u = (r + k * ed_secret_scalar seed) mod ed_order"
    using bi_mod_add_val [OF m0, of v t] v(2) t(2) m(2) by (auto simp: mod_add_right_eq)
  have hashes: "ed_sha512 [seed] = Inr (sha512 seed)"
    "ed_sha512 [drop 32 (sha512 seed), message] = Inr (sha512 (drop 32 (sha512 seed) @ message))"
    "ed_sha512 [ed_encode R, ed_encode A, message] = Inr (sha512 (ed_encode R @ ed_encode A @ message))"
    using assms by (simp_all add: ed_sha512_value)
  show ?thesis
    unfolding sign_ed25519_seed_def hashes(1) rbind_simps scalar_def [symmetric] Let_def
    by (simp add: assms(1) B(1) a(1) hashes v(1) v32(1) p(1) ed_encode_denotes [OF a(2)] ed_encode_denotes [OF p(2)] h(1) s(1)
        ed_multiply_mod_order_def ed_add_mod_order_def m(1) t(1) u(1) ed_order_fixed [OF u(2)])
      (simp add: ed_signature_def Let_def r_def [symmetric] R_def [symmetric] A_def [symmetric] k_def [symmetric])
qed

section \<open>Verifying\<close>

lemma verify_ed25519_value:
  assumes "length message < 2 ^ 64" "length signature = 64" "le_val (drop 32 signature) < ed_order" and A: "ed_curve A"
  shows "verify_ed25519 (ed_encode A) signature message =
    Inr (\<exists>R. ed_curve R \<and> take 32 signature = ed_encode R \<and> ed_valid A R (le_val (drop 32 signature)) message)"
proof -
  obtain B where B: "ed_decode_point ed_base_point_bytes = Inr B" "ext_denotes B ed_base" by (rule ed_base_decoded)
  obtain a where a: "ed_decode_point (ed_encode A) = Inr a" "ext_denotes a A" using ed_decode_encode [OF A] by blast
  have last: "take 32 (drop 32 signature) = drop 32 signature" using assms(2) by simp
  note start = verify_ed25519_def ed_scalar_canonical last
  show ?thesis
  proof (cases "ed_decode_point (take 32 signature)")
    case (Inl e)
    then have "\<nexists>R. ed_curve R \<and> take 32 signature = ed_encode R" using ed_decode_encode by fastforce
    then show ?thesis using Inl assms(2,3) by (auto simp: start a(1) simp del: edwards_curve.simps split_paired_Ex split_paired_All)
  next
    case (Inr p)
    then obtain R where R: "ed_curve R" "take 32 signature = ed_encode R" "ext_denotes p R" by (rule ed_decode_Inr)
    define k where "k = ed_challenge R A message"
    obtain h where h: "ed_reduce_mod_order (sha512 (ed_encode R @ ed_encode A @ message)) = Inr h" "bi_val h = k"
      using ed_reduce_value by (auto simp: k_def ed_challenge_def)
    have h32: "ed_to_fixed_le_bytes h 32 = Inr (le_bytes 32 k)" "le_val (le_bytes 32 k) = k"
      using ed_order_fixed [of h] h(2) by (simp_all add: k_def ed_challenge_def)
    obtain l where l: "ed_scalar_multiply (drop 32 signature) B = Inr l" "ext_denotes l (ed_repeat (le_val (drop 32 signature)) ed_base)"
      using ed_scalar_multiply_denotes [OF B(2)] by blast
    obtain q where q: "ed_scalar_multiply (le_bytes 32 k) a = Inr q" "ext_denotes q (ed_repeat k A)"
      using ed_scalar_multiply_denotes [OF a(2), of "le_bytes 32 k"] unfolding h32(2) by blast
    obtain t where t: "ed_point_add p q = Inr t" "ext_denotes t (ed_add R (ed_repeat k A))"
      using ed_point_add_denotes [OF R(3) q(2)] by blast
    have hash: "ed_sha512 [ed_encode R, ed_encode A, message] = Inr (sha512 (ed_encode R @ ed_encode A @ message))"
      using assms(1) by (simp add: ed_sha512_value)
    have "verify_ed25519 (ed_encode A) signature message = Inr (ed_repeat (le_val (drop 32 signature)) ed_base = ed_add R (ed_repeat k A))"
      unfolding start a(1) rbind_simps R(2) hash
      using assms(2,3) Inr by (simp add: R(2) h(1) h32(1) B(1) l(1) q(1) t(1) ed_points_equal_denotes [OF l(2) t(2)])
    moreover have "(\<exists>R'. ed_curve R' \<and> take 32 signature = ed_encode R' \<and> ed_valid A R' (le_val (drop 32 signature)) message) \<longleftrightarrow>
        ed_valid A R (le_val (drop 32 signature)) message"
      unfolding R(2) using R(1) ed_encode_inject by blast
    ultimately show ?thesis using assms(3) by (simp add: ed_valid_def k_def)
  qed
qed

lemma ed_signature_verifies:
  assumes "length message < 2 ^ 64"
  shows "verify_ed25519 (ed_encode (ed_public_point seed)) (ed_signature seed message) message = Inr True"
proof -
  define r where "r = ed_nonce seed message"
  define R where "R = ed_repeat r ed_base"
  define s where "s = (r + ed_challenge R (ed_public_point seed) message * ed_secret_scalar seed) mod ed_order"
  have sig: "ed_signature seed message = ed_encode R @ le_bytes 32 s"
    by (simp add: ed_signature_def Let_def r_def R_def s_def)
  have "ed_curve R" unfolding R_def by (rule ed.repeat_on_curve [OF ed_base_on_curve])
  moreover have s: "le_val (le_bytes 32 s) = s" "s < ed_order" unfolding s_def using ed_order_bounds by simp_all
  moreover have "ed_valid (ed_public_point seed) R s message"
    unfolding s_def R_def r_def by (rule ed_signature_valid)
  ultimately show ?thesis
    unfolding sig using assms by (subst verify_ed25519_value) (auto simp del: edwards_curve.simps split_paired_Ex)
qed

lemma length_ed_signature [simp]: "length (ed_signature seed message) = 64"
  by (simp add: ed_signature_def Let_def)

section \<open>The properties\<close>

text \<open>
  C8: signing with Ed25519 never fails for a seed of 32 bytes, and what it returns is accepted by
  verify_ed25519 with the public key of the seed, the encoding of the multiple of the base point by
  the clamped scalar.
\<close>

theorem ed25519_sign_verify:
  assumes "length seed = 32" "length message < 2 ^ 64"
  shows "\<exists>signature. sign_ed25519_seed seed message = Inr signature \<and> length signature = 64 \<and>
    verify_ed25519 (ed_encode (ed_public_point seed)) signature message = Inr True"
  using sign_ed25519_value [OF assms] ed_signature_verifies [OF assms(2)] by simp

theorem ed25519_sign_verify_witness:
  "\<exists>signature. sign_ed25519_seed (replicate 32 7) [1, 2, 3] = Inr signature \<and> length signature = 64 \<and>
    verify_ed25519 (ed_encode (ed_public_point (replicate 32 7))) signature [1, 2, 3] = Inr True"
  by (rule ed25519_sign_verify) simp_all



text \<open>
  C25: decoding accepts exactly the 32 bytes that encode a point of the curve, each in one way, and
  validate_ed25519_public_key accepts the same; everything else is an invalid key.
\<close>

theorem ed25519_decode_exact:
  "case ed_decode_point bs of
      Inl e \<Rightarrow> err_code e = Invalid_key \<and> validate_ed25519_public_key bs = Inl e \<and> (\<nexists>P. ed_curve P \<and> bs = ed_encode P)
    | Inr A \<Rightarrow> validate_ed25519_public_key bs = Inr () \<and> (\<exists>P. ed_curve P \<and> bs = ed_encode P \<and> ext_denotes A P \<and> ed_encode_point A = Inr bs)"
proof (cases "ed_decode_point bs")
  case (Inl e)
  then have "\<nexists>P. ed_curve P \<and> bs = ed_encode P" using ed_decode_encode by fastforce
  then show ?thesis using Inl ed_decode_Inl [OF Inl] by (simp add: validate_ed25519_public_key_def del: edwards_curve.simps)
next
  case (Inr A)
  then obtain P where "ed_curve P" "bs = ed_encode P" "ext_denotes A P" by (rule ed_decode_Inr)
  then show ?thesis using Inr ed_encode_denotes [of A P] by (auto simp: validate_ed25519_public_key_def simp del: edwards_curve.simps split_paired_Ex split_paired_All)
qed

end
