(* ===== verification/Key_Import.thy ===== *)
theory Key_Import
  imports Keys Rsa_Der Ec_Der Ed25519_Signatures
begin

text \<open>
  The imports of src/asymmetric.cpp: a key keeps the imported bytes, once the parser of its format
  has accepted them. The export is in Keys.
\<close>

section \<open>Public keys\<close>

definition asymmetric_error :: "error_code \<Rightarrow> string \<Rightarrow> crypto_error" where
  "asymmetric_error code message = make_error code ''asymmetric'' message"

definition public_key_of :: "asymmetric_key_algorithm \<Rightarrow> usage_mask \<Rightarrow> bytes \<Rightarrow> bool \<Rightarrow> public_key" where
  "public_key_of algorithm usages material der_encoded =
     \<lparr>pub_algorithm = algorithm, pub_usages = usages, pub_material = material, pub_der_encoded = der_encoded\<rparr>"

definition import_spki_der :: "asymmetric_key_algorithm \<Rightarrow> bytes \<Rightarrow> usage_mask \<Rightarrow> public_key result" where
  "import_spki_der algorithm der usages =
     rbind (case algorithm of
         Rsa \<Rightarrow> rbind (parse_rsa_spki_public_key_der der) (\<lambda>parsed. Inr ())
       | Ecdsa_p256 \<Rightarrow> rbind (parse_p256_public_key_der der) (\<lambda>parsed. Inr ())
       | Ecdsa_p384 \<Rightarrow> Inl (asymmetric_error Invalid_key ''SPKI DER import is not implemented for this algorithm'')
       | Ed25519 \<Rightarrow> Inl (asymmetric_error Invalid_key ''SPKI DER import is not implemented for this algorithm''))
     (\<lambda>_. Inr (public_key_of algorithm usages der True))"

definition import_public_der :: "asymmetric_key_algorithm \<Rightarrow> bytes \<Rightarrow> usage_mask \<Rightarrow> public_key result" where
  "import_public_der algorithm der usages = import_spki_der algorithm der usages"

definition import_public_der_usage :: "asymmetric_key_algorithm \<Rightarrow> bytes \<Rightarrow> key_usage \<Rightarrow> public_key result" where
  "import_public_der_usage algorithm der usage = import_public_der algorithm der (key_usage_value usage)"

definition import_spki_der_usage :: "asymmetric_key_algorithm \<Rightarrow> bytes \<Rightarrow> key_usage \<Rightarrow> public_key result" where
  "import_spki_der_usage algorithm der usage = import_spki_der algorithm der (key_usage_value usage)"

definition import_rsa_pkcs1_public_der :: "bytes \<Rightarrow> usage_mask \<Rightarrow> public_key result" where
  "import_rsa_pkcs1_public_der der usages =
     rbind (parse_rsa_pkcs1_public_key_der der) (\<lambda>parsed. Inr (public_key_of Rsa usages der True))"

definition import_rsa_pkcs1_public_der_usage :: "bytes \<Rightarrow> key_usage \<Rightarrow> public_key result" where
  "import_rsa_pkcs1_public_der_usage der usage = import_rsa_pkcs1_public_der der (key_usage_value usage)"

definition import_raw_ed25519 :: "bytes \<Rightarrow> usage_mask \<Rightarrow> public_key result" where
  "import_raw_ed25519 raw_public_key usages =
     rbind (validate_ed25519_public_key raw_public_key) (\<lambda>validation. Inr (public_key_of Ed25519 usages raw_public_key False))"

definition import_raw_ed25519_usage :: "bytes \<Rightarrow> key_usage \<Rightarrow> public_key result" where
  "import_raw_ed25519_usage raw_public_key usage = import_raw_ed25519 raw_public_key (key_usage_value usage)"

section \<open>Private keys\<close>

definition private_key_of :: "asymmetric_key_algorithm \<Rightarrow> usage_mask \<Rightarrow> bytes \<Rightarrow> bool \<Rightarrow> private_key" where
  "private_key_of algorithm usages material der_encoded =
     \<lparr>priv_algorithm = algorithm, priv_usages = usages, priv_material = material, priv_der_encoded = der_encoded\<rparr>"

definition import_pkcs8_der :: "asymmetric_key_algorithm \<Rightarrow> bytes \<Rightarrow> usage_mask \<Rightarrow> private_key result" where
  "import_pkcs8_der algorithm der usages =
     rbind (case algorithm of
         Rsa \<Rightarrow> rbind (parse_rsa_pkcs8_private_key_der der) (\<lambda>parsed. Inr ())
       | Ecdsa_p256 \<Rightarrow> rbind (parse_p256_pkcs8_private_key_der der) (\<lambda>parsed. Inr ())
       | Ecdsa_p384 \<Rightarrow> Inl (asymmetric_error Invalid_key ''PKCS#8 DER import is not implemented for this algorithm'')
       | Ed25519 \<Rightarrow> Inl (asymmetric_error Invalid_key ''PKCS#8 DER import is not implemented for this algorithm''))
     (\<lambda>_. Inr (private_key_of algorithm usages der True))"

definition import_private_der :: "asymmetric_key_algorithm \<Rightarrow> bytes \<Rightarrow> usage_mask \<Rightarrow> private_key result" where
  "import_private_der algorithm der usages = import_pkcs8_der algorithm der usages"

definition import_private_der_usage :: "asymmetric_key_algorithm \<Rightarrow> bytes \<Rightarrow> key_usage \<Rightarrow> private_key result" where
  "import_private_der_usage algorithm der usage = import_private_der algorithm der (key_usage_value usage)"

definition import_pkcs8_der_usage :: "asymmetric_key_algorithm \<Rightarrow> bytes \<Rightarrow> key_usage \<Rightarrow> private_key result" where
  "import_pkcs8_der_usage algorithm der usage = import_pkcs8_der algorithm der (key_usage_value usage)"

definition import_sec1_der :: "asymmetric_key_algorithm \<Rightarrow> bytes \<Rightarrow> usage_mask \<Rightarrow> private_key result" where
  "import_sec1_der algorithm der usages =
     (if algorithm \<noteq> Ecdsa_p256 then Inl (asymmetric_error Invalid_key ''SEC1 DER import is not implemented for this algorithm'')
      else rbind (parse_p256_sec1_private_key_der der) (\<lambda>parsed. Inr (private_key_of Ecdsa_p256 usages der True)))"

definition import_sec1_der_usage :: "asymmetric_key_algorithm \<Rightarrow> bytes \<Rightarrow> key_usage \<Rightarrow> private_key result" where
  "import_sec1_der_usage algorithm der usage = import_sec1_der algorithm der (key_usage_value usage)"

definition import_rsa_pkcs1_private_der :: "bytes \<Rightarrow> usage_mask \<Rightarrow> private_key result" where
  "import_rsa_pkcs1_private_der der usages =
     rbind (parse_rsa_pkcs1_private_key_der der) (\<lambda>parsed. Inr (private_key_of Rsa usages der True))"

definition import_rsa_pkcs1_private_der_usage :: "bytes \<Rightarrow> key_usage \<Rightarrow> private_key result" where
  "import_rsa_pkcs1_private_der_usage der usage = import_rsa_pkcs1_private_der der (key_usage_value usage)"

definition import_raw_ed25519_seed :: "bytes \<Rightarrow> usage_mask \<Rightarrow> private_key result" where
  "import_raw_ed25519_seed raw_seed usages =
     (if length raw_seed \<noteq> 32 then Inl (asymmetric_error Invalid_key ''Ed25519 raw private seed must be 32 bytes'')
      else Inr (private_key_of Ed25519 usages raw_seed False))"

definition import_raw_ed25519_seed_usage :: "bytes \<Rightarrow> key_usage \<Rightarrow> private_key result" where
  "import_raw_ed25519_seed_usage raw_seed usage = import_raw_ed25519_seed raw_seed (key_usage_value usage)"

section \<open>Which keys there are\<close>

text \<open>The calls that make a key, and what they return.\<close>

datatype public_import =
    Spki asymmetric_key_algorithm bytes usage_mask
  | Pkcs1_public bytes usage_mask
  | Raw_ed25519 bytes usage_mask

datatype private_import =
    Pkcs8 asymmetric_key_algorithm bytes usage_mask
  | Sec1 asymmetric_key_algorithm bytes usage_mask
  | Pkcs1_private bytes usage_mask
  | Raw_seed bytes usage_mask

fun import_public :: "public_import \<Rightarrow> public_key result" where
  "import_public (Spki algorithm der usages) = import_spki_der algorithm der usages"
| "import_public (Pkcs1_public der usages) = import_rsa_pkcs1_public_der der usages"
| "import_public (Raw_ed25519 bs usages) = import_raw_ed25519 bs usages"

fun import_private :: "private_import \<Rightarrow> private_key result" where
  "import_private (Pkcs8 algorithm der usages) = import_pkcs8_der algorithm der usages"
| "import_private (Sec1 algorithm der usages) = import_sec1_der algorithm der usages"
| "import_private (Pkcs1_private der usages) = import_rsa_pkcs1_private_der der usages"
| "import_private (Raw_seed bs usages) = import_raw_ed25519_seed bs usages"

text \<open>A key whose material the operations of its algorithm can use.\<close>

definition public_key_usable :: "public_key \<Rightarrow> bool" where
  "public_key_usable key =
     (case pub_algorithm key of
        Rsa \<Rightarrow> (\<exists>k. parse_rsa_public_key_der (pub_material key) = Inr k)
      | Ecdsa_p256 \<Rightarrow> (\<exists>k. parse_p256_public_key_der (pub_material key) = Inr k)
      | Ecdsa_p384 \<Rightarrow> False
      | Ed25519 \<Rightarrow> (\<exists>P. ed_curve P \<and> pub_material key = ed_encode P))"

definition private_key_usable :: "private_key \<Rightarrow> bool" where
  "private_key_usable key =
     (case priv_algorithm key of
        Rsa \<Rightarrow> (\<exists>k. parse_rsa_private_key_der (priv_material key) = Inr k)
      | Ecdsa_p256 \<Rightarrow> (\<exists>k. parse_p256_private_key_der (priv_material key) = Inr k)
      | Ecdsa_p384 \<Rightarrow> False
      | Ed25519 \<Rightarrow> length (priv_material key) = 32)"

lemma validate_ed25519_iff: "validate_ed25519_public_key bs = Inr () \<longleftrightarrow> (\<exists>P. ed_curve P \<and> bs = ed_encode P)"
proof
  assume "validate_ed25519_public_key bs = Inr ()"
  then obtain A where "ed_decode_point bs = Inr A" by (auto simp: validate_ed25519_public_key_def rbind_eq_Inr)
  then show "\<exists>P. ed_curve P \<and> bs = ed_encode P" by (rule ed_decode_Inr) blast
next
  assume "\<exists>P. ed_curve P \<and> bs = ed_encode P"
  then obtain P where "ed_curve P" "bs = ed_encode P" by blast
  moreover from ed_decode_encode [OF this(1)] obtain A where "ed_decode_point (ed_encode P) = Inr A" by blast
  ultimately show "validate_ed25519_public_key bs = Inr ()" by (simp add: validate_ed25519_public_key_def)
qed

lemma fallback_parses: "p = Inr k \<Longrightarrow> \<exists>k. (case q of Inr k \<Rightarrow> Inr k | Inl e \<Rightarrow> p) = Inr k"
  by (cases q) auto

lemma first_parses: "q = Inr k \<Longrightarrow> \<exists>k. (case q of Inr k \<Rightarrow> Inr k | Inl e \<Rightarrow> p) = Inr k"
  by simp

lemmas import_defs = import_spki_der_def import_rsa_pkcs1_public_der_def import_raw_ed25519_def import_pkcs8_der_def
  import_sec1_der_def import_rsa_pkcs1_private_der_def import_raw_ed25519_seed_def public_key_of_def private_key_of_def

lemmas parser_defs = parse_rsa_public_key_der_def parse_rsa_spki_public_key_der_def parse_rsa_pkcs1_public_key_der_def
  parse_rsa_private_key_der_def parse_rsa_pkcs8_private_key_der_def parse_rsa_pkcs1_private_key_der_def
  parse_p256_private_key_der_def parse_p256_pkcs8_private_key_der_def parse_p256_sec1_private_key_der_def

section \<open>Properties\<close>

text \<open>
  The imports admit only keys that the operations can use. The parser that signing,
  verifying, encrypting and decrypting apply to keys of its algorithm accepts what an import returns: a key of one of the two RSA or EC formats is found by the
  parser that tries both, an Ed25519 key encodes a point of the curve, and there is no key for P-384.
\<close>

lemma imported_keys_usable:
  shows "(case import_public i of Inl e \<Rightarrow> True | Inr key \<Rightarrow> public_key_usable key) \<and>
    (case import_private j of Inl e \<Rightarrow> True | Inr key \<Rightarrow> private_key_usable key)"
proof
  show "case import_public i of Inl e \<Rightarrow> True | Inr key \<Rightarrow> public_key_usable key"
  proof (cases i)
    case (Spki a der u)
    then show ?thesis
      by (cases a) (auto simp: import_defs public_key_usable_def parser_defs rbind_eq_Inr split: sum.split intro: fallback_parses)
  next
    case (Pkcs1_public der u)
    then show ?thesis by (auto simp: import_defs public_key_usable_def parser_defs rbind_eq_Inr split: sum.split intro: first_parses)
  next
    case (Raw_ed25519 bs u)
    then show ?thesis
      by (auto simp: import_defs public_key_usable_def rbind_eq_Inr validate_ed25519_iff split: sum.split simp del: edwards_curve.simps)
  qed
  show "case import_private j of Inl e \<Rightarrow> True | Inr key \<Rightarrow> private_key_usable key"
  proof (cases j)
    case (Pkcs8 a der u)
    then show ?thesis
      by (cases a) (auto simp: import_defs private_key_usable_def parser_defs rbind_eq_Inr split: sum.split intro: fallback_parses)
  qed (auto simp: import_defs private_key_usable_def parser_defs rbind_eq_Inr split: sum.split if_splits intro: first_parses)
qed

end
