(* ===== verification/Os_Rng.thy ===== *)
theory Os_Rng
  imports Crypto_Prelude
begin

text \<open>
  src/os_rng.cpp on Linux and src/rng.cpp: random bytes from the operating system. The call getrandom
  is the parameter \<open>getrandom\<close>: from the state of the system and a size it gives a reply and the next
  state. A call that a signal interrupts is repeated without a bound, so the loop is a partial
  function and not returning is the value None.
\<close>

section \<open>The system call\<close>



datatype rng_algorithm = Os_random

definition rng_algorithm_name :: "rng_algorithm \<Rightarrow> string" where
  "rng_algorithm_name algorithm = (case algorithm of Os_random \<Rightarrow> ''OS-RANDOM'')"



section \<open>Filling a chunk and an output\<close>






section \<open>What the system promises\<close>










section \<open>Properties\<close>




end
