(* ===== verification/Native_Provider.thy ===== *)
theory Native_Provider
  imports Native_Rsa Ecdsa Key_Import Aes_Cbc Aes_Gcm Kdf Os_Rng
begin

text \<open>
  The interface ICryptoProvider (provider.hpp, provider.cpp) and NativeProvider
  (native_provider.cpp). A provider is a record of its virtual functions; the defaults of the interface
  refuse, and the native provider is the default with the functions it overrides. Its calls on random
  bytes take the generator as the parameter \<open>draw\<close> of theory Native_Rsa.
\<close>

section \<open>The interface\<close>

datatype crypto_operation = Op_sign | Op_verify | Op_keygen | Op_encrypt | Op_decrypt | Op_derive

record rsa_key_generation_params =
  rg_modulus_bits :: nat
  rg_public_exponent :: nat
  rg_public_usages :: usage_mask
  rg_private_usages :: usage_mask

record ec_key_generation_params =
  eg_public_usages :: usage_mask
  eg_private_usages :: usage_mask

record generate_key_pair_params =
  gp_algorithm :: asymmetric_key_algorithm
  gp_rsa :: rsa_key_generation_params
  gp_ec :: ec_key_generation_params

record key_pair =
  kp_public_key :: public_key
  kp_private_key :: private_key

record shared_secret_params =
  ss_algorithm :: key_agreement_algorithm
  ss_private_key :: "private_key option"
  ss_peer_public_key :: "public_key option"

text \<open>What a provider says it supports, and its name.\<close>

record provider_tables =
  cp_name :: string
  cp_hash :: "hash_algorithm \<Rightarrow> bool"
  cp_mac :: "mac_algorithm \<Rightarrow> bool"
  cp_kdf :: "kdf_algorithm \<Rightarrow> bool"
  cp_rng :: "rng_algorithm \<Rightarrow> bool"
  cp_cipher :: "cipher_algorithm \<Rightarrow> bool"
  cp_aead :: "aead_algorithm \<Rightarrow> bool"
  cp_signature :: "signature_algorithm \<Rightarrow> bool"
  cp_operation_signature :: "crypto_operation \<Rightarrow> signature_algorithm \<Rightarrow> bool"
  cp_operation_key :: "crypto_operation \<Rightarrow> asymmetric_key_algorithm \<Rightarrow> bool"
  cp_encryption :: "asymmetric_encryption_algorithm \<Rightarrow> bool"
  cp_operation_encryption :: "crypto_operation \<Rightarrow> asymmetric_encryption_algorithm \<Rightarrow> bool"
  cp_agreement :: "key_agreement_algorithm \<Rightarrow> bool"
  cp_operation_agreement :: "crypto_operation \<Rightarrow> key_agreement_algorithm \<Rightarrow> bool"

text \<open>What a provider computes; a generator made by create_rng is a source of bytes.\<close>

record 'r crypto_provider =
  cp_tables :: provider_tables
  cp_create_hash :: "hash_algorithm \<Rightarrow> hash_ctx result"
  cp_create_mac :: "mac_algorithm \<Rightarrow> bytes \<Rightarrow> hmac_ctx result"
  cp_create_rng :: "rng_algorithm \<Rightarrow> 'r source result"
  cp_create_cipher :: "cipher_params \<Rightarrow> cbc_ctx result"
  cp_aead_encrypt :: "aead_encrypt_params \<Rightarrow> bytes \<Rightarrow> aead_encrypt_result result"
  cp_aead_decrypt :: "aead_decrypt_params \<Rightarrow> bytes \<Rightarrow> bytes result"
  cp_sign :: "sign_params \<Rightarrow> bytes \<Rightarrow> 'r \<Rightarrow> bytes result \<times> 'r"
  cp_verify :: "verify_params \<Rightarrow> bytes \<Rightarrow> verify_result result option"
  cp_generate_key_pair :: "generate_key_pair_params \<Rightarrow> key_pair result"
  cp_asymmetric_encrypt :: "asymmetric_encrypt_params \<Rightarrow> bytes \<Rightarrow> 'r \<Rightarrow> bytes result \<times> 'r"
  cp_asymmetric_decrypt :: "asymmetric_decrypt_params \<Rightarrow> bytes \<Rightarrow> 'r \<Rightarrow> bytes result \<times> 'r"
  cp_derive_shared_secret :: "shared_secret_params \<Rightarrow> bytes result"
  cp_pbkdf2 :: "kdf_algorithm \<Rightarrow> bytes \<Rightarrow> bytes \<Rightarrow> u32 \<Rightarrow> u64 \<Rightarrow> bytes result option"
  cp_hkdf :: "kdf_algorithm \<Rightarrow> bytes \<Rightarrow> bytes \<Rightarrow> bytes \<Rightarrow> u64 \<Rightarrow> bytes result option"

definition provider_refuses :: "string \<Rightarrow> 'a result" where
  "provider_refuses message = Inl (make_error Unsupported_algorithm ''provider'' message)"

text \<open>The defaults of the interface; the name and the hash functions are those of the class.\<close>

definition default_tables :: "string \<Rightarrow> (hash_algorithm \<Rightarrow> bool) \<Rightarrow> provider_tables" where
  "default_tables provider_name hash_supported =
     \<lparr>cp_name = provider_name, cp_hash = hash_supported, cp_mac = (\<lambda>_. False), cp_kdf = (\<lambda>_. False), cp_rng = (\<lambda>_. False),
      cp_cipher = (\<lambda>_. False), cp_aead = (\<lambda>_. False), cp_signature = (\<lambda>_. False), cp_operation_signature = (\<lambda>_ _. False),
      cp_operation_key = (\<lambda>_ _. False), cp_encryption = (\<lambda>_. False), cp_operation_encryption = (\<lambda>_ _. False),
      cp_agreement = (\<lambda>_. False), cp_operation_agreement = (\<lambda>_ _. False)\<rparr>"

definition default_calls :: "string \<Rightarrow> (hash_algorithm \<Rightarrow> bool) \<Rightarrow> (hash_algorithm \<Rightarrow> hash_ctx result) \<Rightarrow> 'r crypto_provider" where
  "default_calls provider_name hash_supported hash_created =
     \<lparr>cp_tables = default_tables provider_name hash_supported,
      cp_create_hash = hash_created,
      cp_create_mac = (\<lambda>_ _. provider_refuses ''MAC algorithm is not supported''),
      cp_create_rng = (\<lambda>_. provider_refuses ''RNG algorithm is not supported''),
      cp_create_cipher = (\<lambda>_. provider_refuses ''cipher algorithm is not supported''),
      cp_aead_encrypt = (\<lambda>_ _. provider_refuses ''AEAD algorithm is not supported''),
      cp_aead_decrypt = (\<lambda>_ _. provider_refuses ''AEAD algorithm is not supported''),
      cp_sign = (\<lambda>_ _ r. (provider_refuses ''signature algorithm is not supported'', r)),
      cp_verify = (\<lambda>_ _. Some (provider_refuses ''signature algorithm is not supported'')),
      cp_generate_key_pair = (\<lambda>_. provider_refuses ''key generation algorithm is not supported''),
      cp_asymmetric_encrypt = (\<lambda>_ _ r. (provider_refuses ''asymmetric encryption algorithm is not supported'', r)),
      cp_asymmetric_decrypt = (\<lambda>_ _ r. (provider_refuses ''asymmetric encryption algorithm is not supported'', r)),
      cp_derive_shared_secret = (\<lambda>_. provider_refuses ''key agreement algorithm is not supported''),
      cp_pbkdf2 = (\<lambda>_ _ _ _ _. Some (provider_refuses ''PBKDF2 algorithm is not supported'')),
      cp_hkdf = (\<lambda>_ _ _ _ _. Some (provider_refuses ''HKDF algorithm is not supported''))\<rparr>"

section \<open>The native provider\<close>

definition is_ecdsa_algorithm :: "signature_algorithm \<Rightarrow> bool" where
  "is_ecdsa_algorithm algorithm \<longleftrightarrow> algorithm = Ecdsa_p256_sha256"

definition is_ed25519_algorithm :: "signature_algorithm \<Rightarrow> bool" where
  "is_ed25519_algorithm algorithm \<longleftrightarrow> algorithm = Sig_ed25519"

definition native_signature_supported :: "signature_algorithm \<Rightarrow> bool" where
  "native_signature_supported algorithm \<longleftrightarrow>
     is_rsa_pss_algorithm algorithm \<or> is_ecdsa_algorithm algorithm \<or> is_ed25519_algorithm algorithm"

fun native_supports_signature :: "crypto_operation \<Rightarrow> signature_algorithm \<Rightarrow> bool" where
  "native_supports_signature Op_sign algorithm =
     (is_rsa_pss_algorithm algorithm \<or> is_ecdsa_algorithm algorithm \<or> is_ed25519_algorithm algorithm)"
| "native_supports_signature Op_verify algorithm =
     (is_rsa_pss_algorithm algorithm \<or> is_ecdsa_algorithm algorithm \<or> is_ed25519_algorithm algorithm)"
| "native_supports_signature Op_keygen algorithm = False"
| "native_supports_signature Op_encrypt algorithm = False"
| "native_supports_signature Op_decrypt algorithm = False"
| "native_supports_signature Op_derive algorithm = False"

fun native_supports_encryption :: "crypto_operation \<Rightarrow> asymmetric_encryption_algorithm \<Rightarrow> bool" where
  "native_supports_encryption Op_encrypt algorithm = is_rsa_oaep_algorithm algorithm"
| "native_supports_encryption Op_decrypt algorithm = is_rsa_oaep_algorithm algorithm"
| "native_supports_encryption Op_sign algorithm = False"
| "native_supports_encryption Op_verify algorithm = False"
| "native_supports_encryption Op_keygen algorithm = False"
| "native_supports_encryption Op_derive algorithm = False"

definition native_tables :: provider_tables where
  "native_tables = (default_tables ''NativeProvider'' (\<lambda>a. a = Sha256 \<or> a = Sha512))
     \<lparr>cp_mac := (\<lambda>a. a = Hmac_sha256 \<or> a = Hmac_sha512),
      cp_kdf := (\<lambda>a. a = Pbkdf2_hmac_sha256 \<or> a = Pbkdf2_hmac_sha512 \<or> a = Hkdf_sha256 \<or> a = Hkdf_sha512),
      cp_rng := (\<lambda>a. a = Os_random),
      cp_cipher := (\<lambda>a. a = Aes_128_cbc \<or> a = Aes_192_cbc \<or> a = Aes_256_cbc),
      cp_aead := (\<lambda>a. a = Aes_128_gcm \<or> a = Aes_192_gcm \<or> a = Aes_256_gcm),
      cp_signature := native_signature_supported,
      cp_operation_signature := native_supports_signature,
      cp_operation_key := (\<lambda>_ _. False),
      cp_encryption := is_rsa_oaep_algorithm,
      cp_operation_encryption := native_supports_encryption,
      cp_operation_agreement := (\<lambda>_ _. False)\<rparr>"

definition native_create_rng :: "'r source \<Rightarrow> rng_algorithm \<Rightarrow> 'r source result" where
  "native_create_rng draw algorithm =
     (if algorithm \<noteq> Os_random then Inl (native_error Unsupported_algorithm ''RNG algorithm is not supported by NativeProvider'')
      else Inr draw)"

definition native_sign :: "'r source \<Rightarrow> sign_params \<Rightarrow> bytes \<Rightarrow> 'r \<Rightarrow> bytes result \<times> 'r" where
  "native_sign draw params message r =
     (if is_ed25519_algorithm (sp_algorithm params) then
        (case sp_private_key params of
           None \<Rightarrow> (Inl (native_error Invalid_argument ''private key is required''), r)
         | Some private_key \<Rightarrow>
             if priv_algorithm private_key \<noteq> Ed25519 \<or> \<not> has_key_usage (priv_usages private_key) Usage_sign
             then (Inl (native_error Invalid_key ''Ed25519 signing key is required''), r)
             else (sign_ed25519_seed (priv_material private_key) message, r))
      else if is_ecdsa_algorithm (sp_algorithm params) then
        (case sp_private_key params of
           None \<Rightarrow> (Inl (native_error Invalid_argument ''private key is required''), r)
         | Some private_key \<Rightarrow>
             if priv_algorithm private_key \<noteq> Ecdsa_p256 \<or> \<not> has_key_usage (priv_usages private_key) Usage_sign
             then (Inl (native_error Invalid_key ''ECDSA P-256 signing key is required''), r)
             else
               (rbind (hash Sha256 message) (\<lambda>message_hash.
                  sign_ecdsa_p256_sha256_digest (priv_material private_key) message_hash), r))
      else native_sign_rsa draw params message r)"

definition native_verify :: "verify_params \<Rightarrow> bytes \<Rightarrow> verify_result result option" where
  "native_verify params message =
     (if is_ed25519_algorithm (vp_algorithm params) then
        (case vp_public_key params of
           None \<Rightarrow> Some (Inl (native_error Invalid_argument ''public key is required''))
         | Some public_key \<Rightarrow>
             if pub_algorithm public_key \<noteq> Ed25519 \<or> \<not> has_key_usage (pub_usages public_key) Usage_verify
             then Some (Inl (native_error Invalid_key ''Ed25519 verification key is required''))
             else
               Some (rbind (verify_ed25519 (pub_material public_key) (vp_signature params) message)
                 (\<lambda>valid. Inr (if valid then verify_valid else verify_invalid))))
      else if is_ecdsa_algorithm (vp_algorithm params) then
        (case vp_public_key params of
           None \<Rightarrow> Some (Inl (native_error Invalid_argument ''public key is required''))
         | Some public_key \<Rightarrow>
             if pub_algorithm public_key \<noteq> Ecdsa_p256 \<or> \<not> has_key_usage (pub_usages public_key) Usage_verify
             then Some (Inl (native_error Invalid_key ''ECDSA P-256 verification key is required''))
             else
               Some (rbind (hash Sha256 message) (\<lambda>message_hash.
                     rbind (verify_ecdsa_p256_sha256_digest (pub_material public_key) (vp_signature params) message_hash)
                       (\<lambda>valid. Inr (if valid then verify_valid else verify_invalid)))))
      else native_verify_rsa params message)"

definition native_provider :: "'r source \<Rightarrow> 'r crypto_provider" where
  "native_provider draw = (default_calls ''NativeProvider'' (\<lambda>a. a = Sha256 \<or> a = Sha512) create_hash)
     \<lparr>cp_tables := native_tables,
      cp_create_mac := create_mac,
      cp_create_rng := native_create_rng draw,
      cp_create_cipher := create_aes_cbc_context,
      cp_aead_encrypt := aes_gcm_encrypt,
      cp_aead_decrypt := aes_gcm_decrypt,
      cp_sign := native_sign draw,
      cp_verify := native_verify,
      cp_asymmetric_encrypt := native_asymmetric_encrypt draw,
      cp_asymmetric_decrypt := native_asymmetric_decrypt draw,
      cp_pbkdf2 := native_pbkdf2,
      cp_hkdf := native_hkdf\<rparr>"

section \<open>The front end\<close>

text \<open>The calls of asymmetric.cpp on a provider; without one they are on the native provider.\<close>

definition sign_with :: "'r crypto_provider \<Rightarrow> sign_params \<Rightarrow> bytes \<Rightarrow> 'r \<Rightarrow> bytes result \<times> 'r" where
  "sign_with provider params message r = cp_sign provider params message r"

definition verify_with :: "'r crypto_provider \<Rightarrow> verify_params \<Rightarrow> bytes \<Rightarrow> verify_result result option" where
  "verify_with provider params message = cp_verify provider params message"

definition generate_key_pair_with :: "'r crypto_provider \<Rightarrow> generate_key_pair_params \<Rightarrow> key_pair result" where
  "generate_key_pair_with provider params = cp_generate_key_pair provider params"

definition asymmetric_encrypt_with :: "'r crypto_provider \<Rightarrow> asymmetric_encrypt_params \<Rightarrow> bytes \<Rightarrow> 'r \<Rightarrow> bytes result \<times> 'r" where
  "asymmetric_encrypt_with provider params plaintext r = cp_asymmetric_encrypt provider params plaintext r"

definition asymmetric_decrypt_with :: "'r crypto_provider \<Rightarrow> asymmetric_decrypt_params \<Rightarrow> bytes \<Rightarrow> 'r \<Rightarrow> bytes result \<times> 'r" where
  "asymmetric_decrypt_with provider params ciphertext r = cp_asymmetric_decrypt provider params ciphertext r"

definition derive_shared_secret_with :: "'r crypto_provider \<Rightarrow> shared_secret_params \<Rightarrow> bytes result" where
  "derive_shared_secret_with provider params = cp_derive_shared_secret provider params"

text \<open>random_bytes on a provider, as it fills a span and as it returns a buffer.\<close>

definition random_fill_with :: "'r crypto_provider \<Rightarrow> rng_algorithm \<Rightarrow> nat \<Rightarrow> 'r \<Rightarrow> bytes result \<times> 'r" where
  "random_fill_with provider algorithm n r =
     (if n = 0 then (Inr [], r)
      else (case cp_create_rng provider algorithm of Inl e \<Rightarrow> (Inl e, r) | Inr rng \<Rightarrow> rng r n))"

definition random_bytes_with :: "'r crypto_provider \<Rightarrow> rng_algorithm \<Rightarrow> nat \<Rightarrow> 'r \<Rightarrow> bytes result \<times> 'r" where
  "random_bytes_with provider algorithm n r =
     (if n = 0 then (Inr [], r) else random_fill_with provider algorithm n r)"

lemma native_calls [simp]:
  "cp_sign (native_provider draw) = native_sign draw" "cp_verify (native_provider draw) = native_verify"
  "cp_asymmetric_encrypt (native_provider draw) = native_asymmetric_encrypt draw"
  "cp_asymmetric_decrypt (native_provider draw) = native_asymmetric_decrypt draw"
  "cp_tables (native_provider draw) = native_tables" "cp_create_rng (native_provider draw) = native_create_rng draw"
  "cp_generate_key_pair (native_provider draw) = (\<lambda>_. provider_refuses ''key generation algorithm is not supported'')"
  "cp_derive_shared_secret (native_provider draw) = (\<lambda>_. provider_refuses ''key agreement algorithm is not supported'')"
  by (simp_all add: native_provider_def default_calls_def)

lemma native_table_entries [simp]:
  "cp_operation_signature native_tables = native_supports_signature" "cp_operation_encryption native_tables = native_supports_encryption"
  "cp_operation_key native_tables = (\<lambda>_ _. False)" "cp_operation_agreement native_tables = (\<lambda>_ _. False)"
  by (simp_all add: native_tables_def default_tables_def)

section \<open>Refusals\<close>

text \<open>The kind of key that a signature algorithm needs.\<close>

fun signature_key :: "signature_algorithm \<Rightarrow> asymmetric_key_algorithm option" where
  "signature_key Rsa_pss = Some Rsa"
| "signature_key Rsa_pss_sha256 = Some Rsa"
| "signature_key Ecdsa_p256_sha256 = Some Ecdsa_p256"
| "signature_key Ecdsa_p384_sha384 = None"
| "signature_key Sig_ed25519 = Some Ed25519"

definition refusal :: "bool \<Rightarrow> 'k option \<Rightarrow> ('k \<Rightarrow> bool) \<Rightarrow> error_code option" where
  "refusal supported key fits =
     (if \<not> supported then Some Unsupported_algorithm
      else (case key of None \<Rightarrow> Some Invalid_argument | Some k \<Rightarrow> if fits k then None else Some Invalid_key))"

definition private_fits :: "asymmetric_key_algorithm option \<Rightarrow> key_usage \<Rightarrow> private_key \<Rightarrow> bool" where
  "private_fits algorithm usage key \<longleftrightarrow> algorithm = Some (priv_algorithm key) \<and> has_key_usage (priv_usages key) usage"

definition public_fits :: "asymmetric_key_algorithm option \<Rightarrow> key_usage \<Rightarrow> public_key \<Rightarrow> bool" where
  "public_fits algorithm usage key \<longleftrightarrow> algorithm = Some (pub_algorithm key) \<and> has_key_usage (pub_usages key) usage"

lemmas refusal_simps = refusal_def private_fits_def public_fits_def native_error_def
  sign_with_def verify_with_def asymmetric_encrypt_with_def asymmetric_decrypt_with_def
  is_ecdsa_algorithm_def is_ed25519_algorithm_def

lemma sign_refused:
  "case refusal (native_supports_signature Op_sign (sp_algorithm params)) (sp_private_key params)
      (private_fits (signature_key (sp_algorithm params)) Usage_sign) of
    None \<Rightarrow> True | Some c \<Rightarrow> \<exists>e. native_sign draw params message r = (Inl e, r) \<and> err_code e = c"
  by (cases "sp_algorithm params"; cases "sp_private_key params") (auto simp: refusal_simps native_sign_def native_sign_rsa_def)

lemma verify_refused:
  "case refusal (native_supports_signature Op_verify (vp_algorithm params)) (vp_public_key params)
      (public_fits (signature_key (vp_algorithm params)) Usage_verify) of
    None \<Rightarrow> True | Some c \<Rightarrow> \<exists>e. native_verify params message = Some (Inl e) \<and> err_code e = c"
  by (cases "vp_algorithm params"; cases "vp_public_key params") (auto simp: refusal_simps native_verify_def native_verify_rsa_def)

lemma encrypt_refused:
  "case refusal (native_supports_encryption Op_encrypt (ep_algorithm params)) (ep_public_key params) (public_fits (Some Rsa) Usage_encrypt) of
    None \<Rightarrow> True | Some c \<Rightarrow> \<exists>e. native_asymmetric_encrypt draw params plaintext r = (Inl e, r) \<and> err_code e = c"
  by (cases "ep_algorithm params"; cases "ep_public_key params") (auto simp: refusal_simps native_asymmetric_encrypt_def)

lemma decrypt_refused:
  "case refusal (native_supports_encryption Op_decrypt (dp_algorithm params)) (dp_private_key params) (private_fits (Some Rsa) Usage_decrypt) of
    None \<Rightarrow> True | Some c \<Rightarrow> \<exists>e. native_asymmetric_decrypt draw params ciphertext r = (Inl e, r) \<and> err_code e = c"
  by (cases "dp_algorithm params"; cases "dp_private_key params") (auto simp: refusal_simps native_asymmetric_decrypt_def)

section \<open>Properties\<close>

text \<open>
  The refusals of the native provider follow its tables. An operation whose algorithm the table
  does not support is refused as an unsupported algorithm, one without a key as an invalid argument,
  and one with a key of another kind or without the usage as an invalid key, in this order and before
  any random byte is drawn; key generation and key agreement, which no table supports, are refused.
\<close>

lemma native_refusals:
  fixes draw :: "'r source" and r :: 'r
  defines "native \<equiv> native_provider draw"
  shows "(case refusal (cp_operation_signature (cp_tables native) Op_sign (sp_algorithm sp)) (sp_private_key sp)
        (private_fits (signature_key (sp_algorithm sp)) Usage_sign) of
      None \<Rightarrow> True | Some c \<Rightarrow> \<exists>e. sign_with native sp message r = (Inl e, r) \<and> err_code e = c) \<and>
    (case refusal (cp_operation_signature (cp_tables native) Op_verify (vp_algorithm vp)) (vp_public_key vp)
        (public_fits (signature_key (vp_algorithm vp)) Usage_verify) of
      None \<Rightarrow> True | Some c \<Rightarrow> \<exists>e. verify_with native vp message = Some (Inl e) \<and> err_code e = c) \<and>
    (case refusal (cp_operation_encryption (cp_tables native) Op_encrypt (ep_algorithm ep)) (ep_public_key ep)
        (public_fits (Some Rsa) Usage_encrypt) of
      None \<Rightarrow> True | Some c \<Rightarrow> \<exists>e. asymmetric_encrypt_with native ep plaintext r = (Inl e, r) \<and> err_code e = c) \<and>
    (case refusal (cp_operation_encryption (cp_tables native) Op_decrypt (dp_algorithm dp)) (dp_private_key dp)
        (private_fits (Some Rsa) Usage_decrypt) of
      None \<Rightarrow> True | Some c \<Rightarrow> \<exists>e. asymmetric_decrypt_with native dp ciphertext r = (Inl e, r) \<and> err_code e = c) \<and>
    \<not> cp_operation_key (cp_tables native) Op_keygen (gp_algorithm gp) \<and>
    (\<exists>e. generate_key_pair_with native gp = Inl e \<and> err_code e = Unsupported_algorithm) \<and>
    \<not> cp_operation_agreement (cp_tables native) Op_derive (ss_algorithm ss) \<and>
    (\<exists>e. derive_shared_secret_with native ss = Inl e \<and> err_code e = Unsupported_algorithm)"
  unfolding native_def native_calls native_table_entries sign_with_def verify_with_def asymmetric_encrypt_with_def
    asymmetric_decrypt_with_def generate_key_pair_with_def derive_shared_secret_with_def
  by (intro conjI sign_refused verify_refused encrypt_refused decrypt_refused) (simp_all add: provider_refuses_def)

text \<open>
  With Ed25519 keys imported from a seed and from the public key of the seed, for signing and for
  verifying, sign on the native provider returns a signature without drawing random bytes, and verify
  reports that it is valid.
\<close>

lemma native_ed25519_sign_verify:
  assumes keys: "import_raw_ed25519_seed seed u = Inr private_key" "import_raw_ed25519 (ed_encode (ed_public_point seed)) v = Inr public_key"
    and usages: "has_key_usage u Usage_sign" "has_key_usage v Usage_verify" and len: "length message < 2 ^ 64"
    and sp: "sp_algorithm sp = Sig_ed25519" "sp_private_key sp = Some private_key"
    and vp: "vp_algorithm vp = Sig_ed25519" "vp_public_key vp = Some public_key"
  shows "\<exists>signature. sign_with (native_provider draw) sp message r = (Inr signature, r) \<and>
    verify_with (native_provider draw) (vp\<lparr>vp_signature := signature\<rparr>) message = Some (Inr verify_valid)"
proof -
  have seed: "length seed = 32" and priv: "private_key = private_key_of Ed25519 u seed False"
    using keys(1) by (simp_all add: import_raw_ed25519_seed_def split: if_splits)
  have pub: "public_key = public_key_of Ed25519 v (ed_encode (ed_public_point seed)) False"
    using keys(2) by (auto simp: import_raw_ed25519_def rbind_eq_Inr)
  have "verify_ed25519 (ed_encode (ed_public_point seed)) (ed_signature seed message) message = Inr True"
    by (rule ed_signature_verifies [OF len])
  then show ?thesis
    using sign_ed25519_value [OF seed len] usages
    by (simp add: sign_with_def verify_with_def native_sign_def native_verify_def is_ed25519_algorithm_def sp vp priv pub
        private_key_of_def public_key_of_def)
qed

text \<open>The parameters of the examples.\<close>

definition sign_example :: "signature_algorithm \<Rightarrow> private_key \<Rightarrow> sign_params" where
  "sign_example a key = \<lparr>sp_algorithm = a, sp_private_key = Some key, sp_rsa_pss = pss_for_hash Sha256\<rparr>"

definition verify_example :: "signature_algorithm \<Rightarrow> public_key \<Rightarrow> verify_params" where
  "verify_example a key = \<lparr>vp_algorithm = a, vp_public_key = Some key, vp_signature = [], vp_rsa_pss = pss_for_hash Sha256\<rparr>"

lemma example_params [simp]:
  "sp_algorithm (sign_example a k) = a" "sp_private_key (sign_example a k) = Some k"
  "vp_algorithm (verify_example a p) = a" "vp_public_key (verify_example a p) = Some p"
  by (simp_all add: sign_example_def verify_example_def)

lemma example_key_fields [simp]:
  "priv_algorithm (private_key_of a u m d) = a" "priv_usages (private_key_of a u m d) = u" "priv_material (private_key_of a u m d) = m"
  "pub_algorithm (public_key_of a u m d) = a" "pub_usages (public_key_of a u m d) = u" "pub_material (public_key_of a u m d) = m"
  by (simp_all add: private_key_of_def public_key_of_def)

lemma usage_of_itself: "has_key_usage (key_usage_value Usage_sign) Usage_sign" "has_key_usage (key_usage_value Usage_verify) Usage_verify"
  by (simp_all add: has_key_usage_def)

lemma native_ed25519_sign_verify_witness:
  "\<exists>signature. sign_with (native_provider ones_source)
      (sign_example Sig_ed25519 (private_key_of Ed25519 (key_usage_value Usage_sign) (replicate 32 7) False)) [1, 2, 3] () = (Inr signature, ()) \<and>
    verify_with (native_provider ones_source)
      ((verify_example Sig_ed25519 (public_key_of Ed25519 (key_usage_value Usage_verify) (ed_encode (ed_public_point (replicate 32 7))) False))
        \<lparr>vp_signature := signature\<rparr>) [1, 2, 3] = Some (Inr verify_valid)"
proof (rule native_ed25519_sign_verify)
  show "import_raw_ed25519_seed (replicate 32 7) (key_usage_value Usage_sign)
      = Inr (private_key_of Ed25519 (key_usage_value Usage_sign) (replicate 32 7) False)"
    by (simp add: import_raw_ed25519_seed_def)
  have "validate_ed25519_public_key (ed_encode (ed_public_point (replicate 32 7))) = Inr ()"
    using ed_public_point_on_curve validate_ed25519_iff by blast
  then show "import_raw_ed25519 (ed_encode (ed_public_point (replicate 32 7))) (key_usage_value Usage_verify)
      = Inr (public_key_of Ed25519 (key_usage_value Usage_verify) (ed_encode (ed_public_point (replicate 32 7))) False)"
    by (simp add: import_raw_ed25519_def)
qed (simp_all add: usage_of_itself del: key_usage_value.simps)

text \<open>
  With ECDSA keys, the private one in one of the two DER forms and the public one the DER form of
  its multiple of the base point, sign on the native provider either reports that every nonce was
  rejected or returns a signature that verify reports as valid.
\<close>

lemma native_ecdsa_sign_verify:
  assumes keys: "length (priv_material private_key) < 2 ^ 64" "parse_p256_private_key_der (priv_material private_key) = Inr key"
      "p256_fixed_base_point_multiply (ec_private_scalar key) = Inr Q"
      "pub_material public_key = der_ec_public_key \<lparr>ec_x = pt_x Q, ec_y = pt_y Q\<rparr>"
    and kinds: "priv_algorithm private_key = Ecdsa_p256" "pub_algorithm public_key = Ecdsa_p256"
    and usages: "has_key_usage (priv_usages private_key) Usage_sign" "has_key_usage (pub_usages public_key) Usage_verify"
    and len: "length message < 2 ^ 64"
    and sp: "sp_algorithm sp = Ecdsa_p256_sha256" "sp_private_key sp = Some private_key"
    and vp: "vp_algorithm vp = Ecdsa_p256_sha256" "vp_public_key vp = Some public_key"
  shows "\<exists>result. sign_with (native_provider draw) sp message r = (result, r) \<and>
    (case result of
       Inl e \<Rightarrow> e = ecdsa_error Provider_error ''failed to generate ECDSA signature''
     | Inr signature \<Rightarrow> verify_with (native_provider draw) (vp\<lparr>vp_signature := signature\<rparr>) message = Some (Inr verify_valid))"
proof -
  define digest where "digest = sha256 message"
  have d: "hash Sha256 message = Inr digest" "length digest = 32" using hash_result [OF len] by (simp_all add: digest_def)
  have s: "sign_with (native_provider draw) sp message r = (sign_ecdsa_p256_sha256_digest (priv_material private_key) digest, r)"
    by (simp add: sign_with_def native_sign_def is_ed25519_algorithm_def is_ecdsa_algorithm_def sp kinds usages d)
  have v: "verify_with (native_provider draw) (vp\<lparr>vp_signature := signature\<rparr>) message =
      Some (rbind (verify_ecdsa_p256_sha256_digest (pub_material public_key) signature digest) (\<lambda>valid. Inr (if valid then verify_valid else verify_invalid)))"
    for signature
    by (simp add: verify_with_def native_verify_def is_ed25519_algorithm_def is_ecdsa_algorithm_def vp kinds usages d)
  show ?thesis
  proof (cases "ecdsa_numbers (ec_private_scalar key) digest")
    case None
    then show ?thesis unfolding s v by (simp add: ecdsa_sign_eq [OF keys(1)] keys(2) d)
  next
    case (Some rs)
    then obtain a b where rs: "ecdsa_numbers (ec_private_scalar key) digest = Some (a, b)" by (cases rs) simp
    show ?thesis unfolding s v
      using signed_verifies [OF keys(1-3) rs d(2)] by (simp add: ecdsa_sign_eq [OF keys(1)] keys(2,4) d rs)
  qed
qed

lemma native_ecdsa_sign_verify_witness:
  "\<exists>result. sign_with (native_provider ones_source)
      (sign_example Ecdsa_p256_sha256 (private_key_of Ecdsa_p256 (key_usage_value Usage_sign) example_private_der True)) [1, 2, 3] () = (result, ()) \<and>
    (case result of
       Inl e \<Rightarrow> e = ecdsa_error Provider_error ''failed to generate ECDSA signature''
     | Inr signature \<Rightarrow> verify_with (native_provider ones_source)
         ((verify_example Ecdsa_p256_sha256 (public_key_of Ecdsa_p256 (key_usage_value Usage_verify)
             (der_ec_public_key \<lparr>ec_x = pt_x (p256_encode (ec_repeat 2 ec_base)), ec_y = pt_y (p256_encode (ec_repeat 2 ec_base))\<rparr>) True))
           \<lparr>vp_signature := signature\<rparr>) [1, 2, 3] = Some (Inr verify_valid))"
proof (rule native_ecdsa_sign_verify)
  have "be_val (replicate 31 0 @ [2]) = 2" by simp
  then show "p256_fixed_base_point_multiply (ec_private_scalar \<lparr>ec_private_scalar = replicate 31 0 @ [2]\<rparr>)
      = Inr (p256_encode (ec_repeat 2 ec_base))"
    by (simp only: fixed_curve.base_iff ec_private_key_material.select_convs)
qed (simp_all only: example_params example_key_fields example_private usage_of_itself list.size, simp_all)

end
