(* ===== verification/Spec2Isabelle.thy ===== *)
theory Spec2Isabelle
  imports Base64_Pem Sha2 Hmac Kdf Aes_Cbc Aes_Gcm Rsa_Fixed Big_Int Rsa_Der Rsa_Ops Rsa_Pss Rsa_Oaep Keys Native_Rsa
    P256_Contract Ec_Der Ecdsa Ed25519_Signatures Key_Import Os_Rng Native_Provider
begin

text \<open>
  A model of crypto-core (src/), a C++ library of cryptographic primitives with a native provider,
  and the theorems that make it correct.

  How the program is put together. The public interface (src/include/crypto_core/*.hpp) names
  algorithms, keys and parameters, and an ICryptoProvider that computes. NativeProvider
  (src/src/native_provider.cpp) does so with the code of src/src: hash and MAC contexts, AES in CBC
  and GCM mode, key derivation, and RSA, ECDSA on P-256 and Ed25519 on integers of its own. Every
  operation that can fail returns a Result, which is a sum here: \<open>Inl\<close> an error with its code, component and message, \<open>Inr\<close> a value
  (theory Crypto_Prelude). Byte buffers are lists of bytes, their sizes are natural numbers, and
  machine words are words of their width, so that wrap-around is in the model wherever the code
  computes on words; a size that a caller passes freely, the salt length of RSA-PSS or the output size
  of a key derivation, is a word of 64 bits. Objects with state (hash, MAC and cipher contexts, the DER
  reader, the key store) are records that each operation takes and returns.

  The theories, and the sources they model (each name is that of the code, with a prefix or suffix
  where it clashes):

    Crypto_Prelude: error.hpp, result.hpp; bytes, bits and big-endian values.
    Secure_Memory: memory.cpp, the constant-time comparisons and selections.
    Base64_Pem: encoding.cpp. Byte_Order, Sha2: sha2.cpp. Hmac: hmac.cpp, hash.cpp, mac.cpp.
    Kdf: kdf_native.cpp, kdf.cpp. Aes, Block_Cipher, Aes_Cbc, Aes_Gcm: aes.cpp, aes_cbc.cpp,
    aes_gcm.cpp, cipher.cpp, aead.cpp.
    Limbs: the loops on 32-bit limbs of bigint.cpp, rsa_fixed_bigint.cpp and p256_fixed.cpp; Big_Int:
    bigint.cpp; Rsa_Fixed: rsa_fixed_bigint.cpp.
    Der, Rsa_Der: rsa_der.cpp and the DER writer of ec_der.cpp. Rsa_Ops: rsa.cpp. Mgf1, Rsa_Pss:
    rsa_pss.cpp. Rsa_Oaep: rsa_oaep.cpp.
    Keys: key.cpp, key_store.cpp and the key records of asymmetric.hpp. Asymmetric: algorithms,
    parameters and results of asymmetric.hpp. Key_Import: the imports of asymmetric.cpp.
    P256_Big: p256.cpp, the curve P-256 on BigInt. P256_Words, P256_Fixed: p256_fixed.cpp, the same
    curve on words, with masks instead of branches. P256_Contract: the locale that both interpret.
    Ec_Der: ec_der.cpp, EC keys and signatures in DER form. Ecdsa: ecdsa.cpp.
    Ed25519: ed25519.cpp; Ed25519_Signatures: what it computes.
    Os_Rng: rng.cpp and the Linux branch of os_rng.cpp, with the system call getrandom as a parameter.
    Native_Rsa: the RSA branches of native_provider.cpp. The random generator is a parameter there:
    a function from a state and a size to an error or bytes, and the next state. Native_Provider: the
    interface and its defaults (provider.hpp, provider.cpp), the tables and dispatch of
    native_provider.cpp, and the calls of asymmetric.cpp and rng.cpp on a provider.

  Theories that model no code, but hold the mathematics that the code is compared with:
    Number_Facts: Fermat, Proth and square roots modulo a prime. Prime_Certificates, Hex_Numerals: the
    checking of certificates of primes and of multiples of points by evaluation. P256_Prime,
    P256_Field, P256_Curve, Curve_Ring, P256_Group: the prime and the field of P-256, its affine law and
    the associativity of that law. P256_Scalars, P256_Order: multiples, and the prime order of the base point.
    Edwards: the law of a complete twisted Edwards curve, a locale that Ed25519_Field interprets on the
    field of Ed25519_Prime; Ed25519_Order: the order of the base point.
    Rsa_Primes and Rsa_Example_Key: an RSA key with proven primes on which the properties of Native_Rsa
    are applied.

  What is shown. The hash, MAC and key derivation theorems say that the contexts, fed in any pieces,
  compute the functions of FIPS 180-4, RFC 2104, RFC 8018 and RFC 5869, stated without state. The
  cipher theorems say that decryption returns exactly what encryption was given, that GCM rejects
  everything else, and that the byte loop of GHASH is the product of SP 800-38D. The integer theorems
  say that limbs compute numbers: Montgomery products and ladders are modular powers. The RSA theorems
  compose them: the parser accepts exactly the DER form of consistent keys, the operation by the
  Chinese remainder theorem and the blinded one equal the plain one, PSS and OAEP accept exactly what
  they encode, and what the provider signs or encrypts, it verifies or decrypts. The sizes of the PSS
  verification are computed in 64 bits, and the theorem also says when they wrap and the code reads
  outside its arrays (None). The P-256 theorems say that both implementations compute the group law
  of the curve and its multiples, so that they agree; on them rest the ones on ECDSA: signing returns
  the signature of the standard for the first admissible nonce of RFC 6979, verification answers
  whether the equation of the standard holds, and the two fit. The Ed25519 theorems say the same of
  RFC 8032, and that decoding accepts exactly the encodings of points. Base64 and DER parsers
  accept exactly what their formats describe, stated without tables and readers. The loops around
  the random generator of the system end when its interruptions end. The key store
  refines one map, keeps identifiers apart in every reachable state and hands out no key for a usage
  that it lacks.

  Locales state the interfaces between these parts: the Merkle-Damgard hash under SHA-256 and SHA-512,
  the block cipher under CBC and GCM, the hash under HMAC and the key derivation, the DER format under
  the two readers, the slot of the key store under its three kinds of keys, the alphabet under Base64,
  the curve under the two implementations of P-256 and its signatures, the Edwards curve under Ed25519;
  each is interpreted on the model of the code that provides it.

  Bounds. Messages are below 2 ^ 64 bytes and encoded sizes below 2 ^ 60, where the code computes with
  them in 64 bits; RSA factors have at most 256 bytes, the width of the fixed integers. Loops that may not
  end are partial functions (the output blocks of PBKDF2, which diverge for one size that the guard
  admits, and the retries of getrandom); no fuel is used.

  Not modelled: openssl_provider.cpp, which calls the third-party OpenSSL library; the branches of
  os_rng.cpp for other systems than Linux, each one call of the system; version.cpp; the buffer classes,
  which are their lists of bytes; compiler barriers, timing, allocation failures and moved-from objects.
\<close>

end
